(* ===== verification/Js_Prelude.thy ===== *)
theory Js_Prelude
  imports Complex_Main "HOL-Library.AList" "HOL-Library.Sublist"
begin

text \<open>
  JavaScript values and the library operations the program uses on them, together with the
  list, association-list and sorting lemmas the components share.

  A value is a \<open>jsval\<close>. Finite numbers are exact rationals (rounding of doubles is not
  modelled; every number of the program is a millisecond stamp, a counter or a length).
  Strings are lists of code units below 256. An object is the list of its own enumerable
  properties in insertion order.
\<close>

named_theorems js_simps \<open>unfolding of the JavaScript coercions\<close>
named_theorems wf_intros \<open>well-formedness of constructed records\<close>

section \<open>Values\<close>

datatype jsnum = Fin rat | NaN | PosInf | NegInf

datatype jsval = Undef | Null | Bool bool | Num jsnum | Str string
  | Arr "jsval list" | Obj "(string \<times> jsval) list"

abbreviation num :: "rat \<Rightarrow> jsval" where
  "num r \<equiv> Num (Fin r)"

text \<open>Thrown errors: a plain \<open>Error\<close>, one that carries a \<open>code\<close>, and the engine's own.\<close>

datatype js_error = Error string | CodedError string string | TypeError

fun truthy :: "jsval \<Rightarrow> bool" where
  "truthy Undef = False"
| "truthy Null = False"
| "truthy (Bool b) = b"
| "truthy (Num (Fin r)) = (r \<noteq> 0)"
| "truthy (Num NaN) = False"
| "truthy (Num _) = True"
| "truthy (Str s) = (s \<noteq> [])"
| "truthy (Arr _) = True"
| "truthy (Obj _) = True"

text \<open>\<open>value == null\<close>.\<close>

fun nullish :: "jsval \<Rightarrow> bool" where
  "nullish Undef = True"
| "nullish Null = True"
| "nullish _ = False"

text \<open>\<open>value && typeof value === "object"\<close>: arrays count, \<open>null\<close> does not.\<close>

fun is_object :: "jsval \<Rightarrow> bool" where
  "is_object (Arr _) = True"
| "is_object (Obj _) = True"
| "is_object _ = False"

fun is_array :: "jsval \<Rightarrow> bool" where
  "is_array (Arr _) = True"
| "is_array _ = False"

fun is_string :: "jsval \<Rightarrow> bool" where
  "is_string (Str _) = True"
| "is_string _ = False"

definition is_plain_object :: "jsval \<Rightarrow> bool" where
  "is_plain_object v \<longleftrightarrow> is_object v \<and> \<not> is_array v"

text \<open>\<open>Number.isInteger\<close> and \<open>Number.isFinite\<close>.\<close>

fun is_integer :: "jsval \<Rightarrow> bool" where
  "is_integer (Num (Fin r)) = (of_int \<lfloor>r\<rfloor> = r)"
| "is_integer _ = False"

fun is_finite :: "jsval \<Rightarrow> bool" where
  "is_finite (Num (Fin r)) = True"
| "is_finite _ = False"

fun elements :: "jsval \<Rightarrow> jsval list" where
  "elements (Arr xs) = xs"
| "elements _ = []"

text \<open>\<open>typeof v === "string" ? v : ""\<close>.\<close>

fun string_or_empty :: "jsval \<Rightarrow> string" where
  "string_or_empty (Str s) = s"
| "string_or_empty _ = []"

section \<open>Strings\<close>

definition is_ws :: "char \<Rightarrow> bool" where
  "is_ws c \<longleftrightarrow> c \<in> {CHR 0x09, CHR 0x0A, CHR 0x0B, CHR 0x0C, CHR 0x0D, CHR 0x20, CHR 0xA0}"

definition trim :: "string \<Rightarrow> string" where
  "trim s = rev (dropWhile is_ws (rev (dropWhile is_ws s)))"

definition lower_char :: "char \<Rightarrow> char" where
  "lower_char c = (let n = of_char c :: nat in
     if 65 \<le> n \<and> n \<le> 90 \<or> 192 \<le> n \<and> n \<le> 222 \<and> n \<noteq> 215 then char_of (n + 32) else c)"

definition toLowerCase :: "string \<Rightarrow> string" where
  "toLowerCase s = map lower_char s"

definition digit_char :: "nat \<Rightarrow> char" where
  "digit_char n = char_of (48 + n)"

fun dec_string :: "nat \<Rightarrow> string" where
  "dec_string n = (if n < 10 then [digit_char n] else dec_string (n div 10) @ [digit_char (n mod 10)])"

declare dec_string.simps [simp del]

fun frac_string :: "nat \<Rightarrow> rat \<Rightarrow> string" where
  "frac_string 0 x = []"
| "frac_string (Suc k) x = (if x = 0 then [] else digit_char (nat \<lfloor>10 * x\<rfloor>) # frac_string k (10 * x - of_int \<lfloor>10 * x\<rfloor>))"

text \<open>\<open>String(n)\<close>, without the exponent form of very large and very small magnitudes.\<close>

definition rat_string :: "rat \<Rightarrow> string" where
  "rat_string r = (let a = \<bar>r\<bar>; i = \<lfloor>a\<rfloor>; f = a - of_int i in
     (if r < 0 then ''-'' else []) @ dec_string (nat i) @ (if f = 0 then [] else ''.'' @ frac_string 20 f))"

fun num_string :: "jsnum \<Rightarrow> string" where
  "num_string (Fin r) = rat_string r"
| "num_string NaN = ''NaN''"
| "num_string PosInf = ''Infinity''"
| "num_string NegInf = ''-Infinity''"

fun join :: "string \<Rightarrow> string list \<Rightarrow> string" where
  "join sep [] = []"
| "join sep [x] = x"
| "join sep (x # y # xs) = x @ sep @ join sep (y # xs)"

fun js_string :: "jsval \<Rightarrow> string" where
  "js_string Undef = ''undefined''"
| "js_string Null = ''null''"
| "js_string (Bool b) = (if b then ''true'' else ''false'')"
| "js_string (Num n) = num_string n"
| "js_string (Str s) = s"
| "js_string (Arr xs) = join '','' (map (\<lambda>x. if nullish x then [] else js_string x) xs)"
| "js_string (Obj _) = ''[object Object]''"

text \<open>\<open>Number(s)\<close> of a string: the decimal, \<open>Infinity\<close> and \<open>0x\<close>, \<open>0o\<close>, \<open>0b\<close> literals.\<close>

definition digit_value :: "char \<Rightarrow> nat" where
  "digit_value c = (let n = of_char c in
     if 48 \<le> n \<and> n \<le> 57 then n - 48
     else if 97 \<le> n \<and> n \<le> 122 then n - 87
     else if 65 \<le> n \<and> n \<le> 90 then n - 55 else 99)"

definition digits_value :: "nat \<Rightarrow> string \<Rightarrow> nat" where
  "digits_value b s = foldl (\<lambda>a c. b * a + digit_value c) 0 s"

definition all_digits :: "nat \<Rightarrow> string \<Rightarrow> bool" where
  "all_digits b s \<longleftrightarrow> list_all (\<lambda>c. digit_value c < b) s"

definition split_at :: "(char \<Rightarrow> bool) \<Rightarrow> string \<Rightarrow> string \<times> string option" where
  "split_at p s = (takeWhile (\<lambda>c. \<not> p c) s,
     (case dropWhile (\<lambda>c. \<not> p c) s of [] \<Rightarrow> None | _ # t \<Rightarrow> Some t))"

fun signed :: "string \<Rightarrow> bool \<times> string" where
  "signed (c # s) = (if c = CHR ''-'' then (True, s) else if c = CHR ''+'' then (False, s) else (False, c # s))"
| "signed [] = (False, [])"

definition exp_value :: "string option \<Rightarrow> rat option" where
  "exp_value e = (case e of None \<Rightarrow> Some 1 | Some t \<Rightarrow>
     (case signed t of (neg, d) \<Rightarrow>
       if d = [] \<or> \<not> all_digits 10 d then None
       else let p = (10::rat) ^ digits_value 10 d in Some (if neg then 1 / p else p)))"

definition decimal_value :: "string \<Rightarrow> rat option" where
  "decimal_value s = (case split_at (\<lambda>c. c = CHR ''e'' \<or> c = CHR ''E'') s of (m, e) \<Rightarrow>
     (case split_at (\<lambda>c. c = CHR ''.'') m of (ip, fo) \<Rightarrow>
       let fp = (case fo of None \<Rightarrow> [] | Some f \<Rightarrow> f) in
       if ip @ fp = [] \<or> \<not> all_digits 10 (ip @ fp) then None
       else map_option (\<lambda>x. of_nat (digits_value 10 (ip @ fp)) / 10 ^ length fp * x) (exp_value e)))"

definition radix_value :: "nat \<Rightarrow> string \<Rightarrow> jsnum" where
  "radix_value b d = (if d = [] \<or> \<not> all_digits b d then NaN else Fin (of_nat (digits_value b d)))"

definition str_number :: "string \<Rightarrow> jsnum" where
  "str_number s = (let t = trim s; p = toLowerCase (take 2 t) in
     if t = [] then Fin 0
     else if p = ''0x'' then radix_value 16 (drop 2 t)
     else if p = ''0o'' then radix_value 8 (drop 2 t)
     else if p = ''0b'' then radix_value 2 (drop 2 t)
     else (case signed t of (neg, u) \<Rightarrow>
       if u = ''Infinity'' then (if neg then NegInf else PosInf)
       else (case decimal_value u of None \<Rightarrow> NaN | Some r \<Rightarrow> Fin (if neg then - r else r))))"

fun js_number :: "jsval \<Rightarrow> jsnum" where
  "js_number Undef = NaN"
| "js_number Null = Fin 0"
| "js_number (Bool b) = Fin (if b then 1 else 0)"
| "js_number (Num n) = n"
| "js_number (Str s) = str_number s"
| "js_number (Arr xs) = str_number (js_string (Arr xs))"
| "js_number (Obj _) = NaN"

text \<open>\<open>Math.trunc\<close>.\<close>

definition trunc :: "rat \<Rightarrow> rat" where
  "trunc r = (if r < 0 then - of_int \<lfloor>- r\<rfloor> else of_int \<lfloor>r\<rfloor>)"

section \<open>Objects\<close>

text \<open>\<open>v.name\<close>, and the own enumerable properties that \<open>Object.keys\<close> and a spread visit.\<close>

definition own_props :: "jsval \<Rightarrow> (string \<times> jsval) list" where
  "own_props v = (case v of Obj kvs \<Rightarrow> kvs | Arr xs \<Rightarrow> zip (map dec_string [0..<length xs]) xs | _ \<Rightarrow> [])"

definition getp :: "jsval \<Rightarrow> string \<Rightarrow> jsval" where
  "getp v k = (case v of Obj kvs \<Rightarrow> (case map_of kvs k of None \<Rightarrow> Undef | Some x \<Rightarrow> x) | _ \<Rightarrow> Undef)"

text \<open>\<open>{...a, ...b}\<close>: later properties overwrite in place, new ones are appended.\<close>

definition spread :: "(string \<times> jsval) list \<Rightarrow> (string \<times> jsval) list \<Rightarrow> (string \<times> jsval) list" where
  "spread a b = foldl (\<lambda>acc (k, v). AList.update k v acc) a b"

text \<open>
  Names that a plain object inherits. Reading \<open>o[k]\<close> for such a \<open>k\<close> finds a function (or the
  prototype itself) where the object has no property of its own, and assigning \<open>o.__proto__\<close>
  creates no property.
\<close>

definition object_prototype_keys :: "string list" where
  "object_prototype_keys = [''constructor'', ''__defineGetter__'', ''__defineSetter__'', ''hasOwnProperty'',
     ''__lookupGetter__'', ''__lookupSetter__'', ''isPrototypeOf'', ''propertyIsEnumerable'', ''toString'',
     ''valueOf'', ''__proto__'', ''toLocaleString'']"

definition inherited :: "string \<Rightarrow> bool" where
  "inherited k \<longleftrightarrow> k \<in> set object_prototype_keys"

lemma map_of_spread:
  "map_of (spread a b) k = (case map_of (rev b) k of None \<Rightarrow> map_of a k | Some v \<Rightarrow> Some v)"
proof (induction b arbitrary: a)
  case Nil
  then show ?case by (simp add: spread_def)
next
  case (Cons p b)
  obtain k' v' where p: "p = (k', v')" by force
  have "spread a (p # b) = spread (AList.update k' v' a) b"
    by (simp add: spread_def p)
  then show ?case
    by (simp add: Cons.IH p update_conv' map_add_def split: option.splits)
qed

lemma map_of_rev_distinct: "distinct (map fst b) \<Longrightarrow> map_of (rev b) = map_of b"
  by (rule map_of_inject_set [THEN iffD2]) (simp_all flip: rev_map)

lemma getp_spread:
  "distinct (map fst b) \<Longrightarrow>
   getp (Obj (spread a b)) k = (case map_of b k of None \<Rightarrow> getp (Obj a) k | Some v \<Rightarrow> v)"
  by (simp add: getp_def map_of_spread map_of_rev_distinct split: option.splits)

lemma getp_agree: "distinct (map fst fs) \<Longrightarrow> \<forall>(k, v) \<in> set fs. getp (Obj fs) k = v"
  by (auto simp: getp_def)

lemma getp_spread_agree:
  "distinct (map fst fs) \<Longrightarrow> \<forall>(k, v) \<in> set fs. getp (Obj (spread sd fs)) k = v"
  by (auto simp: getp_spread)

lemma foldl_invariant:
  "P a \<Longrightarrow> (\<And>a x. x \<in> set xs \<Longrightarrow> P a \<Longrightarrow> P (f a x)) \<Longrightarrow> P (foldl f a xs)"
  by (induction xs arbitrary: a) auto

lemma AList_update_new: "k \<notin> fst ` set xs \<Longrightarrow> AList.update k v xs = xs @ [(k, v)]"
  by (induction xs) auto

section \<open>Trimming\<close>

lemma dropWhile_idem: "dropWhile P (dropWhile P xs) = dropWhile P xs"
  by (induction xs) auto

lemma dropWhile_Nil_hd: "dropWhile P xs = [] \<or> \<not> P (hd (dropWhile P xs))"
  by (induction xs) auto

lemma dropWhile_fix: "dropWhile P xs = xs \<longleftrightarrow> xs = [] \<or> \<not> P (hd xs)"
proof (cases xs)
  case (Cons a list)
  then show ?thesis
    by (metis dropWhile.simps(2) dropWhile_Nil_hd list.sel(1) list.distinct(1))
qed simp

lemma trim_Nil [simp]: "trim [] = []"
  by (simp add: trim_def)

definition trimmed :: "string \<Rightarrow> bool" where
  "trimmed s \<longleftrightarrow> trim s = s"

lemma trimmed_iff: "trimmed s \<longleftrightarrow> s = [] \<or> \<not> is_ws (hd s) \<and> \<not> is_ws (last s)"
proof
  assume h: "trimmed s"
  show "s = [] \<or> \<not> is_ws (hd s) \<and> \<not> is_ws (last s)"
  proof (cases "s = []")
    case False
    define t where "t = dropWhile is_ws s"
    have s: "rev (dropWhile is_ws (rev t)) = s"
      using h by (simp add: trimmed_def trim_def t_def)
    have len: "length (dropWhile is_ws (rev t)) \<le> length t"
      by (metis length_dropWhile_le length_rev)
    have lt: "length t \<le> length s" by (simp add: t_def length_dropWhile_le)
    have "length t = length s" using len lt s by (metis le_antisym length_rev)
    then have ts: "t = s" unfolding t_def
      by (metis append_eq_conv_conj append_self_conv2 length_0_conv length_append
          add_cancel_left_left takeWhile_dropWhile_id)
    then have "\<not> is_ws (hd s)" using False dropWhile_fix t_def by metis
    moreover have "dropWhile is_ws (rev s) = rev s"
      using s ts by (metis rev_rev_ident)
    then have "\<not> is_ws (hd (rev s))" using False dropWhile_fix
      by (metis rev_is_Nil_conv)
    ultimately show ?thesis using False by (simp add: hd_rev)
  qed simp
next
  assume "s = [] \<or> \<not> is_ws (hd s) \<and> \<not> is_ws (last s)"
  then show "trimmed s"
  proof
    assume "\<not> is_ws (hd s) \<and> \<not> is_ws (last s)"
    then have "dropWhile is_ws s = s" "dropWhile is_ws (rev s) = rev s"
      by (simp_all add: dropWhile_fix hd_rev)
    then show ?thesis by (simp add: trimmed_def trim_def)
  qed (simp add: trimmed_def)
qed

lemma trim_trim [simp]: "trim (trim s) = trim s"
proof -
  define t where "t = dropWhile is_ws s"
  define u where "u = dropWhile is_ws (rev t)"
  have ts: "trim s = rev u" by (simp add: trim_def t_def u_def)
  have "trimmed (rev u)"
  proof (cases "u = []")
    case False
    have l: "\<not> is_ws (hd u)" using False dropWhile_Nil_hd u_def by metis
    obtain pre where pre: "rev t = pre @ u"
      using u_def takeWhile_dropWhile_id by metis
    then have "t = rev u @ rev pre" by (metis rev_append rev_rev_ident)
    moreover have "t \<noteq> []" using False pre by auto
    then have "\<not> is_ws (hd t)" using dropWhile_Nil_hd t_def by metis
    ultimately have "\<not> is_ws (hd (rev u))" using False by simp
    then show ?thesis using l False by (simp add: trimmed_iff last_rev)
  qed (simp add: trimmed_def)
  then show ?thesis using ts by (simp add: trimmed_def)
qed

lemma trimmed_trim [simp, wf_intros]: "trimmed (trim s)"
  by (simp add: trimmed_def)

lemma trimmed_Nil [simp]: "trimmed []"
  by (simp add: trimmed_def)

lemma trimmed_eq: "trimmed s \<Longrightarrow> trim s = s"
  by (simp add: trimmed_def)

end
