(* ===== verification/Host.thy ===== *)
theory Host
  imports Js_Prelude
begin

text \<open>
  The code the stores call and do not contain: the key-value store and the coercions of the
  SDK, the hash, the clock and the collation of the JavaScript host. They are the fields of a
  record \<open>host\<close>, which every definition that uses them takes as an argument; what the program
  relies on is the locale \<open>host_laws\<close>. The theory also holds the stable sort of
  \<open>Array.prototype.sort\<close> with the contract \<open>comparator\<close> of its argument, and the composition
  of operations that update the store and may throw.
\<close>

section \<open>Sorting by a comparator\<close>

fun insert_by :: "('a \<Rightarrow> 'a \<Rightarrow> rat) \<Rightarrow> 'a \<Rightarrow> 'a list \<Rightarrow> 'a list" where
  "insert_by c x [] = [x]"
| "insert_by c x (y # ys) = (if c x y \<le> 0 then x # y # ys else y # insert_by c x ys)"

definition sort_by :: "('a \<Rightarrow> 'a \<Rightarrow> rat) \<Rightarrow> 'a list \<Rightarrow> 'a list" where
  "sort_by c xs = foldr (insert_by c) xs []"

abbreviation sorted_by :: "('a \<Rightarrow> 'a \<Rightarrow> rat) \<Rightarrow> 'a list \<Rightarrow> bool" where
  "sorted_by c \<equiv> sorted_wrt (\<lambda>a b. c a b \<le> 0)"

lemma sort_by_simps [simp]:
  "sort_by c [] = []"
  "sort_by c (x # xs) = insert_by c x (sort_by c xs)"
  by (simp_all add: sort_by_def)

lemma set_insert_by [simp]: "set (insert_by c x xs) = insert x (set xs)"
  by (induction xs) auto

lemma set_sort_by [simp]: "set (sort_by c xs) = set xs"
  by (induction xs) auto

lemma length_insert_by [simp]: "length (insert_by c x xs) = Suc (length xs)"
  by (induction xs) auto

lemma length_sort_by [simp]: "length (sort_by c xs) = length xs"
  by (induction xs) auto

lemma map_insert_by_perm:
  "distinct (map f (insert_by c x xs)) \<longleftrightarrow> f x \<notin> f ` set xs \<and> distinct (map f xs)"
  by (induction xs) auto

lemma distinct_map_sort_by [simp]: "distinct (map f (sort_by c xs)) = distinct (map f xs)"
  by (induction xs) (simp_all add: map_insert_by_perm)

lemma count_list_insert_by: "count_list (insert_by c x xs) y = count_list (x # xs) y"
  by (induction xs) auto

lemma count_list_sort_by [simp]: "count_list (sort_by c xs) y = count_list xs y"
  by (induction xs) (simp_all add: count_list_insert_by)

lemma sort_by_id: "sorted_by c xs \<Longrightarrow> sort_by c xs = xs"
proof (induction xs)
  case (Cons x xs)
  then have "sort_by c xs = xs" by simp
  with Cons.prems show ?case by (cases xs) auto
qed simp

locale comparator =
  fixes cmp :: "'a \<Rightarrow> 'a \<Rightarrow> rat"
  assumes anti: "0 < cmp a b \<longleftrightarrow> cmp b a < 0"
    and trans: "cmp a b \<le> 0 \<Longrightarrow> cmp b c \<le> 0 \<Longrightarrow> cmp a c \<le> 0"
begin

lemma flip: "\<not> cmp a b \<le> 0 \<Longrightarrow> cmp b a \<le> 0"
  using anti [of a b] by simp

lemma refl: "cmp a a = 0"
  using anti [of a a] by (cases "cmp a a" "0::rat" rule: linorder_cases) auto

lemma zero_sym: "cmp a b = 0 \<longleftrightarrow> cmp b a = 0"
  using anti [of a b] anti [of b a] by auto

lemma less_trans: "cmp a b < 0 \<Longrightarrow> cmp b c \<le> 0 \<Longrightarrow> cmp a c < 0"
  using anti [of c a] anti [of b a] trans [of a b c] trans [of b c a]
  by (metis linorder_not_less order_less_imp_le)

lemma trans_less: "cmp a b \<le> 0 \<Longrightarrow> cmp b c < 0 \<Longrightarrow> cmp a c < 0"
  using anti [of c a] anti [of c b] trans [of c a b]
  by (metis linorder_not_less order_less_imp_le trans)

lemma sorted_insert_by: "sorted_by cmp xs \<Longrightarrow> sorted_by cmp (insert_by cmp x xs)"
proof (induction xs)
  case (Cons y ys)
  show ?case
  proof (cases "cmp x y \<le> 0")
    case True
    with Cons.prems show ?thesis by (auto intro: trans)
  next
    case False
    with Cons show ?thesis by (auto intro: flip)
  qed
qed simp

lemma sorted_sort_by: "sorted_by cmp (sort_by cmp xs)"
  by (induction xs) (simp_all add: sorted_insert_by)

lemma sort_by_idem: "sort_by cmp (sort_by cmp xs) = sort_by cmp xs"
  by (rule sort_by_id [OF sorted_sort_by])

end

lemma comparator_key: "comparator (\<lambda>a b. f a - f b :: rat)"
  by unfold_locales auto

lemma comparator_flip: "comparator c \<Longrightarrow> comparator (\<lambda>a b. c b a)"
  unfolding comparator_def by blast

lemma comparator_on: "comparator c \<Longrightarrow> comparator (\<lambda>a b. c (g a) (g b))"
  unfolding comparator_def by blast

lemma comparator_lex:
  assumes "comparator c" and "comparator d"
  shows "comparator (\<lambda>a b. if c a b \<noteq> 0 then c a b else d a b)"
proof
  fix a b
  show "0 < (if c a b \<noteq> 0 then c a b else d a b) \<longleftrightarrow> (if c b a \<noteq> 0 then c b a else d b a) < 0"
    using comparator.anti [OF assms(1), of a b] comparator.anti [OF assms(2), of a b]
      comparator.zero_sym [OF assms(1), of a b] by auto
next
  fix a b x
  assume 1: "(if c a b \<noteq> 0 then c a b else d a b) \<le> 0" and 2: "(if c b x \<noteq> 0 then c b x else d b x) \<le> 0"
  have le: "c a b \<le> 0" "c b x \<le> 0" using 1 2 by (auto split: if_splits)
  show "(if c a x \<noteq> 0 then c a x else d a x) \<le> 0"
  proof (cases "c a x = 0")
    case True
    then have "c a b = 0 \<and> c b x = 0"
      using comparator.less_trans [OF assms(1), of a b x] comparator.trans_less [OF assms(1), of a b x] le
      by fastforce
    then show ?thesis using 1 2 True comparator.trans [OF assms(2)] by simp
  next
    case False
    then show ?thesis using comparator.trans [OF assms(1) le] by simp
  qed
qed

section \<open>The host\<close>

record 's host =
  kvGet :: "'s \<Rightarrow> string \<Rightarrow> jsval"
  kvSet :: "'s \<Rightarrow> string \<Rightarrow> jsval \<Rightarrow> 's"
  kvDelete :: "'s \<Rightarrow> string \<Rightarrow> 's"
  kvKeys :: "'s \<Rightarrow> string \<Rightarrow> string list"
  asInt :: "jsval \<Rightarrow> rat \<Rightarrow> rat"
  nonEmpty :: "jsval \<Rightarrow> string"
  sha256Hex :: "string \<Rightarrow> string"
  sha256B64 :: "string \<Rightarrow> string"
  localeCompare :: "string \<Rightarrow> string \<Rightarrow> rat"
  baseCompare :: "string \<Rightarrow> string \<Rightarrow> rat"
  requireId :: "jsval \<Rightarrow> string \<Rightarrow> js_error + string"
  clockMs :: rat

locale host_laws =
  fixes H :: "'s host"
  assumes get_set: "kvGet H (kvSet H s k v) k' = (if k' = k then v else kvGet H s k')"
    and get_delete: "kvGet H (kvDelete H s k) k' = (if k' = k then Null else kvGet H s k')"
    and keys: "set (kvKeys H s p) = {k. prefix p k \<and> \<not> nullish (kvGet H s k)}"
    and asInt_int: "asInt H (num (of_int i)) d = of_int i"
    and asInt_whole: "\<exists>i. asInt H v (of_int j) = of_int i"
    and asInt_Null: "asInt H Null 0 = 0"
    and asInt_Undef: "asInt H Undef d = d"
    and nonEmpty_Str: "nonEmpty H (Str t) = trim t"
    and nonEmpty_trim: "trim (nonEmpty H v) = nonEmpty H v"
    and nonEmpty_nullish: "nullish v \<Longrightarrow> nonEmpty H v = []"
    and collation: "comparator (localeCompare H)"
    and base_collation: "comparator (baseCompare H)"
    and requireId_Inr: "requireId H v field = Inr t \<Longrightarrow> trim t = t \<and> t \<noteq> []"
    and requireId_Str: "trim t = t \<Longrightarrow> t \<noteq> [] \<Longrightarrow> requireId H (Str t) field = Inr t"
begin

lemmas kv_laws = get_set get_delete

lemma get_set_same [simp]: "kvGet H (kvSet H s k v) k = v"
  by (simp add: get_set)

lemma get_set_other: "k' \<noteq> k \<Longrightarrow> kvGet H (kvSet H s k v) k' = kvGet H s k'"
  by (simp add: get_set)

lemma nonEmpty_trimmed: "trimmed t \<Longrightarrow> nonEmpty H (Str t) = t"
  by (simp add: nonEmpty_Str trimmed_eq)

lemma nonEmpty_Undef [simp]: "nonEmpty H Undef = []" and nonEmpty_Null [simp]: "nonEmpty H Null = []"
  by (simp_all add: nonEmpty_nullish)

text \<open>The laws do not depend on the clock reading.\<close>

lemma host_laws_clock: "host_laws (H\<lparr>clockMs := now\<rparr>)"
proof -
  have "clockMs_update f H = H\<lparr>clockMs := f (clockMs H)\<rparr>" for f by simp
  show ?thesis
    using host_laws_axioms unfolding host_laws_def by simp
qed

end

section \<open>Operations that update the store and may throw\<close>

type_synonym ('s, 'a) op = "'s \<Rightarrow> (js_error + 'a) \<times> 's"

definition ok :: "'a \<Rightarrow> ('s, 'a) op" where
  "ok x s = (Inr x, s)"

definition throw :: "js_error \<Rightarrow> ('s, 'a) op" where
  "throw e s = (Inl e, s)"

definition andThen :: "('s, 'a) op \<Rightarrow> ('a \<Rightarrow> ('s, 'b) op) \<Rightarrow> ('s, 'b) op" where
  "andThen m f s = (case m s of (Inl e, s') \<Rightarrow> (Inl e, s') | (Inr x, s') \<Rightarrow> f x s')"

definition reads :: "('s \<Rightarrow> 'a) \<Rightarrow> ('s, 'a) op" where
  "reads f s = (Inr (f s), s)"

definition writes :: "('s \<Rightarrow> 's) \<Rightarrow> ('s, unit) op" where
  "writes f s = (Inr (), f s)"

definition lift_result :: "js_error + 'a \<Rightarrow> ('s, 'a) op" where
  "lift_result r s = (r, s)"

text \<open>\<open>p.catch(() => x)\<close>: the error is swallowed, the writes made before it stay.\<close>

definition catching :: "('s, 'a) op \<Rightarrow> 'a \<Rightarrow> ('s, 'a) op" where
  "catching m x s = (case m s of (Inl _, s') \<Rightarrow> (Inr x, s') | r \<Rightarrow> r)"

lemmas op_defs = ok_def throw_def andThen_def reads_def writes_def lift_result_def catching_def

section \<open>An in-memory host\<close>

text \<open>The in-memory store of the tests: an association list.\<close>

fun code_unit_compare :: "string \<Rightarrow> string \<Rightarrow> rat" where
  "code_unit_compare [] [] = 0"
| "code_unit_compare [] (_ # _) = - 1"
| "code_unit_compare (_ # _) [] = 1"
| "code_unit_compare (a # as) (b # bs) =
     (if (of_char a :: nat) < of_char b then - 1 else if (of_char b :: nat) < of_char a then 1
      else code_unit_compare as bs)"

definition memory_host :: "rat \<Rightarrow> (string \<times> jsval) list host" where
  "memory_host now = \<lparr>
     kvGet = (\<lambda>s k. case map_of s k of None \<Rightarrow> Null | Some v \<Rightarrow> v),
     kvSet = (\<lambda>s k v. AList.update k v s),
     kvDelete = (\<lambda>s k. AList.delete k s),
     kvKeys = (\<lambda>s p. filter (prefix p) (remdups (map fst (filter (\<lambda>(k, _). \<not> nullish (the (map_of s k))) s)))),
     asInt = (\<lambda>v d. case v of Num (Fin r) \<Rightarrow> trunc r | _ \<Rightarrow> d),
     nonEmpty = (\<lambda>v. trim (string_or_empty v)),
     sha256Hex = (\<lambda>s. s),
     sha256B64 = (\<lambda>s. s),
     localeCompare = code_unit_compare,
     baseCompare = (\<lambda>a b. code_unit_compare (toLowerCase a) (toLowerCase b)),
     requireId = (\<lambda>v field. let t = trim (string_or_empty v) in
       if t = [] then Inl (Error (field @ '' is required'')) else Inr t),
     clockMs = now \<rparr>"

lemma code_unit_anti: "0 < code_unit_compare a b \<longleftrightarrow> code_unit_compare b a < 0"
  by (induction a b rule: code_unit_compare.induct) auto

lemma code_unit_Cons_le:
  "code_unit_compare (a # as) (b # bs) \<le> 0 \<longleftrightarrow>
   (of_char a :: nat) < of_char b \<or> (of_char a :: nat) = of_char b \<and> code_unit_compare as bs \<le> 0"
  by auto

lemma code_unit_trans:
  "code_unit_compare a b \<le> 0 \<Longrightarrow> code_unit_compare b c \<le> 0 \<Longrightarrow> code_unit_compare a c \<le> 0"
proof (induction a arbitrary: b c)
  case Nil
  then show ?case by (cases c) auto
next
  case (Cons x xs)
  then obtain y ys where b: "b = y # ys" by (cases b) auto
  with Cons.prems obtain z zs where c: "c = z # zs" by (cases c) auto
  show ?case
    using Cons.prems Cons.IH [of ys zs] unfolding b c code_unit_Cons_le
    by (metis order.strict_trans)
qed

interpretation code_units: comparator code_unit_compare
  by unfold_locales (fact code_unit_anti, fact code_unit_trans)

lemma trunc_whole: "\<exists>i. trunc r = of_int i"
  by (metis trunc_def of_int_minus)

lemma trunc_of_int [simp]: "trunc (of_int i) = of_int i"
  by (simp add: trunc_def flip: of_int_minus)

lemma trunc_numeral [simp]: "trunc 0 = 0" "trunc 1 = 1" "trunc (numeral n) = numeral n"
  using trunc_of_int [of 0] trunc_of_int [of 1] trunc_of_int [of "numeral n"] by simp_all

interpretation memory: host_laws "memory_host now" for now
proof (rule host_laws.intro)
  fix s k v k' p
  let ?H = "memory_host now"
  show "kvGet ?H (kvSet ?H s k v) k' = (if k' = k then v else kvGet ?H s k')"
    by (simp add: memory_host_def update_conv')
  show "kvGet ?H (kvDelete ?H s k) k' = (if k' = k then Null else kvGet ?H s k')"
    by (simp add: memory_host_def delete_conv')
  show "set (kvKeys ?H s p) = {k. prefix p k \<and> \<not> nullish (kvGet ?H s k)}"
  proof (rule set_eqI)
    fix k
    show "k \<in> set (kvKeys ?H s p) \<longleftrightarrow> k \<in> {k. prefix p k \<and> \<not> nullish (kvGet ?H s k)}"
    proof (cases "map_of s k")
      case None
      then have "k \<notin> fst ` set s" by (simp add: map_of_eq_None_iff)
      with None show ?thesis by (auto simp: memory_host_def image_iff)
    next
      case (Some v)
      then have "(k, v) \<in> set s" by (rule map_of_SomeD)
      with Some show ?thesis by (auto simp: memory_host_def image_iff)
    qed
  qed
  show "\<exists>i. asInt ?H v (of_int m) = of_int i" for v m
    by (auto simp: memory_host_def trunc_whole split: jsval.split jsnum.split)
  show "comparator (localeCompare ?H)"
    by (simp add: memory_host_def code_units.comparator_axioms)
  show "comparator (baseCompare ?H)"
    by (simp add: memory_host_def comparator_on code_units.comparator_axioms)
  show "requireId ?H v field = Inr t \<Longrightarrow> trim t = t \<and> t \<noteq> []" for v field t
    by (auto simp: memory_host_def Let_def split: if_splits)
  show "trim t = t \<Longrightarrow> t \<noteq> [] \<Longrightarrow> requireId ?H (Str t) field = Inr t" for t field
    by (simp add: memory_host_def Let_def)
qed (auto simp: memory_host_def elim: nullish.elims)

end
