(* ===== verification/Records_Message.thy ===== *)
theory Records_Message
  imports Host
begin

text \<open>
  The shared coercions of \<open>src/records/domain/coerce.js\<close> and the records \<open>ChatMessage\<close> and
  \<open>PendingMutation\<close>: construction from untrusted input (a thrown validation error is \<open>Inl\<close>),
  serialisation, the well-formedness every constructed record has, and the round trip.
  The base class \<open>RRecord\<close> of the SDK enters through what its users state of it: \<open>assert\<close>
  throws, \<open>_seal\<close> runs \<open>validate\<close>, and \<open>toJSON\<close> is the record's own fields.
\<close>

section \<open>coerce.js\<close>

definition nonEmptyString :: "jsval \<Rightarrow> string" where
  "nonEmptyString v = trim (js_string (if truthy v then v else Str []))"

definition toFiniteNumber :: "jsval \<Rightarrow> rat \<Rightarrow> rat" where
  "toFiniteNumber v fb = (case js_number v of Fin r \<Rightarrow> r | _ \<Rightarrow> fb)"

definition uniqueStrings :: "jsval \<Rightarrow> string list" where
  "uniqueStrings v = foldl (\<lambda>out x. let t = nonEmptyString x in
     if t = [] \<or> t \<in> set out then out else out @ [t]) [] (elements v)"

text \<open>\<open>coerceRow\<close>: \<open>seed\<close> fills the fields the input does not define; a throw is a dropped row.\<close>

definition coerceRow :: "(jsval \<Rightarrow> js_error + 'r) \<Rightarrow> (string \<times> jsval) list option \<Rightarrow> jsval \<Rightarrow> 'r option" where
  "coerceRow mk seed input =
     (if \<not> is_object input then None
      else (case mk (case seed of None \<Rightarrow> input
              | Some sd \<Rightarrow> Obj (spread sd (filter (\<lambda>(_, v). v \<noteq> Undef) (own_props input)))) of
          Inl _ \<Rightarrow> None | Inr r \<Rightarrow> Some r))"

text \<open>\<open>raw.x == null ? null : toFiniteNumber(raw.x, fb)\<close> and its serialisation.\<close>

definition optNumber :: "jsval \<Rightarrow> rat \<Rightarrow> rat option" where
  "optNumber v fb = (if nullish v then None else Some (toFiniteNumber v fb))"

fun opt_num :: "rat option \<Rightarrow> jsval" where
  "opt_num None = Null"
| "opt_num (Some r) = num r"

lemma nonEmptyString_Str [simp]: "nonEmptyString (Str s) = trim s"
  by (cases s) (simp_all add: nonEmptyString_def)

lemma nonEmptyString_nullish [simp]: "nonEmptyString Undef = []" "nonEmptyString Null = []"
  by (simp_all add: nonEmptyString_def)

lemma trimmed_nonEmptyString [simp, wf_intros]: "trimmed (nonEmptyString v)"
  by (simp add: nonEmptyString_def)

lemma toFiniteNumber_num [simp]: "toFiniteNumber (num r) fb = r"
  by (simp add: toFiniteNumber_def)

lemma toFiniteNumber_Undef [simp]: "toFiniteNumber Undef fb = fb"
  by (simp add: toFiniteNumber_def)

lemma optNumber_opt_num [simp]: "optNumber (opt_num x) fb = x"
  by (cases x) (simp_all add: optNumber_def)

lemma optNumber_Null [simp]: "optNumber Null fb = None" "optNumber Undef fb = None"
  by (simp_all add: optNumber_def)

lemma optNumber_num [simp]: "optNumber (num r) fb = Some r"
  by (simp add: optNumber_def)

lemma opt_num_not_Undef [simp]: "opt_num x \<noteq> Undef" "Undef \<noteq> opt_num x"
  by (cases x; simp)+

definition ids_ok :: "string list \<Rightarrow> bool" where
  "ids_ok xs \<longleftrightarrow> distinct xs \<and> (\<forall>x\<in>set xs. trimmed x \<and> x \<noteq> [])"

lemma ids_ok_uniqueStrings [simp, wf_intros]: "ids_ok (uniqueStrings v)"
  unfolding uniqueStrings_def
  by (rule foldl_invariant) (simp_all add: ids_ok_def Let_def)

lemma uniqueStrings_ids [simp]: "ids_ok xs \<Longrightarrow> uniqueStrings (Arr (map Str xs)) = xs"
proof (induction xs rule: rev_induct)
  case (snoc x xs)
  then have "uniqueStrings (Arr (map Str xs)) = xs" by (simp add: ids_ok_def)
  with snoc.prems show ?case
    by (simp add: uniqueStrings_def ids_ok_def trimmed_eq)
qed (simp add: uniqueStrings_def)

lemma coerceRow_fields:
  assumes "mk (Obj (spread sd fs)) = Inr r" and "\<forall>(k, v) \<in> set fs. v \<noteq> Undef"
  shows "coerceRow mk (Some sd) (Obj fs) = Some r"
proof -
  have "filter (\<lambda>(_, v). v \<noteq> Undef) fs = fs"
    using assms(2) by (auto simp: filter_id_conv)
  with assms(1) show ?thesis by (simp add: coerceRow_def own_props_def)
qed

section \<open>ChatMessage\<close>

definition MESSAGE_STATUSES :: "string list" where
  "MESSAGE_STATUSES = [''pending'', ''queued'', ''sent'', ''delivered'', ''failed'']"

record ChatMessage =
  m_threadId :: string
  m_messageId :: string
  m_senderAccountId :: string
  m_speakerId :: string
  m_inferredNotMine :: bool
  m_senderKey :: string
  m_packetB64 :: string
  m_status :: string
  m_text :: string
  m_payload :: jsval
  m_createdAtMs :: rat
  m_acceptedAtMs :: "rat option"
  m_sentAtMs :: "rat option"
  m_inReplyToMessageId :: string
  m_editedAtMs :: "rat option"
  m_tombstonedAtMs :: "rat option"
  m_reactions :: "(string \<times> string list) list"
  m_conflicted :: bool

definition coerceStatus :: "jsval \<Rightarrow> js_error + string" where
  "coerceStatus v = (let t = nonEmptyString v; trimmed_status = (if t = [] then ''delivered'' else t) in
     if trimmed_status \<in> set MESSAGE_STATUSES then Inr trimmed_status
     else Inl (Error ''ChatMessage.status''))"

fun coerceReaction :: "(string \<times> string list) list \<Rightarrow> string \<times> jsval \<Rightarrow> (string \<times> string list) list" where
  "coerceReaction out (key, raw) =
     (let emoji = trim key in
      if emoji = [] then out
      else if \<not> is_array raw then out
      else let senders = uniqueStrings raw in
        if senders = [] \<or> emoji = ''__proto__'' then out else AList.update emoji senders out)"

definition coerceReactions :: "jsval \<Rightarrow> (string \<times> string list) list" where
  "coerceReactions value =
     (if is_object value then foldl coerceReaction [] (own_props value) else [])"

definition reactions_json :: "(string \<times> string list) list \<Rightarrow> jsval" where
  "reactions_json rs = Obj (map (\<lambda>(k, ss). (k, Arr (map Str ss))) rs)"

definition mkChatMessage :: "rat \<Rightarrow> jsval \<Rightarrow> js_error + ChatMessage" where
  "mkChatMessage now raw =
     (if raw = Null then Inl TypeError
      else case coerceStatus (getp raw ''status'') of Inl e \<Rightarrow> Inl e
      | Inr status \<Rightarrow>
        let sender = nonEmptyString (getp raw ''senderAccountId'');
            speaker = nonEmptyString (getp raw ''speakerId'');
            payload = (if is_object (getp raw ''payload'') then getp raw ''payload'' else Null);
            createdAtMs = toFiniteNumber (getp raw ''createdAtMs'') now;
            explicitInReplyTo = nonEmptyString (getp raw ''inReplyToMessageId'');
            payloadInReplyTo = nonEmptyString (getp payload ''inReplyToMessageId'');
            m = \<lparr> m_threadId = nonEmptyString (getp raw ''threadId''),
              m_messageId = nonEmptyString (getp raw ''messageId''),
              m_senderAccountId = sender,
              m_speakerId = (if speaker = [] then sender else speaker),
              m_inferredNotMine = (getp raw ''inferredNotMine'' = Bool True),
              m_senderKey = nonEmptyString (getp raw ''senderKey''),
              m_packetB64 = nonEmptyString (getp raw ''packetB64''),
              m_status = status,
              m_text = string_or_empty (getp raw ''text''),
              m_payload = payload,
              m_createdAtMs = createdAtMs,
              m_acceptedAtMs = optNumber (getp raw ''acceptedAtMs'') createdAtMs,
              m_sentAtMs = optNumber (getp raw ''sentAtMs'') 0,
              m_inReplyToMessageId = (if explicitInReplyTo = [] then payloadInReplyTo else explicitInReplyTo),
              m_editedAtMs = optNumber (getp raw ''editedAtMs'') 0,
              m_tombstonedAtMs = optNumber (getp raw ''tombstonedAtMs'') 0,
              m_reactions = coerceReactions (getp raw ''reactions''),
              m_conflicted = (getp raw ''conflicted'' = Bool True) \<rparr>
        in if m_messageId m = [] then Inl (Error ''ChatMessage requires messageId'')
           else if m_threadId m = [] then Inl (Error ''ChatMessage requires threadId'')
           else Inr m)"

definition message_fields :: "ChatMessage \<Rightarrow> (string \<times> jsval) list" where
  "message_fields m =
     [(''threadId'', Str (m_threadId m)), (''messageId'', Str (m_messageId m)),
      (''senderAccountId'', Str (m_senderAccountId m)), (''speakerId'', Str (m_speakerId m)),
      (''inferredNotMine'', Bool (m_inferredNotMine m)), (''senderKey'', Str (m_senderKey m)),
      (''packetB64'', Str (m_packetB64 m)), (''status'', Str (m_status m)), (''text'', Str (m_text m)),
      (''payload'', m_payload m), (''createdAtMs'', num (m_createdAtMs m)),
      (''acceptedAtMs'', opt_num (m_acceptedAtMs m)), (''sentAtMs'', opt_num (m_sentAtMs m)),
      (''inReplyToMessageId'', Str (m_inReplyToMessageId m)), (''editedAtMs'', opt_num (m_editedAtMs m)),
      (''tombstonedAtMs'', opt_num (m_tombstonedAtMs m)), (''reactions'', reactions_json (m_reactions m)),
      (''conflicted'', Bool (m_conflicted m))]"

definition message_json :: "ChatMessage \<Rightarrow> jsval" where
  "message_json m = Obj (message_fields m)"

definition wf_reactions :: "(string \<times> string list) list \<Rightarrow> bool" where
  "wf_reactions rs \<longleftrightarrow> ids_ok (map fst rs) \<and> ''__proto__'' \<notin> fst ` set rs \<and> (\<forall>ss\<in>snd ` set rs. ss \<noteq> [] \<and> ids_ok ss)"

definition wf_message :: "ChatMessage \<Rightarrow> bool" where
  "wf_message m \<longleftrightarrow> trimmed (m_threadId m) \<and> m_threadId m \<noteq> [] \<and> trimmed (m_messageId m) \<and> m_messageId m \<noteq> []
     \<and> trimmed (m_senderAccountId m) \<and> trimmed (m_speakerId m)
     \<and> (m_speakerId m = [] \<longrightarrow> m_senderAccountId m = [])
     \<and> trimmed (m_senderKey m) \<and> trimmed (m_packetB64 m)
     \<and> m_status m \<in> set MESSAGE_STATUSES
     \<and> (is_object (m_payload m) \<or> m_payload m = Null)
     \<and> trimmed (m_inReplyToMessageId m)
     \<and> (m_inReplyToMessageId m = [] \<longrightarrow> nonEmptyString (getp (m_payload m) ''inReplyToMessageId'') = [])
     \<and> wf_reactions (m_reactions m)"

lemma wf_reactions_update:
  assumes "wf_reactions out" and "trimmed k" and "k \<noteq> []" and "k \<noteq> ''__proto__''" and "ss \<noteq> []" and "ids_ok ss"
  shows "wf_reactions (AList.update k ss out)"
  using assms
proof (induction out)
  case (Cons p out)
  obtain k' ss' where [simp]: "p = (k', ss')" by force
  have out: "wf_reactions out" using Cons.prems by (auto simp: wf_reactions_def ids_ok_def)
  have keys: "fst ` set (AList.update k ss out) = insert k (fst ` set out)"
    by (simp add: dom_update)
  have IH: "wf_reactions (AList.update k ss out)" using Cons.IH [OF out] Cons.prems by blast
  show ?case
  proof (cases "k' = k")
    case True
    then show ?thesis using Cons.prems by (auto simp: wf_reactions_def ids_ok_def)
  next
    case False
    have "k' \<notin> fst ` set (AList.update k ss out)"
      using Cons.prems False keys by (auto simp: wf_reactions_def ids_ok_def)
    then show ?thesis using IH Cons.prems False by (auto simp: wf_reactions_def ids_ok_def)
  qed
qed (auto simp: wf_reactions_def ids_ok_def)

lemma wf_reactions_Nil [simp]: "wf_reactions []"
  by (simp add: wf_reactions_def ids_ok_def)

lemma wf_coerceReaction: "wf_reactions out \<Longrightarrow> wf_reactions (coerceReaction out kv)"
  by (cases kv) (auto simp: Let_def intro!: wf_reactions_update)

lemma wf_coerceReactions [simp, wf_intros]: "wf_reactions (coerceReactions v)"
  unfolding coerceReactions_def by (auto intro: foldl_invariant wf_coerceReaction)

lemma foldl_coerceReaction:
  "wf_reactions rs \<Longrightarrow> foldl coerceReaction [] (map (\<lambda>(k, ss). (k, Arr (map Str ss))) rs) = rs"
proof (induction rs rule: rev_induct)
  case (snoc p rs)
  obtain k ss where p: "p = (k, ss)" by force
  have rs: "wf_reactions rs" using snoc.prems by (auto simp: wf_reactions_def ids_ok_def)
  have k: "trim k = k" "k \<noteq> []" "k \<noteq> ''__proto__''" "ss \<noteq> []" "ids_ok ss" "k \<notin> fst ` set rs"
    using snoc.prems by (auto simp: wf_reactions_def ids_ok_def p trimmed_eq)
  have "coerceReaction rs (k, Arr (map Str ss)) = rs @ [(k, ss)]"
    by (simp only: coerceReaction.simps Let_def k is_array.simps if_False not_True_eq_False not_False_eq_True simp_thms
        uniqueStrings_ids AList_update_new)
  then show ?case using snoc.IH [OF rs] by (simp add: p)
qed simp

lemma coerceReactions_json [simp]: "wf_reactions rs \<Longrightarrow> coerceReactions (reactions_json rs) = rs"
  by (simp add: coerceReactions_def reactions_json_def own_props_def foldl_coerceReaction)

lemma status_trimmed: "s \<in> set MESSAGE_STATUSES \<Longrightarrow> trim s = s \<and> s \<noteq> []"
  unfolding MESSAGE_STATUSES_def by (simp, elim disjE; simp add: trim_def is_ws_def)

lemma coerceStatus_ok [simp]: "s \<in> set MESSAGE_STATUSES \<Longrightarrow> coerceStatus (Str s) = Inr s"
  using status_trimmed [of s] by (simp add: coerceStatus_def Let_def)

lemma coerceStatus_Inr: "coerceStatus v = Inr s \<Longrightarrow> s \<in> set MESSAGE_STATUSES"
  by (auto simp: coerceStatus_def Let_def split: if_splits)

lemma mkChatMessage_wf: "mkChatMessage now raw = Inr m \<Longrightarrow> wf_message m"
  by (auto simp: mkChatMessage_def wf_message_def Let_def dest: coerceStatus_Inr
      split: if_splits sum.splits)

text \<open>
  A sealed record is a fixed point of its own constructor: any object that agrees with the
  record's fields is read back as the record.
\<close>

lemma mkChatMessage_agree:
  assumes wf: "wf_message m" and "raw \<noteq> Null"
    and agree: "\<forall>(k, v) \<in> set (message_fields m). getp raw k = v"
  shows "mkChatMessage now raw = Inr m"
proof -
  have "getp (m_payload m) ''inReplyToMessageId'' = Undef" if "m_payload m = Null"
    using that by (simp add: getp_def)
  then show ?thesis
    using assms
    by (cases m) (auto simp: mkChatMessage_def message_fields_def wf_message_def Let_def trimmed_eq)
qed

lemma distinct_message_fields: "distinct (map fst (message_fields m))"
  by (simp add: message_fields_def)

lemma mkChatMessage_json: "wf_message m \<Longrightarrow> mkChatMessage now (message_json m) = Inr m"
  by (rule mkChatMessage_agree)
    (auto simp: message_json_def dest: getp_agree [OF distinct_message_fields, THEN bspec])

lemma message_fields_defined:
  "wf_message m \<Longrightarrow> \<forall>(k, v) \<in> set (message_fields m). v \<noteq> Undef"
  by (auto simp: message_fields_def wf_message_def reactions_json_def)

lemma coerceRow_message:
  assumes "wf_message m"
  shows "coerceRow (mkChatMessage now) (Some sd) (message_json m) = Some m"
  unfolding message_json_def
  by (intro coerceRow_fields mkChatMessage_agree assms message_fields_defined
      getp_spread_agree distinct_message_fields) simp

section \<open>PendingMutation\<close>

record PendingMutation =
  pm_kind :: string
  pm_threadId :: string
  pm_targetMessageId :: string
  pm_senderAccountId :: string
  pm_receivedAtMs :: rat
  pm_newText :: string
  pm_editedAtMs :: rat
  pm_tombstonedAtMs :: rat
  pm_emoji :: string

definition buildPendingMutation :: "jsval \<Rightarrow> PendingMutation" where
  "buildPendingMutation raw =
     \<lparr> pm_kind = nonEmptyString (getp raw ''kind''),
       pm_threadId = nonEmptyString (getp raw ''threadId''),
       pm_targetMessageId = nonEmptyString (getp raw ''targetMessageId''),
       pm_senderAccountId = nonEmptyString (getp raw ''senderAccountId''),
       pm_receivedAtMs = trunc (toFiniteNumber (getp raw ''receivedAtMs'') 0),
       pm_newText = string_or_empty (getp raw ''newText''),
       pm_editedAtMs = trunc (toFiniteNumber (getp raw ''editedAtMs'') 0),
       pm_tombstonedAtMs = trunc (toFiniteNumber (getp raw ''tombstonedAtMs'') 0),
       pm_emoji = nonEmptyString (getp raw ''emoji'') \<rparr>"

definition validatePendingMutation :: "PendingMutation \<Rightarrow> js_error option" where
  "validatePendingMutation r =
     (if pm_kind r \<notin> {''edit'', ''tombstone'', ''reaction.add'', ''reaction.remove''}
        then Some (Error ''PendingMutation.kind'')
      else if pm_threadId r = [] then Some (Error ''PendingMutation: threadId required'')
      else if pm_targetMessageId r = [] then Some (Error ''PendingMutation: targetMessageId required'')
      else if pm_senderAccountId r = [] then Some (Error ''PendingMutation: senderAccountId required'')
      else if \<not> pm_receivedAtMs r > 0 then Some (Error ''PendingMutation: receivedAtMs > 0 required'')
      else if pm_kind r = ''edit'' then
        (if pm_editedAtMs r > 0 then None else Some (Error ''PendingMutation(edit): editedAtMs > 0 required''))
      else if pm_kind r = ''tombstone'' then
        (if pm_tombstonedAtMs r > 0 then None
         else Some (Error ''PendingMutation(tombstone): tombstonedAtMs > 0 required''))
      else if pm_emoji r = [] then Some (Error ''PendingMutation(reaction): emoji required'')
      else None)"

definition mkPendingMutation :: "jsval \<Rightarrow> js_error + PendingMutation" where
  "mkPendingMutation raw =
     (if raw = Null then Inl TypeError
      else let r = buildPendingMutation raw in
        case validatePendingMutation r of Some e \<Rightarrow> Inl e | None \<Rightarrow> Inr r)"

definition mutation_fields :: "PendingMutation \<Rightarrow> (string \<times> jsval) list" where
  "mutation_fields r =
     [(''kind'', Str (pm_kind r)), (''threadId'', Str (pm_threadId r)),
      (''targetMessageId'', Str (pm_targetMessageId r)), (''senderAccountId'', Str (pm_senderAccountId r)),
      (''receivedAtMs'', num (pm_receivedAtMs r)), (''newText'', Str (pm_newText r)),
      (''editedAtMs'', num (pm_editedAtMs r)), (''tombstonedAtMs'', num (pm_tombstonedAtMs r)),
      (''emoji'', Str (pm_emoji r))]"

definition mutation_json :: "PendingMutation \<Rightarrow> jsval" where
  "mutation_json r = Obj (mutation_fields r)"

definition wf_mutation :: "PendingMutation \<Rightarrow> bool" where
  "wf_mutation r \<longleftrightarrow> validatePendingMutation r = None \<and> trimmed (pm_kind r) \<and> trimmed (pm_threadId r)
     \<and> trimmed (pm_targetMessageId r) \<and> trimmed (pm_senderAccountId r) \<and> trimmed (pm_emoji r)
     \<and> trunc (pm_receivedAtMs r) = pm_receivedAtMs r \<and> trunc (pm_editedAtMs r) = pm_editedAtMs r
     \<and> trunc (pm_tombstonedAtMs r) = pm_tombstonedAtMs r"

lemma trunc_trunc [simp]: "trunc (trunc r) = trunc r"
proof -
  obtain i where "trunc r = of_int i"
    by (metis trunc_def of_int_minus)
  then show ?thesis by simp
qed

lemma mkPendingMutation_wf: "mkPendingMutation raw = Inr r \<Longrightarrow> wf_mutation r"
  by (auto simp: mkPendingMutation_def wf_mutation_def buildPendingMutation_def Let_def
      split: if_splits option.splits)

lemma mkPendingMutation_json: "wf_mutation r \<Longrightarrow> mkPendingMutation (mutation_json r) = Inr r"
proof -
  assume wf: "wf_mutation r"
  have "buildPendingMutation (mutation_json r) = r"
    using wf by (cases r)
      (simp add: buildPendingMutation_def mutation_json_def mutation_fields_def getp_def wf_mutation_def trimmed_eq)
  with wf show ?thesis by (simp add: mkPendingMutation_def wf_mutation_def mutation_json_def)
qed

lemma coerceRow_mutation: "wf_mutation r \<Longrightarrow> coerceRow mkPendingMutation None (mutation_json r) = Some r"
  using mkPendingMutation_json [of r] by (simp add: coerceRow_def mutation_json_def)

end
