(* ===== verification/Records_Thread.thy ===== *)
theory Records_Thread
  imports Records_Message
begin

text \<open>
  The records \<open>ChatThread\<close> and \<open>ChatThreadIndexEntry\<close>: strict coercion of the three thread
  enumerations, the per-channel unread counters and read cursors, the derived flags
  \<open>threadReady\<close> and \<open>sendAllowed\<close>, and the round trips.
\<close>

section \<open>Enumerations of a thread\<close>

definition coerceEnum :: "string list \<Rightarrow> string \<Rightarrow> jsval \<Rightarrow> string \<Rightarrow> js_error + string" where
  "coerceEnum valid msg value fallback =
     (if nullish value \<or> value = Str [] then Inr fallback
      else let text = trim (toLowerCase (js_string value)) in
        if text = [] then Inr fallback
        else if text \<in> set valid then Inr text else Inl (Error msg))"

definition coerceThreadType :: "jsval \<Rightarrow> js_error + string" where
  "coerceThreadType v = coerceEnum [''direct'', ''group''] ''ChatThread.threadType'' v ''direct''"

definition coerceVisibilityState :: "jsval \<Rightarrow> js_error + string" where
  "coerceVisibilityState v = coerceEnum [''visible'', ''hidden''] ''ChatThread.visibilityState'' v ''visible''"

definition coerceAccessState :: "jsval \<Rightarrow> js_error + string" where
  "coerceAccessState v = coerceEnum [''open'', ''locked''] ''ChatThread.accessState'' v ''open''"

lemma coerceEnum_fix:
  "s \<in> set valid \<Longrightarrow> trim (toLowerCase s) = s \<Longrightarrow> s \<noteq> [] \<Longrightarrow> coerceEnum valid msg (Str s) fb = Inr s"
  by (simp add: coerceEnum_def Let_def)

lemma coerceEnum_Inr: "coerceEnum valid msg v fb = Inr s \<Longrightarrow> s = fb \<or> s \<in> set valid"
  by (auto simp: coerceEnum_def Let_def split: if_splits)

lemma lower_enum:
  "trim (toLowerCase ''direct'') = ''direct''" "trim (toLowerCase ''group'') = ''group''"
  "trim (toLowerCase ''visible'') = ''visible''" "trim (toLowerCase ''hidden'') = ''hidden''"
  "trim (toLowerCase ''open'') = ''open''" "trim (toLowerCase ''locked'') = ''locked''"
  by code_simp+

lemma coerceThreadType_fix [simp]:
  "coerceThreadType (Str ''direct'') = Inr ''direct''" "coerceThreadType (Str ''group'') = Inr ''group''"
  by (simp_all add: coerceThreadType_def coerceEnum_fix lower_enum)

lemma coerceVisibilityState_fix [simp]:
  "coerceVisibilityState (Str ''visible'') = Inr ''visible''"
  "coerceVisibilityState (Str ''hidden'') = Inr ''hidden''"
  by (simp_all add: coerceVisibilityState_def coerceEnum_fix lower_enum)

lemma coerceAccessState_fix [simp]:
  "coerceAccessState (Str ''open'') = Inr ''open''" "coerceAccessState (Str ''locked'') = Inr ''locked''"
  by (simp_all add: coerceAccessState_def coerceEnum_fix lower_enum)

section \<open>Per-channel counters and cursors\<close>

definition count_of :: "jsval \<Rightarrow> rat" where
  "count_of v = max 0 (trunc (toFiniteNumber v 0))"

fun unread_step :: "(string \<times> rat) list \<Rightarrow> string \<times> jsval \<Rightarrow> (string \<times> rat) list" where
  "unread_step out (key, v) = (if count_of v > 0 \<and> key \<noteq> ''__proto__'' then AList.update key (count_of v) out else out)"

definition coerceUnreadByChannelId :: "jsval \<Rightarrow> (string \<times> rat) list" where
  "coerceUnreadByChannelId value = (if is_object value then foldl unread_step [] (own_props value) else [])"

fun last_read_step :: "(string \<times> rat \<times> string) list \<Rightarrow> string \<times> jsval \<Rightarrow> (string \<times> rat \<times> string) list" where
  "last_read_step out (key, raw) =
     (if \<not> is_object raw then out
      else let atMs = count_of (getp raw ''atMs''); msgId = trim (string_or_empty (getp raw ''msgId'')) in
        if atMs = 0 \<and> msgId = [] \<or> key = ''__proto__'' then out else AList.update key (atMs, msgId) out)"

definition coerceLastReadByChannelId :: "jsval \<Rightarrow> (string \<times> rat \<times> string) list" where
  "coerceLastReadByChannelId value = (if is_object value then foldl last_read_step [] (own_props value) else [])"

definition unread_json :: "(string \<times> rat) list \<Rightarrow> jsval" where
  "unread_json us = Obj (map (\<lambda>(k, n). (k, num n)) us)"

definition last_read_json :: "(string \<times> rat \<times> string) list \<Rightarrow> jsval" where
  "last_read_json ls = Obj (map (\<lambda>(k, a, i). (k, Obj [(''atMs'', num a), (''msgId'', Str i)])) ls)"

definition counts_ok :: "(string \<times> rat) list \<Rightarrow> bool" where
  "counts_ok us \<longleftrightarrow> distinct (map fst us) \<and> ''__proto__'' \<notin> fst ` set us \<and> (\<forall>n\<in>snd ` set us. 0 < n \<and> trunc n = n)"

definition cursors_ok :: "(string \<times> rat \<times> string) list \<Rightarrow> bool" where
  "cursors_ok ls \<longleftrightarrow> distinct (map fst ls) \<and> ''__proto__'' \<notin> fst ` set ls
     \<and> (\<forall>(a, i)\<in>snd ` set ls. 0 \<le> a \<and> trunc a = a \<and> trimmed i \<and> (a \<noteq> 0 \<or> i \<noteq> []))"

lemma count_of_num [simp]: "0 \<le> n \<Longrightarrow> trunc n = n \<Longrightarrow> count_of (num n) = n"
  by (simp add: count_of_def)

lemma count_of_nonneg [simp]: "0 \<le> count_of v" "trunc (count_of v) = count_of v"
  by (auto simp: count_of_def max_def)

lemma ball_snd_update:
  "\<forall>x\<in>snd ` set xs. P x \<Longrightarrow> P v \<Longrightarrow> \<forall>x\<in>snd ` set (AList.update k v xs). P x"
  by (induction xs) auto

lemma counts_ok_update:
  "counts_ok us \<Longrightarrow> 0 < n \<Longrightarrow> trunc n = n \<Longrightarrow> k \<noteq> ''__proto__'' \<Longrightarrow> counts_ok (AList.update k n us)"
  unfolding counts_ok_def by (intro conjI ball_snd_update) (simp_all add: distinct_update dom_update)

lemma cursors_ok_update:
  "cursors_ok ls \<Longrightarrow> 0 \<le> a \<Longrightarrow> trunc a = a \<Longrightarrow> trimmed i \<Longrightarrow> a \<noteq> 0 \<or> i \<noteq> [] \<Longrightarrow> k \<noteq> ''__proto__'' \<Longrightarrow>
   cursors_ok (AList.update k (a, i) ls)"
  unfolding cursors_ok_def by (intro conjI ball_snd_update) (simp_all add: distinct_update dom_update)

lemma counts_ok_coerce [simp, wf_intros]: "counts_ok (coerceUnreadByChannelId v)"
proof -
  have "counts_ok us \<Longrightarrow> counts_ok (unread_step us kv)" for us kv
    by (cases kv) (simp add: counts_ok_update)
  then show ?thesis
    unfolding coerceUnreadByChannelId_def
    by (auto intro: foldl_invariant simp: counts_ok_def [of "[]"])
qed

lemma cursors_ok_coerce [simp, wf_intros]: "cursors_ok (coerceLastReadByChannelId v)"
proof -
  have "cursors_ok ls \<Longrightarrow> cursors_ok (last_read_step ls kv)" for ls kv
    by (cases kv) (auto simp: Let_def intro!: cursors_ok_update)
  then show ?thesis
    unfolding coerceLastReadByChannelId_def
    by (auto intro: foldl_invariant simp: cursors_ok_def [of "[]"])
qed

lemma coerceUnread_json [simp]: "counts_ok us \<Longrightarrow> coerceUnreadByChannelId (unread_json us) = us"
proof (induction us rule: rev_induct)
  case (snoc p us)
  obtain k n where p: "p = (k, n)" by force
  have "counts_ok us" and n: "0 < n" "trunc n = n" and k: "k \<notin> fst ` set us" "k \<noteq> ''__proto__''"
    using snoc.prems by (auto simp: counts_ok_def p)
  then have IH: "foldl unread_step [] (map (\<lambda>(k, n). (k, num n)) us) = us"
    using snoc.IH by (simp add: coerceUnreadByChannelId_def unread_json_def own_props_def)
  have "count_of (num n) = n" using n by simp
  then show ?case
    using n by (simp add: coerceUnreadByChannelId_def unread_json_def own_props_def p IH k AList_update_new)
qed (simp add: coerceUnreadByChannelId_def unread_json_def own_props_def)

lemma coerceLastRead_json [simp]: "cursors_ok ls \<Longrightarrow> coerceLastReadByChannelId (last_read_json ls) = ls"
proof (induction ls rule: rev_induct)
  case (snoc p ls)
  obtain k a i where p: "p = (k, a, i)" by (cases p) auto
  have ls: "cursors_ok ls" and a: "0 \<le> a" "trunc a = a" and i: "trimmed i" "\<not> (a = 0 \<and> i = [])"
    and k: "k \<notin> fst ` set ls" "k \<noteq> ''__proto__''"
    using snoc.prems by (auto simp: cursors_ok_def p)
  have IH: "foldl last_read_step [] (map (\<lambda>(k, a, i). (k, Obj [(''atMs'', num a), (''msgId'', Str i)])) ls) = ls"
    using snoc.IH [OF ls] by (simp add: coerceLastReadByChannelId_def last_read_json_def own_props_def)
  have "last_read_step ls (k, Obj [(''atMs'', num a), (''msgId'', Str i)]) = ls @ [(k, a, i)]"
    using a i k by (simp add: getp_def trimmed_eq Let_def AList_update_new)
  then show ?case
    by (simp add: coerceLastReadByChannelId_def last_read_json_def own_props_def p IH)
qed (simp add: coerceLastReadByChannelId_def last_read_json_def own_props_def)

section \<open>ChatThread\<close>

record ChatThread =
  t_threadId :: string
  t_threadType :: string
  t_title :: string
  t_displayTitle :: string
  t_peerAccountId :: string
  t_groupId :: string
  t_participants :: "string list"
  t_visibilityState :: string
  t_accessState :: string
  t_peerInboxId :: string
  t_createdAtMs :: "rat option"
  t_updatedAtMs :: "rat option"
  t_lastActivityAtMs :: "rat option"
  t_lastActivityMsgId :: string
  t_lastMessagePreview :: "string option"
  t_unreadCount :: rat
  t_unreadByChannelId :: "(string \<times> rat) list"
  t_threadReady :: bool
  t_sendAllowed :: bool
  t_securityState :: string
  t_peerLinkState :: string

fun bool_or :: "jsval \<Rightarrow> bool \<Rightarrow> bool" where
  "bool_or (Bool b) d = b"
| "bool_or _ d = d"

fun opt_str :: "string option \<Rightarrow> jsval" where
  "opt_str None = Null"
| "opt_str (Some s) = Str s"

definition zero_if_none :: "rat option \<Rightarrow> rat" where
  "zero_if_none x = (case x of None \<Rightarrow> 0 | Some r \<Rightarrow> r)"

text \<open>\<open>raw.x == null ? d : toFiniteNumber(raw.x, fb)\<close> and \<open>raw.x == null ? null : String(raw.x)\<close>.\<close>

definition optNumberOr :: "jsval \<Rightarrow> rat option \<Rightarrow> rat \<Rightarrow> rat option" where
  "optNumberOr v d fb = (if nullish v then d else Some (toFiniteNumber v fb))"

definition optString :: "jsval \<Rightarrow> string option" where
  "optString v = (if nullish v then None else Some (js_string v))"

definition buildChatThread :: "jsval \<Rightarrow> string \<Rightarrow> string \<Rightarrow> string \<Rightarrow> ChatThread" where
  "buildChatThread raw threadType visibility access =
     (let peerAccountId = nonEmptyString (getp raw ''peerAccountId'');
          peerInboxId = nonEmptyString (getp raw ''peerInboxId'');
          createdAtMs = optNumber (getp raw ''createdAtMs'') 0;
          updatedAtMs = optNumberOr (getp raw ''updatedAtMs'') createdAtMs (zero_if_none createdAtMs);
          threadReady = bool_or (getp raw ''threadReady'')
            (if threadType = ''group'' then True else peerInboxId \<noteq> [] \<and> peerAccountId \<noteq> []);
          security = nonEmptyString (getp raw ''securityState'')
      in \<lparr> t_threadId = nonEmptyString (getp raw ''threadId''),
           t_threadType = threadType,
           t_title = nonEmptyString (getp raw ''title''),
           t_displayTitle = nonEmptyString (getp raw ''displayTitle''),
           t_peerAccountId = peerAccountId,
           t_groupId = nonEmptyString (getp raw ''groupId''),
           t_participants = uniqueStrings (getp raw ''participants''),
           t_visibilityState = visibility,
           t_accessState = access,
           t_peerInboxId = peerInboxId,
           t_createdAtMs = createdAtMs,
           t_updatedAtMs = updatedAtMs,
           t_lastActivityAtMs = optNumberOr (getp raw ''lastActivityAtMs'') updatedAtMs 0,
           t_lastActivityMsgId = nonEmptyString (getp raw ''lastActivityMsgId''),
           t_lastMessagePreview = optString (getp raw ''lastMessagePreview''),
           t_unreadCount = count_of (getp raw ''unreadCount''),
           t_unreadByChannelId = coerceUnreadByChannelId (getp raw ''unreadByChannelId''),
           t_threadReady = threadReady,
           t_sendAllowed = bool_or (getp raw ''sendAllowed'') (threadReady \<and> access \<noteq> ''locked''),
           t_securityState = (if security = [] then ''unknown'' else security),
           t_peerLinkState = nonEmptyString (getp raw ''peerLinkState'') \<rparr>)"

definition mkChatThread :: "jsval \<Rightarrow> js_error + ChatThread" where
  "mkChatThread raw =
     (if raw = Null then Inl TypeError
      else case coerceThreadType (getp raw ''threadType'') of Inl e \<Rightarrow> Inl e | Inr threadType \<Rightarrow>
      (case coerceVisibilityState (getp raw ''visibilityState'') of Inl e \<Rightarrow> Inl e | Inr visibility \<Rightarrow>
      (case coerceAccessState (getp raw ''accessState'') of Inl e \<Rightarrow> Inl e | Inr access \<Rightarrow>
        let t = buildChatThread raw threadType visibility access
        in if t_threadId t = [] then Inl (Error ''ChatThread requires threadId'') else Inr t)))"

definition thread_fields :: "ChatThread \<Rightarrow> (string \<times> jsval) list" where
  "thread_fields t =
     [(''threadId'', Str (t_threadId t)), (''threadType'', Str (t_threadType t)), (''title'', Str (t_title t)),
      (''displayTitle'', Str (t_displayTitle t)), (''peerAccountId'', Str (t_peerAccountId t)),
      (''groupId'', Str (t_groupId t)), (''participants'', Arr (map Str (t_participants t))),
      (''visibilityState'', Str (t_visibilityState t)), (''accessState'', Str (t_accessState t)),
      (''peerInboxId'', Str (t_peerInboxId t)), (''createdAtMs'', opt_num (t_createdAtMs t)),
      (''updatedAtMs'', opt_num (t_updatedAtMs t)), (''lastActivityAtMs'', opt_num (t_lastActivityAtMs t)),
      (''lastActivityMsgId'', Str (t_lastActivityMsgId t)),
      (''lastMessagePreview'', opt_str (t_lastMessagePreview t)), (''unreadCount'', num (t_unreadCount t)),
      (''unreadByChannelId'', unread_json (t_unreadByChannelId t)), (''threadReady'', Bool (t_threadReady t)),
      (''sendAllowed'', Bool (t_sendAllowed t)), (''securityState'', Str (t_securityState t)),
      (''peerLinkState'', Str (t_peerLinkState t))]"

definition thread_json :: "ChatThread \<Rightarrow> jsval" where
  "thread_json t = Obj (thread_fields t)"

definition wf_thread :: "ChatThread \<Rightarrow> bool" where
  "wf_thread t \<longleftrightarrow> trimmed (t_threadId t) \<and> t_threadId t \<noteq> []
     \<and> t_threadType t \<in> {''direct'', ''group''}
     \<and> trimmed (t_title t) \<and> trimmed (t_displayTitle t) \<and> trimmed (t_peerAccountId t) \<and> trimmed (t_groupId t)
     \<and> ids_ok (t_participants t)
     \<and> t_visibilityState t \<in> {''visible'', ''hidden''} \<and> t_accessState t \<in> {''open'', ''locked''}
     \<and> trimmed (t_peerInboxId t)
     \<and> (t_updatedAtMs t = None \<longrightarrow> t_createdAtMs t = None)
     \<and> (t_lastActivityAtMs t = None \<longrightarrow> t_updatedAtMs t = None)
     \<and> trimmed (t_lastActivityMsgId t) \<and> 0 \<le> t_unreadCount t \<and> trunc (t_unreadCount t) = t_unreadCount t
     \<and> counts_ok (t_unreadByChannelId t)
     \<and> trimmed (t_securityState t) \<and> t_securityState t \<noteq> [] \<and> trimmed (t_peerLinkState t)"

lemma nullish_opt_num [simp]: "nullish (opt_num x) \<longleftrightarrow> x = None"
  by (cases x) simp_all

lemma nullish_opt_str [simp]: "nullish (opt_str x) \<longleftrightarrow> x = None"
  by (cases x) simp_all

lemma opt_str_not_Undef [simp]: "opt_str x \<noteq> Undef"
  by (cases x) simp_all

lemma toFiniteNumber_opt_num [simp]: "toFiniteNumber (opt_num (Some r)) fb = r"
  by simp

lemma coerceThreadType_Inr: "coerceThreadType v = Inr s \<Longrightarrow> s \<in> {''direct'', ''group''}"
  unfolding coerceThreadType_def by (drule coerceEnum_Inr) auto

lemma coerceVisibilityState_Inr: "coerceVisibilityState v = Inr s \<Longrightarrow> s \<in> {''visible'', ''hidden''}"
  unfolding coerceVisibilityState_def by (drule coerceEnum_Inr) auto

lemma coerceAccessState_Inr: "coerceAccessState v = Inr s \<Longrightarrow> s \<in> {''open'', ''locked''}"
  unfolding coerceAccessState_def by (drule coerceEnum_Inr) auto

lemma trimmed_unknown [simp]: "trimmed ''unknown''"
  by (simp add: trimmed_iff is_ws_def)

lemma optNumberOr_opt_num: "(x = None \<Longrightarrow> d = None) \<Longrightarrow> optNumberOr (opt_num x) d fb = x"
  by (cases x) (simp_all add: optNumberOr_def)

lemma optNumberOr_None: "optNumberOr v d fb = None \<Longrightarrow> d = None"
  by (auto simp: optNumberOr_def split: if_splits)

lemma optString_opt_str [simp]: "optString (opt_str x) = x"
  by (cases x) (simp_all add: optString_def)

lemma wf_buildChatThread:
  assumes "ty \<in> {''direct'', ''group''}" and "vi \<in> {''visible'', ''hidden''}" and "ac \<in> {''open'', ''locked''}"
    and "t_threadId (buildChatThread raw ty vi ac) \<noteq> []"
  shows "wf_thread (buildChatThread raw ty vi ac)"
  using assms unfolding wf_thread_def buildChatThread_def Let_def
  by (simp add: optNumberOr_None cong: if_cong)

lemma mkChatThread_wf: "mkChatThread raw = Inr t \<Longrightarrow> wf_thread t"
  unfolding mkChatThread_def Let_def
  by (auto intro!: wf_buildChatThread dest: coerceThreadType_Inr coerceVisibilityState_Inr
      coerceAccessState_Inr split: if_splits sum.splits)

lemma distinct_thread_fields: "distinct (map fst (thread_fields t))"
  by (simp add: thread_fields_def)

lemma enum_agree:
  "s \<in> {''direct'', ''group''} \<Longrightarrow> coerceThreadType (Str s) = Inr s"
  "s \<in> {''visible'', ''hidden''} \<Longrightarrow> coerceVisibilityState (Str s) = Inr s"
  "s \<in> {''open'', ''locked''} \<Longrightarrow> coerceAccessState (Str s) = Inr s"
  by auto

lemma mkChatThread_agree:
  assumes wf: "wf_thread t" and "raw \<noteq> Null"
    and agree: "\<forall>(k, v) \<in> set (thread_fields t). getp raw k = v"
  shows "mkChatThread raw = Inr t"
proof -
  have f: "t_threadId t \<noteq> []" "trimmed (t_threadId t)" "trimmed (t_title t)" "trimmed (t_displayTitle t)"
      "trimmed (t_peerAccountId t)" "trimmed (t_groupId t)" "ids_ok (t_participants t)"
      "trimmed (t_peerInboxId t)" "trimmed (t_lastActivityMsgId t)" "0 \<le> t_unreadCount t"
      "trunc (t_unreadCount t) = t_unreadCount t" "counts_ok (t_unreadByChannelId t)"
      "trimmed (t_securityState t)" "t_securityState t \<noteq> []" "trimmed (t_peerLinkState t)"
    using wf by (simp_all add: wf_thread_def)
  have e: "coerceThreadType (Str (t_threadType t)) = Inr (t_threadType t)"
      "coerceVisibilityState (Str (t_visibilityState t)) = Inr (t_visibilityState t)"
      "coerceAccessState (Str (t_accessState t)) = Inr (t_accessState t)"
    using wf by (auto simp: wf_thread_def intro: enum_agree)
  have o: "optNumberOr (opt_num (t_updatedAtMs t)) (t_createdAtMs t) fb = t_updatedAtMs t"
      "optNumberOr (opt_num (t_lastActivityAtMs t)) (t_updatedAtMs t) fb = t_lastActivityAtMs t" for fb
    using wf by (auto simp: wf_thread_def intro: optNumberOr_opt_num)
  show ?thesis
    using agree assms(2)
    by (simp add: mkChatThread_def buildChatThread_def thread_fields_def Let_def trimmed_eq f e o)
qed

lemma mkChatThread_json: "wf_thread t \<Longrightarrow> mkChatThread (thread_json t) = Inr t"
  by (rule mkChatThread_agree)
    (auto simp: thread_json_def dest: getp_agree [OF distinct_thread_fields, THEN bspec])

lemma thread_fields_defined: "\<forall>(k, v) \<in> set (thread_fields t). v \<noteq> Undef"
  by (auto simp: thread_fields_def unread_json_def)

lemma coerceRow_thread:
  assumes "wf_thread t"
  shows "coerceRow mkChatThread (Some sd) (thread_json t) = Some t"
  unfolding thread_json_def
  by (intro coerceRow_fields mkChatThread_agree assms thread_fields_defined
      getp_spread_agree distinct_thread_fields) simp

section \<open>ChatThreadIndexEntry\<close>

definition coercePreview :: "jsval \<Rightarrow> string option" where
  "coercePreview value =
     (if nullish value then None
      else let text = trim (js_string value) in if text = [] then None else Some (take 120 text))"

record ChatThreadIndexEntry =
  e_threadId :: string
  e_lastActivityAtMs :: rat
  e_lastActivityMsgId :: string
  e_lastMessagePreview :: "string option"
  e_unreadCount :: rat
  e_unreadByChannelId :: "(string \<times> rat) list"
  e_lastReadByChannelId :: "(string \<times> rat \<times> string) list"
  e_updatedAtMs :: rat
  e_lastReadAtMs :: "rat option"
  e_lastReadMsgId :: string
  e_lastUnreadCountedAtMs :: "rat option"
  e_lastUnreadCountedMsgId :: string
  e_previewAtMs :: "rat option"
  e_previewMsgId :: string

definition buildThreadIndexEntry :: "jsval \<Rightarrow> ChatThreadIndexEntry" where
  "buildThreadIndexEntry raw =
     (let lastActivityAtMs = toFiniteNumber (getp raw ''lastActivityAtMs'') 0
      in \<lparr> e_threadId = nonEmptyString (getp raw ''threadId''),
           e_lastActivityAtMs = lastActivityAtMs,
           e_lastActivityMsgId = nonEmptyString (getp raw ''lastActivityMsgId''),
           e_lastMessagePreview = coercePreview (getp raw ''lastMessagePreview''),
           e_unreadCount = count_of (getp raw ''unreadCount''),
           e_unreadByChannelId = coerceUnreadByChannelId (getp raw ''unreadByChannelId''),
           e_lastReadByChannelId = coerceLastReadByChannelId (getp raw ''lastReadByChannelId''),
           e_updatedAtMs = toFiniteNumber (getp raw ''updatedAtMs'') lastActivityAtMs,
           e_lastReadAtMs = optNumber (getp raw ''lastReadAtMs'') 0,
           e_lastReadMsgId = nonEmptyString (getp raw ''lastReadMsgId''),
           e_lastUnreadCountedAtMs = optNumber (getp raw ''lastUnreadCountedAtMs'') 0,
           e_lastUnreadCountedMsgId = nonEmptyString (getp raw ''lastUnreadCountedMsgId''),
           e_previewAtMs = optNumber (getp raw ''previewAtMs'') 0,
           e_previewMsgId = nonEmptyString (getp raw ''previewMsgId'') \<rparr>)"

definition mkThreadIndexEntry :: "jsval \<Rightarrow> js_error + ChatThreadIndexEntry" where
  "mkThreadIndexEntry raw =
     (if raw = Null then Inl TypeError
      else let e = buildThreadIndexEntry raw in
        if e_threadId e = [] then Inl (Error ''ChatThreadIndexEntry requires threadId'') else Inr e)"

definition entry_fields :: "ChatThreadIndexEntry \<Rightarrow> (string \<times> jsval) list" where
  "entry_fields e =
     [(''threadId'', Str (e_threadId e)), (''lastActivityAtMs'', num (e_lastActivityAtMs e)),
      (''lastActivityMsgId'', Str (e_lastActivityMsgId e)),
      (''lastMessagePreview'', opt_str (e_lastMessagePreview e)), (''unreadCount'', num (e_unreadCount e)),
      (''unreadByChannelId'', unread_json (e_unreadByChannelId e)),
      (''lastReadByChannelId'', last_read_json (e_lastReadByChannelId e)),
      (''updatedAtMs'', num (e_updatedAtMs e)), (''lastReadAtMs'', opt_num (e_lastReadAtMs e)),
      (''lastReadMsgId'', Str (e_lastReadMsgId e)),
      (''lastUnreadCountedAtMs'', opt_num (e_lastUnreadCountedAtMs e)),
      (''lastUnreadCountedMsgId'', Str (e_lastUnreadCountedMsgId e)),
      (''previewAtMs'', opt_num (e_previewAtMs e)), (''previewMsgId'', Str (e_previewMsgId e))]"

definition entry_json :: "ChatThreadIndexEntry \<Rightarrow> jsval" where
  "entry_json e = Obj (entry_fields e)"

definition preview_ok :: "string option \<Rightarrow> bool" where
  "preview_ok p \<longleftrightarrow> (case p of None \<Rightarrow> True | Some t \<Rightarrow> t \<noteq> [] \<and> length t \<le> 120)"

text \<open>
  The preview is trimmed before it is cut, so the cut may leave white space at its end, which
  the next construction trims away: such a record is not a fixed point of its constructor.
  \<open>wf_entry\<close> is what every constructed entry satisfies, \<open>stable_entry\<close> adds the trimmed preview
  under which it is read back as it was stored.
\<close>

definition wf_entry :: "ChatThreadIndexEntry \<Rightarrow> bool" where
  "wf_entry e \<longleftrightarrow> trimmed (e_threadId e) \<and> e_threadId e \<noteq> [] \<and> trimmed (e_lastActivityMsgId e)
     \<and> preview_ok (e_lastMessagePreview e)
     \<and> 0 \<le> e_unreadCount e \<and> trunc (e_unreadCount e) = e_unreadCount e
     \<and> counts_ok (e_unreadByChannelId e) \<and> cursors_ok (e_lastReadByChannelId e)
     \<and> trimmed (e_lastReadMsgId e) \<and> trimmed (e_lastUnreadCountedMsgId e) \<and> trimmed (e_previewMsgId e)"

definition stable_entry :: "ChatThreadIndexEntry \<Rightarrow> bool" where
  "stable_entry e \<longleftrightarrow> wf_entry e
     \<and> (case e_lastMessagePreview e of None \<Rightarrow> True | Some t \<Rightarrow> trimmed t)"

lemma preview_ok_coercePreview [simp]: "preview_ok (coercePreview v)"
  by (simp add: preview_ok_def coercePreview_def Let_def)

lemma mkThreadIndexEntry_wf: "mkThreadIndexEntry raw = Inr e \<Longrightarrow> wf_entry e"
  by (auto simp: mkThreadIndexEntry_def buildThreadIndexEntry_def wf_entry_def Let_def split: if_splits)

lemma coercePreview_stable:
  "preview_ok p \<Longrightarrow> (case p of None \<Rightarrow> True | Some t \<Rightarrow> trimmed t) \<Longrightarrow> coercePreview (opt_str p) = p"
  by (cases p) (simp_all add: preview_ok_def coercePreview_def trimmed_eq)

lemma distinct_entry_fields: "distinct (map fst (entry_fields e))"
  by (simp add: entry_fields_def)

lemma mkThreadIndexEntry_agree:
  assumes st: "stable_entry e" and "raw \<noteq> Null"
    and agree: "\<forall>(k, v) \<in> set (entry_fields e). getp raw k = v"
  shows "mkThreadIndexEntry raw = Inr e"
proof -
  have f: "e_threadId e \<noteq> []" "trimmed (e_threadId e)" "trimmed (e_lastActivityMsgId e)"
      "0 \<le> e_unreadCount e" "trunc (e_unreadCount e) = e_unreadCount e"
      "counts_ok (e_unreadByChannelId e)" "cursors_ok (e_lastReadByChannelId e)"
      "trimmed (e_lastReadMsgId e)" "trimmed (e_lastUnreadCountedMsgId e)" "trimmed (e_previewMsgId e)"
    using st by (simp_all add: stable_entry_def wf_entry_def)
  have p: "coercePreview (opt_str (e_lastMessagePreview e)) = e_lastMessagePreview e"
    using st by (intro coercePreview_stable) (simp_all add: stable_entry_def wf_entry_def)
  show ?thesis
    using agree assms(2)
    by (simp add: mkThreadIndexEntry_def buildThreadIndexEntry_def entry_fields_def Let_def trimmed_eq f p)
qed

lemma mkThreadIndexEntry_json: "stable_entry e \<Longrightarrow> mkThreadIndexEntry (entry_json e) = Inr e"
  by (rule mkThreadIndexEntry_agree)
    (auto simp: entry_json_def dest: getp_agree [OF distinct_entry_fields, THEN bspec])

lemma coerceRow_entry:
  assumes "stable_entry e"
  shows "coerceRow mkThreadIndexEntry (Some sd) (entry_json e) = Some e"
  unfolding entry_json_def
  by (intro coerceRow_fields mkThreadIndexEntry_agree assms getp_spread_agree distinct_entry_fields)
    (auto simp: entry_fields_def unread_json_def last_read_json_def)

end
