(* ===== verification/ThreadStore.thy ===== *)
theory ThreadStore
  imports Records_Thread
begin

text \<open>
  \<open>ThreadStoreService\<close> (\<open>src/server/storage/ChatThreadStore.js\<close>): thread rows, the bounded
  message log of a thread, the idempotency rows and the delivery-status machine. Every
  operation runs under the per-thread write chain and is one atomic step of the store. The
  clock is read once per operation.
\<close>

section \<open>Keys\<close>

definition kThread :: "string \<Rightarrow> string \<Rightarrow> string" where
  "kThread owner threadId = ''app:threads/'' @ owner @ ''/'' @ threadId"

definition kMessages :: "string \<Rightarrow> string \<Rightarrow> string" where
  "kMessages owner threadId = ''app:messages/'' @ owner @ ''/'' @ threadId"

definition idempotencyKeyHash :: "'s host \<Rightarrow> string \<Rightarrow> string \<Rightarrow> string \<Rightarrow> string" where
  "idempotencyKeyHash H threadId senderKey messageId =
     sha256Hex H (threadId @ [CHR 0x00] @ senderKey @ [CHR 0x00] @ messageId)"

definition kIdempotency :: "'s host \<Rightarrow> string \<Rightarrow> string \<Rightarrow> string \<Rightarrow> string \<Rightarrow> string" where
  "kIdempotency H owner threadId senderKey messageId =
     ''app:idempotency/'' @ owner @ ''/'' @ idempotencyKeyHash H threadId senderKey messageId"

definition kPendingMutations :: "string \<Rightarrow> string \<Rightarrow> string" where
  "kPendingMutations owner targetMessageId = ''app:pending_mutations/'' @ owner @ ''/'' @ targetMessageId"

lemma keys_apart [simp]:
  "kMessages o1 a \<noteq> kThread o2 b" "kThread o2 b \<noteq> kMessages o1 a"
  "kMessages o1 a \<noteq> kIdempotency H o2 b k i" "kIdempotency H o2 b k i \<noteq> kMessages o1 a"
  "kThread o1 a \<noteq> kIdempotency H o2 b k i" "kIdempotency H o2 b k i \<noteq> kThread o1 a"
  "kMessages o1 a \<noteq> kPendingMutations o2 b" "kPendingMutations o2 b \<noteq> kMessages o1 a"
  "kThread o1 a \<noteq> kPendingMutations o2 b" "kPendingMutations o2 b \<noteq> kThread o1 a"
  "kIdempotency H o1 a k i \<noteq> kPendingMutations o2 b" "kPendingMutations o2 b \<noteq> kIdempotency H o1 a k i"
  by (simp_all add: kMessages_def kThread_def kIdempotency_def kPendingMutations_def)

lemma key_inj [simp]:
  "kMessages ow a = kMessages ow b \<longleftrightarrow> a = b"
  "kThread ow a = kThread ow b \<longleftrightarrow> a = b"
  "kPendingMutations ow a = kPendingMutations ow b \<longleftrightarrow> a = b"
  by (simp_all add: kMessages_def kThread_def kPendingMutations_def)

section \<open>Rows\<close>

definition MAX_MESSAGES_PER_THREAD :: nat where
  "MAX_MESSAGES_PER_THREAD = 500"

definition coerceMessageRow :: "'s host \<Rightarrow> jsval \<Rightarrow> ChatMessage option" where
  "coerceMessageRow H input = coerceRow (mkChatMessage (clockMs H)) (Some [(''createdAtMs'', num (clockMs H))]) input"

definition coerceThreadRow :: "'s host \<Rightarrow> jsval \<Rightarrow> ChatThread option" where
  "coerceThreadRow H input = coerceRow mkChatThread (Some [(''createdAtMs'', num (clockMs H))]) input"

definition keepSome :: "('a \<Rightarrow> 'b option) \<Rightarrow> 'a list \<Rightarrow> 'b list" where
  "keepSome f xs = map the (filter (\<lambda>x. x \<noteq> None) (map f xs))"

lemma keepSome_simps [simp]:
  "keepSome f [] = []"
  "keepSome f (x # xs) = (case f x of None \<Rightarrow> keepSome f xs | Some y \<Rightarrow> y # keepSome f xs)"
  by (auto simp: keepSome_def split: option.splits)

lemma keepSome_map: "(\<And>x. x \<in> set xs \<Longrightarrow> f (g x) = Some x) \<Longrightarrow> keepSome f (map g xs) = xs"
  by (induction xs) auto

lemma set_keepSome: "y \<in> set (keepSome f xs) \<longleftrightarrow> (\<exists>x\<in>set xs. f x = Some y)"
  by (induction xs) (auto split: option.splits)

definition compareNewestFirst :: "'s host \<Rightarrow> ChatMessage \<Rightarrow> ChatMessage \<Rightarrow> rat" where
  "compareNewestFirst H a b =
     (let aCreated = asInt H (num (m_createdAtMs a)) 0; bCreated = asInt H (num (m_createdAtMs b)) 0 in
      if aCreated \<noteq> bCreated then bCreated - aCreated
      else localeCompare H (m_messageId b) (m_messageId a))"

record cursor =
  c_createdAtMs :: rat
  c_messageId :: string

definition isStrictlyBeforeCursor :: "'s host \<Rightarrow> ChatMessage \<Rightarrow> cursor option \<Rightarrow> bool" where
  "isStrictlyBeforeCursor H message cur =
     (case cur of None \<Rightarrow> True
      | Some c \<Rightarrow>
        let messageCreated = asInt H (num (m_createdAtMs message)) 0;
            cursorCreated = asInt H (num (c_createdAtMs c)) 0 in
        if messageCreated < cursorCreated then True
        else if messageCreated > cursorCreated then False
        else localeCompare H (m_messageId message) (c_messageId c) < 0)"

definition canTransitionStatus :: "string \<Rightarrow> string \<Rightarrow> bool" where
  "canTransitionStatus src to \<longleftrightarrow>
     src = to
     \<or> src = ''pending'' \<and> (to = ''queued'' \<or> to = ''sent'' \<or> to = ''failed'' \<or> to = ''delivered'')
     \<or> src = ''queued'' \<and> (to = ''sent'' \<or> to = ''failed'' \<or> to = ''delivered'')
     \<or> src = ''sent'' \<and> (to = ''delivered'' \<or> to = ''failed'')"

definition isReadyForMessaging :: "'s host \<Rightarrow> ChatThread \<Rightarrow> bool" where
  "isReadyForMessaging H t \<longleftrightarrow>
     (if t_threadType t = ''group'' then True
      else nonEmpty H (Str (t_peerAccountId t)) \<noteq> [] \<and> nonEmpty H (Str (t_peerInboxId t)) \<noteq> [])"

section \<open>Reading\<close>

definition loadMessages :: "'s host \<Rightarrow> string \<Rightarrow> string \<Rightarrow> 's \<Rightarrow> ChatMessage list" where
  "loadMessages H owner threadId s = keepSome (coerceMessageRow H) (elements (kvGet H s (kMessages owner threadId)))"

definition getThread :: "'s host \<Rightarrow> string \<Rightarrow> jsval \<Rightarrow> 's \<Rightarrow> ChatThread option" where
  "getThread H owner threadId s =
     (let id = nonEmpty H threadId in
      if id = [] then None else coerceThreadRow H (kvGet H s (kThread owner id)))"

definition getMessageByIdempotency :: "'s host \<Rightarrow> string \<Rightarrow> jsval \<Rightarrow> jsval \<Rightarrow> jsval \<Rightarrow> 's \<Rightarrow> ChatMessage option" where
  "getMessageByIdempotency H owner threadId senderKey messageId s =
     (let id = nonEmpty H threadId; sender = nonEmpty H senderKey; mid = nonEmpty H messageId in
      if id = [] \<or> sender = [] \<or> mid = [] then None
      else coerceMessageRow H (kvGet H s (kIdempotency H owner id sender mid)))"

record page =
  p_items :: "ChatMessage list"
  p_nextBefore :: "cursor option"

definition cursor_of :: "'s host \<Rightarrow> ChatMessage list \<Rightarrow> cursor option" where
  "cursor_of H items = (if items = [] then None
     else Some \<lparr> c_createdAtMs = asInt H (num (m_createdAtMs (last items))) 0, c_messageId = m_messageId (last items) \<rparr>)"

definition listMessages :: "'s host \<Rightarrow> string \<Rightarrow> jsval \<Rightarrow> jsval \<Rightarrow> cursor option \<Rightarrow> 's \<Rightarrow> page" where
  "listMessages H owner threadId limit before s =
     (let id = nonEmpty H threadId in
      if id = [] then \<lparr> p_items = [], p_nextBefore = None \<rparr>
      else let max_items = nat \<lfloor>max 1 (min (of_nat MAX_MESSAGES_PER_THREAD) (asInt H limit 50))\<rfloor>;
               lst = sort_by (compareNewestFirst H) (loadMessages H owner id s);
               items = take max_items (filter (\<lambda>m. isStrictlyBeforeCursor H m before) lst)
           in \<lparr> p_items = items, p_nextBefore = cursor_of H items \<rparr>)"

section \<open>Threads\<close>

record thread_args =
  a_threadId :: jsval
  a_createdAtMs :: jsval
  a_threadType :: jsval
  a_title :: jsval
  a_participants :: jsval
  a_groupId :: jsval
  a_visibilityState :: jsval
  a_accessState :: jsval
  a_peerInboxId :: jsval
  a_peerAccountId :: jsval
  a_lastActivityAtMs :: jsval

text \<open>The defaults of the destructured parameters.\<close>

definition no_args :: thread_args where
  "no_args = \<lparr> a_threadId = Undef, a_createdAtMs = Undef, a_threadType = Null, a_title = Null,
     a_participants = Null, a_groupId = Null, a_visibilityState = Null, a_accessState = Null,
     a_peerInboxId = Null, a_peerAccountId = Null, a_lastActivityAtMs = Null \<rparr>"

text \<open>\<open>nonEmpty(v) || (existing && existing.f) || null\<close> and \<open>v || (existing && existing.f)\<close>.\<close>

definition str_or :: "string \<Rightarrow> string option \<Rightarrow> jsval" where
  "str_or x e = (if x \<noteq> [] then Str x else case e of Some y \<Rightarrow> (if y \<noteq> [] then Str y else Null) | None \<Rightarrow> Null)"

definition val_or :: "jsval \<Rightarrow> string option \<Rightarrow> jsval" where
  "val_or v e = (if truthy v then v else case e of Some y \<Rightarrow> Str y | None \<Rightarrow> Null)"

definition nextCreatedAt :: "'s host \<Rightarrow> thread_args \<Rightarrow> ChatThread option \<Rightarrow> rat" where
  "nextCreatedAt H a existing = (case existing of Some t \<Rightarrow>
      (case t_createdAtMs t of Some c \<Rightarrow> c | None \<Rightarrow> asInt H (a_createdAtMs a) (clockMs H))
    | None \<Rightarrow> asInt H (a_createdAtMs a) (clockMs H))"

definition nextLastActivity :: "'s host \<Rightarrow> thread_args \<Rightarrow> ChatThread option \<Rightarrow> rat" where
  "nextLastActivity H a existing = max
     (case existing of Some t \<Rightarrow> zero_if_none (t_lastActivityAtMs t) | None \<Rightarrow> 0)
     (asInt H (a_lastActivityAtMs a) (asInt H (a_createdAtMs a) (clockMs H)))"

text \<open>The raw row, in the order of the literal that \<open>_ensureThreadUnlocked\<close> builds.\<close>

definition next_thread_row :: "'s host \<Rightarrow> thread_args \<Rightarrow> ChatThread option \<Rightarrow> string \<Rightarrow> jsval" where
  "next_thread_row H a existing providedType = Obj
     [(''threadId'', Str (nonEmpty H (a_threadId a))),
      (''threadType'', Str (case existing of Some t \<Rightarrow> t_threadType t | None \<Rightarrow> providedType)),
      (''title'', str_or (nonEmpty H (a_title a)) (map_option t_title existing)),
      (''createdAtMs'', num (nextCreatedAt H a existing)),
      (''updatedAtMs'', num (clockMs H)),
      (''lastActivityAtMs'', num (nextLastActivity H a existing)),
      (''participants'', (if truthy (a_participants a) then a_participants a
         else case existing of Some t \<Rightarrow> Arr (map Str (t_participants t)) | None \<Rightarrow> Arr [])),
      (''groupId'', str_or (nonEmpty H (a_groupId a)) (map_option t_groupId existing)),
      (''visibilityState'', val_or (a_visibilityState a) (map_option t_visibilityState existing)),
      (''accessState'', val_or (a_accessState a) (map_option t_accessState existing)),
      (''peerInboxId'', str_or (nonEmpty H (a_peerInboxId a)) (map_option t_peerInboxId existing)),
      (''peerAccountId'', str_or (nonEmpty H (a_peerAccountId a)) (map_option t_peerAccountId existing))]"

definition ensureThreadUnlocked :: "'s host \<Rightarrow> string \<Rightarrow> thread_args \<Rightarrow> ('s, ChatThread) op" where
  "ensureThreadUnlocked H owner a s =
     (let id = nonEmpty H (a_threadId a) in
      if id = [] then throw (Error ''ThreadStoreService.ensureThread requires threadId'') s
      else let existing = getThread H owner (Str id) s in
        if (case existing of Some t \<Rightarrow> t_threadType t = ''direct'' \<and> nonEmpty H (a_groupId a) \<noteq> [] | None \<Rightarrow> False)
        then throw (Error ''Thread type mismatch: existing=direct, attempted group message'') s
        else case coerceThreadType (a_threadType a) of Inl e \<Rightarrow> throw e s
        | Inr providedType \<Rightarrow>
          (case coerceThreadRow H (next_thread_row H a existing providedType) of
             None \<Rightarrow> throw (Error ''ChatThreadStore.ensureThread produced invalid row'') s
           | Some t \<Rightarrow> (Inr t, kvSet H s (kThread owner id) (thread_json t))))"

definition ensureThread :: "'s host \<Rightarrow> string \<Rightarrow> thread_args \<Rightarrow> ('s, ChatThread) op" where
  "ensureThread H owner a s =
     (let id = nonEmpty H (a_threadId a) in
      if id = [] then throw (Error ''ThreadStoreService.ensureThread requires threadId'') s
      else if nonEmpty H (a_threadType a) = [] then throw (Error ''ThreadStoreService.ensureThread requires threadType'') s
      else ensureThreadUnlocked H owner (a\<lparr>a_threadId := Str id\<rparr>) s)"

text \<open>An absent state parameter is \<open>Undef\<close>.\<close>

definition setThreadState :: "'s host \<Rightarrow> string \<Rightarrow> jsval \<Rightarrow> jsval \<Rightarrow> jsval \<Rightarrow> ('s, ChatThread option) op" where
  "setThreadState H owner threadId visibilityState accessState s =
     (let id = nonEmpty H threadId in
      if id = [] then throw (Error ''ThreadStoreService.setThreadState requires threadId'') s
      else case getThread H owner (Str id) s of None \<Rightarrow> ok None s
      | Some e \<Rightarrow>
        andThen (ensureThreadUnlocked H owner
          \<lparr> a_threadId = Str id, a_createdAtMs = opt_num (t_createdAtMs e), a_threadType = Str (t_threadType e),
            a_title = Str (t_title e), a_participants = Arr (map Str (t_participants e)), a_groupId = Str (t_groupId e),
            a_visibilityState = (if visibilityState = Undef then Str (t_visibilityState e) else visibilityState),
            a_accessState = (if accessState = Undef then Str (t_accessState e) else accessState),
            a_peerInboxId = Str (t_peerInboxId e), a_peerAccountId = Str (t_peerAccountId e),
            a_lastActivityAtMs = opt_num (t_lastActivityAtMs e) \<rparr>) (\<lambda>t. ok (Some t)) s)"

definition deleteThread :: "'s host \<Rightarrow> string \<Rightarrow> jsval \<Rightarrow> ('s, bool) op" where
  "deleteThread H owner threadId s =
     (let id = nonEmpty H threadId in
      if id = [] then throw (Error ''ThreadStoreService.deleteThread requires threadId'') s
      else case getThread H owner (Str id) s of None \<Rightarrow> ok False s
      | Some _ \<Rightarrow> ok True (kvDelete H (kvDelete H s (kThread owner id)) (kMessages owner id)))"

definition listThreadIds :: "'s host \<Rightarrow> string \<Rightarrow> 's \<Rightarrow> string list" where
  "listThreadIds H owner s =
     (let p = ''app:threads/'' @ owner @ ''/'' in
      sort_by (localeCompare H) (filter (\<lambda>id. id \<noteq> [])
        (map (\<lambda>k. nonEmpty H (Str (drop (length p) k))) (kvKeys H s p))))"

end
