(* ===== verification/MessageLog.thy ===== *)
theory MessageLog
  imports ThreadStore
begin

text \<open>
  The message log of a thread: upsert, outbound recording, delivery status, deposits,
  integrity-conflict marks and local deletion (\<open>ChatThreadStore.js\<close>). The invariant
  \<open>log_ok\<close> says that the stored value is the serialisation of at most 500 well-formed rows of
  that thread, newest first, with distinct message ids.
\<close>

section \<open>Row updates\<close>

fun findRow :: "string \<Rightarrow> ChatMessage list \<Rightarrow> ChatMessage option" where
  "findRow mid [] = None"
| "findRow mid (r # rs) = (if m_messageId r = mid then Some r else findRow mid rs)"

text \<open>\<open>rows[at] = u\<close> at the first row with that id.\<close>

fun replaceRow :: "string \<Rightarrow> ChatMessage \<Rightarrow> ChatMessage list \<Rightarrow> ChatMessage list" where
  "replaceRow mid u [] = []"
| "replaceRow mid u (r # rs) = (if m_messageId r = mid then u # rs else r # replaceRow mid u rs)"

fun removeRow :: "string \<Rightarrow> ChatMessage list \<Rightarrow> ChatMessage list" where
  "removeRow mid [] = []"
| "removeRow mid (r # rs) = (if m_messageId r = mid then rs else r # removeRow mid rs)"

definition putRow :: "ChatMessage \<Rightarrow> ChatMessage list \<Rightarrow> ChatMessage list" where
  "putRow m rows = (case findRow (m_messageId m) rows of
     Some _ \<Rightarrow> replaceRow (m_messageId m) m rows | None \<Rightarrow> rows @ [m])"

definition saveMessages :: "'s host \<Rightarrow> string \<Rightarrow> string \<Rightarrow> ChatMessage list \<Rightarrow> 's \<Rightarrow> 's" where
  "saveMessages H owner threadId rows s =
     kvSet H s (kMessages owner threadId) (Arr (map message_json (take MAX_MESSAGES_PER_THREAD rows)))"

definition saveIdempotency :: "'s host \<Rightarrow> string \<Rightarrow> string \<Rightarrow> ChatMessage \<Rightarrow> ChatMessage \<Rightarrow> 's \<Rightarrow> 's" where
  "saveIdempotency H owner threadId current updated s =
     (if m_senderKey current \<noteq> [] \<and> m_messageId current \<noteq> []
      then kvSet H s (kIdempotency H owner threadId (m_senderKey current) (m_messageId current)) (message_json updated)
      else s)"

section \<open>Operations\<close>

definition assertThreadReady :: "'s host \<Rightarrow> ChatThread option \<Rightarrow> jsval \<Rightarrow> js_error option" where
  "assertThreadReady H thread groupId =
     (case thread of
        None \<Rightarrow> Some (CodedError ''THREAD_NOT_READY'' ''Thread is not ready for messaging'')
      | Some t \<Rightarrow>
        if t_threadType t = ''direct'' \<and> nonEmpty H groupId \<noteq> []
        then Some (Error ''Thread type mismatch: existing=direct, attempted group message'')
        else if \<not> isReadyForMessaging H t
        then Some (CodedError ''THREAD_NOT_READY'' ''Thread is not ready for messaging'')
        else None)"

definition upsertMessageUnlocked :: "'s host \<Rightarrow> string \<Rightarrow> jsval \<Rightarrow> ('s, ChatMessage) op" where
  "upsertMessageUnlocked H owner input s =
     (case coerceMessageRow H input of
        None \<Rightarrow> throw (Error ''ThreadStoreService.upsertMessage requires messageId and threadId'') s
      | Some message \<Rightarrow>
        (case assertThreadReady H (getThread H owner (Str (m_threadId message)) s) (getp input ''groupId'') of
           Some e \<Rightarrow> throw e s
         | None \<Rightarrow>
           let rows = sort_by (compareNewestFirst H) (putRow message (loadMessages H owner (m_threadId message) s))
           in andThen (ensureThreadUnlocked H owner (no_args
                \<lparr> a_threadId := Str (m_threadId message), a_createdAtMs := num (m_createdAtMs message),
                  a_groupId := Str (nonEmpty H (getp input ''groupId'')),
                  a_lastActivityAtMs := num (m_createdAtMs message) \<rparr>)) (\<lambda>_. ok message)
                (saveMessages H owner (m_threadId message) rows s)))"

definition upsertMessage :: "'s host \<Rightarrow> string \<Rightarrow> jsval \<Rightarrow> ('s, ChatMessage) op" where
  "upsertMessage H owner input s =
     (case coerceMessageRow H input of
        None \<Rightarrow> throw (Error ''ThreadStoreService.upsertMessage requires messageId and threadId'') s
      | Some _ \<Rightarrow> upsertMessageUnlocked H owner input s)"

definition outbound_row :: "string \<Rightarrow> string \<Rightarrow> string \<Rightarrow> jsval \<Rightarrow> jsval \<Rightarrow> rat \<Rightarrow> (string \<times> jsval) list \<Rightarrow> jsval" where
  "outbound_row tid sender mid senderAccountId packetB64 atMs body =
     Obj ([(''messageId'', Str mid), (''threadId'', Str tid), (''packetB64'', packetB64)] @ body @
       [(''senderKey'', Str sender), (''senderAccountId'', senderAccountId), (''status'', Str ''pending''),
        (''sentAtMs'', Null), (''acceptedAtMs'', Null), (''createdAtMs'', num atMs)])"

definition recordOutboundDeposit ::
  "'s host \<Rightarrow> string \<Rightarrow> jsval \<Rightarrow> jsval \<Rightarrow> jsval \<Rightarrow> jsval \<Rightarrow> jsval \<Rightarrow> jsval \<Rightarrow> jsval \<Rightarrow> jsval \<Rightarrow> ('s, ChatMessage option) op" where
  "recordOutboundDeposit H owner threadId senderKey messageId senderAccountId packetB64 acceptedAtMs text payload s =
     (let id = nonEmpty H threadId; sender = nonEmpty H senderKey; mid = nonEmpty H messageId in
      if id = [] \<or> sender = [] \<or> mid = [] then
        throw (Error ''ThreadStoreService.recordOutboundDeposit requires threadId/senderKey/messageId'') s
      else case assertThreadReady H (getThread H owner (Str id) s) Null of Some e \<Rightarrow> throw e s
      | None \<Rightarrow>
        let canonical = coerceMessageRow H (outbound_row id sender mid senderAccountId packetB64
              (asInt H acceptedAtMs (clockMs H)) [(''text'', text), (''payload'', payload)]);
            canonical_json = (case canonical of None \<Rightarrow> Null | Some m \<Rightarrow> message_json m)
        in andThen (upsertMessageUnlocked H owner canonical_json)
             (\<lambda>_. andThen (writes (\<lambda>s. kvSet H s (kIdempotency H owner id sender mid) canonical_json))
               (\<lambda>_. ok canonical)) s)"

definition recordOutboundPending ::
  "'s host \<Rightarrow> string \<Rightarrow> jsval \<Rightarrow> jsval \<Rightarrow> jsval \<Rightarrow> jsval \<Rightarrow> jsval \<Rightarrow> jsval \<Rightarrow> ('s, ChatMessage option) op" where
  "recordOutboundPending H owner threadId senderKey messageId senderAccountId packetB64 createdAtMs s =
     (let id = nonEmpty H threadId; sender = nonEmpty H senderKey; mid = nonEmpty H messageId in
      if id = [] \<or> sender = [] \<or> mid = [] then
        throw (Error ''ThreadStoreService.recordOutboundPending requires threadId/senderKey/messageId'') s
      else case assertThreadReady H (getThread H owner (Str id) s) Null of Some e \<Rightarrow> throw e s
      | None \<Rightarrow>
        (case getMessageByIdempotency H owner (Str id) (Str sender) (Str mid) s of
           Some existing \<Rightarrow> ok (Some existing) s
         | None \<Rightarrow>
           let pending = coerceMessageRow H (outbound_row id sender mid senderAccountId packetB64
                 (asInt H createdAtMs (clockMs H)) []);
               pending_json = (case pending of None \<Rightarrow> Null | Some m \<Rightarrow> message_json m)
           in andThen (upsertMessageUnlocked H owner pending_json)
                (\<lambda>_. andThen (writes (\<lambda>s. kvSet H s (kIdempotency H owner id sender mid) pending_json))
                  (\<lambda>_. ok pending)) s))"

definition status_update :: "'s host \<Rightarrow> string \<Rightarrow> jsval \<Rightarrow> jsval \<Rightarrow> ChatMessage \<Rightarrow> ChatMessage" where
  "status_update H nextStatus sentAtMs acceptedAtMs current =
     current\<lparr> m_status := nextStatus,
       m_sentAtMs := (if nullish sentAtMs then m_sentAtMs current else Some (asInt H sentAtMs (clockMs H))),
       m_acceptedAtMs := (if nextStatus = ''delivered''
         then Some (asInt H (if nullish acceptedAtMs then sentAtMs else acceptedAtMs) (clockMs H))
         else m_acceptedAtMs current) \<rparr>"

definition setMessageStatus ::
  "'s host \<Rightarrow> string \<Rightarrow> jsval \<Rightarrow> jsval \<Rightarrow> jsval \<Rightarrow> jsval \<Rightarrow> jsval \<Rightarrow> ('s, ChatMessage option) op" where
  "setMessageStatus H owner threadId messageId status sentAtMs acceptedAtMs s =
     (let id = nonEmpty H threadId; mid = nonEmpty H messageId; nextStatus = nonEmpty H status in
      if id = [] \<or> mid = [] \<or> nextStatus = [] then
        throw (Error ''ThreadStoreService.setMessageStatus requires threadId/messageId/status'') s
      else if nextStatus \<notin> set MESSAGE_STATUSES then
        throw (Error ''ThreadStoreService.setMessageStatus invalid status'') s
      else let messages = loadMessages H owner id s in
        case findRow mid messages of None \<Rightarrow> ok None s
        | Some current \<Rightarrow>
          if \<not> canTransitionStatus (m_status current) nextStatus then
            throw (Error (''ThreadStoreService.setMessageStatus invalid transition '' @ m_status current @ '' -> '' @ nextStatus)) s
          else let updated = status_update H nextStatus sentAtMs acceptedAtMs current;
                   rows = sort_by (compareNewestFirst H) (replaceRow mid updated messages)
            in ok (Some updated) (saveIdempotency H owner id current updated (saveMessages H owner id rows s)))"

definition conflicted_row :: "'s host \<Rightarrow> ChatMessage \<Rightarrow> ChatMessage option" where
  "conflicted_row H current = coerceMessageRow H (Obj (spread (message_fields current) [(''conflicted'', Bool True)]))"

text \<open>
  A row that failed to coerce would be stored as \<open>null\<close> and dropped by the next load;
  \<open>put_coerced\<close> writes that out.
\<close>

definition put_coerced :: "string \<Rightarrow> ChatMessage option \<Rightarrow> ChatMessage list \<Rightarrow> ChatMessage list" where
  "put_coerced mid u rows = (case u of Some m \<Rightarrow> replaceRow mid m rows | None \<Rightarrow> removeRow mid rows)"

definition save_coerced_idempotency ::
  "'s host \<Rightarrow> string \<Rightarrow> string \<Rightarrow> ChatMessage \<Rightarrow> ChatMessage option \<Rightarrow> 's \<Rightarrow> 's" where
  "save_coerced_idempotency H owner threadId current u s =
     (if m_senderKey current \<noteq> [] \<and> m_messageId current \<noteq> []
      then kvSet H s (kIdempotency H owner threadId (m_senderKey current) (m_messageId current))
        (case u of Some m \<Rightarrow> message_json m | None \<Rightarrow> Null)
      else s)"

definition markMessageConflicted :: "'s host \<Rightarrow> string \<Rightarrow> jsval \<Rightarrow> jsval \<Rightarrow> 's \<Rightarrow> ChatMessage option \<times> 's" where
  "markMessageConflicted H owner threadId messageId s =
     (let id = nonEmpty H threadId; mid = nonEmpty H messageId in
      if id = [] \<or> mid = [] then (None, s)
      else let messages = loadMessages H owner id s in
        case findRow mid messages of None \<Rightarrow> (None, s)
        | Some current \<Rightarrow>
          if m_conflicted current then (Some current, s)
          else let updated = conflicted_row H current in
            (updated, save_coerced_idempotency H owner id current updated
              (saveMessages H owner id (put_coerced mid updated messages) s)))"

definition applyLocalDelete :: "'s host \<Rightarrow> string \<Rightarrow> jsval \<Rightarrow> jsval \<Rightarrow> ('s, bool) op" where
  "applyLocalDelete H owner threadId targetMessageId s =
     (let id = nonEmpty H threadId; target = nonEmpty H targetMessageId in
      if id = [] \<or> target = [] then
        throw (Error ''ThreadStoreService.applyLocalDelete requires threadId and targetMessageId'') s
      else let messages = loadMessages H owner id s in
        case findRow target messages of None \<Rightarrow> ok False s
        | Some removed \<Rightarrow>
          let s1 = saveMessages H owner id (removeRow target messages) s in
          ok True (if m_senderKey removed \<noteq> [] \<and> m_messageId removed \<noteq> []
            then kvDelete H s1 (kIdempotency H owner id (m_senderKey removed) (m_messageId removed)) else s1))"

section \<open>The log invariant\<close>

definition rows_ok :: "string \<Rightarrow> ChatMessage list \<Rightarrow> bool" where
  "rows_ok threadId rows \<longleftrightarrow> (\<forall>m\<in>set rows. wf_message m \<and> m_threadId m = threadId)
     \<and> distinct (map m_messageId rows)"

definition log_ok :: "'s host \<Rightarrow> string \<Rightarrow> string \<Rightarrow> 's \<Rightarrow> bool" where
  "log_ok H owner threadId s \<longleftrightarrow>
     (let rows = loadMessages H owner threadId s in
      elements (kvGet H s (kMessages owner threadId)) = map message_json rows \<and>
      rows_ok threadId rows \<and> length rows \<le> MAX_MESSAGES_PER_THREAD \<and> sorted_by (compareNewestFirst H) rows)"

lemma findRow_Some: "findRow mid rows = Some r \<Longrightarrow> r \<in> set rows \<and> m_messageId r = mid"
  by (induction rows) (auto split: if_splits)

lemma findRow_None: "findRow mid rows = None \<longleftrightarrow> mid \<notin> m_messageId ` set rows"
  by (induction rows) auto

lemma findRow_distinct:
  "distinct (map m_messageId rows) \<Longrightarrow> r \<in> set rows \<Longrightarrow> findRow (m_messageId r) rows = Some r"
  by (induction rows) auto

lemma map_id_replaceRow [simp]:
  "m_messageId u = mid \<Longrightarrow> map m_messageId (replaceRow mid u rows) = map m_messageId rows"
  by (induction rows) auto

lemma length_replaceRow [simp]: "length (replaceRow mid u rows) = length rows"
  by (induction rows) auto

lemma set_replaceRow:
  "distinct (map m_messageId rows) \<Longrightarrow> mid \<in> m_messageId ` set rows \<Longrightarrow>
   set (replaceRow mid u rows) = insert u {r \<in> set rows. m_messageId r \<noteq> mid}"
proof (induction rows)
  case (Cons a rows)
  show ?case
  proof (cases "m_messageId a = mid")
    case True
    then have "{r \<in> set rows. m_messageId r \<noteq> mid} = set rows"
      using Cons.prems(1) by (auto simp: image_iff)
    with True show ?thesis by auto
  next
    case False
    then show ?thesis using Cons by auto
  qed
qed simp

lemma removeRow_filter:
  "distinct (map m_messageId rows) \<Longrightarrow> removeRow mid rows = filter (\<lambda>r. m_messageId r \<noteq> mid) rows"
proof (induction rows)
  case (Cons r rows)
  show ?case
  proof (cases "m_messageId r = mid")
    case True
    then have "filter (\<lambda>r. m_messageId r \<noteq> mid) rows = rows"
      using Cons.prems by (auto simp: filter_id_conv image_iff)
    with True show ?thesis by simp
  next
    case False
    then show ?thesis using Cons by simp
  qed
qed simp

lemma set_removeRow:
  "distinct (map m_messageId rows) \<Longrightarrow> set (removeRow mid rows) = {r \<in> set rows. m_messageId r \<noteq> mid}"
  by (simp add: removeRow_filter)

lemma length_removeRow: "length (removeRow mid rows) \<le> length rows"
  by (induction rows) auto

lemma set_replaceRow_subset: "set (replaceRow mid u rows) \<subseteq> insert u (set rows)"
  by (induction rows) auto

lemma rows_ok_replaceRow:
  assumes "rows_ok threadId rows" and "wf_message u" and "m_threadId u = threadId" and "m_messageId u = mid"
  shows "rows_ok threadId (replaceRow mid u rows)"
  using assms set_replaceRow_subset [of mid u rows] by (auto simp: rows_ok_def)

lemma putRow_new:
  assumes "findRow (m_messageId m) rows = None"
  shows "putRow m rows = rows @ [m]" and "m_messageId m \<notin> m_messageId ` set rows"
  using assms by (simp add: putRow_def) (use assms in \<open>simp only: findRow_None not_False_eq_True\<close>)

lemma rows_ok_putRow:
  assumes "rows_ok threadId rows" and "wf_message m" and "m_threadId m = threadId"
  shows "rows_ok threadId (putRow m rows)"
proof (cases "findRow (m_messageId m) rows")
  case None
  then have "putRow m rows = rows @ [m]" and "m_messageId m \<notin> m_messageId ` set rows"
    by (rule putRow_new)+
  then show ?thesis using assms by (auto simp: rows_ok_def)
next
  case (Some r)
  then show ?thesis using assms by (simp add: putRow_def rows_ok_replaceRow)
qed

lemma rows_ok_sort [simp]: "rows_ok threadId (sort_by c rows) = rows_ok threadId rows"
  by (simp add: rows_ok_def)

lemma rows_ok_take: "rows_ok threadId rows \<Longrightarrow> rows_ok threadId (take n rows)"
  by (auto simp: rows_ok_def dest: in_set_takeD simp flip: take_map intro: distinct_take)

lemma set_putRow:
  assumes "distinct (map m_messageId rows)"
  shows "set (putRow m rows) = insert m {r \<in> set rows. m_messageId r \<noteq> m_messageId m}"
proof (cases "findRow (m_messageId m) rows")
  case None
  then have "putRow m rows = rows @ [m]" and "m_messageId m \<notin> m_messageId ` set rows"
    by (rule putRow_new)+
  then show ?thesis by (auto simp: image_iff)
next
  case (Some r)
  then have "m_messageId m \<in> m_messageId ` set rows"
    by (metis findRow_Some image_eqI)
  with Some assms show ?thesis by (simp add: putRow_def set_replaceRow)
qed

lemma coerceMessageRow_json [simp]: "wf_message m \<Longrightarrow> coerceMessageRow H (message_json m) = Some m"
  by (simp add: coerceMessageRow_def coerceRow_message)

lemma coerceRow_Some:
  "coerceRow mk sd v = Some r \<Longrightarrow> \<exists>raw. mk raw = Inr r"
  by (auto simp: coerceRow_def split: if_splits option.splits sum.splits)

lemma coerceMessageRow_wf: "coerceMessageRow H v = Some m \<Longrightarrow> wf_message m"
  unfolding coerceMessageRow_def by (auto dest!: coerceRow_Some intro: mkChatMessage_wf)

lemma coerceThreadRow_wf: "coerceThreadRow H v = Some t \<Longrightarrow> wf_thread t"
  unfolding coerceThreadRow_def by (auto dest!: coerceRow_Some intro: mkChatThread_wf)

lemma loadMessages_wf: "m \<in> set (loadMessages H owner tid s) \<Longrightarrow> wf_message m"
  by (auto simp: loadMessages_def set_keepSome dest: coerceMessageRow_wf)

context host_laws
begin

lemma load_save:
  assumes "\<forall>m\<in>set rows. wf_message m"
  shows "loadMessages H owner tid (saveMessages H owner tid rows s) = take MAX_MESSAGES_PER_THREAD rows"
proof -
  have "keepSome (coerceMessageRow H) (map message_json (take MAX_MESSAGES_PER_THREAD rows))
      = take MAX_MESSAGES_PER_THREAD rows"
    using assms by (intro keepSome_map) (auto dest: in_set_takeD)
  then show ?thesis by (simp add: loadMessages_def saveMessages_def)
qed

lemma stored_save:
  "elements (kvGet H (saveMessages H owner tid rows s) (kMessages owner tid))
     = map message_json (take MAX_MESSAGES_PER_THREAD rows)"
  by (simp add: saveMessages_def)

lemma load_save_other:
  "tid' \<noteq> tid \<Longrightarrow> loadMessages H owner tid' (saveMessages H owner tid rows s) = loadMessages H owner tid' s"
  by (simp add: loadMessages_def saveMessages_def get_set)

lemma load_other_key:
  "k \<noteq> kMessages owner tid \<Longrightarrow> loadMessages H owner tid (kvSet H s k v) = loadMessages H owner tid s"
  by (simp add: loadMessages_def get_set)

lemma load_saveIdempotency [simp]:
  "loadMessages H owner tid (saveIdempotency H owner tid' c u s) = loadMessages H owner tid s"
  "loadMessages H owner tid (save_coerced_idempotency H owner tid' c x s) = loadMessages H owner tid s"
  by (simp_all add: saveIdempotency_def save_coerced_idempotency_def load_other_key)

lemma getThread_saveMessages [simp]:
  "getThread H owner t (saveMessages H owner tid rows s) = getThread H owner t s"
  by (simp add: getThread_def saveMessages_def get_set Let_def)

lemma newest_comparator: "comparator (compareNewestFirst H)"
proof -
  have "comparator (\<lambda>a b. if asInt H (num (m_createdAtMs b)) 0 - asInt H (num (m_createdAtMs a)) 0 \<noteq> 0
      then asInt H (num (m_createdAtMs b)) 0 - asInt H (num (m_createdAtMs a)) 0
      else localeCompare H (m_messageId b) (m_messageId a))"
    by (intro comparator_lex comparator_flip [OF comparator_key]
        comparator_flip [OF comparator_on [OF collation]])
  moreover have "compareNewestFirst H = (\<lambda>a b. if asInt H (num (m_createdAtMs b)) 0 - asInt H (num (m_createdAtMs a)) 0 \<noteq> 0
      then asInt H (num (m_createdAtMs b)) 0 - asInt H (num (m_createdAtMs a)) 0
      else localeCompare H (m_messageId b) (m_messageId a))"
    by (auto simp: compareNewestFirst_def fun_eq_iff Let_def)
  ultimately show ?thesis by simp
qed

end

text \<open>The rows of a log are sorted by the comparator whose contract the host's collation gives.\<close>

sublocale host_laws \<subseteq> newest: comparator "compareNewestFirst H"
  by (rule newest_comparator)

context host_laws
begin

text \<open>Every write of the log goes through one of these two.\<close>

lemma log_ok_save_same_order:
  assumes "rows_ok tid rows" and "sorted_by (compareNewestFirst H) rows"
  shows "log_ok H owner tid (saveMessages H owner tid rows s)"
proof -
  have "\<forall>m\<in>set rows. wf_message m" using assms by (auto simp: rows_ok_def)
  from load_save [OF this] show ?thesis
    using assms by (simp add: log_ok_def rows_ok_take sorted_wrt_take stored_save)
qed

lemma log_ok_save_sorted:
  "rows_ok tid rows \<Longrightarrow> log_ok H owner tid (saveMessages H owner tid (sort_by (compareNewestFirst H) rows) s)"
  by (intro log_ok_save_same_order) (simp_all add: newest.sorted_sort_by)

lemma log_ok_frame:
  assumes "kvGet H s' (kMessages owner tid) = kvGet H s (kMessages owner tid)"
  shows "log_ok H owner tid s' = log_ok H owner tid s"
  using assms by (simp add: log_ok_def loadMessages_def)

lemma log_ok_save_other:
  "tid' \<noteq> tid \<Longrightarrow> log_ok H owner tid' (saveMessages H owner tid rows s) = log_ok H owner tid' s"
  by (rule log_ok_frame) (simp add: saveMessages_def get_set)

lemma log_ok_other_key [simp]:
  "(\<And>t. k \<noteq> kMessages owner t) \<Longrightarrow> log_ok H owner tid (kvSet H s k v) = log_ok H owner tid s"
  "(\<And>t. k \<noteq> kMessages owner t) \<Longrightarrow> log_ok H owner tid (kvDelete H s k) = log_ok H owner tid s"
  by (rule log_ok_frame, metis get_set, rule log_ok_frame, metis get_delete)

lemma log_ok_saveIdempotency [simp]:
  "log_ok H owner tid (saveIdempotency H owner tid' c u s) = log_ok H owner tid s"
  "log_ok H owner tid (save_coerced_idempotency H owner tid' c x s) = log_ok H owner tid s"
  by (simp_all add: saveIdempotency_def save_coerced_idempotency_def)

end

lemma log_okD:
  assumes "log_ok H owner tid s"
  shows "rows_ok tid (loadMessages H owner tid s)"
    and "length (loadMessages H owner tid s) \<le> MAX_MESSAGES_PER_THREAD"
    and "sorted_by (compareNewestFirst H) (loadMessages H owner tid s)"
  using assms by (simp_all add: log_ok_def Let_def)

end
