(* ===== verification/Mutations.thy ===== *)
theory Mutations
  imports MessageLog
begin

text \<open>
  Edits, tombstones and reactions of \<open>ChatThreadStore.js\<close>: the three cores, the buffer of
  mutations that arrive before their target, its draining when the target is deposited, the
  deposit itself, and the clean-up of stale buffers.
\<close>

section \<open>The cores\<close>

record mutResult =
  r_applied :: bool
  r_rejected :: bool
  r_reason :: "string option"
  r_message :: "ChatMessage option"

definition not_applied :: "bool \<Rightarrow> string \<Rightarrow> ChatMessage option \<Rightarrow> mutResult" where
  "not_applied rejected reason m = \<lparr> r_applied = False, r_rejected = rejected, r_reason = Some reason, r_message = m \<rparr>"

definition applied_result :: "ChatMessage option \<Rightarrow> mutResult" where
  "applied_result m = \<lparr> r_applied = True, r_rejected = False, r_reason = None, r_message = m \<rparr>"

text \<open>The common tail of the cores: write the re-coerced row back, re-sort, save, mirror.\<close>

definition commitRow :: "'s host \<Rightarrow> string \<Rightarrow> string \<Rightarrow> ChatMessage \<Rightarrow> ChatMessage option \<Rightarrow> ChatMessage list \<Rightarrow> 's \<Rightarrow> mutResult \<times> 's" where
  "commitRow H owner threadId current updated messages s =
     (applied_result updated,
      save_coerced_idempotency H owner threadId current updated
        (saveMessages H owner threadId
          (sort_by (compareNewestFirst H) (put_coerced (m_messageId current) updated messages)) s))"

definition edited_row :: "'s host \<Rightarrow> jsval \<Rightarrow> rat \<Rightarrow> ChatMessage \<Rightarrow> ChatMessage option" where
  "edited_row H newText editedAt current = coerceMessageRow H (Obj (spread (message_fields current)
     [(''text'', Str (string_or_empty newText)),
      (''payload'', (if is_object (m_payload current)
         then Obj (spread (own_props (m_payload current)) [(''text'', Str (string_or_empty newText))])
         else m_payload current)),
      (''editedAtMs'', num editedAt)]))"

definition tombstoned_row :: "'s host \<Rightarrow> rat \<Rightarrow> ChatMessage \<Rightarrow> ChatMessage option" where
  "tombstoned_row H at_ms current = coerceMessageRow H (Obj (spread (message_fields current)
     [(''text'', Str []), (''payload'', Null), (''tombstonedAtMs'', num at_ms)]))"

definition reacted_row :: "'s host \<Rightarrow> (string \<times> string list) list \<Rightarrow> ChatMessage \<Rightarrow> ChatMessage option" where
  "reacted_row H reactions current = coerceMessageRow H (Obj (spread (message_fields current)
     [(''reactions'', reactions_json reactions)]))"

definition is_tombstoned :: "ChatMessage \<Rightarrow> bool" where
  "is_tombstoned m \<longleftrightarrow> truthy (opt_num (m_tombstonedAtMs m))"

definition unauthorized :: "'s host \<Rightarrow> ChatMessage \<Rightarrow> jsval \<Rightarrow> bool" where
  "unauthorized H current senderAccountId \<longleftrightarrow>
     (let expectedSender = nonEmpty H (Str (m_senderAccountId current)) in
      expectedSender \<noteq> [] \<and> expectedSender \<noteq> nonEmpty H senderAccountId)"

definition applyEditCore ::
  "'s host \<Rightarrow> string \<Rightarrow> jsval \<Rightarrow> jsval \<Rightarrow> jsval \<Rightarrow> jsval \<Rightarrow> jsval \<Rightarrow> 's \<Rightarrow> mutResult \<times> 's" where
  "applyEditCore H owner threadId targetMessageId senderAccountId newText editedAtMs s =
     (let tid = nonEmpty H threadId; target = nonEmpty H targetMessageId in
      if tid = [] \<or> target = [] then (not_applied True ''invalid_input'' None, s)
      else let messages = loadMessages H owner tid s in
        case findRow target messages of
          None \<Rightarrow> (not_applied False ''target_not_found'' None, s)
        | Some current \<Rightarrow>
          if is_tombstoned current then (not_applied True ''tombstoned'' (Some current), s)
          else if unauthorized H current senderAccountId then (not_applied True ''unauthorized'' (Some current), s)
          else let incomingEditedAt = asInt H editedAtMs 0;
                   currentEditedAt = asInt H (opt_num (m_editedAtMs current)) 0 in
            if incomingEditedAt \<le> 0 then (not_applied True ''invalid_editedAtMs'' (Some current), s)
            else if currentEditedAt \<noteq> 0 \<and> currentEditedAt \<ge> incomingEditedAt
            then (not_applied False ''stale'' (Some current), s)
            else commitRow H owner tid current (edited_row H newText incomingEditedAt current) messages s)"

definition applyTombstoneCore ::
  "'s host \<Rightarrow> string \<Rightarrow> jsval \<Rightarrow> jsval \<Rightarrow> jsval \<Rightarrow> jsval \<Rightarrow> 's \<Rightarrow> mutResult \<times> 's" where
  "applyTombstoneCore H owner threadId targetMessageId senderAccountId tombstonedAtMs s =
     (let tid = nonEmpty H threadId; target = nonEmpty H targetMessageId in
      if tid = [] \<or> target = [] then (not_applied True ''invalid_input'' None, s)
      else let messages = loadMessages H owner tid s in
        case findRow target messages of
          None \<Rightarrow> (not_applied False ''target_not_found'' None, s)
        | Some current \<Rightarrow>
          if unauthorized H current senderAccountId then (not_applied True ''unauthorized'' (Some current), s)
          else if is_tombstoned current then (not_applied False ''already_tombstoned'' (Some current), s)
          else let incomingAt = asInt H tombstonedAtMs 0 in
            if incomingAt \<le> 0 then (not_applied True ''invalid_tombstonedAtMs'' (Some current), s)
            else commitRow H owner tid current (tombstoned_row H incomingAt current) messages s)"

text \<open>
  \<open>new Set(nextReactions[e] || [])\<close>: an own entry, nothing, or, for a name every object
  inherits, a value that is not iterable (the constructor throws).
\<close>

definition reactors :: "(string \<times> string list) list \<Rightarrow> string \<Rightarrow> js_error + string list" where
  "reactors rs e = (case map_of rs e of Some ss \<Rightarrow> Inr ss
     | None \<Rightarrow> if inherited e then Inl TypeError else Inr [])"

definition react :: "string \<Rightarrow> string \<Rightarrow> string list \<Rightarrow> string list" where
  "react op sender ss =
     (if op = ''add'' \<and> sender \<notin> set ss then ss @ [sender]
      else if op = ''remove'' \<and> sender \<in> set ss then removeAll sender ss else ss)"

definition next_reactions :: "string \<Rightarrow> string list \<Rightarrow> (string \<times> string list) list \<Rightarrow> (string \<times> string list) list" where
  "next_reactions e cur rs = (if cur = [] then AList.delete e rs else AList.update e cur rs)"

definition applyReactionCore ::
  "'s host \<Rightarrow> string \<Rightarrow> jsval \<Rightarrow> jsval \<Rightarrow> jsval \<Rightarrow> jsval \<Rightarrow> jsval \<Rightarrow> ('s, mutResult) op" where
  "applyReactionCore H owner threadId targetMessageId senderAccountId emoji oper s =
     (let tid = nonEmpty H threadId; target = nonEmpty H targetMessageId;
          sender = nonEmpty H senderAccountId; e = nonEmpty H emoji in
      if tid = [] \<or> target = [] \<or> sender = [] \<or> e = [] \<or> oper \<noteq> Str ''add'' \<and> oper \<noteq> Str ''remove''
      then ok (not_applied True ''invalid_input'' None) s
      else let messages = loadMessages H owner tid s in
        case findRow target messages of
          None \<Rightarrow> ok (not_applied False ''target_not_found'' None) s
        | Some current \<Rightarrow>
          let nextReactions = coerceReactions (reactions_json (m_reactions current)) in
          case reactors nextReactions e of Inl err \<Rightarrow> throw err s
          | Inr senders \<Rightarrow>
            let had = (sender \<in> set senders); oper_name = string_or_empty oper in
            if oper_name = ''add'' \<and> had \<or> oper_name = ''remove'' \<and> \<not> had
            then ok (not_applied False ''no_change'' (Some current)) s
            else let currentSet = react oper_name sender senders;
                     updated = reacted_row H (next_reactions e currentSet nextReactions) current in
              (case commitRow H owner tid current updated messages s of (r, s') \<Rightarrow> (Inr r, s')))"

section \<open>The buffer of early mutations\<close>

definition MAX_PENDING_MUTATIONS_PER_TARGET :: nat where
  "MAX_PENDING_MUTATIONS_PER_TARGET = 64"

definition PENDING_MUTATION_TTL_MS :: rat where
  "PENDING_MUTATION_TTL_MS = 30 * 24 * 60 * 60 * 1000"

definition byReceived :: "PendingMutation \<Rightarrow> PendingMutation \<Rightarrow> rat" where
  "byReceived a b = pm_receivedAtMs a - pm_receivedAtMs b"

definition loadPendingMutations :: "'s host \<Rightarrow> string \<Rightarrow> string \<Rightarrow> 's \<Rightarrow> PendingMutation list" where
  "loadPendingMutations H owner target s =
     keepSome (coerceRow mkPendingMutation None) (elements (kvGet H s (kPendingMutations owner target)))"

definition last_n :: "nat \<Rightarrow> 'a list \<Rightarrow> 'a list" where
  "last_n n xs = drop (length xs - n) xs"

definition writePendingMutations :: "'s host \<Rightarrow> string \<Rightarrow> string \<Rightarrow> PendingMutation list \<Rightarrow> 's \<Rightarrow> 's" where
  "writePendingMutations H owner target ms s =
     (if ms = [] then kvDelete H s (kPendingMutations owner target)
      else kvSet H s (kPendingMutations owner target)
        (Arr (map mutation_json (last_n MAX_PENDING_MUTATIONS_PER_TARGET ms))))"

definition bufferMutationUnlocked :: "'s host \<Rightarrow> string \<Rightarrow> PendingMutation \<Rightarrow> 's \<Rightarrow> 's" where
  "bufferMutationUnlocked H owner pm s =
     (let current = loadPendingMutations H owner (pm_targetMessageId pm) s in
      writePendingMutations H owner (pm_targetMessageId pm) (sort_by byReceived (current @ [pm])) s)"

text \<open>One buffered mutation re-applied to its target; the mutation's own \<open>threadId\<close> is not consulted.\<close>

definition applyPending :: "'s host \<Rightarrow> string \<Rightarrow> string \<Rightarrow> string \<Rightarrow> PendingMutation \<Rightarrow> ('s, mutResult) op" where
  "applyPending H owner threadId target pm s =
     (if pm_kind pm = ''edit'' then
        (case applyEditCore H owner (Str threadId) (Str target) (Str (pm_senderAccountId pm))
          (Str (pm_newText pm)) (num (pm_editedAtMs pm)) s of (r, s') \<Rightarrow> (Inr r, s'))
      else if pm_kind pm = ''tombstone'' then
        (case applyTombstoneCore H owner (Str threadId) (Str target) (Str (pm_senderAccountId pm))
          (num (pm_tombstonedAtMs pm)) s of (r, s') \<Rightarrow> (Inr r, s'))
      else applyReactionCore H owner (Str threadId) (Str target) (Str (pm_senderAccountId pm))
        (Str (pm_emoji pm)) (Str (if pm_kind pm = ''reaction.add'' then ''add'' else ''remove'')) s)"

fun drainLoop ::
  "'s host \<Rightarrow> string \<Rightarrow> string \<Rightarrow> string \<Rightarrow> PendingMutation list \<Rightarrow> ChatMessage option \<Rightarrow> ('s, ChatMessage option) op" where
  "drainLoop H owner threadId target [] latest s = (Inr latest, s)"
| "drainLoop H owner threadId target (pm # pms) latest s =
     (case applyPending H owner threadId target pm s of
        (Inl e, s') \<Rightarrow> (Inl e, s')
      | (Inr r, s') \<Rightarrow> drainLoop H owner threadId target pms
          (case r_message r of Some m \<Rightarrow> Some m | None \<Rightarrow> latest) s')"

definition drainPendingMutationsUnlocked :: "'s host \<Rightarrow> string \<Rightarrow> jsval \<Rightarrow> jsval \<Rightarrow> ('s, ChatMessage option) op" where
  "drainPendingMutationsUnlocked H owner threadId targetMessageId s =
     (let tid = nonEmpty H threadId; target = nonEmpty H targetMessageId in
      if tid = [] \<or> target = [] then ok None s
      else let pending = loadPendingMutations H owner target s in
        if pending = [] then ok None s
        else andThen (drainLoop H owner tid target (sort_by byReceived pending) None)
          (\<lambda>latest. andThen (writes (writePendingMutations H owner target [])) (\<lambda>_. ok latest)) s)"

text \<open>\<open>age < 0 || age > TTL\<close> drops a record; a key left without records is deleted.\<close>

definition fresh :: "rat \<Rightarrow> PendingMutation \<Rightarrow> bool" where
  "fresh now pm \<longleftrightarrow> (let age = now - pm_receivedAtMs pm in \<not> (age < 0 \<or> age > PENDING_MUTATION_TTL_MS))"

definition cleanupKey :: "'s host \<Rightarrow> 's \<Rightarrow> string \<Rightarrow> 's" where
  "cleanupKey H s key =
     (let raw = kvGet H s key in
      if \<not> is_array raw then kvDelete H s key
      else let rehydrated = filter (fresh (clockMs H)) (keepSome (coerceRow mkPendingMutation None) (elements raw)) in
        if rehydrated = [] then kvDelete H s key
        else if length rehydrated \<noteq> length (elements raw) then kvSet H s key (Arr (map mutation_json rehydrated))
        else s)"

definition cleanupStalePendingMutations :: "'s host \<Rightarrow> string \<Rightarrow> 's \<Rightarrow> 's" where
  "cleanupStalePendingMutations H owner s =
     foldl (cleanupKey H) s (kvKeys H s (''app:pending_mutations/'' @ owner @ ''/''))"

section \<open>Public mutations\<close>

definition buffered_mutation ::
  "'s host \<Rightarrow> string \<Rightarrow> string \<Rightarrow> string \<Rightarrow> jsval \<Rightarrow> jsval \<Rightarrow> (string \<times> jsval) list \<Rightarrow> js_error + PendingMutation" where
  "buffered_mutation H kind tid target senderAccountId receivedAtMs extra =
     mkPendingMutation (Obj ([(''kind'', Str kind), (''threadId'', Str tid), (''targetMessageId'', Str target),
       (''senderAccountId'', Str (nonEmpty H senderAccountId))] @ extra
       @ [(''receivedAtMs'', num (asInt H receivedAtMs (clockMs H)))]))"

text \<open>
  \<open>if (!result.applied && result.reason === "target_not_found" && allowBuffer)\<close>: buffer and
  answer \<open>buffered\<close>; the record constructor may throw.
\<close>

definition bufferIfEarly ::
  "'s host \<Rightarrow> string \<Rightarrow> bool \<Rightarrow> (js_error + PendingMutation) \<Rightarrow> mutResult \<Rightarrow> ('s, mutResult \<times> bool) op" where
  "bufferIfEarly H owner allowBuffer pm result s =
     (if \<not> r_applied result \<and> r_reason result = Some ''target_not_found'' \<and> allowBuffer
      then (case pm of Inl e \<Rightarrow> throw e s | Inr p \<Rightarrow> ok (result, True) (bufferMutationUnlocked H owner p s))
      else ok (result, False) s)"

definition applyEdit ::
  "'s host \<Rightarrow> string \<Rightarrow> jsval \<Rightarrow> jsval \<Rightarrow> jsval \<Rightarrow> jsval \<Rightarrow> jsval \<Rightarrow> jsval \<Rightarrow> bool \<Rightarrow> ('s, mutResult \<times> bool) op" where
  "applyEdit H owner threadId targetMessageId senderAccountId newText editedAtMs receivedAtMs allowBuffer s =
     (let tid = nonEmpty H threadId; target = nonEmpty H targetMessageId in
      if tid = [] \<or> target = [] then
        throw (Error ''ThreadStoreService.applyEdit requires threadId and targetMessageId'') s
      else (case applyEditCore H owner (Str tid) (Str target) senderAccountId newText editedAtMs s of (result, s') \<Rightarrow>
        bufferIfEarly H owner allowBuffer
          (buffered_mutation H ''edit'' tid target senderAccountId receivedAtMs
            [(''newText'', Str (string_or_empty newText)), (''editedAtMs'', num (asInt H editedAtMs 0))]) result s'))"

definition applyTombstone ::
  "'s host \<Rightarrow> string \<Rightarrow> jsval \<Rightarrow> jsval \<Rightarrow> jsval \<Rightarrow> jsval \<Rightarrow> jsval \<Rightarrow> bool \<Rightarrow> ('s, mutResult \<times> bool) op" where
  "applyTombstone H owner threadId targetMessageId senderAccountId tombstonedAtMs receivedAtMs allowBuffer s =
     (let tid = nonEmpty H threadId; target = nonEmpty H targetMessageId in
      if tid = [] \<or> target = [] then
        throw (Error ''ThreadStoreService.applyTombstone requires threadId and targetMessageId'') s
      else (case applyTombstoneCore H owner (Str tid) (Str target) senderAccountId tombstonedAtMs s of (result, s') \<Rightarrow>
        bufferIfEarly H owner allowBuffer
          (buffered_mutation H ''tombstone'' tid target senderAccountId receivedAtMs
            [(''tombstonedAtMs'', num (asInt H tombstonedAtMs 0))]) result s'))"

definition applyReaction ::
  "'s host \<Rightarrow> string \<Rightarrow> jsval \<Rightarrow> jsval \<Rightarrow> jsval \<Rightarrow> jsval \<Rightarrow> jsval \<Rightarrow> jsval \<Rightarrow> bool \<Rightarrow> ('s, mutResult \<times> bool) op" where
  "applyReaction H owner threadId targetMessageId senderAccountId emoji oper receivedAtMs allowBuffer s =
     (let tid = nonEmpty H threadId; target = nonEmpty H targetMessageId in
      if tid = [] \<or> target = [] then
        throw (Error ''ThreadStoreService.applyReaction requires threadId and targetMessageId'') s
      else andThen (applyReactionCore H owner (Str tid) (Str target) senderAccountId emoji oper) (\<lambda>result.
        bufferIfEarly H owner allowBuffer
          (buffered_mutation H (if oper = Str ''add'' then ''reaction.add'' else ''reaction.remove'') tid target
            senderAccountId receivedAtMs [(''emoji'', Str (nonEmpty H emoji))]) result) s)"

section \<open>Deposits\<close>

record depositResult =
  d_inserted :: bool
  d_message :: "ChatMessage option"
  d_mutated :: bool
  d_conflict :: bool

record deposit =
  dep_messageId :: jsval
  dep_threadId :: jsval
  dep_senderKey :: jsval
  dep_packetB64 :: jsval
  dep_acceptedAtMs :: jsval
  dep_senderAccountId :: jsval
  dep_status :: jsval
  dep_text :: jsval
  dep_payload :: jsval
  dep_inReplyToMessageId :: jsval

text \<open>\<open>payload && typeof payload === "object" ? nonEmpty(payload.contentHash) : ""\<close>.\<close>

definition contentHash :: "'s host \<Rightarrow> jsval \<Rightarrow> string" where
  "contentHash H payload = (if is_object payload then nonEmpty H (getp payload ''contentHash'') else [])"

definition initial_status :: "jsval \<Rightarrow> string" where
  "initial_status v = (let t = nonEmptyString v in if t \<in> set MESSAGE_STATUSES then t else ''delivered'')"

text \<open>The row a deposit stores, as the literal handed to \<open>_upsertMessageUnlocked\<close>.\<close>

definition deposit_row :: "'s host \<Rightarrow> string \<Rightarrow> string \<Rightarrow> deposit \<Rightarrow> jsval" where
  "deposit_row H tid effectiveMid d =
     (let createdAt = asInt H (dep_acceptedAtMs d) (clockMs H); status = initial_status (dep_status d) in Obj
       [(''messageId'', Str effectiveMid), (''threadId'', Str tid), (''packetB64'', dep_packetB64 d),
        (''text'', dep_text d), (''payload'', dep_payload d), (''senderKey'', Str (nonEmpty H (dep_senderKey d))),
        (''senderAccountId'', Str (nonEmpty H (dep_senderAccountId d))), (''status'', Str status),
        (''sentAtMs'', if status = ''pending'' then Null else num createdAt),
        (''acceptedAtMs'', if status = ''delivered'' then num createdAt else Null),
        (''createdAtMs'', num createdAt), (''inReplyToMessageId'', dep_inReplyToMessageId d)])"

definition depositNew :: "'s host \<Rightarrow> string \<Rightarrow> string \<Rightarrow> string \<Rightarrow> string \<Rightarrow> deposit \<Rightarrow> ('s, depositResult) op" where
  "depositNew H owner tid mid effectiveMid d =
     andThen (upsertMessageUnlocked H owner (deposit_row H tid effectiveMid d)) (\<lambda>stored.
     andThen (writes (\<lambda>s. if nonEmpty H (dep_senderKey d) = [] then s
         else kvSet H s (kIdempotency H owner tid (nonEmpty H (dep_senderKey d)) mid) (message_json stored))) (\<lambda>_.
     andThen (drainPendingMutationsUnlocked H owner (Str tid) (Str effectiveMid)) (\<lambda>drained.
       ok \<lparr> d_inserted = True,
            d_message = (case drained of Some m \<Rightarrow> Some m | None \<Rightarrow> Some stored),
            d_mutated = (drained \<noteq> None), d_conflict = False \<rparr>)))"

definition already_present :: "ChatMessage \<Rightarrow> depositResult" where
  "already_present m = \<lparr> d_inserted = False, d_message = Some m, d_mutated = False, d_conflict = False \<rparr>"

definition upsertDepositedMessage :: "'s host \<Rightarrow> string \<Rightarrow> deposit \<Rightarrow> ('s, depositResult) op" where
  "upsertDepositedMessage H owner d s =
     (let tid = nonEmpty H (dep_threadId d); mid = nonEmpty H (dep_messageId d) in
      if tid = [] \<or> mid = [] then
        throw (Error ''ThreadStoreService.upsertDepositedMessage requires messageId and threadId'') s
      else case assertThreadReady H (getThread H owner (Str tid) s) Null of Some e \<Rightarrow> throw e s
      | None \<Rightarrow>
        let existingMessages = loadMessages H owner tid s; incomingSender = nonEmpty H (dep_senderAccountId d) in
        (case findRow mid existingMessages of
           None \<Rightarrow> depositNew H owner tid mid mid d s
         | Some existing \<Rightarrow>
           let existingSender = nonEmpty H (Str (m_senderAccountId existing)) in
           if incomingSender = [] \<or> existingSender = [] \<or> existingSender = incomingSender then
             (let incomingHash = contentHash H (dep_payload d); existingHash = contentHash H (m_payload existing) in
              if incomingHash \<noteq> [] \<and> existingHash \<noteq> [] \<and> incomingHash \<noteq> existingHash
                 \<and> incomingSender \<noteq> [] \<and> existingSender = incomingSender
              then let flagged = conflicted_row H existing in
                ok \<lparr> d_inserted = False, d_message = flagged, d_mutated = False, d_conflict = True \<rparr>
                  (save_coerced_idempotency H owner tid existing flagged
                    (saveMessages H owner tid (put_coerced mid flagged existingMessages) s))
              else ok (already_present existing) s)
           else let effectiveMid = mid @ ''@'' @ incomingSender in
             (case findRow effectiveMid existingMessages of
                Some dupe \<Rightarrow> ok (already_present dupe) s
              | None \<Rightarrow> depositNew H owner tid mid effectiveMid d s)))"

end
