(* ===== verification/LogInvariant.thy ===== *)
theory LogInvariant
  imports Mutations
begin

text \<open>
  The message-log invariant: what each row update computes, and that every operation of the
  store keeps \<open>log_ok\<close> for every thread.
\<close>

section \<open>Updated rows\<close>

lemma distinct_spread: "distinct (map fst a) \<Longrightarrow> distinct (map fst (spread a b))"
  unfolding spread_def by (rule foldl_invariant) (auto simp: distinct_update)

lemma set_snd_spread:
  "(k, v) \<in> set (spread a b) \<Longrightarrow> distinct (map fst a) \<Longrightarrow> (k, v) \<in> set a \<or> (k, v) \<in> set b"
proof (induction b arbitrary: a)
  case (Cons p b)
  obtain k' v' where p: "p = (k', v')" by force
  have "spread a (p # b) = spread (AList.update k' v' a) b" by (simp add: spread_def p)
  moreover have "distinct (map fst (AList.update k' v' a))" using Cons.prems(2) by (rule distinct_update)
  ultimately have "(k, v) \<in> set (AList.update k' v' a) \<or> (k, v) \<in> set b" using Cons by simp
  moreover have "set (AList.update k' v' a) \<subseteq> insert (k', v') (set a)"
    by (induction a) auto
  ultimately show ?case using p by auto
qed (simp add: spread_def)

text \<open>A spread over a sealed message is the record that agrees with it.\<close>

lemma coerceMessageRow_spread:
  assumes wf: "wf_message m" "wf_message m'" and b: "distinct (map fst b)" "\<forall>(k, v) \<in> set b. v \<noteq> Undef"
    and agree: "\<forall>(k, v) \<in> set (message_fields m').
      (case map_of b k of None \<Rightarrow> map_of (message_fields m) k = Some v | Some w \<Rightarrow> w = v)"
  shows "coerceMessageRow H (Obj (spread (message_fields m) b)) = Some m'"
  unfolding coerceMessageRow_def
proof (rule coerceRow_fields)
  let ?f = "spread (message_fields m) b"
  have d: "distinct (map fst ?f)" by (intro distinct_spread distinct_message_fields)
  show "\<forall>(k, v) \<in> set ?f. v \<noteq> Undef"
    using message_fields_defined [OF wf(1)] b(2) set_snd_spread [OF _ distinct_message_fields] by fastforce
  show "mkChatMessage (clockMs H) (Obj (spread [(''createdAtMs'', num (clockMs H))] ?f)) = Inr m'"
  proof (rule mkChatMessage_agree [OF wf(2)], simp, intro ballI, clarify)
    fix k v assume "(k, v) \<in> set (message_fields m')"
    with agree have "map_of ?f k = Some v"
      by (fastforce simp: map_of_spread map_of_rev_distinct [OF b(1)] split: option.splits)
    then show "getp (Obj (spread [(''createdAtMs'', num (clockMs H))] ?f)) k = v"
      by (simp add: getp_spread [OF d])
  qed
qed

lemma conflicted_row_eq:
  "wf_message m \<Longrightarrow> conflicted_row H m = Some (m\<lparr>m_conflicted := True\<rparr>)"
  unfolding conflicted_row_def
  by (rule coerceMessageRow_spread) (simp_all add: wf_message_def message_fields_def)

lemma reacted_row_eq:
  "wf_message m \<Longrightarrow> wf_reactions rs \<Longrightarrow> reacted_row H rs m = Some (m\<lparr>m_reactions := rs\<rparr>)"
  unfolding reacted_row_def
  by (rule coerceMessageRow_spread) (simp_all add: wf_message_def message_fields_def reactions_json_def)

lemma tombstoned_row_eq:
  "wf_message m \<Longrightarrow>
   tombstoned_row H t m = Some (m\<lparr>m_text := [], m_payload := Null, m_tombstonedAtMs := Some t\<rparr>)"
  unfolding tombstoned_row_def
  by (rule coerceMessageRow_spread) (simp_all add: wf_message_def message_fields_def getp_def)

definition edited_payload :: "jsval \<Rightarrow> jsval \<Rightarrow> jsval" where
  "edited_payload newText p = (if is_object p
     then Obj (spread (own_props p) [(''text'', Str (string_or_empty newText))]) else p)"

lemma dec_string_digits: "c \<in> set (dec_string n) \<Longrightarrow> 48 \<le> (of_char c :: nat) \<and> (of_char c :: nat) \<le> 57"
proof (induction n rule: dec_string.induct)
  case (1 n)
  have digit: "48 \<le> (of_char (digit_char d) :: nat) \<and> (of_char (digit_char d) :: nat) \<le> 57" if "d < 10" for d
    using that by (simp add: digit_char_def)
  show ?case
    using 1 by (subst (asm) (2) dec_string.simps) (auto simp: digit split: if_splits)
qed

lemma index_not_name: "dec_string n \<noteq> ''inReplyToMessageId''"
proof
  assume "dec_string n = ''inReplyToMessageId''"
  then have "CHR ''i'' \<in> set (dec_string n)" by simp
  from dec_string_digits [OF this] show False by simp
qed

lemma inReply_edited:
  assumes "is_object p \<or> p = Null"
  shows "getp (edited_payload t p) ''inReplyToMessageId'' = getp p ''inReplyToMessageId''"
proof (cases p)
  case (Arr xs)
  have "''inReplyToMessageId'' \<notin> set (map dec_string [0..<length xs])"
    unfolding set_map using index_not_name [symmetric] by (simp add: image_iff)
  then have none: "map_of (zip (map dec_string [0..<length xs]) xs) ''inReplyToMessageId'' = None"
    by (auto simp: map_of_eq_None_iff dest!: set_zip_leftD)
  have "getp (Obj (own_props p)) ''inReplyToMessageId'' = Undef" and "getp p ''inReplyToMessageId'' = Undef"
    using none by (simp_all del: map_of_zip_is_None add: getp_def own_props_def Arr)
  then show ?thesis by (simp add: edited_payload_def getp_spread Arr)
next
  case (Obj kvs)
  then show ?thesis by (simp add: edited_payload_def getp_spread own_props_def)
qed (use assms in \<open>simp_all add: edited_payload_def\<close>)

lemma edited_payload_kind:
  "is_object p \<or> p = Null \<Longrightarrow> is_object (edited_payload v p) \<or> edited_payload v p = Null"
  "is_object p \<or> p = Null \<Longrightarrow> edited_payload v p \<noteq> Undef"
  by (auto simp: edited_payload_def)

lemma wf_edited:
  assumes "wf_message m"
  shows "wf_message (m\<lparr>m_text := string_or_empty v, m_payload := edited_payload v (m_payload m), m_editedAtMs := Some t\<rparr>)"
proof -
  have p: "is_object (m_payload m) \<or> m_payload m = Null" using assms by (simp add: wf_message_def)
  from assms edited_payload_kind(1) [OF p, of v] inReply_edited [OF p, of v] show ?thesis
    by (simp add: wf_message_def)
qed

lemma edited_row_eq:
  assumes "wf_message m"
  shows "edited_row H v t m = Some (m\<lparr>m_text := string_or_empty v, m_payload := edited_payload v (m_payload m),
    m_editedAtMs := Some t\<rparr>)"
proof -
  have "edited_payload v (m_payload m) \<noteq> Undef"
    using assms by (intro edited_payload_kind) (simp add: wf_message_def)
  then show ?thesis
    unfolding edited_row_def edited_payload_def [symmetric]
    by (intro coerceMessageRow_spread [OF assms wf_edited [OF assms]]) (simp_all add: message_fields_def)
qed


section \<open>Preservation\<close>

lemma rows_ok_put_coerced:
  assumes "rows_ok tid rows" and "findRow mid rows = Some c"
    and "u = Some m" and "wf_message m" and "m_threadId m = m_threadId c" and "m_messageId m = m_messageId c"
  shows "rows_ok tid (put_coerced mid u rows)"
proof -
  have "c \<in> set rows" and "m_messageId c = mid" using findRow_Some [OF assms(2)] by auto
  with assms show ?thesis
    unfolding put_coerced_def by (simp, intro rows_ok_replaceRow) (auto simp: rows_ok_def)
qed

lemma rows_ok_findRow: "rows_ok tid rows \<Longrightarrow> findRow mid rows = Some c \<Longrightarrow> wf_message c \<and> m_threadId c = tid \<and> m_messageId c = mid"
  using findRow_Some [of mid rows c] by (auto simp: rows_ok_def)

text \<open>A replacement that keeps creation time and id keeps the order.\<close>

lemma sorted_replaceRow:
  assumes "sorted_by (compareNewestFirst H) rows" and "findRow mid rows = Some c"
    and "m_messageId u = m_messageId c" and "m_createdAtMs u = m_createdAtMs c"
  shows "sorted_by (compareNewestFirst H) (replaceRow mid u rows)"
  using assms(1,2)
proof (induction rows)
  case (Cons r rows)
  have same: "compareNewestFirst H u x = compareNewestFirst H c x" "compareNewestFirst H x u = compareNewestFirst H x c" for x
    using assms(3,4) by (simp_all add: compareNewestFirst_def Let_def)
  show ?case
  proof (cases "m_messageId r = mid")
    case True
    with Cons.prems same show ?thesis by auto
  next
    case False
    then have found: "findRow mid rows = Some c" using Cons.prems by simp
    have "c \<in> set rows" using findRow_Some [OF found] by simp
    then have "\<forall>x\<in>set (replaceRow mid u rows). compareNewestFirst H r x \<le> 0"
      using Cons.prems set_replaceRow_subset [of mid u rows] same by auto
    with False Cons found show ?thesis by simp
  qed
qed simp

lemma sorted_removeRow: "sorted_by (compareNewestFirst H) rows \<Longrightarrow> sorted_by (compareNewestFirst H) (removeRow mid rows)"
proof (induction rows)
  case (Cons r rows)
  have "set (removeRow mid rows) \<subseteq> set rows" by (induction rows) auto
  with Cons show ?case by auto
qed simp

lemma rows_ok_removeRow: "rows_ok tid rows \<Longrightarrow> rows_ok tid (removeRow mid rows)"
  by (auto simp: rows_ok_def set_removeRow removeRow_filter distinct_map_filter)

text \<open>\<open>_upsertMessageUnlocked\<close> throws and writes nothing, or saves the log with the row and then the thread.\<close>

definition upserted :: "'s host \<Rightarrow> string \<Rightarrow> ChatMessage \<Rightarrow> 's \<Rightarrow> 's" where
  "upserted H owner m s = saveMessages H owner (m_threadId m)
     (sort_by (compareNewestFirst H) (putRow m (loadMessages H owner (m_threadId m) s))) s"

lemma upsertMessageUnlocked_eq:
  assumes "coerceMessageRow H input = Some m"
    and "assertThreadReady H (getThread H owner (Str (m_threadId m)) s) (getp input ''groupId'') = None"
  shows "\<exists>a. upsertMessageUnlocked H owner input s
     = andThen (ensureThreadUnlocked H owner a) (\<lambda>_. ok m) (upserted H owner m s)
     \<and> nonEmpty H (a_threadId a) = nonEmpty H (Str (m_threadId m))"
  using assms unfolding upsertMessageUnlocked_def Let_def upserted_def
  by (intro exI conjI) (simp, simp add: no_args_def)

lemma upsertMessageUnlocked_cases:
  obtains (thrown) e where "upsertMessageUnlocked H owner input s = (Inl e, s)"
  | (saved) m a where "coerceMessageRow H input = Some m"
      and "assertThreadReady H (getThread H owner (Str (m_threadId m)) s) (getp input ''groupId'') = None"
      and "upsertMessageUnlocked H owner input s
        = andThen (ensureThreadUnlocked H owner a) (\<lambda>_. ok m) (upserted H owner m s)"
proof (cases "coerceMessageRow H input")
  case None
  then show ?thesis using that(1) by (simp add: upsertMessageUnlocked_def throw_def)
next
  case (Some m)
  show ?thesis
  proof (cases "assertThreadReady H (getThread H owner (Str (m_threadId m)) s) (getp input ''groupId'')")
    case None
    from upsertMessageUnlocked_eq [OF Some None] show ?thesis using that(2) [OF Some None] by blast
  next
    case (Some e)
    with \<open>coerceMessageRow H input = Some m\<close> show ?thesis
      using that(1) by (simp add: upsertMessageUnlocked_def throw_def)
  qed
qed

lemma snd_andThen_ok [simp]: "snd (andThen f (\<lambda>_. ok m) s) = snd (f s)"
  by (simp add: op_defs split: prod.splits sum.splits)

text \<open>The invariant of the store: the log of every thread of the owner is in order.\<close>

definition store_ok :: "'s host \<Rightarrow> string \<Rightarrow> 's \<Rightarrow> bool" where
  "store_ok H owner s \<longleftrightarrow> (\<forall>t. log_ok H owner t s)"

lemma store_okD: "store_ok H owner s \<Longrightarrow> log_ok H owner t s"
  by (simp add: store_ok_def)

lemma store_ok_andThen:
  assumes "store_ok H owner (snd (m s))"
    and "\<And>x s'. m s = (Inr x, s') \<Longrightarrow> store_ok H owner s' \<Longrightarrow> store_ok H owner (snd (f x s'))"
  shows "store_ok H owner (snd (andThen m f s))"
  using assms by (auto simp: andThen_def split: prod.split sum.split)

lemma store_ok_done [simp]:
  "store_ok H owner (snd (ok x s)) = store_ok H owner s"
  "store_ok H owner (snd (throw e s)) = store_ok H owner s"
  "store_ok H owner (snd (writes f s)) = store_ok H owner (f s)"
  by (simp_all add: op_defs)

context host_laws
begin

text \<open>\<open>log_ok\<close> of every thread after one thread's log is rewritten.\<close>

lemma log_ok_all_save:
  assumes "log_ok H owner t s" and "log_ok H owner tid (saveMessages H owner tid rows s)"
  shows "log_ok H owner t (saveMessages H owner tid rows s)"
  using assms log_ok_save_other [of t tid owner rows s] by (cases "t = tid") auto

text \<open>\<open>_ensureThreadUnlocked\<close> throws and writes nothing, or writes the row it returns.\<close>

lemma ensureThreadUnlocked_cases:
  obtains (thrown) e where "ensureThreadUnlocked H owner a s = (Inl e, s)"
  | (written) t where
      "ensureThreadUnlocked H owner a s = (Inr t, kvSet H s (kThread owner (nonEmpty H (a_threadId a))) (thread_json t))"
      and "nonEmpty H (a_threadId a) \<noteq> []" and "wf_thread t"
proof -
  have "(\<exists>e. ensureThreadUnlocked H owner a s = (Inl e, s)) \<or>
    (\<exists>t. ensureThreadUnlocked H owner a s = (Inr t, kvSet H s (kThread owner (nonEmpty H (a_threadId a))) (thread_json t))
      \<and> nonEmpty H (a_threadId a) \<noteq> [] \<and> wf_thread t)"
    unfolding ensureThreadUnlocked_def Let_def throw_def
    by (simp split: sum.split option.split add: coerceThreadRow_wf)
  then show ?thesis using that by blast
qed

lemma log_ok_ensure [simp]:
  "log_ok H owner t (snd (ensureThreadUnlocked H owner a s)) = log_ok H owner t s"
  by (cases rule: ensureThreadUnlocked_cases [of owner a s]) simp_all

lemma upserted_log_ok:
  assumes "log_ok H owner t s" and "log_ok H owner (m_threadId m) s" and "wf_message m"
  shows "log_ok H owner t (upserted H owner m s)"
  unfolding upserted_def
  by (rule log_ok_all_save [OF assms(1) log_ok_save_sorted], intro rows_ok_putRow log_okD(1) assms refl)

text \<open>A rewrite in place: the row keeps its id, thread and creation time.\<close>

lemma log_ok_put_coerced:
  assumes ok: "log_ok H owner t s" "log_ok H owner tid s"
    and c: "findRow mid (loadMessages H owner tid s) = Some c"
    and u: "u = Some m" "wf_message m" "m_threadId m = m_threadId c" "m_messageId m = m_messageId c"
      "m_createdAtMs m = m_createdAtMs c"
  shows "log_ok H owner t (saveMessages H owner tid (put_coerced mid u (loadMessages H owner tid s)) s)"
proof (rule log_ok_all_save [OF ok(1) log_ok_save_same_order])
  show "rows_ok tid (put_coerced mid u (loadMessages H owner tid s))"
    by (rule rows_ok_put_coerced [OF log_okD(1) [OF ok(2)] c u(1-4)])
  show "sorted_by (compareNewestFirst H) (put_coerced mid u (loadMessages H owner tid s))"
    using sorted_replaceRow [OF log_okD(3) [OF ok(2)] c u(4,5)] by (simp add: put_coerced_def u(1))
qed

lemma log_ok_put_sorted:
  assumes ok: "log_ok H owner t s" "log_ok H owner tid s"
    and c: "findRow mid (loadMessages H owner tid s) = Some c"
    and u: "u = Some m" "wf_message m" "m_threadId m = m_threadId c" "m_messageId m = m_messageId c"
  shows "log_ok H owner t (saveMessages H owner tid
    (sort_by (compareNewestFirst H) (put_coerced mid u (loadMessages H owner tid s))) s)"
  by (rule log_ok_all_save [OF ok(1) log_ok_save_sorted [OF rows_ok_put_coerced [OF log_okD(1) [OF ok(2)] c u]]])

lemma store_ok_other_key [simp]:
  "store_ok H owner (kvSet H s (kThread owner x) v) = store_ok H owner s"
  "store_ok H owner (kvDelete H s (kThread owner x)) = store_ok H owner s"
  "store_ok H owner (kvSet H s (kIdempotency H owner x y z) v) = store_ok H owner s"
  "store_ok H owner (kvDelete H s (kIdempotency H owner x y z)) = store_ok H owner s"
  "store_ok H owner (kvSet H s (kPendingMutations owner x) v) = store_ok H owner s"
  "store_ok H owner (kvDelete H s (kPendingMutations owner x)) = store_ok H owner s"
  "store_ok H owner (saveIdempotency H owner x c u s) = store_ok H owner s"
  "store_ok H owner (save_coerced_idempotency H owner x c w s) = store_ok H owner s"
  "store_ok H owner (writePendingMutations H owner x ms s) = store_ok H owner s"
  by (simp_all add: store_ok_def writePendingMutations_def)

lemma ensureUnlocked_store_ok [simp]:
  "store_ok H owner (snd (ensureThreadUnlocked H owner a s)) = store_ok H owner s"
  by (simp add: store_ok_def)

lemma ensureThread_store_ok: "store_ok H owner s \<Longrightarrow> store_ok H owner (snd (ensureThread H owner a s))"
  by (simp add: ensureThread_def Let_def)

lemma setThreadState_store_ok: "store_ok H owner s \<Longrightarrow> store_ok H owner (snd (setThreadState H owner threadId vis acc s))"
  unfolding setThreadState_def by (auto simp: Let_def intro!: store_ok_andThen split: option.split)

lemma deleteThread_store_ok:
  assumes "store_ok H owner s"
  shows "store_ok H owner (snd (deleteThread H owner threadId s))"
proof -
  have "log_ok H owner t (kvDelete H (kvDelete H s (kThread owner x)) (kMessages owner x))" for t x
  proof (cases "t = x")
    case True
    then show ?thesis by (simp add: log_ok_def loadMessages_def get_delete rows_ok_def)
  next
    case False
    have "log_ok H owner t (kvDelete H (kvDelete H s (kThread owner x)) (kMessages owner x)) = log_ok H owner t s"
      by (rule log_ok_frame) (use False in \<open>simp add: get_delete\<close>)
    then show ?thesis using assms by (simp add: store_ok_def)
  qed
  then show ?thesis using assms
    by (simp add: deleteThread_def Let_def store_ok_def op_defs split: option.split)
qed

lemma upsertUnlocked_store_ok:
  assumes "store_ok H owner s"
  shows "store_ok H owner (snd (upsertMessageUnlocked H owner input s))"
proof (cases rule: upsertMessageUnlocked_cases [of H owner input s])
  case (thrown e)
  then show ?thesis using assms by simp
next
  case (saved m a)
  then show ?thesis using assms by (simp add: store_ok_def upserted_log_ok coerceMessageRow_wf)
qed

lemma upsertMessage_store_ok:
  "store_ok H owner s \<Longrightarrow> store_ok H owner (snd (upsertMessage H owner input s))"
  by (simp add: upsertMessage_def upsertUnlocked_store_ok split: option.split)

lemma recordOutboundDeposit_store_ok:
  "store_ok H owner s \<Longrightarrow>
   store_ok H owner (snd (recordOutboundDeposit H owner threadId senderKey messageId sa packet acc txt pl s))"
  unfolding recordOutboundDeposit_def Let_def
  by (auto intro!: store_ok_andThen upsertUnlocked_store_ok split: option.split)

lemma recordOutboundPending_store_ok:
  "store_ok H owner s \<Longrightarrow>
   store_ok H owner (snd (recordOutboundPending H owner threadId senderKey messageId sa packet created s))"
  unfolding recordOutboundPending_def Let_def
  by (auto intro!: store_ok_andThen upsertUnlocked_store_ok split: option.split)

lemma store_ok_put_coerced:
  assumes "store_ok H owner s" and "findRow mid (loadMessages H owner tid s) = Some c"
    and "u = Some m" "wf_message m" "m_threadId m = m_threadId c" "m_messageId m = m_messageId c"
      "m_createdAtMs m = m_createdAtMs c"
  shows "store_ok H owner (saveMessages H owner tid (put_coerced mid u (loadMessages H owner tid s)) s)"
  unfolding store_ok_def
  by (rule allI, rule log_ok_put_coerced [OF store_okD [OF assms(1)] store_okD [OF assms(1)] assms(2-7)])

lemma store_ok_put_sorted:
  assumes "store_ok H owner s" and "findRow mid (loadMessages H owner tid s) = Some c"
    and "u = Some m" "wf_message m" "m_threadId m = m_threadId c" "m_messageId m = m_messageId c"
  shows "store_ok H owner (saveMessages H owner tid
    (sort_by (compareNewestFirst H) (put_coerced mid u (loadMessages H owner tid s))) s)"
  unfolding store_ok_def
  by (rule allI, rule log_ok_put_sorted [OF store_okD [OF assms(1)] store_okD [OF assms(1)] assms(2-6)])

lemma findRow_wf: "findRow mid (loadMessages H owner tid s) = Some c \<Longrightarrow> wf_message c"
  by (auto dest!: findRow_Some intro: loadMessages_wf)

lemma wf_status_update: "wf_message c \<Longrightarrow> st \<in> set MESSAGE_STATUSES \<Longrightarrow> wf_message (status_update H st x y c)"
  by (simp add: wf_message_def status_update_def)

lemma setMessageStatus_store_ok:
  assumes "store_ok H owner s"
  shows "store_ok H owner (snd (setMessageStatus H owner threadId messageId status x y s))"
proof -
  have "store_ok H owner (saveMessages H owner tid (sort_by (compareNewestFirst H)
      (replaceRow mid (status_update H st x y c) (loadMessages H owner tid s))) s)"
    if "findRow mid (loadMessages H owner tid s) = Some c" "st \<in> set MESSAGE_STATUSES" for tid mid st c
    using store_ok_put_sorted [OF assms that(1) refl wf_status_update [OF findRow_wf [OF that(1)] that(2)]]
    by (simp add: put_coerced_def status_update_def)
  then show ?thesis
    using assms by (simp add: setMessageStatus_def Let_def split: option.split)
qed

lemma conflicted_store_ok:
  assumes "store_ok H owner s" and "findRow mid (loadMessages H owner tid s) = Some c"
  shows "store_ok H owner (saveMessages H owner tid (put_coerced mid (conflicted_row H c) (loadMessages H owner tid s)) s)"
  by (rule store_ok_put_coerced [OF assms conflicted_row_eq])
    (use findRow_wf [OF assms(2)] in \<open>simp_all add: wf_message_def\<close>)

lemma markMessageConflicted_store_ok:
  "store_ok H owner s \<Longrightarrow> store_ok H owner (snd (markMessageConflicted H owner threadId messageId s))"
  by (simp add: markMessageConflicted_def Let_def conflicted_store_ok split: option.split)

lemma applyLocalDelete_store_ok:
  assumes "store_ok H owner s"
  shows "store_ok H owner (snd (applyLocalDelete H owner threadId target s))"
proof -
  have "store_ok H owner (saveMessages H owner tid (removeRow mid (loadMessages H owner tid s)) s)" for tid mid
    unfolding store_ok_def
    by (rule allI, rule log_ok_all_save [OF store_okD [OF assms] log_ok_save_same_order])
      (auto intro: rows_ok_removeRow sorted_removeRow log_okD store_okD assms)
  then show ?thesis
    using assms by (simp add: applyLocalDelete_def Let_def split: option.split)
qed

section \<open>Edits, tombstones and reactions\<close>

lemma commitRow_store_ok:
  assumes "store_ok H owner s" and "findRow mid (loadMessages H owner tid s) = Some c"
    and "u = Some m" "wf_message m" "m_threadId m = m_threadId c" "m_messageId m = m_messageId c"
  shows "store_ok H owner (snd (commitRow H owner tid c u (loadMessages H owner tid s) s))"
proof -
  have "m_messageId c = mid" using findRow_Some [OF assms(2)] by simp
  with store_ok_put_sorted [OF assms] show ?thesis by (simp add: commitRow_def)
qed

lemma applyEditCore_store_ok:
  assumes "store_ok H owner s"
  shows "store_ok H owner (snd (applyEditCore H owner threadId target sender txt at_ms s))"
proof -
  have "store_ok H owner (snd (commitRow H owner tid c (edited_row H txt t c) (loadMessages H owner tid s) s))"
    if "findRow mid (loadMessages H owner tid s) = Some c" for tid mid t c
    using commitRow_store_ok [OF assms that edited_row_eq [OF findRow_wf [OF that]] wf_edited [OF findRow_wf [OF that]]]
    by simp
  then show ?thesis
    using assms by (simp add: applyEditCore_def Let_def split: option.split)
qed

lemma wf_tombstoned: "wf_message m \<Longrightarrow> wf_message (m\<lparr>m_text := [], m_payload := Null, m_tombstonedAtMs := Some t\<rparr>)"
  by (simp add: wf_message_def getp_def)

lemma applyTombstoneCore_store_ok:
  assumes "store_ok H owner s"
  shows "store_ok H owner (snd (applyTombstoneCore H owner threadId target sender at_ms s))"
proof -
  have "store_ok H owner (snd (commitRow H owner tid c (tombstoned_row H t c) (loadMessages H owner tid s) s))"
    if "findRow mid (loadMessages H owner tid s) = Some c" for tid mid t c
    using commitRow_store_ok [OF assms that tombstoned_row_eq [OF findRow_wf [OF that]] wf_tombstoned [OF findRow_wf [OF that]]]
    by simp
  then show ?thesis
    using assms by (simp add: applyTombstoneCore_def Let_def split: option.split)
qed

lemma ids_ok_react: "ids_ok ss \<Longrightarrow> trimmed x \<Longrightarrow> x \<noteq> [] \<Longrightarrow> ids_ok (react oper x ss)"
  by (auto simp: react_def ids_ok_def distinct_removeAll)

lemma wf_reactions_delete:
  assumes "wf_reactions rs"
  shows "wf_reactions (AList.delete e rs)"
proof -
  have "set (AList.delete e rs) \<subseteq> set rs" and "distinct (map fst (AList.delete e rs))"
    using assms by (auto simp: wf_reactions_def ids_ok_def AList.delete_eq distinct_map_filter)
  with assms show ?thesis unfolding wf_reactions_def ids_ok_def set_map by blast
qed

lemma reactors_ok:
  assumes "wf_reactions rs" and "reactors rs e = Inr ss"
  shows "ids_ok ss" and "e \<noteq> ''__proto__''"
proof -
  show "ids_ok ss" using assms
    by (auto simp: reactors_def wf_reactions_def ids_ok_def split: option.splits if_splits dest!: map_of_SomeD)
  have "inherited ''__proto__''" by (simp add: inherited_def object_prototype_keys_def)
  with assms show "e \<noteq> ''__proto__''"
    by (auto simp: reactors_def wf_reactions_def image_iff split: option.splits if_splits dest!: map_of_SomeD)
qed

lemma wf_next_reactions:
  assumes "wf_reactions rs" and "reactors rs e = Inr ss" and "trimmed e" "e \<noteq> []" and "trimmed x" "x \<noteq> []"
  shows "wf_reactions (next_reactions e (react oper x ss) rs)"
  using assms reactors_ok [OF assms(1,2)]
  by (auto simp: next_reactions_def intro!: wf_reactions_delete wf_reactions_update ids_ok_react)

lemma applyReactionCore_store_ok:
  assumes "store_ok H owner s"
  shows "store_ok H owner (snd (applyReactionCore H owner threadId target sender emoji oper s))"
proof -
  have "store_ok H owner (snd (commitRow H owner tid c
      (reacted_row H (next_reactions (nonEmpty H emoji) (react (string_or_empty oper) (nonEmpty H sender) ss)
        (coerceReactions (reactions_json (m_reactions c)))) c) (loadMessages H owner tid s) s))"
    if f: "findRow mid (loadMessages H owner tid s) = Some c"
      and r: "reactors (coerceReactions (reactions_json (m_reactions c))) (nonEmpty H emoji) = Inr ss"
      and ne: "nonEmpty H sender \<noteq> []" "nonEmpty H emoji \<noteq> []" for tid mid c ss
  proof -
    have wf: "wf_reactions (next_reactions (nonEmpty H emoji) (react (string_or_empty oper) (nonEmpty H sender) ss)
        (coerceReactions (reactions_json (m_reactions c))))"
      by (rule wf_next_reactions [OF _ r]) (simp_all add: ne trimmed_def nonEmpty_trim)
    show ?thesis
      by (rule commitRow_store_ok [OF assms f reacted_row_eq [OF findRow_wf [OF f] wf]])
        (use findRow_wf [OF f] wf in \<open>simp_all add: wf_message_def\<close>)
  qed
  then show ?thesis
    using assms unfolding applyReactionCore_def Let_def
    by (auto split: option.split sum.split prod.split simp: commitRow_def)
qed

lemma bufferIfEarly_store_ok:
  "store_ok H owner s \<Longrightarrow> store_ok H owner (snd (bufferIfEarly H owner allow pm r s))"
  by (simp add: bufferIfEarly_def bufferMutationUnlocked_def split: sum.split)

lemma applyEdit_store_ok:
  assumes "store_ok H owner s"
  shows "store_ok H owner (snd (applyEdit H owner threadId target sender txt edited received allow s))"
  using applyEditCore_store_ok [OF assms] assms unfolding applyEdit_def Let_def
  by (auto intro!: bufferIfEarly_store_ok split: prod.split) (metis snd_conv)

lemma applyTombstone_store_ok:
  assumes "store_ok H owner s"
  shows "store_ok H owner (snd (applyTombstone H owner threadId target sender at_ms received allow s))"
  using applyTombstoneCore_store_ok [OF assms] assms unfolding applyTombstone_def Let_def
  by (auto intro!: bufferIfEarly_store_ok split: prod.split) (metis snd_conv)

lemma applyReaction_store_ok:
  assumes "store_ok H owner s"
  shows "store_ok H owner (snd (applyReaction H owner threadId target sender emoji oper received allow s))"
  using applyReactionCore_store_ok [OF assms] assms unfolding applyReaction_def Let_def
  by (auto intro!: bufferIfEarly_store_ok store_ok_andThen)

lemma applyPending_store_ok:
  assumes "store_ok H owner s"
  shows "store_ok H owner (snd (applyPending H owner tid target pm s))"
  unfolding applyPending_def
  using applyEditCore_store_ok [OF assms, of "Str tid" "Str target" "Str (pm_senderAccountId pm)" "Str (pm_newText pm)" "num (pm_editedAtMs pm)"]
    applyTombstoneCore_store_ok [OF assms, of "Str tid" "Str target" "Str (pm_senderAccountId pm)" "num (pm_tombstonedAtMs pm)"]
    applyReactionCore_store_ok [OF assms]
  by (auto split: prod.split)

lemma drainLoop_store_ok:
  "store_ok H owner s \<Longrightarrow> store_ok H owner (snd (drainLoop H owner tid target pms latest s))"
proof (induction pms arbitrary: latest s)
  case (Cons pm pms)
  obtain r s' where r: "applyPending H owner tid target pm s = (r, s')" by force
  have "store_ok H owner s'" using applyPending_store_ok [OF Cons.prems, of tid target pm] r by simp
  then show ?case using Cons.IH r by (simp split: sum.split)
qed simp

lemma drain_store_ok:
  "store_ok H owner s \<Longrightarrow> store_ok H owner (snd (drainPendingMutationsUnlocked H owner threadId target s))"
  unfolding drainPendingMutationsUnlocked_def Let_def
  by (auto intro!: store_ok_andThen drainLoop_store_ok)

lemma depositNew_store_ok:
  "store_ok H owner s \<Longrightarrow> store_ok H owner (snd (depositNew H owner tid mid eff d s))"
  unfolding depositNew_def
  by (rule store_ok_andThen, erule upsertUnlocked_store_ok, rule store_ok_andThen, simp,
      rule store_ok_andThen, simp add: writes_def drain_store_ok split: if_splits, simp)

lemma upsertDeposited_store_ok:
  assumes "store_ok H owner s"
  shows "store_ok H owner (snd (upsertDepositedMessage H owner d s))"
  unfolding upsertDepositedMessage_def Let_def
  using assms by (auto intro: depositNew_store_ok conflicted_store_ok split: option.split)

lemma pending_prefix: "prefix (''app:pending_mutations/'' @ rest) k \<Longrightarrow> k \<noteq> kMessages owner t"
  by (auto simp: prefix_def kMessages_def)

lemma cleanupKey_store_ok:
  assumes "store_ok H owner s" and "\<And>t. k \<noteq> kMessages owner t"
  shows "store_ok H owner (cleanupKey H s k)"
  using assms by (simp add: cleanupKey_def Let_def store_ok_def)

lemma cleanup_store_ok:
  assumes "store_ok H owner s"
  shows "store_ok H owner (cleanupStalePendingMutations H owner s)"
  unfolding cleanupStalePendingMutations_def
proof (rule foldl_invariant [where P = "store_ok H owner", OF assms])
  fix s' k assume "k \<in> set (kvKeys H s (''app:pending_mutations/'' @ owner @ ''/''))" and ok: "store_ok H owner s'"
  then have "prefix (''app:pending_mutations/'' @ owner @ ''/'') k" unfolding keys by blast
  from cleanupKey_store_ok [OF ok pending_prefix [OF this]] show "store_ok H owner (cleanupKey H s' k)" .
qed

lemma store_ok_clock:
  assumes "store_ok H owner s"
  shows "store_ok (H\<lparr>clockMs := now\<rparr>) owner s"
proof -
  have "log_ok (H\<lparr>clockMs := now\<rparr>) owner t s" for t
  proof -
    let ?rows = "loadMessages H owner t s"
    have ok: "log_ok H owner t s" using assms by (simp add: store_ok_def)
    then have raw: "elements (kvGet H s (kMessages owner t)) = map message_json ?rows" by (simp add: log_ok_def Let_def)
    have "\<forall>m\<in>set ?rows. wf_message m" using log_okD(1) [OF ok] by (simp add: rows_ok_def)
    then have "keepSome (coerceMessageRow (H\<lparr>clockMs := now\<rparr>)) (map message_json ?rows) = ?rows"
      by (intro keepSome_map) simp
    then have same: "loadMessages (H\<lparr>clockMs := now\<rparr>) owner t s = ?rows"
      by (simp add: loadMessages_def [of "H\<lparr>clockMs := now\<rparr>"] raw)
    have "compareNewestFirst (H\<lparr>clockMs := now\<rparr>) = compareNewestFirst H"
      by (simp add: compareNewestFirst_def fun_eq_iff Let_def)
    with ok raw same show ?thesis by (simp add: log_ok_def)
  qed
  then show ?thesis by (simp add: store_ok_def)
qed

end

end
