(* ===== verification/MutationLaws.thy ===== *)
theory MutationLaws
  imports LogInvariant
begin

text \<open>
  What the operations of the thread store do to a single row: the row after each successful
  mutation, and the rows they leave alone.
\<close>

section \<open>Rows by id\<close>

definition row_of :: "'s host \<Rightarrow> string \<Rightarrow> string \<Rightarrow> string \<Rightarrow> 's \<Rightarrow> ChatMessage option" where
  "row_of H owner tid mid s = findRow mid (loadMessages H owner tid s)"

lemma findRow_replaceRow:
  "m_messageId m = mid \<Longrightarrow> findRow k (replaceRow mid m rows)
     = (if k = mid \<and> findRow mid rows \<noteq> None then Some m else findRow k rows)"
  by (induction rows) auto

lemma findRow_removeRow:
  "distinct (map m_messageId rows) \<Longrightarrow> findRow k (removeRow mid rows) = (if k = mid then None else findRow k rows)"
proof (induction rows)
  case (Cons r rows)
  have "findRow mid rows = None" if "m_messageId r = mid"
    using that Cons.prems by (auto simp: findRow_None)
  with Cons show ?case by auto
qed simp

lemma replaceRow_replaceRow:
  "m_messageId a = mid \<Longrightarrow> replaceRow mid b (replaceRow mid a rows) = replaceRow mid b rows"
  by (induction rows) auto

lemma update_update: "AList.update k w (AList.update k v kvs) = AList.update k w kvs"
  by (induction kvs) auto

lemma own_props_Obj [simp]: "own_props (Obj kvs) = kvs"
  by (simp add: own_props_def)

lemma edited_payload_twice: "edited_payload w (edited_payload v p) = edited_payload w p"
  by (simp add: edited_payload_def spread_def update_update)

section \<open>Edits\<close>

definition edited :: "jsval \<Rightarrow> rat \<Rightarrow> ChatMessage \<Rightarrow> ChatMessage" where
  "edited txt t m = m\<lparr>m_text := string_or_empty txt, m_payload := edited_payload txt (m_payload m), m_editedAtMs := Some t\<rparr>"

text \<open>The condition under which an edit is applied to a row.\<close>

definition may_edit :: "'s host \<Rightarrow> jsval \<Rightarrow> rat \<Rightarrow> ChatMessage \<Rightarrow> bool" where
  "may_edit H sender t m \<longleftrightarrow> \<not> is_tombstoned m \<and> \<not> unauthorized H m sender \<and> 0 < t
     \<and> (let cur = asInt H (opt_num (m_editedAtMs m)) 0 in cur = 0 \<or> cur < t)"

context host_laws
begin

lemma save_in_place:
  assumes "log_ok H owner tid s" and "findRow mid (loadMessages H owner tid s) = Some c"
    and "wf_message m" "m_messageId m = m_messageId c" "m_createdAtMs m = m_createdAtMs c"
  shows "loadMessages H owner tid (saveMessages H owner tid (replaceRow mid m (loadMessages H owner tid s)) s')
      = replaceRow mid m (loadMessages H owner tid s)"
    and "sort_by (compareNewestFirst H) (replaceRow mid m (loadMessages H owner tid s))
      = replaceRow mid m (loadMessages H owner tid s)"
proof -
  have wf: "\<forall>r\<in>set (replaceRow mid m (loadMessages H owner tid s)). wf_message r"
    using set_replaceRow_subset [of mid m] log_okD(1) [OF assms(1)] assms(3) by (auto simp: rows_ok_def)
  show "loadMessages H owner tid (saveMessages H owner tid (replaceRow mid m (loadMessages H owner tid s)) s')
      = replaceRow mid m (loadMessages H owner tid s)"
    using load_save [OF wf] log_okD(2) [OF assms(1)] by simp
  show "sort_by (compareNewestFirst H) (replaceRow mid m (loadMessages H owner tid s))
      = replaceRow mid m (loadMessages H owner tid s)"
    by (rule sort_by_id [OF sorted_replaceRow [OF log_okD(3) [OF assms(1)] assms(2,4,5)]])
qed

text \<open>The log after \<open>commitRow\<close>: the row replaced where it stood.\<close>

lemma load_commitRow:
  assumes "log_ok H owner tid s" and c: "findRow mid (loadMessages H owner tid s) = Some c"
    and "wf_message m" "m_messageId m = m_messageId c" "m_createdAtMs m = m_createdAtMs c"
  shows "loadMessages H owner tid (snd (commitRow H owner tid c (Some m) (loadMessages H owner tid s) s))
      = replaceRow mid m (loadMessages H owner tid s)"
    and "fst (commitRow H owner tid c (Some m) (loadMessages H owner tid s) s) = applied_result (Some m)"
proof -
  have "m_messageId c = mid" using findRow_Some [OF c] by simp
  then show "loadMessages H owner tid (snd (commitRow H owner tid c (Some m) (loadMessages H owner tid s) s))
      = replaceRow mid m (loadMessages H owner tid s)"
    by (simp add: commitRow_def put_coerced_def save_in_place [OF assms])
qed (simp add: commitRow_def)

lemma load_commitRow_other:
  "t \<noteq> tid \<Longrightarrow> loadMessages H owner t (snd (commitRow H owner tid c u rows s)) = loadMessages H owner t s"
  by (simp add: commitRow_def load_save_other)

lemma editCore_applied:
  assumes "log_ok H owner tid s" and "row_of H owner tid mid s = Some m" and "trimmed tid" "tid \<noteq> []" "trimmed mid" "mid \<noteq> []"
    and "may_edit H sender (asInt H at_ms 0) m"
  shows "fst (applyEditCore H owner (Str tid) (Str mid) sender txt at_ms s) = applied_result (Some (edited txt (asInt H at_ms 0) m))"
    and "loadMessages H owner tid (snd (applyEditCore H owner (Str tid) (Str mid) sender txt at_ms s))
      = replaceRow mid (edited txt (asInt H at_ms 0) m) (loadMessages H owner tid s)"
proof -
  have f: "findRow mid (loadMessages H owner tid s) = Some m" using assms(2) by (simp add: row_of_def)
  have wf: "wf_message m" by (rule findRow_wf [OF f])
  have eq: "applyEditCore H owner (Str tid) (Str mid) sender txt at_ms s
      = commitRow H owner tid m (Some (edited txt (asInt H at_ms 0) m)) (loadMessages H owner tid s) s"
    using assms(3-7) f
    by (auto simp: applyEditCore_def nonEmpty_trimmed may_edit_def Let_def edited_row_eq [OF wf] edited_def)
  show "fst (applyEditCore H owner (Str tid) (Str mid) sender txt at_ms s) = applied_result (Some (edited txt (asInt H at_ms 0) m))"
    unfolding eq by (simp add: commitRow_def)
  show "loadMessages H owner tid (snd (applyEditCore H owner (Str tid) (Str mid) sender txt at_ms s))
      = replaceRow mid (edited txt (asInt H at_ms 0) m) (loadMessages H owner tid s)"
    unfolding eq by (rule load_commitRow [OF assms(1) f]) (use wf_edited [OF wf] in \<open>simp_all add: edited_def\<close>)
qed

lemma editCore_refused:
  assumes "row_of H owner tid mid s = Some m" and "trimmed tid" "trimmed mid"
    and "\<not> may_edit H sender (asInt H at_ms 0) m"
  shows "snd (applyEditCore H owner (Str tid) (Str mid) sender txt at_ms s) = s
    \<and> \<not> r_applied (fst (applyEditCore H owner (Str tid) (Str mid) sender txt at_ms s))"
  using assms by (auto simp: applyEditCore_def nonEmpty_trimmed may_edit_def Let_def row_of_def not_applied_def)

lemma unauthorized_row: "m_senderAccountId m' = m_senderAccountId m \<Longrightarrow> unauthorized H m' sender = unauthorized H m sender"
  by (simp add: unauthorized_def)

lemma asInt_stamp: "t = asInt H v 0 \<Longrightarrow> asInt H (num t) 0 = t"
  using asInt_whole [of v 0] asInt_int by auto

lemma may_edit_edited:
  assumes "t = asInt H v 0" and "0 < t"
  shows "may_edit H sender u (edited txt t m) \<longleftrightarrow>
    \<not> is_tombstoned m \<and> \<not> unauthorized H m sender \<and> 0 < u \<and> t < u"
  using assms asInt_stamp [OF assms(1)]
  by (auto simp: may_edit_def edited_def is_tombstoned_def unauthorized_def)

lemma applyEdit_found:
  assumes "row_of H owner (nonEmpty H threadId) (nonEmpty H target) s = Some m"
    and "nonEmpty H threadId \<noteq> []" "nonEmpty H target \<noteq> []"
  shows "snd (applyEdit H owner threadId target sender txt at_ms received allow s)
    = snd (applyEditCore H owner (Str (nonEmpty H threadId)) (Str (nonEmpty H target)) sender txt at_ms s)"
proof -
  have "r_reason (fst (applyEditCore H owner (Str (nonEmpty H threadId)) (Str (nonEmpty H target)) sender txt at_ms s))
      \<noteq> Some ''target_not_found''"
    using assms by (simp add: applyEditCore_def nonEmpty_Str nonEmpty_trim row_of_def not_applied_def commitRow_def
        applied_result_def Let_def)
  then show ?thesis
    using assms by (simp add: applyEdit_def Let_def bufferIfEarly_def case_prod_beta ok_def)
qed

lemma trimmed_nonEmpty: "trimmed (nonEmpty H v)"
  by (simp add: trimmed_def nonEmpty_trim)

lemma edited_facts [simp]: "m_messageId (edited txt t m) = m_messageId m" "m_senderAccountId (edited txt t m) = m_senderAccountId m"
    "m_tombstonedAtMs (edited txt t m) = m_tombstonedAtMs m" "m_createdAtMs (edited txt t m) = m_createdAtMs m"
  by (simp_all add: edited_def)

lemma edited_twice: "edited w u (edited v t m) = edited w u m"
  by (simp add: edited_def edited_payload_twice)

text \<open>One edit through the public operation.\<close>

lemma edit_step:
  assumes ok: "log_ok H owner tid s" and r: "row_of H owner tid mid s = Some m"
    and ids: "tid = nonEmpty H threadId" "mid = nonEmpty H target" "tid \<noteq> []" "mid \<noteq> []"
    and t: "t = asInt H at_ms 0"
  shows "loadMessages H owner tid (snd (applyEdit H owner threadId target sender txt at_ms received allow s))
     = (if may_edit H sender t m then replaceRow mid (edited txt t m) (loadMessages H owner tid s)
        else loadMessages H owner tid s)"
proof -
  have found: "snd (applyEdit H owner threadId target sender txt at_ms received allow s)
    = snd (applyEditCore H owner (Str tid) (Str mid) sender txt at_ms s)"
    using applyEdit_found r ids by simp
  have tr: "trimmed tid" "trimmed mid" unfolding ids by (rule trimmed_nonEmpty)+
  show ?thesis
    unfolding found
    using editCore_applied(2) [OF ok r tr(1) ids(3) tr(2) ids(4), of sender at_ms "txt"]
      editCore_refused [OF r tr, of sender at_ms "txt"] t
    by (cases "may_edit H sender t m") simp_all
qed

lemma row_replaced:
  assumes "loadMessages H owner tid s' = replaceRow mid m' (loadMessages H owner tid s)"
    and "row_of H owner tid mid s = Some m" and "m_messageId m' = m_messageId m"
  shows "row_of H owner tid mid s' = Some m'"
proof -
  have "m_messageId m' = mid" using findRow_Some [of mid] assms(2,3) by (auto simp: row_of_def)
  then show ?thesis using assms(1,2) by (simp add: row_of_def findRow_replaceRow)
qed

lemma edits_converge:
  assumes ok: "store_ok H owner s" and r: "row_of H owner tid mid s = Some m"
    and ids: "tid = nonEmpty H threadId" "mid = nonEmpty H target" "tid \<noteq> []" "mid \<noteq> []"
    and t: "t1 = asInt H at1 0" "t2 = asInt H at2 0" "t1 < t2"
    and may: "may_edit H a1 t1 m" "may_edit H a2 t2 m"
  shows "loadMessages H owner tid (snd (applyEdit H owner threadId target a2 x2 at2 r2 b2
          (snd (applyEdit H owner threadId target a1 x1 at1 r1 b1 s))))
       = loadMessages H owner tid (snd (applyEdit H owner threadId target a1 x1 at1 r1 b1
          (snd (applyEdit H owner threadId target a2 x2 at2 r2 b2 s))))"
    (is "loadMessages H owner tid (snd (?E2 (snd (?E1 s)))) = loadMessages H owner tid (snd (?E1 (snd (?E2 s))))")
proof -
  have ok1: "store_ok H owner (snd (?E1 s))" and ok2: "store_ok H owner (snd (?E2 s))"
    by (rule applyEdit_store_ok [OF ok])+
  have mid: "m_messageId m = mid" using findRow_Some [of mid] r by (auto simp: row_of_def)
  have l1: "loadMessages H owner tid (snd (?E1 s)) = replaceRow mid (edited x1 t1 m) (loadMessages H owner tid s)"
    and l2: "loadMessages H owner tid (snd (?E2 s)) = replaceRow mid (edited x2 t2 m) (loadMessages H owner tid s)"
    using edit_step [OF store_okD [OF ok] r ids t(1)] edit_step [OF store_okD [OF ok] r ids t(2)] may by simp_all
  have r1: "row_of H owner tid mid (snd (?E1 s)) = Some (edited x1 t1 m)"
    and r2: "row_of H owner tid mid (snd (?E2 s)) = Some (edited x2 t2 m)"
    using row_replaced [OF l1 r] row_replaced [OF l2 r] by simp_all
  have pos: "0 < t1" "0 < t2" using may by (simp_all add: may_edit_def)
  have again: "may_edit H a2 t2 (edited x1 t1 m)"
    using may(2) t(3) pos unfolding may_edit_edited [OF t(1) pos(1)] by (simp add: may_edit_def)
  have "loadMessages H owner tid (snd (?E2 (snd (?E1 s))))
      = replaceRow mid (edited x2 t2 (edited x1 t1 m)) (loadMessages H owner tid (snd (?E1 s)))"
    using edit_step [OF store_okD [OF ok1] r1 ids t(2)] again by simp
  then have "loadMessages H owner tid (snd (?E2 (snd (?E1 s)))) = replaceRow mid (edited x2 t2 m) (loadMessages H owner tid s)"
    by (simp add: l1 edited_twice replaceRow_replaceRow mid)
  moreover have "loadMessages H owner tid (snd (?E1 (snd (?E2 s)))) = loadMessages H owner tid (snd (?E2 s))"
    using edit_step [OF store_okD [OF ok2] r2 ids t(1)] may_edit_edited [OF t(2) pos(2)] t(3) by simp
  ultimately show ?thesis by (simp add: l2)
qed

lemma commit_in_place:
  assumes "log_ok H owner tid s" and "row_of H owner tid mid s = Some m"
    and "wf_message m'" "m_messageId m' = m_messageId m" "m_createdAtMs m' = m_createdAtMs m"
  shows "loadMessages H owner tid (snd (commitRow H owner tid m (Some m') (loadMessages H owner tid s) s))
    = replaceRow mid m' (loadMessages H owner tid s)"
  using load_commitRow(1) [OF assms(1) _ assms(3-5), of mid] assms(2) by (simp add: row_of_def)

lemma row_wf: "row_of H owner tid mid s = Some m \<Longrightarrow> wf_message m \<and> m_messageId m = mid"
  unfolding row_of_def using findRow_wf findRow_Some by blast

end

section \<open>Tombstones\<close>

definition tombstoned :: "rat \<Rightarrow> ChatMessage \<Rightarrow> ChatMessage" where
  "tombstoned t m = m\<lparr>m_text := [], m_payload := Null, m_tombstonedAtMs := Some t\<rparr>"

definition may_tombstone :: "'s host \<Rightarrow> jsval \<Rightarrow> rat \<Rightarrow> ChatMessage \<Rightarrow> bool" where
  "may_tombstone H sender t m \<longleftrightarrow> \<not> unauthorized H m sender \<and> \<not> is_tombstoned m \<and> 0 < t"

lemma is_tombstoned_tombstoned: "0 < t \<Longrightarrow> is_tombstoned (tombstoned t m)"
  by (simp add: is_tombstoned_def tombstoned_def)

context host_laws
begin

lemma tombstone_step:
  assumes ok: "log_ok H owner tid s" and r: "row_of H owner tid mid s = Some m"
    and ids: "tid = nonEmpty H threadId" "mid = nonEmpty H target" "tid \<noteq> []" "mid \<noteq> []"
    and t: "t = asInt H at_ms 0"
  shows "loadMessages H owner tid (snd (applyTombstone H owner threadId target sender at_ms received allow s))
     = (if may_tombstone H sender t m then replaceRow mid (tombstoned t m) (loadMessages H owner tid s)
        else loadMessages H owner tid s)"
proof -
  have wf: "wf_message m" using row_wf [OF r] by simp
  have f: "findRow mid (loadMessages H owner tid s) = Some m" using r by (simp add: row_of_def)
  have tr: "nonEmpty H (Str tid) = tid" "nonEmpty H (Str mid) = mid" by (simp_all add: ids nonEmpty_Str nonEmpty_trim)
  have core: "snd (applyTombstoneCore H owner (Str tid) (Str mid) sender at_ms s)
    = (if may_tombstone H sender t m then snd (commitRow H owner tid m (Some (tombstoned t m)) (loadMessages H owner tid s) s)
       else s)"
    using ids(3,4) f by (simp add: applyTombstoneCore_def tr may_tombstone_def t Let_def tombstoned_row_eq [OF wf] tombstoned_def)
  have reason: "r_reason (fst (applyTombstoneCore H owner (Str tid) (Str mid) sender at_ms s)) \<noteq> Some ''target_not_found''"
    using ids(3,4) f by (simp add: applyTombstoneCore_def tr Let_def not_applied_def commitRow_def applied_result_def)
  have found: "snd (applyTombstone H owner threadId target sender at_ms received allow s)
    = snd (applyTombstoneCore H owner (Str tid) (Str mid) sender at_ms s)"
    using ids reason by (simp add: applyTombstone_def Let_def bufferIfEarly_def case_prod_beta ok_def)
  show ?thesis
    unfolding found core
    using commit_in_place [OF ok r wf_tombstoned [OF wf], of t] by (simp add: tombstoned_def)
qed

lemma edit_tombstoned:
  assumes "log_ok H owner tid s" and "row_of H owner tid mid s = Some m" "is_tombstoned m"
    and "tid = nonEmpty H threadId" "mid = nonEmpty H target" "tid \<noteq> []" "mid \<noteq> []"
  shows "loadMessages H owner tid (snd (applyEdit H owner threadId target sender txt at_ms received allow s))
     = loadMessages H owner tid s"
  using edit_step [OF assms(1,2,4-7) refl] assms(3) by (simp add: may_edit_def)

section \<open>Reactions\<close>

lemma applyReaction_core:
  assumes "applyReactionCore H owner (Str (nonEmpty H threadId)) (Str (nonEmpty H target)) sender emoji o' s = (Inr r, s')"
    and "r_reason r \<noteq> Some ''target_not_found''" and "nonEmpty H threadId \<noteq> []" "nonEmpty H target \<noteq> []"
  shows "applyReaction H owner threadId target sender emoji o' received allow s = (Inr (r, False), s')"
  using assms by (simp add: applyReaction_def Let_def andThen_def bufferIfEarly_def ok_def del: split_paired_All)

text \<open>The row after a reaction: one list of senders changed, nothing else.\<close>

lemma reaction_step:
  assumes ok: "log_ok H owner tid s" and r: "row_of H owner tid mid s = Some m"
    and ids: "tid = nonEmpty H threadId" "mid = nonEmpty H target" "tid \<noteq> []" "mid \<noteq> []"
    and args: "x = nonEmpty H sender" "x \<noteq> []" "e = nonEmpty H emoji" "e \<noteq> []" "o' = Str ''add'' \<or> o' = Str ''remove''"
    and ss: "reactors (m_reactions m) e = Inr ss"
    and change: "o' = Str ''add'' \<longleftrightarrow> x \<notin> set ss"
  shows "loadMessages H owner tid (snd (applyReaction H owner threadId target sender emoji o' received allow s))
     = replaceRow mid (m\<lparr>m_reactions := next_reactions e (react (string_or_empty o') x ss) (m_reactions m)\<rparr>) (loadMessages H owner tid s)"
proof -
  have wf: "wf_message m" using row_wf [OF r] by simp
  then have wfr: "wf_reactions (m_reactions m)" by (simp add: wf_message_def)
  have wfn: "wf_reactions (next_reactions e (react (string_or_empty o') x ss) (m_reactions m))"
    by (rule wf_next_reactions [OF wfr ss]) (simp_all add: args(1,3) args(2,4) [unfolded args(1,3)] trimmed_nonEmpty)
  have f: "findRow mid (loadMessages H owner tid s) = Some m" using r by (simp add: row_of_def)
  have tr: "nonEmpty H (Str tid) = tid" "nonEmpty H (Str mid) = mid" by (simp_all add: ids nonEmpty_Str nonEmpty_trim)
  let ?m' = "m\<lparr>m_reactions := next_reactions e (react (string_or_empty o') x ss) (m_reactions m)\<rparr>"
  have core: "applyReactionCore H owner (Str tid) (Str mid) sender emoji o' s
    = (Inr (fst (commitRow H owner tid m (Some ?m') (loadMessages H owner tid s) s)),
       snd (commitRow H owner tid m (Some ?m') (loadMessages H owner tid s) s))"
    using ids(3,4) f args(2,4,5) change wfn
    by (elim disjE) (simp_all add: applyReactionCore_def tr Let_def coerceReactions_json [OF wfr] ss
        reacted_row_eq [OF wf] case_prod_beta flip: args(1,3))
  have found: "snd (applyReaction H owner threadId target sender emoji o' received allow s)
    = snd (commitRow H owner tid m (Some ?m') (loadMessages H owner tid s) s)"
    using applyReaction_core [OF core [unfolded ids]] ids by (simp add: commitRow_def applied_result_def)
  have "wf_message ?m'" using wf wfn by (simp add: wf_message_def)
  from commit_in_place [OF ok r this] show ?thesis unfolding found by simp
qed

lemma reaction_inherited:
  assumes r: "row_of H owner tid mid s = Some m"
    and ids: "tid = nonEmpty H threadId" "mid = nonEmpty H target" "tid \<noteq> []" "mid \<noteq> []"
    and args: "nonEmpty H sender \<noteq> []" "o' = Str ''add'' \<or> o' = Str ''remove''"
    and e: "inherited (nonEmpty H emoji)" "nonEmpty H emoji \<notin> fst ` set (m_reactions m)"
  shows "applyReaction H owner threadId target sender emoji o' received allow s = (Inl TypeError, s)"
proof -
  have "wf_message m" using row_wf [OF r] by simp
  then have wfr: "wf_reactions (m_reactions m)" by (simp add: wf_message_def)
  have rr: "reactors (m_reactions m) (nonEmpty H emoji) = Inl TypeError"
    using e by (simp add: reactors_def map_of_eq_None_iff split: option.split)
  have ne: "nonEmpty H emoji \<noteq> []" using e(1) by (auto simp: inherited_def object_prototype_keys_def)
  have tr: "nonEmpty H (Str tid) = tid" "nonEmpty H (Str mid) = mid" by (simp_all add: ids nonEmpty_Str nonEmpty_trim)
  have "applyReactionCore H owner (Str tid) (Str mid) sender emoji o' s = (Inl TypeError, s)"
    using ids(3,4) args ne r
    by (auto simp: applyReactionCore_def tr Let_def coerceReactions_json [OF wfr] rr row_of_def throw_def)
  then show ?thesis using ids by (simp add: applyReaction_def Let_def andThen_def)
qed

section \<open>Rows a mutation leaves alone\<close>

end

text \<open>
  \<open>touches_only H owner tid mid s s'\<close>: going from \<open>s\<close> to \<open>s'\<close>, the only row of any thread that can
  have changed is \<open>mid\<close> of thread \<open>tid\<close>.
\<close>

definition touches_only :: "'s host \<Rightarrow> string \<Rightarrow> string \<Rightarrow> string \<Rightarrow> 's \<Rightarrow> 's \<Rightarrow> bool" where
  "touches_only H owner tid mid s s' \<longleftrightarrow>
     (\<forall>t k. t \<noteq> tid \<or> k \<noteq> mid \<longrightarrow> row_of H owner t k s' = row_of H owner t k s)"

lemma touches_only_refl [simp]: "touches_only H owner tid mid s s"
  by (simp add: touches_only_def)

lemma touches_only_trans:
  "touches_only H owner tid mid s s' \<Longrightarrow> touches_only H owner tid mid s' s'' \<Longrightarrow> touches_only H owner tid mid s s''"
  by (simp add: touches_only_def)

context host_laws
begin

lemma commit_touches_only:
  assumes ok: "log_ok H owner tid s" and f: "findRow mid (loadMessages H owner tid s) = Some c"
    and m: "u = Some m" "wf_message m" "m_messageId m = m_messageId c" "m_createdAtMs m = m_createdAtMs c"
  shows "touches_only H owner tid mid s (snd (commitRow H owner tid c u (loadMessages H owner tid s) s))"
  unfolding touches_only_def
proof (intro allI impI)
  fix t k assume tk: "t \<noteq> tid \<or> k \<noteq> mid"
  have id: "m_messageId m = mid" using findRow_Some [OF f] m(3) by simp
  show "row_of H owner t k (snd (commitRow H owner tid c u (loadMessages H owner tid s) s)) = row_of H owner t k s"
  proof (cases "t = tid")
    case True
    with tk show ?thesis
      using load_commitRow(1) [OF ok f m(2-4)] by (simp add: row_of_def m(1) findRow_replaceRow [OF id])
  next
    case False
    then show ?thesis by (simp add: row_of_def load_commitRow_other)
  qed
qed

lemma editCore_touches_only:
  assumes "log_ok H owner (nonEmpty H threadId) s"
  shows "touches_only H owner (nonEmpty H threadId) (nonEmpty H target) s (snd (applyEditCore H owner threadId target sender txt at_ms s))"
proof -
  have "touches_only H owner (nonEmpty H threadId) (nonEmpty H target) s
      (snd (commitRow H owner (nonEmpty H threadId) c (edited_row H txt t c) (loadMessages H owner (nonEmpty H threadId) s) s))"
    if "findRow (nonEmpty H target) (loadMessages H owner (nonEmpty H threadId) s) = Some c" for c t
    by (rule commit_touches_only [OF assms that edited_row_eq [OF findRow_wf [OF that]] wf_edited [OF findRow_wf [OF that]]]) simp_all
  then show ?thesis by (simp add: applyEditCore_def Let_def split: option.split)
qed

lemma tombstoneCore_touches_only:
  assumes "log_ok H owner (nonEmpty H threadId) s"
  shows "touches_only H owner (nonEmpty H threadId) (nonEmpty H target) s (snd (applyTombstoneCore H owner threadId target sender at_ms s))"
proof -
  have "touches_only H owner (nonEmpty H threadId) (nonEmpty H target) s
      (snd (commitRow H owner (nonEmpty H threadId) c (tombstoned_row H t c) (loadMessages H owner (nonEmpty H threadId) s) s))"
    if "findRow (nonEmpty H target) (loadMessages H owner (nonEmpty H threadId) s) = Some c" for c t
    by (rule commit_touches_only [OF assms that tombstoned_row_eq [OF findRow_wf [OF that]] wf_tombstoned [OF findRow_wf [OF that]]]) simp_all
  then show ?thesis by (simp add: applyTombstoneCore_def Let_def split: option.split)
qed

lemma reactionCore_touches_only:
  assumes "log_ok H owner (nonEmpty H threadId) s"
  shows "touches_only H owner (nonEmpty H threadId) (nonEmpty H target) s (snd (applyReactionCore H owner threadId target sender emoji o' s))"
proof -
  have step: "touches_only H owner (nonEmpty H threadId) (nonEmpty H target) s (snd (commitRow H owner (nonEmpty H threadId) c
      (reacted_row H (next_reactions (nonEmpty H emoji) (react (string_or_empty o') (nonEmpty H sender) ss)
        (coerceReactions (reactions_json (m_reactions c)))) c) (loadMessages H owner (nonEmpty H threadId) s) s))"
    if f: "findRow (nonEmpty H target) (loadMessages H owner (nonEmpty H threadId) s) = Some c"
      and r: "reactors (coerceReactions (reactions_json (m_reactions c))) (nonEmpty H emoji) = Inr ss"
      and ne: "nonEmpty H sender \<noteq> []" "nonEmpty H emoji \<noteq> []" for c ss
  proof -
    have wf: "wf_reactions (next_reactions (nonEmpty H emoji) (react (string_or_empty o') (nonEmpty H sender) ss)
        (coerceReactions (reactions_json (m_reactions c))))"
      by (rule wf_next_reactions [OF _ r]) (simp_all add: ne trimmed_nonEmpty)
    show ?thesis
      by (rule commit_touches_only [OF assms f reacted_row_eq [OF findRow_wf [OF f] wf]])
        (use findRow_wf [OF f] wf in \<open>simp_all add: wf_message_def\<close>)
  qed
  then show ?thesis
    unfolding applyReactionCore_def Let_def by (auto simp: op_defs split: option.split sum.split prod.split) (metis snd_conv)+
qed

lemma pending_touches_only:
  assumes "log_ok H owner tid s" and "nonEmpty H (Str tid) = tid" "nonEmpty H (Str target) = target"
  shows "touches_only H owner tid target s (snd (applyPending H owner tid target pm s))"
proof -
  have ok: "log_ok H owner (nonEmpty H (Str tid)) s" using assms by simp
  have "touches_only H owner (nonEmpty H (Str tid)) (nonEmpty H (Str target)) s (snd (applyPending H owner tid target pm s))"
    unfolding applyPending_def
    using editCore_touches_only [OF ok, of "Str target" "Str (pm_senderAccountId pm)" "Str (pm_newText pm)" "num (pm_editedAtMs pm)"]
      tombstoneCore_touches_only [OF ok, of "Str target" "Str (pm_senderAccountId pm)" "num (pm_tombstonedAtMs pm)"]
      reactionCore_touches_only [OF ok, of "Str target" "Str (pm_senderAccountId pm)" "Str (pm_emoji pm)"]
    by (simp add: case_prod_beta)
  then show ?thesis using assms by simp
qed

lemma drainLoop_touches_only:
  assumes "store_ok H owner s" and "nonEmpty H (Str tid) = tid" "nonEmpty H (Str target) = target"
  shows "touches_only H owner tid target s (snd (drainLoop H owner tid target pms latest s))"
  using assms(1)
proof (induction pms arbitrary: latest s)
  case (Cons pm pms)
  obtain r s' where r: "applyPending H owner tid target pm s = (r, s')" by force
  have "touches_only H owner tid target s s'" "store_ok H owner s'"
    using pending_touches_only [OF store_okD [OF Cons.prems] assms(2,3), of pm]
      applyPending_store_ok [OF Cons.prems, of tid target pm] r by simp_all
  then show ?case using Cons.IH r by (auto intro: touches_only_trans split: sum.split)
qed simp

lemma row_of_writePending [simp]: "row_of H owner t k (writePendingMutations H owner x ms s) = row_of H owner t k s"
  by (simp add: row_of_def writePendingMutations_def loadMessages_def get_set get_delete)

lemma drain_touches_only:
  assumes "store_ok H owner s"
  shows "touches_only H owner (nonEmpty H threadId) (nonEmpty H target) s
    (snd (drainPendingMutationsUnlocked H owner threadId target s))"
proof -
  let ?tid = "nonEmpty H threadId" and ?mid = "nonEmpty H target"
  have tr: "nonEmpty H (Str ?tid) = ?tid" "nonEmpty H (Str ?mid) = ?mid" by (simp_all add: nonEmpty_Str nonEmpty_trim)
  have "touches_only H owner ?tid ?mid s
      (snd (andThen (drainLoop H owner ?tid ?mid pms None)
        (\<lambda>latest. andThen (writes (writePendingMutations H owner ?mid [])) (\<lambda>_. ok latest)) s))" for pms
    using drainLoop_touches_only [OF assms tr, of pms None]
    by (auto simp: op_defs touches_only_def split: prod.split sum.split)
  then show ?thesis by (simp add: drainPendingMutationsUnlocked_def Let_def ok_def)
qed

end

end
