(* ===== verification/DepositLaws.thy ===== *)
theory DepositLaws
  imports MutationLaws
begin

text \<open>
  Upserts and deposits: what they add to the log, that they never alter another row, and the
  treatment of a message id that is already taken.
\<close>

section \<open>Rows of an upserted log\<close>

lemma findRow_take: "findRow k (take n rows) = None \<or> findRow k (take n rows) = findRow k rows"
proof (induction rows arbitrary: n)
  case (Cons r rows)
  then show ?case by (cases n) auto
qed simp

lemma findRow_sort: "distinct (map m_messageId rows) \<Longrightarrow> findRow k (sort_by c rows) = findRow k rows"
proof (cases "findRow k rows")
  case None
  then have "findRow k (sort_by c rows) = None" unfolding findRow_None by simp
  with None show ?thesis by simp
next
  case (Some r)
  assume d: "distinct (map m_messageId rows)"
  have "r \<in> set (sort_by c rows)" "m_messageId r = k" using findRow_Some [OF Some] by simp_all
  with findRow_distinct [of "sort_by c rows" r] d Some show ?thesis by simp
qed

lemma findRow_append: "findRow k (xs @ ys) = (case findRow k xs of None \<Rightarrow> findRow k ys | Some r \<Rightarrow> Some r)"
  by (induction xs) auto

lemma findRow_putRow: "findRow k (putRow m rows) = (if k = m_messageId m then Some m else findRow k rows)"
  by (auto simp: putRow_def findRow_replaceRow findRow_append split: option.split)

lemma length_putRow: "length (putRow m rows) = (if findRow (m_messageId m) rows = None then Suc (length rows) else length rows)"
  by (auto simp: putRow_def split: option.split)

context host_laws
begin

lemma load_upserted:
  assumes "log_ok H owner (m_threadId m) s" and "wf_message m"
  shows "loadMessages H owner (m_threadId m) (upserted H owner m s)
    = take MAX_MESSAGES_PER_THREAD (sort_by (compareNewestFirst H) (putRow m (loadMessages H owner (m_threadId m) s)))"
proof -
  have "rows_ok (m_threadId m) (sort_by (compareNewestFirst H) (putRow m (loadMessages H owner (m_threadId m) s)))"
    using rows_ok_putRow [OF log_okD(1) [OF assms(1)] assms(2) refl] by simp
  then show ?thesis unfolding upserted_def by (intro load_save) (simp add: rows_ok_def)
qed

lemma row_upserted:
  assumes "log_ok H owner (m_threadId m) s" and "wf_message m" and "k \<noteq> m_messageId m"
  shows "row_of H owner t k (upserted H owner m s) = row_of H owner t k s
    \<or> t = m_threadId m \<and> length (loadMessages H owner t s) = MAX_MESSAGES_PER_THREAD
      \<and> row_of H owner t k (upserted H owner m s) = None"
proof (cases "t = m_threadId m")
  case False
  then show ?thesis by (simp add: row_of_def upserted_def load_save_other)
next
  case True
  let ?rows = "putRow m (loadMessages H owner (m_threadId m) s)"
  have d: "distinct (map m_messageId ?rows)"
    using rows_ok_putRow [OF log_okD(1) [OF assms(1)] assms(2) refl] by (simp add: rows_ok_def)
  have f: "findRow k (sort_by (compareNewestFirst H) ?rows) = row_of H owner t k s"
    using findRow_sort [OF d] assms(3) by (simp add: findRow_putRow row_of_def True)
  have row: "row_of H owner t k (upserted H owner m s)
    = findRow k (take MAX_MESSAGES_PER_THREAD (sort_by (compareNewestFirst H) ?rows))"
    by (simp add: row_of_def True load_upserted [OF assms(1,2)])
  show ?thesis
  proof (cases "length ?rows \<le> MAX_MESSAGES_PER_THREAD")
    case fits: True
    then show ?thesis using row f by simp
  next
    case False
    with log_okD(2) [OF assms(1)] have "length (loadMessages H owner (m_threadId m) s) = MAX_MESSAGES_PER_THREAD"
      by (auto simp: length_putRow split: if_splits)
    with True row f findRow_take [of k MAX_MESSAGES_PER_THREAD "sort_by (compareNewestFirst H) ?rows"] show ?thesis by auto
  qed
qed

lemma row_of_ensure [simp]: "row_of H owner t k (snd (ensureThreadUnlocked H owner a s)) = row_of H owner t k s"
  by (cases rule: ensureThreadUnlocked_cases [of owner a s]) (simp_all add: row_of_def load_other_key)

lemma row_of_idempotency [simp]: "row_of H owner t k (kvSet H s (kIdempotency H owner a b c) v) = row_of H owner t k s"
  by (simp add: row_of_def load_other_key)

end

text \<open>
  \<open>adds_only H owner tid mid s s'\<close>: the only row that can have been written is \<open>mid\<close> of thread
  \<open>tid\<close>; another row of that thread can only have been pushed out of a full log.
\<close>

definition adds_only :: "'s host \<Rightarrow> string \<Rightarrow> string \<Rightarrow> string \<Rightarrow> 's \<Rightarrow> 's \<Rightarrow> bool" where
  "adds_only H owner tid mid s s' \<longleftrightarrow>
     (\<forall>t k. t \<noteq> tid \<or> k \<noteq> mid \<longrightarrow> row_of H owner t k s' = row_of H owner t k s
        \<or> t = tid \<and> length (loadMessages H owner t s) = MAX_MESSAGES_PER_THREAD \<and> row_of H owner t k s' = None)"

lemma adds_only_refl [simp]: "adds_only H owner tid mid s s"
  by (simp add: adds_only_def)

lemma adds_then_touches:
  "adds_only H owner tid mid s s' \<Longrightarrow> touches_only H owner tid mid s' s'' \<Longrightarrow> adds_only H owner tid mid s s''"
  by (simp add: adds_only_def touches_only_def)

lemma adds_only_same_rows:
  "(\<And>t k. row_of H owner t k s'' = row_of H owner t k s') \<Longrightarrow> adds_only H owner tid mid s s'' = adds_only H owner tid mid s s'"
  by (simp add: adds_only_def)

context host_laws
begin

lemma upsertUnlocked_adds_only:
  assumes "store_ok H owner s" and "\<And>m. coerceMessageRow H input = Some m \<Longrightarrow> m_threadId m = tid \<and> m_messageId m = mid"
  shows "adds_only H owner tid mid s (snd (upsertMessageUnlocked H owner input s))"
proof (cases rule: upsertMessageUnlocked_cases [of H owner input s])
  case (saved m a)
  have wf: "wf_message m" by (rule coerceMessageRow_wf [OF saved(1)])
  have "adds_only H owner tid mid s (upserted H owner m s)"
    unfolding adds_only_def
  proof (intro allI impI)
    fix t k assume tk: "t \<noteq> tid \<or> k \<noteq> mid"
    show "row_of H owner t k (upserted H owner m s) = row_of H owner t k s
        \<or> t = tid \<and> length (loadMessages H owner t s) = MAX_MESSAGES_PER_THREAD \<and> row_of H owner t k (upserted H owner m s) = None"
    proof (cases "t = tid")
      case True
      then show ?thesis
        using row_upserted [OF store_okD [OF assms(1)] wf, of k t] assms(2) [OF saved(1)] tk by simp
    next
      case False
      then show ?thesis using assms(2) [OF saved(1)] by (simp add: row_of_def upserted_def load_save_other)
    qed
  qed
  then show ?thesis by (simp add: saved(3) adds_only_def)
qed simp

text \<open>The fields of a coerced literal.\<close>

lemma coerce_ids:
  assumes "coerceMessageRow H (Obj fs) = Some m" and "distinct (map fst fs)"
    and "(''messageId'', Str a) \<in> set fs" and "(''threadId'', Str b) \<in> set fs"
  shows "m_messageId m = trim a \<and> m_threadId m = trim b"
proof -
  let ?fs = "filter (\<lambda>(_, v). v \<noteq> Undef) fs"
  have d: "distinct (map fst ?fs)" using assms(2) by (simp add: distinct_map_filter)
  have k: "map_of ?fs ''messageId'' = Some (Str a)" "map_of ?fs ''threadId'' = Some (Str b)"
    using assms(3,4) d by (auto intro: map_of_is_SomeI)
  have "mkChatMessage (clockMs H) (Obj (spread [(''createdAtMs'', num (clockMs H))] ?fs)) = Inr m"
    using assms(1) by (simp add: coerceMessageRow_def coerceRow_def split: sum.splits)
  then show ?thesis
    by (auto simp: mkChatMessage_def getp_spread [OF d] k Let_def split: sum.splits if_splits)
qed

lemma snd_andThen_pure: "snd (andThen f (\<lambda>x. ok (g x)) s) = snd (f s)"
  by (simp add: op_defs split: prod.splits sum.splits)

lemma andThen_Inr: "f s = (Inr x, s') \<Longrightarrow> andThen f g s = g x s'"
  by (simp add: andThen_def)

lemma andThen_writes: "andThen (writes h) g s = g () (h s)"
  by (simp add: andThen_def writes_def)

lemma depositNew_adds_only:
  assumes "store_ok H owner s" and "trim tid = tid" "trim eff = eff"
  shows "adds_only H owner tid eff s (snd (depositNew H owner tid mid eff d s))"
proof -
  have input: "m_threadId m = tid \<and> m_messageId m = eff" if "coerceMessageRow H (deposit_row H tid eff d) = Some m" for m
    using coerce_ids [OF that [unfolded deposit_row_def Let_def], of eff tid] assms(2,3) by simp
  let ?u = "upsertMessageUnlocked H owner (deposit_row H tid eff d) s"
  have up: "adds_only H owner tid eff s (snd ?u)" "store_ok H owner (snd ?u)"
    using upsertUnlocked_adds_only [OF assms(1)] input upsertUnlocked_store_ok [OF assms(1)] by auto
  have tr: "nonEmpty H (Str tid) = tid" "nonEmpty H (Str eff) = eff" using assms(2,3) by (simp_all add: nonEmpty_Str)
  have drained: "adds_only H owner tid eff s (snd (drainPendingMutationsUnlocked H owner (Str tid) (Str eff) s'))"
    if "adds_only H owner tid eff s s'" "store_ok H owner s'" for s'
    using adds_then_touches [OF that(1)] drain_touches_only [OF that(2), of "Str tid" "Str eff"] tr by simp
  show ?thesis
  proof (cases "fst ?u")
    case (Inl e)
    then show ?thesis using up(1) by (cases ?u) (simp add: depositNew_def andThen_def)
  next
    case (Inr stored)
    let ?s2 = "if nonEmpty H (dep_senderKey d) = [] then snd ?u
          else kvSet H (snd ?u) (kIdempotency H owner tid (nonEmpty H (dep_senderKey d)) mid) (message_json stored)"
    have "adds_only H owner tid eff s ?s2" "store_ok H owner ?s2"
      using up by (simp_all add: adds_only_def)
    from drained [OF this] show ?thesis
      using Inr unfolding depositNew_def
      by (subst andThen_Inr [of "upsertMessageUnlocked H owner (deposit_row H tid eff d)" s stored "snd ?u"])
        (simp_all add: andThen_writes snd_andThen_pure prod_eq_iff)
  qed
qed

text \<open>A deposit under a taken message id by another sender: the row that is there stays.\<close>

lemma deposit_adds_only:
  assumes ok: "store_ok H owner s" and m: "row_of H owner tid mid s = Some m"
    and ids: "tid = nonEmpty H (dep_threadId d)" "mid = nonEmpty H (dep_messageId d)" "tid \<noteq> []" "mid \<noteq> []"
    and other: "nonEmpty H (dep_senderAccountId d) \<noteq> []" "m_senderAccountId m \<noteq> []"
      "m_senderAccountId m \<noteq> nonEmpty H (dep_senderAccountId d)"
  shows "adds_only H owner tid (mid @ ''@'' @ nonEmpty H (dep_senderAccountId d)) s (snd (upsertDepositedMessage H owner d s))"
proof -
  let ?x = "nonEmpty H (dep_senderAccountId d)"
  have f: "findRow mid (loadMessages H owner tid s) = Some m" using m by (simp add: row_of_def)
  have sender: "nonEmpty H (Str (m_senderAccountId m)) = m_senderAccountId m"
    using row_wf [OF m] by (simp add: nonEmpty_trimmed wf_message_def)
  have tr: "trim (mid @ ''@'' @ ?x) = mid @ ''@'' @ ?x"
  proof -
    have "trimmed mid" "trimmed ?x" unfolding ids by (rule trimmed_nonEmpty)+
    then have "trimmed (mid @ ''@'' @ ?x)" using ids(4) other(1) by (simp add: trimmed_iff)
    then show ?thesis by (rule trimmed_eq)
  qed
  have "adds_only H owner tid (mid @ ''@'' @ ?x) s (snd (depositNew H owner tid mid (mid @ ''@'' @ ?x) d s))"
    by (rule depositNew_adds_only [OF ok _ tr]) (simp add: ids nonEmpty_trim)
  then show ?thesis
    using ids(3,4) f other unfolding upsertDepositedMessage_def Let_def
    by (simp add: sender throw_def ok_def flip: ids(1,2) split: option.split)
qed

text \<open>A deposit by the same sender, or one that is the same delivery again.\<close>

lemma deposit_present:
  assumes m: "row_of H owner tid mid s = Some m"
    and ids: "tid = nonEmpty H (dep_threadId d)" "mid = nonEmpty H (dep_messageId d)" "tid \<noteq> []" "mid \<noteq> []"
    and ready: "assertThreadReady H (getThread H owner (Str tid) s) Null = None"
    and same: "nonEmpty H (dep_senderAccountId d) = [] \<or> m_senderAccountId m = [] \<or> m_senderAccountId m = nonEmpty H (dep_senderAccountId d)"
    and hash: "contentHash H (dep_payload d) = [] \<or> contentHash H (m_payload m) = [] \<or> contentHash H (dep_payload d) = contentHash H (m_payload m)"
  shows "upsertDepositedMessage H owner d s = (Inr (already_present m), s)"
proof -
  have f: "findRow mid (loadMessages H owner tid s) = Some m" using m by (simp add: row_of_def)
  have sender: "nonEmpty H (Str (m_senderAccountId m)) = m_senderAccountId m"
    using row_wf [OF m] by (simp add: nonEmpty_trimmed wf_message_def)
  show ?thesis
    using ids(3,4) f same hash ready unfolding upsertDepositedMessage_def Let_def
    by (auto simp add: sender ok_def simp flip: ids(1,2))
qed

text \<open>A deposit by the same sender with another content hash: only the flag of the row changes.\<close>

lemma deposit_conflict:
  assumes ok: "log_ok H owner tid s" and m: "row_of H owner tid mid s = Some m"
    and ids: "tid = nonEmpty H (dep_threadId d)" "mid = nonEmpty H (dep_messageId d)" "tid \<noteq> []" "mid \<noteq> []"
    and ready: "assertThreadReady H (getThread H owner (Str tid) s) Null = None"
    and same: "nonEmpty H (dep_senderAccountId d) \<noteq> []" "m_senderAccountId m = nonEmpty H (dep_senderAccountId d)"
    and hash: "contentHash H (dep_payload d) \<noteq> []" "contentHash H (m_payload m) \<noteq> []" "contentHash H (dep_payload d) \<noteq> contentHash H (m_payload m)"
  shows "fst (upsertDepositedMessage H owner d s)
      = Inr \<lparr> d_inserted = False, d_message = Some (m\<lparr>m_conflicted := True\<rparr>), d_mutated = False, d_conflict = True \<rparr>"
    and "loadMessages H owner tid (snd (upsertDepositedMessage H owner d s))
      = replaceRow mid (m\<lparr>m_conflicted := True\<rparr>) (loadMessages H owner tid s)"
proof -
  have f: "findRow mid (loadMessages H owner tid s) = Some m" using m by (simp add: row_of_def)
  have wf: "wf_message m" "m_messageId m = mid" using row_wf [OF m] by simp_all
  have wf': "wf_message (m\<lparr>m_conflicted := True\<rparr>)" using wf by (simp add: wf_message_def)
  have sender: "nonEmpty H (Str (m_senderAccountId m)) = m_senderAccountId m"
    using wf by (simp add: nonEmpty_trimmed wf_message_def)
  have eq: "upsertDepositedMessage H owner d s
    = (Inr \<lparr> d_inserted = False, d_message = Some (m\<lparr>m_conflicted := True\<rparr>), d_mutated = False, d_conflict = True \<rparr>,
       save_coerced_idempotency H owner tid m (Some (m\<lparr>m_conflicted := True\<rparr>))
         (saveMessages H owner tid (replaceRow mid (m\<lparr>m_conflicted := True\<rparr>) (loadMessages H owner tid s)) s))"
    using ids(3,4) f same hash ready unfolding upsertDepositedMessage_def Let_def
    by (simp add: nonEmpty_Str nonEmpty_trim ok_def conflicted_row_eq [OF wf(1)] put_coerced_def flip: ids(1,2))
  show "fst (upsertDepositedMessage H owner d s)
      = Inr \<lparr> d_inserted = False, d_message = Some (m\<lparr>m_conflicted := True\<rparr>), d_mutated = False, d_conflict = True \<rparr>"
    unfolding eq by simp
  show "loadMessages H owner tid (snd (upsertDepositedMessage H owner d s))
      = replaceRow mid (m\<lparr>m_conflicted := True\<rparr>) (loadMessages H owner tid s)"
    unfolding eq using save_in_place(1) [OF ok f wf', of s] by simp
qed

end

end
