(* ===== verification/EarlyMutations.thy ===== *)
theory EarlyMutations
  imports DepositLaws
begin

text \<open>
  Mutations that arrive before their target: buffering an edit and depositing the message later
  gives the log that depositing first and editing then gives. And what a deposit of a new row stores, under its own
  id or, where another sender has that id, under the extended one.
\<close>

text \<open>The record that \<open>applyEdit\<close> buffers.\<close>

definition early_edit :: "string \<Rightarrow> string \<Rightarrow> string \<Rightarrow> string \<Rightarrow> rat \<Rightarrow> rat \<Rightarrow> PendingMutation" where
  "early_edit tid mid x newTxt t received = \<lparr> pm_kind = ''edit'', pm_threadId = tid, pm_targetMessageId = mid,
     pm_senderAccountId = x, pm_receivedAtMs = received, pm_newText = newTxt, pm_editedAtMs = t,
     pm_tombstonedAtMs = 0, pm_emoji = [] \<rparr>"

text \<open>A deposit of a new row: the upsert, the idempotency row, then the drain.\<close>

definition after_upsert :: "'s host \<Rightarrow> string \<Rightarrow> string \<Rightarrow> string \<Rightarrow> string \<Rightarrow> deposit \<Rightarrow> ChatMessage \<Rightarrow> 's \<Rightarrow> 's" where
  "after_upsert H owner tid mid eff d stored s = (if nonEmpty H (dep_senderKey d) = [] then s
     else kvSet H s (kIdempotency H owner tid (nonEmpty H (dep_senderKey d)) mid) (message_json stored))"

context host_laws
begin

text \<open>Two stores that differ in other keys only run \<open>_upsertMessageUnlocked\<close> alike.\<close>

lemma ensure_same:
  assumes "\<And>t. getThread H owner t s' = getThread H owner t s"
  shows "fst (ensureThreadUnlocked H owner a s') = fst (ensureThreadUnlocked H owner a s)"
  unfolding ensureThreadUnlocked_def Let_def assms throw_def
  by (simp split: sum.split option.split)

lemma load_ensure [simp]: "loadMessages H owner t (snd (ensureThreadUnlocked H owner a s)) = loadMessages H owner t s"
  by (cases rule: ensureThreadUnlocked_cases [of owner a s]) (simp_all add: load_other_key)

lemma upsert_unfold:
  "upsertMessageUnlocked H owner input s = (case coerceMessageRow H input of
     None \<Rightarrow> throw (Error ''ThreadStoreService.upsertMessage requires messageId and threadId'') s
   | Some m \<Rightarrow> (case assertThreadReady H (getThread H owner (Str (m_threadId m)) s) (getp input ''groupId'') of
       Some e \<Rightarrow> throw e s
     | None \<Rightarrow> andThen (ensureThreadUnlocked H owner (no_args
                \<lparr> a_threadId := Str (m_threadId m), a_createdAtMs := num (m_createdAtMs m),
                  a_groupId := Str (nonEmpty H (getp input ''groupId'')),
                  a_lastActivityAtMs := num (m_createdAtMs m) \<rparr>)) (\<lambda>_. ok m) (upserted H owner m s)))"
  unfolding upsertMessageUnlocked_def upserted_def Let_def ..

lemma load_upserted_same:
  assumes "\<And>t. loadMessages H owner t s' = loadMessages H owner t s"
  shows "loadMessages H owner t (upserted H owner m s') = loadMessages H owner t (upserted H owner m s)"
  using assms by (simp add: upserted_def loadMessages_def saveMessages_def get_set)

lemma upsert_same:
  assumes m: "\<And>t. loadMessages H owner t s' = loadMessages H owner t s"
    and t: "\<And>t. getThread H owner t s' = getThread H owner t s"
  shows "fst (upsertMessageUnlocked H owner input s') = fst (upsertMessageUnlocked H owner input s)"
    and "loadMessages H owner k (snd (upsertMessageUnlocked H owner input s'))
      = loadMessages H owner k (snd (upsertMessageUnlocked H owner input s))"
proof -
  have g: "getThread H owner k (upserted H owner w s') = getThread H owner k (upserted H owner w s)" for k w
    using t by (simp add: upserted_def)
  have e: "fst (andThen (ensureThreadUnlocked H owner a) (\<lambda>_. ok w) (upserted H owner w s'))
      = fst (andThen (ensureThreadUnlocked H owner a) (\<lambda>_. ok w) (upserted H owner w s))" for a w
    using ensure_same [OF g, of a w] by (auto simp: andThen_def ok_def split: prod.splits sum.splits)
  have l: "loadMessages H owner k (upserted H owner w s') = loadMessages H owner k (upserted H owner w s)" for k w
    by (rule load_upserted_same [OF m])
  show "fst (upsertMessageUnlocked H owner input s') = fst (upsertMessageUnlocked H owner input s)"
    and "loadMessages H owner k (snd (upsertMessageUnlocked H owner input s'))
      = loadMessages H owner k (snd (upsertMessageUnlocked H owner input s))"
    unfolding upsert_unfold t by (simp_all add: e l m throw_def split: option.split)
qed

lemma load_kPending [simp]: "loadMessages H owner t (kvSet H s (kPendingMutations owner x) v) = loadMessages H owner t s"
  "loadMessages H owner t (writePendingMutations H owner x ms s) = loadMessages H owner t s"
  "loadMessages H owner t (kvSet H s (kIdempotency H owner a b c) v) = loadMessages H owner t s"
  by (simp_all add: writePendingMutations_def loadMessages_def get_set get_delete)

lemma getThread_kPending [simp]: "getThread H owner t (kvSet H s (kPendingMutations owner x) v) = getThread H owner t s"
  by (simp add: getThread_def get_set Let_def)

lemma pending_frame:
  "kvGet H (snd (upsertMessageUnlocked H owner input s)) (kPendingMutations owner x) = kvGet H s (kPendingMutations owner x)"
proof (cases rule: upsertMessageUnlocked_cases [of H owner input s])
  case (saved m a)
  have "kvGet H (snd (ensureThreadUnlocked H owner a s')) (kPendingMutations owner x) = kvGet H s' (kPendingMutations owner x)" for s'
    by (cases rule: ensureThreadUnlocked_cases [of owner a s']) (simp_all add: get_set)
  then show ?thesis by (simp add: saved(3) upserted_def saveMessages_def get_set)
qed simp

section \<open>Buffering\<close>

lemma trimmed_edit: "trim ''edit'' = ''edit''"
  by (simp add: trim_def is_ws_def)

lemma buffered_edit:
  assumes "trim tid = tid" "tid \<noteq> []" "trim mid = mid" "mid \<noteq> []" "x = nonEmpty H sender" "x \<noteq> []"
    and "t = asInt H at_ms 0" "0 < t" "received = num (of_int r)" "0 < r"
  shows "buffered_mutation H ''edit'' tid mid sender received [(''newText'', Str (string_or_empty newTxt)), (''editedAtMs'', num (asInt H at_ms 0))]
    = Inr (early_edit tid mid x (string_or_empty newTxt) t (of_int r))"
    and "wf_mutation (early_edit tid mid x (string_or_empty newTxt) t (of_int r))"
proof -
  have tt: "trunc t = t" using asInt_whole [of at_ms 0] assms(7) by auto
  have x: "trim x = x" using assms(5) by (simp add: nonEmpty_trim)
  have v: "validatePendingMutation (early_edit tid mid x (string_or_empty newTxt) t (of_int r)) = None"
    using assms by (simp add: validatePendingMutation_def early_edit_def)
  show "wf_mutation (early_edit tid mid x (string_or_empty newTxt) t (of_int r))"
    unfolding wf_mutation_def using v assms(1,3) tt x by (simp add: early_edit_def trimmed_def trimmed_edit)
  have "buildPendingMutation (Obj ([(''kind'', Str ''edit''), (''threadId'', Str tid), (''targetMessageId'', Str mid),
       (''senderAccountId'', Str (nonEmpty H sender))] @ [(''newText'', Str (string_or_empty newTxt)), (''editedAtMs'', num (asInt H at_ms 0))]
       @ [(''receivedAtMs'', num (asInt H received (clockMs H)))])) = early_edit tid mid x (string_or_empty newTxt) t (of_int r)"
    using assms(1,3) tt x
    by (simp add: buildPendingMutation_def early_edit_def getp_def asInt_int trimmed_edit assms(9) flip: assms(5,7))
  then show "buffered_mutation H ''edit'' tid mid sender received [(''newText'', Str (string_or_empty newTxt)), (''editedAtMs'', num (asInt H at_ms 0))]
    = Inr (early_edit tid mid x (string_or_empty newTxt) t (of_int r))"
    using v by (simp add: buffered_mutation_def mkPendingMutation_def)
qed

section \<open>The log after an edit\<close>

lemma editCore_load:
  assumes ok: "log_ok H owner tid s" and ids: "trim tid = tid" "tid \<noteq> []" "trim mid = mid" "mid \<noteq> []"
  shows "loadMessages H owner tid (snd (applyEditCore H owner (Str tid) (Str mid) sender newTxt at_ms s))
    = (case row_of H owner tid mid s of None \<Rightarrow> loadMessages H owner tid s
       | Some m \<Rightarrow> if may_edit H sender (asInt H at_ms 0) m
           then replaceRow mid (edited newTxt (asInt H at_ms 0) m) (loadMessages H owner tid s) else loadMessages H owner tid s)"
proof (cases "row_of H owner tid mid s")
  case None
  then show ?thesis by (simp add: applyEditCore_def nonEmpty_Str ids row_of_def)
next
  case (Some m)
  have tr: "trimmed tid" "trimmed mid" using ids by (simp_all add: trimmed_def)
  show ?thesis
    using editCore_applied(2) [OF ok Some tr(1) ids(2) tr(2) ids(4), of sender at_ms newTxt]
      editCore_refused [OF Some tr, of sender at_ms newTxt]
    by (cases "may_edit H sender (asInt H at_ms 0) m") (simp_all add: Some)
qed

lemma bufferIfEarly_load: "loadMessages H owner t (snd (bufferIfEarly H owner allow pm r s)) = loadMessages H owner t s"
  by (simp add: bufferIfEarly_def bufferMutationUnlocked_def throw_def ok_def split: sum.split)

lemma applyEdit_load:
  assumes "nonEmpty H threadId \<noteq> []" "nonEmpty H target \<noteq> []"
  shows "loadMessages H owner t (snd (applyEdit H owner threadId target sender newTxt at_ms received allow s))
    = loadMessages H owner t (snd (applyEditCore H owner (Str (nonEmpty H threadId)) (Str (nonEmpty H target)) sender newTxt at_ms s))"
  using assms by (simp add: applyEdit_def Let_def case_prod_beta bufferIfEarly_load)

lemma applyEdit_missing:
  assumes "row_of H owner (nonEmpty H threadId) (nonEmpty H target) s = None"
    and "nonEmpty H threadId \<noteq> []" "nonEmpty H target \<noteq> []"
    and "buffered_mutation H ''edit'' (nonEmpty H threadId) (nonEmpty H target) sender received
      [(''newText'', Str (string_or_empty newTxt)), (''editedAtMs'', num (asInt H at_ms 0))] = Inr pm"
  shows "snd (applyEdit H owner threadId target sender newTxt at_ms received True s) = bufferMutationUnlocked H owner pm s"
  using assms by (simp add: applyEdit_def applyEditCore_def nonEmpty_Str nonEmpty_trim Let_def row_of_def not_applied_def
      bufferIfEarly_def ok_def)

lemma load_pending_write:
  assumes "\<forall>pm\<in>set pms. wf_mutation pm" "pms \<noteq> []" "length pms \<le> MAX_PENDING_MUTATIONS_PER_TARGET"
  shows "loadPendingMutations H owner x (writePendingMutations H owner x pms s) = pms"
  using assms by (simp add: loadPendingMutations_def writePendingMutations_def last_n_def keepSome_map coerceRow_mutation)

lemma deposit_missing:
  assumes "row_of H owner tid mid s = None" and "tid = nonEmpty H (dep_threadId d)" "mid = nonEmpty H (dep_messageId d)"
    and "tid \<noteq> []" "mid \<noteq> []" and "assertThreadReady H (getThread H owner (Str tid) s) Null = None"
  shows "upsertDepositedMessage H owner d s = depositNew H owner tid mid mid d s"
  using assms(1,4-6) unfolding upsertDepositedMessage_def Let_def assms(2,3) [symmetric]
  by (simp add: row_of_def)

text \<open>The drain with nothing, or one edit, buffered.\<close>

lemma drain_nothing:
  "loadPendingMutations H owner (nonEmpty H target) s = [] \<Longrightarrow>
   drainPendingMutationsUnlocked H owner threadId target s = (Inr None, s)"
  by (simp add: drainPendingMutationsUnlocked_def Let_def ok_def)

lemma drain_one_edit:
  assumes "loadPendingMutations H owner mid s = [pm]" and "pm_kind pm = ''edit''"
    and ids: "trim tid = tid" "tid \<noteq> []" "trim mid = mid" "mid \<noteq> []"
  shows "loadMessages H owner t (snd (drainPendingMutationsUnlocked H owner (Str tid) (Str mid) s))
    = loadMessages H owner t (snd (applyEditCore H owner (Str tid) (Str mid) (Str (pm_senderAccountId pm))
        (Str (pm_newText pm)) (num (pm_editedAtMs pm)) s))"
  using assms by (simp add: drainPendingMutationsUnlocked_def Let_def nonEmpty_Str applyPending_def op_defs case_prod_beta)

lemma loadPending_frame:
  "kvGet H s' (kPendingMutations owner x) = kvGet H s (kPendingMutations owner x) \<Longrightarrow>
   loadPendingMutations H owner x s' = loadPendingMutations H owner x s"
  by (simp add: loadPendingMutations_def)

lemma depositNew_inserted:
  assumes "upsertMessageUnlocked H owner (deposit_row H tid eff d) s = (Inr stored, s')"
  shows "snd (depositNew H owner tid mid eff d s)
    = snd (drainPendingMutationsUnlocked H owner (Str tid) (Str eff) (after_upsert H owner tid mid eff d stored s'))"
  unfolding depositNew_def after_upsert_def andThen_Inr [where f = "upsertMessageUnlocked H owner (deposit_row H tid eff d)", OF assms]
  by (simp add: andThen_writes snd_andThen_pure)

lemma after_upsert_frame [simp]:
  "loadMessages H owner t (after_upsert H owner tid mid eff d stored s) = loadMessages H owner t s"
  "kvGet H (after_upsert H owner tid mid eff d stored s) (kPendingMutations owner x) = kvGet H s (kPendingMutations owner x)"
  "store_ok H owner (after_upsert H owner tid mid eff d stored s) = store_ok H owner s"
  by (simp_all add: after_upsert_def get_set)

lemma early_edit_commutes:
  assumes ok: "store_ok H owner s" and fresh: "row_of H owner tid mid s = None"
    and none: "kvGet H s (kPendingMutations owner mid) = Null"
    and ids: "tid = nonEmpty H threadId" "mid = nonEmpty H target" "tid \<noteq> []" "mid \<noteq> []"
    and dep: "tid = nonEmpty H (dep_threadId d)" "mid = nonEmpty H (dep_messageId d)"
    and ready: "assertThreadReady H (getThread H owner (Str tid) s) Null = None"
    and stored: "fst (upsertMessageUnlocked H owner (deposit_row H tid mid d) s) = Inr stored"
    and x: "nonEmpty H sender \<noteq> []" and t: "0 < asInt H at_ms 0" and r: "0 < r"
  shows "loadMessages H owner tid (snd (upsertDepositedMessage H owner d
          (snd (applyEdit H owner threadId target sender newTxt at_ms (num (of_int r)) True s))))
       = loadMessages H owner tid (snd (applyEdit H owner threadId target sender newTxt at_ms (num (of_int r)) True
          (snd (upsertDepositedMessage H owner d s))))"
proof -
  have tr: "trim tid = tid" "trim mid = mid" by (simp_all add: ids nonEmpty_trim)
  define pm where "pm = early_edit tid mid (nonEmpty H sender) (string_or_empty newTxt) (asInt H at_ms 0) (of_int r)"
  note pm = buffered_edit [OF tr(1) ids(3) tr(2) ids(4) refl x refl t refl r, where newTxt = newTxt, folded pm_def]
  define s1 where "s1 = snd (applyEdit H owner threadId target sender newTxt at_ms (num (of_int r)) True s)"
  have s1: "s1 = writePendingMutations H owner mid [pm] s"
  proof -
    have "s1 = bufferMutationUnlocked H owner pm s"
      unfolding s1_def using fresh ids pm(1) by (intro applyEdit_missing) simp_all
    then show ?thesis
      by (simp add: bufferMutationUnlocked_def pm_def early_edit_def loadPendingMutations_def none)
  qed
  have ok1: "store_ok H owner s1" using ok by (simp add: s1)
  have load1: "loadMessages H owner k s1 = loadMessages H owner k s" for k by (simp add: s1)
  have thread1: "getThread H owner k s1 = getThread H owner k s" for k by (simp add: s1 writePendingMutations_def)
  have pend1: "loadPendingMutations H owner mid s1 = [pm]"
    unfolding s1 by (rule load_pending_write) (simp_all add: pm(2) MAX_PENDING_MUTATIONS_PER_TARGET_def)
  obtain u0 where u0: "upsertMessageUnlocked H owner (deposit_row H tid mid d) s = (Inr stored, u0)"
    using stored by (cases "upsertMessageUnlocked H owner (deposit_row H tid mid d) s") simp
  obtain u1 where u1: "upsertMessageUnlocked H owner (deposit_row H tid mid d) s1 = (Inr stored, u1)"
    using upsert_same(1) [OF load1 thread1] stored by (metis prod.collapse)
  have same: "loadMessages H owner k u1 = loadMessages H owner k u0" for k
    using upsert_same(2) [OF load1 thread1, of k "deposit_row H tid mid d"] u0 u1 by simp
  have oku: "store_ok H owner u0" "store_ok H owner u1"
    using upsertUnlocked_store_ok [OF ok, of "deposit_row H tid mid d"] upsertUnlocked_store_ok [OF ok1, of "deposit_row H tid mid d"]
    by (simp_all add: u0 u1)
  let ?v0 = "after_upsert H owner tid mid mid d stored u0" and ?v1 = "after_upsert H owner tid mid mid d stored u1"
  have p0: "loadPendingMutations H owner mid ?v0 = []"
    using pending_frame [of owner "deposit_row H tid mid d" s mid] none by (simp add: u0 loadPendingMutations_def)
  have p1: "loadPendingMutations H owner mid ?v1 = [pm]"
    using loadPending_frame [of ?v1 owner mid s1] pending_frame [of owner "deposit_row H tid mid d" s1 mid] pend1
    by (simp add: u1)
  have left: "snd (upsertDepositedMessage H owner d s1) = snd (drainPendingMutationsUnlocked H owner (Str tid) (Str mid) ?v1)"
    using deposit_missing [of owner tid mid s1 d] fresh dep ids ready depositNew_inserted [OF u1]
    by (simp add: row_of_def load1 thread1)
  have right: "snd (upsertDepositedMessage H owner d s) = ?v0"
    using deposit_missing [OF fresh dep ids(3,4) ready] depositNew_inserted [OF u0]
      drain_nothing [of owner "Str mid" ?v0] p0 tr by (simp add: nonEmpty_Str)
  have rows: "row_of H owner tid mid ?v1 = row_of H owner tid mid ?v0" by (simp add: row_of_def same)
  have "loadMessages H owner tid (snd (upsertDepositedMessage H owner d s1))
      = loadMessages H owner tid (snd (applyEditCore H owner (Str tid) (Str mid) (Str (nonEmpty H sender))
          (Str (string_or_empty newTxt)) (num (asInt H at_ms 0)) ?v1))"
    unfolding left using drain_one_edit [OF p1 _ tr(1) ids(3) tr(2) ids(4)] by (simp add: pm_def early_edit_def)
  also have "\<dots> = loadMessages H owner tid (snd (applyEditCore H owner (Str tid) (Str mid) sender newTxt at_ms ?v0))"
    using oku asInt_stamp [OF refl, of at_ms]
    by (simp add: editCore_load [OF store_okD tr(1) ids(3) tr(2) ids(4)] rows same edited_def edited_payload_def
        may_edit_def unauthorized_def nonEmpty_Str nonEmpty_trim split: option.split)
  also have "\<dots> = loadMessages H owner tid (snd (applyEdit H owner threadId target sender newTxt at_ms (num (of_int r)) True ?v0))"
    using applyEdit_load [of threadId target owner tid sender newTxt at_ms "num (of_int r)" True ?v0] ids by simp
  finally show ?thesis unfolding right s1_def [symmetric] .
qed

end

section \<open>Deposits of a new row\<close>

lemma getp_filter: "distinct (map fst fs) \<Longrightarrow> getp (Obj (filter (\<lambda>(_, v). v \<noteq> Undef) fs)) k = getp (Obj fs) k"
proof (induction fs)
  case (Cons f fs)
  have "map_of (filter (\<lambda>(_, v). v \<noteq> Undef) fs) k = None" if "k \<notin> fst ` set fs"
    using that by (force simp: map_of_eq_None_iff)
  moreover have "map_of fs k = None" if "k \<notin> fst ` set fs" using that by (simp add: map_of_eq_None_iff)
  ultimately show ?case using Cons by (cases f) (auto simp: getp_def)
qed simp

lemma coerce_content:
  assumes "coerceMessageRow H (Obj fs) = Some m" and "distinct (map fst fs)"
  shows "m_senderAccountId m = nonEmptyString (getp (Obj fs) ''senderAccountId'')" "m_text m = string_or_empty (getp (Obj fs) ''text'')"
    "m_payload m = (if is_object (getp (Obj fs) ''payload'') then getp (Obj fs) ''payload'' else Null)"
proof -
  let ?fs = "filter (\<lambda>(_, v). v \<noteq> Undef) fs"
  have d: "distinct (map fst ?fs)" using assms(2) by (simp add: distinct_map_filter)
  have "mkChatMessage (clockMs H) (Obj (spread [(''createdAtMs'', num (clockMs H))] ?fs)) = Inr m"
    using assms(1) by (simp add: coerceMessageRow_def coerceRow_def split: sum.splits)
  moreover have "getp (Obj (spread [(''createdAtMs'', num (clockMs H))] ?fs)) k = getp (Obj fs) k" if "k \<noteq> ''createdAtMs''" for k
    using getp_filter [OF assms(2), of k] that by (simp add: getp_spread [OF d]) (simp add: getp_def split: option.splits)
  ultimately show "m_senderAccountId m = nonEmptyString (getp (Obj fs) ''senderAccountId'')" "m_text m = string_or_empty (getp (Obj fs) ''text'')"
    "m_payload m = (if is_object (getp (Obj fs) ''payload'') then getp (Obj fs) ''payload'' else Null)"
    by (auto simp: mkChatMessage_def Let_def split: sum.splits if_splits)
qed

context host_laws
begin

lemma upserted_row:
  assumes "log_ok H owner (m_threadId m) s" and "wf_message m" and "length (loadMessages H owner (m_threadId m) s) < MAX_MESSAGES_PER_THREAD"
  shows "row_of H owner (m_threadId m) (m_messageId m) (upserted H owner m s) = Some m"
proof -
  let ?rows = "putRow m (loadMessages H owner (m_threadId m) s)"
  have d: "distinct (map m_messageId ?rows)"
    using rows_ok_putRow [OF log_okD(1) [OF assms(1)] assms(2) refl] by (simp add: rows_ok_def)
  then show ?thesis
    using assms(3) by (simp add: row_of_def load_upserted [OF assms(1,2)] length_putRow findRow_sort findRow_putRow)
qed

text \<open>What a deposit of a new id does when its thread has room and no mutation waits for it.\<close>

lemma depositNew_stores:
  assumes ok: "store_ok H owner s" and tr: "trim tid = tid" "trim eff = eff"
    and stored: "fst (upsertMessageUnlocked H owner (deposit_row H tid eff d) s) = Inr new"
    and none: "kvGet H s (kPendingMutations owner eff) = Null" and room: "length (loadMessages H owner tid s) < MAX_MESSAGES_PER_THREAD"
  shows "fst (depositNew H owner tid mid eff d s) = Inr \<lparr> d_inserted = True, d_message = Some new, d_mutated = False, d_conflict = False \<rparr>"
    and "row_of H owner tid eff (snd (depositNew H owner tid mid eff d s)) = Some new"
    and "m_senderAccountId new = nonEmpty H (dep_senderAccountId d)" "m_text new = string_or_empty (dep_text d)"
    and "m_payload new = (if is_object (dep_payload d) then dep_payload d else Null)"
proof -
  obtain s1 where up: "upsertMessageUnlocked H owner (deposit_row H tid eff d) s = (Inr new, s1)"
    using stored by (cases "upsertMessageUnlocked H owner (deposit_row H tid eff d) s") simp
  have c: "coerceMessageRow H (deposit_row H tid eff d) = Some new"
    using up by (auto simp: upsert_unfold throw_def andThen_def ok_def split: option.splits prod.splits sum.splits)
  have ids: "m_threadId new = tid" "m_messageId new = eff"
    using coerce_ids [OF c [unfolded deposit_row_def Let_def], of eff tid] tr by simp_all
  have wf: "wf_message new" by (rule coerceMessageRow_wf [OF c])
  let ?s2 = "after_upsert H owner tid mid eff d new s1"
  have "kvGet H ?s2 (kPendingMutations owner eff) = Null"
    using pending_frame [of owner "deposit_row H tid eff d" s eff] none by (simp add: up)
  then have drain: "drainPendingMutationsUnlocked H owner (Str tid) (Str eff) ?s2 = (Inr None, ?s2)"
    using tr by (intro drain_nothing) (simp add: nonEmpty_Str loadPendingMutations_def)
  have run: "depositNew H owner tid mid eff d s = (Inr \<lparr> d_inserted = True, d_message = Some new, d_mutated = False, d_conflict = False \<rparr>, ?s2)"
    unfolding depositNew_def andThen_Inr [where f = "upsertMessageUnlocked H owner (deposit_row H tid eff d)", OF up]
      andThen_writes after_upsert_def [of H owner tid mid eff d new s1, symmetric] andThen_Inr [where f = "drainPendingMutationsUnlocked H owner (Str tid) (Str eff)", OF drain] by (simp add: ok_def)
  show "fst (depositNew H owner tid mid eff d s) = Inr \<lparr> d_inserted = True, d_message = Some new, d_mutated = False, d_conflict = False \<rparr>"
    by (simp add: run)
  have "\<exists>a. s1 = snd (ensureThreadUnlocked H owner a (upserted H owner new s))"
  proof (cases rule: upsertMessageUnlocked_cases [of H owner "deposit_row H tid eff d" s])
    case (saved w a)
    then have "w = new" using c by simp
    then show ?thesis using saved(3) up by (metis snd_andThen_ok snd_conv)
  qed (simp add: up)
  then have "row_of H owner tid eff ?s2 = row_of H owner tid eff (upserted H owner new s)" by (auto simp: row_of_def)
  then show "row_of H owner tid eff (snd (depositNew H owner tid mid eff d s)) = Some new"
    using upserted_row [OF store_okD [OF ok] wf] room by (simp add: run ids)
  show "m_senderAccountId new = nonEmpty H (dep_senderAccountId d)" "m_text new = string_or_empty (dep_text d)"
    "m_payload new = (if is_object (dep_payload d) then dep_payload d else Null)"
    using coerce_content [OF c [unfolded deposit_row_def Let_def]]
    by (simp_all add: getp_def nonEmpty_trim)
qed

lemma deposit_collision:
  assumes m: "row_of H owner tid mid s = Some m"
    and ids: "tid = nonEmpty H (dep_threadId d)" "mid = nonEmpty H (dep_messageId d)" "tid \<noteq> []" "mid \<noteq> []"
    and other: "nonEmpty H (dep_senderAccountId d) \<noteq> []" "m_senderAccountId m \<noteq> []" "m_senderAccountId m \<noteq> nonEmpty H (dep_senderAccountId d)"
    and ready: "assertThreadReady H (getThread H owner (Str tid) s) Null = None"
    and eff: "eff = mid @ ''@'' @ nonEmpty H (dep_senderAccountId d)" and fresh: "row_of H owner tid eff s = None"
  shows "upsertDepositedMessage H owner d s = depositNew H owner tid mid eff d s"
proof -
  have f: "findRow mid (loadMessages H owner tid s) = Some m" "findRow eff (loadMessages H owner tid s) = None"
    using m fresh by (simp_all add: row_of_def)
  have sender: "nonEmpty H (Str (m_senderAccountId m)) = m_senderAccountId m"
    using row_wf [OF m] by (simp add: nonEmpty_trimmed wf_message_def)
  show ?thesis
    using ids(3,4) f [unfolded eff] other ready unfolding upsertDepositedMessage_def Let_def eff
    by (simp add: sender flip: ids(1,2))
qed

end

end
