(* ===== verification/Paging.thy ===== *)
theory Paging
  imports MutationLaws
begin

text \<open>
  Reading the log in pages: \<open>listMessages\<close> with the cursor of the previous page continues where that page
  ended, after the rows that the order of the log does not tell apart from its last one.
\<close>

lemma filter_after:
  assumes c: "comparator c" and s: "sorted_by c xs" and k: "0 < k" "k \<le> length xs"
  shows "filter (\<lambda>y. c (xs ! (k - 1)) y < 0) xs = dropWhile (\<lambda>y. c (xs ! (k - 1)) y = 0) (drop k xs)"
proof -
  let ?x = "xs ! (k - 1)"
  have split: "xs = take (k - 1) xs @ ?x # drop k xs"
    using id_take_nth_drop [of "k - 1" xs] k by simp
  have s': "sorted_by c (take (k - 1) xs @ ?x # drop k xs)" by (rule subst [OF split, of "sorted_by c"]) (rule s)
  have "\<not> c ?x y < 0" if "y \<in> set (take (k - 1) xs)" for y
    using s' that comparator.anti [OF c, of y ?x] by (auto simp: sorted_wrt_append)
  moreover have "filter (\<lambda>y. c ?x y < 0) ys = dropWhile (\<lambda>y. c ?x y = 0) ys" if "sorted_by c (?x # ys)" for ys
    using that
  proof (induction ys)
    case (Cons y ys)
    show ?case
    proof (cases "c ?x y = 0")
      case True
      then show ?thesis using Cons by simp
    next
      case False
      then have "c ?x y < 0" using Cons.prems by simp
      moreover have "c ?x z < 0" if "z \<in> set ys" for z
        using comparator.less_trans [OF c \<open>c ?x y < 0\<close>] Cons.prems that by simp
      ultimately show ?thesis by (simp add: filter_id_conv)
    qed
  qed simp
  ultimately show ?thesis
    using comparator.refl [OF c, of ?x] s' by (subst split) (simp add: sorted_wrt_append filter_empty_conv)
qed

definition page_size :: "'s host \<Rightarrow> jsval \<Rightarrow> nat" where
  "page_size H limit = nat \<lfloor>max 1 (min (of_nat MAX_MESSAGES_PER_THREAD) (asInt H limit 50))\<rfloor>"

lemma page_size_bounds: "1 \<le> page_size H limit" "page_size H limit \<le> MAX_MESSAGES_PER_THREAD"
proof -
  have "(1::int) \<le> \<lfloor>max 1 (min (of_nat MAX_MESSAGES_PER_THREAD) (asInt H limit 50))\<rfloor>" by (simp add: le_floor_iff)
  then show "1 \<le> page_size H limit" unfolding page_size_def by linarith
  have "max 1 (min (of_nat MAX_MESSAGES_PER_THREAD) (asInt H limit 50)) \<le> (of_nat MAX_MESSAGES_PER_THREAD :: rat)"
    by (simp add: MAX_MESSAGES_PER_THREAD_def)
  then have "\<lfloor>max 1 (min (of_nat MAX_MESSAGES_PER_THREAD) (asInt H limit 50))\<rfloor> \<le> \<lfloor>of_nat MAX_MESSAGES_PER_THREAD :: rat\<rfloor>"
    by (rule floor_mono)
  then show "page_size H limit \<le> MAX_MESSAGES_PER_THREAD" by (simp add: page_size_def)
qed

text \<open>Two rows that the order of the log does not tell apart: one time, and ids that are equal for the collation.\<close>

definition tied :: "'s host \<Rightarrow> ChatMessage \<Rightarrow> ChatMessage \<Rightarrow> bool" where
  "tied H x m \<longleftrightarrow> asInt H (num (m_createdAtMs m)) 0 = asInt H (num (m_createdAtMs x)) 0
     \<and> localeCompare H (m_messageId m) (m_messageId x) = 0"

lemma tied_compare: "tied H x m \<longleftrightarrow> compareNewestFirst H x m = 0"
  by (auto simp: tied_def compareNewestFirst_def Let_def)

text \<open>No two message ids of the log are equal for the collation.\<close>

definition collation_strict :: "'s host \<Rightarrow> ChatMessage list \<Rightarrow> bool" where
  "collation_strict H rows \<longleftrightarrow> (\<forall>a\<in>set rows. \<forall>b\<in>set rows.
     localeCompare H (m_messageId a) (m_messageId b) = 0 \<longrightarrow> m_messageId a = m_messageId b)"

context host_laws
begin

lemma listMessages_items:
  assumes "log_ok H owner tid s" and "tid = nonEmpty H threadId" "tid \<noteq> []"
  shows "p_items (listMessages H owner threadId limit before s)
    = take (page_size H limit) (filter (\<lambda>m. isStrictlyBeforeCursor H m before) (loadMessages H owner tid s))"
    and "p_nextBefore (listMessages H owner threadId limit before s)
    = cursor_of H (p_items (listMessages H owner threadId limit before s))"
  using assms log_okD(3) [OF assms(1)] by (simp_all add: listMessages_def Let_def page_size_def sort_by_id)

lemma strictly_before_iff:
  "isStrictlyBeforeCursor H m (Some \<lparr> c_createdAtMs = asInt H (num (m_createdAtMs x)) 0, c_messageId = m_messageId x \<rparr>)
    \<longleftrightarrow> compareNewestFirst H x m < 0"
  using asInt_stamp [of "asInt H (num (m_createdAtMs x)) 0" "num (m_createdAtMs x)"]
  by (auto simp: isStrictlyBeforeCursor_def compareNewestFirst_def Let_def)

lemma strictly_sorted:
  assumes "log_ok H owner tid s" and "collation_strict H (loadMessages H owner tid s)"
  shows "sorted_wrt (\<lambda>a b. compareNewestFirst H a b < 0) (loadMessages H owner tid s)"
proof -
  let ?rows = "loadMessages H owner tid s"
  have s: "sorted_by (compareNewestFirst H) ?rows" and d: "distinct (map m_messageId ?rows)"
    using log_okD(3,1) [OF assms(1)] by (simp_all add: rows_ok_def)
  show ?thesis
    unfolding sorted_wrt_iff_nth_less
  proof (intro allI impI)
    fix i j assume ij: "i < j" "j < length ?rows"
    have le: "compareNewestFirst H (?rows ! i) (?rows ! j) \<le> 0" using sorted_wrt_nth_less [OF s ij] .
    have "map m_messageId ?rows ! i \<noteq> map m_messageId ?rows ! j"
      using nth_eq_iff_index_eq [OF d, of i j] ij by simp
    then have ne: "m_messageId (?rows ! j) \<noteq> m_messageId (?rows ! i)" using ij by simp
    have "?rows ! i \<in> set ?rows" "?rows ! j \<in> set ?rows" using ij by simp_all
    then have "localeCompare H (m_messageId (?rows ! j)) (m_messageId (?rows ! i)) \<noteq> 0"
      using assms(2) ne unfolding collation_strict_def by blast
    with le show "compareNewestFirst H (?rows ! i) (?rows ! j) < 0"
      unfolding compareNewestFirst_def Let_def by (simp split: if_splits)
  qed
qed

lemma page_after:
  assumes ok: "log_ok H owner tid s" and ids: "tid = nonEmpty H threadId" "tid \<noteq> []"
    and k: "0 < k" "k \<le> length (loadMessages H owner tid s)"
  shows "p_items (listMessages H owner threadId limit (cursor_of H (take k (loadMessages H owner tid s))) s)
    = take (page_size H limit) (dropWhile (tied H (loadMessages H owner tid s ! (k - 1))) (drop k (loadMessages H owner tid s)))"
proof -
  let ?rows = "loadMessages H owner tid s"
  have ne: "take k ?rows \<noteq> []" and len: "length (take k ?rows) = k" using k by auto
  have last: "last (take k ?rows) = ?rows ! (k - 1)" "take k ?rows \<noteq> []"
    using last_conv_nth [OF ne] k ne unfolding len by simp_all
  have "filter (\<lambda>m. isStrictlyBeforeCursor H m (cursor_of H (take k ?rows))) ?rows = dropWhile (tied H (?rows ! (k - 1))) (drop k ?rows)"
    using filter_after [OF newest_comparator log_okD(3) [OF ok] k] k
    by (auto simp: cursor_of_def last strictly_before_iff tied_compare [abs_def])
  then show ?thesis by (simp add: listMessages_items(1) [OF ok ids])
qed

lemma untied:
  assumes "log_ok H owner tid s" and "collation_strict H (loadMessages H owner tid s)" and "0 < k"
  shows "dropWhile (tied H (loadMessages H owner tid s ! (k - 1))) (drop k (loadMessages H owner tid s)) = drop k (loadMessages H owner tid s)"
proof (cases "k < length (loadMessages H owner tid s)")
  case True
  then have "compareNewestFirst H (loadMessages H owner tid s ! (k - 1)) (loadMessages H owner tid s ! k) < 0"
    using sorted_wrt_nth_less [OF strictly_sorted [OF assms(1,2)], of "k - 1" k] assms(3) by simp
  then show ?thesis using True by (simp add: dropWhile_eq_self_iff hd_drop_conv_nth tied_compare)
qed simp

end

end
