(* ===== verification/Samples.thy ===== *)
theory Samples
  imports EarlyMutations Paging
begin

text \<open>
  A small concrete store on the in-memory host: one ready direct thread \<open>t1\<close> with two delivered
  messages, \<open>a1\<close> of account \<open>ann\<close> and \<open>b1\<close> of account \<open>bob\<close>. The instances of the properties use it.
\<close>

abbreviation HM :: "(string \<times> jsval) list host" where
  "HM \<equiv> memory_host 1000"

lemmas HM_laws = memory.host_laws_axioms [of 1000]

definition sample_message :: "string \<Rightarrow> string \<Rightarrow> rat \<Rightarrow> ChatMessage" where
  "sample_message mid sender t = \<lparr> m_threadId = ''t1'', m_messageId = mid, m_senderAccountId = sender,
     m_speakerId = sender, m_inferredNotMine = False, m_senderKey = [], m_packetB64 = [],
     m_status = ''delivered'', m_text = ''hello'',
     m_payload = Obj [(''text'', Str ''hello''), (''contentHash'', Str ''h1'')],
     m_createdAtMs = t, m_acceptedAtMs = Some t, m_sentAtMs = None, m_inReplyToMessageId = [],
     m_editedAtMs = None, m_tombstonedAtMs = None, m_reactions = [(''+1'', [''ann''])], m_conflicted = False \<rparr>"

definition sample_thread :: ChatThread where
  "sample_thread = the (coerceThreadRow HM (Obj [(''threadId'', Str ''t1''), (''threadType'', Str ''direct''),
     (''peerAccountId'', Str ''bob''), (''peerInboxId'', Str ''inbox-bob''), (''createdAtMs'', num 1)]))"

definition msg_a :: ChatMessage where "msg_a = sample_message ''a1'' ''ann'' 20"
definition msg_b :: ChatMessage where "msg_b = sample_message ''b1'' ''bob'' 10"

definition sample_store :: "(string \<times> jsval) list" where
  "sample_store = saveMessages HM ''me'' ''t1'' [msg_a, msg_b]
     (kvSet HM [] (kThread ''me'' ''t1'') (thread_json sample_thread))"

lemma trimmed_samples [simp]:
  "trimmed ''t1''" "trimmed ''a1''" "trimmed ''b1''" "trimmed ''ann''" "trimmed ''bob''" "trimmed ''+1''" "trimmed ''c1''" "trimmed ''h1''" "trimmed ''h2''"
  "trimmed ''sent''" "trimmed ''failed''" "trimmed ''delivered''"
  by (simp_all add: trimmed_iff is_ws_def)

lemma wf_samples [simp]: "wf_message msg_a" "wf_message msg_b"
  by (simp_all add: msg_a_def msg_b_def sample_message_def wf_message_def MESSAGE_STATUSES_def
      wf_reactions_def ids_ok_def getp_def)

lemma memory_asInt_num [simp]: "asInt (memory_host now) (num 0) d = 0" "asInt (memory_host now) (num 1) d = 1"
  "asInt (memory_host now) (num (numeral n)) d = numeral n"
  by (simp_all add: memory_host_def)

lemma memory_nonEmpty: "nonEmpty (memory_host now) v = trim (string_or_empty v)"
  by (simp add: memory_host_def)

lemma sample_fields [simp]:
  "m_threadId msg_a = ''t1''" "m_threadId msg_b = ''t1''" "m_messageId msg_a = ''a1''" "m_messageId msg_b = ''b1''"
  "m_createdAtMs msg_a = 20" "m_createdAtMs msg_b = 10" "m_senderAccountId msg_a = ''ann''"
  "m_senderAccountId msg_b = ''bob''" "m_status msg_a = ''delivered''" "m_tombstonedAtMs msg_a = None"
  "m_editedAtMs msg_a = None" "m_reactions msg_a = [(''+1'', [''ann''])]" "m_text msg_a = ''hello''"
  "m_payload msg_a = Obj [(''text'', Str ''hello''), (''contentHash'', Str ''h1'')]"
  by (simp_all add: msg_a_def msg_b_def sample_message_def)

lemma sample_log: "rows_ok ''t1'' [msg_a, msg_b]" "sorted_by (compareNewestFirst HM) [msg_a, msg_b]"
  by (simp_all add: rows_ok_def compareNewestFirst_def)

lemma sample_load [simp]: "loadMessages HM ''me'' ''t1'' sample_store = [msg_a, msg_b]"
  unfolding sample_store_def by (subst memory.load_save) (simp_all add: MAX_MESSAGES_PER_THREAD_def)

lemma empty_store_ok: "store_ok HM ''me'' []"
  by (simp add: store_ok_def log_ok_def loadMessages_def memory_host_def rows_ok_def)

lemma sample_store_ok: "store_ok HM ''me'' sample_store"
  unfolding store_ok_def
proof
  fix t
  have "log_ok HM ''me'' t (kvSet HM [] (kThread ''me'' ''t1'') (thread_json sample_thread))"
    using empty_store_ok by (simp add: store_ok_def)
  then show "log_ok HM ''me'' t sample_store"
    unfolding sample_store_def
    by (rule memory.log_ok_all_save [OF _ memory.log_ok_save_same_order [OF sample_log]])
qed

lemma sample_rows [simp]:
  "row_of HM ''me'' ''t1'' ''a1'' sample_store = Some msg_a"
  "row_of HM ''me'' ''t1'' ''b1'' sample_store = Some msg_b"
  "row_of HM ''me'' ''t1'' ''c1'' sample_store = None"
  by (simp_all add: row_of_def)

lemma sample_thread_coerced: "coerceThreadRow HM (thread_json sample_thread) = Some sample_thread"
    and sample_thread_ready: "assertThreadReady HM (Some sample_thread) Null = None"
  by code_simp+

lemma sample_getThread: "getThread HM ''me'' (Str ''t1'') sample_store = Some sample_thread"
  by (simp add: getThread_def sample_store_def memory.nonEmpty_trimmed memory.get_set saveMessages_def sample_thread_coerced)

lemma sample_ready: "assertThreadReady HM (getThread HM ''me'' (Str ''t1'') sample_store) Null = None"
  by (simp add: sample_getThread sample_thread_ready)

lemma sample_ids [simp]: "nonEmpty HM (Str ''t1'') = ''t1''" "nonEmpty HM (Str ''a1'') = ''a1''"
  "nonEmpty HM (Str ''b1'') = ''b1''" "nonEmpty HM (Str ''c1'') = ''c1''" "nonEmpty HM (Str ''ann'') = ''ann''"
  "nonEmpty HM (Str ''bob'') = ''bob''" "nonEmpty HM (Str ''+1'') = ''+1''"
  "nonEmpty HM (Str ''h1'') = ''h1''" "nonEmpty HM (Str ''h2'') = ''h2''" "nonEmpty HM (Str ''sent'') = ''sent''"
  "nonEmpty HM (Str ''failed'') = ''failed''" "nonEmpty HM (Str ''delivered'') = ''delivered''"
  by (simp_all add: memory.nonEmpty_trimmed)

lemma sample_log_ok: "log_ok HM ''me'' ''t1'' sample_store"
  using sample_store_ok by (rule store_okD)

lemma sample_log_ok': "log_ok HM ''me'' (nonEmpty HM (Str ''t1'')) sample_store"
  by (simp add: sample_log_ok)

end
