(* ===== verification/FactLog.thy ===== *)
theory FactLog
  imports ThreadStore
begin

text \<open>
  The immutable log of original facts and the pending-commit rows of
  \<open>src/server/storage/ChatThreadStore.js\<close>. A fact is written once under its fingerprint; the
  index maps the identity \<open>sender NUL messageId\<close> of base messages to the fingerprints seen under
  it. The interface \<open>write_once\<close> is the contract of such a log.
\<close>

section \<open>Write-once tables\<close>

locale write_once =
  fixes look :: "'s \<Rightarrow> 'k \<Rightarrow> 'w option" and put :: "'v \<Rightarrow> 's \<Rightarrow> 's"
    and key :: "'v \<Rightarrow> 'k" and valid :: "'v \<Rightarrow> bool" and row :: "'v \<Rightarrow> 'w"
  assumes put_new: "valid v \<Longrightarrow> look s (key v) = None \<Longrightarrow> look (put v s) (key v) = Some (row v)"
    and put_old: "look s (key v) = Some w \<Longrightarrow> look (put v s) (key v) = Some w"
    and put_other: "k \<noteq> key v \<Longrightarrow> look (put v s) k = look s k"
    and put_invalid: "\<not> valid v \<Longrightarrow> put v s = s"
begin

definition puts :: "'v list \<Rightarrow> 's \<Rightarrow> 's" where
  "puts vs s = foldl (\<lambda>s v. put v s) s vs"

lemma puts_simps [simp]: "puts [] s = s" "puts (v # vs) s = puts vs (put v s)"
  by (simp_all add: puts_def)

lemma look_put: "look (put v s) k = (case look s k of Some w \<Rightarrow> Some w
   | None \<Rightarrow> if valid v \<and> k = key v then Some (row v) else None)"
  using put_new [of v s] put_old [of s v] put_other [of k v s] put_invalid [of v s]
  by (cases "valid v"; cases "k = key v"; cases "look s k") auto

text \<open>The table after a sequence of writes: what was there, then the first valid write of each key.\<close>

lemma look_puts:
  "look (puts vs s) k = (case look s k of Some w \<Rightarrow> Some w
     | None \<Rightarrow> map_of (map (\<lambda>v. (key v, row v)) (filter valid vs)) k)"
  by (induction vs arbitrary: s) (auto simp: look_put split: option.splits)

lemma puts_keep: "look s k = Some w \<Longrightarrow> look (puts vs s) k = Some w"
  by (simp add: look_puts)

end

section \<open>The fact log\<close>

definition kOriginalFact :: "string \<Rightarrow> string \<Rightarrow> string \<Rightarrow> string" where
  "kOriginalFact owner threadId fingerprint = ''app:originals/'' @ owner @ ''/'' @ threadId @ ''/'' @ fingerprint"

definition kOriginalsIndex :: "string \<Rightarrow> string \<Rightarrow> string" where
  "kOriginalsIndex owner threadId = ''app:originals_index/'' @ owner @ ''/'' @ threadId"

definition kCommitPending :: "string \<Rightarrow> string \<Rightarrow> string" where
  "kCommitPending owner messageId = ''app:commit_pending/'' @ owner @ ''/'' @ messageId"

definition MESSAGE_KIND :: string where
  "MESSAGE_KIND = ''rez.chat.message.v1''"

text \<open>\<open>nonEmpty(v) || null\<close>.\<close>

definition str_or_null :: "string \<Rightarrow> jsval" where
  "str_or_null t = (if t = [] then Null else Str t)"

text \<open>\<open>o[k] = v\<close>; a named property of an array is not an element and is not stored.\<close>

definition set_prop :: "jsval \<Rightarrow> string \<Rightarrow> jsval \<Rightarrow> jsval" where
  "set_prop ob k v = (case ob of Obj kvs \<Rightarrow> Obj (AList.update k v kvs) | _ \<Rightarrow> ob)"

definition identity_key :: "string \<Rightarrow> string \<Rightarrow> string" where
  "identity_key sender messageId = sender @ [CHR 0x00] @ messageId"

record conflict =
  cf_senderAccountId :: string
  cf_messageId :: string
  cf_fingerprints :: "jsval list"

record appendResult =
  ar_appended :: bool
  ar_conflict :: "conflict option"
  ar_fact :: jsval

definition fact_row :: "'s host \<Rightarrow> string \<Rightarrow> string \<Rightarrow> jsval \<Rightarrow> jsval \<Rightarrow> jsval" where
  "fact_row H tid fingerprint f payload = Obj
     [(''fingerprint'', Str fingerprint), (''kind'', Str (nonEmpty H (getp payload ''kind''))),
      (''threadId'', Str tid), (''senderAccountId'', Str (nonEmpty H (getp payload ''senderAccountId''))),
      (''messageId'', str_or_null (nonEmpty H (getp payload ''messageId''))),
      (''targetMessageId'', str_or_null (nonEmpty H (getp payload ''targetMessageId''))),
      (''targetFingerprint'', str_or_null (nonEmpty H (getp payload ''targetFingerprint''))),
      (''receivedAtMs'', num (asInt H (getp f ''receivedAtMs'') (clockMs H))),
      (''origin'', Str (let orig = nonEmpty H (getp f ''origin'') in if orig = [] then ''live'' else orig)),
      (''payload'', payload)]"

text \<open>The index object as read, or an empty one.\<close>

definition load_index :: "jsval \<Rightarrow> jsval" where
  "load_index raw = (if is_object raw \<and> is_object (getp raw ''byMessage'') then raw
     else Obj [(''byMessage'', Obj [])])"

definition entry_fingerprints :: "jsval \<Rightarrow> jsval list" where
  "entry_fingerprints entry = (if is_object entry \<and> is_array (getp entry ''fingerprints'')
     then elements (getp entry ''fingerprints'') else [])"

definition entry_conflicted :: "jsval \<Rightarrow> bool" where
  "entry_conflicted entry \<longleftrightarrow> is_object entry \<and> is_array (getp entry ''fingerprints'')
     \<and> getp entry ''conflicted'' = Bool True"

definition add_fingerprint :: "string \<Rightarrow> jsval list \<Rightarrow> jsval list" where
  "add_fingerprint fp fps = (if Str fp \<in> set fps then fps else fps @ [Str fp])"

definition index_entry :: "jsval list \<Rightarrow> bool \<Rightarrow> jsval" where
  "index_entry fps conflicted = Obj [(''fingerprints'', Arr fps), (''conflicted'', Bool conflicted)]"

definition index_fact :: "'s host \<Rightarrow> string \<Rightarrow> string \<Rightarrow> string \<Rightarrow> string \<Rightarrow> string \<Rightarrow> 's \<Rightarrow> conflict option \<times> 's" where
  "index_fact H owner tid sender mid fingerprint s =
     (let index = load_index (kvGet H s (kOriginalsIndex owner tid));
          byMessage = getp index ''byMessage'';
          entryRaw = getp byMessage (identity_key sender mid);
          fps = add_fingerprint fingerprint (entry_fingerprints entryRaw);
          entry = index_entry fps (length fps > 1 \<or> entry_conflicted entryRaw)
      in (if length fps > 1
            then Some \<lparr> cf_senderAccountId = sender, cf_messageId = mid, cf_fingerprints = fps \<rparr> else None,
          kvSet H s (kOriginalsIndex owner tid)
            (set_prop index ''byMessage'' (set_prop byMessage (identity_key sender mid) entry))))"

definition fact_fingerprint :: "'s host \<Rightarrow> jsval \<Rightarrow> string" where
  "fact_fingerprint H f = (if is_object f then nonEmpty H (getp f ''fingerprint'') else [])"

definition fact_payload :: "jsval \<Rightarrow> jsval" where
  "fact_payload f = (if is_object f \<and> is_object (getp f ''payload'') then getp f ''payload'' else Null)"

definition appendOriginalFact :: "'s host \<Rightarrow> string \<Rightarrow> jsval \<Rightarrow> jsval \<Rightarrow> ('s, appendResult) op" where
  "appendOriginalFact H owner threadId f s =
     (let tid = nonEmpty H threadId; fingerprint = fact_fingerprint H f; payload = fact_payload f in
      if tid = [] \<or> fingerprint = [] \<or> payload = Null then
        throw (Error ''ThreadStoreService.appendOriginalFact requires threadId, fact.fingerprint, fact.payload'') s
      else let kind = nonEmpty H (getp payload ''kind'');
               sender = nonEmpty H (getp payload ''senderAccountId'');
               mid = nonEmpty H (getp payload ''messageId'') in
        if kind = [] \<or> sender = [] then
          throw (Error ''ThreadStoreService.appendOriginalFact requires payload.kind and payload.senderAccountId'') s
        else let existing = kvGet H s (kOriginalFact owner tid fingerprint) in
          if is_object existing
          then ok \<lparr> ar_appended = False, ar_conflict = None, ar_fact = existing \<rparr> s
          else let row = fact_row H tid fingerprint f payload;
                   s1 = kvSet H s (kOriginalFact owner tid fingerprint) row in
            if kind = MESSAGE_KIND \<and> mid \<noteq> []
            then (case index_fact H owner tid sender mid fingerprint s1 of (conflict, s2) \<Rightarrow>
              ok \<lparr> ar_appended = True, ar_conflict = conflict, ar_fact = row \<rparr> s2)
            else ok \<lparr> ar_appended = True, ar_conflict = None, ar_fact = row \<rparr> s1)"

definition getOriginalFact :: "'s host \<Rightarrow> string \<Rightarrow> jsval \<Rightarrow> jsval \<Rightarrow> 's \<Rightarrow> jsval option" where
  "getOriginalFact H owner threadId fingerprint s =
     (let tid = nonEmpty H threadId; fp = nonEmpty H fingerprint in
      if tid = [] \<or> fp = [] then None
      else let row = kvGet H s (kOriginalFact owner tid fp) in if is_object row then Some row else None)"

definition listOriginalFingerprints :: "'s host \<Rightarrow> string \<Rightarrow> jsval \<Rightarrow> 's \<Rightarrow> string list" where
  "listOriginalFingerprints H owner threadId s =
     (let tid = nonEmpty H threadId in
      if tid = [] then []
      else let p = kOriginalFact owner tid [] in
        sort_by code_unit_compare (filter (\<lambda>fp. fp \<noteq> []) (map (\<lambda>k. drop (length p) k) (kvKeys H s p))))"

text \<open>The key split at its first NUL; a key without one is skipped.\<close>

definition split_identity :: "string \<Rightarrow> (string \<times> string) option" where
  "split_identity k = (if CHR 0x00 \<in> set k
     then Some (takeWhile (\<lambda>c. c \<noteq> CHR 0x00) k, tl (dropWhile (\<lambda>c. c \<noteq> CHR 0x00) k)) else None)"

fun collect_entry :: "string \<Rightarrow> string \<Rightarrow> string list \<Rightarrow> string \<times> jsval \<Rightarrow> string list" where
  "collect_entry mid wantedSender fps (key, entry) =
     (case split_identity key of None \<Rightarrow> fps
      | Some (sender, keyMid) \<Rightarrow>
        if keyMid \<noteq> mid then fps
        else if wantedSender \<noteq> [] \<and> sender \<noteq> wantedSender then fps
        else foldl (\<lambda>out v. case v of Str fp \<Rightarrow> (if fp \<noteq> [] \<and> fp \<notin> set out then out @ [fp] else out) | _ \<Rightarrow> out)
          fps (elements (getp entry ''fingerprints'')))"

definition findBaseFactsByMessageId :: "'s host \<Rightarrow> string \<Rightarrow> jsval \<Rightarrow> jsval \<Rightarrow> jsval \<Rightarrow> 's \<Rightarrow> jsval list" where
  "findBaseFactsByMessageId H owner threadId messageId senderAccountId s =
     (let tid = nonEmpty H threadId; mid = nonEmpty H messageId in
      if tid = [] \<or> mid = [] then []
      else let rawIndex = kvGet H s (kOriginalsIndex owner tid);
               byMessage = (if is_object rawIndex \<and> is_object (getp rawIndex ''byMessage'')
                 then getp rawIndex ''byMessage'' else Obj []);
               fingerprints = foldl (collect_entry mid (nonEmpty H senderAccountId)) [] (own_props byMessage)
           in filter is_object (map (\<lambda>fp. kvGet H s (kOriginalFact owner tid fp)) fingerprints))"

section \<open>Pending commits\<close>

definition pending_commit_row ::
  "'s host \<Rightarrow> string \<Rightarrow> string \<Rightarrow> string \<Rightarrow> string \<Rightarrow> jsval \<Rightarrow> jsval \<Rightarrow> jsval \<Rightarrow> jsval \<Rightarrow> jsval" where
  "pending_commit_row H mid tid fp recipient firstSentAtMs attempts nextRetryAtMs lastAttemptAtMs = Obj
     [(''messageId'', Str mid), (''threadId'', Str tid), (''fingerprint'', Str fp), (''recipientAccountId'', Str recipient),
      (''firstSentAtMs'', num (asInt H firstSentAtMs (clockMs H))),
      (''attempts'', (case attempts of Num (Fin r) \<Rightarrow> (if is_integer attempts \<and> r \<ge> 0 then num r else num 0) | _ \<Rightarrow> num 0)),
      (''nextRetryAtMs'', num (asInt H nextRetryAtMs (clockMs H))),
      (''lastAttemptAtMs'', (if is_integer lastAttemptAtMs then lastAttemptAtMs else Null))]"

text \<open>A parameter that was not passed has its default: \<open>attempts = 0\<close>, \<open>lastAttemptAtMs = null\<close>.\<close>

definition putPendingCommit ::
  "'s host \<Rightarrow> string \<Rightarrow> jsval \<Rightarrow> jsval \<Rightarrow> jsval \<Rightarrow> jsval \<Rightarrow> jsval \<Rightarrow> jsval \<Rightarrow> jsval \<Rightarrow> jsval \<Rightarrow> ('s, jsval) op" where
  "putPendingCommit H owner messageId threadId fingerprint recipientAccountId firstSentAtMs attempts nextRetryAtMs lastAttemptAtMs s =
     (let mid = nonEmpty H messageId; tid = nonEmpty H threadId; fp = nonEmpty H fingerprint;
          recipient = nonEmpty H recipientAccountId in
      if mid = [] \<or> tid = [] \<or> fp = [] \<or> recipient = [] then
        throw (Error ''ThreadStoreService.putPendingCommit requires messageId, threadId, fingerprint, recipientAccountId'') s
      else let row = pending_commit_row H mid tid fp recipient firstSentAtMs attempts nextRetryAtMs lastAttemptAtMs in
        ok row (kvSet H s (kCommitPending owner mid) row))"

definition getPendingCommit :: "'s host \<Rightarrow> string \<Rightarrow> jsval \<Rightarrow> 's \<Rightarrow> jsval option" where
  "getPendingCommit H owner messageId s =
     (let mid = nonEmpty H messageId in
      if mid = [] then None
      else let row = kvGet H s (kCommitPending owner mid) in if is_object row then Some row else None)"

definition deletePendingCommit :: "'s host \<Rightarrow> string \<Rightarrow> jsval \<Rightarrow> 's \<Rightarrow> bool \<times> 's" where
  "deletePendingCommit H owner messageId s =
     (let mid = nonEmpty H messageId in
      if mid = [] then (False, s) else (True, kvDelete H s (kCommitPending owner mid)))"

definition listPendingCommits :: "'s host \<Rightarrow> string \<Rightarrow> 's \<Rightarrow> jsval list" where
  "listPendingCommits H owner s =
     filter (\<lambda>row. is_object row \<and> nonEmpty H (getp row ''messageId'') \<noteq> [])
       (map (kvGet H s) (kvKeys H s (''app:commit_pending/'' @ owner @ ''/'')))"

section \<open>The log is write-once\<close>

definition stored_fact :: "'s host \<Rightarrow> string \<Rightarrow> string \<Rightarrow> 's \<Rightarrow> string \<Rightarrow> jsval option" where
  "stored_fact H owner tid s fp =
     (let row = kvGet H s (kOriginalFact owner tid fp) in if is_object row then Some row else None)"

definition fact_kind :: "'s host \<Rightarrow> jsval \<Rightarrow> string" where
  "fact_kind H f = nonEmpty H (getp (fact_payload f) ''kind'')"

definition fact_sender :: "'s host \<Rightarrow> jsval \<Rightarrow> string" where
  "fact_sender H f = nonEmpty H (getp (fact_payload f) ''senderAccountId'')"

definition fact_messageId :: "'s host \<Rightarrow> jsval \<Rightarrow> string" where
  "fact_messageId H f = nonEmpty H (getp (fact_payload f) ''messageId'')"

definition fact_valid :: "'s host \<Rightarrow> string \<Rightarrow> jsval \<Rightarrow> bool" where
  "fact_valid H tid f \<longleftrightarrow> tid \<noteq> [] \<and> fact_fingerprint H f \<noteq> [] \<and> fact_payload f \<noteq> Null
     \<and> fact_kind H f \<noteq> [] \<and> fact_sender H f \<noteq> []"

lemma kOriginal_apart [simp]:
  "kOriginalFact ow a b \<noteq> kOriginalsIndex ow c" "kOriginalsIndex ow c \<noteq> kOriginalFact ow a b"
  by (simp_all add: kOriginalFact_def kOriginalsIndex_def)

lemma kOriginal_inj [simp]: "kOriginalFact ow a b = kOriginalFact ow a c \<longleftrightarrow> b = c"
  by (simp add: kOriginalFact_def)

lemma is_object_fact_row [simp]: "is_object (fact_row H tid fp f pl)"
  by (simp add: fact_row_def)

context host_laws
begin

lemma append_invalid:
  assumes "\<not> fact_valid H (nonEmpty H threadId) f"
  shows "snd (appendOriginalFact H owner threadId f s) = s" and "\<exists>e. fst (appendOriginalFact H owner threadId f s) = Inl e"
  using assms by (auto simp: appendOriginalFact_def fact_valid_def fact_kind_def fact_sender_def throw_def Let_def)

lemma append_existing:
  assumes "fact_valid H (nonEmpty H threadId) f"
    and "stored_fact H owner (nonEmpty H threadId) s (fact_fingerprint H f) = Some w"
  shows "appendOriginalFact H owner threadId f s
    = (Inr \<lparr> ar_appended = False, ar_conflict = None, ar_fact = w \<rparr>, s)"
  using assms by (auto simp: appendOriginalFact_def fact_valid_def fact_kind_def fact_sender_def ok_def Let_def
      stored_fact_def split: if_splits)

lemma append_fresh:
  assumes "fact_valid H (nonEmpty H threadId) f"
    and "stored_fact H owner (nonEmpty H threadId) s (fact_fingerprint H f) = None"
  shows "appendOriginalFact H owner threadId f s =
    (let tid = nonEmpty H threadId; row = fact_row H tid (fact_fingerprint H f) f (fact_payload f);
         s1 = kvSet H s (kOriginalFact owner tid (fact_fingerprint H f)) row in
     if fact_kind H f = MESSAGE_KIND \<and> fact_messageId H f \<noteq> []
     then (case index_fact H owner tid (fact_sender H f) (fact_messageId H f) (fact_fingerprint H f) s1 of (conflict, s2) \<Rightarrow>
       (Inr \<lparr> ar_appended = True, ar_conflict = conflict, ar_fact = row \<rparr>, s2))
     else (Inr \<lparr> ar_appended = True, ar_conflict = None, ar_fact = row \<rparr>, s1))"
proof -
  have e: "\<not> is_object (kvGet H s (kOriginalFact owner (nonEmpty H threadId) (fact_fingerprint H f)))"
    using assms(2) by (simp add: stored_fact_def Let_def split: if_splits)
  show ?thesis
    using assms(1) e
    by (simp only: appendOriginalFact_def fact_valid_def fact_kind_def fact_sender_def fact_messageId_def ok_def Let_def
        if_False simp_thms)
qed

lemma stored_index_fact [simp]:
  "stored_fact H owner tid (snd (index_fact H owner tid' a b c s)) fp = stored_fact H owner tid s fp"
  by (simp add: stored_fact_def index_fact_def get_set Let_def)

lemma stored_append_fresh:
  assumes "fact_valid H (nonEmpty H threadId) f"
    and "stored_fact H owner (nonEmpty H threadId) s (fact_fingerprint H f) = None"
  shows "stored_fact H owner (nonEmpty H threadId) (snd (appendOriginalFact H owner threadId f s)) k
    = (if k = fact_fingerprint H f then Some (fact_row H (nonEmpty H threadId) (fact_fingerprint H f) f (fact_payload f))
       else stored_fact H owner (nonEmpty H threadId) s k)"
proof -
  let ?tid = "nonEmpty H threadId"
  let ?s1 = "kvSet H s (kOriginalFact owner ?tid (fact_fingerprint H f)) (fact_row H ?tid (fact_fingerprint H f) f (fact_payload f))"
  have "stored_fact H owner ?tid (snd (appendOriginalFact H owner threadId f s)) k = stored_fact H owner ?tid ?s1 k"
    by (subst append_fresh [OF assms]) (simp add: Let_def case_prod_beta)
  then show ?thesis by (simp add: stored_fact_def get_set Let_def)
qed

lemma facts_write_once:
  "write_once (stored_fact H owner (nonEmpty H threadId))
     (\<lambda>f s. snd (appendOriginalFact H owner threadId f s)) (fact_fingerprint H)
     (fact_valid H (nonEmpty H threadId))
     (\<lambda>f. fact_row H (nonEmpty H threadId) (fact_fingerprint H f) f (fact_payload f))"
proof
  fix v s k w
  show "fact_valid H (nonEmpty H threadId) v \<Longrightarrow> stored_fact H owner (nonEmpty H threadId) s (fact_fingerprint H v) = None \<Longrightarrow>
    stored_fact H owner (nonEmpty H threadId) (snd (appendOriginalFact H owner threadId v s)) (fact_fingerprint H v)
      = Some (fact_row H (nonEmpty H threadId) (fact_fingerprint H v) v (fact_payload v))"
    by (simp add: stored_append_fresh)
  show "stored_fact H owner (nonEmpty H threadId) s (fact_fingerprint H v) = Some w \<Longrightarrow>
    stored_fact H owner (nonEmpty H threadId) (snd (appendOriginalFact H owner threadId v s)) (fact_fingerprint H v) = Some w"
    by (cases "fact_valid H (nonEmpty H threadId) v") (simp_all add: append_existing append_invalid(1))
  show "\<not> fact_valid H (nonEmpty H threadId) v \<Longrightarrow> snd (appendOriginalFact H owner threadId v s) = s"
    by (rule append_invalid(1))
  show "k \<noteq> fact_fingerprint H v \<Longrightarrow>
    stored_fact H owner (nonEmpty H threadId) (snd (appendOriginalFact H owner threadId v s)) k
      = stored_fact H owner (nonEmpty H threadId) s k"
    by (cases "fact_valid H (nonEmpty H threadId) v";
        cases "stored_fact H owner (nonEmpty H threadId) s (fact_fingerprint H v)")
      (simp_all add: append_existing append_invalid(1) stored_append_fresh)
qed

end

sublocale host_laws \<subseteq> facts: write_once
  "stored_fact H owner (nonEmpty H threadId)" "\<lambda>f s. snd (appendOriginalFact H owner threadId f s)"
  "fact_fingerprint H" "fact_valid H (nonEmpty H threadId)"
  "\<lambda>f. fact_row H (nonEmpty H threadId) (fact_fingerprint H f) f (fact_payload f)" for owner threadId
  by (rule facts_write_once)

section \<open>The index\<close>

text \<open>The index object of a thread has the shape the code writes.\<close>

definition index_shape :: "'s host \<Rightarrow> string \<Rightarrow> string \<Rightarrow> 's \<Rightarrow> bool" where
  "index_shape H owner tid s \<longleftrightarrow>
     (let ix = load_index (kvGet H s (kOriginalsIndex owner tid)) in
      is_plain_object ix \<and> is_plain_object (getp ix ''byMessage''))"

definition index_raw :: "'s host \<Rightarrow> string \<Rightarrow> string \<Rightarrow> 's \<Rightarrow> string \<Rightarrow> string \<Rightarrow> jsval" where
  "index_raw H owner tid s sender mid =
     getp (getp (load_index (kvGet H s (kOriginalsIndex owner tid))) ''byMessage'') (identity_key sender mid)"

definition index_fps :: "'s host \<Rightarrow> string \<Rightarrow> string \<Rightarrow> 's \<Rightarrow> string \<Rightarrow> string \<Rightarrow> jsval list" where
  "index_fps H owner tid s sender mid = entry_fingerprints (index_raw H owner tid s sender mid)"

text \<open>The base facts stored under an identity.\<close>

definition base_fact :: "'s host \<Rightarrow> string \<Rightarrow> string \<Rightarrow> 's \<Rightarrow> string \<Rightarrow> string \<Rightarrow> string \<Rightarrow> bool" where
  "base_fact H owner tid s sender mid fp \<longleftrightarrow>
     (case stored_fact H owner tid s fp of None \<Rightarrow> False
      | Some row \<Rightarrow> getp row ''kind'' = Str MESSAGE_KIND \<and> getp row ''senderAccountId'' = Str sender
          \<and> getp row ''messageId'' = Str mid)"

definition index_ok :: "'s host \<Rightarrow> string \<Rightarrow> string \<Rightarrow> 's \<Rightarrow> bool" where
  "index_ok H owner tid s \<longleftrightarrow> index_shape H owner tid s \<and>
     (\<forall>sender mid. CHR 0x00 \<notin> set sender \<and> mid \<noteq> [] \<longrightarrow>
        (let fps = index_fps H owner tid s sender mid in
         distinct fps \<and> set fps = Str ` {fp. base_fact H owner tid s sender mid fp}
         \<and> (entry_conflicted (index_raw H owner tid s sender mid) \<longleftrightarrow> length fps > 1)))"

lemma plain_objectE: "is_plain_object v \<Longrightarrow> (\<And>kvs. v = Obj kvs \<Longrightarrow> P) \<Longrightarrow> P"
  by (cases v) (auto simp: is_plain_object_def)

lemma getp_set_prop: "is_plain_object ob \<Longrightarrow> getp (set_prop ob k v) k' = (if k' = k then v else getp ob k')"
  by (erule plain_objectE) (simp add: set_prop_def getp_def update_conv')

lemma plain_set_prop [simp]: "is_plain_object ob \<Longrightarrow> is_plain_object (set_prop ob k v)"
  by (erule plain_objectE) (simp add: set_prop_def is_plain_object_def)

lemma load_index_plain:
  "is_plain_object ix \<Longrightarrow> is_plain_object (getp ix ''byMessage'') \<Longrightarrow> load_index ix = ix"
  by (simp add: load_index_def is_plain_object_def)

lemma identity_key_inj:
  assumes "CHR 0x00 \<notin> set a" and "CHR 0x00 \<notin> set c"
  shows "identity_key a b = identity_key c d \<longleftrightarrow> a = c \<and> b = d"
  using assms
proof (induction a arbitrary: c)
  case Nil
  then show ?case by (cases c) (auto simp: identity_key_def)
next
  case (Cons x a)
  then show ?case by (cases c) (auto simp: identity_key_def)
qed

context host_laws
begin

lemma index_fact_index:
  assumes "index_shape H owner tid s"
    and fps: "fps = add_fingerprint fp (index_fps H owner tid s sender mid)"
  shows "index_shape H owner tid (snd (index_fact H owner tid sender mid fp s))"
    and "index_raw H owner tid (snd (index_fact H owner tid sender mid fp s)) a b
      = (if identity_key a b = identity_key sender mid
         then index_entry fps (length fps > 1 \<or> entry_conflicted (index_raw H owner tid s sender mid))
         else index_raw H owner tid s a b)"
    and "fst (index_fact H owner tid sender mid fp s) = (if length fps > 1
         then Some \<lparr> cf_senderAccountId = sender, cf_messageId = mid, cf_fingerprints = fps \<rparr> else None)"
  using assms(1) unfolding fps
  by (simp_all add: index_shape_def index_raw_def index_fps_def index_fact_def Let_def getp_set_prop load_index_plain)

end

lemma entry_of_index_entry [simp]:
  "entry_fingerprints (index_entry fps c) = fps" "entry_conflicted (index_entry fps c) = c"
  by (simp_all add: entry_fingerprints_def entry_conflicted_def index_entry_def getp_def)

lemma base_fact_row:
  assumes "b \<noteq> []"
  shows "getp (fact_row H tid fp f pl) ''kind'' = Str MESSAGE_KIND
      \<and> getp (fact_row H tid fp f pl) ''senderAccountId'' = Str a \<and> getp (fact_row H tid fp f pl) ''messageId'' = Str b
    \<longleftrightarrow> nonEmpty H (getp pl ''kind'') = MESSAGE_KIND \<and> nonEmpty H (getp pl ''senderAccountId'') = a
      \<and> nonEmpty H (getp pl ''messageId'') = b"
  using assms by (auto simp: fact_row_def getp_def str_or_null_def)

context host_laws
begin

lemma base_fact_append:
  assumes "fact_valid H (nonEmpty H threadId) f"
    and "stored_fact H owner (nonEmpty H threadId) s (fact_fingerprint H f) = None" and "b \<noteq> []"
  shows "base_fact H owner (nonEmpty H threadId) (snd (appendOriginalFact H owner threadId f s)) a b k
    \<longleftrightarrow> base_fact H owner (nonEmpty H threadId) s a b k
      \<or> k = fact_fingerprint H f \<and> fact_kind H f = MESSAGE_KIND \<and> fact_sender H f = a \<and> fact_messageId H f = b"
  using assms(2)
  by (simp add: base_fact_def stored_append_fresh [OF assms(1,2)] base_fact_row [OF assms(3)]
      fact_kind_def fact_sender_def fact_messageId_def)

lemma index_frame:
  "index_shape H owner tid (kvSet H s (kOriginalFact owner t fp) v) = index_shape H owner tid s"
  "index_raw H owner tid (kvSet H s (kOriginalFact owner t fp) v) = index_raw H owner tid s"
  by (simp_all add: index_shape_def index_raw_def get_set fun_eq_iff)

text \<open>The index after a fresh append, and the conflict it reports.\<close>

lemma append_fresh_index:
  assumes v: "fact_valid H (nonEmpty H threadId) f"
    and n: "stored_fact H owner (nonEmpty H threadId) s (fact_fingerprint H f) = None"
    and shape: "index_shape H owner (nonEmpty H threadId) s"
    and fps: "fps = add_fingerprint (fact_fingerprint H f)
      (index_fps H owner (nonEmpty H threadId) s (fact_sender H f) (fact_messageId H f))"
  shows "index_shape H owner (nonEmpty H threadId) (snd (appendOriginalFact H owner threadId f s))"
    and "index_raw H owner (nonEmpty H threadId) (snd (appendOriginalFact H owner threadId f s)) a b
      = (if fact_kind H f = MESSAGE_KIND \<and> fact_messageId H f \<noteq> []
            \<and> identity_key a b = identity_key (fact_sender H f) (fact_messageId H f)
         then index_entry fps (length fps > 1
           \<or> entry_conflicted (index_raw H owner (nonEmpty H threadId) s (fact_sender H f) (fact_messageId H f)))
         else index_raw H owner (nonEmpty H threadId) s a b)"
    and "\<exists>r. fst (appendOriginalFact H owner threadId f s) = Inr r \<and> ar_appended r
      \<and> ar_conflict r = (if fact_kind H f = MESSAGE_KIND \<and> fact_messageId H f \<noteq> [] \<and> length fps > 1
         then Some \<lparr> cf_senderAccountId = fact_sender H f, cf_messageId = fact_messageId H f, cf_fingerprints = fps \<rparr> else None)"
proof -
  let ?s1 = "kvSet H s (kOriginalFact owner (nonEmpty H threadId) (fact_fingerprint H f))
    (fact_row H (nonEmpty H threadId) (fact_fingerprint H f) f (fact_payload f))"
  have shape1: "index_shape H owner (nonEmpty H threadId) ?s1" using shape by (simp add: index_frame)
  have fps1: "fps = add_fingerprint (fact_fingerprint H f)
      (index_fps H owner (nonEmpty H threadId) ?s1 (fact_sender H f) (fact_messageId H f))"
    by (simp add: fps index_fps_def index_frame)
  note ix = index_fact_index [OF shape1 fps1]
  show "index_shape H owner (nonEmpty H threadId) (snd (appendOriginalFact H owner threadId f s))"
    using ix(1) shape by (simp add: append_fresh [OF v n] Let_def case_prod_beta index_frame)
  show "index_raw H owner (nonEmpty H threadId) (snd (appendOriginalFact H owner threadId f s)) a b
      = (if fact_kind H f = MESSAGE_KIND \<and> fact_messageId H f \<noteq> []
            \<and> identity_key a b = identity_key (fact_sender H f) (fact_messageId H f)
         then index_entry fps (length fps > 1
           \<or> entry_conflicted (index_raw H owner (nonEmpty H threadId) s (fact_sender H f) (fact_messageId H f)))
         else index_raw H owner (nonEmpty H threadId) s a b)"
    using ix(2) by (simp add: append_fresh [OF v n] Let_def case_prod_beta index_frame)
  show "\<exists>r. fst (appendOriginalFact H owner threadId f s) = Inr r \<and> ar_appended r
      \<and> ar_conflict r = (if fact_kind H f = MESSAGE_KIND \<and> fact_messageId H f \<noteq> [] \<and> length fps > 1
         then Some \<lparr> cf_senderAccountId = fact_sender H f, cf_messageId = fact_messageId H f, cf_fingerprints = fps \<rparr> else None)"
    using ix(3) by (simp add: append_fresh [OF v n] Let_def case_prod_beta)
qed

lemma append_index_ok:
  assumes ok: "index_ok H owner (nonEmpty H threadId) s" and nul: "CHR 0x00 \<notin> set (fact_sender H f)"
  shows "index_ok H owner (nonEmpty H threadId) (snd (appendOriginalFact H owner threadId f s))"
proof (cases "fact_valid H (nonEmpty H threadId) f \<and> stored_fact H owner (nonEmpty H threadId) s (fact_fingerprint H f) = None")
  case False
  then have "snd (appendOriginalFact H owner threadId f s) = s"
    by (cases "fact_valid H (nonEmpty H threadId) f") (auto simp: append_invalid(1) append_existing)
  with ok show ?thesis by simp
next
  case True
  then have v: "fact_valid H (nonEmpty H threadId) f"
    and n: "stored_fact H owner (nonEmpty H threadId) s (fact_fingerprint H f) = None" by simp_all
  have shape: "index_shape H owner (nonEmpty H threadId) s" using ok by (simp add: index_ok_def)
  note ix = append_fresh_index [OF v n shape refl]
  show ?thesis
    unfolding index_ok_def
  proof (intro conjI allI impI ix(1))
    fix a b :: string assume ab: "CHR 0x00 \<notin> set a \<and> b \<noteq> []"
    let ?s' = "snd (appendOriginalFact H owner threadId f s)"
    have old: "let fps = index_fps H owner (nonEmpty H threadId) s a b in
         distinct fps \<and> set fps = Str ` {fp. base_fact H owner (nonEmpty H threadId) s a b fp}
         \<and> (entry_conflicted (index_raw H owner (nonEmpty H threadId) s a b) \<longleftrightarrow> length fps > 1)"
      using ok ab by (simp add: index_ok_def)
    have nb: "Str (fact_fingerprint H f) \<notin> Str ` {fp. base_fact H owner (nonEmpty H threadId) s a b fp}"
      using n by (auto simp: base_fact_def)
    have base: "{fp. base_fact H owner (nonEmpty H threadId) ?s' a b fp}
      = (if fact_kind H f = MESSAGE_KIND \<and> fact_sender H f = a \<and> fact_messageId H f = b
         then insert (fact_fingerprint H f) {fp. base_fact H owner (nonEmpty H threadId) s a b fp}
         else {fp. base_fact H owner (nonEmpty H threadId) s a b fp})"
      using base_fact_append [OF v n, of b a] ab by auto
    have key: "identity_key a b = identity_key (fact_sender H f) (fact_messageId H f)
      \<longleftrightarrow> fact_sender H f = a \<and> fact_messageId H f = b"
      using identity_key_inj [of a "fact_sender H f" b "fact_messageId H f"] ab nul by auto
    show "let fps = index_fps H owner (nonEmpty H threadId) ?s' a b in
         distinct fps \<and> set fps = Str ` {fp. base_fact H owner (nonEmpty H threadId) ?s' a b fp}
         \<and> (entry_conflicted (index_raw H owner (nonEmpty H threadId) ?s' a b) \<longleftrightarrow> length fps > 1)"
    proof (cases "fact_kind H f = MESSAGE_KIND \<and> fact_sender H f = a \<and> fact_messageId H f = b")
      case True
      have "Str (fact_fingerprint H f) \<notin> set (index_fps H owner (nonEmpty H threadId) s a b)"
        using old nb by (simp add: Let_def)
      with True old ab show ?thesis
        unfolding index_fps_def [of H owner _ ?s'] ix(2) base
        by (auto simp: Let_def add_fingerprint_def)
    next
      case False
      then have "index_raw H owner (nonEmpty H threadId) ?s' a b = index_raw H owner (nonEmpty H threadId) s a b"
        using key by (auto simp: ix(2))
      with False old show ?thesis
        unfolding index_fps_def base by (simp only: Let_def if_False)
    qed
  qed
qed

lemma facts_puts_index_ok:
  assumes "index_ok H owner (nonEmpty H threadId) s" and "\<forall>f\<in>set fs. CHR 0x00 \<notin> set (fact_sender H f)"
  shows "index_ok H owner (nonEmpty H threadId) (facts.puts owner threadId fs s)"
  using assms by (induction fs arbitrary: s) (simp_all add: append_index_ok)

end

end
