(* ===== verification/StoreRuns.thy ===== *)
theory StoreRuns
  imports LogInvariant FactLog
begin

text \<open>
  Runs of the thread store: the public operations of \<open>ThreadStoreService\<close> as calls, sequences of
  calls under a moving clock, and the invariant of every run.
\<close>

section \<open>Runs of the store\<close>

text \<open>
  The public operations of \<open>ThreadStoreService\<close> as calls. A run is a sequence of calls, each with
  the clock it reads; a call that throws leaves what it wrote before it threw.
\<close>

datatype store_call =
    EnsureThread thread_args
  | SetThreadState jsval jsval jsval
  | DeleteThread jsval
  | UpsertMessage jsval
  | RecordOutboundDeposit jsval jsval jsval jsval jsval jsval jsval jsval
  | RecordOutboundPending jsval jsval jsval jsval jsval jsval
  | SetMessageStatus jsval jsval jsval jsval jsval
  | UpsertDeposited deposit
  | MarkConflicted jsval jsval
  | ApplyLocalDelete jsval jsval
  | ApplyEdit jsval jsval jsval jsval jsval jsval bool
  | ApplyTombstone jsval jsval jsval jsval jsval bool
  | ApplyReaction jsval jsval jsval jsval jsval jsval bool
  | DrainPending jsval jsval
  | CleanupStale
  | AppendFact jsval jsval
  | PutPendingCommit jsval jsval jsval jsval jsval jsval jsval jsval
  | DeletePendingCommit jsval

fun exec_call :: "'s host \<Rightarrow> string \<Rightarrow> store_call \<Rightarrow> 's \<Rightarrow> 's" where
  "exec_call H owner (EnsureThread a) s = snd (ensureThread H owner a s)"
| "exec_call H owner (SetThreadState t v a) s = snd (setThreadState H owner t v a s)"
| "exec_call H owner (DeleteThread t) s = snd (deleteThread H owner t s)"
| "exec_call H owner (UpsertMessage i) s = snd (upsertMessage H owner i s)"
| "exec_call H owner (RecordOutboundDeposit a b c d e f g h) s = snd (recordOutboundDeposit H owner a b c d e f g h s)"
| "exec_call H owner (RecordOutboundPending a b c d e f) s = snd (recordOutboundPending H owner a b c d e f s)"
| "exec_call H owner (SetMessageStatus a b c d e) s = snd (setMessageStatus H owner a b c d e s)"
| "exec_call H owner (UpsertDeposited d) s = snd (upsertDepositedMessage H owner d s)"
| "exec_call H owner (MarkConflicted a b) s = snd (markMessageConflicted H owner a b s)"
| "exec_call H owner (ApplyLocalDelete a b) s = snd (applyLocalDelete H owner a b s)"
| "exec_call H owner (ApplyEdit a b c d e f g) s = snd (applyEdit H owner a b c d e f g s)"
| "exec_call H owner (ApplyTombstone a b c d e f) s = snd (applyTombstone H owner a b c d e f s)"
| "exec_call H owner (ApplyReaction a b c d e f g) s = snd (applyReaction H owner a b c d e f g s)"
| "exec_call H owner (DrainPending a b) s = snd (drainPendingMutationsUnlocked H owner a b s)"
| "exec_call H owner CleanupStale s = cleanupStalePendingMutations H owner s"
| "exec_call H owner (AppendFact t f) s = snd (appendOriginalFact H owner t f s)"
| "exec_call H owner (PutPendingCommit a b c d e f g h) s = snd (putPendingCommit H owner a b c d e f g h s)"
| "exec_call H owner (DeletePendingCommit m) s = snd (deletePendingCommit H owner m s)"

fun run_calls :: "'s host \<Rightarrow> string \<Rightarrow> (rat \<times> store_call) list \<Rightarrow> 's \<Rightarrow> 's" where
  "run_calls H owner [] s = s"
| "run_calls H owner ((now, c) # cs) s = run_calls H owner cs (exec_call (H\<lparr>clockMs := now\<rparr>) owner c s)"

lemma run_calls_append: "run_calls H owner (cs @ ds) s = run_calls H owner ds (run_calls H owner cs s)"
  by (induction cs arbitrary: s) auto

context host_laws
begin

lemma store_ok_fact_keys [simp]:
  "store_ok H owner (kvSet H s (kOriginalFact owner a b) v) = store_ok H owner s"
  "store_ok H owner (kvSet H s (kOriginalsIndex owner a) v) = store_ok H owner s"
  "store_ok H owner (kvSet H s (kCommitPending owner a) v) = store_ok H owner s"
  "store_ok H owner (kvDelete H s (kCommitPending owner a)) = store_ok H owner s"
  by (simp_all add: store_ok_def kOriginalFact_def kOriginalsIndex_def kCommitPending_def kMessages_def)

lemma index_fact_store_ok [simp]:
  "store_ok H owner (snd (index_fact H owner a b c d s)) = store_ok H owner s"
  by (simp add: index_fact_def Let_def)

lemma append_store_ok: "store_ok H owner s \<Longrightarrow> store_ok H owner (snd (appendOriginalFact H owner t f s))"
  by (cases "fact_valid H (nonEmpty H t) f"; cases "stored_fact H owner (nonEmpty H t) s (fact_fingerprint H f)")
    (simp_all add: append_invalid(1) append_existing append_fresh Let_def case_prod_beta)

lemma commit_store_ok:
  "store_ok H owner s \<Longrightarrow> store_ok H owner (snd (putPendingCommit H owner a b c d e f g h s))"
  "store_ok H owner s \<Longrightarrow> store_ok H owner (snd (deletePendingCommit H owner a s))"
  by (simp_all add: putPendingCommit_def deletePendingCommit_def Let_def)

lemmas store_ok_ops = append_store_ok commit_store_ok ensureThread_store_ok setThreadState_store_ok deleteThread_store_ok upsertMessage_store_ok
  recordOutboundDeposit_store_ok recordOutboundPending_store_ok setMessageStatus_store_ok upsertDeposited_store_ok
  markMessageConflicted_store_ok applyLocalDelete_store_ok applyEdit_store_ok applyTombstone_store_ok
  applyReaction_store_ok drain_store_ok cleanup_store_ok

lemma exec_call_store_ok: "store_ok H owner s \<Longrightarrow> store_ok H owner (exec_call H owner c s)"
  by (cases c) (simp_all add: store_ok_ops)

lemma store_ok_clock_iff: "store_ok (H\<lparr>clockMs := now\<rparr>) owner s = store_ok H owner s"
proof
  assume "store_ok (H\<lparr>clockMs := now\<rparr>) owner s"
  from host_laws.store_ok_clock [OF host_laws_clock [of now] this, of "clockMs H"]
  show "store_ok H owner s" by simp
qed (rule store_ok_clock)

lemma run_calls_store_ok: "store_ok H owner s \<Longrightarrow> store_ok H owner (run_calls H owner cs s)"
proof (induction cs arbitrary: s)
  case (Cons c cs)
  obtain now call where c: "c = (now, call)" by force
  have "store_ok (H\<lparr>clockMs := now\<rparr>) owner (exec_call (H\<lparr>clockMs := now\<rparr>) owner call s)"
    using Cons.prems by (intro host_laws.exec_call_store_ok host_laws_clock) (simp add: store_ok_clock_iff)
  then show ?case using Cons.IH by (simp add: c store_ok_clock_iff)
qed simp

end

end
