(* ===== verification/StoreFacts.thy ===== *)
theory StoreFacts
  imports Samples StoreRuns
begin

text \<open>
  The effect of the remaining operations of the thread store, in the form the properties use:
  status updates, upserts, thread rows, local deletes, pending commits.
\<close>

context host_laws
begin

section \<open>Status\<close>

lemma setMessageStatus_effect:
  assumes ok: "log_ok H owner tid s" and m: "row_of H owner tid mid s = Some m"
    and ids: "tid = nonEmpty H threadId" "mid = nonEmpty H messageId" "tid \<noteq> []" "mid \<noteq> []"
    and st: "st = nonEmpty H status" "st \<in> set MESSAGE_STATUSES"
  shows "canTransitionStatus (m_status m) st \<Longrightarrow>
      row_of H owner tid mid (snd (setMessageStatus H owner threadId messageId status x y s)) = Some (status_update H st x y m)"
    and "\<not> canTransitionStatus (m_status m) st \<Longrightarrow> \<exists>e. setMessageStatus H owner threadId messageId status x y s = (Inl e, s)"
proof -
  have f: "findRow mid (loadMessages H owner tid s) = Some m" using m by (simp add: row_of_def)
  have wf: "wf_message (status_update H st x y m)"
    by (rule wf_status_update) (use row_wf [OF m] st in simp_all)
  have st0: "st \<noteq> []" using st(2) by (auto simp: MESSAGE_STATUSES_def)
  have id: "m_messageId (status_update H st x y m) = mid" "m_messageId (status_update H st x y m) = m_messageId m"
    "m_createdAtMs (status_update H st x y m) = m_createdAtMs m"
    using row_wf [OF m] by (simp_all add: status_update_def)
  show "row_of H owner tid mid (snd (setMessageStatus H owner threadId messageId status x y s)) = Some (status_update H st x y m)"
    if "canTransitionStatus (m_status m) st"
  proof -
    have "snd (setMessageStatus H owner threadId messageId status x y s)
      = saveIdempotency H owner tid m (status_update H st x y m)
          (saveMessages H owner tid (replaceRow mid (status_update H st x y m) (loadMessages H owner tid s)) s)"
      using that ids(3,4) st0 st(2) f save_in_place(2) [OF ok f wf id(2,3)]
      unfolding setMessageStatus_def Let_def ids(1,2) [symmetric] st(1) [symmetric] by (simp add: ok_def)
    then have "loadMessages H owner tid (snd (setMessageStatus H owner threadId messageId status x y s))
      = replaceRow mid (status_update H st x y m) (loadMessages H owner tid s)"
      using save_in_place(1) [OF ok f wf id(2,3), of s] by simp
    from row_replaced [OF this m id(2)] show ?thesis .
  qed
  show "\<exists>e. setMessageStatus H owner threadId messageId status x y s = (Inl e, s)"
    if "\<not> canTransitionStatus (m_status m) st"
    using that ids(3,4) st0 st(2) f
    unfolding setMessageStatus_def Let_def ids(1,2) [symmetric] st(1) [symmetric] by (simp add: throw_def)
qed

section \<open>Upserts\<close>

lemma upsert_ready:
  assumes "coerceMessageRow H input = Some m"
    and "fst (upsertMessage H owner input s) = Inr r"
  shows "loadMessages H owner t (snd (upsertMessage H owner input s)) = loadMessages H owner t (upserted H owner m s)" and "r = m"
proof -
  have eq: "upsertMessage H owner input s = upsertMessageUnlocked H owner input s"
    using assms(1) by (simp add: upsertMessage_def)
  have "assertThreadReady H (getThread H owner (Str (m_threadId m)) s) (getp input ''groupId'') = None"
    using assms by (simp add: eq upsertMessageUnlocked_def throw_def split: option.splits)
  from upsertMessageUnlocked_eq [OF assms(1) this] obtain a where
    a: "upsertMessageUnlocked H owner input s = andThen (ensureThreadUnlocked H owner a) (\<lambda>_. ok m) (upserted H owner m s)"
    by blast
  show "loadMessages H owner t (snd (upsertMessage H owner input s)) = loadMessages H owner t (upserted H owner m s)"
    by (simp add: eq a)
  show "r = m" using assms(2) by (auto simp: eq a andThen_def ok_def split: prod.splits sum.splits)
qed

lemma upsert_not_ready:
  assumes "coerceMessageRow H input = Some m"
    and "assertThreadReady H (getThread H owner (Str (m_threadId m)) s) (getp input ''groupId'') = Some e"
  shows "upsertMessage H owner input s = (Inl e, s)"
  using assms by (simp add: upsertMessage_def upsertMessageUnlocked_def throw_def)

section \<open>Threads\<close>

lemma str_or_defined: "str_or t e \<noteq> Undef" "Undef \<noteq> str_or t e"
  by (auto simp: str_or_def split: option.splits)

lemma val_or_defined: "val_or v e \<noteq> Undef" "Undef \<noteq> val_or v e"
  by (cases v; auto simp: val_or_def split: option.splits)+

lemma participants_defined:
  "(if truthy v then v else case e of Some t \<Rightarrow> Arr (f t) | None \<Rightarrow> Arr []) \<noteq> Undef"
  "Undef \<noteq> (if truthy v then v else case e of Some t \<Rightarrow> Arr (f t) | None \<Rightarrow> Arr [])"
  by (cases v; auto split: option.splits)+

lemma next_thread_row_fields:
  assumes "coerceThreadRow H (next_thread_row H a existing ty) = Some t"
    and "(case existing of Some e \<Rightarrow> t_threadType e | None \<Rightarrow> ty) \<in> {''direct'', ''group''}"
  shows "t_threadId t = trim (nonEmpty H (a_threadId a))"
    and "t_threadType t = (case existing of Some e \<Rightarrow> t_threadType e | None \<Rightarrow> ty)"
    and "t_createdAtMs t = Some (nextCreatedAt H a existing)"
    and "t_updatedAtMs t = Some (clockMs H)"
    and "t_lastActivityAtMs t = Some (nextLastActivity H a existing)"
proof -
  obtain fs where row: "next_thread_row H a existing ty = Obj fs" by (simp add: next_thread_row_def)
  have d: "distinct (map fst fs)" using row by (auto simp: next_thread_row_def)
  have u: "\<forall>(k, v) \<in> set fs. v \<noteq> Undef"
    using row unfolding next_thread_row_def by (auto simp: str_or_defined val_or_defined participants_defined)
  have keys: "map_of fs ''threadId'' = Some (Str (nonEmpty H (a_threadId a)))"
    "map_of fs ''threadType'' = Some (Str (case existing of Some e \<Rightarrow> t_threadType e | None \<Rightarrow> ty))"
    "map_of fs ''createdAtMs'' = Some (num (nextCreatedAt H a existing))"
    "map_of fs ''updatedAtMs'' = Some (num (clockMs H))"
    "map_of fs ''lastActivityAtMs'' = Some (num (nextLastActivity H a existing))"
    using row by (auto simp: next_thread_row_def)
  have "filter (\<lambda>(_, v). v \<noteq> Undef) fs = fs" using u by (auto simp: filter_id_conv)
  then have mk: "mkChatThread (Obj (spread [(''createdAtMs'', num (clockMs H))] fs)) = Inr t"
    using assms(1) by (simp add: coerceThreadRow_def coerceRow_def row split: sum.splits)
  have ty: "coerceThreadType (Str (case existing of Some e \<Rightarrow> t_threadType e | None \<Rightarrow> ty))
      = Inr (case existing of Some e \<Rightarrow> t_threadType e | None \<Rightarrow> ty)"
    using assms(2) by (intro enum_agree)
  have "\<exists>v ac. t = buildChatThread (Obj (spread [(''createdAtMs'', num (clockMs H))] fs))
      (case existing of Some e \<Rightarrow> t_threadType e | None \<Rightarrow> ty) v ac"
    using mk by (auto simp: mkChatThread_def getp_spread [OF d] keys ty Let_def split: sum.splits if_splits)
  then show "t_threadId t = trim (nonEmpty H (a_threadId a))"
    and "t_threadType t = (case existing of Some e \<Rightarrow> t_threadType e | None \<Rightarrow> ty)"
    and "t_createdAtMs t = Some (nextCreatedAt H a existing)"
    and "t_updatedAtMs t = Some (clockMs H)"
    and "t_lastActivityAtMs t = Some (nextLastActivity H a existing)"
    by (auto simp: buildChatThread_def Let_def getp_spread [OF d] keys optNumberOr_def)
qed

lemma getThread_wf: "getThread H owner v s = Some t \<Longrightarrow> wf_thread t"
  by (auto simp: getThread_def Let_def split: if_splits dest: coerceThreadRow_wf)

lemma ensureThread_keeps:
  assumes old: "getThread H owner threadId s = Some e" and ids: "nonEmpty H (a_threadId a) = nonEmpty H threadId"
    and r: "ensureThread H owner a s = (Inr t, s')"
  shows "t_threadType t = t_threadType e"
    and "t_createdAtMs e \<noteq> None \<Longrightarrow> t_createdAtMs t = t_createdAtMs e"
    and "\<exists>l. t_lastActivityAtMs t = Some l \<and> zero_if_none (t_lastActivityAtMs e) \<le> l"
    and "getThread H owner threadId s' = Some t"
proof -
  let ?tid = "nonEmpty H threadId"
  have tr: "nonEmpty H (Str ?tid) = ?tid" by (simp add: nonEmpty_Str nonEmpty_trim)
  have ne: "?tid \<noteq> []" using old by (auto simp: getThread_def Let_def)
  have old': "getThread H owner (Str ?tid) s = Some e" using old by (simp add: getThread_def tr Let_def)
  obtain ty where row: "coerceThreadRow H (next_thread_row H (a\<lparr>a_threadId := Str ?tid\<rparr>) (Some e) ty) = Some t"
    and s': "s' = kvSet H s (kThread owner ?tid) (thread_json t)"
    using r ne
    by (auto simp: ensureThread_def ensureThreadUnlocked_def ids tr old' throw_def Let_def
        split: if_splits sum.splits option.splits)
  have ty: "(case Some e of Some e \<Rightarrow> t_threadType e | None \<Rightarrow> ty) \<in> {''direct'', ''group''}"
    using getThread_wf [OF old] by (simp add: wf_thread_def)
  note f = next_thread_row_fields [OF row ty]
  show "t_threadType t = t_threadType e" using f(2) by simp
  show "t_createdAtMs e \<noteq> None \<Longrightarrow> t_createdAtMs t = t_createdAtMs e"
    using f(3) by (auto simp: nextCreatedAt_def split: option.splits)
  show "\<exists>l. t_lastActivityAtMs t = Some l \<and> zero_if_none (t_lastActivityAtMs e) \<le> l"
    using f(5) by (simp add: nextLastActivity_def)
  have "coerceThreadRow H (thread_json t) = Some t"
    unfolding coerceThreadRow_def by (rule coerceRow_thread [OF coerceThreadRow_wf [OF row]])
  then show "getThread H owner threadId s' = Some t" using ne by (simp add: s' getThread_def)
qed

section \<open>Local deletes\<close>

lemma localDelete_load:
  assumes ok: "log_ok H owner tid s" and ids: "tid = nonEmpty H threadId" "mid = nonEmpty H target" "tid \<noteq> []" "mid \<noteq> []"
  shows "loadMessages H owner tid (snd (applyLocalDelete H owner threadId target s))
    = filter (\<lambda>r. m_messageId r \<noteq> mid) (loadMessages H owner tid s)"
proof (cases "findRow mid (loadMessages H owner tid s)")
  case None
  then have "filter (\<lambda>r. m_messageId r \<noteq> mid) (loadMessages H owner tid s) = loadMessages H owner tid s"
    by (auto simp: findRow_None filter_id_conv image_iff)
  with None show ?thesis
    using ids(3,4) unfolding applyLocalDelete_def Let_def ids(1,2) [symmetric] by (simp add: ok_def)
next
  case (Some m)
  let ?rows = "loadMessages H owner tid s"
  have d: "removeRow mid ?rows = filter (\<lambda>r. m_messageId r \<noteq> mid) ?rows"
    using log_okD(1) [OF ok] by (simp add: removeRow_filter rows_ok_def)
  have wf: "\<forall>r\<in>set (removeRow mid ?rows). wf_message r" using log_okD(1) [OF ok] by (simp add: d rows_ok_def)
  have len: "length (removeRow mid ?rows) \<le> MAX_MESSAGES_PER_THREAD"
    using length_removeRow [of mid ?rows] log_okD(2) [OF ok] by simp
  have "loadMessages H owner tid (kvDelete H x (kIdempotency H owner a b c)) = loadMessages H owner tid x" for x a b c
    by (simp add: loadMessages_def get_delete)
  then show ?thesis
    using ids(3,4) Some load_save [OF wf, of owner tid s] len
    unfolding applyLocalDelete_def Let_def ids(1,2) [symmetric] by (simp add: ok_def d)
qed

section \<open>Mutations, composed\<close>

lemma tombstone_then_edit:
  assumes ok: "store_ok H owner s"
    and m: "row_of H owner (nonEmpty H threadId) (nonEmpty H target) s = Some m"
    and ids: "nonEmpty H threadId \<noteq> []" "nonEmpty H target \<noteq> []"
    and may: "may_tombstone H x (asInt H at1 0) m"
  shows "row_of H owner (nonEmpty H threadId) (nonEmpty H target)
        (snd (applyEdit H owner threadId target y newText at2 r2 b2 (snd (applyTombstone H owner threadId target x at1 r1 b1 s))))
      = Some (m\<lparr>m_text := [], m_payload := Null, m_tombstonedAtMs := Some (asInt H at1 0)\<rparr>)
    \<and> loadMessages H owner (nonEmpty H threadId)
        (snd (applyEdit H owner threadId target y newText at2 r2 b2 (snd (applyTombstone H owner threadId target x at1 r1 b1 s))))
      = loadMessages H owner (nonEmpty H threadId) (snd (applyTombstone H owner threadId target x at1 r1 b1 s))"
proof -
  let ?s1 = "snd (applyTombstone H owner threadId target x at1 r1 b1 s)"
  have l: "loadMessages H owner (nonEmpty H threadId) ?s1
      = replaceRow (nonEmpty H target) (tombstoned (asInt H at1 0) m) (loadMessages H owner (nonEmpty H threadId) s)"
    using tombstone_step [OF store_okD [OF ok] m refl refl ids refl] may by simp
  have r: "row_of H owner (nonEmpty H threadId) (nonEmpty H target) ?s1 = Some (tombstoned (asInt H at1 0) m)"
    by (rule row_replaced [OF l m]) (simp add: tombstoned_def)
  have dead: "is_tombstoned (tombstoned (asInt H at1 0) m)"
    using may by (intro is_tombstoned_tombstoned) (simp add: may_tombstone_def)
  have "loadMessages H owner (nonEmpty H threadId) (snd (applyEdit H owner threadId target y newText at2 r2 b2 ?s1))
      = loadMessages H owner (nonEmpty H threadId) ?s1"
    by (rule edit_tombstoned [OF store_okD [OF applyTombstone_store_ok [OF ok]] r dead refl refl ids])
  with r show ?thesis by (simp add: row_of_def tombstoned_def)
qed

lemma map_of_next_reactions:
  "map_of (next_reactions e cur rs) k = (if k = e then if cur = [] then None else Some cur else map_of rs k)"
  by (simp add: next_reactions_def update_conv' delete_conv')

lemma reaction_map:
  assumes ok: "log_ok H owner (nonEmpty H threadId) s"
    and m: "row_of H owner (nonEmpty H threadId) (nonEmpty H target) s = Some m"
    and ids: "nonEmpty H threadId \<noteq> []" "nonEmpty H target \<noteq> []"
    and args: "nonEmpty H sender \<noteq> []" "nonEmpty H emoji \<noteq> []" "oper = Str ''add'' \<or> oper = Str ''remove''"
    and ss: "reactors (m_reactions m) (nonEmpty H emoji) = Inr ss" "oper = Str ''add'' \<longleftrightarrow> nonEmpty H sender \<notin> set ss"
  shows "\<exists>rs. loadMessages H owner (nonEmpty H threadId) (snd (applyReaction H owner threadId target sender emoji oper received allow s))
       = replaceRow (nonEmpty H target) (m\<lparr>m_reactions := rs\<rparr>) (loadMessages H owner (nonEmpty H threadId) s)
     \<and> (\<forall>e. map_of rs e = (if e = nonEmpty H emoji
          then (let cur = if oper = Str ''add'' then ss @ [nonEmpty H sender] else removeAll (nonEmpty H sender) ss
                in if cur = [] then None else Some cur)
          else map_of (m_reactions m) e))"
proof (intro exI conjI allI)
  show "loadMessages H owner (nonEmpty H threadId) (snd (applyReaction H owner threadId target sender emoji oper received allow s))
       = replaceRow (nonEmpty H target) (m\<lparr>m_reactions := next_reactions (nonEmpty H emoji)
           (react (string_or_empty oper) (nonEmpty H sender) ss) (m_reactions m)\<rparr>) (loadMessages H owner (nonEmpty H threadId) s)"
    by (rule reaction_step [OF ok m refl refl ids refl args(1) refl args(2,3) ss])
  fix e
  have cur: "react (string_or_empty oper) (nonEmpty H sender) ss
      = (if oper = Str ''add'' then ss @ [nonEmpty H sender] else removeAll (nonEmpty H sender) ss)"
    using args(3) ss(2) by (auto simp: react_def)
  show "map_of (next_reactions (nonEmpty H emoji) (react (string_or_empty oper) (nonEmpty H sender) ss) (m_reactions m)) e
      = (if e = nonEmpty H emoji
          then (let cur = if oper = Str ''add'' then ss @ [nonEmpty H sender] else removeAll (nonEmpty H sender) ss
                in if cur = [] then None else Some cur)
          else map_of (m_reactions m) e)"
    unfolding map_of_next_reactions cur Let_def ..
qed

lemma upsert_set:
  assumes ok: "log_ok H owner (m_threadId m) s" and c: "coerceMessageRow H input = Some m"
    and r: "fst (upsertMessage H owner input s) = Inr r"
    and room: "length (loadMessages H owner (m_threadId m) s) < MAX_MESSAGES_PER_THREAD"
  shows "r = m \<and> set (loadMessages H owner (m_threadId m) (snd (upsertMessage H owner input s)))
    = insert m {x \<in> set (loadMessages H owner (m_threadId m) s). m_messageId x \<noteq> m_messageId m}"
proof -
  let ?rows = "loadMessages H owner (m_threadId m) s"
  have "length (sort_by (compareNewestFirst H) (putRow m ?rows)) \<le> MAX_MESSAGES_PER_THREAD"
    using room by (simp add: length_putRow)
  then have "loadMessages H owner (m_threadId m) (snd (upsertMessage H owner input s)) = sort_by (compareNewestFirst H) (putRow m ?rows)"
    using upsert_ready(1) [OF c r, of "m_threadId m"] load_upserted [OF ok coerceMessageRow_wf [OF c]] by simp
  moreover have "distinct (map m_messageId ?rows)" using log_okD(1) [OF ok] by (simp add: rows_ok_def)
  ultimately show ?thesis using upsert_ready(2) [OF c r] by (simp add: set_putRow)
qed

section \<open>Conflicts\<close>

lemma append_conflict:
  assumes ix: "index_ok H owner (nonEmpty H threadId) s"
    and v: "fact_valid H (nonEmpty H threadId) f" and nul: "CHR 0x00 \<notin> set (fact_sender H f)"
    and n: "stored_fact H owner (nonEmpty H threadId) s (fact_fingerprint H f) = None"
    and base: "fact_kind H f = MESSAGE_KIND" "fact_messageId H f \<noteq> []"
  shows "index_ok H owner (nonEmpty H threadId) (snd (appendOriginalFact H owner threadId f s))
    \<and> (\<exists>r. fst (appendOriginalFact H owner threadId f s) = Inr r \<and> ar_appended r
      \<and> (ar_conflict r \<noteq> None \<longleftrightarrow> (\<exists>fp. base_fact H owner (nonEmpty H threadId) s (fact_sender H f) (fact_messageId H f) fp)))"
proof -
  let ?fps = "index_fps H owner (nonEmpty H threadId) s (fact_sender H f) (fact_messageId H f)"
  have set: "set ?fps = Str ` {fp. base_fact H owner (nonEmpty H threadId) s (fact_sender H f) (fact_messageId H f) fp}"
    using ix nul base(2) by (simp add: index_ok_def Let_def)
  have "Str (fact_fingerprint H f) \<notin> set ?fps" using n unfolding set by (auto simp: base_fact_def)
  then have "length (add_fingerprint (fact_fingerprint H f) ?fps) > 1 \<longleftrightarrow> ?fps \<noteq> []" by (simp add: add_fingerprint_def)
  moreover have "?fps \<noteq> [] \<longleftrightarrow> (\<exists>fp. base_fact H owner (nonEmpty H threadId) s (fact_sender H f) (fact_messageId H f) fp)"
    using set by (metis (mono_tags) Collect_empty_eq image_is_empty set_empty)
  moreover have shape: "index_shape H owner (nonEmpty H threadId) s" using ix by (simp add: index_ok_def)
  ultimately show ?thesis
    using append_fresh_index(3) [OF v n shape refl] base append_index_ok [OF ix nul] by auto
qed

end

end
