(* ===== verification/StoreProperties.thy ===== *)
theory StoreProperties
  imports StoreFacts
begin

text \<open>
  The properties of the thread store (\<open>src/server/storage/ChatThreadStore.js\<close>), each with an
  instance on the sample store of the in-memory host.
\<close>

section \<open>The log\<close>

text \<open>
  C1. Whatever sequence of public operations runs, under whatever clock readings and whether or
  not calls throw: the log of every thread is the serialisation of at most 500 well-formed rows of
  that thread, newest first, with distinct message ids.
\<close>

theorem runs_keep_logs:
  assumes "host_laws H" and "store_ok H owner s"
  shows "store_ok H owner (run_calls H owner calls s)"
  using assms by (rule host_laws.run_calls_store_ok)

theorem runs_keep_logs_instance:
  "store_ok HM ''me'' (run_calls HM ''me'' [(2000, SetMessageStatus (Str ''t1'') (Str ''a1'') (Str ''failed'') Null Null),
     (2001, ApplyTombstone (Str ''t1'') (Str ''a1'') (Str ''ann'') (num 30) (num 31) True)] sample_store)"
  by (rule runs_keep_logs [OF HM_laws sample_store_ok])

text \<open>
  C29. Edits converge: two edits of one message by accounts entitled to edit it, with different
  edit times, leave the same log in whichever order they arrive; the later edit time wins.
\<close>

theorem edits_commute:
  assumes "host_laws H" and "store_ok H owner s"
    and "row_of H owner (nonEmpty H threadId) (nonEmpty H target) s = Some m"
    and "nonEmpty H threadId \<noteq> []" "nonEmpty H target \<noteq> []"
    and "asInt H at1 0 < asInt H at2 0" "may_edit H a1 (asInt H at1 0) m" "may_edit H a2 (asInt H at2 0) m"
  shows "loadMessages H owner (nonEmpty H threadId) (snd (applyEdit H owner threadId target a2 x2 at2 r2 b2
          (snd (applyEdit H owner threadId target a1 x1 at1 r1 b1 s))))
       = loadMessages H owner (nonEmpty H threadId) (snd (applyEdit H owner threadId target a1 x1 at1 r1 b1
          (snd (applyEdit H owner threadId target a2 x2 at2 r2 b2 s))))"
  by (rule host_laws.edits_converge [OF assms(1-3) refl refl assms(4,5) refl refl assms(6-8)])

theorem edits_commute_instance:
  "loadMessages HM ''me'' ''t1'' (snd (applyEdit HM ''me'' (Str ''t1'') (Str ''a1'') (Str ''ann'') (Str ''two'') (num 60) (num 61) True
      (snd (applyEdit HM ''me'' (Str ''t1'') (Str ''a1'') (Str ''ann'') (Str ''one'') (num 50) (num 51) True sample_store))))
   = loadMessages HM ''me'' ''t1'' (snd (applyEdit HM ''me'' (Str ''t1'') (Str ''a1'') (Str ''ann'') (Str ''one'') (num 50) (num 51) True
      (snd (applyEdit HM ''me'' (Str ''t1'') (Str ''a1'') (Str ''ann'') (Str ''two'') (num 60) (num 61) True sample_store))))"
proof -
  have "asInt HM Null 0 = 0" by (rule memory.asInt_Null)
  then show ?thesis
    using edits_commute [OF HM_laws sample_store_ok, of "Str ''t1''" "Str ''a1''" msg_a "num 50" "num 60" "Str ''ann''" "Str ''ann''"]
    by (simp add: may_edit_def is_tombstoned_def unauthorized_def)
qed


definition sample_deposit :: "string \<Rightarrow> string \<Rightarrow> string \<Rightarrow> deposit" where
  "sample_deposit mid sender h = \<lparr> dep_messageId = Str mid, dep_threadId = Str ''t1'', dep_senderKey = Undef,
     dep_packetB64 = Undef, dep_acceptedAtMs = num 40, dep_senderAccountId = Str sender, dep_status = Undef,
     dep_text = Str ''hi'', dep_payload = Obj [(''contentHash'', Str h)], dep_inReplyToMessageId = Undef \<rparr>"

lemma sample_deposit_ids [simp]:
  "dep_threadId (sample_deposit mid sender h) = Str ''t1''" "dep_messageId (sample_deposit mid sender h) = Str mid"
  "dep_senderAccountId (sample_deposit mid sender h) = Str sender"
  "dep_payload (sample_deposit mid sender h) = Obj [(''contentHash'', Str h)]"
  by (simp_all add: sample_deposit_def)



section \<open>Deposits\<close>

text \<open>
  C31. A deposit cannot touch another sender's message, and is not lost: delivered under an id that a row of a
  different sender already has, into a thread with room for it, it is inserted under the id extended by its own
  sender, with its sender, text and payload, and every other row of every thread is as it was. (No row is there
  under the extended id yet, no early mutation waits for it, and the thread takes the row.)
\<close>

theorem deposit_spares_other_senders:
  assumes "host_laws H" and "store_ok H owner s"
    and ids: "tid = nonEmpty H (dep_threadId d)" "mid = nonEmpty H (dep_messageId d)" "sender = nonEmpty H (dep_senderAccountId d)"
    and taken: "row_of H owner tid mid s = Some m" "m_senderAccountId m \<noteq> []" "m_senderAccountId m \<noteq> sender"
    and named: "tid \<noteq> []" "mid \<noteq> []" "sender \<noteq> []"
    and ready: "assertThreadReady H (getThread H owner (Str tid) s) Null = None"
    and stored: "fst (upsertMessageUnlocked H owner (deposit_row H tid (mid @ ''@'' @ sender) d) s) = Inr new"
    and fresh: "row_of H owner tid (mid @ ''@'' @ sender) s = None" "kvGet H s (kPendingMutations owner (mid @ ''@'' @ sender)) = Null"
    and room: "length (loadMessages H owner tid s) < MAX_MESSAGES_PER_THREAD"
  defines "s' \<equiv> snd (upsertDepositedMessage H owner d s)"
  shows "fst (upsertDepositedMessage H owner d s) = Inr \<lparr> d_inserted = True, d_message = Some new, d_mutated = False, d_conflict = False \<rparr>
    \<and> row_of H owner tid (mid @ ''@'' @ sender) s' = Some new \<and> m_senderAccountId new = sender \<and> m_text new = string_or_empty (dep_text d)
    \<and> m_payload new = (if is_object (dep_payload d) then dep_payload d else Null)
    \<and> (\<forall>t k. t \<noteq> tid \<or> k \<noteq> mid @ ''@'' @ sender \<longrightarrow> row_of H owner t k s' = row_of H owner t k s)"
proof -
  let ?eff = "mid @ ''@'' @ sender"
  have run: "upsertDepositedMessage H owner d s = depositNew H owner tid mid ?eff d s"
    using host_laws.deposit_collision [OF assms(1) taken(1) ids(1,2) named(1,2)] named(3) taken(2,3) ready fresh(1) by (simp add: ids(3))
  have "trimmed mid" "trimmed sender" unfolding ids by (rule host_laws.trimmed_nonEmpty [OF assms(1)])+
  then have "trimmed ?eff" using named by (simp add: trimmed_iff)
  then have tr: "trim tid = tid" "trim ?eff = ?eff" by (simp add: ids host_laws.nonEmpty_trim [OF assms(1)], rule trimmed_eq)
  have "adds_only H owner tid ?eff s s'"
    using host_laws.depositNew_adds_only [OF assms(1,2) tr] by (simp add: s'_def run)
  then have "\<forall>t k. t \<noteq> tid \<or> k \<noteq> ?eff \<longrightarrow> row_of H owner t k s' = row_of H owner t k s"
    using room by (fastforce simp: adds_only_def)
  then show ?thesis
    using host_laws.depositNew_stores(1,2) [where mid = mid, OF assms(1,2) tr stored fresh(2) room]
      host_laws.depositNew_stores(3-5) [OF assms(1,2) tr stored fresh(2) room] by (simp add: s'_def run ids(3))
qed

theorem deposit_spares_other_senders_instance:
  "map_option (\<lambda>m. (m_senderAccountId m, m_text m))
     (row_of HM ''me'' ''t1'' ''a1@bob'' (snd (upsertDepositedMessage HM ''me'' (sample_deposit ''a1'' ''bob'' ''h2'') sample_store))) = Some (''bob'', ''hi'')
   \<and> row_of HM ''me'' ''t1'' ''a1'' (snd (upsertDepositedMessage HM ''me'' (sample_deposit ''a1'' ''bob'' ''h2'') sample_store)) = Some msg_a"
proof -
  let ?d = "sample_deposit ''a1'' ''bob'' ''h2''"
  have "\<not> isl (fst (upsertMessageUnlocked HM ''me'' (deposit_row HM ''t1'' (''a1'' @ ''@'' @ ''bob'') ?d) sample_store))" by code_simp
  then obtain new where new: "fst (upsertMessageUnlocked HM ''me'' (deposit_row HM ''t1'' (''a1'' @ ''@'' @ ''bob'') ?d) sample_store) = Inr new"
    by (cases "fst (upsertMessageUnlocked HM ''me'' (deposit_row HM ''t1'' (''a1'' @ ''@'' @ ''bob'') ?d) sample_store)") simp_all
  have f: "row_of HM ''me'' ''t1'' (''a1'' @ ''@'' @ ''bob'') sample_store = None" "kvGet HM sample_store (kPendingMutations ''me'' (''a1'' @ ''@'' @ ''bob'')) = Null"
    by (simp add: row_of_def) code_simp
  have "m_senderAccountId msg_a = ''ann''" "dep_text ?d = Str ''hi''" by (simp_all add: sample_deposit_def)
  then show ?thesis
    using deposit_spares_other_senders [OF HM_laws sample_store_ok _ _ _ sample_rows(1) _ _ _ _ _ sample_ready new f]
    by (simp add: MAX_MESSAGES_PER_THREAD_def)
qed

text \<open>
  Whatever the log holds: no other row is changed by such a deposit, at most a row of the same thread leaves a log
  that was full.
\<close>

theorem deposit_adds_one_row:
  assumes "host_laws H" and "store_ok H owner s"
    and "row_of H owner (nonEmpty H (dep_threadId d)) (nonEmpty H (dep_messageId d)) s = Some m"
    and "nonEmpty H (dep_threadId d) \<noteq> []" "nonEmpty H (dep_messageId d) \<noteq> []"
    and "nonEmpty H (dep_senderAccountId d) \<noteq> []" "m_senderAccountId m \<noteq> []"
      "m_senderAccountId m \<noteq> nonEmpty H (dep_senderAccountId d)"
    and "t \<noteq> nonEmpty H (dep_threadId d) \<or> k \<noteq> nonEmpty H (dep_messageId d) @ ''@'' @ nonEmpty H (dep_senderAccountId d)"
  shows "row_of H owner t k (snd (upsertDepositedMessage H owner d s)) = row_of H owner t k s
    \<or> t = nonEmpty H (dep_threadId d) \<and> length (loadMessages H owner t s) = MAX_MESSAGES_PER_THREAD
      \<and> row_of H owner t k (snd (upsertDepositedMessage H owner d s)) = None"
  using host_laws.deposit_adds_only [OF assms(1-3) refl refl assms(4-8)] assms(9) by (simp add: adds_only_def)

text \<open>
  Two deposits of one message by its own sender with different content hashes: the second is
  not inserted, the row keeps its first content and is flagged as conflicted, nothing else changes,
  and the answer reports the conflict.
\<close>

theorem deposit_conflict_flags:
  assumes "host_laws H" and "log_ok H owner (nonEmpty H (dep_threadId d)) s"
    and "row_of H owner (nonEmpty H (dep_threadId d)) (nonEmpty H (dep_messageId d)) s = Some m"
    and "nonEmpty H (dep_threadId d) \<noteq> []" "nonEmpty H (dep_messageId d) \<noteq> []"
    and "assertThreadReady H (getThread H owner (Str (nonEmpty H (dep_threadId d))) s) Null = None"
    and "nonEmpty H (dep_senderAccountId d) \<noteq> []" "m_senderAccountId m = nonEmpty H (dep_senderAccountId d)"
    and "contentHash H (dep_payload d) \<noteq> []" "contentHash H (m_payload m) \<noteq> []"
      "contentHash H (dep_payload d) \<noteq> contentHash H (m_payload m)"
  shows "fst (upsertDepositedMessage H owner d s)
      = Inr \<lparr> d_inserted = False, d_message = Some (m\<lparr>m_conflicted := True\<rparr>), d_mutated = False, d_conflict = True \<rparr>
    \<and> loadMessages H owner (nonEmpty H (dep_threadId d)) (snd (upsertDepositedMessage H owner d s))
      = replaceRow (nonEmpty H (dep_messageId d)) (m\<lparr>m_conflicted := True\<rparr>) (loadMessages H owner (nonEmpty H (dep_threadId d)) s)"
  using host_laws.deposit_conflict [OF assms(1-3) refl refl assms(4-11)] by simp

theorem deposit_conflict_flags_instance:
  "loadMessages HM ''me'' ''t1'' (snd (upsertDepositedMessage HM ''me'' (sample_deposit ''a1'' ''ann'' ''h2'') sample_store))
    = [msg_a\<lparr>m_conflicted := True\<rparr>, msg_b]"
proof -
  show ?thesis
    using deposit_conflict_flags [OF HM_laws, of "''me''" "sample_deposit ''a1'' ''ann'' ''h2''" sample_store msg_a]
      sample_log_ok sample_ready by (simp add: contentHash_def getp_def)
qed

text \<open>
  Deposits are idempotent: a delivery whose id is stored, by the same sender (or with no
  sender on either side) and without a differing content hash, answers with the stored row,
  reports no insertion and writes nothing.
\<close>

theorem deposit_idempotent:
  assumes "host_laws H"
    and "row_of H owner (nonEmpty H (dep_threadId d)) (nonEmpty H (dep_messageId d)) s = Some m"
    and "nonEmpty H (dep_threadId d) \<noteq> []" "nonEmpty H (dep_messageId d) \<noteq> []"
    and "assertThreadReady H (getThread H owner (Str (nonEmpty H (dep_threadId d))) s) Null = None"
    and "nonEmpty H (dep_senderAccountId d) = [] \<or> m_senderAccountId m = [] \<or> m_senderAccountId m = nonEmpty H (dep_senderAccountId d)"
    and "contentHash H (dep_payload d) = [] \<or> contentHash H (m_payload m) = [] \<or> contentHash H (dep_payload d) = contentHash H (m_payload m)"
  shows "upsertDepositedMessage H owner d s
    = (Inr \<lparr> d_inserted = False, d_message = Some m, d_mutated = False, d_conflict = False \<rparr>, s)"
  using host_laws.deposit_present [OF assms(1,2) refl refl assms(3-7)] by (simp add: already_present_def)

theorem deposit_idempotent_instance:
  "upsertDepositedMessage HM ''me'' (sample_deposit ''a1'' ''ann'' ''h1'') sample_store
    = (Inr \<lparr> d_inserted = False, d_message = Some msg_a, d_mutated = False, d_conflict = False \<rparr>, sample_store)"
  using deposit_idempotent [OF HM_laws, of "''me''" "sample_deposit ''a1'' ''ann'' ''h1''" sample_store msg_a]
    sample_ready by (simp add: contentHash_def getp_def)

section \<open>Mutations\<close>

text \<open>
  A tombstone is final: after an authorised tombstone the row has no text and no payload, and
  every later edit, by whomever and with whatever edit time, leaves the log as it is.
\<close>

theorem tombstone_final:
  assumes "host_laws H" and "store_ok H owner s"
    and "row_of H owner (nonEmpty H threadId) (nonEmpty H target) s = Some m"
    and "nonEmpty H threadId \<noteq> []" "nonEmpty H target \<noteq> []"
    and "may_tombstone H x (asInt H at1 0) m"
  shows "row_of H owner (nonEmpty H threadId) (nonEmpty H target)
        (snd (applyEdit H owner threadId target y newText at2 r2 b2 (snd (applyTombstone H owner threadId target x at1 r1 b1 s))))
      = Some (m\<lparr>m_text := [], m_payload := Null, m_tombstonedAtMs := Some (asInt H at1 0)\<rparr>)
    \<and> loadMessages H owner (nonEmpty H threadId)
        (snd (applyEdit H owner threadId target y newText at2 r2 b2 (snd (applyTombstone H owner threadId target x at1 r1 b1 s))))
      = loadMessages H owner (nonEmpty H threadId) (snd (applyTombstone H owner threadId target x at1 r1 b1 s))"
  by (rule host_laws.tombstone_then_edit [OF assms])

theorem tombstone_final_instance:
  "loadMessages HM ''me'' ''t1'' (snd (applyEdit HM ''me'' (Str ''t1'') (Str ''a1'') (Str ''ann'') (Str ''again'') (num 90) (num 91) True
      (snd (applyTombstone HM ''me'' (Str ''t1'') (Str ''a1'') (Str ''ann'') (num 50) (num 51) True sample_store))))
   = loadMessages HM ''me'' ''t1'' (snd (applyTombstone HM ''me'' (Str ''t1'') (Str ''a1'') (Str ''ann'') (num 50) (num 51) True sample_store))"
  using tombstone_final [OF HM_laws sample_store_ok, of "Str ''t1''" "Str ''a1''" msg_a "Str ''ann''" "num 50"]
  by (simp add: may_tombstone_def is_tombstoned_def unauthorized_def)

text \<open>
  Only the author edits: an edit by an account other than the row's sender, of a tombstoned
  row, without a positive edit time, or not newer than the last edit is refused and writes nothing;
  an accepted one replaces text and edit time of that row and leaves every other row.
\<close>

theorem edit_authorised:
  assumes "host_laws H" and "log_ok H owner (nonEmpty H threadId) s"
    and "row_of H owner (nonEmpty H threadId) (nonEmpty H target) s = Some m"
    and "nonEmpty H threadId \<noteq> []" "nonEmpty H target \<noteq> []"
  shows "loadMessages H owner (nonEmpty H threadId) (snd (applyEdit H owner threadId target sender newText at_ms received allow s))
     = (if \<not> is_tombstoned m \<and> (m_senderAccountId m = [] \<or> m_senderAccountId m = nonEmpty H sender) \<and> 0 < asInt H at_ms 0
          \<and> (asInt H (opt_num (m_editedAtMs m)) 0 = 0 \<or> asInt H (opt_num (m_editedAtMs m)) 0 < asInt H at_ms 0)
        then replaceRow (nonEmpty H target)
          (m\<lparr>m_text := string_or_empty newText, m_payload := edited_payload newText (m_payload m), m_editedAtMs := Some (asInt H at_ms 0)\<rparr>)
          (loadMessages H owner (nonEmpty H threadId) s)
        else loadMessages H owner (nonEmpty H threadId) s)"
  using host_laws.edit_step [OF assms(1-3) refl refl assms(4,5) refl] host_laws.row_wf [OF assms(1,3)]
  by (simp add: may_edit_def unauthorized_def edited_def Let_def host_laws.nonEmpty_trimmed [OF assms(1)] wf_message_def) auto

theorem edit_authorised_instance:
  "loadMessages HM ''me'' ''t1'' (snd (applyEdit HM ''me'' (Str ''t1'') (Str ''a1'') (Str ''bob'') (Str ''forged'') (num 50) (num 51) True sample_store))
   = [msg_a, msg_b]"
  using edit_authorised [OF HM_laws sample_log_ok', of "Str ''a1''" msg_a "Str ''bob''" "Str ''forged''" "num 50"]
  by simp

text \<open>
  Reactions are sets of senders: an \<open>add\<close> by an account that has not reacted puts it at the end
  of the emoji's senders, a \<open>remove\<close> by one that has takes it out (and the emoji with its last
  sender); the other emojis, the rest of the row and the other rows are unchanged.
\<close>

theorem reaction_effect:
  assumes "host_laws H" and "log_ok H owner (nonEmpty H threadId) s"
    and "row_of H owner (nonEmpty H threadId) (nonEmpty H target) s = Some m"
    and "nonEmpty H threadId \<noteq> []" "nonEmpty H target \<noteq> []"
    and "nonEmpty H sender \<noteq> []" "nonEmpty H emoji \<noteq> []" "oper = Str ''add'' \<or> oper = Str ''remove''"
    and "reactors (m_reactions m) (nonEmpty H emoji) = Inr ss" "oper = Str ''add'' \<longleftrightarrow> nonEmpty H sender \<notin> set ss"
  shows "\<exists>rs. loadMessages H owner (nonEmpty H threadId) (snd (applyReaction H owner threadId target sender emoji oper received allow s))
       = replaceRow (nonEmpty H target) (m\<lparr>m_reactions := rs\<rparr>) (loadMessages H owner (nonEmpty H threadId) s)
     \<and> (\<forall>e. map_of rs e = (if e = nonEmpty H emoji
          then (let cur = if oper = Str ''add'' then ss @ [nonEmpty H sender] else removeAll (nonEmpty H sender) ss
                in if cur = [] then None else Some cur)
          else map_of (m_reactions m) e))"
  by (rule host_laws.reaction_map [OF assms])

theorem reaction_effect_instance:
  "\<exists>rs. loadMessages HM ''me'' ''t1'' (snd (applyReaction HM ''me'' (Str ''t1'') (Str ''a1'') (Str ''bob'') (Str ''+1'') (Str ''add'') Null True sample_store))
       = replaceRow ''a1'' (msg_a\<lparr>m_reactions := rs\<rparr>) [msg_a, msg_b] \<and> map_of rs ''+1'' = Some [''ann'', ''bob'']"
  using reaction_effect [OF HM_laws sample_log_ok', of "Str ''a1''" msg_a "Str ''bob''" "Str ''+1''" "Str ''add''" "[''ann'']" Null True]
  by (fastforce simp: reactors_def Let_def)

text \<open>
  A reaction whose emoji is a name that plain objects inherit (\<open>constructor\<close>, \<open>toString\<close>, ...)
  on a row without such an entry makes the operation throw the engine's \<open>TypeError\<close> and write
  nothing, instead of being stored or refused.
\<close>

theorem reaction_inherited_name_throws:
  assumes "host_laws H"
    and "row_of H owner (nonEmpty H threadId) (nonEmpty H target) s = Some m"
    and "nonEmpty H threadId \<noteq> []" "nonEmpty H target \<noteq> []"
    and "nonEmpty H sender \<noteq> []" "oper = Str ''add'' \<or> oper = Str ''remove''"
    and "inherited (nonEmpty H emoji)" "nonEmpty H emoji \<notin> fst ` set (m_reactions m)"
  shows "applyReaction H owner threadId target sender emoji oper received allow s = (Inl TypeError, s)"
  by (rule host_laws.reaction_inherited [OF assms(1,2) refl refl assms(3-8)])

theorem reaction_inherited_name_throws_instance:
  "applyReaction HM ''me'' (Str ''t1'') (Str ''a1'') (Str ''bob'') (Str ''constructor'') (Str ''add'') Null True sample_store
   = (Inl TypeError, sample_store)"
proof -
  have "nonEmpty HM (Str ''constructor'') = ''constructor''"
    by (simp add: memory.nonEmpty_trimmed trimmed_iff is_ws_def)
  then show ?thesis
    using reaction_inherited_name_throws [OF HM_laws, of "''me''" "Str ''t1''" "Str ''a1''" sample_store msg_a "Str ''bob''" "Str ''add''" "Str ''constructor''"]
    by (simp add: inherited_def object_prototype_keys_def)
qed

end
