(* ===== verification/StoreProperties2.thy ===== *)
theory StoreProperties2
  imports StoreFacts
begin

text \<open>
  Properties of the fact log, the pages, the status machine, the thread rows and the records.
\<close>

section \<open>The fact log\<close>

text \<open>
  C32. The fact log is append-only and first-write-wins: after any sequence of appends a stored fact
  is what it was, a fingerprint not stored before holds the row of its first well-formed fact, and
  malformed facts leave nothing.
\<close>

theorem facts_first_write_wins:
  assumes "host_laws H"
  shows "stored_fact H owner (nonEmpty H threadId) (foldl (\<lambda>s f. snd (appendOriginalFact H owner threadId f s)) s fs) fp
    = (case stored_fact H owner (nonEmpty H threadId) s fp of Some row \<Rightarrow> Some row
       | None \<Rightarrow> map_of (map (\<lambda>f. (fact_fingerprint H f, fact_row H (nonEmpty H threadId) (fact_fingerprint H f) f (fact_payload f)))
           (filter (fact_valid H (nonEmpty H threadId)) fs)) fp)"
proof -
  have "foldl (\<lambda>s f. snd (appendOriginalFact H owner threadId f s)) s fs = write_once.puts (\<lambda>f s. snd (appendOriginalFact H owner threadId f s)) fs s"
    by (simp add: write_once.puts_def [OF host_laws.facts_write_once [OF assms]])
  then show ?thesis using write_once.look_puts [OF host_laws.facts_write_once [OF assms], of owner threadId fs s fp] by simp
qed

definition sample_fact :: "string \<Rightarrow> string \<Rightarrow> jsval" where
  "sample_fact fp mid = Obj [(''fingerprint'', Str fp), (''payload'', Obj [(''kind'', Str MESSAGE_KIND),
     (''senderAccountId'', Str ''ann''), (''messageId'', Str mid)])]"

theorem facts_first_write_wins_instance:
  "stored_fact HM ''me'' ''t1'' (foldl (\<lambda>s f. snd (appendOriginalFact HM ''me'' (Str ''t1'') f s)) []
     [sample_fact ''f1'' ''a1'', Null, sample_fact ''f1'' ''a2'']) ''f1'' = Some (fact_row HM ''t1'' ''f1'' (sample_fact ''f1'' ''a1'') (fact_payload (sample_fact ''f1'' ''a1'')))"
proof -
  have "stored_fact HM ''me'' ''t1'' [] ''f1'' = None"
    and "fact_valid HM ''t1'' (sample_fact ''f1'' ''a1'')" "fact_fingerprint HM (sample_fact ''f1'' ''a1'') = ''f1''"
    by code_simp+
  then show ?thesis
    using facts_first_write_wins [OF HM_laws, of "''me''" "Str ''t1''" "[]" "[sample_fact ''f1'' ''a1'', Null, sample_fact ''f1'' ''a2'']" "''f1''"]
    by simp
qed

text \<open>
  Integrity conflicts are found: appending a base message under a new fingerprint keeps the
  index exact (for each sender and message id it lists the fingerprints of the stored base facts,
  and is flagged when there are two or more), and the append reports a conflict exactly when
  another base fact of the same sender and message id was stored before.
\<close>

theorem append_reports_conflict:
  assumes "host_laws H" and "index_ok H owner (nonEmpty H threadId) s"
    and "fact_valid H (nonEmpty H threadId) f" "CHR 0x00 \<notin> set (fact_sender H f)"
    and "stored_fact H owner (nonEmpty H threadId) s (fact_fingerprint H f) = None"
    and "fact_kind H f = MESSAGE_KIND" "fact_messageId H f \<noteq> []"
  shows "index_ok H owner (nonEmpty H threadId) (snd (appendOriginalFact H owner threadId f s))
    \<and> (\<exists>r. fst (appendOriginalFact H owner threadId f s) = Inr r \<and> ar_appended r
      \<and> (ar_conflict r \<noteq> None \<longleftrightarrow> (\<exists>fp. base_fact H owner (nonEmpty H threadId) s (fact_sender H f) (fact_messageId H f) fp)))"
  by (rule host_laws.append_conflict [OF assms])

theorem append_reports_conflict_instance:
  "\<exists>r. fst (appendOriginalFact HM ''me'' (Str ''t1'') (sample_fact ''f1'' ''a1'') []) = Inr r \<and> ar_appended r \<and> ar_conflict r = None"
proof -
  have "index_ok HM ''me'' ''t1'' []"
    by (auto simp: index_ok_def index_shape_def index_fps_def index_raw_def base_fact_def stored_fact_def load_index_def
        memory_host_def getp_def is_plain_object_def entry_fingerprints_def entry_conflicted_def Let_def)
  moreover have "fact_valid HM ''t1'' (sample_fact ''f1'' ''a1'')" "fact_sender HM (sample_fact ''f1'' ''a1'') = ''ann''"
    "stored_fact HM ''me'' ''t1'' [] (fact_fingerprint HM (sample_fact ''f1'' ''a1'')) = None"
    "fact_kind HM (sample_fact ''f1'' ''a1'') = MESSAGE_KIND" "fact_messageId HM (sample_fact ''f1'' ''a1'') \<noteq> []"
    by code_simp+
  moreover have "\<not> base_fact HM ''me'' ''t1'' [] ''ann'' a fp" for a fp
    by (simp add: base_fact_def stored_fact_def memory_host_def)
  ultimately show ?thesis
    using append_reports_conflict [OF HM_laws, of "''me''" "Str ''t1''" "[]" "sample_fact ''f1'' ''a1''"] by auto
qed

text \<open>
  A pending commit is readable under its message id until it is deleted, with a fresh clock
  reading for missing stamps and at least zero attempts; other ids are untouched.
\<close>

theorem pending_commit_lifecycle:
  assumes "host_laws H" and "nonEmpty H m \<noteq> []" "nonEmpty H t \<noteq> []" "nonEmpty H fp \<noteq> []" "nonEmpty H rc \<noteq> []"
  shows "getPendingCommit H owner k (snd (putPendingCommit H owner m t fp rc a b c d s))
      = (if nonEmpty H k = nonEmpty H m
         then Some (pending_commit_row H (nonEmpty H m) (nonEmpty H t) (nonEmpty H fp) (nonEmpty H rc) a b c d)
         else getPendingCommit H owner k s)
    \<and> getPendingCommit H owner k (snd (deletePendingCommit H owner m s))
      = (if nonEmpty H k = nonEmpty H m then None else getPendingCommit H owner k s)"
  using assms(2-5) by (simp add: getPendingCommit_def putPendingCommit_def deletePendingCommit_def ok_def Let_def
      host_laws.get_set [OF assms(1)] host_laws.get_delete [OF assms(1)] kCommitPending_def pending_commit_row_def)

theorem pending_commit_lifecycle_instance:
  "getPendingCommit HM ''me'' (Str ''a1'') (snd (putPendingCommit HM ''me'' (Str ''a1'') (Str ''t1'') (Str ''h1'') (Str ''bob'') Undef Undef Undef Undef []))
    = Some (pending_commit_row HM ''a1'' ''t1'' ''h1'' ''bob'' Undef Undef Undef Undef)"
  using pending_commit_lifecycle [OF HM_laws, of "Str ''a1''" "Str ''t1''" "Str ''h1''" "Str ''bob''"] by simp

section \<open>Pages\<close>

text \<open>
  C36. Reading in pages: with the cursor of the first \<open>k\<close> messages of the log as \<open>before\<close>, a page repeats none of
  them and holds, in order and up to the clamped limit, the messages that follow. What is skipped is exactly the
  rows right after the cursor's message that the order cannot tell from it: of the same time, and with an id that
  is equal for the collation.
\<close>

theorem pages_continue:
  assumes "host_laws H" and "log_ok H owner (nonEmpty H threadId) s" and "nonEmpty H threadId \<noteq> []"
    and "0 < k" "k \<le> length (loadMessages H owner (nonEmpty H threadId) s)"
  shows "p_items (listMessages H owner threadId limit (cursor_of H (take k (loadMessages H owner (nonEmpty H threadId) s))) s)
    = take (nat \<lfloor>max 1 (min 500 (asInt H limit 50))\<rfloor>)
        (dropWhile (tied H (loadMessages H owner (nonEmpty H threadId) s ! (k - 1))) (drop k (loadMessages H owner (nonEmpty H threadId) s)))"
  using host_laws.page_after [OF assms(1,2) refl assms(3-5), of limit]
  by (simp add: page_size_def MAX_MESSAGES_PER_THREAD_def)

theorem pages_continue_instance:
  "p_items (listMessages HM ''me'' (Str ''t1'') (num 1) (cursor_of HM [msg_a]) sample_store) = [msg_b]"
proof -
  have "\<not> tied HM msg_a msg_b" by code_simp
  then show ?thesis
    using pages_continue [OF HM_laws sample_log_ok', of 1 "num 1"] by simp
qed

text \<open>So nothing is skipped in a log whose ids the collation separates.\<close>

theorem separated_pages_continue:
  assumes "host_laws H" and "log_ok H owner (nonEmpty H threadId) s"
    and "collation_strict H (loadMessages H owner (nonEmpty H threadId) s)" and "nonEmpty H threadId \<noteq> []"
    and "0 < k" "k \<le> length (loadMessages H owner (nonEmpty H threadId) s)"
  shows "p_items (listMessages H owner threadId limit (cursor_of H (take k (loadMessages H owner (nonEmpty H threadId) s))) s)
    = take (page_size H limit) (drop k (loadMessages H owner (nonEmpty H threadId) s))"
  using host_laws.page_after [OF assms(1,2) refl assms(4-6), of limit] host_laws.untied [OF assms(1-3,5)] by simp

section \<open>Status\<close>

text \<open>
  Delivery status only moves forward: an update to a status that cannot follow the current one
  throws and writes nothing; otherwise the row carries the new status. So \<open>delivered\<close> and \<open>failed\<close>
  are final.
\<close>

theorem status_moves_forward:
  assumes "host_laws H" and "log_ok H owner (nonEmpty H threadId) s"
    and "row_of H owner (nonEmpty H threadId) (nonEmpty H messageId) s = Some m"
    and "nonEmpty H threadId \<noteq> []" "nonEmpty H messageId \<noteq> []" "nonEmpty H status \<in> set MESSAGE_STATUSES"
  shows "if canTransitionStatus (m_status m) (nonEmpty H status)
     then \<exists>m'. row_of H owner (nonEmpty H threadId) (nonEmpty H messageId) (snd (setMessageStatus H owner threadId messageId status x y s)) = Some m'
       \<and> m_status m' = nonEmpty H status \<and> m_text m' = m_text m \<and> (m_status m \<in> {''delivered'', ''failed''} \<longrightarrow> m_status m' = m_status m)
     else \<exists>e. setMessageStatus H owner threadId messageId status x y s = (Inl e, s)"
  using host_laws.setMessageStatus_effect [OF assms(1-3) refl refl assms(4,5) refl assms(6)]
  by (auto simp: status_update_def canTransitionStatus_def)

theorem status_moves_forward_instance:
  "\<exists>e. setMessageStatus HM ''me'' (Str ''t1'') (Str ''a1'') (Str ''sent'') Null Null sample_store = (Inl e, sample_store)"
  using status_moves_forward [OF HM_laws sample_log_ok', of "Str ''a1''" msg_a "Str ''sent''" Null Null]
  by (simp add: canTransitionStatus_def MESSAGE_STATUSES_def)

section \<open>Upserts and threads\<close>

text \<open>
  A successful upsert into a log with room puts the message in and changes no other message:
  the stored messages are the old ones without that id, and the message.
\<close>

theorem upsert_adds_message:
  assumes "host_laws H" and "log_ok H owner (m_threadId m) s" and "coerceMessageRow H input = Some m"
    and "fst (upsertMessage H owner input s) = Inr r"
    and "length (loadMessages H owner (m_threadId m) s) < MAX_MESSAGES_PER_THREAD"
  shows "r = m \<and> set (loadMessages H owner (m_threadId m) (snd (upsertMessage H owner input s)))
    = insert m {x \<in> set (loadMessages H owner (m_threadId m) s). m_messageId x \<noteq> m_messageId m}"
  by (rule host_laws.upsert_set [OF assms])

theorem upsert_adds_message_instance:
  "set (loadMessages HM ''me'' ''t1'' (snd (upsertMessage HM ''me'' (message_json (sample_message ''c1'' ''bob'' 30)) sample_store)))
    = {sample_message ''c1'' ''bob'' 30, msg_a, msg_b}"
proof -
  have "wf_message (sample_message ''c1'' ''bob'' 30)"
    by (simp add: sample_message_def wf_message_def MESSAGE_STATUSES_def wf_reactions_def ids_ok_def getp_def)
  then have c: "coerceMessageRow HM (message_json (sample_message ''c1'' ''bob'' 30)) = Some (sample_message ''c1'' ''bob'' 30)" by simp
  have "\<not> isl (fst (upsertMessage HM ''me'' (message_json (sample_message ''c1'' ''bob'' 30)) sample_store))" by code_simp
  then obtain r where r: "fst (upsertMessage HM ''me'' (message_json (sample_message ''c1'' ''bob'' 30)) sample_store) = Inr r"
    by (cases "fst (upsertMessage HM ''me'' (message_json (sample_message ''c1'' ''bob'' 30)) sample_store)") simp_all
  have f: "m_threadId (sample_message ''c1'' ''bob'' 30) = ''t1''" "m_messageId (sample_message ''c1'' ''bob'' 30) = ''c1''"
    by (simp_all add: sample_message_def)
  have old: "{x \<in> set [msg_a, msg_b]. m_messageId x \<noteq> ''c1''} = {msg_a, msg_b}" by auto
  show ?thesis
    using upsert_adds_message [OF HM_laws _ c r] sample_log_ok by (simp only: f sample_load old) (simp add: MAX_MESSAGES_PER_THREAD_def)
qed

text \<open>
  A thread that is missing, or direct and without a peer account or inbox, accepts no message:
  the upsert throws \<open>THREAD_NOT_READY\<close> and writes nothing.
\<close>

theorem unready_thread_refuses:
  assumes "coerceMessageRow H input = Some m"
    and "case getThread H owner (Str (m_threadId m)) s of None \<Rightarrow> True
      | Some t \<Rightarrow> t_threadType t = ''direct'' \<and> nonEmpty H (getp input ''groupId'') = []
          \<and> (nonEmpty H (Str (t_peerAccountId t)) = [] \<or> nonEmpty H (Str (t_peerInboxId t)) = [])"
  shows "upsertMessage H owner input s
    = (Inl (CodedError ''THREAD_NOT_READY'' ''Thread is not ready for messaging''), s)"
  using assms by (auto simp: upsertMessage_def upsertMessageUnlocked_def throw_def assertThreadReady_def isReadyForMessaging_def
      split: option.splits)

theorem unready_thread_refuses_instance:
  "upsertMessage HM ''me'' (message_json msg_a) [] = (Inl (CodedError ''THREAD_NOT_READY'' ''Thread is not ready for messaging''), [])"
proof -
  have "getThread HM ''me'' (Str ''t1'') [] = None" by code_simp
  then show ?thesis using unready_thread_refuses [of HM "message_json msg_a" msg_a "''me''" "[]"] by simp
qed

text \<open>
  The identity of a thread is stable: ensuring an existing thread keeps its type and its
  creation time, never moves its last activity back, and stores exactly the row it returns.
\<close>

theorem ensure_keeps_identity:
  assumes "host_laws H" and "getThread H owner threadId s = Some e"
    and "nonEmpty H (a_threadId a) = nonEmpty H threadId" and "ensureThread H owner a s = (Inr t, s')"
  shows "t_threadType t = t_threadType e \<and> (t_createdAtMs e \<noteq> None \<longrightarrow> t_createdAtMs t = t_createdAtMs e)
    \<and> (\<exists>l. t_lastActivityAtMs t = Some l \<and> zero_if_none (t_lastActivityAtMs e) \<le> l)
    \<and> getThread H owner threadId s' = Some t"
  using host_laws.ensureThread_keeps [OF assms] by blast

theorem ensure_keeps_identity_instance:
  "\<exists>t s'. ensureThread HM ''me'' (no_args\<lparr>a_threadId := Str ''t1'', a_threadType := Str ''group''\<rparr>) sample_store = (Inr t, s')
     \<and> t_threadType t = t_threadType sample_thread"
proof -
  have "\<not> isl (fst (ensureThread HM ''me'' (no_args\<lparr>a_threadId := Str ''t1'', a_threadType := Str ''group''\<rparr>) sample_store))"
    by code_simp
  then obtain t s' where "ensureThread HM ''me'' (no_args\<lparr>a_threadId := Str ''t1'', a_threadType := Str ''group''\<rparr>) sample_store = (Inr t, s')"
    by (metis isl_def prod.collapse sum.exhaust)
  then show ?thesis
    using ensure_keeps_identity [OF HM_laws sample_getThread, of "no_args\<lparr>a_threadId := Str ''t1'', a_threadType := Str ''group''\<rparr>" t s'] by simp
qed

text \<open>
  A local delete removes exactly the message it names.\<close>

theorem local_delete_removes:
  assumes "host_laws H" and "log_ok H owner (nonEmpty H threadId) s" and "nonEmpty H threadId \<noteq> []" "nonEmpty H target \<noteq> []"
  shows "loadMessages H owner (nonEmpty H threadId) (snd (applyLocalDelete H owner threadId target s))
    = filter (\<lambda>r. m_messageId r \<noteq> nonEmpty H target) (loadMessages H owner (nonEmpty H threadId) s)"
  by (rule host_laws.localDelete_load [OF assms(1,2) refl refl assms(3,4)])

theorem local_delete_removes_instance:
  "loadMessages HM ''me'' ''t1'' (snd (applyLocalDelete HM ''me'' (Str ''t1'') (Str ''a1'') sample_store)) = [msg_b]"
  using local_delete_removes [OF HM_laws sample_log_ok', of "Str ''a1''"] by simp

section \<open>Records\<close>

text \<open>
  What a record constructor accepts, it reads back from the record's own serialisation,
  whatever the clock says then: messages, threads and pending mutations survive the store.
\<close>

theorem records_round_trip:
  "(mkChatMessage now raw = Inr m \<longrightarrow> mkChatMessage now' (message_json m) = Inr m)
   \<and> (mkChatThread raw = Inr t \<longrightarrow> mkChatThread (thread_json t) = Inr t)
   \<and> (mkPendingMutation raw = Inr p \<longrightarrow> mkPendingMutation (mutation_json p) = Inr p)"
  using mkChatMessage_json [OF mkChatMessage_wf] mkChatThread_json [OF mkChatThread_wf] mkPendingMutation_json [OF mkPendingMutation_wf]
  by blast

theorem records_round_trip_instance:
  "mkChatMessage 7 (message_json msg_a) = Inr msg_a \<and> mkChatThread (thread_json sample_thread) = Inr sample_thread"
proof -
  have "mkChatMessage 0 (message_json msg_a) = Inr msg_a" by (rule mkChatMessage_json) simp
  moreover have "mkChatThread (thread_json sample_thread) = Inr sample_thread"
    using sample_thread_coerced coerceThreadRow_wf mkChatThread_json by blast
  ultimately show ?thesis
    using records_round_trip [of 0 "message_json msg_a" msg_a 7] by simp
qed

end
