(* ===== verification/ThreadIndex.thy ===== *)
theory ThreadIndex
  imports MessageLog
begin

text \<open>
  \<open>ThreadIndexService\<close> (\<open>src/server/storage/ChatThreadIndex.js\<close>): one summary record per thread, the
  bounded list of tips that orders the thread list, and the unread counts.
\<close>

section \<open>Message keys\<close>

definition MAX_INDEX_SIZE :: nat where
  "MAX_INDEX_SIZE = 500"

text \<open>\<open>String(v || "")\<close>.\<close>

definition string_or :: "jsval \<Rightarrow> string" where
  "string_or v = js_string (if truthy v then v else Str [])"

definition compareMessageKey :: "'s host \<Rightarrow> jsval \<Rightarrow> jsval \<Rightarrow> jsval \<Rightarrow> jsval \<Rightarrow> rat" where
  "compareMessageKey H aAtMs aMsgId bAtMs bMsgId =
     (let aAt = asInt H aAtMs 0; bAt = asInt H bAtMs 0 in
      if aAt \<noteq> bAt then (if aAt < bAt then - 1 else 1)
      else let c = localeCompare H (string_or aMsgId) (string_or bMsgId) in
        if c < 0 then - 1 else if c > 0 then 1 else 0)"

definition isKeyGreater :: "'s host \<Rightarrow> jsval \<Rightarrow> jsval \<Rightarrow> jsval \<Rightarrow> jsval \<Rightarrow> bool" where
  "isKeyGreater H aAtMs aMsgId bAtMs bMsgId \<longleftrightarrow> compareMessageKey H aAtMs aMsgId bAtMs bMsgId > 0"

section \<open>Tips\<close>

record tip =
  tp_threadId :: string
  tp_lastActivityAtMs :: rat
  tp_lastActivityMsgId :: string

definition coerceTipPointer :: "'s host \<Rightarrow> jsval \<Rightarrow> tip option" where
  "coerceTipPointer H v =
     (if \<not> is_object v then None
      else let tid = nonEmpty H (getp v ''threadId'') in
        if tid = [] then None
        else Some \<lparr> tp_threadId = tid, tp_lastActivityAtMs = asInt H (getp v ''lastActivityAtMs'') 0,
          tp_lastActivityMsgId = nonEmpty H (getp v ''lastActivityMsgId'') \<rparr>)"

definition tip_json :: "tip \<Rightarrow> jsval" where
  "tip_json t = Obj [(''threadId'', Str (tp_threadId t)), (''lastActivityAtMs'', num (tp_lastActivityAtMs t)),
     (''lastActivityMsgId'', Str (tp_lastActivityMsgId t))]"

text \<open>The comparator of \<open>sortEntries\<close>: newest activity first, then by thread id.\<close>

definition compareTips :: "'s host \<Rightarrow> tip \<Rightarrow> tip \<Rightarrow> rat" where
  "compareTips H a b =
     (let keyCmp = compareMessageKey H (num (tp_lastActivityAtMs b)) (Str (tp_lastActivityMsgId b))
            (num (tp_lastActivityAtMs a)) (Str (tp_lastActivityMsgId a)) in
      if keyCmp \<noteq> 0 then keyCmp else localeCompare H (tp_threadId a) (tp_threadId b))"

definition sortEntries :: "'s host \<Rightarrow> tip list \<Rightarrow> tip list" where
  "sortEntries H = sort_by (compareTips H)"

definition kIndex :: "string \<Rightarrow> string" where
  "kIndex owner = ''app:threads:index/'' @ owner"

definition kIndexRecord :: "string \<Rightarrow> string \<Rightarrow> string" where
  "kIndexRecord owner threadId = ''app:threads:indexRecord/'' @ owner @ ''/'' @ threadId"

definition loadIndex :: "'s host \<Rightarrow> string \<Rightarrow> 's \<Rightarrow> tip list" where
  "loadIndex H owner s = sortEntries H (keepSome (coerceTipPointer H) (elements (kvGet H s (kIndex owner))))"

definition saveIndex :: "'s host \<Rightarrow> string \<Rightarrow> tip list \<Rightarrow> 's \<Rightarrow> 's" where
  "saveIndex H owner ts s = kvSet H s (kIndex owner) (Arr (map tip_json (take MAX_INDEX_SIZE ts)))"

fun putTip :: "tip \<Rightarrow> tip list \<Rightarrow> tip list" where
  "putTip t [] = [t]"
| "putTip t (u # us) = (if tp_threadId u = tp_threadId t then t # us else u # putTip t us)"

definition tip_of :: "'s host \<Rightarrow> ChatThreadIndexEntry \<Rightarrow> tip" where
  "tip_of H e = \<lparr> tp_threadId = e_threadId e, tp_lastActivityAtMs = asInt H (num (e_lastActivityAtMs e)) 0,
     tp_lastActivityMsgId = nonEmpty H (Str (e_lastActivityMsgId e)) \<rparr>"

text \<open>
  \<open>_saveRecord\<close> awaits the store three times. The write lock is per thread and the list of tips is
  shared, so the steps of two threads may interleave between reading the list and writing it.
\<close>

definition saveRecord_write :: "'s host \<Rightarrow> string \<Rightarrow> ChatThreadIndexEntry \<Rightarrow> 's \<Rightarrow> 's" where
  "saveRecord_write H owner e s = kvSet H s (kIndexRecord owner (e_threadId e)) (entry_json e)"

definition saveRecord_index :: "'s host \<Rightarrow> string \<Rightarrow> ChatThreadIndexEntry \<Rightarrow> tip list \<Rightarrow> 's \<Rightarrow> 's" where
  "saveRecord_index H owner e index s = saveIndex H owner (sortEntries H (putTip (tip_of H e) index)) s"

definition saveRecord :: "'s host \<Rightarrow> string \<Rightarrow> ChatThreadIndexEntry \<Rightarrow> 's \<Rightarrow> 's" where
  "saveRecord H owner e s =
     (let s1 = saveRecord_write H owner e s in saveRecord_index H owner e (loadIndex H owner s1) s1)"

section \<open>Unread counts\<close>

definition messageChannelKey :: "jsval \<Rightarrow> string" where
  "messageChannelKey message = (case getp (getp message ''payload'') ''channelId'' of Str c \<Rightarrow> trim c | _ \<Rightarrow> [])"

text \<open>
  The text that \<open>+ 1\<close> makes of an inherited member: \<open>unreadByChannelId["constructor"]\<close> is a function.
\<close>

definition inherited_text :: "string \<Rightarrow> string" where
  "inherited_text k = (if k = ''__proto__'' then ''[object Object]''
     else ''function '' @ (if k = ''constructor'' then ''Object'' else k) @ ''() { [native code] }'')"

fun add_one :: "jsval \<Rightarrow> jsval" where
  "add_one (Num (Fin r)) = num (r + 1)"
| "add_one (Str t) = Str (t @ ''1'')"
| "add_one v = v"

definition count_channel :: "string \<Rightarrow> (string \<times> jsval) list \<Rightarrow> (string \<times> jsval) list" where
  "count_channel k counts =
     (case map_of counts k of
        Some v \<Rightarrow> AList.update k (add_one v) counts
      | None \<Rightarrow> if k = ''__proto__'' then counts
          else if inherited k then AList.update k (Str (inherited_text k @ ''1'')) counts
          else AList.update k (num 1) counts)"

text \<open>The marker of a channel; an inherited member is truthy and has no \<open>atMs\<close> and no \<open>msgId\<close>.\<close>

definition channel_marker :: "(string \<times> rat \<times> string) list \<Rightarrow> string \<Rightarrow> rat option \<Rightarrow> string \<Rightarrow> jsval \<times> jsval" where
  "channel_marker lastRead k readAt readMsg =
     (case map_of lastRead k of
        Some (atMs, msgId) \<Rightarrow> (num atMs, Str msgId)
      | None \<Rightarrow> if inherited k then (Undef, Undef)
          else (num (case readAt of Some r \<Rightarrow> r | None \<Rightarrow> 0), Str readMsg))"

record unread_args =
  ua_owner :: string
  ua_readAt :: "rat option"
  ua_readMsg :: string
  ua_byChannel :: "(string \<times> rat \<times> string) list"

definition is_unread :: "'s host \<Rightarrow> unread_args \<Rightarrow> jsval \<Rightarrow> bool" where
  "is_unread H a m =
     (let status = nonEmpty H (getp m ''status''); messageId = nonEmpty H (getp m ''messageId'');
          mk = channel_marker (ua_byChannel a) (messageChannelKey m) (ua_readAt a) (ua_readMsg a);
          sender = nonEmpty H (getp m ''senderAccountId''); owner = nonEmpty H (Str (ua_owner a)) in
      status \<noteq> ''pending'' \<and> status \<noteq> ''failed'' \<and> messageId \<noteq> []
      \<and> isKeyGreater H (num (asInt H (getp m ''createdAtMs'') 0)) (Str messageId) (fst mk) (snd mk)
      \<and> \<not> (owner \<noteq> [] \<and> sender \<noteq> [] \<and> sender = owner))"

definition candidate_of :: "'s host \<Rightarrow> jsval \<Rightarrow> rat \<times> string" where
  "candidate_of H m = (asInt H (getp m ''createdAtMs'') 0, nonEmpty H (getp m ''messageId''))"

definition compareCandidates :: "'s host \<Rightarrow> rat \<times> string \<Rightarrow> rat \<times> string \<Rightarrow> rat" where
  "compareCandidates H a b = compareMessageKey H (num (fst a)) (Str (snd a)) (num (fst b)) (Str (snd b))"

record unread_result =
  ur_count :: nat
  ur_byChannel :: "(string \<times> jsval) list"
  ur_countedAt :: "rat option"
  ur_countedMsg :: string

definition unreadSummary :: "'s host \<Rightarrow> unread_args \<Rightarrow> jsval list \<Rightarrow> unread_result" where
  "unreadSummary H a messages =
     (let unread = filter (is_unread H a) messages;
          candidates = sort_by (compareCandidates H) (map (candidate_of H) unread)
      in \<lparr> ur_count = length candidates,
           ur_byChannel = foldl (\<lambda>counts m. count_channel (messageChannelKey m) counts) [] unread,
           ur_countedAt = (if candidates = [] then ua_readAt a else Some (fst (last candidates))),
           ur_countedMsg = (if candidates = [] then ua_readMsg a else snd (last candidates)) \<rparr>)"

section \<open>Operations\<close>

definition coerceIndexRecord :: "'s host \<Rightarrow> jsval \<Rightarrow> ChatThreadIndexEntry option" where
  "coerceIndexRecord H v = coerceRow mkThreadIndexEntry (Some [(''updatedAtMs'', num (clockMs H))]) v"

definition emptyEntry :: "'s host \<Rightarrow> string \<Rightarrow> js_error + ChatThreadIndexEntry" where
  "emptyEntry H tid = mkThreadIndexEntry (Obj [(''threadId'', Str tid), (''updatedAtMs'', num (clockMs H))])"

definition withOverrides :: "ChatThreadIndexEntry \<Rightarrow> (string \<times> jsval) list \<Rightarrow> js_error + ChatThreadIndexEntry" where
  "withOverrides existing overrides = mkThreadIndexEntry (Obj (spread (entry_fields existing) overrides))"

definition getIndexRecord :: "'s host \<Rightarrow> string \<Rightarrow> jsval \<Rightarrow> 's \<Rightarrow> ChatThreadIndexEntry option" where
  "getIndexRecord H owner threadId s =
     (let tid = nonEmpty H threadId in
      if tid = [] then None else coerceIndexRecord H (kvGet H s (kIndexRecord owner tid)))"

definition removeThread :: "'s host \<Rightarrow> string \<Rightarrow> jsval \<Rightarrow> ('s, bool) op" where
  "removeThread H owner threadId s =
     (let tid = nonEmpty H threadId in
      if tid = [] then throw (Error ''ThreadIndexService.removeThread requires threadId'') s
      else let s1 = kvDelete H s (kIndexRecord owner tid) in
        ok True (saveIndex H owner (filter (\<lambda>t. tp_threadId t \<noteq> tid) (loadIndex H owner s1)) s1))"

definition listThreadIndex :: "'s host \<Rightarrow> string \<Rightarrow> jsval \<Rightarrow> 's \<Rightarrow> ChatThreadIndexEntry list" where
  "listThreadIndex H owner limit s =
     (let max_items = nat \<lfloor>max 1 (min (of_nat MAX_INDEX_SIZE) (asInt H limit 50))\<rfloor> in
      keepSome (\<lambda>t. coerceIndexRecord H (kvGet H s (kIndexRecord owner (tp_threadId t))))
        (take max_items (loadIndex H owner s)))"

text \<open>The existing record or an empty one, then overrides, then the save.\<close>

definition updateRecord ::
  "'s host \<Rightarrow> string \<Rightarrow> string \<Rightarrow> (ChatThreadIndexEntry \<Rightarrow> (string \<times> jsval) list option) \<Rightarrow> ('s, ChatThreadIndexEntry) op" where
  "updateRecord H owner tid overrides =
     andThen (\<lambda>s. case getIndexRecord H owner (Str tid) s of Some e \<Rightarrow> ok e s | None \<Rightarrow> lift_result (emptyEntry H tid) s)
       (\<lambda>existing. case overrides existing of None \<Rightarrow> ok existing
          | Some ov \<Rightarrow> andThen (lift_result (withOverrides existing ov))
              (\<lambda>next. andThen (writes (saveRecord H owner next)) (\<lambda>_. ok next)))"

definition stored_items :: "'s host \<Rightarrow> string \<Rightarrow> string \<Rightarrow> 's \<Rightarrow> ChatMessage list" where
  "stored_items H owner tid s = p_items (listMessages H owner (Str tid) (num (of_nat MAX_INDEX_SIZE)) None s)"

definition args_of :: "string \<Rightarrow> ChatThreadIndexEntry \<Rightarrow> (string \<times> rat \<times> string) list \<Rightarrow> unread_args" where
  "args_of owner e byChannel = \<lparr> ua_owner = owner, ua_readAt = e_lastReadAtMs e, ua_readMsg = e_lastReadMsgId e,
     ua_byChannel = byChannel \<rparr>"

definition unread_overrides :: "unread_result \<Rightarrow> (string \<times> jsval) list" where
  "unread_overrides u = [(''unreadCount'', num (of_nat (ur_count u))), (''unreadByChannelId'', Obj (ur_byChannel u)),
     (''lastUnreadCountedAtMs'', opt_num (ur_countedAt u)), (''lastUnreadCountedMsgId'', Str (ur_countedMsg u))]"

definition ensureThreadSummary :: "'s host \<Rightarrow> string \<Rightarrow> jsval \<Rightarrow> ('s, ChatThreadIndexEntry) op" where
  "ensureThreadSummary H owner threadId s =
     (let tid = nonEmpty H threadId; now = clockMs H; items = stored_items H owner tid s in
      if tid = [] then throw (Error ''ThreadIndexService.ensureThreadSummary requires threadId'') s
      else updateRecord H owner tid (\<lambda>existing.
        case items of
          [] \<Rightarrow> (if e_lastActivityMsgId existing = [] \<and> e_updatedAtMs existing \<noteq> now
                 then Some [(''updatedAtMs'', num now)] else None)
        | latest # _ \<Rightarrow>
          let latestCreatedAt = asInt H (num (m_createdAtMs latest)) 0;
              latestMessageId = nonEmpty H (Str (m_messageId latest));
              latestPreview = coercePreview (Str (m_text latest));
              unread = unreadSummary H (args_of owner existing (e_lastReadByChannelId existing)) (map message_json items)
          in Some ([(''updatedAtMs'', num now),
             (''lastActivityAtMs'', num (if latestCreatedAt \<noteq> 0 then latestCreatedAt else e_lastActivityAtMs existing)),
             (''lastActivityMsgId'', Str (if latestMessageId \<noteq> [] then latestMessageId else e_lastActivityMsgId existing)),
             (''lastMessagePreview'', opt_str (if latestPreview \<noteq> None then latestPreview else e_lastMessagePreview existing)),
             (''previewAtMs'', if latestPreview \<noteq> None then num latestCreatedAt else opt_num (e_previewAtMs existing)),
             (''previewMsgId'', Str (if latestPreview \<noteq> None then latestMessageId else e_previewMsgId existing))]
             @ unread_overrides unread)) s)"

definition markThreadRead :: "'s host \<Rightarrow> string \<Rightarrow> jsval \<Rightarrow> ('s, ChatThreadIndexEntry) op" where
  "markThreadRead H owner threadId s =
     (let tid = nonEmpty H threadId; items = stored_items H owner tid s;
          latestCreatedAt = (case items of [] \<Rightarrow> Null | m # _ \<Rightarrow> num (asInt H (num (m_createdAtMs m)) 0));
          latestMessageId = (case items of [] \<Rightarrow> Null | m # _ \<Rightarrow> Str (nonEmpty H (Str (m_messageId m)))) in
      if tid = [] then throw (Error ''ThreadIndexService.markThreadRead requires threadId'') s
      else updateRecord H owner tid (\<lambda>existing. Some
        [(''updatedAtMs'', num (clockMs H)), (''unreadCount'', num 0), (''unreadByChannelId'', Obj []),
         (''lastReadByChannelId'', Obj []), (''lastReadAtMs'', latestCreatedAt), (''lastReadMsgId'', latestMessageId),
         (''lastUnreadCountedAtMs'', latestCreatedAt), (''lastUnreadCountedMsgId'', latestMessageId)]) s)"

text \<open>The newest key of a channel, starting from \<open>(0, "")\<close>.\<close>

definition latest_in_channel :: "'s host \<Rightarrow> string \<Rightarrow> ChatMessage list \<Rightarrow> rat \<times> string" where
  "latest_in_channel H channelKey items = foldl (\<lambda>(latestAtMs, latestMsgId) m.
     let atMs = asInt H (num (m_createdAtMs m)) 0; msgId = nonEmpty H (Str (m_messageId m)) in
     if messageChannelKey (message_json m) \<noteq> channelKey \<or> msgId = [] then (latestAtMs, latestMsgId)
     else if isKeyGreater H (num atMs) (Str msgId) (num latestAtMs) (Str latestMsgId) then (atMs, msgId)
     else (latestAtMs, latestMsgId)) (0, []) items"

text \<open>\<open>o[k] = v\<close> on a plain object: \<open>__proto__\<close> adds no property.\<close>

definition assign :: "string \<Rightarrow> 'v \<Rightarrow> (string \<times> 'v) list \<Rightarrow> (string \<times> 'v) list" where
  "assign k v kvs = (if k = ''__proto__'' then kvs else AList.update k v kvs)"

text \<open>
  Assigning an object to \<open>nextByChannel.__proto__\<close> installs it as the prototype: the spread of the
  next construction does not see it, the lookup \<open>nextByChannel["__proto__"]\<close> of this call does.
\<close>

definition marker_view :: "string \<Rightarrow> rat \<times> string \<Rightarrow> (string \<times> rat \<times> string) list \<Rightarrow> (string \<times> rat \<times> string) list" where
  "marker_view k v kvs = (if snd v = [] then kvs else AList.update k v kvs)"

definition markChannelRead :: "'s host \<Rightarrow> string \<Rightarrow> jsval \<Rightarrow> jsval \<Rightarrow> ('s, ChatThreadIndexEntry) op" where
  "markChannelRead H owner threadId channelId s =
     (let tid = nonEmpty H threadId; channelKey = trim (string_or_empty channelId);
          items = stored_items H owner tid s; latest = latest_in_channel H channelKey items in
      if tid = [] then throw (Error ''ThreadIndexService.markChannelRead requires threadId'') s
      else updateRecord H owner tid (\<lambda>existing.
        let byChannel = e_lastReadByChannelId existing;
            nextByChannel = (if snd latest = [] then byChannel else assign channelKey latest byChannel);
            unread = unreadSummary H (args_of owner existing (marker_view channelKey latest byChannel))
              (map message_json items)
        in Some ([(''updatedAtMs'', num (clockMs H)), (''lastReadByChannelId'', last_read_json nextByChannel)]
             @ unread_overrides unread)) s)"

text \<open>The stored messages, each id once, and the accepted one if it is not among them.\<close>

definition merge_accepted :: "'s host \<Rightarrow> string \<Rightarrow> rat \<Rightarrow> string \<Rightarrow> ChatMessage list \<Rightarrow> jsval list" where
  "merge_accepted H msgId atMs fallbackSender persisted =
     (let (merged, seen) = foldl (\<lambda>(merged, seen) m.
            let mid = nonEmpty H (Str (m_messageId m)) in
            if mid = [] \<or> mid \<in> set seen then (merged, seen)
            else if mid = msgId \<and> fallbackSender \<noteq> [] \<and> nonEmpty H (Str (m_senderAccountId m)) = []
            then (merged @ [Obj (spread (message_fields m) [(''senderAccountId'', Str fallbackSender)])], seen @ [mid])
            else (merged @ [message_json m], seen @ [mid])) ([], []) persisted
      in if msgId \<in> set seen then merged
         else merged @ [Obj [(''messageId'', Str msgId), (''createdAtMs'', num atMs), (''senderAccountId'', Str fallbackSender)]])"

text \<open>Activity and preview move forward only when the new key is greater.\<close>

definition activity_overrides :: "'s host \<Rightarrow> rat \<Rightarrow> string \<Rightarrow> string option \<Rightarrow> ChatThreadIndexEntry \<Rightarrow> (string \<times> jsval) list" where
  "activity_overrides H atMs msgId previewText existing =
     (let activityIsNewer = isKeyGreater H (num atMs) (Str msgId) (num (e_lastActivityAtMs existing)) (Str (e_lastActivityMsgId existing));
          previewIsNewer = (previewText \<noteq> None \<and> isKeyGreater H (num atMs) (Str msgId)
            (num (zero_if_none (e_previewAtMs existing))) (Str (e_previewMsgId existing)))
      in [(''updatedAtMs'', num (clockMs H)),
          (''lastActivityAtMs'', num (if activityIsNewer then atMs else e_lastActivityAtMs existing)),
          (''lastActivityMsgId'', Str (if activityIsNewer then msgId else e_lastActivityMsgId existing)),
          (''lastMessagePreview'', opt_str (if previewIsNewer then previewText else e_lastMessagePreview existing)),
          (''previewAtMs'', if previewIsNewer then num atMs else opt_num (e_previewAtMs existing)),
          (''previewMsgId'', Str (if previewIsNewer then msgId else e_previewMsgId existing))])"

definition upsertOnMessageAccepted ::
  "'s host \<Rightarrow> string \<Rightarrow> jsval \<Rightarrow> jsval \<Rightarrow> jsval \<Rightarrow> jsval \<Rightarrow> jsval \<Rightarrow> ('s, ChatThreadIndexEntry) op" where
  "upsertOnMessageAccepted H owner threadId messageId createdAtMs senderAccountId preview s =
     (let tid = nonEmpty H threadId; msgId = nonEmpty H messageId; atMs = asInt H createdAtMs (clockMs H);
          merged = merge_accepted H msgId atMs (nonEmpty H senderAccountId) (stored_items H owner tid s) in
      if tid = [] \<or> msgId = [] then throw (Error ''ThreadIndexService.upsertOnMessageAccepted requires threadId/messageId'') s
      else updateRecord H owner tid (\<lambda>existing. Some (activity_overrides H atMs msgId (coercePreview preview) existing
        @ unread_overrides (unreadSummary H (args_of owner existing (e_lastReadByChannelId existing)) merged))) s)"

definition upsertFromMessage ::
  "'s host \<Rightarrow> string \<Rightarrow> jsval \<Rightarrow> jsval \<Rightarrow> jsval \<Rightarrow> jsval \<Rightarrow> jsval \<Rightarrow> ('s, ChatThreadIndexEntry) op" where
  "upsertFromMessage H owner threadId messageId ts preview senderAccountId s =
     (let tid = nonEmpty H threadId; atMs = asInt H ts (clockMs H); msgId = nonEmpty H messageId in
      if tid = [] then throw (Error ''ThreadIndexService.upsertFromMessage requires threadId'') s
      else if msgId \<noteq> [] then
        upsertOnMessageAccepted H owner (Str tid) (Str msgId) (num atMs) (Str (nonEmpty H senderAccountId)) preview s
      else let syntheticMsgId = ''sys:'' @ js_string (num atMs) @ '':'' @ tid in
        updateRecord H owner tid (\<lambda>existing.
          Some (activity_overrides H atMs syntheticMsgId (coercePreview preview) existing)) s)"

end
