(* ===== verification/ThreadIndexLaws.thy ===== *)
theory ThreadIndexLaws
  imports ThreadIndex LogInvariant
begin

text \<open>
  What the thread index guarantees: keys form a total preorder, the stored list of tips stays
  sorted, distinct and bounded, activity never moves back, counting agrees with its specification per
  channel, and reading a thread leaves nothing unread. The last two hold for channel ids that plain
  objects do not inherit; the laws for \<open>constructor\<close> state what happens otherwise.
\<close>

section \<open>Keys\<close>

definition whole :: "rat \<Rightarrow> bool" where
  "whole r \<longleftrightarrow> (\<exists>i. r = of_int i)"

lemma whole_0 [simp]: "whole 0"
  unfolding whole_def by (rule exI [of _ 0]) simp

lemma string_or_Str [simp]: "string_or (Str x) = x"
  by (cases x) (simp_all add: string_or_def)

text \<open>What is stored: well-formed tips, one per thread, in order, at most 500.\<close>

definition tip_key :: "tip \<Rightarrow> rat \<times> string" where
  "tip_key t = (tp_lastActivityAtMs t, tp_lastActivityMsgId t)"

definition wf_tip :: "tip \<Rightarrow> bool" where
  "wf_tip t \<longleftrightarrow> tp_threadId t \<noteq> [] \<and> trimmed (tp_threadId t) \<and> trimmed (tp_lastActivityMsgId t) \<and> whole (tp_lastActivityAtMs t)"

definition tips_ok :: "'s host \<Rightarrow> tip list \<Rightarrow> bool" where
  "tips_ok H ts \<longleftrightarrow> (\<forall>t\<in>set ts. wf_tip t) \<and> distinct (map tp_threadId ts) \<and> sorted_by (compareTips H) ts \<and> length ts \<le> MAX_INDEX_SIZE"

text \<open>The stored index is the serialisation of such a list.\<close>

definition tips_stored :: "'s host \<Rightarrow> string \<Rightarrow> 's \<Rightarrow> bool" where
  "tips_stored H owner s \<longleftrightarrow> tips_ok H (loadIndex H owner s) \<and> elements (kvGet H s (kIndex owner)) = map tip_json (loadIndex H owner s)"

context host_laws
begin

lemma asInt_num_whole [simp]: "whole r \<Longrightarrow> asInt H (num r) d = r"
  by (auto simp: whole_def asInt_int)

lemma whole_asInt [simp]: "whole (asInt H v 0)"
  using asInt_whole [of v 0] by (simp add: whole_def)

lemma comparator_less: "comparator (\<lambda>a b :: rat. if a < b then - 1 else if b < a then 1 else 0)"
  by unfold_locales (auto split: if_splits)

lemma comparator_sign: "comparator c \<Longrightarrow> comparator (\<lambda>a b. if c a b < 0 then - 1 else if c a b > 0 then 1 else (0::rat))"
  unfolding comparator_def by (auto split: if_splits) (metis order_less_le not_less)+

lemma key_comparator: "comparator (compareCandidates H)"
proof -
  let ?at = "\<lambda>p :: rat \<times> string. asInt H (num (fst p)) 0"
  have "compareCandidates H = (\<lambda>a b. if (if ?at a < ?at b then - 1 else if ?at b < ?at a then 1 else 0) \<noteq> (0::rat)
     then (if ?at a < ?at b then - 1 else if ?at b < ?at a then 1 else 0)
     else (if localeCompare H (snd a) (snd b) < 0 then - 1 else if localeCompare H (snd a) (snd b) > 0 then 1 else 0))"
    by (auto simp: fun_eq_iff compareCandidates_def compareMessageKey_def Let_def)
  moreover have "comparator \<dots>"
    by (rule comparator_lex [OF comparator_on [OF comparator_less] comparator_on [OF comparator_sign [OF collation]]])
  ultimately show ?thesis by simp
qed

lemma isKeyGreater_iff:
  "whole a \<Longrightarrow> whole b \<Longrightarrow> isKeyGreater H (num a) (Str x) (num b) (Str y) \<longleftrightarrow> a > b \<or> a = b \<and> localeCompare H x y > 0"
  by (auto simp: isKeyGreater_def compareMessageKey_def Let_def)

section \<open>The list of tips\<close>

lemma tips_comparator: "comparator (compareTips H)"
proof -
  have "compareTips H = (\<lambda>a b. if compareCandidates H (tip_key b) (tip_key a) \<noteq> 0 then compareCandidates H (tip_key b) (tip_key a)
      else localeCompare H (tp_threadId a) (tp_threadId b))"
    by (simp add: fun_eq_iff compareTips_def compareCandidates_def tip_key_def Let_def)
  moreover have "comparator \<dots>"
    by (rule comparator_lex [OF comparator_on [OF comparator_flip [OF key_comparator]] comparator_on [OF collation]])
  ultimately show ?thesis by simp
qed

lemma coerceTip_json: "wf_tip t \<Longrightarrow> coerceTipPointer H (tip_json t) = Some t"
  by (cases t) (simp add: coerceTipPointer_def tip_json_def wf_tip_def getp_def nonEmpty_trimmed Let_def)

lemma load_after_save:
  assumes "\<forall>t\<in>set ts. wf_tip t" and "distinct (map tp_threadId ts)" and "sorted_by (compareTips H) ts"
  shows "loadIndex H owner (saveIndex H owner ts s) = take MAX_INDEX_SIZE ts" and "tips_stored H owner (saveIndex H owner ts s)"
proof -
  let ?ts = "take MAX_INDEX_SIZE ts"
  have wf: "\<forall>t\<in>set ?ts. wf_tip t" using assms(1) by (meson in_set_takeD)
  have "keepSome (coerceTipPointer H) (map tip_json ?ts) = ?ts"
    by (rule keepSome_map) (use wf coerceTip_json in auto)
  moreover have "sort_by (compareTips H) ?ts = ?ts"
    by (rule sort_by_id) (use assms(3) in \<open>simp add: sorted_wrt_take\<close>)
  ultimately show l: "loadIndex H owner (saveIndex H owner ts s) = ?ts"
    by (simp add: loadIndex_def saveIndex_def sortEntries_def)
  show "tips_stored H owner (saveIndex H owner ts s)"
    using wf assms(2,3)
    by (simp add: tips_stored_def l) (simp add: tips_ok_def saveIndex_def sorted_wrt_take distinct_take flip: take_map)
qed

lemma putTip_ids: "tp_threadId ` set (putTip t ts) = insert (tp_threadId t) (tp_threadId ` set ts)"
  by (induction ts) auto

lemma distinct_putTip: "distinct (map tp_threadId ts) \<Longrightarrow> distinct (map tp_threadId (putTip t ts))"
proof (induction ts)
  case (Cons u us)
  have "tp_threadId u \<noteq> tp_threadId t \<Longrightarrow> tp_threadId u \<notin> tp_threadId ` set (putTip t us)"
    using Cons.prems putTip_ids [of t us] by auto
  with Cons show ?case by auto
qed simp

lemma set_putTip: "distinct (map tp_threadId ts) \<Longrightarrow> set (putTip t ts) = insert t {u \<in> set ts. tp_threadId u \<noteq> tp_threadId t}"
proof (induction ts)
  case (Cons u us)
  show ?case
  proof (cases "tp_threadId u = tp_threadId t")
    case True
    then have "\<forall>x\<in>set us. tp_threadId x \<noteq> tp_threadId t" using Cons.prems by (metis distinct.simps(2) image_eqI list.set_map list.simps(9))
    then show ?thesis using True by auto
  next
    case False
    then show ?thesis using Cons by auto
  qed
qed simp

lemma length_putTip: "length (putTip t ts) = (if tp_threadId t \<in> tp_threadId ` set ts then length ts else Suc (length ts))"
  by (induction ts) auto

lemma wf_tip_of: "wf_entry e \<Longrightarrow> wf_tip (tip_of H e)"
  by (simp add: wf_tip_def tip_of_def wf_entry_def nonEmpty_trimmed)

lemma index_key_apart [simp]: "kIndexRecord ow1 t \<noteq> kIndex ow2" "kIndex ow2 \<noteq> kIndexRecord ow1 t"
  by (simp_all add: kIndex_def kIndexRecord_def)

lemma loadIndex_record_write [simp]: "loadIndex H owner (saveRecord_write H owner e s) = loadIndex H owner s"
  by (simp add: loadIndex_def saveRecord_write_def get_set_other)

lemma saved_tips:
  assumes "tips_ok H ts" and "wf_entry e"
  shows "loadIndex H owner (saveRecord_index H owner e ts s) = take MAX_INDEX_SIZE (sortEntries H (putTip (tip_of H e) ts))"
    and "tips_stored H owner (saveRecord_index H owner e ts s)"
proof -
  let ?us = "sortEntries H (putTip (tip_of H e) ts)"
  have "\<forall>t\<in>set ?us. wf_tip t" "distinct (map tp_threadId ?us)" "sorted_by (compareTips H) ?us"
    using assms wf_tip_of [OF assms(2)] distinct_putTip set_putTip [of ts "tip_of H e"]
      comparator.sorted_sort_by [OF tips_comparator]
    by (auto simp: tips_ok_def sortEntries_def)
  from load_after_save [OF this]
  show "loadIndex H owner (saveRecord_index H owner e ts s) = take MAX_INDEX_SIZE ?us"
    and "tips_stored H owner (saveRecord_index H owner e ts s)"
    by (simp_all add: saveRecord_index_def)
qed

lemma saveRecord_tips:
  assumes "tips_stored H owner s" and "wf_entry e"
  shows "loadIndex H owner (saveRecord H owner e s)
      = take MAX_INDEX_SIZE (sortEntries H (putTip (tip_of H e) (loadIndex H owner s)))"
    and "tips_stored H owner (saveRecord H owner e s)"
  using saved_tips [of "loadIndex H owner s" e owner "saveRecord_write H owner e s"] assms
  by (simp_all add: saveRecord_def tips_stored_def)

lemma saveRecord_room:
  assumes "tips_stored H owner s" and "wf_entry e" and "length (loadIndex H owner s) < MAX_INDEX_SIZE"
  shows "set (loadIndex H owner (saveRecord H owner e s))
    = insert (tip_of H e) {t \<in> set (loadIndex H owner s). tp_threadId t \<noteq> e_threadId e}"
proof -
  let ?ts = "loadIndex H owner s"
  have "length (sortEntries H (putTip (tip_of H e) ?ts)) \<le> MAX_INDEX_SIZE"
    using assms(3) by (simp add: sortEntries_def length_putTip)
  moreover have "distinct (map tp_threadId ?ts)" using assms(1) by (simp add: tips_stored_def tips_ok_def)
  ultimately show ?thesis
    using set_putTip [of ?ts "tip_of H e"] by (simp add: saveRecord_tips(1) [OF assms(1,2)] sortEntries_def tip_of_def)
qed

lemma record_read_back:
  assumes "stable_entry e" and "nonEmpty H tid = e_threadId e"
  shows "getIndexRecord H owner tid (saveRecord H owner e s) = Some e"
proof -
  have "e_threadId e \<noteq> []" using assms(1) by (simp add: stable_entry_def wf_entry_def)
  then show ?thesis
    using coerceRow_entry [OF assms(1)] assms(2)
    by (simp add: getIndexRecord_def coerceIndexRecord_def saveRecord_def saveRecord_write_def saveRecord_index_def
        saveIndex_def get_set_other Let_def)
qed

text \<open>Two saves whose steps interleave: the list the second one read does not have the first one's tip.\<close>

lemma interleaved_saves:
  assumes "tips_ok H ts" and "wf_entry e2" and "e_threadId e1 \<noteq> e_threadId e2" and "e_threadId e1 \<notin> tp_threadId ` set ts"
  shows "e_threadId e1 \<notin> tp_threadId ` set (loadIndex H owner (saveRecord_index H owner e2 ts s))"
proof -
  have "set (take MAX_INDEX_SIZE (sortEntries H (putTip (tip_of H e2) ts))) \<subseteq> set (putTip (tip_of H e2) ts)"
    by (metis set_take_subset set_sort_by sortEntries_def)
  moreover have "e_threadId e1 \<notin> tp_threadId ` set (putTip (tip_of H e2) ts)"
    using assms(3,4) by (simp add: putTip_ids tip_of_def)
  ultimately show ?thesis by (auto simp: saved_tips(1) [OF assms(1,2)])
qed

section \<open>Counting\<close>

lemma row_key: "wf_message m \<Longrightarrow> candidate_of H (message_json m) = (asInt H (num (m_createdAtMs m)) 0, m_messageId m)"
  by (simp add: candidate_of_def message_json_def message_fields_def getp_def wf_message_def nonEmpty_trimmed)

text \<open>The log is in the order of the keys, newest first.\<close>

lemma newest_key:
  assumes "compareNewestFirst H a b \<le> 0"
  shows "\<not> isKeyGreater H (num (asInt H (num (m_createdAtMs b)) 0)) (Str (m_messageId b))
    (num (asInt H (num (m_createdAtMs a)) 0)) (Str (m_messageId a))"
proof -
  have "localeCompare H (m_messageId b) (m_messageId a) > 0 \<longleftrightarrow> localeCompare H (m_messageId a) (m_messageId b) < 0"
    by (rule comparator.anti [OF collation])
  then show ?thesis
    using assms comparator.anti [OF collation, of "m_messageId a" "m_messageId b"]
    by (auto simp: isKeyGreater_iff compareNewestFirst_def Let_def split: if_splits)
qed

lemma channel_marker_default: "\<not> inherited k \<Longrightarrow> channel_marker [] k x y = (num (case x of Some r \<Rightarrow> r | None \<Rightarrow> 0), Str y)"
  by (simp add: channel_marker_def)

text \<open>Below the marker of the newest row nothing is unread.\<close>

lemma nothing_unread:
  assumes sorted: "sorted_by (compareNewestFirst H) (m0 # rows)" and wf: "\<forall>m\<in>set (m0 # rows). wf_message m"
    and ch: "\<forall>m\<in>set (m0 # rows). \<not> inherited (messageChannelKey (message_json m))"
    and a: "ua_readAt a = Some (asInt H (num (m_createdAtMs m0)) 0)" "ua_readMsg a = m_messageId m0" "ua_byChannel a = []"
  shows "ur_count (unreadSummary H a (map message_json (m0 # rows))) = 0"
proof -
  have "\<not> is_unread H a (message_json m)" if m: "m \<in> set (m0 # rows)" for m
  proof -
    have "compareNewestFirst H m0 m \<le> 0"
      using sorted m comparator.refl [of "compareNewestFirst H" m0] newest.comparator_axioms by auto
    from newest_key [OF this] show ?thesis
      using row_key [of m] wf ch m a
      by (auto simp: is_unread_def channel_marker_default candidate_of_def Let_def)
  qed
  then have "filter (is_unread H a) (map message_json (m0 # rows)) = []"
    by (simp only: filter_empty_conv set_map) blast
  then show ?thesis by (simp only: unreadSummary_def Let_def) simp
qed

lemma candidates_count: "ur_count (unreadSummary H a ms) = length (filter (is_unread H a) ms)"
  by (simp add: unreadSummary_def Let_def)

end

text \<open>The count of a channel is the number of its unread messages.\<close>

lemma count_spec:
  assumes "\<forall>m\<in>set ms. \<not> inherited (messageChannelKey m)"
  shows "map_of (foldl (\<lambda>counts m. count_channel (messageChannelKey m) counts) [] ms) k
    = (let n = length (filter (\<lambda>m. messageChannelKey m = k) ms) in if n = 0 then None else Some (num (of_nat n)))"
  using assms
proof (induction ms rule: rev_induct)
  case (snoc m ms)
  let ?c = "foldl (\<lambda>counts m. count_channel (messageChannelKey m) counts) [] ms" and ?k = "messageChannelKey m"
  have IH: "map_of ?c k = (let n = length (filter (\<lambda>m. messageChannelKey m = k) ms) in if n = 0 then None else Some (num (of_nat n)))"
    using snoc by simp
  have inh: "\<not> inherited ?k" "?k \<noteq> ''__proto__''"
    using snoc.prems by (auto simp: inherited_def object_prototype_keys_def)
  show ?case
  proof (cases "?k = k")
    case True
    then show ?thesis using IH inh
      by (cases "map_of ?c k") (auto simp: count_channel_def update_conv' Let_def split: if_splits)
  next
    case False
    then have "map_of (count_channel ?k ?c) k = map_of ?c k"
      using inh by (simp add: count_channel_def update_conv' split: option.split)
    then show ?thesis using IH False by simp
  qed
qed simp

section \<open>Updates of a record\<close>

lemma mkThreadIndexEntry_build: "mkThreadIndexEntry raw = Inr e \<Longrightarrow> e = buildThreadIndexEntry raw \<and> wf_entry e"
  using mkThreadIndexEntry_wf [of raw e] by (auto simp: mkThreadIndexEntry_def Let_def split: if_splits)

lemma withOverrides_build:
  "withOverrides existing ov = Inr e \<Longrightarrow> e = buildThreadIndexEntry (Obj (spread (entry_fields existing) ov)) \<and> wf_entry e"
  unfolding withOverrides_def by (rule mkThreadIndexEntry_build)

text \<open>The record an update starts from: the stored one or an empty one.\<close>

definition record_base :: "'s host \<Rightarrow> string \<Rightarrow> string \<Rightarrow> 's \<Rightarrow> js_error + ChatThreadIndexEntry" where
  "record_base H owner tid s = (case getIndexRecord H owner (Str tid) s of Some e \<Rightarrow> Inr e | None \<Rightarrow> emptyEntry H tid)"

lemma updateRecord_cases:
  assumes "updateRecord H owner tid f s = (Inr e, s')"
  obtains existing where "record_base H owner tid s = Inr existing" "f existing = None" "e = existing" "s' = s"
  | existing ov where "record_base H owner tid s = Inr existing" "f existing = Some ov" "withOverrides existing ov = Inr e"
      "s' = saveRecord H owner e s"
  using assms
  by (auto simp: updateRecord_def record_base_def andThen_def ok_def lift_result_def writes_def
      split: option.splits sum.splits prod.splits)

lemma base_wf: "record_base H owner tid s = Inr e \<Longrightarrow> wf_entry e"
  by (auto simp: record_base_def getIndexRecord_def coerceIndexRecord_def coerceRow_def emptyEntry_def Let_def
      dest: mkThreadIndexEntry_wf split: option.splits sum.splits if_splits)

context host_laws
begin

text \<open>Index writes leave the logs alone.\<close>

lemma index_apart_messages [simp]: "kIndex ow \<noteq> kMessages ow' t" "kIndexRecord ow t' \<noteq> kMessages ow' t"
  "kMessages ow' t \<noteq> kIndex ow" "kMessages ow' t \<noteq> kIndexRecord ow t'"
  by (simp_all add: kIndex_def kIndexRecord_def kMessages_def)

lemma loadMessages_saveRecord [simp]: "loadMessages H owner t (saveRecord H owner e s) = loadMessages H owner t s"
  by (simp add: loadMessages_def saveRecord_def saveRecord_write_def saveRecord_index_def saveIndex_def get_set_other Let_def)

lemma stored_items_log:
  assumes "log_ok H owner tid s" and "tid \<noteq> []" and "trimmed tid"
  shows "stored_items H owner tid s = loadMessages H owner tid s"
proof -
  have len: "length (loadMessages H owner tid s) \<le> 500" and srt: "sorted_by (compareNewestFirst H) (loadMessages H owner tid s)"
    using assms(1) by (simp_all add: log_ok_def MAX_MESSAGES_PER_THREAD_def Let_def)
  have n: "asInt H (num 500) 50 = 500" using asInt_int [of 500 50] by simp
  show ?thesis
    using assms(2,3) len
    by (simp add: stored_items_def listMessages_def nonEmpty_trimmed MAX_MESSAGES_PER_THREAD_def MAX_INDEX_SIZE_def n
        isStrictlyBeforeCursor_def sort_by_id [OF srt] Let_def)
qed

lemma markThreadRead_effect:
  assumes "markThreadRead H owner threadId s = (Inr e, s')" and "log_ok H owner (nonEmpty H threadId) s"
  shows "e_unreadCount e = 0 \<and> e_unreadByChannelId e = [] \<and> e_lastReadByChannelId e = []
    \<and> s' = saveRecord H owner e s \<and> nonEmpty H threadId \<noteq> []
    \<and> (case loadMessages H owner (nonEmpty H threadId) s of [] \<Rightarrow> True
       | m # _ \<Rightarrow> e_lastReadAtMs e = Some (asInt H (num (m_createdAtMs m)) 0) \<and> e_lastReadMsgId e = m_messageId m)"
proof -
  let ?tid = "nonEmpty H threadId"
  let ?rows = "loadMessages H owner ?tid s"
  have tid: "?tid \<noteq> []" using assms(1) by (auto simp: markThreadRead_def throw_def Let_def split: if_splits)
  have items: "stored_items H owner ?tid s = ?rows"
    by (rule stored_items_log [OF assms(2) tid]) (simp add: trimmed_def nonEmpty_trim)
  let ?at = "case ?rows of [] \<Rightarrow> Null | m # _ \<Rightarrow> num (asInt H (num (m_createdAtMs m)) 0)"
  let ?msg = "case ?rows of [] \<Rightarrow> Null | m # _ \<Rightarrow> Str (nonEmpty H (Str (m_messageId m)))"
  let ?ov = "[(''updatedAtMs'', num (clockMs H)), (''unreadCount'', num 0), (''unreadByChannelId'', Obj []),
         (''lastReadByChannelId'', Obj []), (''lastReadAtMs'', ?at), (''lastReadMsgId'', ?msg),
         (''lastUnreadCountedAtMs'', ?at), (''lastUnreadCountedMsgId'', ?msg)]"
  have "updateRecord H owner ?tid (\<lambda>existing. Some ?ov) s = (Inr e, s')"
    using assms(1) tid by (simp add: markThreadRead_def items Let_def)
  then obtain existing where o: "withOverrides existing ?ov = Inr e" "s' = saveRecord H owner e s"
    by (cases rule: updateRecord_cases) auto
  have e: "e = buildThreadIndexEntry (Obj (spread (entry_fields existing) ?ov))" using withOverrides_build [OF o(1)] by blast
  have msg: "m \<in> set ?rows \<Longrightarrow> nonEmpty H (Str (m_messageId m)) = m_messageId m \<and> trimmed (m_messageId m)" for m
    using assms(2) by (auto simp: log_ok_def rows_ok_def wf_message_def nonEmpty_trimmed Let_def)
  have "e_unreadCount e = 0" "e_unreadByChannelId e = []" "e_lastReadByChannelId e = []"
    "e_lastReadAtMs e = optNumber ?at 0" "e_lastReadMsgId e = nonEmptyString ?msg"
    by (simp_all add: e buildThreadIndexEntry_def getp_spread coerceUnreadByChannelId_def coerceLastReadByChannelId_def own_props_def Let_def)
  then show ?thesis using tid o(2) msg by (auto split: list.split simp: trimmed_eq)
qed

lemma activity_forward:
  assumes "upsertOnMessageAccepted H owner threadId messageId createdAtMs sender preview s = (Inr e, s')"
    and "getIndexRecord H owner threadId s = Some old"
  shows "\<not> isKeyGreater H (num (e_lastActivityAtMs old)) (Str (e_lastActivityMsgId old))
      (num (e_lastActivityAtMs e)) (Str (e_lastActivityMsgId e))"
    and "\<not> isKeyGreater H (num (asInt H createdAtMs (clockMs H))) (Str (nonEmpty H messageId))
      (num (e_lastActivityAtMs e)) (Str (e_lastActivityMsgId e))"
proof -
  let ?tid = "nonEmpty H threadId" and ?at = "asInt H createdAtMs (clockMs H)" and ?mid = "nonEmpty H messageId"
  let ?merged = "merge_accepted H ?mid ?at (nonEmpty H sender) (stored_items H owner ?tid s)"
  let ?ov = "activity_overrides H ?at ?mid (coercePreview preview) old
        @ unread_overrides (unreadSummary H (args_of owner old (e_lastReadByChannelId old)) ?merged)"
  have tid: "?tid \<noteq> []" and old: "record_base H owner ?tid s = Inr old"
    using assms(2) by (auto simp: getIndexRecord_def record_base_def nonEmpty_Str nonEmpty_trim Let_def split: if_splits)
  have wf: "trimmed (e_lastActivityMsgId old)" using base_wf [OF old] by (simp add: wf_entry_def)
  have "\<exists>existing ov. record_base H owner ?tid s = Inr existing \<and> withOverrides existing ov = Inr e
     \<and> ov = activity_overrides H ?at ?mid (coercePreview preview) existing
        @ unread_overrides (unreadSummary H (args_of owner existing (e_lastReadByChannelId existing)) ?merged)"
    using assms(1) tid
    by (auto simp: upsertOnMessageAccepted_def throw_def Let_def split: if_splits elim!: updateRecord_cases)
  then have "withOverrides old ?ov = Inr e" using old by auto
  then have e: "e = buildThreadIndexEntry (Obj (spread (entry_fields old) ?ov))" using withOverrides_build by blast
  let ?newer = "isKeyGreater H (num ?at) (Str ?mid) (num (e_lastActivityAtMs old)) (Str (e_lastActivityMsgId old))"
  have k: "e_lastActivityAtMs e = (if ?newer then ?at else e_lastActivityAtMs old)"
    "e_lastActivityMsgId e = (if ?newer then ?mid else e_lastActivityMsgId old)"
    using wf by (simp_all add: e buildThreadIndexEntry_def getp_spread activity_overrides_def unread_overrides_def
        nonEmpty_trim trimmed_eq Let_def)
  define a b where "a = (?at, ?mid)" and "b = (e_lastActivityAtMs old, e_lastActivityMsgId old)"
  have g: "isKeyGreater H (num (fst x)) (Str (snd x)) (num (fst y)) (Str (snd y)) \<longleftrightarrow> compareCandidates H x y > 0" for x y
    by (simp add: isKeyGreater_def compareCandidates_def)
  have "\<not> 0 < compareCandidates H x x" for x using comparator.refl [OF key_comparator] by simp
  moreover have "0 < compareCandidates H a b \<Longrightarrow> \<not> 0 < compareCandidates H b a"
    using comparator.anti [OF key_comparator] by (meson less_asym)
  ultimately have "\<not> 0 < compareCandidates H b (if 0 < compareCandidates H a b then a else b)"
    "\<not> 0 < compareCandidates H a (if 0 < compareCandidates H a b then a else b)" by auto
  then show "\<not> isKeyGreater H (num (e_lastActivityAtMs old)) (Str (e_lastActivityMsgId old)) (num (e_lastActivityAtMs e)) (Str (e_lastActivityMsgId e))"
    "\<not> isKeyGreater H (num ?at) (Str ?mid) (num (e_lastActivityAtMs e)) (Str (e_lastActivityMsgId e))"
    using g [of b] g [of a] g [of a b] k by (auto simp: a_def b_def)
qed

end

end
