(* ===== verification/IndexProperties.thy ===== *)
theory IndexProperties
  imports ThreadIndexLaws Samples
begin

text \<open>The properties of the thread index, with their instances on the in-memory host.\<close>

section \<open>The list of threads\<close>

text \<open>
  Saving a record keeps the index well-formed: the stored list is the serialisation of at most
  500 tips in order, one per thread. With room in the list, exactly the saved thread's tip is put in
  or replaced.
\<close>

theorem save_keeps_index:
  assumes "host_laws H" and "tips_stored H owner s" and "wf_entry e"
  shows "tips_stored H owner (saveRecord H owner e s)
    \<and> (length (loadIndex H owner s) < MAX_INDEX_SIZE \<longrightarrow>
        set (loadIndex H owner (saveRecord H owner e s))
          = insert (tip_of H e) {t \<in> set (loadIndex H owner s). tp_threadId t \<noteq> e_threadId e})"
  using host_laws.saveRecord_tips(2) [OF assms] host_laws.saveRecord_room [OF assms] by blast

definition sample_entry :: "string \<Rightarrow> rat \<Rightarrow> ChatThreadIndexEntry" where
  "sample_entry tid at_ms = buildThreadIndexEntry (Obj [(''threadId'', Str tid), (''lastActivityAtMs'', num at_ms),
     (''lastActivityMsgId'', Str ''m''), (''updatedAtMs'', num at_ms)])"

lemma wf_sample_entry: "trim tid = tid \<Longrightarrow> tid \<noteq> [] \<Longrightarrow> wf_entry (sample_entry tid at_ms)"
  using mkThreadIndexEntry_wf [of "Obj [(''threadId'', Str tid), (''lastActivityAtMs'', num at_ms),
     (''lastActivityMsgId'', Str ''m''), (''updatedAtMs'', num at_ms)]" "sample_entry tid at_ms"]
  by (simp add: mkThreadIndexEntry_def sample_entry_def Let_def) (simp add: buildThreadIndexEntry_def getp_def Let_def)

lemma sample_entry_id [simp]: "trim tid = tid \<Longrightarrow> e_threadId (sample_entry tid at_ms) = tid"
  by (simp add: sample_entry_def buildThreadIndexEntry_def getp_def Let_def)

lemma sample_ids_trimmed: "trim ''t1'' = ''t1''" "trim ''t2'' = ''t2''"
  by (simp_all add: trim_def is_ws_def)

lemma empty_tips: "tips_stored HM ''me'' []" "loadIndex HM ''me'' [] = []"
  by (simp_all add: tips_stored_def tips_ok_def loadIndex_def sortEntries_def memory_host_def)

theorem save_keeps_index_instance:
  "tips_stored HM ''me'' (saveRecord HM ''me'' (sample_entry ''t1'' 5) [])
   \<and> set (loadIndex HM ''me'' (saveRecord HM ''me'' (sample_entry ''t1'' 5) [])) = {tip_of HM (sample_entry ''t1'' 5)}"
  using save_keeps_index [OF HM_laws empty_tips(1) wf_sample_entry [OF sample_ids_trimmed(1)], of 5]
  by (simp add: empty_tips(2) MAX_INDEX_SIZE_def)

text \<open>
  The write lock is per thread and the list is shared: when two saves of different threads
  interleave so that both read the list before either writes it, the first thread's tip is lost,
  although its record is stored.
\<close>

theorem interleaved_saves_lose_a_thread:
  assumes "host_laws H" and "tips_stored H owner s" and "wf_entry e1" "wf_entry e2" and "e_threadId e1 \<noteq> e_threadId e2"
    and "e_threadId e1 \<notin> tp_threadId ` set (loadIndex H owner s)"
    and "s2 = saveRecord_write H owner e2 (saveRecord_write H owner e1 s)"
    and "s4 = saveRecord_index H owner e2 (loadIndex H owner s2) (saveRecord_index H owner e1 (loadIndex H owner s2) s2)"
  shows "e_threadId e1 \<notin> tp_threadId ` set (loadIndex H owner s4)
    \<and> kvGet H s4 (kIndexRecord owner (e_threadId e1)) = entry_json e1"
proof -
  have ix: "loadIndex H owner s2 = loadIndex H owner s"
    by (simp add: assms(7) host_laws.loadIndex_record_write [OF assms(1)])
  have "tips_ok H (loadIndex H owner s)" using assms(2) by (simp add: tips_stored_def)
  moreover have "kvGet H s4 (kIndexRecord owner (e_threadId e1)) = entry_json e1"
    using assms(5) host_laws.index_key_apart [OF assms(1)]
    by (simp add: assms(7,8) saveRecord_index_def saveIndex_def saveRecord_write_def host_laws.get_set [OF assms(1)] kIndexRecord_def)
  ultimately show ?thesis
    using host_laws.interleaved_saves [OF assms(1) _ assms(4,5)] assms(6) by (simp add: assms(8) ix)
qed

theorem interleaved_saves_lose_a_thread_instance:
  "\<exists>s4. ''t1'' \<notin> tp_threadId ` set (loadIndex HM ''me'' s4)
     \<and> kvGet HM s4 (kIndexRecord ''me'' ''t1'') = entry_json (sample_entry ''t1'' 5)"
  using interleaved_saves_lose_a_thread [OF HM_laws empty_tips(1) wf_sample_entry [OF sample_ids_trimmed(1)]
      wf_sample_entry [OF sample_ids_trimmed(2)] _ _ refl refl, of 5 6]
  by (auto simp: sample_ids_trimmed empty_tips(2))

section \<open>Activity\<close>

text \<open>
  Activity never moves back: after an accepted message the activity key of the record is neither
  below the key it had nor below the key of the message.
\<close>

theorem activity_never_moves_back:
  assumes "host_laws H" and "getIndexRecord H owner threadId s = Some old"
    and "upsertOnMessageAccepted H owner threadId messageId createdAtMs sender preview s = (Inr e, s')"
  shows "\<not> isKeyGreater H (num (e_lastActivityAtMs old)) (Str (e_lastActivityMsgId old))
        (num (e_lastActivityAtMs e)) (Str (e_lastActivityMsgId e))
    \<and> \<not> isKeyGreater H (num (asInt H createdAtMs (clockMs H))) (Str (nonEmpty H messageId))
        (num (e_lastActivityAtMs e)) (Str (e_lastActivityMsgId e))"
  using host_laws.activity_forward [OF assms(1,3,2)] by blast

lemma run_value: "\<not> isl (fst r) \<Longrightarrow> r = (Inr (projr (fst r)), snd r)"
  by (cases "fst r") (auto simp: prod_eq_iff)

theorem activity_never_moves_back_instance:
  "\<exists>e s'. upsertOnMessageAccepted HM ''me'' (Str ''t1'') (Str ''early'') (num 3) (Str ''ann'') Null
       (saveRecord HM ''me'' (sample_entry ''t1'' 5) []) = (Inr e, s')
     \<and> \<not> isKeyGreater HM (num 5) (Str ''m'') (num (e_lastActivityAtMs e)) (Str (e_lastActivityMsgId e))"
proof -
  let ?s = "saveRecord HM ''me'' (sample_entry ''t1'' 5) []"
  let ?r = "upsertOnMessageAccepted HM ''me'' (Str ''t1'') (Str ''early'') (num 3) (Str ''ann'') Null ?s"
  have "\<not> isl (fst ?r)" by code_simp
  note r = run_value [OF this]
  have "stable_entry (sample_entry ''t1'' 5)"
    using wf_sample_entry [OF sample_ids_trimmed(1), of 5]
    by (simp add: stable_entry_def) (simp add: sample_entry_def buildThreadIndexEntry_def getp_def coercePreview_def Let_def)
  then have "getIndexRecord HM ''me'' (Str ''t1'') ?s = Some (sample_entry ''t1'' 5)"
    by (intro host_laws.record_read_back [OF HM_laws]) (simp_all add: sample_ids_trimmed)
  from activity_never_moves_back [OF HM_laws this r] r show ?thesis
    by (intro exI conjI) (assumption, simp add: sample_entry_def buildThreadIndexEntry_def getp_def trim_def is_ws_def Let_def)
qed

section \<open>Unread counts\<close>

text \<open>
  Counting agrees with its specification: the total is the number of unread messages, and the
  entry of a channel is the number of its unread messages, absent when there are none.
\<close>

theorem channel_counts_correct:
  assumes "\<forall>m\<in>set ms. \<not> inherited (messageChannelKey m)"
  shows "ur_count (unreadSummary H a ms) = length (filter (is_unread H a) ms)
    \<and> map_of (ur_byChannel (unreadSummary H a ms)) k
      = (let n = length (filter (\<lambda>m. messageChannelKey m = k) (filter (is_unread H a) ms))
         in if n = 0 then None else Some (num (of_nat n)))"
  using count_spec [of "filter (is_unread H a) ms" k] assms by (simp add: unreadSummary_def Let_def)

theorem channel_counts_correct_instance:
  "map_of (ur_byChannel (unreadSummary HM \<lparr> ua_owner = ''me'', ua_readAt = None, ua_readMsg = [], ua_byChannel = [] \<rparr>
     [message_json msg_a, message_json msg_b])) [] = Some (num 2)"
proof -
  let ?a = "\<lparr> ua_owner = ''me'', ua_readAt = None, ua_readMsg = [], ua_byChannel = [] \<rparr>"
  have "\<forall>m\<in>set [message_json msg_a, message_json msg_b]. \<not> inherited (messageChannelKey m)" by code_simp
  from channel_counts_correct [OF this, of HM ?a "[]"]
  have A: "map_of (ur_byChannel (unreadSummary HM ?a [message_json msg_a, message_json msg_b])) []
    = (let n = length (filter (\<lambda>m. messageChannelKey m = []) (filter (is_unread HM ?a) [message_json msg_a, message_json msg_b]))
       in if n = 0 then None else Some (num (of_nat n)))" by blast
  have B: "length (filter (\<lambda>m. messageChannelKey m = []) (filter (is_unread HM ?a) [message_json msg_a, message_json msg_b])) = 2"
    by code_simp
  show ?thesis unfolding A B by simp
qed

text \<open>
  Reading a thread leaves nothing unread: after \<open>markThreadRead\<close> the record counts zero, and a
  recount of the stored messages against its markers is zero too.
\<close>

theorem mark_read_clears_unread:
  assumes "host_laws H" and "log_ok H owner (nonEmpty H threadId) s" and "markThreadRead H owner threadId s = (Inr e, s')"
    and "\<forall>m\<in>set (loadMessages H owner (nonEmpty H threadId) s). \<not> inherited (messageChannelKey (message_json m))"
  shows "e_unreadCount e = 0 \<and> ur_count (unreadSummary H (args_of owner e (e_lastReadByChannelId e))
      (map message_json (loadMessages H owner (nonEmpty H threadId) s'))) = 0"
proof -
  let ?rows = "loadMessages H owner (nonEmpty H threadId) s"
  note eff = host_laws.markThreadRead_effect [OF assms(1,3,2)]
  have rows: "loadMessages H owner (nonEmpty H threadId) s' = ?rows"
    using eff host_laws.loadMessages_saveRecord [OF assms(1)] by simp
  have ok: "sorted_by (compareNewestFirst H) ?rows" "\<forall>m\<in>set ?rows. wf_message m"
    using assms(2) by (simp_all add: log_ok_def rows_ok_def Let_def)
  show ?thesis
  proof (cases ?rows)
    case Nil
    then show ?thesis using eff rows by (simp add: unreadSummary_def)
  next
    case (Cons m ms)
    have "ur_count (unreadSummary H (args_of owner e (e_lastReadByChannelId e)) (map message_json (m # ms))) = 0"
      by (rule host_laws.nothing_unread [OF assms(1)]) (use ok eff assms(4) Cons in \<open>simp_all add: args_of_def\<close>)
    then show ?thesis using eff rows Cons by simp
  qed
qed

theorem mark_read_clears_unread_instance:
  "\<exists>e s'. markThreadRead HM ''me'' (Str ''t1'') sample_store = (Inr e, s') \<and> e_unreadCount e = 0"
proof -
  let ?r = "markThreadRead HM ''me'' (Str ''t1'') sample_store"
  have "\<not> isl (fst ?r)" by code_simp
  note r = run_value [OF this]
  have "\<forall>m\<in>set [msg_a, msg_b]. \<not> inherited (messageChannelKey (message_json m))" by code_simp
  then have "\<forall>m\<in>set (loadMessages HM ''me'' (nonEmpty HM (Str ''t1'')) sample_store). \<not> inherited (messageChannelKey (message_json m))"
    by (simp add: sample_ids_trimmed)
  from mark_read_clears_unread [OF HM_laws sample_log_ok' r this] r show ?thesis by blast
qed

text \<open>
  A channel called \<open>constructor\<close> is never read: the lookup of its marker finds the inherited
  member, so after \<open>markThreadRead\<close> a delivered message of another account in it still counts.
\<close>

theorem inherited_channel_stays_unread:
  assumes "host_laws H" and "log_ok H owner (nonEmpty H threadId) s" and "markThreadRead H owner threadId s = (Inr e, s')"
    and "m \<in> set (loadMessages H owner (nonEmpty H threadId) s)" and "inherited (messageChannelKey (message_json m))"
    and "m_status m = ''delivered''" "m_messageId m \<noteq> []" "0 < asInt H (num (m_createdAtMs m)) 0" "m_senderAccountId m \<noteq> trim owner"
  shows "ur_count (unreadSummary H (args_of owner e (e_lastReadByChannelId e))
      (map message_json (loadMessages H owner (nonEmpty H threadId) s'))) > 0"
proof -
  note eff = host_laws.markThreadRead_effect [OF assms(1,3,2)]
  have rows: "loadMessages H owner (nonEmpty H threadId) s' = loadMessages H owner (nonEmpty H threadId) s"
    using eff host_laws.loadMessages_saveRecord [OF assms(1)] by simp
  have wf: "wf_message m" using assms(2,4) by (simp add: log_ok_def rows_ok_def Let_def)
  let ?j = "message_json m" and ?at = "asInt H (num (m_createdAtMs m)) 0"
  have st: "nonEmpty H (getp ?j ''status'') = ''delivered''" and sd: "nonEmpty H (getp ?j ''senderAccountId'') = m_senderAccountId m"
    using wf assms(6) host_laws.nonEmpty_trimmed [OF assms(1)]
    by (simp_all add: message_json_def message_fields_def getp_def wf_message_def)
  have key: "asInt H (getp ?j ''createdAtMs'') 0 = ?at" "nonEmpty H (getp ?j ''messageId'') = m_messageId m"
    using host_laws.row_key [OF assms(1) wf] by (simp_all add: candidate_of_def)
  have mk: "channel_marker [] (messageChannelKey ?j) x y = (Undef, Undef)" for x y
    using assms(5) by (simp add: channel_marker_def)
  have "isKeyGreater H (num ?at) (Str (m_messageId m)) Undef Undef"
    using assms(8) host_laws.asInt_Undef [OF assms(1)] host_laws.asInt_num_whole [OF assms(1) host_laws.whole_asInt [OF assms(1)]]
    by (simp add: isKeyGreater_def compareMessageKey_def Let_def)
  then have "is_unread H (args_of owner e (e_lastReadByChannelId e)) ?j"
    using eff assms(7,9) by (simp add: is_unread_def args_of_def Let_def st sd key mk host_laws.nonEmpty_Str [OF assms(1)])
  then have "filter (is_unread H (args_of owner e (e_lastReadByChannelId e)))
      (map message_json (loadMessages H owner (nonEmpty H threadId) s)) \<noteq> []"
    using assms(4) by (simp add: filter_empty_conv) blast
  then show ?thesis unfolding rows host_laws.candidates_count [OF assms(1)] by (simp only: length_greater_0_conv simp_thms)
qed

definition constructor_message :: ChatMessage where
  "constructor_message = msg_a\<lparr>m_payload := Obj [(''channelId'', Str ''constructor'')]\<rparr>"

definition constructor_store :: "(string \<times> jsval) list" where
  "constructor_store = saveMessages HM ''me'' ''t1'' [constructor_message] []"

lemma constructor_rows: "rows_ok ''t1'' [constructor_message]" "sorted_by (compareNewestFirst HM) [constructor_message]"
  using wf_samples(1) by (simp_all add: rows_ok_def constructor_message_def wf_message_def getp_def)

lemma constructor_log: "log_ok HM ''me'' (nonEmpty HM (Str ''t1'')) constructor_store"
  "loadMessages HM ''me'' (nonEmpty HM (Str ''t1'')) constructor_store = [constructor_message]"
proof -
  show "log_ok HM ''me'' (nonEmpty HM (Str ''t1'')) constructor_store"
    unfolding constructor_store_def sample_ids by (rule memory.log_ok_save_same_order [OF constructor_rows])
  have "wf_message constructor_message" using constructor_rows(1) by (simp add: rows_ok_def)
  then show "loadMessages HM ''me'' (nonEmpty HM (Str ''t1'')) constructor_store = [constructor_message]"
    unfolding constructor_store_def sample_ids by (subst memory.load_save) (simp_all add: MAX_MESSAGES_PER_THREAD_def)
qed

theorem inherited_channel_stays_unread_instance:
  "\<exists>e s'. markThreadRead HM ''me'' (Str ''t1'') constructor_store = (Inr e, s')
     \<and> ur_count (unreadSummary HM (args_of ''me'' e (e_lastReadByChannelId e))
          (map message_json (loadMessages HM ''me'' (nonEmpty HM (Str ''t1'')) s'))) > 0"
proof -
  let ?r = "markThreadRead HM ''me'' (Str ''t1'') constructor_store"
  have "\<not> isl (fst ?r)" by code_simp
  note r = run_value [OF this]
  have "inherited (messageChannelKey (message_json constructor_message))" "m_status constructor_message = ''delivered''"
    "m_messageId constructor_message \<noteq> []" "0 < asInt HM (num (m_createdAtMs constructor_message)) 0"
    "m_senderAccountId constructor_message \<noteq> trim ''me''" by code_simp+
  from inherited_channel_stays_unread [OF HM_laws constructor_log(1) r _ this] r constructor_log(2) show ?thesis by auto
qed

end
