(* ===== verification/Records_Group.thy ===== *)
theory Records_Group
  imports Records_Thread
begin

text \<open>
  The records of groups, members, channels, contacts, connect requests and auto-minted invites
  (\<open>src/records/domain/ChatGroup.js\<close>, \<open>ChatGroupMember.js\<close>, \<open>ChatChannel.js\<close>,
  \<open>ChatContact.js\<close>, \<open>ConnectRequest.js\<close>, \<open>AutoMintedInvite.js\<close>): constructors,
  serialisation, and for each record what every constructed one satisfies (\<open>wf_\<close>) and that it is
  read back from its own row. Each JSON row is a list of fields; \<open>reads_back\<close> is the shared argument.
\<close>

section \<open>Shared coercions\<close>

text \<open>\<open>nonEmptyString(v) || null\<close>, and a string enumeration with a default.\<close>

definition nullableString :: "jsval \<Rightarrow> string option" where
  "nullableString v = (let t = nonEmptyString v in if t = [] then None else Some t)"

definition coerceOneOf :: "string list \<Rightarrow> string \<Rightarrow> string \<Rightarrow> jsval \<Rightarrow> js_error + string" where
  "coerceOneOf valid fallback msg v =
     (let t = nonEmptyString v; x = (if t = [] then fallback else t) in
      if x \<in> set valid then Inr x else Inl (Error msg))"

definition opt_trimmed :: "string option \<Rightarrow> bool" where
  "opt_trimmed x \<longleftrightarrow> (case x of None \<Rightarrow> True | Some t \<Rightarrow> trimmed t \<and> t \<noteq> [])"

lemma opt_trimmed_nullableString [simp, wf_intros]: "opt_trimmed (nullableString v)"
  by (simp add: opt_trimmed_def nullableString_def Let_def)

lemma nullableString_opt_str [simp]: "opt_trimmed x \<Longrightarrow> nullableString (opt_str x) = x"
  by (cases x) (simp_all add: opt_trimmed_def nullableString_def trimmed_eq)

lemma coerceOneOf_Inr: "coerceOneOf valid fb msg v = Inr x \<Longrightarrow> x \<in> set valid \<and> (trimmed fb \<longrightarrow> trimmed x)"
  by (auto simp: coerceOneOf_def Let_def split: if_splits)

lemma coerceOneOf_fix: "x \<in> set valid \<Longrightarrow> trimmed x \<Longrightarrow> x \<noteq> [] \<Longrightarrow> coerceOneOf valid fb msg (Str x) = Inr x"
  by (simp add: coerceOneOf_def trimmed_eq)

text \<open>
  A constructor that only looks at the fields of a row reads the record back from any object that
  agrees with the row on them, in particular from the row laid over a seed.
\<close>

lemma reads_back:
  assumes mk: "\<And>raw. raw \<noteq> Null \<Longrightarrow> \<forall>(k, v) \<in> set fs. getp raw k = v \<Longrightarrow> mk raw = Inr r"
    and dist: "distinct (map fst fs)" and defined: "\<forall>(k, v) \<in> set fs. v \<noteq> Undef"
  shows "mk (Obj fs) = Inr r" and "coerceRow mk (Some sd) (Obj fs) = Some r" and "coerceRow mk None (Obj fs) = Some r"
proof -
  show *: "mk (Obj fs) = Inr r" by (rule mk) (auto dest: getp_agree [OF dist, THEN bspec])
  then show "coerceRow mk None (Obj fs) = Some r" by (simp add: coerceRow_def)
  show "coerceRow mk (Some sd) (Obj fs) = Some r"
    by (rule coerceRow_fields [OF mk defined]) (use getp_spread_agree [OF dist] in auto)
qed

section \<open>ChatGroup\<close>

record ChatGroup =
  g_groupId :: string
  g_ownerAccountId :: string
  g_title :: string
  g_avatarFileHash :: string
  g_threadId :: string
  g_createdBy :: string
  g_joinedViaInviteId :: string
  g_creatorSalt :: string
  g_memberCount :: rat
  g_createdAtMs :: "rat option"
  g_updatedAtMs :: "rat option"

definition mkChatGroup :: "jsval \<Rightarrow> js_error + ChatGroup" where
  "mkChatGroup raw =
     (if raw = Null then Inl TypeError
      else let createdAtMs = optNumber (getp raw ''createdAtMs'') 0;
               g = \<lparr> g_groupId = nonEmptyString (getp raw ''groupId''),
                 g_ownerAccountId = nonEmptyString (getp raw ''ownerAccountId''),
                 g_title = nonEmptyString (getp raw ''title''),
                 g_avatarFileHash = nonEmptyString (getp raw ''avatarFileHash''),
                 g_threadId = nonEmptyString (getp raw ''threadId''),
                 g_createdBy = nonEmptyString (getp raw ''createdBy''),
                 g_joinedViaInviteId = nonEmptyString (getp raw ''joinedViaInviteId''),
                 g_creatorSalt = nonEmptyString (getp raw ''creatorSalt''),
                 g_memberCount = count_of (getp raw ''memberCount''),
                 g_createdAtMs = createdAtMs,
                 g_updatedAtMs = optNumberOr (getp raw ''updatedAtMs'') createdAtMs (zero_if_none createdAtMs) \<rparr>
        in if g_groupId g = [] then Inl (Error ''ChatGroup requires groupId'') else Inr g)"

definition group_fields :: "ChatGroup \<Rightarrow> (string \<times> jsval) list" where
  "group_fields g =
     [(''groupId'', Str (g_groupId g)), (''ownerAccountId'', Str (g_ownerAccountId g)), (''title'', Str (g_title g)),
      (''avatarFileHash'', Str (g_avatarFileHash g)), (''threadId'', Str (g_threadId g)),
      (''createdBy'', Str (g_createdBy g)), (''joinedViaInviteId'', Str (g_joinedViaInviteId g)),
      (''creatorSalt'', Str (g_creatorSalt g)), (''memberCount'', num (g_memberCount g)),
      (''createdAtMs'', opt_num (g_createdAtMs g)), (''updatedAtMs'', opt_num (g_updatedAtMs g))]"

definition group_json :: "ChatGroup \<Rightarrow> jsval" where
  "group_json g = Obj (group_fields g)"

definition wf_group :: "ChatGroup \<Rightarrow> bool" where
  "wf_group g \<longleftrightarrow> g_groupId g \<noteq> [] \<and> trimmed (g_groupId g) \<and> trimmed (g_ownerAccountId g) \<and> trimmed (g_title g)
     \<and> trimmed (g_avatarFileHash g) \<and> trimmed (g_threadId g) \<and> trimmed (g_createdBy g)
     \<and> trimmed (g_joinedViaInviteId g) \<and> trimmed (g_creatorSalt g)
     \<and> 0 \<le> g_memberCount g \<and> trunc (g_memberCount g) = g_memberCount g
     \<and> (g_updatedAtMs g = None \<longrightarrow> g_createdAtMs g = None)"

lemma mkChatGroup_wf: "mkChatGroup raw = Inr g \<Longrightarrow> wf_group g"
  by (auto simp: mkChatGroup_def wf_group_def Let_def optNumberOr_None split: if_splits)

lemma group_fields_dom: "distinct (map fst (group_fields g))" "\<forall>(k, v) \<in> set (group_fields g). v \<noteq> Undef"
  by (simp_all add: group_fields_def)

lemma mkChatGroup_agree:
  assumes "wf_group g" and "raw \<noteq> Null" and "\<forall>(k, v) \<in> set (group_fields g). getp raw k = v"
  shows "mkChatGroup raw = Inr g"
  using assms by (simp add: mkChatGroup_def wf_group_def group_fields_def Let_def trimmed_eq optNumberOr_opt_num)

lemmas group_back = reads_back [where mk = mkChatGroup, OF mkChatGroup_agree group_fields_dom]

section \<open>ChatGroupMember\<close>

definition GROUP_ROLES :: "string list" where
  "GROUP_ROLES = [''creator'', ''admin'', ''member'']"

definition GROUP_MEMBER_STATES :: "string list" where
  "GROUP_MEMBER_STATES = [''active'', ''left'', ''removed'']"

definition coerceGroupRole :: "string \<Rightarrow> jsval \<Rightarrow> js_error + string" where
  "coerceGroupRole fallback = coerceOneOf GROUP_ROLES fallback ''role must be creator|admin|member''"

definition coerceGroupMemberState :: "string \<Rightarrow> jsval \<Rightarrow> js_error + string" where
  "coerceGroupMemberState fallback = coerceOneOf GROUP_MEMBER_STATES fallback ''state must be active|left|removed''"

record ChatGroupMember =
  gm_ownerAccountId :: string
  gm_groupId :: string
  gm_accountId :: string
  gm_displayName :: "string option"
  gm_role :: string
  gm_state :: string
  gm_joinedAtMs :: "rat option"
  gm_updatedAtMs :: "rat option"
  gm_joinerSignerPublicKeyB64 :: "string option"
  gm_joinerSigB64 :: "string option"

definition mkChatGroupMember :: "jsval \<Rightarrow> js_error + ChatGroupMember" where
  "mkChatGroupMember raw =
     (if raw = Null then Inl TypeError
      else case coerceGroupRole ''member'' (getp raw ''role'') of Inl e \<Rightarrow> Inl e
      | Inr role \<Rightarrow> (case coerceGroupMemberState ''active'' (getp raw ''state'') of Inl e \<Rightarrow> Inl e
      | Inr state \<Rightarrow>
        let joinedAtMs = optNumber (getp raw ''joinedAtMs'') 0;
            m = \<lparr> gm_ownerAccountId = nonEmptyString (getp raw ''ownerAccountId''),
              gm_groupId = nonEmptyString (getp raw ''groupId''),
              gm_accountId = nonEmptyString (getp raw ''accountId''),
              gm_displayName = optString (getp raw ''displayName''),
              gm_role = role, gm_state = state, gm_joinedAtMs = joinedAtMs,
              gm_updatedAtMs = optNumberOr (getp raw ''updatedAtMs'') joinedAtMs (zero_if_none joinedAtMs),
              gm_joinerSignerPublicKeyB64 = nullableString (getp raw ''joinerSignerPublicKeyB64''),
              gm_joinerSigB64 = nullableString (getp raw ''joinerSigB64'') \<rparr>
        in if gm_groupId m = [] then Inl (Error ''ChatGroupMember requires groupId'')
           else if gm_accountId m = [] then Inl (Error ''ChatGroupMember requires accountId'') else Inr m))"

definition member_fields :: "ChatGroupMember \<Rightarrow> (string \<times> jsval) list" where
  "member_fields m =
     [(''ownerAccountId'', Str (gm_ownerAccountId m)), (''groupId'', Str (gm_groupId m)),
      (''accountId'', Str (gm_accountId m)), (''displayName'', opt_str (gm_displayName m)),
      (''role'', Str (gm_role m)), (''state'', Str (gm_state m)),
      (''joinedAtMs'', opt_num (gm_joinedAtMs m)), (''updatedAtMs'', opt_num (gm_updatedAtMs m)),
      (''joinerSignerPublicKeyB64'', opt_str (gm_joinerSignerPublicKeyB64 m)),
      (''joinerSigB64'', opt_str (gm_joinerSigB64 m))]"

definition member_json :: "ChatGroupMember \<Rightarrow> jsval" where
  "member_json m = Obj (member_fields m)"

definition wf_member :: "ChatGroupMember \<Rightarrow> bool" where
  "wf_member m \<longleftrightarrow> gm_groupId m \<noteq> [] \<and> gm_accountId m \<noteq> [] \<and> trimmed (gm_groupId m) \<and> trimmed (gm_accountId m)
     \<and> trimmed (gm_ownerAccountId m) \<and> gm_role m \<in> set GROUP_ROLES \<and> gm_state m \<in> set GROUP_MEMBER_STATES
     \<and> (gm_updatedAtMs m = None \<longrightarrow> gm_joinedAtMs m = None)
     \<and> opt_trimmed (gm_joinerSignerPublicKeyB64 m) \<and> opt_trimmed (gm_joinerSigB64 m)"

lemma coerceGroupRole_fix [simp]: "r \<in> set GROUP_ROLES \<Longrightarrow> coerceGroupRole fb (Str r) = Inr r"
  unfolding coerceGroupRole_def
  by (rule coerceOneOf_fix) (auto simp: GROUP_ROLES_def trimmed_iff is_ws_def)

lemma coerceGroupMemberState_fix [simp]: "st \<in> set GROUP_MEMBER_STATES \<Longrightarrow> coerceGroupMemberState fb (Str st) = Inr st"
  unfolding coerceGroupMemberState_def
  by (rule coerceOneOf_fix) (auto simp: GROUP_MEMBER_STATES_def trimmed_iff is_ws_def)

lemma coerceGroupRole_Inr: "coerceGroupRole fb v = Inr r \<Longrightarrow> r \<in> set GROUP_ROLES"
  by (auto simp: coerceGroupRole_def dest: coerceOneOf_Inr)

lemma coerceGroupMemberState_Inr: "coerceGroupMemberState fb v = Inr r \<Longrightarrow> r \<in> set GROUP_MEMBER_STATES"
  by (auto simp: coerceGroupMemberState_def dest: coerceOneOf_Inr)

lemma mkChatGroupMember_wf: "mkChatGroupMember raw = Inr m \<Longrightarrow> wf_member m"
  by (auto simp: mkChatGroupMember_def wf_member_def Let_def optNumberOr_None
      dest: coerceGroupRole_Inr coerceGroupMemberState_Inr split: if_splits sum.splits)

lemma member_fields_dom: "distinct (map fst (member_fields m))" "\<forall>(k, v) \<in> set (member_fields m). v \<noteq> Undef"
  by (simp_all add: member_fields_def)

lemma mkChatGroupMember_agree:
  assumes "wf_member m" and "raw \<noteq> Null" and "\<forall>(k, v) \<in> set (member_fields m). getp raw k = v"
  shows "mkChatGroupMember raw = Inr m"
  using assms
  by (simp add: mkChatGroupMember_def wf_member_def member_fields_def Let_def trimmed_eq optNumberOr_opt_num)

lemmas member_back = reads_back [where mk = mkChatGroupMember, OF mkChatGroupMember_agree member_fields_dom]

section \<open>ChatChannel\<close>

record ChatChannel =
  ch_channelId :: string
  ch_groupId :: string
  ch_ownerAccountId :: string
  ch_label :: string
  ch_createdAtMs :: "rat option"
  ch_deletedAtMs :: "rat option"

definition mkChatChannel :: "jsval \<Rightarrow> js_error + ChatChannel" where
  "mkChatChannel raw =
     (if raw = Null then Inl TypeError
      else let rawLabel = (if nullish (getp raw ''label'') then [] else js_string (getp raw ''label''));
               c = \<lparr> ch_channelId = nonEmptyString (getp raw ''channelId''),
                 ch_groupId = nonEmptyString (getp raw ''groupId''),
                 ch_ownerAccountId = nonEmptyString (getp raw ''ownerAccountId''),
                 ch_label = (if length rawLabel > 128 then take 128 rawLabel else rawLabel),
                 ch_createdAtMs = optNumber (getp raw ''createdAtMs'') 0,
                 ch_deletedAtMs = optNumber (getp raw ''deletedAtMs'') 0 \<rparr>
        in if ch_channelId c = [] then Inl (Error ''ChatChannel requires channelId'')
           else if ch_groupId c = [] then Inl (Error ''ChatChannel requires groupId'')
           else if ch_ownerAccountId c = [] then Inl (Error ''ChatChannel requires ownerAccountId'')
           else Inr c)"

definition channel_fields :: "ChatChannel \<Rightarrow> (string \<times> jsval) list" where
  "channel_fields c =
     [(''channelId'', Str (ch_channelId c)), (''groupId'', Str (ch_groupId c)),
      (''ownerAccountId'', Str (ch_ownerAccountId c)), (''label'', Str (ch_label c)),
      (''createdAtMs'', opt_num (ch_createdAtMs c)), (''deletedAtMs'', opt_num (ch_deletedAtMs c))]"

definition channel_json :: "ChatChannel \<Rightarrow> jsval" where
  "channel_json c = Obj (channel_fields c)"

definition wf_channel :: "ChatChannel \<Rightarrow> bool" where
  "wf_channel c \<longleftrightarrow> ch_channelId c \<noteq> [] \<and> trimmed (ch_channelId c) \<and> ch_groupId c \<noteq> [] \<and> trimmed (ch_groupId c)
     \<and> ch_ownerAccountId c \<noteq> [] \<and> trimmed (ch_ownerAccountId c) \<and> length (ch_label c) \<le> 128"

lemma mkChatChannel_wf: "mkChatChannel raw = Inr c \<Longrightarrow> wf_channel c"
  by (auto simp: mkChatChannel_def wf_channel_def Let_def split: if_splits)

lemma channel_fields_dom: "distinct (map fst (channel_fields c))" "\<forall>(k, v) \<in> set (channel_fields c). v \<noteq> Undef"
  by (simp_all add: channel_fields_def)

lemma mkChatChannel_agree:
  assumes "wf_channel c" and "raw \<noteq> Null" and "\<forall>(k, v) \<in> set (channel_fields c). getp raw k = v"
  shows "mkChatChannel raw = Inr c"
  using assms by (simp add: mkChatChannel_def wf_channel_def channel_fields_def Let_def trimmed_eq)

lemmas channel_back = reads_back [where mk = mkChatChannel, OF mkChatChannel_agree channel_fields_dom]

text \<open>\<open>sortChannelsAlpha\<close>: label or id without case, then by id.\<close>

definition compareChannels :: "'s host \<Rightarrow> ChatChannel \<Rightarrow> ChatChannel \<Rightarrow> rat" where
  "compareChannels H a b =
     (let name = (\<lambda>c. if ch_label c \<noteq> [] then ch_label c else ch_channelId c); cmp = baseCompare H (name a) (name b) in
      if cmp \<noteq> 0 then cmp else localeCompare H (ch_channelId a) (ch_channelId b))"

definition sortChannelsAlpha :: "'s host \<Rightarrow> ChatChannel list \<Rightarrow> ChatChannel list" where
  "sortChannelsAlpha H = sort_by (compareChannels H)"

section \<open>ChatContact\<close>

definition RELATIONSHIP_STATES :: "string list" where
  "RELATIONSHIP_STATES = [''known'', ''invited'', ''active'', ''blocked'']"

definition coerceRelationshipState :: "string \<Rightarrow> jsval \<Rightarrow> js_error + string" where
  "coerceRelationshipState fallback =
     coerceOneOf RELATIONSHIP_STATES fallback ''relationshipState must be known|invited|active|blocked''"

definition coerceDisplayName :: "jsval \<Rightarrow> js_error + string option" where
  "coerceDisplayName value =
     (if nullish value then Inr None
      else let t = trim (js_string value) in
        if t = [] then Inr None
        else if length t > 64 then Inl (Error ''displayName must be 64 chars or fewer'')
        else Inr (Some t))"

record ChatContact =
  co_accountId :: string
  co_displayName :: "string option"
  co_avatarFileHash :: string
  co_relationshipState :: string
  co_createdAtMs :: rat
  co_updatedAtMs :: rat
  co_lastSeenAtMs :: "rat option"

definition mkChatContact :: "rat \<Rightarrow> jsval \<Rightarrow> js_error + ChatContact" where
  "mkChatContact now raw =
     (if raw = Null then Inl TypeError
      else case coerceDisplayName (getp raw ''displayName'') of Inl e \<Rightarrow> Inl e
      | Inr displayName \<Rightarrow> (case coerceRelationshipState ''active'' (getp raw ''relationshipState'') of Inl e \<Rightarrow> Inl e
      | Inr state \<Rightarrow>
        let createdAtMs = toFiniteNumber (getp raw ''createdAtMs'') now;
            c = \<lparr> co_accountId = nonEmptyString (getp raw ''accountId''), co_displayName = displayName,
              co_avatarFileHash = nonEmptyString (getp raw ''avatarFileHash''), co_relationshipState = state,
              co_createdAtMs = createdAtMs, co_updatedAtMs = toFiniteNumber (getp raw ''updatedAtMs'') createdAtMs,
              co_lastSeenAtMs = optNumber (getp raw ''lastSeenAtMs'') now \<rparr>
        in if co_accountId c = [] then Inl (Error ''ChatContact requires accountId'') else Inr c))"

definition contact_fields :: "ChatContact \<Rightarrow> (string \<times> jsval) list" where
  "contact_fields c =
     [(''accountId'', Str (co_accountId c)), (''displayName'', opt_str (co_displayName c)),
      (''avatarFileHash'', Str (co_avatarFileHash c)), (''relationshipState'', Str (co_relationshipState c)),
      (''createdAtMs'', num (co_createdAtMs c)), (''updatedAtMs'', num (co_updatedAtMs c)),
      (''lastSeenAtMs'', opt_num (co_lastSeenAtMs c))]"

definition contact_json :: "ChatContact \<Rightarrow> jsval" where
  "contact_json c = Obj (contact_fields c)"

definition wf_contact :: "ChatContact \<Rightarrow> bool" where
  "wf_contact c \<longleftrightarrow> co_accountId c \<noteq> [] \<and> trimmed (co_accountId c) \<and> trimmed (co_avatarFileHash c)
     \<and> opt_trimmed (co_displayName c) \<and> (\<forall>t\<in>set_option (co_displayName c). length t \<le> 64)
     \<and> co_relationshipState c \<in> set RELATIONSHIP_STATES"

lemma coerceRelationshipState_fix [simp]: "r \<in> set RELATIONSHIP_STATES \<Longrightarrow> coerceRelationshipState fb (Str r) = Inr r"
  unfolding coerceRelationshipState_def
  by (rule coerceOneOf_fix) (auto simp: RELATIONSHIP_STATES_def trimmed_iff is_ws_def)

lemma coerceRelationshipState_Inr: "coerceRelationshipState fb v = Inr r \<Longrightarrow> r \<in> set RELATIONSHIP_STATES"
  by (auto simp: coerceRelationshipState_def dest: coerceOneOf_Inr)

lemma coerceDisplayName_Inr: "coerceDisplayName v = Inr d \<Longrightarrow> opt_trimmed d \<and> (\<forall>t\<in>set_option d. length t \<le> 64)"
  by (auto simp: coerceDisplayName_def opt_trimmed_def Let_def split: if_splits)

lemma coerceDisplayName_fix:
  "opt_trimmed d \<Longrightarrow> \<forall>t\<in>set_option d. length t \<le> 64 \<Longrightarrow> coerceDisplayName (opt_str d) = Inr d"
  by (cases d) (simp_all add: coerceDisplayName_def opt_trimmed_def trimmed_eq)

lemma mkChatContact_wf: "mkChatContact now raw = Inr c \<Longrightarrow> wf_contact c"
  unfolding mkChatContact_def
  by (auto simp: wf_contact_def Let_def dest: coerceRelationshipState_Inr coerceDisplayName_Inr split: if_splits sum.splits)

lemma contact_fields_dom: "distinct (map fst (contact_fields c))" "\<forall>(k, v) \<in> set (contact_fields c). v \<noteq> Undef"
  by (simp_all add: contact_fields_def)

lemma mkChatContact_agree:
  assumes "wf_contact c" and "raw \<noteq> Null" and "\<forall>(k, v) \<in> set (contact_fields c). getp raw k = v"
  shows "mkChatContact now raw = Inr c"
  using assms coerceDisplayName_fix [of "co_displayName c"]
  by (simp add: mkChatContact_def wf_contact_def contact_fields_def Let_def trimmed_eq)

lemmas contact_back = reads_back [where mk = "mkChatContact now" for now, OF mkChatContact_agree contact_fields_dom]

section \<open>ConnectRequest\<close>

definition CONNECT_REQUEST_DIRECTIONS :: "string list" where
  "CONNECT_REQUEST_DIRECTIONS = [''outgoing'', ''incoming'']"

definition CONNECT_REQUEST_STATES :: "string list" where
  "CONNECT_REQUEST_STATES = [''pending'', ''approved'', ''denied'']"

definition coerceConnectRequestDirection :: "jsval \<Rightarrow> js_error + string" where
  "coerceConnectRequestDirection v =
     (let t = nonEmptyString v in if t \<in> set CONNECT_REQUEST_DIRECTIONS then Inr t
      else Inl (Error ''ConnectRequest direction must be outgoing|incoming''))"

definition coerceConnectRequestState :: "string \<Rightarrow> jsval \<Rightarrow> js_error + string" where
  "coerceConnectRequestState fallback =
     coerceOneOf CONNECT_REQUEST_STATES fallback ''ConnectRequest state must be pending|approved|denied''"

record ConnectRequest =
  cr_peerAccountId :: string
  cr_direction :: string
  cr_requestId :: string
  cr_inviteCode :: "string option"
  cr_displayName :: "string option"
  cr_groupId :: "string option"
  cr_state :: string
  cr_createdAtMs :: rat
  cr_updatedAtMs :: rat

definition mkConnectRequest :: "rat \<Rightarrow> jsval \<Rightarrow> js_error + ConnectRequest" where
  "mkConnectRequest now raw =
     (if raw = Null then Inl TypeError
      else case coerceConnectRequestDirection (getp raw ''direction'') of Inl e \<Rightarrow> Inl e
      | Inr direction \<Rightarrow> (case coerceConnectRequestState ''pending'' (getp raw ''state'') of Inl e \<Rightarrow> Inl e
      | Inr state \<Rightarrow>
        let createdAtMs = toFiniteNumber (getp raw ''createdAtMs'') now;
            r = \<lparr> cr_peerAccountId = nonEmptyString (getp raw ''peerAccountId''), cr_direction = direction,
              cr_requestId = nonEmptyString (getp raw ''requestId''),
              cr_inviteCode = nullableString (getp raw ''inviteCode''),
              cr_displayName = nullableString (getp raw ''displayName''),
              cr_groupId = nullableString (getp raw ''groupId''), cr_state = state,
              cr_createdAtMs = createdAtMs, cr_updatedAtMs = toFiniteNumber (getp raw ''updatedAtMs'') createdAtMs \<rparr>
        in if cr_peerAccountId r = [] then Inl (Error ''ConnectRequest requires peerAccountId'')
           else if cr_requestId r = [] then Inl (Error ''ConnectRequest requires requestId'')
           else if cr_direction r = ''incoming'' \<and> cr_inviteCode r = None
           then Inl (Error ''ConnectRequest(incoming) requires inviteCode'') else Inr r))"

definition request_fields :: "ConnectRequest \<Rightarrow> (string \<times> jsval) list" where
  "request_fields r =
     [(''peerAccountId'', Str (cr_peerAccountId r)), (''direction'', Str (cr_direction r)),
      (''requestId'', Str (cr_requestId r)), (''inviteCode'', opt_str (cr_inviteCode r)),
      (''displayName'', opt_str (cr_displayName r)), (''groupId'', opt_str (cr_groupId r)),
      (''state'', Str (cr_state r)), (''createdAtMs'', num (cr_createdAtMs r)), (''updatedAtMs'', num (cr_updatedAtMs r))]"

definition request_json :: "ConnectRequest \<Rightarrow> jsval" where
  "request_json r = Obj (request_fields r)"

definition wf_request :: "ConnectRequest \<Rightarrow> bool" where
  "wf_request r \<longleftrightarrow> cr_peerAccountId r \<noteq> [] \<and> trimmed (cr_peerAccountId r) \<and> cr_requestId r \<noteq> []
     \<and> trimmed (cr_requestId r) \<and> cr_direction r \<in> set CONNECT_REQUEST_DIRECTIONS
     \<and> cr_state r \<in> set CONNECT_REQUEST_STATES \<and> (cr_direction r = ''incoming'' \<longrightarrow> cr_inviteCode r \<noteq> None)
     \<and> opt_trimmed (cr_inviteCode r) \<and> opt_trimmed (cr_displayName r) \<and> opt_trimmed (cr_groupId r)"

lemma coerceConnectRequestState_fix [simp]:
  "r \<in> set CONNECT_REQUEST_STATES \<Longrightarrow> coerceConnectRequestState fb (Str r) = Inr r"
  unfolding coerceConnectRequestState_def
  by (rule coerceOneOf_fix) (auto simp: CONNECT_REQUEST_STATES_def trimmed_iff is_ws_def)

lemma coerceConnectRequestState_Inr: "coerceConnectRequestState fb v = Inr r \<Longrightarrow> r \<in> set CONNECT_REQUEST_STATES"
  by (auto simp: coerceConnectRequestState_def dest: coerceOneOf_Inr)

lemma coerceConnectRequestDirection_fix [simp]:
  "r \<in> set CONNECT_REQUEST_DIRECTIONS \<Longrightarrow> coerceConnectRequestDirection (Str r) = Inr r"
  by (auto simp: coerceConnectRequestDirection_def CONNECT_REQUEST_DIRECTIONS_def trim_def is_ws_def)

lemma coerceConnectRequestDirection_Inr: "coerceConnectRequestDirection v = Inr r \<Longrightarrow> r \<in> set CONNECT_REQUEST_DIRECTIONS"
  by (auto simp: coerceConnectRequestDirection_def Let_def split: if_splits)

lemma mkConnectRequest_wf: "mkConnectRequest now raw = Inr r \<Longrightarrow> wf_request r"
  unfolding mkConnectRequest_def
  by (auto simp: wf_request_def Let_def dest: coerceConnectRequestState_Inr coerceConnectRequestDirection_Inr
      split: if_splits sum.splits) (metis opt_trimmed_nullableString)

lemma request_fields_dom: "distinct (map fst (request_fields r))" "\<forall>(k, v) \<in> set (request_fields r). v \<noteq> Undef"
  by (simp_all add: request_fields_def)

lemma mkConnectRequest_agree:
  assumes "wf_request r" and "raw \<noteq> Null" and "\<forall>(k, v) \<in> set (request_fields r). getp raw k = v"
  shows "mkConnectRequest now raw = Inr r"
  using assms by (simp add: mkConnectRequest_def wf_request_def request_fields_def Let_def trimmed_eq)

lemmas request_back = reads_back [where mk = "mkConnectRequest now" for now, OF mkConnectRequest_agree request_fields_dom]

section \<open>AutoMintedInvite\<close>

record AutoMintedInvite =
  ai_inviteId :: string
  ai_reason :: string
  ai_createdAtMs :: rat
  ai_expiresAtMs :: rat

definition mkAutoMintedInvite :: "rat \<Rightarrow> jsval \<Rightarrow> js_error + AutoMintedInvite" where
  "mkAutoMintedInvite now raw =
     (if raw = Null then Inl TypeError
      else let reason = nonEmptyString (getp raw ''reason'');
               createdAtMs = toFiniteNumber (getp raw ''createdAtMs'') now;
               i = \<lparr> ai_inviteId = nonEmptyString (getp raw ''inviteId''),
                 ai_reason = (if reason = [] then ''unspecified'' else reason), ai_createdAtMs = createdAtMs,
                 ai_expiresAtMs = toFiniteNumber (getp raw ''expiresAtMs'') createdAtMs \<rparr>
        in if ai_inviteId i = [] then Inl (Error ''AutoMintedInvite requires inviteId'') else Inr i)"

definition invite_fields :: "AutoMintedInvite \<Rightarrow> (string \<times> jsval) list" where
  "invite_fields i =
     [(''inviteId'', Str (ai_inviteId i)), (''reason'', Str (ai_reason i)),
      (''createdAtMs'', num (ai_createdAtMs i)), (''expiresAtMs'', num (ai_expiresAtMs i))]"

definition invite_json :: "AutoMintedInvite \<Rightarrow> jsval" where
  "invite_json i = Obj (invite_fields i)"

definition wf_invite :: "AutoMintedInvite \<Rightarrow> bool" where
  "wf_invite i \<longleftrightarrow> ai_inviteId i \<noteq> [] \<and> trimmed (ai_inviteId i) \<and> ai_reason i \<noteq> [] \<and> trimmed (ai_reason i)"

lemma trimmed_unspecified [simp]: "trimmed ''unspecified''"
  by (simp add: trimmed_iff is_ws_def)

lemma mkAutoMintedInvite_wf: "mkAutoMintedInvite now raw = Inr i \<Longrightarrow> wf_invite i"
  by (auto simp: mkAutoMintedInvite_def wf_invite_def Let_def split: if_splits)

lemma invite_fields_dom: "distinct (map fst (invite_fields i))" "\<forall>(k, v) \<in> set (invite_fields i). v \<noteq> Undef"
  by (simp_all add: invite_fields_def)

lemma mkAutoMintedInvite_agree:
  assumes "wf_invite i" and "raw \<noteq> Null" and "\<forall>(k, v) \<in> set (invite_fields i). getp raw k = v"
  shows "mkAutoMintedInvite now raw = Inr i"
  using assms by (simp add: mkAutoMintedInvite_def wf_invite_def invite_fields_def Let_def trimmed_eq)

lemmas invite_back = reads_back [where mk = "mkAutoMintedInvite now" for now, OF mkAutoMintedInvite_agree invite_fields_dom]

end
