(* ===== verification/KvTable.thy ===== *)
theory KvTable
  imports Records_Group ThreadStore
begin

text \<open>
  \<open>KvTable\<close> (\<open>src/server/storage/KvTable.js\<close>): rows of one record class under a key made of a
  prefix and parts, optionally hashed. The interface \<open>kv_table\<close> is the contract every store
  relies on: a row that is set is got back until it is set again or deleted.
\<close>

section \<open>Tables\<close>

record 'r table =
  tb_prefix :: string
  tb_hashLen :: "nat option"
  tb_label :: string
  tb_coerce :: "jsval \<Rightarrow> 'r option"
  tb_json :: "'r \<Rightarrow> jsval"

definition hashLen_of :: "rat \<Rightarrow> nat" where
  "hashLen_of n = (let t = trunc n in nat \<lfloor>max 8 (min 64 (if t = 0 then 24 else t))\<rfloor>)"

definition url_safe :: "char \<Rightarrow> char" where
  "url_safe c = (if c = CHR ''+'' then CHR ''-'' else if c = CHR ''/'' then CHR ''_'' else c)"

definition part :: "'s host \<Rightarrow> nat option \<Rightarrow> string \<Rightarrow> string" where
  "part H hashLen v =
     (let id = trim v in
      case hashLen of None \<Rightarrow> id
      | Some n \<Rightarrow> take n (rev (dropWhile (\<lambda>c. c = CHR ''='') (rev (map url_safe (sha256B64 H id))))))"

definition table_key :: "'s host \<Rightarrow> 'r table \<Rightarrow> string list \<Rightarrow> string" where
  "table_key H tb parts = tb_prefix tb @ join ''/'' (map (part H (tb_hashLen tb)) parts)"

definition prefixOf :: "'s host \<Rightarrow> 'r table \<Rightarrow> string list \<Rightarrow> string" where
  "prefixOf H tb parts =
     (if parts = [] then tb_prefix tb else tb_prefix tb @ join ''/'' (map (part H (tb_hashLen tb)) parts) @ ''/'')"

text \<open>\<open>_coerce\<close>: the record class under the seed, then the store's own validation.\<close>

definition table_coerce :: "(jsval \<Rightarrow> js_error + 'r) \<Rightarrow> (string \<times> jsval) list option \<Rightarrow> ('r \<Rightarrow> bool) \<Rightarrow> jsval \<Rightarrow> 'r option" where
  "table_coerce mk seed extraValidate raw =
     (case coerceRow mk seed raw of None \<Rightarrow> None | Some r \<Rightarrow> if extraValidate r then Some r else None)"

definition table_get :: "'s host \<Rightarrow> 'r table \<Rightarrow> string list \<Rightarrow> 's \<Rightarrow> 'r option" where
  "table_get H tb parts s = tb_coerce tb (kvGet H s (table_key H tb parts))"

definition table_set :: "'s host \<Rightarrow> 'r table \<Rightarrow> 'r \<Rightarrow> string list \<Rightarrow> 's \<Rightarrow> 's" where
  "table_set H tb r parts s = kvSet H s (table_key H tb parts) (tb_json tb r)"

text \<open>\<open>set(coerce(raw), ...)\<close>: a row that the coercion dropped is not an instance of the record.\<close>

definition table_put :: "'s host \<Rightarrow> 'r table \<Rightarrow> 'r option \<Rightarrow> string list \<Rightarrow> ('s, 'r) op" where
  "table_put H tb row parts s =
     (case row of None \<Rightarrow> throw (Error (tb_label tb @ ''.set requires a record instance'')) s
      | Some r \<Rightarrow> ok r (table_set H tb r parts s))"

definition table_delete :: "'s host \<Rightarrow> 'r table \<Rightarrow> string list \<Rightarrow> 's \<Rightarrow> 's" where
  "table_delete H tb parts s = kvDelete H s (table_key H tb parts)"

definition table_list :: "'s host \<Rightarrow> 'r table \<Rightarrow> string list \<Rightarrow> 's \<Rightarrow> 'r list" where
  "table_list H tb parts s =
     keepSome (\<lambda>k. tb_coerce tb (kvGet H s k)) (kvKeys H s (prefixOf H tb parts))"

text \<open>\<open>const owner = requireId(v, field)\<close> and the rest of the operation.\<close>

definition with_id :: "'s host \<Rightarrow> jsval \<Rightarrow> string \<Rightarrow> (string \<Rightarrow> ('s, 'a) op) \<Rightarrow> ('s, 'a) op" where
  "with_id H v field k s = (case requireId H v field of Inl e \<Rightarrow> throw e s | Inr t \<Rightarrow> k t s)"

text \<open>\<open>asInt(this.clock(), Date.now())\<close>.\<close>

definition now_of :: "'s host \<Rightarrow> rat" where
  "now_of H = asInt H (num (clockMs H)) (clockMs H)"

lemma with_id_Inr [simp]: "requireId H v field = Inr t \<Longrightarrow> with_id H v field k s = k t s"
  by (simp add: with_id_def)

lemma with_id_Inl [simp]: "requireId H v field = Inl e \<Longrightarrow> with_id H v field k s = (Inl e, s)"
  by (simp add: with_id_def throw_def)

section \<open>Keys\<close>

lemma hashLen_default [simp]: "hashLen_of 24 = 24"
  by (simp add: hashLen_of_def)

lemma hashLen_bounds: "8 \<le> hashLen_of n" "hashLen_of n \<le> 64"
proof -
  let ?x = "max 8 (min 64 (if trunc n = 0 then 24 else trunc n)) :: rat"
  have "(8::int) \<le> \<lfloor>?x\<rfloor>" by (simp add: le_floor_iff)
  moreover have "\<lfloor>?x\<rfloor> \<le> \<lfloor>64::rat\<rfloor>" by (rule floor_mono) simp
  ultimately show "8 \<le> hashLen_of n" "hashLen_of n \<le> 64"
    unfolding hashLen_of_def Let_def by linarith+
qed

lemma part_trim [simp]: "part H n (trim v) = part H n v"
  by (simp add: part_def)

lemma part_plain [simp]: "trimmed v \<Longrightarrow> part H None v = v"
  by (simp add: part_def trimmed_eq)

lemma no_slash_part: "CHR ''/'' \<notin> set (part H (Some n) v)"
proof
  assume "CHR ''/'' \<in> set (part H (Some n) v)"
  then have "CHR ''/'' \<in> set (map url_safe (sha256B64 H (trim v)))"
    by (auto simp: part_def Let_def dest!: in_set_takeD set_dropWhileD)
  then show False by (auto simp: url_safe_def split: if_splits)
qed

lemma append_sep_inj:
  "c \<notin> set a \<Longrightarrow> c \<notin> set b \<Longrightarrow> a @ c # x = b @ c # y \<longleftrightarrow> a = b \<and> x = y"
proof (induction a arbitrary: b)
  case Nil
  then show ?case by (cases b) auto
next
  case (Cons d a)
  then show ?case by (cases b) auto
qed

lemma join_Cons: "xs \<noteq> [] \<Longrightarrow> join sep (x # xs) = x @ sep @ join sep xs"
  by (cases xs) simp_all

lemma join_inj:
  assumes "length xs = length ys" and "\<forall>x\<in>set xs \<union> set ys. CHR ''/'' \<notin> set x"
  shows "join ''/'' xs = join ''/'' ys \<longleftrightarrow> xs = ys"
  using assms
proof (induction xs ys rule: list_induct2)
  case (Cons x xs y ys)
  show ?case
  proof (cases xs)
    case Nil
    then show ?thesis using Cons.hyps by simp
  next
    case (Cons x' xs')
    then have ne: "xs \<noteq> []" "ys \<noteq> []" using Cons.hyps by auto
    have "join ''/'' (x # xs) = join ''/'' (y # ys) \<longleftrightarrow> x = y \<and> join ''/'' xs = join ''/'' ys"
      using append_sep_inj [of "CHR ''/''" x y] Cons.prems by (simp add: join_Cons [OF ne(1)] join_Cons [OF ne(2)])
    then show ?thesis using Cons.IH Cons.prems by auto
  qed
qed simp

text \<open>Keys of a hashed table differ unless every part has the same truncated hash.\<close>

lemma hashed_key_eq:
  assumes "tb_hashLen tb = Some n" and "length ps = length qs"
  shows "table_key H tb ps = table_key H tb qs \<longleftrightarrow> map (part H (Some n)) ps = map (part H (Some n)) qs"
  using join_inj [of "map (part H (Some n)) ps" "map (part H (Some n)) qs"] assms no_slash_part [of H n]
  by (auto simp: table_key_def)

section \<open>The contract\<close>

locale kv_table = host_laws H for H :: "'s host" +
  fixes tb :: "'r table" and wf :: "'r \<Rightarrow> bool"
  assumes coerce_json: "wf r \<Longrightarrow> tb_coerce tb (tb_json tb r) = Some r"
    and coerce_wf: "tb_coerce tb v = Some r \<Longrightarrow> wf r"
    and coerce_nullish: "nullish v \<Longrightarrow> tb_coerce tb v = None"
begin

lemma get_wf: "table_get H tb ps s = Some r \<Longrightarrow> wf r"
  by (simp add: table_get_def coerce_wf)

lemma get_set_row:
  "wf r \<Longrightarrow> table_get H tb qs (table_set H tb r ps s)
    = (if table_key H tb qs = table_key H tb ps then Some r else table_get H tb qs s)"
  by (simp add: table_get_def table_set_def get_set coerce_json)

lemma get_set_same_row [simp]: "wf r \<Longrightarrow> table_get H tb ps (table_set H tb r ps s) = Some r"
  by (simp add: get_set_row)

lemma get_delete_row:
  "table_get H tb qs (table_delete H tb ps s)
    = (if table_key H tb qs = table_key H tb ps then None else table_get H tb qs s)"
  by (simp add: table_get_def table_delete_def get_delete coerce_nullish)

lemma get_frame [simp]: "k \<noteq> table_key H tb ps \<Longrightarrow> table_get H tb ps (kvSet H s k v) = table_get H tb ps s"
  by (auto simp: table_get_def get_set)

text \<open>A put stores a well-formed row or throws and changes nothing.\<close>

lemma put_cases:
  assumes "\<And>r. row = Some r \<Longrightarrow> wf r"
  shows "(\<exists>r. row = Some r \<and> table_put H tb row ps s = (Inr r, table_set H tb r ps s) \<and> wf r)
    \<or> row = None \<and> (\<exists>e. table_put H tb row ps s = (Inl e, s))"
  using assms by (cases row) (auto simp: table_put_def ok_def throw_def)

text \<open>The rows of a listing are the rows stored under its prefix.\<close>

lemma list_iff:
  "r \<in> set (table_list H tb ps s)
    \<longleftrightarrow> (\<exists>k. prefix (prefixOf H tb ps) k \<and> tb_coerce tb (kvGet H s k) = Some r)"
  using coerce_nullish by (force simp: table_list_def set_keepSome keys)

lemma list_wf: "r \<in> set (table_list H tb ps s) \<Longrightarrow> wf r"
  by (auto simp: list_iff coerce_wf)

lemma get_in_list:
  assumes "table_get H tb (ps @ [p]) s = Some r" and "ps \<noteq> []"
  shows "r \<in> set (table_list H tb ps s)"
proof -
  have "join ''/'' (map f (ps @ [p])) = join ''/'' (map f ps) @ ''/'' @ f p" for f :: "string \<Rightarrow> string"
    using \<open>ps \<noteq> []\<close>
  proof (induction ps)
    case (Cons x xs)
    then show ?case by (cases "xs = []") (simp_all add: join_Cons)
  qed simp
  then have "prefix (prefixOf H tb ps) (table_key H tb (ps @ [p]))"
    using \<open>ps \<noteq> []\<close> by (simp add: prefixOf_def table_key_def)
  then show ?thesis using assms(1) by (auto simp: list_iff table_get_def)
qed

end

text \<open>The tables built by \<open>coerceRow\<close> under a seed keep the contract.\<close>

lemma kv_table_rows:
  assumes "host_laws H"
    and reads: "\<And>r. w r \<Longrightarrow> coerceRow mk seed (json r) = Some r" and wf: "\<And>raw r. mk raw = Inr r \<Longrightarrow> w r"
    and tb: "tb_coerce tb = table_coerce mk seed ev" "tb_json tb = json"
  shows "kv_table H tb (\<lambda>r. w r \<and> ev r)"
proof (intro kv_table.intro kv_table_axioms.intro assms(1))
  show "w r \<and> ev r \<Longrightarrow> tb_coerce tb (tb_json tb r) = Some r" for r
    by (simp add: tb table_coerce_def reads)
  show "tb_coerce tb v = Some r \<Longrightarrow> w r \<and> ev r" for v r
    using wf by (auto simp: tb table_coerce_def coerceRow_def split: option.splits if_splits sum.splits)
  show "nullish v \<Longrightarrow> tb_coerce tb v = None" for v
    by (cases v) (simp_all add: tb table_coerce_def coerceRow_def)
qed

end
