(* ===== verification/GroupStore.thy ===== *)
theory GroupStore
  imports KvTable
begin

text \<open>
  \<open>GroupStore\<close> (\<open>src/server/storage/ChatGroupStore.js\<close>): the groups of an owner and their
  memberships. A membership is created active, changes state only by \<open>removeMember\<close> and comes back
  only by \<open>reviveMembership\<close>; theory \<open>GroupLife\<close> has that life cycle as an abstract machine. With it
  the decision of \<open>ServerGroupAuthzGate\<close> and the lookup of \<open>GlobalGroupLookup\<close>, which read the store.
\<close>

section \<open>Tables\<close>

definition GROUP_PREFIX :: string where "GROUP_PREFIX = ''app:groups/''"
definition GROUP_INDEX_PREFIX :: string where "GROUP_INDEX_PREFIX = ''app:groupIndex/''"
definition MEMBERSHIP_PREFIX :: string where "MEMBERSHIP_PREFIX = ''app:groupMembership/''"

definition groups_table :: "'s host \<Rightarrow> ChatGroup table" where
  "groups_table H = \<lparr> tb_prefix = GROUP_PREFIX, tb_hashLen = Some (hashLen_of 24), tb_label = ''ChatGroupStore.groups'',
     tb_coerce = table_coerce mkChatGroup (Some [(''createdAtMs'', num (clockMs H))]) (\<lambda>g. g_ownerAccountId g \<noteq> []),
     tb_json = group_json \<rparr>"

definition memberships_table :: "'s host \<Rightarrow> ChatGroupMember table" where
  "memberships_table H = \<lparr> tb_prefix = MEMBERSHIP_PREFIX, tb_hashLen = Some (hashLen_of 24),
     tb_label = ''ChatGroupStore.memberships'',
     tb_coerce = table_coerce mkChatGroupMember (Some [(''joinedAtMs'', num (clockMs H))]) (\<lambda>m. gm_ownerAccountId m \<noteq> []),
     tb_json = member_json \<rparr>"

sublocale host_laws \<subseteq> groups: kv_table H "groups_table H" "\<lambda>g. wf_group g \<and> g_ownerAccountId g \<noteq> []"
  by (rule kv_table_rows [where mk = mkChatGroup and json = group_json])
    (auto simp: groups_table_def group_json_def group_back mkChatGroup_wf host_laws_axioms)

sublocale host_laws \<subseteq> memberships: kv_table H "memberships_table H" "\<lambda>m. wf_member m \<and> gm_ownerAccountId m \<noteq> []"
  by (rule kv_table_rows [where mk = mkChatGroupMember and json = member_json])
    (auto simp: memberships_table_def member_json_def member_back mkChatGroupMember_wf host_laws_axioms)

text \<open>\<open>sortByUpdatedThen\<close>: newest first, then by the secondary id.\<close>

definition byUpdatedThen :: "'s host \<Rightarrow> ('r \<Rightarrow> rat option) \<Rightarrow> ('r \<Rightarrow> string) \<Rightarrow> 'r \<Rightarrow> 'r \<Rightarrow> rat" where
  "byUpdatedThen H updated secondary a b =
     (if updated a \<noteq> updated b then zero_if_none (updated b) - zero_if_none (updated a)
      else localeCompare H (secondary a) (secondary b))"

text \<open>\<open>typeof v === "string" && v.trim() ? v.trim() : null\<close>, and a part of the consent proof.\<close>

definition trimmed_or_null :: "jsval \<Rightarrow> string option" where
  "trimmed_or_null v = (let t = trim (string_or_empty v) in if t = [] then None else Some t)"

definition proof_part :: "jsval \<Rightarrow> string \<Rightarrow> string" where
  "proof_part joinProof field = trim (string_or_empty (getp joinProof field))"

definition null_if_empty :: "string \<Rightarrow> jsval" where
  "null_if_empty t = (if t = [] then Null else Str t)"

section \<open>Groups\<close>

definition ensureGroup :: "'s host \<Rightarrow> jsval \<Rightarrow> jsval \<Rightarrow> jsval \<Rightarrow> jsval \<Rightarrow> jsval \<Rightarrow> jsval \<Rightarrow> ('s, ChatGroup \<times> bool) op" where
  "ensureGroup H ownerAccountId groupId createdBy title joinedViaInviteId creatorSalt =
     with_id H ownerAccountId ''ownerAccountId'' (\<lambda>owner. with_id H groupId ''groupId'' (\<lambda>gid.
     with_id H createdBy ''createdBy'' (\<lambda>creator s.
       case table_get H (groups_table H) [owner, gid] s of
         Some existing \<Rightarrow> ok (existing, False) s
       | None \<Rightarrow>
         (case tb_coerce (groups_table H) (Obj [(''ownerAccountId'', Str owner), (''groupId'', Str gid),
             (''createdAtMs'', num (now_of H)), (''updatedAtMs'', num (now_of H)), (''title'', title),
             (''createdBy'', Str creator), (''joinedViaInviteId'', Str (trim (string_or_empty joinedViaInviteId))),
             (''creatorSalt'', Str (trim (string_or_empty creatorSalt)))]) of
            None \<Rightarrow> throw (Error ''ChatGroupStore.ensureGroup produced invalid row'') s
          | Some created \<Rightarrow> ok (created, True)
              (kvSet H (table_set H (groups_table H) created [owner, gid] s) (GROUP_INDEX_PREFIX @ gid)
                (Obj [(''ownerAccountId'', Str owner), (''groupId'', Str gid)]))))))"

definition getGroup :: "'s host \<Rightarrow> jsval \<Rightarrow> jsval \<Rightarrow> ('s, ChatGroup option) op" where
  "getGroup H ownerAccountId groupId =
     with_id H ownerAccountId ''ownerAccountId'' (\<lambda>owner. with_id H groupId ''groupId'' (\<lambda>gid.
       reads (table_get H (groups_table H) [owner, gid])))"

definition listGroups :: "'s host \<Rightarrow> jsval \<Rightarrow> ('s, ChatGroup list) op" where
  "listGroups H ownerAccountId = with_id H ownerAccountId ''ownerAccountId'' (\<lambda>owner.
     reads (\<lambda>s. sort_by (byUpdatedThen H g_updatedAtMs g_groupId) (table_list H (groups_table H) [owner] s)))"

text \<open>\<open>{ ...existing.toJSON(), ...changes }\<close> through the table's coercion, then stored.\<close>

definition restamp_group :: "'s host \<Rightarrow> (string \<times> jsval) list \<Rightarrow> ChatGroup \<Rightarrow> ChatGroup option" where
  "restamp_group H changes existing =
     tb_coerce (groups_table H) (Obj (spread (group_fields existing) (changes @ [(''updatedAtMs'', num (now_of H))])))"

definition renameGroup :: "'s host \<Rightarrow> jsval \<Rightarrow> jsval \<Rightarrow> jsval \<Rightarrow> ('s, ChatGroup option \<times> bool) op" where
  "renameGroup H ownerAccountId groupId title =
     with_id H ownerAccountId ''ownerAccountId'' (\<lambda>owner. with_id H groupId ''groupId'' (\<lambda>gid s.
       case table_get H (groups_table H) [owner, gid] s of
         None \<Rightarrow> ok (None, False) s
       | Some existing \<Rightarrow>
         let newTitle = trim (string_or_empty title) in
         if newTitle = [] then throw (Error ''renameGroup requires non-empty title'') s
         else andThen (table_put H (groups_table H) (restamp_group H [(''title'', Str newTitle)] existing) [owner, gid])
           (\<lambda>updated. ok (Some updated, True)) s))"

definition setGroupAvatar :: "'s host \<Rightarrow> jsval \<Rightarrow> jsval \<Rightarrow> jsval \<Rightarrow> ('s, ChatGroup option \<times> bool) op" where
  "setGroupAvatar H ownerAccountId groupId avatarFileHash =
     with_id H ownerAccountId ''ownerAccountId'' (\<lambda>owner. with_id H groupId ''groupId'' (\<lambda>gid s.
       case table_get H (groups_table H) [owner, gid] s of
         None \<Rightarrow> ok (None, False) s
       | Some existing \<Rightarrow>
         andThen (table_put H (groups_table H)
             (restamp_group H [(''avatarFileHash'', Str (trim (string_or_empty avatarFileHash)))] existing) [owner, gid])
           (\<lambda>updated. ok (Some updated, True)) s))"

section \<open>Memberships\<close>

record memberResult =
  mr_membership :: "ChatGroupMember option"
  mr_created :: bool
  mr_upgraded :: bool

definition restamp_member :: "'s host \<Rightarrow> (string \<times> jsval) list \<Rightarrow> ChatGroupMember \<Rightarrow> ChatGroupMember option" where
  "restamp_member H changes existing = tb_coerce (memberships_table H) (Obj (spread (member_fields existing) changes))"

definition new_member :: "'s host \<Rightarrow> string \<Rightarrow> string \<Rightarrow> string \<Rightarrow> jsval \<Rightarrow> string option \<Rightarrow> jsval \<Rightarrow> ChatGroupMember option" where
  "new_member H owner gid member role name joinProof =
     tb_coerce (memberships_table H) (Obj [(''ownerAccountId'', Str owner), (''groupId'', Str gid), (''accountId'', Str member),
       (''role'', role), (''state'', Str ''active''), (''displayName'', opt_str name),
       (''joinedAtMs'', num (now_of H)), (''updatedAtMs'', num (now_of H)),
       (''joinerSignerPublicKeyB64'', null_if_empty (proof_part joinProof ''joinerSignerPublicKeyB64'')),
       (''joinerSigB64'', null_if_empty (proof_part joinProof ''joinerSigB64''))])"

definition ensureMembership :: "'s host \<Rightarrow> jsval \<Rightarrow> jsval \<Rightarrow> jsval \<Rightarrow> jsval \<Rightarrow> jsval \<Rightarrow> jsval \<Rightarrow> ('s, memberResult) op" where
  "ensureMembership H ownerAccountId groupId accountId role displayName joinProof =
     with_id H ownerAccountId ''ownerAccountId'' (\<lambda>owner. with_id H groupId ''groupId'' (\<lambda>gid.
     with_id H accountId ''accountId'' (\<lambda>member s.
       let proofPub = proof_part joinProof ''joinerSignerPublicKeyB64''; proofSig = proof_part joinProof ''joinerSigB64'';
           name = trimmed_or_null displayName
       in case table_get H (memberships_table H) [owner, gid, member] s of
            Some existing \<Rightarrow>
              let hasProof = (gm_joinerSigB64 existing \<noteq> None) in
              if proofPub \<noteq> [] \<and> proofSig \<noteq> [] \<and> \<not> hasProof
              then andThen (table_put H (memberships_table H) (restamp_member H
                     ((case name of None \<Rightarrow> [] | Some n \<Rightarrow> [(''displayName'', Str n)])
                      @ [(''joinerSignerPublicKeyB64'', Str proofPub), (''joinerSigB64'', Str proofSig)]) existing) [owner, gid, member])
                   (\<lambda>upgraded. ok \<lparr> mr_membership = Some upgraded, mr_created = False, mr_upgraded = True \<rparr>) s
              else ok \<lparr> mr_membership = Some existing, mr_created = False, mr_upgraded = False \<rparr> s
          | None \<Rightarrow>
              (case new_member H owner gid member role name joinProof of
                 None \<Rightarrow> throw (Error ''ChatGroupStore.ensureMembership produced invalid row'') s
               | Some created \<Rightarrow> ok \<lparr> mr_membership = Some created, mr_created = True, mr_upgraded = False \<rparr>
                   (table_set H (memberships_table H) created [owner, gid, member] s)))))"

definition reviveMembership ::
  "'s host \<Rightarrow> jsval \<Rightarrow> jsval \<Rightarrow> jsval \<Rightarrow> jsval \<Rightarrow> jsval \<Rightarrow> jsval \<Rightarrow> ('s, ChatGroupMember option \<times> bool) op" where
  "reviveMembership H ownerAccountId groupId accountId role displayName joinProof =
     with_id H ownerAccountId ''ownerAccountId'' (\<lambda>owner. with_id H groupId ''groupId'' (\<lambda>gid.
     with_id H accountId ''accountId'' (\<lambda>member s.
       let proofPub = proof_part joinProof ''joinerSignerPublicKeyB64''; proofSig = proof_part joinProof ''joinerSigB64'';
           existing = table_get H (memberships_table H) [owner, gid, member] s
       in if (case existing of None \<Rightarrow> True | Some m \<Rightarrow> toLowerCase (gm_state m) \<noteq> ''removed'') then ok (existing, False) s
          else (case restamp_member H ([(''role'', role), (''state'', Str ''active'')]
                 @ (case trimmed_or_null displayName of None \<Rightarrow> [] | Some n \<Rightarrow> [(''displayName'', Str n)])
                 @ (if proofPub \<noteq> [] \<and> proofSig \<noteq> []
                    then [(''joinerSignerPublicKeyB64'', Str proofPub), (''joinerSigB64'', Str proofSig)] else [])
                 @ [(''updatedAtMs'', num (now_of H))]) (the existing) of
               None \<Rightarrow> throw (Error ''ChatGroupStore.reviveMembership produced invalid row'') s
             | Some revived \<Rightarrow> ok (Some revived, True) (table_set H (memberships_table H) revived [owner, gid, member] s)))))"

definition getMembership :: "'s host \<Rightarrow> jsval \<Rightarrow> jsval \<Rightarrow> jsval \<Rightarrow> ('s, ChatGroupMember option) op" where
  "getMembership H ownerAccountId groupId accountId =
     with_id H ownerAccountId ''ownerAccountId'' (\<lambda>owner. with_id H groupId ''groupId'' (\<lambda>gid.
     with_id H accountId ''accountId'' (\<lambda>member. reads (table_get H (memberships_table H) [owner, gid, member]))))"

definition listMembers :: "'s host \<Rightarrow> jsval \<Rightarrow> jsval \<Rightarrow> ('s, ChatGroupMember list) op" where
  "listMembers H ownerAccountId groupId =
     with_id H ownerAccountId ''ownerAccountId'' (\<lambda>owner. with_id H groupId ''groupId'' (\<lambda>gid.
       reads (\<lambda>s. sort_by (byUpdatedThen H gm_updatedAtMs gm_accountId) (table_list H (memberships_table H) [owner, gid] s))))"

definition is_active :: "ChatGroupMember option \<Rightarrow> bool" where
  "is_active m \<longleftrightarrow> (case m of None \<Rightarrow> False | Some x \<Rightarrow> toLowerCase (gm_state x) = ''active'')"

definition isCoMember :: "'s host \<Rightarrow> jsval \<Rightarrow> jsval \<Rightarrow> ('s, bool) op" where
  "isCoMember H ownerAccountId accountId =
     with_id H ownerAccountId ''ownerAccountId'' (\<lambda>owner s.
       let other = trim (string_or_empty accountId) in
       if other = [] \<or> other = owner then ok False s
       else andThen (listGroups H (Str owner)) (\<lambda>groups.
         reads (\<lambda>s. \<exists>g\<in>set groups. is_active (table_get H (memberships_table H) [owner, g_groupId g, other] s))) s)"

definition setMemberRole :: "'s host \<Rightarrow> jsval \<Rightarrow> jsval \<Rightarrow> jsval \<Rightarrow> jsval \<Rightarrow> ('s, ChatGroupMember option \<times> bool) op" where
  "setMemberRole H ownerAccountId groupId accountId role =
     with_id H ownerAccountId ''ownerAccountId'' (\<lambda>owner. with_id H groupId ''groupId'' (\<lambda>gid.
     with_id H accountId ''accountId'' (\<lambda>member.
     andThen (lift_result (coerceGroupRole ''member'' role)) (\<lambda>validRole s.
       case table_get H (memberships_table H) [owner, gid, member] s of
         None \<Rightarrow> ok (None, False) s
       | Some existing \<Rightarrow>
         andThen (table_put H (memberships_table H)
             (restamp_member H [(''role'', Str validRole), (''updatedAtMs'', num (now_of H))] existing) [owner, gid, member])
           (\<lambda>next. ok (Some next, True)) s))))"

definition removeMember :: "'s host \<Rightarrow> jsval \<Rightarrow> jsval \<Rightarrow> jsval \<Rightarrow> ('s, ChatGroupMember option \<times> bool) op" where
  "removeMember H ownerAccountId groupId accountId =
     with_id H ownerAccountId ''ownerAccountId'' (\<lambda>owner. with_id H groupId ''groupId'' (\<lambda>gid.
     with_id H accountId ''accountId'' (\<lambda>member s.
       case table_get H (memberships_table H) [owner, gid, member] s of
         None \<Rightarrow> ok (None, False) s
       | Some existing \<Rightarrow>
         andThen (table_put H (memberships_table H)
             (restamp_member H [(''state'', Str ''removed''), (''updatedAtMs'', num (now_of H))] existing) [owner, gid, member])
           (\<lambda>next. ok (Some next, True)) s)))"

section \<open>The gate and the global lookup\<close>

datatype verdict = Pass | Defer | Drop

definition GROUP_OP_KIND :: string where "GROUP_OP_KIND = ''rez.group-op.v1''"

definition evaluateGate :: "'s host \<Rightarrow> string \<Rightarrow> ChatThread option \<Rightarrow> jsval \<Rightarrow> jsval \<Rightarrow> bool \<Rightarrow> 's \<Rightarrow> verdict \<times> string" where
  "evaluateGate H ownerAccountId thread inboundKind authedSender redelivering s =
     (case thread of None \<Rightarrow> (Pass, [])
      | Some t \<Rightarrow>
        if \<not> (t_threadType t = ''group'' \<and> inboundKind \<noteq> Str GROUP_OP_KIND) then (Pass, [])
        else let groupId = trim (t_groupId t); sender = trim (string_or_empty authedSender);
                 membership = (if groupId \<noteq> [] \<and> sender \<noteq> []
                   then (case fst (getMembership H (Str ownerAccountId) (Str groupId) (Str sender) s) of
                      Inl _ \<Rightarrow> None | Inr m \<Rightarrow> m) else None)
             in if is_active membership then (Pass, groupId)
                else if membership = None \<and> sender \<noteq> [] \<and> groupId \<noteq> [] \<and> \<not> redelivering then (Defer, groupId)
                else (Drop, groupId))"

record ownerLookup =
  ol_exists :: bool
  ol_owner :: "string option"

text \<open>The scan of the slow path: the first row that names the group decides.\<close>

fun scan_groups :: "'s host \<Rightarrow> string \<Rightarrow> string list \<Rightarrow> ('s, ownerLookup) op" where
  "scan_groups H gid [] s = ok \<lparr> ol_exists = False, ol_owner = None \<rparr> s"
| "scan_groups H gid (key # keys) s =
     (let raw = kvGet H s key in
      if \<not> is_object raw then scan_groups H gid keys s
      else if nonEmptyString (getp raw ''groupId'') \<noteq> gid then scan_groups H gid keys s
      else let owner = nonEmptyString (getp raw ''accountId'') in
        if owner \<noteq> [] then ok \<lparr> ol_exists = True, ol_owner = Some owner \<rparr>
          (kvSet H s (GROUP_INDEX_PREFIX @ gid) (Obj [(''ownerAccountId'', Str owner), (''groupId'', Str gid)]))
        else ok \<lparr> ol_exists = True, ol_owner = None \<rparr> s)"

definition resolveOwnerByGroupId :: "'s host \<Rightarrow> jsval \<Rightarrow> ('s, ownerLookup) op" where
  "resolveOwnerByGroupId H groupId s =
     (let gid = trim (string_or_empty groupId) in
      if gid = [] then ok \<lparr> ol_exists = False, ol_owner = None \<rparr> s
      else let indexEntry = kvGet H s (GROUP_INDEX_PREFIX @ gid);
               owner = (if is_object indexEntry then trim (string_or_empty (getp indexEntry ''ownerAccountId'')) else [])
      in andThen (if owner = [] then ok None else getGroup H (Str owner) (Str gid))
           (\<lambda>group. if group \<noteq> None then ok \<lparr> ol_exists = True, ol_owner = Some owner \<rparr>
              else (\<lambda>s. scan_groups H gid (kvKeys H s GROUP_PREFIX) s)) s)"

end
