(* ===== verification/GroupLife.thy ===== *)
theory GroupLife
  imports GroupStore
begin

text \<open>
  The life cycle of a membership. \<open>membership_step\<close> is the machine the store promises for one
  row: a member joins as active, may be removed, and is active again only by an explicit revival.
  \<open>exec_slot_step\<close> shows that every operation of the store is, on every membership row, an idle step
  or the event it names; \<open>run_removed_sticks\<close> is the consequence for whole runs.
\<close>

section \<open>The machine\<close>

datatype membership_event = Join | Remove | Revive | SetRole | Keep

text \<open>A row abstracted to its role and state.\<close>

inductive membership_step :: "membership_event \<Rightarrow> (string \<times> string) option \<Rightarrow> (string \<times> string) option \<Rightarrow> bool" where
  join: "membership_step Join None (Some (r, ''active''))"
| remove: "membership_step Remove (Some (r, st)) (Some (r, ''removed''))"
| revive: "membership_step Revive (Some (r, ''removed'')) (Some (r', ''active''))"
| setRole: "membership_step SetRole (Some (r, st)) (Some (r', st))"
| keep: "membership_step Keep x x"

inductive_cases membership_from_SomeE: "membership_step e (Some (r, st)) y"

lemma step_never_forgets: "membership_step e (Some (r, st)) y \<Longrightarrow> y \<noteq> None"
  by (erule membership_from_SomeE) simp_all

lemma step_removed_sticks:
  "membership_step e (Some (r, ''removed'')) y \<Longrightarrow> e \<noteq> Revive \<Longrightarrow> \<exists>r'. y = Some (r', ''removed'')"
  by (erule membership_from_SomeE) simp_all

section \<open>Calls\<close>

datatype group_call =
    EnsureGroup jsval jsval jsval jsval jsval jsval
  | RenameGroup jsval jsval jsval
  | SetGroupAvatar jsval jsval jsval
  | EnsureMembership jsval jsval jsval jsval jsval jsval
  | ReviveMembership jsval jsval jsval jsval jsval jsval
  | SetMemberRole jsval jsval jsval jsval
  | RemoveMember jsval jsval jsval

fun exec_group :: "'s host \<Rightarrow> group_call \<Rightarrow> 's \<Rightarrow> 's" where
  "exec_group H (EnsureGroup a b c d e f) s = snd (ensureGroup H a b c d e f s)"
| "exec_group H (RenameGroup a b c) s = snd (renameGroup H a b c s)"
| "exec_group H (SetGroupAvatar a b c) s = snd (setGroupAvatar H a b c s)"
| "exec_group H (EnsureMembership a b c d e f) s = snd (ensureMembership H a b c d e f s)"
| "exec_group H (ReviveMembership a b c d e f) s = snd (reviveMembership H a b c d e f s)"
| "exec_group H (SetMemberRole a b c d) s = snd (setMemberRole H a b c d s)"
| "exec_group H (RemoveMember a b c) s = snd (removeMember H a b c s)"

fun run_groups :: "'s host \<Rightarrow> (rat \<times> group_call) list \<Rightarrow> 's \<Rightarrow> 's" where
  "run_groups H [] s = s"
| "run_groups H ((now, c) # cs) s = run_groups H cs (exec_group (H\<lparr>clockMs := now\<rparr>) c s)"

fun event_of :: "group_call \<Rightarrow> membership_event" where
  "event_of (EnsureMembership _ _ _ _ _ _) = Join"
| "event_of (ReviveMembership _ _ _ _ _ _) = Revive"
| "event_of (SetMemberRole _ _ _ _) = SetRole"
| "event_of (RemoveMember _ _ _) = Remove"
| "event_of _ = Keep"

text \<open>The row a call on a member names; with a truncated hash two members may share a row.\<close>

definition member_key :: "'s host \<Rightarrow> string \<Rightarrow> string \<Rightarrow> string \<Rightarrow> string" where
  "member_key H owner gid member = table_key H (memberships_table H) [owner, gid, member]"

fun names_row :: "'s host \<Rightarrow> group_call \<Rightarrow> string \<Rightarrow> bool" where
  "names_row H (EnsureMembership a b c _ _ _) key \<longleftrightarrow> (\<exists>owner gid member. requireId H a ''ownerAccountId'' = Inr owner
     \<and> requireId H b ''groupId'' = Inr gid \<and> requireId H c ''accountId'' = Inr member \<and> key = member_key H owner gid member)"
| "names_row H (ReviveMembership a b c _ _ _) key \<longleftrightarrow> (\<exists>owner gid member. requireId H a ''ownerAccountId'' = Inr owner
     \<and> requireId H b ''groupId'' = Inr gid \<and> requireId H c ''accountId'' = Inr member \<and> key = member_key H owner gid member)"
| "names_row H (SetMemberRole a b c _) key \<longleftrightarrow> (\<exists>owner gid member. requireId H a ''ownerAccountId'' = Inr owner
     \<and> requireId H b ''groupId'' = Inr gid \<and> requireId H c ''accountId'' = Inr member \<and> key = member_key H owner gid member)"
| "names_row H (RemoveMember a b c) key \<longleftrightarrow> (\<exists>owner gid member. requireId H a ''ownerAccountId'' = Inr owner
     \<and> requireId H b ''groupId'' = Inr gid \<and> requireId H c ''accountId'' = Inr member \<and> key = member_key H owner gid member)"
| "names_row H _ key \<longleftrightarrow> False"

definition member_at :: "'s host \<Rightarrow> string \<Rightarrow> 's \<Rightarrow> ChatGroupMember option" where
  "member_at H key s = tb_coerce (memberships_table H) (kvGet H s key)"

definition status_at :: "'s host \<Rightarrow> string \<Rightarrow> 's \<Rightarrow> (string \<times> string) option" where
  "status_at H key s = map_option (\<lambda>m. (gm_role m, gm_state m)) (member_at H key s)"

section \<open>Rows written by the store\<close>

text \<open>Changes of existing fields rewrite them in place.\<close>

lemma spread_state: "spread (member_fields m) [(''state'', Str st), (''updatedAtMs'', num t)]
    = member_fields (m\<lparr>gm_state := st, gm_updatedAtMs := Some t\<rparr>)"
  by (simp add: spread_def member_fields_def)

lemma spread_role: "spread (member_fields m) [(''role'', Str r), (''updatedAtMs'', num t)]
    = member_fields (m\<lparr>gm_role := r, gm_updatedAtMs := Some t\<rparr>)"
  by (simp add: spread_def member_fields_def)

lemma spread_proof: "spread (member_fields m) ((case name of None \<Rightarrow> [] | Some n \<Rightarrow> [(''displayName'', Str n)])
      @ [(''joinerSignerPublicKeyB64'', Str p), (''joinerSigB64'', Str q)])
    = member_fields (m\<lparr>gm_displayName := (case name of None \<Rightarrow> gm_displayName m | Some n \<Rightarrow> Some n),
        gm_joinerSignerPublicKeyB64 := Some p, gm_joinerSigB64 := Some q\<rparr>)"
  by (cases name) (simp_all add: spread_def member_fields_def)

lemma restamp_member_fields:
  assumes "spread (member_fields m) changes = member_fields m'" and "wf_member m'" and "gm_ownerAccountId m' \<noteq> []"
  shows "restamp_member H changes m = Some m'"
  using assms by (simp add: restamp_member_def memberships_table_def table_coerce_def member_back)

lemma states_valid [simp]: "''active'' \<in> set GROUP_MEMBER_STATES" "''removed'' \<in> set GROUP_MEMBER_STATES"
  by (simp_all add: GROUP_MEMBER_STATES_def)

lemma state_lower: "st \<in> set GROUP_MEMBER_STATES \<Longrightarrow> toLowerCase st = st"
  by (auto simp: GROUP_MEMBER_STATES_def toLowerCase_def lower_char_def)

text \<open>What the coercion of a row does not look at: the seed; what it takes from it: the state.\<close>

lemma member_state_read:
  assumes "mkChatGroupMember raw = Inr m"
  shows "coerceGroupMemberState ''active'' (getp raw ''state'') = Inr (gm_state m)"
  using assms by (auto simp: mkChatGroupMember_def Let_def split: if_splits sum.splits)

lemma member_state_of_row:
  assumes c: "tb_coerce (memberships_table H) (Obj fs) = Some m" and d: "distinct (map fst fs)"
    and st: "map_of fs ''state'' = Some (Str st)" "st \<in> set GROUP_MEMBER_STATES"
  shows "gm_state m = st"
proof -
  let ?fs = "filter (\<lambda>(_, v). v \<noteq> Undef) fs"
  have "mkChatGroupMember (Obj (spread [(''joinedAtMs'', num (clockMs H))] ?fs)) = Inr m"
    using c by (auto simp: memberships_table_def table_coerce_def coerceRow_def own_props_def split: option.splits if_splits sum.splits)
  from member_state_read [OF this] have "coerceGroupMemberState ''active''
      (getp (Obj (spread [(''joinedAtMs'', num (clockMs H))] ?fs)) ''state'') = Inr (gm_state m)" .
  moreover have df: "distinct (map fst ?fs)" using d by (induction fs) auto
  moreover have "map_of ?fs ''state'' = Some (Str st)"
    using map_of_SomeD [OF st(1)] df by (intro map_of_is_SomeI) auto
  ultimately show ?thesis using st(2) by (simp add: getp_spread)
qed

text \<open>Role and state are read the same whatever the clock says.\<close>

lemma getp_seed: "k \<noteq> ''joinedAtMs'' \<Longrightarrow>
  getp (Obj (spread [(''joinedAtMs'', num b)] fs)) k = getp (Obj (spread [(''joinedAtMs'', num a)] fs)) k"
  by (simp add: getp_def map_of_spread split: option.split)

lemma member_seed:
  assumes "mkChatGroupMember (Obj (spread [(''joinedAtMs'', num a)] fs)) = Inr m"
  shows "\<exists>m'. mkChatGroupMember (Obj (spread [(''joinedAtMs'', num b)] fs)) = Inr m' \<and> gm_role m' = gm_role m
    \<and> gm_state m' = gm_state m \<and> gm_ownerAccountId m' = gm_ownerAccountId m"
  using assms
  by (auto simp: mkChatGroupMember_def Let_def getp_seed [of _ b fs a] split: if_splits sum.splits)

lemma member_coerce_clock:
  assumes "tb_coerce (memberships_table (H\<lparr>clockMs := a\<rparr>)) v = Some m"
  shows "\<exists>m'. tb_coerce (memberships_table (H\<lparr>clockMs := b\<rparr>)) v = Some m' \<and> gm_role m' = gm_role m \<and> gm_state m' = gm_state m"
proof -
  let ?fs = "filter (\<lambda>(_, x). x \<noteq> Undef) (own_props v)"
  have v: "is_object v" and m: "mkChatGroupMember (Obj (spread [(''joinedAtMs'', num a)] ?fs)) = Inr m"
    and ow: "gm_ownerAccountId m \<noteq> []"
    using assms by (auto simp: memberships_table_def table_coerce_def coerceRow_def split: option.splits if_splits sum.splits)
  from member_seed [OF m, of b] obtain m' where "mkChatGroupMember (Obj (spread [(''joinedAtMs'', num b)] ?fs)) = Inr m'"
    "gm_role m' = gm_role m" "gm_state m' = gm_state m" "gm_ownerAccountId m' = gm_ownerAccountId m" by blast
  with v ow show ?thesis by (simp add: memberships_table_def table_coerce_def coerceRow_def)
qed

lemma status_clock: "status_at (H\<lparr>clockMs := now\<rparr>) key s = status_at H key s"
proof -
  have *: "H\<lparr>clockMs := clockMs H\<rparr> = H" by simp
  show ?thesis
    using member_coerce_clock [of now H "kvGet H s key" _ "clockMs H"] member_coerce_clock [of "clockMs H" H "kvGet H s key" _ now]
    unfolding * status_at_def member_at_def
    by (cases "tb_coerce (memberships_table H) (kvGet H s key)";
        cases "tb_coerce (memberships_table (H\<lparr>clockMs := now\<rparr>)) (kvGet H s key)") fastforce+
qed

section \<open>Refinement\<close>

context host_laws
begin

definition row_step :: "string \<Rightarrow> bool \<Rightarrow> membership_event \<Rightarrow> 's \<Rightarrow> 's \<Rightarrow> bool" where
  "row_step key named ev s s' \<longleftrightarrow>
     (\<exists>e. (e = Keep \<or> named \<and> e = ev) \<and> membership_step e (status_at H key s) (status_at H key s'))"

lemma row_step_same: "status_at H key s' = status_at H key s \<Longrightarrow> row_step key n ev s s'"
  by (auto simp: row_step_def intro: membership_step.keep)

text \<open>Membership rows are apart from the rows and the index of the groups.\<close>

lemma keys_apart_members:
  "table_key H (groups_table H) ps \<noteq> member_key H a b c" "GROUP_INDEX_PREFIX @ g \<noteq> member_key H a b c"
  by (simp_all add: table_key_def groups_table_def memberships_table_def member_key_def GROUP_PREFIX_def
      MEMBERSHIP_PREFIX_def GROUP_INDEX_PREFIX_def)

lemma status_other: "k \<noteq> key \<Longrightarrow> status_at H key (kvSet H s k v) = status_at H key s"
  by (auto simp: status_at_def member_at_def get_set)

lemma status_group_write [simp]:
  "status_at H (member_key H a b c) (table_set H (groups_table H) r ps s) = status_at H (member_key H a b c) s"
  unfolding table_set_def by (rule status_other [OF keys_apart_members(1)])

lemma status_index_write [simp]:
  "status_at H (member_key H a b c) (kvSet H s (GROUP_INDEX_PREFIX @ g) v) = status_at H (member_key H a b c) s"
  by (rule status_other [OF keys_apart_members(2)])

lemma status_put_group [simp]:
  "status_at H (member_key H a b c) (snd (table_put H (groups_table H) row ps s)) = status_at H (member_key H a b c) s"
  by (cases row) (simp_all add: table_put_def throw_def ok_def)

lemma snd_andThen_done: "(\<And>x s'. snd (f x s') = s') \<Longrightarrow> snd (andThen m f s) = snd (m s)"
  by (auto simp: andThen_def split: prod.split sum.split)

lemma group_ops_keep:
  "status_at H (member_key H a b c) (snd (ensureGroup H o1 g cr t j cs s)) = status_at H (member_key H a b c) s"
  "status_at H (member_key H a b c) (snd (renameGroup H o1 g t s)) = status_at H (member_key H a b c) s"
  "status_at H (member_key H a b c) (snd (setGroupAvatar H o1 g t s)) = status_at H (member_key H a b c) s"
  by (auto simp: ensureGroup_def renameGroup_def setGroupAvatar_def with_id_def throw_def ok_def snd_andThen_done Let_def
      split: sum.split option.split)

text \<open>Writing a membership row: the named row takes the new status, the others keep theirs.\<close>

lemma status_member_write:
  assumes "wf_member r" and "gm_ownerAccountId r \<noteq> []"
  shows "status_at H key (table_set H (memberships_table H) r [owner, gid, member] s)
    = (if key = member_key H owner gid member then Some (gm_role r, gm_state r) else status_at H key s)"
  using assms memberships.coerce_json [of r]
  by (simp add: status_at_def member_at_def table_set_def member_key_def get_set)

lemma row_step_write:
  assumes "wf_member r" and "gm_ownerAccountId r \<noteq> []"
    and "key = member_key H owner gid member \<Longrightarrow> n \<and> membership_step ev (status_at H key s) (Some (gm_role r, gm_state r))"
  shows "row_step key n ev s (table_set H (memberships_table H) r [owner, gid, member] s)"
  using assms(3)
  by (cases "key = member_key H owner gid member")
    (auto simp: row_step_def status_member_write [OF assms(1,2)] intro: membership_step.keep)

lemma status_row:
  "table_get H (memberships_table H) [owner, gid, member] s = x \<Longrightarrow>
   status_at H (member_key H owner gid member) s = map_option (\<lambda>m. (gm_role m, gm_state m)) x"
  by (simp add: status_at_def member_at_def member_key_def table_get_def)

lemma member_get_wf:
  "table_get H (memberships_table H) ps s = Some m \<Longrightarrow> wf_member m \<and> gm_ownerAccountId m \<noteq> []"
  using memberships.get_wf by blast

lemma restamp_wf: "restamp_member H ch m = Some r \<Longrightarrow> wf_member r \<and> gm_ownerAccountId r \<noteq> []"
  unfolding restamp_member_def by (rule memberships.coerce_wf)

lemma wf_member_state: "wf_member m \<Longrightarrow> st \<in> set GROUP_MEMBER_STATES \<Longrightarrow> wf_member (m\<lparr>gm_state := st, gm_updatedAtMs := Some t\<rparr>)"
  by (simp add: wf_member_def)

lemma wf_member_role: "wf_member m \<Longrightarrow> r \<in> set GROUP_ROLES \<Longrightarrow> wf_member (m\<lparr>gm_role := r, gm_updatedAtMs := Some t\<rparr>)"
  by (simp add: wf_member_def)

lemma remove_refines:
  "row_step key (names_row H (RemoveMember a b c) key) Remove s (snd (removeMember H a b c s))"
proof (cases "\<exists>owner gid member m. requireId H a ''ownerAccountId'' = Inr owner \<and> requireId H b ''groupId'' = Inr gid
    \<and> requireId H c ''accountId'' = Inr member \<and> table_get H (memberships_table H) [owner, gid, member] s = Some m")
  case True
  then obtain owner gid member m where ids: "requireId H a ''ownerAccountId'' = Inr owner" "requireId H b ''groupId'' = Inr gid"
    "requireId H c ''accountId'' = Inr member" and m: "table_get H (memberships_table H) [owner, gid, member] s = Some m" by blast
  let ?m = "m\<lparr>gm_state := ''removed'', gm_updatedAtMs := Some (now_of H)\<rparr>"
  have wf: "wf_member ?m" "gm_ownerAccountId ?m \<noteq> []" using member_get_wf [OF m] wf_member_state by auto
  have "snd (removeMember H a b c s) = table_set H (memberships_table H) ?m [owner, gid, member] s"
    using restamp_member_fields [OF spread_state [of m "''removed''" "now_of H"] wf, of H]
    by (simp add: removeMember_def ids m table_put_def andThen_def ok_def)
  moreover have "names_row H (RemoveMember a b c) key \<longleftrightarrow> key = member_key H owner gid member" by (simp add: ids)
  ultimately show ?thesis
    by (simp only:) (rule row_step_write [OF wf], use status_row [OF m] in \<open>auto intro: membership_step.remove\<close>)
next
  case False
  then have "snd (removeMember H a b c s) = s"
    by (auto simp: removeMember_def with_id_def throw_def ok_def split: sum.split option.split)
  then show ?thesis by (simp add: row_step_same)
qed

lemma role_refines:
  "row_step key (names_row H (SetMemberRole a b c r) key) SetRole s (snd (setMemberRole H a b c r s))"
proof (cases "\<exists>owner gid member m vr. requireId H a ''ownerAccountId'' = Inr owner \<and> requireId H b ''groupId'' = Inr gid
    \<and> requireId H c ''accountId'' = Inr member \<and> coerceGroupRole ''member'' r = Inr vr
    \<and> table_get H (memberships_table H) [owner, gid, member] s = Some m")
  case True
  then obtain owner gid member m vr where ids: "requireId H a ''ownerAccountId'' = Inr owner" "requireId H b ''groupId'' = Inr gid"
    "requireId H c ''accountId'' = Inr member" "coerceGroupRole ''member'' r = Inr vr"
    and m: "table_get H (memberships_table H) [owner, gid, member] s = Some m" by blast
  let ?m = "m\<lparr>gm_role := vr, gm_updatedAtMs := Some (now_of H)\<rparr>"
  have wf: "wf_member ?m" "gm_ownerAccountId ?m \<noteq> []"
    using member_get_wf [OF m] wf_member_role coerceGroupRole_Inr [OF ids(4)] by auto
  have "snd (setMemberRole H a b c r s) = table_set H (memberships_table H) ?m [owner, gid, member] s"
    using restamp_member_fields [OF spread_role [of m vr "now_of H"] wf, of H]
    by (simp add: setMemberRole_def ids m table_put_def andThen_def ok_def lift_result_def)
  moreover have "names_row H (SetMemberRole a b c r) key \<longleftrightarrow> key = member_key H owner gid member" by (simp add: ids)
  ultimately show ?thesis
    by (simp only:) (rule row_step_write [OF wf], use status_row [OF m] in \<open>auto intro: membership_step.setRole\<close>)
next
  case False
  then have "snd (setMemberRole H a b c r s) = s"
    by (auto simp: setMemberRole_def with_id_def throw_def ok_def andThen_def lift_result_def split: sum.split option.split)
  then show ?thesis by (simp add: row_step_same)
qed

lemma new_member_row:
  assumes "new_member H owner gid member role name pf = Some r"
  shows "wf_member r \<and> gm_ownerAccountId r \<noteq> [] \<and> gm_state r = ''active''"
  using assms memberships.coerce_wf [of _ r] unfolding new_member_def
  by (auto intro!: member_state_of_row [of H _ r])

lemma ensure_cases:
  assumes ids: "requireId H a ''ownerAccountId'' = Inr owner" "requireId H b ''groupId'' = Inr gid"
    "requireId H c ''accountId'' = Inr member"
  shows "snd (ensureMembership H a b c role nm pf s) = s
    \<or> (\<exists>m r. table_get H (memberships_table H) [owner, gid, member] s = Some m \<and> wf_member r \<and> gm_ownerAccountId r \<noteq> []
        \<and> gm_role r = gm_role m \<and> gm_state r = gm_state m
        \<and> snd (ensureMembership H a b c role nm pf s) = table_set H (memberships_table H) r [owner, gid, member] s)
    \<or> (\<exists>r. table_get H (memberships_table H) [owner, gid, member] s = None \<and> wf_member r \<and> gm_ownerAccountId r \<noteq> []
        \<and> gm_state r = ''active''
        \<and> snd (ensureMembership H a b c role nm pf s) = table_set H (memberships_table H) r [owner, gid, member] s)"
proof (cases "table_get H (memberships_table H) [owner, gid, member] s")
  case None
  show ?thesis
  proof (cases "new_member H owner gid member role (trimmed_or_null nm) pf")
    case (Some r)
    then show ?thesis using new_member_row [OF Some] None by (auto simp: ensureMembership_def ids ok_def Let_def)
  qed (use None in \<open>simp add: ensureMembership_def ids throw_def Let_def\<close>)
next
  case m: (Some m)
  let ?p = "proof_part pf ''joinerSignerPublicKeyB64''" and ?q = "proof_part pf ''joinerSigB64''"
  show ?thesis
  proof (cases "?p \<noteq> [] \<and> ?q \<noteq> [] \<and> gm_joinerSigB64 m = None")
    case True
    let ?r = "m\<lparr>gm_displayName := (case trimmed_or_null nm of None \<Rightarrow> gm_displayName m | Some n \<Rightarrow> Some n),
        gm_joinerSignerPublicKeyB64 := Some ?p, gm_joinerSigB64 := Some ?q\<rparr>"
    have "trimmed ?p" "trimmed ?q" by (simp_all add: proof_part_def)
    then have wf: "wf_member ?r" "gm_ownerAccountId ?r \<noteq> []"
      using member_get_wf [OF m] True by (simp_all add: wf_member_def opt_trimmed_def)
    have "snd (ensureMembership H a b c role nm pf s) = table_set H (memberships_table H) ?r [owner, gid, member] s"
      using restamp_member_fields [OF spread_proof wf, of H] True
      by (simp add: ensureMembership_def ids m table_put_def andThen_def ok_def Let_def)
    then show ?thesis using wf m by auto
  qed (auto simp: ensureMembership_def ids m ok_def Let_def)
qed

lemma ensure_refines:
  "row_step key (names_row H (EnsureMembership a b c role nm pf) key) Join s (snd (ensureMembership H a b c role nm pf s))"
proof (cases "\<exists>owner gid member. requireId H a ''ownerAccountId'' = Inr owner \<and> requireId H b ''groupId'' = Inr gid
    \<and> requireId H c ''accountId'' = Inr member")
  case True
  then obtain owner gid member where ids: "requireId H a ''ownerAccountId'' = Inr owner" "requireId H b ''groupId'' = Inr gid"
    "requireId H c ''accountId'' = Inr member" by blast
  have names: "names_row H (EnsureMembership a b c role nm pf) key \<longleftrightarrow> key = member_key H owner gid member" by (simp add: ids)
  show ?thesis
    unfolding names using ensure_cases [OF ids, of role nm pf s]
  proof (elim disjE exE conjE)
    fix m r assume m: "table_get H (memberships_table H) [owner, gid, member] s = Some m" and wf: "wf_member r" "gm_ownerAccountId r \<noteq> []"
      and same: "gm_role r = gm_role m" "gm_state r = gm_state m"
      and w: "snd (ensureMembership H a b c role nm pf s) = table_set H (memberships_table H) r [owner, gid, member] s"
    have "status_at H key (snd (ensureMembership H a b c role nm pf s)) = status_at H key s"
      using status_row [OF m] same by (simp add: w status_member_write [OF wf])
    then show "row_step key (key = member_key H owner gid member) Join s (snd (ensureMembership H a b c role nm pf s))"
      by (rule row_step_same)
  next
    fix r assume m: "table_get H (memberships_table H) [owner, gid, member] s = None" and wf: "wf_member r" "gm_ownerAccountId r \<noteq> []"
      and st: "gm_state r = ''active''"
      and w: "snd (ensureMembership H a b c role nm pf s) = table_set H (memberships_table H) r [owner, gid, member] s"
    show "row_step key (key = member_key H owner gid member) Join s (snd (ensureMembership H a b c role nm pf s))"
      unfolding w by (rule row_step_write [OF wf]) (use status_row [OF m] st in \<open>auto intro: membership_step.join\<close>)
  qed (simp add: row_step_same)
next
  case False
  then have "snd (ensureMembership H a b c role nm pf s) = s"
    by (auto simp: ensureMembership_def with_id_def throw_def split: sum.split)
  then show ?thesis by (simp add: row_step_same)
qed

lemma revive_row:
  assumes m: "wf_member m"
    and r: "restamp_member H ([(''role'', role), (''state'', Str ''active'')]
      @ (case name of None \<Rightarrow> [] | Some n \<Rightarrow> [(''displayName'', Str n)])
      @ (if b then [(''joinerSignerPublicKeyB64'', Str p), (''joinerSigB64'', Str q)] else [])
      @ [(''updatedAtMs'', num t)]) m = Some r"
  shows "gm_state r = ''active''"
proof -
  let ?ch = "[(''role'', role), (''state'', Str ''active'')] @ (case name of None \<Rightarrow> [] | Some n \<Rightarrow> [(''displayName'', Str n)])
      @ (if b then [(''joinerSignerPublicKeyB64'', Str p), (''joinerSigB64'', Str q)] else []) @ [(''updatedAtMs'', num t)]"
  have "distinct (map fst (spread (member_fields m) ?ch))" "map_of (spread (member_fields m) ?ch) ''state'' = Some (Str ''active'')"
    by (cases name; simp add: spread_def member_fields_def)+
  then show ?thesis using r unfolding restamp_member_def by (intro member_state_of_row) auto
qed

lemma revive_refines:
  "row_step key (names_row H (ReviveMembership a b c role nm pf) key) Revive s (snd (reviveMembership H a b c role nm pf s))"
proof (cases "\<exists>owner gid member. requireId H a ''ownerAccountId'' = Inr owner \<and> requireId H b ''groupId'' = Inr gid
    \<and> requireId H c ''accountId'' = Inr member")
  case True
  then obtain owner gid member where ids: "requireId H a ''ownerAccountId'' = Inr owner" "requireId H b ''groupId'' = Inr gid"
    "requireId H c ''accountId'' = Inr member" by blast
  have names: "names_row H (ReviveMembership a b c role nm pf) key \<longleftrightarrow> key = member_key H owner gid member" by (simp add: ids)
  show ?thesis
  proof (cases "\<exists>m. table_get H (memberships_table H) [owner, gid, member] s = Some m \<and> gm_state m = ''removed''")
    case True
    then obtain m where m: "table_get H (memberships_table H) [owner, gid, member] s = Some m" "gm_state m = ''removed''" by blast
    let ?p = "proof_part pf ''joinerSignerPublicKeyB64''" and ?q = "proof_part pf ''joinerSigB64''"
    have lower: "toLowerCase ''removed'' = ''removed''" by (rule state_lower) simp
    show ?thesis
    proof (cases "restamp_member H ([(''role'', role), (''state'', Str ''active'')]
        @ (case trimmed_or_null nm of None \<Rightarrow> [] | Some n \<Rightarrow> [(''displayName'', Str n)])
        @ (if ?p \<noteq> [] \<and> ?q \<noteq> [] then [(''joinerSignerPublicKeyB64'', Str ?p), (''joinerSigB64'', Str ?q)] else [])
        @ [(''updatedAtMs'', num (now_of H))]) m")
      case None
      then have "snd (reviveMembership H a b c role nm pf s) = s"
        by (simp add: reviveMembership_def ids m lower throw_def Let_def)
      then show ?thesis by (simp add: row_step_same)
    next
      case (Some r)
      then have w: "snd (reviveMembership H a b c role nm pf s) = table_set H (memberships_table H) r [owner, gid, member] s"
        by (simp add: reviveMembership_def ids m lower ok_def Let_def)
      have "wf_member m" using member_get_wf [OF m(1)] by simp
      then have st: "gm_state r = ''active''" by (rule revive_row [OF _ Some])
      show ?thesis
        unfolding names w
        by (rule row_step_write [OF restamp_wf [OF Some, THEN conjunct1] restamp_wf [OF Some, THEN conjunct2]])
          (use status_row [OF m(1)] m(2) st in \<open>auto intro: membership_step.revive\<close>)
    qed
  next
    case False
    have "toLowerCase (gm_state m) \<noteq> ''removed''"
      if "table_get H (memberships_table H) [owner, gid, member] s = Some m" for m
      using that False member_get_wf [OF that] by (auto simp: wf_member_def state_lower)
    then have "snd (reviveMembership H a b c role nm pf s) = s"
      by (cases "table_get H (memberships_table H) [owner, gid, member] s") (auto simp: reviveMembership_def ids ok_def Let_def)
    then show ?thesis by (simp add: row_step_same)
  qed
next
  case False
  then have "snd (reviveMembership H a b c role nm pf s) = s"
    by (auto simp: reviveMembership_def with_id_def throw_def split: sum.split)
  then show ?thesis by (simp add: row_step_same)
qed

lemma exec_row_step:
  "row_step (member_key H o1 g m) (names_row H call (member_key H o1 g m)) (event_of call) s (exec_group H call s)"
  using ensure_refines revive_refines role_refines remove_refines
  by (cases call) (simp_all add: row_step_same group_ops_keep)

end

lemma run_removed_sticks:
  assumes "host_laws H"
    and "\<forall>(now, c) \<in> set cs. event_of c = Revive \<longrightarrow> \<not> names_row H c (member_key H owner gid member)"
    and "status_at H (member_key H owner gid member) s = Some (r, ''removed'')"
  shows "\<exists>r'. status_at H (member_key H owner gid member) (run_groups H cs s) = Some (r', ''removed'')"
  using assms(2,3)
proof (induction cs arbitrary: s r)
  case (Cons x cs)
  obtain now c where x: "x = (now, c)" by force
  let ?H = "H\<lparr>clockMs := now\<rparr>" and ?key = "member_key H owner gid member"
  have laws: "host_laws ?H" by (rule host_laws.host_laws_clock [OF assms(1)])
  have key: "member_key ?H owner gid member = ?key"
    by (simp add: member_key_def table_key_def memberships_table_def part_def)
  have names: "names_row ?H c k = names_row H c k" for k
    by (cases c) (simp_all add: member_key_def table_key_def memberships_table_def part_def)
  obtain e where e: "e = Keep \<or> names_row H c ?key \<and> e = event_of c"
    "membership_step e (status_at H ?key s) (status_at H ?key (exec_group ?H c s))"
    using host_laws.exec_row_step [OF laws, of owner gid member c s]
    by (auto simp: host_laws.row_step_def [OF laws] key names status_clock)
  have "e \<noteq> Revive" using e(1) Cons.prems(1) by (auto simp: x)
  then obtain r' where "status_at H ?key (exec_group ?H c s) = Some (r', ''removed'')"
    using step_removed_sticks [OF e(2) [unfolded Cons.prems(2)]] by blast
  then show ?case using Cons.IH Cons.prems(1) by (simp add: x)
qed simp

end
