(* ===== verification/GroupProperties.thy ===== *)
theory GroupProperties
  imports GroupLife Samples
begin

text \<open>
  The properties of the group store, with their instances on the in-memory host: the life cycle of
  memberships, the gate that reads them, first-writer-wins creation and the global lookup.
\<close>

context host_laws
begin

lemmas groups_contract = groups.kv_table_axioms
lemmas memberships_contract = memberships.kv_table_axioms

end

section \<open>Memberships\<close>

text \<open>
  C33. Every operation of the group store refines the membership machine: on any membership row it is
  an idle step, or the one event (join, remove, revive, role change) of the row it names.
\<close>

theorem group_ops_refine_machine:
  assumes "host_laws H"
  shows "\<exists>e. (e = Keep \<or> names_row H c (member_key H owner gid member) \<and> e = event_of c)
    \<and> membership_step e (status_at H (member_key H owner gid member) s)
        (status_at H (member_key H owner gid member) (exec_group H c s))"
  using host_laws.exec_row_step [OF assms, of owner gid member c s] by (simp add: host_laws.row_step_def [OF assms])

text \<open>A small store: the group \<open>g1\<close> of \<open>me\<close> with the member \<open>bob\<close>.\<close>

definition join_bob :: group_call where
  "join_bob = EnsureMembership (Str ''me'') (Str ''g1'') (Str ''bob'') (Str ''member'') (Str ''Bob'') Null"

definition kick_bob :: group_call where
  "kick_bob = RemoveMember (Str ''me'') (Str ''g1'') (Str ''bob'')"

definition kicked_store :: "(string \<times> jsval) list" where
  "kicked_store = run_groups HM [(1000, join_bob), (1001, kick_bob)] []"

theorem group_ops_refine_machine_instance:
  "\<exists>e. membership_step e (status_at HM (member_key HM ''me'' ''g1'' ''bob'') [])
        (status_at HM (member_key HM ''me'' ''g1'' ''bob'') (exec_group HM join_bob []))"
  using group_ops_refine_machine [OF HM_laws, of join_bob "''me''" "''g1''" "''bob''" "[]"] by blast

text \<open>
  C2. A removed member stays out: whatever operations run, under whatever clock, without a revival
  of that member, the gate drops the content the member sends to the group.
\<close>

theorem removed_member_is_dropped:
  assumes "host_laws H" and "trim owner = owner" "owner \<noteq> []" "trim gid = gid" "gid \<noteq> []" "trim member = member" "member \<noteq> []"
    and "status_at H (member_key H owner gid member) s = Some (r, ''removed'')"
    and "\<forall>(now, c) \<in> set cs. event_of c = Revive \<longrightarrow> \<not> names_row H c (member_key H owner gid member)"
    and "t_threadType t = ''group''" "t_groupId t = gid" "kind \<noteq> Str GROUP_OP_KIND"
  shows "evaluateGate H owner (Some t) kind (Str member) redelivering (run_groups H cs s) = (Drop, gid)"
proof -
  obtain r' where st: "status_at H (member_key H owner gid member) (run_groups H cs s) = Some (r', ''removed'')"
    using run_removed_sticks [OF assms(1,9,8)] by blast
  then obtain m where m: "table_get H (memberships_table H) [owner, gid, member] (run_groups H cs s) = Some m" "gm_state m = ''removed''"
    by (auto simp: status_at_def member_at_def member_key_def table_get_def)
  have "toLowerCase ''removed'' = ''removed''" by (rule state_lower) simp
  then show ?thesis
    using m assms(2-7,10-12) by (simp add: evaluateGate_def getMembership_def host_laws.requireId_Str [OF assms(1)] reads_def is_active_def)
qed

lemma kicked_status: "status_at HM (member_key HM ''me'' ''g1'' ''bob'') kicked_store = Some (''member'', ''removed'')"
  by code_simp

theorem removed_member_is_dropped_instance:
  "evaluateGate HM ''me'' (Some (sample_thread\<lparr>t_threadType := ''group'', t_groupId := ''g1''\<rparr>)) (Str ''rez.chat.message.v1'') (Str ''bob'') False
     (run_groups HM [(1002, join_bob)] kicked_store) = (Drop, ''g1'')"
proof -
  have "trim ''me'' = ''me''" "trim ''g1'' = ''g1''" "trim ''bob'' = ''bob''" by (simp_all add: trim_def is_ws_def)
  then show ?thesis
    by (intro removed_member_is_dropped [OF HM_laws _ _ _ _ _ _ kicked_status]) (simp_all add: join_bob_def GROUP_OP_KIND_def)
qed

section \<open>Groups\<close>

text \<open>
  Creation is first-writer-wins: after a successful \<open>ensureGroup\<close> the group is read back, and
  a later \<open>ensureGroup\<close> of it answers that group, creates nothing and leaves the store alone.
\<close>

theorem ensureGroup_first_writer:
  assumes "host_laws H" and "ensureGroup H a b c t j cs s = (Inr (g, new), s')"
    and "requireId H c' ''createdBy'' = Inr cr"
  shows "getGroup H a b s' = (Inr (Some g), s') \<and> ensureGroup H a b c' t' j' cs' s' = (Inr (g, False), s')"
proof -
  obtain owner gid creator where ids: "requireId H a ''ownerAccountId'' = Inr owner" "requireId H b ''groupId'' = Inr gid"
    "requireId H c ''createdBy'' = Inr creator"
    using assms(2) by (auto simp: ensureGroup_def with_id_def throw_def split: sum.splits)
  have "table_key H (groups_table H) [owner, gid] \<noteq> GROUP_INDEX_PREFIX @ gid"
    by (simp add: table_key_def groups_table_def GROUP_PREFIX_def GROUP_INDEX_PREFIX_def)
  then have "table_get H (groups_table H) [owner, gid] s' = Some g"
    using assms(2) kv_table.get_set_same_row [OF host_laws.groups_contract [OF assms(1)]] kv_table.coerce_wf [OF host_laws.groups_contract [OF assms(1)]]
      kv_table.get_frame [OF host_laws.groups_contract [OF assms(1)]]
    by (auto simp: ensureGroup_def ids throw_def ok_def split: option.splits)
  then show ?thesis using assms(3) ids by (simp add: getGroup_def ensureGroup_def reads_def ok_def)
qed

theorem ensureGroup_first_writer_instance:
  "\<exists>g s'. ensureGroup HM (Str ''me'') (Str ''g1'') (Str ''me'') (Str ''Team'') Null Null [] = (Inr (g, True), s')
     \<and> ensureGroup HM (Str ''me'') (Str ''g1'') (Str ''eve'') (Str ''Mine'') Null Null s' = (Inr (g, False), s')"
proof -
  let ?e = "ensureGroup HM (Str ''me'') (Str ''g1'') (Str ''me'') (Str ''Team'') Null Null []"
  have "\<not> isl (fst ?e) \<and> snd (projr (fst ?e))" by code_simp
  then obtain g s' where e: "?e = (Inr (g, True), s')"
    by (cases "fst ?e") (auto simp: prod_eq_iff)
  have "requireId HM (Str ''eve'') ''createdBy'' = Inr ''eve''" by code_simp
  from ensureGroup_first_writer [OF HM_laws e this] e show ?thesis by blast
qed

text \<open>
  A co-member is found: whoever is an active member of a stored group of the owner, other than
  the owner, passes \<open>isCoMember\<close>.
\<close>

theorem co_member_found:
  assumes "host_laws H" and "trim owner = owner" "owner \<noteq> []" "trim other = other" "other \<noteq> []" "other \<noteq> owner"
    and "table_get H (groups_table H) [owner, gid] s = Some g"
    and "is_active (table_get H (memberships_table H) [owner, g_groupId g, other] s)"
  shows "isCoMember H (Str owner) (Str other) s = (Inr True, s)"
proof -
  have "g \<in> set (table_list H (groups_table H) [owner] s)"
    using kv_table.get_in_list [OF host_laws.groups_contract [OF assms(1)], of "[owner]" gid s g] assms(7) by simp
  then show ?thesis
    using assms by (auto simp: isCoMember_def listGroups_def host_laws.requireId_Str [OF assms(1)] andThen_def reads_def)
qed

theorem co_member_found_instance:
  "isCoMember HM (Str ''me'') (Str ''bob'')
     (run_groups HM [(1000, EnsureGroup (Str ''me'') (Str ''g1'') (Str ''me'') (Str ''Team'') Null Null), (1001, join_bob)] [])
   = (Inr True, run_groups HM [(1000, EnsureGroup (Str ''me'') (Str ''g1'') (Str ''me'') (Str ''Team'') Null Null), (1001, join_bob)] [])"
proof -
  let ?s = "run_groups HM [(1000, EnsureGroup (Str ''me'') (Str ''g1'') (Str ''me'') (Str ''Team'') Null Null), (1001, join_bob)] []"
  have "map_option g_groupId (table_get HM (groups_table HM) [''me'', ''g1''] ?s) = Some ''g1''" by code_simp
  then obtain g where g: "table_get HM (groups_table HM) [''me'', ''g1''] ?s = Some g" "g_groupId g = ''g1''"
    by (simp only: map_option_eq_Some) blast
  have a: "is_active (table_get HM (memberships_table HM) [''me'', g_groupId g, ''bob''] ?s)"
    unfolding g(2) by code_simp
  have t: "trim ''me'' = ''me''" "''me'' \<noteq> []" "trim ''bob'' = ''bob''" "''bob'' \<noteq> []" "''bob'' \<noteq> ''me''"
    by (simp_all add: trim_def is_ws_def)
  show ?thesis by (rule co_member_found [OF HM_laws t g(1) a])
qed

section \<open>The global lookup\<close>

text \<open>
  The scan of \<open>GlobalGroupLookup\<close> never resolves an owner: it reads \<open>accountId\<close>, which no
  stored group row has, so without the reverse index an existing group is reported without its owner
  and the index is not repaired.
\<close>

theorem scan_never_resolves_owner:
  assumes "\<forall>k\<in>set keys. is_object (kvGet H s k) \<longrightarrow> (\<exists>g. kvGet H s k = group_json g)"
  shows "\<exists>b. scan_groups H gid keys s = (Inr \<lparr> ol_exists = b, ol_owner = None \<rparr>, s)"
  using assms
proof (induction keys)
  case (Cons k ks)
  have "nonEmptyString (getp (group_json g) ''accountId'') = []" for g
    by (simp add: group_json_def group_fields_def getp_def)
  then show ?case using Cons by (cases "is_object (kvGet H s k)") (auto simp: ok_def Let_def)
next
  case Nil
  have "scan_groups H gid [] s = (Inr \<lparr> ol_exists = False, ol_owner = None \<rparr>, s)" by (simp add: ok_def)
  then show ?case by blast
qed

definition unindexed_store :: "(string \<times> jsval) list" where
  "unindexed_store = kvDelete HM (run_groups HM [(1000, EnsureGroup (Str ''me'') (Str ''g1'') (Str ''me'') (Str ''Team'') Null Null)] [])
     (GROUP_INDEX_PREFIX @ ''g1'')"

theorem scan_never_resolves_owner_instance:
  "fst (resolveOwnerByGroupId HM (Str ''g1'') unindexed_store) = Inr \<lparr> ol_exists = True, ol_owner = None \<rparr>
   \<and> (\<exists>b. scan_groups HM ''g1'' [table_key HM (groups_table HM) [''me'', ''g1'']] unindexed_store
      = (Inr \<lparr> ol_exists = b, ol_owner = None \<rparr>, unindexed_store))"
proof
  let ?k = "table_key HM (groups_table HM) [''me'', ''g1'']"
  show "fst (resolveOwnerByGroupId HM (Str ''g1'') unindexed_store) = Inr \<lparr> ol_exists = True, ol_owner = None \<rparr>"
    by code_simp
  have "kvGet HM unindexed_store ?k = group_json (the (table_get HM (groups_table HM) [''me'', ''g1''] unindexed_store))"
    by code_simp
  then show "\<exists>b. scan_groups HM ''g1'' [?k] unindexed_store = (Inr \<lparr> ol_exists = b, ol_owner = None \<rparr>, unindexed_store)"
    by (intro scan_never_resolves_owner) auto
qed

end
