(* ===== verification/Ceremony.thy ===== *)
theory Ceremony
  imports Records_Message
begin

text \<open>
  Device-link registrations: the record \<open>PendingCeremonyRecordV1\<close>
  (\<open>src/records/domain/PendingCeremonyRecordV1.js\<close>) and its store
  (\<open>src/server/storage/PendingCeremonyStore.js\<close>). The abstract machine \<open>ceremony_step\<close> states what the
  store promises of one device's slot; the operations refine it. An em dash of a message is written
  as a hyphen.
\<close>

section \<open>The record\<close>

record PendingCeremony =
  pc_deviceId :: string
  pc_inboxId :: string
  pc_leafCert :: jsval
  pc_certId :: string
  pc_sealedResponse :: jsval
  pc_thRequestB64 :: string
  pc_thResponseB64 :: string
  pc_confirmTagB64 :: string
  pc_state :: string
  pc_expiresAtMs :: rat
  pc_createdAtMs :: rat
  pc_updatedAtMs :: rat

definition PENDING_CEREMONY_STATES :: "string list" where
  "PENDING_CEREMONY_STATES = [''pending'', ''published'', ''confirmed'', ''expired'']"

definition isAllowedCeremonyTransition :: "string \<Rightarrow> string \<Rightarrow> bool" where
  "isAllowedCeremonyTransition src to \<longleftrightarrow>
     src = ''pending'' \<and> (to = ''published'' \<or> to = ''expired'') \<or> src = ''published'' \<and> to = ''confirmed''"

definition plain_or_null :: "jsval \<Rightarrow> jsval" where
  "plain_or_null v = (if is_plain_object v then v else Null)"

definition buildPendingCeremony :: "jsval \<Rightarrow> PendingCeremony" where
  "buildPendingCeremony raw = \<lparr>
     pc_deviceId = nonEmptyString (getp raw ''deviceId''),
     pc_inboxId = nonEmptyString (getp raw ''inboxId''),
     pc_leafCert = plain_or_null (getp raw ''leafCert''),
     pc_certId = nonEmptyString (getp raw ''certId''),
     pc_sealedResponse = plain_or_null (getp raw ''sealedResponse''),
     pc_thRequestB64 = nonEmptyString (getp raw ''thRequestB64''),
     pc_thResponseB64 = nonEmptyString (getp raw ''thResponseB64''),
     pc_confirmTagB64 = nonEmptyString (getp raw ''confirmTagB64''),
     pc_state = nonEmptyString (getp raw ''state''),
     pc_expiresAtMs = toFiniteNumber (getp raw ''expiresAtMs'') 0,
     pc_createdAtMs = toFiniteNumber (getp raw ''createdAtMs'') 0,
     pc_updatedAtMs = toFiniteNumber (getp raw ''updatedAtMs'') 0 \<rparr>"

definition validatePendingCeremony :: "PendingCeremony \<Rightarrow> js_error option" where
  "validatePendingCeremony r =
     (if pc_deviceId r = [] then Some (Error ''PendingCeremonyRecordV1 requires deviceId'')
      else if pc_inboxId r = [] then Some (Error ''PendingCeremonyRecordV1 requires inboxId'')
      else if pc_certId r = [] then Some (Error ''PendingCeremonyRecordV1 requires certId'')
      else if pc_leafCert r = Null then Some (Error ''PendingCeremonyRecordV1 requires the minted leafCert'')
      else if pc_sealedResponse r = Null then
        Some (Error ''PendingCeremonyRecordV1 requires the sealed response to resume from'')
      else if pc_thRequestB64 r = [] then Some (Error ''PendingCeremonyRecordV1 requires thRequestB64'')
      else if pc_thResponseB64 r = [] then Some (Error ''PendingCeremonyRecordV1 requires thResponseB64'')
      else if pc_confirmTagB64 r = [] then Some (Error ''PendingCeremonyRecordV1 requires confirmTagB64'')
      else if pc_state r \<notin> set PENDING_CEREMONY_STATES then
        Some (Error ''PendingCeremonyRecordV1 state must be one of: pending, published, confirmed, expired'')
      else if \<not> pc_expiresAtMs r > 0 then Some (Error ''PendingCeremonyRecordV1 requires a positive expiresAtMs'')
      else if \<not> pc_createdAtMs r > 0 then Some (Error ''PendingCeremonyRecordV1 requires a positive createdAtMs'')
      else None)"

definition mkPendingCeremony :: "jsval \<Rightarrow> js_error + PendingCeremony" where
  "mkPendingCeremony raw =
     (if raw = Null then Inl TypeError
      else let r = buildPendingCeremony raw in
        case validatePendingCeremony r of Some e \<Rightarrow> Inl e | None \<Rightarrow> Inr r)"

definition ceremony_fields :: "PendingCeremony \<Rightarrow> (string \<times> jsval) list" where
  "ceremony_fields r =
     [(''deviceId'', Str (pc_deviceId r)), (''inboxId'', Str (pc_inboxId r)), (''leafCert'', pc_leafCert r),
      (''certId'', Str (pc_certId r)), (''sealedResponse'', pc_sealedResponse r),
      (''thRequestB64'', Str (pc_thRequestB64 r)), (''thResponseB64'', Str (pc_thResponseB64 r)),
      (''confirmTagB64'', Str (pc_confirmTagB64 r)), (''state'', Str (pc_state r)),
      (''expiresAtMs'', num (pc_expiresAtMs r)), (''createdAtMs'', num (pc_createdAtMs r)),
      (''updatedAtMs'', num (pc_updatedAtMs r))]"

definition ceremony_json :: "PendingCeremony \<Rightarrow> jsval" where
  "ceremony_json r = Obj (ceremony_fields r)"

definition needsPublication :: "PendingCeremony \<Rightarrow> bool" where
  "needsPublication r \<longleftrightarrow> pc_state r = ''pending''"

definition wf_ceremony :: "PendingCeremony \<Rightarrow> bool" where
  "wf_ceremony r \<longleftrightarrow> validatePendingCeremony r = None
     \<and> trimmed (pc_deviceId r) \<and> trimmed (pc_inboxId r) \<and> trimmed (pc_certId r) \<and> trimmed (pc_thRequestB64 r)
     \<and> trimmed (pc_thResponseB64 r) \<and> trimmed (pc_confirmTagB64 r) \<and> trimmed (pc_state r)
     \<and> plain_or_null (pc_leafCert r) = pc_leafCert r \<and> plain_or_null (pc_sealedResponse r) = pc_sealedResponse r"

lemma plain_or_null_idem [simp]: "plain_or_null (plain_or_null v) = plain_or_null v"
  by (simp add: plain_or_null_def)

lemma mkPendingCeremony_wf: "mkPendingCeremony raw = Inr r \<Longrightarrow> wf_ceremony r"
  by (auto simp: mkPendingCeremony_def wf_ceremony_def buildPendingCeremony_def Let_def
      split: if_splits option.splits)

lemma getp_Cons: "getp (Obj ((k, v) # kvs)) k' = (if k' = k then v else getp (Obj kvs) k')"
  "getp (Obj []) k' = Undef"
  by (simp_all add: getp_def)

lemma ceremony_fields_read:
  assumes "wf_ceremony r"
  shows "buildPendingCeremony (Obj (ceremony_fields r)) = r"
  using assms by (cases r) (simp add: buildPendingCeremony_def getp_Cons ceremony_fields_def wf_ceremony_def trimmed_eq)

lemma getp_restamp:
  "getp (Obj (spread (ceremony_fields r) [(''state'', Str st), (''updatedAtMs'', num t)])) k
    = (if k = ''state'' then Str st else if k = ''updatedAtMs'' then num t else getp (Obj (ceremony_fields r)) k)"
  by (simp add: getp_spread)

lemma build_ceremony_spread:
  assumes "wf_ceremony r" and "trimmed st"
  shows "buildPendingCeremony (Obj (spread (ceremony_fields r) [(''state'', Str st), (''updatedAtMs'', num t)]))
    = r\<lparr>pc_state := st, pc_updatedAtMs := t\<rparr>"
  using ceremony_fields_read [OF assms(1)] assms(2)
  by (cases r) (simp add: buildPendingCeremony_def getp_restamp trimmed_eq)

lemma mkPendingCeremony_json: "wf_ceremony r \<Longrightarrow> mkPendingCeremony (ceremony_json r) = Inr r"
  using ceremony_fields_read [of r] by (simp add: mkPendingCeremony_def wf_ceremony_def ceremony_json_def)

lemma mkPendingCeremony_restamp:
  assumes "wf_ceremony r" and "st \<in> set PENDING_CEREMONY_STATES"
  shows "mkPendingCeremony (Obj (spread (ceremony_fields r) [(''state'', Str st), (''updatedAtMs'', num t)]))
    = Inr (r\<lparr>pc_state := st, pc_updatedAtMs := t\<rparr>)"
proof -
  have "trimmed st" using assms(2) by (auto simp: PENDING_CEREMONY_STATES_def trimmed_iff is_ws_def)
  moreover have "validatePendingCeremony (r\<lparr>pc_state := st, pc_updatedAtMs := t\<rparr>) = None"
    using assms by (simp add: wf_ceremony_def validatePendingCeremony_def split: if_splits)
  ultimately show ?thesis using build_ceremony_spread [OF assms(1)] by (simp add: mkPendingCeremony_def)
qed

section \<open>The store\<close>

definition slotKey :: "string \<Rightarrow> string" where
  "slotKey deviceId = ''app:pendingceremony/'' @ deviceId"

definition requireDeviceId :: "jsval \<Rightarrow> string \<Rightarrow> js_error + string" where
  "requireDeviceId deviceId oper =
     (let id = trim (string_or_empty deviceId) in
      if id = [] then Inl (Error (''PendingCeremonyStore.'' @ oper @ '' requires a deviceId'')) else Inr id)"

text \<open>A row that is absent is \<open>None\<close>, a malformed one throws.\<close>

definition readSlot :: "'s host \<Rightarrow> string \<Rightarrow> 's \<Rightarrow> js_error + PendingCeremony option" where
  "readSlot H dev s =
     (let raw = kvGet H s (slotKey dev) in
      if \<not> is_object raw then Inr None
      else case mkPendingCeremony raw of Inl e \<Rightarrow> Inl e | Inr r \<Rightarrow> Inr (Some r))"

definition getCeremony :: "'s host \<Rightarrow> jsval \<Rightarrow> ('s, PendingCeremony option) op" where
  "getCeremony H deviceId s =
     (case requireDeviceId deviceId ''get'' of Inl e \<Rightarrow> throw e s | Inr dev \<Rightarrow> (readSlot H dev s, s))"

definition createPending :: "'s host \<Rightarrow> jsval \<Rightarrow> ('s, PendingCeremony) op" where
  "createPending H newFields s =
     (if newFields = Null then throw TypeError s else
      case requireDeviceId (getp newFields ''deviceId'') ''createPending'' of Inl e \<Rightarrow> throw e s
      | Inr dev \<Rightarrow>
        (case readSlot H dev s of Inl e \<Rightarrow> throw e s
         | Inr existing \<Rightarrow>
           if (case existing of None \<Rightarrow> False | Some r \<Rightarrow> pc_state r \<noteq> ''confirmed'')
           then throw (Error (''PendingCeremonyStore.createPending: device '' @ dev @ '' already has a registration in state ''
             @ pc_state (the existing) @ '' - resume or revoke it before starting another'')) s
           else (case mkPendingCeremony (Obj (spread (own_props newFields)
               [(''deviceId'', Str dev), (''state'', Str ''pending''), (''createdAtMs'', num (clockMs H)),
                (''updatedAtMs'', num (clockMs H))])) of
              Inl e \<Rightarrow> throw e s
            | Inr r \<Rightarrow> ok r (kvSet H s (slotKey dev) (ceremony_json r)))))"

definition transitionTo :: "'s host \<Rightarrow> string \<Rightarrow> string \<Rightarrow> jsval \<Rightarrow> ('s, PendingCeremony) op" where
  "transitionTo H to oper deviceId s =
     (case requireDeviceId deviceId oper of Inl e \<Rightarrow> throw e s
      | Inr dev \<Rightarrow>
        (case readSlot H dev s of Inl e \<Rightarrow> throw e s
         | Inr None \<Rightarrow> throw (Error (''PendingCeremonyStore.'' @ oper @ '': no registration for device '' @ dev)) s
         | Inr (Some existing) \<Rightarrow>
           if \<not> isAllowedCeremonyTransition (pc_state existing) to
           then throw (Error (''PendingCeremonyStore.'' @ oper @ '': cannot move device '' @ dev @ '' from ''
             @ pc_state existing @ '' to '' @ to)) s
           else (case mkPendingCeremony (Obj (spread (ceremony_fields existing)
               [(''state'', Str to), (''updatedAtMs'', num (clockMs H))])) of
              Inl e \<Rightarrow> throw e s
            | Inr next \<Rightarrow> ok next (kvSet H s (slotKey dev) (ceremony_json next)))))"

definition markPublished :: "'s host \<Rightarrow> jsval \<Rightarrow> ('s, PendingCeremony) op" where
  "markPublished H = transitionTo H ''published'' ''markPublished''"

definition markConfirmed :: "'s host \<Rightarrow> jsval \<Rightarrow> ('s, PendingCeremony) op" where
  "markConfirmed H = transitionTo H ''confirmed'' ''markConfirmed''"

definition markExpired :: "'s host \<Rightarrow> jsval \<Rightarrow> ('s, PendingCeremony) op" where
  "markExpired H = transitionTo H ''expired'' ''markExpired''"

text \<open>The rows under the prefix; the first malformed one makes the whole listing throw.\<close>

fun readAll :: "jsval list \<Rightarrow> js_error + PendingCeremony list" where
  "readAll [] = Inr []"
| "readAll (raw # raws) =
     (if \<not> is_object raw then readAll raws
      else case mkPendingCeremony raw of Inl e \<Rightarrow> Inl e
        | Inr r \<Rightarrow> (case readAll raws of Inl e \<Rightarrow> Inl e | Inr rs \<Rightarrow> Inr (r # rs)))"

definition listCeremonies :: "'s host \<Rightarrow> 's \<Rightarrow> js_error + PendingCeremony list" where
  "listCeremonies H s = readAll (map (kvGet H s) (kvKeys H s (slotKey [])))"

definition listResumable :: "'s host \<Rightarrow> 's \<Rightarrow> js_error + PendingCeremony list" where
  "listResumable H s = map_sum id (filter needsPublication) (listCeremonies H s)"

definition listExpirable :: "'s host \<Rightarrow> 's \<Rightarrow> js_error + PendingCeremony list" where
  "listExpirable H s = map_sum id (filter (\<lambda>r. pc_expiresAtMs r \<le> clockMs H)) (listResumable H s)"

definition listCompensatable :: "'s host \<Rightarrow> 's \<Rightarrow> js_error + PendingCeremony list" where
  "listCompensatable H s =
     map_sum id (filter (\<lambda>r. pc_state r \<noteq> ''confirmed'' \<and> \<not> pc_expiresAtMs r > clockMs H)) (listCeremonies H s)"

definition deleteAfterRevoke :: "'s host \<Rightarrow> jsval \<Rightarrow> jsval \<Rightarrow> jsval \<Rightarrow> ('s, bool) op" where
  "deleteAfterRevoke H deviceId revokeCommitted revokedCertId s =
     (case requireDeviceId deviceId ''deleteAfterRevoke'' of Inl e \<Rightarrow> throw e s
      | Inr dev \<Rightarrow>
        if revokeCommitted \<noteq> Bool True then
          throw (Error (''PendingCeremonyStore.deleteAfterRevoke: refusing to delete device '' @ dev
            @ '' without a committed revoke - the record holds the certId that revoking it depends on'')) s
        else (case readSlot H dev s of Inl e \<Rightarrow> throw e s
          | Inr None \<Rightarrow> ok False s
          | Inr (Some existing) \<Rightarrow>
            if revokedCertId \<noteq> Str (pc_certId existing) then
              throw (Error ''PendingCeremonyStore.deleteAfterRevoke: the committed revoke does not name this registration's certId'') s
            else ok True (kvDelete H s (slotKey dev))))"

definition deleteAfterDisprovenCommit :: "'s host \<Rightarrow> jsval \<Rightarrow> jsval \<Rightarrow> jsval \<Rightarrow> jsval \<Rightarrow> ('s, bool) op" where
  "deleteAfterDisprovenCommit H deviceId homeRejectedCertBinding neverPublished certId s =
     (case requireDeviceId deviceId ''deleteAfterDisprovenCommit'' of Inl e \<Rightarrow> throw e s
      | Inr dev \<Rightarrow>
        if homeRejectedCertBinding \<noteq> Bool True then
          throw (Error (''PendingCeremonyStore.deleteAfterDisprovenCommit: refusing to delete device '' @ dev
            @ '' without the home explicitly denying this certId's binding'')) s
        else if neverPublished \<noteq> Bool True then
          throw (Error (''PendingCeremonyStore.deleteAfterDisprovenCommit: refusing to delete device '' @ dev
            @ '' whose sealed response was published - its leaf may be live off-home and this path revokes nothing'')) s
        else (case readSlot H dev s of Inl e \<Rightarrow> throw e s
          | Inr None \<Rightarrow> ok False s
          | Inr (Some existing) \<Rightarrow>
            if certId \<noteq> Str (pc_certId existing) then
              throw (Error ''PendingCeremonyStore.deleteAfterDisprovenCommit: the disproof does not name this registration's certId'') s
            else if pc_state existing = ''published'' \<or> pc_state existing = ''confirmed'' then
              throw (Error (''PendingCeremonyStore.deleteAfterDisprovenCommit: device '' @ dev @ '' is in state ''
                @ pc_state existing @ '' - its response WAS published, so this path does not apply'')) s
            else ok True (kvDelete H s (slotKey dev))))"

section \<open>The promised machine\<close>

text \<open>
  One device's slot, abstracted to the state and the certificate id of its registration. A slot is
  emptied only on the proof of a revoke that names its certificate, or on the disproof of a
  registration that was never published.
\<close>

datatype ceremony_event = Create | Publish | Confirm | Expire | Revoke string | Disprove string | Idle

inductive ceremony_step :: "ceremony_event \<Rightarrow> (string \<times> string) option \<Rightarrow> (string \<times> string) option \<Rightarrow> bool" where
  create: "ceremony_step Create None (Some (''pending'', c))"
| relink: "ceremony_step Create (Some (''confirmed'', c)) (Some (''pending'', c'))"
| publish: "ceremony_step Publish (Some (''pending'', c)) (Some (''published'', c))"
| confirm: "ceremony_step Confirm (Some (''published'', c)) (Some (''confirmed'', c))"
| expire: "ceremony_step Expire (Some (''pending'', c)) (Some (''expired'', c))"
| revoke: "ceremony_step (Revoke c) (Some (st, c)) None"
| disprove: "st \<noteq> ''published'' \<Longrightarrow> st \<noteq> ''confirmed'' \<Longrightarrow> ceremony_step (Disprove c) (Some (st, c)) None"
| idle: "ceremony_step Idle x x"

inductive_cases ceremony_from_SomeE: "ceremony_step e (Some (st, c)) y"
inductive_simps ceremony_idle_iff: "ceremony_step Idle x y"
inductive_simps ceremony_revoke_iff: "ceremony_step (Revoke c) x y"

text \<open>What a machine that never forgets guarantees of one step from an unconfirmed registration.\<close>

lemma ceremony_step_keeps:
  assumes "ceremony_step e (Some (st, c)) y" and "st \<noteq> ''confirmed''" and "e \<noteq> Revoke c" and "e \<noteq> Disprove c"
  shows "\<exists>st'. y = Some (st', c)"
  using assms(1) by (rule ceremony_from_SomeE) (use assms(2-4) in simp_all)

datatype ceremony_call =
    CreatePending jsval
  | MarkPublished jsval
  | MarkConfirmed jsval
  | MarkExpired jsval
  | DeleteAfterRevoke jsval jsval jsval
  | DeleteAfterDisproven jsval jsval jsval jsval

fun exec_ceremony :: "'s host \<Rightarrow> ceremony_call \<Rightarrow> 's \<Rightarrow> 's" where
  "exec_ceremony H (CreatePending f) s = snd (createPending H f s)"
| "exec_ceremony H (MarkPublished d) s = snd (markPublished H d s)"
| "exec_ceremony H (MarkConfirmed d) s = snd (markConfirmed H d s)"
| "exec_ceremony H (MarkExpired d) s = snd (markExpired H d s)"
| "exec_ceremony H (DeleteAfterRevoke d a b) s = snd (deleteAfterRevoke H d a b s)"
| "exec_ceremony H (DeleteAfterDisproven d a b c) s = snd (deleteAfterDisprovenCommit H d a b c s)"

text \<open>The device a call names, and the event it is for that device.\<close>

fun call_device :: "ceremony_call \<Rightarrow> jsval" where
  "call_device (CreatePending f) = getp f ''deviceId''"
| "call_device (MarkPublished d) = d"
| "call_device (MarkConfirmed d) = d"
| "call_device (MarkExpired d) = d"
| "call_device (DeleteAfterRevoke d _ _) = d"
| "call_device (DeleteAfterDisproven d _ _ _) = d"

fun call_event :: "ceremony_call \<Rightarrow> ceremony_event" where
  "call_event (CreatePending _) = Create"
| "call_event (MarkPublished _) = Publish"
| "call_event (MarkConfirmed _) = Confirm"
| "call_event (MarkExpired _) = Expire"
| "call_event (DeleteAfterRevoke _ committed c) = (if committed = Bool True \<and> is_string c then Revoke (string_or_empty c) else Idle)"
| "call_event (DeleteAfterDisproven _ a b c) =
     (if a = Bool True \<and> b = Bool True \<and> is_string c then Disprove (string_or_empty c) else Idle)"

definition names_device :: "ceremony_call \<Rightarrow> string \<Rightarrow> bool" where
  "names_device c dev \<longleftrightarrow> trim (string_or_empty (call_device c)) = dev"

definition slot_of :: "'s host \<Rightarrow> string \<Rightarrow> 's \<Rightarrow> (string \<times> string) option" where
  "slot_of H dev s = (case readSlot H dev s of Inr (Some r) \<Rightarrow> Some (pc_state r, pc_certId r) | _ \<Rightarrow> None)"

text \<open>The slot of a device is readable: absent, or a well-formed row.\<close>

definition slot_ok :: "'s host \<Rightarrow> string \<Rightarrow> 's \<Rightarrow> bool" where
  "slot_ok H dev s \<longleftrightarrow> (\<exists>x. readSlot H dev s = Inr x)"

lemma readSlot_wf: "readSlot H dev s = Inr (Some r) \<Longrightarrow> wf_ceremony r"
  by (auto simp: readSlot_def Let_def split: if_splits sum.splits dest: mkPendingCeremony_wf)

lemma slotKey_inj [simp]: "slotKey a = slotKey b \<longleftrightarrow> a = b"
  by (simp add: slotKey_def)

lemma requireDeviceId_Inr: "requireDeviceId d oper = Inr dev \<longleftrightarrow> dev = trim (string_or_empty d) \<and> dev \<noteq> []"
  by (auto simp: requireDeviceId_def Let_def)

context host_laws
begin

lemma readSlot_set:
  "readSlot H dev (kvSet H s (slotKey d) v) = (if dev = d then
     (if \<not> is_object v then Inr None else map_sum id Some (mkPendingCeremony v)) else readSlot H dev s)"
  by (simp add: readSlot_def get_set Let_def split: sum.split)

lemma readSlot_write:
  "wf_ceremony r \<Longrightarrow> readSlot H dev (kvSet H s (slotKey d) (ceremony_json r)) = (if dev = d then Inr (Some r) else readSlot H dev s)"
  using mkPendingCeremony_json [of r] by (simp add: readSlot_set) (simp add: ceremony_json_def)

lemma readSlot_delete:
  "readSlot H dev (kvDelete H s (slotKey d)) = (if dev = d then Inr None else readSlot H dev s)"
  by (simp add: readSlot_def get_delete Let_def)

text \<open>The effect of a transition on the slot it names.\<close>

lemma transition_cases:
  assumes "to \<in> set PENDING_CEREMONY_STATES"
  shows "snd (transitionTo H to oper d s) = s \<or>
    (\<exists>r. readSlot H (trim (string_or_empty d)) s = Inr (Some r) \<and> wf_ceremony r
      \<and> isAllowedCeremonyTransition (pc_state r) to
      \<and> snd (transitionTo H to oper d s) = kvSet H s (slotKey (trim (string_or_empty d)))
        (ceremony_json (r\<lparr>pc_state := to, pc_updatedAtMs := clockMs H\<rparr>))
      \<and> wf_ceremony (r\<lparr>pc_state := to, pc_updatedAtMs := clockMs H\<rparr>))"
proof (cases "requireDeviceId d oper")
  case (Inl e)
  then show ?thesis by (simp add: transitionTo_def throw_def)
next
  case dev: (Inr dev)
  then have dev_eq: "dev = trim (string_or_empty d)" by (simp add: requireDeviceId_Inr)
  show ?thesis
  proof (cases "readSlot H dev s")
    case (Inl e)
    then show ?thesis by (simp add: transitionTo_def throw_def dev)
  next
    case slot: (Inr x)
    show ?thesis
    proof (cases x)
      case None
      then show ?thesis using slot by (simp add: transitionTo_def throw_def dev)
    next
      case (Some r)
      have rd: "readSlot H dev s = Inr (Some r)" using slot Some by simp
      have wf: "wf_ceremony r" by (rule readSlot_wf [OF rd])
      note mk = mkPendingCeremony_restamp [OF wf assms, of "clockMs H"]
      show ?thesis
      proof (cases "isAllowedCeremonyTransition (pc_state r) to")
        case True
        have "snd (transitionTo H to oper d s) = kvSet H s (slotKey dev)
            (ceremony_json (r\<lparr>pc_state := to, pc_updatedAtMs := clockMs H\<rparr>))"
          by (simp add: transitionTo_def dev rd True mk ok_def)
        then show ?thesis using rd wf True mkPendingCeremony_wf [OF mk] unfolding dev_eq by blast
      next
        case False
        then show ?thesis by (simp add: transitionTo_def throw_def dev rd)
      qed
    qed
  qed
qed

lemma create_cases:
  "snd (createPending H f s) = s \<or>
    (\<exists>r x. readSlot H (trim (string_or_empty (getp f ''deviceId''))) s = Inr x
      \<and> (x = None \<or> pc_state (the x) = ''confirmed'') \<and> wf_ceremony r \<and> pc_state r = ''pending''
      \<and> snd (createPending H f s)
        = kvSet H s (slotKey (trim (string_or_empty (getp f ''deviceId'')))) (ceremony_json r))"
proof (cases "f = Null")
  case True
  then show ?thesis by (simp add: createPending_def throw_def)
next
  case obj: False
  show ?thesis
  proof (cases "requireDeviceId (getp f ''deviceId'') ''createPending''")
    case (Inl e)
    then show ?thesis by (simp add: createPending_def obj throw_def)
  next
    case dev: (Inr dev)
    then have dev_eq: "dev = trim (string_or_empty (getp f ''deviceId''))" by (simp add: requireDeviceId_Inr)
    let ?raw = "Obj (spread (own_props f) [(''deviceId'', Str dev), (''state'', Str ''pending''),
      (''createdAtMs'', num (clockMs H)), (''updatedAtMs'', num (clockMs H))])"
    show ?thesis
    proof (cases "readSlot H dev s")
      case (Inl e)
      then show ?thesis by (simp add: createPending_def obj throw_def dev)
    next
      case slot: (Inr x)
      show ?thesis
      proof (cases "x = None \<or> pc_state (the x) = ''confirmed''")
        case False
        then show ?thesis using slot by (auto simp: createPending_def obj throw_def dev)
      next
        case free: True
        show ?thesis
        proof (cases "mkPendingCeremony ?raw")
          case (Inl e)
          then show ?thesis using slot free by (cases x) (simp_all add: createPending_def obj throw_def dev)
        next
          case mk: (Inr r)
          have "trim ''pending'' = ''pending''" by (simp add: trim_def is_ws_def)
          then have "pc_state r = ''pending''"
            using mk by (auto simp: mkPendingCeremony_def buildPendingCeremony_def getp_spread Let_def split: option.splits)
          moreover have "snd (createPending H f s) = kvSet H s (slotKey dev) (ceremony_json r)"
            using slot free by (cases x) (simp_all add: createPending_def obj ok_def dev mk)
          ultimately show ?thesis using slot free mkPendingCeremony_wf [OF mk] unfolding dev_eq by blast
        qed
      qed
    qed
  qed
qed

lemma delete_revoke_cases:
  "snd (deleteAfterRevoke H d a b s) = s \<or> (\<exists>r. readSlot H (trim (string_or_empty d)) s = Inr (Some r) \<and> a = Bool True
    \<and> b = Str (pc_certId r) \<and> snd (deleteAfterRevoke H d a b s) = kvDelete H s (slotKey (trim (string_or_empty d))))"
proof (cases "readSlot H (trim (string_or_empty d)) s")
  case (Inl e)
  then show ?thesis by (simp add: deleteAfterRevoke_def requireDeviceId_def throw_def Let_def)
next
  case (Inr x)
  then show ?thesis
    by (cases x) (simp_all add: deleteAfterRevoke_def requireDeviceId_def throw_def ok_def Let_def)
qed

lemma delete_disproven_cases:
  "snd (deleteAfterDisprovenCommit H d a b c s) = s \<or> (\<exists>r. readSlot H (trim (string_or_empty d)) s = Inr (Some r)
    \<and> a = Bool True \<and> b = Bool True \<and> c = Str (pc_certId r) \<and> pc_state r \<noteq> ''published'' \<and> pc_state r \<noteq> ''confirmed''
    \<and> snd (deleteAfterDisprovenCommit H d a b c s) = kvDelete H s (slotKey (trim (string_or_empty d))))"
proof (cases "readSlot H (trim (string_or_empty d)) s")
  case (Inl e)
  then show ?thesis by (simp add: deleteAfterDisprovenCommit_def requireDeviceId_def throw_def Let_def)
next
  case (Inr x)
  then show ?thesis
    by (cases x) (simp_all add: deleteAfterDisprovenCommit_def requireDeviceId_def throw_def ok_def Let_def)
qed

text \<open>What a call may do to the slot of a device: nothing, or the event it names.\<close>

definition slot_step :: "string \<Rightarrow> bool \<Rightarrow> ceremony_event \<Rightarrow> 's \<Rightarrow> 's \<Rightarrow> bool" where
  "slot_step dev named ev s s' \<longleftrightarrow> slot_ok H dev s' \<and>
    (\<exists>e. (e = Idle \<or> named \<and> e = ev) \<and> ceremony_step e (slot_of H dev s) (slot_of H dev s'))"

lemma slot_step_refused: "slot_ok H dev s \<Longrightarrow> s' = s \<Longrightarrow> slot_step dev n ev s s'"
  by (auto simp: slot_step_def intro: ceremony_step.idle)

lemma slot_step_write:
  assumes "slot_ok H dev s" and "s' = kvSet H s (slotKey d) (ceremony_json r)" and "wf_ceremony r"
    and "d = dev \<Longrightarrow> n \<and> ceremony_step ev (slot_of H dev s) (Some (pc_state r, pc_certId r))"
  shows "slot_step dev n ev s s'"
proof (cases "d = dev")
  case True
  then show ?thesis using assms by (auto simp: slot_step_def slot_ok_def slot_of_def readSlot_write)
next
  case False
  then have "readSlot H dev s' = readSlot H dev s" using assms(2,3) by (simp add: readSlot_write)
  then show ?thesis
    using assms(1) by (auto simp: slot_step_def slot_ok_def slot_of_def intro: ceremony_step.idle)
qed

lemma slot_step_delete:
  assumes "slot_ok H dev s" and "s' = kvDelete H s (slotKey d)"
    and "d = dev \<Longrightarrow> n \<and> ceremony_step ev (slot_of H dev s) None"
  shows "slot_step dev n ev s s'"
proof (cases "d = dev")
  case True
  then show ?thesis using assms by (auto simp: slot_step_def slot_ok_def slot_of_def readSlot_delete)
next
  case False
  then have "readSlot H dev s' = readSlot H dev s" using assms(2) by (simp add: readSlot_delete)
  then show ?thesis
    using assms(1) by (auto simp: slot_step_def slot_ok_def slot_of_def intro: ceremony_step.idle)
qed

lemma slot_of_Some: "readSlot H dev s = Inr (Some r) \<Longrightarrow> slot_of H dev s = Some (pc_state r, pc_certId r)"
  by (simp add: slot_of_def)

lemma transition_refines:
  assumes "to \<in> set PENDING_CEREMONY_STATES" and "slot_ok H dev s"
    and step: "\<And>st c. isAllowedCeremonyTransition st to \<Longrightarrow> ceremony_step ev (Some (st, c)) (Some (to, c))"
  shows "slot_step dev (trim (string_or_empty d) = dev) ev s (snd (transitionTo H to oper d s))"
  using transition_cases [OF assms(1), of oper d s]
proof (elim disjE exE conjE)
  assume "snd (transitionTo H to oper d s) = s"
  then show ?thesis by (rule slot_step_refused [OF assms(2)])
next
  fix r assume rd: "readSlot H (trim (string_or_empty d)) s = Inr (Some r)"
    and allowed: "isAllowedCeremonyTransition (pc_state r) to"
    and w: "snd (transitionTo H to oper d s) = kvSet H s (slotKey (trim (string_or_empty d)))
      (ceremony_json (r\<lparr>pc_state := to, pc_updatedAtMs := clockMs H\<rparr>))"
    and wf: "wf_ceremony (r\<lparr>pc_state := to, pc_updatedAtMs := clockMs H\<rparr>)"
  show ?thesis
    by (rule slot_step_write [OF assms(2) w wf])
      (use slot_of_Some [OF rd] step [OF allowed, of "pc_certId r"] in auto)
qed

lemma create_refines:
  assumes "slot_ok H dev s"
  shows "slot_step dev (trim (string_or_empty (getp f ''deviceId'')) = dev) Create s (snd (createPending H f s))"
  using create_cases [of f s]
proof (elim disjE exE conjE)
  assume "snd (createPending H f s) = s"
  then show ?thesis by (rule slot_step_refused [OF assms])
next
  let ?d = "trim (string_or_empty (getp f ''deviceId''))"
  fix r x assume rd: "readSlot H ?d s = Inr x" and wf: "wf_ceremony r" and st: "pc_state r = ''pending''"
    and w: "snd (createPending H f s) = kvSet H s (slotKey ?d) (ceremony_json r)" and x: "x = None"
  show ?thesis
    by (rule slot_step_write [OF assms w wf])
      (use rd x st in \<open>auto simp: slot_of_def intro: ceremony_step.create\<close>)
next
  let ?d = "trim (string_or_empty (getp f ''deviceId''))"
  fix r x assume rd: "readSlot H ?d s = Inr x" and wf: "wf_ceremony r" and st: "pc_state r = ''pending''"
    and w: "snd (createPending H f s) = kvSet H s (slotKey ?d) (ceremony_json r)"
    and x: "pc_state (the x) = ''confirmed''"
  show ?thesis
    by (rule slot_step_write [OF assms w wf], cases x)
      (use rd x st in \<open>auto simp: slot_of_def intro: ceremony_step.create ceremony_step.relink\<close>)
qed

lemma delete_revoke_refines:
  assumes "slot_ok H dev s"
  shows "slot_step dev (trim (string_or_empty d) = dev)
    (if a = Bool True \<and> is_string b then Revoke (string_or_empty b) else Idle) s (snd (deleteAfterRevoke H d a b s))"
  using delete_revoke_cases [of d a b s]
proof (elim disjE exE conjE)
  assume "snd (deleteAfterRevoke H d a b s) = s"
  then show ?thesis by (rule slot_step_refused [OF assms])
next
  fix r assume rd: "readSlot H (trim (string_or_empty d)) s = Inr (Some r)" and c: "a = Bool True" "b = Str (pc_certId r)"
    and w: "snd (deleteAfterRevoke H d a b s) = kvDelete H s (slotKey (trim (string_or_empty d)))"
  show ?thesis
    by (rule slot_step_delete [OF assms w]) (use slot_of_Some [OF rd] c in \<open>auto intro: ceremony_step.revoke\<close>)
qed

lemma delete_disproven_refines:
  assumes "slot_ok H dev s"
  shows "slot_step dev (trim (string_or_empty d) = dev)
    (if a = Bool True \<and> b = Bool True \<and> is_string c then Disprove (string_or_empty c) else Idle) s
    (snd (deleteAfterDisprovenCommit H d a b c s))"
  using delete_disproven_cases [of d a b c s]
proof (elim disjE exE conjE)
  assume "snd (deleteAfterDisprovenCommit H d a b c s) = s"
  then show ?thesis by (rule slot_step_refused [OF assms])
next
  fix r assume rd: "readSlot H (trim (string_or_empty d)) s = Inr (Some r)"
    and c: "a = Bool True" "b = Bool True" "c = Str (pc_certId r)" "pc_state r \<noteq> ''published''" "pc_state r \<noteq> ''confirmed''"
    and w: "snd (deleteAfterDisprovenCommit H d a b c s) = kvDelete H s (slotKey (trim (string_or_empty d)))"
  show ?thesis
    by (rule slot_step_delete [OF assms w]) (use slot_of_Some [OF rd] c in \<open>auto intro: ceremony_step.disprove\<close>)
qed

text \<open>Every call is, for every device, an idle step or the event it names.\<close>

lemma exec_slot_step:
  assumes "slot_ok H dev s"
  shows "slot_step dev (names_device c dev) (call_event c) s (exec_ceremony H c s)"
proof (cases c)
  case (CreatePending f)
  then show ?thesis using create_refines [OF assms, of f] by (simp add: names_device_def)
next
  case (MarkPublished d)
  have "slot_step dev (trim (string_or_empty d) = dev) Publish s (snd (markPublished H d s))"
    unfolding markPublished_def
    by (rule transition_refines [OF _ assms])
      (auto simp: PENDING_CEREMONY_STATES_def isAllowedCeremonyTransition_def intro: ceremony_step.publish)
  then show ?thesis by (simp add: MarkPublished names_device_def)
next
  case (MarkConfirmed d)
  have "slot_step dev (trim (string_or_empty d) = dev) Confirm s (snd (markConfirmed H d s))"
    unfolding markConfirmed_def
    by (rule transition_refines [OF _ assms])
      (auto simp: PENDING_CEREMONY_STATES_def isAllowedCeremonyTransition_def intro: ceremony_step.confirm)
  then show ?thesis by (simp add: MarkConfirmed names_device_def)
next
  case (MarkExpired d)
  have "slot_step dev (trim (string_or_empty d) = dev) Expire s (snd (markExpired H d s))"
    unfolding markExpired_def
    by (rule transition_refines [OF _ assms])
      (auto simp: PENDING_CEREMONY_STATES_def isAllowedCeremonyTransition_def intro: ceremony_step.expire)
  then show ?thesis by (simp add: MarkExpired names_device_def)
next
  case (DeleteAfterRevoke d a b)
  then show ?thesis using delete_revoke_refines [OF assms, of d a b] by (simp add: names_device_def)
next
  case (DeleteAfterDisproven d a b x)
  then show ?thesis using delete_disproven_refines [OF assms, of d a b x] by (simp add: names_device_def)
qed

lemma exec_refines:
  assumes "slot_ok H dev s"
  shows "slot_ok H dev (exec_ceremony H c s) \<and> (\<exists>e. (e = Idle \<or> names_device c dev \<and> e = call_event c)
    \<and> ceremony_step e (slot_of H dev s) (slot_of H dev (exec_ceremony H c s)))"
  using exec_slot_step [OF assms, of c] by (simp add: slot_step_def)

end

end
