(* ===== verification/CeremonyProperties.thy ===== *)
theory CeremonyProperties
  imports Ceremony Samples
begin

text \<open>
  The properties of the registration store: its operations refine the promised machine, a
  registration is never forgotten or overwritten, and rows are read back as they were written.
\<close>

section \<open>Refinement\<close>

text \<open>
  C35. Every operation of the registration store refines the machine: for each device it is an idle
  step, or the event it names for that device, and the slot stays readable.
\<close>

theorem ceremony_ops_refine_machine:
  assumes "host_laws H" and "slot_ok H dev s"
  shows "slot_ok H dev (exec_ceremony H c s) \<and> (\<exists>e. (e = Idle \<or> names_device c dev \<and> e = call_event c)
    \<and> ceremony_step e (slot_of H dev s) (slot_of H dev (exec_ceremony H c s)))"
  by (rule host_laws.exec_refines [OF assms])

definition sample_fields_d1 :: jsval where
  "sample_fields_d1 = Obj [(''deviceId'', Str ''d1''), (''inboxId'', Str ''i1''), (''leafCert'', Obj []), (''certId'', Str ''c1''),
     (''sealedResponse'', Obj []), (''thRequestB64'', Str ''q''), (''thResponseB64'', Str ''r''), (''confirmTagB64'', Str ''t''),
     (''expiresAtMs'', num 2000)]"

definition pending_store :: "(string \<times> jsval) list" where
  "pending_store = exec_ceremony HM (CreatePending sample_fields_d1) []"

lemma empty_slot: "slot_ok HM dev []"
  by (simp add: slot_ok_def readSlot_def memory_host_def)

theorem ceremony_ops_refine_machine_instance:
  "slot_ok HM ''d1'' pending_store \<and> (\<exists>e. ceremony_step e (slot_of HM ''d1'' []) (slot_of HM ''d1'' pending_store))"
  using ceremony_ops_refine_machine [OF HM_laws empty_slot, of "''d1''" "CreatePending sample_fields_d1"]
  unfolding pending_store_def by blast

section \<open>Nothing is forgotten\<close>

text \<open>Runs under a moving clock; the clock is not read when a slot is.\<close>

fun run_ceremonies :: "'s host \<Rightarrow> (rat \<times> ceremony_call) list \<Rightarrow> 's \<Rightarrow> 's" where
  "run_ceremonies H [] s = s"
| "run_ceremonies H ((now, c) # cs) s = run_ceremonies H cs (exec_ceremony (H\<lparr>clockMs := now\<rparr>) c s)"

lemma slot_clock [simp]: "slot_of (H\<lparr>clockMs := now\<rparr>) dev s = slot_of H dev s" "slot_ok (H\<lparr>clockMs := now\<rparr>) dev s = slot_ok H dev s"
  by (simp_all add: slot_of_def slot_ok_def readSlot_def)

text \<open>What may end the obligation to revoke a certificate: its revoke, its disproof, or the confirmation.\<close>

definition settles :: "string \<Rightarrow> string \<Rightarrow> ceremony_call \<Rightarrow> bool" where
  "settles dev cert c \<longleftrightarrow> names_device c dev \<and> call_event c \<in> {Revoke cert, Disprove cert, Confirm}"

inductive_cases ceremony_confirmE: "ceremony_step Confirm x y"

lemma step_keeps_unconfirmed:
  assumes "ceremony_step e (Some (st, c)) y" and "st \<noteq> ''confirmed''" and "e \<notin> {Revoke c, Disprove c, Confirm}"
  shows "\<exists>st'. y = Some (st', c) \<and> st' \<noteq> ''confirmed''"
  using assms(1) by (rule ceremony_from_SomeE) (use assms(2,3) in simp_all)

text \<open>
  C28. A registration is never forgotten: whatever sequence of operations runs, an unconfirmed
  registration keeps the certificate id that a compensating revoke needs, until an operation on that
  device confirms it or carries the proof of its revoke or disproof.
\<close>

theorem registration_never_forgotten:
  assumes "host_laws H" and "slot_ok H dev s" and "slot_of H dev s = Some (st, cert)" "st \<noteq> ''confirmed''"
    and "\<forall>(now, c) \<in> set cs. \<not> settles dev cert c"
  shows "\<exists>st'. slot_of H dev (run_ceremonies H cs s) = Some (st', cert) \<and> st' \<noteq> ''confirmed''"
  using assms(2-5)
proof (induction cs arbitrary: s st)
  case (Cons x cs)
  obtain now c where x: "x = (now, c)" by force
  let ?H = "H\<lparr>clockMs := now\<rparr>"
  from host_laws.exec_refines [OF host_laws.host_laws_clock [OF assms(1)], of now dev s c] Cons.prems(1)
  obtain e where ok: "slot_ok H dev (exec_ceremony ?H c s)" and e: "e = Idle \<or> names_device c dev \<and> e = call_event c"
    and st: "ceremony_step e (slot_of H dev s) (slot_of H dev (exec_ceremony ?H c s))" by auto
  have "e \<notin> {Revoke cert, Disprove cert, Confirm}" using e Cons.prems(4) by (auto simp: x settles_def)
  with step_keeps_unconfirmed [OF st [unfolded Cons.prems(2)] Cons.prems(3)] obtain st' where
    "slot_of H dev (exec_ceremony ?H c s) = Some (st', cert)" "st' \<noteq> ''confirmed''" by blast
  with Cons.IH [OF ok] Cons.prems(4) show ?case by (simp add: x)
qed auto

lemma pending_slot: "slot_of HM ''d1'' pending_store = Some (''pending'', ''c1'')"
  by code_simp

theorem registration_never_forgotten_instance:
  "\<exists>st'. slot_of HM ''d1'' (run_ceremonies HM [(1500, MarkPublished (Str ''d1'')), (3000, MarkExpired (Str ''d1'')),
       (3001, DeleteAfterRevoke (Str ''d1'') (Bool True) (Str ''c9'')), (3002, CreatePending sample_fields_d1)] pending_store)
     = Some (st', ''c1'')"
proof -
  have ok: "slot_ok HM ''d1'' pending_store" using ceremony_ops_refine_machine_instance by blast
  have "\<exists>st'. slot_of HM ''d1'' (run_ceremonies HM [(1500, MarkPublished (Str ''d1'')), (3000, MarkExpired (Str ''d1'')),
       (3001, DeleteAfterRevoke (Str ''d1'') (Bool True) (Str ''c9'')), (3002, CreatePending sample_fields_d1)] pending_store)
     = Some (st', ''c1'') \<and> st' \<noteq> ''confirmed''"
    by (rule registration_never_forgotten [OF HM_laws ok pending_slot]) (simp_all add: settles_def)
  then show ?thesis by blast
qed

text \<open>
  No clobber: as long as a device holds a registration in any state but \<open>confirmed\<close> - the
  terminal \<open>expired\<close> included - \<open>createPending\<close> for it throws and writes nothing.
\<close>

theorem createPending_never_clobbers:
  assumes "requireDeviceId (getp f ''deviceId'') ''createPending'' = Inr dev"
    and "readSlot H dev s = Inr (Some r)" "pc_state r \<noteq> ''confirmed''"
  shows "\<exists>e. createPending H f s = (Inl e, s)"
  using assms by (auto simp: createPending_def throw_def)

theorem createPending_never_clobbers_instance:
  "\<exists>e. createPending HM sample_fields_d1 (exec_ceremony HM (MarkExpired (Str ''d1'')) pending_store)
    = (Inl e, exec_ceremony HM (MarkExpired (Str ''d1'')) pending_store)"
proof -
  let ?s = "exec_ceremony HM (MarkExpired (Str ''d1'')) pending_store"
  have "requireDeviceId (getp sample_fields_d1 ''deviceId'') ''createPending'' = Inr ''d1''" by code_simp
  moreover have sl: "slot_of HM ''d1'' ?s = Some (''expired'', ''c1'')" by code_simp
  then obtain r where "readSlot HM ''d1'' ?s = Inr (Some r)" "pc_state r = ''expired''"
    by (auto simp: slot_of_def split: sum.splits option.splits)
  then have "pc_state r \<noteq> ''confirmed''" by (simp only:) simp
  ultimately show ?thesis using \<open>readSlot HM ''d1'' ?s = Inr (Some r)\<close> by (intro createPending_never_clobbers)
qed

text \<open>
  What a successful operation returns is what is read back: after \<open>createPending\<close> the device's
  registration is pending and is that record, and a transition changes its state and time stamp only.
\<close>

theorem ceremony_reads_back:
  assumes "host_laws H" and "createPending H f s = (Inr r, s')"
  shows "getCeremony H (Str (pc_deviceId r)) s' = (Inr (Some r), s') \<and> pc_state r = ''pending'' \<and> pc_createdAtMs r = clockMs H"
proof -
  let ?d = "getp f ''deviceId''"
  obtain dev where dev: "f \<noteq> Null" "requireDeviceId ?d ''createPending'' = Inr dev"
    using assms(2) by (auto simp: createPending_def throw_def split: if_splits sum.splits)
  let ?raw = "Obj (spread (own_props f) [(''deviceId'', Str dev), (''state'', Str ''pending''),
    (''createdAtMs'', num (clockMs H)), (''updatedAtMs'', num (clockMs H))])"
  have mk: "mkPendingCeremony ?raw = Inr r" and s': "s' = kvSet H s (slotKey dev) (ceremony_json r)"
    using assms(2) dev by (auto simp: createPending_def throw_def ok_def split: if_splits sum.splits)
  have t: "trim dev = dev" "dev \<noteq> []" using dev(2) by (auto simp: requireDeviceId_Inr)
  have "trim ''pending'' = ''pending''" by (simp add: trim_def is_ws_def)
  then have r: "pc_deviceId r = dev" "pc_state r = ''pending''" "pc_createdAtMs r = clockMs H"
    using mk t by (auto simp: mkPendingCeremony_def buildPendingCeremony_def getp_spread Let_def split: option.splits)
  have "requireDeviceId (Str dev) ''get'' = Inr dev" using t by (simp add: requireDeviceId_def)
  then show ?thesis
    using host_laws.readSlot_write [OF assms(1) mkPendingCeremony_wf [OF mk], of dev s dev] r by (simp add: getCeremony_def s')
qed

theorem ceremony_reads_back_instance:
  "\<exists>r s'. createPending HM sample_fields_d1 [] = (Inr r, s') \<and> getCeremony HM (Str (pc_deviceId r)) s' = (Inr (Some r), s')"
proof -
  let ?r = "createPending HM sample_fields_d1 []"
  have "\<not> isl (fst ?r)" by code_simp
  then have r: "?r = (Inr (projr (fst ?r)), snd ?r)" by (cases "fst ?r") (auto simp: prod_eq_iff)
  from ceremony_reads_back [OF HM_laws r] r show ?thesis by blast
qed

end
