(* ===== verification/Channels.thy ===== *)
theory Channels
  imports GroupStore
begin

text \<open>
  \<open>ChannelStore\<close> (\<open>src/server/storage/ChatChannelStore.js\<close>): the named channels of a group.
  \<open>ensure_channel_cases\<close> and \<open>tombstone_channel_cases\<close> give the effect of the two writing operations
  on every branch; \<open>channel_step\<close> is the life cycle of one row that they refine: a label is filled in
  once and changes only when a tombstoned channel is created again, a deleted row is never lost.
\<close>

section \<open>Operations\<close>

definition CHANNEL_PREFIX :: string where "CHANNEL_PREFIX = ''app:channels/''"

definition slug_char :: "char \<Rightarrow> bool" where
  "slug_char c \<longleftrightarrow> (let n = of_char c :: nat in
     97 \<le> n \<and> n \<le> 122 \<or> 48 \<le> n \<and> n \<le> 57 \<or> c = CHR ''_'' \<or> c = CHR ''-'')"

definition isValidChannelId :: "string \<Rightarrow> bool" where
  "isValidChannelId cid \<longleftrightarrow> cid \<noteq> [] \<and> length cid \<le> 64 \<and> list_all slug_char cid"

definition channels_table :: "'s host \<Rightarrow> ChatChannel table" where
  "channels_table H = \<lparr> tb_prefix = CHANNEL_PREFIX, tb_hashLen = Some (hashLen_of 24), tb_label = ''ChatChannelStore.channels'',
     tb_coerce = table_coerce mkChatChannel (Some [(''createdAtMs'', num (clockMs H))]) (\<lambda>c. ch_ownerAccountId c \<noteq> []),
     tb_json = channel_json \<rparr>"

sublocale host_laws \<subseteq> channels: kv_table H "channels_table H" "\<lambda>c. wf_channel c \<and> ch_ownerAccountId c \<noteq> []"
  by (rule kv_table_rows [where mk = mkChatChannel and json = channel_json])
    (auto simp: channels_table_def channel_json_def channel_back mkChatChannel_wf host_laws_axioms)

context host_laws begin

lemmas channels_contract = channels.kv_table_axioms

end

definition channel_row :: "'s host \<Rightarrow> string \<Rightarrow> string \<Rightarrow> string \<Rightarrow> string \<Rightarrow> rat option \<Rightarrow> rat option \<Rightarrow> ChatChannel option" where
  "channel_row H owner gid cid label createdAtMs deletedAtMs =
     tb_coerce (channels_table H) (Obj [(''ownerAccountId'', Str owner), (''groupId'', Str gid), (''channelId'', Str cid),
       (''label'', Str label), (''createdAtMs'', opt_num createdAtMs), (''deletedAtMs'', opt_num deletedAtMs)])"

text \<open>The coerced row is stored and answered; a row that the coercion dropped throws.\<close>

definition store_channel :: "'s host \<Rightarrow> string \<Rightarrow> string \<Rightarrow> string \<Rightarrow> ChatChannel option \<Rightarrow> bool \<Rightarrow> string \<Rightarrow> ('s, ChatChannel option \<times> bool) op" where
  "store_channel H owner gid cid row flag err s =
     (case row of None \<Rightarrow> throw (Error err) s
      | Some c \<Rightarrow> ok (Some c, flag) (table_set H (channels_table H) c [owner, gid, cid] s))"

definition given_time :: "'s host \<Rightarrow> jsval \<Rightarrow> rat" where
  "given_time H v = asInt H (if nullish v then num (clockMs H) else v) (clockMs H)"

definition ensureChannel :: "'s host \<Rightarrow> jsval \<Rightarrow> jsval \<Rightarrow> jsval \<Rightarrow> jsval \<Rightarrow> jsval \<Rightarrow> ('s, ChatChannel option \<times> bool) op" where
  "ensureChannel H ownerAccountId groupId channelId label createdAtMs =
     with_id H ownerAccountId ''ownerAccountId'' (\<lambda>owner. with_id H groupId ''groupId'' (\<lambda>gid.
     with_id H channelId ''channelId'' (\<lambda>cid s.
       if \<not> isValidChannelId cid then throw (Error (''ChannelStore.ensureChannel: invalid channelId '' @ cid)) s
       else let labelOrEmpty = (if nullish label then [] else js_string label)
         in case table_get H (channels_table H) [owner, gid, cid] s of
              Some existing \<Rightarrow>
                if ch_deletedAtMs existing = None
                then (if ch_label existing = [] \<and> labelOrEmpty \<noteq> []
                      then store_channel H owner gid cid
                        (channel_row H owner gid cid labelOrEmpty (ch_createdAtMs existing) None) False
                        ''ChannelStore.ensureChannel produced invalid row on label fill'' s
                      else ok (Some existing, False) s)
                else store_channel H owner gid cid
                       (channel_row H owner gid cid (if labelOrEmpty \<noteq> [] then labelOrEmpty else ch_label existing)
                         (Some (given_time H createdAtMs)) None) True
                       ''ChannelStore.ensureChannel produced invalid row on revive'' s
            | None \<Rightarrow> store_channel H owner gid cid
                (channel_row H owner gid cid labelOrEmpty (Some (given_time H createdAtMs)) None) True
                ''ChannelStore.ensureChannel produced invalid row'' s)))"

definition getChannel :: "'s host \<Rightarrow> jsval \<Rightarrow> jsval \<Rightarrow> jsval \<Rightarrow> ('s, ChatChannel option) op" where
  "getChannel H ownerAccountId groupId channelId =
     with_id H ownerAccountId ''ownerAccountId'' (\<lambda>owner. with_id H groupId ''groupId'' (\<lambda>gid.
     with_id H channelId ''channelId'' (\<lambda>cid. reads (table_get H (channels_table H) [owner, gid, cid]))))"

definition listChannels :: "'s host \<Rightarrow> jsval \<Rightarrow> jsval \<Rightarrow> bool \<Rightarrow> ('s, ChatChannel list) op" where
  "listChannels H ownerAccountId groupId includeDeleted =
     with_id H ownerAccountId ''ownerAccountId'' (\<lambda>owner. with_id H groupId ''groupId'' (\<lambda>gid. reads (\<lambda>s.
       let rows = table_list H (channels_table H) [owner, gid] s in
       sortChannelsAlpha H (if includeDeleted then rows else filter (\<lambda>r. ch_deletedAtMs r = None) rows))))"

definition tombstoneChannel :: "'s host \<Rightarrow> jsval \<Rightarrow> jsval \<Rightarrow> jsval \<Rightarrow> jsval \<Rightarrow> ('s, ChatChannel option \<times> bool) op" where
  "tombstoneChannel H ownerAccountId groupId channelId deletedAtMs =
     with_id H ownerAccountId ''ownerAccountId'' (\<lambda>owner. with_id H groupId ''groupId'' (\<lambda>gid.
     with_id H channelId ''channelId'' (\<lambda>cid s.
       if \<not> isValidChannelId cid then throw (Error (''ChannelStore.tombstoneChannel: invalid channelId '' @ cid)) s
       else case table_get H (channels_table H) [owner, gid, cid] s of
              None \<Rightarrow> ok (None, False) s
            | Some existing \<Rightarrow>
                if ch_deletedAtMs existing \<noteq> None then ok (Some existing, False) s
                else store_channel H owner gid cid
                       (channel_row H owner gid cid (ch_label existing) (ch_createdAtMs existing)
                         (Some (given_time H deletedAtMs))) True
                       ''ChannelStore.tombstoneChannel produced invalid row'' s)))"

section \<open>Effects\<close>

text \<open>The row that a write of these values stores.\<close>

definition channel_of :: "string \<Rightarrow> string \<Rightarrow> string \<Rightarrow> string \<Rightarrow> rat option \<Rightarrow> rat option \<Rightarrow> ChatChannel" where
  "channel_of owner gid cid label c d = \<lparr> ch_channelId = cid, ch_groupId = gid, ch_ownerAccountId = owner,
     ch_label = take 128 label, ch_createdAtMs = c, ch_deletedAtMs = d \<rparr>"

lemma channel_of_simps [simp]:
  "ch_label (channel_of owner gid cid label c d) = take 128 label"
  "ch_createdAtMs (channel_of owner gid cid label c d) = c"
  "ch_deletedAtMs (channel_of owner gid cid label c d) = d"
  "ch_ownerAccountId (channel_of owner gid cid label c d) = owner"
  by (simp_all add: channel_of_def)

lemma channel_row_Some:
  assumes "owner \<noteq> []" "gid \<noteq> []" "cid \<noteq> []" "trim owner = owner" "trim gid = gid" "trim cid = cid"
  shows "channel_row H owner gid cid label c d = Some (channel_of owner gid cid label c d)"
proof -
  have "coerceRow mkChatChannel (Some sd) (Obj [(''ownerAccountId'', Str owner), (''groupId'', Str gid), (''channelId'', Str cid),
       (''label'', Str label), (''createdAtMs'', opt_num c), (''deletedAtMs'', opt_num d)]) = Some (channel_of owner gid cid label c d)" for sd
    by (rule reads_back(2)) (auto simp: mkChatChannel_def channel_of_def Let_def assms)
  then show ?thesis using assms by (simp add: channel_row_def channels_table_def table_coerce_def)
qed

lemma store_channel_row:
  assumes "owner \<noteq> []" "gid \<noteq> []" "cid \<noteq> []" "trim owner = owner" "trim gid = gid" "trim cid = cid"
  shows "store_channel H owner gid cid (channel_row H owner gid cid label c d) flag err s =
    (Inr (Some (channel_of owner gid cid label c d), flag),
     table_set H (channels_table H) (channel_of owner gid cid label c d) [owner, gid, cid] s)"
  by (simp add: store_channel_def channel_row_Some [OF assms] ok_def)

lemma wf_channel_of:
  assumes "owner \<noteq> []" "gid \<noteq> []" "cid \<noteq> []" "trim owner = owner" "trim gid = gid" "trim cid = cid"
  shows "wf_channel (channel_of owner gid cid label c d)"
  using assms by (simp add: wf_channel_def channel_of_def trimmed_def)

section \<open>The life cycle of a row\<close>

text \<open>A row abstracted to its label, creation time and deletion time.\<close>

type_synonym channel_state = "(string \<times> rat option \<times> rat option) option"

datatype channel_event = Observe | Tombstone

inductive channel_step :: "channel_event \<Rightarrow> channel_state \<Rightarrow> channel_state \<Rightarrow> bool" where
  create: "channel_step Observe None (Some (l, Some t, None))"
| fill: "l \<noteq> [] \<Longrightarrow> channel_step Observe (Some ([], t, None)) (Some (l, t, None))"
| revive: "(l' = [] \<longrightarrow> l = []) \<Longrightarrow> channel_step Observe (Some (l, t, Some d)) (Some (l', Some t', None))"
| tombstone: "channel_step Tombstone (Some (l, t, None)) (Some (l, t, Some d))"
| idle: "channel_step e x x"

inductive_cases channel_from_SomeE: "channel_step e (Some x) y"

lemma channel_never_lost: "channel_step e (Some x) y \<Longrightarrow> y \<noteq> None"
  by (erule channel_from_SomeE) simp_all

lemma live_label_final:
  "channel_step e (Some (l, t, None)) y \<Longrightarrow> l \<noteq> [] \<Longrightarrow> \<exists>d. y = Some (l, t, d)"
  by (erule channel_from_SomeE) simp_all

definition channel_at :: "'s host \<Rightarrow> string \<Rightarrow> 's \<Rightarrow> channel_state" where
  "channel_at H key s = map_option (\<lambda>c. (ch_label c, ch_createdAtMs c, ch_deletedAtMs c))
     (tb_coerce (channels_table H) (kvGet H s key))"

lemma channel_at_table_get:
  "channel_at H (table_key H (channels_table H) ps) s
    = map_option (\<lambda>c. (ch_label c, ch_createdAtMs c, ch_deletedAtMs c)) (table_get H (channels_table H) ps s)"
  by (simp add: channel_at_def table_get_def)

text \<open>A write of a row steps that row and leaves the others alone.\<close>

lemma set_channel_step:
  assumes "host_laws H" and "wf_channel r" "ch_ownerAccountId r \<noteq> []"
    and "channel_step e (channel_at H (table_key H (channels_table H) ps) s) (Some (ch_label r, ch_createdAtMs r, ch_deletedAtMs r))"
  shows "channel_step e (channel_at H key s) (channel_at H key (table_set H (channels_table H) r ps s))"
proof (cases "key = table_key H (channels_table H) ps")
  case True
  then show ?thesis
    using assms kv_table.get_set_same_row [OF host_laws.channels_contract [OF assms(1)], of r ps s]
    by (simp add: channel_at_table_get)
next
  case False
  then have "channel_at H key (table_set H (channels_table H) r ps s) = channel_at H key s"
    by (simp add: channel_at_def table_set_def host_laws.get_set [OF assms(1)])
  then show ?thesis by (simp add: idle)
qed

lemma take_128_label: "wf_channel c \<Longrightarrow> take 128 (ch_label c) = ch_label c"
  by (simp add: wf_channel_def)

lemma ensureChannel_step:
  assumes H: "host_laws H"
  shows "channel_step Observe (channel_at H key s) (channel_at H key (snd (ensureChannel H a b c l t s)))"
proof (cases "(\<exists>owner. requireId H a ''ownerAccountId'' = Inr owner) \<and> (\<exists>gid. requireId H b ''groupId'' = Inr gid)
    \<and> (\<exists>cid. requireId H c ''channelId'' = Inr cid \<and> isValidChannelId cid)")
  case True
  then obtain owner gid cid where ids: "requireId H a ''ownerAccountId'' = Inr owner" "requireId H b ''groupId'' = Inr gid"
    "requireId H c ''channelId'' = Inr cid" "isValidChannelId cid" by blast
  note nonempty = host_laws.requireId_Inr [OF H ids(1)] host_laws.requireId_Inr [OF H ids(2)] host_laws.requireId_Inr [OF H ids(3)]
  have st: "store_channel H owner gid cid (channel_row H owner gid cid lb cr d) flag err s =
    (Inr (Some (channel_of owner gid cid lb cr d), flag), table_set H (channels_table H) (channel_of owner gid cid lb cr d) [owner, gid, cid] s)"
    for lb cr d flag err
    by (rule store_channel_row) (use nonempty in auto)
  have wf: "wf_channel (channel_of owner gid cid lb cr d)" for lb cr d
    by (rule wf_channel_of) (use nonempty in auto)
  show ?thesis
  proof (cases "table_get H (channels_table H) [owner, gid, cid] s")
    case None
    then show ?thesis
      using nonempty by (auto simp: ensureChannel_def ids st Let_def channel_at_table_get
          intro!: set_channel_step [OF H wf] create)
  next
    case (Some ex)
    note wfe = kv_table.get_wf [OF host_laws.channels_contract [OF H] Some]
    show ?thesis
    proof (cases "ch_deletedAtMs ex")
      case None
      then show ?thesis using Some nonempty
        by (auto simp: ensureChannel_def ids st Let_def ok_def idle channel_at_table_get
            intro!: set_channel_step [OF H wf] fill)
    next
      case (Some d)
      then show ?thesis using \<open>table_get H (channels_table H) [owner, gid, cid] s = Some ex\<close> nonempty wfe
        by (auto simp: ensureChannel_def ids st Let_def channel_at_table_get
            intro!: set_channel_step [OF H wf] revive)
    qed
  qed
next
  case False
  then have "snd (ensureChannel H a b c l t s) = s"
    by (auto simp: ensureChannel_def with_id_def throw_def split: sum.splits)
  then show ?thesis by (simp add: idle)
qed

lemma tombstoneChannel_step:
  assumes H: "host_laws H"
  shows "channel_step Tombstone (channel_at H key s) (channel_at H key (snd (tombstoneChannel H a b c t s)))"
proof (cases "\<exists>owner gid cid ex. requireId H a ''ownerAccountId'' = Inr owner \<and> requireId H b ''groupId'' = Inr gid
    \<and> requireId H c ''channelId'' = Inr cid \<and> isValidChannelId cid
    \<and> table_get H (channels_table H) [owner, gid, cid] s = Some ex \<and> ch_deletedAtMs ex = None")
  case True
  then obtain owner gid cid ex where ids: "requireId H a ''ownerAccountId'' = Inr owner" "requireId H b ''groupId'' = Inr gid"
    "requireId H c ''channelId'' = Inr cid" "isValidChannelId cid"
    "table_get H (channels_table H) [owner, gid, cid] s = Some ex" "ch_deletedAtMs ex = None" by blast
  note nonempty = host_laws.requireId_Inr [OF H ids(1)] host_laws.requireId_Inr [OF H ids(2)] host_laws.requireId_Inr [OF H ids(3)]
  have wfe: "take 128 (ch_label ex) = ch_label ex"
    using kv_table.get_wf [OF host_laws.channels_contract [OF H] ids(5)] by (simp add: take_128_label)
  have st: "store_channel H owner gid cid (channel_row H owner gid cid lb cr d) flag err s =
    (Inr (Some (channel_of owner gid cid lb cr d), flag), table_set H (channels_table H) (channel_of owner gid cid lb cr d) [owner, gid, cid] s)"
    for lb cr d flag err
    by (rule store_channel_row) (use nonempty in auto)
  have wf: "wf_channel (channel_of owner gid cid lb cr d)" for lb cr d
    by (rule wf_channel_of) (use nonempty in auto)
  show ?thesis using nonempty
    by (auto simp: tombstoneChannel_def ids st Let_def channel_at_table_get wfe
        intro!: set_channel_step [OF H wf] tombstone)
next
  case False
  then have "snd (tombstoneChannel H a b c t s) = s"
    by (auto simp: tombstoneChannel_def with_id_def throw_def ok_def split: sum.splits option.splits)
  then show ?thesis by (simp add: idle)
qed

end
