(* ===== verification/ChannelProperties.thy ===== *)
theory ChannelProperties
  imports Channels Samples
begin

text \<open>
  Properties of the channels of a group.
\<close>

text \<open>Label and deletion of a stored row do not depend on the clock of the reader.\<close>

lemma getp_created_seed: "k \<noteq> ''createdAtMs'' \<Longrightarrow>
  getp (Obj (spread [(''createdAtMs'', num b)] fs)) k = getp (Obj (spread [(''createdAtMs'', num a)] fs)) k"
  by (simp add: getp_def map_of_spread split: option.split)

definition channel_view :: "'s host \<Rightarrow> string \<Rightarrow> 's \<Rightarrow> (string \<times> rat option) option" where
  "channel_view H key s = map_option (\<lambda>(l, t, d). (l, d)) (channel_at H key s)"

lemma channel_coerce_clock:
  assumes "tb_coerce (channels_table (H\<lparr>clockMs := a\<rparr>)) v = Some c"
  shows "\<exists>c'. tb_coerce (channels_table (H\<lparr>clockMs := b\<rparr>)) v = Some c' \<and> ch_label c' = ch_label c \<and> ch_deletedAtMs c' = ch_deletedAtMs c"
proof -
  let ?fs = "filter (\<lambda>(_, x). x \<noteq> Undef) (own_props v)"
  have "is_object v" and "mkChatChannel (Obj (spread [(''createdAtMs'', num a)] ?fs)) = Inr c" "ch_ownerAccountId c \<noteq> []"
    using assms by (auto simp: channels_table_def table_coerce_def coerceRow_def split: option.splits if_splits sum.splits)
  then show ?thesis
    by (auto simp: channels_table_def table_coerce_def coerceRow_def mkChatChannel_def Let_def
        getp_created_seed [of _ b ?fs a] split: if_splits)
qed

lemma channel_view_clock: "channel_view (H\<lparr>clockMs := now\<rparr>) key s = channel_view H key s"
proof -
  have *: "H\<lparr>clockMs := clockMs H\<rparr> = H" by simp
  show ?thesis
    using channel_coerce_clock [of now H "kvGet H s key" _ "clockMs H"] channel_coerce_clock [of "clockMs H" H "kvGet H s key" _ now]
    unfolding * channel_view_def channel_at_def
    by (cases "tb_coerce (channels_table H) (kvGet H s key)";
        cases "tb_coerce (channels_table (H\<lparr>clockMs := now\<rparr>)) (kvGet H s key)") fastforce+
qed

datatype channel_call =
    EnsureChannel jsval jsval jsval jsval jsval
  | TombstoneChannel jsval jsval jsval jsval

fun exec_channel :: "'s host \<Rightarrow> channel_call \<Rightarrow> 's \<Rightarrow> 's" where
  "exec_channel H (EnsureChannel a b c l t) s = snd (ensureChannel H a b c l t s)"
| "exec_channel H (TombstoneChannel a b c t) s = snd (tombstoneChannel H a b c t s)"

fun channel_event_of :: "channel_call \<Rightarrow> channel_event" where
  "channel_event_of (EnsureChannel _ _ _ _ _) = Observe"
| "channel_event_of (TombstoneChannel _ _ _ _) = Tombstone"

definition run_channels :: "'s host \<Rightarrow> (rat \<times> channel_call) list \<Rightarrow> 's \<Rightarrow> 's" where
  "run_channels H cs s = foldl (\<lambda>s (now, c). exec_channel (H\<lparr>clockMs := now\<rparr>) c s) s cs"

text \<open>
  Creating, observing and deleting channels refines the life cycle of a channel row: on every row
  each call is the machine's step for it or no step.
\<close>

theorem channel_ops_refine_machine:
  assumes "host_laws H"
  shows "channel_step (channel_event_of call) (channel_at H key s) (channel_at H key (exec_channel H call s))"
  using ensureChannel_step [OF assms] tombstoneChannel_step [OF assms] by (cases call) simp_all

theorem channel_ops_refine_machine_instance:
  "channel_step Observe (channel_at HM (table_key HM (channels_table HM) [''me'', ''g1'', ''dev'']) [])
     (channel_at HM (table_key HM (channels_table HM) [''me'', ''g1'', ''dev''])
        (exec_channel HM (EnsureChannel (Str ''me'') (Str ''g1'') (Str ''dev'') (Str ''Dev'') Null) []))
   \<and> channel_at HM (table_key HM (channels_table HM) [''me'', ''g1'', ''dev''])
        (exec_channel HM (EnsureChannel (Str ''me'') (Str ''g1'') (Str ''dev'') (Str ''Dev'') Null) [])
     = Some (''Dev'', Some 1000, None)"
proof
  show "channel_at HM (table_key HM (channels_table HM) [''me'', ''g1'', ''dev''])
        (exec_channel HM (EnsureChannel (Str ''me'') (Str ''g1'') (Str ''dev'') (Str ''Dev'') Null) [])
     = Some (''Dev'', Some 1000, None)" by code_simp
qed (use channel_ops_refine_machine [OF HM_laws, of "EnsureChannel (Str ''me'') (Str ''g1'') (Str ''dev'') (Str ''Dev'') Null"] in simp)

text \<open>
  The first label stays: once a live channel has a label, no sequence of creations and
  observations of any channel, by whomever and with whatever labels and clocks, changes its label or
  deletes it.
\<close>

theorem live_label_stays:
  assumes "host_laws H" and "channel_view H key s = Some (l, None)" "l \<noteq> []"
    and "\<forall>(now, c) \<in> set cs. channel_event_of c = Observe"
  shows "channel_view H key (run_channels H cs s) = Some (l, None)"
  using assms(2,4)
proof (induction cs arbitrary: s)
  case (Cons x cs)
  obtain now c where x: "x = (now, c)" by (cases x)
  let ?H = "H\<lparr>clockMs := now\<rparr>"
  have "channel_view ?H key s = Some (l, None)" using Cons.prems(1) by (simp add: channel_view_clock)
  then obtain t where t: "channel_at ?H key s = Some (l, t, None)" by (auto simp: channel_view_def)
  have "channel_event_of c = Observe" using Cons.prems(2) by (simp add: x)
  then have "channel_step Observe (Some (l, t, None)) (channel_at ?H key (exec_channel ?H c s))"
    using ensureChannel_step [of ?H key s, OF host_laws.host_laws_clock [OF assms(1)]] t by (cases c) simp_all
  then have "channel_at ?H key (exec_channel ?H c s) = Some (l, t, None)"
    using assms(3) by (auto elim: channel_from_SomeE)
  then have "channel_view ?H key (exec_channel ?H c s) = Some (l, None)" by (simp add: channel_view_def)
  then have "channel_view H key (exec_channel ?H c s) = Some (l, None)" unfolding channel_view_clock .
  from Cons.IH [OF this] Cons.prems(2) show ?case by (simp add: run_channels_def x)
qed (simp add: run_channels_def)

definition dev_store :: "(string \<times> jsval) list" where
  "dev_store = exec_channel HM (EnsureChannel (Str ''me'') (Str ''g1'') (Str ''dev'') (Str ''Dev'') Null) []"

theorem live_label_stays_instance:
  "channel_view HM (table_key HM (channels_table HM) [''me'', ''g1'', ''dev''])
     (run_channels HM [(2000, EnsureChannel (Str ''me'') (Str ''g1'') (Str ''dev'') (Str ''Other'') (num 5)),
        (3, EnsureChannel (Str ''me'') (Str ''g1'') (Str ''ops'') Null Null)] dev_store) = Some (''Dev'', None)"
proof (rule live_label_stays [OF HM_laws])
  show "channel_view HM (table_key HM (channels_table HM) [''me'', ''g1'', ''dev'']) dev_store = Some (''Dev'', None)"
    by code_simp
qed simp_all

text \<open>
  A tombstone keeps the row: deleting a live channel answers and stores the row with only its
  deletion time changed; it is still found by \<open>getChannel\<close> and by a listing that includes deleted
  channels, and deleting it again changes nothing.
\<close>

theorem tombstone_keeps_row:
  assumes "host_laws H" and "getChannel H a b c s = (Inr (Some ch), s)" and "ch_deletedAtMs ch = None"
    and "requireId H c ''channelId'' = Inr cid" "isValidChannelId cid"
    and "ch_channelId ch = cid" "requireId H a ''ownerAccountId'' = Inr (ch_ownerAccountId ch)"
      "requireId H b ''groupId'' = Inr (ch_groupId ch)"
  shows "\<exists>s'. tombstoneChannel H a b c t s = (Inr (Some (ch\<lparr>ch_deletedAtMs := Some (given_time H t)\<rparr>), True), s')
    \<and> getChannel H a b c s' = (Inr (Some (ch\<lparr>ch_deletedAtMs := Some (given_time H t)\<rparr>)), s')
    \<and> ch\<lparr>ch_deletedAtMs := Some (given_time H t)\<rparr> \<in> set (projr (fst (listChannels H a b True s')))
    \<and> tombstoneChannel H a b c t' s' = (Inr (Some (ch\<lparr>ch_deletedAtMs := Some (given_time H t)\<rparr>), False), s')"
proof -
  let ?o = "ch_ownerAccountId ch" and ?g = "ch_groupId ch" and ?ch = "ch\<lparr>ch_deletedAtMs := Some (given_time H t)\<rparr>"
  note tbl = host_laws.channels_contract [OF assms(1)]
  have got: "table_get H (channels_table H) [?o, ?g, cid] s = Some ch"
    using assms(2) by (simp add: getChannel_def assms reads_def)
  note wf = kv_table.get_wf [OF tbl got]
  have ids: "?o \<noteq> []" "?g \<noteq> []" "cid \<noteq> []" "trim ?o = ?o" "trim ?g = ?g" "trim cid = cid"
    using wf assms(6) by (auto simp: wf_channel_def trimmed_def)
  have "channel_of ?o ?g cid (ch_label ch) (ch_createdAtMs ch) (Some (given_time H t)) = ?ch"
    using assms(6) wf by (simp add: channel_of_def take_128_label)
  then have eq: "tombstoneChannel H a b c t s = (Inr (Some ?ch, True), table_set H (channels_table H) ?ch [?o, ?g, cid] s)"
    using assms(3) by (simp add: tombstoneChannel_def assms(4,5,7,8) got store_channel_row [OF ids])
  define s' where "s' = table_set H (channels_table H) ?ch [?o, ?g, cid] s"
  have now: "table_get H (channels_table H) ([?o, ?g] @ [cid]) s' = Some ?ch"
    using wf kv_table.get_set_same_row [OF tbl, of ?ch "[?o, ?g, cid]" s] by (simp add: s'_def wf_channel_def)
  have "?ch \<in> set (table_list H (channels_table H) [?o, ?g] s')"
    by (rule kv_table.get_in_list [OF tbl now]) simp
  then show ?thesis using eq now unfolding s'_def [symmetric]
    by (auto simp: getChannel_def listChannels_def tombstoneChannel_def assms(4,5,7,8) reads_def ok_def sortChannelsAlpha_def)
qed

theorem tombstone_keeps_row_instance:
  "\<exists>ch s'. tombstoneChannel HM (Str ''me'') (Str ''g1'') (Str ''dev'') (num 7) dev_store = (Inr (Some ch, True), s')
     \<and> ch \<in> set (projr (fst (listChannels HM (Str ''me'') (Str ''g1'') True s')))"
proof -
  let ?ch = "\<lparr> ch_channelId = ''dev'', ch_groupId = ''g1'', ch_ownerAccountId = ''me'', ch_label = ''Dev'',
    ch_createdAtMs = Some 1000, ch_deletedAtMs = None \<rparr>"
  have "fst (getChannel HM (Str ''me'') (Str ''g1'') (Str ''dev'') dev_store) = Inr (Some ?ch)" by code_simp
  moreover have "snd (getChannel HM (Str ''me'') (Str ''g1'') (Str ''dev'') dev_store) = dev_store"
    by (simp add: getChannel_def with_id_def reads_def throw_def split: sum.split)
  ultimately have g: "getChannel HM (Str ''me'') (Str ''g1'') (Str ''dev'') dev_store = (Inr (Some ?ch), dev_store)"
    by (simp add: prod_eq_iff)
  have i: "requireId HM (Str ''dev'') ''channelId'' = Inr ''dev''" "isValidChannelId ''dev''"
    "requireId HM (Str ''me'') ''ownerAccountId'' = Inr (ch_ownerAccountId ?ch)" "requireId HM (Str ''g1'') ''groupId'' = Inr (ch_groupId ?ch)"
    by code_simp+
  from tombstone_keeps_row [OF HM_laws g _ i(1,2) _ i(3,4)] show ?thesis by fastforce
qed

end
