(* ===== verification/Contacts.thy ===== *)
theory Contacts
  imports GroupStore
begin

text \<open>
  The stores of the people an account knows: \<open>ContactStore\<close>
  (\<open>src/server/storage/ChatContactStore.js\<close>), \<open>ConnectRequestStore\<close> and \<open>AutoMintedInviteStore\<close>.
  Their tables are not hashed. \<open>upsert_contact_cases\<close> and \<open>mark_keeps_rows\<close> are the facts the
  properties rest on.
\<close>

section \<open>Contacts\<close>

definition contacts_table :: "'s host \<Rightarrow> ChatContact table" where
  "contacts_table H = \<lparr> tb_prefix = ''app:contacts/'', tb_hashLen = None, tb_label = ''ChatContactStore'',
     tb_coerce = table_coerce (mkChatContact (clockMs H)) None (\<lambda>_. True), tb_json = contact_json \<rparr>"

sublocale host_laws \<subseteq> contacts: kv_table H "contacts_table H" "\<lambda>c. wf_contact c \<and> True"
  by (rule kv_table_rows [where mk = "mkChatContact (clockMs H)" and json = contact_json])
    (auto simp: contacts_table_def contact_json_def contact_back mkChatContact_wf host_laws_axioms)

text \<open>The properties of \<open>patch\<close> that \<open>upsert\<close> reads.\<close>

record contactPatch =
  cp_displayName :: jsval
  cp_avatarFileHash :: jsval
  cp_relationshipState :: jsval
  cp_lastSeenAtMs :: jsval

definition no_patch :: contactPatch where
  "no_patch = \<lparr> cp_displayName = Undef, cp_avatarFileHash = Undef, cp_relationshipState = Undef, cp_lastSeenAtMs = Undef \<rparr>"

definition getContact :: "'s host \<Rightarrow> jsval \<Rightarrow> jsval \<Rightarrow> ('s, ChatContact option) op" where
  "getContact H ownerAccountId accountId =
     with_id H ownerAccountId ''ownerAccountId'' (\<lambda>owner. with_id H accountId ''accountId'' (\<lambda>contact.
       reads (table_get H (contacts_table H) [owner, contact])))"

definition merged_contact :: "'s host \<Rightarrow> string \<Rightarrow> contactPatch \<Rightarrow> ChatContact option \<Rightarrow> ChatContact option" where
  "merged_contact H contact patch existing =
     (let now = now_of H;
          old = (\<lambda>f. case existing of None \<Rightarrow> Null | Some e \<Rightarrow> f e)
      in tb_coerce (contacts_table H) (Obj [
        (''accountId'', Str contact),
        (''displayName'', if \<not> nullish (cp_displayName patch) then cp_displayName patch else old (\<lambda>e. opt_str (co_displayName e))),
        (''avatarFileHash'', if \<not> nullish (cp_avatarFileHash patch) then cp_avatarFileHash patch else old (\<lambda>e. Str (co_avatarFileHash e))),
        (''relationshipState'', if \<not> nullish (cp_relationshipState patch) then cp_relationshipState patch else old (\<lambda>e. Str (co_relationshipState e))),
        (''createdAtMs'', case existing of None \<Rightarrow> num now | Some e \<Rightarrow> num (co_createdAtMs e)),
        (''updatedAtMs'', num now),
        (''lastSeenAtMs'', if nullish (cp_lastSeenAtMs patch) then old (\<lambda>e. opt_num (co_lastSeenAtMs e))
          else num (asInt H (cp_lastSeenAtMs patch) now))]))"

definition upsertContact :: "'s host \<Rightarrow> jsval \<Rightarrow> jsval \<Rightarrow> contactPatch \<Rightarrow> ('s, ChatContact \<times> bool) op" where
  "upsertContact H ownerAccountId accountId patch =
     with_id H ownerAccountId ''ownerAccountId'' (\<lambda>owner. with_id H accountId ''accountId'' (\<lambda>contact.
     andThen (getContact H (Str owner) (Str contact)) (\<lambda>existing s.
       case merged_contact H contact patch existing of
         None \<Rightarrow> throw (Error ''ChatContactStore.upsert produced invalid contact row'') s
       | Some next \<Rightarrow> ok (next, existing = None) (table_set H (contacts_table H) next [owner, contact] s))))"

definition ensureContact :: "'s host \<Rightarrow> jsval \<Rightarrow> jsval \<Rightarrow> contactPatch \<Rightarrow> ('s, ChatContact \<times> bool) op" where
  "ensureContact H ownerAccountId accountId defaults =
     andThen (getContact H ownerAccountId accountId) (\<lambda>existing.
       case existing of Some e \<Rightarrow> ok (e, False)
       | None \<Rightarrow> upsertContact H ownerAccountId accountId
           (let null = (\<lambda>v. if nullish v then Null else v) in
            \<lparr> cp_displayName = null (cp_displayName defaults), cp_avatarFileHash = null (cp_avatarFileHash defaults),
              cp_relationshipState = (if nullish (cp_relationshipState defaults) then Str ''active'' else cp_relationshipState defaults),
              cp_lastSeenAtMs = null (cp_lastSeenAtMs defaults) \<rparr>))"

definition deleteContact :: "'s host \<Rightarrow> jsval \<Rightarrow> jsval \<Rightarrow> ('s, bool) op" where
  "deleteContact H ownerAccountId accountId =
     with_id H ownerAccountId ''ownerAccountId'' (\<lambda>owner. with_id H accountId ''accountId'' (\<lambda>contact.
     andThen (getContact H (Str owner) (Str contact)) (\<lambda>existing s.
       ok (existing \<noteq> None) (table_delete H (contacts_table H) [owner, contact] s))))"

definition renameContact :: "'s host \<Rightarrow> jsval \<Rightarrow> jsval \<Rightarrow> jsval \<Rightarrow> ('s, ChatContact \<times> bool) op" where
  "renameContact H ownerAccountId accountId displayName =
     upsertContact H ownerAccountId accountId (no_patch\<lparr>cp_displayName := displayName\<rparr>)"

definition setRelationshipState :: "'s host \<Rightarrow> jsval \<Rightarrow> jsval \<Rightarrow> jsval \<Rightarrow> ('s, ChatContact \<times> bool) op" where
  "setRelationshipState H ownerAccountId accountId relationshipState =
     andThen (lift_result (coerceRelationshipState ''active'' relationshipState)) (\<lambda>nextState.
       upsertContact H ownerAccountId accountId (no_patch\<lparr>cp_relationshipState := Str nextState\<rparr>))"

definition sortByUpdatedThenAccount :: "'s host \<Rightarrow> ChatContact list \<Rightarrow> ChatContact list" where
  "sortByUpdatedThenAccount H = sort_by (byUpdatedThen H (\<lambda>c. Some (co_updatedAtMs c)) co_accountId)"

definition listByState :: "'s host \<Rightarrow> jsval \<Rightarrow> jsval \<Rightarrow> ('s, ChatContact list) op" where
  "listByState H ownerAccountId relationshipState =
     with_id H ownerAccountId ''ownerAccountId'' (\<lambda>owner.
     andThen (lift_result (coerceRelationshipState ''active'' relationshipState)) (\<lambda>state.
       reads (\<lambda>s. sortByUpdatedThenAccount H
         (filter (\<lambda>r. co_relationshipState r = state) (table_list H (contacts_table H) [owner] s)))))"

definition listAllContacts :: "'s host \<Rightarrow> jsval \<Rightarrow> ('s, ChatContact list) op" where
  "listAllContacts H ownerAccountId = with_id H ownerAccountId ''ownerAccountId'' (\<lambda>owner.
     reads (\<lambda>s. sortByUpdatedThenAccount H (table_list H (contacts_table H) [owner] s)))"

section \<open>Connect requests\<close>

definition requests_table :: "'s host \<Rightarrow> ConnectRequest table" where
  "requests_table H = \<lparr> tb_prefix = ''app:connectRequests/'', tb_hashLen = None, tb_label = ''ConnectRequestStore'',
     tb_coerce = table_coerce (mkConnectRequest (clockMs H)) None (\<lambda>_. True), tb_json = request_json \<rparr>"

sublocale host_laws \<subseteq> requests: kv_table H "requests_table H" "\<lambda>r. wf_request r \<and> True"
  by (rule kv_table_rows [where mk = "mkConnectRequest (clockMs H)" and json = request_json])
    (auto simp: requests_table_def request_json_def request_back mkConnectRequest_wf host_laws_axioms)

definition getRequest :: "'s host \<Rightarrow> jsval \<Rightarrow> jsval \<Rightarrow> ('s, ConnectRequest option) op" where
  "getRequest H ownerAccountId peerAccountId =
     with_id H ownerAccountId ''ownerAccountId'' (\<lambda>owner. with_id H peerAccountId ''peerAccountId'' (\<lambda>peer.
       reads (table_get H (requests_table H) [owner, peer])))"

record requestArgs =
  ra_direction :: jsval
  ra_requestId :: jsval
  ra_inviteCode :: jsval
  ra_displayName :: jsval
  ra_groupId :: jsval
  ra_state :: jsval

definition upsertRequest :: "'s host \<Rightarrow> jsval \<Rightarrow> jsval \<Rightarrow> requestArgs \<Rightarrow> ('s, ConnectRequest \<times> bool) op" where
  "upsertRequest H ownerAccountId peerAccountId a =
     with_id H ownerAccountId ''ownerAccountId'' (\<lambda>owner. with_id H peerAccountId ''peerAccountId'' (\<lambda>peer.
     andThen (getRequest H (Str owner) (Str peer)) (\<lambda>existing s.
       let now = now_of H in
       case tb_coerce (requests_table H) (Obj [(''peerAccountId'', Str peer), (''direction'', ra_direction a),
           (''requestId'', ra_requestId a), (''inviteCode'', ra_inviteCode a), (''displayName'', ra_displayName a),
           (''groupId'', ra_groupId a), (''state'', if ra_state a = Undef then Str ''pending'' else ra_state a),
           (''createdAtMs'', num (case existing of None \<Rightarrow> now | Some e \<Rightarrow> cr_createdAtMs e)), (''updatedAtMs'', num now)]) of
         None \<Rightarrow> throw (Error ''ConnectRequestStore.upsert produced invalid request row'') s
       | Some next \<Rightarrow> ok (next, existing = None) (table_set H (requests_table H) next [owner, peer] s))))"

definition deleteRequest :: "'s host \<Rightarrow> jsval \<Rightarrow> jsval \<Rightarrow> ('s, bool) op" where
  "deleteRequest H ownerAccountId peerAccountId =
     with_id H ownerAccountId ''ownerAccountId'' (\<lambda>owner. with_id H peerAccountId ''peerAccountId'' (\<lambda>peer.
     andThen (getRequest H (Str owner) (Str peer)) (\<lambda>existing s.
       ok (existing \<noteq> None) (table_delete H (requests_table H) [owner, peer] s))))"

definition listAllRequests :: "'s host \<Rightarrow> jsval \<Rightarrow> ('s, ConnectRequest list) op" where
  "listAllRequests H ownerAccountId = with_id H ownerAccountId ''ownerAccountId'' (\<lambda>owner.
     reads (\<lambda>s. sort_by (\<lambda>a b. cr_updatedAtMs b - cr_updatedAtMs a) (table_list H (requests_table H) [owner] s)))"

section \<open>Auto-minted invites\<close>

definition MAX_ROWS :: nat where "MAX_ROWS = 4096"
definition RETENTION_MS :: rat where "RETENTION_MS = 24 * 60 * 60 * 1000"

definition invites_table :: "'s host \<Rightarrow> AutoMintedInvite table" where
  "invites_table H = \<lparr> tb_prefix = ''app:autoMintedInvites/'', tb_hashLen = None, tb_label = ''AutoMintedInviteStore'',
     tb_coerce = table_coerce (mkAutoMintedInvite (clockMs H)) None (\<lambda>_. True), tb_json = invite_json \<rparr>"

sublocale host_laws \<subseteq> invites: kv_table H "invites_table H" "\<lambda>i. wf_invite i \<and> True"
  by (rule kv_table_rows [where mk = "mkAutoMintedInvite (clockMs H)" and json = invite_json])
    (auto simp: invites_table_def invite_json_def invite_back mkAutoMintedInvite_wf host_laws_axioms)

definition delete_invites :: "'s host \<Rightarrow> string \<Rightarrow> AutoMintedInvite list \<Rightarrow> 's \<Rightarrow> 's" where
  "delete_invites H owner rows s = foldl (\<lambda>s r. table_delete H (invites_table H) [owner, ai_inviteId r] s) s rows"

definition stale_rows :: "rat \<Rightarrow> AutoMintedInvite list \<Rightarrow> AutoMintedInvite list" where
  "stale_rows now rows = filter (\<lambda>r. now - ai_createdAtMs r > RETENTION_MS) rows"

definition surplus_rows :: "rat \<Rightarrow> AutoMintedInvite list \<Rightarrow> AutoMintedInvite list" where
  "surplus_rows now rows =
     (let stale = stale_rows now rows; live = length rows - length stale;
          ordered = sort_by (\<lambda>a b. ai_createdAtMs a - ai_createdAtMs b)
            (filter (\<lambda>r. ai_inviteId r \<notin> ai_inviteId ` set stale) rows)
      in if live \<le> MAX_ROWS then [] else take (live - MAX_ROWS) ordered)"

definition prune_invites :: "'s host \<Rightarrow> string \<Rightarrow> rat \<Rightarrow> 's \<Rightarrow> 's" where
  "prune_invites H owner now s =
     (let rows = table_list H (invites_table H) [owner] s in
      delete_invites H owner (surplus_rows now rows) (delete_invites H owner (stale_rows now rows) s))"

definition markAutoMinted :: "'s host \<Rightarrow> jsval \<Rightarrow> jsval \<Rightarrow> jsval \<Rightarrow> jsval \<Rightarrow> ('s, AutoMintedInvite) op" where
  "markAutoMinted H ownerAccountId inviteId reason expiresAtMs =
     with_id H ownerAccountId ''ownerAccountId'' (\<lambda>owner. with_id H inviteId ''inviteId'' (\<lambda>i s.
       let now = now_of H in
       case tb_coerce (invites_table H) (Obj [(''inviteId'', Str i), (''reason'', if reason = Undef then Str ''unspecified'' else reason),
           (''createdAtMs'', num now), (''expiresAtMs'', num (asInt H (if expiresAtMs = Undef then Null else expiresAtMs) now))]) of
         None \<Rightarrow> throw (Error ''AutoMintedInviteStore.markAutoMinted produced invalid row'') s
       | Some row \<Rightarrow> ok row (prune_invites H owner now (table_set H (invites_table H) row [owner, i] s))))"

definition isAutoMinted :: "'s host \<Rightarrow> jsval \<Rightarrow> jsval \<Rightarrow> ('s, bool) op" where
  "isAutoMinted H ownerAccountId inviteId =
     with_id H ownerAccountId ''ownerAccountId'' (\<lambda>owner. with_id H inviteId ''inviteId'' (\<lambda>i.
       reads (\<lambda>s. table_get H (invites_table H) [owner, i] s \<noteq> None)))"

end
