(* ===== verification/ContactProperties.thy ===== *)
theory ContactProperties
  imports Contacts Samples
begin

text \<open>
  Properties of contacts, connect requests and auto-minted invites.
\<close>

context host_laws begin

lemmas contacts_contract = contacts.kv_table_axioms
lemmas requests_contract = requests.kv_table_axioms
lemmas invites_contract = invites.kv_table_axioms

end

section \<open>Contacts\<close>

lemma table_coerce_plain: "table_coerce mk None (\<lambda>_. True) v = Some r \<longleftrightarrow> is_object v \<and> mk v = Inr r"
  by (auto simp: table_coerce_def coerceRow_def split: sum.splits)

lemma mkChatContactD:
  assumes "mkChatContact now raw = Inr c"
  shows "coerceRelationshipState ''active'' (getp raw ''relationshipState'') = Inr (co_relationshipState c)"
    and "co_createdAtMs c = toFiniteNumber (getp raw ''createdAtMs'') now"
  using assms by (auto simp: mkChatContact_def Let_def split: if_splits sum.splits)

lemma merged_keeps:
  assumes "merged_contact H contact patch (Some e) = Some c"
  shows "co_createdAtMs c = co_createdAtMs e"
    and "wf_contact e \<Longrightarrow> nullish (cp_relationshipState patch) \<Longrightarrow> co_relationshipState c = co_relationshipState e"
proof -
  obtain fs where mk: "mkChatContact (clockMs H) (Obj fs) = Inr c"
    and fs: "map_of fs ''createdAtMs'' = Some (num (co_createdAtMs e))"
      "nullish (cp_relationshipState patch) \<Longrightarrow> map_of fs ''relationshipState'' = Some (Str (co_relationshipState e))"
    using assms by (simp add: merged_contact_def Let_def contacts_table_def table_coerce_plain)
  show "co_createdAtMs c = co_createdAtMs e" using mkChatContactD(2) [OF mk] fs(1) by (simp add: getp_def)
  show "co_relationshipState c = co_relationshipState e" if "wf_contact e" "nullish (cp_relationshipState patch)"
    using mkChatContactD(1) [OF mk] fs(2) [OF that(2)] that(1) by (simp add: getp_def wf_contact_def)
qed

text \<open>
  An upsert stores the merged row and nothing else: the contact is read back as answered, keeps the
  creation time it had and, when the patch names none, its relationship state, and the rows under every
  other key are unchanged.
\<close>

theorem contact_upsert_merges:
  assumes "host_laws H" and "upsertContact H a b patch s = (Inr (c, new), s')"
    and "requireId H a ''ownerAccountId'' = Inr owner" "requireId H b ''accountId'' = Inr contact"
  shows "getContact H a b s' = (Inr (Some c), s')
    \<and> (new \<longleftrightarrow> table_get H (contacts_table H) [owner, contact] s = None)
    \<and> (\<forall>e. table_get H (contacts_table H) [owner, contact] s = Some e \<longrightarrow> co_createdAtMs c = co_createdAtMs e
        \<and> (nullish (cp_relationshipState patch) \<longrightarrow> co_relationshipState c = co_relationshipState e))
    \<and> (\<forall>k. k \<noteq> table_key H (contacts_table H) [owner, contact] \<longrightarrow> kvGet H s' k = kvGet H s k)"
proof -
  note tbl = host_laws.contacts_contract [OF assms(1)]
  let ?ex = "table_get H (contacts_table H) [owner, contact] s"
  have ids: "requireId H (Str owner) ''ownerAccountId'' = Inr owner" "requireId H (Str contact) ''accountId'' = Inr contact"
    using host_laws.requireId_Str [OF assms(1)] host_laws.requireId_Inr [OF assms(1) assms(3)]
      host_laws.requireId_Inr [OF assms(1) assms(4)] by auto
  have m: "merged_contact H contact patch ?ex = Some c" "new = (?ex = None)"
    "s' = table_set H (contacts_table H) c [owner, contact] s"
    using assms(2) by (auto simp: upsertContact_def getContact_def assms(3,4) ids andThen_def reads_def throw_def ok_def split: option.splits)
  have wf: "wf_contact c"
    using m(1) kv_table.coerce_wf [OF tbl] by (auto simp: merged_contact_def Let_def)
  have "co_relationshipState c = co_relationshipState e" if "?ex = Some e" "nullish (cp_relationshipState patch)" for e
    using merged_keeps(2) [OF m(1) [unfolded that(1)] _ that(2)] kv_table.get_wf [OF tbl that(1)] by simp
  moreover have "co_createdAtMs c = co_createdAtMs e" if "?ex = Some e" for e
    by (rule merged_keeps(1) [OF m(1) [unfolded that]])
  moreover have "getContact H a b s' = (Inr (Some c), s')"
    using kv_table.get_set_same_row [OF tbl, of c "[owner, contact]" s] wf by (simp add: getContact_def assms(3,4) reads_def m(3))
  ultimately show ?thesis
    using m(2) by (auto simp: m(3) table_set_def host_laws.get_set [OF assms(1)])
qed

theorem contact_upsert_merges_instance:
  "\<exists>c1 s1 c2 s2. upsertContact HM (Str ''me'') (Str ''bob'') (no_patch\<lparr>cp_relationshipState := Str ''blocked''\<rparr>) [] = (Inr (c1, True), s1)
     \<and> upsertContact HM (Str ''me'') (Str ''bob'') (no_patch\<lparr>cp_displayName := Str ''Bob''\<rparr>) s1 = (Inr (c2, False), s2)
     \<and> getContact HM (Str ''me'') (Str ''bob'') s2 = (Inr (Some c2), s2) \<and> co_relationshipState c2 = ''blocked''"
proof -
  let ?r1 = "upsertContact HM (Str ''me'') (Str ''bob'') (no_patch\<lparr>cp_relationshipState := Str ''blocked''\<rparr>) []"
  let ?r2 = "upsertContact HM (Str ''me'') (Str ''bob'') (no_patch\<lparr>cp_displayName := Str ''Bob''\<rparr>) (snd ?r1)"
  have "\<not> isl (fst ?r1) \<and> snd (projr (fst ?r1))" "\<not> isl (fst ?r2) \<and> \<not> snd (projr (fst ?r2))" by code_simp+
  then obtain c1 s1 c2 s2 where r: "?r1 = (Inr (c1, True), s1)" "?r2 = (Inr (c2, False), s2)"
    by (cases "fst ?r1"; cases "fst ?r2") (auto simp: prod_eq_iff)
  have i: "requireId HM (Str ''me'') ''ownerAccountId'' = Inr ''me''" "requireId HM (Str ''bob'') ''accountId'' = Inr ''bob''" by code_simp+
  have "map_option co_relationshipState (table_get HM (contacts_table HM) [''me'', ''bob''] (snd ?r1)) = Some ''blocked''" by code_simp
  then have "co_relationshipState c2 = ''blocked''"
    using contact_upsert_merges [OF HM_laws r(2) i] by (auto simp: no_patch_def)
  then show ?thesis using r contact_upsert_merges [OF HM_laws r(2) i] by (metis snd_conv)
qed

text \<open>The relationship state of a stored contact does not depend on the clock of the reader.\<close>

definition relation_at :: "'s host \<Rightarrow> string \<Rightarrow> 's \<Rightarrow> string option" where
  "relation_at H key s = map_option co_relationshipState (tb_coerce (contacts_table H) (kvGet H s key))"

lemma relation_clock: "relation_at (H\<lparr>clockMs := now\<rparr>) key s = relation_at H key s"
  by (auto simp: relation_at_def contacts_table_def table_coerce_def coerceRow_def mkChatContact_def Let_def
      split: sum.split option.split)

datatype contact_call = EnsureContact jsval jsval contactPatch | RenameContact jsval jsval jsval | UpsertContact jsval jsval contactPatch

fun exec_contact :: "'s host \<Rightarrow> contact_call \<Rightarrow> 's \<Rightarrow> 's" where
  "exec_contact H (EnsureContact a b d) s = snd (ensureContact H a b d s)"
| "exec_contact H (RenameContact a b n) s = snd (renameContact H a b n s)"
| "exec_contact H (UpsertContact a b p) s = snd (upsertContact H a b p s)"

fun names_state :: "contact_call \<Rightarrow> bool" where
  "names_state (UpsertContact a b p) \<longleftrightarrow> \<not> nullish (cp_relationshipState p)"
| "names_state _ \<longleftrightarrow> False"

definition run_contacts :: "'s host \<Rightarrow> (rat \<times> contact_call) list \<Rightarrow> 's \<Rightarrow> 's" where
  "run_contacts H cs s = foldl (\<lambda>s (now, c). exec_contact (H\<lparr>clockMs := now\<rparr>) c s) s cs"

lemma upsert_keeps_relation:
  assumes "host_laws H" and "nullish (cp_relationshipState p)" and "relation_at H key s = Some st"
  shows "relation_at H key (snd (upsertContact H a b p s)) = Some st"
proof (cases "fst (upsertContact H a b p s)")
  case (Inl e)
  then have "snd (upsertContact H a b p s) = s"
    by (auto simp: upsertContact_def getContact_def with_id_def andThen_def reads_def throw_def ok_def split: sum.splits option.splits)
  then show ?thesis using assms(3) by simp
next
  case (Inr cn)
  obtain c new where eq: "upsertContact H a b p s = (Inr (c, new), snd (upsertContact H a b p s))"
    using Inr by (cases cn) (simp add: prod_eq_iff)
  obtain owner contact where ids: "requireId H a ''ownerAccountId'' = Inr owner" "requireId H b ''accountId'' = Inr contact"
    using eq by (auto simp: upsertContact_def with_id_def throw_def split: sum.splits)
  note up = contact_upsert_merges [OF assms(1) eq ids]
  have got: "tb_coerce (contacts_table H) (kvGet H s' (table_key H (contacts_table H) ps)) = table_get H (contacts_table H) ps s'" for s' ps
    by (simp add: table_get_def)
  show ?thesis
  proof (cases "key = table_key H (contacts_table H) [owner, contact]")
    case True
    then show ?thesis
      using up assms(2,3) by (auto simp: relation_at_def got getContact_def ids reads_def)
  next
    case False
    then show ?thesis using up assms(3) by (simp add: relation_at_def)
  qed
qed

lemma exec_keeps_relation:
  assumes "host_laws H" and "\<not> names_state c" and "relation_at H key s = Some st"
  shows "relation_at H key (exec_contact H c s) = Some st"
proof (cases c)
  case (EnsureContact a b d)
  show ?thesis
  proof (cases "getContact H a b s")
    case (Pair r s2)
    have s2: "s2 = s" using Pair by (auto simp: getContact_def with_id_def reads_def throw_def split: sum.splits)
    show ?thesis
    proof (cases r)
      case (Inr ex)
      show ?thesis
      proof (cases ex)
        case None
        obtain owner contact where ids: "requireId H a ''ownerAccountId'' = Inr owner" "requireId H b ''accountId'' = Inr contact"
          using Pair Inr by (auto simp: getContact_def with_id_def throw_def split: sum.splits)
        have miss: "table_get H (contacts_table H) [owner, contact] s = None"
          using Pair Inr None s2 by (simp add: getContact_def ids reads_def)
        then have "key \<noteq> table_key H (contacts_table H) [owner, contact]"
          using assms(3) by (auto simp: relation_at_def table_get_def)
        then have "relation_at H key (snd (upsertContact H a b p s)) = Some st" for p
          using assms(3) ids
          by (auto simp: upsertContact_def getContact_def andThen_def reads_def throw_def ok_def relation_at_def table_set_def
              host_laws.get_set [OF assms(1)] with_id_def split: option.split sum.split)
        then show ?thesis using Pair Inr None s2 by (simp add: EnsureContact ensureContact_def andThen_def)
      qed (use Pair Inr s2 assms(3) in \<open>simp add: EnsureContact ensureContact_def andThen_def ok_def\<close>)
    qed (use Pair s2 assms(3) in \<open>simp add: EnsureContact ensureContact_def andThen_def\<close>)
  qed
qed (use assms upsert_keeps_relation [OF assms(1)] in \<open>simp_all add: renameContact_def no_patch_def\<close>)

text \<open>
  A blocked contact stays blocked: no sequence of \<open>ensureContact\<close> and \<open>rename\<close> calls and of
  upserts whose patch names no relationship state, of any contacts and at any times, changes the
  relationship state of a stored contact.
\<close>

theorem relation_changes_only_when_named:
  assumes "host_laws H" and "relation_at H key s = Some st" and "\<forall>(now, c) \<in> set cs. \<not> names_state c"
  shows "relation_at H key (run_contacts H cs s) = Some st"
  using assms(2,3)
proof (induction cs arbitrary: s)
  case (Cons x cs)
  obtain now c where x: "x = (now, c)" by (cases x)
  have "relation_at (H\<lparr>clockMs := now\<rparr>) key (exec_contact (H\<lparr>clockMs := now\<rparr>) c s) = Some st"
    by (rule exec_keeps_relation [OF host_laws.host_laws_clock [OF assms(1)]])
      (use Cons.prems in \<open>auto simp: x relation_clock\<close>)
  then have "relation_at H key (exec_contact (H\<lparr>clockMs := now\<rparr>) c s) = Some st" by (simp add: relation_clock)
  from Cons.IH [OF this] Cons.prems(2) show ?case by (simp add: run_contacts_def x)
qed (simp add: run_contacts_def)

theorem relation_changes_only_when_named_instance:
  "relation_at HM (table_key HM (contacts_table HM) [''me'', ''bob''])
    (run_contacts HM [(5, EnsureContact (Str ''me'') (Str ''bob'') no_patch), (6, RenameContact (Str ''me'') (Str ''bob'') (Str ''B''))]
      (snd (setRelationshipState HM (Str ''me'') (Str ''bob'') (Str ''blocked'') []))) = Some ''blocked''"
proof (rule relation_changes_only_when_named [OF HM_laws])
  show "relation_at HM (table_key HM (contacts_table HM) [''me'', ''bob''])
     (snd (setRelationshipState HM (Str ''me'') (Str ''bob'') (Str ''blocked'') [])) = Some ''blocked''" by code_simp
qed simp

section \<open>Auto-minted invites\<close>

text \<open>Every row of the owner is stored under its own invite id.\<close>

definition own_rows :: "'s host \<Rightarrow> string \<Rightarrow> 's \<Rightarrow> bool" where
  "own_rows H owner s \<longleftrightarrow> (\<forall>k r. prefix (prefixOf H (invites_table H) [owner]) k \<longrightarrow>
     tb_coerce (invites_table H) (kvGet H s k) = Some r \<longrightarrow> k = table_key H (invites_table H) [owner, ai_inviteId r])"

lemma delete_invites_get:
  assumes "host_laws H"
  shows "kvGet H (delete_invites H owner rs s) k
    = (if k \<in> (\<lambda>r. table_key H (invites_table H) [owner, ai_inviteId r]) ` set rs then Null else kvGet H s k)"
proof (induction rs arbitrary: s)
  case (Cons r rs)
  have "delete_invites H owner (r # rs) s = delete_invites H owner rs (table_delete H (invites_table H) [owner, ai_inviteId r] s)"
    by (simp add: delete_invites_def)
  then show ?case by (simp add: Cons.IH table_delete_def host_laws.get_delete [OF assms])
qed (simp add: delete_invites_def)

lemma no_surplus: "length rows \<le> MAX_ROWS \<Longrightarrow> surplus_rows now rows = []"
  by (simp add: surplus_rows_def Let_def)

lemma invite_row_coerce:
  assumes "tb_coerce (invites_table H) (Obj [(''inviteId'', Str i), (''reason'', rs), (''createdAtMs'', num c), (''expiresAtMs'', ex)]) = Some r"
  shows "ai_inviteId r = trim i" "ai_createdAtMs r = c"
  using assms by (auto simp: invites_table_def table_coerce_plain mkAutoMintedInvite_def Let_def getp_def split: if_splits)

lemma own_rows_set:
  assumes "host_laws H" and "own_rows H owner s" and "wf_invite r" "ai_inviteId r = i"
  shows "own_rows H owner (table_set H (invites_table H) r [owner, i] s)"
  using assms(2,4) kv_table.coerce_json [OF host_laws.invites_contract [OF assms(1)], of r] assms(3)
  by (auto simp: own_rows_def table_set_def host_laws.get_set [OF assms(1)])

text \<open>Pruning a table with room deletes only rows past their retention.\<close>

lemma prune_keeps:
  assumes "host_laws H" and "own_rows H owner s" and "length (table_list H (invites_table H) [owner] s) \<le> MAX_ROWS"
  shows "own_rows H owner (prune_invites H owner now s)
    \<and> (\<forall>i r. table_get H (invites_table H) [owner, i] s = Some r \<longrightarrow> now - ai_createdAtMs r \<le> RETENTION_MS \<longrightarrow>
         table_get H (invites_table H) [owner, i] (prune_invites H owner now s) = Some r)"
proof -
  note tbl = host_laws.invites_contract [OF assms(1)]
  let ?rows = "table_list H (invites_table H) [owner] s"
  let ?s = "delete_invites H owner (stale_rows now ?rows) s"
  have p: "prune_invites H owner now s = ?s"
    using no_surplus [OF assms(3)] by (simp add: prune_invites_def Let_def delete_invites_def)
  have "own_rows H owner ?s"
    using assms(2) kv_table.coerce_nullish [OF tbl, of Null]
    by (auto simp: own_rows_def delete_invites_get [OF assms(1)] split: if_splits)
  moreover have "table_get H (invites_table H) [owner, i] ?s = Some r"
    if got: "table_get H (invites_table H) [owner, i] s = Some r" and fresh: "now - ai_createdAtMs r \<le> RETENTION_MS" for i r
  proof -
    let ?k = "table_key H (invites_table H) [owner, i]"
    have "?k \<notin> (\<lambda>r. table_key H (invites_table H) [owner, ai_inviteId r]) ` set (stale_rows now ?rows)"
    proof
      assume "?k \<in> (\<lambda>r. table_key H (invites_table H) [owner, ai_inviteId r]) ` set (stale_rows now ?rows)"
      then obtain r' where r': "?k = table_key H (invites_table H) [owner, ai_inviteId r']" "r' \<in> set ?rows"
        "now - ai_createdAtMs r' > RETENTION_MS" by (auto simp: stale_rows_def)
      then obtain k' where k': "prefix (prefixOf H (invites_table H) [owner]) k'" "tb_coerce (invites_table H) (kvGet H s k') = Some r'"
        by (auto simp: kv_table.list_iff [OF tbl])
      then have "k' = ?k" using assms(2) r'(1) by (auto simp: own_rows_def)
      then have "r' = r" using k'(2) got by (simp add: table_get_def)
      then show False using r'(3) fresh by simp
    qed
    then show ?thesis using got by (simp add: table_get_def delete_invites_get [OF assms(1)])
  qed
  ultimately show ?thesis by (simp add: p)
qed

text \<open>
  Provenance is kept: after \<open>markAutoMinted\<close>, with at most \<open>MAX_ROWS\<close> rows, the new invite and
  every invite of the owner that was marked at most 24 hours ago are still reported as auto-minted,
  whatever their own expiry, and every row of the owner stays under its own id.
\<close>

theorem auto_minted_kept:
  assumes "host_laws H" and "own_rows H owner s" and "markAutoMinted H (Str owner) iv reason ex s = (Inr x, s')"
    and "requireId H (Str owner) ''ownerAccountId'' = Inr owner"
    and "length (table_list H (invites_table H) [owner] (table_set H (invites_table H) x [owner, ai_inviteId x] s)) \<le> MAX_ROWS"
  shows "isAutoMinted H (Str owner) iv s' = (Inr True, s')
    \<and> (\<forall>i r. requireId H (Str i) ''inviteId'' = Inr i \<longrightarrow> table_get H (invites_table H) [owner, i] s = Some r \<longrightarrow>
        now_of H - ai_createdAtMs r \<le> RETENTION_MS \<longrightarrow> isAutoMinted H (Str owner) (Str i) s' = (Inr True, s'))
    \<and> own_rows H owner s'"
proof -
  note tbl = host_laws.invites_contract [OF assms(1)]
  obtain i where i: "requireId H iv ''inviteId'' = Inr i"
    using assms(3) by (auto simp: markAutoMinted_def with_id_def assms(4) throw_def split: sum.splits)
  have trim_i: "trim i = i" using host_laws.requireId_Inr [OF assms(1) i] by simp
  obtain rs e where co: "tb_coerce (invites_table H) (Obj [(''inviteId'', Str i), (''reason'', rs),
      (''createdAtMs'', num (now_of H)), (''expiresAtMs'', e)]) = Some x"
    and s': "s' = prune_invites H owner (now_of H) (table_set H (invites_table H) x [owner, i] s)"
    using assms(3) by (auto simp: markAutoMinted_def assms(4) i Let_def throw_def ok_def split: option.splits)
  have x: "ai_inviteId x = i" "ai_createdAtMs x = now_of H" "wf_invite x"
    using invite_row_coerce [OF co] trim_i kv_table.coerce_wf [OF tbl co] by auto
  let ?s1 = "table_set H (invites_table H) x [owner, i] s"
  have own: "own_rows H owner ?s1" by (rule own_rows_set [OF assms(1,2) x(3,1)])
  note keep = prune_keeps [OF assms(1) own, of "now_of H"]
  have len: "length (table_list H (invites_table H) [owner] ?s1) \<le> MAX_ROWS" using assms(5) x(1) by simp
  have new: "table_get H (invites_table H) [owner, i] ?s1 = Some x" using kv_table.get_set_same_row [OF tbl, of x] x(3) by simp
  have r0: "(0::rat) \<le> RETENTION_MS" by (simp add: RETENTION_MS_def)
  have old: "table_get H (invites_table H) [owner, j] s' \<noteq> None"
    if "table_get H (invites_table H) [owner, j] s = Some r" "now_of H - ai_createdAtMs r \<le> RETENTION_MS" for j r
  proof -
    have "\<exists>r'. table_get H (invites_table H) [owner, j] ?s1 = Some r' \<and> now_of H - ai_createdAtMs r' \<le> RETENTION_MS"
      using that x(2,3) r0 kv_table.get_set_row [OF tbl, of x "[owner, j]" "[owner, i]" s] by auto
    then show ?thesis using keep len s' by auto
  qed
  have "table_get H (invites_table H) [owner, i] s' \<noteq> None" using keep len new x(2) r0 s' by auto
  then show ?thesis using old keep len s' by (auto simp: isAutoMinted_def assms(4) i reads_def)
qed

theorem auto_minted_kept_instance:
  "\<exists>s1 s2 x1 x2. markAutoMinted HM (Str ''me'') (Str ''i1'') (Str ''recovery'') (num 5) [] = (Inr x1, s1)
     \<and> markAutoMinted HM (Str ''me'') (Str ''i2'') Undef Undef s1 = (Inr x2, s2)
     \<and> isAutoMinted HM (Str ''me'') (Str ''i1'') s2 = (Inr True, s2)"
proof -
  let ?r1 = "markAutoMinted HM (Str ''me'') (Str ''i1'') (Str ''recovery'') (num 5) []"
  let ?r2 = "markAutoMinted HM (Str ''me'') (Str ''i2'') Undef Undef (snd ?r1)"
  let ?x1 = "projr (fst ?r1)" and ?x2 = "projr (fst ?r2)"
  have "\<not> isl (fst ?r1)" "\<not> isl (fst ?r2)" by code_simp+
  then have r: "?r1 = (Inr ?x1, snd ?r1)" "?r2 = (Inr ?x2, snd ?r2)" by (simp_all add: prod_eq_iff)
  have i: "requireId HM (Str ''me'') ''ownerAccountId'' = Inr ''me''" "requireId HM (Str ''i1'') ''inviteId'' = Inr ''i1''" by code_simp+
  have o1: "own_rows HM ''me'' []" by (simp add: own_rows_def memory_host_def invites_table_def table_coerce_plain)
  have len: "length (table_list HM (invites_table HM) [''me''] (table_set HM (invites_table HM) ?x1 [''me'', ai_inviteId ?x1] [])) = 1"
    "length (table_list HM (invites_table HM) [''me''] (table_set HM (invites_table HM) ?x2 [''me'', ai_inviteId ?x2] (snd ?r1))) = 2"
    by code_simp+
  have t: "map_option ai_createdAtMs (table_get HM (invites_table HM) [''me'', ''i1''] (snd ?r1)) = Some 1000" by code_simp
  have n: "now_of HM = 1000" by code_simp
  have o2: "own_rows HM ''me'' (snd ?r1)" using auto_minted_kept [OF HM_laws o1 r(1) i(1)] len(1) by (simp add: MAX_ROWS_def)
  have "isAutoMinted HM (Str ''me'') (Str ''i1'') (snd ?r2) = (Inr True, snd ?r2)"
    using auto_minted_kept [OF HM_laws o2 r(2) i(1)] len(2) t n i(2) by (auto simp: MAX_ROWS_def RETENTION_MS_def)
  then show ?thesis using r by (metis snd_conv)
qed

end
