(* ===== verification/InboxLogs.thy ===== *)
theory InboxLogs
  imports GroupStore
begin

text \<open>
  The durable logs of the inbound pipeline: \<open>ProcessedDepositLog\<close> (which deposits were consumed and
  how often decryption of one failed) and \<open>InboundApplyOutbox\<close> (decrypted messages that wait to be
  applied), both under \<open>src/server/inbox\<close>. The outbox refines a table from mailbox and deduplication
  id to entry (\<open>exec_outbox_refines\<close>).
\<close>

text \<open>\<open>Number.isFinite(nowMs) ? Number(nowMs) : Date.now()\<close>.\<close>

fun finite_or_now :: "'s host \<Rightarrow> jsval \<Rightarrow> rat" where
  "finite_or_now H (Num (Fin r)) = r"
| "finite_or_now H _ = clockMs H"

text \<open>Both ids trimmed, nothing if one is missing.\<close>

definition deposit_ids :: "jsval \<Rightarrow> jsval \<Rightarrow> (string \<times> string) option" where
  "deposit_ids mailboxId eventId =
     (let m = trim (string_or_empty mailboxId); e = trim (string_or_empty eventId) in
      if m = [] \<or> e = [] then None else Some (m, e))"

section \<open>Processed deposits\<close>

definition processedKey :: "string \<Rightarrow> string \<Rightarrow> string" where
  "processedKey m e = ''chat-server:inbox:processed:v1:'' @ m @ '':'' @ e"

definition attemptKey :: "string \<Rightarrow> string \<Rightarrow> string" where
  "attemptKey m e = ''chat-server:inbox:attempts:v1:'' @ m @ '':'' @ e"

definition hasProcessed :: "'s host \<Rightarrow> jsval \<Rightarrow> jsval \<Rightarrow> 's \<Rightarrow> bool" where
  "hasProcessed H mailboxId eventId s = (case deposit_ids mailboxId eventId of None \<Rightarrow> False
     | Some (m, e) \<Rightarrow> \<not> nullish (kvGet H s (processedKey m e)))"

definition markProcessed :: "'s host \<Rightarrow> jsval \<Rightarrow> jsval \<Rightarrow> jsval \<Rightarrow> 's \<Rightarrow> 's" where
  "markProcessed H mailboxId eventId nowMs s = (case deposit_ids mailboxId eventId of None \<Rightarrow> s
     | Some (m, e) \<Rightarrow> kvSet H s (processedKey m e) (Obj [(''mailboxId'', Str m), (''eventId'', Str e),
         (''processedAtMs'', num (finite_or_now H nowMs))]))"

definition forgetProcessed :: "'s host \<Rightarrow> jsval \<Rightarrow> jsval \<Rightarrow> 's \<Rightarrow> 's" where
  "forgetProcessed H mailboxId eventId s = (case deposit_ids mailboxId eventId of None \<Rightarrow> s
     | Some (m, e) \<Rightarrow> kvDelete H s (processedKey m e))"

text \<open>\<open>stored && Number.isInteger(stored.attempts) ? stored.attempts : 0\<close>, and the same for the first time.\<close>

definition stored_attempts :: "jsval \<Rightarrow> rat" where
  "stored_attempts stored = (if is_integer (getp stored ''attempts'')
     then (case getp stored ''attempts'' of Num (Fin r) \<Rightarrow> r | _ \<Rightarrow> 0) else 0)"

definition stored_first :: "jsval \<Rightarrow> rat \<Rightarrow> rat" where
  "stored_first stored d = (case getp stored ''firstSeenAtMs'' of Num (Fin r) \<Rightarrow> r | _ \<Rightarrow> d)"

definition recordAttempt :: "'s host \<Rightarrow> jsval \<Rightarrow> jsval \<Rightarrow> jsval \<Rightarrow> 's \<Rightarrow> rat \<times> 's" where
  "recordAttempt H mailboxId eventId nowMs s = (case deposit_ids mailboxId eventId of None \<Rightarrow> (0, s)
     | Some (m, e) \<Rightarrow>
       let key = attemptKey m e; stored = kvGet H s key; attempts = stored_attempts stored + 1;
           now = finite_or_now H nowMs
       in (attempts, kvSet H s key (Obj [(''mailboxId'', Str m), (''eventId'', Str e), (''attempts'', num attempts),
            (''firstSeenAtMs'', num (stored_first stored now)), (''lastAttemptAtMs'', num now)])))"

definition attemptsOf :: "'s host \<Rightarrow> jsval \<Rightarrow> jsval \<Rightarrow> 's \<Rightarrow> rat" where
  "attemptsOf H mailboxId eventId s = (case deposit_ids mailboxId eventId of None \<Rightarrow> 0
     | Some (m, e) \<Rightarrow> stored_attempts (kvGet H s (attemptKey m e)))"

definition firstSeenAtMs :: "'s host \<Rightarrow> jsval \<Rightarrow> jsval \<Rightarrow> 's \<Rightarrow> rat" where
  "firstSeenAtMs H mailboxId eventId s = (case deposit_ids mailboxId eventId of None \<Rightarrow> 0
     | Some (m, e) \<Rightarrow> stored_first (kvGet H s (attemptKey m e)) 0)"

definition clearAttempts :: "'s host \<Rightarrow> jsval \<Rightarrow> jsval \<Rightarrow> 's \<Rightarrow> 's" where
  "clearAttempts H mailboxId eventId s = (case deposit_ids mailboxId eventId of None \<Rightarrow> s
     | Some (m, e) \<Rightarrow> kvDelete H s (attemptKey m e))"

section \<open>The apply outbox\<close>

definition mailboxKey :: "string \<Rightarrow> string" where
  "mailboxKey m = ''chat-server:inbox:apply-outbox:v1:'' @ m"

definition loadMap :: "'s host \<Rightarrow> string \<Rightarrow> 's \<Rightarrow> (string \<times> jsval) list" where
  "loadMap H m s = (case kvGet H s (mailboxKey m) of Obj kvs \<Rightarrow> kvs | _ \<Rightarrow> [])"

definition saveMap :: "'s host \<Rightarrow> string \<Rightarrow> (string \<times> jsval) list \<Rightarrow> 's \<Rightarrow> 's" where
  "saveMap H m kvs s = (if kvs = [] then kvDelete H s (mailboxKey m) else kvSet H s (mailboxKey m) (Obj kvs))"

text \<open>
  \<open>map[dedupId]\<close>: nothing, an entry of the map itself, or what every plain object inherits under
  that name (a function, or the prototype).
\<close>

datatype slot_value = Missing | Own jsval | Inherited

definition slot_of_map :: "(string \<times> jsval) list \<Rightarrow> string \<Rightarrow> slot_value" where
  "slot_of_map kvs d = (case map_of kvs d of
     Some v \<Rightarrow> if nullish v then Missing else Own v
   | None \<Rightarrow> if inherited d then Inherited else Missing)"

text \<open>\<open>map[dedupId] = v\<close>: a property, except under \<open>__proto__\<close>.\<close>

definition put_entry :: "string \<Rightarrow> jsval \<Rightarrow> (string \<times> jsval) list \<Rightarrow> (string \<times> jsval) list" where
  "put_entry d v kvs = (if d = ''__proto__'' \<and> map_of kvs d = None then kvs else AList.update d v kvs)"

definition staged_entry :: "string \<Rightarrow> string \<Rightarrow> jsval \<Rightarrow> rat \<Rightarrow> jsval" where
  "staged_entry m d userMessage now = Obj [(''mailboxId'', Str m), (''dedupId'', Str d), (''userMessage'', userMessage),
     (''attempts'', num 0), (''firstStagedAtMs'', num now), (''lastAttemptAtMs'', Null)]"

definition stage :: "'s host \<Rightarrow> jsval \<Rightarrow> jsval \<Rightarrow> jsval \<Rightarrow> jsval \<Rightarrow> 's \<Rightarrow> bool \<times> 's" where
  "stage H mailboxId dedupId userMessage nowMs s = (case deposit_ids mailboxId dedupId of None \<Rightarrow> (False, s)
     | Some (m, d) \<Rightarrow>
       let kvs = loadMap H m s in
       if slot_of_map kvs d \<noteq> Missing then (False, s)
       else (True, saveMap H m (put_entry d (staged_entry m d userMessage (finite_or_now H nowMs)) kvs) s))"

definition getEntry :: "'s host \<Rightarrow> jsval \<Rightarrow> jsval \<Rightarrow> 's \<Rightarrow> slot_value" where
  "getEntry H mailboxId dedupId s = (case deposit_ids mailboxId dedupId of None \<Rightarrow> Missing
     | Some (m, d) \<Rightarrow> slot_of_map (loadMap H m s) d)"

definition hasEntry :: "'s host \<Rightarrow> jsval \<Rightarrow> jsval \<Rightarrow> 's \<Rightarrow> bool" where
  "hasEntry H mailboxId dedupId s = (getEntry H mailboxId dedupId s \<noteq> Missing)"

definition markApplied :: "'s host \<Rightarrow> jsval \<Rightarrow> jsval \<Rightarrow> 's \<Rightarrow> 's" where
  "markApplied H mailboxId dedupId s = (case deposit_ids mailboxId dedupId of None \<Rightarrow> s
     | Some (m, d) \<Rightarrow>
       let kvs = loadMap H m s in
       if slot_of_map kvs d = Missing then s else saveMap H m (AList.delete d kvs) s)"

text \<open>\<open>{ ...entry, attempts, lastAttemptAtMs }\<close>; an inherited function has no own properties.\<close>

definition entry_props :: "slot_value \<Rightarrow> (string \<times> jsval) list" where
  "entry_props v = (case v of Own e \<Rightarrow> own_props e | _ \<Rightarrow> [])"

definition entry_field :: "slot_value \<Rightarrow> string \<Rightarrow> jsval" where
  "entry_field v k = (case v of Own e \<Rightarrow> getp e k | _ \<Rightarrow> Undef)"

definition next_attempts :: "slot_value \<Rightarrow> rat" where
  "next_attempts v = (case entry_field v ''attempts'' of Num (Fin r) \<Rightarrow> r | _ \<Rightarrow> 0) + 1"

definition failed_entry :: "slot_value \<Rightarrow> rat \<Rightarrow> jsval" where
  "failed_entry v now = Obj (spread (entry_props v) [(''attempts'', num (next_attempts v)), (''lastAttemptAtMs'', num now)])"

definition recordApplyFailure :: "'s host \<Rightarrow> jsval \<Rightarrow> jsval \<Rightarrow> jsval \<Rightarrow> 's \<Rightarrow> (rat \<times> jsval) \<times> 's" where
  "recordApplyFailure H mailboxId dedupId nowMs s = (case deposit_ids mailboxId dedupId of None \<Rightarrow> ((0, Null), s)
     | Some (m, d) \<Rightarrow>
       let kvs = loadMap H m s; entry = slot_of_map kvs d in
       if entry = Missing then ((0, Null), s)
       else ((next_attempts entry, entry_field entry ''firstStagedAtMs''),
         saveMap H m (put_entry d (failed_entry entry (finite_or_now H nowMs)) kvs) s))"

definition listPending :: "'s host \<Rightarrow> jsval \<Rightarrow> 's \<Rightarrow> jsval list" where
  "listPending H mailboxId s = (let m = trim (string_or_empty mailboxId) in
     if m = [] then [] else filter (\<lambda>v. \<not> nullish v) (map snd (loadMap H m s)))"

section \<open>The outbox as a table\<close>

text \<open>The entries of a store, by mailbox and id.\<close>

type_synonym outbox = "string \<Rightarrow> string \<Rightarrow> slot_value"

definition outbox_of :: "'s host \<Rightarrow> 's \<Rightarrow> outbox" where
  "outbox_of H s = (\<lambda>m. slot_of_map (loadMap H m s))"

datatype outbox_call =
    Stage jsval jsval jsval jsval
  | MarkApplied jsval jsval
  | RecordFailure jsval jsval jsval

fun exec_outbox :: "'s host \<Rightarrow> outbox_call \<Rightarrow> 's \<Rightarrow> 's" where
  "exec_outbox H (Stage a b um t) s = snd (stage H a b um t s)"
| "exec_outbox H (MarkApplied a b) s = markApplied H a b s"
| "exec_outbox H (RecordFailure a b t) s = snd (recordApplyFailure H a b t s)"

text \<open>What a call does to the table: one entry is added, removed or counted up.\<close>

definition put_slot :: "string \<Rightarrow> string \<Rightarrow> slot_value \<Rightarrow> outbox \<Rightarrow> outbox" where
  "put_slot m d v b = b(m := (b m)(d := v))"

definition default_slot :: "string \<Rightarrow> slot_value" where
  "default_slot d = (if inherited d then Inherited else Missing)"

fun outbox_step :: "'s host \<Rightarrow> outbox_call \<Rightarrow> outbox \<Rightarrow> outbox" where
  "outbox_step H (Stage a b um t) bx = (case deposit_ids a b of None \<Rightarrow> bx
     | Some (m, d) \<Rightarrow> if bx m d = Missing then put_slot m d (Own (staged_entry m d um (finite_or_now H t))) bx else bx)"
| "outbox_step H (MarkApplied a b) bx = (case deposit_ids a b of None \<Rightarrow> bx
     | Some (m, d) \<Rightarrow> if bx m d = Missing then bx else put_slot m d (default_slot d) bx)"
| "outbox_step H (RecordFailure a b t) bx = (case deposit_ids a b of None \<Rightarrow> bx
     | Some (m, d) \<Rightarrow> if bx m d = Missing \<or> bx m d = Inherited \<and> d = ''__proto__'' then bx
         else put_slot m d (Own (failed_entry (bx m d) (finite_or_now H t))) bx)"

lemma mailboxKey_inj [simp]: "mailboxKey m = mailboxKey m' \<longleftrightarrow> m = m'"
  by (simp add: mailboxKey_def)

lemma loadMap_saveMap:
  "host_laws H \<Longrightarrow> loadMap H m' (saveMap H m kvs s) = (if m' = m then kvs else loadMap H m' s)"
  by (simp add: loadMap_def saveMap_def host_laws.get_set host_laws.get_delete)

lemma inherited_proto [simp]: "inherited ''__proto__''"
  by (simp add: inherited_def object_prototype_keys_def)

lemma slot_of_put_entry:
  assumes "\<not> nullish v"
  shows "slot_of_map (put_entry d v kvs) d'
    = (if d' = d \<and> \<not> (d = ''__proto__'' \<and> map_of kvs d = None) then Own v else slot_of_map kvs d')"
proof (cases "d = ''__proto__'' \<and> map_of kvs d = None")
  case True
  then have "put_entry d v kvs = kvs" unfolding put_entry_def by (rule if_P)
  then show ?thesis using True by (elim conjE) simp
next
  case False
  then have "put_entry d v kvs = AList.update d v kvs" by (simp only: put_entry_def if_False)
  then show ?thesis using False assms by (simp add: slot_of_map_def update_conv')
qed

lemma slot_of_delete:
  "slot_of_map (AList.delete d kvs) d' = (if d' = d then default_slot d else slot_of_map kvs d')"
  by (simp add: slot_of_map_def default_slot_def delete_conv')

lemma outbox_saveMap:
  "host_laws H \<Longrightarrow> outbox_of H (saveMap H m kvs s) = (outbox_of H s)(m := slot_of_map kvs)"
  by (rule ext) (simp add: outbox_of_def loadMap_saveMap)

lemma not_nullish_entries [simp]: "\<not> nullish (staged_entry m d um t)" "\<not> nullish (failed_entry v t)"
  by (simp_all add: staged_entry_def failed_entry_def)

lemma slot_missing_proto: "slot_of_map kvs ''__proto__'' = Missing \<Longrightarrow> map_of kvs ''__proto__'' \<noteq> None"
  by (cases "map_of kvs ''__proto__''") (simp_all add: slot_of_map_def)

lemma slot_map_None: "map_of kvs d = None \<Longrightarrow> slot_of_map kvs d = default_slot d"
  by (simp add: slot_of_map_def default_slot_def)

lemma outbox_put_entry:
  assumes "host_laws H" and "\<not> nullish v" and "\<not> (d = ''__proto__'' \<and> map_of (loadMap H m s) d = None)"
  shows "outbox_of H (saveMap H m (put_entry d v (loadMap H m s)) s) = put_slot m d (Own v) (outbox_of H s)"
  unfolding outbox_saveMap [OF assms(1)] put_slot_def
  using assms(3) by (intro ext) (simp add: slot_of_put_entry [OF assms(2)] outbox_of_def)

lemma outbox_put_proto:
  assumes "host_laws H" and "map_of (loadMap H m s) ''__proto__'' = None"
  shows "outbox_of H (saveMap H m (put_entry ''__proto__'' v (loadMap H m s)) s) = outbox_of H s"
proof -
  have "put_entry ''__proto__'' v (loadMap H m s) = loadMap H m s" using assms(2) by (simp only: put_entry_def if_True simp_thms)
  then show ?thesis unfolding outbox_saveMap [OF assms(1)] by (intro ext) (simp add: outbox_of_def)
qed

lemma outbox_delete_entry:
  assumes "host_laws H"
  shows "outbox_of H (saveMap H m (AList.delete d (loadMap H m s)) s) = put_slot m d (default_slot d) (outbox_of H s)"
  unfolding outbox_saveMap [OF assms] put_slot_def by (intro ext) (simp add: slot_of_delete outbox_of_def)

lemma slot_of_loadMap: "slot_of_map (loadMap H m s) d = outbox_of H s m d"
  by (simp add: outbox_of_def)

lemma inherited_slot: "slot_of_map kvs d = Inherited \<longleftrightarrow> map_of kvs d = None \<and> inherited d"
  by (simp add: slot_of_map_def split: option.split)

lemma proto_slot:
  "d = ''__proto__'' \<and> map_of (loadMap H m s) d = None \<longleftrightarrow> d = ''__proto__'' \<and> outbox_of H s m d = Inherited"
  using inherited_slot [of "loadMap H m s" d] inherited_proto by (auto simp: slot_of_loadMap simp del: inherited_proto)

lemma exec_outbox_refines:
  assumes H: "host_laws H"
  shows "outbox_of H (exec_outbox H c s) = outbox_step H c (outbox_of H s)"
proof (cases c)
  case (Stage a b um t)
  show ?thesis
  proof (cases "deposit_ids a b")
    case (Some p)
    obtain m d where p: "deposit_ids a b = Some (m, d)" using Some by (cases p) simp
    show ?thesis
    proof (cases "outbox_of H s m d = Missing")
      case True
      then have "\<not> (d = ''__proto__'' \<and> map_of (loadMap H m s) d = None)" unfolding proto_slot by simp
      from outbox_put_entry [OF H not_nullish_entries(1) this] show ?thesis
        by (simp add: Stage stage_def p Let_def slot_of_loadMap True)
    qed (simp add: Stage stage_def p Let_def slot_of_loadMap)
  qed (simp add: Stage stage_def)
next
  case (MarkApplied a b)
  show ?thesis
    by (auto simp: MarkApplied markApplied_def Let_def slot_of_loadMap outbox_delete_entry [OF H] split: option.split)
next
  case (RecordFailure a b t)
  show ?thesis
  proof (cases "deposit_ids a b")
    case (Some p)
    obtain m d where p: "deposit_ids a b = Some (m, d)" using Some by (cases p) simp
    show ?thesis
    proof (cases "d = ''__proto__'' \<and> outbox_of H s m d = Inherited")
      case True
      then have "map_of (loadMap H m s) ''__proto__'' = None" using proto_slot [of d H m s] by blast
      moreover have "d = ''__proto__''" "outbox_of H s m ''__proto__'' = Inherited" using True by auto
      ultimately show ?thesis
        by (simp add: RecordFailure recordApplyFailure_def p Let_def slot_of_loadMap outbox_put_proto [OF H])
    next
      case False
      then have "\<not> (d = ''__proto__'' \<and> map_of (loadMap H m s) d = None)" unfolding proto_slot .
      from outbox_put_entry [OF H not_nullish_entries(2) this] show ?thesis using False
        by (auto simp: RecordFailure recordApplyFailure_def p Let_def slot_of_loadMap)
    qed
  qed (simp add: RecordFailure recordApplyFailure_def)
qed

text \<open>What the table holds is what the readers answer.\<close>

lemma getEntry_outbox:
  "getEntry H a b s = (case deposit_ids a b of None \<Rightarrow> Missing | Some (m, d) \<Rightarrow> outbox_of H s m d)"
  by (simp add: getEntry_def outbox_of_def split: option.split)

lemma slot_Own_map: "slot_of_map kvs d = Own v \<longleftrightarrow> map_of kvs d = Some v \<and> \<not> nullish v"
  by (auto simp: slot_of_map_def split: option.split)

lemma pending_listed:
  "trim m = m \<Longrightarrow> m \<noteq> [] \<Longrightarrow> outbox_of H s m d = Own v \<Longrightarrow> v \<in> set (listPending H (Str m) s)"
  by (force simp: listPending_def outbox_of_def slot_Own_map dest: map_of_SomeD)

end
