(* ===== verification/DeferredBuffer.thy ===== *)
theory DeferredBuffer
  imports Host
begin

text \<open>
  \<open>ServerDeferredMessageBuffer\<close> (\<open>src/server/services/ServerDeferredMessageBuffer.js\<close>): messages
  whose sender is not a member yet, held per group and account until the join arrives. The map keeps
  insertion order; its bounds are an invariant of every sequence of deferrals and flushes
  (\<open>wf_buffer\<close>).
\<close>

section \<open>State and operations\<close>

record 'e buffer =
  bf_map :: "(string \<times> 'e list) list"
  bf_redelivering :: bool
  bf_maxKeys :: nat
  bf_maxPerKey :: nat

definition positive_or :: "jsval \<Rightarrow> nat \<Rightarrow> nat" where
  "positive_or v d = (case v of Num (Fin r) \<Rightarrow> if of_int \<lfloor>r\<rfloor> = r \<and> r > 0 then nat \<lfloor>r\<rfloor> else d | _ \<Rightarrow> d)"

definition new_buffer :: "jsval \<Rightarrow> jsval \<Rightarrow> 'e buffer" where
  "new_buffer maxKeys maxPerKey = \<lparr> bf_map = [], bf_redelivering = False,
     bf_maxKeys = positive_or maxKeys 256, bf_maxPerKey = positive_or maxPerKey 64 \<rparr>"

definition bufferKey :: "string \<Rightarrow> string \<Rightarrow> string" where
  "bufferKey groupId accountId = groupId @ '':'' @ accountId"

text \<open>The oldest key makes room for a new bucket, the oldest event of a full bucket for a new event.\<close>

definition open_bucket :: "string \<Rightarrow> 'e buffer \<Rightarrow> (string \<times> 'e list) list" where
  "open_bucket key b =
     (case map_of (bf_map b) key of
        Some _ \<Rightarrow> bf_map b
      | None \<Rightarrow> (if length (bf_map b) \<ge> bf_maxKeys b then drop 1 (bf_map b) else bf_map b) @ [(key, [])])"

definition push_event :: "nat \<Rightarrow> 'e \<Rightarrow> 'e list \<Rightarrow> 'e list" where
  "push_event maxPerKey event bucket = (if length bucket \<ge> maxPerKey then drop 1 bucket else bucket) @ [event]"

definition bucket_of :: "(string \<times> 'e list) list \<Rightarrow> string \<Rightarrow> 'e list" where
  "bucket_of m key = (case map_of m key of None \<Rightarrow> [] | Some bucket \<Rightarrow> bucket)"

definition defer_event :: "string \<Rightarrow> string \<Rightarrow> 'e \<Rightarrow> 'e buffer \<Rightarrow> 'e buffer" where
  "defer_event groupId accountId event b =
     (let key = bufferKey groupId accountId; opened = open_bucket key b in
      b\<lparr>bf_map := AList.update key (push_event (bf_maxPerKey b) event (bucket_of opened key)) opened\<rparr>)"

definition held :: "string \<Rightarrow> 'e buffer \<Rightarrow> 'e list" where
  "held key b = bucket_of (bf_map b) key"

text \<open>Each event is handed to \<open>reapply\<close> once, in order; its errors are logged and swallowed.\<close>

fun reapply_all :: "('e \<Rightarrow> 'e buffer \<times> 'w \<Rightarrow> (js_error + unit) \<times> ('e buffer \<times> 'w)) \<Rightarrow> 'e list \<Rightarrow> 'e buffer \<times> 'w \<Rightarrow> 'e buffer \<times> 'w" where
  "reapply_all reapply [] w = w"
| "reapply_all reapply (e # es) w = reapply_all reapply es (snd (reapply e w))"

definition flush_buffer :: "jsval \<Rightarrow> jsval \<Rightarrow> ('e \<Rightarrow> 'e buffer \<times> 'w \<Rightarrow> (js_error + unit) \<times> ('e buffer \<times> 'w)) \<Rightarrow> 'e buffer \<times> 'w \<Rightarrow> 'e buffer \<times> 'w" where
  "flush_buffer groupId accountId reapply bw =
     (let gid = trim (string_or_empty groupId); acct = trim (string_or_empty accountId) in
      if gid = [] \<or> acct = [] then bw
      else let key = bufferKey gid acct; bucket = held key (fst bw) in
        if bucket = [] then bw
        else let b = (fst bw)\<lparr>bf_map := filter (\<lambda>(k, _). k \<noteq> key) (bf_map (fst bw)), bf_redelivering := True\<rparr>;
                 (b', w') = reapply_all reapply bucket (b, snd bw)
             in (b'\<lparr>bf_redelivering := False\<rparr>, w'))"

section \<open>Bounds\<close>

definition wf_buffer :: "'e buffer \<Rightarrow> bool" where
  "wf_buffer b \<longleftrightarrow> 0 < bf_maxKeys b \<and> 0 < bf_maxPerKey b \<and> distinct (map fst (bf_map b))
     \<and> length (bf_map b) \<le> bf_maxKeys b
     \<and> (\<forall>(k, bucket) \<in> set (bf_map b). bucket \<noteq> [] \<and> length bucket \<le> bf_maxPerKey b)"

lemma positive_or_pos: "0 < d \<Longrightarrow> 0 < positive_or v d"
proof (cases v)
  case (Num n)
  assume "0 < d"
  moreover have "0 < nat \<lfloor>r\<rfloor>" if "of_int \<lfloor>r\<rfloor> = r" "0 < r" for r :: rat
    using that by (metis of_int_0_less_iff zero_less_nat_eq)
  ultimately show ?thesis by (cases n) (simp_all add: Num positive_or_def)
qed (simp_all add: positive_or_def)

lemma new_buffer_simps [simp]:
  "bf_map (new_buffer k p) = []" "bf_maxKeys (new_buffer k p) = positive_or k 256"
  "bf_maxPerKey (new_buffer k p) = positive_or p 64" "bf_redelivering (new_buffer k p) = False"
  by (simp_all add: new_buffer_def)

lemma wf_new_buffer [simp]: "wf_buffer (new_buffer k p)"
  by (simp add: wf_buffer_def positive_or_pos)

lemma open_bucket_keys: "distinct (map fst (bf_map b)) \<Longrightarrow> distinct (map fst (open_bucket key b))"
proof (cases "map_of (bf_map b) key")
  case None
  assume d: "distinct (map fst (bf_map b))"
  have "key \<notin> fst ` set (bf_map b)" using None by (simp add: map_of_eq_None_iff)
  then have "key \<notin> fst ` set (drop 1 (bf_map b))" by (auto dest: in_set_dropD)
  then show ?thesis
    using d None \<open>key \<notin> fst ` set (bf_map b)\<close> by (simp add: open_bucket_def drop_map [symmetric])
qed (simp add: open_bucket_def)

lemma open_bucket_length: "length (bf_map b) \<le> bf_maxKeys b \<Longrightarrow> 0 < bf_maxKeys b \<Longrightarrow> length (open_bucket key b) \<le> bf_maxKeys b"
  by (auto simp: open_bucket_def split: option.split)

lemma push_event_bounds: "0 < n \<Longrightarrow> length xs \<le> n \<Longrightarrow> push_event n e xs \<noteq> [] \<and> length (push_event n e xs) \<le> n"
  by (auto simp: push_event_def)

lemma set_update: "(k, v) \<in> set (AList.update key x m) \<Longrightarrow> k = key \<and> v = x \<or> (k, v) \<in> set m"
  by (induction m) (auto split: if_splits)

lemma length_update: "key \<in> fst ` set m \<Longrightarrow> length (AList.update key x m) = length m"
  by (induction m) auto

lemma open_bucket_has: "key \<in> fst ` set (open_bucket key b)"
proof (cases "map_of (bf_map b) key")
  case (Some v)
  then show ?thesis using map_of_SomeD [OF Some] by (force simp: open_bucket_def)
qed (simp add: open_bucket_def)

lemma open_bucket_old:
  "(k, bucket) \<in> set (open_bucket key b) \<Longrightarrow> (k, bucket) \<in> set (bf_map b) \<or> bucket = []"
  by (auto simp: open_bucket_def dest: in_set_dropD split: option.splits if_splits)

lemma wf_defer:
  assumes "wf_buffer b" shows "wf_buffer (defer_event g a e b)"
proof -
  let ?k = "bufferKey g a"
  let ?o = "open_bucket ?k b"
  have pos: "0 < bf_maxKeys b" "0 < bf_maxPerKey b" and dist: "distinct (map fst (bf_map b))"
    and len: "length (bf_map b) \<le> bf_maxKeys b"
    and old: "\<And>k bucket. (k, bucket) \<in> set (bf_map b) \<Longrightarrow> bucket \<noteq> [] \<and> length bucket \<le> bf_maxPerKey b"
    using assms by (auto simp: wf_buffer_def)
  have bk: "length (bucket_of ?o ?k) \<le> bf_maxPerKey b"
    using old open_bucket_old [of ?k _ ?k b] by (fastforce simp: bucket_of_def dest: map_of_SomeD split: option.split)
  have new: "bucket \<noteq> [] \<and> length bucket \<le> bf_maxPerKey b"
    if "(k, bucket) \<in> set (AList.update ?k (push_event (bf_maxPerKey b) e (bucket_of ?o ?k)) ?o)" for k bucket
  proof (cases "k = ?k")
    case True
    have "map_of (AList.update ?k (push_event (bf_maxPerKey b) e (bucket_of ?o ?k)) ?o) k = Some bucket"
      using that open_bucket_keys [OF dist, of ?k] by (intro map_of_is_SomeI distinct_update)
    then show ?thesis using True push_event_bounds [OF pos(2) bk, of e] by (simp add: update_conv')
  next
    case False
    then have "(k, bucket) \<in> set ?o" using set_update [OF that] by blast
    then have "(k, bucket) \<in> set (bf_map b)" using False
      by (auto simp: open_bucket_def dest: in_set_dropD split: option.splits if_splits)
    then show ?thesis by (rule old)
  qed
  show ?thesis
    using new pos open_bucket_keys [OF dist, of ?k] open_bucket_length [OF len pos(1), of ?k]
    by (auto simp: wf_buffer_def defer_event_def Let_def distinct_update length_update [OF open_bucket_has])
qed

section \<open>What is held\<close>

lemma bucket_of_open_same: "bucket_of (open_bucket key b) key = held key b"
proof (cases "map_of (bf_map b) key")
  case None
  have "map_of (drop 1 (bf_map b)) key = None"
    using None by (auto simp: map_of_eq_None_iff dest: in_set_dropD)
  then show ?thesis using None by (simp add: bucket_of_def open_bucket_def held_def map_add_def)
qed (simp add: bucket_of_def open_bucket_def held_def)

lemma held_defer_same:
  "held (bufferKey g a) (defer_event g a e b) = push_event (bf_maxPerKey b) e (held (bufferKey g a) b)"
  by (simp add: defer_event_def Let_def bucket_of_open_same)
    (simp add: held_def bucket_of_def update_conv')

text \<open>Another bucket is touched only when the buffer is full, and then only the oldest.\<close>

lemma open_bucket_room:
  "key \<in> fst ` set (bf_map b) \<or> length (bf_map b) < bf_maxKeys b \<Longrightarrow>
   open_bucket key b = bf_map b \<or> open_bucket key b = bf_map b @ [(key, [])]"
  by (auto simp: open_bucket_def map_of_eq_None_iff split: option.split)

lemma held_defer_other:
  assumes "key \<noteq> bufferKey g a" and "bufferKey g a \<in> fst ` set (bf_map b) \<or> length (bf_map b) < bf_maxKeys b"
  shows "held key (defer_event g a e b) = held key b"
proof -
  have "map_of (open_bucket (bufferKey g a) b) key = map_of (bf_map b) key"
    using open_bucket_room [OF assms(2)] assms(1) by (auto simp: map_add_def split: option.split)
  then show ?thesis using assms(1) by (simp add: held_def defer_event_def Let_def bucket_of_def update_conv')
qed

lemma defer_keys:
  assumes "bufferKey g a \<in> fst ` set (bf_map b) \<or> length (bf_map b) < bf_maxKeys b"
  shows "fst ` set (bf_map (defer_event g a e b)) = insert (bufferKey g a) (fst ` set (bf_map b))"
proof -
  have "fst ` set (bf_map (defer_event g a e b)) = insert (bufferKey g a) (fst ` set (open_bucket (bufferKey g a) b))"
    by (simp add: defer_event_def Let_def dom_update)
  then show ?thesis using open_bucket_room [OF assms] by auto
qed

lemma defer_limits [simp]:
  "bf_maxKeys (defer_event g a e b) = bf_maxKeys b" "bf_maxPerKey (defer_event g a e b) = bf_maxPerKey b"
  by (simp_all add: defer_event_def Let_def)

text \<open>A sequence of deferrals, and the events it has for one bucket.\<close>

definition defer_all :: "(string \<times> string \<times> 'e) list \<Rightarrow> 'e buffer \<Rightarrow> 'e buffer" where
  "defer_all ds b = foldl (\<lambda>b (g, a, e). defer_event g a e b) b ds"

definition events_for :: "string \<Rightarrow> (string \<times> string \<times> 'e) list \<Rightarrow> 'e list" where
  "events_for key ds = map (\<lambda>(g, a, e). e) (filter (\<lambda>(g, a, e). bufferKey g a = key) ds)"

definition keys_of :: "(string \<times> string \<times> 'e) list \<Rightarrow> string set" where
  "keys_of ds = (\<lambda>(g, a, e). bufferKey g a) ` set ds"

lemma defer_all_snoc: "defer_all (ds @ [(g, a, e)]) b = defer_event g a e (defer_all ds b)"
  by (simp add: defer_all_def)

lemma events_for_snoc:
  "events_for key (ds @ [(g, a, e)]) = events_for key ds @ (if bufferKey g a = key then [e] else [])"
  by (simp add: events_for_def)

lemma wf_defer_all: "wf_buffer b \<Longrightarrow> wf_buffer (defer_all ds b)"
  by (induction ds rule: rev_induct) (auto simp: defer_all_snoc wf_defer, simp add: defer_all_def)

text \<open>A bucket holds the last events pushed to it.\<close>

lemma push_event_last:
  assumes "0 < n"
  shows "push_event n e (drop (length xs - n) xs) = drop (length xs + 1 - n) (xs @ [e])"
proof (cases "n \<le> length xs")
  case True
  then have "length xs + 1 - n = 1 + (length xs - n)" by simp
  then have "drop (length xs + 1 - n) xs = drop 1 (drop (length xs - n) xs)" by (simp only: drop_drop)
  then show ?thesis using True assms by (simp add: push_event_def Suc_diff_le)
qed (simp add: push_event_def)

lemma defer_all_limits [simp]:
  "bf_maxKeys (defer_all ds b) = bf_maxKeys b" "bf_maxPerKey (defer_all ds b) = bf_maxPerKey b"
  by (induction ds rule: rev_induct) (auto simp: defer_all_snoc, simp_all add: defer_all_def)

lemma defer_all_held:
  assumes "wf_buffer b" "bf_map b = []" and "card (keys_of ds) \<le> bf_maxKeys b"
  shows "fst ` set (bf_map (defer_all ds b)) = keys_of ds
    \<and> held key (defer_all ds b) = drop (length (events_for key ds) - bf_maxPerKey b) (events_for key ds)"
  using assms(3)
proof (induction ds rule: rev_induct)
  case Nil
  then show ?case using assms by (simp add: defer_all_def keys_of_def held_def bucket_of_def events_for_def)
next
  case (snoc x ds)
  obtain g a e where x: "x = (g, a, e)" by (cases x)
  let ?b = "defer_all ds b" and ?k = "bufferKey g a"
  have pos: "0 < bf_maxPerKey b" using assms(1) by (simp add: wf_buffer_def)
  have keys: "keys_of (ds @ [x]) = insert ?k (keys_of ds)" by (auto simp: keys_of_def x)
  have fin: "finite (keys_of ds)" by (simp add: keys_of_def)
  have "card (keys_of ds) \<le> bf_maxKeys b"
    using snoc.prems card_mono [of "keys_of (ds @ [x])" "keys_of ds"] fin by (simp add: keys subset_insertI)
  note IH = snoc.IH [OF this]
  have "distinct (map fst (bf_map ?b))" using wf_defer_all [OF assms(1)] by (simp add: wf_buffer_def)
  then have len: "length (bf_map ?b) = card (keys_of ds)"
    using distinct_card [of "map fst (bf_map ?b)"] IH by simp
  have room: "?k \<in> fst ` set (bf_map ?b) \<or> length (bf_map ?b) < bf_maxKeys ?b"
    using snoc.prems fin by (auto simp: IH len keys card_insert_if split: if_splits)
  show ?case
    using IH defer_keys [OF room] held_defer_same [of g a e ?b] held_defer_other [OF _ room, of key e]
    by (cases "key = ?k") (simp_all add: x defer_all_snoc keys [unfolded x] events_for_snoc push_event_last [OF pos] del: drop_append)
qed

lemma reapply_all_append: "reapply_all r (xs @ ys) w = reapply_all r ys (reapply_all r xs w)"
  by (induction xs arbitrary: w) simp_all

end
