(* ===== verification/InboxProperties.thy ===== *)
theory InboxProperties
  imports InboxLogs DeferredBuffer Samples
begin

text \<open>
  Properties of the inbound logs and of the deferred-message buffer.
\<close>

section \<open>The outbox\<close>

definition run_outbox :: "'s host \<Rightarrow> outbox_call list \<Rightarrow> 's \<Rightarrow> 's" where
  "run_outbox H cs s = foldl (\<lambda>s c. exec_outbox H c s) s cs"

fun settles_entry :: "string \<times> string \<Rightarrow> outbox_call \<Rightarrow> bool" where
  "settles_entry p (MarkApplied a b) \<longleftrightarrow> deposit_ids a b = Some p"
| "settles_entry p _ \<longleftrightarrow> False"

fun fails_entry :: "string \<times> string \<Rightarrow> outbox_call \<Rightarrow> bool" where
  "fails_entry p (RecordFailure a b _) \<longleftrightarrow> deposit_ids a b = Some p"
| "fails_entry p _ \<longleftrightarrow> False"

text \<open>An entry that carries the staged message and has failed so many times.\<close>

definition carries :: "jsval \<Rightarrow> jsval \<Rightarrow> nat \<Rightarrow> slot_value \<Rightarrow> bool" where
  "carries um first n v \<longleftrightarrow> (\<exists>kvs. v = Own (Obj kvs) \<and> getp (Obj kvs) ''userMessage'' = um
     \<and> getp (Obj kvs) ''firstStagedAtMs'' = first \<and> getp (Obj kvs) ''attempts'' = num (of_nat n))"

lemma carries_failed: "carries um first n v \<Longrightarrow> carries um first (Suc n) (Own (failed_entry v t))"
  by (auto simp: carries_def failed_entry_def entry_props_def own_props_def getp_spread next_attempts_def entry_field_def)

lemma carries_staged: "carries um (num t) 0 (Own (staged_entry m d um t))"
  by (simp add: carries_def staged_entry_def getp_def)

lemma carries_step:
  assumes "carries um first n (bx m d)" and "\<not> settles_entry (m, d) c"
  shows "carries um first (if fails_entry (m, d) c then Suc n else n) (outbox_step H c bx m d)"
proof -
  obtain e where e: "bx m d = Own e" using assms(1) by (auto simp: carries_def)
  show ?thesis
    using assms(2) e assms(1) carries_failed [OF assms(1)]
    by (cases c) (auto simp: put_slot_def split: option.splits)
qed

lemma run_carries:
  assumes "host_laws H" and "carries um first n (outbox_of H s m d)" and "\<forall>c\<in>set cs. \<not> settles_entry (m, d) c"
  shows "carries um first (n + length (filter (fails_entry (m, d)) cs)) (outbox_of H (run_outbox H cs s) m d)"
  using assms(2,3)
proof (induction cs arbitrary: s n)
  case (Cons c cs)
  have "carries um first (if fails_entry (m, d) c then Suc n else n) (outbox_of H (exec_outbox H c s) m d)"
    unfolding exec_outbox_refines [OF assms(1)] by (rule carries_step [where bx = "outbox_of H s", OF Cons.prems(1)]) (use Cons.prems(2) in simp)
  from Cons.IH [OF this] Cons.prems(2) show ?case
    by (cases "fails_entry (m, d) c") (simp_all add: run_outbox_def)
qed (simp add: run_outbox_def)

text \<open>
  C34. A staged message is not lost: after \<open>stage\<close> wrote an entry, whatever is staged, failed or
  applied afterwards, as long as this entry itself is not marked applied, it is still listed with its
  message and staging time, and its attempt counter is the number of recorded failures.
\<close>

theorem staged_message_survives:
  assumes "host_laws H" and "stage H mb dd um t s = (True, s1)" and "deposit_ids mb dd = Some (m, d)"
    and "\<forall>c\<in>set cs. \<not> settles_entry (m, d) c"
  shows "\<exists>kvs. Obj kvs \<in> set (listPending H (Str m) (run_outbox H cs s1)) \<and> getp (Obj kvs) ''userMessage'' = um
    \<and> getp (Obj kvs) ''firstStagedAtMs'' = num (finite_or_now H t)
    \<and> getp (Obj kvs) ''attempts'' = num (of_nat (length (filter (fails_entry (m, d)) cs)))"
proof -
  have "s1 = exec_outbox H (Stage mb dd um t) s" using assms(2) by simp
  then have "outbox_of H s1 = outbox_step H (Stage mb dd um t) (outbox_of H s)"
    by (simp only: exec_outbox_refines [OF assms(1)])
  moreover have "outbox_of H s m d = Missing"
    using assms(2,3) by (auto simp: stage_def Let_def outbox_of_def split: if_splits)
  ultimately have "outbox_of H s1 m d = Own (staged_entry m d um (finite_or_now H t))"
    by (simp add: assms(3) put_slot_def)
  then have "carries um (num (finite_or_now H t)) (0 + length (filter (fails_entry (m, d)) cs)) (outbox_of H (run_outbox H cs s1) m d)"
    using run_carries [OF assms(1) _ assms(4)] carries_staged by metis
  moreover have "trim m = m" "m \<noteq> []" using assms(3) by (auto simp: deposit_ids_def Let_def split: if_splits)
  ultimately show ?thesis unfolding carries_def using pending_listed by fastforce
qed

theorem staged_message_survives_instance:
  "\<exists>kvs. Obj kvs \<in> set (listPending HM (Str ''mb'') (run_outbox HM [RecordFailure (Str ''mb'') (Str ''e1'') Undef,
       Stage (Str ''mb'') (Str ''e2'') (Str ''bye'') Undef, MarkApplied (Str ''mb'') (Str ''e2'')]
       (snd (stage HM (Str ''mb'') (Str '' e1'') (Str ''hello'') (num 7) []))))
     \<and> getp (Obj kvs) ''userMessage'' = Str ''hello'' \<and> getp (Obj kvs) ''attempts'' = num 1"
proof -
  let ?cs = "[RecordFailure (Str ''mb'') (Str ''e1'') Undef,
       Stage (Str ''mb'') (Str ''e2'') (Str ''bye'') Undef, MarkApplied (Str ''mb'') (Str ''e2'')]"
  let ?r = "stage HM (Str ''mb'') (Str '' e1'') (Str ''hello'') (num 7) []"
  have "fst ?r" by code_simp
  then have st: "?r = (True, snd ?r)" by (simp add: prod_eq_iff)
  have ids: "deposit_ids (Str ''mb'') (Str '' e1'') = Some (''mb'', ''e1'')" by code_simp
  have un: "\<forall>c\<in>set ?cs. \<not> settles_entry (''mb'', ''e1'') c"
    by (simp add: deposit_ids_def trim_def is_ws_def)
  have n: "length (filter (fails_entry (''mb'', ''e1'')) ?cs) = 1"
    by (simp add: deposit_ids_def trim_def is_ws_def)
  show ?thesis using staged_message_survives [OF HM_laws st ids un] unfolding n by auto
qed

text \<open>
  A message whose deduplication id is a name that plain objects inherit is never staged: \<open>stage\<close>
  writes nothing, although \<open>has\<close> answers that the entry is there, and the retry pass never sees it.
\<close>

theorem inherited_id_never_staged:
  assumes "deposit_ids mb dd = Some (m, d)" and "inherited d" and "map_of (loadMap H m s) d = None"
  shows "stage H mb dd um t s = (False, s) \<and> hasEntry H mb dd s"
  using assms by (simp add: stage_def hasEntry_def getEntry_def slot_of_map_def)

theorem inherited_id_never_staged_instance:
  "stage HM (Str ''mb'') (Str ''constructor'') (Str ''hello'') Undef [] = (False, [])
   \<and> hasEntry HM (Str ''mb'') (Str ''constructor'') [] \<and> listPending HM (Str ''mb'') [] = []"
proof -
  have "deposit_ids (Str ''mb'') (Str ''constructor'') = Some (''mb'', ''constructor'')" by code_simp
  moreover have "inherited ''constructor''" by (simp add: inherited_def object_prototype_keys_def)
  moreover have "map_of (loadMap HM ''mb'' []) ''constructor'' = None" by (simp add: loadMap_def memory_host_def)
  ultimately have "stage HM (Str ''mb'') (Str ''constructor'') (Str ''hello'') Undef [] = (False, [])
     \<and> hasEntry HM (Str ''mb'') (Str ''constructor'') []" by (rule inherited_id_never_staged)
  moreover have "listPending HM (Str ''mb'') [] = []" by code_simp
  ultimately show ?thesis by blast
qed

section \<open>Failed decryptions\<close>

definition record_attempts :: "'s host \<Rightarrow> jsval \<Rightarrow> jsval \<Rightarrow> jsval list \<Rightarrow> 's \<Rightarrow> 's" where
  "record_attempts H mb ev ts s = foldl (\<lambda>s t. snd (recordAttempt H mb ev t s)) s ts"

lemma attempts_row:
  assumes "host_laws H" and "deposit_ids mb ev = Some (m, e)" and "ts \<noteq> []"
  defines "row \<equiv> \<lambda>ts s. kvGet H (record_attempts H mb ev ts (clearAttempts H mb ev s)) (attemptKey m e)"
  shows "getp (row ts s) ''attempts'' = num (of_nat (length ts))
    \<and> getp (row ts s) ''firstSeenAtMs'' = num (finite_or_now H (hd ts))"
  using assms(3)
proof (induction ts rule: rev_induct)
  case (snoc t ts)
  have step: "record_attempts H mb ev (ts @ [t]) s = snd (recordAttempt H mb ev t (record_attempts H mb ev ts s))" for s
    by (simp add: record_attempts_def)
  have row: "row (ts @ [t]) s = Obj [(''mailboxId'', Str m), (''eventId'', Str e), (''attempts'', num (stored_attempts (row ts s) + 1)),
      (''firstSeenAtMs'', num (stored_first (row ts s) (finite_or_now H t))), (''lastAttemptAtMs'', num (finite_or_now H t))]"
    by (simp add: row_def step recordAttempt_def assms(2) Let_def host_laws.get_set [OF assms(1)])
  show ?case
  proof (cases "ts = []")
    case True
    then have "row ts s = Null"
      by (simp add: row_def record_attempts_def clearAttempts_def assms(2) host_laws.get_delete [OF assms(1)])
    then show ?thesis
      unfolding row unfolding True by (simp add: stored_attempts_def stored_first_def getp_def)
  next
    case False
    then show ?thesis
      using snoc.IH unfolding row by (simp add: stored_attempts_def stored_first_def getp_def [of "Obj _"])
  qed
qed simp

text \<open>
  The attempt counter of a deposit counts: from a cleared counter, after recording failures at
  any times it is their number, and the first-failure time is that of the first of them, however the
  clock moved afterwards.
\<close>

theorem attempts_counted:
  assumes "host_laws H" and "deposit_ids mb ev = Some (m, e)" and "ts \<noteq> []"
  shows "attemptsOf H mb ev (record_attempts H mb ev ts (clearAttempts H mb ev s)) = of_nat (length ts)
    \<and> firstSeenAtMs H mb ev (record_attempts H mb ev ts (clearAttempts H mb ev s)) = finite_or_now H (hd ts)"
  using attempts_row [OF assms] by (simp add: attemptsOf_def firstSeenAtMs_def assms(2) stored_attempts_def stored_first_def)

theorem attempts_counted_instance:
  "attemptsOf HM (Str ''mb'') (Str ''e1'') (record_attempts HM (Str ''mb'') (Str ''e1'') [num 5, num 9, num 3]
     (clearAttempts HM (Str ''mb'') (Str ''e1'') [])) = 3"
proof -
  have "deposit_ids (Str ''mb'') (Str ''e1'') = Some (''mb'', ''e1'')" by code_simp
  from attempts_counted [OF HM_laws this, of "[num 5, num 9, num 3]"] show ?thesis by simp
qed

section \<open>Deferred messages\<close>

text \<open>
  The deferred buffer keeps its bounds under any sequence of deferrals: at most \<open>maxKeys\<close> senders
  and at most \<open>maxPerKey\<close> messages of each. As long as the senders fit, what is held for one of them is
  exactly its last \<open>maxPerKey\<close> messages, in the order they came.
\<close>

theorem deferred_bounds:
  "wf_buffer (defer_all ds (new_buffer k p))
   \<and> (card (keys_of ds) \<le> positive_or k 256 \<longrightarrow>
      held (bufferKey g a) (defer_all ds (new_buffer k p))
        = drop (length (events_for (bufferKey g a) ds) - positive_or p 64) (events_for (bufferKey g a) ds))"
  using defer_all_held [of "new_buffer k p" ds "bufferKey g a"] wf_defer_all [OF wf_new_buffer, of ds k p]
  by simp

theorem deferred_bounds_instance:
  "held (bufferKey ''g1'' ''bob'') (defer_all [(''g1'', ''bob'', 1::nat), (''g1'', ''eve'', 7), (''g1'', ''bob'', 2), (''g1'', ''bob'', 3)]
     (new_buffer (num 2) (num 2))) = [2, 3]"
proof -
  let ?ds = "[(''g1'', ''bob'', 1::nat), (''g1'', ''eve'', 7), (''g1'', ''bob'', 2), (''g1'', ''bob'', 3)]"
  have "positive_or (num 2) 256 = 2" "positive_or (num 2) 64 = 2" by (simp_all add: positive_or_def)
  moreover have "card (keys_of ?ds) \<le> 2"
    by (simp add: keys_of_def bufferKey_def card_insert_if)
  moreover have "events_for (bufferKey ''g1'' ''bob'') ?ds = [1, 2, 3]"
    by (simp add: events_for_def bufferKey_def)
  ultimately show ?thesis using deferred_bounds [of ?ds "num 2" "num 2" "''g1''" "''bob''"] by simp
qed

text \<open>
  A flush hands every held message to \<open>reapply\<close> exactly once and in order, with the buffer marked
  as redelivering and the bucket gone, so that nothing of it can be deferred twice, and clears the mark
  afterwards, also when \<open>reapply\<close> throws.
\<close>

theorem flush_replays_once:
  assumes "\<And>e b log. reapply e (b, log) = (r e, (b, log @ [(e, bf_redelivering b, held (bufferKey gid acct) b)]))"
    and "trim gid = gid" "gid \<noteq> []" "trim acct = acct" "acct \<noteq> []" and "\<not> bf_redelivering b"
  shows "flush_buffer (Str gid) (Str acct) reapply (b, []) =
    (b\<lparr>bf_map := filter (\<lambda>(k, _). k \<noteq> bufferKey gid acct) (bf_map b)\<rparr>,
     map (\<lambda>e. (e, True, [])) (held (bufferKey gid acct) b)) \<or>
    held (bufferKey gid acct) b = [] \<and> flush_buffer (Str gid) (Str acct) reapply (b, []) = (b, [])"
proof -
  let ?k = "bufferKey gid acct"
  let ?b = "b\<lparr>bf_map := filter (\<lambda>(k, _). k \<noteq> ?k) (bf_map b), bf_redelivering := True\<rparr>"
  have "map_of (filter (\<lambda>(k, _). k \<noteq> ?k) xs) ?k = None" for xs :: "(string \<times> 'a list) list"
    by (induction xs) auto
  then have gone: "held ?k ?b = []" by (simp add: held_def bucket_of_def)
  have "reapply_all reapply es (?b, log) = (?b, log @ map (\<lambda>e. (e, True, [])) es)" for es log
    by (induction es arbitrary: log) (simp_all add: assms(1) gone)
  then show ?thesis using assms(2-6) by (simp add: flush_buffer_def Let_def)
qed

definition log_event :: "nat \<Rightarrow> nat buffer \<times> (nat \<times> bool \<times> nat list) list \<Rightarrow> (js_error + unit) \<times> (nat buffer \<times> (nat \<times> bool \<times> nat list) list)" where
  "log_event e bl = (if e = 2 then Inl TypeError else Inr (),
     (fst bl, snd bl @ [(e, bf_redelivering (fst bl), held (bufferKey ''g1'' ''bob'') (fst bl))]))"

theorem flush_replays_once_instance:
  "snd (flush_buffer (Str ''g1'') (Str ''bob'') log_event (defer_all [(''g1'', ''bob'', 2), (''g1'', ''bob'', 3)] (new_buffer Undef Undef), []))
   = [(2, True, []), (3, True, [])]"
proof -
  let ?b = "defer_all [(''g1'', ''bob'', 2::nat), (''g1'', ''bob'', 3)] (new_buffer Undef Undef)"
  have h: "held (bufferKey ''g1'' ''bob'') ?b = [2, 3]" "\<not> bf_redelivering ?b" by code_simp+
  have t: "trim ''g1'' = ''g1''" "trim ''bob'' = ''bob''" by code_simp+
  show ?thesis
    using flush_replays_once [of log_event "\<lambda>e. if e = 2 then Inl TypeError else Inr ()" "''g1''" "''bob''" ?b]
    by (simp add: log_event_def h t)
qed

end
