(* ===== verification/Backup.thy ===== *)
theory Backup
  imports ThreadStore
begin

text \<open>
  \<open>BackupStoreService\<close> (\<open>src/server/storage/ChatBackupStore.js\<close>): encrypted deltas and checkpoints of
  an account with a retention time, a meta row and a manifest. \<open>stored_artifact\<close> reads one artifact;
  \<open>put_artifact_effect\<close> and \<open>prune_effect\<close> say what the writing operations do to it.
\<close>

section \<open>Coercions\<close>

definition RETENTION_DAYS_DEFAULT :: rat where "RETENTION_DAYS_DEFAULT = 90"
definition RETENTION_DAYS_MIN :: rat where "RETENTION_DAYS_MIN = 1"
definition RETENTION_DAYS_MAX :: rat where "RETENTION_DAYS_MAX = 3650"
definition DAY_MS :: rat where "DAY_MS = 24 * 60 * 60 * 1000"

definition rat_floor :: "rat \<Rightarrow> rat" where
  "rat_floor r = of_int \<lfloor>r\<rfloor>"

definition clampRetentionDays :: "jsval \<Rightarrow> rat" where
  "clampRetentionDays v = (case js_number v of
     Fin n \<Rightarrow> max RETENTION_DAYS_MIN (min RETENTION_DAYS_MAX (rat_floor n)) | _ \<Rightarrow> RETENTION_DAYS_DEFAULT)"

definition toFiniteMs :: "jsval \<Rightarrow> rat \<Rightarrow> rat" where
  "toFiniteMs v fallback = (case js_number v of Fin n \<Rightarrow> if n > 0 then rat_floor n else rat_floor fallback | _ \<Rightarrow> rat_floor fallback)"

definition natural_number :: "jsnum \<Rightarrow> rat option" where
  "natural_number n = (case n of Fin r \<Rightarrow> if of_int \<lfloor>r\<rfloor> = r \<and> 0 \<le> r then Some r else None | _ \<Rightarrow> None)"

definition toSeq :: "jsval \<Rightarrow> js_error + rat" where
  "toSeq v = (case natural_number (js_number v) of
     None \<Rightarrow> Inl (Error ''seq must be non-negative integer'') | Some n \<Rightarrow> Inr n)"

definition sizeClassOf :: "string \<Rightarrow> string" where
  "sizeClassOf c = (let len = length c in
     if len \<le> 4096 then ''xs'' else if len \<le> 32768 then ''s'' else if len \<le> 262144 then ''m''
     else if len \<le> 1048576 then ''l'' else ''xl'')"

text \<open>\<open>String(v || "")\<close>.\<close>

definition string_of :: "jsval \<Rightarrow> string" where
  "string_of v = (if truthy v then js_string v else [])"

section \<open>Artifacts\<close>

record artifact =
  ar_type :: string
  ar_seq :: rat
  ar_createdAtMs :: rat
  ar_expiresAtMs :: rat
  ar_sizeClass :: string
  ar_ciphertextB64 :: string

definition artifact_json :: "artifact \<Rightarrow> jsval" where
  "artifact_json a = Obj [(''v'', num 1), (''type'', Str (ar_type a)), (''seq'', num (ar_seq a)),
     (''createdAtMs'', num (ar_createdAtMs a)), (''expiresAtMs'', num (ar_expiresAtMs a)),
     (''sizeClass'', Str (ar_sizeClass a)), (''ciphertextB64'', Str (ar_ciphertextB64 a))]"

definition artifact_type :: "jsval \<Rightarrow> string option" where
  "artifact_type v = (if v = Str ''checkpoint'' then Some ''checkpoint'' else if v = Str ''delta'' then Some ''delta'' else None)"

definition finite_number :: "jsval \<Rightarrow> rat option" where
  "finite_number v = (case js_number v of Fin r \<Rightarrow> Some r | _ \<Rightarrow> None)"

definition parseArtifact :: "jsval \<Rightarrow> artifact option" where
  "parseArtifact value =
     (if \<not> is_object value then None
      else case artifact_type (getp value ''type'') of None \<Rightarrow> None
      | Some ty \<Rightarrow> (case natural_number (js_number (getp value ''seq'')) of None \<Rightarrow> None
      | Some seq \<Rightarrow> (case finite_number (getp value ''createdAtMs'') of None \<Rightarrow> None
      | Some created \<Rightarrow> (case finite_number (getp value ''expiresAtMs'') of None \<Rightarrow> None
      | Some expires \<Rightarrow>
        let c = string_of (getp value ''ciphertextB64''); sz = getp value ''sizeClass'' in
        if c = [] then None
        else Some \<lparr> ar_type = ty, ar_seq = seq, ar_createdAtMs = created, ar_expiresAtMs = expires,
          ar_sizeClass = (if truthy sz then js_string sz else sizeClassOf c), ar_ciphertextB64 = c \<rparr>))))"

section \<open>Keys\<close>

text \<open>The service of one account: its id and its retention.\<close>

record backup_service =
  bs_owner :: string
  bs_retentionDays :: rat

definition new_backup :: "'s host \<Rightarrow> jsval \<Rightarrow> jsval \<Rightarrow> js_error + backup_service" where
  "new_backup H ownerAccountId retentionDays =
     (let owner = nonEmpty H ownerAccountId in
      if owner = [] then Inl (Error ''BackupStoreService requires ownerAccountId'')
      else Inr \<lparr> bs_owner = owner, bs_retentionDays = (if retentionDays = Undef then RETENTION_DAYS_DEFAULT else clampRetentionDays retentionDays) \<rparr>)"

definition hashAccountId :: "'s host \<Rightarrow> string \<Rightarrow> string" where
  "hashAccountId H accountId = take 32 (sha256Hex H accountId)"

definition basePrefix :: "'s host \<Rightarrow> backup_service \<Rightarrow> string" where
  "basePrefix H b = ''app:backup/'' @ hashAccountId H (bs_owner b) @ ''/''"

definition metaKey :: "'s host \<Rightarrow> backup_service \<Rightarrow> string" where
  "metaKey H b = basePrefix H b @ ''meta''"

definition manifestKey :: "'s host \<Rightarrow> backup_service \<Rightarrow> string" where
  "manifestKey H b = basePrefix H b @ ''manifest''"

definition padStart12 :: "string \<Rightarrow> string" where
  "padStart12 t = replicate (12 - length t) (CHR ''0'') @ t"

definition artifactKey :: "'s host \<Rightarrow> backup_service \<Rightarrow> string \<Rightarrow> rat \<Rightarrow> string" where
  "artifactKey H b ty seq = basePrefix H b @ ty @ ''/'' @ padStart12 (rat_string seq)"

fun str_includes :: "string \<Rightarrow> string \<Rightarrow> bool" where
  "str_includes sub [] = (sub = [])"
| "str_includes sub (c # s) = (prefix sub (c # s) \<or> str_includes sub s)"

definition is_artifact_key :: "string \<Rightarrow> bool" where
  "is_artifact_key k \<longleftrightarrow> str_includes ''/checkpoint/'' k \<or> str_includes ''/delta/'' k"

section \<open>Listing\<close>

definition compareArtifacts :: "artifact \<Rightarrow> artifact \<Rightarrow> rat" where
  "compareArtifacts a b =
     (if ar_seq a \<noteq> ar_seq b then ar_seq a - ar_seq b
      else if ar_type a \<noteq> ar_type b then (if ar_type a = ''checkpoint'' then - 1 else 1)
      else ar_createdAtMs a - ar_createdAtMs b)"

definition list_limit :: "jsval \<Rightarrow> nat" where
  "list_limit v = (case js_number v of
     Fin n \<Rightarrow> nat \<lfloor>max 1 (min 500 (if n = 0 then 200 else n))\<rfloor> | NaN \<Rightarrow> 200 | PosInf \<Rightarrow> 500 | NegInf \<Rightarrow> 1)"

definition after_seq :: "jsval \<Rightarrow> artifact \<Rightarrow> bool" where
  "after_seq afterSeq a \<longleftrightarrow> (if nullish afterSeq then True
     else case js_number afterSeq of Fin n \<Rightarrow> ar_seq a > n | _ \<Rightarrow> True)"

definition live_artifacts :: "'s host \<Rightarrow> backup_service \<Rightarrow> jsval \<Rightarrow> 's \<Rightarrow> artifact list" where
  "live_artifacts H b afterSeq s =
     filter (\<lambda>a. after_seq afterSeq a \<and> clockMs H < ar_expiresAtMs a)
       (keepSome (\<lambda>k. if is_artifact_key k then parseArtifact (kvGet H s k) else None) (kvKeys H s (basePrefix H b)))"

text \<open>The items of \<open>list\<close>: sorted, then cut.\<close>

definition list_items :: "'s host \<Rightarrow> backup_service \<Rightarrow> jsval \<Rightarrow> jsval \<Rightarrow> 's \<Rightarrow> artifact list" where
  "list_items H b afterSeq limit s = take (list_limit limit) (sort_by compareArtifacts (live_artifacts H b afterSeq s))"

definition getMeta :: "'s host \<Rightarrow> backup_service \<Rightarrow> 's \<Rightarrow> jsval" where
  "getMeta H b s = (let v = kvGet H s (metaKey H b) in
     if is_object v then v
     else Obj [(''v'', num 1), (''retentionDays'', num (bs_retentionDays b)), (''lastBackupAtMs'', Null),
       (''checkpointVersion'', Null), (''accountHash'', Str (hashAccountId H (bs_owner b)))])"

record backup_listing =
  bl_lastBackupAtMs :: "jsnum option"
  bl_checkpointVersion :: "jsnum option"
  bl_items :: "artifact list"

text \<open>\<open>Number((meta && meta.x) || 0) || null\<close>.\<close>

definition meta_number :: "jsval \<Rightarrow> jsnum option" where
  "meta_number v = (let n = (if truthy v then js_number v else Fin 0) in if n = Fin 0 \<or> n = NaN then None else Some n)"

definition listBackups :: "'s host \<Rightarrow> backup_service \<Rightarrow> jsval \<Rightarrow> jsval \<Rightarrow> 's \<Rightarrow> backup_listing" where
  "listBackups H b afterSeq limit s =
     \<lparr> bl_lastBackupAtMs = meta_number (getp (getMeta H b s) ''lastBackupAtMs''),
       bl_checkpointVersion = meta_number (getp (getMeta H b s) ''checkpointVersion''),
       bl_items = list_items H b afterSeq limit s \<rparr>"

section \<open>Writing\<close>

definition upsertMeta :: "'s host \<Rightarrow> backup_service \<Rightarrow> (string \<times> jsval) list \<Rightarrow> 's \<Rightarrow> 's" where
  "upsertMeta H b patch s = kvSet H s (metaKey H b) (Obj (spread (own_props (getMeta H b s))
     ([(''v'', num 1), (''retentionDays'', num (bs_retentionDays b)), (''accountHash'', Str (hashAccountId H (bs_owner b))),
       (''updatedAtMs'', num (toFiniteMs (num (clockMs H)) (clockMs H)))] @ patch)))"

definition manifest_of :: "'s host \<Rightarrow> backup_service \<Rightarrow> artifact list \<Rightarrow> jsval" where
  "manifest_of H b items =
     (let checkpoints = sort_by (\<lambda>a c. ar_seq c - ar_seq a) (filter (\<lambda>a. ar_type a = ''checkpoint'') items) in
      Obj [(''v'', num 1), (''accountHash'', Str (hashAccountId H (bs_owner b))), (''retentionDays'', num (bs_retentionDays b)),
        (''updatedAtMs'', num (toFiniteMs (num (clockMs H)) (clockMs H))),
        (''latestSeq'', num (foldl (\<lambda>m a. max m (ar_seq a)) 0 items)),
        (''latestCheckpointSeq'', case checkpoints of [] \<Rightarrow> Null | c # _ \<Rightarrow> num (ar_seq c)),
        (''itemCount'', num (of_nat (length items)))])"

definition upsertManifest :: "'s host \<Rightarrow> backup_service \<Rightarrow> 's \<Rightarrow> 's" where
  "upsertManifest H b s = kvSet H s (manifestKey H b) (manifest_of H b (list_items H b Null (num 5000) s))"

definition new_artifact :: "'s host \<Rightarrow> backup_service \<Rightarrow> string \<Rightarrow> rat \<Rightarrow> jsval \<Rightarrow> string \<Rightarrow> string \<Rightarrow> artifact" where
  "new_artifact H b ty seq createdAtMs sizeClass c =
     (let created = toFiniteMs createdAtMs (toFiniteMs (num (clockMs H)) (clockMs H)) in
      \<lparr> ar_type = ty, ar_seq = seq, ar_createdAtMs = created,
        ar_expiresAtMs = created + bs_retentionDays b * DAY_MS,
        ar_sizeClass = (if sizeClass \<noteq> [] then sizeClass else sizeClassOf c), ar_ciphertextB64 = c \<rparr>)"

text \<open>The artifact, then the meta row, then the manifest.\<close>

definition store_artifact :: "'s host \<Rightarrow> backup_service \<Rightarrow> artifact \<Rightarrow> (string \<times> jsval) list \<Rightarrow> 's \<Rightarrow> 's" where
  "store_artifact H b a patch s =
     upsertManifest H b (upsertMeta H b patch (kvSet H s (artifactKey H b (ar_type a) (ar_seq a)) (artifact_json a)))"

definition putDelta :: "'s host \<Rightarrow> backup_service \<Rightarrow> jsval \<Rightarrow> jsval \<Rightarrow> jsval \<Rightarrow> jsval \<Rightarrow> ('s, artifact) op" where
  "putDelta H b seq createdAtMs sizeClass encryptedDelta =
     andThen (lift_result (toSeq seq)) (\<lambda>n s.
       let c = trim (string_of encryptedDelta) in
       if c = [] then throw (Error ''encryptedDelta required'') s
       else let a = new_artifact H b ''delta'' n createdAtMs (nonEmpty H sizeClass) c in
         ok a (store_artifact H b a [(''lastBackupAtMs'', num (toFiniteMs (num (clockMs H)) (clockMs H))), (''lastDeltaSeq'', num n)] s))"

definition putCheckpoint :: "'s host \<Rightarrow> backup_service \<Rightarrow> jsval \<Rightarrow> jsval \<Rightarrow> jsval \<Rightarrow> ('s, artifact) op" where
  "putCheckpoint H b seq createdAtMs encryptedCheckpoint =
     andThen (lift_result (toSeq seq)) (\<lambda>n s.
       let c = trim (string_of encryptedCheckpoint) in
       if c = [] then throw (Error ''encryptedCheckpoint required'') s
       else let a = new_artifact H b ''checkpoint'' n createdAtMs [] c in
         ok a (store_artifact H b a [(''lastBackupAtMs'', num (toFiniteMs (num (clockMs H)) (clockMs H))),
           (''checkpointVersion'', num n), (''lastCheckpointSeq'', num n)] s))"

definition getBlob :: "'s host \<Rightarrow> backup_service \<Rightarrow> jsval \<Rightarrow> jsval \<Rightarrow> ('s, artifact option) op" where
  "getBlob H b ty seq s =
     (case artifact_type ty of None \<Rightarrow> throw (Error ''type must be checkpoint or delta'') s
      | Some t \<Rightarrow> andThen (lift_result (toSeq seq)) (\<lambda>n. reads (\<lambda>s.
          case parseArtifact (kvGet H s (artifactKey H b t n)) of None \<Rightarrow> None
          | Some a \<Rightarrow> if ar_expiresAtMs a \<le> clockMs H then None else Some a)) s)"

definition prunable :: "'s host \<Rightarrow> rat \<Rightarrow> 's \<Rightarrow> string \<Rightarrow> bool" where
  "prunable H now s k \<longleftrightarrow> is_artifact_key k \<and>
     (case parseArtifact (kvGet H s k) of None \<Rightarrow> True | Some a \<Rightarrow> ar_expiresAtMs a \<le> now)"

fun prune_keys :: "'s host \<Rightarrow> rat \<Rightarrow> string list \<Rightarrow> 's \<Rightarrow> nat \<times> 's" where
  "prune_keys H now [] s = (0, s)"
| "prune_keys H now (k # ks) s =
     (if prunable H now s k then (let (n, s') = prune_keys H now ks (kvDelete H s k) in (Suc n, s'))
      else prune_keys H now ks s)"

definition pruneBackups :: "'s host \<Rightarrow> backup_service \<Rightarrow> jsval \<Rightarrow> 's \<Rightarrow> (nat \<times> rat) \<times> 's" where
  "pruneBackups H b nowMs s =
     (let now = toFiniteMs nowMs (clockMs H); (n, s') = prune_keys H now (kvKeys H s (basePrefix H b)) s
      in ((n, now), upsertManifest H b s'))"

section \<open>What is stored\<close>

definition stored_artifact :: "'s host \<Rightarrow> string \<Rightarrow> 's \<Rightarrow> artifact option" where
  "stored_artifact H k s = parseArtifact (kvGet H s k)"

definition wf_artifact :: "artifact \<Rightarrow> bool" where
  "wf_artifact a \<longleftrightarrow> (ar_type a = ''delta'' \<or> ar_type a = ''checkpoint'') \<and> natural_number (Fin (ar_seq a)) = Some (ar_seq a)
     \<and> ar_ciphertextB64 a \<noteq> [] \<and> ar_sizeClass a \<noteq> []"

lemma parse_artifact_json: "wf_artifact a \<Longrightarrow> parseArtifact (artifact_json a) = Some a"
  by (auto simp: wf_artifact_def parseArtifact_def artifact_json_def artifact_type_def getp_def finite_number_def string_of_def)

lemma sizeClassOf_nonempty [simp]: "sizeClassOf c \<noteq> []"
  by (simp add: sizeClassOf_def Let_def)

lemma toSeq_Inr: "toSeq v = Inr n \<Longrightarrow> natural_number (Fin n) = Some n"
  by (auto simp: toSeq_def natural_number_def split: option.splits jsnum.splits if_splits)

lemma wf_new_artifact:
  "toSeq v = Inr n \<Longrightarrow> c \<noteq> [] \<Longrightarrow> ty = ''delta'' \<or> ty = ''checkpoint'' \<Longrightarrow> wf_artifact (new_artifact H b ty n cr sz c)"
  using toSeq_Inr by (auto simp: wf_artifact_def new_artifact_def Let_def)

lemma key_apart [simp]:
  assumes "ty = ''delta'' \<or> ty = ''checkpoint''"
  shows "artifactKey H b ty n \<noteq> metaKey H b" "artifactKey H b ty n \<noteq> manifestKey H b"
  using assms by (auto simp: artifactKey_def metaKey_def manifestKey_def)

lemma includes_append: "str_includes sub (a @ sub @ c)"
proof (induction a)
  case Nil
  show ?case
  proof (cases "sub @ c")
    case (Cons x xs)
    then have "prefix sub (x # xs)" by (metis prefixI)
    then show ?thesis by (simp only: Cons append_Nil str_includes.simps simp_thms)
  qed simp
qed simp

lemma artifact_key_found:
  assumes "ty = ''delta'' \<or> ty = ''checkpoint''"
  shows "is_artifact_key (artifactKey H b ty n)" "prefix (basePrefix H b) (artifactKey H b ty n)"
proof -
  have "artifactKey H b ty n = (''app:backup/'' @ hashAccountId H (bs_owner b)) @ (''/'' @ ty @ ''/'') @ padStart12 (rat_string n)"
    by (simp add: artifactKey_def basePrefix_def)
  then show "is_artifact_key (artifactKey H b ty n)"
    using assms includes_append [of "''/'' @ ty @ ''/''"] by (auto simp: is_artifact_key_def)
qed (simp add: artifactKey_def)

lemma put_artifact_effect:
  assumes "host_laws H" and "wf_artifact a"
  shows "stored_artifact H (artifactKey H b (ar_type a) (ar_seq a)) (store_artifact H b a patch s) = Some a"
  using assms(2) by (simp add: stored_artifact_def store_artifact_def upsertManifest_def upsertMeta_def
      host_laws.get_set [OF assms(1)] parse_artifact_json wf_artifact_def [of a])

lemma snd_prune_keys [simp]:
  "snd (prune_keys H now (k # ks) s)
    = (if prunable H now s k then snd (prune_keys H now ks (kvDelete H s k)) else snd (prune_keys H now ks s))"
  by (simp split: prod.split)

lemma prunable_after_delete:
  "host_laws H \<Longrightarrow> prunable H now (kvDelete H s x) k \<longleftrightarrow> is_artifact_key k \<and> k = x \<or> prunable H now s k"
  by (auto simp: prunable_def host_laws.get_delete parseArtifact_def)

lemma prune_keys_get:
  assumes "host_laws H"
  shows "kvGet H (snd (prune_keys H now ks s)) k = (if k \<in> set ks \<and> prunable H now s k then Null else kvGet H s k)"
proof (induction ks arbitrary: s)
  case (Cons x ks)
  then show ?case
    by (auto simp: Cons prunable_after_delete [OF assms] host_laws.get_delete [OF assms] simp del: prune_keys.simps(2))
qed simp

lemma prune_effect:
  assumes "host_laws H" and "is_artifact_key k" "prefix (basePrefix H b) k" "k \<noteq> manifestKey H b"
  shows "stored_artifact H k (snd (pruneBackups H b nowMs s))
    = (case stored_artifact H k s of None \<Rightarrow> None
       | Some a \<Rightarrow> if ar_expiresAtMs a \<le> toFiniteMs nowMs (clockMs H) then None else Some a)"
proof -
  let ?now = "toFiniteMs nowMs (clockMs H)"
  let ?s = "snd (prune_keys H ?now (kvKeys H s (basePrefix H b)) s)"
  have "kvGet H (snd (pruneBackups H b nowMs s)) k = kvGet H ?s k"
    using assms(4) by (auto simp: pruneBackups_def Let_def upsertManifest_def host_laws.get_set [OF assms(1)] split: prod.split)
  moreover have "k \<in> set (kvKeys H s (basePrefix H b)) \<or> nullish (kvGet H s k)"
    using assms(3) host_laws.keys [OF assms(1)] by blast
  moreover have "nullish v \<Longrightarrow> parseArtifact v = None" for v by (cases v) (simp_all add: parseArtifact_def)
  ultimately show ?thesis
    using assms(2) by (auto simp: stored_artifact_def prune_keys_get [OF assms(1)] prunable_def split: option.splits)
qed

end
