(* ===== verification/Caches.thy ===== *)
theory Caches
  imports GroupStore
begin

text \<open>
  The durable caches of \<open>src/server/storage\<close>: the last known device roster of the account
  (\<open>AccountDeviceRosterStore\<close>), the sealed ciphertexts of a fan-out (\<open>DeviceFanoutCacheStore\<close>) and the
  link previews (\<open>LinkPreviewStore\<close>).
\<close>

section \<open>Device roster\<close>

record roster =
  rs_devices :: "(string \<times> string) list"
  rs_epoch :: rat
  rs_snapshotAtMs :: rat

text \<open>The store object: what it has cached, and whether it has read the durable row.\<close>

record roster_store =
  ro_owner :: string
  ro_cached :: "roster option"
  ro_hydrated :: bool

definition rosterKey :: "roster_store \<Rightarrow> string" where
  "rosterKey ro = ''app:account-device-roster/'' @ ro_owner ro"

definition new_roster_store :: "jsval \<Rightarrow> js_error + roster_store" where
  "new_roster_store ownerAccountId =
     (let owner = trim (string_or_empty ownerAccountId) in
      if owner = [] then Inl (Error ''AccountDeviceRosterStore requires ownerAccountId'')
      else Inr \<lparr> ro_owner = owner, ro_cached = None, ro_hydrated = False \<rparr>)"

definition device_row :: "jsval \<Rightarrow> (string \<times> string) option" where
  "device_row d = (let deviceId = trim (string_or_empty (getp d ''deviceId'')); inboxId = trim (string_or_empty (getp d ''inboxId'')) in
     if deviceId = [] \<or> inboxId = [] then None else Some (deviceId, inboxId))"

fun all_rows :: "jsval list \<Rightarrow> (string \<times> string) list option" where
  "all_rows [] = Some []"
| "all_rows (d # ds) = (case device_row d of None \<Rightarrow> None | Some r \<Rightarrow> map_option (Cons r) (all_rows ds))"

definition epoch_of :: "jsval \<Rightarrow> rat option" where
  "epoch_of v = (case js_number v of Fin r \<Rightarrow> if of_int \<lfloor>r\<rfloor> = r \<and> 0 \<le> r then Some r else None | _ \<Rightarrow> None)"

definition time_of :: "jsval \<Rightarrow> rat option" where
  "time_of v = (case js_number v of Fin r \<Rightarrow> if 0 < r then Some r else None | _ \<Rightarrow> None)"

text \<open>A malformed row invalidates the whole stored snapshot.\<close>

definition normalize_roster :: "jsval \<Rightarrow> roster option" where
  "normalize_roster stored =
     (if \<not> is_object stored \<or> \<not> is_array (getp stored ''devices'') then None
      else case all_rows (elements (getp stored ''devices'')) of None \<Rightarrow> None
      | Some rows \<Rightarrow> (case epoch_of (getp stored ''epoch'') of None \<Rightarrow> None
      | Some epoch \<Rightarrow> (case time_of (getp stored ''snapshotAtMs'') of None \<Rightarrow> None
      | Some at_ms \<Rightarrow> Some \<lparr> rs_devices = rows, rs_epoch = epoch, rs_snapshotAtMs = at_ms \<rparr>)))"

definition hydrate :: "'s host \<Rightarrow> 's \<Rightarrow> roster_store \<Rightarrow> roster_store" where
  "hydrate H s ro = (if ro_hydrated ro then ro
     else ro\<lparr>ro_cached := normalize_roster (kvGet H s (rosterKey ro)), ro_hydrated := True\<rparr>)"

definition roster_json :: "roster \<Rightarrow> jsval" where
  "roster_json r = Obj [(''devices'', Arr (map (\<lambda>(d, i). Obj [(''deviceId'', Str d), (''inboxId'', Str i)]) (rs_devices r))),
     (''epoch'', num (rs_epoch r)), (''snapshotAtMs'', num (rs_snapshotAtMs r))]"

text \<open>The first row of a device wins.\<close>

fun first_rows :: "string list \<Rightarrow> (string \<times> string) list \<Rightarrow> (string \<times> string) list" where
  "first_rows seen [] = []"
| "first_rows seen ((d, i) # rows) = (if d \<in> set seen then first_rows seen rows else (d, i) # first_rows (d # seen) rows)"

definition replaceSnapshot :: "'s host \<Rightarrow> jsval \<Rightarrow> jsval \<Rightarrow> jsval \<Rightarrow> roster_store \<Rightarrow> 's \<Rightarrow> (js_error + roster option) \<times> roster_store \<times> 's" where
  "replaceSnapshot H devices epoch snapshotAtMs ro0 s =
     (let ro = hydrate H s ro0 in
      if \<not> is_array devices then (Inl (Error ''AccountDeviceRosterStore.replaceSnapshot requires devices[]''), ro, s)
      else case all_rows (elements devices) of
        None \<Rightarrow> (Inl (Error ''AccountDeviceRosterStore.replaceSnapshot: every device needs deviceId + inboxId''), ro, s)
      | Some rows \<Rightarrow> (case epoch_of (if epoch = Undef then num 0 else epoch) of
        None \<Rightarrow> (Inl (Error ''AccountDeviceRosterStore.replaceSnapshot: epoch must be a non-negative integer''), ro, s)
      | Some e \<Rightarrow>
        let snap = \<lparr> rs_devices = first_rows [] rows, rs_epoch = e,
              rs_snapshotAtMs = (case time_of snapshotAtMs of None \<Rightarrow> clockMs H | Some t \<Rightarrow> t) \<rparr>
        in (Inr (Some snap), ro\<lparr>ro_cached := Some snap\<rparr>, kvSet H s (rosterKey ro) (roster_json snap))))"

definition aggregate_row :: "jsval \<Rightarrow> jsval" where
  "aggregate_row d = Obj [(''deviceId'', Str (string_or_empty (getp d ''deviceId''))),
     (''inboxId'', Str (string_or_empty (getp (getp d ''bundle'') ''inboxId'')))]"

definition replaceFromAggregate :: "'s host \<Rightarrow> jsval \<Rightarrow> jsval \<Rightarrow> jsval \<Rightarrow> roster_store \<Rightarrow> 's \<Rightarrow> (js_error + roster option) \<times> roster_store \<times> 's" where
  "replaceFromAggregate H devices epoch snapshotAtMs ro s =
     (if \<not> is_array devices then (Inl (Error ''AccountDeviceRosterStore.replaceFromAggregate requires devices[]''), ro, s)
      else replaceSnapshot H (Arr (map aggregate_row (elements devices))) epoch snapshotAtMs ro s)"

definition snapshot :: "'s host \<Rightarrow> 's \<Rightarrow> roster_store \<Rightarrow> roster option \<times> roster_store" where
  "snapshot H s ro = (let ro' = hydrate H s ro in (ro_cached ro', ro'))"

section \<open>Fan-out cache\<close>

record coords =
  cd_ownerAccountId :: jsval
  cd_peerAccountId :: jsval
  cd_messageId :: jsval
  cd_peerDeviceId :: jsval

definition coords_strings :: "coords \<Rightarrow> string list" where
  "coords_strings c = map string_or_empty [cd_ownerAccountId c, cd_peerAccountId c, cd_messageId c, cd_peerDeviceId c]"

definition coordsValid :: "coords \<Rightarrow> bool" where
  "coordsValid c \<longleftrightarrow> list_all (\<lambda>t. t \<noteq> []) (coords_strings c)"

definition fanoutKey :: "'s host \<Rightarrow> coords \<Rightarrow> string" where
  "fanoutKey H c = ''app:devicefanout/'' @ take 43 (sha256Hex H (join [CHR 0x00] (coords_strings c)))"

record fanoutEntry =
  fe_ownerAccountId :: string
  fe_peerAccountId :: string
  fe_peerDeviceId :: string
  fe_messageId :: string
  fe_payloadB64 :: string
  fe_metadata :: jsval
  fe_capChain :: jsval
  fe_address :: jsval
  fe_deliveredOk :: bool
  fe_createdAtMs :: rat

definition object_or_null :: "jsval \<Rightarrow> jsval" where
  "object_or_null v = (if is_object v then v else Null)"

definition chain_or_null :: "jsval \<Rightarrow> jsval" where
  "chain_or_null v = (if is_array v \<and> elements v \<noteq> [] then v else Null)"

definition mkFanoutEntry :: "jsval \<Rightarrow> js_error + fanoutEntry" where
  "mkFanoutEntry raw =
     (let e = \<lparr> fe_ownerAccountId = nonEmptyString (getp raw ''ownerAccountId''),
            fe_peerAccountId = nonEmptyString (getp raw ''peerAccountId''),
            fe_peerDeviceId = nonEmptyString (getp raw ''peerDeviceId''),
            fe_messageId = nonEmptyString (getp raw ''messageId''),
            fe_payloadB64 = nonEmptyString (getp raw ''payloadB64''),
            fe_metadata = object_or_null (getp raw ''metadata''),
            fe_capChain = chain_or_null (getp raw ''capChain''),
            fe_address = object_or_null (getp raw ''address''),
            fe_deliveredOk = (getp raw ''deliveredOk'' = Bool True),
            fe_createdAtMs = toFiniteNumber (getp raw ''createdAtMs'') 0 \<rparr>
      in if fe_ownerAccountId e = [] then Inl (Error ''DeviceFanoutCacheEntryV1 requires ownerAccountId'')
         else if fe_peerAccountId e = [] then Inl (Error ''DeviceFanoutCacheEntryV1 requires peerAccountId'')
         else if fe_peerDeviceId e = [] then Inl (Error ''DeviceFanoutCacheEntryV1 requires peerDeviceId'')
         else if fe_messageId e = [] then Inl (Error ''DeviceFanoutCacheEntryV1 requires messageId'')
         else if fe_payloadB64 e = [] then Inl (Error ''DeviceFanoutCacheEntryV1 requires payloadB64 ciphertext'')
         else Inr e)"

definition fanout_fields :: "fanoutEntry \<Rightarrow> (string \<times> jsval) list" where
  "fanout_fields e = [(''ownerAccountId'', Str (fe_ownerAccountId e)), (''peerAccountId'', Str (fe_peerAccountId e)),
     (''peerDeviceId'', Str (fe_peerDeviceId e)), (''messageId'', Str (fe_messageId e)), (''payloadB64'', Str (fe_payloadB64 e)),
     (''metadata'', fe_metadata e), (''capChain'', fe_capChain e), (''address'', fe_address e),
     (''deliveredOk'', Bool (fe_deliveredOk e)), (''createdAtMs'', num (fe_createdAtMs e))]"

text \<open>A sealed message, as \<open>sealForPeerDevice\<close> of the SDK answers it; bytes are the SDK's.\<close>

record 'b sealed =
  sl_payloadBytes :: 'b
  sl_metadata :: jsval
  sl_capChain :: jsval
  sl_address :: jsval

definition to_sealed :: "(string \<Rightarrow> 'b) \<Rightarrow> fanoutEntry \<Rightarrow> 'b sealed" where
  "to_sealed base64ToBytes e = \<lparr> sl_payloadBytes = base64ToBytes (fe_payloadB64 e),
     sl_metadata = (if is_object (fe_metadata e) then fe_metadata e else Obj []),
     sl_capChain = chain_or_null (fe_capChain e), sl_address = fe_address e \<rparr>"

definition expired :: "rat \<Rightarrow> rat \<Rightarrow> jsval \<Rightarrow> bool" where
  "expired now ttl raw = (let c = getp raw ''createdAtMs'' in
     case js_number (if truthy c then c else num 0) of Fin t \<Rightarrow> now - t > ttl | NegInf \<Rightarrow> True | _ \<Rightarrow> False)"

definition fanoutGet :: "'s host \<Rightarrow> (string \<Rightarrow> 'b) \<Rightarrow> rat \<Rightarrow> coords \<Rightarrow> ('s, ('b sealed \<times> bool) option) op" where
  "fanoutGet H base64ToBytes ttl c s =
     (if \<not> coordsValid c then ok None s
      else let raw = kvGet H s (fanoutKey H c) in
        if \<not> is_object raw \<or> \<not> is_string (getp raw ''payloadB64'') then ok None s
        else if expired (clockMs H) ttl raw then ok None (kvDelete H s (fanoutKey H c))
        else (case mkFanoutEntry raw of Inl e \<Rightarrow> throw e s
          | Inr e \<Rightarrow> ok (Some (to_sealed base64ToBytes e, fe_deliveredOk e)) s))"

definition fanoutPut :: "'s host \<Rightarrow> ('b \<Rightarrow> string) \<Rightarrow> coords \<Rightarrow> 'b sealed \<Rightarrow> ('s, unit) op" where
  "fanoutPut H bytesToBase64 c sealed s =
     (if \<not> coordsValid c then ok () s
      else case mkFanoutEntry (Obj [(''ownerAccountId'', cd_ownerAccountId c), (''peerAccountId'', cd_peerAccountId c),
          (''peerDeviceId'', cd_peerDeviceId c), (''messageId'', cd_messageId c),
          (''payloadB64'', Str (bytesToBase64 (sl_payloadBytes sealed))), (''metadata'', object_or_null (sl_metadata sealed)),
          (''capChain'', if is_array (sl_capChain sealed) then sl_capChain sealed else Null),
          (''address'', if truthy (sl_address sealed) then sl_address sealed else Null),
          (''deliveredOk'', Bool False), (''createdAtMs'', num (clockMs H))]) of
        Inl e \<Rightarrow> throw e s
      | Inr e \<Rightarrow> ok () (kvSet H s (fanoutKey H c) (Obj (fanout_fields e))))"

definition markDelivered :: "'s host \<Rightarrow> coords \<Rightarrow> ('s, unit) op" where
  "markDelivered H c s =
     (if \<not> coordsValid c then ok () s
      else let raw = kvGet H s (fanoutKey H c) in
        if \<not> is_object raw \<or> \<not> is_string (getp raw ''payloadB64'') then ok () s
        else (case mkFanoutEntry (Obj (spread (own_props raw) [(''deliveredOk'', Bool True)])) of Inl e \<Rightarrow> throw e s
          | Inr e \<Rightarrow> ok () (kvSet H s (fanoutKey H c) (Obj (fanout_fields e)))))"

fun prune_fanout :: "'s host \<Rightarrow> rat \<Rightarrow> string list \<Rightarrow> 's \<Rightarrow> nat \<times> 's" where
  "prune_fanout H ttl [] s = (0, s)"
| "prune_fanout H ttl (k # ks) s =
     (let raw = kvGet H s k in
      if \<not> is_object raw \<or> expired (clockMs H) ttl raw
      then (let (n, s') = prune_fanout H ttl ks (kvDelete H s k) in (Suc n, s'))
      else prune_fanout H ttl ks s)"

definition fanoutPrune :: "'s host \<Rightarrow> rat \<Rightarrow> 's \<Rightarrow> nat \<times> 's" where
  "fanoutPrune H ttl s = prune_fanout H ttl (kvKeys H s ''app:devicefanout/'') s"

section \<open>Link previews\<close>

record LinkPreview =
  lp_url :: string
  lp_canonicalUrl :: string
  lp_title :: string
  lp_description :: string
  lp_siteName :: string
  lp_imageDataUrl :: string
  lp_fetchedAtMs :: rat
  lp_error :: string

definition text_of :: "jsval \<Rightarrow> string" where
  "text_of v = (if nullish v then [] else js_string v)"

definition mkLinkPreview :: "jsval \<Rightarrow> js_error + LinkPreview" where
  "mkLinkPreview raw =
     (let url = nonEmptyString (getp raw ''url''); canonical = nonEmptyString (getp raw ''canonicalUrl'');
          p = \<lparr> lp_url = url, lp_canonicalUrl = (if canonical = [] then url else canonical),
            lp_title = take 512 (text_of (getp raw ''title'')),
            lp_description = take 1024 (text_of (getp raw ''description'')),
            lp_siteName = take 256 (text_of (getp raw ''siteName'')),
            lp_imageDataUrl = text_of (getp raw ''imageDataUrl''),
            lp_fetchedAtMs = toFiniteNumber (getp raw ''fetchedAtMs'') 0,
            lp_error = take 256 (text_of (getp raw ''error'')) \<rparr>
      in if url = [] then Inl (Error ''LinkPreview requires url'')
         else if lp_fetchedAtMs p \<le> 0 then Inl (Error ''LinkPreview requires fetchedAtMs'') else Inr p)"

definition preview_json :: "LinkPreview \<Rightarrow> jsval" where
  "preview_json p = Obj [(''url'', Str (lp_url p)), (''canonicalUrl'', Str (lp_canonicalUrl p)), (''title'', Str (lp_title p)),
     (''description'', Str (lp_description p)), (''siteName'', Str (lp_siteName p)), (''imageDataUrl'', Str (lp_imageDataUrl p)),
     (''fetchedAtMs'', num (lp_fetchedAtMs p)), (''error'', Str (lp_error p))]"

definition wf_preview :: "LinkPreview \<Rightarrow> bool" where
  "wf_preview p \<longleftrightarrow> lp_url p \<noteq> [] \<and> trimmed (lp_url p) \<and> lp_canonicalUrl p \<noteq> [] \<and> trimmed (lp_canonicalUrl p)
     \<and> length (lp_title p) \<le> 512 \<and> length (lp_description p) \<le> 1024 \<and> length (lp_siteName p) \<le> 256
     \<and> length (lp_error p) \<le> 256 \<and> 0 < lp_fetchedAtMs p"

lemma wf_mkLinkPreview: "mkLinkPreview raw = Inr p \<Longrightarrow> wf_preview p"
  by (auto simp: mkLinkPreview_def wf_preview_def Let_def split: if_splits)

lemma preview_back: "wf_preview p \<Longrightarrow> mkLinkPreview (preview_json p) = Inr p"
  by (simp add: mkLinkPreview_def preview_json_def wf_preview_def getp_def Let_def text_of_def trimmed_eq)

definition OK_TTL_MS :: rat where "OK_TTL_MS = 7 * 24 * 60 * 60 * 1000"
definition ERROR_TTL_MS :: rat where "ERROR_TTL_MS = 60 * 60 * 1000"

definition urlKey :: "'s host \<Rightarrow> string \<Rightarrow> string" where
  "urlKey H url = ''app:linkpreviews/'' @ take 32 (sha256Hex H url)"

definition previewGet :: "'s host \<Rightarrow> string \<Rightarrow> 's \<Rightarrow> LinkPreview option" where
  "previewGet H url s =
     (let raw = kvGet H s (urlKey H url) in
      if \<not> is_object raw then None
      else case mkLinkPreview raw of Inl _ \<Rightarrow> None
      | Inr p \<Rightarrow> if clockMs H - lp_fetchedAtMs p > (if lp_error p \<noteq> [] then ERROR_TTL_MS else OK_TTL_MS) then None else Some p)"

definition previewPut :: "'s host \<Rightarrow> LinkPreview \<Rightarrow> 's \<Rightarrow> 's" where
  "previewPut H p s = kvSet H s (urlKey H (lp_url p)) (preview_json p)"

end
