(* ===== verification/FanoutLaws.thy ===== *)
theory FanoutLaws
  imports Caches
begin

text \<open>
  The laws of the fan-out cache (\<open>DeviceFanoutCacheStore.js\<close>): what was put is got back within the retention time.
\<close>

lemma fanout_fields_dom: "distinct (map fst (fanout_fields e))" "\<forall>(k, v) \<in> set (fanout_fields e). v \<noteq> Undef \<or> k \<in> {''metadata'', ''capChain'', ''address''}"
  by (simp_all add: fanout_fields_def)

lemma object_or_null_idem [simp]: "object_or_null (object_or_null v) = object_or_null v" "chain_or_null (chain_or_null v) = chain_or_null v"
  by (simp_all add: object_or_null_def chain_or_null_def)

lemma mkFanoutEntry_back:
  assumes "mkFanoutEntry raw = Inr e" and "\<forall>(k, v) \<in> set (fanout_fields (e\<lparr>fe_deliveredOk := ok'\<rparr>)). getp raw' k = v"
  shows "mkFanoutEntry raw' = Inr (e\<lparr>fe_deliveredOk := ok'\<rparr>)"
  using assms
  by (auto simp: mkFanoutEntry_def fanout_fields_def Let_def trimmed_eq [OF trimmed_nonEmptyString] split: if_splits)

lemma fanout_row:
  assumes "mkFanoutEntry raw = Inr e"
  shows "mkFanoutEntry (Obj (fanout_fields e)) = Inr e"
    and "mkFanoutEntry (Obj (spread (fanout_fields e) [(''deliveredOk'', Bool True)])) = Inr (e\<lparr>fe_deliveredOk := True\<rparr>)"
proof -
  have "e\<lparr>fe_deliveredOk := fe_deliveredOk e\<rparr> = e" by simp
  then show "mkFanoutEntry (Obj (fanout_fields e)) = Inr e"
    using mkFanoutEntry_back [OF assms, of "fe_deliveredOk e" "Obj (fanout_fields e)"] getp_agree [OF fanout_fields_dom(1)] by simp
  show "mkFanoutEntry (Obj (spread (fanout_fields e) [(''deliveredOk'', Bool True)])) = Inr (e\<lparr>fe_deliveredOk := True\<rparr>)"
    by (rule mkFanoutEntry_back [OF assms]) (simp add: fanout_fields_def spread_def getp_def)
qed

lemma fanout_replay:
  assumes "host_laws H" and "fanoutPut H enc c m s = (Inr (), s')" and "coordsValid c"
    and "dec (trim (enc (sl_payloadBytes m))) = sl_payloadBytes m"
    and "is_object (sl_metadata m)" "is_object (sl_address m)" "chain_or_null (sl_capChain m) = sl_capChain m"
    and "now - clockMs H \<le> ttl"
  shows "fanoutGet (H\<lparr>clockMs := now\<rparr>) dec ttl c s' = (Inr (Some (m, False)), s')
    \<and> (\<exists>s2. markDelivered H c s' = (Inr (), s2) \<and> fanoutGet (H\<lparr>clockMs := now\<rparr>) dec ttl c s2 = (Inr (Some (m, True)), s2))"
proof -
  obtain raw e where mk: "mkFanoutEntry raw = Inr e" and s': "s' = kvSet H s (fanoutKey H c) (Obj (fanout_fields e))"
    and raw: "getp raw ''payloadB64'' = Str (enc (sl_payloadBytes m))" "getp raw ''metadata'' = object_or_null (sl_metadata m)"
      "getp raw ''capChain'' = (if is_array (sl_capChain m) then sl_capChain m else Null)"
      "getp raw ''address'' = (if truthy (sl_address m) then sl_address m else Null)"
      "getp raw ''deliveredOk'' = Bool False" "getp raw ''createdAtMs'' = num (clockMs H)"
    using assms(2,3) by (auto simp: fanoutPut_def throw_def ok_def getp_def split: sum.splits)
  have e: "fe_payloadB64 e = trim (enc (sl_payloadBytes m))" "fe_metadata e = sl_metadata m" "fe_capChain e = sl_capChain m"
    "fe_address e = sl_address m" "fe_deliveredOk e = False" "fe_createdAtMs e = clockMs H"
    using mk raw assms(5-7)
    by (auto simp: mkFanoutEntry_def Let_def object_or_null_def chain_or_null_def split: if_splits elim: is_object.elims)
  have key: "fanoutKey (H\<lparr>clockMs := now\<rparr>) c = fanoutKey H c" by (simp add: fanoutKey_def)
  have in_time: "\<not> expired now ttl (Obj (fanout_fields e'))" if "fe_createdAtMs e' = clockMs H" for e'
    using that assms(8) by (auto simp: expired_def fanout_fields_def getp_def)
  have pay: "is_string (getp (Obj (fanout_fields e')) ''payloadB64'')" for e' by (simp add: fanout_fields_def getp_def)
  let ?e = "e\<lparr>fe_deliveredOk := True\<rparr>"
  have bk: "mkFanoutEntry (Obj (fanout_fields ?e)) = Inr ?e"
    by (rule fanout_row(1) [OF fanout_row(2) [OF mk]])
  have sealed: "to_sealed dec e' = m" if "e' = e \<or> e' = ?e" for e'
    using that e assms(4-7) by (auto simp: to_sealed_def)
  have "fanoutGet (H\<lparr>clockMs := now\<rparr>) dec ttl c s' = (Inr (Some (m, False)), s')"
    using in_time [OF e(6)] pay [of e] fanout_row(1) [OF mk] sealed [of e] e(5) assms(3)
    by (simp add: fanoutGet_def s' key host_laws.get_set [OF assms(1)] ok_def)
  moreover have "markDelivered H c s' = (Inr (), kvSet H s' (fanoutKey H c) (Obj (fanout_fields ?e)))"
    using pay [of e] fanout_row(2) [OF mk] assms(3)
    by (simp add: markDelivered_def s' host_laws.get_set [OF assms(1)] ok_def own_props_def)
  moreover have "fanoutGet (H\<lparr>clockMs := now\<rparr>) dec ttl c (kvSet H s' (fanoutKey H c) (Obj (fanout_fields ?e)))
      = (Inr (Some (m, True)), kvSet H s' (fanoutKey H c) (Obj (fanout_fields ?e)))"
    using in_time [of ?e] e(6) pay [of ?e] bk sealed [of ?e] assms(3)
    by (simp add: fanoutGet_def key host_laws.get_set [OF assms(1)] ok_def)
  ultimately show ?thesis by blast
qed

end
