(* ===== verification/CacheProperties.thy ===== *)
theory CacheProperties
  imports Backup Caches Samples FanoutLaws
begin

text \<open>
  Properties of the backups and of the durable caches.
\<close>

section \<open>Backups\<close>

text \<open>
  A stored delta is served until it expires: \<open>getBlob\<close> answers exactly the artifact that
  \<open>putDelta\<close> stored, at every later time before its expiry, and pruning at such a time keeps it; at or
  after its expiry pruning deletes it.
\<close>

theorem delta_served_until_expiry:
  assumes "host_laws H" and "putDelta H b seq created sz enc s = (Inr a, s')" and "toSeq seq = Inr n"
  shows "(now < ar_expiresAtMs a \<longrightarrow> getBlob (H\<lparr>clockMs := now\<rparr>) b (Str ''delta'') seq s' = (Inr (Some a), s'))
    \<and> stored_artifact H (artifactKey H b ''delta'' n) (snd (pruneBackups H b (num now) s'))
      = (if ar_expiresAtMs a \<le> toFiniteMs (num now) (clockMs H) then None else Some a)"
proof -
  have eq: "s' = store_artifact H b a [(''lastBackupAtMs'', num (toFiniteMs (num (clockMs H)) (clockMs H))), (''lastDeltaSeq'', num n)] s"
    and a: "a = new_artifact H b ''delta'' n created (nonEmpty H sz) (trim (string_of enc))" and ne: "trim (string_of enc) \<noteq> []"
    using assms(2) by (auto simp: putDelta_def andThen_def lift_result_def assms(3) Let_def throw_def ok_def split: if_splits)
  have wf: "wf_artifact a" unfolding a by (rule wf_new_artifact [OF assms(3) ne]) simp
  have ty: "ar_type a = ''delta''" "ar_seq a = n" by (simp_all add: a new_artifact_def Let_def)
  have got: "stored_artifact H (artifactKey H b ''delta'' n) s' = Some a"
    using put_artifact_effect [OF assms(1) wf, of b] by (simp add: eq ty)
  have key: "artifactKey (H\<lparr>clockMs := now\<rparr>) b ''delta'' n = artifactKey H b ''delta'' n"
    by (simp add: artifactKey_def basePrefix_def hashAccountId_def)
  have "getBlob (H\<lparr>clockMs := now\<rparr>) b (Str ''delta'') seq s' = (Inr (Some a), s')" if "now < ar_expiresAtMs a"
    using that got by (simp add: getBlob_def artifact_type_def assms(3) andThen_def lift_result_def reads_def key stored_artifact_def)
  moreover have mk: "artifactKey H b ''delta'' n \<noteq> manifestKey H b" by simp
  ultimately show ?thesis
    using prune_effect [OF assms(1) artifact_key_found [of "''delta''" H b n] mk, of "num now" s'] got by simp
qed

definition my_backup :: backup_service where
  "my_backup = \<lparr> bs_owner = ''me'', bs_retentionDays = 1 \<rparr>"

theorem delta_served_until_expiry_instance:
  "\<exists>a s'. putDelta HM my_backup (num 3) Null Null (Str ''abc'') [] = (Inr a, s')
     \<and> getBlob (HM\<lparr>clockMs := 5000\<rparr>) my_backup (Str ''delta'') (num 3) s' = (Inr (Some a), s')"
proof -
  let ?r = "putDelta HM my_backup (num 3) Null Null (Str ''abc'') []"
  have "\<not> isl (fst ?r)" "ar_expiresAtMs (projr (fst ?r)) = 86401000" by code_simp+
  moreover from this have r: "?r = (Inr (projr (fst ?r)), snd ?r)" by (simp add: prod_eq_iff)
  moreover have "toSeq (num 3) = Inr 3" by code_simp
  ultimately show ?thesis using delta_served_until_expiry [OF HM_laws r, of 3 5000] by fastforce
qed

text \<open>
  The manifest counts at most 500 artifacts: \<open>_upsertManifest\<close> asks \<open>list\<close> for 5000 items, which
  cuts every limit at 500, so the latest sequence number and the item count it records are those of
  the 500 oldest live artifacts only.
\<close>

theorem manifest_sees_500:
  assumes "host_laws H"
  shows "getp (kvGet H (upsertManifest H b s) (manifestKey H b)) ''itemCount''
      = num (of_nat (min 500 (length (live_artifacts H b Null s))))
    \<and> getp (kvGet H (upsertManifest H b s) (manifestKey H b)) ''latestSeq''
      = num (foldl (\<lambda>m a. max m (ar_seq a)) 0 (take 500 (sort_by compareArtifacts (live_artifacts H b Null s))))"
  by (simp add: upsertManifest_def host_laws.get_set [OF assms] list_items_def list_limit_def manifest_of_def Let_def getp_def)

theorem manifest_sees_500_instance:
  "getp (kvGet HM (upsertManifest HM my_backup (snd (putDelta HM my_backup (num 3) Null Null (Str ''abc'') []))) (manifestKey HM my_backup))
     ''itemCount'' = num 1"
proof -
  have "length (live_artifacts HM my_backup Null (snd (putDelta HM my_backup (num 3) Null Null (Str ''abc'') []))) = 1" by code_simp
  then show ?thesis using manifest_sees_500 [OF HM_laws, of my_backup "snd (putDelta HM my_backup (num 3) Null Null (Str ''abc'') [])"] by simp
qed

section \<open>Device roster\<close>

lemma all_rows_json:
  "\<forall>(d, i)\<in>set rows. trim d = d \<and> d \<noteq> [] \<and> trim i = i \<and> i \<noteq> [] \<Longrightarrow>
   all_rows (map (\<lambda>(d, i). Obj [(''deviceId'', Str d), (''inboxId'', Str i)]) rows) = Some rows"
  by (induction rows) (auto simp: device_row_def getp_def)

lemma all_rows_wf: "all_rows ds = Some rows \<Longrightarrow> (d, i) \<in> set rows \<Longrightarrow> trim d = d \<and> d \<noteq> [] \<and> trim i = i \<and> i \<noteq> []"
  by (induction ds arbitrary: rows) (auto simp: device_row_def Let_def split: option.splits if_splits)

lemma set_first_rows: "set (first_rows seen rows) \<subseteq> set rows"
  by (induction seen rows rule: first_rows.induct) auto

lemma first_rows_distinct:
  "distinct (map fst (first_rows seen rows)) \<and> fst ` set (first_rows seen rows) = fst ` set rows - set seen"
  by (induction seen rows rule: first_rows.induct) auto

text \<open>
  The roster survives a restart: after a successful \<open>replaceSnapshot\<close> a new store object for the
  same account reads back exactly the snapshot, whose devices are those of the list, each once; nothing
  of an earlier snapshot remains.
\<close>

theorem roster_survives_restart:
  assumes "host_laws H" and "replaceSnapshot H (Arr ds) epoch t ro s = (Inr sn, ro', s')"
    and "new_roster_store (Str (ro_owner ro)) = Inr reopened" "trim (ro_owner ro) = ro_owner ro" "0 < clockMs H"
  shows "fst (snapshot H s' reopened) = sn \<and> fst (snapshot H s' ro') = sn
    \<and> (\<exists>rows snap. sn = Some snap \<and> all_rows ds = Some rows \<and> distinct (map fst (rs_devices snap))
        \<and> fst ` set (rs_devices snap) = fst ` set rows \<and> set (rs_devices snap) \<subseteq> set rows)"
proof -
  have hyd: "ro_owner (hydrate H s ro) = ro_owner ro" "ro_hydrated (hydrate H s ro)" by (simp_all add: hydrate_def)
  obtain rows e where rows: "all_rows ds = Some rows" "epoch_of (if epoch = Undef then num 0 else epoch) = Some e"
    using assms(2) by (auto simp: replaceSnapshot_def Let_def split: option.splits)
  define snap where "snap = \<lparr> rs_devices = first_rows [] rows, rs_epoch = e,
      rs_snapshotAtMs = (case time_of t of None \<Rightarrow> clockMs H | Some x \<Rightarrow> x) \<rparr>"
  have res: "sn = Some snap" "ro' = (hydrate H s ro)\<lparr>ro_cached := Some snap\<rparr>"
    "s' = kvSet H s (rosterKey (hydrate H s ro)) (roster_json snap)"
    using assms(2) by (auto simp: replaceSnapshot_def Let_def rows snap_def)
  have pos: "0 < rs_snapshotAtMs snap"
    using assms(5) by (auto simp: snap_def time_of_def split: option.split jsnum.splits if_splits)
  have "epoch_of (num e) = Some e" using rows(2) by (auto simp: epoch_of_def split: jsnum.splits if_splits)
  moreover have ep: "rs_epoch snap = e" by (simp add: snap_def)
  moreover have "all_rows (map (\<lambda>(d, i). Obj [(''deviceId'', Str d), (''inboxId'', Str i)]) (rs_devices snap)) = Some (rs_devices snap)"
    by (rule all_rows_json) (use all_rows_wf [OF rows(1)] set_first_rows [of "[]" rows] in \<open>auto simp: snap_def\<close>)
  ultimately have "normalize_roster (roster_json snap) = Some snap"
    using pos ep by (simp add: normalize_roster_def roster_json_def getp_def time_of_def)
  moreover have "reopened = \<lparr> ro_owner = ro_owner ro, ro_cached = None, ro_hydrated = False \<rparr>"
    using assms(3,4) by (auto simp: new_roster_store_def Let_def split: if_splits)
  ultimately have "fst (snapshot H s' reopened) = Some snap"
    by (simp add: snapshot_def hydrate_def [of _ _ "\<lparr> ro_owner = _, ro_cached = _, ro_hydrated = False \<rparr>"] res(3) rosterKey_def hyd
        host_laws.get_set [OF assms(1)])
  moreover have "fst (snapshot H s' ro') = Some snap"
    using hyd(2) by (simp add: snapshot_def hydrate_def [of _ _ "_\<lparr>ro_cached := _\<rparr>"] res(2))
  ultimately show ?thesis
    using rows(1) res(1) first_rows_distinct [of "[]" rows] set_first_rows [of "[]" rows] by (auto simp: snap_def)
qed

definition my_roster :: roster_store where
  "my_roster = \<lparr> ro_owner = ''me'', ro_cached = None, ro_hydrated = False \<rparr>"

definition two_devices :: "jsval list" where
  "two_devices = [Obj [(''deviceId'', Str ''d1''), (''inboxId'', Str ''i1'')], Obj [(''deviceId'', Str ''d2''), (''inboxId'', Str ''i2'')],
     Obj [(''deviceId'', Str ''d1''), (''inboxId'', Str ''i3'')]]"

theorem roster_survives_restart_instance:
  "map_option rs_devices (fst (snapshot HM (snd (snd (replaceSnapshot HM (Arr two_devices) (num 4) Null my_roster []))) my_roster))
   = Some [(''d1'', ''i1''), (''d2'', ''i2'')]"
proof -
  let ?r = "replaceSnapshot HM (Arr two_devices) (num 4) Null my_roster []"
  have d: "\<not> isl (fst ?r)" "map_option rs_devices (projr (fst ?r)) = Some [(''d1'', ''i1''), (''d2'', ''i2'')]" by code_simp+
  then have r: "?r = (Inr (projr (fst ?r)), fst (snd ?r), snd (snd ?r))" by (simp add: prod_eq_iff)
  have f: "new_roster_store (Str (ro_owner my_roster)) = Inr my_roster" "trim (ro_owner my_roster) = ro_owner my_roster"
    "0 < clockMs HM" by code_simp+
  show ?thesis using roster_survives_restart [OF HM_laws r f] d(2) by simp
qed

section \<open>Fan-out cache\<close>

text \<open>
  A retry replays identical bytes: within the retention time a sealed message is got back with the
  payload, metadata, capability chain and address it was put with, as not delivered, and after
  \<open>markDelivered\<close> as delivered; past it the lookup answers nothing and deletes the row.
\<close>

theorem fanout_replays_identical:
  assumes "host_laws H" and "fanoutPut H enc c m s = (Inr (), s')" and "coordsValid c"
    and "dec (trim (enc (sl_payloadBytes m))) = sl_payloadBytes m"
    and "is_object (sl_metadata m)" "is_object (sl_address m)" "chain_or_null (sl_capChain m) = sl_capChain m"
    and "now - clockMs H \<le> ttl"
  shows "fanoutGet (H\<lparr>clockMs := now\<rparr>) dec ttl c s' = (Inr (Some (m, False)), s')
    \<and> (\<exists>s2. markDelivered H c s' = (Inr (), s2) \<and> fanoutGet (H\<lparr>clockMs := now\<rparr>) dec ttl c s2 = (Inr (Some (m, True)), s2))"
  using fanout_replay [of H enc c m s s' dec now ttl] assms by blast

definition my_coords :: coords where
  "my_coords = \<lparr> cd_ownerAccountId = Str ''me'', cd_peerAccountId = Str ''bob'', cd_messageId = Str ''m1'', cd_peerDeviceId = Str ''d1'' \<rparr>"

definition my_sealed :: "string sealed" where
  "my_sealed = \<lparr> sl_payloadBytes = ''QUJD'', sl_metadata = Obj [], sl_capChain = Null, sl_address = Obj [(''inboxId'', Str ''i1'')] \<rparr>"

theorem fanout_replays_identical_instance:
  "\<exists>s'. fanoutPut HM (\<lambda>x. x) my_coords my_sealed [] = (Inr (), s')
     \<and> fanoutGet (HM\<lparr>clockMs := 2000\<rparr>) (\<lambda>x. x) 5000 my_coords s' = (Inr (Some (my_sealed, False)), s')"
proof -
  let ?r = "fanoutPut HM (\<lambda>x. x) my_coords my_sealed []"
  have "\<not> isl (fst ?r)" by code_simp
  then have r: "?r = (Inr (), snd ?r)" by (cases "fst ?r") (simp_all add: prod_eq_iff)
  have c: "coordsValid my_coords" "trim (sl_payloadBytes my_sealed) = sl_payloadBytes my_sealed"
    "is_object (sl_metadata my_sealed)" "is_object (sl_address my_sealed)" "chain_or_null (sl_capChain my_sealed) = sl_capChain my_sealed"
    "2000 - clockMs HM \<le> (5000 :: rat)" by code_simp+
  show ?thesis using fanout_replays_identical [OF HM_laws r c(1), of "\<lambda>x. x" 2000 5000] c r by blast
qed

section \<open>Link previews\<close>

text \<open>
  A cached preview is served until its time to live is over, one hour for a failed fetch and seven
  days otherwise, and then is a miss.
\<close>

theorem preview_served_for_ttl:
  assumes "host_laws H" and "mkLinkPreview raw = Inr p"
  shows "previewGet (H\<lparr>clockMs := now\<rparr>) (lp_url p) (previewPut H p s)
    = (if now - lp_fetchedAtMs p > (if lp_error p \<noteq> [] then ERROR_TTL_MS else OK_TTL_MS) then None else Some p)"
proof -
  have "mkLinkPreview (preview_json p) = Inr p" by (rule preview_back [OF wf_mkLinkPreview [OF assms(2)]])
  then show ?thesis
    by (simp add: previewGet_def previewPut_def urlKey_def host_laws.get_set [OF assms(1)] preview_json_def)
qed

theorem preview_served_for_ttl_instance:
  "\<exists>p. mkLinkPreview (Obj [(''url'', Str ''u''), (''fetchedAtMs'', num 10)]) = Inr p
     \<and> previewGet (HM\<lparr>clockMs := 3600011\<rparr>) (lp_url p) (previewPut HM p []) = Some p"
proof -
  let ?r = "mkLinkPreview (Obj [(''url'', Str ''u''), (''fetchedAtMs'', num 10)])"
  have "\<not> isl ?r \<and> lp_fetchedAtMs (projr ?r) = 10 \<and> lp_error (projr ?r) = []" by code_simp
  then obtain p where p: "?r = Inr p" "lp_fetchedAtMs p = 10" "lp_error p = []" by (cases ?r) auto
  then show ?thesis using preview_served_for_ttl [OF HM_laws p(1), of 3600011] by (simp add: OK_TTL_MS_def)
qed

end
