(* ===== verification/Schema.thy ===== *)
theory Schema
  imports Js_Prelude
begin

text \<open>
  The declarative record base class (\<open>src/records/SchemaRecord.js\<close>, \<open>WirePayloadRecord.js\<close>). A class
  is the value of its \<open>static schema\<close>, its wire kind and its own extra checks; \<open>new_record\<close> is the
  constructor: coercion of every field in declaration order, then \<open>validate\<close>. A constructed record is
  the object of its own properties, so a record and its \<open>toJSON\<close> are one value; an argument that is
  already an instance of a nested class is taken for its serialisation.

  The lemmas show for every class at once that a constructed record has the declared types and
  bounds, and when it is read back from its own serialisation.
\<close>

section \<open>JSON text\<close>

text \<open>\<open>JSON.stringify\<close>, on values without \<open>toJSON\<close>; \<open>None\<close> is \<open>undefined\<close>.\<close>

definition hex_digit :: "nat \<Rightarrow> char" where
  "hex_digit n = (if n < 10 then char_of (48 + n) else char_of (87 + n))"

definition json_char :: "char \<Rightarrow> string" where
  "json_char c = (let n = of_char c :: nat in
     if n = 34 then [CHR 0x5C, CHR 0x22] else if n = 92 then [CHR 0x5C, CHR 0x5C]
     else if n = 8 then [CHR 0x5C, CHR ''b''] else if n = 12 then [CHR 0x5C, CHR ''f'']
     else if n = 10 then [CHR 0x5C, CHR ''n''] else if n = 13 then [CHR 0x5C, CHR ''r'']
     else if n = 9 then [CHR 0x5C, CHR ''t'']
     else if n < 32 then [CHR 0x5C, CHR ''u'', CHR ''0'', CHR ''0'', hex_digit (n div 16), hex_digit (n mod 16)]
     else [c])"

definition json_quote :: "string \<Rightarrow> string" where
  "json_quote s = [CHR 0x22] @ concat (map json_char s) @ [CHR 0x22]"

fun json_text :: "jsval \<Rightarrow> string option" where
  "json_text Undef = None"
| "json_text Null = Some ''null''"
| "json_text (Bool b) = Some (if b then ''true'' else ''false'')"
| "json_text (Num (Fin r)) = Some (rat_string r)"
| "json_text (Num _) = Some ''null''"
| "json_text (Str s) = Some (json_quote s)"
| "json_text (Arr xs) = Some (''['' @ join '','' (map (\<lambda>x. case json_text x of None \<Rightarrow> ''null'' | Some t \<Rightarrow> t) xs) @ '']'')"
| "json_text (Obj kvs) = Some (''{'' @ join '','' (concat (map (\<lambda>(k, v). case json_text v of None \<Rightarrow> []
     | Some t \<Rightarrow> [json_quote k @ '':'' @ t]) kvs)) @ ''}'')"

definition json_length :: "jsval \<Rightarrow> nat" where
  "json_length v = (case json_text v of None \<Rightarrow> 0 | Some t \<Rightarrow> length t)"

section \<open>Field specifications\<close>

datatype field_type = StringT | IntT | NumberT | BooleanT | ObjectT | ArrayT | RecordT | EnumT

text \<open>
  One entry of a \<open>static schema\<close>. An absent \<open>default\<close> is \<open>Undef\<close>; \<open>sp_trim\<close> is false only for an explicit
  \<open>trim: false\<close>. A nested class is its constructor.
\<close>

record field_spec =
  sp_type :: field_type
  sp_required :: bool
  sp_nullable :: bool
  sp_default :: jsval
  sp_trim :: bool
  sp_lowercase :: bool
  sp_maxLength :: "int option"
  sp_min :: "rat option"
  sp_max :: "rat option"
  sp_clamp :: bool
  sp_maxJsonBytes :: "int option"
  sp_values :: "string list"
  sp_record :: "(jsval \<Rightarrow> js_error + jsval) option"
  sp_validate :: "string \<Rightarrow> jsval \<Rightarrow> js_error option"

definition spec_of :: "field_type \<Rightarrow> field_spec" where
  "spec_of t = \<lparr> sp_type = t, sp_required = False, sp_nullable = False, sp_default = Undef, sp_trim = True,
     sp_lowercase = False, sp_maxLength = None, sp_min = None, sp_max = None, sp_clamp = False,
     sp_maxJsonBytes = None, sp_values = [], sp_record = None, sp_validate = (\<lambda>_ _. None) \<rparr>"

lemmas spec_sels [simp] = spec_of_def

abbreviation "a_string \<equiv> spec_of StringT"
abbreviation "required_string \<equiv> a_string\<lparr>sp_required := True\<rparr>"
abbreviation "nullable_string \<equiv> a_string\<lparr>sp_nullable := True\<rparr>"
abbreviation "an_int \<equiv> spec_of IntT"
abbreviation "a_number \<equiv> spec_of NumberT"
abbreviation "a_boolean \<equiv> spec_of BooleanT"
abbreviation "an_object \<equiv> spec_of ObjectT"
abbreviation "an_array \<equiv> spec_of ArrayT"

text \<open>An array of records, a nested record, an enumeration.\<close>

abbreviation "array_of mk \<equiv> (spec_of ArrayT)\<lparr>sp_record := Some mk\<rparr>"
abbreviation "a_record mk \<equiv> (spec_of RecordT)\<lparr>sp_record := Some mk\<rparr>"
abbreviation "an_enum vs \<equiv> (spec_of EnumT)\<lparr>sp_values := vs\<rparr>"

type_synonym schema = "(string \<times> field_spec) list"

section \<open>Coercion\<close>

definition string_default :: "field_spec \<Rightarrow> jsval" where
  "string_default sp = (if sp_nullable sp then Null else if is_string (sp_default sp) then sp_default sp else Str [])"

definition lower_if :: "field_spec \<Rightarrow> string \<Rightarrow> string" where
  "lower_if sp s = (if sp_lowercase sp then toLowerCase s else s)"

definition coerceString :: "jsval \<Rightarrow> field_spec \<Rightarrow> jsval" where
  "coerceString raw sp = (case raw of
       Str s \<Rightarrow> if \<not> sp_trim sp then Str (lower_if sp s)
         else let v = lower_if sp (trim s) in if v = [] then string_default sp else Str v
     | _ \<Rightarrow> string_default sp)"

definition clamped :: "field_spec \<Rightarrow> rat \<Rightarrow> rat" where
  "clamped sp value =
     (if \<not> sp_clamp sp then value
      else let v = (case sp_min sp of Some m \<Rightarrow> if value < m then m else value | None \<Rightarrow> value) in
        case sp_max sp of Some m \<Rightarrow> if v > m then m else v | None \<Rightarrow> v)"

fun default_number :: "jsval \<Rightarrow> rat" where
  "default_number (Num (Fin r)) = r"
| "default_number _ = 0"

definition coerceInt :: "jsval \<Rightarrow> field_spec \<Rightarrow> jsval" where
  "coerceInt raw sp = (case js_number raw of
       Fin n \<Rightarrow> num (clamped sp (trunc n))
     | _ \<Rightarrow> if sp_nullable sp then Null else num (trunc (default_number (sp_default sp))))"

definition coerceNumber :: "jsval \<Rightarrow> field_spec \<Rightarrow> jsval" where
  "coerceNumber raw sp = (case js_number raw of
       Fin n \<Rightarrow> num (clamped sp n)
     | _ \<Rightarrow> if sp_nullable sp then Null else num (default_number (sp_default sp)))"

definition coerceBoolean :: "jsval \<Rightarrow> field_spec \<Rightarrow> jsval" where
  "coerceBoolean raw sp = (case raw of Bool b \<Rightarrow> Bool b | _ \<Rightarrow> Bool (sp_default sp = Bool True))"

definition coerceObject :: "jsval \<Rightarrow> field_spec \<Rightarrow> jsval" where
  "coerceObject raw sp = (if is_plain_object raw then raw
     else if sp_nullable sp then Null
     else if sp_default sp \<noteq> Undef then sp_default sp else Null)"

fun new_all :: "(jsval \<Rightarrow> js_error + jsval) \<Rightarrow> jsval list \<Rightarrow> js_error + jsval list" where
  "new_all mk [] = Inr []"
| "new_all mk (x # xs) = (case mk (if truthy x then x else Obj []) of Inl e \<Rightarrow> Inl e
     | Inr r \<Rightarrow> (case new_all mk xs of Inl e \<Rightarrow> Inl e | Inr rs \<Rightarrow> Inr (r # rs)))"

definition coerceArray :: "jsval \<Rightarrow> field_spec \<Rightarrow> js_error + jsval" where
  "coerceArray raw sp = (if \<not> is_array raw then Inr (Arr [])
     else case sp_record sp of None \<Rightarrow> Inr raw
       | Some mk \<Rightarrow> (case new_all mk (elements raw) of Inl e \<Rightarrow> Inl e | Inr rs \<Rightarrow> Inr (Arr rs)))"

definition coerceRecord :: "jsval \<Rightarrow> field_spec \<Rightarrow> js_error + jsval" where
  "coerceRecord raw sp = (case sp_record sp of
       None \<Rightarrow> Inl (Error (''SchemaRecord '' @ [CHR 0x27] @ ''record'' @ [CHR 0x27] @ '' field requires record: Class''))
     | Some mk \<Rightarrow> if nullish raw then (if sp_nullable sp then Inr Null else mk (Obj [])) else mk raw)"

definition coerceEnumField :: "jsval \<Rightarrow> field_spec \<Rightarrow> jsval" where
  "coerceEnumField raw sp =
     (let fallback = (case sp_default sp of Str d \<Rightarrow> if d \<in> set (sp_values sp) then Some d else None | _ \<Rightarrow> None);
          given = (case raw of Str s \<Rightarrow> if s \<in> set (sp_values sp) then Some s else None | _ \<Rightarrow> None)
      in case given of Some s \<Rightarrow> Str s
         | None \<Rightarrow> (case fallback of Some d \<Rightarrow> Str d
             | None \<Rightarrow> if sp_nullable sp then Null else Str (case sp_values sp of [] \<Rightarrow> [] | v # _ \<Rightarrow> v)))"

definition coerceField :: "jsval \<Rightarrow> field_spec \<Rightarrow> js_error + jsval" where
  "coerceField raw sp = (case sp_type sp of
       StringT \<Rightarrow> Inr (coerceString raw sp)
     | IntT \<Rightarrow> Inr (coerceInt raw sp)
     | NumberT \<Rightarrow> Inr (coerceNumber raw sp)
     | BooleanT \<Rightarrow> Inr (coerceBoolean raw sp)
     | ObjectT \<Rightarrow> Inr (coerceObject raw sp)
     | ArrayT \<Rightarrow> coerceArray raw sp
     | RecordT \<Rightarrow> coerceRecord raw sp
     | EnumT \<Rightarrow> Inr (coerceEnumField raw sp))"

section \<open>Validation\<close>

text \<open>The digits of a bound in a message.\<close>

function dec_int :: "int \<Rightarrow> string" where
  "dec_int n = (if n < 10 then [digit_char (nat n)] else dec_int (n div 10) @ [digit_char (nat (n mod 10))])"
  by pat_completeness auto
termination by (relation "measure nat") auto

declare dec_int.simps [simp del]

text \<open>A sequence of \<open>assert\<close>s: the first that fails throws.\<close>

fun asserts :: "(bool \<times> string) list \<Rightarrow> js_error option" where
  "asserts [] = None"
| "asserts ((holds, msg) # rest) = (if holds then asserts rest else Some (Error msg))"

fun num_at_least :: "rat \<Rightarrow> jsval \<Rightarrow> bool" where
  "num_at_least m (Num (Fin r)) = (r \<ge> m)"
| "num_at_least m _ = True"

fun num_at_most :: "rat \<Rightarrow> jsval \<Rightarrow> bool" where
  "num_at_most m (Num (Fin r)) = (r \<le> m)"
| "num_at_most m _ = True"

fun positive_num :: "jsval \<Rightarrow> bool" where
  "positive_num (Num (Fin r)) = (r > 0)"
| "positive_num (Num PosInf) = True"
| "positive_num _ = False"

definition enum_message :: "string \<Rightarrow> field_spec \<Rightarrow> jsval \<Rightarrow> string" where
  "enum_message name sp value = name @ '' must be one of '' @ join ''|'' (sp_values sp) @ '', got '' @ [CHR 0x27] @ js_string value @ [CHR 0x27]"

definition one_of :: "field_spec \<Rightarrow> jsval \<Rightarrow> bool" where
  "one_of sp value = (case value of Str s \<Rightarrow> s \<in> set (sp_values sp) | _ \<Rightarrow> False)"

definition required_checks :: "string \<Rightarrow> jsval \<Rightarrow> field_spec \<Rightarrow> (bool \<times> string) list" where
  "required_checks name value sp =
     (if \<not> sp_required sp then [] else case sp_type sp of
        StringT \<Rightarrow> [(is_string value \<and> value \<noteq> Str [], name @ '' required'')]
      | IntT \<Rightarrow> [(positive_num value, name @ '' > 0 required'')]
      | NumberT \<Rightarrow> [(positive_num value, name @ '' > 0 required'')]
      | ObjectT \<Rightarrow> [(is_object value, name @ '' required'')]
      | RecordT \<Rightarrow> [(value \<noteq> Null, name @ '' required'')]
      | ArrayT \<Rightarrow> [(is_array value \<and> elements value \<noteq> [], name @ '' required (non-empty array)'')]
      | EnumT \<Rightarrow> [(one_of sp value, enum_message name sp value)]
      | BooleanT \<Rightarrow> [])"

definition bound_checks :: "string \<Rightarrow> jsval \<Rightarrow> field_spec \<Rightarrow> (bool \<times> string) list" where
  "bound_checks name value sp =
     (case (sp_maxLength sp, sp_type sp, value) of
        (Some m, StringT, Str s) \<Rightarrow> [(int (length s) \<le> m, name @ '' exceeds '' @ dec_int m @ '' chars'')] | _ \<Rightarrow> [])
   @ (case (sp_maxJsonBytes sp, sp_type sp) of
        (Some m, ObjectT) \<Rightarrow> if value = Null then [] else [(int (json_length value) \<le> m, name @ '' exceeds '' @ dec_int m @ ''B limit'')]
      | _ \<Rightarrow> [])
   @ (if sp_clamp sp \<or> (sp_type sp \<noteq> IntT \<and> sp_type sp \<noteq> NumberT) then []
      else (case sp_min sp of None \<Rightarrow> [] | Some m \<Rightarrow> [(num_at_least m value, name @ '' must be >= '' @ rat_string m @ '', got '' @ js_string value)])
         @ (case sp_max sp of None \<Rightarrow> [] | Some m \<Rightarrow> [(num_at_most m value, name @ '' must be <= '' @ rat_string m @ '', got '' @ js_string value)]))
   @ (if sp_type sp = EnumT \<and> \<not> sp_required sp \<and> is_string value \<and> value \<noteq> Str []
      then [(one_of sp value, enum_message name sp value)] else [])"

definition validateField :: "string \<Rightarrow> jsval \<Rightarrow> field_spec \<Rightarrow> js_error option" where
  "validateField name value sp = (case asserts (required_checks name value sp @ bound_checks name value sp) of
       Some e \<Rightarrow> Some e | None \<Rightarrow> sp_validate sp name value)"

section \<open>Classes and their constructor\<close>

type_synonym fields = "(string \<times> jsval) list"

record schema_class =
  sc_kind :: "string option"
  sc_schema :: schema
  sc_check :: "jsval \<Rightarrow> js_error option"

definition plain_class :: "schema \<Rightarrow> schema_class" where
  "plain_class ss = \<lparr> sc_kind = None, sc_schema = ss, sc_check = (\<lambda>_. None) \<rparr>"

definition wire_class :: "string \<Rightarrow> schema \<Rightarrow> (jsval \<Rightarrow> js_error option) \<Rightarrow> schema_class" where
  "wire_class kind ss check = \<lparr> sc_kind = Some kind, sc_schema = ss, sc_check = check \<rparr>"

fun coerceFields :: "schema \<Rightarrow> jsval \<Rightarrow> js_error + fields" where
  "coerceFields [] input = Inr []"
| "coerceFields ((name, sp) # ss) input = (case coerceField (getp input name) sp of Inl e \<Rightarrow> Inl e
     | Inr v \<Rightarrow> (case coerceFields ss input of Inl e \<Rightarrow> Inl e | Inr fs \<Rightarrow> Inr ((name, v) # fs)))"

fun validateFields :: "schema \<Rightarrow> jsval \<Rightarrow> js_error option" where
  "validateFields [] r = None"
| "validateFields ((name, sp) # ss) r = (case validateField name (getp r name) sp of Some e \<Rightarrow> Some e
     | None \<Rightarrow> validateFields ss r)"

definition kind_field :: "schema_class \<Rightarrow> fields" where
  "kind_field C = (case sc_kind C of None \<Rightarrow> [] | Some k \<Rightarrow> [(''kind'', Str k)])"

definition new_record :: "schema_class \<Rightarrow> jsval \<Rightarrow> js_error + jsval" where
  "new_record C raw =
     (let input = (if is_object raw then raw else Obj []) in
      case coerceFields (sc_schema C) input of Inl e \<Rightarrow> Inl e
      | Inr fs \<Rightarrow> let r = Obj (spread (kind_field C) fs) in
          case validateFields (sc_schema C) r of Some e \<Rightarrow> Inl e
          | None \<Rightarrow> (case sc_check C r of Some e \<Rightarrow> Inl e | None \<Rightarrow> Inr r))"

section \<open>What every constructed record satisfies\<close>

text \<open>
  \<open>wf_spec\<close>: the defaults of a specification are themselves values of the declared form.
  \<open>typed\<close>: the declared form and bounds of a field of a constructed record.
\<close>

definition in_range :: "field_spec \<Rightarrow> rat \<Rightarrow> bool" where
  "in_range sp r \<longleftrightarrow> (case sp_min sp of None \<Rightarrow> True | Some m \<Rightarrow> m \<le> r) \<and> (case sp_max sp of None \<Rightarrow> True | Some m \<Rightarrow> r \<le> m)"

definition whole_number :: "rat \<Rightarrow> bool" where
  "whole_number r \<longleftrightarrow> of_int \<lfloor>r\<rfloor> = r"

definition range_ok :: "field_spec \<Rightarrow> bool" where
  "range_ok sp \<longleftrightarrow> (case (sp_min sp, sp_max sp) of (Some a, Some b) \<Rightarrow> a \<le> b | _ \<Rightarrow> True)"

definition wf_spec :: "field_spec \<Rightarrow> bool" where
  "wf_spec sp \<longleftrightarrow> (case sp_type sp of
       StringT \<Rightarrow> (case sp_default sp of
           Str d \<Rightarrow> (sp_trim sp \<longrightarrow> trimmed d) \<and> (sp_lowercase sp \<longrightarrow> toLowerCase d = d) | _ \<Rightarrow> True)
     | IntT \<Rightarrow> range_ok sp \<and> (case sp_min sp of None \<Rightarrow> True | Some m \<Rightarrow> whole_number m)
         \<and> (case sp_max sp of None \<Rightarrow> True | Some m \<Rightarrow> whole_number m)
         \<and> (sp_clamp sp \<longrightarrow> in_range sp (trunc (default_number (sp_default sp))))
     | NumberT \<Rightarrow> range_ok sp \<and> (sp_clamp sp \<longrightarrow> in_range sp (default_number (sp_default sp)))
     | ObjectT \<Rightarrow> sp_default sp = Undef \<or> sp_default sp = Null \<or> is_plain_object (sp_default sp)
     | EnumT \<Rightarrow> sp_values sp \<noteq> []
     | RecordT \<Rightarrow> \<not> Option.is_none (sp_record sp)
     | _ \<Rightarrow> True)"

definition wf_schema :: "schema \<Rightarrow> bool" where
  "wf_schema ss \<longleftrightarrow> distinct (map fst ss) \<and> list_all (\<lambda>(name, sp). wf_spec sp) ss"

definition typed :: "field_spec \<Rightarrow> jsval \<Rightarrow> bool" where
  "typed sp v \<longleftrightarrow> (case sp_type sp of
       StringT \<Rightarrow> (case v of Str s \<Rightarrow> (sp_trim sp \<longrightarrow> trimmed s) \<and> (sp_lowercase sp \<longrightarrow> toLowerCase s = s)
             \<and> (sp_required sp \<longrightarrow> s \<noteq> []) \<and> (case sp_maxLength sp of None \<Rightarrow> True | Some m \<Rightarrow> int (length s) \<le> m)
           | Null \<Rightarrow> sp_nullable sp \<and> \<not> sp_required sp | _ \<Rightarrow> False)
     | IntT \<Rightarrow> (case v of Num (Fin r) \<Rightarrow> whole_number r \<and> (sp_required sp \<longrightarrow> r > 0) \<and> in_range sp r
           | Null \<Rightarrow> sp_nullable sp \<and> \<not> sp_required sp | _ \<Rightarrow> False)
     | NumberT \<Rightarrow> (case v of Num (Fin r) \<Rightarrow> (sp_required sp \<longrightarrow> r > 0) \<and> in_range sp r
           | Null \<Rightarrow> sp_nullable sp \<and> \<not> sp_required sp | _ \<Rightarrow> False)
     | BooleanT \<Rightarrow> (case v of Bool b \<Rightarrow> True | _ \<Rightarrow> False)
     | ObjectT \<Rightarrow> (is_plain_object v \<and> (case sp_maxJsonBytes sp of None \<Rightarrow> True | Some m \<Rightarrow> int (json_length v) \<le> m))
           \<or> v = Null \<and> \<not> sp_required sp
     | ArrayT \<Rightarrow> is_array v \<and> (sp_required sp \<longrightarrow> elements v \<noteq> [])
     | RecordT \<Rightarrow> sp_required sp \<longrightarrow> v \<noteq> Null
     | EnumT \<Rightarrow> (case v of Str s \<Rightarrow> s \<in> set (sp_values sp) | Null \<Rightarrow> sp_nullable sp \<and> \<not> sp_required sp | _ \<Rightarrow> False))"

text \<open>
  The contract of a class that fields may nest: what its constructor builds is an object, and is read
  back as it is.
\<close>

locale nested_record =
  fixes mk :: "jsval \<Rightarrow> js_error + jsval"
  assumes builds_object: "mk raw = Inr x \<Longrightarrow> is_object x"
    and reads_itself: "mk raw = Inr x \<Longrightarrow> mk x = Inr x"
begin

lemma built_truthy: "mk raw = Inr x \<Longrightarrow> truthy x \<and> \<not> nullish x"
  by (drule builds_object) (cases x; simp)

lemma new_all_again: "new_all mk xs = Inr rs \<Longrightarrow> new_all mk rs = Inr rs"
proof (induction xs arbitrary: rs)
  case (Cons x xs)
  from Cons.prems obtain r rest where r: "mk (if truthy x then x else Obj []) = Inr r" "new_all mk xs = Inr rest" "rs = r # rest"
    by (auto split: sum.splits)
  then show ?case using Cons.IH [OF r(2)] built_truthy [OF r(1)] reads_itself [OF r(1)] by simp
qed simp

end

subsection \<open>Strings and numbers read twice\<close>

lemma is_ws_code: "is_ws c \<longleftrightarrow> (of_char c :: nat) \<in> {9, 10, 11, 12, 13, 32, 160}"
proof -
  have "\<And>d. c = d \<longleftrightarrow> (of_char c :: nat) = of_char d" by simp
  then show ?thesis unfolding is_ws_def by (simp only: insert_iff empty_iff) simp
qed

lemma lower_char_code: "(of_char (lower_char c) :: nat) = (let n = of_char c in
    if 65 \<le> n \<and> n \<le> 90 \<or> 192 \<le> n \<and> n \<le> 222 \<and> n \<noteq> 215 then n + 32 else n)"
  by (auto simp: lower_char_def Let_def of_char_of)

lemma is_ws_lower [simp]: "is_ws (lower_char c) = is_ws c"
  unfolding is_ws_code lower_char_code Let_def by auto

lemma lower_char_idem [simp]: "lower_char (lower_char c) = lower_char c"
proof -
  have "(of_char (lower_char (lower_char c)) :: nat) = of_char (lower_char c)"
    unfolding lower_char_code [of "lower_char c"] unfolding lower_char_code Let_def by auto
  then show ?thesis by simp
qed

lemma toLowerCase_idem [simp]: "toLowerCase (toLowerCase s) = toLowerCase s"
  by (simp add: toLowerCase_def)

lemma toLowerCase_Nil [simp]: "toLowerCase s = [] \<longleftrightarrow> s = []" "toLowerCase [] = []"
  by (simp_all add: toLowerCase_def)

lemma trimmed_lower: "trimmed s \<Longrightarrow> trimmed (toLowerCase s)"
  by (cases "s = []") (simp_all add: trimmed_iff toLowerCase_def hd_map last_map)

lemma trimmed_lower_if [simp]: "trimmed s \<Longrightarrow> trimmed (lower_if sp s)"
  by (simp add: lower_if_def trimmed_lower)

lemma lower_if_idem [simp]: "lower_if sp (lower_if sp s) = lower_if sp s"
  by (simp add: lower_if_def)

lemma lower_if_Nil [simp]: "lower_if sp s = [] \<longleftrightarrow> s = []"
  by (simp add: lower_if_def)

lemma whole_trunc [simp]: "whole_number (trunc r)"
  by (simp add: whole_number_def trunc_def)

lemma whole_number_trunc: "whole_number r \<Longrightarrow> trunc r = r"
  unfolding whole_number_def trunc_def
  by (metis floor_minus ceiling_of_int minus_minus of_int_minus floor_of_int)

lemma clamped_in_range: "sp_clamp sp \<Longrightarrow> range_ok sp \<Longrightarrow> in_range sp (clamped sp r)"
  by (auto simp: clamped_def in_range_def range_ok_def Let_def split: option.splits)

lemma clamped_fix: "in_range sp r \<Longrightarrow> clamped sp r = r"
  by (auto simp: clamped_def in_range_def Let_def split: option.splits)

lemma clamped_off [simp]: "\<not> sp_clamp sp \<Longrightarrow> clamped sp r = r"
  by (simp add: clamped_def)

lemma clamped_whole: "whole_number r \<Longrightarrow> (case sp_min sp of None \<Rightarrow> True | Some m \<Rightarrow> whole_number m)
    \<Longrightarrow> (case sp_max sp of None \<Rightarrow> True | Some m \<Rightarrow> whole_number m) \<Longrightarrow> whole_number (clamped sp r)"
  by (auto simp: clamped_def Let_def split: option.splits)

subsection \<open>The form of a coerced field\<close>

text \<open>
  \<open>shaped\<close> is the part of \<open>typed\<close> that coercion alone establishes; validation adds the rest.
\<close>

definition shaped :: "field_spec \<Rightarrow> jsval \<Rightarrow> bool" where
  "shaped sp v \<longleftrightarrow> (case sp_type sp of
       StringT \<Rightarrow> (case v of Str s \<Rightarrow> (sp_trim sp \<longrightarrow> trimmed s) \<and> (sp_lowercase sp \<longrightarrow> toLowerCase s = s)
           | Null \<Rightarrow> sp_nullable sp | _ \<Rightarrow> False)
     | IntT \<Rightarrow> (case v of Num (Fin r) \<Rightarrow> whole_number r \<and> (sp_clamp sp \<longrightarrow> in_range sp r) | Null \<Rightarrow> sp_nullable sp | _ \<Rightarrow> False)
     | NumberT \<Rightarrow> (case v of Num (Fin r) \<Rightarrow> (sp_clamp sp \<longrightarrow> in_range sp r) | Null \<Rightarrow> sp_nullable sp | _ \<Rightarrow> False)
     | BooleanT \<Rightarrow> (case v of Bool b \<Rightarrow> True | _ \<Rightarrow> False)
     | ObjectT \<Rightarrow> is_plain_object v \<or> v = Null
     | ArrayT \<Rightarrow> is_array v
     | RecordT \<Rightarrow> True
     | EnumT \<Rightarrow> (case v of Str s \<Rightarrow> s \<in> set (sp_values sp) | Null \<Rightarrow> sp_nullable sp | _ \<Rightarrow> False))"

lemma shaped_string: "sp_type sp = StringT \<Longrightarrow> wf_spec sp \<Longrightarrow> shaped sp (coerceString raw sp)"
  by (auto simp: shaped_def wf_spec_def coerceString_def string_default_def Let_def lower_if_def trimmed_lower
      split: jsval.splits)

lemma shaped_int: "sp_type sp = IntT \<Longrightarrow> wf_spec sp \<Longrightarrow> shaped sp (coerceInt raw sp)"
  by (auto simp: shaped_def wf_spec_def coerceInt_def clamped_in_range intro: clamped_whole split: jsnum.splits)

lemma shaped_number: "sp_type sp = NumberT \<Longrightarrow> wf_spec sp \<Longrightarrow> shaped sp (coerceNumber raw sp)"
  by (auto simp: shaped_def wf_spec_def coerceNumber_def clamped_in_range split: jsnum.splits)

lemma shaped_enum: "sp_type sp = EnumT \<Longrightarrow> wf_spec sp \<Longrightarrow> shaped sp (coerceEnumField raw sp)"
  by (auto simp: shaped_def wf_spec_def coerceEnumField_def Let_def split: jsval.splits list.splits)

lemma coerceField_shaped: "wf_spec sp \<Longrightarrow> coerceField raw sp = Inr v \<Longrightarrow> shaped sp v"
proof (cases "sp_type sp")
  case ObjectT
  then show "wf_spec sp \<Longrightarrow> coerceField raw sp = Inr v \<Longrightarrow> shaped sp v"
    by (auto simp: coerceField_def coerceObject_def shaped_def wf_spec_def split: if_splits)
next
  case ArrayT
  then show "wf_spec sp \<Longrightarrow> coerceField raw sp = Inr v \<Longrightarrow> shaped sp v"
    by (auto simp: coerceField_def coerceArray_def shaped_def split: if_splits option.splits sum.splits)
next
  case BooleanT
  then show "wf_spec sp \<Longrightarrow> coerceField raw sp = Inr v \<Longrightarrow> shaped sp v"
    by (auto simp: coerceField_def coerceBoolean_def shaped_def split: jsval.splits)
next
  case RecordT
  then show "wf_spec sp \<Longrightarrow> coerceField raw sp = Inr v \<Longrightarrow> shaped sp v" by (simp add: shaped_def)
qed (auto simp: coerceField_def shaped_string shaped_int shaped_number shaped_enum)

lemma asserts_append: "asserts (a @ b) = None \<longleftrightarrow> asserts a = None \<and> asserts b = None"
  by (induction a rule: asserts.induct) auto

lemma validated_typed:
  assumes "shaped sp v" and "validateField name v sp = None"
  shows "typed sp v"
proof -
  have req: "asserts (required_checks name v sp) = None" and bnd: "asserts (bound_checks name v sp) = None"
    using assms(2) by (auto simp: validateField_def asserts_append split: option.splits)
  show ?thesis
  proof (cases "sp_type sp")
    case StringT
    then show ?thesis using assms(1) req bnd
      by (auto simp: shaped_def typed_def required_checks_def bound_checks_def split: jsval.splits option.splits if_splits)
  next
    case IntT
    then show ?thesis using assms(1) req bnd
      by (auto simp: shaped_def typed_def in_range_def required_checks_def bound_checks_def asserts_append
          split: jsval.splits jsnum.splits option.splits if_splits)
  next
    case NumberT
    then show ?thesis using assms(1) req bnd
      by (auto simp: shaped_def typed_def in_range_def required_checks_def bound_checks_def asserts_append
          split: jsval.splits jsnum.splits option.splits if_splits)
  next
    case ObjectT
    then show ?thesis using assms(1) req bnd
      by (auto simp: shaped_def typed_def required_checks_def bound_checks_def is_plain_object_def split: option.splits if_splits)
  next
    case ArrayT
    then show ?thesis using assms(1) req by (auto simp: shaped_def typed_def required_checks_def split: if_splits)
  next
    case EnumT
    then show ?thesis using assms(1) req
      by (auto simp: shaped_def typed_def required_checks_def one_of_def split: jsval.splits if_splits)
  next
    case RecordT
    then show ?thesis using req by (auto simp: typed_def required_checks_def split: if_splits)
  next
    case BooleanT
    then show ?thesis using assms(1) by (simp add: shaped_def typed_def)
  qed
qed

subsection \<open>Reading a field again\<close>

definition keeps_null :: "field_spec \<Rightarrow> jsval \<Rightarrow> bool" where
  "keeps_null sp v \<longleftrightarrow> (sp_type sp = IntT \<or> sp_type sp = NumberT) \<longrightarrow> v \<noteq> Null"

definition nests_records :: "field_spec \<Rightarrow> bool" where
  "nests_records sp \<longleftrightarrow> (case sp_record sp of None \<Rightarrow> True | Some mk \<Rightarrow> nested_record mk)"

lemma coerceString_again: "shaped sp v \<Longrightarrow> sp_type sp = StringT \<Longrightarrow> coerceString raw sp = v \<Longrightarrow> coerceString v sp = v"
  by (auto simp: shaped_def coerceString_def string_default_def Let_def trimmed_eq lower_if_def split: jsval.splits if_splits)

lemma coerceEnum_again: "coerceEnumField (coerceEnumField raw sp) sp = coerceEnumField raw sp"
  by (auto simp: coerceEnumField_def Let_def split: jsval.splits list.splits)

lemma coerceObject_again: "coerceObject (coerceObject raw sp) sp = coerceObject raw sp"
  by (simp add: coerceObject_def)

lemma coerceInt_again: "shaped sp v \<Longrightarrow> sp_type sp = IntT \<Longrightarrow> v \<noteq> Null \<Longrightarrow> coerceInt v sp = v"
  by (cases "sp_clamp sp") (auto simp: shaped_def coerceInt_def whole_number_trunc clamped_fix split: jsval.splits jsnum.splits)

lemma coerceNumber_again: "shaped sp v \<Longrightarrow> sp_type sp = NumberT \<Longrightarrow> v \<noteq> Null \<Longrightarrow> coerceNumber v sp = v"
  by (cases "sp_clamp sp") (auto simp: shaped_def coerceNumber_def clamped_fix split: jsval.splits jsnum.splits)

lemma coerceBoolean_again: "coerceBoolean (coerceBoolean raw sp) sp = coerceBoolean raw sp"
  by (cases raw) (simp_all add: coerceBoolean_def)

lemma coerceArray_again:
  assumes "nests_records sp" "coerceArray raw sp = Inr v" shows "coerceArray v sp = Inr v"
proof (cases "sp_record sp")
  case None
  then show ?thesis using assms(2) by (cases raw) (simp_all add: coerceArray_def, auto)
next
  case (Some mk)
  then have mk: "nested_record mk" using assms(1) by (simp add: nests_records_def)
  show ?thesis
  proof (cases "is_array raw")
    case True
    then obtain rs where "new_all mk (elements raw) = Inr rs" "v = Arr rs"
      using assms(2) Some by (auto simp: coerceArray_def split: sum.splits)
    then show ?thesis using Some nested_record.new_all_again [OF mk] by (simp add: coerceArray_def)
  next
    case False
    then show ?thesis using assms(2) Some by (auto simp: coerceArray_def)
  qed
qed

lemma coerceRecord_again:
  assumes "nests_records sp" "coerceRecord raw sp = Inr v" shows "coerceRecord v sp = Inr v"
proof (cases "sp_record sp")
  case (Some mk)
  then have mk: "nested_record mk" using assms(1) by (simp add: nests_records_def)
  show ?thesis
  proof (cases "v = Null \<and> sp_nullable sp")
    case False
    then obtain x where x: "mk x = Inr v" using assms(2) Some by (auto simp: coerceRecord_def split: if_splits)
    show ?thesis using Some nested_record.built_truthy [OF mk x] nested_record.reads_itself [OF mk x]
      by (simp add: coerceRecord_def)
  qed (use Some in \<open>simp add: coerceRecord_def\<close>)
qed (use assms(2) in \<open>simp add: coerceRecord_def\<close>)

lemma coerceField_again:
  assumes "wf_spec sp" "nests_records sp" "keeps_null sp v" "coerceField raw sp = Inr v"
  shows "coerceField v sp = Inr v"
  using assms coerceField_shaped [OF assms(1,4)]
  by (cases "sp_type sp")
    (auto simp: coerceField_def keeps_null_def coerceInt_again coerceNumber_again coerceEnum_again coerceObject_again
      coerceBoolean_again intro: coerceString_again coerceArray_again coerceRecord_again)

subsection \<open>Whole records\<close>

lemma coerceFields_names: "coerceFields ss input = Inr fs \<Longrightarrow> map fst fs = map fst ss"
  by (induction ss arbitrary: fs) (auto split: sum.splits)

lemma coerceFields_field: "coerceFields ss input = Inr fs \<Longrightarrow> (name, sp) \<in> set ss \<Longrightarrow>
    \<exists>v. (name, v) \<in> set fs \<and> coerceField (getp input name) sp = Inr v"
  by (induction ss arbitrary: fs) (auto split: sum.splits)

lemma coerceFields_again:
  "coerceFields ss input = Inr fs \<Longrightarrow> \<forall>(name, v) \<in> set fs. getp r name = v \<Longrightarrow>
   \<forall>(name, sp) \<in> set ss. wf_spec sp \<and> nests_records sp \<and> keeps_null sp (getp r name) \<Longrightarrow> coerceFields ss r = Inr fs"
proof (induction ss arbitrary: fs)
  case (Cons a ss)
  obtain name sp where a: "a = (name, sp)" by force
  from Cons.prems(1) obtain v rest where v: "coerceField (getp input name) sp = Inr v" "coerceFields ss input = Inr rest"
    "fs = (name, v) # rest" by (auto simp: a split: sum.splits)
  have "getp r name = v" using Cons.prems(2) v(3) by simp
  then have "coerceField (getp r name) sp = Inr v" using coerceField_again [OF _ _ _ v(1)] Cons.prems(3) a by simp
  moreover have "coerceFields ss r = Inr rest" using Cons.IH [OF v(2)] Cons.prems(2,3) v(3) by simp
  ultimately show ?case by (simp add: a v(3))
qed simp

lemma validateFields_field: "validateFields ss r = None \<Longrightarrow> (name, sp) \<in> set ss \<Longrightarrow> validateField name (getp r name) sp = None"
  by (induction ss) (auto split: option.splits)

lemma new_recordE:
  assumes "new_record C raw = Inr r"
  obtains fs where "coerceFields (sc_schema C) (if is_object raw then raw else Obj []) = Inr fs"
    "r = Obj (spread (kind_field C) fs)" "validateFields (sc_schema C) r = None" "sc_check C r = None"
  using assms by (auto simp: new_record_def Let_def split: sum.splits option.splits)

lemma record_field:
  assumes "wf_schema (sc_schema C)" "coerceFields (sc_schema C) input = Inr fs" "(name, v) \<in> set fs"
  shows "getp (Obj (spread (kind_field C) fs)) name = v"
proof -
  have "distinct (map fst fs)" using assms(1) coerceFields_names [OF assms(2)] by (simp add: wf_schema_def)
  then show ?thesis using getp_spread_agree assms(3) by fastforce
qed

lemma new_record_field:
  assumes "wf_schema (sc_schema C)" "new_record C raw = Inr r" "is_object raw" "(name, sp) \<in> set (sc_schema C)"
  shows "coerceField (getp raw name) sp = Inr (getp r name)"
proof -
  from assms(2) obtain fs where fs: "coerceFields (sc_schema C) (if is_object raw then raw else Obj []) = Inr fs"
    "r = Obj (spread (kind_field C) fs)" by (rule new_recordE)
  obtain v where v: "(name, v) \<in> set fs" "coerceField (getp raw name) sp = Inr v"
    using coerceFields_field [OF fs(1) assms(4)] assms(3) by auto
  then show ?thesis using record_field [OF assms(1) fs(1) v(1)] fs(2) by simp
qed

lemma new_record_typed:
  assumes "wf_schema (sc_schema C)" "new_record C raw = Inr r" "(name, sp) \<in> set (sc_schema C)"
  shows "typed sp (getp r name)"
proof -
  from assms(2) obtain fs where fs: "coerceFields (sc_schema C) (if is_object raw then raw else Obj []) = Inr fs"
    "r = Obj (spread (kind_field C) fs)" "validateFields (sc_schema C) r = None" by (rule new_recordE)
  have w: "wf_spec sp" using assms(1,3) by (auto simp: wf_schema_def list_all_iff)
  obtain v where v: "(name, v) \<in> set fs" "coerceField (getp (if is_object raw then raw else Obj []) name) sp = Inr v"
    using coerceFields_field [OF fs(1) assms(3)] by blast
  have g: "getp r name = v" using record_field [OF assms(1) fs(1) v(1)] fs(2) by simp
  show ?thesis
    using validated_typed [OF coerceField_shaped [OF w v(2)]] validateFields_field [OF fs(3) assms(3)] g by simp
qed

lemma new_record_again:
  assumes "wf_schema (sc_schema C)" "new_record C raw = Inr r"
    and "\<forall>(name, sp) \<in> set (sc_schema C). nests_records sp \<and> keeps_null sp (getp r name)"
  shows "new_record C r = Inr r"
proof -
  from assms(2) obtain fs where fs: "coerceFields (sc_schema C) (if is_object raw then raw else Obj []) = Inr fs"
    "r = Obj (spread (kind_field C) fs)" "validateFields (sc_schema C) r = None" "sc_check C r = None" by (rule new_recordE)
  have "coerceFields (sc_schema C) r = Inr fs"
    by (rule coerceFields_again [OF fs(1)])
      (use record_field [OF assms(1) fs(1)] fs(2) assms(1,3) in \<open>auto simp: wf_schema_def list_all_iff\<close>)
  then show ?thesis using fs(2,3,4) by (simp add: new_record_def)
qed

lemma new_record_object: "new_record C raw = Inr r \<Longrightarrow> is_object r"
  by (auto elim!: new_recordE)

end
