(* ===== verification/Records_More.thy ===== *)
theory Records_More
  imports Records_Group Schema
begin

text \<open>
  The records \<open>MeshStatus\<close>, \<open>ChatInvite\<close> and \<open>StoredServerIdentity\<close> (\<open>src/records/domain\<close>): constructors,
  serialisation, well-formedness and the way back from the own row.
\<close>

section \<open>MeshStatus\<close>

record MeshStatus =
  ms_enabled :: bool
  ms_mode :: string
  ms_participateInRouting :: bool
  ms_peerCount :: rat
  ms_lastDiscoveryAtMs :: "rat option"
  ms_seedReachable :: jsval
  ms_routeStats :: jsval
  ms_policy :: jsval
  ms_peers :: jsval

definition object_or_empty :: "jsval \<Rightarrow> jsval" where
  "object_or_empty v = (if is_object v then v else Obj [])"

definition mkMeshStatus :: "jsval \<Rightarrow> js_error + MeshStatus" where
  "mkMeshStatus raw =
     (if raw = Null then Inl TypeError
      else Inr \<lparr> ms_enabled = (getp raw ''enabled'' = Bool True), ms_mode = nonEmptyString (getp raw ''mode''),
        ms_participateInRouting = (getp raw ''participateInRouting'' = Bool True),
        ms_peerCount = max 0 (trunc (toFiniteNumber (getp raw ''peerCount'') 0)),
        ms_lastDiscoveryAtMs = optNumber (getp raw ''lastDiscoveryAtMs'') 0,
        ms_seedReachable = object_or_empty (getp raw ''seedReachable''),
        ms_routeStats = object_or_empty (getp raw ''routeStats''),
        ms_policy = object_or_empty (getp raw ''policy''),
        ms_peers = (if is_array (getp raw ''peers'') then getp raw ''peers'' else Arr []) \<rparr>)"

definition mesh_fields :: "MeshStatus \<Rightarrow> (string \<times> jsval) list" where
  "mesh_fields m = [(''enabled'', Bool (ms_enabled m)), (''mode'', Str (ms_mode m)),
     (''participateInRouting'', Bool (ms_participateInRouting m)), (''peerCount'', num (ms_peerCount m)),
     (''lastDiscoveryAtMs'', opt_num (ms_lastDiscoveryAtMs m)), (''seedReachable'', ms_seedReachable m),
     (''routeStats'', ms_routeStats m), (''policy'', ms_policy m), (''peers'', ms_peers m)]"

definition mesh_json :: "MeshStatus \<Rightarrow> jsval" where
  "mesh_json m = Obj (mesh_fields m)"

definition wf_mesh :: "MeshStatus \<Rightarrow> bool" where
  "wf_mesh m \<longleftrightarrow> trimmed (ms_mode m) \<and> 0 \<le> ms_peerCount m \<and> whole_number (ms_peerCount m) \<and> is_object (ms_seedReachable m)
     \<and> is_object (ms_routeStats m) \<and> is_object (ms_policy m) \<and> is_array (ms_peers m)"

lemma is_object_or_empty [simp]: "is_object (object_or_empty v)" "is_object v \<Longrightarrow> object_or_empty v = v"
  by (simp_all add: object_or_empty_def)

lemma mkMeshStatus_wf: "mkMeshStatus raw = Inr m \<Longrightarrow> wf_mesh m"
  by (auto simp: mkMeshStatus_def wf_mesh_def max_def split: if_splits)
    (simp_all add: whole_number_def)

lemma mkMeshStatus_agree:
  assumes "wf_mesh m" and "raw \<noteq> Null" and "\<forall>(k, v) \<in> set (mesh_fields m). getp raw k = v"
  shows "mkMeshStatus raw = Inr m"
  using assms by (simp add: mkMeshStatus_def wf_mesh_def mesh_fields_def trimmed_eq whole_number_trunc max_def)

lemma mkMeshStatus_json: "wf_mesh m \<Longrightarrow> mkMeshStatus (mesh_json m) = Inr m"
  by (rule mkMeshStatus_agree) (simp_all add: mesh_json_def mesh_fields_def getp_def)

section \<open>ChatInvite\<close>

definition INVITE_KINDS :: "string list" where
  "INVITE_KINDS = [''direct'', ''group'']"

definition INVITE_STATUSES :: "string list" where
  "INVITE_STATUSES = [''active'', ''consumed'', ''revoked'', ''expired'']"

definition coerceInviteKind :: "jsval \<Rightarrow> js_error + string" where
  "coerceInviteKind v = coerceEnum INVITE_KINDS ''ChatInvite.kind'' v ''direct''"

definition coerceInviteStatus :: "jsval \<Rightarrow> js_error + string" where
  "coerceInviteStatus v = coerceEnum INVITE_STATUSES ''ChatInvite.status'' v ''active''"

record ChatInvite =
  ci_inviteId :: string
  ci_inviteCode :: string
  ci_kind :: string
  ci_groupId :: string
  ci_expiresAtMs :: "rat option"
  ci_maxUses :: rat
  ci_uses :: rat
  ci_status :: string

definition mkChatInvite :: "jsval \<Rightarrow> js_error + ChatInvite" where
  "mkChatInvite raw =
     (if raw = Null then Inl TypeError
      else case coerceInviteKind (getp raw ''kind'') of Inl e \<Rightarrow> Inl e
      | Inr kind \<Rightarrow> (case coerceInviteStatus (getp raw ''status'') of Inl e \<Rightarrow> Inl e
        | Inr status \<Rightarrow>
          let i = \<lparr> ci_inviteId = nonEmptyString (getp raw ''inviteId''), ci_inviteCode = nonEmptyString (getp raw ''inviteCode''),
                ci_kind = kind, ci_groupId = nonEmptyString (getp raw ''groupId''),
                ci_expiresAtMs = optNumber (getp raw ''expiresAtMs'') 0,
                ci_maxUses = max 1 (trunc (toFiniteNumber (getp raw ''maxUses'') 1)),
                ci_uses = max 0 (trunc (toFiniteNumber (getp raw ''uses'') 0)), ci_status = status \<rparr>
          in if ci_inviteCode i = [] \<and> ci_inviteId i = []
             then Inl (Error ''ChatInvite requires at least one of inviteCode or inviteId'') else Inr i))"

definition chat_invite_fields :: "ChatInvite \<Rightarrow> (string \<times> jsval) list" where
  "chat_invite_fields i = [(''inviteId'', Str (ci_inviteId i)), (''inviteCode'', Str (ci_inviteCode i)), (''kind'', Str (ci_kind i)),
     (''groupId'', Str (ci_groupId i)), (''expiresAtMs'', opt_num (ci_expiresAtMs i)), (''maxUses'', num (ci_maxUses i)),
     (''uses'', num (ci_uses i)), (''status'', Str (ci_status i))]"

definition chat_invite_json :: "ChatInvite \<Rightarrow> jsval" where
  "chat_invite_json i = Obj (chat_invite_fields i)"

definition wf_chat_invite :: "ChatInvite \<Rightarrow> bool" where
  "wf_chat_invite i \<longleftrightarrow> trimmed (ci_inviteId i) \<and> trimmed (ci_inviteCode i) \<and> (ci_inviteCode i \<noteq> [] \<or> ci_inviteId i \<noteq> [])
     \<and> ci_kind i \<in> set INVITE_KINDS \<and> ci_status i \<in> set INVITE_STATUSES \<and> trimmed (ci_groupId i)
     \<and> 1 \<le> ci_maxUses i \<and> whole_number (ci_maxUses i) \<and> 0 \<le> ci_uses i \<and> whole_number (ci_uses i)"

lemma lower_invite_enum:
  "x \<in> set INVITE_KINDS \<union> set INVITE_STATUSES \<Longrightarrow> trim (toLowerCase x) = x \<and> x \<noteq> []"
proof -
  have "list_all (\<lambda>x. trim (toLowerCase x) = x \<and> x \<noteq> []) (INVITE_KINDS @ INVITE_STATUSES)" by code_simp
  then show "x \<in> set INVITE_KINDS \<union> set INVITE_STATUSES \<Longrightarrow> trim (toLowerCase x) = x \<and> x \<noteq> []"
    by (auto simp: list_all_iff)
qed

lemma coerceInvite_fix:
  "k \<in> set INVITE_KINDS \<Longrightarrow> coerceInviteKind (Str k) = Inr k" "st \<in> set INVITE_STATUSES \<Longrightarrow> coerceInviteStatus (Str st) = Inr st"
  unfolding coerceInviteKind_def coerceInviteStatus_def
  by (rule coerceEnum_fix; simp add: lower_invite_enum)+

lemma coerceInvite_Inr:
  "coerceInviteKind v = Inr k \<Longrightarrow> k \<in> set INVITE_KINDS" "coerceInviteStatus v = Inr st \<Longrightarrow> st \<in> set INVITE_STATUSES"
  by (auto simp: coerceInviteKind_def coerceInviteStatus_def dest!: coerceEnum_Inr simp add: INVITE_KINDS_def INVITE_STATUSES_def)

lemma whole_max: "whole_number a \<Longrightarrow> whole_number b \<Longrightarrow> whole_number (max a b)"
  by (simp add: max_def)

lemma whole_0_1 [simp]: "whole_number 0" "whole_number 1"
  by (simp_all add: whole_number_def)

lemma mkChatInvite_wf: "mkChatInvite raw = Inr i \<Longrightarrow> wf_chat_invite i"
  by (auto simp: mkChatInvite_def wf_chat_invite_def Let_def whole_max dest: coerceInvite_Inr split: if_splits sum.splits)

lemma mkChatInvite_agree:
  assumes "wf_chat_invite i" and "raw \<noteq> Null" and "\<forall>(k, v) \<in> set (chat_invite_fields i). getp raw k = v"
  shows "mkChatInvite raw = Inr i"
  using assms by (simp add: mkChatInvite_def wf_chat_invite_def chat_invite_fields_def trimmed_eq whole_number_trunc max_def coerceInvite_fix)

lemma mkChatInvite_json: "wf_chat_invite i \<Longrightarrow> mkChatInvite (chat_invite_json i) = Inr i"
  by (rule mkChatInvite_agree) (simp_all add: chat_invite_json_def chat_invite_fields_def getp_def)

section \<open>StoredServerIdentity\<close>

record StoredServerIdentity =
  si_accountId :: string
  si_deviceId :: string
  si_publicKeyB64 :: string
  si_privateKeyB64 :: string
  si_hasAdminRoot :: bool

definition mkStoredServerIdentity :: "jsval \<Rightarrow> js_error + StoredServerIdentity" where
  "mkStoredServerIdentity raw =
     (if raw = Null then Inl TypeError
      else let i = \<lparr> si_accountId = nonEmptyString (getp raw ''accountId''), si_deviceId = nonEmptyString (getp raw ''deviceId''),
             si_publicKeyB64 = nonEmptyString (getp raw ''publicKeyB64''), si_privateKeyB64 = nonEmptyString (getp raw ''privateKeyB64''),
             si_hasAdminRoot = (getp raw ''hasAdminRoot'' \<noteq> Bool False) \<rparr>
        in case asserts [
            (si_accountId i \<noteq> [], ''StoredServerIdentity requires accountId''),
            (si_deviceId i \<noteq> [], ''StoredServerIdentity requires deviceId''),
            (si_publicKeyB64 i \<noteq> [], ''StoredServerIdentity requires publicKeyB64''),
            (si_hasAdminRoot i \<or> si_privateKeyB64 i = [], ''StoredServerIdentity delegated row must not carry privateKeyB64''),
            (\<not> si_hasAdminRoot i \<or> si_privateKeyB64 i \<noteq> [], ''StoredServerIdentity requires privateKeyB64'')]
          of Some e \<Rightarrow> Inl e | None \<Rightarrow> Inr i)"

definition identity_json :: "StoredServerIdentity \<Rightarrow> jsval" where
  "identity_json i = Obj [(''accountId'', Str (si_accountId i)), (''deviceId'', Str (si_deviceId i)),
     (''publicKeyB64'', Str (si_publicKeyB64 i)), (''privateKeyB64'', Str (si_privateKeyB64 i)), (''hasAdminRoot'', Bool (si_hasAdminRoot i))]"

text \<open>A stored identity holds the account's private key exactly when it is an admin root, and is read back.\<close>

lemma identity_key_iff_root: "mkStoredServerIdentity raw = Inr i \<Longrightarrow> si_privateKeyB64 i \<noteq> [] \<longleftrightarrow> si_hasAdminRoot i"
  by (auto simp: mkStoredServerIdentity_def Let_def split: if_splits)

lemma mkStoredServerIdentity_json:
  assumes "mkStoredServerIdentity raw = Inr i" shows "mkStoredServerIdentity (identity_json i) = Inr i"
proof -
  have "trimmed (si_accountId i) \<and> trimmed (si_deviceId i) \<and> trimmed (si_publicKeyB64 i) \<and> trimmed (si_privateKeyB64 i)
      \<and> si_accountId i \<noteq> [] \<and> si_deviceId i \<noteq> [] \<and> si_publicKeyB64 i \<noteq> []"
    using assms by (auto simp: mkStoredServerIdentity_def Let_def split: if_splits)
  then show ?thesis using identity_key_iff_root [OF assms]
    by (auto simp: mkStoredServerIdentity_def identity_json_def getp_def Let_def trimmed_eq)
qed

end
