(* ===== verification/Nested_Records.thy ===== *)
theory Nested_Records
  imports Records_More Caches
begin

text \<open>
  The domain records as classes that schema fields nest: each constructor, followed by the record's own
  serialisation, keeps the contract \<open>nested_record\<close>. Also the field check of file hashes.
\<close>

definition as_record :: "(jsval \<Rightarrow> js_error + 'r) \<Rightarrow> ('r \<Rightarrow> jsval) \<Rightarrow> jsval \<Rightarrow> js_error + jsval" where
  "as_record mk json raw = (case mk raw of Inl e \<Rightarrow> Inl e | Inr r \<Rightarrow> Inr (json r))"

lemma nested_as_record:
  assumes "\<And>raw r. mk raw = Inr r \<Longrightarrow> mk (json r) = Inr r" and "\<And>r. is_object (json r)"
  shows "nested_record (as_record mk json)"
  by unfold_locales (use assms in \<open>auto simp: as_record_def split: sum.splits\<close>)

lemma group_again: "wf_group x \<Longrightarrow> mkChatGroup (group_json x) = Inr x"
  by (rule mkChatGroup_agree) (simp_all add: group_json_def getp_agree [OF group_fields_dom(1)])

lemma member_again: "wf_member x \<Longrightarrow> mkChatGroupMember (member_json x) = Inr x"
  by (rule mkChatGroupMember_agree) (simp_all add: member_json_def getp_agree [OF member_fields_dom(1)])

lemma channel_again: "wf_channel x \<Longrightarrow> mkChatChannel (channel_json x) = Inr x"
  by (rule mkChatChannel_agree) (simp_all add: channel_json_def getp_agree [OF channel_fields_dom(1)])

lemma contact_again: "wf_contact x \<Longrightarrow> mkChatContact now (contact_json x) = Inr x"
  by (rule mkChatContact_agree) (simp_all add: contact_json_def getp_agree [OF contact_fields_dom(1)])

lemma request_again: "wf_request x \<Longrightarrow> mkConnectRequest now (request_json x) = Inr x"
  by (rule mkConnectRequest_agree) (simp_all add: request_json_def getp_agree [OF request_fields_dom(1)])

definition "message_record now = as_record (mkChatMessage now) message_json"
definition "thread_record = as_record mkChatThread thread_json"
definition "group_record = as_record mkChatGroup group_json"
definition "member_record = as_record mkChatGroupMember member_json"
definition "channel_record = as_record mkChatChannel channel_json"
definition "contact_record now = as_record (mkChatContact now) contact_json"
definition "request_record now = as_record (mkConnectRequest now) request_json"
definition "preview_record = as_record mkLinkPreview preview_json"
definition "mesh_record = as_record mkMeshStatus mesh_json"

interpretation message_record: nested_record "message_record now" for now
  unfolding message_record_def
  by (rule nested_as_record [OF mkChatMessage_json [OF mkChatMessage_wf]]) (assumption, simp add: message_json_def)

interpretation thread_record: nested_record thread_record
  unfolding thread_record_def
  by (rule nested_as_record [OF mkChatThread_json [OF mkChatThread_wf]]) (assumption, simp add: thread_json_def)

interpretation group_record: nested_record group_record
  unfolding group_record_def
  by (rule nested_as_record [OF group_again [OF mkChatGroup_wf]]) (assumption, simp add: group_json_def)

interpretation member_record: nested_record member_record
  unfolding member_record_def
  by (rule nested_as_record [OF member_again [OF mkChatGroupMember_wf]]) (assumption, simp add: member_json_def)

interpretation channel_record: nested_record channel_record
  unfolding channel_record_def
  by (rule nested_as_record [OF channel_again [OF mkChatChannel_wf]]) (assumption, simp add: channel_json_def)

interpretation contact_record: nested_record "contact_record now" for now
  unfolding contact_record_def
  by (rule nested_as_record [OF contact_again [OF mkChatContact_wf]]) (assumption, simp add: contact_json_def)

interpretation request_record: nested_record "request_record now" for now
  unfolding request_record_def
  by (rule nested_as_record [OF request_again [OF mkConnectRequest_wf]]) (assumption, simp add: request_json_def)

interpretation preview_record: nested_record preview_record
  unfolding preview_record_def
  by (rule nested_as_record [OF preview_back [OF wf_mkLinkPreview]]) (assumption, simp add: preview_json_def)

interpretation mesh_record: nested_record mesh_record
  unfolding mesh_record_def
  by (rule nested_as_record [OF mkMeshStatus_json [OF mkMeshStatus_wf]]) (assumption, simp add: mesh_json_def)

lemmas nested_laws = message_record.nested_record_axioms thread_record.nested_record_axioms group_record.nested_record_axioms
  member_record.nested_record_axioms channel_record.nested_record_axioms contact_record.nested_record_axioms
  request_record.nested_record_axioms preview_record.nested_record_axioms mesh_record.nested_record_axioms

section \<open>Patterns\<close>

text \<open>\<open>/^[0-9a-f]{64}$/\<close> and the field check that rests on it.\<close>

definition hex_char :: "char \<Rightarrow> bool" where
  "hex_char c \<longleftrightarrow> (let n = of_char c :: nat in 48 \<le> n \<and> n \<le> 57 \<or> 97 \<le> n \<and> n \<le> 102)"

definition is_hex64 :: "string \<Rightarrow> bool" where
  "is_hex64 s \<longleftrightarrow> length s = 64 \<and> list_all hex_char s"

definition must_be_hex64 :: "string \<Rightarrow> string \<Rightarrow> jsval \<Rightarrow> js_error option" where
  "must_be_hex64 what name value = asserts [(is_hex64 (js_string value), name @ '' must be '' @ what)]"

end
