(* ===== verification/ApiParams.thy ===== *)
theory ApiParams
  imports Nested_Records
begin

text \<open>
  The parameter records of the service calls (\<open>src/records/params\<close>): one class per call, the
  \<open>static schema\<close> of each as it is declared.
\<close>

text \<open>\<open>ChannelsCreateParams\<close> adds the check that a label or an id is given.\<close>

definition ChannelsCreateParams :: "schema_class" where
  "ChannelsCreateParams = \<lparr> sc_kind = None,
     sc_schema = [(''groupId'', required_string),
       (''label'', a_string\<lparr>sp_trim := False, sp_maxLength := Some 128\<rparr>),
       (''channelId'', a_string\<lparr>sp_maxLength := Some 64\<rparr>)],
     sc_check = (\<lambda>r. asserts [(getp r ''label'' \<noteq> Str [] \<or> getp r ''channelId'' \<noteq> Str [],
       ''ChannelsCreateParams: label or channelId required'')]) \<rparr>"

definition ChannelsDeleteParams :: "schema_class" where
  "ChannelsDeleteParams = plain_class [
     (''groupId'', required_string),
     (''channelId'', required_string\<lparr>sp_maxLength := Some 64\<rparr>)]"

definition ChannelsListParams :: "schema_class" where
  "ChannelsListParams = plain_class [(''groupId'', required_string),
     (''includeDeleted'', a_boolean)]"

definition ChannelsSyncAllParams :: "schema_class" where
  "ChannelsSyncAllParams = plain_class []"

definition ContactsApproveConnectParams :: "schema_class" where
  "ContactsApproveConnectParams = plain_class [
     (''accountId'', required_string),
     (''acceptorDisplayName'', nullable_string)]"

definition ContactsBlockParams :: "schema_class" where
  "ContactsBlockParams = plain_class [(''accountId'', required_string)]"

definition ContactsDeleteParams :: "schema_class" where
  "ContactsDeleteParams = plain_class [(''accountId'', required_string)]"

definition ContactsDenyConnectParams :: "schema_class" where
  "ContactsDenyConnectParams = plain_class [(''accountId'', required_string)]"

definition ContactsListConnectRequestsParams :: "schema_class" where
  "ContactsListConnectRequestsParams = plain_class []"

definition ContactsListParams :: "schema_class" where
  "ContactsListParams = plain_class [(''state'', nullable_string)]"

definition ContactsRenameParams :: "schema_class" where
  "ContactsRenameParams = plain_class [
     (''accountId'', required_string),
     (''displayName'', nullable_string)]"

definition ContactsRequestConnectParams :: "schema_class" where
  "ContactsRequestConnectParams = plain_class [
     (''peerAccountId'', required_string),
     (''displayName'', nullable_string),
     (''groupId'', nullable_string)]"

definition ContactsUnblockParams :: "schema_class" where
  "ContactsUnblockParams = plain_class [(''accountId'', required_string)]"

definition DeviceLinkApproveParams :: "schema_class" where
  "DeviceLinkApproveParams = plain_class [(''newDeviceId'', required_string)]"

definition DeviceLinkCancelParams :: "schema_class" where
  "DeviceLinkCancelParams = plain_class []"

definition DeviceLinkStartParams :: "schema_class" where
  "DeviceLinkStartParams = plain_class []"

definition DeviceLinkStatusParams :: "schema_class" where
  "DeviceLinkStatusParams = plain_class []"

definition DiagnosticsSnapshotParams :: "schema_class" where
  "DiagnosticsSnapshotParams = plain_class []"

definition FileGetParams :: "schema_class" where
  "FileGetParams = plain_class [
     (''fileHashHex'', a_string\<lparr>sp_validate := must_be_hex64 ''64-char hex''\<rparr>)]"

definition FileSendParams :: "schema_class" where
  "FileSendParams = plain_class [
     (''threadId'', required_string),
     (''fileDataB64'', required_string\<lparr>sp_trim := False, sp_maxLength := Some 14000000\<rparr>),
     (''fileName'', required_string),
     (''mimeType'', required_string),
     (''text'', a_string),
     (''channelId'', a_string\<lparr>sp_maxLength := Some 64\<rparr>)]"

definition GroupCreateParams :: "schema_class" where
  "GroupCreateParams = plain_class [(''title'', a_string),
     (''creatorDisplayName'', nullable_string)]"

definition GroupKickParams :: "schema_class" where
  "GroupKickParams = plain_class [(''groupId'', required_string),
     (''accountId'', required_string)]"

definition GroupLeaveParams :: "schema_class" where
  "GroupLeaveParams = plain_class [(''groupId'', required_string)]"

definition GroupMembersListParams :: "schema_class" where
  "GroupMembersListParams = plain_class [(''groupId'', required_string)]"

definition GroupRenameParams :: "schema_class" where
  "GroupRenameParams = plain_class [(''groupId'', required_string),
     (''title'', required_string)]"

definition GroupSetAvatarParams :: "schema_class" where
  "GroupSetAvatarParams = plain_class [
     (''groupId'', required_string),
     (''avatarDataB64'', a_string\<lparr>sp_trim := False\<rparr>)]"

definition GroupSetRoleParams :: "schema_class" where
  "GroupSetRoleParams = plain_class [
     (''groupId'', required_string),
     (''accountId'', required_string),
     (''role'', (an_enum [''admin'', ''member''])\<lparr>sp_required := True\<rparr>)]"

definition GroupsListParams :: "schema_class" where
  "GroupsListParams = plain_class []"

definition InviteAcceptParams :: "schema_class" where
  "InviteAcceptParams = plain_class [
     (''inviteCode'', required_string),
     (''acceptorDisplayName'', nullable_string),
     (''forceReestablish'', a_boolean)]"

definition InviteCreateParams :: "schema_class" where
  "InviteCreateParams = plain_class [
     (''kind'', a_string\<lparr>sp_default := Str ''direct''\<rparr>),
     (''groupId'', nullable_string),
     (''maxUses'', an_int\<lparr>sp_default := num 1, sp_clamp := True, sp_min := Some 1\<rparr>),
     (''creatorDisplayName'', nullable_string),
     (''title'', nullable_string\<lparr>sp_maxLength := Some 128\<rparr>)]"

definition KeystoreFetchParams :: "schema_class" where
  "KeystoreFetchParams = plain_class [(''accountId'', required_string)]"

definition KeystorePutParams :: "schema_class" where
  "KeystorePutParams = plain_class [
     (''accountId'', required_string),
     (''envelope'', an_object\<lparr>sp_required := True\<rparr>)]"

definition LinksUnfurlParams :: "schema_class" where
  "LinksUnfurlParams = plain_class [
     (''url'', required_string\<lparr>sp_maxLength := Some 2048\<rparr>),
     (''forceRefresh'', a_boolean)]"

definition MeshStatusParams :: "schema_class" where
  "MeshStatusParams = plain_class []"

definition MessageDeleteLocalParams :: "schema_class" where
  "MessageDeleteLocalParams = plain_class [
     (''threadId'', required_string),
     (''targetMessageId'', required_string)]"

definition MessageEditParams :: "schema_class" where
  "MessageEditParams = plain_class [
     (''threadId'', required_string),
     (''targetMessageId'', required_string),
     (''newText'', a_string\<lparr>sp_trim := False, sp_maxLength := Some 8192\<rparr>)]"

definition MessageReactionAddParams :: "schema_class" where
  "MessageReactionAddParams = plain_class [
     (''threadId'', required_string),
     (''targetMessageId'', required_string),
     (''emoji'', required_string\<lparr>sp_maxLength := Some 16\<rparr>)]"

definition MessageReactionRemoveParams :: "schema_class" where
  "MessageReactionRemoveParams = plain_class [
     (''threadId'', required_string),
     (''targetMessageId'', required_string),
     (''emoji'', required_string\<lparr>sp_maxLength := Some 16\<rparr>)]"

definition MessageSendParams :: "schema_class" where
  "MessageSendParams = plain_class [
     (''threadId'', required_string),
     (''payload'', an_object\<lparr>sp_required := True, sp_maxJsonBytes := Some 262144\<rparr>),
     (''messageId'', nullable_string),
     (''inReplyToMessageId'', a_string),
     (''channelId'', a_string\<lparr>sp_maxLength := Some 64\<rparr>)]"

definition MessageTombstoneParams :: "schema_class" where
  "MessageTombstoneParams = plain_class [
     (''threadId'', required_string),
     (''targetMessageId'', required_string)]"

definition NodeStatusParams :: "schema_class" where
  "NodeStatusParams = plain_class []"

definition PeerLinkGetParams :: "schema_class" where
  "PeerLinkGetParams = plain_class [(''peerLinkId'', required_string)]"

definition PeerLinksListParams :: "schema_class" where
  "PeerLinksListParams = plain_class []"

definition ProfileBroadcastParams :: "schema_class" where
  "ProfileBroadcastParams = plain_class [
     (''displayName'', required_string\<lparr>sp_maxLength := Some 64\<rparr>),
     (''avatarDataB64'', a_string\<lparr>sp_trim := False\<rparr>)]"

definition ProfileGetOwnParams :: "schema_class" where
  "ProfileGetOwnParams = plain_class []"

definition SessionHelloParams :: "schema_class" where
  "SessionHelloParams = plain_class [
     (''accountId'', required_string),
     (''deviceId'', required_string),
     (''bridgeToken'', a_string\<lparr>sp_trim := False\<rparr>)]"

definition ThreadChannelReadParams :: "schema_class" where
  "ThreadChannelReadParams = plain_class [
     (''threadId'', required_string),
     (''channelId'', a_string\<lparr>sp_default := Str []\<rparr>)]"

definition ThreadCreateDirectParams :: "schema_class" where
  "ThreadCreateDirectParams = plain_class [(''accountId'', required_string)]"

definition ThreadDeleteParams :: "schema_class" where
  "ThreadDeleteParams = plain_class [(''threadId'', required_string)]"

definition ThreadGetParams :: "schema_class" where
  "ThreadGetParams = plain_class [
     (''threadId'', required_string),
     (''limit'', an_int\<lparr>sp_default := num 50, sp_clamp := True, sp_min := Some 1, sp_max := Some 200\<rparr>)]"

definition ThreadMessagesListParams :: "schema_class" where
  "ThreadMessagesListParams = plain_class [
     (''threadId'', required_string),
     (''limit'', an_int\<lparr>sp_default := num 50, sp_clamp := True, sp_min := Some 1, sp_max := Some 200\<rparr>),
     (''before'', an_object\<lparr>sp_nullable := True\<rparr>)]"

definition ThreadReadParams :: "schema_class" where
  "ThreadReadParams = plain_class [(''threadId'', required_string)]"

definition ThreadStateSetParams :: "schema_class" where
  "ThreadStateSetParams = plain_class [
     (''threadId'', required_string),
     (''visibilityState'', nullable_string),
     (''accessState'', nullable_string)]"

definition ThreadsListParams :: "schema_class" where
  "ThreadsListParams = plain_class [
     (''limit'', an_int\<lparr>sp_default := num 50, sp_clamp := True, sp_min := Some 1, sp_max := Some 200\<rparr>)]"

section \<open>All of them\<close>

definition params_classes :: "schema_class list" where
  "params_classes = [ChannelsCreateParams, ChannelsDeleteParams, ChannelsListParams, ChannelsSyncAllParams,
     ContactsApproveConnectParams, ContactsBlockParams, ContactsDeleteParams, ContactsDenyConnectParams,
     ContactsListConnectRequestsParams, ContactsListParams, ContactsRenameParams, ContactsRequestConnectParams,
     ContactsUnblockParams, DeviceLinkApproveParams, DeviceLinkCancelParams, DeviceLinkStartParams,
     DeviceLinkStatusParams, DiagnosticsSnapshotParams, FileGetParams, FileSendParams, GroupCreateParams,
     GroupKickParams, GroupLeaveParams, GroupMembersListParams, GroupRenameParams, GroupSetAvatarParams,
     GroupSetRoleParams, GroupsListParams, InviteAcceptParams, InviteCreateParams, KeystoreFetchParams,
     KeystorePutParams, LinksUnfurlParams, MeshStatusParams, MessageDeleteLocalParams, MessageEditParams,
     MessageReactionAddParams, MessageReactionRemoveParams, MessageSendParams, MessageTombstoneParams,
     NodeStatusParams, PeerLinkGetParams, PeerLinksListParams, ProfileBroadcastParams, ProfileGetOwnParams,
     SessionHelloParams, ThreadChannelReadParams, ThreadCreateDirectParams, ThreadDeleteParams,
     ThreadGetParams, ThreadMessagesListParams, ThreadReadParams, ThreadStateSetParams, ThreadsListParams]"

end
