(* ===== verification/ApiResults.thy ===== *)
theory ApiResults
  imports Nested_Records
begin

text \<open>
  The result records of the service calls (\<open>src/records/results\<close>).
\<close>

definition AvatarGetResult :: "schema_class" where
  "AvatarGetResult = plain_class [(''avatarDataB64'', a_string\<lparr>sp_trim := False\<rparr>)]"

definition ChannelsCreateResult :: "schema_class" where
  "ChannelsCreateResult = plain_class [
     (''channel'', (a_record (channel_record))\<lparr>sp_required := True\<rparr>),
     (''created'', a_boolean)]"

definition ChannelsDeleteResult :: "schema_class" where
  "ChannelsDeleteResult = plain_class [
     (''groupId'', required_string),
     (''channelId'', required_string),
     (''deleted'', a_boolean)]"

definition ChannelsListResult :: "schema_class" where
  "ChannelsListResult = plain_class [
     (''groupId'', required_string),
     (''items'', (array_of (channel_record)))]"

definition ChannelsSyncAllResult :: "schema_class" where
  "ChannelsSyncAllResult = plain_class [(''requestsSent'', an_int)]"

definition ContactsApproveConnectResult :: "schema_class" where
  "ContactsApproveConnectResult = plain_class [(''status'', a_string),
     (''peerAccountId'', a_string)]"

definition ContactsBlockResult :: "schema_class" where
  "ContactsBlockResult = plain_class [(''contact'', an_object\<lparr>sp_required := True\<rparr>)]"

definition ContactsDeleteResult :: "schema_class" where
  "ContactsDeleteResult = plain_class [(''deleted'', a_boolean)]"

definition ContactsDenyConnectResult :: "schema_class" where
  "ContactsDenyConnectResult = plain_class [
     (''status'', a_string),
     (''peerAccountId'', a_string),
     (''deleted'', a_boolean)]"

definition ContactsListConnectRequestsResult :: "rat \<Rightarrow> schema_class" where
  "ContactsListConnectRequestsResult now = plain_class [(''items'', (array_of (request_record now)))]"

definition ContactsListResult :: "rat \<Rightarrow> schema_class" where
  "ContactsListResult now = plain_class [(''items'', (array_of (contact_record now)))]"

definition ContactsRenameResult :: "schema_class" where
  "ContactsRenameResult = plain_class [(''contact'', an_object\<lparr>sp_required := True\<rparr>)]"

definition ContactsRequestConnectResult :: "schema_class" where
  "ContactsRequestConnectResult = plain_class [
     (''status'', a_string),
     (''peerAccountId'', a_string),
     (''requestId'', nullable_string)]"

definition ContactsUnblockResult :: "schema_class" where
  "ContactsUnblockResult = plain_class [(''contact'', an_object\<lparr>sp_required := True\<rparr>)]"

definition DeviceLinkApproveResult :: "schema_class" where
  "DeviceLinkApproveResult = plain_class [(''state'', required_string),
     (''newDeviceId'', required_string)]"

definition DeviceLinkCancelResult :: "schema_class" where
  "DeviceLinkCancelResult = plain_class [(''state'', required_string)]"

definition DeviceLinkStartResult :: "schema_class" where
  "DeviceLinkStartResult = plain_class [
     (''linkCode'', required_string),
     (''expiresAtMs'', an_int\<lparr>sp_required := True\<rparr>)]"

definition DeviceLinkStatusResult :: "schema_class" where
  "DeviceLinkStatusResult = plain_class [
     (''state'', required_string),
     (''newDeviceId'', nullable_string),
     (''fingerprint'', nullable_string),
     (''expiresAtMs'', an_int\<lparr>sp_nullable := True\<rparr>),
     (''message'', nullable_string)]"

definition DiagnosticsSnapshotResult :: "schema_class" where
  "DiagnosticsSnapshotResult = plain_class [
     (''kind'', required_string),
     (''generatedAtMs'', a_number\<lparr>sp_required := True\<rparr>),
     (''note'', a_string\<lparr>sp_default := Str []\<rparr>),
     (''app'', an_object\<lparr>sp_nullable := True\<rparr>),
     (''capabilities'', an_object\<lparr>sp_nullable := True\<rparr>),
     (''counts'', an_object\<lparr>sp_nullable := True\<rparr>),
     (''recentErrors'', an_array\<lparr>sp_default := Arr []\<rparr>),
     (''recentErrorsDropped'', an_int\<lparr>sp_default := num 0\<rparr>)]"

definition FileGetResult :: "schema_class" where
  "FileGetResult = plain_class [
     (''fileHashHex'', a_string),
     (''fileDataB64'', a_string\<lparr>sp_trim := False\<rparr>),
     (''mimeType'', a_string),
     (''fileName'', a_string)]"

definition FileSendResult :: "schema_class" where
  "FileSendResult = plain_class [
     (''threadId'', a_string),
     (''messageId'', a_string),
     (''fileHashHex'', a_string),
     (''transferId'', a_string)]"

definition GroupCreateResult :: "schema_class" where
  "GroupCreateResult = plain_class [(''groupId'', required_string),
     (''threadId'', a_string)]"

definition GroupKickResult :: "schema_class" where
  "GroupKickResult = plain_class [
     (''groupId'', a_string),
     (''accountId'', a_string),
     (''kicked'', a_boolean)]"

definition GroupLeaveResult :: "schema_class" where
  "GroupLeaveResult = plain_class [
     (''groupId'', a_string),
     (''threadId'', a_string),
     (''left'', a_boolean)]"

definition GroupMembersListResult :: "schema_class" where
  "GroupMembersListResult = plain_class [(''items'', (array_of (member_record)))]"

definition GroupRenameResult :: "schema_class" where
  "GroupRenameResult = plain_class [(''group'', an_object\<lparr>sp_required := True\<rparr>)]"

definition GroupSetAvatarResult :: "schema_class" where
  "GroupSetAvatarResult = plain_class [(''group'', an_object\<lparr>sp_required := True\<rparr>)]"

definition GroupSetRoleResult :: "schema_class" where
  "GroupSetRoleResult = plain_class [
     (''groupId'', a_string),
     (''accountId'', a_string),
     (''role'', a_string)]"

definition GroupsListResult :: "schema_class" where
  "GroupsListResult = plain_class [(''items'', (array_of (group_record)))]"

definition InviteAcceptResult :: "schema_class" where
  "InviteAcceptResult = plain_class [
     (''threadId'', nullable_string),
     (''peerLinkId'', nullable_string),
     (''peerAccountId'', nullable_string),
     (''state'', required_string),
     (''sessionState'', nullable_string),
     (''peerInboxId'', nullable_string),
     (''groupId'', nullable_string),
     (''groupThreadId'', nullable_string),
     (''remoteDisplayName'', nullable_string)]"

definition InviteCreateResult :: "schema_class" where
  "InviteCreateResult = plain_class [
     (''inviteCode'', required_string),
     (''peerLinkId'', nullable_string),
     (''inviteId'', nullable_string),
     (''state'', nullable_string),
     (''expiresAtMs'', a_number\<lparr>sp_nullable := True\<rparr>),
     (''maxUses'', an_int\<lparr>sp_default := num 1, sp_clamp := True, sp_min := Some 1\<rparr>)]"

definition KeystoreFetchResult :: "schema_class" where
  "KeystoreFetchResult = plain_class [(''envelope'', an_object\<lparr>sp_nullable := True\<rparr>)]"

definition KeystorePutResult :: "schema_class" where
  "KeystorePutResult = plain_class [(''ok'', a_boolean)]"

definition LinksUnfurlResult :: "schema_class" where
  "LinksUnfurlResult = plain_class [
     (''preview'', (a_record (preview_record))\<lparr>sp_required := True\<rparr>),
     (''cached'', a_boolean)]"

definition MeshStatusResult :: "schema_class" where
  "MeshStatusResult = plain_class [(''mesh'', an_object\<lparr>sp_required := True\<rparr>)]"

definition MessageDeleteLocalResult :: "schema_class" where
  "MessageDeleteLocalResult = plain_class [
     (''threadId'', required_string),
     (''targetMessageId'', required_string),
     (''removed'', a_boolean)]"

definition MessageEditResult :: "schema_class" where
  "MessageEditResult = plain_class [
     (''threadId'', required_string),
     (''targetMessageId'', required_string),
     (''editedAtMs'', a_number\<lparr>sp_required := True\<rparr>)]"

definition MessageReactionAddResult :: "schema_class" where
  "MessageReactionAddResult = plain_class [
     (''threadId'', required_string),
     (''targetMessageId'', required_string),
     (''emoji'', required_string),
     (''createdAtMs'', a_number\<lparr>sp_required := True\<rparr>)]"

definition MessageReactionRemoveResult :: "schema_class" where
  "MessageReactionRemoveResult = plain_class [
     (''threadId'', required_string),
     (''targetMessageId'', required_string),
     (''emoji'', required_string),
     (''createdAtMs'', a_number\<lparr>sp_required := True\<rparr>)]"

definition MessageSendResult :: "schema_class" where
  "MessageSendResult = plain_class [
     (''threadId'', required_string),
     (''messageId'', required_string),
     (''acceptedAtMs'', a_number\<lparr>sp_required := True\<rparr>),
     (''packetB64'', a_string)]"

definition MessageTombstoneResult :: "schema_class" where
  "MessageTombstoneResult = plain_class [
     (''threadId'', required_string),
     (''targetMessageId'', required_string),
     (''tombstonedAtMs'', a_number\<lparr>sp_required := True\<rparr>)]"

definition NodeStatusResult :: "schema_class" where
  "NodeStatusResult = plain_class [(''status'', an_object\<lparr>sp_required := True\<rparr>)]"

definition PeerLinkGetResult :: "schema_class" where
  "PeerLinkGetResult = plain_class [(''peerLink'', an_object\<lparr>sp_nullable := True\<rparr>)]"

definition PeerLinksListResult :: "schema_class" where
  "PeerLinksListResult = plain_class [(''items'', an_array)]"

definition ProfileBroadcastResult :: "schema_class" where
  "ProfileBroadcastResult = plain_class [
     (''sent'', a_number),
     (''failed'', a_number),
     (''avatarFileHash'', a_string\<lparr>sp_trim := False\<rparr>)]"

definition ProfileGetOwnResult :: "schema_class" where
  "ProfileGetOwnResult = plain_class [
     (''displayName'', a_string\<lparr>sp_trim := False\<rparr>),
     (''avatarFileHash'', a_string\<lparr>sp_trim := False\<rparr>)]"

definition SessionHelloResult :: "schema_class" where
  "SessionHelloResult = plain_class [
     (''accountId'', required_string),
     (''deviceId'', required_string),
     (''ownerAccountId'', required_string),
     (''localInboxId'', required_string)]"

definition ThreadChannelReadResult :: "schema_class" where
  "ThreadChannelReadResult = plain_class [
     (''threadId'', required_string),
     (''channelId'', a_string\<lparr>sp_default := Str []\<rparr>),
     (''readAtMs'', a_number\<lparr>sp_required := True\<rparr>)]"

definition ThreadDeleteResult :: "schema_class" where
  "ThreadDeleteResult = plain_class [(''threadId'', required_string),
     (''deleted'', a_boolean)]"

definition ThreadMessagesListResult :: "rat \<Rightarrow> schema_class" where
  "ThreadMessagesListResult now = plain_class [
     (''items'', (array_of (message_record now))),
     (''nextBefore'', an_object\<lparr>sp_nullable := True\<rparr>)]"

definition ThreadReadResult :: "schema_class" where
  "ThreadReadResult = plain_class [
     (''threadId'', required_string),
     (''readAtMs'', a_number\<lparr>sp_required := True\<rparr>)]"

definition ThreadStateSetResult :: "schema_class" where
  "ThreadStateSetResult = plain_class [(''thread'', an_object\<lparr>sp_required := True\<rparr>)]"

definition ThreadsListResult :: "schema_class" where
  "ThreadsListResult = plain_class [
     (''threads'', (array_of (thread_record))),
     (''cursor'', nullable_string)]"

text \<open>\<open>ThreadGetResult\<close> has its own constructor: a thread and a page of its messages.\<close>

definition ThreadGetResult :: "rat \<Rightarrow> jsval \<Rightarrow> js_error + jsval" where
  "ThreadGetResult now raw =
     (if raw = Null then Inl TypeError
      else case thread_record (if truthy (getp raw ''thread'') then getp raw ''thread'' else Obj []) of Inl e \<Rightarrow> Inl e
      | Inr thread \<Rightarrow>
        let rawMsgs = object_or_empty (getp raw ''messages'') in
        (case new_record (ThreadMessagesListResult now) (Obj [
           (''items'', if is_array (getp rawMsgs ''messages'') then getp rawMsgs ''messages'' else Arr []),
           (''nextBefore'', if is_object (getp rawMsgs ''nextBefore'') then getp rawMsgs ''nextBefore'' else getp rawMsgs ''cursor'')])
         of Inl e \<Rightarrow> Inl e | Inr messages \<Rightarrow> Inr (Obj [(''thread'', thread), (''messages'', messages)])))"

section \<open>All of them\<close>

definition results_classes :: "rat \<Rightarrow> schema_class list" where
  "results_classes now = [AvatarGetResult, ChannelsCreateResult, ChannelsDeleteResult, ChannelsListResult, ChannelsSyncAllResult,
     ContactsApproveConnectResult, ContactsBlockResult, ContactsDeleteResult, ContactsDenyConnectResult,
     ContactsListConnectRequestsResult now, ContactsListResult now, ContactsRenameResult,
     ContactsRequestConnectResult, ContactsUnblockResult, DeviceLinkApproveResult, DeviceLinkCancelResult,
     DeviceLinkStartResult, DeviceLinkStatusResult, DiagnosticsSnapshotResult, FileGetResult, FileSendResult,
     GroupCreateResult, GroupKickResult, GroupLeaveResult, GroupMembersListResult, GroupRenameResult,
     GroupSetAvatarResult, GroupSetRoleResult, GroupsListResult, InviteAcceptResult, InviteCreateResult,
     KeystoreFetchResult, KeystorePutResult, LinksUnfurlResult, MeshStatusResult, MessageDeleteLocalResult,
     MessageEditResult, MessageReactionAddResult, MessageReactionRemoveResult, MessageSendResult,
     MessageTombstoneResult, NodeStatusResult, PeerLinkGetResult, PeerLinksListResult, ProfileBroadcastResult,
     ProfileGetOwnResult, SessionHelloResult, ThreadChannelReadResult, ThreadDeleteResult,
     ThreadMessagesListResult now, ThreadReadResult, ThreadStateSetResult, ThreadsListResult]"

lemmas results_defs = AvatarGetResult_def ChannelsCreateResult_def ChannelsDeleteResult_def ChannelsListResult_def
  ChannelsSyncAllResult_def ContactsApproveConnectResult_def ContactsBlockResult_def ContactsDeleteResult_def
  ContactsDenyConnectResult_def ContactsListConnectRequestsResult_def ContactsListResult_def
  ContactsRenameResult_def ContactsRequestConnectResult_def ContactsUnblockResult_def DeviceLinkApproveResult_def
  DeviceLinkCancelResult_def DeviceLinkStartResult_def DeviceLinkStatusResult_def DiagnosticsSnapshotResult_def
  FileGetResult_def FileSendResult_def GroupCreateResult_def GroupKickResult_def GroupLeaveResult_def
  GroupMembersListResult_def GroupRenameResult_def GroupSetAvatarResult_def GroupSetRoleResult_def
  GroupsListResult_def InviteAcceptResult_def InviteCreateResult_def KeystoreFetchResult_def KeystorePutResult_def
  LinksUnfurlResult_def MeshStatusResult_def MessageDeleteLocalResult_def MessageEditResult_def
  MessageReactionAddResult_def MessageReactionRemoveResult_def MessageSendResult_def MessageTombstoneResult_def
  NodeStatusResult_def PeerLinkGetResult_def PeerLinksListResult_def ProfileBroadcastResult_def
  ProfileGetOwnResult_def SessionHelloResult_def ThreadChannelReadResult_def ThreadDeleteResult_def
  ThreadMessagesListResult_def ThreadReadResult_def ThreadStateSetResult_def ThreadsListResult_def

end
