(* ===== verification/ApiEvents.thy ===== *)
theory ApiEvents
  imports Nested_Records
begin

text \<open>
  The event records that the server emits to the client (\<open>src/records/events\<close>).
\<close>

definition ChannelRemovedEvent :: "schema_class" where
  "ChannelRemovedEvent = plain_class [(''groupId'', required_string),
     (''channelId'', required_string)]"

definition ChannelUpsertedEvent :: "schema_class" where
  "ChannelUpsertedEvent = plain_class [
     (''channel'', (a_record (channel_record))\<lparr>sp_required := True\<rparr>)]"

definition ConnectRequestUpdatedEvent :: "schema_class" where
  "ConnectRequestUpdatedEvent = plain_class [(''peerAccountId'', required_string)]"

definition ConnectionStateEvent :: "schema_class" where
  "ConnectionStateEvent = plain_class [
     (''status'', (an_enum [''connected'', ''disconnected'', ''not_ready'', ''connecting'', ''reconnecting'', ''offline''])\<lparr>sp_required := True\<rparr>),
     (''activeUplink'', a_string),
     (''reason'', a_string)]"

definition ContactRemovedEvent :: "schema_class" where
  "ContactRemovedEvent = plain_class [(''accountId'', required_string)]"

definition ContactUpdatedEvent :: "rat \<Rightarrow> schema_class" where
  "ContactUpdatedEvent now = plain_class [
     (''contact'', (a_record (contact_record now))\<lparr>sp_required := True\<rparr>)]"

definition DeviceLinkUpdatedEvent :: "schema_class" where
  "DeviceLinkUpdatedEvent = plain_class [
     (''state'', required_string),
     (''newDeviceId'', nullable_string),
     (''fingerprint'', nullable_string),
     (''expiresAtMs'', an_int\<lparr>sp_nullable := True\<rparr>),
     (''message'', nullable_string)]"

definition GroupRemovedEvent :: "schema_class" where
  "GroupRemovedEvent = plain_class [(''groupId'', required_string)]"

definition GroupUpdatedEvent :: "schema_class" where
  "GroupUpdatedEvent = plain_class [
     (''group'', (a_record (group_record))\<lparr>sp_required := True\<rparr>)]"

definition InboxCaughtUpEvent :: "schema_class" where
  "InboxCaughtUpEvent = plain_class [(''mailboxId'', a_string)]"

definition MailboxDepositQuarantinedEvent :: "schema_class" where
  "MailboxDepositQuarantinedEvent = plain_class [
     (''mailboxId'', required_string),
     (''seq'', a_number\<lparr>sp_nullable := True\<rparr>),
     (''eventId'', nullable_string),
     (''attempts'', a_number\<lparr>sp_nullable := True\<rparr>),
     (''ageMs'', a_number\<lparr>sp_nullable := True\<rparr>),
     (''reason'', (an_enum [''attempts'', ''age''])\<lparr>sp_required := True\<rparr>)]"

definition MeshStatusUpdatedEvent :: "schema_class" where
  "MeshStatusUpdatedEvent = plain_class [
     (''mesh'', (a_record (mesh_record))\<lparr>sp_required := True\<rparr>)]"

definition MessageDepositedEvent :: "rat \<Rightarrow> schema_class" where
  "MessageDepositedEvent now = plain_class [
     (''threadId'', required_string),
     (''message'', (a_record (message_record now))\<lparr>sp_required := True\<rparr>)]"

definition MessageRemovedEvent :: "schema_class" where
  "MessageRemovedEvent = plain_class [(''threadId'', required_string),
     (''messageId'', required_string)]"

definition MessageStatusEvent :: "schema_class" where
  "MessageStatusEvent = plain_class [
     (''threadId'', required_string),
     (''messageId'', required_string),
     (''status'', (an_enum MESSAGE_STATUSES)\<lparr>sp_required := True\<rparr>),
     (''sentAtMs'', a_number\<lparr>sp_nullable := True\<rparr>)]"

definition MessageUpdatedEvent :: "rat \<Rightarrow> schema_class" where
  "MessageUpdatedEvent now = plain_class [
     (''threadId'', required_string),
     (''message'', (a_record (message_record now))\<lparr>sp_required := True\<rparr>)]"

definition NodeCapabilitiesEvent :: "schema_class" where
  "NodeCapabilitiesEvent = plain_class [(''deviceLinking'', a_boolean)]"

definition PeerLinkUpdatedEvent :: "schema_class" where
  "PeerLinkUpdatedEvent = plain_class [
     (''peerLinkId'', required_string),
     (''threadId'', nullable_string\<lparr>sp_trim := False\<rparr>),
     (''state'', (an_enum [''initiating'', ''invite_created'', ''handshake_sent'', ''session_established'', ''established'', ''failed'', ''expired'', ''revoked''])\<lparr>sp_required := True\<rparr>),
     (''peerAccountId'', nullable_string\<lparr>sp_trim := False\<rparr>),
     (''sessionState'', nullable_string\<lparr>sp_trim := False\<rparr>),
     (''lastErrorMessage'', nullable_string\<lparr>sp_trim := False\<rparr>)]"

definition ThreadIndexUpdatedEvent :: "schema_class" where
  "ThreadIndexUpdatedEvent = plain_class [
     (''threadId'', required_string),
     (''lastActivityAtMs'', a_number),
     (''preview'', nullable_string\<lparr>sp_trim := False\<rparr>),
     (''unreadCount'', an_int\<lparr>sp_default := num 0, sp_clamp := True, sp_min := Some 0\<rparr>),
     (''unreadByChannelId'', an_object\<lparr>sp_default := Obj []\<rparr>)]"

definition ThreadRemovedEvent :: "schema_class" where
  "ThreadRemovedEvent = plain_class [(''threadId'', required_string)]"

definition ThreadUpdatedEvent :: "schema_class" where
  "ThreadUpdatedEvent = plain_class [
     (''thread'', (a_record (thread_record))\<lparr>sp_required := True\<rparr>)]"

text \<open>
  \<open>GroupMembersUpdatedEvent\<close> has its own constructor: members of another group are rebuilt with the
  group of the event.
\<close>

fun rehome_members :: "string \<Rightarrow> jsval list \<Rightarrow> js_error + jsval list" where
  "rehome_members gid [] = Inr []"
| "rehome_members gid (m # ms) =
     (case member_record (Obj (spread (own_props m) [(''groupId'', Str gid)])) of Inl e \<Rightarrow> Inl e
      | Inr x \<Rightarrow> (case rehome_members gid ms of Inl e \<Rightarrow> Inl e | Inr xs \<Rightarrow> Inr (x # xs)))"

definition GroupMembersUpdatedEvent :: "jsval \<Rightarrow> js_error + jsval" where
  "GroupMembersUpdatedEvent raw =
     (if raw = Null then Inl TypeError
      else let gid = nonEmptyString (getp raw ''groupId'') in
        case rehome_members gid (elements (getp raw ''members'')) of Inl e \<Rightarrow> Inl e
        | Inr members \<Rightarrow> if gid = [] then Inl (Error ''GroupMembersUpdatedEvent: groupId required'')
            else Inr (Obj [(''groupId'', Str gid), (''members'', Arr members)]))"

section \<open>All of them\<close>

definition events_classes :: "rat \<Rightarrow> schema_class list" where
  "events_classes now = [ChannelRemovedEvent, ChannelUpsertedEvent, ConnectRequestUpdatedEvent, ConnectionStateEvent,
     ContactRemovedEvent, ContactUpdatedEvent now, DeviceLinkUpdatedEvent, GroupRemovedEvent,
     GroupUpdatedEvent, InboxCaughtUpEvent, MailboxDepositQuarantinedEvent, MeshStatusUpdatedEvent,
     MessageDepositedEvent now, MessageRemovedEvent, MessageStatusEvent, MessageUpdatedEvent now,
     NodeCapabilitiesEvent, PeerLinkUpdatedEvent, ThreadIndexUpdatedEvent, ThreadRemovedEvent,
     ThreadUpdatedEvent]"

lemmas events_defs = ChannelRemovedEvent_def ChannelUpsertedEvent_def ConnectRequestUpdatedEvent_def
  ConnectionStateEvent_def ContactRemovedEvent_def ContactUpdatedEvent_def DeviceLinkUpdatedEvent_def
  GroupRemovedEvent_def GroupUpdatedEvent_def InboxCaughtUpEvent_def MailboxDepositQuarantinedEvent_def
  MeshStatusUpdatedEvent_def MessageDepositedEvent_def MessageRemovedEvent_def MessageStatusEvent_def
  MessageUpdatedEvent_def NodeCapabilitiesEvent_def PeerLinkUpdatedEvent_def ThreadIndexUpdatedEvent_def
  ThreadRemovedEvent_def ThreadUpdatedEvent_def

end
