(* ===== verification/Payloads.thy ===== *)
theory Payloads
  imports Nested_Records Channels GroupStore
begin

text \<open>
  The versioned payloads inside encrypted deposits (\<open>src/records/payloads\<close>): the schema of each kind
  with its additional checks, and the slug of a channel label.
\<close>

definition MESSAGE_KIND :: string where "MESSAGE_KIND = ''rez.chat.message.v1''"
definition MESSAGE_EDIT_KIND :: string where "MESSAGE_EDIT_KIND = ''rez.chat.message.edit.v1''"
definition MESSAGE_TOMBSTONE_KIND :: string where "MESSAGE_TOMBSTONE_KIND = ''rez.chat.message.tombstone.v1''"
definition REACTION_KIND :: string where "REACTION_KIND = ''rez.chat.reaction.v1''"
definition IMAGE_KIND :: string where "IMAGE_KIND = ''rez.image.v1''"
definition AVATAR_KIND :: string where "AVATAR_KIND = ''rez.avatar.v1''"
definition SYSTEM_EVENT_KIND :: string where "SYSTEM_EVENT_KIND = ''rez.chat.system-event.v1''"
definition CONNECT_REQUEST_KIND :: string where "CONNECT_REQUEST_KIND = ''rez.connect-request.v1''"
definition CONNECT_ACCEPTED_KIND :: string where "CONNECT_ACCEPTED_KIND = ''rez.chat.connect-accepted.v1''"
definition ACCOUNT_STATE_EVENT_KIND :: string where "ACCOUNT_STATE_EVENT_KIND = ''rez.account.state.v1''"
definition SIBLING_SYNC_KIND :: string where "SIBLING_SYNC_KIND = ''rez.chat.sibling-sync.v1''"
definition MESSAGE_COMMIT_ACK_KIND :: string where "MESSAGE_COMMIT_ACK_KIND = ''rez.chat.commit-ack.v1''"

definition GROUP_OPS :: "string list" where
  "GROUP_OPS = [''rename'', ''kick'', ''setRole'', ''leave'', ''channel.create'', ''channel.delete'', ''channels.sync_request'', ''group.state'', ''member.join'', ''member.contact'', ''setAvatar'']"
definition GROUP_OP_ROLES :: "string list" where
  "GROUP_OP_ROLES = [''admin'', ''member'']"
definition ACCOUNT_STATE_OPS :: "string list" where
  "ACCOUNT_STATE_OPS = [''contact.upsert'', ''contact.remove'', ''activation.baselineComplete'', ''activation.baselineRequest'']"
definition SIBLING_SYNC_OPS :: "string list" where
  "SIBLING_SYNC_OPS = [''digest'', ''inventory'', ''transfer'', ''transferAck'']"
definition REACTION_OPS :: "string list" where
  "REACTION_OPS = [''add'', ''remove'']"
definition SYSTEM_EVENTS :: "string list" where
  "SYSTEM_EVENTS = [''member.join'', ''connect.accepted'']"

section \<open>Messages and mutations\<close>

text \<open>\<open>CHANNEL_ID_PATTERN.test\<close>, and the check that a given channel id matches it.\<close>

definition channel_check :: "string \<Rightarrow> jsval \<Rightarrow> js_error option" where
  "channel_check name r = asserts [(getp r ''channelId'' = Str [] \<or> isValidChannelId (string_or_empty (getp r ''channelId'')),
     name @ ''.channelId must match the pattern'')]"

definition ChatMessagePayloadV1 :: schema_class where
  "ChatMessagePayloadV1 = wire_class MESSAGE_KIND [
     (''threadId'', required_string),
     (''senderAccountId'', required_string),
     (''messageId'', required_string),
     (''text'', a_string\<lparr>sp_trim := False, sp_maxLength := Some 8192\<rparr>),
     (''inReplyToMessageId'', a_string),
     (''channelId'', a_string\<lparr>sp_maxLength := Some 64\<rparr>),
     (''signerPublicKeyB64'', a_string),
     (''senderDeviceId'', a_string),
     (''senderAuthorityEpoch'', an_int\<lparr>sp_nullable := True\<rparr>),
     (''senderCertChain'', an_array),
     (''contentHash'', a_string),
     (''sig'', a_string)] (channel_check ''ChatMessagePayloadV1'')"

definition ChatMessageEditPayloadV1 :: schema_class where
  "ChatMessageEditPayloadV1 = wire_class MESSAGE_EDIT_KIND [
     (''threadId'', required_string),
     (''targetMessageId'', required_string),
     (''newText'', a_string\<lparr>sp_trim := False, sp_maxLength := Some 8192\<rparr>),
     (''senderAccountId'', required_string),
     (''editedAtMs'', an_int\<lparr>sp_required := True\<rparr>),
     (''targetFingerprint'', a_string),
     (''signerPublicKeyB64'', a_string),
     (''senderDeviceId'', a_string),
     (''senderAuthorityEpoch'', an_int\<lparr>sp_nullable := True\<rparr>),
     (''senderCertChain'', an_array),
     (''contentHash'', a_string),
     (''sig'', a_string)] (\<lambda>_. None)"

definition ChatMessageTombstonePayloadV1 :: schema_class where
  "ChatMessageTombstonePayloadV1 = wire_class MESSAGE_TOMBSTONE_KIND [
     (''threadId'', required_string),
     (''targetMessageId'', required_string),
     (''senderAccountId'', required_string),
     (''tombstonedAtMs'', an_int\<lparr>sp_required := True\<rparr>),
     (''targetFingerprint'', a_string),
     (''signerPublicKeyB64'', a_string),
     (''senderDeviceId'', a_string),
     (''senderAuthorityEpoch'', an_int\<lparr>sp_nullable := True\<rparr>),
     (''senderCertChain'', an_array),
     (''contentHash'', a_string),
     (''sig'', a_string)] (\<lambda>_. None)"

definition ChatReactionPayloadV1 :: schema_class where
  "ChatReactionPayloadV1 = wire_class REACTION_KIND [
     (''threadId'', required_string),
     (''targetMessageId'', required_string),
     (''emoji'', required_string\<lparr>sp_maxLength := Some 16\<rparr>),
     (''op'', (an_enum REACTION_OPS)\<lparr>sp_required := True\<rparr>),
     (''senderAccountId'', required_string),
     (''createdAtMs'', an_int\<lparr>sp_required := True\<rparr>),
     (''targetFingerprint'', a_string),
     (''signerPublicKeyB64'', a_string),
     (''senderDeviceId'', a_string),
     (''senderAuthorityEpoch'', an_int\<lparr>sp_nullable := True\<rparr>),
     (''senderCertChain'', an_array),
     (''contentHash'', a_string),
     (''sig'', a_string)] (\<lambda>_. None)"

definition ChatImagePayloadV1 :: schema_class where
  "ChatImagePayloadV1 = wire_class IMAGE_KIND [
     (''fileName'', required_string\<lparr>sp_maxLength := Some 255\<rparr>),
     (''mimeType'', a_string\<lparr>sp_default := Str ''application/octet-stream'', sp_maxLength := Some 255\<rparr>),
     (''fileSizeBytes'', an_int\<lparr>sp_required := True\<rparr>),
     (''fileHashHex'', required_string\<lparr>sp_lowercase := True, sp_validate := must_be_hex64 ''64-char hex SHA-256''\<rparr>),
     (''text'', a_string\<lparr>sp_trim := False\<rparr>),
     (''channelId'', a_string\<lparr>sp_maxLength := Some 64\<rparr>)] (channel_check ''ChatImagePayloadV1'')"

definition ChatAvatarPayloadV1 :: schema_class where
  "ChatAvatarPayloadV1 = wire_class AVATAR_KIND [
     (''fileHashHex'', required_string\<lparr>sp_lowercase := True, sp_validate := must_be_hex64 ''64-char hex SHA-256''\<rparr>),
     (''fileDataB64'', required_string\<lparr>sp_trim := False, sp_maxLength := Some 4194304\<rparr>)] (\<lambda>_. None)"

definition ChatSystemEventPayloadV1 :: schema_class where
  "ChatSystemEventPayloadV1 = wire_class SYSTEM_EVENT_KIND [
     (''kind'', required_string\<lparr>sp_default := Str SYSTEM_EVENT_KIND\<rparr>),
     (''event'', (an_enum SYSTEM_EVENTS)\<lparr>sp_required := True\<rparr>),
     (''groupId'', a_string),
     (''actorAccountId'', required_string),
     (''actorDisplayName'', a_string\<lparr>sp_trim := False, sp_maxLength := Some 128\<rparr>),
     (''actedAtMs'', an_int\<lparr>sp_required := True\<rparr>)] (\<lambda>_. None)"

definition ConnectRequestPayloadV1 :: schema_class where
  "ConnectRequestPayloadV1 = wire_class CONNECT_REQUEST_KIND [
     (''requestId'', required_string),
     (''requesterAccountId'', required_string),
     (''inviteCode'', required_string),
     (''groupId'', a_string),
     (''displayName'', a_string\<lparr>sp_trim := False, sp_maxLength := Some 128\<rparr>),
     (''createdAtMs'', an_int\<lparr>sp_required := True\<rparr>)] (\<lambda>_. None)"

definition ChatConnectAcceptedPayloadV1 :: schema_class where
  "ChatConnectAcceptedPayloadV1 = wire_class CONNECT_ACCEPTED_KIND [
     (''senderAccountId'', required_string),
     (''acceptorDisplayName'', a_string\<lparr>sp_trim := False, sp_maxLength := Some 128\<rparr>),
     (''actedAtMs'', an_int\<lparr>sp_required := True\<rparr>)] (\<lambda>_. None)"

section \<open>Group operations\<close>

definition MAX_CONTACTS_PER_OP :: nat where "MAX_CONTACTS_PER_OP = 256"
definition MAX_TITLE_LENGTH :: nat where "MAX_TITLE_LENGTH = 128"
definition MAX_DISPLAY_NAME_LENGTH :: nat where "MAX_DISPLAY_NAME_LENGTH = 128"

text \<open>The string a constructed record holds in a field.\<close>

definition sget :: "jsval \<Rightarrow> string \<Rightarrow> string" where
  "sget r k = string_or_empty (getp r k)"

definition avatar_checks :: "jsval \<Rightarrow> (bool \<times> string) list" where
  "avatar_checks r =
     [(is_hex64 (sget r ''avatarFileHash''), ''GroupOpPayloadV1.'' @ sget r ''op'' @ '': avatarFileHash must be 64-char hex SHA-256''),
      (sget r ''avatarDataB64'' \<noteq> [], ''GroupOpPayloadV1.'' @ sget r ''op'' @ '': avatarDataB64 required with a non-empty avatarFileHash'')]"

definition contact_checks :: "jsval \<Rightarrow> (bool \<times> string) list" where
  "contact_checks c =
     [(is_plain_object c, ''GroupOpPayloadV1.member.contact: each contact must be an object''),
      (sget c ''accountId'' \<noteq> [], ''GroupOpPayloadV1.member.contact: each contact requires accountId''),
      (sget c ''inboxId'' \<noteq> [], ''GroupOpPayloadV1.member.contact: each contact requires inboxId''),
      (length (sget c ''displayName'') \<le> MAX_DISPLAY_NAME_LENGTH, ''GroupOpPayloadV1.member.contact: displayName exceeds 128'')]"

definition group_op_checks :: "jsval \<Rightarrow> (bool \<times> string) list" where
  "group_op_checks r =
     (let op = sget r ''op''; msg = (\<lambda>t. ''GroupOpPayloadV1.'' @ op @ t) in
      if op = ''rename'' \<or> op = ''group.state'' then
        [(sget r ''title'' \<noteq> [], msg '': title required''), (length (sget r ''title'') \<le> MAX_TITLE_LENGTH, msg '': title exceeds 128 chars'')]
        @ (if sget r ''avatarFileHash'' \<noteq> [] then avatar_checks r else [])
      else if op = ''setAvatar'' then
        (if sget r ''avatarFileHash'' \<noteq> [] then avatar_checks r
         else [(sget r ''avatarDataB64'' = [], msg '': avatarDataB64 must be empty when clearing the photo'')])
      else if op = ''kick'' \<or> op = ''leave'' then [(sget r ''accountId'' \<noteq> [], msg '': accountId required'')]
      else if op = ''setRole'' then
        [(sget r ''accountId'' \<noteq> [], msg '': accountId required''), (sget r ''role'' \<in> set GROUP_OP_ROLES, msg '': role must be one of admin|member'')]
      else if op = ''channel.create'' \<or> op = ''channel.delete'' then
        [(sget r ''channelId'' \<noteq> [], msg '': channelId required''), (isValidChannelId (sget r ''channelId''), msg '': channelId must match the pattern'')]
      else if op = ''member.join'' then
        [(sget r ''accountId'' \<noteq> [], msg '': accountId required''), (sget r ''inviteId'' \<noteq> [], msg '': inviteId required'')]
      else if op = ''member.contact'' then
        [(elements (getp r ''contacts'') \<noteq> [], msg '': contacts required (non-empty array)''),
         (length (elements (getp r ''contacts'')) \<le> MAX_CONTACTS_PER_OP, msg '': contacts exceeds 256'')]
        @ concat (map contact_checks (elements (getp r ''contacts'')))
      else [])"

definition GroupOpPayloadV1 :: schema_class where
  "GroupOpPayloadV1 = wire_class GROUP_OP_KIND [
     (''op'', (an_enum GROUP_OPS)\<lparr>sp_required := True\<rparr>),
     (''groupId'', required_string),
     (''actedAtMs'', an_int\<lparr>sp_required := True\<rparr>),
     (''groupOpId'', required_string),
     (''title'', a_string),
     (''accountId'', a_string),
     (''role'', a_string\<lparr>sp_trim := False\<rparr>),
     (''channelId'', a_string\<lparr>sp_maxLength := Some 64\<rparr>),
     (''label'', a_string\<lparr>sp_trim := False, sp_maxLength := Some 128\<rparr>),
     (''inviteId'', a_string),
     (''displayName'', a_string\<lparr>sp_trim := False, sp_maxLength := Some 128\<rparr>),
     (''contacts'', an_array),
     (''joinerSignerPublicKeyB64'', a_string),
     (''joinerSigB64'', a_string),
     (''avatarFileHash'', a_string\<lparr>sp_lowercase := True\<rparr>),
     (''avatarDataB64'', a_string\<lparr>sp_trim := False, sp_maxLength := Some 4194304\<rparr>)] (\<lambda>r. asserts (group_op_checks r))"

section \<open>Account state, sibling synchronisation, commit acknowledgement\<close>

definition op_required_fields :: "string \<Rightarrow> string list" where
  "op_required_fields op = (if op = ''contact.upsert'' then [''accountId'', ''relationshipState'']
     else if op = ''contact.remove'' then [''accountId'']
     else if op = ''activation.baselineComplete'' \<or> op = ''activation.baselineRequest'' then [''activationId''] else [])"

definition dev_prefix :: "jsval \<Rightarrow> bool" where
  "dev_prefix r = prefix ''rez:dev:'' (sget r ''originDeviceId'')"

definition account_state_checks :: "jsval \<Rightarrow> (bool \<times> string) list" where
  "account_state_checks r =
     [(dev_prefix r, ''AccountStateEventPayloadV1.originDeviceId must be a rez:dev: id'')]
     @ map (\<lambda>f. (sget (getp r ''payload'') f \<noteq> [], ''AccountStateEventPayloadV1 '' @ sget r ''op'' @ '' payload.'' @ f @ '' must be a non-empty string''))
         (op_required_fields (sget r ''op''))"

definition AccountStateEventPayloadV1 :: schema_class where
  "AccountStateEventPayloadV1 = wire_class ACCOUNT_STATE_EVENT_KIND [
     (''op'', (an_enum ACCOUNT_STATE_OPS)\<lparr>sp_required := True\<rparr>),
     (''lamport'', an_int\<lparr>sp_required := True\<rparr>),
     (''originDeviceId'', required_string),
     (''originDevicePublicKeyB64'', required_string),
     (''payload'', an_object\<lparr>sp_required := True, sp_maxJsonBytes := Some 4096\<rparr>),
     (''issuedAtMs'', an_int\<lparr>sp_required := True\<rparr>),
     (''sig'', required_string)] (\<lambda>r. asserts (account_state_checks r))"

definition TRANSFER_MAX_FACTS :: nat where "TRANSFER_MAX_FACTS = 8"
definition INVENTORY_MAX_ITEMS :: nat where "INVENTORY_MAX_ITEMS = 2000"

definition sibling_checks :: "jsval \<Rightarrow> (bool \<times> string) list" where
  "sibling_checks r =
     (let op = sget r ''op''; items = elements (getp r ''items''); facts = elements (getp r ''facts'') in
      [(dev_prefix r, ''SiblingSyncPayloadV1.originDeviceId must be a rez:dev: id'')]
      @ (if op = ''digest'' then
           [(is_integer (getp r ''messageCount'') \<and> num_at_least 0 (getp r ''messageCount''), ''SiblingSyncPayloadV1 digest requires messageCount >= 0''),
            (sget r ''setDigest'' \<noteq> [], ''SiblingSyncPayloadV1 digest requires setDigest'')] else [])
      @ (if op = ''inventory'' then
           (length items \<le> INVENTORY_MAX_ITEMS, ''SiblingSyncPayloadV1 inventory exceeds 2000 items'')
           # map (\<lambda>i. (sget i ''fingerprint'' \<noteq> [], ''SiblingSyncPayloadV1 inventory items require a fingerprint'')) items else [])
      @ (if op = ''transfer'' then
           (facts \<noteq> [] \<and> length facts \<le> TRANSFER_MAX_FACTS, ''SiblingSyncPayloadV1 transfer requires 1..8 facts'')
           # map (\<lambda>f. (is_plain_object f, ''SiblingSyncPayloadV1 transfer facts must be objects'')) facts else [])
      @ (if op = ''transferAck'' then
           map (\<lambda>fp. (is_string fp \<and> fp \<noteq> Str [], ''SiblingSyncPayloadV1 transferAck fingerprints must be non-empty strings''))
             (elements (getp r ''admittedFingerprints'') @ elements (getp r ''deferredFingerprints'')) else []))"

definition SiblingSyncPayloadV1 :: schema_class where
  "SiblingSyncPayloadV1 = wire_class SIBLING_SYNC_KIND [
     (''op'', (an_enum SIBLING_SYNC_OPS)\<lparr>sp_required := True\<rparr>),
     (''threadId'', required_string),
     (''originDeviceId'', required_string),
     (''originDevicePublicKeyB64'', required_string),
     (''issuedAtMs'', an_int\<lparr>sp_required := True\<rparr>),
     (''messageCount'', an_int\<lparr>sp_nullable := True\<rparr>),
     (''setDigest'', a_string),
     (''items'', an_array),
     (''replyToDigest'', a_boolean),
     (''facts'', an_array),
     (''admittedFingerprints'', an_array),
     (''deferredFingerprints'', an_array),
     (''sig'', required_string)] (\<lambda>r. asserts (sibling_checks r))"

definition commit_ack_checks :: "jsval \<Rightarrow> (bool \<times> string) list" where
  "commit_ack_checks r =
     [(is_integer (getp r ''recipientAuthorityEpoch'') \<and> num_at_least 0 (getp r ''recipientAuthorityEpoch''),
       ''MessageCommitAckV1.recipientAuthorityEpoch must be an integer >= 0''),
      (is_integer (getp r ''committedAtMs'') \<and> positive_num (getp r ''committedAtMs''),
       ''MessageCommitAckV1.committedAtMs must be an integer > 0'')]"

definition MessageCommitAckV1 :: schema_class where
  "MessageCommitAckV1 = wire_class MESSAGE_COMMIT_ACK_KIND [
     (''messageId'', required_string),
     (''messageFingerprint'', required_string),
     (''threadId'', required_string),
     (''recipientAccountId'', required_string),
     (''recipientDeviceId'', a_string),
     (''recipientAuthorityEpoch'', an_int),
     (''signerPublicKeyB64'', required_string),
     (''committedAtMs'', an_int\<lparr>sp_required := True\<rparr>),
     (''recipientCertChain'', an_array),
     (''sig'', required_string)] (\<lambda>r. asserts (commit_ack_checks r))"

definition payload_classes :: "schema_class list" where
  "payload_classes = [ChatMessagePayloadV1, ChatMessageEditPayloadV1, ChatMessageTombstonePayloadV1, ChatReactionPayloadV1,
     ChatImagePayloadV1, ChatAvatarPayloadV1, ChatSystemEventPayloadV1, ConnectRequestPayloadV1, ChatConnectAcceptedPayloadV1,
     GroupOpPayloadV1, AccountStateEventPayloadV1, SiblingSyncPayloadV1, MessageCommitAckV1]"

section \<open>Channel slugs\<close>

text \<open>
  \<open>normalize("NFKD")\<close> followed by the removal of combining marks, on code units below 256: accented
  letters lose their marks, superscripts and ordinals become plain, and what decomposes into
  characters outside the slug alphabet stays outside it.
\<close>

definition nfkd_base :: "char \<Rightarrow> string" where
  "nfkd_base c = (let n = of_char c :: nat in
     if n = 160 \<or> n = 168 \<or> n = 175 \<or> n = 180 \<or> n = 184 then '' ''
     else if n = 170 \<or> 224 \<le> n \<and> n \<le> 229 then ''a'' else if n = 231 then ''c''
     else if 232 \<le> n \<and> n \<le> 235 then ''e'' else if 236 \<le> n \<and> n \<le> 239 then ''i''
     else if n = 241 then ''n'' else if n = 186 \<or> 242 \<le> n \<and> n \<le> 246 then ''o''
     else if 249 \<le> n \<and> n \<le> 252 then ''u'' else if n = 253 \<or> n = 255 then ''y''
     else if n = 178 then ''2'' else if n = 179 then ''3'' else if n = 185 then ''1''
     else if n = 188 then ''1/4'' else if n = 189 then ''1/2'' else if n = 190 then ''3/4''
     else [c])"

text \<open>\<open>replace(/[^a-z0-9_-]+/g, "-")\<close> and \<open>replace(/-+/g, "-")\<close>.\<close>

fun dash_runs :: "bool \<Rightarrow> string \<Rightarrow> string" where
  "dash_runs inside [] = []"
| "dash_runs inside (c # s) = (if slug_char c then c # dash_runs False s
     else (if inside then [] else ''-'') @ dash_runs True s)"

fun one_dash :: "string \<Rightarrow> string" where
  "one_dash (a # b # s) = (if a = CHR ''-'' \<and> b = CHR ''-'' then one_dash (b # s) else a # one_dash (b # s))"
| "one_dash s = s"

definition is_sep :: "char \<Rightarrow> bool" where
  "is_sep c \<longleftrightarrow> c = CHR ''-'' \<or> c = CHR ''_''"

definition slugifyChannelLabel :: "jsval \<Rightarrow> string" where
  "slugifyChannelLabel label =
     (let str = toLowerCase (if nullish label then [] else js_string label);
          stripped = concat (map nfkd_base str);
          slugified = one_dash (dash_runs False stripped);
          trimmed = rev (dropWhile is_sep (rev (dropWhile is_sep slugified)))
      in take 64 trimmed)"

end
