(* ===== verification/SchemaProperties.thy ===== *)
theory SchemaProperties
  imports ApiParams ApiResults ApiEvents Payloads
begin

text \<open>
  Properties of the schema records, stated for every class of the interface between client and server
  and of the wire: declared types and bounds, reading back, and what coercion does to values that are
  not the declared ones.
\<close>

definition all_classes :: "rat \<Rightarrow> schema_class list" where
  "all_classes now = params_classes @ results_classes now @ events_classes now @ payload_classes"

lemma params_wf: "list_all (\<lambda>C. wf_schema (sc_schema C)) params_classes" by code_simp
lemma events_wf: "list_all (\<lambda>C. wf_schema (sc_schema C)) (events_classes now)" by code_simp
lemma results_wf: "list_all (\<lambda>C. wf_schema (sc_schema C)) (results_classes now)" by code_simp
lemma payloads_wf: "list_all (\<lambda>C. wf_schema (sc_schema C)) payload_classes" by code_simp

lemma all_wf: "C \<in> set (all_classes now) \<Longrightarrow> wf_schema (sc_schema C)"
  using params_wf events_wf results_wf payloads_wf by (auto simp: all_classes_def list_all_iff)

lemma params_flat: "list_all (\<lambda>C. list_all (\<lambda>(name, sp). Option.is_none (sp_record sp)) (sc_schema C)) (params_classes @ payload_classes)"
  by code_simp

lemma results_nest: "list_all (\<lambda>C. list_all (\<lambda>(name, sp). nests_records sp) (sc_schema C)) (results_classes now)"
  by (simp add: results_classes_def results_defs plain_class_def nests_records_def nested_laws)

lemma events_nest: "list_all (\<lambda>C. list_all (\<lambda>(name, sp). nests_records sp) (sc_schema C)) (events_classes now)"
  by (simp add: events_classes_def events_defs plain_class_def nests_records_def nested_laws)

lemma all_nest:
  assumes "C \<in> set (all_classes now)" and "(name, sp) \<in> set (sc_schema C)" shows "nests_records sp"
proof (cases "C \<in> set (params_classes @ payload_classes)")
  case True
  then have "Option.is_none (sp_record sp)" using params_flat assms(2) by (fastforce simp: list_all_iff)
  then show ?thesis by (simp add: nests_records_def Option.is_none_def)
next
  case False
  then show ?thesis using results_nest [of now] events_nest [of now] assms by (fastforce simp: all_classes_def list_all_iff)
qed

section \<open>Types and reading back\<close>

text \<open>
  C37. Declared is real: whatever a client or a peer sends, every field of a record that one of the
  program's schema classes constructs has its declared type, trimming, length, range and enumeration,
  and a required field is there.
\<close>

theorem records_are_typed:
  assumes "C \<in> set (all_classes now)" and "new_record C raw = Inr r" and "(name, sp) \<in> set (sc_schema C)"
  shows "typed sp (getp r name)"
  using new_record_typed [OF all_wf [OF assms(1)] assms(2,3)] .

definition list_page :: jsval where
  "list_page = Obj [(''threadId'', Str '' t1 ''), (''limit'', num 1000), (''before'', Null)]"

theorem records_are_typed_instance:
  "new_record ThreadMessagesListParams list_page = Inr (Obj [(''threadId'', Str ''t1''), (''limit'', num 200), (''before'', Null)])
   \<and> typed (an_int\<lparr>sp_default := num 50, sp_clamp := True, sp_min := Some 1, sp_max := Some 200\<rparr>) (num 200)"
proof -
  have r: "new_record ThreadMessagesListParams list_page = Inr (Obj [(''threadId'', Str ''t1''), (''limit'', num 200), (''before'', Null)])"
    by code_simp
  have "ThreadMessagesListParams \<in> set (all_classes 0)" by (simp add: all_classes_def params_classes_def)
  from records_are_typed [OF this r, of "''limit''"] show ?thesis
    using r by (simp add: ThreadMessagesListParams_def plain_class_def getp_def)
qed

text \<open>
  C38. A record survives its own serialisation: constructing it again from what it serialises to gives
  the same record, unless a nullable number of it is null.
\<close>

theorem records_read_back:
  assumes "C \<in> set (all_classes now)" and "new_record C raw = Inr r"
    and "\<forall>(name, sp) \<in> set (sc_schema C). keeps_null sp (getp r name)"
  shows "new_record C r = Inr r"
  using new_record_again [OF all_wf [OF assms(1)] assms(2)] all_nest [OF assms(1)] assms(3) by blast

theorem records_read_back_instance:
  "new_record GroupsListResult (Obj [(''items'', Arr [Obj [(''groupId'', Str '' g1 ''), (''ownerAccountId'', Str ''me''),
       (''createdBy'', Str ''ann''), (''createdAtMs'', num 5)]])]) = new_record GroupsListResult
     (Obj [(''items'', Arr [projr (group_record (Obj [(''groupId'', Str ''g1''), (''ownerAccountId'', Str ''me''),
       (''createdBy'', Str ''ann''), (''createdAtMs'', num 5)]))])])"
proof -
  let ?raw = "Obj [(''items'', Arr [Obj [(''groupId'', Str '' g1 ''), (''ownerAccountId'', Str ''me''),
       (''createdBy'', Str ''ann''), (''createdAtMs'', num 5)]])]"
  let ?r = "Obj [(''items'', Arr [projr (group_record (Obj [(''groupId'', Str ''g1''), (''ownerAccountId'', Str ''me''),
       (''createdBy'', Str ''ann''), (''createdAtMs'', num 5)]))])]"
  have r: "new_record GroupsListResult ?raw = Inr ?r" by code_simp
  have "GroupsListResult \<in> set (all_classes 0)" by (simp add: all_classes_def results_classes_def)
  from records_read_back [OF this r] show ?thesis
    by (simp add: r) (simp add: GroupsListResult_def plain_class_def keeps_null_def)
qed

section \<open>What coercion does to other values\<close>

text \<open>
  A nullable number does not keep null: absent it is stored as null, but null, which is what that
  record serialises to, is \<open>Number(null)\<close> and is read as zero.
\<close>

theorem null_number_reads_zero:
  assumes "sp_type sp = IntT \<or> sp_type sp = NumberT" and "sp_nullable sp" and "\<not> sp_clamp sp"
  shows "coerceField Undef sp = Inr Null \<and> coerceField Null sp = Inr (num 0)"
  using assms by (auto simp: coerceField_def coerceInt_def coerceNumber_def trunc_def)

theorem null_number_reads_zero_instance:
  "new_record DeviceLinkStatusResult (Obj [(''state'', Str ''idle'')]) = Inr (Obj [(''state'', Str ''idle''), (''newDeviceId'', Null),
      (''fingerprint'', Null), (''expiresAtMs'', Null), (''message'', Null)])
   \<and> new_record DeviceLinkStatusResult (Obj [(''state'', Str ''idle''), (''newDeviceId'', Null),
      (''fingerprint'', Null), (''expiresAtMs'', Null), (''message'', Null)])
     = Inr (Obj [(''state'', Str ''idle''), (''newDeviceId'', Null), (''fingerprint'', Null), (''expiresAtMs'', num 0), (''message'', Null)])
   \<and> coerceField Null (an_int\<lparr>sp_nullable := True\<rparr>) = Inr (num 0)"
proof -
  have "coerceField Null (an_int\<lparr>sp_nullable := True\<rparr>) = Inr (num 0)"
    using null_number_reads_zero [of "an_int\<lparr>sp_nullable := True\<rparr>"] by simp
  then show ?thesis by (intro conjI; code_simp?)
qed

text \<open>
  A required enumeration refuses nothing: any value outside it becomes its first entry, which passes
  the check. So \<open>group.setRole\<close> with an unknown role, \<open>creator\<close> included, asks for \<open>admin\<close>, and a group
  operation of an unknown kind is one of the kind \<open>rename\<close>.
\<close>

theorem unknown_enum_is_first:
  assumes "sp = (an_enum (v # vs))\<lparr>sp_required := True\<rparr>" and "\<forall>s. raw = Str s \<longrightarrow> s \<notin> set (v # vs)"
  shows "coerceField raw sp = Inr (Str v) \<and> validateField name (Str v) sp = None"
  using assms by (auto simp: coerceField_def coerceEnumField_def validateField_def required_checks_def bound_checks_def one_of_def
      split: jsval.splits)

theorem unknown_enum_is_first_instance:
  "new_record GroupSetRoleParams (Obj [(''groupId'', Str ''g1''), (''accountId'', Str ''bob''), (''role'', Str ''creator'')])
     = Inr (Obj [(''groupId'', Str ''g1''), (''accountId'', Str ''bob''), (''role'', Str ''admin'')])
   \<and> (\<exists>r. new_record GroupOpPayloadV1 (Obj [(''op'', Str ''archive''), (''groupId'', Str ''g1''), (''actedAtMs'', num 5),
        (''groupOpId'', Str ''o1''), (''title'', Str ''old'')]) = Inr r \<and> getp r ''op'' = Str ''rename'')
   \<and> coerceField (Str ''creator'') ((an_enum [''admin'', ''member''])\<lparr>sp_required := True\<rparr>) = Inr (Str ''admin'')"
proof -
  let ?raw = "Obj [(''op'', Str ''archive''), (''groupId'', Str ''g1''), (''actedAtMs'', num 5), (''groupOpId'', Str ''o1''), (''title'', Str ''old'')]"
  have "coerceField (Str ''creator'') ((an_enum [''admin'', ''member''])\<lparr>sp_required := True\<rparr>) = Inr (Str ''admin'')"
    using unknown_enum_is_first [OF refl, of "Str ''creator''"] by simp
  moreover have "\<not> isl (new_record GroupOpPayloadV1 ?raw) \<and> getp (projr (new_record GroupOpPayloadV1 ?raw)) ''op'' = Str ''rename''"
    by code_simp
  then have "\<exists>r. new_record GroupOpPayloadV1 ?raw = Inr r \<and> getp r ''op'' = Str ''rename''"
    by (cases "new_record GroupOpPayloadV1 ?raw") auto
  moreover have "new_record GroupSetRoleParams (Obj [(''groupId'', Str ''g1''), (''accountId'', Str ''bob''), (''role'', Str ''creator'')])
     = Inr (Obj [(''groupId'', Str ''g1''), (''accountId'', Str ''bob''), (''role'', Str ''admin'')])" by code_simp
  ultimately show ?thesis by blast
qed

end
