(* ===== verification/SignedFacts.thy ===== *)
theory SignedFacts
  imports Payloads "HOL-Library.List_Lexorder" "HOL-Library.Char_ord"
begin

text \<open>
  Signed messages (\<open>src/records/payloads/originalMessageShapes.js\<close>, \<open>memberJoinProof.js\<close>,
  \<open>MessageCommitAckV1.js\<close>, \<open>SiblingSyncPayloadV1.js\<close>): the canonical signed form of a message or
  mutation, its fingerprint, the verifiers, and the digest of a set of fingerprints. Canonical JSON,
  hashing, key derivation, signature and authority verification are the SDK's and are the fields of
  \<open>signing\<close>; \<open>None\<close> of a derivation or a verification is a throw.
\<close>

record signing =
  sg_canonical :: "jsval \<Rightarrow> string"
  sg_sha256Hex :: "string \<Rightarrow> string"
  sg_deriveAccountId :: "string \<Rightarrow> string option"
  sg_deriveDeviceId :: "string \<Rightarrow> string option"
  sg_verify :: "string \<Rightarrow> string \<Rightarrow> string \<Rightarrow> jsval option"
  sg_authority :: "string \<Rightarrow> string \<Rightarrow> jsval list option \<Rightarrow> rat \<Rightarrow> jsval \<Rightarrow> string + string"

section \<open>Kinds and presence\<close>

definition ORIGINAL_MESSAGE_MUTATION_KINDS :: "string list" where
  "ORIGINAL_MESSAGE_MUTATION_KINDS = [MESSAGE_EDIT_KIND, MESSAGE_TOMBSTONE_KIND, REACTION_KIND]"

definition ORIGINAL_MESSAGE_KINDS :: "string list" where
  "ORIGINAL_MESSAGE_KINDS = MESSAGE_KIND # ORIGINAL_MESSAGE_MUTATION_KINDS"

definition KIND_CONTENT_FIELDS :: "string \<Rightarrow> string list option" where
  "KIND_CONTENT_FIELDS kind =
     (if kind = MESSAGE_KIND then Some [''threadId'', ''messageId'', ''text'', ''inReplyToMessageId'', ''channelId'']
      else if kind = MESSAGE_EDIT_KIND then Some [''threadId'', ''targetMessageId'', ''targetFingerprint'', ''newText'', ''editedAtMs'']
      else if kind = MESSAGE_TOMBSTONE_KIND then Some [''threadId'', ''targetMessageId'', ''targetFingerprint'', ''tombstonedAtMs'']
      else if kind = REACTION_KIND then Some [''threadId'', ''targetMessageId'', ''targetFingerprint'', ''emoji'', ''op'', ''createdAtMs'']
      else None)"

definition str_of :: "jsval \<Rightarrow> string" where
  "str_of value = trim (string_or_empty value)"

definition isOriginalMessageKind :: "string \<Rightarrow> bool" where
  "isOriginalMessageKind kind \<longleftrightarrow> kind \<in> set ORIGINAL_MESSAGE_KINDS"

definition isOriginalMessageMutationKind :: "string \<Rightarrow> bool" where
  "isOriginalMessageMutationKind kind \<longleftrightarrow> kind \<in> set ORIGINAL_MESSAGE_MUTATION_KINDS"

definition epoch_ok :: "jsval \<Rightarrow> bool" where
  "epoch_ok e \<longleftrightarrow> is_integer e \<and> num_at_least 0 e"

definition object_arg :: "jsval \<Rightarrow> jsval" where
  "object_arg v = (if is_object v then v else Obj [])"

definition auth_flags :: "jsval \<Rightarrow> bool list" where
  "auth_flags p = [str_of (getp p ''signerPublicKeyB64'') \<noteq> [], epoch_ok (getp p ''senderAuthorityEpoch''),
     str_of (getp p ''contentHash'') \<noteq> [], str_of (getp p ''sig'') \<noteq> []]"

definition originalMessageAuthPresence :: "jsval \<Rightarrow> string" where
  "originalMessageAuthPresence payload =
     (let flags = auth_flags (object_arg payload); present = length (filter id flags) in
      if present = 0 then ''none'' else if present = length flags then ''all'' else ''partial'')"

section \<open>The canonical signed form\<close>

definition is_time_field :: "string \<Rightarrow> bool" where
  "is_time_field f \<longleftrightarrow> f = ''editedAtMs'' \<or> f = ''tombstonedAtMs'' \<or> f = ''createdAtMs''"

fun content_values :: "string \<Rightarrow> jsval \<Rightarrow> string list \<Rightarrow> js_error + fields" where
  "content_values kind p [] = Inr []"
| "content_values kind p (f # fs) =
     (if is_time_field f \<and> \<not> (is_integer (getp p f) \<and> positive_num (getp p f))
      then Inl (Error (''signableOriginalMessagePayload: '' @ kind @ '' requires integer '' @ f @ '' > 0''))
      else case content_values kind p fs of Inl e \<Rightarrow> Inl e
        | Inr rest \<Rightarrow> Inr ((f, if is_time_field f then getp p f else Str (string_or_empty (getp p f))) # rest))"

definition authorship :: "string \<Rightarrow> jsval \<Rightarrow> fields" where
  "authorship kind p = [(''kind'', Str kind), (''senderAccountId'', Str (str_of (getp p ''senderAccountId''))),
     (''signerPublicKeyB64'', Str (str_of (getp p ''signerPublicKeyB64''))),
     (''senderDeviceId'', Str (str_of (getp p ''senderDeviceId''))), (''senderAuthorityEpoch'', getp p ''senderAuthorityEpoch'')]"

definition binding_checks :: "string \<Rightarrow> jsval \<Rightarrow> (bool \<times> string) list" where
  "binding_checks kind out =
     [(str_of (getp out ''threadId'') \<noteq> [], ''signableOriginalMessagePayload: threadId required (thread binding is signed semantics)''),
      (kind = MESSAGE_KIND \<longrightarrow> str_of (getp out ''messageId'') \<noteq> [], ''signableOriginalMessagePayload: messageId required''),
      (isOriginalMessageMutationKind kind \<longrightarrow> str_of (getp out ''targetMessageId'') \<noteq> [], ''signableOriginalMessagePayload: '' @ kind @ '' requires targetMessageId''),
      (isOriginalMessageMutationKind kind \<longrightarrow> str_of (getp out ''targetFingerprint'') \<noteq> [], ''signableOriginalMessagePayload: '' @ kind @ '' requires targetFingerprint'')]"

text \<open>
  The table of content fields is a plain object: an inherited name finds a function there, over which
  the loop of the content fields throws.
\<close>

definition signableOriginalMessagePayload :: "jsval \<Rightarrow> js_error + jsval" where
  "signableOriginalMessagePayload payload =
     (let p = object_arg payload; kind = str_of (getp p ''kind''); contentFields = KIND_CONTENT_FIELDS kind in
      if contentFields = None \<and> \<not> inherited kind
      then Inl (Error (''signableOriginalMessagePayload: not an OriginalMessage kind: '' @ kind))
      else if str_of (getp p ''senderAccountId'') = [] then Inl (Error ''signableOriginalMessagePayload: senderAccountId required'')
      else if str_of (getp p ''signerPublicKeyB64'') = [] then Inl (Error ''signableOriginalMessagePayload: signerPublicKeyB64 required'')
      else if \<not> epoch_ok (getp p ''senderAuthorityEpoch'')
      then Inl (Error ''signableOriginalMessagePayload: senderAuthorityEpoch must be an integer >= 0'')
      else case contentFields of None \<Rightarrow> Inl TypeError
      | Some fs \<Rightarrow> (case content_values kind p fs of Inl e \<Rightarrow> Inl e
        | Inr content \<Rightarrow> let out = Obj (authorship kind p @ content) in
            case asserts (binding_checks kind out) of Some e \<Rightarrow> Inl e | None \<Rightarrow> Inr out))"

definition signableOriginalMessageBytes :: "signing \<Rightarrow> jsval \<Rightarrow> js_error + string" where
  "signableOriginalMessageBytes G payload = (case signableOriginalMessagePayload payload of Inl e \<Rightarrow> Inl e
     | Inr x \<Rightarrow> Inr (sg_canonical G x))"

definition messageFingerprint :: "signing \<Rightarrow> jsval \<Rightarrow> js_error + string" where
  "messageFingerprint G payload = (case signableOriginalMessageBytes G payload of Inl e \<Rightarrow> Inl e
     | Inr b \<Rightarrow> Inr (sg_sha256Hex G b))"

text \<open>
  The thread digest: the set of fingerprints, sorted by code units, one per line.
\<close>

definition fingerprint_list :: "jsval \<Rightarrow> string list" where
  "fingerprint_list v = map string_or_empty (filter (\<lambda>fp. is_string fp \<and> fp \<noteq> Str []) (elements v))"

definition fingerprintSetDigest :: "signing \<Rightarrow> jsval \<Rightarrow> string" where
  "fingerprintSetDigest G fingerprints = sg_sha256Hex G (join [CHR 0x0A] (sort (remdups (fingerprint_list fingerprints))))"

section \<open>Verification\<close>

text \<open>A verdict is the reason of a refusal, or the mode of the authority.\<close>

definition chain_arg :: "jsval \<Rightarrow> jsval list option" where
  "chain_arg v = (if is_array v \<and> elements v \<noteq> [] then Some (elements v) else None)"

definition chain_root :: "jsval list \<Rightarrow> string" where
  "chain_root chain = (case chain of [] \<Rightarrow> [] | c # _ \<Rightarrow> if is_object c then str_of (getp c ''accountIdentityPublicKeyB64'') else [])"

record claim =
  cl_bytes :: string
  cl_sigB64 :: string
  cl_signerPublicKeyB64 :: string
  cl_accountId :: string
  cl_deviceId :: string
  cl_chain :: "jsval list option"
  cl_accountField :: string
  cl_deviceField :: string

definition claim_anchor :: "signing \<Rightarrow> claim \<Rightarrow> string + string" where
  "claim_anchor G c = (case cl_chain c of
       None \<Rightarrow> Inr (cl_signerPublicKeyB64 c)
     | Some chain \<Rightarrow>
         if chain_root chain = [] then Inl ''cert chain root carries no account anchor''
         else if cl_deviceId c = [] then Inl (''cert-mode claim requires '' @ cl_deviceField c)
         else (case sg_deriveDeviceId G (cl_signerPublicKeyB64 c) of
             None \<Rightarrow> Inl ''malformed signerPublicKeyB64''
           | Some expected \<Rightarrow> if expected \<noteq> cl_deviceId c then Inl (cl_deviceField c @ '' is not the self-cert of the signer key'')
               else Inr (chain_root chain)))"

definition verifySignedAccountClaim :: "signing \<Rightarrow> claim \<Rightarrow> rat \<Rightarrow> jsval \<Rightarrow> string + string" where
  "verifySignedAccountClaim G c nowMs revocationState =
     (case claim_anchor G c of Inl reason \<Rightarrow> Inl reason
      | Inr anchor \<Rightarrow> (case sg_deriveAccountId G anchor of
          None \<Rightarrow> Inl ''malformed authority anchor key''
        | Some derived \<Rightarrow>
            if derived \<noteq> cl_accountId c then Inl (''authority anchor does not derive '' @ cl_accountField c)
            else (case sg_verify G (cl_signerPublicKeyB64 c) (cl_bytes c) (cl_sigB64 c) of
                None \<Rightarrow> Inl ''signature verification failed''
              | Some sigOk \<Rightarrow> if sigOk \<noteq> Bool True then Inl ''signature invalid over the canonical bytes''
                  else (case sg_authority G anchor (cl_signerPublicKeyB64 c) (cl_chain c) nowMs revocationState of
                      Inl reason \<Rightarrow> Inl (''account authority rejected: '' @ reason)
                    | Inr mode \<Rightarrow> Inr mode))))"

definition message_claim :: "string \<Rightarrow> jsval \<Rightarrow> claim" where
  "message_claim bytes p = \<lparr> cl_bytes = bytes, cl_sigB64 = str_of (getp p ''sig''),
     cl_signerPublicKeyB64 = str_of (getp p ''signerPublicKeyB64''), cl_accountId = str_of (getp p ''senderAccountId''),
     cl_deviceId = str_of (getp p ''senderDeviceId''), cl_chain = chain_arg (getp p ''senderCertChain''),
     cl_accountField = ''senderAccountId'', cl_deviceField = ''senderDeviceId'' \<rparr>"

definition verifyOriginalMessageForAdmission :: "signing \<Rightarrow> jsval \<Rightarrow> jsval \<Rightarrow> jsval \<Rightarrow> string + string \<times> string" where
  "verifyOriginalMessageForAdmission G payload nowMs revocationState =
     (case nowMs of Num (Fin now) \<Rightarrow>
        (let p = object_arg payload in
         if originalMessageAuthPresence p \<noteq> ''all'' then Inl (''signed-fact envelope group is '' @ originalMessageAuthPresence p)
         else case signableOriginalMessageBytes G p of Inl e \<Rightarrow> Inl ''malformed OriginalMessage''
         | Inr bytes \<Rightarrow> let fingerprint = sg_sha256Hex G bytes in
           if fingerprint \<noteq> str_of (getp p ''contentHash'') then Inl ''contentHash does not match the canonical-bytes fingerprint''
           else (case verifySignedAccountClaim G (message_claim bytes p) now revocationState of
               Inl reason \<Rightarrow> Inl reason | Inr mode \<Rightarrow> Inr (mode, fingerprint)))
      | _ \<Rightarrow> Inl ''nowMs required'')"

section \<open>Commit acknowledgements and sibling synchronisation\<close>

definition commit_ack_signable :: "jsval \<Rightarrow> jsval" where
  "commit_ack_signable p =
     (let epoch = getp p ''recipientAuthorityEpoch''; at_ms = getp p ''committedAtMs'' in
      Obj [(''kind'', Str MESSAGE_COMMIT_ACK_KIND), (''messageId'', Str (str_of (getp p ''messageId''))),
        (''messageFingerprint'', Str (str_of (getp p ''messageFingerprint''))), (''threadId'', Str (str_of (getp p ''threadId''))),
        (''recipientAccountId'', Str (str_of (getp p ''recipientAccountId''))),
        (''recipientDeviceId'', Str (str_of (getp p ''recipientDeviceId''))),
        (''recipientAuthorityEpoch'', if epoch_ok epoch then epoch else num 0),
        (''signerPublicKeyB64'', Str (str_of (getp p ''signerPublicKeyB64''))),
        (''committedAtMs'', if is_integer at_ms \<and> positive_num at_ms then at_ms else num 0)])"

definition ack_claim :: "signing \<Rightarrow> jsval \<Rightarrow> claim" where
  "ack_claim G p = \<lparr> cl_bytes = sg_canonical G (commit_ack_signable p), cl_sigB64 = str_of (getp p ''sig''),
     cl_signerPublicKeyB64 = str_of (getp p ''signerPublicKeyB64''), cl_accountId = str_of (getp p ''recipientAccountId''),
     cl_deviceId = str_of (getp p ''recipientDeviceId''), cl_chain = chain_arg (getp p ''recipientCertChain''),
     cl_accountField = ''recipientAccountId'', cl_deviceField = ''recipientDeviceId'' \<rparr>"

definition verifyCommitAckForAcceptance :: "signing \<Rightarrow> jsval \<Rightarrow> jsval \<Rightarrow> jsval \<Rightarrow> string + string" where
  "verifyCommitAckForAcceptance G ack nowMs revocationState =
     (case nowMs of Num (Fin now) \<Rightarrow>
        (let p = object_arg ack in
         if getp p ''kind'' \<noteq> Str MESSAGE_COMMIT_ACK_KIND then Inl ''not a MessageCommitAckV1 payload''
         else if str_of (getp p ''messageFingerprint'') = [] then Inl ''messageFingerprint required (the claim)''
         else if str_of (getp p ''sig'') = [] then Inl ''sig required''
         else verifySignedAccountClaim G (ack_claim G p) now revocationState)
      | _ \<Rightarrow> Inl ''nowMs required'')"

text \<open>A default of a destructured argument applies to \<open>undefined\<close> only.\<close>

definition or_default :: "jsval \<Rightarrow> jsval \<Rightarrow> jsval" where
  "or_default v d = (if v = Undef then d else v)"

definition sibling_signable :: "jsval \<Rightarrow> jsval" where
  "sibling_signable p = Obj [(''kind'', Str SIBLING_SYNC_KIND), (''op'', getp p ''op''), (''threadId'', getp p ''threadId''),
     (''originDeviceId'', getp p ''originDeviceId''), (''originDevicePublicKeyB64'', getp p ''originDevicePublicKeyB64''),
     (''issuedAtMs'', getp p ''issuedAtMs''),
     (''messageCount'', if is_integer (getp p ''messageCount'') then getp p ''messageCount'' else num 0),
     (''setDigest'', or_default (getp p ''setDigest'') (Str [])), (''items'', or_default (getp p ''items'') (Arr [])),
     (''replyToDigest'', or_default (getp p ''replyToDigest'') (Bool False)), (''facts'', or_default (getp p ''facts'') (Arr [])),
     (''admittedFingerprints'', or_default (getp p ''admittedFingerprints'') (Arr [])),
     (''deferredFingerprints'', or_default (getp p ''deferredFingerprints'') (Arr []))]"

section \<open>Membership consent\<close>

definition MEMBER_JOIN_PROOF_KIND :: string where "MEMBER_JOIN_PROOF_KIND = ''rez.member.join.proof.v1''"

definition normalizeMemberDisplayName :: "jsval \<Rightarrow> string" where
  "normalizeMemberDisplayName v = trim (if nullish v then [] else js_string v)"

definition text_or_empty :: "jsval \<Rightarrow> string" where
  "text_or_empty v = js_string (if truthy v then v else Str [])"

definition memberJoinProofPayload :: "jsval \<Rightarrow> jsval \<Rightarrow> jsval \<Rightarrow> jsval" where
  "memberJoinProofPayload groupId accountId displayName =
     Obj [(''v'', num 1), (''kind'', Str MEMBER_JOIN_PROOF_KIND), (''groupId'', Str (text_or_empty groupId)),
       (''accountId'', Str (text_or_empty accountId)), (''displayName'', Str (normalizeMemberDisplayName displayName))]"

text \<open>
  The account authority: \<open>au_verify\<close> is the verifier on the claimed account, the signer's key, the
  bytes and the signature. \<open>None\<close> of \<open>au_bytes\<close> is a signature that is not base64.
\<close>

record authority =
  au_canonical :: "jsval \<Rightarrow> string"
  au_bytes :: "string \<Rightarrow> string option"
  au_verify :: "string \<Rightarrow> string \<Rightarrow> string \<Rightarrow> string \<Rightarrow> bool"

definition verifyMemberJoinProof :: "authority option \<Rightarrow> jsval \<Rightarrow> jsval \<Rightarrow> jsval \<Rightarrow> jsval \<Rightarrow> jsval \<Rightarrow> bool" where
  "verifyMemberJoinProof auth groupId accountId displayName joinerSignerPublicKeyB64 joinerSigB64 =
     (case auth of None \<Rightarrow> False
      | Some A \<Rightarrow>
        let acct = str_of accountId; pub = str_of joinerSignerPublicKeyB64; sigB64 = str_of joinerSigB64 in
        if acct = [] \<or> pub = [] \<or> sigB64 = [] then False
        else case au_bytes A sigB64 of None \<Rightarrow> False
          | Some sigBytes \<Rightarrow> au_verify A acct pub (au_canonical A (memberJoinProofPayload groupId (Str acct) displayName)) sigBytes)"

end
