(* ===== verification/SignedProperties.thy ===== *)
theory SignedProperties
  imports SignedFacts SchemaProperties LogInvariant
begin

text \<open>
  Properties of signed messages: what a fingerprint stands for, what admission establishes, which
  fields the signature does not cover, the digest of a set of facts, and that the two sides of an
  exchange sign and verify the same bytes.
\<close>

section \<open>Samples\<close>

text \<open>A signing service whose canonical form is the message's identifier and text.\<close>

definition sample_signing :: signing where
  "sample_signing = \<lparr> sg_canonical = (\<lambda>v. str_of (getp v ''messageId'') @ ''/'' @ str_of (getp v ''text'')), sg_sha256Hex = (\<lambda>s. s),
     sg_deriveAccountId = Some, sg_deriveDeviceId = Some, sg_verify = (\<lambda>_ _ _. Some (Bool True)),
     sg_authority = (\<lambda>_ _ _ _ _. Inr ''direct'') \<rparr>"

definition signed_message :: fields where
  "signed_message = [(''kind'', Str MESSAGE_KIND), (''senderAccountId'', Str ''ann''), (''signerPublicKeyB64'', Str ''ann''),
     (''senderDeviceId'', Str []), (''senderAuthorityEpoch'', num 0), (''threadId'', Str ''t1''), (''messageId'', Str ''m1''),
     (''text'', Str ''hi''), (''contentHash'', Str ''m1/hi''), (''sig'', Str ''s1'')]"

section \<open>The signed form\<close>

text \<open>What a recipient reads from a message or a mutation of a kind.\<close>

definition content_view :: "string list \<Rightarrow> jsval \<Rightarrow> fields" where
  "content_view fs p = map (\<lambda>f. (f, if is_time_field f then getp p f else Str (string_or_empty (getp p f)))) fs"

definition read_fields :: "(string \<times> string list) list" where
  "read_fields =
     [(''rez.chat.message.v1'', [''threadId'', ''messageId'', ''text'', ''inReplyToMessageId'', ''channelId'']),
      (''rez.chat.message.edit.v1'', [''threadId'', ''targetMessageId'', ''targetFingerprint'', ''newText'', ''editedAtMs'']),
      (''rez.chat.message.tombstone.v1'', [''threadId'', ''targetMessageId'', ''targetFingerprint'', ''tombstonedAtMs'']),
      (''rez.chat.reaction.v1'', [''threadId'', ''targetMessageId'', ''targetFingerprint'', ''emoji'', ''op'', ''createdAtMs''])]"

lemma content_fields_read: "KIND_CONTENT_FIELDS kind = map_of read_fields kind"
  by (simp add: KIND_CONTENT_FIELDS_def read_fields_def MESSAGE_KIND_def MESSAGE_EDIT_KIND_def MESSAGE_TOMBSTONE_KIND_def REACTION_KIND_def)

definition fact_view :: "jsval \<Rightarrow> fields" where
  "fact_view payload = (let p = object_arg payload; kind = str_of (getp p ''kind'') in
     authorship kind p @ (case map_of read_fields kind of None \<Rightarrow> [] | Some fs \<Rightarrow> content_view fs p))"

lemma content_values_view: "content_values kind p fs = Inr content \<Longrightarrow> content = content_view fs p"
  by (induction fs arbitrary: content) (auto simp: content_view_def split: if_splits sum.splits)

lemma signable_view: "signableOriginalMessagePayload payload = Inr x \<Longrightarrow> x = Obj (fact_view payload)"
  by (auto simp: signableOriginalMessagePayload_def fact_view_def Let_def content_fields_read dest: content_values_view
      split: if_splits option.splits sum.splits)

lemma fingerprint_view: "messageFingerprint G payload = Inr f \<Longrightarrow> f = sg_sha256Hex G (sg_canonical G (Obj (fact_view payload)))"
  by (auto simp: messageFingerprint_def signableOriginalMessageBytes_def dest: signable_view split: sum.splits)

text \<open>
  The signed form is a flat object: its names are distinct, its values are strings and integers. Flat objects with
  the same names in the same order and the same value for each name are the same.
\<close>

definition flat :: "fields \<Rightarrow> bool" where
  "flat kvs \<longleftrightarrow> distinct (map fst kvs) \<and> list_all (\<lambda>(k, v). is_string v \<or> is_integer v) kvs"

lemma content_values_flat: "content_values kind p fs = Inr content \<Longrightarrow> list_all (\<lambda>(k, v). is_string v \<or> is_integer v) content"
  by (induction fs arbitrary: content) (auto split: if_splits sum.splits)

lemma signed_kind: "signableOriginalMessagePayload payload = Inr x \<Longrightarrow> \<exists>fs. map_of read_fields (str_of (getp (object_arg payload) ''kind'')) = Some fs"
  by (auto simp: signableOriginalMessagePayload_def Let_def content_fields_read split: if_splits option.splits)

definition fact_names :: "string list \<Rightarrow> string list" where
  "fact_names fs = [''kind'', ''senderAccountId'', ''signerPublicKeyB64'', ''senderDeviceId'', ''senderAuthorityEpoch''] @ fs"

lemma fact_view_names:
  "map_of read_fields (str_of (getp (object_arg payload) ''kind'')) = Some fs \<Longrightarrow> map fst (fact_view payload) = fact_names fs"
  by (simp add: fact_view_def Let_def authorship_def content_view_def fact_names_def comp_def)

lemma fact_names_distinct: "map_of read_fields kind = Some fs \<Longrightarrow> distinct (fact_names fs)"
  by (auto simp: read_fields_def fact_names_def split: if_splits)

lemma fact_view_flat:
  assumes "signableOriginalMessagePayload payload = Inr x"
  shows "flat (fact_view payload)"
proof -
  let ?p = "object_arg payload" and ?kind = "str_of (getp (object_arg payload) ''kind'')"
  obtain fs where fs: "map_of read_fields ?kind = Some fs" using signed_kind [OF assms] by blast
  then obtain content where c: "content_values ?kind ?p fs = Inr content" and e: "epoch_ok (getp ?p ''senderAuthorityEpoch'')"
    using assms by (auto simp: signableOriginalMessagePayload_def Let_def content_fields_read split: if_splits option.splits sum.splits)
  have "list_all (\<lambda>(k, v). is_string v \<or> is_integer v) (authorship ?kind ?p)" using e by (simp add: authorship_def epoch_ok_def)
  then show ?thesis
    using content_values_flat [OF c] fact_names_distinct [OF fs] fact_view_names [OF fs]
    by (simp add: flat_def fact_view_def Let_def fs flip: content_values_view [OF c])
qed

lemma fields_determined:
  assumes "distinct (map fst xs)" and "map fst xs = map fst ys" and "map_of xs = map_of ys"
  shows "xs = ys"
proof -
  have "map (\<lambda>k. (k, the (map_of zs k))) (map fst zs) = zs" if "distinct (map fst zs)" for zs :: "('a \<times> 'b) list"
    using that by (auto simp: comp_def intro!: map_idI)
  from this [of xs] this [of ys] show ?thesis using assms by simp
qed

lemma fact_view_determined:
  assumes "signableOriginalMessagePayload p = Inr x" and "signableOriginalMessagePayload q = Inr y"
    and "map_of (fact_view p) = map_of (fact_view q)"
  shows "fact_view p = fact_view q"
proof (rule fields_determined [OF _ _ assms(3)])
  have "map_of (fact_view z) ''kind'' = Some (Str (str_of (getp (object_arg z) ''kind'')))" for z
    by (simp add: fact_view_def Let_def authorship_def)
  then have k: "str_of (getp (object_arg p) ''kind'') = str_of (getp (object_arg q) ''kind'')"
    using assms(3) by (metis jsval.inject(3) option.inject)
  obtain fs where "map_of read_fields (str_of (getp (object_arg p) ''kind'')) = Some fs" using signed_kind [OF assms(1)] by blast
  then show "map fst (fact_view p) = map fst (fact_view q)" using fact_view_names [of p fs] fact_view_names [of q fs] k by simp
  show "distinct (map fst (fact_view p))" using fact_view_flat [OF assms(1)] by (simp add: flat_def)
qed

lemma fingerprint_signable: "messageFingerprint G payload = Inr f \<Longrightarrow> \<exists>x. signableOriginalMessagePayload payload = Inr x"
  by (auto simp: messageFingerprint_def signableOriginalMessageBytes_def split: sum.splits)

text \<open>
  C39. A fingerprint names one content: two payloads with one fingerprint agree on everything a recipient reads
  from them (kind, sender, signer, device, epoch, thread, message or target, text and every time of the kind), or
  their signed forms are a collision of the hash: two different strings with one hash. This rests on what canonical
  JSON is for: of flat objects it determines the value of each name, not the order of the names.
\<close>

theorem fingerprint_binds_content:
  assumes canonical: "\<And>a b. flat a \<Longrightarrow> flat b \<Longrightarrow> sg_canonical G (Obj a) = sg_canonical G (Obj b) \<Longrightarrow> map_of a = map_of b"
    and fp: "messageFingerprint G p = Inr f" "messageFingerprint G q = Inr f"
  shows "fact_view p = fact_view q
    \<or> sg_canonical G (Obj (fact_view p)) \<noteq> sg_canonical G (Obj (fact_view q))
      \<and> sg_sha256Hex G (sg_canonical G (Obj (fact_view p))) = sg_sha256Hex G (sg_canonical G (Obj (fact_view q)))"
proof (cases "sg_canonical G (Obj (fact_view p)) = sg_canonical G (Obj (fact_view q))")
  case True
  obtain x y where s: "signableOriginalMessagePayload p = Inr x" "signableOriginalMessagePayload q = Inr y"
    using fp [THEN fingerprint_signable] by blast
  have "map_of (fact_view p) = map_of (fact_view q)" by (rule canonical [OF fact_view_flat [OF s(1)] fact_view_flat [OF s(2)] True])
  then show ?thesis using fact_view_determined [OF s] by blast
next
  case False
  then show ?thesis using fingerprint_view [OF fp(1)] fingerprint_view [OF fp(2)] by simp
qed

text \<open>The order of the names in a payload does not matter.\<close>

lemma reordered_same_fingerprint:
  assumes "map_of kvs = map_of kvs'"
  shows "messageFingerprint G (Obj kvs) = messageFingerprint G (Obj kvs')"
proof -
  have g: "getp (Obj kvs) = getp (Obj kvs')" using assms by (simp add: getp_def fun_eq_iff)
  have "content_values kind (Obj kvs) fs = content_values kind (Obj kvs') fs" for kind fs
    by (induction fs) (auto simp: g cong: sum.case_cong)
  then have c: "content_values kind (Obj kvs) = content_values kind (Obj kvs')" for kind by (simp add: fun_eq_iff)
  have "signableOriginalMessagePayload (Obj kvs) = signableOriginalMessagePayload (Obj kvs')"
    unfolding signableOriginalMessagePayload_def Let_def object_arg_def is_object.simps if_True authorship_def g c ..
  then show ?thesis by (simp add: messageFingerprint_def signableOriginalMessageBytes_def)
qed

subsection \<open>Canonical JSON of flat objects\<close>

text \<open>
  The fields in the order of their names, without white space; strings are quoted, integers in decimal.
\<close>

fun json_tail :: "string \<Rightarrow> string" where
  "json_tail [] = [CHR 0x22]"
| "json_tail (c # s) = (if c = CHR 0x22 \<or> c = CHR 0x5C then [CHR 0x5C, c] else [c]) @ json_tail s"

definition json_string :: "string \<Rightarrow> string" where
  "json_string s = CHR 0x22 # json_tail s"

fun json_value :: "jsval \<Rightarrow> string" where
  "json_value (Str s) = json_string s"
| "json_value v = js_string v"

fun json_fields :: "fields \<Rightarrow> string" where
  "json_fields [] = ''}''"
| "json_fields ((k, v) # kvs) = json_string k @ '':'' @ json_value v @ (if kvs = [] then ''}'' else '','' @ json_fields kvs)"

definition json_object :: "fields \<Rightarrow> string" where
  "json_object kvs = ''{'' @ json_fields (sort_key fst kvs)"

lemma json_tail_split: "json_tail a @ x = json_tail b @ y \<Longrightarrow> a = b \<and> x = y"
proof (induction a arbitrary: b)
  case Nil
  then show ?case by (cases b) (auto split: if_splits)
next
  case (Cons c a)
  then show ?case by (cases b) (auto split: if_splits)
qed

lemma json_string_split: "json_string a @ x = json_string b @ y \<Longrightarrow> a = b \<and> x = y"
  using json_tail_split [of a x b y] by (simp add: json_string_def)

definition decimal_value :: "string \<Rightarrow> nat" where
  "decimal_value s = foldl (\<lambda>n c. 10 * n + (of_char c - 48)) 0 s"

lemma dec_string_value: "decimal_value (dec_string n) = n"
proof (induction n rule: dec_string.induct)
  case (1 n)
  have digit: "of_char (digit_char d) = 48 + d" if "d < 10" for d :: nat using that by (simp add: digit_char_def)
  show ?case
  proof (cases "n < 10")
    case True
    then show ?thesis by (simp add: dec_string.simps [of n] decimal_value_def digit)
  next
    case False
    then have "decimal_value (dec_string n) = 10 * decimal_value (dec_string (n div 10)) + n mod 10"
      by (simp add: dec_string.simps [of n] decimal_value_def digit)
    then show ?thesis using 1 False by simp
  qed
qed

definition number_char :: "char \<Rightarrow> bool" where
  "number_char c \<longleftrightarrow> c = CHR ''-'' \<or> 48 \<le> (of_char c :: nat) \<and> (of_char c :: nat) \<le> 57"

definition int_string :: "int \<Rightarrow> string" where
  "int_string i = (if i < 0 then ''-'' else []) @ dec_string (nat \<bar>i\<bar>)"

lemma integer_string: "is_integer (Num x) \<Longrightarrow> \<exists>i. x = Fin (of_int i) \<and> js_string (Num x) = int_string i"
proof (cases x)
  case (Fin r)
  moreover assume "is_integer (Num x)"
  ultimately obtain i where "r = of_int i" by (metis is_integer.simps(1))
  then show ?thesis using Fin by (auto simp: rat_string_def Let_def int_string_def simp flip: of_int_abs)
qed simp_all

lemma dec_string_number: "c \<in> set (dec_string n) \<Longrightarrow> number_char c \<and> c \<noteq> CHR ''-''"
  using dec_string_digits [of c n] by (auto simp: number_char_def)

lemma int_string_chars: "c \<in> set (int_string i) \<Longrightarrow> number_char c"
  using dec_string_number [of c "nat \<bar>i\<bar>"] by (auto simp: int_string_def number_char_def split: if_splits)

lemma int_string_starts: "\<exists>c s. int_string i = c # s \<and> number_char c"
proof -
  have "int_string i \<noteq> []" using dec_string.simps [of "nat \<bar>i\<bar>"] by (simp add: int_string_def)
  then show ?thesis using int_string_chars [of _ i] by (cases "int_string i") auto
qed

lemma int_string_inj: "int_string i = int_string j \<Longrightarrow> i = j"
proof -
  assume e: "int_string i = int_string j"
  have no_sign: "dec_string n \<noteq> ''-'' @ s" for n s using dec_string_number [of "CHR ''-''" n] by auto
  have sign: "i < 0 \<longleftrightarrow> j < 0"
    using e no_sign [of "nat \<bar>i\<bar>"] no_sign [of "nat \<bar>j\<bar>"] by (simp add: int_string_def split: if_splits) metis
  then have "dec_string (nat \<bar>i\<bar>) = dec_string (nat \<bar>j\<bar>)" using e by (simp add: int_string_def split: if_splits)
  then have "nat \<bar>i\<bar> = nat \<bar>j\<bar>" using dec_string_value by metis
  then show "i = j" using sign by linarith
qed

text \<open>A value is followed by a comma or a brace, which ends it.\<close>

definition after_value :: "string \<Rightarrow> bool" where
  "after_value x \<longleftrightarrow> x \<noteq> [] \<and> \<not> number_char (hd x)"

lemma number_split:
  assumes "\<forall>c \<in> set a. number_char c" "\<forall>c \<in> set b. number_char c" "after_value x" "after_value y" "a @ x = b @ y"
  shows "a = b \<and> x = y"
proof -
  have "takeWhile number_char (c @ z) = c" if "\<forall>d \<in> set c. number_char d" "after_value z" for c z
    using that by (cases z) (auto simp: takeWhile_append after_value_def)
  from this [of a x] this [of b y] show ?thesis using assms by simp
qed

lemma json_value_cases:
  assumes "is_string v \<or> is_integer v"
  obtains a where "v = Str a" | i where "v = num (of_int i)" "json_value v = int_string i"
proof (cases v)
  case (Num x)
  then show ?thesis using assms integer_string [of x] that by auto
qed (use assms that in auto)

lemma json_value_split:
  assumes "is_string v \<or> is_integer v" "is_string w \<or> is_integer w" "after_value x" "after_value y"
    and e: "json_value v @ x = json_value w @ y"
  shows "v = w \<and> x = y"
proof -
  have mixed: "json_string a @ z \<noteq> int_string i @ z'" for a z i z'
    using int_string_starts [of i] by (auto simp: json_string_def number_char_def)
  from assms(1) show ?thesis
  proof (cases v rule: json_value_cases)
    case (1 a)
    from assms(2) show ?thesis
    proof (cases w rule: json_value_cases)
      case (1 b)
      then show ?thesis using \<open>v = Str a\<close> e json_string_split [of a x b y] by simp
    next
      case (2 j)
      then show ?thesis using \<open>v = Str a\<close> e mixed [of a x j y] by simp
    qed
  next
    case (2 i)
    note v = this
    from assms(2) show ?thesis
    proof (cases w rule: json_value_cases)
      case (1 b)
      then show ?thesis using v e mixed [of b y i x] by (metis json_value.simps(1))
    next
      case (2 j)
      have "int_string i = int_string j \<and> x = y"
        using e v(2) 2(2) by (intro number_split assms(3,4)) (auto dest: int_string_chars)
      then show ?thesis using int_string_inj v(1) 2(1) by blast
    qed
  qed
qed

lemma json_fields_inj:
  assumes "list_all (\<lambda>(k, v). is_string v \<or> is_integer v) a" "list_all (\<lambda>(k, v). is_string v \<or> is_integer v) b"
    and "json_fields a = json_fields b"
  shows "a = b"
  using assms
proof (induction a arbitrary: b rule: json_fields.induct)
  case 1
  then show ?case by (cases b rule: json_fields.cases) (simp_all add: json_string_def)
next
  case (2 k v kvs)
  have "b \<noteq> []" using 2(4) by (auto simp: json_string_def)
  then obtain l w kws where b: "b = (l, w) # kws" by (cases b) auto
  let ?rest = "\<lambda>zs. if zs = [] then ''}'' else '','' @ json_fields zs"
  have "k = l \<and> '':'' @ json_value v @ ?rest kvs = '':'' @ json_value w @ ?rest kws"
    using 2(4) unfolding b json_fields.simps by (rule json_string_split)
  then have "k = l" and e: "json_value v @ ?rest kvs = json_value w @ ?rest kws" by simp_all
  have "after_value (?rest zs)" for zs by (simp add: after_value_def number_char_def)
  then have "v = w \<and> ?rest kvs = ?rest kws" using 2(2,3) b by (intro json_value_split e) simp_all
  moreover have "kvs = kws" using calculation 2(1) [of kws] 2(2,3) b by (auto split: if_splits)
  ultimately show ?case using \<open>k = l\<close> b by simp
qed

lemma json_object_canonical:
  assumes "flat a" and "flat b" and "json_object a = json_object b"
  shows "map_of a = map_of b"
proof -
  have "sort_key fst a = sort_key fst b"
    using assms by (intro json_fields_inj) (auto simp: json_object_def flat_def list_all_iff)
  then have "set a = set b" by (metis set_sort)
  then show ?thesis using assms(1,2) map_of_inject_set by (auto simp: flat_def)
qed

definition json_signing :: signing where
  "json_signing = \<lparr> sg_canonical = (\<lambda>v. json_object (own_props v)), sg_sha256Hex = (\<lambda>s. s),
     sg_deriveAccountId = Some, sg_deriveDeviceId = Some, sg_verify = (\<lambda>_ _ _. Some (Bool True)),
     sg_authority = (\<lambda>_ _ _ _ _. Inr ''direct'') \<rparr>"

lemma json_canonical: "flat a \<Longrightarrow> flat b \<Longrightarrow> sg_canonical json_signing (Obj a) = sg_canonical json_signing (Obj b) \<Longrightarrow> map_of a = map_of b"
  by (rule json_object_canonical) (simp_all add: json_signing_def own_props_def)

text \<open>The same message with another signature, and its fields in another order.\<close>

definition resigned_message :: fields where
  "resigned_message = rev (spread signed_message [(''sig'', Str ''s2'')])"

theorem fingerprint_binds_content_instance:
  "\<exists>f. messageFingerprint json_signing (Obj signed_message) = Inr f \<and> messageFingerprint json_signing (Obj resigned_message) = Inr f
     \<and> fact_view (Obj signed_message) = fact_view (Obj resigned_message)"
proof -
  have a: "signableOriginalMessagePayload (Obj signed_message) = Inr (Obj (fact_view (Obj signed_message)))" by code_simp
  have b: "signableOriginalMessagePayload (Obj resigned_message) = Inr (Obj (fact_view (Obj signed_message)))" by code_simp
  let ?f = "sg_sha256Hex json_signing (sg_canonical json_signing (Obj (fact_view (Obj signed_message))))"
  have f: "messageFingerprint json_signing (Obj signed_message) = Inr ?f" and g: "messageFingerprint json_signing (Obj resigned_message) = Inr ?f"
    by (simp_all only: messageFingerprint_def signableOriginalMessageBytes_def a b sum.case)
  have id: "sg_sha256Hex json_signing = (\<lambda>s. s)" by (simp add: json_signing_def)
  have "fact_view (Obj signed_message) = fact_view (Obj resigned_message)"
    using fingerprint_binds_content [OF json_canonical f g] unfolding id by blast
  with f g show ?thesis by blast
qed

text \<open>
  The verification material is outside: the signature, the content hash and the certificate chain
  may be any, the canonical form is the same, so a renewed chain keeps the fingerprint.
\<close>

theorem material_outside_signature:
  assumes "k \<in> {''sig'', ''contentHash'', ''senderCertChain''}"
  shows "messageFingerprint G (Obj (spread kvs [(k, v)])) = messageFingerprint G (Obj kvs)"
proof -
  have g: "getp (Obj (spread kvs [(k, v)])) n = getp (Obj kvs) n" if "k \<noteq> n" for n
    using that by (simp add: getp_spread)
  have c: "content_values kind (Obj (spread kvs [(k, v)])) fs = content_values kind (Obj kvs) fs" if "k \<notin> set fs" for kind fs
    using that by (induction fs) (auto simp: g cong: sum.case_cong)
  have f: "k \<notin> set fs" if "KIND_CONTENT_FIELDS kind = Some fs" for kind fs
    using that assms by (auto simp: KIND_CONTENT_FIELDS_def split: if_splits)
  have n: "k \<noteq> ''kind'' \<and> k \<noteq> ''senderAccountId'' \<and> k \<noteq> ''signerPublicKeyB64'' \<and> k \<noteq> ''senderDeviceId'' \<and> k \<noteq> ''senderAuthorityEpoch''"
    using assms by auto
  have a: "authorship kind (Obj (spread kvs [(k, v)])) = authorship kind (Obj kvs)" for kind
    using n by (simp add: authorship_def g)
  have "signableOriginalMessagePayload (Obj (spread kvs [(k, v)])) = signableOriginalMessagePayload (Obj kvs)"
  proof (cases "KIND_CONTENT_FIELDS (str_of (getp (Obj kvs) ''kind''))")
    case None
    then show ?thesis using n by (simp add: signableOriginalMessagePayload_def Let_def object_arg_def g)
  next
    case (Some fs)
    then show ?thesis using n by (simp add: signableOriginalMessagePayload_def Let_def object_arg_def g a c [OF f [OF Some]] cong: sum.case_cong)
  qed
  then show ?thesis by (simp add: messageFingerprint_def signableOriginalMessageBytes_def)
qed

theorem material_outside_signature_instance:
  "messageFingerprint sample_signing (Obj (spread signed_message [(''senderCertChain'', Arr [])])) = Inr ''m1/hi''"
proof -
  have "messageFingerprint sample_signing (Obj signed_message) = Inr ''m1/hi''" by code_simp
  then show ?thesis using material_outside_signature [of "''senderCertChain''" sample_signing signed_message "Arr []"] by simp
qed

section \<open>Admission\<close>

lemma claim_sound:
  assumes "verifySignedAccountClaim G c now revocation = Inr mode"
  shows "\<exists>anchor. sg_deriveAccountId G anchor = Some (cl_accountId c)
    \<and> sg_verify G (cl_signerPublicKeyB64 c) (cl_bytes c) (cl_sigB64 c) = Some (Bool True)
    \<and> sg_authority G anchor (cl_signerPublicKeyB64 c) (cl_chain c) now revocation = Inr mode
    \<and> (cl_chain c = None \<longrightarrow> anchor = cl_signerPublicKeyB64 c)
    \<and> (cl_chain c \<noteq> None \<longrightarrow> anchor = chain_root (the (cl_chain c)) \<and> sg_deriveDeviceId G (cl_signerPublicKeyB64 c) = Some (cl_deviceId c))"
  using assms by (auto simp: verifySignedAccountClaim_def claim_anchor_def split: sum.splits option.splits if_splits)

text \<open>
  C40. Admission establishes authorship: when a payload is admitted, its content hash is the fingerprint of
  its canonical form, the signature verified over exactly that form under the signing key it names, the
  authority anchor derives the sender's account, is the signing key itself or the root of the chain,
  and with a chain the device id is that of the signing key.
\<close>

theorem admission_establishes_authorship:
  assumes "verifyOriginalMessageForAdmission G p (num now) revocation = Inr (mode, f)" and "is_object p"
  shows "messageFingerprint G p = Inr f \<and> f = str_of (getp p ''contentHash'')
    \<and> sg_verify G (str_of (getp p ''signerPublicKeyB64'')) (sg_canonical G (Obj (fact_view p))) (str_of (getp p ''sig'')) = Some (Bool True)
    \<and> (\<exists>anchor. sg_deriveAccountId G anchor = Some (str_of (getp p ''senderAccountId''))
        \<and> sg_authority G anchor (str_of (getp p ''signerPublicKeyB64'')) (chain_arg (getp p ''senderCertChain'')) now revocation = Inr mode
        \<and> (case chain_arg (getp p ''senderCertChain'') of
             None \<Rightarrow> anchor = str_of (getp p ''signerPublicKeyB64'')
           | Some chain \<Rightarrow> anchor = chain_root chain
               \<and> sg_deriveDeviceId G (str_of (getp p ''signerPublicKeyB64'')) = Some (str_of (getp p ''senderDeviceId''))))"
proof -
  have o: "object_arg p = p" using assms(2) by (simp add: object_arg_def)
  obtain bytes where b: "signableOriginalMessageBytes G p = Inr bytes" "sg_sha256Hex G bytes = str_of (getp p ''contentHash'')"
    "f = sg_sha256Hex G bytes" "verifySignedAccountClaim G (message_claim bytes p) now revocation = Inr mode"
    using assms(1) by (auto simp: verifyOriginalMessageForAdmission_def o Let_def split: if_splits sum.splits)
  have bytes: "bytes = sg_canonical G (Obj (fact_view p))"
    using b(1) by (auto simp: signableOriginalMessageBytes_def dest: signable_view split: sum.splits)
  have fp: "messageFingerprint G p = Inr f" using b(1,3) by (simp add: messageFingerprint_def)
  from claim_sound [OF b(4), unfolded message_claim_def claim.simps] obtain anchor where a: "sg_deriveAccountId G anchor = Some (str_of (getp p ''senderAccountId''))"
    "sg_verify G (str_of (getp p ''signerPublicKeyB64'')) bytes (str_of (getp p ''sig'')) = Some (Bool True)"
    "sg_authority G anchor (str_of (getp p ''signerPublicKeyB64'')) (chain_arg (getp p ''senderCertChain'')) now revocation = Inr mode"
    and c: "chain_arg (getp p ''senderCertChain'') = None \<longrightarrow> anchor = str_of (getp p ''signerPublicKeyB64'')"
    "chain_arg (getp p ''senderCertChain'') \<noteq> None \<longrightarrow> anchor = chain_root (the (chain_arg (getp p ''senderCertChain'')))
       \<and> sg_deriveDeviceId G (str_of (getp p ''signerPublicKeyB64'')) = Some (str_of (getp p ''senderDeviceId''))"
    by (elim exE conjE) (rule that; assumption)
  have "case chain_arg (getp p ''senderCertChain'') of
      None \<Rightarrow> anchor = str_of (getp p ''signerPublicKeyB64'')
    | Some chain \<Rightarrow> anchor = chain_root chain \<and> sg_deriveDeviceId G (str_of (getp p ''signerPublicKeyB64'')) = Some (str_of (getp p ''senderDeviceId''))"
    using c by (cases "chain_arg (getp p ''senderCertChain'')") simp_all
  then show ?thesis using fp b(2,3) bytes a by blast
qed

theorem admission_establishes_authorship_instance:
  "verifyOriginalMessageForAdmission sample_signing (Obj signed_message) (num 5) Undef = Inr (''direct'', ''m1/hi'')
   \<and> messageFingerprint sample_signing (Obj signed_message) = Inr ''m1/hi''"
proof -
  have v: "verifyOriginalMessageForAdmission sample_signing (Obj signed_message) (num 5) Undef = Inr (''direct'', ''m1/hi'')" by code_simp
  show ?thesis using v admission_establishes_authorship [OF v] by simp
qed

section \<open>Digests\<close>

definition line_ok :: "string \<Rightarrow> bool" where
  "line_ok s \<longleftrightarrow> s \<noteq> [] \<and> CHR 0x0A \<notin> set s"

lemma join_first: "join sep (x # xs) = x @ (if xs = [] then [] else sep @ join sep xs)"
  by (cases xs) simp_all

lemma join_line_Nil: "list_all line_ok xs \<Longrightarrow> join [CHR 0x0A] xs = [] \<longleftrightarrow> xs = []"
  by (cases xs) (simp_all add: join_first line_ok_def)

lemma line_of_join:
  assumes "list_all line_ok (x # xs)" shows "takeWhile (\<lambda>c. c \<noteq> CHR 0x0A) (join [CHR 0x0A] (x # xs)) = x"
proof -
  have x: "\<And>c. c \<in> set x \<Longrightarrow> c \<noteq> CHR 0x0A" using assms by (simp only: line_ok_def list.pred_inject(2)) blast
  have "takeWhile (\<lambda>c. c \<noteq> CHR 0x0A) (x @ y) = x @ takeWhile (\<lambda>c. c \<noteq> CHR 0x0A) y" for y
    by (rule takeWhile_append2) (rule x)
  then show ?thesis by (simp only: join_first) (simp del: char.inject)
qed

lemma join_lines_inj:
  "list_all line_ok xs \<Longrightarrow> list_all line_ok ys \<Longrightarrow> join [CHR 0x0A] xs = join [CHR 0x0A] ys \<Longrightarrow> xs = ys"
proof (induction xs arbitrary: ys)
  case Nil
  then show ?case using join_line_Nil by (metis join.simps(1))
next
  case (Cons x xs)
  then obtain y zs where ys: "ys = y # zs" using join_line_Nil by (metis neq_Nil_conv join.simps(1))
  have "x = y" using line_of_join [OF Cons.prems(1)] line_of_join [of y zs] Cons.prems(2,3) ys by simp
  then have t: "(if xs = [] then [] else [CHR 0x0A] @ join [CHR 0x0A] xs) = (if zs = [] then [] else [CHR 0x0A] @ join [CHR 0x0A] zs)"
    using Cons.prems(3) unfolding ys join_first by simp
  then have "xs = zs" using Cons.IH [of zs] Cons.prems(1,2) ys by (auto split: if_splits)
  then show ?case using \<open>x = y\<close> ys by simp
qed

text \<open>
  Equal digests mean equal sets: for fingerprints without line breaks and a hash without collisions,
  the digests of two lists agree exactly when the lists name the same set of fingerprints, in whatever
  order and however often.
\<close>

theorem digest_of_set:
  assumes "\<And>x y. sg_sha256Hex G x = sg_sha256Hex G y \<Longrightarrow> x = y"
    and "list_all line_ok (fingerprint_list xs)" and "list_all line_ok (fingerprint_list ys)"
  shows "fingerprintSetDigest G xs = fingerprintSetDigest G ys \<longleftrightarrow> set (fingerprint_list xs) = set (fingerprint_list ys)"
proof
  assume "fingerprintSetDigest G xs = fingerprintSetDigest G ys"
  then have "join [CHR 0x0A] (sort (remdups (fingerprint_list xs))) = join [CHR 0x0A] (sort (remdups (fingerprint_list ys)))"
    using assms(1) by (simp add: fingerprintSetDigest_def)
  then have "sort (remdups (fingerprint_list xs)) = sort (remdups (fingerprint_list ys))"
    by (rule join_lines_inj [rotated 2]) (use assms(2,3) in \<open>auto simp: list_all_iff\<close>)
  then show "set (fingerprint_list xs) = set (fingerprint_list ys)"
    by (metis set_remdups set_sort)
next
  assume "set (fingerprint_list xs) = set (fingerprint_list ys)"
  then have "sort (remdups (fingerprint_list xs)) = sort (remdups (fingerprint_list ys))"
    by (metis sorted_list_of_set_sort_remdups)
  then show "fingerprintSetDigest G xs = fingerprintSetDigest G ys" by (simp add: fingerprintSetDigest_def)
qed

theorem digest_of_set_instance:
  "fingerprintSetDigest json_signing (Arr [Str ''b'', Str ''a'', Null, Str ''b'']) = fingerprintSetDigest json_signing (Arr [Str ''a'', Str ''b''])"
proof -
  have l: "list_all line_ok (fingerprint_list (Arr [Str ''b'', Str ''a'', Null, Str ''b'']))" "list_all line_ok (fingerprint_list (Arr [Str ''a'', Str ''b'']))"
    by code_simp+
  have inj: "\<And>x y. sg_sha256Hex json_signing x = sg_sha256Hex json_signing y \<Longrightarrow> x = y" by (simp add: json_signing_def)
  have "set (fingerprint_list (Arr [Str ''b'', Str ''a'', Null, Str ''b''])) = set (fingerprint_list (Arr [Str ''a'', Str ''b'']))"
    by (simp add: fingerprint_list_def insert_commute)
  then show ?thesis using digest_of_set [OF inj l] by blast
qed

section \<open>Both sides sign the same bytes\<close>

lemma str_of_coerced: "sp_trim sp \<Longrightarrow> \<not> sp_lowercase sp \<Longrightarrow> \<not> sp_nullable sp \<Longrightarrow> sp_default sp = Undef \<Longrightarrow>
    str_of (coerceString v sp) = str_of v"
  by (cases v) (simp_all add: coerceString_def string_default_def str_of_def lower_if_def Let_def)

lemma coerced_str: "coerceField v sp = Inr w \<Longrightarrow> sp_type sp = StringT \<Longrightarrow> sp_trim sp \<Longrightarrow> \<not> sp_lowercase sp \<Longrightarrow> \<not> sp_nullable sp \<Longrightarrow>
    sp_default sp = Undef \<Longrightarrow> str_of w = str_of v"
  by (auto simp: coerceField_def str_of_coerced)

lemma coerced_integer: "coerceField v sp = Inr w \<Longrightarrow> sp_type sp = IntT \<Longrightarrow> \<not> sp_clamp sp \<Longrightarrow> is_integer v \<Longrightarrow> w = v"
  by (cases v rule: is_integer.cases) (auto simp: coerceField_def coerceInt_def whole_number_trunc whole_number_def)

lemma coerced_nullish: "coerceField v sp = Inr w \<Longrightarrow> sp_type sp = IntT \<Longrightarrow> sp_default sp = Undef \<Longrightarrow> \<not> sp_clamp sp \<Longrightarrow> nullish v
    \<Longrightarrow> w = num 0 \<or> w = Null"
  by (cases v) (auto simp: coerceField_def coerceInt_def trunc_def split: if_splits)

lemma payload_wf: "C \<in> set payload_classes \<Longrightarrow> wf_schema (sc_schema C)"
  using payloads_wf by (simp add: list_all_iff)

lemma ack_signature_stable_eq:
  assumes "new_record MessageCommitAckV1 raw = Inr r" and "is_object raw"
    and "is_integer (getp raw ''recipientAuthorityEpoch'') \<or> nullish (getp raw ''recipientAuthorityEpoch'')"
    and "is_integer (getp raw ''committedAtMs'')"
  shows "commit_ack_signable r = commit_ack_signable raw"
proof -
  have wf: "wf_schema (sc_schema MessageCommitAckV1)" by (rule payload_wf) (simp add: payload_classes_def)
  note field = new_record_field [OF wf assms(1,2)]
  have str: "str_of (getp r k) = str_of (getp raw k)"
    if "k \<in> {''messageId'', ''messageFingerprint'', ''threadId'', ''recipientAccountId'', ''signerPublicKeyB64''}" for k
    by (rule coerced_str [OF field [of k required_string]])
      (use that in \<open>auto simp: MessageCommitAckV1_def wire_class_def\<close>)
  have dev: "str_of (getp r ''recipientDeviceId'') = str_of (getp raw ''recipientDeviceId'')"
    by (rule coerced_str [OF field [of _ a_string]]) (simp_all add: MessageCommitAckV1_def wire_class_def)
  have epoch: "coerceField (getp raw ''recipientAuthorityEpoch'') an_int = Inr (getp r ''recipientAuthorityEpoch'')"
    by (rule field) (simp add: MessageCommitAckV1_def wire_class_def)
  have e: "(if epoch_ok (getp r ''recipientAuthorityEpoch'') then getp r ''recipientAuthorityEpoch'' else num 0)
      = (if epoch_ok (getp raw ''recipientAuthorityEpoch'') then getp raw ''recipientAuthorityEpoch'' else num 0)"
    using assms(3)
  proof
    assume "is_integer (getp raw ''recipientAuthorityEpoch'')"
    then show ?thesis using coerced_integer [OF epoch] by simp
  next
    assume n: "nullish (getp raw ''recipientAuthorityEpoch'')"
    then have "\<not> epoch_ok (getp raw ''recipientAuthorityEpoch'')" by (cases "getp raw ''recipientAuthorityEpoch''") (simp_all add: epoch_ok_def)
    moreover have "getp r ''recipientAuthorityEpoch'' = num 0 \<or> getp r ''recipientAuthorityEpoch'' = Null"
      using coerced_nullish [OF epoch] n by simp
    ultimately show ?thesis by (auto simp: epoch_ok_def)
  qed
  have "coerceField (getp raw ''committedAtMs'') (an_int\<lparr>sp_required := True\<rparr>) = Inr (getp r ''committedAtMs'')"
    by (rule field) (simp add: MessageCommitAckV1_def wire_class_def)
  then have "getp r ''committedAtMs'' = getp raw ''committedAtMs''" using coerced_integer assms(4) by simp
  then show ?thesis by (simp add: commit_ack_signable_def Let_def str dev e)
qed

text \<open>
  An acknowledgement is verified over the bytes that were signed: coercing what the recipient's
  device sent, with whole numbers or none in its number fields, does not change the signed form.
\<close>

theorem ack_signature_stable:
  assumes "new_record MessageCommitAckV1 raw = Inr r" and "is_object raw"
    and "is_integer (getp raw ''recipientAuthorityEpoch'') \<or> nullish (getp raw ''recipientAuthorityEpoch'')"
    and "is_integer (getp raw ''committedAtMs'')"
  shows "commit_ack_signable r = commit_ack_signable raw"
  by (rule ack_signature_stable_eq [OF assms])

definition sent_ack :: jsval where
  "sent_ack = Obj [(''kind'', Str MESSAGE_COMMIT_ACK_KIND), (''messageId'', Str '' m1''), (''messageFingerprint'', Str ''f1''), (''threadId'', Str ''t1''),
     (''recipientAccountId'', Str ''bob''), (''recipientDeviceId'', Str []), (''signerPublicKeyB64'', Str ''k1''),
     (''recipientAuthorityEpoch'', num 0), (''committedAtMs'', num 7), (''sig'', Str ''s1'')]"

theorem ack_signature_stable_instance:
  "\<exists>r. new_record MessageCommitAckV1 sent_ack = Inr r \<and> commit_ack_signable r = commit_ack_signable sent_ack"
proof -
  have "\<not> isl (new_record MessageCommitAckV1 sent_ack)" by code_simp
  then obtain r where r: "new_record MessageCommitAckV1 sent_ack = Inr r" by (cases "new_record MessageCommitAckV1 sent_ack") auto
  have "is_object sent_ack" "is_integer (getp sent_ack ''recipientAuthorityEpoch'')" "is_integer (getp sent_ack ''committedAtMs'')" by code_simp+
  then show ?thesis using r ack_signature_stable [OF r] by blast
qed

end
