(* ===== verification/ServiceNode.thy ===== *)
theory ServiceNode
  imports ApiParams ApiResults ApiEvents Payloads SignedFacts GroupLife Channels Contacts ThreadIndex
begin

text \<open>
  The server process as its services see it: the stores, what a handler sends and emits, and the services
  and SDK objects it finds on the bus (\<open>src/server/base/BaseServerService.js\<close>,
  \<open>src/server/services/ServerGroupBroadcaster.js\<close>). A handler is an operation on a \<open>node\<close>: it updates the
  stores and appends its effects in order. Logging is not modelled. The collaborators on the bus and the
  SDK are the fields of \<open>env\<close>. Also here: the store of file bytes and the thread ids of groups.
\<close>

section \<open>The process\<close>

text \<open>
  \<open>Send\<close> is one fan-out of a payload to its targets; a failing target does not stop the others, so the
  handler does not see it. \<open>LinkPeer\<close> is a started handshake, \<open>FlushDeferred\<close> the release of the messages
  held back for a new member (\<open>ServerDeferredMessageBuffer\<close>). Of the messages service: \<open>Dispatch\<close> hands a
  sealed object with its address to the mesh, \<open>InvalidateDevices\<close> drops a cached device set, \<open>AckEvidence\<close>
  and \<open>ExpectAck\<close> tell the peer links of an acknowledgement and of a message that expects one, and
  \<open>SweepAfter\<close> arms the timer of the next sweep.
\<close>

datatype effect = Emit string jsval | Send "string list" jsval | LinkPeer string string | FlushDeferred string string
  | Dispatch string jsval | InvalidateDevices string | AckEvidence string | ExpectAck string | SweepAfter rat

record 's node =
  nd_kv :: 's
  nd_out :: "effect list"
  nd_files :: "(string \<times> string) list"
  nd_uuids :: nat

text \<open>
  What the process is wired to. A service or SDK object that is absent is \<open>None\<close> or \<open>False\<close>. A call of
  the SDK that throws answers \<open>None\<close>. \<open>ev_fileHash\<close> is the hash of base64 text, \<open>None\<close> when it does not
  decode, \<open>ev_reencode\<close> its bytes in base64 again; \<open>ev_threadHash\<close> is the base64url form of the first 16 bytes of SHA-256.
\<close>

record env =
  ev_owner :: string
  ev_uuid :: "nat \<Rightarrow> string"
  ev_authority :: "authority option"
  ev_signer :: "(jsval \<Rightarrow> (string \<times> string) option) option"
  ev_fileHash :: "string \<Rightarrow> string option"
  ev_reencode :: "string \<Rightarrow> string"
  ev_threadHash :: "string \<Rightarrow> string"
  ev_inviteEnvelope :: "(string \<Rightarrow> jsval option) option"
  ev_authorizeJoin :: "(string \<Rightarrow> string \<Rightarrow> jsval option) option"
  ev_peerLinks :: "jsval option"
  ev_ownInbox :: jsval
  ev_sdk :: bool
  ev_fileTransfer :: bool
  ev_channels :: bool
  ev_contacts :: bool
  ev_peerLinkProtocol :: bool
  ev_events :: bool

type_synonym ('s, 'a) handler = "('s node, 'a) op"

definition on_kv :: "('s, 'a) op \<Rightarrow> ('s, 'a) handler" where
  "on_kv m n = (case m (nd_kv n) of (r, s) \<Rightarrow> (r, n\<lparr>nd_kv := s\<rparr>))"

definition effect_out :: "effect \<Rightarrow> ('s, unit) handler" where
  "effect_out e n = (Inr (), n\<lparr>nd_out := nd_out n @ [e]\<rparr>)"

text \<open>\<open>_emit(name, new EventClass(raw))\<close>: an invalid event throws before it is emitted.\<close>

definition emit_record :: "string \<Rightarrow> (jsval \<Rightarrow> js_error + jsval) \<Rightarrow> jsval \<Rightarrow> ('s, unit) handler" where
  "emit_record name mk raw = andThen (lift_result (mk raw)) (\<lambda>r. effect_out (Emit name r))"

definition when_ok :: "bool \<Rightarrow> ('s, unit) op \<Rightarrow> ('s, unit) op" where
  "when_ok b m = (if b then m else ok ())"

text \<open>A loop of awaited bodies; a throw ends it.\<close>

fun each :: "('a \<Rightarrow> ('s, unit) op) \<Rightarrow> 'a list \<Rightarrow> ('s, unit) op" where
  "each f [] = ok ()"
| "each f (x # xs) = andThen (f x) (\<lambda>_. each f xs)"

fun all_results :: "('a \<Rightarrow> js_error + 'b) \<Rightarrow> 'a list \<Rightarrow> js_error + 'b list" where
  "all_results f [] = Inr []"
| "all_results f (x # xs) = (case f x of Inl e \<Rightarrow> Inl e
     | Inr y \<Rightarrow> (case all_results f xs of Inl e \<Rightarrow> Inl e | Inr ys \<Rightarrow> Inr (y # ys)))"

section \<open>Fan-out\<close>

definition nowOpId :: "env \<Rightarrow> ('s, string) handler" where
  "nowOpId E n = (Inr (''gop_'' @ filter (\<lambda>c. c \<noteq> CHR ''-'') (ev_uuid E (nd_uuids n))), n\<lparr>nd_uuids := Suc (nd_uuids n)\<rparr>)"

definition fanOut :: "env \<Rightarrow> string list \<Rightarrow> jsval \<Rightarrow> ('s, unit) handler" where
  "fanOut E targets payload = when_ok (targets \<noteq> [] \<and> ev_sdk E) (effect_out (Send targets payload))"

text \<open>\<open>fanOut({ targets, payload: new GroupOpPayloadV1({ op, groupId, ..., actedAtMs: clock(), groupOpId }) })\<close>.\<close>

definition send_group_op :: "'s host \<Rightarrow> env \<Rightarrow> string list \<Rightarrow> string \<Rightarrow> string \<Rightarrow> rat \<Rightarrow> fields \<Rightarrow> ('s, unit) handler" where
  "send_group_op H E targets op groupId actedAtMs fs =
     andThen (nowOpId E) (\<lambda>oid.
     andThen (lift_result (new_record GroupOpPayloadV1 (Obj ([(''op'', Str op), (''groupId'', Str groupId)] @ fs
         @ [(''actedAtMs'', num actedAtMs), (''groupOpId'', Str oid)]))))
       (fanOut E targets))"

section \<open>Ids of group threads\<close>

definition groupThreadId :: "env \<Rightarrow> string \<Rightarrow> string" where
  "groupThreadId E groupId = ''th_'' @ ev_threadHash E (''group:v1|'' @ groupId)"

definition groupIdForCreator :: "env \<Rightarrow> string \<Rightarrow> string \<Rightarrow> string" where
  "groupIdForCreator E createdBy creatorSalt = ''grp_'' @ drop 3 (groupThreadId E (createdBy @ '':'' @ creatorSalt))"

section \<open>File bytes\<close>

text \<open>The store is addressed by content: what is put under a hash has it, and what is read is checked again.\<close>

definition storeFile :: "env \<Rightarrow> jsval \<Rightarrow> jsval \<Rightarrow> ('s, unit) handler" where
  "storeFile E fileHashHex fileDataB64 n =
     (if trim (string_or_empty fileHashHex) = [] then throw (Error ''storeFile requires fileHashHex'') n
      else if string_or_empty fileDataB64 = [] then throw (Error ''storeFile requires fileDataB64'') n
      else case ev_fileHash E (string_or_empty fileDataB64) of
          None \<Rightarrow> throw (Error ''storeFile: undecodable fileDataB64'') n
        | Some actual \<Rightarrow>
            if actual \<noteq> trim (string_or_empty fileHashHex)
            then throw (Error ''storeFile: content does not match fileHashHex (rejected)'') n
            else (Inr (), n\<lparr>nd_files := AList.update (trim (string_or_empty fileHashHex)) (string_or_empty fileDataB64) (nd_files n)\<rparr>))"

definition retrieveFileB64 :: "env \<Rightarrow> jsval \<Rightarrow> 's node \<Rightarrow> string option" where
  "retrieveFileB64 E fileHashHex n =
     (let key = trim (string_or_empty fileHashHex) in
      if key = [] then None
      else case map_of (nd_files n) key of None \<Rightarrow> None
        | Some b64 \<Rightarrow> if ev_fileHash E b64 = Some key then Some b64 else None)"

section \<open>Threads\<close>

text \<open>\<open>emitThreadIndexUpdated\<close> takes an entry of the index or a literal; it emits one record under two names.\<close>

definition index_event_raw :: "jsval \<Rightarrow> jsval" where
  "index_event_raw row = Obj [(''threadId'', Str (trim (string_or_empty (getp row ''threadId'')))),
     (''lastActivityAtMs'', getp row ''lastActivityAtMs''), (''preview'', getp row ''lastMessagePreview''),
     (''unreadCount'', getp row ''unreadCount''),
     (''unreadByChannelId'', if is_object (getp row ''unreadByChannelId'') then getp row ''unreadByChannelId'' else Obj [])]"

definition emitThreadIndexUpdated :: "jsval \<Rightarrow> ('s, unit) handler" where
  "emitThreadIndexUpdated row =
     when_ok (is_object row \<and> trim (string_or_empty (getp row ''threadId'')) \<noteq> [])
       (andThen (lift_result (new_record ThreadIndexUpdatedEvent (index_event_raw row))) (\<lambda>r.
        andThen (effect_out (Emit ''runtime.event.thread.index.updated'' r)) (\<lambda>_.
          effect_out (Emit ''thread.index.updated'' r))))"

section \<open>Laws\<close>

lemma andThen_result: "andThen m f n = (case m n of (Inl e, n') \<Rightarrow> (Inl e, n') | (Inr x, n') \<Rightarrow> f x n')"
  by (simp add: andThen_def)

lemma on_kv_simps [simp]:
  "m (nd_kv n) = (r, s) \<Longrightarrow> on_kv m n = (r, n\<lparr>nd_kv := s\<rparr>)"
  by (simp add: on_kv_def)

end
