(* ===== verification/ContactService.thy ===== *)
theory ContactService
  imports ServiceNode
begin

text \<open>
  The contacts service (\<open>src/server/services/ServerContactsService.js\<close>): the relationships a user changes,
  the names of known accounts, and the connect requests of group members. Requesting, approving and
  deleting a contact go through the invite and thread services and are not modelled.
\<close>

definition emitContactUpdated :: "'s host \<Rightarrow> ChatContact \<Rightarrow> ('s, unit) handler" where
  "emitContactUpdated H contact =
     emit_record ''contact.updated'' (new_record (ContactUpdatedEvent (clockMs H))) (Obj [(''contact'', contact_json contact)])"

definition emitContactRemoved :: "string \<Rightarrow> ('s, unit) handler" where
  "emitContactRemoved accountId = when_ok (trim accountId \<noteq> [])
     (emit_record ''contact.removed'' (new_record ContactRemovedEvent) (Obj [(''accountId'', Str (trim accountId))]))"

definition emitConnectRequestUpdated :: "string \<Rightarrow> ('s, unit) handler" where
  "emitConnectRequestUpdated peerAccountId = when_ok (trim peerAccountId \<noteq> [])
     (emit_record ''connectRequest.updated'' (new_record ConnectRequestUpdatedEvent) (Obj [(''peerAccountId'', Str peerAccountId)]))"

text \<open>A write of a contact, and the event of what was written.\<close>

definition upsert_and_emit :: "'s host \<Rightarrow> env \<Rightarrow> jsval \<Rightarrow> contactPatch \<Rightarrow> ('s, ChatContact) handler" where
  "upsert_and_emit H E accountId patch =
     andThen (on_kv (upsertContact H (Str (ev_owner E)) accountId patch)) (\<lambda>(contact, _).
     andThen (emitContactUpdated H contact) (\<lambda>_. ok contact))"

definition name_or_undefined :: "string \<Rightarrow> jsval" where
  "name_or_undefined name = (if name = [] then Undef else Str name)"

section \<open>Relationships\<close>

definition ensureActiveContact :: "'s host \<Rightarrow> env \<Rightarrow> jsval \<Rightarrow> string \<Rightarrow> jsval \<Rightarrow> ('s, ChatContact option) handler" where
  "ensureActiveContact H E accountId displayName lastSeenAtMs =
     (if trim (string_or_empty accountId) = [] then ok None
      else andThen (upsert_and_emit H E accountId
          (no_patch\<lparr>cp_relationshipState := Str ''active'', cp_displayName := name_or_undefined displayName,
             cp_lastSeenAtMs := (if nullish lastSeenAtMs then num (clockMs H) else lastSeenAtMs)\<rparr>)) (\<lambda>c. ok (Some c)))"

text \<open>
  A verified name of a group member is recorded as a \<open>known\<close> row, only where there is no row or one
  that is itself \<open>known\<close>.
\<close>

definition ensureKnownAccount :: "'s host \<Rightarrow> env \<Rightarrow> jsval \<Rightarrow> jsval \<Rightarrow> ('s, ChatContact option) handler" where
  "ensureKnownAccount H E accountId displayName =
     (let id = trim (string_or_empty accountId); name = trim (string_or_empty displayName) in
      if id = [] \<or> id = ev_owner E \<or> name = [] then ok None
      else andThen (catching (on_kv (getContact H (Str (ev_owner E)) (Str id))) None) (\<lambda>existing.
        case existing of
          Some e \<Rightarrow>
            if toLowerCase (co_relationshipState e) \<noteq> ''known'' \<or> co_displayName e = Some name then ok (Some e)
            else andThen (upsert_and_emit H E (Str id)
              (no_patch\<lparr>cp_relationshipState := Str ''known'', cp_displayName := Str name\<rparr>)) (\<lambda>c. ok (Some c))
        | None \<Rightarrow> andThen (upsert_and_emit H E (Str id)
              (no_patch\<lparr>cp_relationshipState := Str ''known'', cp_displayName := Str name\<rparr>)) (\<lambda>c. ok (Some c))))"

definition isActiveContact :: "'s host \<Rightarrow> env \<Rightarrow> jsval \<Rightarrow> ('s, bool) handler" where
  "isActiveContact H E accountId =
     (let id = trim (string_or_empty accountId) in
      if id = [] then ok False
      else andThen (on_kv (getContact H (Str (ev_owner E)) (Str id))) (\<lambda>existing.
        ok (case existing of None \<Rightarrow> False | Some e \<Rightarrow> toLowerCase (co_relationshipState e) = ''active'')))"

definition listContacts :: "'s host \<Rightarrow> env \<Rightarrow> ('s, jsval) handler" where
  "listContacts H E =
     andThen (on_kv (listAllContacts H (Str (ev_owner E)))) (\<lambda>items.
       lift_result (new_record (ContactsListResult (clockMs H)) (Obj [(''items'', Arr (map contact_json items))])))"

definition service_renameContact :: "'s host \<Rightarrow> env \<Rightarrow> jsval \<Rightarrow> ('s, jsval) handler" where
  "service_renameContact H E payload =
     andThen (lift_result (new_record ContactsRenameParams payload)) (\<lambda>params.
     andThen (on_kv (renameContact H (Str (ev_owner E)) (getp params ''accountId'') (getp params ''displayName''))) (\<lambda>(contact, _).
     andThen (emitContactUpdated H contact) (\<lambda>_.
       lift_result (new_record ContactsRenameResult (Obj [(''contact'', contact_json contact)])))))"

definition relate :: "'s host \<Rightarrow> env \<Rightarrow> schema_class \<Rightarrow> schema_class \<Rightarrow> string \<Rightarrow> jsval \<Rightarrow> ('s, jsval) handler" where
  "relate H E ParamClass ResultClass state payload =
     andThen (lift_result (new_record ParamClass payload)) (\<lambda>params.
     andThen (upsert_and_emit H E (getp params ''accountId'') (no_patch\<lparr>cp_relationshipState := Str state\<rparr>)) (\<lambda>contact.
       lift_result (new_record ResultClass (Obj [(''contact'', contact_json contact)]))))"

definition blockContact :: "'s host \<Rightarrow> env \<Rightarrow> jsval \<Rightarrow> ('s, jsval) handler" where
  "blockContact H E = relate H E ContactsBlockParams ContactsBlockResult ''blocked''"

definition unblockContact :: "'s host \<Rightarrow> env \<Rightarrow> jsval \<Rightarrow> ('s, jsval) handler" where
  "unblockContact H E = relate H E ContactsUnblockParams ContactsUnblockResult ''active''"

section \<open>Connect requests\<close>

definition upsertInvitedContact :: "'s host \<Rightarrow> env \<Rightarrow> string \<Rightarrow> string \<Rightarrow> ('s, unit) handler" where
  "upsertInvitedContact H E accountId displayName =
     andThen (on_kv (getContact H (Str (ev_owner E)) (Str accountId))) (\<lambda>existing.
       when_ok (\<not> (case existing of None \<Rightarrow> False | Some e \<Rightarrow> co_relationshipState e = ''active'' \<or> co_relationshipState e = ''blocked''))
         (andThen (upsert_and_emit H E (Str accountId) (no_patch\<lparr>cp_relationshipState := Str ''invited'',
            cp_displayName := name_or_undefined (take 64 (trim displayName))\<rparr>)) (\<lambda>_. ok ())))"

text \<open>
  A request received from a peer. The requester is the authenticated sender. \<open>reconnect\<close> stands for
  \<open>#autoReconnectActiveRequester\<close>, which accepts the invite of a peer who is still an active contact.
\<close>

definition request_allowed :: "'s host \<Rightarrow> env \<Rightarrow> string \<Rightarrow> ChatContact option \<Rightarrow> ('s, bool) handler" where
  "request_allowed H E requester existing =
     (if (case existing of None \<Rightarrow> False | Some e \<Rightarrow> co_relationshipState e = ''invited'') then ok True
      else catching (on_kv (isCoMember H (Str (ev_owner E)) (Str requester))) False)"

definition request_args :: "'s host \<Rightarrow> jsval \<Rightarrow> jsval \<Rightarrow> string \<Rightarrow> requestArgs" where
  "request_args H rcd groupId inviteCode =
     (let displayName = trim (sget rcd ''displayName''); requestId = trim (sget rcd ''requestId'');
          origin = (if trim (sget rcd ''groupId'') \<noteq> [] then trim (sget rcd ''groupId'') else trim (string_or_empty groupId)) in
      \<lparr> ra_direction = Str ''incoming'',
        ra_requestId = Str (if requestId \<noteq> [] then requestId else ''cr_in_'' @ rat_string (clockMs H)),
        ra_inviteCode = Str inviteCode, ra_displayName = null_if_empty displayName, ra_groupId = null_if_empty origin,
        ra_state = Str ''pending'' \<rparr>)"

definition handleIncomingConnectRequest ::
  "'s host \<Rightarrow> env \<Rightarrow> (string \<Rightarrow> string \<Rightarrow> ('s, unit) handler) \<Rightarrow> jsval \<Rightarrow> jsval \<Rightarrow> jsval \<Rightarrow> ('s, bool) handler" where
  "handleIncomingConnectRequest H E reconnect rcd senderAccountId groupId =
     (let requester = trim (string_or_empty senderAccountId); inviteCode = trim (sget rcd ''inviteCode'') in
      if requester = [] \<or> inviteCode = [] then ok False
      else andThen (on_kv (getContact H (Str (ev_owner E)) (Str requester))) (\<lambda>existing.
        if (case existing of None \<Rightarrow> False | Some e \<Rightarrow> co_relationshipState e = ''active'')
        then andThen (reconnect requester inviteCode) (\<lambda>_. ok True)
        else if (case existing of None \<Rightarrow> False | Some e \<Rightarrow> co_relationshipState e = ''blocked'') then ok True
        else andThen (request_allowed H E requester existing) (\<lambda>allowed.
          if \<not> allowed then ok True
          else andThen (on_kv (upsertRequest H (Str (ev_owner E)) (Str requester) (request_args H rcd groupId inviteCode))) (\<lambda>_.
               andThen (upsertInvitedContact H E requester (trim (sget rcd ''displayName''))) (\<lambda>_.
               andThen (emitConnectRequestUpdated requester) (\<lambda>_. ok True))))))"

definition denyConnectRequest :: "'s host \<Rightarrow> env \<Rightarrow> jsval \<Rightarrow> ('s, jsval) handler" where
  "denyConnectRequest H E payload =
     (let peer = trim (sget payload ''accountId'') in
      if peer = [] then throw (Error ''denyConnectRequest: accountId required'')
      else andThen (on_kv (deleteRequest H (Str (ev_owner E)) (Str peer))) (\<lambda>deleted.
        andThen (on_kv (getContact H (Str (ev_owner E)) (Str peer))) (\<lambda>contact.
        andThen (when_ok (case contact of None \<Rightarrow> False | Some c \<Rightarrow> co_relationshipState c = ''invited'')
          (andThen (on_kv (deleteContact H (Str (ev_owner E)) (Str peer))) (\<lambda>_. emitContactRemoved peer))) (\<lambda>_.
        andThen (emitConnectRequestUpdated peer) (\<lambda>_.
          ok (Obj [(''status'', Str ''denied''), (''peerAccountId'', Str peer), (''deleted'', Bool deleted)]))))))"

definition acceptOutgoingConnectRequest :: "'s host \<Rightarrow> env \<Rightarrow> jsval \<Rightarrow> jsval \<Rightarrow> ('s, bool) handler" where
  "acceptOutgoingConnectRequest H E accountId displayName =
     (let id = trim (string_or_empty accountId) in
      if id = [] then ok False
      else andThen (on_kv (getRequest H (Str (ev_owner E)) (Str id))) (\<lambda>request.
        case request of None \<Rightarrow> ok False
        | Some r \<Rightarrow> if cr_direction r \<noteq> ''outgoing'' \<or> toLowerCase (cr_state r) \<noteq> ''pending'' then ok False
            else andThen (ensureActiveContact H E (Str id) (trim (string_or_empty displayName)) Null) (\<lambda>_.
                 andThen (on_kv (deleteRequest H (Str (ev_owner E)) (Str id))) (\<lambda>_.
                 andThen (emitConnectRequestUpdated id) (\<lambda>_. ok True)))))"

definition service_listConnectRequests :: "'s host \<Rightarrow> env \<Rightarrow> ('s, jsval) handler" where
  "service_listConnectRequests H E =
     andThen (on_kv (listAllRequests H (Str (ev_owner E)))) (\<lambda>items. ok (Obj [(''items'', Arr (map request_json items))]))"

end
