(* ===== verification/GroupService.thy ===== *)
theory GroupService
  imports ContactService
begin

text \<open>
  The groups service (\<open>src/server/services/ServerGroupsService.js\<close>): what the owner of this process does to
  a group. Every change of the store is followed by its events and by the fan-out of the operation to the
  other active members.
\<close>

section \<open>Memberships and roles\<close>

definition ADMIN_ROLE :: string where "ADMIN_ROLE = ''admin''"
definition CREATOR_ROLE :: string where "CREATOR_ROLE = ''creator''"

definition group_of :: "'s host \<Rightarrow> env \<Rightarrow> string \<Rightarrow> ('s, ChatGroup option) handler" where
  "group_of H E groupId = catching (on_kv (getGroup H (Str (ev_owner E)) (Str groupId))) None"

definition members_of :: "'s host \<Rightarrow> env \<Rightarrow> string \<Rightarrow> ('s, ChatGroupMember list) handler" where
  "members_of H E groupId = catching (on_kv (listMembers H (Str (ev_owner E)) (Str groupId))) []"

definition findMembership :: "'s host \<Rightarrow> env \<Rightarrow> string \<Rightarrow> string \<Rightarrow> ('s, ChatGroupMember option) handler" where
  "findMembership H E groupId accountId =
     (if groupId = [] \<or> accountId = [] then ok None
      else andThen (members_of H E groupId) (\<lambda>members. ok (find (\<lambda>m. trim (gm_accountId m) = accountId) members)))"

definition isCreator :: "'s host \<Rightarrow> env \<Rightarrow> string \<Rightarrow> string \<Rightarrow> ('s, bool) handler" where
  "isCreator H E groupId accountId =
     (let id = trim accountId in
      if id = [] then ok False
      else andThen (group_of H E groupId) (\<lambda>group. ok (case group of None \<Rightarrow> False | Some g \<Rightarrow> g_createdBy g = id)))"

definition isEffectiveAdmin :: "'s host \<Rightarrow> env \<Rightarrow> string \<Rightarrow> ChatGroupMember option \<Rightarrow> ('s, bool) handler" where
  "isEffectiveAdmin H E groupId membership =
     (case membership of None \<Rightarrow> ok False
      | Some m \<Rightarrow>
        if toLowerCase (gm_role m) = ADMIN_ROLE \<or> toLowerCase (gm_role m) = CREATOR_ROLE then ok True
        else andThen (group_of H E groupId) (\<lambda>group.
          ok (case group of None \<Rightarrow> False | Some g \<Rightarrow> g_createdBy g = gm_accountId m)))"

definition requireSelfAdmin :: "'s host \<Rightarrow> env \<Rightarrow> string \<Rightarrow> string \<Rightarrow> ('s, unit) handler" where
  "requireSelfAdmin H E groupId opLabel =
     andThen (findMembership H E groupId (ev_owner E)) (\<lambda>self.
       if \<not> is_active self
       then throw (CodedError ''NOT_A_MEMBER'' (opLabel @ '': caller is not an active member of group '' @ groupId))
       else andThen (isEffectiveAdmin H E groupId self) (\<lambda>admin.
         if admin then ok () else throw (CodedError ''ADMIN_REQUIRED'' (opLabel @ '': admin role required''))))"

definition other_active :: "env \<Rightarrow> ChatGroupMember list \<Rightarrow> string list" where
  "other_active E members = map (\<lambda>m. trim (gm_accountId m)) (filter (\<lambda>m. trim (gm_accountId m) \<noteq> []
     \<and> trim (gm_accountId m) \<noteq> ev_owner E \<and> toLowerCase (gm_state m) = ''active'') members)"

definition listOtherActiveMembers :: "'s host \<Rightarrow> env \<Rightarrow> string \<Rightarrow> ('s, string list) handler" where
  "listOtherActiveMembers H E groupId = andThen (members_of H E groupId) (\<lambda>members. ok (other_active E members))"

section \<open>Events\<close>

text \<open>The founder is shown as the creator, whatever role is stored.\<close>

definition stamp_member :: "string \<Rightarrow> ChatGroupMember \<Rightarrow> js_error + ChatGroupMember" where
  "stamp_member founder m =
     (if trim (gm_accountId m) = founder \<and> toLowerCase (gm_role m) \<noteq> CREATOR_ROLE
      then mkChatGroupMember (Obj (spread (member_fields m) [(''role'', Str CREATOR_ROLE)])) else Inr m)"

definition stampFounderAsAdmin :: "'s host \<Rightarrow> env \<Rightarrow> string \<Rightarrow> ChatGroupMember list \<Rightarrow> ('s, ChatGroupMember list) handler" where
  "stampFounderAsAdmin H E groupId items =
     andThen (group_of H E groupId) (\<lambda>group.
       let founder = (case group of None \<Rightarrow> [] | Some g \<Rightarrow> g_createdBy g) in
       if founder = [] then ok items else lift_result (all_results (stamp_member founder) items))"

text \<open>A member without a name of its own is shown under the contact's name; of two rows the last counts.\<close>

definition contact_name :: "jsval list \<Rightarrow> string \<Rightarrow> jsval option" where
  "contact_name contacts accountId =
     map_option (\<lambda>c. getp c ''displayName'') (find (\<lambda>c. trim (sget c ''accountId'') = accountId) (List.rev contacts))"

definition enrich_member :: "jsval list \<Rightarrow> ChatGroupMember \<Rightarrow> js_error + ChatGroupMember" where
  "enrich_member contacts m =
     (case contact_name contacts (trim (gm_accountId m)) of
        Some name \<Rightarrow> if truthy name \<and> (gm_displayName m = None \<or> gm_displayName m = Some [])
          then mkChatGroupMember (Obj (spread (member_fields m) [(''displayName'', Str (trim (js_string name)))])) else Inr m
      | None \<Rightarrow> Inr m)"

definition enrichMembersWithContacts :: "'s host \<Rightarrow> env \<Rightarrow> ChatGroupMember list \<Rightarrow> ('s, ChatGroupMember list) handler" where
  "enrichMembersWithContacts H E items =
     (if \<not> ev_contacts E then ok items
      else andThen (listContacts H E) (\<lambda>result.
        lift_result (all_results (enrich_member (elements (getp result ''items''))) items)))"

definition emit_group :: "ChatGroup \<Rightarrow> ('s, unit) handler" where
  "emit_group g = emit_record ''group.updated'' (new_record GroupUpdatedEvent) (Obj [(''group'', group_json g)])"

definition emitGroupUpdated :: "'s host \<Rightarrow> env \<Rightarrow> string \<Rightarrow> ('s, unit) handler" where
  "emitGroupUpdated H E groupId =
     (if groupId = [] then ok ()
      else andThen (catching (on_kv (listGroups H (Str (ev_owner E)))) []) (\<lambda>groups.
        case find (\<lambda>g. g_groupId g = groupId) groups of None \<Rightarrow> ok () | Some g \<Rightarrow> emit_group g))"

definition emitMembersUpdated :: "'s host \<Rightarrow> env \<Rightarrow> string \<Rightarrow> ('s, unit) handler" where
  "emitMembersUpdated H E groupId =
     (if groupId = [] then ok ()
      else andThen (members_of H E groupId) (\<lambda>items.
        andThen (stampFounderAsAdmin H E groupId items) (\<lambda>withFounderRole.
        andThen (enrichMembersWithContacts H E withFounderRole) (\<lambda>enriched.
          emit_record ''group.members.updated'' GroupMembersUpdatedEvent
            (Obj [(''groupId'', Str groupId), (''members'', Arr (map member_json enriched))])))))"

definition emit_group_removed :: "string \<Rightarrow> ('s, unit) handler" where
  "emit_group_removed groupId = emit_record ''group.removed'' (new_record GroupRemovedEvent) (Obj [(''groupId'', Str groupId)])"

section \<open>Requests of the owner\<close>

definition proof_value :: "string \<times> string \<Rightarrow> jsval" where
  "proof_value proof = Obj [(''joinerSignerPublicKeyB64'', Str (fst proof)), (''joinerSigB64'', Str (snd proof))]"

text \<open>\<open>signMemberJoinProof\<close> with the account's signer; \<open>None\<close> when there is no signer or it throws.\<close>

definition own_proof :: "env \<Rightarrow> string \<Rightarrow> string \<Rightarrow> (string \<times> string) option" where
  "own_proof E groupId displayName = (case ev_signer E of None \<Rightarrow> None
     | Some sign \<Rightarrow> sign (memberJoinProofPayload (Str groupId) (Str (ev_owner E)) (Str displayName)))"

definition ensureSelfMembershipProof :: "'s host \<Rightarrow> env \<Rightarrow> jsval \<Rightarrow> jsval \<Rightarrow> ('s, unit) handler" where
  "ensureSelfMembershipProof H E groupId displayName =
     (let gid = trim (string_or_empty groupId); name = trim (string_or_empty displayName) in
      if gid = [] \<or> name = [] then ok ()
      else andThen (findMembership H E gid (ev_owner E)) (\<lambda>existing.
        if (case existing of None \<Rightarrow> True | Some m \<Rightarrow> gm_joinerSigB64 m \<noteq> None) then ok ()
        else case own_proof E gid name of None \<Rightarrow> ok ()
        | Some proof \<Rightarrow>
          andThen (catching (andThen (on_kv (ensureMembership H (Str (ev_owner E)) (Str gid) (Str (ev_owner E)) Undef (Str name) (proof_value proof)))
              (\<lambda>r. ok (mr_created r \<or> mr_upgraded r))) False) (\<lambda>changed.
            when_ok changed (emitMembersUpdated H E gid))))"

definition sync_title :: "'s host \<Rightarrow> env \<Rightarrow> string \<Rightarrow> jsval \<Rightarrow> ('s, unit) handler" where
  "sync_title H E groupId title =
     catching (andThen (on_kv (ensureThread H (ev_owner E) (no_args\<lparr>a_threadId := Str (groupThreadId E groupId),
         a_groupId := Str groupId, a_threadType := Str ''group'', a_title := title\<rparr>))) (\<lambda>_. ok ())) ()"

definition svc_createGroup :: "'s host \<Rightarrow> env \<Rightarrow> jsval \<Rightarrow> ('s, jsval) handler" where
  "svc_createGroup H E payload =
     andThen (lift_result (new_record GroupCreateParams payload)) (\<lambda>params n.
       let title = trim (sget params ''title''); name = trim (sget params ''creatorDisplayName''); now = clockMs H; me = Str (ev_owner E);
           creatorSalt = rat_string now @ '':'' @ ev_uuid E (nd_uuids n); groupId = groupIdForCreator E (ev_owner E) creatorSalt;
           threadId = groupThreadId E groupId; n1 = n\<lparr>nd_uuids := Suc (nd_uuids n)\<rparr>
       in andThen (on_kv (ensureGroup H me (Str groupId) me (null_if_empty title) Undef (Str creatorSalt))) (\<lambda>_.
          andThen (on_kv (ensureMembership H me (Str groupId) me (Str ''creator'') (null_if_empty name) Null)) (\<lambda>_.
          andThen (when_ok (name \<noteq> []) (ensureSelfMembershipProof H E (Str groupId) (Str name))) (\<lambda>_.
          andThen (on_kv (ensureThread H (ev_owner E) (no_args\<lparr>a_threadId := Str threadId, a_groupId := Str groupId,
             a_threadType := Str ''group'', a_title := null_if_empty title\<rparr>))) (\<lambda>_.
          andThen (on_kv (upsertFromMessage H (ev_owner E) (Str threadId) Null (num now) (Str (if title \<noteq> [] then title else ''New group'')) Undef)) (\<lambda>entry.
          andThen (emitThreadIndexUpdated (entry_json entry)) (\<lambda>_.
          andThen (emitGroupUpdated H E groupId) (\<lambda>_.
          andThen (emitMembersUpdated H E groupId) (\<lambda>_.
            lift_result (new_record GroupCreateResult (Obj [(''groupId'', Str groupId), (''threadId'', Str threadId)])))))))))) n1)"

definition svc_leaveGroup :: "'s host \<Rightarrow> env \<Rightarrow> jsval \<Rightarrow> ('s, jsval) handler" where
  "svc_leaveGroup H E payload =
     andThen (lift_result (new_record GroupLeaveParams payload)) (\<lambda>params.
       let gid = sget params ''groupId''; threadId = groupThreadId E gid; me = Str (ev_owner E) in
       andThen (listOtherActiveMembers H E gid) (\<lambda>peers.
       andThen (on_kv (removeMember H me (Str gid) me)) (\<lambda>_.
       andThen (on_kv (setThreadState H (ev_owner E) (Str threadId) Undef (Str ''locked''))) (\<lambda>_.
       andThen (emit_group_removed gid) (\<lambda>_.
       andThen (send_group_op H E peers ''leave'' gid (clockMs H) [(''accountId'', me)]) (\<lambda>_.
         lift_result (new_record GroupLeaveResult (Obj [(''groupId'', Str gid), (''threadId'', Str threadId), (''left'', Bool True)]))))))))"

text \<open>
  The groups that were joined through one rejected invite are discarded: thread and index entry removed
  and the membership dropped, without telling anyone.
\<close>

definition discard_group :: "'s host \<Rightarrow> env \<Rightarrow> string \<Rightarrow> ('s, unit) handler" where
  "discard_group H E groupId =
     (let threadId = Str (groupThreadId E groupId); me = Str (ev_owner E) in
      andThen (catching (on_kv (deleteThread H (ev_owner E) threadId)) False) (\<lambda>deleted.
      andThen (when_ok deleted (catching (andThen (on_kv (removeThread H (ev_owner E) threadId)) (\<lambda>_. ok ())) ())) (\<lambda>_.
      andThen (catching (andThen (on_kv (removeMember H me (Str groupId) me)) (\<lambda>_. ok ())) ()) (\<lambda>_.
        emit_group_removed groupId))))"

definition discardGroupForRejectedInvite :: "'s host \<Rightarrow> env \<Rightarrow> jsval \<Rightarrow> ('s, string list) handler" where
  "discardGroupForRejectedInvite H E inviteId =
     (let invite = trim (string_or_empty inviteId) in
      if invite = [] then ok []
      else andThen (on_kv (listGroups H (Str (ev_owner E)))) (\<lambda>groups.
        let removed = map g_groupId (filter (\<lambda>g. g_joinedViaInviteId g = invite) groups) in
        andThen (each (discard_group H E) removed) (\<lambda>_. ok removed)))"

definition svc_renameGroup :: "'s host \<Rightarrow> env \<Rightarrow> jsval \<Rightarrow> ('s, jsval) handler" where
  "svc_renameGroup H E payload =
     andThen (lift_result (new_record GroupRenameParams payload)) (\<lambda>params.
       let gid = sget params ''groupId''; title = getp params ''title'' in
       andThen (requireSelfAdmin H E gid ''group.rename'') (\<lambda>_.
       andThen (on_kv (renameGroup H (Str (ev_owner E)) (Str gid) title)) (\<lambda>(group, _).
       andThen (case group of None \<Rightarrow> ok () | Some g \<Rightarrow>
           andThen (sync_title H E gid title) (\<lambda>_.
           andThen (emit_group g) (\<lambda>_.
           andThen (listOtherActiveMembers H E gid) (\<lambda>peers.
             send_group_op H E peers ''rename'' gid (clockMs H) [(''title'', title)])))) (\<lambda>_.
         lift_result (new_record GroupRenameResult (Obj [(''group'', case group of None \<Rightarrow> Null | Some g \<Rightarrow> group_json g)]))))))"

text \<open>The photo is stored under the hash of its bytes; the text that does not decode throws the decoder's error.\<close>

definition avatar_bytes :: "env \<Rightarrow> string \<Rightarrow> ('s, string) handler" where
  "avatar_bytes E dataB64 =
     (if dataB64 = [] then ok []
      else if \<not> ev_fileTransfer E then throw (Error ''group.setAvatar: file transfer service unavailable'')
      else case ev_fileHash E dataB64 of None \<Rightarrow> throw (Error ''invalid base64'')
        | Some h \<Rightarrow> andThen (storeFile E (Str h) (Str (ev_reencode E dataB64))) (\<lambda>_. ok h))"

definition svc_setAvatarGroup :: "'s host \<Rightarrow> env \<Rightarrow> jsval \<Rightarrow> ('s, jsval) handler" where
  "svc_setAvatarGroup H E payload =
     andThen (lift_result (new_record GroupSetAvatarParams payload)) (\<lambda>params.
       let gid = sget params ''groupId''; dataB64 = sget params ''avatarDataB64'' in
       andThen (requireSelfAdmin H E gid ''group.setAvatar'') (\<lambda>_.
       andThen (avatar_bytes E dataB64) (\<lambda>avatarFileHash.
       andThen (on_kv (setGroupAvatar H (Str (ev_owner E)) (Str gid) (Str avatarFileHash))) (\<lambda>(group, _).
       andThen (case group of None \<Rightarrow> ok () | Some g \<Rightarrow>
           andThen (emit_group g) (\<lambda>_.
           andThen (listOtherActiveMembers H E gid) (\<lambda>peers.
             send_group_op H E peers ''setAvatar'' gid (clockMs H) [(''avatarFileHash'', Str avatarFileHash),
               (''avatarDataB64'', Str (if avatarFileHash \<noteq> [] then dataB64 else []))]))) (\<lambda>_.
         lift_result (new_record GroupSetAvatarResult (Obj [(''group'', case group of None \<Rightarrow> Null | Some g \<Rightarrow> group_json g)])))))))"

definition svc_kickMember :: "'s host \<Rightarrow> env \<Rightarrow> jsval \<Rightarrow> ('s, jsval) handler" where
  "svc_kickMember H E payload =
     andThen (lift_result (new_record GroupKickParams payload)) (\<lambda>params.
       let gid = sget params ''groupId''; acct = sget params ''accountId'' in
       andThen (requireSelfAdmin H E gid ''group.kick'') (\<lambda>_.
       andThen (isCreator H E gid acct) (\<lambda>creator.
         if creator then throw (CodedError ''CREATOR_PROTECTED'' ''group.kick: the group creator cannot be removed'')
         else andThen (listOtherActiveMembers H E gid) (\<lambda>peersBefore.
           andThen (on_kv (removeMember H (Str (ev_owner E)) (Str gid) (Str acct))) (\<lambda>(_, removed).
           andThen (when_ok removed
             (andThen (emitMembersUpdated H E gid) (\<lambda>_.
              andThen (emitGroupUpdated H E gid) (\<lambda>_.
                send_group_op H E (if acct \<in> set peersBefore then peersBefore else peersBefore @ [acct]) ''kick'' gid (clockMs H)
                  [(''accountId'', Str acct)])))) (\<lambda>_.
             lift_result (new_record GroupKickResult (Obj [(''groupId'', Str gid), (''accountId'', Str acct), (''kicked'', Bool removed)]))))))))"

definition svc_setMemberRole :: "'s host \<Rightarrow> env \<Rightarrow> jsval \<Rightarrow> ('s, jsval) handler" where
  "svc_setMemberRole H E payload =
     andThen (lift_result (new_record GroupSetRoleParams payload)) (\<lambda>params.
       let gid = sget params ''groupId''; acct = sget params ''accountId''; role = sget params ''role'' in
       andThen (requireSelfAdmin H E gid ''group.setRole'') (\<lambda>_.
       andThen (isCreator H E gid acct) (\<lambda>creator.
         if creator then throw (CodedError ''CREATOR_PROTECTED'' (''group.setRole: the group creator'' @ [CHR 0x27] @ ''s role cannot be changed''))
         else if toLowerCase role = CREATOR_ROLE
         then throw (CodedError ''INVALID_ROLE'' ''group.setRole: the creator role cannot be assigned'')
         else andThen (on_kv (setMemberRole H (Str (ev_owner E)) (Str gid) (Str acct) (Str role))) (\<lambda>(membership, _).
           andThen (case membership of None \<Rightarrow> ok () | Some m \<Rightarrow>
             andThen (emitMembersUpdated H E gid) (\<lambda>_.
             andThen (listOtherActiveMembers H E gid) (\<lambda>peers.
               send_group_op H E peers ''setRole'' gid (clockMs H) [(''accountId'', Str acct), (''role'', Str (gm_role m))]))) (\<lambda>_.
             lift_result (new_record GroupSetRoleResult (Obj [(''groupId'', Str gid), (''accountId'', Str acct),
               (''role'', Str (case membership of None \<Rightarrow> role | Some m \<Rightarrow> gm_role m))])))))))"

definition svc_listGroups :: "'s host \<Rightarrow> env \<Rightarrow> ('s, jsval) handler" where
  "svc_listGroups H E = andThen (on_kv (listGroups H (Str (ev_owner E)))) (\<lambda>items.
     lift_result (new_record GroupsListResult (Obj [(''items'', Arr (map group_json items))])))"

definition svc_listGroupMembers :: "'s host \<Rightarrow> env \<Rightarrow> jsval \<Rightarrow> ('s, jsval) handler" where
  "svc_listGroupMembers H E payload =
     andThen (lift_result (new_record GroupMembersListParams payload)) (\<lambda>params.
       let gid = sget params ''groupId'' in
       andThen (on_kv (listMembers H (Str (ev_owner E)) (Str gid))) (\<lambda>items.
       andThen (stampFounderAsAdmin H E gid items) (\<lambda>withFounderRole.
       andThen (enrichMembersWithContacts H E withFounderRole) (\<lambda>enriched.
         lift_result (new_record GroupMembersListResult (Obj [(''items'', Arr (map member_json enriched))]))))))"

text \<open>The announcement of a member who joined through an invite, with the consent proof signed by its account.\<close>

definition sendMemberJoinOp :: "'s host \<Rightarrow> env \<Rightarrow> jsval \<Rightarrow> jsval \<Rightarrow> jsval \<Rightarrow> jsval \<Rightarrow> ('s, unit) handler" where
  "sendMemberJoinOp H E groupId inviterAccountId inviteId displayName =
     (let gid = trim (string_or_empty groupId); inviter = trim (string_or_empty inviterAccountId); id = trim (string_or_empty inviteId);
          ownName = string_or_empty displayName; me = Str (ev_owner E) in
      if gid = [] \<or> inviter = [] \<or> id = [] then ok ()
      else case own_proof E gid ownName of None \<Rightarrow> ok ()
      | Some proof \<Rightarrow>
        andThen (catching (andThen (on_kv (ensureMembership H me (Str gid) me Undef (Str ownName) (proof_value proof))) (\<lambda>_. ok ())) ()) (\<lambda>_.
          send_group_op H E [inviter] ''member.join'' gid (clockMs H) [(''accountId'', me), (''inviteId'', Str id),
            (''displayName'', Str ownName), (''joinerSignerPublicKeyB64'', Str (fst proof)), (''joinerSigB64'', Str (snd proof))]))"

end
