(* ===== verification/ChannelService.thy ===== *)
theory ChannelService
  imports GroupService
begin

text \<open>
  The channels service (\<open>src/server/services/ServerChannelsService.js\<close>): the channels of a group as its
  members create, delete, observe and announce them.
\<close>

definition emitChannelUpserted :: "ChatChannel option \<Rightarrow> ('s, unit) handler" where
  "emitChannelUpserted channel = emit_record ''channel.upserted'' (new_record ChannelUpsertedEvent)
     (Obj [(''channel'', case channel of None \<Rightarrow> Null | Some c \<Rightarrow> channel_json c)])"

definition emitChannelRemoved :: "string \<Rightarrow> string \<Rightarrow> ('s, unit) handler" where
  "emitChannelRemoved groupId channelId = emit_record ''channel.removed'' (new_record ChannelRemovedEvent)
     (Obj [(''groupId'', Str groupId), (''channelId'', Str channelId)])"

section \<open>Requests of the owner\<close>

definition svc_listChannels :: "'s host \<Rightarrow> env \<Rightarrow> jsval \<Rightarrow> ('s, jsval) handler" where
  "svc_listChannels H E payload =
     andThen (lift_result (new_record ChannelsListParams payload)) (\<lambda>params.
     andThen (on_kv (listChannels H (Str (ev_owner E)) (getp params ''groupId'') (getp params ''includeDeleted'' = Bool True))) (\<lambda>items.
       lift_result (new_record ChannelsListResult (Obj [(''groupId'', getp params ''groupId''), (''items'', Arr (map channel_json items))]))))"

text \<open>The id and the label a creation asks for: an explicit slug, or the slug of the label.\<close>

definition requested_channel :: "jsval \<Rightarrow> string \<times> string" where
  "requested_channel params =
     (let labelInput = (if sget params ''label'' \<noteq> [] then sget params ''label'' else sget params ''channelId'');
          explicitCid = trim (sget params ''channelId'')
      in (if explicitCid \<noteq> [] \<and> isValidChannelId explicitCid then explicitCid else slugifyChannelLabel (Str labelInput), labelInput))"

definition createChannel :: "'s host \<Rightarrow> env \<Rightarrow> jsval \<Rightarrow> ('s, jsval) handler" where
  "createChannel H E payload =
     andThen (lift_result (new_record ChannelsCreateParams payload)) (\<lambda>params.
       let cid = fst (requested_channel params); labelInput = snd (requested_channel params); gid = sget params ''groupId'' in
       if cid = [] \<or> \<not> isValidChannelId cid
       then throw (Error (''channels.create: label '' @ [CHR 0x27] @ labelInput @ [CHR 0x27] @ '' has no characters that slugify to [a-z0-9_-]{1,64}''))
       else andThen (requireSelfAdmin H E gid ''channels.create'') (\<lambda>_.
         andThen (on_kv (ensureChannel H (Str (ev_owner E)) (Str gid) (Str cid) (Str labelInput) Undef)) (\<lambda>(channel, created).
         andThen (when_ok created
           (andThen (emitChannelUpserted channel) (\<lambda>_.
            andThen (listOtherActiveMembers H E gid) (\<lambda>peers.
              send_group_op H E peers ''channel.create'' gid (clockMs H) [(''channelId'', Str cid), (''label'', Str labelInput)])))) (\<lambda>_.
           lift_result (new_record ChannelsCreateResult (Obj [(''channel'', case channel of None \<Rightarrow> Null | Some c \<Rightarrow> channel_json c),
             (''created'', Bool created)]))))))"

definition deleteChannel :: "'s host \<Rightarrow> env \<Rightarrow> jsval \<Rightarrow> ('s, jsval) handler" where
  "deleteChannel H E payload =
     andThen (lift_result (new_record ChannelsDeleteParams payload)) (\<lambda>params.
       let gid = sget params ''groupId''; cid = sget params ''channelId'' in
       if \<not> isValidChannelId cid then throw (Error ''channels.delete: channelId must be a slug matching [a-z0-9_-]{1,64}'')
       else andThen (requireSelfAdmin H E gid ''channels.delete'') (\<lambda>_.
         andThen (on_kv (tombstoneChannel H (Str (ev_owner E)) (Str gid) (Str cid) Undef)) (\<lambda>(_, tombstoned).
         andThen (when_ok tombstoned
           (andThen (emitChannelRemoved gid cid) (\<lambda>_.
            andThen (listOtherActiveMembers H E gid) (\<lambda>peers.
              send_group_op H E peers ''channel.delete'' gid (clockMs H) [(''channelId'', Str cid)])))) (\<lambda>_.
           lift_result (new_record ChannelsDeleteResult (Obj [(''groupId'', Str gid), (''channelId'', Str cid), (''deleted'', Bool tombstoned)]))))))"

section \<open>Operations of peers\<close>

text \<open>The sender is an active member of the group; only an admin's deletion counts.\<close>

definition applyIncomingOp :: "'s host \<Rightarrow> env \<Rightarrow> jsval \<Rightarrow> jsval \<Rightarrow> bool \<Rightarrow> ('s, bool) handler" where
  "applyIncomingOp H E op senderAccountId isAdmin =
     (let gid = getp op ''groupId''; cid = sget op ''channelId''; me = Str (ev_owner E) in
      if trim (string_or_empty senderAccountId) = [] then ok False
      else if cid = [] \<or> \<not> isValidChannelId cid then ok True
      else if sget op ''op'' = ''channel.create'' then
        andThen (on_kv (ensureChannel H me gid (Str cid) (getp op ''label'') Undef)) (\<lambda>(channel, created).
        andThen (when_ok (created \<or> (case channel of None \<Rightarrow> False
            | Some c \<Rightarrow> ch_label c \<noteq> [] \<and> sget op ''label'' \<noteq> [] \<and> ch_label c = sget op ''label''))
          (emitChannelUpserted channel)) (\<lambda>_. ok True))
      else if sget op ''op'' = ''channel.delete'' then
        (if \<not> isAdmin then ok True
         else andThen (on_kv (tombstoneChannel H me gid (Str cid) (getp op ''actedAtMs''))) (\<lambda>(_, tombstoned).
           andThen (when_ok tombstoned (emitChannelRemoved (sget op ''groupId'') cid)) (\<lambda>_. ok True)))
      else ok False)"

definition fanoutChannelsToPeer :: "'s host \<Rightarrow> env \<Rightarrow> string \<Rightarrow> string \<Rightarrow> ('s, unit) handler" where
  "fanoutChannelsToPeer H E groupId peerAccountId =
     (let gid = trim groupId; peer = trim peerAccountId in
      if gid = [] \<or> peer = [] \<or> peer = ev_owner E then ok ()
      else andThen (catching (on_kv (listChannels H (Str (ev_owner E)) (Str gid) False)) []) (\<lambda>channels.
        each (\<lambda>c. when_ok (ch_channelId c \<noteq> []) (send_group_op H E [peer] ''channel.create'' gid (clockMs H)
          [(''channelId'', Str (ch_channelId c)), (''label'', Str (ch_label c))])) channels))"

definition sendSyncRequest :: "'s host \<Rightarrow> env \<Rightarrow> string \<Rightarrow> string \<Rightarrow> ('s, unit) handler" where
  "sendSyncRequest H E groupId peerAccountId = send_group_op H E [peerAccountId] ''channels.sync_request'' groupId (clockMs H) []"

definition ensureFromObservedMessage :: "'s host \<Rightarrow> env \<Rightarrow> jsval \<Rightarrow> jsval \<Rightarrow> jsval \<Rightarrow> ('s, unit) handler" where
  "ensureFromObservedMessage H E groupId channelId senderAccountId =
     (if string_or_empty groupId = [] \<or> \<not> isValidChannelId (string_or_empty channelId) then ok ()
      else andThen (catching (on_kv (ensureChannel H (Str (ev_owner E)) groupId channelId Undef Undef)) (None, False)) (\<lambda>(channel, created).
        when_ok (created \<and> channel \<noteq> None)
          (andThen (emitChannelUpserted channel) (\<lambda>_.
             let sender = trim (string_or_empty senderAccountId) in
             when_ok (sender \<noteq> [] \<and> sender \<noteq> ev_owner E) (catching (sendSyncRequest H E (string_or_empty groupId) sender) ())))))"

text \<open>
  Catching up: every active member of every group is asked for its channels; a request that throws is
  not counted. A second call while one is running shares its result, so the calls that count are these.
\<close>

fun count_requests :: "('a \<Rightarrow> ('s, unit) op) \<Rightarrow> 'a list \<Rightarrow> ('s, nat) op" where
  "count_requests f [] = ok 0"
| "count_requests f (x # xs) =
     andThen (catching (andThen (f x) (\<lambda>_. ok (1::nat))) 0) (\<lambda>k. andThen (count_requests f xs) (\<lambda>n. ok (k + n)))"

fun sync_groups :: "'s host \<Rightarrow> env \<Rightarrow> ChatGroup list \<Rightarrow> ('s, nat) handler" where
  "sync_groups H E [] = ok 0"
| "sync_groups H E (g # gs) =
     (let gid = trim (g_groupId g) in
      andThen (if gid = [] then ok 0
        else andThen (listOtherActiveMembers H E gid) (\<lambda>peers. count_requests (sendSyncRequest H E gid) peers)) (\<lambda>k.
      andThen (sync_groups H E gs) (\<lambda>n. ok (k + n))))"

definition requestSyncForAllMyGroups :: "'s host \<Rightarrow> env \<Rightarrow> ('s, jsval) handler" where
  "requestSyncForAllMyGroups H E =
     andThen (catching (on_kv (listGroups H (Str (ev_owner E)))) []) (\<lambda>groups.
     andThen (sync_groups H E groups) (\<lambda>n.
       lift_result (new_record ChannelsSyncAllResult (Obj [(''requestsSent'', num (of_nat n))]))))"

end
