(* ===== verification/GroupOps.thy ===== *)
theory GroupOps
  imports ChannelService Mutations
begin

text \<open>
  Group operations received from peers (\<open>src/server/services/ServerGroupOpApplier.js\<close>): the
  authorisation of each kind of operation and what it does to the stores, and the announcements that keep
  the members of a group linked to each other. An operation is a constructed \<open>GroupOpPayloadV1\<close>.
\<close>

definition MAX_BOOTSTRAP_PER_CONTACT_OP :: nat where "MAX_BOOTSTRAP_PER_CONTACT_OP = 64"
definition MAX_CLOCK_SKEW_MS :: rat where "MAX_CLOCK_SKEW_MS = 5 * 60 * 1000"

section \<open>Title and photo\<close>

text \<open>\<open>Math.min(Number(op.actedAtMs) || d, clock() + MAX_CLOCK_SKEW_MS)\<close>; the field is a whole number.\<close>

definition clamped_time :: "'s host \<Rightarrow> jsval \<Rightarrow> rat \<Rightarrow> rat" where
  "clamped_time H v d = min (case v of Num (Fin r) \<Rightarrow> (if r = 0 then d else r) | _ \<Rightarrow> d) (clockMs H + MAX_CLOCK_SKEW_MS)"

text \<open>\<open>Number(null)\<close> is 0, so a group without a time counts as one of time 0.\<close>

definition not_newer :: "'s host \<Rightarrow> jsval \<Rightarrow> ChatGroup option \<Rightarrow> bool" where
  "not_newer H op existing = (case existing of None \<Rightarrow> False
     | Some g \<Rightarrow> zero_if_none (g_updatedAtMs g) \<ge> clamped_time H (getp op ''actedAtMs'') 0)"

definition applyIncomingRename :: "'s host \<Rightarrow> env \<Rightarrow> jsval \<Rightarrow> ('s, unit) handler" where
  "applyIncomingRename H E op =
     (let gid = sget op ''groupId'' in
      andThen (group_of H E gid) (\<lambda>existing.
        if not_newer H op existing then ok ()
        else andThen (on_kv (renameGroup H (Str (ev_owner E)) (Str gid) (getp op ''title''))) (\<lambda>(group, _).
          case group of None \<Rightarrow> ok ()
          | Some g \<Rightarrow> andThen (sync_title H E gid (getp op ''title'')) (\<lambda>_. emit_group g))))"

text \<open>The bytes of a photo are stored under their hash, or the operation is dropped.\<close>

definition store_avatar :: "env \<Rightarrow> string \<Rightarrow> jsval \<Rightarrow> ('s, bool) handler" where
  "store_avatar E avatarFileHash dataB64 =
     (if \<not> ev_fileTransfer E then ok False
      else catching (andThen (storeFile E (Str avatarFileHash) dataB64) (\<lambda>_. ok True)) False)"

definition applyIncomingSetAvatar :: "'s host \<Rightarrow> env \<Rightarrow> jsval \<Rightarrow> ('s, unit) handler" where
  "applyIncomingSetAvatar H E op =
     (let gid = sget op ''groupId''; avatarFileHash = sget op ''avatarFileHash'' in
      andThen (group_of H E gid) (\<lambda>existing.
        if not_newer H op existing then ok ()
        else andThen (if avatarFileHash \<noteq> [] then store_avatar E avatarFileHash (Str (sget op ''avatarDataB64'')) else ok True) (\<lambda>stored.
          if \<not> stored then ok ()
          else andThen (on_kv (setGroupAvatar H (Str (ev_owner E)) (Str gid) (Str avatarFileHash))) (\<lambda>(group, _).
            case group of None \<Rightarrow> ok () | Some g \<Rightarrow> emit_group g))))"

text \<open>The advertisement of the current title and photo to a peer that asks to catch up.\<close>

definition advertiseGroupStateToPeer :: "'s host \<Rightarrow> env \<Rightarrow> string \<Rightarrow> string \<Rightarrow> ('s, unit) handler" where
  "advertiseGroupStateToPeer H E groupId peerAccountId =
     (if groupId = [] \<or> peerAccountId = [] \<or> peerAccountId = ev_owner E then ok ()
      else andThen (group_of H E groupId) (\<lambda>group. case group of None \<Rightarrow> ok ()
        | Some g \<Rightarrow>
          if trim (g_title g) = [] then ok ()
          else let fileHash = trim (g_avatarFileHash g) in
            andThen (reads (\<lambda>n. if fileHash \<noteq> [] \<and> ev_fileTransfer E then retrieveFileB64 E (Str fileHash) n else None)) (\<lambda>data.
              send_group_op H E [peerAccountId] ''group.state'' groupId (zero_if_none (g_updatedAtMs g))
                ([(''title'', Str (trim (g_title g)))]
                 @ (case data of None \<Rightarrow> [] | Some b64 \<Rightarrow>
                     if b64 \<noteq> [] then [(''avatarFileHash'', Str fileHash), (''avatarDataB64'', Str b64)] else [])))))"

text \<open>Catching up: title and photo are filled independently, each only where the local one is empty.\<close>

definition fill_title :: "'s host \<Rightarrow> env \<Rightarrow> string \<Rightarrow> ChatGroup \<Rightarrow> string \<Rightarrow> ('s, bool) handler" where
  "fill_title H E gid existing newTitle =
     (if trim (g_title existing) \<noteq> [] \<or> newTitle = [] then ok False
      else andThen (on_kv (renameGroup H (Str (ev_owner E)) (Str gid) (Str newTitle))) (\<lambda>(group, _).
        case group of None \<Rightarrow> ok False | Some _ \<Rightarrow> andThen (sync_title H E gid (Str newTitle)) (\<lambda>_. ok True)))"

definition fill_avatar :: "'s host \<Rightarrow> env \<Rightarrow> string \<Rightarrow> ChatGroup \<Rightarrow> string \<Rightarrow> string \<Rightarrow> ('s, bool) handler" where
  "fill_avatar H E gid existing newHash newB64 =
     (if trim (g_avatarFileHash existing) \<noteq> [] \<or> newHash = [] \<or> newB64 = [] then ok False
      else andThen (store_avatar E newHash (Str newB64)) (\<lambda>stored.
        if \<not> stored then ok False
        else andThen (on_kv (setGroupAvatar H (Str (ev_owner E)) (Str gid) (Str newHash))) (\<lambda>(group, _). ok (group \<noteq> None))))"

definition applyIncomingGroupState :: "'s host \<Rightarrow> env \<Rightarrow> jsval \<Rightarrow> ('s, unit) handler" where
  "applyIncomingGroupState H E op =
     (let gid = sget op ''groupId'' in
      andThen (group_of H E gid) (\<lambda>existing. case existing of None \<Rightarrow> ok ()
        | Some g \<Rightarrow>
          andThen (fill_title H E gid g (trim (sget op ''title''))) (\<lambda>titled.
          andThen (fill_avatar H E gid g (trim (sget op ''avatarFileHash'')) (sget op ''avatarDataB64'')) (\<lambda>pictured.
            if \<not> (titled \<or> pictured) then ok ()
            else andThen (group_of H E gid) (\<lambda>now. case now of None \<Rightarrow> ok () | Some g' \<Rightarrow> emit_group g')))))"

section \<open>Removal and roles\<close>

definition applyIncomingKick :: "'s host \<Rightarrow> env \<Rightarrow> jsval \<Rightarrow> ('s, unit) handler" where
  "applyIncomingKick H E op =
     (let gid = sget op ''groupId''; acct = sget op ''accountId'' in
      andThen (isCreator H E gid acct) (\<lambda>creator.
        if creator then ok ()
        else andThen (on_kv (removeMember H (Str (ev_owner E)) (Str gid) (Str acct))) (\<lambda>(_, removed).
          if \<not> removed then ok ()
          else if acct = ev_owner E
          then andThen (catching (andThen (on_kv (setThreadState H (ev_owner E) (Str (groupThreadId E gid)) Undef (Str ''locked''))) (\<lambda>_. ok ())) ()) (\<lambda>_.
                 emit_group_removed gid)
          else andThen (emitMembersUpdated H E gid) (\<lambda>_. emitGroupUpdated H E gid))))"

definition applyIncomingSetRole :: "'s host \<Rightarrow> env \<Rightarrow> jsval \<Rightarrow> ('s, unit) handler" where
  "applyIncomingSetRole H E op =
     (let gid = sget op ''groupId''; acct = sget op ''accountId'' in
      andThen (isCreator H E gid acct) (\<lambda>creator.
        if creator \<or> toLowerCase (sget op ''role'') = CREATOR_ROLE then ok ()
        else andThen (on_kv (setMemberRole H (Str (ev_owner E)) (Str gid) (Str acct) (getp op ''role''))) (\<lambda>(membership, _).
          when_ok (membership \<noteq> None) (emitMembersUpdated H E gid))))"

definition applyIncomingLeave :: "'s host \<Rightarrow> env \<Rightarrow> jsval \<Rightarrow> ('s, unit) handler" where
  "applyIncomingLeave H E op =
     (let gid = sget op ''groupId''; acct = sget op ''accountId'' in
      if acct = ev_owner E then ok ()
      else andThen (on_kv (removeMember H (Str (ev_owner E)) (Str gid) (Str acct))) (\<lambda>(_, removed).
        when_ok removed (andThen (emitMembersUpdated H E gid) (\<lambda>_. emitGroupUpdated H E gid))))"

section \<open>Announcing members\<close>

text \<open>Peer accounts with a routable inbox; of two links the last counts.\<close>

definition knownPeerInboxes :: "env \<Rightarrow> string \<Rightarrow> string option" where
  "knownPeerInboxes E acct =
     (case ev_peerLinks E of None \<Rightarrow> None
      | Some result \<Rightarrow> map_option (\<lambda>i. trim (sget i ''peerInboxId''))
          (find (\<lambda>i. trim (sget i ''peerAccountId'') = acct \<and> acct \<noteq> [] \<and> trim (sget i ''peerInboxId'') \<noteq> [])
            (List.rev (elements (getp result ''items'')))))"

definition member_proof :: "ChatGroupMember \<Rightarrow> (string \<times> jsval) list" where
  "member_proof m = (case (gm_joinerSignerPublicKeyB64 m, gm_joinerSigB64 m) of
       (Some k, Some sig) \<Rightarrow> if k \<noteq> [] \<and> sig \<noteq> [] then [(''joinProof'', proof_value (k, sig))] else []
     | _ \<Rightarrow> [])"

text \<open>
  The entry of a member: the creator with the marker and its proof if there is one, any other member only
  with its proof. A member without inbox or warrant is left out.
\<close>

definition contact_entry :: "env \<Rightarrow> string \<Rightarrow> ChatGroupMember \<Rightarrow> jsval option" where
  "contact_entry E createdBy m =
     (let acct = gm_accountId m;
          inbox = (if acct = ev_owner E then trim (string_or_empty (ev_ownInbox E)) else case knownPeerInboxes E acct of None \<Rightarrow> [] | Some i \<Rightarrow> i);
          entry = [(''accountId'', Str acct), (''inboxId'', Str inbox), (''displayName'', Str (case gm_displayName m of None \<Rightarrow> [] | Some d \<Rightarrow> d))]
      in if inbox = [] then None
         else if createdBy \<noteq> [] \<and> acct = createdBy then Some (Obj (entry @ [(''isCreator'', Bool True)] @ member_proof m))
         else if member_proof m \<noteq> [] then Some (Obj (entry @ member_proof m)) else None)"

definition broadcastKnownContacts :: "'s host \<Rightarrow> env \<Rightarrow> string \<Rightarrow> ('s, unit) handler" where
  "broadcastKnownContacts H E groupId =
     andThen (group_of H E groupId) (\<lambda>group.
     andThen (members_of H E groupId) (\<lambda>members.
       let createdBy = (case group of None \<Rightarrow> [] | Some g \<Rightarrow> trim (g_createdBy g));
           active = filter (\<lambda>m. gm_state m = ''active'') members;
           contacts = keepSome (contact_entry E createdBy) active;
           targets = filter (\<lambda>a. a \<noteq> ev_owner E) (map gm_accountId active)
       in if contacts = [] \<or> targets = [] then ok ()
          else send_group_op H E targets ''member.contact'' groupId (clockMs H) [(''contacts'', Arr contacts)]))"

definition reconcileMesh :: "'s host \<Rightarrow> env \<Rightarrow> ('s, unit) handler" where
  "reconcileMesh H E =
     andThen (catching (on_kv (listGroups H (Str (ev_owner E)))) []) (\<lambda>groups.
       each (\<lambda>g. catching (broadcastKnownContacts H E (g_groupId g)) ()) groups)"

section \<open>Consent\<close>

text \<open>Without an account authority nothing is verified.\<close>

definition verifyConsent :: "env \<Rightarrow> string \<Rightarrow> string \<Rightarrow> string \<Rightarrow> jsval \<Rightarrow> bool" where
  "verifyConsent E groupId accountId displayName proof =
     verifyMemberJoinProof (ev_authority E) (Str groupId) (Str accountId) (Str displayName)
       (getp proof ''joinerSignerPublicKeyB64'') (getp proof ''joinerSigB64'')"

definition proof_of :: "jsval \<Rightarrow> jsval" where
  "proof_of v = Obj [(''joinerSignerPublicKeyB64'', getp v ''joinerSignerPublicKeyB64''), (''joinerSigB64'', getp v ''joinerSigB64'')]"

section \<open>Contacts of members\<close>

text \<open>
  The warrant of an entry: the creator is recognised by the group's own record, any other member by a
  consent proof over the carried name. The second part is the proof that goes with the name, if any.
\<close>

definition contact_warrant :: "env \<Rightarrow> string \<Rightarrow> string \<Rightarrow> jsval \<Rightarrow> bool \<times> jsval option" where
  "contact_warrant E gid createdBy contact =
     (let acct = trim (sget contact ''accountId''); name = sget contact ''displayName'';
          proof = (if is_object (getp contact ''joinProof'') then getp contact ''joinProof'' else Null);
          consent = verifyConsent E gid acct name proof
      in if getp contact ''isCreator'' = Bool True
         then (createdBy \<noteq> [] \<and> acct = createdBy,
               if createdBy \<noteq> [] \<and> acct = createdBy \<and> proof \<noteq> Null \<and> consent then Some (proof_of proof) else None)
         else (consent, if consent then Some (proof_of proof) else None))"

definition record_known :: "'s host \<Rightarrow> env \<Rightarrow> string \<Rightarrow> string \<Rightarrow> ('s, unit) handler" where
  "record_known H E acct displayName = when_ok (ev_contacts E)
     (catching (andThen (ensureKnownAccount H E (Str acct) (Str displayName)) (\<lambda>_. ok ())) ())"

text \<open>One entry: whether the roster changed, and whether a link is started.\<close>

definition apply_contact :: "'s host \<Rightarrow> env \<Rightarrow> string \<Rightarrow> string \<Rightarrow> jsval \<Rightarrow> bool \<Rightarrow> ('s, bool \<times> bool) handler" where
  "apply_contact H E gid createdBy contact may_link =
     (let acct = trim (sget contact ''accountId''); inbox = trim (sget contact ''inboxId''); name = sget contact ''displayName'' in
      if acct = [] \<or> inbox = [] \<or> acct = ev_owner E then ok (False, False)
      else let (verified, joinProof) = contact_warrant E gid createdBy contact in
        if \<not> verified then ok (False, False)
        else andThen (catching (on_kv (ensureMembership H (Str (ev_owner E)) (Str gid) (Str acct) (Str ''member'') (Str name)
               (case joinProof of None \<Rightarrow> Null | Some p \<Rightarrow> p))) \<lparr> mr_membership = None, mr_created = False, mr_upgraded = False \<rparr>) (\<lambda>r.
             andThen (when_ok (joinProof \<noteq> None \<and> name \<noteq> []) (record_known H E acct name)) (\<lambda>_.
               let link = is_active (mr_membership r) \<and> ev_peerLinkProtocol E \<and> may_link in
               andThen (when_ok link (effect_out (LinkPeer acct inbox))) (\<lambda>_.
                 ok (mr_created r \<or> mr_upgraded r, link)))))"

fun apply_contacts :: "'s host \<Rightarrow> env \<Rightarrow> string \<Rightarrow> string \<Rightarrow> jsval list \<Rightarrow> nat \<Rightarrow> ('s, bool) handler" where
  "apply_contacts H E gid createdBy [] bootstrapped = ok False"
| "apply_contacts H E gid createdBy (c # cs) bootstrapped =
     andThen (apply_contact H E gid createdBy c (bootstrapped < MAX_BOOTSTRAP_PER_CONTACT_OP)) (\<lambda>(changed, link).
     andThen (apply_contacts H E gid createdBy cs (if link then Suc bootstrapped else bootstrapped)) (\<lambda>rest.
       ok (changed \<or> rest)))"

definition applyIncomingMemberContact :: "'s host \<Rightarrow> env \<Rightarrow> jsval \<Rightarrow> ('s, unit) handler" where
  "applyIncomingMemberContact H E op =
     (let gid = sget op ''groupId''; contacts = elements (getp op ''contacts'') in
      if contacts = [] then ok ()
      else andThen (group_of H E gid) (\<lambda>group.
        andThen (apply_contacts H E gid (case group of None \<Rightarrow> [] | Some g \<Rightarrow> trim (g_createdBy g)) contacts 0) (\<lambda>rosterChanged.
          when_ok rosterChanged (emitMembersUpdated H E gid))))"

section \<open>Joining\<close>

definition resolveJoinInviteEnvelope :: "env \<Rightarrow> string \<Rightarrow> string \<Rightarrow> jsval option" where
  "resolveJoinInviteEnvelope E inviteId groupId =
     (case ev_inviteEnvelope E of None \<Rightarrow> None
      | Some lookup \<Rightarrow> (case lookup inviteId of None \<Rightarrow> None
        | Some found \<Rightarrow> let envelope = getp found ''envelope'' in
            if \<not> truthy envelope \<or> getp envelope ''kind'' \<noteq> Str ''group'' \<or> trim (sget envelope ''groupId'') \<noteq> groupId then None
            else Some envelope))"

text \<open>\<open>(Number(envelope.createdAtMs) || 0) > removedAtMs\<close>.\<close>

definition invite_after :: "jsval \<Rightarrow> rat \<Rightarrow> bool" where
  "invite_after envelope removedAtMs = (case js_number (getp envelope ''createdAtMs'') of
     Fin r \<Rightarrow> r > removedAtMs | PosInf \<Rightarrow> True | NegInf \<Rightarrow> False | NaN \<Rightarrow> 0 > removedAtMs)"

definition invite_authorized :: "env \<Rightarrow> string \<Rightarrow> string \<Rightarrow> bool" where
  "invite_authorized E inviteId joiner = (case ev_authorizeJoin E of None \<Rightarrow> False
     | Some authorize \<Rightarrow> (case authorize inviteId joiner of None \<Rightarrow> False | Some verdict \<Rightarrow> truthy (getp verdict ''authorized'')))"

definition was_removed :: "ChatGroupMember option \<Rightarrow> bool" where
  "was_removed m = (case m of None \<Rightarrow> False | Some x \<Rightarrow> toLowerCase (gm_state x) = ''removed'')"

text \<open>
  Who may join: an account that announces itself, under an invite of this owner that is newer than a
  removal and that the ledger still authorises; or one that an active member forwards, if it was not removed.
\<close>

definition join_allowed :: "'s host \<Rightarrow> env \<Rightarrow> jsval \<Rightarrow> string \<Rightarrow> string \<Rightarrow> ChatGroupMember option \<Rightarrow> ('s, bool) handler" where
  "join_allowed H E op sender joiner existing =
     (if sender = joiner then
        ok (case resolveJoinInviteEnvelope E (sget op ''inviteId'') (sget op ''groupId'') of None \<Rightarrow> False
          | Some envelope \<Rightarrow>
              (was_removed existing \<longrightarrow> invite_after envelope (case existing of None \<Rightarrow> 0 | Some m \<Rightarrow> zero_if_none (gm_updatedAtMs m)))
              \<and> invite_authorized E (sget op ''inviteId'') joiner)
      else andThen (findMembership H E (sget op ''groupId'') sender) (\<lambda>forwarder.
        ok ((case forwarder of None \<Rightarrow> False | Some f \<Rightarrow> gm_state f = ''active'') \<and> \<not> was_removed existing)))"

definition persistJoinSystemMessage :: "'s host \<Rightarrow> env \<Rightarrow> string \<Rightarrow> string \<Rightarrow> string \<Rightarrow> jsval \<Rightarrow> string \<Rightarrow> ('s, unit) handler" where
  "persistJoinSystemMessage H E groupId joiner displayName actedAtMs groupOpId =
     (let atMs = clamped_time H actedAtMs (clockMs H) in
      catching (andThen (on_kv (upsertMessage H (ev_owner E) (Obj [(''messageId'', Str (''sys:join:'' @ groupOpId)),
        (''threadId'', Str (groupThreadId E groupId)), (''groupId'', Str groupId), (''senderAccountId'', Null), (''senderKey'', Str ''system''),
        (''payload'', Obj [(''kind'', Str SYSTEM_EVENT_KIND), (''event'', Str ''member.join''), (''groupId'', Str groupId),
           (''actorAccountId'', Str joiner), (''actorDisplayName'', Str displayName), (''actedAtMs'', num atMs)]),
        (''text'', Str []), (''status'', Str ''delivered''), (''createdAtMs'', num atMs), (''acceptedAtMs'', num atMs)]))) (\<lambda>_. ok ())) ())"

definition admit_joiner :: "'s host \<Rightarrow> env \<Rightarrow> jsval \<Rightarrow> string \<Rightarrow> bool \<Rightarrow> ('s, bool) handler" where
  "admit_joiner H E op joiner wasRemoved =
     (let me = Str (ev_owner E); gid = Str (sget op ''groupId''); name = Str (sget op ''displayName'') in
      if wasRemoved
      then catching (andThen (on_kv (reviveMembership H me gid (Str joiner) (Str ''member'') name (proof_of op))) (\<lambda>(_, revived). ok revived)) False
      else catching (andThen (on_kv (ensureMembership H me gid (Str joiner) (Str ''member'') name (proof_of op)))
             (\<lambda>r. ok (mr_created r \<or> mr_upgraded r))) False)"

text \<open>What the inviter does for a new member: it is announced, and caught up.\<close>

definition forward_join :: "'s host \<Rightarrow> env \<Rightarrow> jsval \<Rightarrow> string \<Rightarrow> ('s, unit) handler" where
  "forward_join H E op joiner =
     (let gid = sget op ''groupId'' in
      andThen (listOtherActiveMembers H E gid) (\<lambda>others.
      andThen (fanOut E (filter (\<lambda>a. a \<noteq> joiner) others) op) (\<lambda>_.
      andThen (when_ok (ev_channels E) (catching (fanoutChannelsToPeer H E gid joiner) ())) (\<lambda>_.
        catching (broadcastKnownContacts H E gid) ()))))"

definition applyIncomingMemberJoin :: "'s host \<Rightarrow> env \<Rightarrow> jsval \<Rightarrow> string \<Rightarrow> ('s, unit) handler" where
  "applyIncomingMemberJoin H E op sender =
     (let gid = sget op ''groupId''; joiner = trim (sget op ''accountId''); name = sget op ''displayName'' in
      if sender = [] \<or> joiner = [] \<or> joiner = ev_owner E then ok ()
      else if \<not> verifyConsent E gid joiner name op then ok ()
      else andThen (findMembership H E gid joiner) (\<lambda>existing.
        andThen (join_allowed H E op sender joiner existing) (\<lambda>allowed.
          if \<not> allowed then ok ()
          else andThen (admit_joiner H E op joiner (was_removed existing)) (\<lambda>changed.
            andThen (record_known H E joiner name) (\<lambda>_.
            andThen (when_ok changed (andThen (emitMembersUpdated H E gid) (\<lambda>_.
              persistJoinSystemMessage H E gid joiner name (getp op ''actedAtMs'') (sget op ''groupOpId'')))) (\<lambda>_.
            andThen (when_ok (ev_events E) (effect_out (FlushDeferred gid joiner))) (\<lambda>_.
              when_ok (sender = joiner) (forward_join H E op joiner))))))))"

section \<open>Dispatch\<close>

definition apply_from_member :: "'s host \<Rightarrow> env \<Rightarrow> jsval \<Rightarrow> string \<Rightarrow> bool \<Rightarrow> ('s, unit) handler" where
  "apply_from_member H E op sender isAdmin =
     (let kind = sget op ''op''; gid = sget op ''groupId'' in
      if kind = ''rename'' then applyIncomingRename H E op
      else if kind = ''setAvatar'' then applyIncomingSetAvatar H E op
      else if kind = ''kick'' then when_ok isAdmin (applyIncomingKick H E op)
      else if kind = ''setRole'' then when_ok isAdmin (applyIncomingSetRole H E op)
      else if kind = ''leave'' then when_ok (sget op ''accountId'' = sender) (applyIncomingLeave H E op)
      else if kind = ''channel.create'' \<or> kind = ''channel.delete'' then
        when_ok (ev_channels E) (andThen (applyIncomingOp H E op (Str sender) isAdmin) (\<lambda>_. ok ()))
      else if kind = ''channels.sync_request'' then
        when_ok (ev_channels E) (andThen (catching (fanoutChannelsToPeer H E gid sender) ()) (\<lambda>_.
          catching (advertiseGroupStateToPeer H E gid sender) ()))
      else if kind = ''group.state'' then applyIncomingGroupState H E op
      else if kind = ''member.contact'' then applyIncomingMemberContact H E op
      else ok ())"

definition handleIncomingGroupOp :: "'s host \<Rightarrow> env \<Rightarrow> jsval \<Rightarrow> jsval \<Rightarrow> ('s, bool) handler" where
  "handleIncomingGroupOp H E op senderAccountId =
     (let sender = trim (string_or_empty senderAccountId) in
      if sender = [] then ok False
      else if sget op ''op'' = ''member.join'' then andThen (applyIncomingMemberJoin H E op sender) (\<lambda>_. ok True)
      else andThen (findMembership H E (sget op ''groupId'') sender) (\<lambda>membership.
        if (case membership of None \<Rightarrow> True | Some m \<Rightarrow> gm_state m \<noteq> ''active'') then ok True
        else andThen (isEffectiveAdmin H E (sget op ''groupId'') membership) (\<lambda>isAdmin.
          andThen (apply_from_member H E op sender isAdmin) (\<lambda>_. ok True))))"

end
