(* ===== verification/HandlerLaws.thy ===== *)
theory HandlerLaws
  imports GroupOps StoreRuns
begin

text \<open>
  How properties of handlers are proved. \<open>every R m\<close> says that the operation \<open>m\<close> takes every state to
  one related by \<open>R\<close>, whether it returns or throws. The locale \<open>step_law\<close> has one rule per way of composing
  operations, for any reflexive and transitive \<open>R\<close>; \<open>store_law\<close> the rules of handlers whose \<open>R\<close> looks at the
  stores only. \<open>inbound\<close> is the contract between the applier of received group operations and the stores: it lists
  what a relation \<open>Q\<close> has to say of the operations that the applier calls, with the arguments it calls them with;
  in return the applier itself keeps \<open>Q\<close>. Reviving a removed member is the one operation apart: \<open>inbound_revive\<close>
  adds it. The interpretations are in \<open>InboundStores\<close>.
\<close>

section \<open>Steps of operations\<close>

definition every :: "('n \<Rightarrow> 'n \<Rightarrow> bool) \<Rightarrow> ('n, 'a) op \<Rightarrow> bool" where
  "every R m \<longleftrightarrow> (\<forall>n. R n (snd (m n)))"

lemma everyD: "every R m \<Longrightarrow> R n (snd (m n))"
  by (simp add: every_def)

lemma every_mono: "every R m \<Longrightarrow> (\<And>a b. R a b \<Longrightarrow> R' a b) \<Longrightarrow> every R' m"
  by (simp add: every_def)

text \<open>An operation that only reads: \<open>every (=) m\<close>.\<close>

abbreviation idle :: "('n, 'a) op \<Rightarrow> bool" where
  "idle m \<equiv> every (=) m"

lemma idle_simps [simp]:
  "idle (ok x)" "idle (throw e)" "idle (reads f)" "idle (lift_result r)"
  by (simp_all add: every_def ok_def throw_def reads_def lift_result_def)

lemma idle_andThen: "idle m \<Longrightarrow> (\<And>x. idle (f x)) \<Longrightarrow> idle (andThen m f)"
  by (simp add: every_def andThen_def split: prod.split sum.split) (metis snd_conv)

lemma idle_with_id: "(\<And>t. idle (k t)) \<Longrightarrow> idle (with_id H v field k)"
  by (simp add: every_def with_id_def throw_def split: sum.split)

lemma idle_catching: "idle m \<Longrightarrow> idle (catching m x)"
  by (simp add: every_def catching_def split: prod.split sum.split) (metis snd_conv)

lemma idle_on_kv: "idle m \<Longrightarrow> idle (on_kv m)"
  by (simp add: every_def on_kv_def split: prod.split) (metis snd_conv node.surjective node.update_convs(1))

lemma idle_Let: "(\<And>x. idle (f x)) \<Longrightarrow> idle (let x = a in f x)"
  by simp

lemma idle_branches:
  "\<lbrakk> b \<Longrightarrow> idle m; \<not> b \<Longrightarrow> idle m' \<rbrakk> \<Longrightarrow> idle (if b then m else m')"
  "\<lbrakk> idle m; \<And>y. idle (g y) \<rbrakk> \<Longrightarrow> idle (case x of None \<Rightarrow> m | Some y \<Rightarrow> g y)"
  "\<lbrakk> \<And>a b. idle (h a b) \<rbrakk> \<Longrightarrow> idle (case p of (a, b) \<Rightarrow> h a b)"
  by (simp_all split: option.split prod.split)

lemmas idle_rules = idle_simps idle_andThen idle_with_id idle_catching idle_on_kv idle_Let idle_branches

text \<open>The reads of the stores.\<close>

lemma store_reads:
  "idle (getGroup H a b)" "idle (listGroups H a)" "idle (listMembers H a b)" "idle (getContact H a b)"
  "idle (listAllContacts H a)" "idle (listChannels H a b d)"
  by (auto simp: getGroup_def listGroups_def listMembers_def getContact_def listAllContacts_def listChannels_def intro!: idle_rules)

lemma isCoMember_idle: "idle (isCoMember H a b)"
  by (auto simp: every_def isCoMember_def listGroups_def with_id_def reads_def ok_def throw_def andThen_def Let_def split: sum.split)

text \<open>A total reader: it answers, and leaves the node as it is.\<close>

definition total_read :: "('n, 'a) op \<Rightarrow> bool" where
  "total_read m \<longleftrightarrow> (\<forall>n. \<exists>x. m n = (Inr x, n))"

lemma total_read_ok: "total_read (ok x)"
  by (simp add: total_read_def ok_def)

lemma total_read_catching: "idle m \<Longrightarrow> total_read (catching m x)"
  by (auto simp: total_read_def every_def catching_def split: prod.split sum.split) (metis snd_conv)+

lemma total_read_andThen: "total_read m \<Longrightarrow> (\<And>x. total_read (f x)) \<Longrightarrow> total_read (andThen m f)"
  by (simp add: total_read_def andThen_def) (metis (no_types, lifting) case_prod_conv sum.case(2))

lemma total_read_value: "total_read m \<Longrightarrow> m n = (Inr (projr (fst (m n))), n)"
  unfolding total_read_def by (metis fst_conv sum.sel(2))

lemma andThen_read: "m n = (Inr x, n) \<Longrightarrow> andThen m f n = f x n"
  by (simp add: andThen_def)

lemma snd_andThen: "P (snd (m n)) \<Longrightarrow> (\<And>x k. P k \<Longrightarrow> P (snd (f x k))) \<Longrightarrow> P (snd (andThen m f n))"
  by (auto simp: andThen_def split: prod.split sum.split)

lemma snd_then_ok: "snd (andThen m (\<lambda>_. ok x) n) = snd (m n)"
  by (simp add: andThen_def ok_def split: prod.split sum.split)

lemma snd_catching: "P (snd (m n)) \<Longrightarrow> P (snd (catching m x n))"
  by (cases "m n") (simp add: catching_def split: sum.split)

section \<open>The rules of composition\<close>

locale step_law =
  fixes R :: "'n \<Rightarrow> 'n \<Rightarrow> bool"
  assumes R_refl: "R n n" and R_trans: "R a b \<Longrightarrow> R b c \<Longrightarrow> R a c"
begin

lemma every_idle: "idle m \<Longrightarrow> every R m"
  by (auto simp: every_def intro: R_refl)

lemma every_done: "every R (ok x)" "every R (throw e)" "every R (reads f)" "every R (lift_result r)"
  by (simp_all add: every_idle)

lemma every_andThen: "every R m \<Longrightarrow> (\<And>x. every R (f x)) \<Longrightarrow> every R (andThen m f)"
  by (auto simp: every_def andThen_def split: prod.split sum.split) (metis snd_conv R_trans)+

lemma every_catching: "every R m \<Longrightarrow> every R (catching m x)"
  by (simp add: every_def catching_def split: prod.split sum.split) (metis snd_conv)

lemma every_when_ok: "(b \<Longrightarrow> every R m) \<Longrightarrow> every R (when_ok b m)"
  by (simp add: when_ok_def every_done)

lemma every_each: "(\<And>x. every R (f x)) \<Longrightarrow> every R (each f xs)"
  by (induction xs) (simp_all add: every_done every_andThen)

lemma every_with_id: "(\<And>t. every R (k t)) \<Longrightarrow> every R (with_id H v field k)"
  by (simp add: every_def with_id_def throw_def R_refl split: sum.split)

lemma every_if: "(b \<Longrightarrow> every R m) \<Longrightarrow> (\<not> b \<Longrightarrow> every R m') \<Longrightarrow> every R (if b then m else m')"
  by simp

lemma every_option: "every R m \<Longrightarrow> (\<And>y. every R (g y)) \<Longrightarrow> every R (case x of None \<Rightarrow> m | Some y \<Rightarrow> g y)"
  by (simp split: option.split)

lemma every_prod: "(\<And>a b. every R (h a b)) \<Longrightarrow> every R (case p of (a, b) \<Rightarrow> h a b)"
  by (simp split: prod.split)

lemmas every_rules = every_done every_andThen every_catching every_when_ok every_each every_with_id every_if every_option every_prod

end

section \<open>Handlers\<close>

definition on_stores :: "('s \<Rightarrow> 's \<Rightarrow> bool) \<Rightarrow> 's node \<Rightarrow> 's node \<Rightarrow> bool" where
  "on_stores Q n n' \<longleftrightarrow> Q (nd_kv n) (nd_kv n')"

locale store_law =
  fixes Q :: "'s \<Rightarrow> 's \<Rightarrow> bool"
  assumes Q_refl: "Q s s" and Q_trans: "Q a b \<Longrightarrow> Q b c \<Longrightarrow> Q a c"

sublocale store_law \<subseteq> stores: step_law Q
  by unfold_locales (auto intro: Q_refl Q_trans)

sublocale store_law \<subseteq> handlers: step_law "on_stores Q"
  by unfold_locales (auto simp: on_stores_def intro: Q_refl Q_trans)

context store_law
begin

lemma every_on_kv: "every Q m \<Longrightarrow> every (on_stores Q) (on_kv m)"
  by (simp add: every_def on_stores_def on_kv_def split: prod.split) (metis snd_conv)

lemma every_out: "every (on_stores Q) (effect_out e)" "every (on_stores Q) (nowOpId E)" "every (on_stores Q) (storeFile E h b)"
  by (auto simp: every_def on_stores_def effect_out_def nowOpId_def storeFile_def throw_def Q_refl split: option.split)

lemma every_emit: "every (on_stores Q) (emit_record name mk raw)"
  by (simp add: emit_record_def handlers.every_rules every_out)

lemma every_fanOut: "every (on_stores Q) (fanOut E targets payload)"
  by (simp add: fanOut_def handlers.every_rules every_out)

lemma every_send: "every (on_stores Q) (send_group_op H E targets op gid t fs)"
  by (simp add: send_group_op_def handlers.every_rules every_out every_fanOut)

lemmas handler_rules = handlers.every_rules every_on_kv every_out every_emit every_fanOut every_send

text \<open>Reading the groups and the members, the events, and the announcements change no store.\<close>

lemma every_reading:
  "every (on_stores Q) (group_of H E gid)" "every (on_stores Q) (members_of H E gid)"
  "every (on_stores Q) (findMembership H E gid a)" "every (on_stores Q) (isCreator H E gid a)"
  "every (on_stores Q) (isEffectiveAdmin H E gid m)" "every (on_stores Q) (listOtherActiveMembers H E gid)"
  by (auto simp: group_of_def members_of_def findMembership_def isCreator_def isEffectiveAdmin_def listOtherActiveMembers_def Let_def store_reads
      intro!: handlers.every_idle idle_rules)

lemma every_record:
  "every (on_stores Q) (emit_group g)" "every (on_stores Q) (emit_group_removed gid)" "every (on_stores Q) (emitContactUpdated H c)"
  "every (on_stores Q) (emitChannelUpserted ch)" "every (on_stores Q) (emitChannelRemoved gid cid)"
  by (simp_all add: emit_group_def emit_group_removed_def emitContactUpdated_def emitChannelUpserted_def emitChannelRemoved_def every_emit)

lemma every_read_kv: "idle m \<Longrightarrow> every (on_stores Q) (on_kv m)"
  by (simp add: handlers.every_idle idle_on_kv)

lemma every_event: "every (on_stores Q) (emitGroupUpdated H E gid)" "every (on_stores Q) (emitMembersUpdated H E gid)"
  by (auto simp: emitGroupUpdated_def emitMembersUpdated_def stampFounderAsAdmin_def enrichMembersWithContacts_def listContacts_def Let_def
      intro!: handlers.every_rules every_emit every_record every_reading every_read_kv store_reads)

lemma every_announcing:
  "every (on_stores Q) (broadcastKnownContacts H E gid)" "every (on_stores Q) (fanoutChannelsToPeer H E g p)"
  "every (on_stores Q) (advertiseGroupStateToPeer H E g p)"
  by (auto simp: broadcastKnownContacts_def fanoutChannelsToPeer_def advertiseGroupStateToPeer_def Let_def
      intro!: handler_rules every_reading every_read_kv store_reads)

end

section \<open>Operations as they are constructed\<close>

definition role_ok :: "jsval \<Rightarrow> bool" where
  "role_ok op \<longleftrightarrow> (sget op ''op'' = ''setRole'' \<longrightarrow> sget op ''role'' \<in> set GROUP_OP_ROLES)"

lemma constructed_checked: "new_record C raw = Inr r \<Longrightarrow> sc_check C r = None"
  by (simp add: new_record_def Let_def split: sum.splits option.splits)

lemma constructed_role_ok: "new_record GroupOpPayloadV1 raw = Inr op \<Longrightarrow> role_ok op"
proof -
  assume r: "new_record GroupOpPayloadV1 raw = Inr op"
  have c: "asserts (group_op_checks op) = None"
    using constructed_checked [OF r] by (simp add: GroupOpPayloadV1_def wire_class_def)
  have "sget op ''role'' \<in> set GROUP_OP_ROLES" if "sget op ''op'' = ''setRole''"
    using c by (simp add: that group_op_checks_def Let_def split: if_splits)
  then show "role_ok op" by (simp add: role_ok_def)
qed

lemma sget_Str: "sget v k \<noteq> [] \<Longrightarrow> getp v k = Str (sget v k)"
  by (cases "getp v k") (simp_all add: sget_def)

lemma op_role_not_creator:
  assumes "role_ok op" and "sget op ''op'' = ''setRole''"
  shows "coerceGroupRole ''member'' (getp op ''role'') \<noteq> Inr ''creator''"
proof -
  have r: "sget op ''role'' \<in> set GROUP_OP_ROLES" using assms by (simp add: role_ok_def)
  then have "getp op ''role'' = Str (sget op ''role'')" by (intro sget_Str) (auto simp: GROUP_OP_ROLES_def)
  moreover have "sget op ''role'' \<in> set GROUP_ROLES" "sget op ''role'' \<noteq> ''creator''"
    using r by (auto simp: GROUP_OP_ROLES_def GROUP_ROLES_def)
  ultimately show ?thesis by simp
qed

section \<open>The contract\<close>

locale inbound = store_law Q for Q :: "'s \<Rightarrow> 's \<Rightarrow> bool" +
  fixes H :: "'s host" and E :: env
  assumes op_rename: "every Q (renameGroup H a b c)"
    and op_avatar: "every Q (setGroupAvatar H a b c)"
    and op_remove: "every Q (removeMember H a b c)"
    and op_role: "coerceGroupRole ''member'' role \<noteq> Inr ''creator'' \<Longrightarrow> every Q (setMemberRole H a b c role)"
    and op_join: "every Q (ensureMembership H a b c (Str ''member'') nm pf)"
    and op_thread: "every Q (ensureThread H (ev_owner E) args)"
    and op_lock: "every Q (setThreadState H (ev_owner E) t v acc)"
    and op_channel: "every Q (ensureChannel H a b c l t)"
    and op_tombstone: "every Q (tombstoneChannel H a b c t)"
    and op_message: "every Q (upsertMessage H (ev_owner E) input)"
    and op_known: "every (on_stores Q) (ensureKnownAccount H E a name)"
begin

lemmas inbound_rules = handler_rules every_reading every_record every_event every_announcing

lemma every_sync_title: "every (on_stores Q) (sync_title H E gid t)"
  by (auto simp: sync_title_def intro!: inbound_rules op_thread)

lemma every_store_avatar: "every (on_stores Q) (store_avatar E h b)"
  by (auto simp: store_avatar_def intro!: inbound_rules)

lemma every_state_ops:
  "every (on_stores Q) (applyIncomingRename H E op)" "every (on_stores Q) (applyIncomingSetAvatar H E op)"
  "every (on_stores Q) (applyIncomingGroupState H E op)"
  by (auto simp: applyIncomingRename_def applyIncomingSetAvatar_def applyIncomingGroupState_def fill_title_def fill_avatar_def Let_def
      intro!: inbound_rules every_sync_title every_store_avatar op_rename op_avatar)

lemma every_kick_leave:
  "every (on_stores Q) (applyIncomingKick H E op)" "every (on_stores Q) (applyIncomingLeave H E op)"
  by (auto simp: applyIncomingKick_def applyIncomingLeave_def Let_def intro!: inbound_rules op_remove op_lock)

lemma every_role:
  assumes "role_ok op" and "sget op ''op'' = ''setRole''"
  shows "every (on_stores Q) (applyIncomingSetRole H E op)"
  by (auto simp: applyIncomingSetRole_def Let_def intro!: inbound_rules op_role op_role_not_creator [OF assms])

lemma every_record_known: "every (on_stores Q) (record_known H E a name)"
  by (auto simp: record_known_def intro!: inbound_rules op_known)

lemma every_apply_contact: "every (on_stores Q) (apply_contact H E gid createdBy c may)"
  by (auto simp: apply_contact_def Let_def intro!: inbound_rules every_record_known op_join split: prod.split)

lemma every_apply_contacts: "every (on_stores Q) (apply_contacts H E gid createdBy cs k)"
  by (induction cs arbitrary: k) (auto intro!: inbound_rules every_apply_contact split: prod.split)

lemma every_contact: "every (on_stores Q) (applyIncomingMemberContact H E op)"
  by (auto simp: applyIncomingMemberContact_def Let_def intro!: inbound_rules every_apply_contacts)

lemma every_channel_op: "every (on_stores Q) (applyIncomingOp H E op sender adm)"
  by (auto simp: applyIncomingOp_def Let_def intro!: inbound_rules op_channel op_tombstone)

lemma every_from_member:
  assumes "role_ok op" shows "every (on_stores Q) (apply_from_member H E op sender adm)"
  by (auto simp: apply_from_member_def Let_def
      intro!: inbound_rules every_state_ops every_kick_leave every_role [OF assms] every_channel_op every_contact)

lemma every_join_message: "every (on_stores Q) (persistJoinSystemMessage H E gid j name t oid)"
  by (auto simp: persistJoinSystemMessage_def Let_def intro!: inbound_rules op_message)

lemma every_join_allowed: "every (on_stores Q) (join_allowed H E op sender joiner m)"
  by (auto simp: join_allowed_def intro!: inbound_rules)

lemma every_admit_new: "every (on_stores Q) (admit_joiner H E op joiner False)"
  by (auto simp: admit_joiner_def Let_def intro!: inbound_rules op_join)

lemma every_forward: "every (on_stores Q) (forward_join H E op joiner)"
  by (auto simp: forward_join_def Let_def intro!: inbound_rules)

text \<open>After the admission of a joiner: its name, the event, the banner, the held messages and the announcement.\<close>

lemma every_after_admission:
  assumes "every (on_stores Q) m"
  shows "every (on_stores Q) (andThen m (\<lambda>changed.
     andThen (record_known H E joiner name) (\<lambda>_.
     andThen (when_ok changed (andThen (emitMembersUpdated H E gid) (\<lambda>_. persistJoinSystemMessage H E gid joiner name t oid))) (\<lambda>_.
     andThen (when_ok ev (effect_out e)) (\<lambda>_. when_ok fw (forward_join H E op joiner))))))"
  by (intro handlers.every_andThen assms handlers.every_when_ok every_record_known every_event every_join_message every_out every_forward)

end

locale inbound_revive = inbound +
  assumes op_revive: "every Q (reviveMembership H a b c (Str ''member'') nm pf)"
begin

lemma every_admit: "every (on_stores Q) (admit_joiner H E op joiner wasRemoved)"
  by (cases wasRemoved) (auto simp: admit_joiner_def Let_def intro!: inbound_rules op_join op_revive)

lemma every_member_join: "every (on_stores Q) (applyIncomingMemberJoin H E op sender)"
  by (auto simp: applyIncomingMemberJoin_def Let_def
      intro!: handlers.every_if handlers.every_done handlers.every_andThen [OF every_reading(3)] handlers.every_andThen [OF every_join_allowed]
        every_after_admission every_admit)

lemma every_handle:
  assumes "role_ok op" shows "every (on_stores Q) (handleIncomingGroupOp H E op sender)"
  by (auto simp: handleIncomingGroupOp_def Let_def intro!: inbound_rules every_member_join every_from_member [OF assms])

end

end
