(* ===== verification/InboundStores.thy ===== *)
theory InboundStores
  imports HandlerLaws ContactProperties
begin

text \<open>
  The contract \<open>inbound\<close> on the model's stores. \<open>untouched\<close> says which keys an operation leaves alone: every
  table has its own prefix. From it follow the interpretations: removed members stay removed, no member
  becomes a creator, a stored relationship other than \<open>known\<close> is not changed by any operation received from a
  peer, and the message logs stay well-formed.
\<close>

section \<open>Which keys an operation writes\<close>

definition untouched :: "'s host \<Rightarrow> string list \<Rightarrow> 's \<Rightarrow> 's \<Rightarrow> bool" where
  "untouched H ps s s' \<longleftrightarrow> (\<forall>k. list_all (\<lambda>p. \<not> prefix p k) ps \<longrightarrow> kvGet H s' k = kvGet H s k)"

interpretation untouched: store_law "untouched H ps" for H ps
  by unfold_locales (simp_all add: untouched_def)

lemma untouched_key: "untouched H ps s s' \<Longrightarrow> list_all (\<lambda>p. \<not> prefix p k) ps \<Longrightarrow> kvGet H s' k = kvGet H s k"
  by (simp add: untouched_def)

context host_laws
begin

lemma untouched_set: "list_ex (\<lambda>p. prefix p key) ps \<Longrightarrow> untouched H ps s (kvSet H s key v)"
  by (auto simp: untouched_def get_set list_ex_iff list_all_iff)

lemma untouched_same: "untouched H ps s s"
  by (rule untouched.Q_refl)

lemma untouched_table: "tb_prefix tb \<in> set ps \<Longrightarrow> untouched H ps s (table_set H tb r parts s)"
  unfolding table_set_def by (rule untouched_set) (auto simp: list_ex_iff table_key_def intro: bexI [of _ "tb_prefix tb"])

lemma table_put_writes: "tb_prefix tb \<in> set ps \<Longrightarrow> every (untouched H ps) (table_put H tb row parts)"
  by (auto simp: every_def table_put_def throw_def ok_def untouched_table untouched_same split: option.split)

text \<open>A step from the row that was read.\<close>

lemma every_reading_row:
  "(\<And>x. every R (g x)) \<Longrightarrow> every R (\<lambda>s. g (f s) s)"
  by (simp add: every_def)

lemma group_writes:
  "every (untouched H [GROUP_PREFIX]) (renameGroup H a b c)" "every (untouched H [GROUP_PREFIX]) (setGroupAvatar H a b c)"
  by (auto simp: every_def renameGroup_def setGroupAvatar_def with_id_def throw_def ok_def andThen_def table_put_def Let_def groups_table_def
      intro!: untouched_same untouched_table split: sum.split option.split)

lemma member_writes:
  "every (untouched H [MEMBERSHIP_PREFIX]) (ensureMembership H a b c r d p)" "every (untouched H [MEMBERSHIP_PREFIX]) (removeMember H a b c)"
  "every (untouched H [MEMBERSHIP_PREFIX]) (setMemberRole H a b c r)" "every (untouched H [MEMBERSHIP_PREFIX]) (reviveMembership H a b c r d p)"
  by (auto simp: every_def ensureMembership_def removeMember_def setMemberRole_def reviveMembership_def with_id_def throw_def ok_def lift_result_def
      andThen_def table_put_def Let_def memberships_table_def intro!: untouched_same untouched_table split: sum.split option.split)

lemma channel_writes:
  "every (untouched H [CHANNEL_PREFIX]) (ensureChannel H a b c l t)" "every (untouched H [CHANNEL_PREFIX]) (tombstoneChannel H a b c t)"
  by (auto simp: every_def ensureChannel_def tombstoneChannel_def with_id_def throw_def ok_def store_channel_def Let_def channels_table_def
      intro!: untouched_same untouched_table split: sum.split option.split)

lemma contact_writes: "every (untouched H [''app:contacts/'']) (upsertContact H a b p)"
  by (auto simp: every_def upsertContact_def getContact_def with_id_def throw_def ok_def reads_def andThen_def Let_def contacts_table_def
      intro!: untouched_same untouched_table split: sum.split option.split)

lemma thread_unlocked_writes: "every (untouched H [''app:threads/'']) (ensureThreadUnlocked H owner a)"
  by (auto simp: every_def ensureThreadUnlocked_def throw_def ok_def Let_def kThread_def
      intro!: untouched_same untouched_set split: sum.split option.split)

lemma thread_writes: "every (untouched H [''app:threads/'']) (ensureThread H owner a)" "every (untouched H [''app:threads/'']) (setThreadState H owner t v acc)"
proof -
  show "every (untouched H [''app:threads/'']) (ensureThread H owner a)"
    using thread_unlocked_writes by (auto simp: every_def ensureThread_def throw_def Let_def intro!: untouched_same)
  have "every (untouched H [''app:threads/'']) (andThen (ensureThreadUnlocked H owner a) (\<lambda>t. ok (Some t)))" for a
    by (intro untouched.stores.every_rules thread_unlocked_writes)
  then show "every (untouched H [''app:threads/'']) (setThreadState H owner t v acc)"
    by (auto simp: every_def setThreadState_def throw_def ok_def Let_def intro!: untouched_same split: option.split)
qed

lemma message_writes: "every (untouched H [''app:threads/'', ''app:messages/'']) (upsertMessage H owner input)"
proof -
  let ?U = "untouched H [''app:threads/'', ''app:messages/'']"
  have e: "every ?U (andThen (ensureThreadUnlocked H owner a) (\<lambda>_. ok m))" for a and m :: ChatMessage
    by (intro untouched.stores.every_rules every_mono [OF thread_unlocked_writes]) (simp add: untouched_def)
  have "?U s (snd (upsertMessageUnlocked H owner input s))" for s
  proof (cases rule: upsertMessageUnlocked_cases [of H owner input s])
    case (thrown e)
    then show ?thesis by (simp add: untouched_same)
  next
    case (saved m a)
    have u: "?U s (upserted H owner m s)"
      by (simp add: upserted_def saveMessages_def kMessages_def untouched_set)
    show ?thesis unfolding saved(3) by (rule untouched.Q_trans [OF u everyD [OF e]])
  qed
  then show ?thesis by (cases "coerceMessageRow H input") (simp_all add: every_def upsertMessage_def throw_def untouched_same)
qed

lemma known_writes: "every (on_stores (untouched H [''app:contacts/''])) (ensureKnownAccount H E a name)"
  by (auto simp: ensureKnownAccount_def upsert_and_emit_def Let_def
      intro!: untouched.handler_rules contact_writes untouched.every_record untouched.every_read_kv [OF store_reads(4)])

end

section \<open>The keys of one table\<close>

definition same_on :: "'s host \<Rightarrow> string \<Rightarrow> 's \<Rightarrow> 's \<Rightarrow> bool" where
  "same_on H p s s' \<longleftrightarrow> (\<forall>k. prefix p k \<longrightarrow> kvGet H s' k = kvGet H s k)"

definition apart :: "string \<Rightarrow> string \<Rightarrow> bool" where
  "apart p q \<longleftrightarrow> \<not> prefix p q \<and> \<not> prefix q p"

lemma untouched_same_on: "untouched H ps s s' \<Longrightarrow> list_all (apart p) ps \<Longrightarrow> same_on H p s s'"
  unfolding untouched_def same_on_def apart_def list_all_iff by (meson prefix_same_cases)

lemma every_same_on: "every (untouched H ps) m \<Longrightarrow> list_all (apart p) ps \<Longrightarrow> every (same_on H p) m"
  by (erule every_mono) (rule untouched_same_on)

lemma every_node_same_on:
  "every (on_stores (untouched H ps)) m \<Longrightarrow> list_all (apart p) ps \<Longrightarrow> every (on_stores (same_on H p)) m"
  by (erule every_mono) (auto simp: on_stores_def intro: untouched_same_on)

text \<open>The operations that leave the membership rows alone.\<close>

context host_laws
begin

lemma apart_members:
  "list_all (apart MEMBERSHIP_PREFIX) [GROUP_PREFIX]" "list_all (apart MEMBERSHIP_PREFIX) [CHANNEL_PREFIX]"
  "list_all (apart MEMBERSHIP_PREFIX) [''app:contacts/'']" "list_all (apart MEMBERSHIP_PREFIX) [''app:threads/'']"
  "list_all (apart MEMBERSHIP_PREFIX) [''app:threads/'', ''app:messages/'']"
  by (simp_all add: apart_def MEMBERSHIP_PREFIX_def GROUP_PREFIX_def CHANNEL_PREFIX_def)

lemmas members_alone =
  every_same_on [OF group_writes(1) apart_members(1)] every_same_on [OF group_writes(2) apart_members(1)]
  every_same_on [OF thread_writes(1) apart_members(4)] every_same_on [OF thread_writes(2) apart_members(4)]
  every_same_on [OF channel_writes(1) apart_members(2)] every_same_on [OF channel_writes(2) apart_members(2)]
  every_same_on [OF message_writes apart_members(5)] every_node_same_on [OF known_writes apart_members(3)]

lemma same_members_status: "same_on H MEMBERSHIP_PREFIX s s' \<Longrightarrow> status_at H (member_key H a b c) s' = status_at H (member_key H a b c) s"
  by (simp add: same_on_def status_at_def member_at_def member_key_def table_key_def memberships_table_def)

text \<open>What only looks at the status of members is kept by all of them.\<close>

lemma members_alone_view:
  assumes V: "\<And>s s'. (\<And>a b c. status_at H (member_key H a b c) s' = status_at H (member_key H a b c) s) \<Longrightarrow> Q s s'"
  shows "every Q (renameGroup H a b c)" "every Q (setGroupAvatar H a b c)" "every Q (ensureThread H ow args)"
    "every Q (setThreadState H ow t v acc)" "every Q (ensureChannel H a b c l t)" "every Q (tombstoneChannel H a b c t)"
    "every Q (upsertMessage H ow input)" "every (on_stores Q) (ensureKnownAccount H E a name)"
proof -
  have v: "same_on H MEMBERSHIP_PREFIX s s' \<Longrightarrow> Q s s'" for s s' by (rule V) (rule same_members_status)
  have n: "on_stores (same_on H MEMBERSHIP_PREFIX) s s' \<Longrightarrow> on_stores Q s s'" for s s' using v by (simp add: on_stores_def)
  show "every Q (renameGroup H a b c)" "every Q (setGroupAvatar H a b c)" "every Q (ensureThread H ow args)"
    "every Q (setThreadState H ow t v acc)" "every Q (ensureChannel H a b c l t)" "every Q (tombstoneChannel H a b c t)"
    "every Q (upsertMessage H ow input)" "every (on_stores Q) (ensureKnownAccount H E a name)"
    by (rule every_mono [OF members_alone(1) v], assumption, rule every_mono [OF members_alone(2) v], assumption,
        rule every_mono [OF members_alone(3) v], assumption, rule every_mono [OF members_alone(4) v], assumption,
        rule every_mono [OF members_alone(5) v], assumption, rule every_mono [OF members_alone(6) v], assumption,
        rule every_mono [OF members_alone(7) v], assumption, rule every_mono [OF members_alone(8) n], assumption)
qed

end

section \<open>Removed members\<close>

definition removed_stays :: "'s host \<Rightarrow> 's \<Rightarrow> 's \<Rightarrow> bool" where
  "removed_stays H s s' \<longleftrightarrow> (\<forall>a b c r. status_at H (member_key H a b c) s = Some (r, ''removed'')
     \<longrightarrow> (\<exists>r'. status_at H (member_key H a b c) s' = Some (r', ''removed'')))"

context host_laws
begin

lemma removed_view: "(\<And>a b c. status_at H (member_key H a b c) s' = status_at H (member_key H a b c) s) \<Longrightarrow> removed_stays H s s'"
  by (simp add: removed_stays_def)

lemma row_step_removed:
  assumes "\<And>key. row_step key (nm key) ev s s'" and "ev \<noteq> Revive" shows "removed_stays H s s'"
  unfolding removed_stays_def
proof (intro allI impI)
  fix a b c r
  assume "status_at H (member_key H a b c) s = Some (r, ''removed'')"
  then show "\<exists>r'. status_at H (member_key H a b c) s' = Some (r', ''removed'')"
    using assms(1) [of "member_key H a b c"] assms(2) step_removed_sticks unfolding row_step_def by fastforce
qed

lemma removed_store_law: "store_law (removed_stays H)"
proof
  show "removed_stays H s s" for s by (simp add: removed_stays_def)
  show "removed_stays H a b \<Longrightarrow> removed_stays H b c \<Longrightarrow> removed_stays H a c" for a b c by (fastforce simp: removed_stays_def)
qed

lemma removed_membership:
  "every (removed_stays H) (removeMember H a b c)" "every (removed_stays H) (setMemberRole H a b c role)"
  "every (removed_stays H) (ensureMembership H a b c role nm pf)"
  unfolding every_def using row_step_removed [OF remove_refines] row_step_removed [OF role_refines] row_step_removed [OF ensure_refines] by simp_all

end

sublocale host_laws \<subseteq> removed: inbound "removed_stays H" H E for E
  by (intro inbound.intro inbound_axioms.intro removed_store_law removed_membership members_alone_view removed_view)

section \<open>Creators\<close>

definition no_new_creator :: "'s host \<Rightarrow> 's \<Rightarrow> 's \<Rightarrow> bool" where
  "no_new_creator H s s' \<longleftrightarrow> (\<forall>a b c st. status_at H (member_key H a b c) s' = Some (''creator'', st)
     \<longrightarrow> (\<exists>st0. status_at H (member_key H a b c) s = Some (''creator'', st0)))"

lemma member_role_of_row:
  assumes c: "tb_coerce (memberships_table H) (Obj fs) = Some m" and d: "distinct (map fst fs)"
    and r: "map_of fs ''role'' = Some (Str r)" "r \<in> set GROUP_ROLES"
  shows "gm_role m = r"
proof -
  let ?fs = "filter (\<lambda>(_, v). v \<noteq> Undef) fs"
  have "mkChatGroupMember (Obj (spread [(''joinedAtMs'', num (clockMs H))] ?fs)) = Inr m"
    using c by (auto simp: memberships_table_def table_coerce_def coerceRow_def own_props_def split: option.splits if_splits sum.splits)
  then have "coerceGroupRole ''member'' (getp (Obj (spread [(''joinedAtMs'', num (clockMs H))] ?fs)) ''role'') = Inr (gm_role m)"
    by (auto simp: mkChatGroupMember_def Let_def split: if_splits sum.splits)
  moreover have df: "distinct (map fst ?fs)" using d by (induction fs) auto
  moreover have "map_of ?fs ''role'' = Some (Str r)"
    using map_of_SomeD [OF r(1)] df by (intro map_of_is_SomeI) auto
  ultimately show ?thesis using r(2) by (simp add: getp_spread)
qed

lemma new_member_role: "new_member H owner gid member (Str ''member'') nm pf = Some r \<Longrightarrow> gm_role r = ''member''"
  unfolding new_member_def by (rule member_role_of_row) (auto simp: GROUP_ROLES_def)

lemma revived_role:
  assumes "restamp_member H ([(''role'', Str ''member''), (''state'', Str ''active'')]
      @ (case name of None \<Rightarrow> [] | Some n \<Rightarrow> [(''displayName'', Str n)])
      @ (if b then [(''joinerSignerPublicKeyB64'', Str p), (''joinerSigB64'', Str q)] else []) @ [(''updatedAtMs'', num t)]) m = Some r"
  shows "gm_role r = ''member''"
proof -
  let ?ch = "[(''role'', Str ''member''), (''state'', Str ''active'')] @ (case name of None \<Rightarrow> [] | Some n \<Rightarrow> [(''displayName'', Str n)])
      @ (if b then [(''joinerSignerPublicKeyB64'', Str p), (''joinerSigB64'', Str q)] else []) @ [(''updatedAtMs'', num t)]"
  have "distinct (map fst (spread (member_fields m) ?ch))" "map_of (spread (member_fields m) ?ch) ''role'' = Some (Str ''member'')"
    by (cases name; simp add: spread_def member_fields_def)+
  then show ?thesis using assms unfolding restamp_member_def by (intro member_role_of_row) (auto simp: GROUP_ROLES_def)
qed

inductive_cases membership_to_SomeE: "membership_step e x (Some (r, st))"

lemma removed_role_stays: "membership_step e x (Some (r, st)) \<Longrightarrow> e = Keep \<or> e = Remove \<Longrightarrow> (\<And>st0. x = Some (r, st0) \<Longrightarrow> P) \<Longrightarrow> P"
  by (erule membership_to_SomeE) auto

context host_laws
begin

text \<open>A write of a row changes the status of its key to that of the row.\<close>

lemma status_after_set:
  "wf_member r \<Longrightarrow> gm_ownerAccountId r \<noteq> [] \<Longrightarrow> status_at H key (table_set H (memberships_table H) r [owner, gid, member] s)
    \<in> {status_at H key s, Some (gm_role r, gm_state r)}"
  by (simp add: status_member_write)

lemma role_write:
  "status_at H key (snd (setMemberRole H a b c role s)) = status_at H key s
   \<or> (\<exists>vr st. coerceGroupRole ''member'' role = Inr vr \<and> status_at H key (snd (setMemberRole H a b c role s)) = Some (vr, st))"
proof (cases "\<exists>owner gid member m vr. requireId H a ''ownerAccountId'' = Inr owner \<and> requireId H b ''groupId'' = Inr gid
    \<and> requireId H c ''accountId'' = Inr member \<and> coerceGroupRole ''member'' role = Inr vr
    \<and> table_get H (memberships_table H) [owner, gid, member] s = Some m")
  case True
  then obtain owner gid member m vr where ids: "requireId H a ''ownerAccountId'' = Inr owner" "requireId H b ''groupId'' = Inr gid"
    "requireId H c ''accountId'' = Inr member" "coerceGroupRole ''member'' role = Inr vr"
    and m: "table_get H (memberships_table H) [owner, gid, member] s = Some m" by blast
  let ?m = "m\<lparr>gm_role := vr, gm_updatedAtMs := Some (now_of H)\<rparr>"
  have wf: "wf_member ?m" "gm_ownerAccountId ?m \<noteq> []"
    using member_get_wf [OF m] wf_member_role coerceGroupRole_Inr [OF ids(4)] by auto
  have "snd (setMemberRole H a b c role s) = table_set H (memberships_table H) ?m [owner, gid, member] s"
    using restamp_member_fields [OF spread_role [of m vr "now_of H"] wf, of H]
    by (simp add: setMemberRole_def ids m table_put_def andThen_def ok_def lift_result_def)
  then show ?thesis using status_after_set [OF wf, of key owner gid member s] ids(4) by auto
next
  case False
  then have "snd (setMemberRole H a b c role s) = s"
    by (auto simp: setMemberRole_def with_id_def throw_def ok_def andThen_def lift_result_def split: sum.split option.split)
  then show ?thesis by simp
qed

lemma join_write:
  "status_at H key (snd (ensureMembership H a b c (Str ''member'') nm pf s)) = status_at H key s
   \<or> (\<exists>st. status_at H key (snd (ensureMembership H a b c (Str ''member'') nm pf s)) = Some (''member'', st))"
proof (cases "\<exists>owner gid member. requireId H a ''ownerAccountId'' = Inr owner \<and> requireId H b ''groupId'' = Inr gid
    \<and> requireId H c ''accountId'' = Inr member")
  case True
  then obtain owner gid member where ids: "requireId H a ''ownerAccountId'' = Inr owner" "requireId H b ''groupId'' = Inr gid"
    "requireId H c ''accountId'' = Inr member" by blast
  show ?thesis
  proof (cases "table_get H (memberships_table H) [owner, gid, member] s")
    case None
    then show ?thesis
    proof (cases "new_member H owner gid member (Str ''member'') (trimmed_or_null nm) pf")
      case (Some r)
      have "snd (ensureMembership H a b c (Str ''member'') nm pf s) = table_set H (memberships_table H) r [owner, gid, member] s"
        using None Some by (simp add: ensureMembership_def ids ok_def Let_def)
      then show ?thesis using status_after_set [of r key owner gid member s] new_member_row [OF Some] new_member_role [OF Some] by auto
    qed (simp add: ensureMembership_def ids throw_def Let_def)
  next
    case (Some m)
    then show ?thesis using ensure_cases [OF ids, of "Str ''member''" nm pf s]
      by (elim disjE exE conjE) (auto simp: status_member_write status_row)
  qed
next
  case False
  then have "snd (ensureMembership H a b c (Str ''member'') nm pf s) = s"
    by (auto simp: ensureMembership_def with_id_def throw_def split: sum.split)
  then show ?thesis by simp
qed

lemma revive_write:
  "status_at H key (snd (reviveMembership H a b c (Str ''member'') nm pf s)) = status_at H key s
   \<or> (\<exists>st. status_at H key (snd (reviveMembership H a b c (Str ''member'') nm pf s)) = Some (''member'', st))"
proof (cases "\<exists>owner gid member m r. requireId H a ''ownerAccountId'' = Inr owner \<and> requireId H b ''groupId'' = Inr gid
    \<and> requireId H c ''accountId'' = Inr member \<and> gm_role r = ''member'' \<and> wf_member r \<and> gm_ownerAccountId r \<noteq> []
    \<and> snd (reviveMembership H a b c (Str ''member'') nm pf s) = table_set H (memberships_table H) r [owner, gid, member] s")
  case True
  then show ?thesis using status_after_set [of _ key] by fastforce
next
  case False
  have "snd (reviveMembership H a b c (Str ''member'') nm pf s) = s"
  proof (rule ccontr)
    assume n: "snd (reviveMembership H a b c (Str ''member'') nm pf s) \<noteq> s"
    then obtain owner gid member where ids: "requireId H a ''ownerAccountId'' = Inr owner" "requireId H b ''groupId'' = Inr gid"
      "requireId H c ''accountId'' = Inr member"
      by (auto simp: reviveMembership_def with_id_def throw_def split: sum.splits)
    from n obtain r where r: "restamp_member H ([(''role'', Str ''member''), (''state'', Str ''active'')]
        @ (case trimmed_or_null nm of None \<Rightarrow> [] | Some n \<Rightarrow> [(''displayName'', Str n)])
        @ (if proof_part pf ''joinerSignerPublicKeyB64'' \<noteq> [] \<and> proof_part pf ''joinerSigB64'' \<noteq> []
           then [(''joinerSignerPublicKeyB64'', Str (proof_part pf ''joinerSignerPublicKeyB64'')), (''joinerSigB64'', Str (proof_part pf ''joinerSigB64''))] else [])
        @ [(''updatedAtMs'', num (now_of H))]) (the (table_get H (memberships_table H) [owner, gid, member] s)) = Some r"
      and w: "snd (reviveMembership H a b c (Str ''member'') nm pf s) = table_set H (memberships_table H) r [owner, gid, member] s"
      by (auto simp: reviveMembership_def ids throw_def ok_def Let_def split: if_splits option.splits)
    from False ids w revived_role [OF r] restamp_wf [OF r] show False by blast
  qed
  then show ?thesis by simp
qed

lemma creator_from:
  assumes "\<And>key. status_at H key s' = status_at H key s \<or> (\<exists>r st. r \<noteq> ''creator'' \<and> status_at H key s' = Some (r, st))"
  shows "no_new_creator H s s'"
  unfolding no_new_creator_def using assms by (metis option.inject prod.inject)

lemma creator_membership:
  "coerceGroupRole ''member'' role \<noteq> Inr ''creator'' \<Longrightarrow> every (no_new_creator H) (setMemberRole H a b c role)"
  "every (no_new_creator H) (ensureMembership H a b c (Str ''member'') nm pf)"
  "every (no_new_creator H) (reviveMembership H a b c (Str ''member'') nm pf)"
proof -
  have m: "''member'' \<noteq> ''creator''" by simp
  show "every (no_new_creator H) (setMemberRole H a b c role)" if "coerceGroupRole ''member'' role \<noteq> Inr ''creator''"
    unfolding every_def using role_write [of _ a b c role] that by (intro allI creator_from) metis
  show "every (no_new_creator H) (ensureMembership H a b c (Str ''member'') nm pf)"
    unfolding every_def using join_write [of _ a b c nm pf] m by (intro allI creator_from) metis
  show "every (no_new_creator H) (reviveMembership H a b c (Str ''member'') nm pf)"
    unfolding every_def using revive_write [of _ a b c nm pf] m by (intro allI creator_from) metis
qed

lemma creator_remove: "every (no_new_creator H) (removeMember H a b c)"
  unfolding every_def no_new_creator_def
proof (intro allI impI)
  fix n o1 g m st
  assume st: "status_at H (member_key H o1 g m) (snd (removeMember H a b c n)) = Some (''creator'', st)"
  have "row_step (member_key H o1 g m) (names_row H (RemoveMember a b c) (member_key H o1 g m)) Remove n (snd (removeMember H a b c n))"
    by (rule remove_refines)
  then obtain e where "e = Keep \<or> e = Remove" "membership_step e (status_at H (member_key H o1 g m) n) (Some (''creator'', st))"
    using st unfolding row_step_def by auto
  then show "\<exists>st0. status_at H (member_key H o1 g m) n = Some (''creator'', st0)"
    by (auto elim: removed_role_stays)
qed

lemma creator_view: "(\<And>a b c. status_at H (member_key H a b c) s' = status_at H (member_key H a b c) s) \<Longrightarrow> no_new_creator H s s'"
  by (simp add: no_new_creator_def)

lemma creator_store_law: "store_law (no_new_creator H)"
proof
  show "no_new_creator H s s" for s by (simp add: no_new_creator_def)
  show "no_new_creator H a b \<Longrightarrow> no_new_creator H b c \<Longrightarrow> no_new_creator H a c" for a b c by (fastforce simp: no_new_creator_def)
qed

end

sublocale host_laws \<subseteq> creators: inbound_revive "no_new_creator H" H E for E
  by (intro inbound_revive.intro inbound_revive_axioms.intro inbound.intro inbound_axioms.intro creator_store_law creator_membership
      creator_remove members_alone_view creator_view)

definition relation_of :: "'s host \<Rightarrow> string \<Rightarrow> string \<Rightarrow> 's \<Rightarrow> string option" where
  "relation_of H owner contact s = relation_at H (table_key H (contacts_table H) [owner, contact]) s"

definition relation_stays :: "'s host \<Rightarrow> 's \<Rightarrow> 's \<Rightarrow> bool" where
  "relation_stays H s s' \<longleftrightarrow> (\<forall>owner contact st. relation_of H owner contact s = Some st \<and> st \<noteq> ''known''
     \<longrightarrow> relation_of H owner contact s' = Some st)"

lemma apart_contacts:
  "list_all (apart ''app:contacts/'') [GROUP_PREFIX]" "list_all (apart ''app:contacts/'') [CHANNEL_PREFIX]"
  "list_all (apart ''app:contacts/'') [MEMBERSHIP_PREFIX]" "list_all (apart ''app:contacts/'') [''app:threads/'']"
  "list_all (apart ''app:contacts/'') [''app:threads/'', ''app:messages/'']"
  by (simp_all add: apart_def MEMBERSHIP_PREFIX_def GROUP_PREFIX_def CHANNEL_PREFIX_def)

lemma same_contacts: "same_on H ''app:contacts/'' s s' \<Longrightarrow> relation_stays H s s'"
  by (simp add: relation_stays_def relation_of_def relation_at_def same_on_def table_key_def contacts_table_def)

lemma relation_of_get:
  "relation_of H owner contact s = map_option co_relationshipState (table_get H (contacts_table H) [owner, contact] s)"
  by (simp add: relation_of_def relation_at_def table_get_def)

lemma relation_lower: "co_relationshipState c \<in> set RELATIONSHIP_STATES \<Longrightarrow> toLowerCase (co_relationshipState c) = co_relationshipState c"
  by (auto simp: RELATIONSHIP_STATES_def toLowerCase_def lower_char_def)

context host_laws
begin

lemma upsert_written:
  "snd (upsertContact H a b p s) = s \<or> (\<exists>owner contact next. requireId H a ''ownerAccountId'' = Inr owner \<and> requireId H b ''accountId'' = Inr contact
     \<and> snd (upsertContact H a b p s) = table_set H (contacts_table H) next [owner, contact] s)"
  by (auto simp: upsertContact_def getContact_def with_id_def andThen_def reads_def throw_def ok_def split: sum.split option.split)

text \<open>A write over a row that is absent or \<open>known\<close> keeps every other relationship.\<close>

lemma upsert_over_known:
  assumes "\<And>owner contact. requireId H a ''ownerAccountId'' = Inr owner \<Longrightarrow> requireId H b ''accountId'' = Inr contact
      \<Longrightarrow> relation_of H owner contact s \<in> {None, Some ''known''}"
  shows "relation_stays H s (snd (upsertContact H a b p s))"
  using upsert_written [of a b p s]
proof (elim disjE exE conjE)
  fix owner contact "next"
  assume ids: "requireId H a ''ownerAccountId'' = Inr owner" "requireId H b ''accountId'' = Inr contact"
    and w: "snd (upsertContact H a b p s) = table_set H (contacts_table H) next [owner, contact] s"
  have "relation_of H o' c' (table_set H (contacts_table H) next [owner, contact] s) = Some st"
    if r: "relation_of H o' c' s = Some st" "st \<noteq> ''known''" for o' c' st
  proof -
    have "table_key H (contacts_table H) [o', c'] \<noteq> table_key H (contacts_table H) [owner, contact]"
      using assms [OF ids] r by (auto simp: relation_of_def)
    then show ?thesis using r(1) by (simp add: relation_of_def relation_at_def table_set_def get_set)
  qed
  then show ?thesis unfolding w relation_stays_def by blast
qed (simp add: relation_stays_def)

lemma relation_law: "store_law (relation_stays H)"
  by unfold_locales (simp_all add: relation_stays_def)

lemma emit_contact_kv: "nd_kv (snd (emitContactUpdated H c n)) = nd_kv n"
  by (simp add: emitContactUpdated_def emit_record_def andThen_def lift_result_def effect_out_def split: sum.split)

lemma upsert_and_emit_kv: "nd_kv (snd (upsert_and_emit H E b p n)) = snd (upsertContact H (Str (ev_owner E)) b p (nd_kv n))"
proof (cases "upsertContact H (Str (ev_owner E)) b p (nd_kv n)")
  case (Pair r s)
  then have k: "on_kv (upsertContact H (Str (ev_owner E)) b p) n = (r, n\<lparr>nd_kv := s\<rparr>)" by simp
  have q: "nd_kv (snd (andThen (emitContactUpdated H c) (\<lambda>_. ok c) m)) = nd_kv m" for c m
    by (simp add: snd_then_ok emit_contact_kv)
  show ?thesis using Pair k q by (simp add: upsert_and_emit_def andThen_def [of "on_kv _"] split: sum.split prod.split)
qed

lemma relation_known: "every (on_stores (relation_stays H)) (ensureKnownAccount H E a name)"
  unfolding every_def
proof
  fix n
  let ?id = "trim (string_or_empty a)" and ?nm = "trim (string_or_empty name)"
  let ?p = "no_patch\<lparr>cp_relationshipState := Str ''known'', cp_displayName := Str ?nm\<rparr>"
  let ?read = "catching (on_kv (getContact H (Str (ev_owner E)) (Str ?id))) None"
  let ?after = "\<lambda>n. snd (upsertContact H (Str (ev_owner E)) (Str ?id) ?p (nd_kv n))"
  show "on_stores (relation_stays H) n (snd (ensureKnownAccount H E a name n))"
  proof (cases "?id = [] \<or> ?id = ev_owner E \<or> ?nm = []")
    case True
    then show ?thesis by (auto simp: ensureKnownAccount_def Let_def ok_def on_stores_def relation_stays_def)
  next
    case False
    have id: "requireId H (Str ?id) ''accountId'' = Inr ?id" using False by (intro requireId_Str) simp_all
    obtain x where x: "?read n = (Inr x, n)"
      using total_read_value [OF total_read_catching [OF idle_on_kv [OF store_reads(4)]]] by blast
    have step: "andThen ?read f n = f x n" for f by (simp add: andThen_def x)
    have row: "x = table_get H (contacts_table H) [owner, ?id] (nd_kv n)"
      if "requireId H (Str (ev_owner E)) ''ownerAccountId'' = Inr owner" for owner
      using x by (simp add: catching_def on_kv_def getContact_def that id reads_def)
    have safe: "relation_stays H (nd_kv n) (?after n)" if "case x of None \<Rightarrow> True | Some e \<Rightarrow> toLowerCase (co_relationshipState e) = ''known''"
    proof (rule upsert_over_known)
      fix owner contact
      assume o: "requireId H (Str (ev_owner E)) ''ownerAccountId'' = Inr owner" and "requireId H (Str ?id) ''accountId'' = Inr contact"
      then have c: "contact = ?id" using id by simp
      have "co_relationshipState e \<in> set RELATIONSHIP_STATES" if "x = Some e" for e
        using contacts.get_wf row [OF o] that by (metis wf_contact_def)
      then show "relation_of H owner contact (nd_kv n) \<in> {None, Some ''known''}"
        using \<open>case x of None \<Rightarrow> True | Some e \<Rightarrow> _ e\<close> by (cases x) (simp_all add: c relation_of_get relation_lower row [OF o, symmetric])
    qed
    have w: "on_stores (relation_stays H) n (snd (andThen (upsert_and_emit H E (Str ?id) ?p) (\<lambda>c. ok (Some c)) n))"
      if "case x of None \<Rightarrow> True | Some e \<Rightarrow> toLowerCase (co_relationshipState e) = ''known''"
    proof -
      have "nd_kv (snd (andThen (upsert_and_emit H E (Str ?id) ?p) (\<lambda>c. ok (Some c)) n)) = ?after n"
        using upsert_and_emit_kv by (auto simp: andThen_def ok_def split: prod.split sum.split) (metis snd_conv)+
      then show ?thesis using safe [OF that] by (simp add: on_stores_def)
    qed
    show ?thesis
    proof (cases "case x of None \<Rightarrow> True | Some e \<Rightarrow> toLowerCase (co_relationshipState e) = ''known'' \<and> co_displayName e \<noteq> Some ?nm")
      case True
      then have "ensureKnownAccount H E a name n = andThen (upsert_and_emit H E (Str ?id) ?p) (\<lambda>c. ok (Some c)) n"
        using False by (auto simp: ensureKnownAccount_def Let_def step split: option.splits)
      then show ?thesis using w True by (auto split: option.splits)
    next
      case unchanged: False
      then have "snd (ensureKnownAccount H E a name n) = n"
        using False by (auto simp: ensureKnownAccount_def Let_def step ok_def split: option.splits)
      then show ?thesis by (simp add: on_stores_def relation_stays_def)
    qed
  qed
qed

lemmas contacts_alone =
  every_same_on [OF group_writes(1) apart_contacts(1)] every_same_on [OF group_writes(2) apart_contacts(1)]
  every_same_on [OF member_writes(2) apart_contacts(3)] every_same_on [OF member_writes(3) apart_contacts(3)]
  every_same_on [OF member_writes(1) apart_contacts(3)] every_same_on [OF thread_writes(1) apart_contacts(4)]
  every_same_on [OF thread_writes(2) apart_contacts(4)] every_same_on [OF channel_writes(1) apart_contacts(2)]
  every_same_on [OF channel_writes(2) apart_contacts(2)] every_same_on [OF message_writes apart_contacts(5)]
  every_same_on [OF member_writes(4) apart_contacts(3)]

end

sublocale host_laws \<subseteq> relations: inbound_revive "relation_stays H" H E for E
  by (intro inbound_revive.intro inbound_revive_axioms.intro inbound.intro inbound_axioms.intro relation_law relation_known;
      rule every_mono [OF _ same_contacts], rule contacts_alone)

end
