(* ===== verification/GroupOpProperties.thy ===== *)
theory GroupOpProperties
  imports InboundStores GroupProperties
begin

text \<open>
  The properties of the group operations received from peers, with their instances: who may do what, the
  way back of a removed member, creators, and the bound on the handshakes one operation starts.
\<close>

section \<open>What the applier reads\<close>

text \<open>The row, the admin right and the founder of a group as the handlers see them; reading changes nothing.\<close>

definition found_member :: "'s host \<Rightarrow> env \<Rightarrow> string \<Rightarrow> string \<Rightarrow> 's node \<Rightarrow> ChatGroupMember option" where
  "found_member H E gid a n = projr (fst (findMembership H E gid a n))"

definition is_admin :: "'s host \<Rightarrow> env \<Rightarrow> string \<Rightarrow> string \<Rightarrow> 's node \<Rightarrow> bool" where
  "is_admin H E gid a n = projr (fst (isEffectiveAdmin H E gid (found_member H E gid a n) n))"

definition is_founder :: "'s host \<Rightarrow> env \<Rightarrow> string \<Rightarrow> string \<Rightarrow> 's node \<Rightarrow> bool" where
  "is_founder H E gid a n = projr (fst (isCreator H E gid a n))"

definition active_member :: "'s host \<Rightarrow> env \<Rightarrow> string \<Rightarrow> string \<Rightarrow> 's node \<Rightarrow> bool" where
  "active_member H E gid a n = (case found_member H E gid a n of None \<Rightarrow> False | Some m \<Rightarrow> gm_state m = ''active'')"

lemma total_reads:
  "total_read (group_of H E gid)" "total_read (members_of H E gid)" "total_read (findMembership H E gid a)"
  "total_read (isCreator H E gid a)" "total_read (isEffectiveAdmin H E gid m)"
proof -
  show g: "total_read (group_of H E gid)" and m: "total_read (members_of H E gid)"
    by (simp_all add: group_of_def members_of_def total_read_catching idle_on_kv store_reads)
  show "total_read (findMembership H E gid a)" "total_read (isCreator H E gid a)" "total_read (isEffectiveAdmin H E gid m)"
    by (auto simp: findMembership_def isCreator_def isEffectiveAdmin_def Let_def intro!: total_read_andThen total_read_ok g m split: option.split)
qed

lemma reads_are:
  "findMembership H E gid a n = (Inr (found_member H E gid a n), n)"
  "isCreator H E gid a n = (Inr (is_founder H E gid a n), n)"
  "isEffectiveAdmin H E gid (found_member H E gid a n) n = (Inr (is_admin H E gid a n), n)"
  unfolding found_member_def is_founder_def is_admin_def by (rule total_read_value, rule total_reads)+

section \<open>Authorisation\<close>

text \<open>
  The policy. A joining names an account other than the owner, with a consent proof that the authority of this node
  verifies. An account that announces itself holds an invite of the owner for this group that the ledger still
  authorises, and that is newer than its removal if it was removed; another account is announced by an active
  member, and never back into the group. Every other operation comes from an active member, which removes
  members and sets roles as an admin, and never those of the founder, deletes channels as an admin, and leaves
  for itself only.
\<close>

definition may_announce_itself :: "env \<Rightarrow> jsval \<Rightarrow> string \<Rightarrow> ChatGroupMember option \<Rightarrow> bool" where
  "may_announce_itself E op joiner existing \<longleftrightarrow>
     (case resolveJoinInviteEnvelope E (sget op ''inviteId'') (sget op ''groupId'') of None \<Rightarrow> False
      | Some envelope \<Rightarrow> invite_authorized E (sget op ''inviteId'') joiner
          \<and> (case existing of None \<Rightarrow> True
             | Some m \<Rightarrow> was_removed existing \<longrightarrow> invite_after envelope (zero_if_none (gm_updatedAtMs m))))"

definition admits_join :: "'s host \<Rightarrow> env \<Rightarrow> jsval \<Rightarrow> string \<Rightarrow> 's node \<Rightarrow> bool" where
  "admits_join H E op sender n \<longleftrightarrow>
     (let gid = sget op ''groupId''; joiner = trim (sget op ''accountId''); existing = found_member H E gid joiner n in
      joiner \<noteq> [] \<and> joiner \<noteq> ev_owner E \<and> verifyConsent E gid joiner (sget op ''displayName'') op
      \<and> (if sender = joiner then may_announce_itself E op joiner existing
         else active_member H E gid sender n \<and> \<not> was_removed existing))"

definition authorised :: "'s host \<Rightarrow> env \<Rightarrow> jsval \<Rightarrow> string \<Rightarrow> 's node \<Rightarrow> bool" where
  "authorised H E op sender n \<longleftrightarrow>
     (let kind = sget op ''op''; gid = sget op ''groupId''; target = sget op ''accountId'' in
      sender \<noteq> [] \<and> (if kind = ''member.join'' then admits_join H E op sender n
        else active_member H E gid sender n
          \<and> (kind \<in> {''kick'', ''setRole''} \<longrightarrow> is_admin H E gid sender n \<and> \<not> is_founder H E gid target n)
          \<and> (kind = ''channel.delete'' \<longrightarrow> is_admin H E gid sender n)
          \<and> (kind = ''leave'' \<longrightarrow> target = sender)))"

lemma join_allowed_read: "join_allowed H E op sender joiner existing n = (Inr (projr (fst (join_allowed H E op sender joiner existing n))), n)"
  by (rule total_read_value) (auto simp: join_allowed_def intro!: total_read_ok total_read_andThen total_reads)

lemma join_allowed_policy:
  assumes "projr (fst (join_allowed H E op sender joiner existing n))"
  shows "if sender = joiner then may_announce_itself E op joiner existing
    else active_member H E (sget op ''groupId'') sender n \<and> \<not> was_removed existing"
proof (cases "sender = joiner")
  case True
  then show ?thesis using assms by (auto simp: join_allowed_def ok_def may_announce_itself_def split: option.splits)
next
  case False
  then show ?thesis
    using assms by (auto simp: join_allowed_def ok_def andThen_read [OF reads_are(1)] active_member_def split: option.splits)
qed

lemma refused_join:
  assumes "\<not> admits_join H E op sender n"
  shows "snd (applyIncomingMemberJoin H E op sender n) = n"
proof -
  let ?j = "trim (sget op ''accountId'')" and ?g = "sget op ''groupId''"
  have "?j = [] \<or> ?j = ev_owner E \<or> \<not> verifyConsent E ?g ?j (sget op ''displayName'') op
      \<or> \<not> projr (fst (join_allowed H E op sender ?j (found_member H E ?g ?j n) n))"
    using assms join_allowed_policy [of H E op sender ?j "found_member H E ?g ?j n" n] by (auto simp: admits_join_def Let_def)
  then show ?thesis
    by (auto simp: applyIncomingMemberJoin_def Let_def ok_def andThen_read [OF reads_are(1)] andThen_read [OF join_allowed_read])
qed

lemma from_member:
  assumes "sget op ''op'' \<noteq> ''member.join''" and "sender \<noteq> []" and "trim sender = sender"
  shows "snd (handleIncomingGroupOp H E op (Str sender) n)
    = (if active_member H E (sget op ''groupId'') sender n
       then snd (apply_from_member H E op sender (is_admin H E (sget op ''groupId'') sender n) n) else n)"
  using assms by (auto simp: handleIncomingGroupOp_def Let_def andThen_read [OF reads_are(1)] andThen_read [OF reads_are(3)] active_member_def
      ok_def andThen_def [of "apply_from_member _ _ _ _ _"] split: option.split prod.split sum.split)

lemma refused_kinds:
  assumes "sget op ''op'' \<in> {''kick'', ''setRole''}" and "\<not> (adm \<and> \<not> is_founder H E (sget op ''groupId'') (sget op ''accountId'') n)"
  shows "snd (apply_from_member H E op sender adm n) = n"
  using assms by (auto simp: apply_from_member_def Let_def when_ok_def ok_def applyIncomingKick_def applyIncomingSetRole_def
      andThen_read [OF reads_are(2)])

text \<open>
  C3. An operation that the policy does not allow changes nothing: the stores, the files, the counter
  of ids and the effects of the node stay as they are.
\<close>

theorem unauthorised_group_op_ignored:
  assumes "\<not> authorised H E op sender n" and "trim sender = sender"
  shows "snd (handleIncomingGroupOp H E op (Str sender) n) = n"
proof (cases "sender = [] \<or> sget op ''op'' = ''member.join''")
  case True
  then show ?thesis
    using assms refused_join [of H E op sender n]
    by (auto simp: authorised_def handleIncomingGroupOp_def Let_def ok_def snd_then_ok [unfolded ok_def])
next
  case False
  show ?thesis
  proof (cases "active_member H E (sget op ''groupId'') sender n")
    case True
    then consider "sget op ''op'' \<in> {''kick'', ''setRole''}"
        "\<not> (is_admin H E (sget op ''groupId'') sender n \<and> \<not> is_founder H E (sget op ''groupId'') (sget op ''accountId'') n)"
      | "sget op ''op'' = ''channel.delete''" "\<not> is_admin H E (sget op ''groupId'') sender n"
      | "sget op ''op'' = ''leave''" "sget op ''accountId'' \<noteq> sender"
      using assms(1) False unfolding authorised_def Let_def by (auto split: if_splits)
    then have "snd (apply_from_member H E op sender (is_admin H E (sget op ''groupId'') sender n) n) = n"
    proof cases
      case 1
      then show ?thesis by (rule refused_kinds)
    next
      case 2
      then show ?thesis
        by (simp add: apply_from_member_def Let_def when_ok_def ok_def applyIncomingOp_def andThen_def)
    next
      case 3
      then show ?thesis by (simp add: apply_from_member_def Let_def when_ok_def ok_def)
    qed
    then show ?thesis using from_member False assms(2) True by metis
  qed (use from_member False assms(2) in metis)
qed

text \<open>
  An owner with the group \<open>g1\<close>, out of which \<open>bob\<close> was kicked at time 1001, an authority that takes the
  signature \<open>sig\<close>, and one invite made at time 2000 that \<open>bob\<close> may use.
\<close>

definition lax_authority :: authority where
  "lax_authority = \<lparr> au_canonical = (\<lambda>_. ''doc''), au_bytes = Some, au_verify = (\<lambda>acct pub doc sig. sig = ''sig'') \<rparr>"

definition bare_env :: env where
  "bare_env = \<lparr> ev_owner = ''me'', ev_uuid = (\<lambda>k. ''u''), ev_authority = Some lax_authority, ev_signer = None,
     ev_fileHash = Some, ev_reencode = (\<lambda>b. b), ev_threadHash = (\<lambda>t. t),
     ev_inviteEnvelope = Some (\<lambda>i. if i = ''i1'' then Some (Obj [(''envelope'', Obj [(''kind'', Str ''group''), (''groupId'', Str ''g1''),
       (''createdAtMs'', num 2000)])]) else None),
     ev_authorizeJoin = Some (\<lambda>i a. Some (Obj [(''authorized'', Bool True)])), ev_peerLinks = None, ev_ownInbox = Null,
     ev_sdk = True, ev_fileTransfer = False, ev_channels = False, ev_contacts = False, ev_peerLinkProtocol = False, ev_events = False \<rparr>"

definition kicked_node :: "(string \<times> jsval) list node" where
  "kicked_node = \<lparr> nd_kv = kicked_store, nd_out = [], nd_files = [], nd_uuids = 0 \<rparr>"

definition leave_raw :: jsval where
  "leave_raw = Obj [(''op'', Str ''leave''), (''groupId'', Str ''g1''), (''accountId'', Str ''bob''), (''actedAtMs'', num 5), (''groupOpId'', Str ''o1'')]"

text \<open>An operation of an account that was kicked out of the group.\<close>

theorem unauthorised_group_op_ignored_instance:
  "snd (handleIncomingGroupOp HM bare_env leave_raw (Str ''bob'') kicked_node) = kicked_node"
proof (rule unauthorised_group_op_ignored)
  show "\<not> authorised HM bare_env leave_raw ''bob'' kicked_node" by code_simp
  show "trim ''bob'' = ''bob''" by code_simp
qed

section \<open>The way back of a removed member\<close>

definition removed_at :: "'s host \<Rightarrow> string \<Rightarrow> 's node \<Rightarrow> bool" where
  "removed_at H key n \<longleftrightarrow> (\<exists>r. status_at H key (nd_kv n) = Some (r, ''removed''))"

lemma removed_kept: "on_stores (removed_stays H) n n' \<Longrightarrow> removed_at H (member_key H a b c) n \<Longrightarrow> removed_at H (member_key H a b c) n'"
  unfolding on_stores_def removed_stays_def removed_at_def by blast

text \<open>What has to hold for a removed member to come back under an operation.\<close>

definition readmission :: "env \<Rightarrow> jsval \<Rightarrow> string \<Rightarrow> ChatGroupMember option \<Rightarrow> bool" where
  "readmission E op sender existing \<longleftrightarrow>
     sender = trim (sget op ''accountId'')
     \<and> verifyConsent E (sget op ''groupId'') sender (sget op ''displayName'') op
     \<and> was_removed existing
     \<and> (\<exists>envelope m. resolveJoinInviteEnvelope E (sget op ''inviteId'') (sget op ''groupId'') = Some envelope \<and> existing = Some m
          \<and> invite_after envelope (zero_if_none (gm_updatedAtMs m)) \<and> invite_authorized E (sget op ''inviteId'') sender)"

context host_laws
begin

lemma other_row_revived:
  assumes "removed_at H (member_key H a b c) n"
    and "\<not> names_row H (ReviveMembership (Str (ev_owner E)) (Str gid) (Str joiner) role nm pf) (member_key H a b c)"
  shows "removed_at H (member_key H a b c) (snd (on_kv (reviveMembership H (Str (ev_owner E)) (Str gid) (Str joiner) role nm pf) n))"
  using assms revive_refines [of "member_key H a b c" "Str (ev_owner E)" "Str gid" "Str joiner" role nm pf "nd_kv n"]
  by (auto simp: removed_at_def row_step_def on_kv_def split: prod.split elim!: membership_step.cases)

lemma other_admitted:
  assumes "removed_at H (member_key H a b c) n"
    and "\<not> names_row H (ReviveMembership (Str (ev_owner E)) (Str (sget op ''groupId'')) (Str joiner) (Str ''member'')
        (Str (sget op ''displayName'')) (proof_of op)) (member_key H a b c)"
  shows "removed_at H (member_key H a b c) (snd (admit_joiner H E op joiner True n))"
proof -
  have "removed_at H (member_key H a b c) (snd (on_kv (reviveMembership H (Str (ev_owner E)) (Str (sget op ''groupId'')) (Str joiner)
      (Str ''member'') (Str (sget op ''displayName'')) (proof_of op)) n))"
    by (rule other_row_revived [OF assms])
  then show ?thesis
    unfolding admit_joiner_def Let_def if_P [OF TrueI]
    by (intro snd_catching [where P = "removed_at H (member_key H a b c)"] snd_andThen [where P = "removed_at H (member_key H a b c)"])
      (auto simp: ok_def)
qed

text \<open>After the admission step every store law of \<open>inbound\<close> holds of what follows, whatever the step answered.\<close>

lemma self_join:
  assumes "was_removed existing" and "projr (fst (join_allowed H E op sender joiner existing n))"
  shows "sender = joiner \<and> (\<exists>envelope m. resolveJoinInviteEnvelope E (sget op ''inviteId'') (sget op ''groupId'') = Some envelope
    \<and> existing = Some m \<and> invite_after envelope (zero_if_none (gm_updatedAtMs m)) \<and> invite_authorized E (sget op ''inviteId'') joiner)"
proof -
  obtain m where m: "existing = Some m" using assms(1) by (cases existing) (simp_all add: was_removed_def)
  have s: "sender = joiner"
    using assms by (cases "sender = joiner") (simp_all add: join_allowed_def andThen_read [OF reads_are(1)] ok_def)
  then show ?thesis
    using assms by (simp add: m join_allowed_def ok_def split: option.splits)
qed

lemma join_of_removed:
  assumes "removed_at H (member_key H a b c) n"
    and "\<not> removed_at H (member_key H a b c) (snd (applyIncomingMemberJoin H E op sender n))"
  shows "readmission E op sender (found_member H E (sget op ''groupId'') (trim (sget op ''accountId'')) n)
    \<and> names_row H (ReviveMembership (Str (ev_owner E)) (Str (sget op ''groupId'')) (Str sender) (Str ''member'')
        (Str (sget op ''displayName'')) (proof_of op)) (member_key H a b c)"
proof -
  let ?j = "trim (sget op ''accountId'')" and ?g = "sget op ''groupId''" and ?nm = "sget op ''displayName''"
  let ?ex = "found_member H E ?g ?j n"
  have go: "sender \<noteq> []" "?j \<noteq> []" "?j \<noteq> ev_owner E" "verifyConsent E ?g ?j ?nm op"
    using assms by (auto simp: applyIncomingMemberJoin_def Let_def ok_def split: if_splits)
  let ?al = "projr (fst (join_allowed H E op sender ?j ?ex n))"
  define rest where "rest = (\<lambda>changed. andThen (record_known H E ?j ?nm) (\<lambda>_.
            andThen (when_ok changed (andThen (emitMembersUpdated H E ?g) (\<lambda>_.
              persistJoinSystemMessage H E ?g ?j ?nm (getp op ''actedAtMs'') (sget op ''groupOpId'')))) (\<lambda>_.
            andThen (when_ok (ev_events E) (effect_out (FlushDeferred ?g ?j))) (\<lambda>_.
              when_ok (sender = ?j) (forward_join H E op ?j)))))"
  have run: "applyIncomingMemberJoin H E op sender n = (if \<not> ?al then ok () n else andThen (admit_joiner H E op ?j (was_removed ?ex)) rest n)"
    using go by (simp add: applyIncomingMemberJoin_def Let_def rest_def andThen_read [OF reads_are(1)] andThen_read [OF join_allowed_read])
  have al: "?al" using assms run by (auto simp: ok_def split: if_splits)
  have law: "every (on_stores (removed_stays H)) (rest changed)" for changed
    unfolding rest_def by (intro removed.handlers.every_andThen removed.handlers.every_when_ok removed.every_record_known removed.every_event
        removed.every_join_message removed.every_out removed.every_forward)
  have keep: "removed_at H (member_key H a b c) (snd (rest x k))" if "removed_at H (member_key H a b c) k" for x k
    by (rule removed_kept [OF everyD [OF law] that])
  have after: "removed_at H (member_key H a b c) (snd (andThen m rest n))"
    if "removed_at H (member_key H a b c) (snd (m n))" for m
    using that keep by (rule snd_andThen [where P = "removed_at H (member_key H a b c)"])
  have w: "was_removed ?ex"
  proof (rule ccontr)
    assume "\<not> was_removed ?ex"
    then have "removed_at H (member_key H a b c) (snd (admit_joiner H E op ?j (was_removed ?ex) n))"
      using removed_kept [OF everyD [OF removed.every_admit_new] assms(1)] by simp
    then show False using after [of "admit_joiner H E op ?j (was_removed ?ex)"] assms(2) run al by simp
  qed
  note self = self_join [OF w al]
  have named: "names_row H (ReviveMembership (Str (ev_owner E)) (Str ?g) (Str ?j) (Str ''member'') (Str ?nm) (proof_of op)) (member_key H a b c)"
    using after [of "admit_joiner H E op ?j True"] other_admitted [OF assms(1), of E op ?j] assms(2) run al w by auto
  show ?thesis
    using go(4) w self named by (simp add: readmission_def)
qed

lemma member_ops_keep_removed:
  assumes "role_ok op" and "sget op ''op'' \<noteq> ''member.join''"
  shows "every (on_stores (removed_stays H)) (handleIncomingGroupOp H E op sender)"
  by (auto simp: handleIncomingGroupOp_def Let_def assms(2) intro!: removed.inbound_rules removed.every_from_member [OF assms(1)])

end

text \<open>
  C4. A removed member is active again only after an operation in which the account itself announces its
  joining, with a consent proof that verifies, under an invite of the owner for this group that is newer than
  the removal and that the ledger still authorises; the row that comes back is the row of that account.
\<close>

theorem removed_member_needs_new_invite:
  assumes "host_laws H" and "new_record GroupOpPayloadV1 raw = Inr op"
    and "removed_at H (member_key H a b c) n"
    and "\<not> removed_at H (member_key H a b c) (snd (handleIncomingGroupOp H E op (Str sender) n))"
  shows "sget op ''op'' = ''member.join'' \<and> readmission E op (trim sender) (found_member H E (sget op ''groupId'') (trim sender) n)
    \<and> names_row H (ReviveMembership (Str (ev_owner E)) (Str (sget op ''groupId'')) (Str (trim sender)) (Str ''member'')
        (Str (sget op ''displayName'')) (proof_of op)) (member_key H a b c)"
proof -
  have t: "trim sender \<noteq> []" using assms(3,4) by (auto simp: handleIncomingGroupOp_def Let_def ok_def)
  have j: "sget op ''op'' = ''member.join''"
    using removed_kept [OF everyD [OF host_laws.member_ops_keep_removed [OF assms(1) constructed_role_ok [OF assms(2)]]] assms(3)] assms(4) by blast
  have "snd (handleIncomingGroupOp H E op (Str sender) n) = snd (applyIncomingMemberJoin H E op (trim sender) n)"
    using t by (simp add: handleIncomingGroupOp_def Let_def j andThen_def ok_def split: prod.split sum.split)
  then have "\<not> removed_at H (member_key H a b c) (snd (applyIncomingMemberJoin H E op (trim sender) n))" using assms(4) by simp
  note * = host_laws.join_of_removed [OF assms(1,3) this]
  moreover have "trim (sget op ''accountId'') = trim sender" using * by (simp add: readmission_def)
  ultimately show ?thesis using j by simp
qed

definition rejoin_raw :: jsval where
  "rejoin_raw = Obj [(''op'', Str ''member.join''), (''groupId'', Str ''g1''), (''accountId'', Str ''bob''), (''inviteId'', Str ''i1''),
     (''displayName'', Str ''Bob''), (''joinerSignerPublicKeyB64'', Str ''pk''), (''joinerSigB64'', Str ''sig''),
     (''actedAtMs'', num 5), (''groupOpId'', Str ''o1'')]"

definition rejoin_op :: jsval where
  "rejoin_op = projr (new_record GroupOpPayloadV1 rejoin_raw)"

lemma rejoin_constructed: "new_record GroupOpPayloadV1 rejoin_raw = Inr rejoin_op"
proof -
  have "\<not> isl (new_record GroupOpPayloadV1 rejoin_raw)" by code_simp
  then show ?thesis unfolding rejoin_op_def by simp
qed

theorem removed_member_needs_new_invite_instance:
  "readmission bare_env rejoin_op (trim ''bob'') (found_member HM bare_env (sget rejoin_op ''groupId'') (trim ''bob'') kicked_node)"
proof -
  have "status_at HM (member_key HM ''me'' ''g1'' ''bob'') (nd_kv kicked_node) = Some (''member'', ''removed'')" by code_simp
  moreover have "status_at HM (member_key HM ''me'' ''g1'' ''bob'')
      (nd_kv (snd (handleIncomingGroupOp HM bare_env rejoin_op (Str ''bob'') kicked_node))) = Some (''member'', ''active'')" by code_simp
  ultimately have "removed_at HM (member_key HM ''me'' ''g1'' ''bob'') kicked_node"
    "\<not> removed_at HM (member_key HM ''me'' ''g1'' ''bob'') (snd (handleIncomingGroupOp HM bare_env rejoin_op (Str ''bob'') kicked_node))"
    by (simp_all add: removed_at_def)
  then show ?thesis using removed_member_needs_new_invite [OF HM_laws rejoin_constructed] by blast
qed

section \<open>Creators\<close>

context host_laws
begin

lemma handled_creators: "role_ok op \<Longrightarrow> every (on_stores (no_new_creator H)) (handleIncomingGroupOp H E op sender)"
  by (rule creators.every_handle)

end

text \<open>
  C5. No operation from a peer makes anyone a creator: a membership that has the role after an operation
  had it before, whoever sent the operation.
\<close>

theorem peers_mint_no_creator:
  assumes "host_laws H" and "new_record GroupOpPayloadV1 raw = Inr op"
    and "status_at H (member_key H a b c) (nd_kv (snd (handleIncomingGroupOp H E op sender n))) = Some (''creator'', st)"
  shows "\<exists>st0. status_at H (member_key H a b c) (nd_kv n) = Some (''creator'', st0)"
  using everyD [OF host_laws.handled_creators [OF assms(1) constructed_role_ok [OF assms(2)]], where n = n] assms(3)
  unfolding on_stores_def no_new_creator_def by blast

definition founded_node :: "(string \<times> jsval) list node" where
  "founded_node = \<lparr> nd_kv = run_groups HM [(1000, EnsureMembership (Str ''me'') (Str ''g1'') (Str ''me'') (Str ''creator'') (Str ''Me'') Null),
     (1001, join_bob)] [], nd_out = [], nd_files = [], nd_uuids = 0 \<rparr>"

lemma leave_constructed: "new_record GroupOpPayloadV1 leave_raw = Inr (projr (new_record GroupOpPayloadV1 leave_raw))"
proof -
  have "\<not> isl (new_record GroupOpPayloadV1 leave_raw)" by code_simp
  then show ?thesis by simp
qed

theorem peers_mint_no_creator_instance:
  "\<exists>st0. status_at HM (member_key HM ''me'' ''g1'' ''me'') (nd_kv founded_node) = Some (''creator'', st0)"
proof (rule peers_mint_no_creator [OF HM_laws leave_constructed])
  show "status_at HM (member_key HM ''me'' ''g1'' ''me'') (nd_kv (snd (handleIncomingGroupOp HM bare_env
      (projr (new_record GroupOpPayloadV1 leave_raw)) (Str ''bob'') founded_node))) = Some (''creator'', ''active'')" by code_simp
qed

section \<open>Handshakes\<close>

fun is_link :: "effect \<Rightarrow> bool" where
  "is_link (LinkPeer a i) \<longleftrightarrow> True"
| "is_link _ \<longleftrightarrow> False"

definition links :: "'s node \<Rightarrow> nat" where
  "links n = length (filter is_link (nd_out n))"

text \<open>A handler without handshakes: \<open>every same_links\<close>.\<close>

definition same_links :: "'s node \<Rightarrow> 's node \<Rightarrow> bool" where
  "same_links n n' \<longleftrightarrow> links n' = links n"

interpretation quiet: step_law same_links
  by unfold_locales (simp_all add: same_links_def)

lemma quiet_out: "\<not> is_link e \<Longrightarrow> every same_links (effect_out e)"
  by (simp add: every_def same_links_def links_def effect_out_def)

lemma quiet_kv: "every same_links (on_kv m)"
  by (auto simp: every_def same_links_def links_def on_kv_def split: prod.split)

lemma quiet_basic:
  "every same_links (nowOpId E)" "every same_links (storeFile E h b)" "every same_links (emit_record name mk raw)"
  "every same_links (fanOut E targets payload)"
proof -
  show "every same_links (nowOpId E)" "every same_links (storeFile E h b)"
    by (auto simp: every_def same_links_def links_def nowOpId_def storeFile_def throw_def split: option.split)
  show "every same_links (emit_record name mk raw)" "every same_links (fanOut E targets payload)"
    by (auto simp: emit_record_def fanOut_def intro!: quiet.every_rules quiet_out)
qed

lemma quiet_send: "every same_links (send_group_op H E targets op gid t fs)"
  by (auto simp: send_group_op_def intro!: quiet.every_rules quiet_basic)

lemmas quiet_rules = quiet.every_rules quiet_kv quiet_basic quiet_send

lemma quiet_reading:
  "every same_links (group_of H E gid)" "every same_links (members_of H E gid)"
  "every same_links (findMembership H E gid a)" "every same_links (isCreator H E gid a)"
  "every same_links (isEffectiveAdmin H E gid m)" "every same_links (listOtherActiveMembers H E gid)"
  "every same_links (listContacts H E)"
  by (auto simp: group_of_def members_of_def findMembership_def isCreator_def isEffectiveAdmin_def listOtherActiveMembers_def
      listContacts_def Let_def intro!: quiet_rules)

lemma quiet_events:
  "every same_links (emitGroupUpdated H E gid)" "every same_links (emitMembersUpdated H E gid)" "every same_links (emit_group g)"
  "every same_links (emit_group_removed gid)" "every same_links (emitChannelUpserted ch)" "every same_links (emitChannelRemoved gid cid)"
  by (auto simp: emitGroupUpdated_def emitMembersUpdated_def stampFounderAsAdmin_def enrichMembersWithContacts_def emit_group_def
      emit_group_removed_def emitChannelUpserted_def emitChannelRemoved_def Let_def intro!: quiet_rules quiet_reading)

lemma quiet_announcing:
  "every same_links (broadcastKnownContacts H E gid)" "every same_links (fanoutChannelsToPeer H E g p)"
  "every same_links (advertiseGroupStateToPeer H E g p)" "every same_links (record_known H E a name)"
  by (auto simp: broadcastKnownContacts_def fanoutChannelsToPeer_def advertiseGroupStateToPeer_def record_known_def ensureKnownAccount_def
      upsert_and_emit_def emitContactUpdated_def Let_def intro!: quiet_rules quiet_reading)

text \<open>One entry starts at most the one handshake it answers with, and only when it may.\<close>

lemma apply_contact_links:
  "links (snd (apply_contact H E gid createdBy c may n))
    \<le> links n + (case fst (apply_contact H E gid createdBy c may n) of Inr (_, True) \<Rightarrow> (if may then 1 else 0) | _ \<Rightarrow> 0)"
proof (cases "trim (sget c ''accountId'') = [] \<or> trim (sget c ''inboxId'') = [] \<or> trim (sget c ''accountId'') = ev_owner E
    \<or> \<not> fst (contact_warrant E gid createdBy c)")
  case True
  then show ?thesis by (auto simp: apply_contact_def Let_def ok_def split: prod.split)
next
  case False
  obtain p where w: "contact_warrant E gid createdBy c = (True, p)" using False by (cases "contact_warrant E gid createdBy c") auto
  define m where "m = catching (on_kv (ensureMembership H (Str (ev_owner E)) (Str gid) (Str (trim (sget c ''accountId''))) (Str ''member'')
      (Str (sget c ''displayName'')) (case p of None \<Rightarrow> Null | Some p \<Rightarrow> p))) \<lparr> mr_membership = None, mr_created = False, mr_upgraded = False \<rparr>"
  define k where "k = when_ok (p \<noteq> None \<and> sget c ''displayName'' \<noteq> []) (record_known H E (trim (sget c ''accountId'')) (sget c ''displayName''))"
  have q: "every same_links m" "every same_links k"
    by (auto simp: m_def k_def intro!: quiet_rules quiet_announcing)
  have run: "apply_contact H E gid createdBy c may = andThen m (\<lambda>r. andThen k (\<lambda>_.
      let link = is_active (mr_membership r) \<and> ev_peerLinkProtocol E \<and> may in
        andThen (when_ok link (effect_out (LinkPeer (trim (sget c ''accountId'')) (trim (sget c ''inboxId''))))) (\<lambda>_.
          ok (mr_created r \<or> mr_upgraded r, link))))"
    using False w by (simp add: apply_contact_def m_def k_def Let_def)
  show ?thesis
    using everyD [OF q(1), of n] everyD [OF q(2), of "snd (m n)"] unfolding run
    by (auto simp: andThen_def Let_def when_ok_def ok_def effect_out_def same_links_def links_def split: prod.split sum.split)
qed

lemma apply_contacts_links:
  "k \<le> MAX_BOOTSTRAP_PER_CONTACT_OP \<Longrightarrow>
   links (snd (apply_contacts H E gid createdBy cs k n)) \<le> links n + (MAX_BOOTSTRAP_PER_CONTACT_OP - k)"
proof (induction cs arbitrary: k n)
  case (Cons c cs)
  let ?may = "k < MAX_BOOTSTRAP_PER_CONTACT_OP"
  let ?r = "apply_contact H E gid createdBy c ?may n"
  show ?case
  proof (cases "fst ?r")
    case (Inl e)
    then show ?thesis using apply_contact_links [of H E gid createdBy c ?may n] by (cases ?r) (simp add: andThen_def)
  next
    case (Inr cl)
    obtain changed link where cl: "cl = (changed, link)" by (cases cl)
    let ?k = "if link then Suc k else k"
    have l: "links (snd ?r) \<le> links n + (if link \<and> ?may then 1 else 0)"
      using apply_contact_links [of H E gid createdBy c ?may n] Inr cl by (cases link) (auto split: if_splits)
    show ?thesis
    proof (cases "?k \<le> MAX_BOOTSTRAP_PER_CONTACT_OP")
      case True
      have "links (snd (apply_contacts H E gid createdBy (c # cs) k n)) = links (snd (apply_contacts H E gid createdBy cs ?k (snd ?r)))"
        using Inr cl by (cases ?r) (auto simp: andThen_def ok_def split: prod.split sum.split)
      then show ?thesis using Cons.IH [OF True, of "snd ?r"] l Cons.prems by (cases link) (auto split: if_splits)
    next
      case False
      then have "link \<and> \<not> ?may" using Cons.prems by (auto split: if_splits)
      moreover have "link \<longrightarrow> ?may" using Inr cl
        by (auto simp: apply_contact_def Let_def ok_def andThen_def split: prod.splits sum.splits if_splits)
      ultimately show ?thesis by simp
    qed
  qed
qed (simp add: ok_def)

lemma quiet_ops:
  "every same_links (applyIncomingRename H E op)" "every same_links (applyIncomingSetAvatar H E op)"
  "every same_links (applyIncomingGroupState H E op)" "every same_links (applyIncomingKick H E op)"
  "every same_links (applyIncomingLeave H E op)" "every same_links (applyIncomingSetRole H E op)"
  "every same_links (applyIncomingOp H E op sn adm)"
  by (auto simp: applyIncomingRename_def applyIncomingSetAvatar_def applyIncomingGroupState_def applyIncomingKick_def applyIncomingLeave_def
      applyIncomingSetRole_def applyIncomingOp_def sync_title_def store_avatar_def fill_title_def fill_avatar_def Let_def
      intro!: quiet_rules quiet_reading quiet_events)

lemma quiet_join: "every same_links (applyIncomingMemberJoin H E op sender)"
  by (auto simp: applyIncomingMemberJoin_def join_allowed_def admit_joiner_def persistJoinSystemMessage_def forward_join_def Let_def
      intro!: quiet_rules quiet_reading quiet_events quiet_announcing quiet_out)

lemma contact_op_links: "links (snd (applyIncomingMemberContact H E op n)) \<le> links n + MAX_BOOTSTRAP_PER_CONTACT_OP"
proof (cases "elements (getp op ''contacts'') = []")
  case False
  obtain g where g: "group_of H E (sget op ''groupId'') n = (Inr g, n)" using total_reads(1) unfolding total_read_def by metis
  let ?A = "apply_contacts H E (sget op ''groupId'') (case g of None \<Rightarrow> [] | Some g \<Rightarrow> trim (g_createdBy g)) (elements (getp op ''contacts'')) 0"
  have q: "every same_links (when_ok x (emitMembersUpdated H E (sget op ''groupId'')))" for x
    by (intro quiet.every_when_ok quiet_events)
  have "applyIncomingMemberContact H E op n = andThen ?A (\<lambda>x. when_ok x (emitMembersUpdated H E (sget op ''groupId''))) n"
    using False by (simp add: applyIncomingMemberContact_def Let_def andThen_def [of "group_of _ _ _"] g)
  moreover have "links (snd (?A n)) \<le> links n + MAX_BOOTSTRAP_PER_CONTACT_OP"
    using apply_contacts_links [of 0 H E _ _ _ n] by simp
  moreover have "links (snd (when_ok x (emitMembersUpdated H E (sget op ''groupId'')) k)) = links k" for x k
    using everyD [OF q, of k] by (simp add: same_links_def)
  then have "links (snd (andThen ?A (\<lambda>x. when_ok x (emitMembersUpdated H E (sget op ''groupId''))) n)) \<le> links n + MAX_BOOTSTRAP_PER_CONTACT_OP"
    by (intro snd_andThen [where P = "\<lambda>k. links k \<le> links n + MAX_BOOTSTRAP_PER_CONTACT_OP"] calculation(2)) simp
  ultimately show ?thesis by simp
qed (simp add: applyIncomingMemberContact_def Let_def ok_def)

text \<open>
  One operation from a peer starts at most 64 handshakes, however many contacts it lists.
\<close>

theorem group_op_handshakes_bounded:
  "links (snd (handleIncomingGroupOp H E op sender n)) \<le> links n + 64"
proof -
  have m: "links (snd (apply_from_member H E op s adm k)) \<le> links k + 64" for s adm k
  proof (cases "sget op ''op'' = ''member.contact''")
    case True
    then show ?thesis using contact_op_links [of H E op k]
      by (simp add: apply_from_member_def Let_def MAX_BOOTSTRAP_PER_CONTACT_OP_def)
  next
    case False
    then have "every same_links (apply_from_member H E op s adm)"
      by (auto simp: apply_from_member_def Let_def intro!: quiet_rules quiet_ops quiet_announcing)
    from everyD [OF this, of k] show ?thesis by (simp add: same_links_def)
  qed
  let ?s = "trim (string_or_empty sender)"
  consider "?s = []" | "?s \<noteq> []" "sget op ''op'' = ''member.join''" | "?s \<noteq> []" "sget op ''op'' \<noteq> ''member.join''" by blast
  then show ?thesis
  proof cases
    case 2
    then have "every same_links (handleIncomingGroupOp H E op sender)"
      by (auto simp: handleIncomingGroupOp_def Let_def intro!: quiet_rules quiet_join)
    from everyD [OF this, of n] show ?thesis by (simp add: same_links_def)
  next
    case 3
    have "snd (handleIncomingGroupOp H E op sender n) = n \<or> (\<exists>adm. snd (handleIncomingGroupOp H E op sender n) = snd (apply_from_member H E op ?s adm n))"
      using 3 by (auto simp: handleIncomingGroupOp_def Let_def andThen_read [OF reads_are(1)] andThen_read [OF reads_are(3)]
          snd_then_ok ok_def split: option.split)
    then show ?thesis using m by (elim disjE exE) simp_all
  qed (simp add: handleIncomingGroupOp_def ok_def)
qed

section \<open>Relationships\<close>

context host_laws
begin

lemma handled_relations: "role_ok op \<Longrightarrow> every (on_stores (relation_stays H)) (handleIncomingGroupOp H E op sender)"
  by (rule relations.every_handle)

end

text \<open>
  C6. No operation of a group changes a relationship: a contact that is invited, active or blocked is so
  after any operation from a peer.
\<close>

theorem group_ops_keep_relationships:
  assumes "host_laws H" and "new_record GroupOpPayloadV1 raw = Inr op"
    and "relation_of H owner contact (nd_kv n) = Some st" "st \<noteq> ''known''"
  shows "relation_of H owner contact (nd_kv (snd (handleIncomingGroupOp H E op sender n))) = Some st"
  using everyD [OF host_laws.handled_relations [OF assms(1) constructed_role_ok [OF assms(2)]], where n = n] assms(3,4)
  unfolding on_stores_def relation_stays_def by blast

definition blocked_node :: "(string \<times> jsval) list node" where
  "blocked_node = kicked_node\<lparr>nd_kv := snd (setRelationshipState HM (Str ''me'') (Str ''bob'') (Str ''blocked'') (nd_kv kicked_node))\<rparr>"

theorem group_ops_keep_relationships_instance:
  "relation_of HM ''me'' ''bob'' (nd_kv (snd (handleIncomingGroupOp HM (bare_env\<lparr>ev_contacts := True\<rparr>) rejoin_op (Str ''bob'') blocked_node)))
    = Some ''blocked''"
proof (rule group_ops_keep_relationships [OF HM_laws rejoin_constructed])
  show "relation_of HM ''me'' ''bob'' (nd_kv blocked_node) = Some ''blocked''" by code_simp
qed simp

end
