(* ===== verification/RenameOrder.thy ===== *)
theory RenameOrder
  imports GroupOpProperties
begin

text \<open>
  The order of renames: an applied rename is stamped with the clock of the receiver, and the next one is
  compared with that stamp. So which of two renames stays depends on when the first was received.
\<close>

section \<open>A renamed group\<close>

lemma spread_title: "spread (group_fields g) [(''title'', Str t), (''updatedAtMs'', num u)]
    = group_fields (g\<lparr>g_title := t, g_updatedAtMs := Some u\<rparr>)"
  by (simp add: spread_def group_fields_def)

lemma restamp_title:
  assumes "wf_group g" "g_ownerAccountId g \<noteq> []" "trimmed t"
  shows "restamp_group H [(''title'', Str t)] g = Some (g\<lparr>g_title := t, g_updatedAtMs := Some (now_of H)\<rparr>)"
proof -
  have "wf_group (g\<lparr>g_title := t, g_updatedAtMs := Some (now_of H)\<rparr>)" using assms(1,3) by (simp add: wf_group_def)
  then show ?thesis using assms(2) by (simp add: restamp_group_def spread_title groups_table_def table_coerce_def group_back)
qed

lemma group_of_read: "group_of H E gid n = (Inr (projr (fst (group_of H E gid n))), n)"
  by (rule total_read_value [OF total_reads(1)])

lemma group_of_row:
  assumes "requireId H (Str (ev_owner E)) ''ownerAccountId'' = Inr owner" and "requireId H (Str gid) ''groupId'' = Inr g"
  shows "group_of H E gid n = (Inr (table_get H (groups_table H) [owner, g] (nd_kv n)), n)"
  by (simp add: group_of_def catching_def on_kv_def getGroup_def assms reads_def)

lemma group_of_ids:
  assumes "group_of H E gid n = (Inr (Some x), n)"
  obtains owner g where "requireId H (Str (ev_owner E)) ''ownerAccountId'' = Inr owner" "requireId H (Str gid) ''groupId'' = Inr g"
proof -
  have "\<exists>owner g. requireId H (Str (ev_owner E)) ''ownerAccountId'' = Inr owner \<and> requireId H (Str gid) ''groupId'' = Inr g"
    using assms by (cases "requireId H (Str (ev_owner E)) ''ownerAccountId''"; cases "requireId H (Str gid) ''groupId''")
      (simp_all add: group_of_def catching_def on_kv_def getGroup_def with_id_def throw_def)
  then show ?thesis using that by blast
qed

text \<open>The events and the title of the thread leave the row of the group alone.\<close>

interpretation kept: store_law "same_on H p" for H p
  by unfold_locales (simp_all add: same_on_def)

context host_laws
begin

lemma after_rename: "every (on_stores (same_on H GROUP_PREFIX)) (andThen (sync_title H E gid t) (\<lambda>_. emit_group g))"
proof -
  have "every (same_on H GROUP_PREFIX) (ensureThread H (ev_owner E) a)" for a
    by (rule every_same_on [OF thread_writes(1)]) (simp add: apart_def GROUP_PREFIX_def)
  then show ?thesis by (auto simp: sync_title_def intro!: kept.handler_rules kept.every_record)
qed

lemma renamed_group:
  assumes "group_of H E gid n = (Inr (Some g), n)" and "sget op ''groupId'' = gid"
    and "\<not> not_newer H op (Some g)" and "trim (sget op ''title'') \<noteq> []"
    and ids: "requireId H (Str (ev_owner E)) ''ownerAccountId'' = Inr owner" "requireId H (Str gid) ''groupId'' = Inr k"
  shows "kvGet H (nd_kv (snd (applyIncomingRename H E op n))) (table_key H (groups_table H) [owner, k])
    = group_json (g\<lparr>g_title := trim (sget op ''title''), g_updatedAtMs := Some (now_of H)\<rparr>)"
proof -
  let ?g = "g\<lparr>g_title := trim (sget op ''title''), g_updatedAtMs := Some (now_of H)\<rparr>" and ?key = "table_key H (groups_table H) [owner, k]"
  have row: "table_get H (groups_table H) [owner, k] (nd_kv n) = Some g"
    using assms(1) group_of_row [OF ids, of n] by simp
  have wf: "wf_group g" "g_ownerAccountId g \<noteq> []" using groups.get_wf [OF row] by auto
  let ?s = "table_set H (groups_table H) ?g [owner, k] (nd_kv n)"
  have ren: "on_kv (renameGroup H (Str (ev_owner E)) (Str gid) (getp op ''title'')) n = (Inr (Some ?g, True), n\<lparr>nd_kv := ?s\<rparr>)"
    using assms(4) by (simp add: on_kv_def renameGroup_def ids row restamp_title [OF wf] table_put_def andThen_def ok_def sget_def Let_def)
  have "applyIncomingRename H E op n = andThen (sync_title H E gid (getp op ''title'')) (\<lambda>_. emit_group ?g) (n\<lparr>nd_kv := ?s\<rparr>)"
    using assms(2,3) by (simp add: applyIncomingRename_def Let_def andThen_def [of "group_of _ _ _"] assms(1) andThen_def [of "on_kv _"] ren)
  then show ?thesis
    using everyD [OF after_rename [of E gid _ ?g], of "n\<lparr>nd_kv := ?s\<rparr>"]
    by (simp add: on_stores_def same_on_def table_key_def groups_table_def table_set_def)
qed

end

section \<open>Two renames\<close>

lemma clock_table_key: "table_key (H\<lparr>clockMs := c\<rparr>) tb ps = table_key H tb ps"
proof -
  have "part (H\<lparr>clockMs := c\<rparr>) = part H" by (intro ext) (simp add: part_def Let_def split: option.split)
  then show ?thesis by (simp add: table_key_def)
qed

lemma clock_group_of:
  assumes "host_laws H" and "wf_group g" "g_ownerAccountId g \<noteq> []"
    and "requireId H (Str (ev_owner E)) ''ownerAccountId'' = Inr owner" "requireId H (Str gid) ''groupId'' = Inr k"
    and "kvGet H (nd_kv n) (table_key H (groups_table H) [owner, k]) = group_json g"
  shows "group_of (H\<lparr>clockMs := c\<rparr>) E gid n = (Inr (Some g), n)"
proof -
  let ?H = "H\<lparr>clockMs := c\<rparr>"
  have "tb_coerce (groups_table ?H) (tb_json (groups_table ?H) g) = Some g"
    using kv_table.coerce_json [OF host_laws.groups_contract [OF host_laws.host_laws_clock [OF assms(1)]]] assms(2,3) by simp
  moreover have "table_key ?H (groups_table ?H) [owner, k] = table_key H (groups_table H) [owner, k]"
    unfolding clock_table_key by (simp add: groups_table_def table_key_def)
  ultimately show ?thesis using assms(4-6) by (simp add: group_of_row table_get_def groups_table_def)
qed

text \<open>
  C7. Of two renames from peers the one that was received first wins when the other was made before the
  moment of that reception: it is dropped, even when it was made after the first one.
\<close>

theorem later_rename_dropped:
  assumes "host_laws H" and "clockMs H = of_int i" and "group_of H E gid n = (Inr (Some g), n)"
    and "sget op1 ''groupId'' = gid" "\<not> not_newer H op1 (Some g)" "trim (sget op1 ''title'') \<noteq> []"
    and "sget op2 ''groupId'' = gid" "getp op2 ''actedAtMs'' = num t2" "t2 \<le> clockMs H" "0 \<le> clockMs H"
  shows "applyIncomingRename (H\<lparr>clockMs := c\<rparr>) E op2 (snd (applyIncomingRename H E op1 n))
    = (Inr (), snd (applyIncomingRename H E op1 n))"
proof -
  obtain owner k where ids: "requireId H (Str (ev_owner E)) ''ownerAccountId'' = Inr owner" "requireId H (Str gid) ''groupId'' = Inr k"
    using group_of_ids [OF assms(3)] .
  let ?g = "g\<lparr>g_title := trim (sget op1 ''title''), g_updatedAtMs := Some (now_of H)\<rparr>"
  have row: "table_get H (groups_table H) [owner, k] (nd_kv n) = Some g" using assms(3) group_of_row [OF ids, of n] by simp
  then have wf: "wf_group ?g" "g_ownerAccountId ?g \<noteq> []"
    using kv_table.get_wf [OF host_laws.groups_contract [OF assms(1)] row] by (simp_all add: wf_group_def)
  have now: "now_of H = clockMs H" using assms(2) host_laws.asInt_int [OF assms(1)] by (simp add: now_of_def)
  have "group_of (H\<lparr>clockMs := c\<rparr>) E gid (snd (applyIncomingRename H E op1 n)) = (Inr (Some ?g), snd (applyIncomingRename H E op1 n))"
    by (rule clock_group_of [OF assms(1) wf ids host_laws.renamed_group [OF assms(1,3-6) ids]])
  moreover have "not_newer (H\<lparr>clockMs := c\<rparr>) op2 (Some ?g)"
    using assms(8-10) now by (simp add: not_newer_def clamped_time_def zero_if_none_def min_le_iff_disj)
  ultimately show ?thesis
    using assms(7) by (simp add: applyIncomingRename_def Let_def andThen_def ok_def)
qed

text \<open>Two renames of the group \<open>g1\<close>: made at 600 and at 800, both received at or after 1000.\<close>

definition titled_node :: "(string \<times> jsval) list node" where
  "titled_node = \<lparr> nd_kv = run_groups HM [(500, EnsureGroup (Str ''me'') (Str ''g1'') (Str ''me'') (Str ''Team'') Null Null)] [],
     nd_out = [], nd_files = [], nd_uuids = 0 \<rparr>"

definition rename_at :: "rat \<Rightarrow> string \<Rightarrow> jsval" where
  "rename_at t title = Obj [(''op'', Str ''rename''), (''groupId'', Str ''g1''), (''title'', Str title), (''actedAtMs'', num t)]"

definition sample_group :: ChatGroup where
  "sample_group = projr (mkChatGroup (Obj [(''groupId'', Str ''g1'')]))"

theorem later_rename_dropped_instance:
  "applyIncomingRename (HM\<lparr>clockMs := 1001\<rparr>) bare_env (rename_at 800 ''New'') (snd (applyIncomingRename HM bare_env (rename_at 600 ''Old'') titled_node))
    = (Inr (), snd (applyIncomingRename HM bare_env (rename_at 600 ''Old'') titled_node))"
proof -
  have "map_option g_updatedAtMs (projr (fst (group_of HM bare_env ''g1'' titled_node))) = Some (Some 500)" by code_simp
  then obtain g where g: "projr (fst (group_of HM bare_env ''g1'' titled_node)) = Some g" "g_updatedAtMs g = Some 500" by auto
  have r: "group_of HM bare_env ''g1'' titled_node = (Inr (Some g), titled_node)"
    using group_of_read [of HM bare_env "''g1''" titled_node] g(1) by simp
  have c: "clockMs HM = of_int 1000" by (simp add: memory_host_def)
  have "not_newer HM (rename_at 600 ''Old'') (Some g) \<longleftrightarrow> not_newer HM (rename_at 600 ''Old'') (Some (sample_group\<lparr>g_updatedAtMs := Some 500\<rparr>))"
    using g(2) by (simp add: not_newer_def)
  moreover have "\<not> not_newer HM (rename_at 600 ''Old'') (Some (sample_group\<lparr>g_updatedAtMs := Some 500\<rparr>))" by code_simp
  ultimately have n: "\<not> not_newer HM (rename_at 600 ''Old'') (Some g)" by simp
  have o: "sget (rename_at 600 ''Old'') ''groupId'' = ''g1''" "trim (sget (rename_at 600 ''Old'') ''title'') \<noteq> []"
    "sget (rename_at 800 ''New'') ''groupId'' = ''g1''" "getp (rename_at 800 ''New'') ''actedAtMs'' = num 800" "800 \<le> clockMs HM" "0 \<le> clockMs HM"
    by code_simp+
  show ?thesis by (rule later_rename_dropped [OF HM_laws c r o(1) n o(2-)])
qed

end
