(* ===== verification/Delivery.thy ===== *)
theory Delivery
  imports GroupService Caches MessageLog
begin

text \<open>
  Delivery of message payloads (\<open>src/server/services/ServerMessagesService.js\<close>): what the service keeps in
  memory, sealing and dispatch to one peer, to each device of a peer, and to the members of a group. The
  SDK's sealing and mesh, the peers' device sets and the random jitter are the fields of \<open>menv\<close>.
\<close>

section \<open>State and surroundings\<close>

text \<open>What the SDK throws: whether \<open>err.queued\<close> is true, the code and the message; and what the mesh answers.\<close>

datatype failure = Failure bool string string

datatype routed = Routed | QueuedAt string

record sealing =
  sq_peer :: string
  sq_device :: string
  sq_inbox :: string
  sq_body :: string
  sq_handshake :: jsval

record signer =
  si_publicKeyB64 :: string
  si_deviceId :: jsval
  si_certChain :: jsval
  si_sign :: "string \<Rightarrow> js_error + string"

text \<open>
  \<open>me_signer\<close> is \<open>None\<close> in a runtime without account authority and \<open>Inl\<close> when it does not resolve;
  \<open>me_seal\<close> and \<open>me_mesh\<close> take the number of the call. Bytes of sealed objects are their base64 text.
\<close>

record menv =
  me_base :: env
  me_signing :: signing
  me_signer :: "(string + signer) option"
  me_authorityState :: "jsval option"
  me_seal :: "nat \<Rightarrow> sealing \<Rightarrow> failure + string sealed"
  me_mesh :: "nat \<Rightarrow> string sealed \<Rightarrow> failure + routed"
  me_multiDevice :: bool
  me_sealsDevices :: bool
  me_resolveDevices :: "string \<Rightarrow> string + jsval"
  me_deviceSets :: bool
  me_fanoutTtl :: rat
  me_revocations :: "(string \<Rightarrow> string + jsval) option"
  me_cryptoProvider :: bool
  me_random :: "nat \<Rightarrow> rat"

record tracking =
  tr_threadId :: string
  tr_outstanding :: "string list"
  tr_anyDelivered :: bool

record queuedMessage =
  qm_threadId :: string
  qm_messageId :: string
  qm_queuedAtMs :: rat

text \<open>The stores and effects of the process, and the memory of the messages service. Maps are lists of pairs.\<close>

record 's mnode =
  mn_node :: "'s node"
  mn_queued :: "queuedMessage list"
  mn_ackPending :: "(string \<times> string) list"
  mn_byInbox :: "(string \<times> string list) list"
  mn_tracking :: "(string \<times> tracking) list"
  mn_epoch :: "(rat \<times> rat) option"
  mn_calls :: nat
  mn_draws :: nat

type_synonym ('s, 'a) mhandler = "('s mnode, 'a) op"

definition on_node :: "('s, 'a) handler \<Rightarrow> ('s, 'a) mhandler" where
  "on_node m n = (case m (mn_node n) of (r, k) \<Rightarrow> (r, n\<lparr>mn_node := k\<rparr>))"

definition on_store :: "('s, 'a) op \<Rightarrow> ('s, 'a) mhandler" where
  "on_store m = on_node (on_kv m)"

definition me_owner :: "menv \<Rightarrow> string" where
  "me_owner M = ev_owner (me_base M)"

text \<open>\<open>Promise.allSettled\<close> of one call, and a loop that collects.\<close>

definition settled :: "('s, 'a) op \<Rightarrow> ('s, js_error + 'a) op" where
  "settled m s = (case m s of (r, s') \<Rightarrow> (Inr r, s'))"

fun collect :: "('a \<Rightarrow> ('s, 'b) op) \<Rightarrow> 'a list \<Rightarrow> ('s, 'b list) op" where
  "collect f [] = ok []"
| "collect f (x # xs) = andThen (f x) (\<lambda>y. andThen (collect f xs) (\<lambda>ys. ok (y # ys)))"

definition app_error :: "string \<Rightarrow> string \<Rightarrow> ('s, unit) mhandler" where
  "app_error msg severity = on_node (effect_out (Emit ''app.error''
     (Obj [(''source'', Str ''ServerMessagesService''), (''message'', Str msg), (''severity'', Str severity)])))"

text \<open>\<open>p.catch((err) => { log; emit("app.error", ...) })\<close>, which answers \<open>undefined\<close>.\<close>

definition reported :: "('s, 'a) mhandler \<Rightarrow> string \<Rightarrow> string \<Rightarrow> ('s, 'a option) mhandler" where
  "reported m msg severity n = (case m n of (Inl _, n') \<Rightarrow> andThen (app_error msg severity) (\<lambda>_. ok None) n'
     | (Inr x, n') \<Rightarrow> (Inr (Some x), n'))"

section \<open>Queued messages\<close>

text \<open>
  \<open>#queuedByInbox\<close> and \<open>#queueTracking\<close>: which messages wait at an inbox, and at which inboxes a message
  waits.
\<close>

definition waiting :: "(string \<times> string list) list \<Rightarrow> string \<Rightarrow> string list" where
  "waiting m inbox = (case map_of m inbox of None \<Rightarrow> [] | Some ids \<Rightarrow> ids)"

definition add_once :: "'a \<Rightarrow> 'a list \<Rightarrow> 'a list" where
  "add_once x xs = (if x \<in> set xs then xs else xs @ [x])"

definition drop_waiting :: "string \<Rightarrow> string \<Rightarrow> (string \<times> string list) list \<Rightarrow> (string \<times> string list) list" where
  "drop_waiting messageId inbox m =
     (case map_of m inbox of None \<Rightarrow> m
      | Some ids \<Rightarrow> let left = removeAll messageId ids in
          if left = [] then AList.delete inbox m else AList.update inbox left m)"

definition discardQueueTracking :: "string \<Rightarrow> 's mnode \<Rightarrow> 's mnode" where
  "discardQueueTracking messageId n =
     (case map_of (mn_tracking n) messageId of None \<Rightarrow> n
      | Some t \<Rightarrow> n\<lparr>mn_byInbox := foldl (\<lambda>m i. drop_waiting messageId i m) (mn_byInbox n) (tr_outstanding t),
          mn_tracking := AList.delete messageId (mn_tracking n)\<rparr>)"

definition track_inbox :: "string \<Rightarrow> 's mnode \<Rightarrow> string \<Rightarrow> 's mnode" where
  "track_inbox messageId n raw =
     (let inbox = trim raw in
      if inbox = [] then n
      else case map_of (mn_tracking n) messageId of None \<Rightarrow> n
      | Some t \<Rightarrow> n\<lparr>mn_tracking := AList.update messageId (t\<lparr>tr_outstanding := add_once inbox (tr_outstanding t)\<rparr>) (mn_tracking n),
          mn_byInbox := AList.update inbox (add_once messageId (waiting (mn_byInbox n) inbox)) (mn_byInbox n)\<rparr>)"

definition trackQueuedMessage :: "string \<Rightarrow> string \<Rightarrow> string list \<Rightarrow> 's mnode \<Rightarrow> 's mnode" where
  "trackQueuedMessage threadId messageId inboxIds n =
     (if inboxIds = [] then n
      else let n1 = (if map_of (mn_tracking n) messageId \<noteq> None then n
             else n\<lparr>mn_tracking := AList.update messageId \<lparr> tr_threadId = threadId, tr_outstanding = [], tr_anyDelivered = False \<rparr> (mn_tracking n)\<rparr>)
           in foldl (track_inbox messageId) n1 inboxIds)"

definition unqueue :: "(queuedMessage \<Rightarrow> bool) \<Rightarrow> 's mnode \<Rightarrow> 's mnode" where
  "unqueue p n = n\<lparr>mn_queued := filter (\<lambda>q. \<not> p q) (mn_queued n)\<rparr>"

section \<open>Sealing and dispatch\<close>

definition failure_error :: "failure \<Rightarrow> js_error" where
  "failure_error f = (case f of Failure q code msg \<Rightarrow> if code = [] then Error msg else CodedError code msg)"

definition error_failure :: "js_error \<Rightarrow> failure" where
  "error_failure e = (case e of Error msg \<Rightarrow> Failure False [] msg | CodedError code msg \<Rightarrow> Failure False code msg
     | TypeError \<Rightarrow> Failure False [] ''TypeError'')"

text \<open>A call of the SDK: it has the next number, and what it throws is a value of type \<open>failure\<close>.\<close>

definition seal :: "menv \<Rightarrow> sealing \<Rightarrow> ('s, failure + string sealed) mhandler" where
  "seal M q n = (Inr (me_seal M (mn_calls n) q), n\<lparr>mn_calls := Suc (mn_calls n)\<rparr>)"

definition dispatch :: "menv \<Rightarrow> string sealed \<Rightarrow> ('s, failure + routed) mhandler" where
  "dispatch M x n = andThen (on_node (effect_out (Dispatch (sl_payloadBytes x) (sl_address x))))
     (\<lambda>_ n. (Inr (me_mesh M (mn_calls n) x), n\<lparr>mn_calls := Suc (mn_calls n)\<rparr>)) n"

definition seal_and_dispatch :: "menv \<Rightarrow> sealing \<Rightarrow> ('s, failure + routed) mhandler" where
  "seal_and_dispatch M q = andThen (seal M q) (\<lambda>sealed. case sealed of Inl f \<Rightarrow> ok (Inl f) | Inr x \<Rightarrow> dispatch M x)"

section \<open>The devices of a peer\<close>

datatype deviceResult = AlreadyDelivered | Sent "coords option" routed

definition fanout_coords :: "menv \<Rightarrow> string \<Rightarrow> string \<Rightarrow> string \<Rightarrow> coords option" where
  "fanout_coords M peer messageId deviceId =
     (if messageId \<noteq> [] \<and> deviceId \<noteq> []
      then Some \<lparr> cd_ownerAccountId = Str (me_owner M), cd_peerAccountId = Str peer, cd_messageId = Str messageId, cd_peerDeviceId = Str deviceId \<rparr>
      else None)"

definition handshake_for :: "jsval \<Rightarrow> string \<Rightarrow> jsval" where
  "handshake_for resolved deviceId =
     (case find (\<lambda>e. getp e ''peerDeviceId'' = Str deviceId) (List.rev (elements (getp resolved ''established''))) of
        None \<Rightarrow> Null | Some e \<Rightarrow> getp e ''handshakeData'')"

text \<open>One device: replayed from the cache, or sealed once and cached; a device that was reached is left alone.\<close>

definition send_device :: "'s host \<Rightarrow> menv \<Rightarrow> string \<Rightarrow> string \<Rightarrow> string \<Rightarrow> jsval \<Rightarrow> jsval \<Rightarrow> ('s, deviceResult) mhandler" where
  "send_device H M peer body messageId resolved device =
     (let deviceId = trim (sget device ''deviceId''); inbox = trim (sget device ''inboxId'') in
      if deviceId = [] \<or> inbox = [] then throw (Error ''device set entry missing deviceId/inboxId'')
      else let coords = fanout_coords M peer messageId deviceId in
        andThen (case coords of None \<Rightarrow> ok None | Some c \<Rightarrow> on_store (fanoutGet H (\<lambda>b. b) (me_fanoutTtl M) c)) (\<lambda>cached.
          if (case cached of None \<Rightarrow> False | Some (_, deliveredOk) \<Rightarrow> deliveredOk) then ok AlreadyDelivered
          else andThen (case cached of Some (x, _) \<Rightarrow> ok x
              | None \<Rightarrow> andThen (seal M \<lparr> sq_peer = peer, sq_device = deviceId, sq_inbox = inbox, sq_body = body,
                    sq_handshake = handshake_for resolved deviceId \<rparr>) (\<lambda>sealed.
                  case sealed of Inl f \<Rightarrow> throw (failure_error f)
                  | Inr x \<Rightarrow> andThen (case coords of None \<Rightarrow> ok () | Some c \<Rightarrow> on_store (fanoutPut H (\<lambda>b. b) c x)) (\<lambda>_. ok x))) (\<lambda>x.
            andThen (dispatch M x) (\<lambda>r. case r of Inl f \<Rightarrow> throw (failure_error f) | Inr d \<Rightarrow> ok (Sent coords d)))))"

record fanned =
  fa_sent :: nat
  fa_queued :: nat
  fa_inboxes :: "string list"

definition reached :: "js_error + deviceResult \<Rightarrow> bool" where
  "reached r = (case r of Inr AlreadyDelivered \<Rightarrow> True | Inr (Sent _ Routed) \<Rightarrow> True | _ \<Rightarrow> False)"

definition queued_inbox :: "js_error + deviceResult \<Rightarrow> string option" where
  "queued_inbox r = (case r of Inr (Sent _ (QueuedAt mailbox)) \<Rightarrow> Some (trim mailbox) | _ \<Rightarrow> None)"

definition delivered_coords :: "js_error + deviceResult \<Rightarrow> coords option" where
  "delivered_coords r = (case r of Inr (Sent c _) \<Rightarrow> c | _ \<Rightarrow> None)"

definition fanned_of :: "(js_error + deviceResult) list \<Rightarrow> fanned" where
  "fanned_of rs = \<lparr> fa_sent = length (filter reached rs), fa_queued = length (keepSome queued_inbox rs),
     fa_inboxes = filter (\<lambda>i. i \<noteq> []) (keepSome queued_inbox rs) \<rparr>"

definition device_list :: "jsval \<Rightarrow> jsval list" where
  "device_list resolved = elements (getp (getp resolved ''deviceSetRecord'') ''devices'')"

text \<open>
  \<open>None\<close> is the single-device path: the gate is closed, or the peer has published no device set. With
  the gate open an unknown or empty set is an error. The marks of the devices that were reached are written
  before an incomplete fan-out throws. The devices are handled at once in the code; they have separate slots.
\<close>

definition fanOutToPeerDevices :: "'s host \<Rightarrow> menv \<Rightarrow> string \<Rightarrow> string \<Rightarrow> string \<Rightarrow> ('s, fanned option) mhandler" where
  "fanOutToPeerDevices H M peerAccountId body messageId =
     (if \<not> me_multiDevice M then ok None
      else if \<not> me_sealsDevices M then throw (Error ''ServerMessagesService: multi-device fan-out is enabled but the SDK cannot seal per-device'')
      else let peer = trim peerAccountId in
        if peer = [] then throw (Error ''ServerMessagesService: multi-device fan-out requires a resolved peerAccountId'')
        else case me_resolveDevices M peer of
          Inl reason \<Rightarrow> throw (Error (''ServerMessagesService: device-set resolution failed for '' @ peer @ '': '' @ reason))
        | Inr resolved \<Rightarrow>
          if nullish resolved then ok None
          else if device_list resolved = [] then throw (Error (''ServerMessagesService: peer '' @ peer @ '' resolved to a device set with no devices''))
          else andThen (collect (\<lambda>d. settled (send_device H M peer body messageId resolved d)) (device_list resolved)) (\<lambda>results.
            andThen (each (\<lambda>c. on_store (markDelivered H c)) (keepSome delivered_coords results)) (\<lambda>_.
              if list_ex isl results then throw (CodedError ''DEVICE_FANOUT_INCOMPLETE'' ''per-device fan-out incomplete'')
              else ok (Some (fanned_of results)))))"

section \<open>Members and threads\<close>

text \<open>One member of a group; a fan-out that throws is a failure like one of the SDK.\<close>

definition sendToMember :: "'s host \<Rightarrow> menv \<Rightarrow> string \<Rightarrow> string \<Rightarrow> string \<Rightarrow> ('s, failure + routed) mhandler" where
  "sendToMember H M peer body messageId =
     andThen (settled (fanOutToPeerDevices H M peer body messageId)) (\<lambda>fanned. case fanned of
        Inl e \<Rightarrow> ok (Inl (error_failure e))
      | Inr (Some f) \<Rightarrow> ok (Inr (if fa_queued f > 0 \<and> fa_sent f = 0
          then QueuedAt (case fa_inboxes f of [] \<Rightarrow> [] | i # _ \<Rightarrow> i) else Routed))
      | Inr None \<Rightarrow> seal_and_dispatch M \<lparr> sq_peer = peer, sq_device = [], sq_inbox = [], sq_body = body, sq_handshake = Null \<rparr>)"

record groupFan =
  gf_sent :: nat
  gf_failed :: nat
  gf_skipped :: nat
  gf_queued :: nat
  gf_inboxes :: "string list"

definition skipped_code :: "string \<Rightarrow> bool" where
  "skipped_code code \<longleftrightarrow> code = ''NO_DELIVERY_TARGET'' \<or> code = ''THREAD_NOT_READY''"

definition count_result :: "groupFan \<Rightarrow> failure + routed \<Rightarrow> groupFan" where
  "count_result g r = (case r of
       Inr Routed \<Rightarrow> g\<lparr>gf_sent := Suc (gf_sent g)\<rparr>
     | Inr (QueuedAt mailbox) \<Rightarrow> g\<lparr>gf_queued := Suc (gf_queued g),
         gf_inboxes := gf_inboxes g @ (if trim mailbox = [] then [] else [trim mailbox])\<rparr>
     | Inl (Failure q code msg) \<Rightarrow> if q then g\<lparr>gf_queued := Suc (gf_queued g)\<rparr>
         else if skipped_code code then g\<lparr>gf_skipped := Suc (gf_skipped g)\<rparr> else g\<lparr>gf_failed := Suc (gf_failed g)\<rparr>)"

definition no_fan :: groupFan where
  "no_fan = \<lparr> gf_sent = 0, gf_failed = 0, gf_skipped = 0, gf_queued = 0, gf_inboxes = [] \<rparr>"

definition group_targets :: "menv \<Rightarrow> ChatGroupMember list \<Rightarrow> string list" where
  "group_targets M members = map gm_accountId (filter (\<lambda>m. gm_state m = ''active'' \<and> gm_accountId m \<noteq> me_owner M) members)"

definition sendGroupFanOut :: "'s host \<Rightarrow> menv \<Rightarrow> string \<Rightarrow> string \<Rightarrow> string \<Rightarrow> ('s, groupFan) mhandler" where
  "sendGroupFanOut H M groupId body messageId =
     andThen (on_store (listMembers H (Str (me_owner M)) (Str groupId))) (\<lambda>members.
     andThen (collect (\<lambda>a. sendToMember H M a body messageId) (group_targets M members)) (\<lambda>results.
     andThen (each (\<lambda>(a, r). when_ok (\<not> isl r \<and> ev_peerLinkProtocol (me_base M)) (on_node (effect_out (ExpectAck a))))
         (zip (group_targets M members) results)) (\<lambda>_.
       ok (foldl count_result no_fan results))))"

record delivered =
  dl_eventId :: string
  dl_queued :: bool
  dl_inboxes :: "string list"
  dl_isGroup :: bool

definition delivery :: "string \<Rightarrow> bool \<Rightarrow> string list \<Rightarrow> bool \<Rightarrow> delivered" where
  "delivery e q is g = \<lparr> dl_eventId = e, dl_queued = q, dl_inboxes = is, dl_isGroup = g \<rparr>"

definition event_id :: "rat \<Rightarrow> string \<Rightarrow> string" where
  "event_id now eventTag = ''gw:'' @ rat_string now @ '':'' @ eventTag"

definition deliver_direct :: "'s host \<Rightarrow> menv \<Rightarrow> string \<Rightarrow> string \<Rightarrow> string \<Rightarrow> string \<Rightarrow> rat \<Rightarrow> ('s, delivered) mhandler" where
  "deliver_direct H M peer peerInboxId body eventTag now =
     andThen (fanOutToPeerDevices H M peer body eventTag) (\<lambda>fanned. case fanned of
        Some f \<Rightarrow> ok (if fa_sent f > 0 then delivery (event_id now eventTag) False [] False
          else if fa_queued f > 0 then delivery [] True (fa_inboxes f) False else delivery [] False [] False)
      | None \<Rightarrow> andThen (seal_and_dispatch M \<lparr> sq_peer = peer, sq_device = [], sq_inbox = peerInboxId, sq_body = body, sq_handshake = Null \<rparr>)
          (\<lambda>r. case r of
             Inr Routed \<Rightarrow> ok (delivery (event_id now eventTag) False [] False)
           | Inr (QueuedAt mailbox) \<Rightarrow> ok (delivery [] True [if trim mailbox \<noteq> [] then trim mailbox else peerInboxId] False)
           | Inl (Failure q code msg) \<Rightarrow> if q then ok (delivery [] True [peerInboxId] False) else throw (failure_error (Failure q code msg))))"

definition deliverToThread :: "'s host \<Rightarrow> menv \<Rightarrow> string \<Rightarrow> string \<Rightarrow> string \<Rightarrow> rat \<Rightarrow> ('s, delivered) mhandler" where
  "deliverToThread H M threadId body eventTag now =
     (if threadId = [] then ok (delivery [] False [] False)
      else andThen (on_store (reads (getThread H (me_owner M) (Str threadId)))) (\<lambda>thread.
        let groupId = (case thread of None \<Rightarrow> [] | Some t \<Rightarrow> trim (t_groupId t));
            peer = (case thread of None \<Rightarrow> [] | Some t \<Rightarrow> trim (t_peerAccountId t));
            peerInboxId = (case thread of None \<Rightarrow> [] | Some t \<Rightarrow> trim (t_peerInboxId t)) in
        if \<not> ev_sdk (me_base M) then throw (Error ''Cannot deliver to thread: sdk unavailable'')
        else if (case thread of None \<Rightarrow> False | Some t \<Rightarrow> t_threadType t = ''group'') \<and> groupId \<noteq> [] then
          andThen (sendGroupFanOut H M groupId body eventTag) (\<lambda>g.
            ok (if gf_sent g > 0 then delivery (event_id now eventTag) False [] True
                else if gf_queued g > 0 then delivery [] True (gf_inboxes g) True else delivery [] False [] True))
        else if peerInboxId = [] then throw (Error ''Cannot deliver to peer-link thread without resolved binding target'')
        else if peer = [] then throw (Error ''Cannot deliver to peer-link thread: peer account not resolved'')
        else deliver_direct H M peer peerInboxId body eventTag now))"

end
