(* ===== verification/MessageService.thy ===== *)
theory MessageService
  imports Delivery Mutations FactLog
begin

text \<open>
  The requests of the messages service (\<open>src/server/services/ServerMessagesService.js\<close>): listing, sending,
  editing, deleting and reacting, and the mutations received from peers; with the signing of what is sent.
\<close>

section \<open>Signing\<close>

definition originalSigner :: "menv \<Rightarrow> ('s, signer option) mhandler" where
  "originalSigner M = (case me_signer M of None \<Rightarrow> ok None
     | Some (Inr s) \<Rightarrow> ok (Some s)
     | Some (Inl reason) \<Rightarrow> andThen (app_error ''account-authority signer failed to resolve; send refused'' ''error'') (\<lambda>_.
         throw (CodedError ''SIGNING_EXPECTED_BUT_BROKEN'' (''account-authority signer failed to resolve; refusing to emit an unsigned fact: '' @ reason))))"

definition epoch_of :: "jsval option \<Rightarrow> rat" where
  "epoch_of state = (case state of None \<Rightarrow> 0
     | Some v \<Rightarrow> (case getp v ''epoch'' of Num (Fin r) \<Rightarrow> if is_integer (num r) \<and> r \<ge> 0 then r else 0 | _ \<Rightarrow> 0))"

definition authorityEpoch :: "'s host \<Rightarrow> menv \<Rightarrow> ('s, rat) mhandler" where
  "authorityEpoch H M n =
     (case mn_epoch n of
        Some (epoch, atMs) \<Rightarrow> if clockMs H - atMs < 60000 then ok epoch n
          else ok (epoch_of (me_authorityState M)) (n\<lparr>mn_epoch := Some (epoch_of (me_authorityState M), clockMs H)\<rparr>)
      | None \<Rightarrow> ok (epoch_of (me_authorityState M)) (n\<lparr>mn_epoch := Some (epoch_of (me_authorityState M), clockMs H)\<rparr>))"

text \<open>The signed record is built twice: the draft that is signed, and the same with the envelope.\<close>

definition signed_fields :: "signer \<Rightarrow> rat \<Rightarrow> fields" where
  "signed_fields s epoch = [(''signerPublicKeyB64'', Str (si_publicKeyB64 s)),
     (''senderDeviceId'', Str (string_or_empty (si_deviceId s))), (''senderAuthorityEpoch'', num epoch)]"

definition envelope_fields :: "signer \<Rightarrow> string \<Rightarrow> string \<Rightarrow> fields" where
  "envelope_fields s hash sig = [(''senderCertChain'', if is_array (si_certChain s) then si_certChain s else Arr []),
     (''contentHash'', Str hash), (''sig'', Str sig)]"

definition signOriginalPayload :: "'s host \<Rightarrow> menv \<Rightarrow> schema_class \<Rightarrow> fields \<Rightarrow> ('s, jsval option) mhandler" where
  "signOriginalPayload H M C semanticFields =
     andThen (originalSigner M) (\<lambda>signer. case signer of None \<Rightarrow> ok None
       | Some s \<Rightarrow>
         andThen (authorityEpoch H M) (\<lambda>epoch.
         andThen (lift_result (new_record C (Obj (spread semanticFields (signed_fields s epoch))))) (\<lambda>draft.
         andThen (lift_result (signableOriginalMessageBytes (me_signing M) draft)) (\<lambda>bytes.
         andThen (lift_result (messageFingerprint (me_signing M) draft)) (\<lambda>contentHash.
         andThen (lift_result (si_sign s bytes)) (\<lambda>sig.
         andThen (lift_result (new_record C (Obj (spread (own_props draft) (envelope_fields s contentHash sig))))) (\<lambda>final.
           ok (Some final))))))))"

definition recordLocalOriginalFact :: "'s host \<Rightarrow> menv \<Rightarrow> string \<Rightarrow> jsval \<Rightarrow> rat \<Rightarrow> ('s, unit) mhandler" where
  "recordLocalOriginalFact H M threadId wirePayload now =
     (let contentHash = trim (sget wirePayload ''contentHash'') in
      when_ok (threadId \<noteq> [] \<and> contentHash \<noteq> [])
        (andThen (reported (on_store (appendOriginalFact H (me_owner M) (Str threadId) (Obj [(''fingerprint'', Str contentHash),
            (''payload'', wirePayload), (''receivedAtMs'', num now), (''origin'', Str ''local'')])))
            ''local original-fact persist failed'' ''error'') (\<lambda>_. ok ())))"

text \<open>The fingerprint of the one base fact a mutation names; two are a conflict.\<close>

definition resolveTargetFingerprint :: "'s host \<Rightarrow> menv \<Rightarrow> string \<Rightarrow> string \<Rightarrow> jsval \<Rightarrow> ('s, string) mhandler" where
  "resolveTargetFingerprint H M threadId targetMessageId targetSenderAccountId =
     andThen (on_store (reads (findBaseFactsByMessageId H (me_owner M) (Str threadId) (Str targetMessageId) targetSenderAccountId))) (\<lambda>facts.
       case facts of [] \<Rightarrow> ok [] | [one] \<Rightarrow> ok (sget one ''fingerprint'')
       | _ \<Rightarrow> throw (CodedError ''MESSAGE_TARGET_CONFLICTED'' (''target message '' @ targetMessageId @ '' is integrity-conflicted; a mutation cannot name which fact it mutates'')))"

section \<open>Events\<close>

definition emitMessageUpdated :: "'s host \<Rightarrow> string \<Rightarrow> ChatMessage option \<Rightarrow> ('s, unit) mhandler" where
  "emitMessageUpdated H threadId message = (case message of None \<Rightarrow> ok ()
     | Some m \<Rightarrow> on_node (emit_record ''message.updated'' (new_record (MessageUpdatedEvent (clockMs H))) (Obj [(''threadId'', Str threadId), (''message'', message_json m)])))"

definition status_event :: "string \<Rightarrow> string \<Rightarrow> string \<Rightarrow> fields \<Rightarrow> ('s, unit) mhandler" where
  "status_event threadId messageId status stamps = on_node (emit_record ''message.status'' (new_record MessageStatusEvent)
     (Obj ([(''threadId'', Str threadId), (''messageId'', Str messageId), (''status'', Str status)] @ stamps)))"

section \<open>Listing and sending\<close>

definition image_caption :: "jsval \<Rightarrow> string" where
  "image_caption p = (if trim (sget p ''text'') \<noteq> [] then trim (sget p ''text'') else ''Photo'')"

definition extractPreviewText :: "jsval \<Rightarrow> string" where
  "extractPreviewText data =
     (if \<not> is_object data then []
      else if getp data ''kind'' = Str IMAGE_KIND then image_caption data
      else if trim (sget data ''text'') \<noteq> [] then trim (sget data ''text'')
      else let payload = getp data ''payload'' in
        if \<not> is_object payload then []
        else if getp payload ''kind'' = Str IMAGE_KIND then image_caption payload
        else trim (sget payload ''text''))"

definition json_of :: "jsval \<Rightarrow> string" where
  "json_of v = (case json_text v of None \<Rightarrow> [] | Some t \<Rightarrow> t)"

definition local_id :: "'s host \<Rightarrow> menv \<Rightarrow> ('s, string) mhandler" where
  "local_id H M n = ok (''local_'' @ rat_string (clockMs H) @ ''_'' @ take 8 (ev_uuid (me_base M) (nd_uuids (mn_node n))))
     (n\<lparr>mn_node := (mn_node n)\<lparr>nd_uuids := Suc (nd_uuids (mn_node n))\<rparr>\<rparr>)"

text \<open>What an earlier attempt under the same id left in memory.\<close>

definition forget_attempt :: "string \<Rightarrow> 's mnode \<Rightarrow> 's mnode" where
  "forget_attempt messageId n = unqueue (\<lambda>q. qm_messageId q = messageId)
     ((discardQueueTracking messageId n)\<lparr>mn_ackPending := AList.delete messageId (mn_ackPending (discardQueueTracking messageId n))\<rparr>)"

definition object_payload :: "jsval \<Rightarrow> bool" where
  "object_payload p \<longleftrightarrow> is_object p \<and> sget p ''kind'' \<noteq> [] \<and> sget p ''kind'' \<noteq> MESSAGE_KIND"

definition given_or :: "string \<Rightarrow> jsval \<Rightarrow> string \<Rightarrow> string" where
  "given_or outer p field = (if outer \<noteq> [] then outer else if is_object p then trim (sget p field) else [])"

text \<open>Other kinds pass through with the identifiers; a chat message is signed where there is a signer.\<close>

definition pass_through :: "menv \<Rightarrow> jsval \<Rightarrow> string \<Rightarrow> string \<Rightarrow> string \<Rightarrow> string \<Rightarrow> jsval" where
  "pass_through M p threadId messageId inReplyTo channelId =
     Obj (spread (own_props p) ([(''threadId'', Str threadId), (''senderAccountId'', Str (me_owner M)), (''messageId'', Str messageId)]
       @ (if inReplyTo \<noteq> [] then [(''inReplyToMessageId'', Str inReplyTo)] else [])
       @ (if channelId \<noteq> [] then [(''channelId'', Str channelId)] else [])))"

definition chat_fields :: "menv \<Rightarrow> jsval \<Rightarrow> string \<Rightarrow> string \<Rightarrow> string \<Rightarrow> string \<Rightarrow> fields" where
  "chat_fields M p threadId messageId inReplyTo channelId =
     [(''threadId'', Str threadId), (''senderAccountId'', Str (me_owner M)), (''messageId'', Str messageId),
      (''text'', if is_object p \<and> is_string (getp p ''text'') then getp p ''text'' else Str (if truthy p then js_string p else [])),
      (''inReplyToMessageId'', Str (given_or inReplyTo p ''inReplyToMessageId'')), (''channelId'', Str (given_or channelId p ''channelId''))]"

definition wire_payload :: "'s host \<Rightarrow> menv \<Rightarrow> jsval \<Rightarrow> string \<Rightarrow> string \<Rightarrow> string \<Rightarrow> string \<Rightarrow> ('s, jsval) mhandler" where
  "wire_payload H M p threadId messageId inReplyTo channelId =
     (if object_payload p then ok (pass_through M p threadId messageId inReplyTo channelId)
      else let fs = chat_fields M p threadId messageId inReplyTo channelId in
        andThen (signOriginalPayload H M ChatMessagePayloadV1 fs) (\<lambda>signed. case signed of
          Some w \<Rightarrow> ok w | None \<Rightarrow> lift_result (new_record ChatMessagePayloadV1 (Obj fs))))"

text \<open>The row, the fact and the index entry of a message that is being sent; a failure is reported only.\<close>

definition persist_outbound :: "'s host \<Rightarrow> menv \<Rightarrow> string \<Rightarrow> string \<Rightarrow> jsval \<Rightarrow> string \<Rightarrow> string \<Rightarrow> ('s, unit) mhandler" where
  "persist_outbound H M threadId messageId wirePayload packetB64 inReplyTo =
     (let me = Str (me_owner M); now = clockMs H; previewText = extractPreviewText wirePayload in
      andThen (reported (on_store (recordOutboundDeposit H (me_owner M) (Str threadId) me (Str messageId) me (Str packetB64) (num now)
          (Str previewText) wirePayload)) ''outbound deposit persist failed'' ''error'') (\<lambda>_.
      andThen (recordLocalOriginalFact H M threadId wirePayload now) (\<lambda>_.
      andThen (reported (on_store (upsertFromMessage H (me_owner M) (Str threadId) (Str messageId) (num now) (Str previewText) me))
          ''outbound index upsert failed'' ''warn'') (\<lambda>entry.
      andThen (case entry of None \<Rightarrow> ok () | Some e \<Rightarrow> on_node (emitThreadIndexUpdated (entry_json e))) (\<lambda>_.
        on_node (emit_record ''message.deposited'' (new_record (MessageDepositedEvent now)) (Obj [(''threadId'', Str threadId),
          (''message'', Obj [(''messageId'', Str messageId), (''threadId'', Str threadId), (''senderAccountId'', me),
             (''text'', Str previewText), (''payload'', wirePayload), (''status'', Str ''pending''), (''createdAtMs'', num now),
             (''acceptedAtMs'', num now), (''inReplyToMessageId'', Str inReplyTo)])])))))))"

section \<open>Pending commits\<close>

text \<open>The schedule of retries, in milliseconds, with a random share of a quarter added.\<close>

definition COMMIT_RETRY_SCHEDULE_MS :: "rat list" where
  "COMMIT_RETRY_SCHEDULE_MS = [5000, 15000, 45000, 120000, 300000, 900000]"

definition COMMIT_RETRY_SLOW_TAIL_MS :: rat where "COMMIT_RETRY_SLOW_TAIL_MS = 20 * 60000"
definition COMMIT_RETRY_JITTER_FRAC :: rat where "COMMIT_RETRY_JITTER_FRAC = 1 / 4"

definition retry_base :: "nat \<Rightarrow> rat" where
  "retry_base n = (if n < length COMMIT_RETRY_SCHEDULE_MS then COMMIT_RETRY_SCHEDULE_MS ! n else COMMIT_RETRY_SLOW_TAIL_MS)"

definition commitRetryDelayMs :: "rat \<Rightarrow> nat \<Rightarrow> rat" where
  "commitRetryDelayMs random attempts = retry_base attempts + of_int \<lfloor>retry_base attempts * COMMIT_RETRY_JITTER_FRAC * random\<rfloor>"

definition draw :: "menv \<Rightarrow> ('s, rat) mhandler" where
  "draw M n = (Inr (me_random M (mn_draws n)), n\<lparr>mn_draws := Suc (mn_draws n)\<rparr>)"

text \<open>The timer only asks for the next sweep; its time comes from the rows. A stamp that is no number is due.\<close>

definition due_stamp :: "jsval \<Rightarrow> rat \<Rightarrow> rat" where
  "due_stamp row d = (case getp row ''nextRetryAtMs'' of Num (Fin r) \<Rightarrow> r | _ \<Rightarrow> d)"

definition sweep_delay :: "rat \<Rightarrow> jsval list \<Rightarrow> rat option" where
  "sweep_delay now rows = (case rows of [] \<Rightarrow> None
     | r # rs \<Rightarrow> Some (max (foldl (\<lambda>m x. min m (due_stamp x now)) (due_stamp r now) rs - now) 1000))"

definition scheduleCommitSweep :: "'s host \<Rightarrow> menv \<Rightarrow> ('s, unit) mhandler" where
  "scheduleCommitSweep H M =
     andThen (on_store (reads (listPendingCommits H (me_owner M)))) (\<lambda>rows.
       case sweep_delay (clockMs H) rows of None \<Rightarrow> ok () | Some d \<Rightarrow> on_node (effect_out (SweepAfter d)))"

definition openPendingCommit :: "'s host \<Rightarrow> menv \<Rightarrow> string \<Rightarrow> string \<Rightarrow> string \<Rightarrow> ('s, unit) mhandler" where
  "openPendingCommit H M threadId messageId fingerprint =
     andThen (reported
       (andThen (on_store (reads (getThread H (me_owner M) (Str threadId)))) (\<lambda>thread.
          let recipient = (case thread of None \<Rightarrow> [] | Some t \<Rightarrow> if t_threadType t = ''group'' then [] else trim (t_peerAccountId t)) in
          when_ok (recipient \<noteq> [])
            (andThen (draw M) (\<lambda>random.
             andThen (on_store (putPendingCommit H (me_owner M) (Str messageId) (Str threadId) (Str fingerprint) (Str recipient)
               (num (clockMs H)) (num 0) (num (clockMs H + commitRetryDelayMs random 0)) Null)) (\<lambda>_.
               scheduleCommitSweep H M)))))
       ''pending-commit open failed'' ''error'') (\<lambda>_. ok ())"

section \<open>Sending\<close>

definition cursor_arg :: "'s host \<Rightarrow> jsval \<Rightarrow> cursor option" where
  "cursor_arg H before = (if \<not> truthy before then None
     else Some \<lparr> c_createdAtMs = asInt H (getp before ''createdAtMs'') 0, c_messageId = text_or_empty (getp before ''messageId'') \<rparr>)"

definition cursor_json :: "cursor option \<Rightarrow> jsval" where
  "cursor_json c = (case c of None \<Rightarrow> Null
     | Some c \<Rightarrow> Obj [(''createdAtMs'', num (c_createdAtMs c)), (''messageId'', Str (c_messageId c))])"

definition svc_listMessages :: "'s host \<Rightarrow> menv \<Rightarrow> jsval \<Rightarrow> ('s, jsval) mhandler" where
  "svc_listMessages H M payload =
     andThen (lift_result (new_record ThreadMessagesListParams payload)) (\<lambda>params.
     andThen (on_store (reads (listMessages H (me_owner M) (getp params ''threadId'') (getp params ''limit'') (cursor_arg H (getp params ''before''))))) (\<lambda>page.
       lift_result (new_record (ThreadMessagesListResult (clockMs H)) (Obj [(''items'', Arr (map message_json (p_items page))),
         (''nextBefore'', cursor_json (p_nextBefore page))]))))"

text \<open>
  After the delivery: the new status, what is remembered for the acknowledgement, and the pending commit of
  a signed direct message. Messages to groups are not remembered in \<open>#ackPending\<close>.
\<close>

definition next_status :: "delivered \<Rightarrow> string" where
  "next_status d = (if dl_eventId d \<noteq> [] then ''sent'' else if dl_queued d then ''queued'' else ''failed'')"

definition remember_send :: "'s host \<Rightarrow> string \<Rightarrow> string \<Rightarrow> delivered \<Rightarrow> 's mnode \<Rightarrow> 's mnode" where
  "remember_send H threadId messageId d n =
     (if dl_eventId d \<noteq> [] then (if dl_isGroup d then n else n\<lparr>mn_ackPending := AList.update messageId threadId (mn_ackPending n)\<rparr>)
      else if dl_queued d
      then trackQueuedMessage threadId messageId (dl_inboxes d)
        (n\<lparr>mn_queued := mn_queued n @ [\<lparr> qm_threadId = threadId, qm_messageId = messageId, qm_queuedAtMs = clockMs H \<rparr>]\<rparr>)
      else n)"

definition set_status :: "'s host \<Rightarrow> menv \<Rightarrow> string \<Rightarrow> string \<Rightarrow> string \<Rightarrow> jsval \<Rightarrow> jsval \<Rightarrow> ('s, ChatMessage option) mhandler" where
  "set_status H M threadId messageId status sentAtMs acceptedAtMs =
     on_store (setMessageStatus H (me_owner M) (Str threadId) (Str messageId) (Str status) sentAtMs acceptedAtMs)"

definition finish_send :: "'s host \<Rightarrow> menv \<Rightarrow> string \<Rightarrow> string \<Rightarrow> jsval \<Rightarrow> delivered \<Rightarrow> ('s, unit) mhandler" where
  "finish_send H M threadId messageId wirePayload d =
     (let status = next_status d; sentAt = (if dl_eventId d \<noteq> [] then num (clockMs H) else Null);
          fingerprint = trim (sget wirePayload ''contentHash'') in
      andThen (\<lambda>n. ok () (remember_send H threadId messageId d n)) (\<lambda>_.
      andThen (catching (set_status H M threadId messageId status sentAt Undef) None) (\<lambda>_.
      andThen (status_event threadId messageId status [(''sentAtMs'', sentAt)]) (\<lambda>_.
        when_ok (fingerprint \<noteq> [] \<and> \<not> dl_isGroup d \<and> (status = ''sent'' \<or> status = ''queued''))
          (openPendingCommit H M threadId messageId fingerprint)))))"

definition sendMessage :: "'s host \<Rightarrow> menv \<Rightarrow> jsval \<Rightarrow> ('s, jsval) mhandler" where
  "sendMessage H M payload =
     andThen (lift_result (new_record MessageSendParams payload)) (\<lambda>params.
       let threadId = sget params ''threadId''; inReplyTo = trim (sget params ''inReplyToMessageId''); channelId = trim (sget params ''channelId'') in
       andThen (if sget params ''messageId'' \<noteq> [] then ok (sget params ''messageId'') else local_id H M) (\<lambda>messageId.
       andThen (\<lambda>n. ok () (forget_attempt messageId n)) (\<lambda>_.
       andThen (wire_payload H M (getp params ''payload'') threadId messageId inReplyTo channelId) (\<lambda>wirePayload.
       andThen (when_ok (threadId \<noteq> []) (persist_outbound H M threadId messageId wirePayload (json_of wirePayload) inReplyTo)) (\<lambda>_.
       andThen (if prefix ''th_'' threadId then deliverToThread H M threadId (json_of wirePayload) messageId (clockMs H)
                else ok (delivery [] False [] False)) (\<lambda>d.
       andThen (when_ok (threadId \<noteq> []) (finish_send H M threadId messageId wirePayload d)) (\<lambda>_.
         lift_result (new_record MessageSendResult (Obj [(''threadId'', Str threadId), (''messageId'', Str messageId),
           (''acceptedAtMs'', num (clockMs H)), (''packetB64'', Str (json_of wirePayload))])))))))))"

section \<open>Changing a message\<close>

definition throwOnSenderRejection :: "string \<Rightarrow> mutResult \<Rightarrow> ('s, unit) op" where
  "throwOnSenderRejection oper result =
     (let reason = (case r_reason result of None \<Rightarrow> [] | Some r \<Rightarrow> r) in
      if r_applied result \<or> reason = ''no_change'' \<or> reason = ''stale'' \<or> reason = ''already_tombstoned'' then ok ()
      else if reason = ''target_not_found'' then throw (CodedError ''MESSAGE_NOT_FOUND'' (oper @ '': target message not found''))
      else if reason = ''tombstoned'' then throw (CodedError ''MESSAGE_TOMBSTONED'' (oper @ '': cannot edit a tombstoned message''))
      else if reason = ''unauthorized'' then throw (CodedError ''MESSAGE_NOT_AUTHOR'' (oper @ '': not the author''))
      else throw (CodedError ''MESSAGE_REJECTED'' (oper @ '': rejected ('' @ reason @ '')'')))"

definition deliverMutationPayload :: "'s host \<Rightarrow> menv \<Rightarrow> string \<Rightarrow> jsval \<Rightarrow> ('s, unit) mhandler" where
  "deliverMutationPayload H M threadId wirePayload =
     when_ok (threadId \<noteq> [] \<and> ev_sdk (me_base M))
       (catching (andThen (deliverToThread H M threadId (json_of wirePayload) (''mut-'' @ rat_string (clockMs H)) (clockMs H)) (\<lambda>_. ok ())) ())"

text \<open>
  The mutation is signed when its target has a fingerprint and there is a signer, stored as a fact of this
  device, and delivered.
\<close>

definition send_mutation :: "'s host \<Rightarrow> menv \<Rightarrow> schema_class \<Rightarrow> string \<Rightarrow> string \<Rightarrow> fields \<Rightarrow> ('s, unit) mhandler" where
  "send_mutation H M C threadId targetFingerprint semantic =
     andThen (if targetFingerprint = [] then ok None
        else signOriginalPayload H M C (semantic @ [(''targetFingerprint'', Str targetFingerprint)])) (\<lambda>signed.
     andThen (case signed of Some w \<Rightarrow> ok w | None \<Rightarrow> lift_result (new_record C (Obj semantic))) (\<lambda>wirePayload.
     andThen (recordLocalOriginalFact H M threadId wirePayload (clockMs H)) (\<lambda>_.
       deliverMutationPayload H M threadId wirePayload)))"

definition editMessage :: "'s host \<Rightarrow> menv \<Rightarrow> jsval \<Rightarrow> ('s, jsval) mhandler" where
  "editMessage H M payload =
     andThen (lift_result (new_record MessageEditParams payload)) (\<lambda>params.
       let threadId = sget params ''threadId''; target = sget params ''targetMessageId''; me = Str (me_owner M); now = num (clockMs H) in
       andThen (on_store (applyEdit H (me_owner M) (Str threadId) (Str target) me (getp params ''newText'') now now False)) (\<lambda>(applied, _).
       andThen (throwOnSenderRejection ''editMessage'' applied) (\<lambda>_.
       andThen (emitMessageUpdated H threadId (r_message applied)) (\<lambda>_.
       andThen (resolveTargetFingerprint H M threadId target me) (\<lambda>targetFingerprint.
       andThen (send_mutation H M ChatMessageEditPayloadV1 threadId targetFingerprint
         [(''threadId'', Str threadId), (''targetMessageId'', Str target), (''newText'', getp params ''newText''),
          (''senderAccountId'', me), (''editedAtMs'', now)]) (\<lambda>_.
         lift_result (new_record MessageEditResult (Obj [(''threadId'', Str threadId), (''targetMessageId'', Str target), (''editedAtMs'', now)]))))))))"

definition tombstoneMessage :: "'s host \<Rightarrow> menv \<Rightarrow> jsval \<Rightarrow> ('s, jsval) mhandler" where
  "tombstoneMessage H M payload =
     andThen (lift_result (new_record MessageTombstoneParams payload)) (\<lambda>params.
       let threadId = sget params ''threadId''; target = sget params ''targetMessageId''; me = Str (me_owner M); now = num (clockMs H) in
       andThen (on_store (applyTombstone H (me_owner M) (Str threadId) (Str target) me now now False)) (\<lambda>(applied, _).
       andThen (throwOnSenderRejection ''tombstoneMessage'' applied) (\<lambda>_.
       andThen (emitMessageUpdated H threadId (r_message applied)) (\<lambda>_.
       andThen (resolveTargetFingerprint H M threadId target me) (\<lambda>targetFingerprint.
       andThen (send_mutation H M ChatMessageTombstonePayloadV1 threadId targetFingerprint
         [(''threadId'', Str threadId), (''targetMessageId'', Str target), (''senderAccountId'', me), (''tombstonedAtMs'', now)]) (\<lambda>_.
         lift_result (new_record MessageTombstoneResult (Obj [(''threadId'', Str threadId), (''targetMessageId'', Str target),
           (''tombstonedAtMs'', now)]))))))))"

definition deleteLocalMessage :: "'s host \<Rightarrow> menv \<Rightarrow> jsval \<Rightarrow> ('s, jsval) mhandler" where
  "deleteLocalMessage H M payload =
     andThen (lift_result (new_record MessageDeleteLocalParams payload)) (\<lambda>params.
       let ids = [(''threadId'', getp params ''threadId''), (''messageId'', getp params ''targetMessageId'')] in
       andThen (on_store (applyLocalDelete H (me_owner M) (getp params ''threadId'') (getp params ''targetMessageId''))) (\<lambda>removed.
       andThen (when_ok removed (on_node (emit_record ''message.removed'' (new_record MessageRemovedEvent) (Obj ids)))) (\<lambda>_.
         lift_result (new_record MessageDeleteLocalResult (Obj [(''threadId'', getp params ''threadId''),
           (''targetMessageId'', getp params ''targetMessageId''), (''removed'', Bool removed)])))))"

definition sendReaction :: "'s host \<Rightarrow> menv \<Rightarrow> schema_class \<Rightarrow> schema_class \<Rightarrow> string \<Rightarrow> jsval \<Rightarrow> ('s, jsval) mhandler" where
  "sendReaction H M ParamClass ResultClass oper payload =
     andThen (lift_result (new_record ParamClass payload)) (\<lambda>params.
       let threadId = sget params ''threadId''; target = sget params ''targetMessageId''; emoji = getp params ''emoji'';
           me = Str (me_owner M); now = num (clockMs H) in
       andThen (on_store (applyReaction H (me_owner M) (Str threadId) (Str target) me emoji (Str oper) now False)) (\<lambda>(applied, _).
       andThen (emitMessageUpdated H threadId (r_message applied)) (\<lambda>_.
       andThen (resolveTargetFingerprint H M threadId target
         (case r_message applied of None \<Rightarrow> Null
          | Some m \<Rightarrow> if trim (m_senderAccountId m) = [] then Null else Str (trim (m_senderAccountId m)))) (\<lambda>targetFingerprint.
       andThen (send_mutation H M ChatReactionPayloadV1 threadId targetFingerprint
         [(''threadId'', Str threadId), (''targetMessageId'', Str target), (''emoji'', emoji), (''op'', Str oper),
          (''senderAccountId'', me), (''createdAtMs'', now)]) (\<lambda>_.
         lift_result (new_record ResultClass (Obj [(''threadId'', Str threadId), (''targetMessageId'', Str target),
           (''emoji'', emoji), (''createdAtMs'', now)])))))))"

definition addReaction :: "'s host \<Rightarrow> menv \<Rightarrow> jsval \<Rightarrow> ('s, jsval) mhandler" where
  "addReaction H M = sendReaction H M MessageReactionAddParams MessageReactionAddResult ''add''"

definition removeReaction :: "'s host \<Rightarrow> menv \<Rightarrow> jsval \<Rightarrow> ('s, jsval) mhandler" where
  "removeReaction H M = sendReaction H M MessageReactionRemoveParams MessageReactionRemoveResult ''remove''"

section \<open>Mutations of peers\<close>

text \<open>The sender and the thread of the envelope count; the record's own only where the context has none.\<close>

definition ctx_or :: "jsval \<Rightarrow> jsval \<Rightarrow> string \<Rightarrow> jsval" where
  "ctx_or ctx rcd field = (if trim (sget ctx field) \<noteq> [] then Str (trim (sget ctx field)) else getp rcd field)"

definition after_mutation :: "'s host \<Rightarrow> string \<Rightarrow> mutResult \<times> bool \<Rightarrow> ('s, bool) mhandler" where
  "after_mutation H threadId r = andThen (when_ok (r_applied (fst r)) (emitMessageUpdated H threadId (r_message (fst r)))) (\<lambda>_. ok True)"

definition handleIncomingEdit :: "'s host \<Rightarrow> menv \<Rightarrow> jsval \<Rightarrow> jsval \<Rightarrow> ('s, bool) mhandler" where
  "handleIncomingEdit H M rcd ctx =
     andThen (on_store (applyEdit H (me_owner M) (ctx_or ctx rcd ''threadId'') (getp rcd ''targetMessageId'') (ctx_or ctx rcd ''senderAccountId'')
       (getp rcd ''newText'') (getp rcd ''editedAtMs'') (num (clockMs H)) True)) (after_mutation H (string_or_empty (ctx_or ctx rcd ''threadId'')))"

definition handleIncomingTombstone :: "'s host \<Rightarrow> menv \<Rightarrow> jsval \<Rightarrow> jsval \<Rightarrow> ('s, bool) mhandler" where
  "handleIncomingTombstone H M rcd ctx =
     andThen (on_store (applyTombstone H (me_owner M) (ctx_or ctx rcd ''threadId'') (getp rcd ''targetMessageId'') (ctx_or ctx rcd ''senderAccountId'')
       (getp rcd ''tombstonedAtMs'') (num (clockMs H)) True)) (after_mutation H (string_or_empty (ctx_or ctx rcd ''threadId'')))"

definition handleIncomingReaction :: "'s host \<Rightarrow> menv \<Rightarrow> jsval \<Rightarrow> jsval \<Rightarrow> ('s, bool) mhandler" where
  "handleIncomingReaction H M rcd ctx =
     andThen (on_store (applyReaction H (me_owner M) (ctx_or ctx rcd ''threadId'') (getp rcd ''targetMessageId'') (ctx_or ctx rcd ''senderAccountId'')
       (getp rcd ''emoji'') (getp rcd ''op'') (num (clockMs H)) True)) (after_mutation H (string_or_empty (ctx_or ctx rcd ''threadId'')))"

end
