(* ===== verification/CommitAcks.thy ===== *)
theory CommitAcks
  imports MessageService
begin

text \<open>
  What happens to a message after it was sent (\<open>src/server/services/ServerMessagesService.js\<close>): delivery
  acknowledgements of the old kind, signed commit acknowledgements, retries of pending commits, the states
  of the node's outbound queue, and the recovery at the start.
\<close>

section \<open>Delivered\<close>

text \<open>
  The status event has no field for the time of acceptance, which its class drops. \<open>same\<close> chooses the
  queued entries that are removed.
\<close>

definition forget_sent :: "string \<Rightarrow> (queuedMessage \<Rightarrow> bool) \<Rightarrow> 's mnode \<Rightarrow> 's mnode" where
  "forget_sent messageId same n = discardQueueTracking messageId
     ((unqueue same n)\<lparr>mn_ackPending := AList.delete messageId (mn_ackPending n)\<rparr>)"

definition mark_delivered :: "'s host \<Rightarrow> menv \<Rightarrow> string \<Rightarrow> string \<Rightarrow> string \<Rightarrow> ('s, unit) mhandler" where
  "mark_delivered H M threadId messageId failure_text =
     andThen (reported (set_status H M threadId messageId ''delivered'' Undef (num (clockMs H))) failure_text ''error'') (\<lambda>_.
     andThen (\<lambda>n. ok () (forget_sent messageId (\<lambda>q. qm_threadId q = threadId \<and> qm_messageId q = messageId) n)) (\<lambda>_.
       status_event threadId messageId ''delivered'' [(''acceptedAtMs'', num (clockMs H))]))"

text \<open>The thread of an acknowledged message: the one named, that of its queued entry, or the remembered one.\<close>

definition ack_thread :: "string \<Rightarrow> string \<Rightarrow> 's mnode \<Rightarrow> string" where
  "ack_thread threadId messageId n =
     (if threadId \<noteq> [] then threadId
      else case find (\<lambda>q. qm_messageId q = messageId) (mn_queued n) of
          Some q \<Rightarrow> if qm_threadId q \<noteq> [] then qm_threadId q
            else (case map_of (mn_ackPending n) messageId of None \<Rightarrow> [] | Some t \<Rightarrow> t)
        | None \<Rightarrow> (case map_of (mn_ackPending n) messageId of None \<Rightarrow> [] | Some t \<Rightarrow> t))"

definition ack_one :: "'s host \<Rightarrow> menv \<Rightarrow> string \<Rightarrow> string \<Rightarrow> ('s, unit) mhandler" where
  "ack_one H M threadId messageId n =
     (let tid = ack_thread threadId messageId n in
      when_ok (messageId \<noteq> [] \<and> tid \<noteq> [])
        (andThen (on_store (reads (getPendingCommit H (me_owner M) (Str messageId)))) (\<lambda>pending.
           when_ok (pending = None) (mark_delivered H M tid messageId ''delivery ack status persist failed''))) n)"

definition handleDeliveryAck :: "'s host \<Rightarrow> menv \<Rightarrow> jsval \<Rightarrow> jsval \<Rightarrow> ('s, unit) mhandler" where
  "handleDeliveryAck H M threadId messageIds =
     each (\<lambda>item. ack_one H M (trim (string_or_empty threadId)) (trim (string_or_empty item))) (if is_array messageIds then elements messageIds else [])"

section \<open>Commit acknowledgements\<close>

definition commit_claim :: "menv \<Rightarrow> signer \<Rightarrow> rat \<Rightarrow> jsval \<Rightarrow> fields" where
  "commit_claim M s epoch p = [(''messageId'', getp p ''messageId''), (''messageFingerprint'', getp p ''messageFingerprint''),
     (''threadId'', getp p ''threadId''), (''recipientAccountId'', Str (me_owner M)),
     (''recipientDeviceId'', Str (string_or_empty (si_deviceId s))), (''recipientAuthorityEpoch'', num epoch),
     (''signerPublicKeyB64'', Str (si_publicKeyB64 s)), (''committedAtMs'', getp p ''committedAtMs'')]"

definition commit_envelope :: "signer \<Rightarrow> string \<Rightarrow> fields" where
  "commit_envelope s sig = [(''recipientCertChain'', if is_array (si_certChain s) then si_certChain s else Arr []), (''sig'', Str sig)]"

definition buildCommitAck :: "'s host \<Rightarrow> menv \<Rightarrow> jsval \<Rightarrow> ('s, jsval option) mhandler" where
  "buildCommitAck H M p =
     andThen (originalSigner M) (\<lambda>signer. case signer of None \<Rightarrow> ok None
       | Some s \<Rightarrow>
         andThen (authorityEpoch H M) (\<lambda>epoch.
         andThen (lift_result (si_sign s (sg_canonical (me_signing M) (commit_ack_signable (Obj (commit_claim M s epoch p)))))) (\<lambda>sig.
         andThen (lift_result (new_record MessageCommitAckV1 (Obj (commit_claim M s epoch p @ commit_envelope s sig)))) (\<lambda>r.
           ok (Some r)))))"

text \<open>
  A claim is compared with the open pending commit of its message, or, where there is none, with the fact
  of this device that it names.
\<close>

definition names_pending :: "jsval \<Rightarrow> string \<Rightarrow> jsval \<Rightarrow> bool" where
  "names_pending rcd sender pending \<longleftrightarrow> getp rcd ''messageFingerprint'' = getp pending ''fingerprint''
     \<and> getp rcd ''threadId'' = getp pending ''threadId'' \<and> getp pending ''recipientAccountId'' = Str sender"

definition names_fact :: "menv \<Rightarrow> jsval \<Rightarrow> jsval option \<Rightarrow> bool" where
  "names_fact M rcd own = (case own of None \<Rightarrow> False
     | Some f \<Rightarrow> sget f ''senderAccountId'' = me_owner M \<and> Str (sget f ''messageId'') = getp rcd ''messageId'')"

definition claim_known :: "'s host \<Rightarrow> menv \<Rightarrow> jsval \<Rightarrow> string \<Rightarrow> jsval option \<Rightarrow> ('s, bool) mhandler" where
  "claim_known H M rcd sender pending = (case pending of Some row \<Rightarrow> ok (names_pending rcd sender row)
     | None \<Rightarrow> andThen (on_store (reads (getOriginalFact H (me_owner M) (getp rcd ''threadId'') (getp rcd ''messageFingerprint''))))
         (\<lambda>f. ok (names_fact M rcd f)))"

text \<open>Acceptance: with a certificate chain it needs the revocations of the sender, and waits where they are not known.\<close>

definition ack_verdict :: "'s host \<Rightarrow> menv \<Rightarrow> jsval \<Rightarrow> string \<Rightarrow> string + string" where
  "ack_verdict H M rcd sender =
     (if \<not> me_cryptoProvider M then Inl ''no cryptoProvider''
      else case chain_arg (getp rcd ''recipientCertChain'') of
        None \<Rightarrow> verifyCommitAckForAcceptance (me_signing M) rcd (num (clockMs H)) Null
      | Some _ \<Rightarrow> (case me_revocations M of None \<Rightarrow> Inl ''peer revocation source unavailable''
          | Some source \<Rightarrow> (case source sender of Inl reason \<Rightarrow> Inl (''peer revocation fetch failed: '' @ reason)
              | Inr state \<Rightarrow> verifyCommitAckForAcceptance (me_signing M) rcd (num (clockMs H)) state)))"

definition drop_pending :: "'s host \<Rightarrow> menv \<Rightarrow> jsval \<Rightarrow> ('s, bool) mhandler" where
  "drop_pending H M messageId = on_store (\<lambda>s. case deletePendingCommit H (me_owner M) messageId s of (b, s') \<Rightarrow> (Inr b, s'))"

definition accept_ack :: "'s host \<Rightarrow> menv \<Rightarrow> jsval \<Rightarrow> jsval option \<Rightarrow> ('s, unit) mhandler" where
  "accept_ack H M rcd pending =
     (let threadId = (case pending of Some row \<Rightarrow> getp row ''threadId'' | None \<Rightarrow> getp rcd ''threadId'') in
      andThen (when_ok (pending \<noteq> None) (andThen (drop_pending H M (getp rcd ''messageId'')) (\<lambda>_. scheduleCommitSweep H M))) (\<lambda>_.
      andThen (on_store (reads (getThread H (me_owner M) threadId))) (\<lambda>thread.
        when_ok (case thread of None \<Rightarrow> False | Some t \<Rightarrow> t_threadType t \<noteq> ''group'')
          (mark_delivered H M (string_or_empty threadId) (sget rcd ''messageId'') ''commit-ack status persist failed''))))"

definition handleCommitAck :: "'s host \<Rightarrow> menv \<Rightarrow> jsval \<Rightarrow> jsval \<Rightarrow> ('s, bool) mhandler" where
  "handleCommitAck H M rcd ctx =
     (let sender = trim (sget ctx ''senderAccountId'') in
      andThen (when_ok (sender \<noteq> [] \<and> ev_peerLinkProtocol (me_base M)) (on_node (effect_out (AckEvidence sender)))) (\<lambda>_.
      if sender = [] \<or> getp rcd ''recipientAccountId'' \<noteq> Str sender then ok True
      else andThen (on_store (reads (getPendingCommit H (me_owner M) (getp rcd ''messageId'')))) (\<lambda>pending.
        andThen (claim_known H M rcd sender pending) (\<lambda>known.
        andThen (when_ok (known \<and> \<not> isl (ack_verdict H M rcd sender)) (accept_ack H M rcd pending)) (\<lambda>_. ok True)))))"

section \<open>Retries\<close>

text \<open>One retry: the next time is written before the message is handed over again, as it was stored.\<close>

definition attempts_of :: "jsval \<Rightarrow> nat" where
  "attempts_of row = (case getp row ''attempts'' of Num (Fin r) \<Rightarrow> if is_integer (num r) \<and> r \<ge> 0 then nat \<lfloor>r\<rfloor> else 0 | _ \<Rightarrow> 0)"

definition redeliver :: "'s host \<Rightarrow> menv \<Rightarrow> jsval \<Rightarrow> jsval \<Rightarrow> ('s, unit) mhandler" where
  "redeliver H M row payload =
     andThen (when_ok (me_deviceSets M) (on_node (effect_out (InvalidateDevices (string_or_empty (getp row ''recipientAccountId'')))))) (\<lambda>_.
       catching (andThen (deliverToThread H M (string_or_empty (getp row ''threadId'')) (json_of payload)
         (string_or_empty (getp row ''messageId'')) (clockMs H)) (\<lambda>_. ok ())) ())"

definition retryPendingCommit :: "'s host \<Rightarrow> menv \<Rightarrow> jsval \<Rightarrow> ('s, unit) mhandler" where
  "retryPendingCommit H M row =
     andThen (on_store (reads (getOriginalFact H (me_owner M) (getp row ''threadId'') (getp row ''fingerprint'')))) (\<lambda>stored.
       let payload = (case stored of None \<Rightarrow> Undef | Some f \<Rightarrow> getp f ''payload'') in
       if \<not> is_object payload \<and> \<not> is_array payload then andThen (drop_pending H M (getp row ''messageId'')) (\<lambda>_. ok ())
       else andThen (draw M) (\<lambda>random.
         andThen (on_store (putPendingCommit H (me_owner M) (getp row ''messageId'') (getp row ''threadId'') (getp row ''fingerprint'')
           (getp row ''recipientAccountId'') (getp row ''firstSentAtMs'') (num (of_nat (Suc (attempts_of row))))
           (num (clockMs H + commitRetryDelayMs random (Suc (attempts_of row)))) (num (clockMs H)))) (\<lambda>_.
           redeliver H M row payload)))"

definition is_due :: "'s host \<Rightarrow> bool \<Rightarrow> jsval \<Rightarrow> bool" where
  "is_due H force row \<longleftrightarrow> force \<or> (case getp row ''nextRetryAtMs'' of Num (Fin r) \<Rightarrow> r | _ \<Rightarrow> 0) \<le> clockMs H"

definition sweepPendingCommits :: "'s host \<Rightarrow> menv \<Rightarrow> bool \<Rightarrow> ('s, jsval) mhandler" where
  "sweepPendingCommits H M force =
     andThen (on_store (reads (listPendingCommits H (me_owner M)))) (\<lambda>rows.
     andThen (collect (\<lambda>row. settled (retryPendingCommit H M row)) (filter (is_due H force) rows)) (\<lambda>results.
     andThen (scheduleCommitSweep H M) (\<lambda>_.
       ok (Obj [(''swept'', num (of_nat (length (filter (\<lambda>r. \<not> isl r) results)))), (''pending'', num (of_nat (length rows)))]))))"

section \<open>The outbound queue of the node\<close>

text \<open>One message at an inbox whose deposits were delivered or have expired.\<close>

definition outbound_step :: "'s host \<Rightarrow> menv \<Rightarrow> string \<Rightarrow> string \<Rightarrow> tracking \<Rightarrow> bool \<Rightarrow> ('s, unit) mhandler" where
  "outbound_step H M messageId status t was_delivered =
     (let gone = (\<lambda>n. ok () (unqueue (\<lambda>q. qm_messageId q = messageId) n)) in
      if status = ''delivered'' \<and> \<not> was_delivered then
        andThen (reported (set_status H M (tr_threadId t) messageId ''sent'' (num (clockMs H)) Undef) ''outbound status sent persist failed'' ''error'') (\<lambda>_.
        andThen (\<lambda>n. ok () (n\<lparr>mn_ackPending := AList.update messageId (tr_threadId t) (mn_ackPending n)\<rparr>)) (\<lambda>_.
        andThen gone (\<lambda>_. status_event (tr_threadId t) messageId ''sent'' [(''sentAtMs'', num (clockMs H))])))
      else if status = ''expired'' \<and> \<not> was_delivered \<and> tr_outstanding t = [] then
        andThen (reported (set_status H M (tr_threadId t) messageId ''failed'' Undef Undef) ''outbound status failed persist failed'' ''error'') (\<lambda>_.
        andThen gone (\<lambda>_. status_event (tr_threadId t) messageId ''failed'' []))
      else ok ())"

definition applyOutboundStatusToMessage :: "'s host \<Rightarrow> menv \<Rightarrow> string \<Rightarrow> string \<Rightarrow> string \<Rightarrow> ('s, unit) mhandler" where
  "applyOutboundStatusToMessage H M inbox status messageId n =
     (let n1 = n\<lparr>mn_byInbox := drop_waiting messageId inbox (mn_byInbox n)\<rparr> in
      case map_of (mn_tracking n) messageId of None \<Rightarrow> (Inr (), n1)
      | Some t \<Rightarrow>
        let t1 = t\<lparr>tr_outstanding := removeAll inbox (tr_outstanding t), tr_anyDelivered := tr_anyDelivered t \<or> status = ''delivered''\<rparr> in
        andThen (outbound_step H M messageId status t1 (tr_anyDelivered t))
          (\<lambda>_ n. (Inr (), if tr_outstanding t1 = [] then n\<lparr>mn_tracking := AList.delete messageId (mn_tracking n)\<rparr> else n))
          (n1\<lparr>mn_tracking := AList.update messageId t1 (mn_tracking n1)\<rparr>))"

definition handleOutboundStatus :: "'s host \<Rightarrow> menv \<Rightarrow> jsval \<Rightarrow> ('s, unit) mhandler" where
  "handleOutboundStatus H M body n =
     (let inbox = trim (sget body ''deliverInboxId''); status = trim (sget body ''status'') in
      when_ok (inbox \<noteq> [] \<and> (status = ''delivered'' \<or> status = ''expired''))
        (each (applyOutboundStatusToMessage H M inbox status) (waiting (mn_byInbox n) inbox)) n)"

section \<open>The start\<close>

definition QUEUE_TTL_MS :: rat where "QUEUE_TTL_MS = 72 * 60 * 60 * 1000"

definition queued_at :: "'s host \<Rightarrow> ChatMessage \<Rightarrow> rat" where
  "queued_at H m = (if m_createdAtMs m = 0 then clockMs H else m_createdAtMs m)"

text \<open>A queued row that is too old has failed; any other is queued again, and tracked if its thread is direct.\<close>

definition recover_row :: "'s host \<Rightarrow> menv \<Rightarrow> string \<Rightarrow> ChatMessage \<Rightarrow> ('s, unit) mhandler" where
  "recover_row H M threadId m =
     when_ok (m_status m = ''queued'')
      (if clockMs H - m_createdAtMs m > QUEUE_TTL_MS then
         andThen (reported (set_status H M threadId (m_messageId m) ''failed'' Undef Undef) ''recovery status persist failed'' ''warn'') (\<lambda>_.
           status_event threadId (m_messageId m) ''failed'' [])
       else andThen (\<lambda>n. ok () (n\<lparr>mn_queued := mn_queued n @ [\<lparr> qm_threadId = threadId, qm_messageId = m_messageId m, qm_queuedAtMs = queued_at H m \<rparr>]\<rparr>)) (\<lambda>_.
         andThen (on_store (reads (getThread H (me_owner M) (Str threadId)))) (\<lambda>thread n.
           ok () (case thread of None \<Rightarrow> n
             | Some t \<Rightarrow> if t_threadType t = ''direct'' \<and> trim (t_peerInboxId t) \<noteq> []
                 then trackQueuedMessage threadId (m_messageId m) [trim (t_peerInboxId t)] n else n))))"

definition recoverQueuedMessages :: "'s host \<Rightarrow> menv \<Rightarrow> ('s, unit) mhandler" where
  "recoverQueuedMessages H M =
     andThen (on_store (reads (listThreadIds H (me_owner M)))) (each (\<lambda>threadId.
       andThen (on_store (reads (listMessages H (me_owner M) (Str threadId) (num 500) None))) (\<lambda>page.
         each (recover_row H M threadId) (p_items page))))"

definition svc_start :: "'s host \<Rightarrow> menv \<Rightarrow> ('s, unit) mhandler" where
  "svc_start H M =
     andThen (catching (recoverQueuedMessages H M) ()) (\<lambda>_.
     andThen (on_store (\<lambda>s. case fanoutPrune H (me_fanoutTtl M) s of (_, s') \<Rightarrow> (Inr (), s'))) (\<lambda>_.
     andThen (sweepPendingCommits H M False) (\<lambda>_. ok ())))"

definition svc_stop :: "'s mnode \<Rightarrow> 's mnode" where
  "svc_stop n = n\<lparr>mn_queued := [], mn_byInbox := [], mn_tracking := [], mn_ackPending := []\<rparr>"

section \<open>The service\<close>

text \<open>
  What reaches the service: the requests it registers, the payloads of peers (already constructed records),
  legacy acknowledgements, states of the node's queue, a restart. Each is one handler that runs to its end.
\<close>

datatype request =
  ListMessages jsval | SendMessage jsval | EditMessage jsval | TombstoneMessage jsval | DeleteLocal jsval
| AddReaction jsval | RemoveReaction jsval | SweepCommits bool
| IncomingEdit jsval jsval | IncomingTombstone jsval jsval | IncomingReaction jsval jsval
| IncomingCommitAck jsval jsval | DeliveryAck jsval jsval | OutboundStatus jsval | Restart

definition serve :: "'s host \<Rightarrow> menv \<Rightarrow> request \<Rightarrow> 's mnode \<Rightarrow> 's mnode" where
  "serve H M r n = (case r of
       ListMessages p \<Rightarrow> snd (svc_listMessages H M p n)
     | SendMessage p \<Rightarrow> snd (sendMessage H M p n)
     | EditMessage p \<Rightarrow> snd (editMessage H M p n)
     | TombstoneMessage p \<Rightarrow> snd (tombstoneMessage H M p n)
     | DeleteLocal p \<Rightarrow> snd (deleteLocalMessage H M p n)
     | AddReaction p \<Rightarrow> snd (addReaction H M p n)
     | RemoveReaction p \<Rightarrow> snd (removeReaction H M p n)
     | SweepCommits force \<Rightarrow> snd (sweepPendingCommits H M force n)
     | IncomingEdit r c \<Rightarrow> snd (handleIncomingEdit H M r c n)
     | IncomingTombstone r c \<Rightarrow> snd (handleIncomingTombstone H M r c n)
     | IncomingReaction r c \<Rightarrow> snd (handleIncomingReaction H M r c n)
     | IncomingCommitAck r c \<Rightarrow> snd (handleCommitAck H M r c n)
     | DeliveryAck t ms \<Rightarrow> snd (handleDeliveryAck H M t ms n)
     | OutboundStatus b \<Rightarrow> snd (handleOutboundStatus H M b n)
     | Restart \<Rightarrow> snd (svc_start H M (svc_stop n)))"

end
