(* ===== verification/DeliveryLaws.thy ===== *)
theory DeliveryLaws
  imports CommitAcks HandlerLaws
begin

text \<open>
  The rules of \<open>HandlerLaws\<close> for the handlers of the messages service. \<open>message_law\<close> is a relation on the states of
  the service that allows effects, counters and the cached epoch; \<open>delivery_law\<close> one that also allows the
  operations of the fan-out cache, and so a whole delivery.
\<close>

lemma idle_on_store: "idle m \<Longrightarrow> idle (on_store m)"
  by (auto simp: every_def on_store_def on_node_def on_kv_def split: prod.split)
    (metis mnode.surjective mnode.update_convs(1) node.surjective node.update_convs(1) snd_conv)+

lemma on_node_andThen: "on_node (andThen m f) = andThen (on_node m) (\<lambda>x. on_node (f x))"
  by (rule ext) (simp add: on_node_def andThen_def split: prod.split sum.split)

lemma on_node_idle: "idle m \<Longrightarrow> idle (on_node m)"
  by (auto simp: every_def on_node_def split: prod.split) (metis mnode.surjective mnode.update_convs(1) snd_conv)

lemma dispatch_andThen:
  "dispatch M x = andThen (on_node (effect_out (Dispatch (sl_payloadBytes x) (sl_address x))))
     (\<lambda>_ n. (Inr (me_mesh M (mn_calls n) x), n\<lparr>mn_calls := Suc (mn_calls n)\<rparr>))"
  by (rule ext) (simp add: dispatch_def)

lemma on_node_when_ok: "on_node (when_ok b m) = when_ok b (on_node m)"
  by (rule ext) (simp add: when_ok_def on_node_def ok_def)

lemma kv_on_node: "nd_kv (mn_node (snd (on_node m n))) = nd_kv (snd (m (mn_node n)))"
  by (simp add: on_node_def split: prod.split)

lemma kv_on_store: "nd_kv (mn_node (snd (on_store m n))) = snd (m (nd_kv (mn_node n)))"
  by (simp add: on_store_def kv_on_node on_kv_def split: prod.split)

lemma on_store_reads: "on_store (reads f) n = (Inr (f (nd_kv (mn_node n))), n)"
  by (simp add: on_store_def on_node_def on_kv_def reads_def)

section \<open>Effects and counters\<close>

locale message_law = step_law R for R :: "'s mnode \<Rightarrow> 's mnode \<Rightarrow> bool" +
  assumes R_out: "R n (n\<lparr>mn_node := (mn_node n)\<lparr>nd_out := nd_out (mn_node n) @ [e]\<rparr>\<rparr>)"
    and R_uuids: "R n (n\<lparr>mn_node := (mn_node n)\<lparr>nd_uuids := k\<rparr>\<rparr>)"
    and R_calls: "R n (n\<lparr>mn_calls := k\<rparr>)" and R_draws: "R n (n\<lparr>mn_draws := k\<rparr>)" and R_epoch: "R n (n\<lparr>mn_epoch := ep\<rparr>)"
begin

lemma every_store_read: "every R (on_store (reads f))"
  by (rule every_idle) (rule idle_on_store, simp)

lemma every_effect: "every R (on_node (effect_out e))"
  by (simp add: every_def on_node_def effect_out_def R_out)

lemma every_emit: "every R (on_node (emit_record name mk raw))"
  by (simp add: emit_record_def on_node_andThen every_andThen every_idle on_node_idle every_effect)

lemma every_settled: "every R m \<Longrightarrow> every R (settled m)"
  by (simp add: every_def settled_def split: prod.split) (metis snd_conv)

lemma every_collect: "(\<And>x. every R (f x)) \<Longrightarrow> every R (collect f xs)"
  by (induction xs) (simp_all add: every_rules)

lemma every_app_error: "every R (app_error msg sev)"
  by (simp add: app_error_def every_effect)

lemma every_reported: "every R m \<Longrightarrow> every R (reported m msg sev)"
  unfolding every_def reported_def
proof (intro allI)
  fix n assume m: "\<forall>n. R n (snd (m n))"
  have "R n' (snd (andThen (app_error msg sev) (\<lambda>_. ok None) n'))" for n'
    using every_andThen [OF every_app_error every_done(1)] by (rule everyD)
  then show "R n (snd (case m n of (Inl _, n') \<Rightarrow> andThen (app_error msg sev) (\<lambda>_. ok None) n' | (Inr x, n') \<Rightarrow> (Inr (Some x), n')))"
    using m [THEN spec, of n] by (auto split: prod.split sum.split intro: R_trans)
qed

lemma every_seal: "every R (seal M q)"
  by (simp add: every_def seal_def R_calls)

lemma every_draw: "every R (draw M)"
  by (simp add: every_def draw_def R_draws)

lemma every_call: "every R (\<lambda>n. (Inr (f n), n\<lparr>mn_calls := g n\<rparr>))"
  by (simp add: every_def R_calls)

lemma every_dispatch: "every R (dispatch M x)"
  unfolding dispatch_andThen by (intro every_andThen every_effect every_call)

lemma every_sum: "(\<And>e. every R (g e)) \<Longrightarrow> (\<And>x. every R (h x)) \<Longrightarrow> every R (case r of Inl e \<Rightarrow> g e | Inr x \<Rightarrow> h x)"
  by (simp split: sum.split)

lemma every_list: "every R m \<Longrightarrow> (\<And>x xs. every R (h x xs)) \<Longrightarrow> every R (case l of [] \<Rightarrow> m | x # xs \<Rightarrow> h x xs)"
  by (simp split: list.split)

lemma every_failure: "(\<And>q c t. every R (h q c t)) \<Longrightarrow> every R (case f of Failure q c t \<Rightarrow> h q c t)"
  by (simp split: failure.split)

lemma every_routed: "every R m \<Longrightarrow> (\<And>x. every R (h x)) \<Longrightarrow> every R (case r of Routed \<Rightarrow> m | QueuedAt x \<Rightarrow> h x)"
  by (simp split: routed.split)

lemma every_Let: "(\<And>x. every R (f x)) \<Longrightarrow> every R (let x = a in f x)"
  by simp

lemmas step_rules = every_rules every_store_read every_effect every_emit every_settled every_collect every_app_error every_reported
  every_seal every_draw every_dispatch every_sum every_list every_failure every_routed every_Let

lemma members_read: "every R (on_store (listMembers H a b))"
  by (intro every_idle idle_on_store) (auto intro: store_reads)

lemma sealing_steps: "every R (seal_and_dispatch M q)"
  unfolding seal_and_dispatch_def by (intro step_rules)

lemma epoch_steps: "every R (authorityEpoch H M)"
  by (simp add: every_def authorityEpoch_def ok_def R_epoch R_refl split: option.split)

lemma local_id_steps: "every R (local_id H M)"
  by (simp add: every_def local_id_def ok_def R_uuids)

lemma signer_steps: "every R (originalSigner M)"
  unfolding originalSigner_def by (intro step_rules)

lemma sign_steps: "every R (signOriginalPayload H M C fs)"
  unfolding signOriginalPayload_def by (intro step_rules signer_steps epoch_steps)

lemma target_steps: "every R (resolveTargetFingerprint H M t m a)"
  unfolding resolveTargetFingerprint_def by (intro step_rules)

lemma updated_steps: "every R (emitMessageUpdated H t m)"
  unfolding emitMessageUpdated_def by (intro step_rules)

lemma status_steps: "every R (status_event t m st ts)"
  unfolding status_event_def by (rule every_emit)

lemma sweep_timer_steps: "every R (scheduleCommitSweep H M)"
  unfolding scheduleCommitSweep_def by (intro step_rules)

lemma on_node_lift: "every R (on_node (lift_result r))"
  by (intro every_idle on_node_idle) simp

lemma index_event_steps: "every R (on_node (emitThreadIndexUpdated row))"
  unfolding emitThreadIndexUpdated_def on_node_when_ok on_node_andThen by (intro step_rules on_node_lift)

lemma rejection_steps: "every R (throwOnSenderRejection x r)"
  unfolding throwOnSenderRejection_def by (intro step_rules)

lemmas message_rules = step_rules members_read sealing_steps epoch_steps local_id_steps signer_steps sign_steps target_steps updated_steps
  status_steps sweep_timer_steps index_event_steps rejection_steps

end

section \<open>Delivery\<close>

locale delivery_law = message_law R for R :: "'s mnode \<Rightarrow> 's mnode \<Rightarrow> bool" +
  fixes H :: "'s host" and M :: menv
  assumes R_get: "every R (on_store (fanoutGet H (\<lambda>b. b) (me_fanoutTtl M) c))"
    and R_put: "every R (on_store (fanoutPut H (\<lambda>b. b) c x))"
    and R_mark: "every R (on_store (markDelivered H c))"
begin

lemmas every_cache = R_get R_put R_mark

lemma device_steps: "every R (send_device H M p b m r d)"
  unfolding send_device_def by (intro message_rules every_cache)

lemma fan_steps: "every R (fanOutToPeerDevices H M p b m)"
  unfolding fanOutToPeerDevices_def by (intro message_rules every_cache device_steps)

lemma member_steps: "every R (sendToMember H M p b m)"
  unfolding sendToMember_def by (intro message_rules fan_steps sealing_steps)

lemma group_steps: "every R (sendGroupFanOut H M g b m)"
  unfolding sendGroupFanOut_def by (intro message_rules members_read member_steps)

lemma direct_steps: "every R (deliver_direct H M p i b e now)"
  unfolding deliver_direct_def by (intro message_rules fan_steps sealing_steps)

lemma deliver_steps: "every R (deliverToThread H M t b e now)"
  unfolding deliverToThread_def by (intro message_rules group_steps direct_steps)

lemmas delivery_rules = message_rules every_cache deliver_steps

end

section \<open>Relations on the stores\<close>

definition on_messages :: "('s \<Rightarrow> 's \<Rightarrow> bool) \<Rightarrow> 's mnode \<Rightarrow> 's mnode \<Rightarrow> bool" where
  "on_messages Q n n' \<longleftrightarrow> Q (nd_kv (mn_node n)) (nd_kv (mn_node n'))"

sublocale store_law \<subseteq> messages: message_law "on_messages Q"
  by unfold_locales (auto simp: on_messages_def intro: Q_refl Q_trans)

context store_law
begin

lemma every_on_store: "every Q m \<Longrightarrow> every (on_messages Q) (on_store m)"
  by (simp add: every_def on_messages_def on_store_def on_node_def on_kv_def split: prod.split) (metis snd_conv)

lemma every_in_memory: "(\<And>n. mn_node (f n) = mn_node n) \<Longrightarrow> every (on_messages Q) (\<lambda>n. ok x (f n))"
  by (simp add: every_def on_messages_def ok_def Q_refl)

end

end
