(* ===== verification/MessageRuns.thy ===== *)
theory MessageRuns
  imports DeliveryLaws
begin

text \<open>
  Runs of the messages service. \<open>mstep\<close> lists the smallest changes its handlers make: a write of one store,
  an effect, a counter, and the operations on what the service keeps in memory. Every handler is a sequence of
  such steps, so what each step keeps, every sequence of requests keeps.
\<close>

section \<open>The steps\<close>

inductive service_write :: "'s host \<Rightarrow> menv \<Rightarrow> 's \<Rightarrow> 's \<Rightarrow> bool" for H :: "'s host" and M :: menv where
  log_write: "service_write H M s (exec_call H (me_owner M) c s)"
| index_write: "service_write H M s (snd (upsertFromMessage H (me_owner M) t m ts p a s))"
| fanout_drop: "service_write H M s (snd (fanoutGet H (\<lambda>b. b) (me_fanoutTtl M) c s))"
| fanout_write: "service_write H M s (snd (fanoutPut H (\<lambda>b. b) c x s))"
| fanout_mark: "service_write H M s (snd (markDelivered H c s))"
| fanout_prune: "service_write H M s (snd (fanoutPrune H ttl s))"

definition settle :: "string \<Rightarrow> string \<Rightarrow> tracking \<Rightarrow> 's mnode \<Rightarrow> 's mnode" where
  "settle messageId inbox t n = n\<lparr>mn_byInbox := drop_waiting messageId inbox (mn_byInbox n),
     mn_tracking := AList.update messageId t (mn_tracking n)\<rparr>"

inductive mstep :: "'s host \<Rightarrow> menv \<Rightarrow> 's mnode \<Rightarrow> 's mnode \<Rightarrow> bool" for H :: "'s host" and M :: menv where
  store_step: "service_write H M (nd_kv (mn_node n)) s \<Longrightarrow> mstep H M n (n\<lparr>mn_node := (mn_node n)\<lparr>nd_kv := s\<rparr>\<rparr>)"
| out_step: "mstep H M n (n\<lparr>mn_node := (mn_node n)\<lparr>nd_out := nd_out (mn_node n) @ [e]\<rparr>\<rparr>)"
| uuid_step: "mstep H M n (n\<lparr>mn_node := (mn_node n)\<lparr>nd_uuids := k\<rparr>\<rparr>)"
| call_step: "mstep H M n (n\<lparr>mn_calls := k\<rparr>)"
| draw_step: "mstep H M n (n\<lparr>mn_draws := k\<rparr>)"
| epoch_step: "mstep H M n (n\<lparr>mn_epoch := ep\<rparr>)"
| queue_step: "mstep H M n (n\<lparr>mn_queued := qs\<rparr>)"
| pending_step: "mstep H M n (n\<lparr>mn_ackPending := ps\<rparr>)"
| discard_step: "mstep H M n (discardQueueTracking m n)"
| track_step: "mstep H M n (trackQueuedMessage t m is n)"
| settle_step: "map_of (mn_tracking n) m = Some t \<Longrightarrow> tr_outstanding t' = removeAll i (tr_outstanding t) \<Longrightarrow> mstep H M n (settle m i t' n)"
| unsettle_step: "map_of (mn_tracking n) m = None \<Longrightarrow> mstep H M n (n\<lparr>mn_byInbox := drop_waiting m i (mn_byInbox n)\<rparr>)"
| done_step: "map_of (mn_tracking n) m = Some t \<Longrightarrow> tr_outstanding t = [] \<Longrightarrow> mstep H M n (n\<lparr>mn_tracking := AList.delete m (mn_tracking n)\<rparr>)"
| stop_step: "mstep H M n (svc_stop n)"

abbreviation msteps :: "'s host \<Rightarrow> menv \<Rightarrow> 's mnode \<Rightarrow> 's mnode \<Rightarrow> bool" where
  "msteps H M \<equiv> rtranclp (mstep H M)"

section \<open>Handlers are sequences of steps\<close>

lemma step_every: "(\<And>n. mstep H M n (snd (m n))) \<Longrightarrow> every (msteps H M) m"
  by (simp add: every_def r_into_rtranclp)

lemma every_store_call:
  fixes m :: "('s, 'a) op"
  assumes "\<And>s. service_write H M s (snd (m s))"
  shows "every (msteps H M) (on_store m)"
proof (rule step_every)
  fix n :: "'s mnode"
  have "service_write H M (nd_kv (mn_node n)) (snd (m (nd_kv (mn_node n))))" by (rule assms)
  then have "mstep H M n (n\<lparr>mn_node := (mn_node n)\<lparr>nd_kv := snd (m (nd_kv (mn_node n)))\<rparr>\<rparr>)" by (rule store_step)
  then show "mstep H M n (snd (on_store m n))"
    by (cases "m (nd_kv (mn_node n))") (simp add: on_store_def on_node_def on_kv_def)
qed

lemma every_memory: "(\<And>n. msteps H M n (f n)) \<Longrightarrow> every (msteps H M) (\<lambda>n. ok x (f n))"
  by (simp add: every_def ok_def)

section \<open>The stores the service writes\<close>

lemma store_calls:
  "every (msteps H M) (on_store (recordOutboundDeposit H (me_owner M) a b c d e f g h))"
  "every (msteps H M) (on_store (setMessageStatus H (me_owner M) a b c d e))"
  "every (msteps H M) (on_store (applyEdit H (me_owner M) a b c d e f bf))"
  "every (msteps H M) (on_store (applyTombstone H (me_owner M) a b c d e bf))"
  "every (msteps H M) (on_store (applyReaction H (me_owner M) a b c d e f bf))"
  "every (msteps H M) (on_store (applyLocalDelete H (me_owner M) a b))"
  "every (msteps H M) (on_store (appendOriginalFact H (me_owner M) a b))"
  "every (msteps H M) (on_store (putPendingCommit H (me_owner M) a b c d e f g h))"
  by (rule every_store_call, metis exec_call.simps service_write.log_write)+

lemma other_stores:
  "every (msteps H M) (on_store (upsertFromMessage H (me_owner M) t m ts p a))"
  "every (msteps H M) (on_store (fanoutGet H (\<lambda>b. b) (me_fanoutTtl M) c))"
  "every (msteps H M) (on_store (fanoutPut H (\<lambda>b. b) c x))"
  "every (msteps H M) (on_store (markDelivered H c))"
  by (rule every_store_call, rule service_write.intros)+

lemma prune_store: "every (msteps H M) (on_store (\<lambda>s. case fanoutPrune H ttl s of (_, s') \<Rightarrow> (Inr (), s')))"
proof (rule every_store_call)
  fix s show "service_write H M s (snd (case fanoutPrune H ttl s of (_, s') \<Rightarrow> (Inr (), s')))"
    using fanout_prune [of H M s ttl] by (simp split: prod.split) (metis snd_conv)
qed

lemma drop_pending_steps: "every (msteps H M) (drop_pending H M m)"
  unfolding drop_pending_def
proof (rule every_store_call)
  fix s show "service_write H M s (snd (case deletePendingCommit H (me_owner M) m s of (b, s') \<Rightarrow> (Inr b, s')))"
    using log_write [of H M s "DeletePendingCommit m"] by (simp split: prod.split) (metis snd_conv)
qed

lemma set_status_steps: "every (msteps H M) (set_status H M t m st x y)"
  by (simp add: set_status_def store_calls)

lemmas store_rules = store_calls other_stores prune_store drop_pending_steps set_status_steps

interpretation run: delivery_law "msteps H M" H M for H :: "'s host" and M :: menv
  by unfold_locales
    (auto intro: rtranclp_trans mstep.intros r_into_rtranclp other_stores)

section \<open>The handlers\<close>

lemma record_fact_steps: "every (msteps H M) (recordLocalOriginalFact H M t w now)"
  unfolding recordLocalOriginalFact_def by (intro run.delivery_rules store_rules)

lemma open_steps: "every (msteps H M) (openPendingCommit H M t m f)"
  unfolding openPendingCommit_def by (intro run.delivery_rules store_rules)

lemmas part_rules = run.delivery_rules store_rules record_fact_steps open_steps

section \<open>Every request is a run\<close>

lemma memory_steps:
  "every (msteps H M) (\<lambda>n. ok x (n\<lparr>mn_queued := f n\<rparr>))"
  "every (msteps H M) (\<lambda>n. ok x (n\<lparr>mn_ackPending := g n\<rparr>))"
  "every (msteps H M) (\<lambda>n. ok x (unqueue p n))"
  unfolding unqueue_def by (intro every_memory r_into_rtranclp queue_step pending_step)+

lemma forget_attempt_steps:
  fixes H :: "'s host"
  shows "every (msteps H M) (\<lambda>n. ok x (forget_attempt m n))"
proof (rule every_memory)
  fix n :: "'s mnode"
  let ?n = "discardQueueTracking m n"
  have "msteps H M n ?n" by (rule r_into_rtranclp) (rule discard_step)
  also have "mstep H M ?n (?n\<lparr>mn_ackPending := AList.delete m (mn_ackPending ?n)\<rparr>)" by (rule pending_step)
  also have "mstep H M (?n\<lparr>mn_ackPending := AList.delete m (mn_ackPending ?n)\<rparr>) (forget_attempt m n)"
    unfolding forget_attempt_def unqueue_def by (rule queue_step)
  finally show "msteps H M n (forget_attempt m n)" by simp
qed

lemma forget_sent_steps:
  fixes H :: "'s host"
  shows "every (msteps H M) (\<lambda>n. ok x (forget_sent m p n))"
proof (rule every_memory)
  fix n :: "'s mnode"
  let ?n = "unqueue p n"
  have "msteps H M n ?n" unfolding unqueue_def by (rule r_into_rtranclp) (rule queue_step)
  also have "mstep H M ?n (?n\<lparr>mn_ackPending := AList.delete m (mn_ackPending n)\<rparr>)" by (rule pending_step)
  also have "mstep H M (?n\<lparr>mn_ackPending := AList.delete m (mn_ackPending n)\<rparr>) (forget_sent m p n)"
    unfolding forget_sent_def by (rule discard_step)
  finally show "msteps H M n (forget_sent m p n)" by simp
qed

lemma remember_steps:
  fixes H :: "'s host"
  shows "every (msteps H M) (\<lambda>n. ok x (remember_send H t m d n))"
proof (rule every_memory)
  fix n :: "'s mnode"
  have "msteps H M n (n\<lparr>mn_ackPending := AList.update m t (mn_ackPending n)\<rparr>)" by (rule r_into_rtranclp) (rule pending_step)
  moreover have "msteps H M n (trackQueuedMessage t m is (n\<lparr>mn_queued := qs\<rparr>))" for "is" qs
    by (rule converse_rtranclp_into_rtranclp, rule queue_step, rule r_into_rtranclp, rule track_step)
  ultimately show "msteps H M n (remember_send H t m d n)" by (simp add: remember_send_def)
qed

lemmas memory_rules = memory_steps forget_attempt_steps forget_sent_steps remember_steps

lemma list_steps: "every (msteps H M) (svc_listMessages H M p)"
  unfolding svc_listMessages_def by (intro part_rules)

lemma persist_steps: "every (msteps H M) (persist_outbound H M t m w b r)"
  unfolding persist_outbound_def by (intro part_rules )

lemma wire_steps: "every (msteps H M) (wire_payload H M p t m r c)"
  unfolding wire_payload_def by (intro part_rules)

lemma finish_steps: "every (msteps H M) (finish_send H M t m w d)"
  unfolding finish_send_def by (intro part_rules memory_rules)

lemma send_steps: "every (msteps H M) (sendMessage H M p)"
  unfolding sendMessage_def by (intro part_rules memory_rules persist_steps wire_steps finish_steps)

lemma mutation_steps: "every (msteps H M) (send_mutation H M C t f fs)"
  unfolding send_mutation_def deliverMutationPayload_def by (intro part_rules)

lemma edit_steps: "every (msteps H M) (editMessage H M p)" and tombstone_steps: "every (msteps H M) (tombstoneMessage H M p)"
  and delete_local_steps: "every (msteps H M) (deleteLocalMessage H M p)"
  unfolding editMessage_def tombstoneMessage_def deleteLocalMessage_def by (intro part_rules mutation_steps)+

lemma reaction_steps: "every (msteps H M) (sendReaction H M P R x p)"
  unfolding sendReaction_def by (intro part_rules mutation_steps)

lemma after_steps: "every (msteps H M) (after_mutation H t r)"
  unfolding after_mutation_def by (intro part_rules)

lemma incoming_steps:
  "every (msteps H M) (handleIncomingEdit H M r c)"
  "every (msteps H M) (handleIncomingTombstone H M r c)"
  "every (msteps H M) (handleIncomingReaction H M r c)"
  unfolding handleIncomingEdit_def handleIncomingTombstone_def handleIncomingReaction_def by (intro part_rules after_steps)+

lemma mark_steps: "every (msteps H M) (mark_delivered H M t m x)"
  unfolding mark_delivered_def by (intro part_rules memory_rules)

lemma ack_steps: "every (msteps H M) (handleDeliveryAck H M t ms)"
proof -
  have "every (msteps H M) (ack_one H M t m)" for t m
  proof -
    have "every (msteps H M) (when_ok b (andThen (on_store (reads (getPendingCommit H (me_owner M) (Str m))))
        (\<lambda>pending. when_ok (pending = None) (mark_delivered H M tid m x))))" for b tid x
      by (intro part_rules mark_steps)
    then show ?thesis by (simp add: every_def ack_one_def Let_def)
  qed
  then show ?thesis unfolding handleDeliveryAck_def by (intro part_rules)
qed

lemma commit_ack_steps: "every (msteps H M) (handleCommitAck H M r c)"
  unfolding handleCommitAck_def claim_known_def accept_ack_def by (intro part_rules mark_steps)

lemma retry_steps: "every (msteps H M) (retryPendingCommit H M row)"
  unfolding retryPendingCommit_def redeliver_def by (intro part_rules)

lemma commit_sweep_steps: "every (msteps H M) (sweepPendingCommits H M b)"
  unfolding sweepPendingCommits_def by (intro part_rules retry_steps)

lemma outbound_step_steps: "every (msteps H M) (outbound_step H M m st t b)"
  unfolding outbound_step_def Let_def by (intro part_rules memory_rules)

text \<open>The writes to the stores and the effects leave the memory alone.\<close>

lemma same_memory:
  "mn_tracking (snd (on_node m n)) = mn_tracking n" "mn_tracking (snd (app_error e sv n)) = mn_tracking n"
  by (simp_all add: on_node_def app_error_def split: prod.split)

lemma reported_tracking: "mn_tracking (snd (m n)) = T \<Longrightarrow> mn_tracking (snd (reported m e sv n)) = T"
  by (cases "m n") (auto simp: reported_def app_error_def on_node_def effect_out_def andThen_def ok_def split: sum.split)

lemma outbound_step_tracking: "mn_tracking (snd (outbound_step H M m st t b n)) = mn_tracking n"
proof -
  have *: "mn_tracking (snd (reported (set_status H M x y z u v) e sv n)) = mn_tracking n" for x y z u v e sv
    by (rule reported_tracking) (simp add: set_status_def on_store_def same_memory)
  show ?thesis
    unfolding outbound_step_def status_event_def
    by (auto simp: * same_memory ok_def unqueue_def Let_def intro!: snd_andThen [where P = "\<lambda>k. mn_tracking k = mn_tracking n"])
qed

lemma apply_status_steps: "every (msteps H M) (applyOutboundStatusToMessage H M i st m)"
  unfolding every_def
proof
  fix n :: "'a mnode"
  show "msteps H M n (snd (applyOutboundStatusToMessage H M i st m n))"
  proof (cases "map_of (mn_tracking n) m")
    case None
    then show ?thesis by (simp add: applyOutboundStatusToMessage_def unsettle_step r_into_rtranclp)
  next
    case (Some t)
    let ?t = "t\<lparr>tr_outstanding := removeAll i (tr_outstanding t), tr_anyDelivered := tr_anyDelivered t \<or> st = ''delivered''\<rparr>"
    let ?n = "settle m i ?t n"
    let ?fin = "\<lambda>_ n. (Inr (), if tr_outstanding ?t = [] then n\<lparr>mn_tracking := AList.delete m (mn_tracking n)\<rparr> else n)"
    have "applyOutboundStatusToMessage H M i st m n = andThen (outbound_step H M m st ?t (tr_anyDelivered t)) ?fin ?n"
      by (simp add: applyOutboundStatusToMessage_def Some settle_def Let_def)
    moreover have "msteps H M ?n (snd (andThen (outbound_step H M m st ?t (tr_anyDelivered t)) ?fin ?n))"
    proof (cases "outbound_step H M m st ?t (tr_anyDelivered t) ?n")
      case (Pair r k)
      have k: "msteps H M ?n k" using everyD [OF outbound_step_steps, of H M ?n m st ?t "tr_anyDelivered t"] unfolding Pair by simp
      have "mn_tracking k = mn_tracking ?n" using outbound_step_tracking [of H M m st ?t "tr_anyDelivered t" ?n] unfolding Pair by simp
      then have "map_of (mn_tracking k) m = Some ?t" by (simp add: settle_def update_conv')
      then have "tr_outstanding ?t = [] \<Longrightarrow> mstep H M k (k\<lparr>mn_tracking := AList.delete m (mn_tracking k)\<rparr>)"
        by (rule done_step)
      with k show ?thesis by (auto simp: andThen_def Pair split: sum.split intro: rtranclp.rtrancl_into_rtrancl)
    qed
    moreover have "msteps H M n ?n" by (rule r_into_rtranclp, rule settle_step [OF Some]) simp
    ultimately show ?thesis by simp
  qed
qed

lemma outbound_status_steps: "every (msteps H M) (handleOutboundStatus H M b)"
proof -
  have "every (msteps H M) (when_ok c (each (applyOutboundStatusToMessage H M i st) ms))" for c i st ms
    by (intro part_rules apply_status_steps)
  then show ?thesis by (simp add: every_def handleOutboundStatus_def Let_def)
qed

lemma recover_row_steps: "every (msteps H M) (recover_row H M t m)"
proof -
  have "every (msteps H M) (\<lambda>n. ok () (case thread of None \<Rightarrow> n
      | Some th \<Rightarrow> if c th then trackQueuedMessage t (m_messageId m) (is th) n else n))" for thread c "is"
    by (intro every_memory) (simp add: r_into_rtranclp track_step split: option.split)
  then show ?thesis unfolding recover_row_def by (intro part_rules memory_rules)
qed

lemma recover_steps: "every (msteps H M) (recoverQueuedMessages H M)"
  unfolding recoverQueuedMessages_def by (intro part_rules recover_row_steps)

lemma start_steps: "every (msteps H M) (svc_start H M)"
  unfolding svc_start_def by (intro part_rules recover_steps commit_sweep_steps)

theorem serve_steps: "msteps H M n (serve H M r n)"
proof (cases r)
  case Restart
  have "msteps H M (svc_stop n) (snd (svc_start H M (svc_stop n)))" by (rule everyD [OF start_steps])
  with stop_step [of H M n] show ?thesis by (simp add: Restart serve_def converse_rtranclp_into_rtranclp)
qed (simp_all add: serve_def everyD list_steps send_steps edit_steps tombstone_steps delete_local_steps
  reaction_steps addReaction_def removeReaction_def incoming_steps ack_steps commit_ack_steps commit_sweep_steps outbound_status_steps)

text \<open>A service that was just constructed on the stores of a node, and a run of requests under a moving clock.\<close>

definition started :: "'s node \<Rightarrow> 's mnode" where
  "started node = \<lparr> mn_node = node, mn_queued = [], mn_ackPending = [], mn_byInbox = [], mn_tracking = [], mn_epoch = None,
     mn_calls = 0, mn_draws = 0 \<rparr>"

fun serve_all :: "(rat \<times> request) list \<Rightarrow> 's host \<Rightarrow> menv \<Rightarrow> 's mnode \<Rightarrow> 's mnode" where
  "serve_all [] H M n = n"
| "serve_all ((now, r) # rs) H M n = serve_all rs H M (serve (H\<lparr>clockMs := now\<rparr>) M r n)"

text \<open>What every step keeps under every clock, every run keeps.\<close>

lemma serve_all_keeps:
  assumes "\<And>now n n'. mstep (H\<lparr>clockMs := now\<rparr>) M n n' \<Longrightarrow> I n \<Longrightarrow> I n'" and "I n"
  shows "I (serve_all rs H M n)"
  using assms(2)
proof (induction rs arbitrary: n)
  case (Cons c rs)
  obtain now r where c: "c = (now, r)" by force
  have "I k'" if "msteps (H\<lparr>clockMs := now\<rparr>) M k k'" "I k" for k k'
    using that by (induction rule: rtranclp_induct) (auto intro: assms(1))
  from this [OF serve_steps Cons.prems] show ?case by (simp add: c Cons.IH)
qed simp

end
