(* ===== verification/StoreRegions.thy ===== *)
theory StoreRegions
  imports MessageRuns
begin

text \<open>
  Invariants of the runs of the messages service. The two tables of queued messages agree in every run
  (\<open>#queuedByInbox\<close> and \<open>#queueTracking\<close> of \<open>ServerMessagesService.js\<close>). And which keys the operations of the
  stores write: \<open>only_under\<close> says that nothing changed outside some prefixes. From this, the messages service
  keeps the invariant of the message logs, and what its handlers leave alone.
\<close>

section \<open>The two tables\<close>

definition waits_at :: "'s mnode \<Rightarrow> string \<Rightarrow> string list" where
  "waits_at n m = (case map_of (mn_tracking n) m of None \<Rightarrow> [] | Some t \<Rightarrow> tr_outstanding t)"

definition no_empty :: "(string \<times> string list) list \<Rightarrow> bool" where
  "no_empty b \<longleftrightarrow> [] \<notin> snd ` set b"

definition tracking_ok :: "'s mnode \<Rightarrow> bool" where
  "tracking_ok n \<longleftrightarrow> (\<forall>m i. m \<in> set (waiting (mn_byInbox n) i) \<longleftrightarrow> i \<in> set (waits_at n m)) \<and> no_empty (mn_byInbox n)"

lemma waiting_update: "waiting (AList.update i ids b) j = (if i = j then ids else waiting b j)"
  by (simp add: waiting_def update_conv')

lemma waiting_delete: "waiting (AList.delete i b) j = (if i = j then [] else waiting b j)"
  by (simp add: waiting_def delete_conv')

lemma removeAll_waiting: "map_of b i = None \<Longrightarrow> removeAll m (waiting b i) = []"
  by (simp add: waiting_def)

lemma waiting_drop [simp]: "waiting (drop_waiting m i b) j = (if j = i then removeAll m (waiting b i) else waiting b j)"
proof (cases "map_of b i")
  case None
  then show ?thesis by (simp add: drop_waiting_def waiting_def)
next
  case (Some ids)
  then have "waiting b i = ids" by (simp add: waiting_def)
  with Some show ?thesis by (simp add: drop_waiting_def Let_def waiting_update waiting_delete)
qed

lemma add_once_simps [simp]: "set (add_once x xs) = insert x (set xs)" "add_once x xs \<noteq> []"
  by (auto simp: add_once_def)

lemma no_empty_update: "no_empty b \<Longrightarrow> ids \<noteq> [] \<Longrightarrow> no_empty (AList.update i ids b)"
  by (induction b) (auto simp: no_empty_def)

lemma no_empty_delete: "no_empty b \<Longrightarrow> no_empty (AList.delete i b)"
  by (auto simp: no_empty_def AList.delete_eq)

lemma no_empty_drop [simp]: "no_empty b \<Longrightarrow> no_empty (drop_waiting m i b)"
  by (simp add: drop_waiting_def Let_def no_empty_update no_empty_delete split: option.split)

lemma waiting_drops:
  "waiting (foldl (\<lambda>b i. drop_waiting m i b) b is) j = (if j \<in> set is then removeAll m (waiting b j) else waiting b j)"
  by (induction "is" arbitrary: b) auto

lemma no_empty_drops: "no_empty b \<Longrightarrow> no_empty (foldl (\<lambda>b i. drop_waiting m i b) b is)"
  by (induction "is" arbitrary: b) simp_all

lemma discard_ok: "tracking_ok n \<Longrightarrow> tracking_ok (discardQueueTracking m n)"
  by (auto simp: tracking_ok_def discardQueueTracking_def waits_at_def waiting_drops no_empty_drops delete_conv' split: option.splits if_splits)

lemma track_inbox_ok: "tracking_ok n \<Longrightarrow> tracking_ok (track_inbox m n i)"
  by (auto simp: tracking_ok_def track_inbox_def Let_def waits_at_def waiting_update no_empty_update update_conv' split: option.splits if_splits)

lemma track_ok: "tracking_ok n \<Longrightarrow> tracking_ok (trackQueuedMessage t m is n)"
proof -
  have inboxes: "tracking_ok k \<Longrightarrow> tracking_ok (foldl (track_inbox m) k is)" for k
    by (induction "is" arbitrary: k) (simp_all add: track_inbox_ok)
  assume "tracking_ok n"
  moreover from this have "map_of (mn_tracking n) m = None \<Longrightarrow>
      tracking_ok (n\<lparr>mn_tracking := AList.update m \<lparr> tr_threadId = t, tr_outstanding = [], tr_anyDelivered = False \<rparr> (mn_tracking n)\<rparr>)"
    by (auto simp: tracking_ok_def waits_at_def update_conv' split: option.splits)
  ultimately show ?thesis by (simp add: trackQueuedMessage_def Let_def inboxes)
qed

lemma settle_ok:
  "tracking_ok n \<Longrightarrow> map_of (mn_tracking n) m = Some t \<Longrightarrow> tr_outstanding t' = removeAll i (tr_outstanding t) \<Longrightarrow> tracking_ok (settle m i t' n)"
  by (auto simp: tracking_ok_def settle_def waits_at_def update_conv')

lemma mstep_tracking: "mstep H M n n' \<Longrightarrow> tracking_ok n \<Longrightarrow> tracking_ok n'"
proof (induction rule: mstep.induct)
  case (unsettle_step n m i)
  then show ?case by (auto simp: tracking_ok_def waits_at_def split: option.splits)
next
  case (done_step n m t)
  then show ?case by (auto simp: tracking_ok_def waits_at_def delete_conv' split: option.splits)
next
  case (stop_step n)
  show ?case by (simp add: tracking_ok_def waits_at_def svc_stop_def waiting_def no_empty_def)
qed (simp_all add: discard_ok track_ok settle_ok, simp_all add: tracking_ok_def waits_at_def)

lemma runs_tracking: "tracking_ok (serve_all rs H M (started node))"
proof (rule serve_all_keeps)
  show "tracking_ok (started node)" by (simp add: started_def tracking_ok_def waits_at_def waiting_def no_empty_def)
qed (rule mstep_tracking)

definition only_under :: "'s host \<Rightarrow> string list \<Rightarrow> 's \<Rightarrow> 's \<Rightarrow> bool" where
  "only_under H ps s s' \<longleftrightarrow> (\<forall>k. (\<forall>p \<in> set ps. \<not> prefix p k) \<longrightarrow> kvGet H s' k = kvGet H s k)"

abbreviation LOG_KEYS :: "string list" where "LOG_KEYS \<equiv> [''app:messages/'', ''app:idempotency/'']"
abbreviation INDEX_KEYS :: "string list" where "INDEX_KEYS \<equiv> [''app:threads:index'']"
abbreviation FANOUT_KEYS :: "string list" where "FANOUT_KEYS \<equiv> [''app:devicefanout/'']"

lemma only_underD: "only_under H ps s s' \<Longrightarrow> (\<And>p. p \<in> set ps \<Longrightarrow> \<not> prefix p k) \<Longrightarrow> kvGet H s' k = kvGet H s k"
  by (simp add: only_under_def)

interpretation region: step_law "only_under H ps" for H ps
  by unfold_locales (simp_all add: only_under_def)

lemma track_inboxes_node: "mn_node (foldl (track_inbox m) n is) = mn_node n"
  by (induction "is" arbitrary: n) (simp_all add: track_inbox_def Let_def split: option.split)

lemma track_node: "mn_node (trackQueuedMessage t m is n) = mn_node n"
  by (simp add: trackQueuedMessage_def Let_def track_inboxes_node)

context host_laws
begin

lemma only_set: "p \<in> set ps \<Longrightarrow> prefix p k \<Longrightarrow> only_under H ps s (kvSet H s k v)"
  by (auto simp: only_under_def get_set)

lemma only_delete: "p \<in> set ps \<Longrightarrow> prefix p k \<Longrightarrow> only_under H ps s (kvDelete H s k)"
  by (auto simp: only_under_def get_delete)

lemma fanout_prefix: "prefix ''app:devicefanout/'' (fanoutKey H c)"
  by (simp add: fanoutKey_def)

lemma fanout_only:
  "every (only_under H FANOUT_KEYS) (fanoutGet H f ttl c)"
  "every (only_under H FANOUT_KEYS) (fanoutPut H g c x)"
  "every (only_under H FANOUT_KEYS) (markDelivered H c)"
  by (auto simp: every_def fanoutGet_def fanoutPut_def markDelivered_def ok_def throw_def Let_def region.R_refl fanout_prefix
      intro: only_set only_delete split: sum.split)

lemma prune_only: "(\<And>k. k \<in> set ks \<Longrightarrow> prefix ''app:devicefanout/'' k) \<Longrightarrow> only_under H FANOUT_KEYS s (snd (prune_fanout H ttl ks s))"
proof (induction ks arbitrary: s)
  case (Cons k ks)
  have k: "prefix ''app:devicefanout/'' k" and ks: "\<And>j. j \<in> set ks \<Longrightarrow> prefix ''app:devicefanout/'' j" using Cons.prems by auto
  have "only_under H FANOUT_KEYS s (kvDelete H s k)" by (rule only_delete [OF _ k]) simp
  from region.R_trans [OF this Cons.IH [OF ks]] Cons.IH [OF ks, of s]
  show ?case by (auto simp: Let_def split: prod.split)
qed (simp add: region.R_refl)

lemma fanoutPrune_only: "only_under H FANOUT_KEYS s (snd (fanoutPrune H ttl s))"
  unfolding fanoutPrune_def by (rule prune_only) (simp add: keys)

lemma saveRecord_only: "only_under H INDEX_KEYS s (saveRecord H owner e s)"
  unfolding saveRecord_def Let_def saveRecord_write_def saveRecord_index_def saveIndex_def
  by (rule region.R_trans [OF only_set [where p = "''app:threads:index''"] only_set [where p = "''app:threads:index''"]])
    (simp_all add: kIndexRecord_def kIndex_def)

lemma updateRecord_only: "every (only_under H INDEX_KEYS) (updateRecord H owner tid f)"
proof -
  have "every (only_under H INDEX_KEYS) (writes (saveRecord H owner e))" for e
    by (simp add: every_def writes_def saveRecord_only)
  moreover have "every (only_under H INDEX_KEYS) (\<lambda>s. case getIndexRecord H owner v s of Some e \<Rightarrow> ok e s | None \<Rightarrow> lift_result r s)" for v r
    by (simp add: every_def ok_def lift_result_def region.R_refl split: option.split)
  ultimately show ?thesis unfolding updateRecord_def by (auto intro!: region.every_rules)
qed

lemma index_only: "every (only_under H INDEX_KEYS) (upsertFromMessage H owner t m ts p a)"
  using everyD [OF updateRecord_only]
  by (simp add: every_def upsertFromMessage_def upsertOnMessageAccepted_def Let_def throw_def region.R_refl)

lemma status_only: "every (only_under H LOG_KEYS) (setMessageStatus H owner t m st x y)"
proof -
  have m: "only_under H LOG_KEYS s (saveMessages H owner a rows s)" for a rows s
    unfolding saveMessages_def by (rule only_set [where p = "''app:messages/''"]) (simp_all add: kMessages_def)
  have i: "only_under H LOG_KEYS s (saveIdempotency H owner a b c s)" for a b c s
    by (auto simp: saveIdempotency_def kIdempotency_def region.R_refl intro!: only_set [where p = "''app:idempotency/''"] split: option.split)
  show ?thesis
    by (auto simp: every_def setMessageStatus_def Let_def ok_def throw_def region.R_refl intro: region.R_trans [OF m i] split: option.split)
qed

text \<open>The invariant of the logs reads the keys of the messages only.\<close>

lemma store_ok_region:
  assumes "only_under H ps s s'" and "\<And>p. p \<in> set ps \<Longrightarrow> \<not> prefix p ''app:messages/'' \<and> \<not> prefix ''app:messages/'' p"
  shows "store_ok H owner s' = store_ok H owner s"
proof -
  have "kvGet H s' (kMessages owner t) = kvGet H s (kMessages owner t)" for t
  proof (rule only_underD [OF assms(1)])
    fix p assume "p \<in> set ps"
    then show "\<not> prefix p (kMessages owner t)" using assms(2) [of p] prefix_same_cases [of p "kMessages owner t" "''app:messages/''"]
      by (auto simp: kMessages_def)
  qed
  then show ?thesis by (simp add: store_ok_def log_ok_def loadMessages_def)
qed

lemma store_ok_other:
  "only_under H INDEX_KEYS s s' \<Longrightarrow> store_ok H owner s' = store_ok H owner s"
  "only_under H FANOUT_KEYS s s' \<Longrightarrow> store_ok H owner s' = store_ok H owner s"
  by (rule store_ok_region, assumption, simp)+

lemma write_store_ok: "service_write H M s s' \<Longrightarrow> store_ok H (me_owner M) s \<Longrightarrow> store_ok H (me_owner M) s'"
proof (induction rule: service_write.induct)
  case (log_write s c)
  then show ?case by (rule exec_call_store_ok)
qed (simp_all add: store_ok_other(1) [OF everyD [OF index_only]] store_ok_other(2) [OF everyD [OF fanout_only(1)]]
    store_ok_other(2) [OF everyD [OF fanout_only(2)]] store_ok_other(2) [OF everyD [OF fanout_only(3)]] store_ok_other(2) [OF fanoutPrune_only])

lemma mstep_store_ok:
  "mstep H M n n' \<Longrightarrow> store_ok H (me_owner M) (nd_kv (mn_node n)) \<Longrightarrow> store_ok H (me_owner M) (nd_kv (mn_node n'))"
  by (induction rule: mstep.induct)
    (simp_all add: write_store_ok discardQueueTracking_def settle_def svc_stop_def track_node split: option.split)

end

end
