(* ===== verification/MessageSamples.thy ===== *)
theory MessageSamples
  imports StoreRegions Samples
begin

text \<open>
  A small messages service for the instances of the properties: account \<open>me\<close> with the store of \<open>Samples\<close>, whose
  thread \<open>t1\<close> is a conversation with \<open>bob\<close>, and \<open>bob\<close>'s own service. A key is the account's name, a signature the
  key and the signed bytes.
\<close>

definition plain_env :: "string \<Rightarrow> env" where
  "plain_env owner = \<lparr> ev_owner = owner, ev_uuid = (\<lambda>k. ''u''), ev_authority = None, ev_signer = None,
     ev_fileHash = Some, ev_reencode = (\<lambda>b. b), ev_threadHash = (\<lambda>t. t), ev_inviteEnvelope = None,
     ev_authorizeJoin = None, ev_peerLinks = None, ev_ownInbox = Null, ev_sdk = True, ev_fileTransfer = False,
     ev_channels = False, ev_contacts = False, ev_peerLinkProtocol = False, ev_events = False \<rparr>"

definition name_signing :: signing where
  "name_signing = \<lparr> sg_canonical = (\<lambda>v. str_of (getp v ''messageId'') @ ''/'' @ str_of (getp v ''text'')), sg_sha256Hex = (\<lambda>s. s),
     sg_deriveAccountId = Some, sg_deriveDeviceId = Some, sg_verify = (\<lambda>k b s. Some (Bool (s = k @ ''/'' @ b @ ''.''))),
     sg_authority = (\<lambda>_ _ _ _ _. Inr ''direct'') \<rparr>"

definition name_signer :: "string \<Rightarrow> signer" where
  "name_signer owner = \<lparr> si_publicKeyB64 = owner, si_deviceId = Str [], si_certChain = Arr [], si_sign = (\<lambda>b. Inr (owner @ ''/'' @ b @ ''.'')) \<rparr>"

definition plain_menv :: "string \<Rightarrow> menv" where
  "plain_menv owner = \<lparr> me_base = plain_env owner, me_signing = name_signing, me_signer = Some (Inr (name_signer owner)),
     me_authorityState = None, me_seal = (\<lambda>k q. Inr \<lparr> sl_payloadBytes = sq_device q @ sq_body q, sl_metadata = Null, sl_capChain = Null, sl_address = Str (sq_inbox q) \<rparr>),
     me_mesh = (\<lambda>k x. Inr Routed), me_multiDevice = False, me_sealsDevices = False, me_resolveDevices = (\<lambda>p. Inr Null),
     me_deviceSets = False, me_fanoutTtl = 1000000, me_revocations = None, me_cryptoProvider = True, me_random = (\<lambda>k. 1 / 2) \<rparr>"

abbreviation "ME \<equiv> plain_menv ''me''"

lemma me_owner_plain [simp]: "me_owner (plain_menv a) = a"
  by (simp add: me_owner_def plain_menv_def plain_env_def)

definition sample_node :: "(string \<times> jsval) list node" where
  "sample_node = \<lparr> nd_kv = sample_store, nd_out = [], nd_files = [], nd_uuids = 0 \<rparr>"

text \<open>The row of a message that waits for the proof of its reception.\<close>

definition waiting_row :: jsval where
  "waiting_row = pending_commit_row HM ''a1'' ''t1'' ''f1'' ''bob'' (num 20) (num 0) (num 5020) Null"

definition waiting_node :: "(string \<times> jsval) list mnode" where
  "waiting_node = started (sample_node\<lparr>nd_kv := kvSet HM sample_store (kCommitPending ''me'' ''a1'') waiting_row\<rparr>)"

text \<open>The message \<open>a1\<close> was sent to \<open>bob\<close>, whose service acknowledges it.\<close>

definition m1_row :: ChatMessage where
  "m1_row = (sample_message ''a1'' ''me'' 20)\<lparr>m_status := ''sent''\<rparr>"

definition sent_store :: "(string \<times> jsval) list" where
  "sent_store = kvSet HM (saveMessages HM ''me'' ''t1'' [m1_row, msg_b] sample_store) (kCommitPending ''me'' ''a1'') waiting_row"

definition bob_params :: jsval where
  "bob_params = Obj [(''messageId'', Str ''a1''), (''messageFingerprint'', Str ''f1''), (''threadId'', Str ''t1''), (''committedAtMs'', num 900)]"

definition bob_node :: "(string \<times> jsval) list mnode" where
  "bob_node = started (sample_node\<lparr>nd_kv := []\<rparr>)"

definition sent_node :: "(string \<times> jsval) list mnode" where
  "sent_node = started (sample_node\<lparr>nd_kv := sent_store\<rparr>)"

definition bob_ack :: jsval where
  "bob_ack = (case fst (buildCommitAck HM (plain_menv ''bob'') bob_params bob_node) of Inr (Some r) \<Rightarrow> r | _ \<Rightarrow> Null)"

end
