(* ===== verification/MessageProperties.thy ===== *)
theory MessageProperties
  imports MessageSamples SignedProperties
begin

text \<open>
  The properties of the messages service (\<open>src/server/services/ServerMessagesService.js\<close>).
\<close>

section \<open>Every run\<close>

text \<open>
  C14. In every run of the messages service, whatever it is asked and whatever the SDK answers or throws, a
  message is listed as waiting at an inbox exactly when that inbox is outstanding for the message, and no inbox
  is kept without a message.
\<close>

theorem queue_tables_agree:
  "(m \<in> set (waiting (mn_byInbox (serve_all rs H M (started node))) i)
      \<longleftrightarrow> i \<in> set (waits_at (serve_all rs H M (started node)) m))
   \<and> no_empty (mn_byInbox (serve_all rs H M (started node)))"
  using runs_tracking [of rs H M node] by (simp add: tracking_ok_def)

text \<open>
  C8. Every run of the messages service keeps the invariant of the message logs: rows with distinct ids, in
  order, within the limit, each as its schema says.
\<close>

theorem messages_keep_logs:
  assumes "host_laws H" and "store_ok H (me_owner M) (nd_kv node)"
  shows "store_ok H (me_owner M) (nd_kv (mn_node (serve_all rs H M (started node))))"
proof (rule serve_all_keeps [where I = "\<lambda>n. store_ok H (me_owner M) (nd_kv (mn_node n))"])
  fix now n n' assume "mstep (H\<lparr>clockMs := now\<rparr>) M n n'" and "store_ok H (me_owner M) (nd_kv (mn_node n))"
  then show "store_ok H (me_owner M) (nd_kv (mn_node n'))"
    using host_laws.mstep_store_ok [OF host_laws.host_laws_clock [OF assms(1)]]
    by (simp add: host_laws.store_ok_clock_iff [OF assms(1)])
qed (simp add: started_def assms(2))

definition sample_run :: "(rat \<times> request) list" where
  "sample_run = [(2000, SendMessage (Obj [(''threadId'', Str ''t1''), (''payload'', Obj [(''text'', Str ''hi'')])])), (3000, Restart)]"

theorem messages_keep_logs_instance:
  "store_ok HM ''me'' (nd_kv (mn_node (serve_all sample_run HM ME (started sample_node))))"
proof -
  have "store_ok HM (me_owner ME) (nd_kv sample_node)" by (simp add: sample_node_def sample_store_ok)
  from messages_keep_logs [OF HM_laws this] show ?thesis by simp
qed

section \<open>Acknowledgements\<close>

interpretation regions: store_law "only_under H ps" for H ps
  by unfold_locales (simp_all add: only_under_def)

definition awaits_proof :: "'s host \<Rightarrow> menv \<Rightarrow> 's mnode \<Rightarrow> jsval \<Rightarrow> bool" where
  "awaits_proof H M n item \<longleftrightarrow> getPendingCommit H (me_owner M) (Str (trim (string_or_empty item))) (nd_kv (mn_node n)) \<noteq> None"

context host_laws
begin

lemma mark_delivered_log: "every (on_messages (only_under H LOG_KEYS)) (mark_delivered H M t m x)"
proof -
  have "mn_node (forget_sent m p n) = mn_node n" for p and n :: "'s mnode"
    by (simp add: forget_sent_def discardQueueTracking_def unqueue_def split: option.split)
  then show ?thesis unfolding mark_delivered_def set_status_def
    by (intro regions.messages.message_rules regions.every_on_store regions.every_in_memory status_only)
qed

lemma getPendingCommit_log:
  "only_under H LOG_KEYS s s' \<Longrightarrow> getPendingCommit H owner v s' = getPendingCommit H owner v s"
  by (simp add: getPendingCommit_def Let_def kCommitPending_def only_under_def)

end

lemma ack_one_waits: "getPendingCommit H (me_owner M) (Str m) (nd_kv (mn_node n)) \<noteq> None \<Longrightarrow> ack_one H M t m n = (Inr (), n)"
  by (auto simp: ack_one_def Let_def when_ok_def andThen_def on_store_reads ok_def)

context host_laws
begin

lemma ack_one_log: "on_messages (only_under H LOG_KEYS) n (snd (ack_one H M t m n))"
  by (simp add: ack_one_def Let_def when_ok_def andThen_def on_store_reads ok_def regions.messages.R_refl everyD [OF mark_delivered_log])

end

text \<open>
  C11. An acknowledgement without a signature decides nothing about a message that waits for the proof of its
  reception: handling a list of acknowledged messages is, in effects, stores and memory, the same as handling
  those of them that have no open pending commit.
\<close>

theorem unsigned_ack_needs_no_proof_open:
  assumes "host_laws H"
  shows "handleDeliveryAck H M t (Arr items) n = handleDeliveryAck H M t (Arr (filter (\<lambda>i. \<not> awaits_proof H M n i) items)) n"
proof (induction items arbitrary: n)
  case (Cons i items)
  let ?f = "\<lambda>i. ack_one H M (trim (string_or_empty t)) (trim (string_or_empty i))"
  have IH: "each ?f items k = each ?f (filter (\<lambda>i. \<not> awaits_proof H M k i) items) k" for k
    using Cons.IH [of k] by (simp add: handleDeliveryAck_def)
  show ?case
  proof (cases "awaits_proof H M n i")
    case True
    then have "?f i n = (Inr (), n)" by (intro ack_one_waits) (simp add: awaits_proof_def)
    then show ?thesis using True IH [of n] by (simp add: handleDeliveryAck_def andThen_def)
  next
    case False
    have same: "awaits_proof H M (snd (?f i n)) = awaits_proof H M n"
      using host_laws.getPendingCommit_log [OF assms host_laws.ack_one_log [OF assms, unfolded on_messages_def]]
      by (simp add: awaits_proof_def fun_eq_iff)
    have "each ?f items (snd (?f i n)) = each ?f (filter (\<lambda>i. \<not> awaits_proof H M n i) items) (snd (?f i n))"
      using IH [of "snd (?f i n)"] unfolding same .
    then show ?thesis using False by (cases "?f i n") (simp add: handleDeliveryAck_def andThen_def split: sum.split)
  qed
qed simp

theorem unsigned_ack_needs_no_proof_open_instance:
  "handleDeliveryAck HM ME (Str ''t1'') (Arr [Str ''a1'', Str ''b1'']) waiting_node = handleDeliveryAck HM ME (Str ''t1'') (Arr [Str ''b1'']) waiting_node"
proof -
  have "filter (\<lambda>i. \<not> awaits_proof HM ME waiting_node i) [Str ''a1'', Str ''b1''] = [Str ''b1'']" by code_simp
  then show ?thesis using unsigned_ack_needs_no_proof_open [OF HM_laws, of ME "Str ''t1''" "[Str ''a1'', Str ''b1'']" waiting_node] by simp
qed

text \<open>The parts of a commit acknowledgement that do something: the evidence for the link, and the acceptance.\<close>

definition evidence :: "menv \<Rightarrow> string \<Rightarrow> 's mnode \<Rightarrow> 's mnode" where
  "evidence M sender n = (if sender \<noteq> [] \<and> ev_peerLinkProtocol (me_base M)
     then n\<lparr>mn_node := (mn_node n)\<lparr>nd_out := nd_out (mn_node n) @ [AckEvidence sender]\<rparr>\<rparr> else n)"

definition pending_of :: "'s host \<Rightarrow> menv \<Rightarrow> jsval \<Rightarrow> 's mnode \<Rightarrow> jsval option" where
  "pending_of H M rcd n = getPendingCommit H (me_owner M) (getp rcd ''messageId'') (nd_kv (mn_node n))"

definition claims_own :: "'s host \<Rightarrow> menv \<Rightarrow> jsval \<Rightarrow> string \<Rightarrow> 's mnode \<Rightarrow> bool" where
  "claims_own H M rcd sender n = (case pending_of H M rcd n of Some row \<Rightarrow> names_pending rcd sender row
     | None \<Rightarrow> names_fact M rcd (getOriginalFact H (me_owner M) (getp rcd ''threadId'') (getp rcd ''messageFingerprint'') (nd_kv (mn_node n))))"

lemma evidence_run: "when_ok (sender \<noteq> [] \<and> ev_peerLinkProtocol (me_base M)) (on_node (effect_out (AckEvidence sender))) n = (Inr (), evidence M sender n)"
  by (auto simp: when_ok_def evidence_def on_node_def effect_out_def ok_def)

lemma evidence_then: "andThen (when_ok (sender \<noteq> [] \<and> ev_peerLinkProtocol (me_base M)) (on_node (effect_out (AckEvidence sender)))) f n = f () (evidence M sender n)"
  by (simp add: andThen_def evidence_run)

lemma evidence_kv [simp]: "nd_kv (mn_node (evidence M sender n)) = nd_kv (mn_node n)"
  by (simp add: evidence_def)

lemma handleCommitAck_run:
  "handleCommitAck H M rcd ctx n =
     (let sender = trim (sget ctx ''senderAccountId''); k = evidence M sender n in
      if sender = [] \<or> getp rcd ''recipientAccountId'' \<noteq> Str sender \<or> \<not> claims_own H M rcd sender n \<or> isl (ack_verdict H M rcd sender)
      then (Inr True, k) else andThen (accept_ack H M rcd (pending_of H M rcd n)) (\<lambda>_. ok True) k)"
  unfolding handleCommitAck_def Let_def evidence_then
  by (cases "getPendingCommit H (me_owner M) (getp rcd ''messageId'') (nd_kv (mn_node n))")
    (simp_all add: andThen_def on_store_reads claim_known_def ok_def when_ok_def claims_own_def pending_of_def)

text \<open>
  C10. A commit acknowledgement that has any effect but the evidence for the link, on a store, in memory or to
  the outside, came over the channel of the account it names as the recipient. It claims the fingerprint and
  thread of the open pending commit of its message, which waits for that account, or, without one, a fact of
  this account; and the signature over its claim is valid under the key it names, which that account authorises.
\<close>

theorem commit_ack_needs_proof:
  assumes "snd (handleCommitAck H M rcd ctx n) \<noteq> evidence M (trim (sget ctx ''senderAccountId'')) n" and "is_object rcd"
  shows "getp rcd ''recipientAccountId'' = Str (trim (sget ctx ''senderAccountId''))
    \<and> claims_own H M rcd (trim (sget ctx ''senderAccountId'')) n
    \<and> sg_verify (me_signing M) (str_of (getp rcd ''signerPublicKeyB64'')) (sg_canonical (me_signing M) (commit_ack_signable rcd)) (str_of (getp rcd ''sig''))
        = Some (Bool True)
    \<and> (\<exists>anchor revocation mode. sg_deriveAccountId (me_signing M) anchor = Some (trim (sget ctx ''senderAccountId''))
        \<and> sg_authority (me_signing M) anchor (str_of (getp rcd ''signerPublicKeyB64'')) (chain_arg (getp rcd ''recipientCertChain'')) (clockMs H) revocation
            = Inr mode)"
proof -
  let ?sender = "trim (sget ctx ''senderAccountId'')"
  have c: "getp rcd ''recipientAccountId'' = Str ?sender" "claims_own H M rcd ?sender n" "\<not> isl (ack_verdict H M rcd ?sender)"
    using assms(1) by (auto simp: handleCommitAck_run Let_def split: if_splits)
  obtain mode where "ack_verdict H M rcd ?sender = Inr mode" using c(3) by (cases "ack_verdict H M rcd ?sender") auto
  then obtain revocation where v: "verifyCommitAckForAcceptance (me_signing M) rcd (num (clockMs H)) revocation = Inr mode"
    unfolding ack_verdict_def by (auto split: if_splits option.splits sum.splits)
  have "verifySignedAccountClaim (me_signing M) (ack_claim (me_signing M) rcd) (clockMs H) revocation = Inr mode"
    using v assms(2) by (simp add: verifyCommitAckForAcceptance_def object_arg_def Let_def split: if_splits)
  from claim_sound [OF this] c(1,2) show ?thesis by (auto simp: ack_claim_def str_of_def)
qed

theorem commit_ack_needs_proof_instance:
  "claims_own HM ME bob_ack ''bob'' sent_node
   \<and> sg_verify name_signing ''bob'' (sg_canonical name_signing (commit_ack_signable bob_ack)) (str_of (getp bob_ack ''sig'')) = Some (Bool True)"
proof -
  let ?ctx = "Obj [(''senderAccountId'', Str ''bob'')]"
  have e: "snd (handleCommitAck HM ME bob_ack ?ctx sent_node) \<noteq> evidence ME (trim (sget ?ctx ''senderAccountId'')) sent_node" by code_simp
  have o: "is_object bob_ack" and f: "str_of (getp bob_ack ''signerPublicKeyB64'') = ''bob''" "trim (sget ?ctx ''senderAccountId'') = ''bob''"
    by code_simp+
  have g: "me_signing ME = name_signing" by (simp add: plain_menv_def)
  from commit_ack_needs_proof [OF e o] show ?thesis unfolding f g by blast
qed

section \<open>Messages to groups\<close>

lemma find_snoc: "(\<And>x. x \<in> set xs \<Longrightarrow> \<not> P x) \<Longrightarrow> P y \<Longrightarrow> find P (xs @ [y]) = Some y"
  by (induction xs) auto

lemma each_one: "each f [x] n = f x n"
  by (auto simp: andThen_def ok_def split: prod.split sum.split)

text \<open>
  C15. The first member's acknowledgement marks a message to a group as delivered if the message had been queued.
  A message to a group that was handed over at once is not remembered, and an acknowledgement of it changes
  nothing; one that the node queued is remembered like a direct message, and the same acknowledgement marks it.
\<close>

theorem queued_group_message_is_marked:
  assumes "dl_isGroup d" and "map_of (mn_ackPending n) mid = None" and "\<forall>q \<in> set (mn_queued n). qm_messageId q \<noteq> mid"
    and "trimmed mid" "mid \<noteq> []" "tid \<noteq> []" and "getPendingCommit H (me_owner M) (Str mid) (nd_kv (mn_node n)) = None"
  defines "n' \<equiv> remember_send H tid mid d n"
  shows "handleDeliveryAck H M Null (Arr [Str mid]) n' =
    (if dl_eventId d = [] \<and> dl_queued d then mark_delivered H M tid mid ''delivery ack status persist failed'' n' else (Inr (), n'))"
proof (cases "dl_eventId d = [] \<and> dl_queued d")
  case True
  let ?n = "n\<lparr>mn_queued := mn_queued n @ [\<lparr> qm_threadId = tid, qm_messageId = mid, qm_queuedAtMs = clockMs H \<rparr>]\<rparr>"
  have q: "mn_queued (foldl (track_inbox mid) k is) = mn_queued k" for k :: "'a mnode" and "is"
    by (induction "is" arbitrary: k) (simp_all add: track_inbox_def Let_def split: option.split)
  have "n' = trackQueuedMessage tid mid (dl_inboxes d) ?n" using True by (simp add: n'_def remember_send_def)
  then have queued: "mn_queued n' = mn_queued ?n" and node: "mn_node n' = mn_node n"
    by (simp add: trackQueuedMessage_def Let_def q, simp add: track_node)
  have "find (\<lambda>q. qm_messageId q = mid) (mn_queued ?n) = Some \<lparr> qm_threadId = tid, qm_messageId = mid, qm_queuedAtMs = clockMs H \<rparr>"
    using assms(3) by (simp add: find_snoc)
  then have "ack_thread [] mid n' = tid" using assms(6) queued by (simp add: ack_thread_def)
  then show ?thesis using True assms node
    by (simp add: handleDeliveryAck_def each_one ack_one_def Let_def when_ok_def trimmed_eq andThen_def [of "on_store _"] on_store_reads del: each.simps)
next
  case False
  then have n': "n' = n" using assms(1) by (auto simp: n'_def remember_send_def)
  have "find (\<lambda>q. qm_messageId q = mid) (mn_queued n) = None" using assms(3) by (simp add: find_None_iff)
  then have "ack_thread [] mid n = []" using assms(2) by (simp add: ack_thread_def)
  then show ?thesis using False assms(4)
    by (auto simp: handleDeliveryAck_def each_one ack_one_def Let_def when_ok_def ok_def n' trimmed_eq simp del: each.simps)
qed

definition group_queued :: delivered where
  "group_queued = delivery [] True [''i1''] True"

theorem queued_group_message_is_marked_instance:
  "let n' = remember_send HM ''t9'' ''g1'' group_queued (started sample_node)
   in handleDeliveryAck HM ME Null (Arr [Str ''g1'']) n' = mark_delivered HM ME ''t9'' ''g1'' ''delivery ack status persist failed'' n'"
proof -
  have d: "dl_isGroup group_queued" "dl_eventId group_queued = []" "dl_queued group_queued" by (simp_all add: group_queued_def delivery_def)
  have n: "map_of (mn_ackPending (started sample_node)) ''g1'' = None" "\<forall>q \<in> set (mn_queued (started sample_node)). qm_messageId q \<noteq> ''g1''"
    by (simp_all add: started_def)
  have p: "getPendingCommit HM (me_owner ME) (Str ''g1'') (nd_kv (mn_node (started sample_node))) = None" "trimmed ''g1''" by code_simp+
  show ?thesis using queued_group_message_is_marked [OF d(1) n p(2) _ _ p(1), of "''t9''"] d(2,3) by (simp add: Let_def)
qed

end
