(* ===== verification/CommitProof.thy ===== *)
theory CommitProof
  imports MessageProperties StoreFacts
begin

text \<open>
  A commit acknowledgement from one service to another: what the recipient's service builds
  (\<open>buildCommitAck\<close>) is accepted by the sender's (\<open>handleCommitAck\<close>) and completes the message.
\<close>

section \<open>The built acknowledgement\<close>

lemma constructed_kind:
  assumes "new_record C raw = Inr r" "sc_kind C = Some k" "''kind'' \<notin> fst ` set (sc_schema C)" "distinct (map fst (sc_schema C))"
  shows "getp r ''kind'' = Str k"
proof -
  obtain fs where fs: "coerceFields (sc_schema C) (if is_object raw then raw else Obj []) = Inr fs" "r = Obj (spread (kind_field C) fs)"
    using assms(1) by (rule new_recordE)
  have "map fst fs = map fst (sc_schema C)" by (rule coerceFields_names [OF fs(1)])
  then have n: "distinct (map fst fs)" "''kind'' \<notin> fst ` set fs" using assms(3,4) by (simp, metis image_set)
  then have "map_of fs ''kind'' = None" by (simp add: map_of_eq_None_iff)
  then show ?thesis unfolding fs(2) getp_spread [OF n(1)] by (simp add: kind_field_def assms(2) getp_def)
qed

definition ack_raw :: "menv \<Rightarrow> signer \<Rightarrow> rat \<Rightarrow> string \<Rightarrow> jsval \<Rightarrow> jsval" where
  "ack_raw M s epoch sig p = Obj (commit_claim M s epoch p @ commit_envelope s sig)"

lemma buildCommitAck_built:
  assumes "fst (buildCommitAck H M p n) = Inr (Some r)" and "me_signer M = Some (Inr s)"
  obtains epoch sig where "si_sign s (sg_canonical (me_signing M) (commit_ack_signable (Obj (commit_claim M s epoch p)))) = Inr sig"
    and "new_record MessageCommitAckV1 (ack_raw M s epoch sig p) = Inr r" and "fst (authorityEpoch H M n) = Inr epoch"
  using assms by (auto simp: buildCommitAck_def originalSigner_def andThen_def ok_def lift_result_def ack_raw_def split: prod.splits sum.splits)

lemma epoch_whole:
  assumes "fst (authorityEpoch H M n) = Inr epoch" and "case mn_epoch n of None \<Rightarrow> True | Some (e, _) \<Rightarrow> is_integer (num e)"
  shows "is_integer (num epoch)"
proof -
  have "is_integer (num (epoch_of st))" for st by (auto simp: epoch_of_def split: option.split jsval.split jsnum.split)
  then show ?thesis using assms by (auto simp: authorityEpoch_def ok_def split: option.splits if_splits)
qed

lemma ack_raw_fields:
  "getp (ack_raw M s e sg p) ''messageId'' = getp p ''messageId''" "getp (ack_raw M s e sg p) ''messageFingerprint'' = getp p ''messageFingerprint''"
  "getp (ack_raw M s e sg p) ''threadId'' = getp p ''threadId''" "getp (ack_raw M s e sg p) ''recipientAccountId'' = Str (me_owner M)"
  "getp (ack_raw M s e sg p) ''recipientAuthorityEpoch'' = num e" "getp (ack_raw M s e sg p) ''committedAtMs'' = getp p ''committedAtMs''"
  "getp (ack_raw M s e sg p) ''signerPublicKeyB64'' = Str (si_publicKeyB64 s)" "getp (ack_raw M s e sg p) ''sig'' = Str sg"
  "getp (ack_raw M s e sg p) ''recipientCertChain'' = (if is_array (si_certChain s) then si_certChain s else Arr [])"
  "is_object (ack_raw M s e sg p)"
  "commit_ack_signable (ack_raw M s e sg p) = commit_ack_signable (Obj (commit_claim M s e p))"
  "getp (ack_raw M s e sg p) ''recipientDeviceId'' = Str (string_or_empty (si_deviceId s))"
  by (simp_all add: ack_raw_def commit_claim_def commit_envelope_def commit_ack_signable_def getp_def Let_def)

lemma coerced_text: "coerceField (Str t) sp = Inr w \<Longrightarrow> sp_type sp = StringT \<Longrightarrow> sp_trim sp \<Longrightarrow> \<not> sp_lowercase sp \<Longrightarrow> trim t = t \<Longrightarrow> t \<noteq> [] \<Longrightarrow> w = Str t"
  by (simp add: coerceField_def coerceString_def lower_if_def Let_def)

lemma ack_strings:
  assumes "new_record MessageCommitAckV1 raw = Inr r" and "is_object raw" and "getp raw k = Str t" and "trim t = t" and "t \<noteq> []"
    and "k \<in> {''messageId'', ''messageFingerprint'', ''threadId'', ''recipientAccountId'', ''signerPublicKeyB64'', ''sig''}"
  shows "getp r k = Str t"
proof -
  have wf: "wf_schema (sc_schema MessageCommitAckV1)" by (rule payload_wf) (simp add: payload_classes_def)
  have "coerceField (getp raw k) required_string = Inr (getp r k)"
    by (rule new_record_field [OF wf assms(1,2)]) (use assms(6) in \<open>auto simp: MessageCommitAckV1_def wire_class_def\<close>)
  then show ?thesis unfolding assms(3) by (rule coerced_text) (simp_all add: assms(4,5))
qed

lemma ack_kind: "new_record MessageCommitAckV1 raw = Inr r \<Longrightarrow> getp r ''kind'' = Str MESSAGE_COMMIT_ACK_KIND"
  by (erule constructed_kind) (simp_all add: MessageCommitAckV1_def wire_class_def)

lemma ack_chain:
  assumes "new_record MessageCommitAckV1 raw = Inr r" and "is_object raw" and "is_array (getp raw ''recipientCertChain'')"
  shows "getp r ''recipientCertChain'' = getp raw ''recipientCertChain''"
proof -
  have wf: "wf_schema (sc_schema MessageCommitAckV1)" by (rule payload_wf) (simp add: payload_classes_def)
  have "coerceField (getp raw ''recipientCertChain'') an_array = Inr (getp r ''recipientCertChain'')"
    by (rule new_record_field [OF wf assms(1,2)]) (simp add: MessageCommitAckV1_def wire_class_def)
  then show ?thesis using assms(3) by (simp add: coerceField_def coerceArray_def)
qed

lemma ack_device:
  assumes "new_record MessageCommitAckV1 raw = Inr r" and "is_object raw"
  shows "str_of (getp r ''recipientDeviceId'') = str_of (getp raw ''recipientDeviceId'')"
proof -
  have wf: "wf_schema (sc_schema MessageCommitAckV1)" by (rule payload_wf) (simp add: payload_classes_def)
  have "coerceField (getp raw ''recipientDeviceId'') a_string = Inr (getp r ''recipientDeviceId'')"
    by (rule new_record_field [OF wf assms(1,2)]) (simp add: MessageCommitAckV1_def wire_class_def)
  then show ?thesis by (rule coerced_str) simp_all
qed

section \<open>Acceptance\<close>

text \<open>
  What the recipient's signer and the sender's verifier have to agree on: a signature verifies under the key of
  the signer, and the key acts for the account. Without a chain of certificates it is the account's own key. With
  a chain it is a delegated device's: the root of the chain derives the account, the key derives the device that the
  signer names, and the sender has a source of revocations that answers for the account.
\<close>

definition own_key :: "signing \<Rightarrow> string \<Rightarrow> string \<Rightarrow> rat \<Rightarrow> bool" where
  "own_key G pub account now \<longleftrightarrow> sg_deriveAccountId G pub = Some account \<and> \<not> isl (sg_authority G pub pub None now Null)"

definition device_key :: "menv \<Rightarrow> string \<Rightarrow> string \<Rightarrow> jsval list \<Rightarrow> string \<Rightarrow> rat \<Rightarrow> bool" where
  "device_key M pub device chain account now \<longleftrightarrow> chain_root chain \<noteq> [] \<and> device \<noteq> []
     \<and> sg_deriveAccountId (me_signing M) (chain_root chain) = Some account \<and> sg_deriveDeviceId (me_signing M) pub = Some device
     \<and> (case me_revocations M of None \<Rightarrow> False
        | Some source \<Rightarrow> (case source account of Inl _ \<Rightarrow> False
           | Inr state \<Rightarrow> \<not> isl (sg_authority (me_signing M) (chain_root chain) pub (Some chain) now state)))"

definition signs_for :: "menv \<Rightarrow> signer \<Rightarrow> string \<Rightarrow> rat \<Rightarrow> bool" where
  "signs_for M s account now \<longleftrightarrow> trimmed (si_publicKeyB64 s) \<and> si_publicKeyB64 s \<noteq> []
     \<and> (\<forall>bytes sig. si_sign s bytes = Inr sig \<longrightarrow> trimmed sig \<and> sig \<noteq> [] \<and> sg_verify (me_signing M) (si_publicKeyB64 s) bytes sig = Some (Bool True))
     \<and> (case chain_arg (si_certChain s) of
          None \<Rightarrow> own_key (me_signing M) (si_publicKeyB64 s) account now
        | Some chain \<Rightarrow> device_key M (si_publicKeyB64 s) (trim (string_or_empty (si_deviceId s))) chain account now)"

lemma signed_claim_accepted:
  assumes "claim_anchor G c = Inr anchor" and "sg_deriveAccountId G anchor = Some (cl_accountId c)"
    and "sg_verify G (cl_signerPublicKeyB64 c) (cl_bytes c) (cl_sigB64 c) = Some (Bool True)"
    and "\<not> isl (sg_authority G anchor (cl_signerPublicKeyB64 c) (cl_chain c) now state)"
  shows "\<exists>mode. verifySignedAccountClaim G c now state = Inr mode"
  using assms by (auto simp: verifySignedAccountClaim_def split: sum.split)

lemma str_of_Str: "trimmed t \<Longrightarrow> str_of (Str t) = t"
  by (simp add: str_of_def trimmed_eq)

definition commit_params :: "jsval \<Rightarrow> string \<Rightarrow> string \<Rightarrow> string \<Rightarrow> bool" where
  "commit_params p mid tid fp \<longleftrightarrow> getp p ''messageId'' = Str mid \<and> getp p ''messageFingerprint'' = Str fp \<and> getp p ''threadId'' = Str tid
     \<and> is_integer (getp p ''committedAtMs'') \<and> list_all (\<lambda>t. trimmed t \<and> t \<noteq> []) [mid, tid, fp]"

definition whole_epoch :: "'s mnode \<Rightarrow> bool" where
  "whole_epoch n \<longleftrightarrow> (case mn_epoch n of None \<Rightarrow> True | Some (e, _) \<Rightarrow> is_integer (num e))"

lemma built_ack_accepted:
  assumes built: "fst (buildCommitAck HR MR p k) = Inr (Some r)" and signer: "me_signer MR = Some (Inr s)"
    and key: "signs_for M s (me_owner MR) (clockMs H)" and agree: "me_signing MR = me_signing M"
    and epoch: "whole_epoch k" and p: "commit_params p mid tid fp" and me: "trimmed (me_owner MR)" "me_owner MR \<noteq> []"
    and crypto: "me_cryptoProvider M"
  shows "getp r ''messageId'' = Str mid" "getp r ''messageFingerprint'' = Str fp" "getp r ''threadId'' = Str tid"
    and "getp r ''recipientAccountId'' = Str (me_owner MR)" "\<exists>mode. ack_verdict H M r (me_owner MR) = Inr mode"
proof -
  have trim: "trimmed mid" "mid \<noteq> []" "trimmed fp" "fp \<noteq> []" "trimmed tid" "tid \<noteq> []" "trimmed (me_owner MR)" "me_owner MR \<noteq> []"
    and p: "getp p ''messageId'' = Str mid" "getp p ''messageFingerprint'' = Str fp" "getp p ''threadId'' = Str tid" "is_integer (getp p ''committedAtMs'')"
    using p me by (simp_all add: commit_params_def)
  obtain epoch sig where b: "si_sign s (sg_canonical (me_signing MR) (commit_ack_signable (Obj (commit_claim MR s epoch p)))) = Inr sig"
    "new_record MessageCommitAckV1 (ack_raw MR s epoch sig p) = Inr r" "fst (authorityEpoch HR MR k) = Inr epoch"
    by (rule buildCommitAck_built [OF built signer])
  note raw = ack_raw_fields [of MR s epoch sig p]
  note str = ack_strings [OF b(2) raw(10)]
  have s: "trimmed sig" "sig \<noteq> []" using key b(1) by (auto simp: signs_for_def)
  show m: "getp r ''messageId'' = Str mid" "getp r ''messageFingerprint'' = Str fp" "getp r ''threadId'' = Str tid"
    "getp r ''recipientAccountId'' = Str (me_owner MR)"
    using trim by (intro str; simp add: raw p trimmed_eq)+
  have k: "getp r ''signerPublicKeyB64'' = Str (si_publicKeyB64 s)" "getp r ''sig'' = Str sig"
    using key s by (intro str; simp add: raw signs_for_def trimmed_eq)+
  have "getp r ''recipientCertChain'' = getp (ack_raw MR s epoch sig p) ''recipientCertChain''"
    by (rule ack_chain [OF b(2) raw(10)]) (simp add: raw)
  then have chain: "chain_arg (getp r ''recipientCertChain'') = chain_arg (si_certChain s)" by (simp add: raw chain_arg_def)
  have dev: "str_of (getp r ''recipientDeviceId'') = trim (string_or_empty (si_deviceId s))"
    using ack_device [OF b(2) raw(10)] by (simp add: raw str_of_def)
  have whole: "is_integer (getp (ack_raw MR s epoch sig p) ''recipientAuthorityEpoch'')" "is_integer (getp (ack_raw MR s epoch sig p) ''committedAtMs'')"
    unfolding raw by (rule epoch_whole [OF b(3) epoch [unfolded whole_epoch_def]], rule p(4))
  have "commit_ack_signable r = commit_ack_signable (ack_raw MR s epoch sig p)"
    by (rule ack_signature_stable_eq [OF b(2) raw(10) disjI1 [OF whole(1)] whole(2)])
  then have bytes: "commit_ack_signable r = commit_ack_signable (Obj (commit_claim MR s epoch p))" by (simp add: raw)
  have rec: "is_object r" using b(2) by (rule new_recordE) simp
  define c where "c = ack_claim (me_signing M) r"
  have c: "cl_bytes c = sg_canonical (me_signing M) (commit_ack_signable (Obj (commit_claim MR s epoch p)))" "cl_sigB64 c = sig"
    "cl_signerPublicKeyB64 c = si_publicKeyB64 s" "cl_accountId c = me_owner MR" "cl_chain c = chain_arg (si_certChain s)"
    "cl_deviceId c = trim (string_or_empty (si_deviceId s))"
    using key s trim k m by (simp_all add: c_def ack_claim_def bytes chain dev str_of_Str signs_for_def)
  have sig: "sg_verify (me_signing M) (cl_signerPublicKeyB64 c) (cl_bytes c) (cl_sigB64 c) = Some (Bool True)"
    using key b(1) agree by (simp add: signs_for_def c)
  have run: "verifyCommitAckForAcceptance (me_signing M) r (num (clockMs H)) state = verifySignedAccountClaim (me_signing M) c (clockMs H) state" for state
    using ack_kind [OF b(2)] m k s trim rec by (simp add: verifyCommitAckForAcceptance_def object_arg_def Let_def str_of_Str c_def)
  show "\<exists>mode. ack_verdict H M r (me_owner MR) = Inr mode"
  proof (cases "chain_arg (si_certChain s)")
    case None
    then have "\<exists>mode. verifySignedAccountClaim (me_signing M) c (clockMs H) Null = Inr mode"
      using key sig by (intro signed_claim_accepted [where anchor = "si_publicKeyB64 s"]) (simp_all add: claim_anchor_def c signs_for_def own_key_def)
    then show ?thesis using crypto None by (simp add: ack_verdict_def chain run)
  next
    case (Some es)
    then have d: "device_key M (si_publicKeyB64 s) (trim (string_or_empty (si_deviceId s))) es (me_owner MR) (clockMs H)"
      using key by (simp add: signs_for_def)
    then obtain source state where src: "me_revocations M = Some source" "source (me_owner MR) = Inr state"
      "\<not> isl (sg_authority (me_signing M) (chain_root es) (si_publicKeyB64 s) (Some es) (clockMs H) state)"
      by (auto simp: device_key_def split: option.splits sum.splits)
    have "\<exists>mode. verifySignedAccountClaim (me_signing M) c (clockMs H) state = Inr mode"
      using d sig src(3) Some by (intro signed_claim_accepted [where anchor = "chain_root es"]) (simp_all add: claim_anchor_def c device_key_def)
    then show ?thesis using crypto Some src by (simp add: ack_verdict_def chain run)
  qed
qed

section \<open>Completion\<close>

lemma row_of_region: "loadMessages H owner tid s' = loadMessages H owner tid s \<Longrightarrow> row_of H owner tid mid s' = row_of H owner tid mid s"
  by (simp add: row_of_def)

text \<open>Handlers that change no store.\<close>

interpretation same_store: store_law "(=)" by unfold_locales auto

lemma same_storeD: "every (on_messages (=)) m \<Longrightarrow> nd_kv (mn_node (snd (m n))) = nd_kv (mn_node n)"
  by (simp add: every_def on_messages_def)

lemma kv_reported: "nd_kv (mn_node (snd (reported m msg sev n))) = nd_kv (mn_node (snd (m n)))"
proof (cases "m n")
  case (Pair r k)
  have "nd_kv (mn_node (snd (andThen (app_error msg sev) (\<lambda>_. ok None) k))) = nd_kv (mn_node k)"
    by (rule same_storeD) (intro same_store.messages.message_rules)
  then show ?thesis by (cases r) (simp_all add: reported_def Pair)
qed

lemma reported_Inr: "\<exists>x. fst (reported m msg sev n) = Inr x"
  by (cases "m n") (auto simp: reported_def andThen_def app_error_def on_node_def effect_out_def ok_def split: sum.split)

lemma kv_mark_delivered:
  "nd_kv (mn_node (snd (mark_delivered H M t m x n))) = snd (setMessageStatus H (me_owner M) (Str t) (Str m) (Str ''delivered'') Undef (num (clockMs H)) (nd_kv (mn_node n)))"
proof -
  let ?rest = "andThen (\<lambda>n. ok () (forget_sent m (\<lambda>q. qm_threadId q = t \<and> qm_messageId q = m) n)) (\<lambda>_.
       status_event t m ''delivered'' [(''acceptedAtMs'', num (clockMs H))])"
  have f: "mn_node (forget_sent m p k) = mn_node k" for p k
    by (simp add: forget_sent_def discardQueueTracking_def unqueue_def split: option.split)
  have rest: "nd_kv (mn_node (snd (?rest k))) = nd_kv (mn_node k)" for k
    by (rule same_storeD) (intro same_store.messages.message_rules same_store.every_in_memory f)
  let ?rep = "reported (set_status H M t m ''delivered'' Undef (num (clockMs H))) x ''error''"
  obtain v where v: "fst (?rep n) = Inr v" using reported_Inr by blast
  have "snd (mark_delivered H M t m x n) = snd (?rest (snd (?rep n)))"
    using v by (cases "?rep n") (simp add: mark_delivered_def andThen_def [of ?rep])
  then show ?thesis by (simp add: rest kv_reported set_status_def kv_on_store)
qed

context host_laws
begin

lemma delete_pending:
  assumes "trimmed mid" "mid \<noteq> []"
  shows "getPendingCommit H owner (Str mid) (snd (deletePendingCommit H owner (Str mid) s)) = None"
    and "loadMessages H owner tid (snd (deletePendingCommit H owner (Str mid) s)) = loadMessages H owner tid s"
    and "getThread H owner v (snd (deletePendingCommit H owner (Str mid) s)) = getThread H owner v s"
  using assms by (simp_all add: getPendingCommit_def deletePendingCommit_def Let_def nonEmpty_trimmed get_delete loadMessages_def getThread_def
      kCommitPending_def kMessages_def kThread_def)

lemma log_ok_pending:
  assumes "trimmed mid" "mid \<noteq> []"
  shows "log_ok H owner tid (snd (deletePendingCommit H owner (Str mid) s)) = log_ok H owner tid s"
  using assms by (simp add: deletePendingCommit_def Let_def nonEmpty_trimmed get_delete log_ok_def loadMessages_def kCommitPending_def kMessages_def)

end

lemma schedule_run: "\<exists>k'. scheduleCommitSweep H M k = (Inr (), k') \<and> nd_kv (mn_node k') = nd_kv (mn_node k)"
  by (auto simp: scheduleCommitSweep_def andThen_def on_store_reads ok_def on_node_def effect_out_def split: option.split)

lemma kv_accept:
  assumes "getThread H (me_owner M) (getp row ''threadId'') (snd (deletePendingCommit H (me_owner M) (getp rcd ''messageId'') (nd_kv (mn_node k)))) = Some th"
    and "t_threadType th \<noteq> ''group''"
  shows "nd_kv (mn_node (snd (accept_ack H M rcd (Some row) k)))
    = snd (setMessageStatus H (me_owner M) (Str (string_or_empty (getp row ''threadId''))) (Str (sget rcd ''messageId'')) (Str ''delivered'') Undef (num (clockMs H))
        (snd (deletePendingCommit H (me_owner M) (getp rcd ''messageId'') (nd_kv (mn_node k)))))"
proof -
  have d: "drop_pending H M v k = (Inr (fst (deletePendingCommit H (me_owner M) v (nd_kv (mn_node k)))),
      k\<lparr>mn_node := (mn_node k)\<lparr>nd_kv := snd (deletePendingCommit H (me_owner M) v (nd_kv (mn_node k)))\<rparr>\<rparr>)" for v
    by (simp add: drop_pending_def on_store_def on_node_def on_kv_def split: prod.split)
  obtain k' where k': "scheduleCommitSweep H M (snd (drop_pending H M (getp rcd ''messageId'') k)) = (Inr (), k')"
    "nd_kv (mn_node k') = snd (deletePendingCommit H (me_owner M) (getp rcd ''messageId'') (nd_kv (mn_node k)))"
    using schedule_run [of H M "snd (drop_pending H M (getp rcd ''messageId'') k)"] by (auto simp: d)
  show ?thesis
    using k' assms by (simp add: accept_ack_def Let_def when_ok_def andThen_def d on_store_reads kv_mark_delivered)
qed

text \<open>What the sender holds of a message that it sent to a peer and that waits for the proof.\<close>

definition open_commit :: "'s host \<Rightarrow> string \<Rightarrow> string \<Rightarrow> string \<Rightarrow> string \<Rightarrow> string \<Rightarrow> 's \<Rightarrow> bool" where
  "open_commit H owner mid tid fp peer s \<longleftrightarrow> (case getPendingCommit H owner (Str mid) s of None \<Rightarrow> False
     | Some row \<Rightarrow> getp row ''fingerprint'' = Str fp \<and> getp row ''threadId'' = Str tid \<and> getp row ''recipientAccountId'' = Str peer)
     \<and> (case getThread H owner (Str tid) s of None \<Rightarrow> False | Some t \<Rightarrow> t_threadType t \<noteq> ''group'')
     \<and> log_ok H owner tid s
     \<and> (case row_of H owner tid mid s of None \<Rightarrow> False | Some m \<Rightarrow> canTransitionStatus (m_status m) ''delivered'')"

text \<open>
  C9. The proof of reception completes a message of a direct conversation: an acknowledgement that the
  recipient's service builds for a message the sender has open, signed with a key that the sender's verifier takes for
  the recipient's account (its own key, or the key of a device under its chain of certificates where the sender
  can ask for revocations), makes the sender's service delete the open pending commit and set the row of the message,
  which may still become delivered, to delivered.
\<close>

theorem commit_ack_completes:
  assumes H: "host_laws H" and open_row: "open_commit H (me_owner M) mid tid fp (me_owner MR) (nd_kv (mn_node n))"
    and p: "commit_params p mid tid fp" and built: "fst (buildCommitAck HR MR p k) = Inr (Some r)"
    and signer: "me_signer MR = Some (Inr s)" and key: "signs_for M s (me_owner MR) (clockMs H)"
    and agree: "me_signing MR = me_signing M" "me_cryptoProvider M" "trimmed (me_owner MR)" "me_owner MR \<noteq> []"
    and epoch: "whole_epoch k"
  defines "s' \<equiv> nd_kv (mn_node (snd (handleCommitAck H M r (Obj [(''senderAccountId'', Str (me_owner MR))]) n)))"
  shows "getPendingCommit H (me_owner M) (Str mid) s' = None \<and> (\<exists>m. row_of H (me_owner M) tid mid s' = Some m \<and> m_status m = ''delivered'')"
proof -
  let ?owner = "me_owner M" and ?kv = "nd_kv (mn_node n)"
  have q: "trimmed mid" "mid \<noteq> []" "trimmed tid" "tid \<noteq> []" using p by (simp_all add: commit_params_def)
  obtain mode where ack: "getp r ''messageId'' = Str mid" "getp r ''messageFingerprint'' = Str fp" "getp r ''threadId'' = Str tid"
    "getp r ''recipientAccountId'' = Str (me_owner MR)" "ack_verdict H M r (me_owner MR) = Inr mode"
    using built_ack_accepted [OF built signer key agree(1) epoch p agree(3,4,2)] by blast
  obtain row th m where o: "getPendingCommit H ?owner (Str mid) ?kv = Some row" "getp row ''fingerprint'' = Str fp" "getp row ''threadId'' = Str tid"
    "getp row ''recipientAccountId'' = Str (me_owner MR)" "getThread H ?owner (Str tid) ?kv = Some th" "t_threadType th \<noteq> ''group''"
    "log_ok H ?owner tid ?kv" "row_of H ?owner tid mid ?kv = Some m" "canTransitionStatus (m_status m) ''delivered''"
    using open_row by (auto simp: open_commit_def split: option.splits)
  let ?d = "snd (deletePendingCommit H ?owner (Str mid) ?kv)"
  note del = host_laws.delete_pending [OF H q(1,2)] host_laws.log_ok_pending [OF H q(1,2)]
  have sender: "trim (sget (Obj [(''senderAccountId'', Str (me_owner MR))]) ''senderAccountId'') = me_owner MR"
    using agree(3) by (simp add: sget_def getp_def trimmed_eq)
  have "snd (handleCommitAck H M r (Obj [(''senderAccountId'', Str (me_owner MR))]) n) = snd (accept_ack H M r (Some row) (evidence M (me_owner MR) n))"
    using ack o agree(4) by (simp add: handleCommitAck_run Let_def sender claims_own_def pending_of_def names_pending_def)
  then have s': "s' = snd (setMessageStatus H ?owner (Str tid) (Str mid) (Str ''delivered'') Undef (num (clockMs H)) ?d)"
    using kv_accept [of H M row r "evidence M (me_owner MR) n" th] ack o del by (simp add: s'_def sget_def)
  have "row_of H ?owner tid mid ?d = Some m" using o(8) row_of_region [OF del(2)] by simp
  moreover have "nonEmpty H (Str tid) = tid" "nonEmpty H (Str mid) = mid" "nonEmpty H (Str ''delivered'') = ''delivered''"
    using q by (simp_all add: host_laws.nonEmpty_trimmed [OF H])
  ultimately have "row_of H ?owner tid mid s' = Some (status_update H ''delivered'' Undef (num (clockMs H)) m)"
    using host_laws.setMessageStatus_effect(1) [OF H, of ?owner tid ?d mid m "Str tid" "Str mid" "''delivered''" "Str ''delivered''"] del o q
    by (simp add: s' MESSAGE_STATUSES_def)
  moreover have "getPendingCommit H ?owner (Str mid) s' = getPendingCommit H ?owner (Str mid) ?d"
    unfolding s' by (rule host_laws.getPendingCommit_log [OF H everyD [OF host_laws.status_only [OF H]]])
  ultimately show ?thesis using del(1) by (simp add: status_update_def)
qed

lemma bob_ack_built: "fst (buildCommitAck HM (plain_menv ''bob'') bob_params bob_node) = Inr (Some bob_ack)"
  by code_simp

lemma sent_open: "open_commit HM ''me'' ''a1'' ''t1'' ''f1'' ''bob'' sent_store"
  by code_simp

lemma bob_key: "signs_for ME (name_signer ''bob'') ''bob'' (clockMs HM)"
  by (simp add: signs_for_def own_key_def chain_arg_def plain_menv_def name_signing_def name_signer_def trimmed_iff is_ws_def)

text \<open>The phone of \<open>bob\<close>, certified by his account, and a sender that can ask for revocations.\<close>

definition phone_signer :: signer where
  "phone_signer = (name_signer ''phone'')\<lparr>si_deviceId := Str ''phone'',
     si_certChain := Arr [Obj [(''accountIdentityPublicKeyB64'', Str ''bob'')]]\<rparr>"

definition phone_menv :: menv where
  "phone_menv = (plain_menv ''bob'')\<lparr>me_signer := Some (Inr phone_signer)\<rparr>"

definition asking_menv :: menv where
  "asking_menv = ME\<lparr>me_revocations := Some (\<lambda>_. Inr Null)\<rparr>"

definition phone_ack :: jsval where
  "phone_ack = (case fst (buildCommitAck HM phone_menv bob_params bob_node) of Inr (Some r) \<Rightarrow> r | _ \<Rightarrow> Null)"

lemma phone_ack_built: "fst (buildCommitAck HM phone_menv bob_params bob_node) = Inr (Some phone_ack)"
  by code_simp

lemma phone_key: "signs_for asking_menv phone_signer ''bob'' (clockMs HM)"
proof -
  have "trim ''phone'' = ''phone''" "chain_root [Obj [(''accountIdentityPublicKeyB64'', Str ''bob'')]] = ''bob''" by code_simp+
  then show ?thesis
    by (simp add: signs_for_def device_key_def chain_arg_def asking_menv_def phone_signer_def plain_menv_def name_signing_def
        name_signer_def trimmed_iff is_ws_def)
qed

lemma phone_owners: "me_owner phone_menv = ''bob''" "me_owner asking_menv = ''me''"
  by (simp_all add: phone_menv_def asking_menv_def me_owner_def plain_menv_def plain_env_def)

theorem commit_ack_completes_instance:
  "getPendingCommit HM ''me'' (Str ''a1'') (nd_kv (mn_node (snd (handleCommitAck HM ME bob_ack (Obj [(''senderAccountId'', Str ''bob'')]) sent_node)))) = None
   \<and> getPendingCommit HM ''me'' (Str ''a1'') (nd_kv (mn_node (snd (handleCommitAck HM asking_menv phone_ack (Obj [(''senderAccountId'', Str ''bob'')]) sent_node)))) = None"
proof -
  have o: "open_commit HM ''me'' ''a1'' ''t1'' ''f1'' ''bob'' (nd_kv (mn_node sent_node))"
    using sent_open by (simp add: sent_node_def started_def)
  have p: "commit_params bob_params ''a1'' ''t1'' ''f1''" "whole_epoch bob_node" by code_simp+
  have s: "me_signer (plain_menv ''bob'') = Some (Inr (name_signer ''bob''))" "me_signing (plain_menv ''bob'') = me_signing ME" "me_cryptoProvider ME"
    "me_signer phone_menv = Some (Inr phone_signer)" "me_signing phone_menv = me_signing asking_menv" "me_cryptoProvider asking_menv"
    by (simp_all add: plain_menv_def phone_menv_def asking_menv_def)
  have t: "trimmed ''bob''" by code_simp
  show ?thesis
    using commit_ack_completes [OF HM_laws _ p(1) bob_ack_built s(1) _ s(2,3) _ _ p(2)]
      commit_ack_completes [OF HM_laws _ p(1) phone_ack_built s(4) _ s(5,6) _ _ p(2)] o t bob_key phone_key
    by (simp add: phone_owners)
qed

end
