(* ===== verification/CommitRetry.thy ===== *)
theory CommitRetry
  imports MessageSamples
begin

text \<open>
  The retries of messages that wait for the proof of their reception: every sweep takes up each commit that is
  due, and the next retry comes after a bounded time.
\<close>

section \<open>Keys that stay\<close>

definition keeps :: "'s host \<Rightarrow> string set \<Rightarrow> 's \<Rightarrow> 's \<Rightarrow> bool" where
  "keeps H Ks s s' \<longleftrightarrow> (\<forall>k \<in> Ks. kvGet H s' k = kvGet H s k)"

interpretation kept: store_law "keeps H Ks" for H Ks
  by unfold_locales (simp_all add: keeps_def)

lemma only_keeps: "only_under H ps s s' \<Longrightarrow> (\<And>p k. p \<in> set ps \<Longrightarrow> k \<in> Ks \<Longrightarrow> \<not> prefix p k) \<Longrightarrow> keeps H Ks s s'"
  by (auto simp: keeps_def only_under_def)

context host_laws
begin

text \<open>A delivery writes the fan-out cache only.\<close>

lemma delivery_keeps:
  assumes "\<And>k. k \<in> Ks \<Longrightarrow> \<not> prefix ''app:devicefanout/'' k"
  shows "delivery_law (on_messages (keeps H Ks)) H M"
proof -
  have f: "only_under H FANOUT_KEYS a b \<Longrightarrow> keeps H Ks a b" for a b by (rule only_keeps) (use assms in auto)
  have "message_law (on_messages (keeps H Ks))" by (rule kept.messages.message_law_axioms)
  then show ?thesis
    by (rule delivery_law.intro) (intro delivery_law_axioms.intro kept.every_on_store every_mono [OF fanout_only(1) f] every_mono [OF fanout_only(2) f]
      every_mono [OF fanout_only(3) f])
qed

lemma redeliver_keeps:
  assumes "\<And>k. k \<in> Ks \<Longrightarrow> \<not> prefix ''app:devicefanout/'' k"
  shows "every (on_messages (keeps H Ks)) (redeliver H M row payload)"
  unfolding redeliver_def
  by (intro kept.messages.message_rules delivery_law.deliver_steps [OF delivery_keeps [OF assms]])

lemma put_keeps: "kCommitPending owner (nonEmpty H mid) \<notin> Ks \<Longrightarrow> every (keeps H Ks) (putPendingCommit H owner mid t f r a b c d)"
  by (auto simp: every_def putPendingCommit_def Let_def keeps_def throw_def ok_def get_set)

lemma drop_keeps: "kCommitPending (me_owner M) (nonEmpty H mid) \<notin> Ks \<Longrightarrow> every (on_messages (keeps H Ks)) (drop_pending H M mid)"
  unfolding drop_pending_def
  by (rule kept.every_on_store) (auto simp: every_def deletePendingCommit_def Let_def keeps_def get_delete)

lemma retry_keeps:
  assumes "\<And>k. k \<in> Ks \<Longrightarrow> \<not> prefix ''app:devicefanout/'' k" and "kCommitPending (me_owner M) (nonEmpty H (getp row ''messageId'')) \<notin> Ks"
  shows "every (on_messages (keeps H Ks)) (retryPendingCommit H M row)"
  unfolding retryPendingCommit_def
  by (intro kept.messages.message_rules kept.every_on_store put_keeps drop_keeps redeliver_keeps assms)

end

section \<open>One retry\<close>

text \<open>The keys of one commit: its row and its fact.\<close>

definition commit_keys :: "string \<Rightarrow> string \<Rightarrow> string \<Rightarrow> string \<Rightarrow> string set" where
  "commit_keys owner mid tid fp = {kCommitPending owner mid, kOriginalFact owner tid fp}"

definition commit_row_ok :: "jsval \<Rightarrow> string \<Rightarrow> string \<Rightarrow> string \<Rightarrow> bool" where
  "commit_row_ok row mid tid fp \<longleftrightarrow> is_object row \<and> getp row ''messageId'' = Str mid \<and> getp row ''threadId'' = Str tid \<and> getp row ''fingerprint'' = Str fp
     \<and> list_all (\<lambda>t. trimmed t \<and> t \<noteq> []) [mid, tid, fp, sget row ''recipientAccountId'']"

definition fact_there :: "'s host \<Rightarrow> string \<Rightarrow> string \<Rightarrow> string \<Rightarrow> 's \<Rightarrow> bool" where
  "fact_there H owner tid fp s \<longleftrightarrow> (case getOriginalFact H owner (Str tid) (Str fp) s of None \<Rightarrow> False
     | Some f \<Rightarrow> is_object (getp f ''payload'') \<or> is_array (getp f ''payload''))"

lemma retry_base_bounds: "15000 \<le> retry_base (Suc n)" "retry_base n \<le> 1200000" "5000 \<le> retry_base n"
proof -
  have S: "retry_base n \<in> {5000, 15000, 45000, 120000, 300000, 900000, 1200000}" for n
  proof (cases "n < 6")
    case True
    then have "n \<in> {0, 1, 2, 3, 4, 5}" by auto
    then show ?thesis by (auto simp: retry_base_def COMMIT_RETRY_SCHEDULE_MS_def)
  next
    case False
    then show ?thesis by (simp add: retry_base_def COMMIT_RETRY_SCHEDULE_MS_def COMMIT_RETRY_SLOW_TAIL_MS_def)
  qed
  have "retry_base (Suc n) \<noteq> 5000"
  proof (cases "n < 5")
    case True
    then have "n \<in> {0, 1, 2, 3, 4}" by auto
    then show ?thesis by (auto simp: retry_base_def COMMIT_RETRY_SCHEDULE_MS_def)
  next
    case False
    then show ?thesis by (simp add: retry_base_def COMMIT_RETRY_SCHEDULE_MS_def COMMIT_RETRY_SLOW_TAIL_MS_def)
  qed
  with S [of "Suc n"] S [of n] show "15000 \<le> retry_base (Suc n)" "retry_base n \<le> 1200000" "5000 \<le> retry_base n" by auto
qed

lemma retry_delay_bounds:
  assumes "0 \<le> random" "random < 1"
  shows "15000 \<le> commitRetryDelayMs random (Suc n)" "commitRetryDelayMs random n \<le> 1500000"
proof -
  let ?j = "\<lambda>m. retry_base m * COMMIT_RETRY_JITTER_FRAC * random"
  have "0 \<le> ?j m \<and> ?j m \<le> 300000" for m
  proof -
    have "?j m \<le> 300000 * 1"
      by (rule mult_mono) (use retry_base_bounds(2,3) [of m] assms in \<open>auto simp: COMMIT_RETRY_JITTER_FRAC_def\<close>)
    then show ?thesis using retry_base_bounds(3) [of m] assms by (simp add: COMMIT_RETRY_JITTER_FRAC_def)
  qed
  then have f: "0 \<le> (of_int \<lfloor>?j m\<rfloor> :: rat) \<and> (of_int \<lfloor>?j m\<rfloor> :: rat) \<le> 300000" for m
    using of_int_floor_le [of "?j m"] by (meson of_int_0_le_iff order_trans zero_le_floor)
  show "15000 \<le> commitRetryDelayMs random (Suc n)" "commitRetryDelayMs random n \<le> 1500000"
    using f [of "Suc n"] f [of n] retry_base_bounds(1) [of n] retry_base_bounds(2) [of n]
    by (simp_all only: commitRetryDelayMs_def) linarith+
qed

lemma retry_delay_whole: "\<exists>i. commitRetryDelayMs random n = of_int i"
proof -
  have "\<exists>i. retry_base n = of_int i"
  proof (cases "n < 6")
    case True
    then have "n \<in> {0, 1, 2, 3, 4, 5}" by auto
    moreover have "\<exists>i. (numeral k :: rat) = of_int i" for k by (rule exI [of _ "numeral k"]) simp
    ultimately show ?thesis by (auto simp: retry_base_def COMMIT_RETRY_SCHEDULE_MS_def)
  next
    case False
    then have "retry_base n = of_int 1200000" by (simp add: retry_base_def COMMIT_RETRY_SCHEDULE_MS_def COMMIT_RETRY_SLOW_TAIL_MS_def)
    then show ?thesis by blast
  qed
  then show ?thesis by (auto simp: commitRetryDelayMs_def) (metis of_int_add)
qed

text \<open>
  What a retry leaves of a commit: the same claim, one more attempt, and a next time between 15 seconds and 25
  minutes from now.
\<close>

definition retried :: "'s host \<Rightarrow> jsval \<Rightarrow> jsval \<Rightarrow> bool" where
  "retried H row row' \<longleftrightarrow> getp row' ''messageId'' = getp row ''messageId'' \<and> getp row' ''threadId'' = getp row ''threadId''
     \<and> getp row' ''fingerprint'' = getp row ''fingerprint'' \<and> sget row' ''recipientAccountId'' = sget row ''recipientAccountId''
     \<and> getp row' ''attempts'' = num (of_nat (Suc (attempts_of row)))
     \<and> (case getp row' ''nextRetryAtMs'' of Num (Fin t) \<Rightarrow> clockMs H + 15000 \<le> t \<and> t \<le> clockMs H + 1500000 | _ \<Rightarrow> False)"

lemma is_integer_nat: "is_integer (num (of_nat n))"
  by (simp add: floor_of_nat)

lemma settled_run: "settled m n = (Inr (fst (m n)), snd (m n))"
  by (simp add: settled_def split: prod.split)

lemma collect_settled:
  "snd (collect (\<lambda>x. settled (f x)) [] n) = n"
  "snd (collect (\<lambda>x. settled (f x)) (x # xs) n) = snd (collect (\<lambda>x. settled (f x)) xs (snd (f x n)))"
proof -
  have total: "\<exists>ys k. collect (\<lambda>x. settled (f x)) xs n = (Inr ys, k)" for xs n
  proof (induction xs arbitrary: n)
    case (Cons a xs)
    obtain ys k where "collect (\<lambda>x. settled (f x)) xs (snd (f a n)) = (Inr ys, k)" using Cons.IH by blast
    then show ?case by (simp add: ok_def andThen_def settled_run [of "f a"])
  qed (simp add: ok_def)
  show "snd (collect (\<lambda>x. settled (f x)) [] n) = n" by (simp add: ok_def)
  obtain ys k where "collect (\<lambda>x. settled (f x)) xs (snd (f x n)) = (Inr ys, k)" using total by blast
  then show "snd (collect (\<lambda>x. settled (f x)) (x # xs) n) = snd (collect (\<lambda>x. settled (f x)) xs (snd (f x n)))"
    by (simp add: andThen_def settled_run [of "f x"] ok_def)
qed

lemma collect_settled_append:
  "snd (collect (\<lambda>x. settled (f x)) (xs @ ys) n) = snd (collect (\<lambda>x. settled (f x)) ys (snd (collect (\<lambda>x. settled (f x)) xs n)))"
  by (induction xs arbitrary: n) (simp_all add: collect_settled del: collect.simps)

context host_laws
begin

lemma retry_row:
  assumes row: "commit_row_ok row mid tid fp" and whole: "clockMs H = of_int t" and random: "\<And>k. 0 \<le> me_random M k \<and> me_random M k < 1"
  defines "K \<equiv> kCommitPending (me_owner M) mid"
  shows "if fact_there H (me_owner M) tid fp (nd_kv (mn_node n))
    then is_object (kvGet H (nd_kv (mn_node (snd (retryPendingCommit H M row n)))) K)
      \<and> retried H row (kvGet H (nd_kv (mn_node (snd (retryPendingCommit H M row n)))) K)
    else kvGet H (nd_kv (mn_node (snd (retryPendingCommit H M row n)))) K = Null"
proof -
  have r: "getp row ''messageId'' = Str mid" "getp row ''threadId'' = Str tid" "getp row ''fingerprint'' = Str fp" "is_object row"
    "nonEmpty H (Str mid) = mid" "nonEmpty H (Str tid) = tid" "nonEmpty H (Str fp) = fp" "mid \<noteq> []" "tid \<noteq> []" "fp \<noteq> []"
    using row by (simp_all add: commit_row_ok_def nonEmpty_trimmed)
  obtain p where p: "getp row ''recipientAccountId'' = Str p" "trimmed p" "p \<noteq> []"
    using row by (cases "getp row ''recipientAccountId''") (simp_all add: commit_row_ok_def sget_def)
  let ?fact = "getOriginalFact H (me_owner M) (Str tid) (Str fp) (nd_kv (mn_node n))"
  let ?payload = "case ?fact of None \<Rightarrow> Undef | Some f \<Rightarrow> getp f ''payload''"
  let ?there = "is_object ?payload \<or> is_array ?payload"
  have there: "fact_there H (me_owner M) tid fp (nd_kv (mn_node n)) \<longleftrightarrow> ?there" by (simp add: fact_there_def split: option.split)
  show ?thesis
  proof (cases ?there)
    case False
    then have "retryPendingCommit H M row n = andThen (drop_pending H M (Str mid)) (\<lambda>_. ok ()) n"
      by (simp add: retryPendingCommit_def andThen_def on_store_reads r)
    then have "nd_kv (mn_node (snd (retryPendingCommit H M row n))) = kvDelete H (nd_kv (mn_node n)) K"
      by (simp add: snd_then_ok drop_pending_def kv_on_store deletePendingCommit_def Let_def r K_def)
    then show ?thesis using False by (simp add: there get_delete)
  next
    case True
    let ?d = "clockMs H + commitRetryDelayMs (me_random M (mn_draws n)) (Suc (attempts_of row))"
    let ?row = "pending_commit_row H mid tid fp p (getp row ''firstSentAtMs'') (num (of_nat (Suc (attempts_of row)))) (num ?d) (num (clockMs H))"
    let ?put = "putPendingCommit H (me_owner M) (Str mid) (Str tid) (Str fp) (Str p) (getp row ''firstSentAtMs'') (num (of_nat (Suc (attempts_of row)))) (num ?d) (num (clockMs H))"
    let ?k = "n\<lparr>mn_draws := Suc (mn_draws n)\<rparr>"
    let ?n = "?k\<lparr>mn_node := (mn_node ?k)\<lparr>nd_kv := kvSet H (nd_kv (mn_node n)) K ?row\<rparr>\<rparr>"
    have draw: "draw M n = (Inr (me_random M (mn_draws n)), ?k)" by (simp add: draw_def)
    have put: "?put s = (Inr ?row, kvSet H s K ?row)" for s
      using r p by (simp add: putPendingCommit_def Let_def nonEmpty_trimmed ok_def K_def)
    have stored: "on_store ?put ?k = (Inr ?row, ?n)" by (simp add: on_store_def on_node_def on_kv_def put del: of_nat_Suc)
    have "snd (retryPendingCommit H M row n) = snd (andThen (draw M) (\<lambda>random. andThen (on_store (putPendingCommit H (me_owner M) (Str mid) (Str tid) (Str fp)
        (Str p) (getp row ''firstSentAtMs'') (num (of_nat (Suc (attempts_of row))))
        (num (clockMs H + commitRetryDelayMs random (Suc (attempts_of row)))) (num (clockMs H)))) (\<lambda>_. redeliver H M row ?payload)) n)"
      using True by (auto simp add: retryPendingCommit_def andThen_def [of "on_store _"] on_store_reads Let_def r p del: of_nat_Suc)
    also have "\<dots> = snd (redeliver H M row ?payload ?n)"
      unfolding andThen_def [of "draw M"] draw prod.case sum.case andThen_def [of "on_store _"] stored ..
    finally have run: "snd (retryPendingCommit H M row n) = snd (redeliver H M row ?payload ?n)" .
    have "keeps H {K} (nd_kv (mn_node ?n)) (nd_kv (mn_node (snd (retryPendingCommit H M row n))))"
      using everyD [OF redeliver_keeps, of "{K}" ?n M row ?payload]
      unfolding run on_messages_def by (simp add: K_def kCommitPending_def)
    then have k: "kvGet H (nd_kv (mn_node (snd (retryPendingCommit H M row n)))) K = ?row"
      by (simp add: keeps_def)
    obtain i where i: "?d = of_int i" using whole retry_delay_whole by (metis of_int_add)
    have "asInt H (num ?d) (clockMs H) = ?d" unfolding i by (rule asInt_int)
    moreover have "15000 \<le> commitRetryDelayMs (me_random M (mn_draws n)) (Suc (attempts_of row))"
      "commitRetryDelayMs (me_random M (mn_draws n)) (Suc (attempts_of row)) \<le> 1500000"
      using retry_delay_bounds random by blast+
    ultimately have "retried H row ?row"
      using r p is_integer_nat [of "Suc (attempts_of row)"] by (simp add: retried_def pending_commit_row_def getp_def sget_def)
    then show ?thesis using True unfolding k there by (simp add: pending_commit_row_def)
  qed
qed

text \<open>A list of other rows leaves the commit and its fact alone.\<close>

lemma retries_keep:
  assumes "\<And>k. k \<in> Ks \<Longrightarrow> \<not> prefix ''app:devicefanout/'' k"
    and "\<And>r. r \<in> set rows \<Longrightarrow> kCommitPending (me_owner M) (nonEmpty H (getp r ''messageId'')) \<notin> Ks"
  shows "keeps H Ks (nd_kv (mn_node n)) (nd_kv (mn_node (snd (collect (\<lambda>r. settled (retryPendingCommit H M r)) rows n))))"
  using assms(2)
proof (induction rows arbitrary: n)
  case (Cons r rows)
  have "keeps H Ks (nd_kv (mn_node n)) (nd_kv (mn_node (snd (retryPendingCommit H M r n))))"
    using everyD [OF retry_keeps [OF assms(1)], of Ks M r n] Cons.prems [of r] by (simp add: on_messages_def)
  also have "keeps H Ks \<dots> (nd_kv (mn_node (snd (collect (\<lambda>r. settled (retryPendingCommit H M r)) rows (snd (retryPendingCommit H M r n))))))"
    by (rule Cons.IH) (simp add: Cons.prems)
  finally (kept.Q_trans) show ?case by (simp add: collect_settled del: collect.simps)
qed (simp add: collect_settled keeps_def del: collect.simps)

lemma commit_key_of: "commit_row_ok row mid tid fp \<Longrightarrow> kCommitPending owner (nonEmpty H (getp row ''messageId'')) = kCommitPending owner mid"
  by (simp add: commit_row_ok_def nonEmpty_trimmed)

end

section \<open>Every due commit is retried\<close>

text \<open>The rows of the open commits: one row a message, each under its key and with the parts of a claim.\<close>

definition commits_ok :: "'s host \<Rightarrow> string \<Rightarrow> 's \<Rightarrow> bool" where
  "commits_ok H owner s \<longleftrightarrow> distinct (map (\<lambda>r. sget r ''messageId'') (listPendingCommits H owner s))
     \<and> (\<forall>r \<in> set (listPendingCommits H owner s). commit_row_ok r (sget r ''messageId'') (sget r ''threadId'') (sget r ''fingerprint''))"

lemma kCommitPending_eq [simp]: "kCommitPending owner a = kCommitPending owner b \<longleftrightarrow> a = b"
  by (simp add: kCommitPending_def)

lemma kv_schedule: "nd_kv (mn_node (snd (scheduleCommitSweep H M n))) = nd_kv (mn_node n)"
  by (simp add: scheduleCommitSweep_def andThen_def on_store_reads ok_def on_node_def effect_out_def split: option.split)

lemma kv_sweep:
  "nd_kv (mn_node (snd (sweepPendingCommits H M force n))) = nd_kv (mn_node (snd (collect (\<lambda>r. settled (retryPendingCommit H M r))
     (filter (is_due H force) (listPendingCommits H (me_owner M) (nd_kv (mn_node n)))) n)))"
proof -
  let ?rows = "listPendingCommits H (me_owner M) (nd_kv (mn_node n))"
  let ?c = "collect (\<lambda>r. settled (retryPendingCommit H M r)) (filter (is_due H force) ?rows)"
  have "sweepPendingCommits H M force n = andThen ?c (\<lambda>results. andThen (scheduleCommitSweep H M) (\<lambda>_.
      ok (Obj [(''swept'', num (of_nat (length (filter (\<lambda>r. \<not> isl r) results)))), (''pending'', num (of_nat (length ?rows)))]))) n"
    by (simp add: sweepPendingCommits_def andThen_def [of "on_store _"] on_store_reads)
  then show ?thesis
    by (cases "?c n") (auto simp: andThen_def [of ?c] snd_then_ok kv_schedule split: sum.split)
qed

text \<open>
  C13. A sweep takes up every commit that is due. If the message is still in the log of facts, its row afterwards
  makes the same claim with one more attempt and a next retry between 15 seconds and 25 minutes from now; if it
  is not, the row is gone. No failure of the SDK and no other row stands in the way.
\<close>

theorem due_commits_are_retried:
  assumes H: "host_laws H" and whole: "clockMs H = of_int t" and random: "\<And>k. 0 \<le> me_random M k \<and> me_random M k < 1"
    and rows: "commits_ok H (me_owner M) (nd_kv (mn_node n))"
    and row: "row \<in> set (listPendingCommits H (me_owner M) (nd_kv (mn_node n)))" and due: "is_due H force row"
  defines "s' \<equiv> nd_kv (mn_node (snd (sweepPendingCommits H M force n)))"
  shows "if fact_there H (me_owner M) (sget row ''threadId'') (sget row ''fingerprint'') (nd_kv (mn_node n))
    then \<exists>row'. getPendingCommit H (me_owner M) (getp row ''messageId'') s' = Some row' \<and> retried H row row'
    else getPendingCommit H (me_owner M) (getp row ''messageId'') s' = None"
proof -
  let ?mid = "sget row ''messageId''" and ?tid = "sget row ''threadId''" and ?fp = "sget row ''fingerprint''"
  let ?due = "filter (is_due H force) (listPendingCommits H (me_owner M) (nd_kv (mn_node n)))"
  let ?run = "\<lambda>rs k. snd (collect (\<lambda>r. settled (retryPendingCommit H M r)) rs k)"
  let ?K = "kCommitPending (me_owner M) ?mid" and ?F = "kOriginalFact (me_owner M) ?tid ?fp"
  have ok: "commit_row_ok row ?mid ?tid ?fp" using rows row by (simp add: commits_ok_def)
  have others: "kCommitPending (me_owner M) (nonEmpty H (getp r ''messageId'')) = kCommitPending (me_owner M) (sget r ''messageId'')" if "r \<in> set ?due" for r
    by (rule host_laws.commit_key_of [OF H]) (use rows that in \<open>auto simp: commits_ok_def\<close>)
  have "row \<in> set ?due" using row due by simp
  then obtain as bs where split: "?due = as @ row # bs" by (metis split_list)
  have "distinct (map (\<lambda>r. sget r ''messageId'') ?due)" using rows by (simp add: commits_ok_def distinct_map_filter)
  then have d: "\<And>r. r \<in> set as \<union> set bs \<Longrightarrow> sget r ''messageId'' \<noteq> ?mid" unfolding split by (auto simp: image_iff)
  have cache: "\<And>k. k \<in> {?K, ?F} \<Longrightarrow> \<not> prefix ''app:devicefanout/'' k" by (auto simp: kCommitPending_def kOriginalFact_def)
  have apart: "kCommitPending (me_owner M) (nonEmpty H (getp r ''messageId'')) \<notin> {?K, ?F}" if "r \<in> set as \<union> set bs" for r
    using d [OF that] others [of r] that split by (auto simp: kCommitPending_def kOriginalFact_def)
  let ?n1 = "?run as n" and ?n3 = "?run ?due n"
  let ?n2 = "snd (retryPendingCommit H M row ?n1)"
  have k1: "keeps H {?K, ?F} (nd_kv (mn_node n)) (nd_kv (mn_node ?n1))"
    by (rule host_laws.retries_keep [OF H cache apart]) simp_all
  have "?n3 = ?run bs ?n2" unfolding split by (simp add: collect_settled_append collect_settled del: collect.simps)
  moreover have "keeps H {?K, ?F} (nd_kv (mn_node ?n2)) (nd_kv (mn_node (?run bs ?n2)))"
    by (rule host_laws.retries_keep [OF H cache apart]) simp_all
  ultimately have k3: "kvGet H s' ?K = kvGet H (nd_kv (mn_node ?n2)) ?K" by (simp add: s'_def kv_sweep keeps_def)
  have ids: "nonEmpty H (Str ?mid) = ?mid" "nonEmpty H (Str ?tid) = ?tid" "nonEmpty H (Str ?fp) = ?fp" "?mid \<noteq> []" "getp row ''messageId'' = Str ?mid"
    using ok by (simp_all add: commit_row_ok_def host_laws.nonEmpty_trimmed [OF H])
  have f: "fact_there H (me_owner M) ?tid ?fp (nd_kv (mn_node ?n1)) = fact_there H (me_owner M) ?tid ?fp (nd_kv (mn_node n))"
    using k1 by (simp add: fact_there_def getOriginalFact_def Let_def keeps_def ids)
  have g: "getPendingCommit H (me_owner M) (getp row ''messageId'') s' = (if is_object (kvGet H s' ?K) then Some (kvGet H s' ?K) else None)"
    unfolding ids(5) using ids(1,4) by (simp add: getPendingCommit_def Let_def)
  show ?thesis using host_laws.retry_row [OF H ok whole random, of ?n1] unfolding f g k3 by (auto split: if_splits)
qed

definition fact_row_a1 :: jsval where
  "fact_row_a1 = Obj [(''fingerprint'', Str ''f1''), (''payload'', Obj [(''text'', Str ''hi'')])]"

definition due_node :: "(string \<times> jsval) list mnode" where
  "due_node = started (sample_node\<lparr>nd_kv := kvSet HM (kvSet HM sample_store (kCommitPending ''me'' ''a1'')
     (pending_commit_row HM ''a1'' ''t1'' ''f1'' ''bob'' (num 20) (num 0) (num 900) Null)) (kOriginalFact ''me'' ''t1'' ''f1'') fact_row_a1\<rparr>)"

theorem due_commits_are_retried_instance:
  "\<exists>row'. getPendingCommit HM ''me'' (Str ''a1'') (nd_kv (mn_node (snd (sweepPendingCommits HM ME False due_node)))) = Some row'
     \<and> getp row' ''attempts'' = num 1"
proof -
  let ?rows = "listPendingCommits HM (me_owner ME) (nd_kv (mn_node due_node))"
  let ?row = "hd ?rows"
  have rows: "commits_ok HM (me_owner ME) (nd_kv (mn_node due_node))" "?rows \<noteq> []" "is_due HM False ?row" by code_simp+
  have f: "fact_there HM (me_owner ME) (sget ?row ''threadId'') (sget ?row ''fingerprint'') (nd_kv (mn_node due_node))"
    "getp ?row ''messageId'' = Str ''a1''" "attempts_of ?row = 0" by code_simp+
  have w: "clockMs HM = of_int 1000" by (simp add: memory_host_def)
  have r: "\<And>k. 0 \<le> me_random ME k \<and> me_random ME k < 1" by (simp add: plain_menv_def)
  from due_commits_are_retried [OF HM_laws w r rows(1) hd_in_set [OF rows(2)] rows(3)] f show ?thesis
    by (auto simp: retried_def)
qed

end
