(* ===== verification/DeviceReplay.thy ===== *)
theory DeviceReplay
  imports MessageSamples FanoutLaws
begin

text \<open>
  A message is sealed once for each device of a peer: a later attempt replays the sealed object from the cache
  and leaves alone the devices that were reached (\<open>fanOutToPeerDevices\<close>).
\<close>

definition well_sealed :: "string sealed \<Rightarrow> bool" where
  "well_sealed x \<longleftrightarrow> trimmed (sl_payloadBytes x) \<and> sl_payloadBytes x \<noteq> [] \<and> is_object (sl_metadata x) \<and> is_object (sl_address x)
     \<and> chain_or_null (sl_capChain x) = sl_capChain x"

text \<open>What is sealed for a device, and the slot of the message and the device.\<close>

definition device_sealing :: "string \<Rightarrow> string \<Rightarrow> jsval \<Rightarrow> jsval \<Rightarrow> sealing" where
  "device_sealing peer body resolved device = \<lparr> sq_peer = peer, sq_device = trim (sget device ''deviceId''), sq_inbox = trim (sget device ''inboxId''),
     sq_body = body, sq_handshake = handshake_for resolved (trim (sget device ''deviceId'')) \<rparr>"

definition slot :: "menv \<Rightarrow> string \<Rightarrow> string \<Rightarrow> jsval \<Rightarrow> coords" where
  "slot M peer messageId device = \<lparr> cd_ownerAccountId = Str (me_owner M), cd_peerAccountId = Str peer, cd_messageId = Str messageId,
     cd_peerDeviceId = Str (trim (sget device ''deviceId'')) \<rparr>"

definition named_device :: "jsval \<Rightarrow> bool" where
  "named_device device \<longleftrightarrow> trim (sget device ''deviceId'') \<noteq> [] \<and> trim (sget device ''inboxId'') \<noteq> []"

lemma put_succeeds:
  fixes H :: "'s host"
  assumes "named_device device" and "list_all (\<lambda>t. trim t \<noteq> []) [me_owner M, peer, messageId]" and "well_sealed x"
  shows "\<exists>s'. fanoutPut H (\<lambda>b. b) (slot M peer messageId device) x s = (Inr (), s')"
  using assms by (auto simp: fanoutPut_def coordsValid_def coords_strings_def slot_def named_device_def well_sealed_def mkFanoutEntry_def Let_def getp_def
      throw_def ok_def trimmed_eq split: sum.split)

lemma dispatch_kv: "nd_kv (mn_node (snd (dispatch M x n))) = nd_kv (mn_node n)"
  by (simp add: dispatch_def andThen_def on_node_def effect_out_def)

lemma on_store_run: "m (nd_kv (mn_node n)) = (r, s) \<Longrightarrow> on_store m n = (r, n\<lparr>mn_node := (mn_node n)\<lparr>nd_kv := s\<rparr>\<rparr>)"
  by (simp add: on_store_def on_node_def on_kv_def)

lemma on_store_same: "m (nd_kv (mn_node n)) = (r, nd_kv (mn_node n)) \<Longrightarrow> on_store m n = (r, n)"
  by (simp add: on_store_run)

text \<open>The attempts of one device, by what the cache holds for it.\<close>

lemma send_device_cached:
  assumes "named_device device" and "messageId \<noteq> []"
    and "fanoutGet H (\<lambda>b. b) (me_fanoutTtl M) (slot M peer messageId device) (nd_kv (mn_node n)) = (Inr (Some (x, d)), nd_kv (mn_node n))"
  shows "if d then send_device H M peer body messageId resolved device n = (Inr AlreadyDelivered, n)
    else snd (send_device H M peer body messageId resolved device n) = snd (dispatch M x n)"
proof -
  have g: "on_store (fanoutGet H (\<lambda>b. b) (me_fanoutTtl M) (slot M peer messageId device)) n = (Inr (Some (x, d)), n)"
    by (rule on_store_same) (rule assms(3))
  show ?thesis using assms(1,2) g
    by (cases "dispatch M x n") (auto simp: send_device_def Let_def fanout_coords_def slot_def named_device_def andThen_def ok_def throw_def split: sum.splits)
qed

lemma send_device_new:
  assumes "named_device device" and "messageId \<noteq> []"
    and "fanoutGet H (\<lambda>b. b) (me_fanoutTtl M) (slot M peer messageId device) (nd_kv (mn_node n)) = (Inr None, s)"
    and "me_seal M (mn_calls n) (device_sealing peer body resolved device) = Inr x"
    and "fanoutPut H (\<lambda>b. b) (slot M peer messageId device) x s = (Inr (), s')"
  shows "nd_kv (mn_node (snd (send_device H M peer body messageId resolved device n))) = s'"
proof -
  let ?n1 = "n\<lparr>mn_node := (mn_node n)\<lparr>nd_kv := s\<rparr>\<rparr>"
  let ?n2 = "?n1\<lparr>mn_calls := Suc (mn_calls n)\<rparr>"
  let ?n3 = "?n2\<lparr>mn_node := (mn_node ?n2)\<lparr>nd_kv := s'\<rparr>\<rparr>"
  have g: "on_store (fanoutGet H (\<lambda>b. b) (me_fanoutTtl M) (slot M peer messageId device)) n = (Inr None, ?n1)"
    by (rule on_store_run) (rule assms(3))
  have p: "on_store (fanoutPut H (\<lambda>b. b) (slot M peer messageId device) x) ?n2 = (Inr (), ?n3)"
    by (rule on_store_run) (simp add: assms(5))
  have "snd (send_device H M peer body messageId resolved device n) = snd (dispatch M x ?n3)"
    using assms(1,2,4) g p
    by (cases "dispatch M x ?n3") (auto simp: send_device_def Let_def fanout_coords_def slot_def [symmetric] named_device_def andThen_def ok_def throw_def
        seal_def device_sealing_def [symmetric] split: sum.splits)
  then show ?thesis by (simp add: dispatch_kv)
qed

text \<open>
  C12. A message is sealed once for a device. Whatever became of the first attempt, a later one within the
  retention time, after a restart or with a changed SDK as well, hands the identical object to the mesh and seals
  nothing; and once the device is marked as delivered, an attempt does nothing at all.
\<close>

theorem device_sealed_once:
  assumes H: "host_laws H" and device: "named_device device" and ids: "list_all (\<lambda>t. trim t \<noteq> []) [me_owner M, peer, messageId]"
    and first: "fst (fanoutGet H (\<lambda>b. b) (me_fanoutTtl M) (slot M peer messageId device) (nd_kv (mn_node n))) = Inr None"
    and sealed: "me_seal M (mn_calls n) (device_sealing peer body resolved device) = Inr x" "well_sealed x"
    and later: "me_owner M' = me_owner M" "me_fanoutTtl M' = me_fanoutTtl M" "now - clockMs H \<le> me_fanoutTtl M"
  defines "n1 \<equiv> snd (send_device H M peer body messageId resolved device n)"
  defines "n2 \<equiv> snd (on_store (markDelivered H (slot M peer messageId device)) n1)"
  shows "snd (send_device (H\<lparr>clockMs := now\<rparr>) M' peer body' messageId resolved' device n1) = snd (dispatch M' x n1)
    \<and> send_device (H\<lparr>clockMs := now\<rparr>) M' peer body' messageId resolved' device n2 = (Inr AlreadyDelivered, n2)"
proof -
  let ?c = "slot M peer messageId device"
  have c': "slot M' peer messageId device = ?c" by (simp add: slot_def later(1))
  have c: "list_all (\<lambda>t. trim t \<noteq> []) (coords_strings ?c)" "coordsValid ?c" "messageId \<noteq> []"
    using ids device by (auto simp: coords_strings_def coordsValid_def slot_def named_device_def)
  obtain s where s: "fanoutGet H (\<lambda>b. b) (me_fanoutTtl M) ?c (nd_kv (mn_node n)) = (Inr None, s)" using first by (metis prod.collapse)
  obtain s' where s': "fanoutPut H (\<lambda>b. b) ?c x s = (Inr (), s')" using put_succeeds [OF device ids sealed(2), of H s] by (elim exE)
  have kv1: "nd_kv (mn_node n1) = s'" unfolding n1_def by (rule send_device_new [OF device c(3) s sealed(1) s'])
  have w: "trim (sl_payloadBytes x) = sl_payloadBytes x" "is_object (sl_metadata x)" "is_object (sl_address x)" "chain_or_null (sl_capChain x) = sl_capChain x"
    using sealed(2) by (simp_all add: well_sealed_def trimmed_eq)
  obtain s2 where r: "fanoutGet (H\<lparr>clockMs := now\<rparr>) (\<lambda>b. b) (me_fanoutTtl M) ?c s' = (Inr (Some (x, False)), s')"
    "markDelivered H ?c s' = (Inr (), s2)" "fanoutGet (H\<lparr>clockMs := now\<rparr>) (\<lambda>b. b) (me_fanoutTtl M) ?c s2 = (Inr (Some (x, True)), s2)"
    using fanout_replay [OF H s' c(2), of "\<lambda>b. b" now "me_fanoutTtl M"] w later(3) by auto
  have kv2: "nd_kv (mn_node n2) = s2" unfolding n2_def by (simp add: kv_on_store kv1 r(2))
  show ?thesis
    using send_device_cached [OF device c(3), of "H\<lparr>clockMs := now\<rparr>" M' peer n1 x False body' resolved'] r(1)
      send_device_cached [OF device c(3), of "H\<lparr>clockMs := now\<rparr>" M' peer n2 x True body' resolved'] r(3)
    unfolding c' later(2) kv1 kv2 by simp
qed

definition phone :: jsval where
  "phone = Obj [(''deviceId'', Str ''d1''), (''inboxId'', Str ''i1'')]"

definition failing_menv :: menv where
  "failing_menv = ME\<lparr>me_mesh := \<lambda>k x. Inl (Failure False [] ''offline''),
     me_seal := \<lambda>k q. Inr \<lparr> sl_payloadBytes = ''sealed'', sl_metadata = Obj [], sl_capChain = Null, sl_address = Obj [] \<rparr>\<rparr>"

theorem device_sealed_once_instance:
  "nd_out (mn_node (snd (send_device (HM\<lparr>clockMs := 2000\<rparr>) ME ''bob'' ''hi'' ''m1'' Null phone
      (snd (send_device HM failing_menv ''bob'' ''hi'' ''m1'' Null phone (started sample_node))))))
    = [Dispatch ''sealed'' (Obj []), Dispatch ''sealed'' (Obj [])]"
proof -
  let ?x = "\<lparr> sl_payloadBytes = ''sealed'', sl_metadata = Obj [], sl_capChain = Null, sl_address = Obj [] \<rparr>"
  let ?n1 = "snd (send_device HM failing_menv ''bob'' ''hi'' ''m1'' Null phone (started sample_node))"
  have o: "me_owner failing_menv = ''me''" "me_owner ME = me_owner failing_menv" by (simp_all add: failing_menv_def me_owner_def plain_menv_def plain_env_def)
  have d: "named_device phone" "list_all (\<lambda>t. trim t \<noteq> []) [me_owner failing_menv, ''bob'', ''m1'']" unfolding o(1) by code_simp+
  have f: "fst (fanoutGet HM (\<lambda>b. b) (me_fanoutTtl failing_menv) (slot failing_menv ''bob'' ''m1'' phone) (nd_kv (mn_node (started sample_node)))) = Inr None"
    by code_simp
  have w: "well_sealed ?x" by code_simp
  have out: "nd_out (mn_node ?n1) = [Dispatch ''sealed'' (Obj [])]" by code_simp
  have "snd (send_device (HM\<lparr>clockMs := 2000\<rparr>) ME ''bob'' ''hi'' ''m1'' Null phone ?n1) = snd (dispatch ME ?x ?n1)"
    using device_sealed_once [OF HM_laws d f _ w o(2), of "''hi''" Null 2000 "''hi''" Null]
    by (simp add: failing_menv_def plain_menv_def memory_host_def)
  then show ?thesis using out by (simp add: dispatch_def andThen_def on_node_def effect_out_def)
qed

end
