(* ===== verification/DepositPipeline.thy ===== *)
theory DepositPipeline
  imports InboxLogs ServiceNode
begin

text \<open>
  The one path of inbound deposits (\<open>src/server/runtime/InboundDepositPipeline.js\<close>, \<open>depositIdentity.js\<close>):
  each deposit is decrypted, staged, applied and marked before the next, and what cannot be decrypted yet is
  kept and tried again. Submissions, sweeps and retries are chained on one queue in the code, so each is one
  step here, and the flag \<open>#redraining\<close> is never seen set.
\<close>

section \<open>The collaborators\<close>

text \<open>
  The services and logs that the constructor is given; all of them may throw. \<open>po_decrypt\<close> is
  \<open>peerLinkProtocol.processDeposit\<close>, and \<open>po_now\<close> reads \<open>Date.now()\<close>.
\<close>

record 'n processedLog =
  pl_has :: "string \<Rightarrow> string \<Rightarrow> ('n, bool) op"
  pl_mark :: "string \<Rightarrow> string \<Rightarrow> ('n, unit) op"

record 'n applyOutbox =
  ob_stage :: "string \<Rightarrow> string \<Rightarrow> jsval \<Rightarrow> ('n, unit) op"
  ob_markApplied :: "string \<Rightarrow> string \<Rightarrow> ('n, unit) op"
  ob_recordApplyFailure :: "string \<Rightarrow> string \<Rightarrow> rat \<Rightarrow> ('n, rat \<times> jsval) op"
  ob_listPending :: "string \<Rightarrow> ('n, jsval list) op"

record 'n ports =
  po_now :: rat
  po_decrypt :: "jsval \<Rightarrow> ('n, jsval) op"
  po_applyUserMessage :: "jsval \<Rightarrow> ('n, unit) op"
  po_processDeposit :: "jsval \<Rightarrow> ('n, unit) op"
  po_log :: "'n processedLog option"
  po_outbox :: "'n applyOutbox option"
  po_maxPending :: nat
  po_maxRetainAttempts :: nat

section \<open>One deposit\<close>

definition frame_body :: "jsval \<Rightarrow> jsval" where
  "frame_body frame = (let body = getp frame ''body'' in if is_object body \<or> is_array body then body else frame)"

text \<open>The mailbox and the id: the sequence number where there is one, else the id of the event.\<close>

definition depositIdentity :: "jsval \<Rightarrow> string \<times> string" where
  "depositIdentity frame =
     (let body = frame_body frame; seq = getp body ''seq'' in
      (trim (sget body ''mailboxId''),
       if is_integer seq \<and> (case seq of Num (Fin r) \<Rightarrow> r \<ge> 0 | _ \<Rightarrow> False) then ''seq:'' @ js_string seq
       else trim (sget body ''eventId'')))"

definition frameCiphertext :: "jsval \<Rightarrow> string" where
  "frameCiphertext frame = sget (frame_body frame) ''ciphertextB64''"

record outcome =
  oc_consumed :: bool
  oc_decryptOk :: bool
  oc_alreadyProcessed :: bool
  oc_applied :: bool
  oc_durable :: bool

text \<open>\<open>try { await m; done = true } catch { }\<close>.\<close>

definition attempt :: "('n, 'a) op \<Rightarrow> ('n, bool) op" where
  "attempt m = catching (andThen m (\<lambda>_. ok True)) False"

definition already_processed :: "'n ports \<Rightarrow> string \<Rightarrow> string \<Rightarrow> ('n, bool) op" where
  "already_processed P mailboxId dedupId =
     (case po_log P of Some l \<Rightarrow> if dedupId \<noteq> [] then catching (pl_has l mailboxId dedupId) False else ok False | None \<Rightarrow> ok False)"

definition stage_message :: "'n ports \<Rightarrow> string \<Rightarrow> string \<Rightarrow> jsval \<Rightarrow> ('n, bool) op" where
  "stage_message P mailboxId dedupId userMessage =
     (case po_outbox P of Some b \<Rightarrow> if truthy userMessage then attempt (ob_stage b mailboxId dedupId userMessage) else ok True | None \<Rightarrow> ok True)"

definition markOutboxApplied :: "'n applyOutbox \<Rightarrow> string \<Rightarrow> string \<Rightarrow> ('n, unit) op" where
  "markOutboxApplied b mailboxId dedupId = catching (ob_markApplied b mailboxId dedupId) ()"

definition recordOutboxFailure :: "'n applyOutbox \<Rightarrow> string \<Rightarrow> string \<Rightarrow> rat \<Rightarrow> ('n, rat \<times> jsval) op" where
  "recordOutboxFailure b mailboxId dedupId nowMs = catching (ob_recordApplyFailure b mailboxId dedupId nowMs) (0, Null)"

text \<open>The staged copy is dropped when the message was applied; otherwise the failure is counted.\<close>

definition reconcile :: "'n ports \<Rightarrow> string \<Rightarrow> string \<Rightarrow> bool \<Rightarrow> ('n, unit) op" where
  "reconcile P mailboxId dedupId userApplied =
     (case po_outbox P of None \<Rightarrow> ok ()
      | Some b \<Rightarrow> if userApplied then markOutboxApplied b mailboxId dedupId
          else andThen (recordOutboxFailure b mailboxId dedupId (po_now P)) (\<lambda>_. ok ()))"

definition mark_processed :: "'n ports \<Rightarrow> string \<Rightarrow> string \<Rightarrow> ('n, unit) op" where
  "mark_processed P mailboxId dedupId =
     (case po_log P of Some l \<Rightarrow> if dedupId \<noteq> [] then catching (pl_mark l mailboxId dedupId) () else ok () | None \<Rightarrow> ok ())"

definition apply_decrypted :: "'n ports \<Rightarrow> jsval \<Rightarrow> string \<Rightarrow> string \<Rightarrow> jsval \<Rightarrow> ('n, outcome) op" where
  "apply_decrypted P frame mailboxId dedupId status =
     (let consumed = truthy (getp status ''consumed''); decryptOk = truthy (getp status ''decryptOk'');
          userMessage = getp status ''userMessage''; has = truthy userMessage in
      andThen (stage_message P mailboxId dedupId userMessage) (\<lambda>staged.
      andThen (if has then attempt (po_applyUserMessage P userMessage) else ok False) (\<lambda>userApplied.
      andThen (attempt (po_processDeposit P frame)) (\<lambda>plainApplied.
      andThen (when_ok (has \<and> staged) (reconcile P mailboxId dedupId userApplied)) (\<lambda>_.
      andThen (when_ok (decryptOk \<and> (has \<longrightarrow> staged \<or> userApplied)) (mark_processed P mailboxId dedupId)) (\<lambda>_.
        ok \<lparr> oc_consumed = consumed, oc_decryptOk = decryptOk, oc_alreadyProcessed = False,
             oc_applied = (has \<longrightarrow> userApplied) \<and> plainApplied, oc_durable = (if has then staged \<or> userApplied else consumed) \<rparr>))))))"

definition processOne :: "'n ports \<Rightarrow> jsval \<Rightarrow> ('n, outcome) op" where
  "processOne P frame =
     (case depositIdentity frame of (mailboxId, dedupId) \<Rightarrow>
      andThen (already_processed P mailboxId dedupId) (\<lambda>already.
        if already then ok \<lparr> oc_consumed = True, oc_decryptOk = False, oc_alreadyProcessed = True, oc_applied = False, oc_durable = True \<rparr>
        else andThen (catching (po_decrypt P frame) Null) (apply_decrypted P frame mailboxId dedupId)))"

section \<open>The retained deposits\<close>

text \<open>\<open>#pending\<close> in order of insertion: under the key of a deposit its frame and how often it was fed again.\<close>

record 'n pipeline =
  pi_node :: 'n
  pi_pending :: "(string \<times> jsval \<times> nat) list"

definition pending_key :: "jsval \<Rightarrow> string" where
  "pending_key frame = (case depositIdentity frame of (mailboxId, dedupId) \<Rightarrow> mailboxId @ '':'' @ dedupId)"

definition handled :: "outcome \<Rightarrow> bool" where
  "handled r \<longleftrightarrow> oc_consumed r \<or> oc_alreadyProcessed r"

definition updatePending :: "'n ports \<Rightarrow> jsval \<Rightarrow> outcome \<Rightarrow> (string \<times> jsval \<times> nat) list \<Rightarrow> (string \<times> jsval \<times> nat) list" where
  "updatePending P frame result pending =
     (let key = pending_key frame in
      if snd (depositIdentity frame) = [] then pending
      else if handled result then AList.delete key pending
      else if frameCiphertext frame = [] \<or> map_of pending key \<noteq> None then pending
      else (if length pending \<ge> po_maxPending P then drop 1 pending else pending) @ [(key, frame, 0)])"

text \<open>One retained deposit is fed again; whether that made progress.\<close>

definition redrain_one :: "'n ports \<Rightarrow> string \<times> jsval \<times> nat \<Rightarrow> 'n pipeline \<Rightarrow> bool \<times> 'n pipeline" where
  "redrain_one P entry x = (case entry of (key, frame, attempts) \<Rightarrow>
     case processOne P frame (pi_node x) of (r, n) \<Rightarrow>
       if (case r of Inr d \<Rightarrow> handled d | Inl _ \<Rightarrow> False) then (True, \<lparr> pi_node = n, pi_pending = AList.delete key (pi_pending x) \<rparr>)
       else (False, \<lparr> pi_node = n, pi_pending =
         (if Suc attempts \<ge> po_maxRetainAttempts P then AList.delete key (pi_pending x)
          else map_ran (\<lambda>k (f, a). if k = key then (f, Suc attempts) else (f, a)) (pi_pending x)) \<rparr>))"

fun redrain_pass :: "'n ports \<Rightarrow> (string \<times> jsval \<times> nat) list \<Rightarrow> 'n pipeline \<Rightarrow> bool \<times> 'n pipeline" where
  "redrain_pass P [] x = (False, x)"
| "redrain_pass P (entry # entries) x =
     (case redrain_one P entry x of (p, y) \<Rightarrow> case redrain_pass P entries y of (q, z) \<Rightarrow> (p \<or> q, z))"

lemma length_delete: "length (AList.delete k xs) \<le> length xs" "(k, v) \<in> set xs \<Longrightarrow> length (AList.delete k xs) < length xs"
  by (auto simp: AList.delete_eq intro: length_filter_less)

lemma length_map_ran [simp]: "length (map_ran f xs) = length xs"
  by (simp add: map_ran_def)

lemma redrain_one_shrinks:
  "length (pi_pending (snd (redrain_one P e x))) \<le> length (pi_pending x)"
  "fst (redrain_one P e x) \<Longrightarrow> fst e \<in> fst ` set (pi_pending x) \<Longrightarrow> length (pi_pending (snd (redrain_one P e x))) < length (pi_pending x)"
  "fst e \<in> fst ` set (pi_pending x) \<Longrightarrow> length (pi_pending (snd (redrain_one P e x))) < length (pi_pending x) \<or> map fst (pi_pending (snd (redrain_one P e x))) = map fst (pi_pending x)"
  by (auto simp: redrain_one_def map_ran_def intro: length_delete split: prod.split)

lemma redrain_pass_le: "length (pi_pending (snd (redrain_pass P es x))) \<le> length (pi_pending x)"
proof (induction es arbitrary: x)
  case (Cons e es)
  have "length (pi_pending (snd (redrain_pass P es (snd (redrain_one P e x))))) \<le> length (pi_pending x)"
    using Cons.IH redrain_one_shrinks(1) le_trans by blast
  then show ?case by (simp add: split_beta)
qed simp

text \<open>A pass that made progress leaves fewer deposits, so the loop ends.\<close>

lemma redrain_pass_shrinks:
  assumes "fst (redrain_pass P es x)" and "length (pi_pending x) \<le> n" and "fst ` set es \<subseteq> fst ` set (pi_pending x) \<or> length (pi_pending x) < n"
  shows "length (pi_pending (snd (redrain_pass P es x))) < n"
  using assms
proof (induction es arbitrary: x)
  case (Cons e es)
  let ?y = "snd (redrain_one P e x)"
  have le: "length (pi_pending ?y) \<le> n" using redrain_one_shrinks(1) [of P e x] Cons.prems(2) by simp
  have keys: "fst ` set es \<subseteq> fst ` set (pi_pending ?y) \<or> length (pi_pending ?y) < n"
    using redrain_one_shrinks(1) [of P e x] redrain_one_shrinks(3) [of e x P] Cons.prems(2,3) by (auto simp flip: set_map)
  have pass: "redrain_pass P (e # es) x = (fst (redrain_one P e x) \<or> fst (redrain_pass P es ?y), snd (redrain_pass P es ?y))"
    by (simp add: split_beta)
  show ?case
  proof (cases "fst (redrain_pass P es ?y)")
    case True then show ?thesis using Cons.IH [OF True le keys] pass by simp
  next
    case False
    then have "fst (redrain_one P e x)" using Cons.prems(1) pass by simp
    then have "length (pi_pending ?y) < n"
      using redrain_one_shrinks(1) [of P e x] redrain_one_shrinks(2) [of P e x] Cons.prems(2,3) by fastforce
    then show ?thesis using redrain_pass_le [of P es ?y] pass by simp
  qed
qed simp

lemma redrain_measure: "(True, y) = redrain_pass P (pi_pending x) x \<Longrightarrow> length (pi_pending y) < length (pi_pending x)"
  using redrain_pass_shrinks [of P "pi_pending x" x "length (pi_pending x)"] by (cases "redrain_pass P (pi_pending x) x") auto

function redrain :: "'n ports \<Rightarrow> 'n pipeline \<Rightarrow> 'n pipeline" where
  "redrain P x = (case redrain_pass P (pi_pending x) x of (progress, y) \<Rightarrow> if progress then redrain P y else y)"
  by pat_completeness auto

termination
  by (relation "measure (\<lambda>(P, x). length (pi_pending x))") (auto dest: redrain_measure)

declare redrain.simps [simp del]

section \<open>The queue\<close>

definition submit :: "'n ports \<Rightarrow> jsval \<Rightarrow> 'n pipeline \<Rightarrow> (js_error + outcome) \<times> 'n pipeline" where
  "submit P frame x = (case processOne P frame (pi_node x) of
       (Inl e, n) \<Rightarrow> (Inl e, x\<lparr>pi_node := n\<rparr>)
     | (Inr r, n) \<Rightarrow>
         let y = \<lparr> pi_node = n, pi_pending = updatePending P frame r (pi_pending x) \<rparr> in
         (Inr r, if oc_consumed r \<and> \<not> oc_alreadyProcessed r \<and> pi_pending y \<noteq> [] then redrain P y else y))"

definition sweep :: "'n ports \<Rightarrow> 'n pipeline \<Rightarrow> 'n pipeline" where
  "sweep P x = (if pi_pending x = [] then x else redrain P x)"

text \<open>Messages that were staged and not applied are applied again, up to the bounds of \<open>retryBounds\<close>.\<close>

record retryBounds =
  rb_maxAttempts :: rat
  rb_maxAgeMs :: rat
  rb_minAttemptsForAge :: rat
  rb_nowMs :: rat

record quarantined =
  qu_dedupId :: string
  qu_attempts :: rat
  qu_ageMs :: rat
  qu_reason :: string

datatype retry_result = Skipped | Applied string | Kept | Quarantined quarantined

definition poison :: "retryBounds \<Rightarrow> string \<Rightarrow> rat \<times> jsval \<Rightarrow> quarantined option" where
  "poison b dedupId res = (case res of (attempts, firstStagedAtMs) \<Rightarrow>
     let ageMs = (case firstStagedAtMs of Num (Fin r) \<Rightarrow> max 0 (rb_nowMs b - r) | _ \<Rightarrow> 0);
         overAttempts = rb_maxAttempts b > 0 \<and> attempts \<ge> rb_maxAttempts b;
         overAge = rb_maxAgeMs b > 0 \<and> ageMs \<ge> rb_maxAgeMs b \<and> \<not> (rb_minAttemptsForAge b > 0 \<and> attempts < rb_minAttemptsForAge b) in
     if overAttempts \<or> overAge
     then Some \<lparr> qu_dedupId = dedupId, qu_attempts = attempts, qu_ageMs = ageMs, qu_reason = (if overAge then ''age'' else ''attempts'') \<rparr>
     else None)"

definition retry_entry :: "'n ports \<Rightarrow> 'n applyOutbox \<Rightarrow> string \<Rightarrow> retryBounds \<Rightarrow> jsval \<Rightarrow> ('n, retry_result) op" where
  "retry_entry P b mailboxId bounds entry =
     (let dedupId = sget entry ''dedupId'' in
      if dedupId = [] then ok Skipped
      else andThen (attempt (po_applyUserMessage P (getp entry ''userMessage''))) (\<lambda>done.
        if done then andThen (markOutboxApplied b mailboxId dedupId) (\<lambda>_. ok (Applied dedupId))
        else andThen (recordOutboxFailure b mailboxId dedupId (rb_nowMs bounds)) (\<lambda>res.
          case poison bounds dedupId res of None \<Rightarrow> ok Kept
          | Some q \<Rightarrow> andThen (markOutboxApplied b mailboxId dedupId) (\<lambda>_. ok (Quarantined q)))))"

fun retry_entries :: "'n ports \<Rightarrow> 'n applyOutbox \<Rightarrow> string \<Rightarrow> retryBounds \<Rightarrow> jsval list \<Rightarrow> ('n, retry_result list) op" where
  "retry_entries P b mailboxId bounds [] = ok []"
| "retry_entries P b mailboxId bounds (e # es) =
     andThen (retry_entry P b mailboxId bounds e) (\<lambda>r. andThen (retry_entries P b mailboxId bounds es) (\<lambda>rs. ok (r # rs)))"

definition applied_of :: "retry_result list \<Rightarrow> string list" where
  "applied_of rs = concat (map (\<lambda>r. case r of Applied d \<Rightarrow> [d] | _ \<Rightarrow> []) rs)"

definition quarantined_of :: "retry_result list \<Rightarrow> quarantined list" where
  "quarantined_of rs = concat (map (\<lambda>r. case r of Quarantined q \<Rightarrow> [q] | _ \<Rightarrow> []) rs)"

definition retryApplyOutbox :: "'n ports \<Rightarrow> string \<Rightarrow> retryBounds \<Rightarrow> ('n, string list \<times> quarantined list) op" where
  "retryApplyOutbox P mailboxId bounds =
     (case po_outbox P of None \<Rightarrow> ok ([], [])
      | Some b \<Rightarrow> andThen (catching (ob_listPending b mailboxId) []) (\<lambda>entries.
          andThen (retry_entries P b mailboxId bounds entries) (\<lambda>rs. ok (applied_of rs, quarantined_of rs))))"

definition on_pipeline :: "('n, 'a) op \<Rightarrow> ('n pipeline, 'a) op" where
  "on_pipeline m x = (case m (pi_node x) of (r, n) \<Rightarrow> (r, x\<lparr>pi_node := n\<rparr>))"

end
