(* ===== verification/Catchup.thy ===== *)
theory Catchup
  imports DepositPipeline "HOL-Library.While_Combinator"
begin

text \<open>
  Catching up with the inbox (\<open>src/server/services/InboxCatchupService.js\<close>) and the live push
  (\<open>src/server/runtime/MailboxPushBridge.js\<close>, \<open>src/server/inbox/durableMode.js\<close>). The mailbox of the SDK is
  the field \<open>ce_mailbox\<close> of the surroundings, over a state of its own. A drain reads one time of the clock;
  requests for a drain while one runs are not modelled, since a drain is one step.
\<close>

section \<open>The surroundings\<close>

record 'w mailbox =
  mb_list :: "string \<Rightarrow> jsval \<Rightarrow> nat \<Rightarrow> ('w, jsval) op"
  mb_fetch :: "string \<Rightarrow> string \<Rightarrow> ('w, jsval) op"
  mb_ack :: "string \<Rightarrow> string \<Rightarrow> ('w, unit) op"
  mb_cursorAck :: "string \<Rightarrow> rat \<Rightarrow> ('w, unit) op"

record 'n attemptLog =
  al_forget :: "string \<Rightarrow> string \<Rightarrow> ('n, unit) op"
  al_recordAttempt :: "string \<Rightarrow> string \<Rightarrow> rat \<Rightarrow> ('n, rat) op"
  al_firstSeenAtMs :: "string \<Rightarrow> string \<Rightarrow> ('n, rat) op"
  al_clearAttempts :: "string \<Rightarrow> string \<Rightarrow> ('n, unit) op"

record ('n, 'w) catchupEnv =
  ce_ports :: "'n ports"
  ce_mailbox :: "'w mailbox"
  ce_attemptLog :: "'n attemptLog option"
  ce_emit :: "string \<Rightarrow> jsval \<Rightarrow> ('n, unit) op"
  ce_session :: jsval
  ce_mailboxId :: string
  ce_pageLimit :: nat
  ce_maxDecryptAttempts :: rat
  ce_maxQuarantineAgeMs :: rat
  ce_now :: rat

definition DEFAULT_PAGE_LIMIT :: nat where "DEFAULT_PAGE_LIMIT = 50"
definition DEFAULT_MAX_DECRYPT_ATTEMPTS :: rat where "DEFAULT_MAX_DECRYPT_ATTEMPTS = 8"
definition DEFAULT_MAX_QUARANTINE_AGE_MS :: rat where "DEFAULT_MAX_QUARANTINE_AGE_MS = 30 * 60 * 1000"
definition QUARANTINE_MIN_ATTEMPTS_FOR_AGE :: rat where "QUARANTINE_MIN_ATTEMPTS_FOR_AGE = 3"
definition DECRYPT_RETRY_BACKOFF_MS :: rat where "DECRYPT_RETRY_BACKOFF_MS = 15 * 1000"
definition DECRYPT_BACKOFF_AFTER_ATTEMPTS :: rat where "DECRYPT_BACKOFF_AFTER_ATTEMPTS = 3"

text \<open>What the node advertises in its session.\<close>

definition capability :: "string \<Rightarrow> jsval \<Rightarrow> bool" where
  "capability name info \<longleftrightarrow> getp (getp info ''capabilities'') name = Bool True"

definition nodeAdvertisesDurableInbox :: "jsval \<Rightarrow> bool" where "nodeAdvertisesDurableInbox = capability ''durableInbox''"
definition nodeEnablesMultiDeviceFanout :: "jsval \<Rightarrow> bool" where "nodeEnablesMultiDeviceFanout = capability ''multiDeviceFanout''"
definition nodeRequiresProvenDevice :: "jsval \<Rightarrow> bool" where "nodeRequiresProvenDevice = nodeEnablesMultiDeviceFanout"
definition nodeSupportsDeviceLinking :: "jsval \<Rightarrow> bool" where "nodeSupportsDeviceLinking = capability ''delegatedDevices''"

record ('n, 'w) catchup =
  cu_pipe :: "'n pipeline"
  cu_home :: 'w
  cu_backoff :: "(string \<times> rat) list"

type_synonym ('n, 'w, 'a) drain = "(('n, 'w) catchup, 'a) op"

definition on_home :: "('w, 'a) op \<Rightarrow> ('n, 'w, 'a) drain" where
  "on_home m x = (case m (cu_home x) of (r, w) \<Rightarrow> (r, x\<lparr>cu_home := w\<rparr>))"

definition on_inner :: "('n, 'a) op \<Rightarrow> ('n, 'w, 'a) drain" where
  "on_inner m x = (case on_pipeline m (cu_pipe x) of (r, p) \<Rightarrow> (r, x\<lparr>cu_pipe := p\<rparr>))"

definition submitted :: "('n, 'w) catchupEnv \<Rightarrow> jsval \<Rightarrow> ('n, 'w, bool) drain" where
  "submitted E frame x = (case submit (ce_ports E) frame (cu_pipe x) of
     (r, p) \<Rightarrow> (Inr (case r of Inl _ \<Rightarrow> False | Inr d \<Rightarrow> oc_durable d \<or> oc_alreadyProcessed d), x\<lparr>cu_pipe := p\<rparr>))"

section \<open>Notices and backoff\<close>

definition quarantine_event :: "('n, 'w) catchupEnv \<Rightarrow> rat option \<Rightarrow> string \<Rightarrow> rat \<Rightarrow> rat \<Rightarrow> string \<Rightarrow> js_error + jsval" where
  "quarantine_event E seq eventId attempts ageMs reason = new_record MailboxDepositQuarantinedEvent (Obj [(''mailboxId'', Str (ce_mailboxId E)),
     (''seq'', case seq of None \<Rightarrow> Null | Some s \<Rightarrow> num s), (''eventId'', Str eventId),
     (''attempts'', if is_integer (num attempts) then num attempts else num 0), (''ageMs'', num (of_int \<lfloor>ageMs + 1 / 2\<rfloor>)),
     (''reason'', Str (if reason = ''age'' then ''age'' else ''attempts''))])"

definition emitQuarantined :: "('n, 'w) catchupEnv \<Rightarrow> rat option \<Rightarrow> string \<Rightarrow> rat \<Rightarrow> rat \<Rightarrow> string \<Rightarrow> ('n, 'w, unit) drain" where
  "emitQuarantined E seq eventId attempts ageMs reason = on_inner (catching
     (andThen (lift_result (quarantine_event E seq eventId attempts ageMs reason)) (ce_emit E ''mailbox.deposit.quarantined'')) ())"

definition drop_backoff :: "string \<Rightarrow> ('n, 'w, unit) drain" where
  "drop_backoff key x = ok () (x\<lparr>cu_backoff := AList.delete key (cu_backoff x)\<rparr>)"

definition in_backoff :: "('n, 'w) catchupEnv \<Rightarrow> string \<Rightarrow> ('n, 'w) catchup \<Rightarrow> bool" where
  "in_backoff E key x = (case map_of (cu_backoff x) key of None \<Rightarrow> False | Some until \<Rightarrow> ce_now E < until)"

definition arm_backoff :: "('n, 'w) catchupEnv \<Rightarrow> string \<Rightarrow> rat \<Rightarrow> ('n, 'w, unit) drain" where
  "arm_backoff E key attempts x = ok ()
     (if attempts < DECRYPT_BACKOFF_AFTER_ATTEMPTS then x
      else let b = AList.update key (ce_now E + DECRYPT_RETRY_BACKOFF_MS) (cu_backoff x) in
        x\<lparr>cu_backoff := (if length b > 16384 then filter (\<lambda>(k, until). ce_now E < until) b else b)\<rparr>)"

text \<open>An attempt that failed is counted; the reason for which it is the last one, if it is.\<close>

definition age_of :: "('n, 'w) catchupEnv \<Rightarrow> rat \<Rightarrow> rat" where
  "age_of E firstSeen = (if firstSeen > 0 then ce_now E - firstSeen else 0)"

definition bound_hit :: "('n, 'w) catchupEnv \<Rightarrow> rat \<Rightarrow> rat \<Rightarrow> string option" where
  "bound_hit E attempts firstSeen =
     (if attempts \<ge> ce_maxDecryptAttempts E then Some ''attempts''
      else if firstSeen > 0 \<and> age_of E firstSeen \<ge> ce_maxQuarantineAgeMs E \<and> attempts \<ge> QUARANTINE_MIN_ATTEMPTS_FOR_AGE
      then Some ''age'' else None)"

text \<open>The failure of one deposit. \<open>give_up\<close> runs after the notice when a bound is hit; the answer is whether it was.\<close>

definition count_failure :: "('n, 'w) catchupEnv \<Rightarrow> rat option \<Rightarrow> string \<Rightarrow> string \<Rightarrow> ('n attemptLog \<Rightarrow> ('n, 'w, unit) drain) \<Rightarrow> ('n, 'w, bool) drain" where
  "count_failure E seq eventId key give_up =
     (case ce_attemptLog E of None \<Rightarrow> ok False
      | Some l \<Rightarrow>
        andThen (catching (andThen (on_inner (al_recordAttempt l (ce_mailboxId E) key (ce_now E))) (\<lambda>a. ok (Some a))) None) (\<lambda>recorded. case recorded of
          None \<Rightarrow> ok False
        | Some attempts \<Rightarrow>
          andThen (on_inner (catching (al_firstSeenAtMs l (ce_mailboxId E) key) 0)) (\<lambda>firstSeen.
            case bound_hit E attempts firstSeen of
              Some reason \<Rightarrow> andThen (emitQuarantined E seq eventId attempts (age_of E firstSeen) reason) (\<lambda>_.
                andThen (give_up l) (\<lambda>_. ok True))
            | None \<Rightarrow> andThen (arm_backoff E key attempts) (\<lambda>_. ok False))))"

definition seq_key :: "rat \<Rightarrow> string" where
  "seq_key seq = ''seq:'' @ rat_string seq"

definition handleDurableFailure :: "('n, 'w) catchupEnv \<Rightarrow> rat \<Rightarrow> ('n, 'w, bool) drain" where
  "handleDurableFailure E seq = count_failure E (Some seq) [] (seq_key seq) (\<lambda>l.
     andThen (on_inner (catching (al_clearAttempts l (ce_mailboxId E) (seq_key seq)) ())) (\<lambda>_.
     andThen (on_inner (catching (al_forget l (ce_mailboxId E) (seq_key seq)) ())) (\<lambda>_.
       drop_backoff (seq_key seq))))"

section \<open>A durable home\<close>

text \<open>
  \<open>throughSeq\<close> is the highest sequence number up to which everything was consumed or given up, \<open>contiguous\<close>
  whether no gap was met yet, \<open>blocked\<close> whether the pass leaves something for the next drain.
\<close>

record drainPass =
  dp_throughSeq :: rat
  dp_consumed :: "rat list"
  dp_blocked :: bool
  dp_contiguous :: bool

definition new_pass :: drainPass where
  "new_pass = \<lparr> dp_throughSeq = 0, dp_consumed = [], dp_blocked = False, dp_contiguous = True \<rparr>"

definition itemSeq :: "jsval \<Rightarrow> rat option" where
  "itemSeq item = (if \<not> is_object item \<and> \<not> is_array item then None
     else case js_number (getp item ''seq'') of Fin r \<Rightarrow> if is_integer (num r) \<and> r > 0 then Some r else None | _ \<Rightarrow> None)"

definition durable_frame :: "('n, 'w) catchupEnv \<Rightarrow> rat \<Rightarrow> jsval \<Rightarrow> jsval" where
  "durable_frame E seq item = Obj [(''t'', Str ''evt.mailbox.deposited''), (''body'',
     Obj [(''mailboxId'', Str (ce_mailboxId E)), (''seq'', num seq), (''ciphertextB64'', Str (sget item ''ciphertextB64''))])]"

definition gap :: "drainPass \<Rightarrow> drainPass" where
  "gap p = p\<lparr>dp_blocked := True, dp_contiguous := False\<rparr>"

definition durable_attempt :: "('n, 'w) catchupEnv \<Rightarrow> rat \<Rightarrow> jsval \<Rightarrow> drainPass \<Rightarrow> ('n, 'w, drainPass) drain" where
  "durable_attempt E seq item p = andThen (submitted E (durable_frame E seq item)) (\<lambda>done.
        if done then ok (if dp_contiguous p then p\<lparr>dp_throughSeq := seq, dp_consumed := dp_consumed p @ [seq]\<rparr> else p)
        else andThen (handleDurableFailure E seq) (\<lambda>skip.
          ok (if skip then (if dp_contiguous p then p\<lparr>dp_throughSeq := seq\<rparr> else p) else gap p)))"

definition durable_item :: "('n, 'w) catchupEnv \<Rightarrow> rat \<Rightarrow> jsval \<Rightarrow> drainPass \<Rightarrow> ('n, 'w, drainPass) drain" where
  "durable_item E seq item p x = (if in_backoff E (seq_key seq) x then ok (gap p) x else durable_attempt E seq item p x)"

fun durable_items :: "('n, 'w) catchupEnv \<Rightarrow> jsval list \<Rightarrow> drainPass \<Rightarrow> ('n, 'w, drainPass) drain" where
  "durable_items E [] p = ok p"
| "durable_items E (item # items) p = (case itemSeq item of
     None \<Rightarrow> ok (p\<lparr>dp_blocked := True\<rparr>)
   | Some seq \<Rightarrow> andThen (durable_item E seq item p) (durable_items E items))"

definition forgetConsumedSeqs :: "('n, 'w) catchupEnv \<Rightarrow> rat list \<Rightarrow> ('n, 'w, unit) drain" where
  "forgetConsumedSeqs E seqs = (case ce_attemptLog E of None \<Rightarrow> ok ()
     | Some l \<Rightarrow> each (\<lambda>seq. andThen (drop_backoff (seq_key seq)) (\<lambda>_.
         on_inner (catching (al_forget l (ce_mailboxId E) (seq_key seq)) ()))) seqs)"

definition page_items :: "jsval \<Rightarrow> jsval list" where
  "page_items page = elements (getp page ''items'')"

text \<open>One round of the loop: whether there is another, and an error of the listing.\<close>

definition durable_round :: "('n, 'w) catchupEnv \<Rightarrow> ('n, 'w, bool) drain" where
  "durable_round E =
     andThen (on_home (mb_list (ce_mailbox E) (ce_mailboxId E) Null (ce_pageLimit E))) (\<lambda>page.
       if page_items page = [] then ok False
       else andThen (durable_items E (page_items page) new_pass) (\<lambda>p.
         if dp_throughSeq p > 0 then
           andThen (attempt (on_home (mb_cursorAck (ce_mailbox E) (ce_mailboxId E) (dp_throughSeq p)))) (\<lambda>acked.
             if acked then andThen (forgetConsumedSeqs E (dp_consumed p)) (\<lambda>_. ok (\<not> dp_blocked p)) else ok False)
         else ok (\<not> dp_blocked p)))"

text \<open>\<open>while (true)\<close>: the rounds go on as long as one asks for another. No result is a loop that never ends.\<close>

definition rounds :: "('x, bool) op \<Rightarrow> 'x \<Rightarrow> ((js_error + bool) \<times> 'x) option" where
  "rounds body x = while_option (\<lambda>(r, _). r = Inr True) (\<lambda>(_, x). body x) (Inr True, x)"

definition drainDurable :: "('n, 'w) catchupEnv \<Rightarrow> ('n, 'w) catchup \<Rightarrow> ((js_error + bool) \<times> ('n, 'w) catchup) option" where
  "drainDurable E = rounds (durable_round E)"

section \<open>A home without sequence numbers\<close>

definition ackAndForget :: "('n, 'w) catchupEnv \<Rightarrow> string \<Rightarrow> ('n, 'w, unit) drain" where
  "ackAndForget E eventId =
     andThen (drop_backoff eventId) (\<lambda>_.
     andThen (attempt (on_home (mb_ack (ce_mailbox E) (ce_mailboxId E) eventId))) (\<lambda>acked.
       case ce_attemptLog E of None \<Rightarrow> ok ()
       | Some l \<Rightarrow> when_ok acked (andThen (on_inner (catching (al_forget l (ce_mailboxId E) eventId) ())) (\<lambda>_.
           on_inner (catching (al_clearAttempts l (ce_mailboxId E) eventId) ())))))"

definition handleDecryptFailure :: "('n, 'w) catchupEnv \<Rightarrow> string \<Rightarrow> ('n, 'w, unit) drain" where
  "handleDecryptFailure E eventId = andThen (count_failure E None eventId eventId (\<lambda>_. ackAndForget E eventId)) (\<lambda>_. ok ())"

definition legacy_item :: "('n, 'w) catchupEnv \<Rightarrow> jsval \<Rightarrow> ('n, 'w, unit) drain" where
  "legacy_item E item x =
     (let eventId = sget item ''eventId'' in
      if eventId = [] \<or> in_backoff E eventId x then ok () x
      else andThen (on_home (mb_fetch (ce_mailbox E) (ce_mailboxId E) eventId)) (\<lambda>fetched.
        andThen (submitted E (Obj [(''t'', Str ''evt.mailbox.deposited''), (''body'', Obj [(''mailboxId'', Str (ce_mailboxId E)),
            (''eventId'', Str eventId), (''ciphertextB64'', Str (sget fetched ''ciphertextB64''))])])) (\<lambda>done.
          if done then ackAndForget E eventId else handleDecryptFailure E eventId)) x)"

text \<open>The state of this loop has the cursor of the next page beside it.\<close>

definition legacy_round :: "('n, 'w) catchupEnv \<Rightarrow> (jsval \<times> ('n, 'w) catchup, bool) op" where
  "legacy_round E = (\<lambda>(cursor, x).
     case andThen (on_home (mb_list (ce_mailbox E) (ce_mailboxId E) cursor (ce_pageLimit E))) (\<lambda>page.
         andThen (each (legacy_item E) (page_items page)) (\<lambda>_. ok page)) x of
       (Inl e, y) \<Rightarrow> (Inl e, (cursor, y))
     | (Inr page, y) \<Rightarrow> (Inr (page_items page \<noteq> [] \<and> sget page ''nextCursor'' \<noteq> []), (getp page ''nextCursor'', y)))"

definition drainLegacy :: "('n, 'w) catchupEnv \<Rightarrow> ('n, 'w) catchup \<Rightarrow> ((js_error + bool) \<times> ('n, 'w) catchup) option" where
  "drainLegacy E x = map_option (map_prod id snd) (rounds (legacy_round E) (Null, x))"

section \<open>A drain\<close>

definition seq_of_id :: "string \<Rightarrow> rat option" where
  "seq_of_id dedupId = (case str_number (drop 4 dedupId) of Fin r \<Rightarrow> if is_integer (num r) then Some r else None | _ \<Rightarrow> None)"

definition notice :: "('n, 'w) catchupEnv \<Rightarrow> quarantined \<Rightarrow> ('n, 'w, unit) drain" where
  "notice E q = (if prefix ''seq:'' (qu_dedupId q)
     then emitQuarantined E (seq_of_id (qu_dedupId q)) [] (qu_attempts q) (qu_ageMs q) (qu_reason q)
     else emitQuarantined E None (qu_dedupId q) (qu_attempts q) (qu_ageMs q) (qu_reason q))"

definition retry_staged :: "('n, 'w) catchupEnv \<Rightarrow> ('n, 'w, unit) drain" where
  "retry_staged E = andThen (on_inner (catching (retryApplyOutbox (ce_ports E) (ce_mailboxId E)
       \<lparr> rb_maxAttempts = ce_maxDecryptAttempts E, rb_maxAgeMs = ce_maxQuarantineAgeMs E,
         rb_minAttemptsForAge = QUARANTINE_MIN_ATTEMPTS_FOR_AGE, rb_nowMs = ce_now E \<rparr>) ([], []))) (\<lambda>(_, qs). each (notice E) qs)"

definition drainOnce :: "('n, 'w) catchupEnv \<Rightarrow> ('n, 'w) catchup \<Rightarrow> ((js_error + bool) \<times> ('n, 'w) catchup) option" where
  "drainOnce E x =
     (if ce_mailboxId E = [] then Some (Inl (Error ''InboxCatchupService: inboxClaimant.inboxId is not set''), x)
      else case retry_staged E x of
        (Inl e, y) \<Rightarrow> Some (Inl e, y)
      | (Inr _, y) \<Rightarrow> if nodeAdvertisesDurableInbox (ce_session E) then drainDurable E y else drainLegacy E y)"

text \<open>The event that the inbox is caught up comes only after a drain that ended without an error.\<close>

definition requestDrain :: "('n, 'w) catchupEnv \<Rightarrow> ('n, 'w) catchup \<Rightarrow> ((js_error + unit) \<times> ('n, 'w) catchup) option" where
  "requestDrain E x = (case drainOnce E x of None \<Rightarrow> None
     | Some (Inl e, y) \<Rightarrow> Some (Inl e, y)
     | Some (Inr _, y) \<Rightarrow> Some (on_inner (ce_emit E ''inbox.caughtup'' (Obj [(''mailboxId'', Str (ce_mailboxId E))])) y))"

section \<open>Live push\<close>

text \<open>A deposit that was pushed; at a durable home a handled one starts a drain, else it is removed from the buffer.\<close>

definition onMailboxDeposited :: "('n, 'w) catchupEnv \<Rightarrow> jsval \<Rightarrow> ('n, 'w) catchup \<Rightarrow> ('n, 'w) catchup option" where
  "onMailboxDeposited E frame x =
     (case submitted E frame x of (r, y) \<Rightarrow>
        if r \<noteq> Inr True then Some y
        else if nodeAdvertisesDurableInbox (ce_session E) then map_option snd (requestDrain E y)
        else let m = sget (frame_body frame) ''mailboxId''; e = sget (frame_body frame) ''eventId'' in
          Some (if m = [] \<or> e = [] then y else snd (on_home (mb_ack (ce_mailbox E) m e) y)))"

end
