(* ===== verification/StoreLogs.thy ===== *)
theory StoreLogs
  imports Catchup InboxProperties HandlerLaws
begin

text \<open>
  The logs that the server gives to the pipeline (\<open>src/server/app/ChatServerApp.js\<close>): \<open>ProcessedDepositLog\<close>
  and \<open>InboundApplyOutbox\<close> over its key-value store. The locale \<open>dedup_log\<close> says what the pipeline relies on
  of the first, \<open>inbox_logs\<close> what it relies on of both; the store meets them (\<open>store\<close>).
\<close>

section \<open>The logs of the server\<close>

definition store_log :: "'s host \<Rightarrow> 's node processedLog" where
  "store_log H = \<lparr> pl_has = (\<lambda>m d. on_kv (reads (hasProcessed H (Str m) (Str d)))),
     pl_mark = (\<lambda>m d. on_kv (writes (markProcessed H (Str m) (Str d) (num (clockMs H))))) \<rparr>"

definition store_outbox :: "'s host \<Rightarrow> 's node applyOutbox" where
  "store_outbox H = \<lparr> ob_stage = (\<lambda>m d um. on_kv (writes (\<lambda>s. snd (stage H (Str m) (Str d) um (num (clockMs H)) s)))),
     ob_markApplied = (\<lambda>m d. on_kv (writes (markApplied H (Str m) (Str d)))),
     ob_recordApplyFailure = (\<lambda>m d t. on_kv (\<lambda>s. case recordApplyFailure H (Str m) (Str d) (num t) s of (r, s') \<Rightarrow> (Inr r, s'))),
     ob_listPending = (\<lambda>m. on_kv (reads (listPending H (Str m)))) \<rparr>"

definition store_attempts :: "'s host \<Rightarrow> 's node attemptLog" where
  "store_attempts H = \<lparr> al_forget = (\<lambda>m d. on_kv (writes (forgetProcessed H (Str m) (Str d)))),
     al_recordAttempt = (\<lambda>m d t. on_kv (\<lambda>s. case recordAttempt H (Str m) (Str d) (num t) s of (a, s') \<Rightarrow> (Inr a, s'))),
     al_firstSeenAtMs = (\<lambda>m d. on_kv (reads (firstSeenAtMs H (Str m) (Str d)))),
     al_clearAttempts = (\<lambda>m d. on_kv (writes (clearAttempts H (Str m) (Str d)))) \<rparr>"

lemmas store_log_defs = store_log_def store_outbox_def store_attempts_def on_kv_def reads_def writes_def

section \<open>What the pipeline relies on\<close>

lemma catching_state [simp]: "snd (catching m x n) = snd (m n)"
  by (simp add: catching_def split: prod.split sum.split)

lemma andThen_InrE: "andThen m f n = (Inr y, n') \<Longrightarrow> (\<And>x n1. m n = (Inr x, n1) \<Longrightarrow> f x n1 = (Inr y, n') \<Longrightarrow> Q) \<Longrightarrow> Q"
  by (auto simp: andThen_def split: prod.splits sum.splits)

lemma catching_unit: "catching m () n = (Inr (), snd (m n))"
  by (simp add: catching_def split: prod.split sum.split)

lemma attempt_eq: "attempt m n = (Inr (\<exists>x. fst (m n) = Inr x), snd (m n))"
  by (simp add: attempt_def catching_def andThen_def ok_def split: prod.split sum.split)

text \<open>A retry pass never throws, and applies every entry whose application succeeds.\<close>

definition applies :: "'n ports \<Rightarrow> jsval \<Rightarrow> bool" where
  "applies P e \<longleftrightarrow> sget e ''dedupId'' \<noteq> [] \<and> (\<forall>k. fst (po_applyUserMessage P (getp e ''userMessage'') k) = Inr ())"

lemma catching_Inr: "\<exists>y. catching m x n = (Inr y, snd (m n))"
  by (simp add: catching_def split: prod.split sum.split)

lemma retry_entry_runs:
  "\<exists>r. fst (retry_entry P b m bounds e n) = Inr r \<and> (applies P e \<longrightarrow> r = Applied (sget e ''dedupId''))"
proof -
  let ?d = "sget e ''dedupId''"
  let ?done = "\<exists>x. fst (po_applyUserMessage P (getp e ''userMessage'') n) = Inr x" and ?n = "snd (po_applyUserMessage P (getp e ''userMessage'') n)"
  have settled: "markOutboxApplied b m ?d k = (Inr (), snd (ob_markApplied b m ?d k))" for k by (simp add: markOutboxApplied_def catching_unit)
  obtain res where res: "recordOutboxFailure b m ?d (rb_nowMs bounds) ?n = (Inr res, snd (ob_recordApplyFailure b m ?d (rb_nowMs bounds) ?n))"
    unfolding recordOutboxFailure_def by (rule exE [OF catching_Inr])
  have ran: "applies P e \<longrightarrow> ?done" by (auto simp: applies_def)
  show ?thesis
  proof (cases "?d = [] \<or> ?done")
    case True
    then show ?thesis by (auto simp: retry_entry_def Let_def andThen_def attempt_eq settled ok_def applies_def)
  next
    case False
    then show ?thesis
      using ran by (cases "poison bounds ?d res") (simp_all add: retry_entry_def Let_def andThen_def attempt_eq settled res ok_def)
  qed
qed

lemma retry_entries_apply:
  "\<exists>rs. fst (retry_entries P b m bounds es n) = Inr rs \<and> (\<forall>e \<in> set es. applies P e \<longrightarrow> Applied (sget e ''dedupId'') \<in> set rs)"
proof (induction es arbitrary: n)
  case (Cons x xs)
  obtain r n1 where r: "retry_entry P b m bounds x n = (Inr r, n1)" "applies P x \<longrightarrow> r = Applied (sget x ''dedupId'')"
    using retry_entry_runs [of P b m bounds x n] by (metis prod.collapse)
  obtain rs n2 where rs: "retry_entries P b m bounds xs n1 = (Inr rs, n2)"
    "\<forall>e \<in> set xs. applies P e \<longrightarrow> Applied (sget e ''dedupId'') \<in> set rs"
    using Cons.IH [of n1] by (metis prod.collapse)
  have "fst (retry_entries P b m bounds (x # xs) n) = Inr (r # rs)"
    by (simp add: andThen_def r(1) rs(1) ok_def)
  then show ?case using r(2) rs(2) by auto
qed (simp add: ok_def)

locale dedup_log =
  fixes L :: "'n processedLog" and marked :: "string \<Rightarrow> string \<Rightarrow> 'n \<Rightarrow> bool" and usable :: "string \<Rightarrow> string \<Rightarrow> bool"
  assumes has: "pl_has L m d n = (Inr (marked m d n), n)"
    and mark: "usable m d \<Longrightarrow> marked m d (snd (pl_mark L m d n))"
    and usable_id: "usable m d \<Longrightarrow> d \<noteq> []"
begin

lemma already_marked: "po_log P = Some L \<Longrightarrow> d \<noteq> [] \<Longrightarrow> already_processed P m d n = (Inr (marked m d n), n)"
  by (simp add: already_processed_def catching_def has)

lemma mark_processed_marks: "po_log P = Some L \<Longrightarrow> usable m d \<Longrightarrow> marked m d (snd (mark_processed P m d n))"
  using mark [of m d n] usable_id [of m d] by (simp add: mark_processed_def)

text \<open>A marked deposit is answered from the mark alone.\<close>

lemma answered_by_mark:
  assumes "po_log P = Some L" and "depositIdentity frame = (m, d)" and "usable m d" and "marked m d n"
  shows "processOne P frame n = (Inr \<lparr> oc_consumed = True, oc_decryptOk = False, oc_alreadyProcessed = True, oc_applied = False, oc_durable = True \<rparr>, n)"
  using assms by (simp add: processOne_def andThen_def already_marked usable_id ok_def)

end

text \<open>
  Of the outbox: under an id that can be staged the message is held after \<open>stage\<close>, a failure and a mark of the
  other log keep it, and what is held is listed under its id.
\<close>

locale inbox_logs = dedup_log L marked usable for L :: "'n processedLog" and marked usable +
  fixes B :: "'n applyOutbox" and holds stageable :: "string \<Rightarrow> string \<Rightarrow> jsval \<Rightarrow> 'n \<Rightarrow> bool"
  assumes stage_holds: "stageable m d um n \<Longrightarrow> holds m d um (snd (ob_stage B m d um n))"
    and failure_keeps: "holds m d um n \<Longrightarrow> holds m d um (snd (ob_recordApplyFailure B m d t n))"
    and mark_keeps: "holds m d um (snd (pl_mark L m d n)) = holds m d um n"
    and lists: "holds m d um n \<Longrightarrow> \<exists>es e. ob_listPending B m n = (Inr es, n) \<and> e \<in> set es \<and> sget e ''dedupId'' = trim d
      \<and> trim d \<noteq> [] \<and> getp e ''userMessage'' = um"
begin

lemma mark_processed_keeps: "po_log P = Some L \<Longrightarrow> holds m d um n \<Longrightarrow> holds m d um (snd (mark_processed P m d n))"
  using mark_keeps [of m d um n] by (auto simp: mark_processed_def ok_def)

lemma reconcile_keeps: "po_outbox P = Some B \<Longrightarrow> holds m d um n \<Longrightarrow> holds m d um (snd (reconcile P m d False n))"
  using failure_keeps [of m d um n "po_now P"]
  by (simp add: reconcile_def recordOutboxFailure_def)

text \<open>A retry pass applies what is held, when the application succeeds now.\<close>

lemma held_is_retried:
  assumes "po_outbox P = Some B" and "holds m d um n" and "\<And>k. fst (po_applyUserMessage P um k) = Inr ()"
  shows "\<exists>ds qs. fst (retryApplyOutbox P m bounds n) = Inr (ds, qs) \<and> trim d \<in> set ds"
proof -
  obtain es e where l: "ob_listPending B m n = (Inr es, n)" "e \<in> set es" "sget e ''dedupId'' = trim d" "trim d \<noteq> []" "getp e ''userMessage'' = um"
    using lists [OF assms(2)] by blast
  obtain rs where rs: "fst (retry_entries P B m bounds es n) = Inr rs" "Applied (trim d) \<in> set rs"
    using retry_entries_apply [of P B m bounds es n] l(2-5) assms(3) by (fastforce simp: applies_def)
  then show ?thesis
    using assms(1) l(1) by (cases "retry_entries P B m bounds es n") (auto simp: retryApplyOutbox_def andThen_def catching_def ok_def applied_of_def intro!: bexI)
qed

end

section \<open>The store meets it\<close>

lemma deposit_ids_Str: "deposit_ids (Str m) (Str d) = (if trim m = [] \<or> trim d = [] then None else Some (trim m, trim d))"
  by (simp add: deposit_ids_def Let_def)

lemma logKey_distinct [simp]:
  "processedKey m d \<noteq> mailboxKey m'" "mailboxKey m' \<noteq> processedKey m d" "attemptKey m d \<noteq> mailboxKey m'" "mailboxKey m' \<noteq> attemptKey m d"
  "attemptKey m d \<noteq> processedKey m' d'" "processedKey m' d' \<noteq> attemptKey m d"
  by (simp_all add: processedKey_def mailboxKey_def attemptKey_def)

text \<open>
  The outbox has an entry of its own for the deposit, which carries the message. It gets there when the id is not
  a name that plain objects inherit and no other message is staged under it.
\<close>

definition waits_in_outbox :: "'s host \<Rightarrow> string \<Rightarrow> string \<Rightarrow> jsval \<Rightarrow> 's node \<Rightarrow> bool" where
  "waits_in_outbox H m d um n \<longleftrightarrow> trim m \<noteq> [] \<and> trim d \<noteq> [] \<and> (case outbox_of H (nd_kv n) (trim m) (trim d) of
       Own (Obj kvs) \<Rightarrow> sget (Obj kvs) ''dedupId'' = trim d \<and> getp (Obj kvs) ''userMessage'' = um
     | _ \<Rightarrow> False)"

definition can_stage :: "'s host \<Rightarrow> string \<Rightarrow> string \<Rightarrow> jsval \<Rightarrow> 's node \<Rightarrow> bool" where
  "can_stage H m d um n \<longleftrightarrow> trim m \<noteq> [] \<and> trim d \<noteq> [] \<and> \<not> inherited (trim d)
     \<and> (outbox_of H (nd_kv n) (trim m) (trim d) = Missing \<or> waits_in_outbox H m d um n)"

lemma failed_entry_carries:
  "\<exists>kvs'. failed_entry (Own (Obj kvs)) t = Obj kvs' \<and> getp (Obj kvs') ''userMessage'' = getp (Obj kvs) ''userMessage''
    \<and> sget (Obj kvs') ''dedupId'' = sget (Obj kvs) ''dedupId''"
  by (simp add: failed_entry_def entry_props_def own_props_def getp_spread sget_def)

lemma waits_own: "waits_in_outbox H m d um n \<longleftrightarrow> trim m \<noteq> [] \<and> trim d \<noteq> []
    \<and> (\<exists>kvs. outbox_of H (nd_kv n) (trim m) (trim d) = Own (Obj kvs) \<and> sget (Obj kvs) ''dedupId'' = trim d \<and> getp (Obj kvs) ''userMessage'' = um)"
  by (auto simp: waits_in_outbox_def split: slot_value.split jsval.split)

lemma inbox_logs_store:
  assumes H: "host_laws H"
  shows "inbox_logs (store_log H) (\<lambda>m d n. hasProcessed H (Str m) (Str d) (nd_kv n)) (\<lambda>m d. trim m \<noteq> [] \<and> trim d \<noteq> [])
    (store_outbox H) (waits_in_outbox H) (can_stage H)"
proof
  fix m d um t and n :: "'a node"
  show "pl_has (store_log H) m d n = (Inr (hasProcessed H (Str m) (Str d) (nd_kv n)), n)"
    by (simp add: store_log_defs)
  show "trim m \<noteq> [] \<and> trim d \<noteq> [] \<Longrightarrow> hasProcessed H (Str m) (Str d) (nd_kv (snd (pl_mark (store_log H) m d n)))"
    by (simp add: store_log_defs hasProcessed_def markProcessed_def deposit_ids_Str host_laws.get_set [OF H])
  show "trim m \<noteq> [] \<and> trim d \<noteq> [] \<Longrightarrow> d \<noteq> []" by auto
  show "waits_in_outbox H m d um (snd (pl_mark (store_log H) m d n)) = waits_in_outbox H m d um n"
    by (simp add: store_log_defs waits_in_outbox_def outbox_of_def loadMap_def markProcessed_def deposit_ids_Str host_laws.get_set [OF H])
  show "waits_in_outbox H m d um n \<Longrightarrow> waits_in_outbox H m d um (snd (ob_recordApplyFailure (store_outbox H) m d t n))"
  proof -
    assume w: "waits_in_outbox H m d um n"
    then obtain kvs where v: "outbox_of H (nd_kv n) (trim m) (trim d) = Own (Obj kvs)" by (auto simp: waits_own)
    have "outbox_of H (snd (recordApplyFailure H (Str m) (Str d) (num t) (nd_kv n))) = outbox_step H (RecordFailure (Str m) (Str d) (num t)) (outbox_of H (nd_kv n))"
      using exec_outbox_refines [OF H, of "RecordFailure (Str m) (Str d) (num t)" "nd_kv n"] by simp
    then show ?thesis using v w failed_entry_carries [of kvs t]
      by (auto simp: store_log_defs waits_own deposit_ids_Str put_slot_def split: prod.split)
  qed
  show "can_stage H m d um n \<Longrightarrow> waits_in_outbox H m d um (snd (ob_stage (store_outbox H) m d um n))"
  proof -
    assume c: "can_stage H m d um n"
    then have ids: "deposit_ids (Str m) (Str d) = Some (trim m, trim d)" "trim m \<noteq> []" "trim d \<noteq> []"
      by (simp_all add: can_stage_def deposit_ids_Str)
    have "outbox_of H (snd (stage H (Str m) (Str d) um (num (clockMs H)) (nd_kv n)))
        = outbox_step H (Stage (Str m) (Str d) um (num (clockMs H))) (outbox_of H (nd_kv n))"
      using exec_outbox_refines [OF H, of "Stage (Str m) (Str d) um (num (clockMs H))" "nd_kv n"] by simp
    then show ?thesis using c ids
      by (cases "outbox_of H (nd_kv n) (trim m) (trim d)")
        (auto simp: store_log_defs waits_own can_stage_def put_slot_def staged_entry_def sget_def getp_def)
  qed
  show "\<exists>es e. ob_listPending (store_outbox H) m n = (Inr es, n) \<and> e \<in> set es \<and> sget e ''dedupId'' = trim d
      \<and> trim d \<noteq> [] \<and> getp e ''userMessage'' = um" if w: "waits_in_outbox H m d um n"
  proof -
    obtain v where v: "outbox_of H (nd_kv n) (trim m) (trim d) = Own v" "sget v ''dedupId'' = trim d" "getp v ''userMessage'' = um"
        "trim m \<noteq> []" "trim d \<noteq> []"
      using w by (auto simp: waits_own)
    then have "v \<in> set (listPending H (Str (trim m)) (nd_kv n))" by (intro pending_listed) simp_all
    then have "v \<in> set (listPending H (Str m) (nd_kv n))" by (simp add: listPending_def)
    then show ?thesis using v by (auto simp: store_log_defs)
  qed
qed

sublocale host_laws \<subseteq> store: inbox_logs "store_log H" "\<lambda>m d n. hasProcessed H (Str m) (Str d) (nd_kv n)"
  "\<lambda>m d. trim m \<noteq> [] \<and> trim d \<noteq> []" "store_outbox H" "waits_in_outbox H" "can_stage H"
  by (rule inbox_logs_store [OF host_laws_axioms])

end
