(* ===== verification/PipelineProperties.thy ===== *)
theory PipelineProperties
  imports StoreLogs
begin

text \<open>
  Properties of the inbound pipeline: a message is decrypted once and is not acknowledged before it is safe, and
  what could not be decrypted yet is kept in a bounded buffer.
\<close>

section \<open>A sample\<close>

text \<open>A server whose application of messages fails, and a deposit that decrypts.\<close>

definition sample_node :: "(string \<times> jsval) list node" where
  "sample_node = \<lparr> nd_kv = [], nd_out = [], nd_files = [], nd_uuids = 0 \<rparr>"

definition sample_status :: jsval where
  "sample_status = Obj [(''consumed'', Bool True), (''decryptOk'', Bool True), (''userMessage'', Obj [(''text'', Str ''hello'')])]"

definition failing_ports :: "(string \<times> jsval) list node ports" where
  "failing_ports = \<lparr> po_now = 1000, po_decrypt = (\<lambda>_. ok sample_status), po_applyUserMessage = (\<lambda>_. throw (Error ''down'')),
     po_processDeposit = (\<lambda>_. ok ()), po_log = Some (store_log HM), po_outbox = Some (store_outbox HM), po_maxPending = 256, po_maxRetainAttempts = 12 \<rparr>"

definition sample_frame :: "string \<Rightarrow> jsval" where
  "sample_frame eventId = Obj [(''body'', Obj [(''mailboxId'', Str ''mb''), (''eventId'', Str eventId), (''ciphertextB64'', Str ''c2Vjc'')])]"

lemma sample_simps:
  "depositIdentity (sample_frame ''e1'') = (''mb'', ''e1'')" "can_stage HM ''mb'' ''e1'' um sample_node"
proof -
  show "depositIdentity (sample_frame ''e1'') = (''mb'', ''e1'')" by code_simp
  have "outbox_of HM (nd_kv sample_node) (trim ''mb'') (trim ''e1'') = Missing" "trim ''mb'' \<noteq> []" "trim ''e1'' \<noteq> []" "\<not> inherited (trim ''e1'')"
    by code_simp+
  then show "can_stage HM ''mb'' ''e1'' um sample_node" by (simp add: can_stage_def)
qed

section \<open>One deposit\<close>

lemma processOne_fresh:
  assumes "processOne P frame n = (Inr r, n')" and "\<not> oc_alreadyProcessed r" and "depositIdentity frame = (m, d)"
  obtains status n1 n0 where "already_processed P m d n = (Inr False, n1)" and "catching (po_decrypt P frame) Null n1 = (Inr status, n0)"
    and "apply_decrypted P frame m d status n0 = (Inr r, n')"
proof -
  obtain already n1 where a: "already_processed P m d n = (Inr already, n1)"
    and rest: "(if already then ok \<lparr> oc_consumed = True, oc_decryptOk = False, oc_alreadyProcessed = True, oc_applied = False, oc_durable = True \<rparr>
        else andThen (catching (po_decrypt P frame) Null) (apply_decrypted P frame m d)) n1 = (Inr r, n')"
    using assms(1,3) by (auto simp: processOne_def elim: andThen_InrE)
  have "\<not> already" using rest assms(2) by (auto simp: ok_def)
  with a rest that show ?thesis by (auto elim: andThen_InrE)
qed

lemma apply_decrypted_runs:
  assumes "apply_decrypted P frame m d status n0 = (Inr r, n')" and "um = getp status ''userMessage''"
  obtains staged n1 userApplied n2 n4
  where "stage_message P m d um n0 = (Inr staged, n1)"
    and "(if truthy um then attempt (po_applyUserMessage P um) else ok False) n1 = (Inr userApplied, n2)"
    and "n4 = (if truthy um \<and> staged then snd (reconcile P m d userApplied (snd (po_processDeposit P frame n2))) else snd (po_processDeposit P frame n2))"
    and "n' = (if truthy (getp status ''decryptOk'') \<and> (truthy um \<longrightarrow> staged \<or> userApplied) then snd (mark_processed P m d n4) else n4)"
    and "oc_decryptOk r = truthy (getp status ''decryptOk'')" and "\<not> oc_alreadyProcessed r"
    and "oc_durable r = (if truthy um then staged \<or> userApplied else truthy (getp status ''consumed''))"
proof -
  obtain staged n1 userApplied n2 n4 n5
    where 1: "stage_message P m d um n0 = (Inr staged, n1)"
      "(if truthy um then attempt (po_applyUserMessage P um) else ok False) n1 = (Inr userApplied, n2)"
    and 4: "when_ok (truthy um \<and> staged) (reconcile P m d userApplied) (snd (po_processDeposit P frame n2)) = (Inr (), n4)"
    and 5: "when_ok (truthy (getp status ''decryptOk'') \<and> (truthy um \<longrightarrow> staged \<or> userApplied)) (mark_processed P m d) n4 = (Inr (), n5)"
    and r: "n' = n5" "oc_decryptOk r = truthy (getp status ''decryptOk'')" "\<not> oc_alreadyProcessed r"
      "oc_durable r = (if truthy um then staged \<or> userApplied else truthy (getp status ''consumed''))"
    using assms(1) unfolding apply_decrypted_def Let_def assms(2)
    by (elim andThen_InrE) (auto simp: attempt_eq ok_def)
  show ?thesis by (rule that [OF 1 _ _ r(2-4)]) (use 4 5 r(1) in \<open>auto simp: when_ok_def ok_def\<close>)
qed

abbreviation answered_dup :: outcome where
  "answered_dup \<equiv> \<lparr> oc_consumed = True, oc_decryptOk = False, oc_alreadyProcessed = True, oc_applied = False, oc_durable = True \<rparr>"

context inbox_logs
begin

lemma decrypted_marks:
  assumes "po_log P = Some L" and "depositIdentity frame = (m, d)" and "usable m d"
    and "processOne P frame n = (Inr r, n')" and "oc_decryptOk r" and "oc_durable r"
  shows "marked m d n'"
proof -
  have "r \<noteq> answered_dup" using assms(5) by auto
  then have "\<exists>status n0. apply_decrypted P frame m d status n0 = (Inr r, n')"
    using assms(2,4) by (fastforce simp: processOne_def ok_def elim!: andThen_InrE split: if_splits)
  then obtain status n0 where run: "apply_decrypted P frame m d status n0 = (Inr r, n')" by blast
  then have "\<exists>n4. n' = snd (mark_processed P m d n4)"
    by (rule apply_decrypted_runs [OF _ refl]) (use assms(5,6) in \<open>auto split: if_splits\<close>)
  then show ?thesis using mark_processed_marks [OF assms(1,3)] by auto
qed

lemma staged_stays:
  assumes "po_log P = Some L" and "po_outbox P = Some B" and "stageable m d (getp status ''userMessage'') n0"
    and run: "apply_decrypted P frame m d status n0 = (Inr r, n')" and um: "um = getp status ''userMessage''" "truthy um"
    and "oc_durable r" and failed: "fst (po_applyUserMessage P um (snd (ob_stage B m d um n0))) \<noteq> Inr ()"
    and keeps: "\<And>n. holds m d um n \<Longrightarrow> holds m d um (snd (po_applyUserMessage P um n))"
      "\<And>n. holds m d um n \<Longrightarrow> holds m d um (snd (po_processDeposit P frame n))"
  shows "holds m d um n'"
proof (rule apply_decrypted_runs [OF run um(1)])
  fix staged n1 userApplied n2 n4
  assume st: "stage_message P m d um n0 = (Inr staged, n1)"
    and ap: "(if truthy um then attempt (po_applyUserMessage P um) else ok False) n1 = (Inr userApplied, n2)"
    and n4: "n4 = (if truthy um \<and> staged then snd (reconcile P m d userApplied (snd (po_processDeposit P frame n2))) else snd (po_processDeposit P frame n2))"
    and n': "n' = (if truthy (getp status ''decryptOk'') \<and> (truthy um \<longrightarrow> staged \<or> userApplied) then snd (mark_processed P m d n4) else n4)"
    and durable: "oc_durable r = (if truthy um then staged \<or> userApplied else truthy (getp status ''consumed''))"
  have n1: "n1 = snd (ob_stage B m d um n0)" using st um(2) assms(2) by (simp add: stage_message_def attempt_eq)
  have "\<not> userApplied" "n2 = snd (po_applyUserMessage P um n1)"
    using ap um(2) failed unfolding n1 by (auto simp: attempt_eq old.unit.exhaust)
  moreover have staged using calculation(1) durable um(2) assms(7) by simp
  moreover have "holds m d um (snd (po_processDeposit P frame n2))"
    unfolding calculation(2) n1 by (intro keeps stage_holds assms(3) [folded um(1)])
  ultimately have "holds m d um n4" using n4 um(2) reconcile_keeps [OF assms(2)] by simp
  then show "holds m d um n'" using n' mark_processed_keeps [OF assms(1)] by simp
qed

end

lemma trim_starts: "\<not> is_ws c \<Longrightarrow> trim (c # s) \<noteq> []"
  by (simp add: trim_def dropWhile_append)

lemma identity_usable: "depositIdentity frame = (m, d) \<Longrightarrow> m \<noteq> [] \<Longrightarrow> d \<noteq> [] \<Longrightarrow> trim m \<noteq> [] \<and> trim d \<noteq> []"
  by (auto simp: depositIdentity_def Let_def trim_starts is_ws_def split: if_splits)

text \<open>
  What may happen to the store while a mark stays: marks are written, other marks are forgotten, and whatever does
  not touch the row of the mark. The drain of the mailbox (\<open>InboxCatchupService\<close>) forgets the
  mark of a deposit when the home has acknowledged it or when it gives it up.
\<close>

inductive mark_kept :: "'s host \<Rightarrow> string \<Rightarrow> 's \<Rightarrow> 's \<Rightarrow> bool" for H key where
  marked: "mark_kept H key s (markProcessed H mb ev t s)"
| other_forgotten: "(\<And>a b. deposit_ids mb ev = Some (a, b) \<Longrightarrow> processedKey a b \<noteq> key) \<Longrightarrow> mark_kept H key s (forgetProcessed H mb ev s)"
| elsewhere: "kvGet H s' key = kvGet H s key \<Longrightarrow> mark_kept H key s s'"

lemma mark_stays:
  assumes H: "host_laws H" and "(mark_kept H key)\<^sup>*\<^sup>* s s'" and "\<not> nullish (kvGet H s key)"
  shows "\<not> nullish (kvGet H s' key)"
  using assms(2,3)
proof (induction rule: rtranclp_induct)
  case (step y z)
  from step.hyps(2) step.IH [OF step.prems] show ?case
    by cases (auto simp: markProcessed_def forgetProcessed_def host_laws.get_set [OF H] host_laws.get_delete [OF H] split: option.split)
qed

text \<open>
  C21. A message is decrypted at most once until its mark is forgotten: when a deposit with a mailbox and an id was
  decrypted and made safe, the log has its mark, and every later submission with the same identity, whatever was marked,
  forgotten of other deposits or written elsewhere in between, is answered from the mark, without the protocol and
  without a change, whatever the ports do.
\<close>

theorem decrypted_once:
  assumes "host_laws H" and "po_log P = Some (store_log H)" and "depositIdentity frame = (m, d)" and "m \<noteq> []" and "d \<noteq> []"
    and "processOne P frame n = (Inr r, n')" and "oc_decryptOk r" and "oc_durable r"
    and "po_log P' = Some (store_log H)" and "depositIdentity frame' = (m, d)"
    and "(mark_kept H (processedKey (trim m) (trim d)))\<^sup>*\<^sup>* (nd_kv n') (nd_kv later)"
  shows "processOne P' frame' later = (Inr answered_dup, later)"
proof -
  have usable: "trim m \<noteq> [] \<and> trim d \<noteq> []" using identity_usable [OF assms(3-5)] .
  have "hasProcessed H (Str m) (Str d) (nd_kv n')"
    using inbox_logs.decrypted_marks [OF inbox_logs_store [OF assms(1)] assms(2,3) usable assms(6-8)] .
  then have "hasProcessed H (Str m) (Str d) (nd_kv later)"
    using mark_stays [OF assms(1,11)] usable by (simp add: hasProcessed_def deposit_ids_Str)
  then show ?thesis
    using dedup_log.answered_by_mark [OF inbox_logs.axioms(1) [OF inbox_logs_store [OF assms(1)]] assms(9,10) usable] by blast
qed

lemma sample_run:
  "processOne failing_ports (sample_frame ''e1'') sample_node
   = (Inr \<lparr> oc_consumed = True, oc_decryptOk = True, oc_alreadyProcessed = False, oc_applied = False, oc_durable = True \<rparr>,
      snd (processOne failing_ports (sample_frame ''e1'') sample_node))"
  by code_simp

text \<open>Another deposit is marked and forgotten in between.\<close>

theorem decrypted_once_instance:
  "let n = snd (processOne failing_ports (sample_frame ''e1'') sample_node);
       later = n\<lparr>nd_kv := forgetProcessed HM (Str ''mb'') (Str ''e2'') (markProcessed HM (Str ''mb'') (Str ''e2'') (num 5) (nd_kv n))\<rparr> in
   processOne (failing_ports\<lparr>po_decrypt := \<lambda>_. throw (Error ''AES-GCM'')\<rparr>) (sample_frame '' e1'') later = (Inr answered_dup, later)"
proof -
  define n where "n = snd (processOne failing_ports (sample_frame ''e1'') sample_node)"
  define marked_n forgot_n where kv: "marked_n = markProcessed HM (Str ''mb'') (Str ''e2'') (num 5) (nd_kv n)"
    "forgot_n = forgetProcessed HM (Str ''mb'') (Str ''e2'') marked_n"
  have f: "depositIdentity (sample_frame '' e1'') = (''mb'', ''e1'')" by code_simp
  have k: "processedKey (trim ''mb'') (trim ''e1'') = processedKey ''mb'' ''e1''" "deposit_ids (Str ''mb'') (Str ''e2'') = Some (''mb'', ''e2'')" by code_simp+
  have "mark_kept HM (processedKey ''mb'' ''e1'') marked_n forgot_n"
    unfolding kv(2) by (rule other_forgotten) (auto simp: k processedKey_def)
  moreover have "mark_kept HM (processedKey ''mb'' ''e1'') (nd_kv n) marked_n" unfolding kv(1) by (rule marked)
  ultimately have r: "(mark_kept HM (processedKey (trim ''mb'') (trim ''e1'')))\<^sup>*\<^sup>* (nd_kv n) (nd_kv (n\<lparr>nd_kv := forgot_n\<rparr>))"
    unfolding k(1) by (simp add: converse_rtranclp_into_rtranclp)
  have p: "po_log failing_ports = Some (store_log HM)" "po_log (failing_ports\<lparr>po_decrypt := \<lambda>_. throw (Error ''AES-GCM'')\<rparr>) = Some (store_log HM)"
    by (simp_all add: failing_ports_def)
  have "processOne (failing_ports\<lparr>po_decrypt := \<lambda>_. throw (Error ''AES-GCM'')\<rparr>) (sample_frame '' e1'') (n\<lparr>nd_kv := forgot_n\<rparr>)
      = (Inr answered_dup, n\<lparr>nd_kv := forgot_n\<rparr>)"
    by (rule decrypted_once [OF HM_laws p(1) sample_simps(1) _ _ sample_run [folded n_def] _ _ p(2) f r]) simp_all
  then show ?thesis unfolding Let_def n_def [symmetric] kv .
qed

text \<open>
  C22. What is acknowledged can be recovered: when the pipeline answers that a deposit with a message, not one it has
  seen before, is durable, then the message was applied, or it waits in the outbox of the server, and the next retry
  pass that can apply it does so and reports its id. This is for an id that can be staged (plain objects do not
  inherit it, and no other message is staged under it), and services that leave the outbox alone.
\<close>

theorem durable_is_recoverable:
  assumes "host_laws H" and "po_log P = Some (store_log H)" and "po_outbox P = Some (store_outbox H)"
    and "depositIdentity frame = (m, d)" and "can_stage H m d (getp status ''userMessage'') n0"
    and "processOne P frame n = (Inr r, n')" and "oc_durable r" and "\<not> oc_alreadyProcessed r"
    and "po_decrypt P frame n = (Inr status, n0)" and "truthy (getp status ''userMessage'')"
    and "\<And>um k. outbox_of H (nd_kv (snd (po_applyUserMessage P um k))) = outbox_of H (nd_kv k)"
    and "\<And>fr k. outbox_of H (nd_kv (snd (po_processDeposit P fr k))) = outbox_of H (nd_kv k)"
  shows "fst (po_applyUserMessage P (getp status ''userMessage'') (snd (ob_stage (store_outbox H) m d (getp status ''userMessage'') n0))) = Inr ()
    \<or> waits_in_outbox H m d (getp status ''userMessage'') n'
      \<and> (\<forall>P' bounds. po_outbox P' = Some (store_outbox H) \<longrightarrow> (\<forall>k. fst (po_applyUserMessage P' (getp status ''userMessage'') k) = Inr ())
           \<longrightarrow> (\<exists>ds qs. fst (retryApplyOutbox P' m bounds n') = Inr (ds, qs) \<and> trim d \<in> set ds))"
proof -
  from processOne_fresh [OF assms(6,8,4)] obtain status' n1 n0'
    where al: "already_processed P m d n = (Inr False, n1)" and de: "catching (po_decrypt P frame) Null n1 = (Inr status', n0')"
      and run: "apply_decrypted P frame m d status' n0' = (Inr r, n')" by metis
  have "n1 = n" using al assms(2) by (auto simp: already_processed_def store_log_defs catching_def ok_def split: if_splits)
  then have same: "status' = status" "n0' = n0" using de assms(9) by (simp_all add: catching_def)
  note store = inbox_logs_store [OF assms(1)]
  have "fst (po_applyUserMessage P (getp status ''userMessage'') (snd (ob_stage (store_outbox H) m d (getp status ''userMessage'') n0))) = Inr ()
    \<or> waits_in_outbox H m d (getp status ''userMessage'') n'"
    using inbox_logs.staged_stays [OF store assms(2,3,5) run [unfolded same] refl assms(10,7)] assms(11,12)
    by (auto simp: waits_in_outbox_def)
  then show ?thesis using inbox_logs.held_is_retried [OF store] by blast
qed

theorem durable_is_recoverable_instance:
  "waits_in_outbox HM ''mb'' ''e1'' (getp sample_status ''userMessage'') (snd (processOne failing_ports (sample_frame ''e1'') sample_node))
   \<and> (\<exists>ds qs. fst (retryApplyOutbox (failing_ports\<lparr>po_applyUserMessage := \<lambda>_. ok ()\<rparr>) ''mb''
            \<lparr> rb_maxAttempts = 8, rb_maxAgeMs = 0, rb_minAttemptsForAge = 3, rb_nowMs = 1000 \<rparr>
            (snd (processOne failing_ports (sample_frame ''e1'') sample_node))) = Inr (ds, qs) \<and> trim ''e1'' \<in> set ds)"
proof -
  let ?um = "getp sample_status ''userMessage''" and ?n = "snd (processOne failing_ports (sample_frame ''e1'') sample_node)"
  have um: "truthy ?um" by code_simp
  have "fst (po_applyUserMessage failing_ports ?um (snd (ob_stage (store_outbox HM) ''mb'' ''e1'' ?um sample_node))) = Inr ()
    \<or> waits_in_outbox HM ''mb'' ''e1'' ?um ?n
      \<and> (\<forall>P' bounds. po_outbox P' = Some (store_outbox HM) \<longrightarrow> (\<forall>k. fst (po_applyUserMessage P' ?um k) = Inr ())
           \<longrightarrow> (\<exists>ds qs. fst (retryApplyOutbox P' ''mb'' bounds ?n) = Inr (ds, qs) \<and> trim ''e1'' \<in> set ds))"
    by (rule durable_is_recoverable [OF HM_laws _ _ sample_simps sample_run _ _ _ um])
      (simp_all add: failing_ports_def ok_def throw_def)
  moreover have "po_applyUserMessage failing_ports = (\<lambda>_. throw (Error ''down''))" "po_outbox failing_ports = Some (store_outbox HM)"
    by (simp_all add: failing_ports_def)
  ultimately show ?thesis by (simp add: throw_def ok_def)
qed

text \<open>
  The answer of \<open>stage\<close> is not looked at: under an id that plain objects inherit, nothing is staged and nothing
  applied, and still the deposit counts as durable and is marked. The only copy is removed from the buffer, and
  the retry pass finds nothing to apply.
\<close>

theorem unstaged_message_is_acked:
  "case processOne failing_ports (sample_frame ''constructor'') sample_node of
     (Inr r, n) \<Rightarrow> oc_durable r \<and> \<not> oc_applied r
       \<and> fst (retryApplyOutbox (failing_ports\<lparr>po_applyUserMessage := \<lambda>_. ok ()\<rparr>) ''mb''
            \<lparr> rb_maxAttempts = 8, rb_maxAgeMs = 0, rb_minAttemptsForAge = 3, rb_nowMs = 1000 \<rparr> n) = Inr ([], [])
       \<and> fst (processOne (failing_ports\<lparr>po_applyUserMessage := \<lambda>_. ok ()\<rparr>) (sample_frame ''constructor'') n) = Inr answered_dup
   | (Inl e, n) \<Rightarrow> False"
  by code_simp

section \<open>The retained deposits\<close>

datatype pipeline_op = Submit jsval | Sweep

fun run_op :: "'n ports \<Rightarrow> pipeline_op \<Rightarrow> 'n pipeline \<Rightarrow> 'n pipeline" where
  "run_op P (Submit frame) x = snd (submit P frame x)"
| "run_op P Sweep x = sweep P x"

text \<open>Every retained deposit is under its own key, and was tried less often than the bound.\<close>

definition entry_ok :: "'n ports \<Rightarrow> string \<times> jsval \<times> nat \<Rightarrow> bool" where
  "entry_ok P e \<longleftrightarrow> (case e of (k, f, a) \<Rightarrow> k = pending_key f \<and> frameCiphertext f \<noteq> [] \<and> a < po_maxRetainAttempts P)"

definition pending_ok :: "'n ports \<Rightarrow> (string \<times> jsval \<times> nat) list \<Rightarrow> bool" where
  "pending_ok P ps \<longleftrightarrow> length ps \<le> po_maxPending P \<and> distinct (map fst ps) \<and> (\<forall>e \<in> set ps. entry_ok P e)"

lemma pending_ok_delete:
  assumes "pending_ok P ps"
  shows "pending_ok P (AList.delete k ps)"
proof -
  have "length (AList.delete k ps) \<le> po_maxPending P" using length_delete(1) [of k ps] assms by (simp add: pending_ok_def)
  moreover have "distinct (map fst (AList.delete k ps))" using assms by (simp add: pending_ok_def distinct_delete)
  ultimately show ?thesis using assms by (auto simp: pending_ok_def AList.delete_eq)
qed

lemma map_ran_keys [simp]: "map fst (map_ran f ps) = map fst ps"
  by (induction ps) (auto simp: map_ran_def)

lemma pending_ok_counted:
  assumes "pending_ok P ps" and "a < po_maxRetainAttempts P"
  shows "pending_ok P (map_ran (\<lambda>j (g, b). if j = k then (g, a) else (g, b)) ps)"
proof -
  have "entry_ok P e" if "e \<in> set (map_ran (\<lambda>j (g, b). if j = k then (g, a) else (g, b)) ps)" for e
    using that assms by (auto simp: pending_ok_def map_ran_def entry_ok_def split: if_splits)
  then show ?thesis using assms(1) by (simp add: pending_ok_def)
qed

lemma pending_ok_new:
  assumes "pending_ok P ps" and "0 < po_maxPending P" and "0 < po_maxRetainAttempts P"
    and "frameCiphertext frame \<noteq> []" and "map_of ps (pending_key frame) = None"
  shows "pending_ok P ((if length ps \<ge> po_maxPending P then drop 1 ps else ps) @ [(pending_key frame, frame, 0)])"
proof -
  let ?qs = "if length ps \<ge> po_maxPending P then drop 1 ps else ps"
  have "distinct (map fst ?qs)" using assms(1) by (auto simp: pending_ok_def distinct_tl drop_Suc map_tl)
  moreover have sub: "set ?qs \<subseteq> set ps" using set_drop_subset [of 1 ps] by simp
  then have "pending_key frame \<notin> fst ` set ?qs" using assms(5) by (auto simp: map_of_eq_None_iff)
  moreover have "length ?qs < po_maxPending P" using assms(1,2) by (auto simp: pending_ok_def)
  moreover have "\<forall>e \<in> set ?qs. entry_ok P e" using sub assms(1) by (auto simp: pending_ok_def)
  moreover have "entry_ok P (pending_key frame, frame, 0)" using assms(3,4) by (simp add: entry_ok_def)
  ultimately show ?thesis unfolding pending_ok_def by simp
qed

lemma updatePending_ok:
  "\<lbrakk> pending_ok P ps; 0 < po_maxPending P; 0 < po_maxRetainAttempts P \<rbrakk> \<Longrightarrow> pending_ok P (updatePending P frame r ps)"
  using pending_ok_new [of P ps frame] pending_ok_delete [of P ps] unfolding updatePending_def Let_def by presburger

lemma redrain_one_ok: "pending_ok P (pi_pending x) \<Longrightarrow> pending_ok P (pi_pending (snd (redrain_one P e x)))"
  by (auto simp: redrain_one_def split: prod.split intro!: pending_ok_delete pending_ok_counted)

lemma redrain_pass_ok: "pending_ok P (pi_pending x) \<Longrightarrow> pending_ok P (pi_pending (snd (redrain_pass P es x)))"
  by (induction es arbitrary: x) (simp_all add: split_beta redrain_one_ok)

lemma redrain_ok: "pending_ok P (pi_pending x) \<Longrightarrow> pending_ok P (pi_pending (redrain P x))"
proof (induction P x rule: redrain.induct)
  case (1 P x)
  show ?case
    using 1 redrain_pass_ok [OF "1.prems", of "pi_pending x"]
    by (subst redrain.simps) (auto split: prod.split)
qed

lemma run_op_ok:
  assumes "pending_ok P (pi_pending x)" and "0 < po_maxPending P" and "0 < po_maxRetainAttempts P"
  shows "pending_ok P (pi_pending (run_op P c x))"
proof (cases c)
  case (Submit frame)
  then show ?thesis using assms by (auto simp: submit_def Let_def updatePending_ok redrain_ok split: prod.split sum.split)
qed (use assms redrain_ok [OF assms(1)] in \<open>auto simp: sweep_def\<close>)

text \<open>
  C27. The buffer of deposits that could not be decrypted yet stays bounded: after any sequence of submissions and sweeps,
  whatever the ports answer, it holds at most \<open>maxPending\<close> deposits, one per identity, each with a ciphertext and
  tried again less than \<open>maxRetainAttempts\<close> times.
\<close>

theorem pending_bounded:
  assumes "0 < po_maxPending P" and "0 < po_maxRetainAttempts P"
  shows "pending_ok P (pi_pending (foldl (\<lambda>x c. run_op P c x) \<lparr> pi_node = n, pi_pending = [] \<rparr> cs))"
proof (induction cs rule: rev_induct)
  case Nil then show ?case by (simp add: pending_ok_def)
next
  case (snoc c cs) then show ?case using run_op_ok [OF _ assms] by simp
qed

abbreviation locked_ports :: "(string \<times> jsval) list node ports" where
  "locked_ports \<equiv> failing_ports\<lparr>po_decrypt := \<lambda>_. throw (Error ''no session''), po_maxPending := 2\<rparr>"

definition sample_pipeline_run :: "(string \<times> jsval) list node pipeline" where
  "sample_pipeline_run = foldl (\<lambda>x c. run_op locked_ports c x) \<lparr> pi_node = sample_node, pi_pending = [] \<rparr>
     [Submit (sample_frame ''e1''), Submit (sample_frame ''e2''), Sweep, Submit (sample_frame ''e3'')]"

theorem pending_bounded_instance:
  "pending_ok locked_ports (pi_pending sample_pipeline_run)
   \<and> map (\<lambda>(k, f, a). (k, a)) (pi_pending sample_pipeline_run) = [(''mb:e2'', 1), (''mb:e3'', 0)]"
proof
  show "pending_ok locked_ports (pi_pending sample_pipeline_run)"
    unfolding sample_pipeline_run_def by (rule pending_bounded) (simp_all add: failing_ports_def)
  show "map (\<lambda>(k, f, a). (k, a)) (pi_pending sample_pipeline_run) = [(''mb:e2'', 1), (''mb:e3'', 0)]"
    by code_simp
qed

end
