(* ===== verification/CatchupProperties.thy ===== *)
theory CatchupProperties
  imports PipelineProperties
begin

text \<open>
  Properties of catching up: the cursor stops at the first gap, a drain ends, and a deposit that never decrypts is
  given up, not before its failures allow it.
\<close>

section \<open>A drain ends\<close>

text \<open>What an operation on a drain does to the home, when it is not a call of the mailbox: nothing.\<close>

definition home_idle :: "('n, 'w, 'a) drain \<Rightarrow> bool" where
  "home_idle m \<longleftrightarrow> (\<forall>x. cu_home (snd (m x)) = cu_home x)"

lemma home_idle_andThen: "home_idle m \<Longrightarrow> (\<And>y. home_idle (f y)) \<Longrightarrow> home_idle (andThen m f)"
  by (simp add: home_idle_def andThen_def split: prod.split sum.split) (metis snd_conv)

lemma home_idle_catching: "home_idle m \<Longrightarrow> home_idle (catching m x)"
  by (simp add: home_idle_def)

lemma home_idle_each: "(\<And>y. home_idle (f y)) \<Longrightarrow> home_idle (each f ys)"
  by (induction ys) (auto intro: home_idle_andThen simp: home_idle_def [of "ok _"] ok_def)

lemma home_idle_simps [simp]:
  "home_idle (ok y)" "home_idle (on_inner k)" "home_idle (submitted E fr)" "home_idle (drop_backoff key)"
  "home_idle (arm_backoff E key a)" "home_idle (emitQuarantined E sq ev at' age rs)"
  by (auto simp: home_idle_def ok_def on_inner_def submitted_def drop_backoff_def arm_backoff_def emitQuarantined_def Let_def split: prod.split)

lemma home_idle_failure: "(\<And>l. home_idle (g l)) \<Longrightarrow> home_idle (count_failure E sq ev key g)"
  by (auto simp: count_failure_def intro!: home_idle_andThen home_idle_catching split: option.split)

lemma home_idle_handle: "home_idle (handleDurableFailure E sq)"
  unfolding handleDurableFailure_def by (intro home_idle_failure home_idle_andThen home_idle_simps)

lemma home_idle_attempt: "home_idle (durable_attempt E sq item p)"
  by (auto simp: durable_attempt_def intro!: home_idle_andThen home_idle_handle)

lemma home_idle_item: "home_idle (durable_item E sq item p)"
  using home_idle_attempt [of E sq item p] by (simp add: home_idle_def durable_item_def ok_def)

lemma home_idle_items: "home_idle (durable_items E items p)"
  by (induction items arbitrary: p) (auto intro!: home_idle_andThen home_idle_item split: option.split)

lemma home_idle_forget: "home_idle (forgetConsumedSeqs E ss)"
  by (auto simp: forgetConsumedSeqs_def intro!: home_idle_each home_idle_andThen split: option.split)

text \<open>
  What a pass did with the items up to the watermark, one after the other: each was handled by the pipeline, or was
  counted a failure for the last time and given up.
\<close>

inductive settled_run :: "('n, 'w) catchupEnv \<Rightarrow> ('n, 'w) catchup \<Rightarrow> jsval list \<Rightarrow> ('n, 'w) catchup \<Rightarrow> bool" for E where
  none: "settled_run E x [] x"
| consumed: "\<lbrakk> settled_run E x items y; itemSeq item = Some sq; submitted E (durable_frame E sq item) y = (Inr True, z) \<rbrakk>
     \<Longrightarrow> settled_run E x (items @ [item]) z"
| given_up: "\<lbrakk> settled_run E x items y; itemSeq item = Some sq; submitted E (durable_frame E sq item) y = (Inr False, y');
     handleDurableFailure E sq y' = (Inr True, z) \<rbrakk> \<Longrightarrow> settled_run E x (items @ [item]) z"

definition watermark :: "jsval list \<Rightarrow> rat" where
  "watermark items = (if items = [] then 0 else the (itemSeq (last items)))"

text \<open>Once there is a gap, the watermark and the list of consumed numbers stay.\<close>

lemma attempt_after_gap:
  "durable_attempt E sq item p x = (Inr q, y) \<Longrightarrow> \<not> dp_contiguous p \<Longrightarrow> \<not> dp_contiguous q \<and> dp_throughSeq q = dp_throughSeq p \<and> dp_consumed q = dp_consumed p"
  by (auto simp: durable_attempt_def ok_def gap_def elim!: andThen_InrE split: if_splits)

lemma item_after_gap:
  "durable_item E sq item p x = (Inr q, y) \<Longrightarrow> \<not> dp_contiguous p \<Longrightarrow> \<not> dp_contiguous q \<and> dp_throughSeq q = dp_throughSeq p \<and> dp_consumed q = dp_consumed p"
  using attempt_after_gap [of E sq item p x q y] by (auto simp: durable_item_def ok_def gap_def split: if_splits)

lemma items_after_gap:
  "durable_items E items p x = (Inr q, y) \<Longrightarrow> \<not> dp_contiguous p \<Longrightarrow> dp_throughSeq q = dp_throughSeq p \<and> dp_consumed q = dp_consumed p"
proof (induction items arbitrary: p x)
  case (Cons item items)
  then show ?case by (auto simp: ok_def dest!: item_after_gap elim!: andThen_InrE split: option.splits)
qed (simp add: ok_def)

lemma items_keep_blocked: "durable_items E items p x = (Inr q, y) \<Longrightarrow> dp_blocked p \<Longrightarrow> dp_blocked q"
proof (induction items arbitrary: p x)
  case (Cons item items)
  have "dp_blocked p1" if "durable_item E sq item p x = (Inr p1, x1)" for sq p1 x1
    using that Cons.prems(2) by (auto simp: durable_item_def durable_attempt_def ok_def gap_def elim!: andThen_InrE split: if_splits)
  with Cons show ?case by (auto simp: ok_def elim!: andThen_InrE split: option.splits)
qed (simp add: ok_def)

text \<open>An item of a pass without a gap: it is settled and the watermark moves to it, or it is the gap.\<close>

lemma item_before_gap:
  assumes "durable_item E sq item p x = (Inr q, y)" and "dp_contiguous p" and "settled_run E x0 pre x" and "itemSeq item = Some sq"
  obtains (settled) "settled_run E x0 (pre @ [item]) y" and "dp_contiguous q" and "dp_throughSeq q = sq" and "dp_blocked q = dp_blocked p"
  | (gap) "\<not> dp_contiguous q" and "dp_throughSeq q = dp_throughSeq p" and "dp_blocked q"
proof (cases "in_backoff E (seq_key sq) x")
  case False
  then have "durable_attempt E sq item p x = (Inr q, y)" using assms(1) by (simp add: durable_item_def)
  then obtain b x1 where s: "submitted E (durable_frame E sq item) x = (Inr b, x1)"
    and rest: "(if b then ok (if dp_contiguous p then p\<lparr>dp_throughSeq := sq, dp_consumed := dp_consumed p @ [sq]\<rparr> else p)
        else andThen (handleDurableFailure E sq) (\<lambda>skip. ok (if skip then (if dp_contiguous p then p\<lparr>dp_throughSeq := sq\<rparr> else p) else gap p))) x1 = (Inr q, y)"
    unfolding durable_attempt_def by (elim andThen_InrE)
  show ?thesis
  proof (cases b)
    case True
    then show ?thesis using that(1) s rest assms(2) settled_run.consumed [OF assms(3,4)] by (auto simp: ok_def)
  next
    case False
    with rest obtain skip where "handleDurableFailure E sq x1 = (Inr skip, y)"
      and "q = (if skip then (if dp_contiguous p then p\<lparr>dp_throughSeq := sq\<rparr> else p) else gap p)"
      by (auto simp: ok_def elim!: andThen_InrE)
    then show ?thesis using that s False assms(2) settled_run.given_up [OF assms(3,4)]
      by (cases skip) (auto simp: gap_def)
  qed
qed (use assms(1) that(2) in \<open>auto simp: durable_item_def ok_def gap_def\<close>)

lemma items_watermark:
  assumes "durable_items E items p x = (Inr q, y)" and "dp_contiguous p" and "dp_throughSeq p = watermark pre" and "settled_run E x0 pre x"
  shows "\<exists>mid post z. items = mid @ post \<and> settled_run E x0 (pre @ mid) z \<and> dp_throughSeq q = watermark (pre @ mid)
    \<and> (post \<noteq> [] \<longrightarrow> dp_blocked q) \<and> (\<forall>item \<in> set mid. itemSeq item \<noteq> None)"
  using assms
proof (induction items arbitrary: p x pre)
  case Nil
  then show ?case by (auto simp: ok_def)
next
  case (Cons item items)
  show ?case
  proof (cases "itemSeq item")
    case None
    then have "q = p\<lparr>dp_blocked := True\<rparr>" using Cons.prems(1) by (simp add: ok_def)
    then show ?thesis using Cons.prems(3,4) by (intro exI [of _ "[]"] exI [of _ "item # items"]) auto
  next
    case (Some sq)
    then obtain p1 x1 where one: "durable_item E sq item p x = (Inr p1, x1)" and rest: "durable_items E items p1 x1 = (Inr q, y)"
      using Cons.prems(1) by (auto elim: andThen_InrE)
    from one Cons.prems(2,4) Some show ?thesis
    proof (cases rule: item_before_gap)
      case settled
      have "dp_throughSeq p1 = watermark (pre @ [item])" using settled(3) Some by (simp add: watermark_def)
      from Cons.IH [OF rest settled(2) this settled(1)] obtain mid post z where "items = mid @ post"
        "settled_run E x0 ((pre @ [item]) @ mid) z" "dp_throughSeq q = watermark ((pre @ [item]) @ mid)" "post \<noteq> [] \<longrightarrow> dp_blocked q"
        "\<forall>i \<in> set mid. itemSeq i \<noteq> None" by blast
      then show ?thesis using Some by (intro exI [of _ "item # mid"] exI [of _ post]) auto
    next
      case gap
      have "dp_throughSeq q = watermark pre" using items_after_gap [OF rest gap(1)] gap(2) Cons.prems(3) by simp
      moreover have "dp_blocked q" using items_keep_blocked [OF rest gap(3)] .
      ultimately show ?thesis using Cons.prems(4) by (intro exI [of _ "[]"] exI [of _ "item # items"]) auto
    qed
  qed
qed

lemma pass_watermark:
  assumes "durable_items E items new_pass x = (Inr q, y)"
  shows "\<exists>pre post z. items = pre @ post \<and> settled_run E x pre z \<and> dp_throughSeq q = watermark pre
    \<and> (post \<noteq> [] \<longrightarrow> dp_blocked q) \<and> (\<forall>item \<in> set pre. itemSeq item \<noteq> None)"
  using items_watermark [OF assms, of "[]", OF _ _ settled_run.none] by (simp add: new_pass_def watermark_def)

lemma itemSeq_positive: "itemSeq item = Some sq \<Longrightarrow> 0 < sq"
  by (auto simp: itemSeq_def split: if_splits jsnum.splits)

lemma watermark_in: "pre \<noteq> [] \<Longrightarrow> \<forall>item \<in> set pre. itemSeq item \<noteq> None \<Longrightarrow> \<exists>item \<in> set pre. itemSeq item = Some (watermark pre) \<and> 0 < watermark pre"
  using itemSeq_positive by (intro bexI [of _ "last pre"]) (auto simp: watermark_def)

text \<open>One round, seen from the home.\<close>

lemma round_home:
  assumes "mb_list (ce_mailbox E) (ce_mailboxId E) Null (ce_pageLimit E) (cu_home x) = (Inr page, w)"
  obtains pre post z where "page_items page = pre @ post" and "settled_run E (x\<lparr>cu_home := w\<rparr>) pre z"
    and "cu_home (snd (durable_round E x)) = (if 0 < watermark pre then snd (mb_cursorAck (ce_mailbox E) (ce_mailboxId E) (watermark pre) w) else w)"
    and "fst (durable_round E x) = Inr True \<Longrightarrow> pre = page_items page \<and> pre \<noteq> [] \<and> 0 < watermark pre
      \<and> (\<exists>item \<in> set pre. itemSeq item = Some (watermark pre)) \<and> fst (mb_cursorAck (ce_mailbox E) (ce_mailboxId E) (watermark pre) w) = Inr ()"
proof -
  let ?x = "x\<lparr>cu_home := w\<rparr>" and ?ack = "mb_cursorAck (ce_mailbox E) (ce_mailboxId E)"
  have list: "on_home (mb_list (ce_mailbox E) (ce_mailboxId E) Null (ce_pageLimit E)) x = (Inr page, ?x)"
    using assms by (simp add: on_home_def)
  show ?thesis
  proof (cases "page_items page = []")
    case True
    then show ?thesis using that [of "[]" "[]", OF _ settled_run.none] list
      by (simp add: durable_round_def andThen_def ok_def watermark_def)
  next
    case False
    have homes: "cu_home (snd (durable_items E (page_items page) new_pass ?x)) = w"
      using home_idle_items [of E "page_items page" new_pass] by (simp add: home_idle_def)
    show ?thesis
    proof (cases "durable_items E (page_items page) new_pass ?x")
      case (Pair r y)
      then show ?thesis
      proof (cases r)
        case (Inl e)
        then have "durable_round E x = (Inl e, y)" using list False Pair by (simp add: durable_round_def andThen_def)
        moreover have "cu_home y = w" using homes Pair by simp
        ultimately show ?thesis by (intro that [of "[]" "page_items page", OF _ settled_run.none]) (simp_all add: watermark_def)
      next
        case (Inr q)
        then obtain pre post z where p: "page_items page = pre @ post" "settled_run E ?x pre z" "dp_throughSeq q = watermark pre"
          "post \<noteq> [] \<longrightarrow> dp_blocked q" "\<forall>item \<in> set pre. itemSeq item \<noteq> None"
          using pass_watermark Pair by metis
        have y: "cu_home y = w" using homes Pair by simp
        have eq: "durable_round E x = (if 0 < watermark pre then
             andThen (attempt (on_home (?ack (watermark pre)))) (\<lambda>acked.
               if acked then andThen (forgetConsumedSeqs E (dp_consumed q)) (\<lambda>_. ok (\<not> dp_blocked q)) else ok False) y
           else ok (\<not> dp_blocked q) y)"
          using list False Pair Inr p(3) by (simp add: durable_round_def andThen_def)
        have f: "cu_home (snd (andThen (forgetConsumedSeqs E (dp_consumed q)) (\<lambda>_. ok (\<not> dp_blocked q)) k)) = cu_home k" for k
          using home_idle_forget [of E "dp_consumed q"] by (simp add: home_idle_def)
        have home: "cu_home (snd (durable_round E x)) = (if 0 < watermark pre then snd (?ack (watermark pre) w) else w)"
          using y f unfolding eq by (auto simp: andThen_def [of "attempt _"] attempt_eq on_home_def ok_def split: prod.splits)
        have again: "pre = page_items page \<and> pre \<noteq> [] \<and> 0 < watermark pre
          \<and> (\<exists>item \<in> set pre. itemSeq item = Some (watermark pre)) \<and> fst (?ack (watermark pre) w) = Inr ()"
          if "fst (durable_round E x) = Inr True"
        proof -
          have nb: "\<not> dp_blocked q" and acked: "0 < watermark pre \<Longrightarrow> fst (?ack (watermark pre) w) = Inr ()"
            using that y unfolding eq
            by (auto simp: andThen_def attempt_eq on_home_def ok_def split: if_splits prod.splits sum.splits)
          then have "pre = page_items page" "pre \<noteq> []" using p(1,4) False by auto
          then show ?thesis using watermark_in [OF _ p(5)] acked by auto
        qed
        show ?thesis by (rule that [OF p(1,2) home again])
      qed
    qed
  qed
qed

text \<open>
  C23. The cursor stops at the first gap. What a round of a durable drain does at the home, beyond listing, is to move
  the cursor to the number of the last item of a prefix of the page, where one after the other every item of the
  prefix was handled by the pipeline or given up after its last failure; if the prefix is empty, nothing.
\<close>

theorem cursor_stops_at_gap:
  assumes "mb_list (ce_mailbox E) (ce_mailboxId E) Null (ce_pageLimit E) (cu_home x) = (Inr page, w)"
  shows "\<exists>pre post z. page_items page = pre @ post \<and> settled_run E (x\<lparr>cu_home := w\<rparr>) pre z
    \<and> cu_home (snd (durable_round E x)) = (if 0 < watermark pre then snd (mb_cursorAck (ce_mailbox E) (ce_mailboxId E) (watermark pre) w) else w)"
  using round_home [OF assms] by metis

text \<open>
  What a drain relies on of the home: an ordered mailbox. \<open>waiting\<close> are the numbers that are not behind the cursor:
  what is listed waits, and an acknowledged number and all below it wait no more.
\<close>

definition orderly_home :: "('n, 'w) catchupEnv \<Rightarrow> ('w \<Rightarrow> rat set) \<Rightarrow> bool" where
  "orderly_home E waiting \<longleftrightarrow> (\<forall>w. finite (waiting w)
     \<and> (case mb_list (ce_mailbox E) (ce_mailboxId E) Null (ce_pageLimit E) w of
          (Inr page, v) \<Rightarrow> waiting v \<subseteq> waiting w \<and> (\<forall>item \<in> set (page_items page). \<forall>sq. itemSeq item = Some sq \<longrightarrow> sq \<in> waiting v)
        | (Inl e, v) \<Rightarrow> True)
     \<and> (\<forall>sq. case mb_cursorAck (ce_mailbox E) (ce_mailboxId E) sq w of
          (Inr _, v) \<Rightarrow> waiting v \<subseteq> {t \<in> waiting w. sq < t} | (Inl e, v) \<Rightarrow> True))"

lemma orderly_list:
  assumes "orderly_home E waiting" and "mb_list (ce_mailbox E) (ce_mailboxId E) Null (ce_pageLimit E) w = (Inr page, v)"
  shows "waiting v \<subseteq> waiting w" and "\<And>item sq. item \<in> set (page_items page) \<Longrightarrow> itemSeq item = Some sq \<Longrightarrow> sq \<in> waiting v"
  using assms(1) [unfolded orderly_home_def, rule_format, of w] assms(2) by auto

lemma orderly_ack:
  assumes "orderly_home E waiting" and "fst (mb_cursorAck (ce_mailbox E) (ce_mailboxId E) sq w) = Inr ()"
  shows "waiting (snd (mb_cursorAck (ce_mailbox E) (ce_mailboxId E) sq w)) \<subseteq> {t \<in> waiting w. sq < t}"
  using assms(1) [unfolded orderly_home_def, rule_format, of w] assms(2)
  by (cases "mb_cursorAck (ce_mailbox E) (ce_mailboxId E) sq w") (auto dest!: spec [of _ sq])

lemma round_lists:
  assumes "durable_round E x = (Inr True, y)"
  obtains page w where "mb_list (ce_mailbox E) (ce_mailboxId E) Null (ce_pageLimit E) (cu_home x) = (Inr page, w)"
proof -
  obtain page x1 where "on_home (mb_list (ce_mailbox E) (ce_mailboxId E) Null (ce_pageLimit E)) x = (Inr page, x1)"
    using assms unfolding durable_round_def by (elim andThen_InrE)
  then show ?thesis using that by (auto simp: on_home_def split: prod.splits)
qed

lemma round_progress:
  assumes "orderly_home E waiting" and "durable_round E x = (Inr True, y)"
  shows "card (waiting (cu_home y)) < card (waiting (cu_home x))"
proof -
  obtain page w where l: "mb_list (ce_mailbox E) (ce_mailboxId E) Null (ce_pageLimit E) (cu_home x) = (Inr page, w)"
    using assms(2) by (rule round_lists)
  show ?thesis
  proof (rule round_home [OF l])
    fix pre
    assume home: "cu_home (snd (durable_round E x)) = (if 0 < watermark pre then snd (mb_cursorAck (ce_mailbox E) (ce_mailboxId E) (watermark pre) w) else w)"
      and "fst (durable_round E x) = Inr True \<Longrightarrow> pre = page_items page \<and> pre \<noteq> [] \<and> 0 < watermark pre
        \<and> (\<exists>item \<in> set pre. itemSeq item = Some (watermark pre)) \<and> fst (mb_cursorAck (ce_mailbox E) (ce_mailboxId E) (watermark pre) w) = Inr ()"
    then have pre: "pre = page_items page" "0 < watermark pre" "\<exists>item \<in> set pre. itemSeq item = Some (watermark pre)"
      and acked: "fst (mb_cursorAck (ce_mailbox E) (ce_mailboxId E) (watermark pre) w) = Inr ()"
      using assms(2) by auto
    have "watermark pre \<in> waiting (cu_home x)" using orderly_list [OF assms(1) l] pre(1,3) by blast
    moreover have "waiting (cu_home y) \<subseteq> {t \<in> waiting w. watermark pre < t}"
      using home pre(2) assms(2) orderly_ack [OF assms(1) acked] by simp
    ultimately have "waiting (cu_home y) \<subset> waiting (cu_home x)" using orderly_list(1) [OF assms(1) l] by auto
    moreover have "finite (waiting (cu_home x))" using assms(1) by (simp add: orderly_home_def)
    ultimately show ?thesis by (rule psubset_card_mono [rotated])
  qed
qed

text \<open>Rounds end when each round that asks for another makes some measure smaller.\<close>

lemma rounds_unfold: "rounds body x = (case body x of (r, y) \<Rightarrow> if r = Inr True then rounds body y else Some (r, y))"
proof -
  have "while_option (\<lambda>(r, _). r = Inr True) (\<lambda>(_, x). body x) (r, y) = (if r = Inr True then rounds body y else Some (r, y))" for r y
    unfolding rounds_def by (subst while_option_unfold) (auto simp: while_option_unfold [of _ _ "(Inr True, y)"])
  then show ?thesis unfolding rounds_def by (subst while_option_unfold) (auto simp: rounds_def split: prod.split)
qed

lemma rounds_end:
  assumes "\<And>x y. body x = (Inr True, y) \<Longrightarrow> f y < (f x :: nat)"
  shows "\<exists>r y. rounds body x = Some (r, y) \<and> r \<noteq> Inr True"
proof (induction "f x" arbitrary: x rule: less_induct)
  case less
  show ?case
  proof (cases "body x")
    case (Pair r y)
    then show ?thesis using less [of y] assms [of x y] by (subst rounds_unfold) auto
  qed
qed

text \<open>
  C24. A durable drain ends, whatever the protocol, the services and the logs do: at an ordered home every round that is
  followed by another has moved the cursor.
\<close>

theorem durable_drain_ends:
  assumes "orderly_home E waiting"
  shows "\<exists>r y. drainDurable E x = Some (r, y) \<and> r \<noteq> Inr True"
  unfolding drainDurable_def using round_progress [OF assms] by (rule rounds_end)

section \<open>Giving up\<close>

text \<open>What the log of the server says of a deposit: its failures so far, and when the first one was, with this one.\<close>

definition failures_with :: "'s host \<Rightarrow> ('s node, 'w) catchupEnv \<Rightarrow> rat \<Rightarrow> ('s node, 'w) catchup \<Rightarrow> rat" where
  "failures_with H E sq x = attemptsOf H (Str (ce_mailboxId E)) (Str (seq_key sq)) (nd_kv (pi_node (cu_pipe x))) + 1"

definition first_failure :: "'s host \<Rightarrow> ('s node, 'w) catchupEnv \<Rightarrow> rat \<Rightarrow> ('s node, 'w) catchup \<Rightarrow> rat" where
  "first_failure H E sq x = stored_first (kvGet H (nd_kv (pi_node (cu_pipe x))) (attemptKey (trim (ce_mailboxId E)) (trim (seq_key sq)))) (ce_now E)"

lemma seq_key_ids: "trim m \<noteq> [] \<Longrightarrow> deposit_ids (Str m) (Str (seq_key sq)) = Some (trim m, trim (seq_key sq))"
  by (simp add: deposit_ids_Str seq_key_def trim_starts is_ws_def)

lemma finite_or_now_num [simp]: "finite_or_now H (num t) = t"
  by simp

lemma stored_attempts_next: "is_integer (num (stored_attempts v + 1))"
proof -
  have "of_int \<lfloor>stored_attempts v\<rfloor> = stored_attempts v"
    by (auto simp: stored_attempts_def split: jsval.split jsnum.split)
  then show ?thesis by simp
qed

lemma recordAttempt_counts:
  assumes "host_laws H" and "deposit_ids a b = Some (m, d)"
  shows "fst (recordAttempt H a b (num t) s) = attemptsOf H a b s + 1"
    and "attemptsOf H a b (snd (recordAttempt H a b (num t) s)) = attemptsOf H a b s + 1"
    and "firstSeenAtMs H a b (snd (recordAttempt H a b (num t) s)) = stored_first (kvGet H s (attemptKey m d)) t"
proof -
  let ?v = "kvGet H s (attemptKey m d)"
  have row: "kvGet H (snd (recordAttempt H a b (num t) s)) (attemptKey m d) = Obj [(''mailboxId'', Str m), (''eventId'', Str d),
      (''attempts'', num (stored_attempts ?v + 1)), (''firstSeenAtMs'', num (stored_first ?v t)), (''lastAttemptAtMs'', num t)]"
    using assms by (simp add: recordAttempt_def Let_def host_laws.get_set)
  show "fst (recordAttempt H a b (num t) s) = attemptsOf H a b s + 1"
    using assms(2) by (simp add: recordAttempt_def attemptsOf_def Let_def)
  show "attemptsOf H a b (snd (recordAttempt H a b (num t) s)) = attemptsOf H a b s + 1"
    using assms(2) stored_attempts_next [of ?v] by (simp add: attemptsOf_def row stored_attempts_def [of "Obj _"] getp_def)
  show "firstSeenAtMs H a b (snd (recordAttempt H a b (num t) s)) = stored_first ?v t"
    using assms(2) by (simp add: firstSeenAtMs_def row stored_first_def [of "Obj _"] getp_def)
qed

lemma count_failure_store:
  assumes "host_laws H" and "ce_attemptLog E = Some (store_attempts H)" and "trim (ce_mailboxId E) \<noteq> []"
    and give: "\<And>l z. \<exists>z'. give_up l z = (Inr (), z')"
  shows "\<exists>y. count_failure E (Some sq) [] (seq_key sq) give_up x = (Inr (bound_hit E (failures_with H E sq x) (first_failure H E sq x) \<noteq> None), y)
    \<and> (bound_hit E (failures_with H E sq x) (first_failure H E sq x) = None \<longrightarrow>
        pi_node (cu_pipe y) = (pi_node (cu_pipe x))\<lparr>nd_kv := snd (recordAttempt H (Str (ce_mailboxId E)) (Str (seq_key sq)) (num (ce_now E)) (nd_kv (pi_node (cu_pipe x))))\<rparr>)"
proof -
  let ?m = "ce_mailboxId E" and ?d = "seq_key sq" and ?n = "pi_node (cu_pipe x)"
  let ?r = "recordAttempt H (Str ?m) (Str ?d) (num (ce_now E)) (nd_kv ?n)"
  let ?x = "x\<lparr>cu_pipe := (cu_pipe x)\<lparr>pi_node := ?n\<lparr>nd_kv := snd ?r\<rparr>\<rparr>\<rparr>"
  have ids: "deposit_ids (Str ?m) (Str ?d) = Some (trim ?m, trim ?d)" using seq_key_ids assms(3) by blast
  note counts = recordAttempt_counts [OF assms(1) ids, of "ce_now E" "nd_kv ?n"]
  have rec: "on_inner (al_recordAttempt (store_attempts H) ?m ?d (ce_now E)) x = (Inr (failures_with H E sq x), ?x)"
    using counts(1) by (simp add: on_inner_def on_pipeline_def store_log_defs failures_with_def split_beta)
  have seen: "on_inner (catching (al_firstSeenAtMs (store_attempts H) ?m ?d) 0) ?x = (Inr (first_failure H E sq x), ?x)"
    using counts(3) by (simp add: on_inner_def on_pipeline_def store_log_defs catching_def first_failure_def)
  have emit: "\<exists>z. emitQuarantined E (Some sq) [] a g rs ?x = (Inr (), z)" for a g rs
    by (simp add: emitQuarantined_def on_inner_def on_pipeline_def catching_unit)
  show ?thesis
  proof (cases "bound_hit E (failures_with H E sq x) (first_failure H E sq x)")
    case None
    then show ?thesis using assms(2) rec seen
      by (simp add: count_failure_def andThen_def catching_def ok_def arm_backoff_def Let_def)
  next
    case (Some reason)
    obtain z where "emitQuarantined E (Some sq) [] (failures_with H E sq x) (age_of E (first_failure H E sq x)) reason ?x = (Inr (), z)"
      using emit by blast
    moreover obtain z' where "give_up (store_attempts H) z = (Inr (), z')" using give by blast
    ultimately show ?thesis using assms(2) rec seen Some
      by (simp add: count_failure_def andThen_def catching_def ok_def)
  qed
qed

lemma durable_failure_store:
  assumes "host_laws H" and "ce_attemptLog E = Some (store_attempts H)" and "trim (ce_mailboxId E) \<noteq> []"
  shows "\<exists>y. handleDurableFailure E sq x = (Inr (bound_hit E (failures_with H E sq x) (first_failure H E sq x) \<noteq> None), y)
    \<and> (bound_hit E (failures_with H E sq x) (first_failure H E sq x) = None \<longrightarrow>
        pi_node (cu_pipe y) = (pi_node (cu_pipe x))\<lparr>nd_kv := snd (recordAttempt H (Str (ce_mailboxId E)) (Str (seq_key sq)) (num (ce_now E)) (nd_kv (pi_node (cu_pipe x))))\<rparr>)"
  unfolding handleDurableFailure_def
proof (rule count_failure_store [OF assms])
  have inner: "\<exists>z'. on_inner (catching k ()) z = (Inr (), z')" for k :: "('a node, unit) op" and z :: "('a node, 'b) catchup"
    by (simp add: on_inner_def on_pipeline_def catching_unit)
  show "\<exists>z'. andThen (on_inner (catching (al_clearAttempts l (ce_mailboxId E) (seq_key sq)) ())) (\<lambda>_.
     andThen (on_inner (catching (al_forget l (ce_mailboxId E) (seq_key sq)) ())) (\<lambda>_. drop_backoff (seq_key sq))) z = (Inr (), z')" for l and z :: "('a node, 'b) catchup"
  proof -
    obtain z1 where 1: "on_inner (catching (al_clearAttempts l (ce_mailboxId E) (seq_key sq)) ()) z = (Inr (), z1)" using inner by blast
    obtain z2 where "on_inner (catching (al_forget l (ce_mailboxId E) (seq_key sq)) ()) z1 = (Inr (), z2)" using inner by blast
    then show ?thesis using 1 by (simp add: andThen_def drop_backoff_def ok_def)
  qed
qed

text \<open>
  When a deposit is given up: a failure makes the drain skip the deposit exactly when it is at least the
  \<open>maxDecryptAttempts\<close>-th one that the log of the server has counted, or at least the third one, with the first one
  at least \<open>maxQuarantineAgeMs\<close> ago. Time alone gives up nothing, and neither does the age of the deposit.
\<close>

theorem quarantine_bounds:
  assumes "host_laws H" and "ce_attemptLog E = Some (store_attempts H)" and "trim (ce_mailboxId E) \<noteq> []"
  shows "fst (handleDurableFailure E sq x) = Inr (failures_with H E sq x \<ge> ce_maxDecryptAttempts E
    \<or> failures_with H E sq x \<ge> 3 \<and> first_failure H E sq x > 0 \<and> ce_now E - first_failure H E sq x \<ge> ce_maxQuarantineAgeMs E)"
  using durable_failure_store [OF assms, of sq x]
  by (auto simp: bound_hit_def age_of_def QUARANTINE_MIN_ATTEMPTS_FOR_AGE_def split: if_splits)

text \<open>Failures of one deposit in drains at the given times, as long as it is not given up.\<close>

fun failing_drains :: "('n, 'w) catchupEnv \<Rightarrow> rat \<Rightarrow> rat list \<Rightarrow> ('n, 'w) catchup \<Rightarrow> (js_error + bool) list" where
  "failing_drains E sq [] x = []"
| "failing_drains E sq (t # ts) x = (case handleDurableFailure (E\<lparr>ce_now := t\<rparr>) sq x of
     (r, y) \<Rightarrow> r # (if r = Inr True then [] else failing_drains E sq ts y))"

lemma failing_drains_end:
  assumes "host_laws H" and "ce_attemptLog E = Some (store_attempts H)" and "trim (ce_mailboxId E) \<noteq> []" and "ce_maxDecryptAttempts E \<le> of_nat N"
    and "attemptsOf H (Str (ce_mailboxId E)) (Str (seq_key sq)) (nd_kv (pi_node (cu_pipe x))) = of_nat k" and "k < N" and "N \<le> k + length ts"
  shows "failing_drains E sq ts x \<noteq> [] \<and> last (failing_drains E sq ts x) = Inr True \<and> length (failing_drains E sq ts x) \<le> N - k
    \<and> (\<forall>r \<in> set (butlast (failing_drains E sq ts x)). r = Inr False)"
  using assms(5-7)
proof (induction ts arbitrary: x k)
  case (Cons t ts)
  let ?E = "E\<lparr>ce_now := t\<rparr>"
  from durable_failure_store [of H ?E sq x] assms(1-3) obtain y where
    f: "handleDurableFailure ?E sq x = (Inr (bound_hit ?E (failures_with H ?E sq x) (first_failure H ?E sq x) \<noteq> None), y)"
    and y: "bound_hit ?E (failures_with H ?E sq x) (first_failure H ?E sq x) = None \<Longrightarrow>
      nd_kv (pi_node (cu_pipe y)) = snd (recordAttempt H (Str (ce_mailboxId E)) (Str (seq_key sq)) (num t) (nd_kv (pi_node (cu_pipe x))))"
    by auto
  show ?case
  proof (cases "bound_hit ?E (failures_with H ?E sq x) (first_failure H ?E sq x)")
    case None
    have "attemptsOf H (Str (ce_mailboxId E)) (Str (seq_key sq)) (nd_kv (pi_node (cu_pipe y))) = of_nat (Suc k)"
      using recordAttempt_counts(2) [OF assms(1) seq_key_ids [OF assms(3)]] Cons.prems(1) y [OF None] by simp
    moreover have "Suc k < N"
    proof -
      have "\<not> of_nat (Suc k) \<ge> ce_maxDecryptAttempts E"
        using None Cons.prems(1) by (auto simp: bound_hit_def failures_with_def add.commute split: if_splits)
      then show ?thesis using assms(4) by (metis not_le of_nat_le_iff order_trans)
    qed
    ultimately show ?thesis using Cons.IH [of y "Suc k"] Cons.prems(3) f None by auto
  next
    case Some
    then show ?thesis using f Cons.prems(2) by auto
  qed
qed simp

text \<open>
  C25. A deposit that never decrypts does not block the mailbox for ever: from a cleared counter, at whatever times the
  drains run, the drain that fails on it for the \<open>N\<close>-th time at the latest gives it up, \<open>N\<close> the bound on attempts,
  and the drains before leave it in the mailbox.
\<close>

theorem poison_given_up:
  assumes "host_laws H" and "ce_attemptLog E = Some (store_attempts H)" and "trim (ce_mailboxId E) \<noteq> []" and "0 < N"
    and "ce_maxDecryptAttempts E \<le> of_nat N" and "N \<le> length ts"
    and "attemptsOf H (Str (ce_mailboxId E)) (Str (seq_key sq)) (nd_kv (pi_node (cu_pipe x))) = 0"
  shows "\<exists>k < N. failing_drains E sq ts x = replicate k (Inr False) @ [Inr True]"
proof -
  let ?rs = "failing_drains E sq ts x"
  have "?rs \<noteq> []" "last ?rs = Inr True" "length ?rs \<le> N" "\<forall>r \<in> set (butlast ?rs). r = Inr False"
    using failing_drains_end [OF assms(1-3,5), of sq x 0 ts] assms(4,6,7) by auto
  moreover have "length ?rs - 1 < N" using calculation(3) assms(4) by linarith
  moreover have "butlast ?rs = replicate (length ?rs - 1) (Inr False)" using calculation(4) by (intro replicate_eqI) auto
  ultimately show ?thesis by (metis append_butlast_last_id)
qed

section \<open>A sample drain\<close>

text \<open>A home that keeps the deposits in order and drops those behind the cursor, and a session that cannot read \<open>bad\<close>.\<close>

definition sample_home :: "(rat \<times> string) list mailbox" where
  "sample_home = \<lparr> mb_list = (\<lambda>m c k w. (Inr (Obj [(''items'', Arr (map (\<lambda>(t, ct). Obj [(''seq'', num t), (''ciphertextB64'', Str ct)]) (take k w)))]), w)),
     mb_fetch = (\<lambda>m e. throw (Error ''unsupported'')), mb_ack = (\<lambda>m e. throw (Error ''unsupported'')),
     mb_cursorAck = (\<lambda>m sq w. (Inr (), filter (\<lambda>(t, ct). sq < t) w)) \<rparr>"

definition sample_env :: "((string \<times> jsval) list node, (rat \<times> string) list) catchupEnv" where
  "sample_env = \<lparr> ce_ports = failing_ports\<lparr>po_decrypt := \<lambda>fr. if frameCiphertext fr = ''bad'' then throw (Error ''no session'') else ok sample_status\<rparr>,
     ce_mailbox = sample_home, ce_attemptLog = Some (store_attempts HM), ce_emit = (\<lambda>name r. effect_out (Emit name r)),
     ce_session = Obj [(''capabilities'', Obj [(''durableInbox'', Bool True)])], ce_mailboxId = ''mb'', ce_pageLimit = DEFAULT_PAGE_LIMIT,
     ce_maxDecryptAttempts = DEFAULT_MAX_DECRYPT_ATTEMPTS, ce_maxQuarantineAgeMs = DEFAULT_MAX_QUARANTINE_AGE_MS, ce_now = 5000 \<rparr>"

definition sample_catchup :: "((string \<times> jsval) list node, (rat \<times> string) list) catchup" where
  "sample_catchup = \<lparr> cu_pipe = \<lparr> pi_node = sample_node, pi_pending = [] \<rparr>, cu_home = [(1, ''a''), (2, ''bad''), (3, ''c'')], cu_backoff = [] \<rparr>"

lemma sample_env_simps [simp]:
  "ce_attemptLog sample_env = Some (store_attempts HM)" "ce_mailboxId sample_env = ''mb''" "ce_mailbox sample_env = sample_home"
  "ce_maxDecryptAttempts sample_env = 8" "ce_maxQuarantineAgeMs sample_env = 1800000" "trim ''mb'' = ''mb''"
  by (simp_all add: sample_env_def DEFAULT_MAX_DECRYPT_ATTEMPTS_def DEFAULT_MAX_QUARANTINE_AGE_MS_def trim_def is_ws_def)

lemma sample_unchanged: "sample_catchup\<lparr>cu_home := cu_home sample_catchup\<rparr> = sample_catchup"
  by simp

lemma sample_home_orderly: "orderly_home sample_env (\<lambda>w. fst ` set w)"
proof -
  have "sq = t" if "itemSeq (Obj [(''seq'', num t), (''ciphertextB64'', Str ct)]) = Some sq" for t ct sq
    using that by (simp add: itemSeq_def getp_def split: if_splits)
  then show ?thesis
    by (auto simp: orderly_home_def sample_home_def page_items_def getp_def image_iff dest!: in_set_takeD) (metis fst_conv)
qed

theorem cursor_stops_at_gap_instance:
  "cu_home (snd (durable_round sample_env sample_catchup)) = [(2, ''bad''), (3, ''c'')]
   \<and> (\<exists>pre post z. page_items (projr (fst (mb_list sample_home ''mb'' Null 50 (cu_home sample_catchup)))) = pre @ post
      \<and> settled_run sample_env sample_catchup pre z
      \<and> cu_home (snd (durable_round sample_env sample_catchup))
        = (if 0 < watermark pre then snd (mb_cursorAck sample_home ''mb'' (watermark pre) (cu_home sample_catchup)) else cu_home sample_catchup))"
proof
  have "mb_list (ce_mailbox sample_env) (ce_mailboxId sample_env) Null (ce_pageLimit sample_env) (cu_home sample_catchup)
    = (Inr (projr (fst (mb_list sample_home ''mb'' Null 50 (cu_home sample_catchup)))), cu_home sample_catchup)"
    by (simp add: sample_env_def sample_home_def DEFAULT_PAGE_LIMIT_def)
  from cursor_stops_at_gap [OF this] show "\<exists>pre post z. page_items (projr (fst (mb_list sample_home ''mb'' Null 50 (cu_home sample_catchup)))) = pre @ post
      \<and> settled_run sample_env sample_catchup pre z
      \<and> cu_home (snd (durable_round sample_env sample_catchup))
        = (if 0 < watermark pre then snd (mb_cursorAck sample_home ''mb'' (watermark pre) (cu_home sample_catchup)) else cu_home sample_catchup)"
    by (simp only: sample_env_simps sample_unchanged)
  show "cu_home (snd (durable_round sample_env sample_catchup)) = [(2, ''bad''), (3, ''c'')]"
    by code_simp
qed

theorem durable_drain_ends_instance: "\<exists>r y. drainDurable sample_env sample_catchup = Some (r, y) \<and> r \<noteq> Inr True"
  by (rule durable_drain_ends [OF sample_home_orderly])

theorem quarantine_bounds_instance: "fst (handleDurableFailure sample_env 2 sample_catchup) = Inr False"
proof -
  have "failures_with HM sample_env 2 sample_catchup = 1" by code_simp
  then show ?thesis using quarantine_bounds [OF HM_laws, of sample_env 2 sample_catchup] by simp
qed

theorem poison_given_up_instance:
  "\<exists>k < 8. failing_drains sample_env 2 [1, 2, 3, 4, 5, 6, 7, 8, 9] sample_catchup = replicate k (Inr False) @ [Inr True]"
proof -
  have "attemptsOf HM (Str (ce_mailboxId sample_env)) (Str (seq_key 2)) (nd_kv (pi_node (cu_pipe sample_catchup))) = 0" by code_simp
  then show ?thesis by (intro poison_given_up [OF HM_laws]) simp_all
qed

end
