(* ===== verification/NoticeProperties.thy ===== *)
theory NoticeProperties
  imports CatchupProperties
begin

text \<open>
  The notices of deposits that were given up, in the interface: \<open>src/ui/stores/NoticesStore.js\<close>,
  \<open>src/ui/services/bus/SystemNoticesService.js\<close> and the texts of \<open>src/ui/system/systemNoticesThread.js\<close>. The
  thread store of the interface is the row the service last gave to it. The properties follow a given-up deposit
  from the drain to the screen: a home with sequence numbers has one notice per deposit; a home without has one
  notice for all of them.
\<close>

section \<open>The store\<close>

record noticeEntry =
  ne_id :: string
  ne_event :: jsval
  ne_receivedAtMs :: rat

record notices =
  no_entries :: "noticeEntry list"
  no_readCount :: nat

definition event_seq :: "jsval \<Rightarrow> rat option" where
  "event_seq event = (if is_integer (getp event ''seq'')
     then (case getp event ''seq'' of Num (Fin r) \<Rightarrow> if r \<ge> 0 then Some r else None | _ \<Rightarrow> None) else None)"

definition noticeIdFor :: "jsval \<Rightarrow> string" where
  "noticeIdFor event = (let mailboxId = trim (sget event ''mailboxId''); eventId = trim (sget event ''eventId'') in
     if mailboxId = [] then []
     else case event_seq event of Some s \<Rightarrow> mailboxId @ ''/s'' @ rat_string s
       | None \<Rightarrow> if eventId \<noteq> [] then mailboxId @ ''/e'' @ eventId else [])"

definition find_notice :: "string \<Rightarrow> notices \<Rightarrow> noticeEntry option" where
  "find_notice i s = find (\<lambda>e. ne_id e = i) (no_entries s)"

definition addNotice :: "'s host \<Rightarrow> jsval \<Rightarrow> jsval \<Rightarrow> notices \<Rightarrow> noticeEntry option \<times> notices" where
  "addNotice H event receivedAtMs s = (let i = noticeIdFor event in
     if i = [] then (None, s)
     else case find_notice i s of Some e \<Rightarrow> (Some e, s)
       | None \<Rightarrow> let e = \<lparr> ne_id = i, ne_event = event, ne_receivedAtMs = (case receivedAtMs of Num (Fin r) \<Rightarrow> r | _ \<Rightarrow> clockMs H) \<rparr> in
           (Some e, s\<lparr>no_entries := no_entries s @ [e]\<rparr>))"

definition getNotices :: "'s host \<Rightarrow> notices \<Rightarrow> noticeEntry list" where
  "getNotices H s = sort_by (\<lambda>a b. if ne_receivedAtMs a \<noteq> ne_receivedAtMs b then ne_receivedAtMs a - ne_receivedAtMs b
     else localeCompare H (ne_id a) (ne_id b)) (no_entries s)"

definition getNotice :: "jsval \<Rightarrow> notices \<Rightarrow> noticeEntry option" where
  "getNotice i s = (let key = trim (if nullish i then [] else js_string i) in if key = [] then None else find_notice key s)"

definition latest :: "'s host \<Rightarrow> notices \<Rightarrow> noticeEntry option" where
  "latest H s = (if getNotices H s = [] then None else Some (last (getNotices H s)))"

definition unreadCount :: "notices \<Rightarrow> nat" where
  "unreadCount s = length (no_entries s) - no_readCount s"

definition markRead :: "notices \<Rightarrow> notices" where
  "markRead s = (if no_readCount s \<ge> length (no_entries s) then s else s\<lparr>no_readCount := length (no_entries s)\<rparr>)"

definition reset_notices :: notices where
  "reset_notices = \<lparr> no_entries = [], no_readCount = 0 \<rparr>"

section \<open>The system thread\<close>

definition SYSTEM_NOTICES_THREAD_ID :: string where
  "SYSTEM_NOTICES_THREAD_ID = ''system:notices''"

definition isSystemNoticesThreadId :: "jsval \<Rightarrow> bool" where
  "isSystemNoticesThreadId threadId \<longleftrightarrow> trim (if nullish threadId then [] else js_string threadId) = SYSTEM_NOTICES_THREAD_ID"

definition noticeReasonText :: "jsval \<Rightarrow> string" where
  "noticeReasonText event =
     (let reason = trim (sget event ''reason'');
          attempts = (case getp event ''attempts'' of Num (Fin r) \<Rightarrow> r | _ \<Rightarrow> 0);
          ageMs = (case getp event ''ageMs'' of Num (Fin r) \<Rightarrow> r | _ \<Rightarrow> 0) in
      if reason = ''age'' then ''dropped after '' @ rat_string (max 1 (of_int \<lfloor>ageMs / 60000 + 1 / 2\<rfloor>)) @ '' min undelivered''
      else if attempts > 0 then ''dropped after '' @ rat_string attempts @ '' failed delivery attempts''
      else ''dropped after repeated delivery failures'')"

record noticesUi =
  nu_notices :: notices
  nu_archived :: bool
  nu_selected :: jsval
  nu_row :: "ChatThread option"

definition system_row :: "'s host \<Rightarrow> noticesUi \<Rightarrow> jsval" where
  "system_row H u = Obj [(''threadId'', Str SYSTEM_NOTICES_THREAD_ID), (''threadType'', Str ''direct''), (''title'', Str ''System''),
     (''displayTitle'', Str ''System''), (''visibilityState'', Str (if nu_archived u then ''hidden'' else ''visible'')),
     (''accessState'', Str ''open''), (''threadReady'', Bool True), (''sendAllowed'', Bool False),
     (''unreadCount'', num (of_nat (unreadCount (nu_notices u)))),
     (''lastActivityAtMs'', num (case latest H (nu_notices u) of None \<Rightarrow> 0 | Some e \<Rightarrow> ne_receivedAtMs e)),
     (''lastMessagePreview'', Str ''A message couldn't be delivered'')]"

definition refreshThread :: "'s host \<Rightarrow> (noticesUi, unit) op" where
  "refreshThread H u = (if no_entries (nu_notices u) = [] then (Inr (), u\<lparr>nu_row := None\<rparr>)
     else case mkChatThread (system_row H u) of Inl e \<Rightarrow> (Inl e, u) | Inr t \<Rightarrow> (Inr (), u\<lparr>nu_row := Some t\<rparr>))"

definition read_if_open :: "(noticesUi, unit) op" where
  "read_if_open u = (Inr (), if isSystemNoticesThreadId (nu_selected u) then u\<lparr>nu_notices := markRead (nu_notices u)\<rparr> else u)"

definition onQuarantined :: "'s host \<Rightarrow> jsval \<Rightarrow> (noticesUi, unit) op" where
  "onQuarantined H event u = (case addNotice H event (num (clockMs H)) (nu_notices u) of
       (None, s) \<Rightarrow> (Inr (), u)
     | (Some e, s) \<Rightarrow> andThen read_if_open (\<lambda>_. refreshThread H) (u\<lparr>nu_notices := s\<rparr>))"

definition onSelectionChanged :: "'s host \<Rightarrow> jsval \<Rightarrow> (noticesUi, unit) op" where
  "onSelectionChanged H selected u = (let v = u\<lparr>nu_selected := selected\<rparr> in
     if isSystemNoticesThreadId selected then andThen read_if_open (\<lambda>_. refreshThread H) v else (Inr (), v))"

text \<open>The thread store was filled anew, without this row.\<close>

definition onThreadsReplaced :: "'s host \<Rightarrow> (noticesUi, unit) op" where
  "onThreadsReplaced H u = refreshThread H (u\<lparr>nu_row := None\<rparr>)"

definition setArchived :: "'s host \<Rightarrow> jsval \<Rightarrow> (noticesUi, bool) op" where
  "setArchived H archived u = (let next = (archived = Bool True) in
     if nu_archived u = next then (Inr next, u)
     else let v = u\<lparr>nu_archived := next, nu_selected := (if next \<and> isSystemNoticesThreadId (nu_selected u) then Null else nu_selected u)\<rparr> in
       andThen (refreshThread H) (\<lambda>_. ok next) v)"

lemma find_notice_new:
  "find_notice i s = None \<Longrightarrow> ne_id e = i \<Longrightarrow> find_notice i (s\<lparr>no_entries := no_entries s @ [e]\<rparr>) = Some e"
proof -
  have "find P xs = None \<Longrightarrow> P e \<Longrightarrow> find P (xs @ [e]) = Some e" for P and xs :: "noticeEntry list"
    by (induction xs) (auto split: if_splits)
  then show "find_notice i s = None \<Longrightarrow> ne_id e = i \<Longrightarrow> ?thesis" by (simp add: find_notice_def)
qed

lemma addNotice_known:
  assumes "noticeIdFor event = noticeIdFor event'"
  shows "snd (addNotice H event' t' (snd (addNotice H event t s))) = snd (addNotice H event t s)"
proof (cases "find_notice (noticeIdFor event) s")
  case None
  then show ?thesis using assms find_notice_new by (simp add: addNotice_def Let_def)
next
  case (Some e)
  then show ?thesis using assms by (simp add: addNotice_def Let_def)
qed

lemma quarantine_schema_wf: "wf_schema (sc_schema MailboxDepositQuarantinedEvent)"
  by code_simp

lemma quarantine_event_fields:
  assumes "quarantine_event E sq eventId attempts ageMs reason = Inr event"
  shows "sget event ''mailboxId'' = trim (ce_mailboxId E)" and "getp event ''seq'' = num (case sq of None \<Rightarrow> 0 | Some s \<Rightarrow> s)"
proof -
  note field = new_record_field [OF quarantine_schema_wf assms [unfolded quarantine_event_def]]
  have "coerceField (Str (ce_mailboxId E)) required_string = Inr (getp event ''mailboxId'')"
    using field [of "''mailboxId''" required_string] by (simp add: MailboxDepositQuarantinedEvent_def plain_class_def getp_def)
  then have "getp event ''mailboxId'' = Str (trim (ce_mailboxId E))"
    by (auto simp: coerceField_def coerceString_def lower_if_def string_default_def Let_def split: if_splits)
  then show "sget event ''mailboxId'' = trim (ce_mailboxId E)" by (simp add: sget_def)
  have "coerceField (case sq of None \<Rightarrow> Null | Some s \<Rightarrow> num s) (a_number\<lparr>sp_nullable := True\<rparr>) = Inr (getp event ''seq'')"
    using field [of "''seq''" "a_number\<lparr>sp_nullable := True\<rparr>"] by (simp add: MailboxDepositQuarantinedEvent_def plain_class_def getp_def)
  then show "getp event ''seq'' = num (case sq of None \<Rightarrow> 0 | Some s \<Rightarrow> s)"
    by (auto simp: coerceField_def coerceNumber_def clamped_def split: option.splits)
qed

text \<open>
  C26. At a home without sequence numbers all deposits that are given up share one notice: the number \<open>null\<close> of their
  events is coerced to 0, the store takes 0 for a sequence number and derives the same id for each of them, so
  after the first notice no other is ever shown or counted.
\<close>

theorem second_legacy_notice_lost:
  assumes "quarantine_event E None eventId attempts ageMs reason = Inr event"
    and "quarantine_event E None eventId' attempts' ageMs' reason' = Inr event'"
  shows "snd (addNotice H event' t' (snd (addNotice H event t s))) = snd (addNotice H event t s)"
proof (rule addNotice_known)
  show "noticeIdFor event = noticeIdFor event'"
    using quarantine_event_fields [OF assms(1)] quarantine_event_fields [OF assms(2)] by (simp add: noticeIdFor_def event_seq_def Let_def)
qed

theorem second_legacy_notice_lost_instance:
  "unreadCount (snd (addNotice HM (projr (quarantine_event sample_env None ''e2'' 8 0 ''attempts'')) (num 9)
     (snd (addNotice HM (projr (quarantine_event sample_env None ''e1'' 8 0 ''attempts'')) (num 8) reset_notices)))) = 1
   \<and> unreadCount (snd (addNotice HM (projr (quarantine_event sample_env (Some 2) [] 8 0 ''attempts'')) (num 9)
     (snd (addNotice HM (projr (quarantine_event sample_env (Some 1) [] 8 0 ''attempts'')) (num 8) reset_notices)))) = 2"
proof
  have "quarantine_event sample_env None ''e1'' 8 0 ''attempts'' = Inr (projr (quarantine_event sample_env None ''e1'' 8 0 ''attempts''))"
    "quarantine_event sample_env None ''e2'' 8 0 ''attempts'' = Inr (projr (quarantine_event sample_env None ''e2'' 8 0 ''attempts''))" by code_simp+
  from second_legacy_notice_lost [OF this, of HM "num 9" "num 8" reset_notices]
  show "unreadCount (snd (addNotice HM (projr (quarantine_event sample_env None ''e2'' 8 0 ''attempts'')) (num 9)
     (snd (addNotice HM (projr (quarantine_event sample_env None ''e1'' 8 0 ''attempts'')) (num 8) reset_notices)))) = 1"
  proof (rule ssubst)
    show "unreadCount (snd (addNotice HM (projr (quarantine_event sample_env None ''e1'' 8 0 ''attempts'')) (num 8) reset_notices)) = 1"
      by code_simp
  qed
  show "unreadCount (snd (addNotice HM (projr (quarantine_event sample_env (Some 2) [] 8 0 ''attempts'')) (num 9)
     (snd (addNotice HM (projr (quarantine_event sample_env (Some 1) [] 8 0 ''attempts'')) (num 8) reset_notices)))) = 2"
    by code_simp
qed

end
