(* ===== verification/ThreadService.thy ===== *)
theory ThreadService
  imports MessageService GroupOps
begin

text \<open>
  The threads service (\<open>src/server/services/ServerThreadsService.js\<close>): ids of direct threads, the view of a thread,
  creating, listing, reading and deleting threads. Capital letters outside Latin-1 are not modelled: \<open>upper_char\<close>
  keeps the two letters whose capital is not in it.
\<close>

section \<open>Ids\<close>

definition directThreadIdForPeerLink :: "env \<Rightarrow> string \<Rightarrow> string \<Rightarrow> string" where
  "directThreadIdForPeerLink E peerLinkId peerAccountId =
     (if trim peerLinkId = [] then [] else ''th_'' @ ev_threadHash E (''direct:v1|'' @ trim peerLinkId @ ''|'' @ trim peerAccountId))"

definition listDirectThreadIdsForPeer :: "'s host \<Rightarrow> env \<Rightarrow> jsval \<Rightarrow> ('s, string list) handler" where
  "listDirectThreadIdsForPeer H E peerAccountId =
     (let peer = trim (string_or_empty peerAccountId) in
      if peer = [] then ok []
      else on_kv (reads (\<lambda>s. filter (\<lambda>threadId. threadId \<noteq> []
         \<and> (case getThread H (ev_owner E) (Str threadId) s of None \<Rightarrow> False
            | Some t \<Rightarrow> toLowerCase (trim (if t_threadType t = [] then ''direct'' else t_threadType t)) = ''direct'' \<and> trim (t_peerAccountId t) = peer))
         (map trim (listThreadIds H (ev_owner E) s)))))"

section \<open>The view of a thread\<close>

definition PEER_LINK_PREVIEW_PREFIX :: string where
  "PEER_LINK_PREVIEW_PREFIX = ''[peer-link] ''"

definition upper_char :: "char \<Rightarrow> string" where
  "upper_char c = (let n = of_char c :: nat in
     if 97 \<le> n \<and> n \<le> 122 \<or> 224 \<le> n \<and> n \<le> 254 \<and> n \<noteq> 247 then [char_of (n - 32)] else if n = 223 then ''SS'' else [c])"

definition toUpperCase :: "string \<Rightarrow> string" where
  "toUpperCase s = concat (map upper_char s)"

fun split_bar :: "string \<Rightarrow> string list" where
  "split_bar [] = [[]]"
| "split_bar (c # cs) = (if c = CHR ''|'' then [] # split_bar cs
     else case split_bar cs of [] \<Rightarrow> [[c]] | p # ps \<Rightarrow> (c # p) # ps)"

fun join_bar :: "string list \<Rightarrow> string" where
  "join_bar [] = []"
| "join_bar [p] = p"
| "join_bar (p # ps) = p @ ''|'' @ join_bar ps"

record peerLinkPreview =
  pp_tone :: string
  pp_label :: string
  pp_text :: string

definition part_or :: "string list \<Rightarrow> nat \<Rightarrow> string \<Rightarrow> string" where
  "part_or parts i d = (if i < length parts \<and> parts ! i \<noteq> [] then parts ! i else d)"

definition parsePeerLinkPreview :: "jsval \<Rightarrow> peerLinkPreview option" where
  "parsePeerLinkPreview value =
     (let text = (if truthy value then js_string value else []) in
      if \<not> prefix PEER_LINK_PREVIEW_PREFIX text then None
      else let parts = split_bar (drop (length PEER_LINK_PREVIEW_PREFIX) text);
               tone = toLowerCase (trim (part_or parts 0 ''warn''));
               label = toUpperCase (trim (part_or parts 1 ''PENDING''))
           in Some \<lparr> pp_tone = (if tone = ''ok'' \<or> tone = ''error'' then tone else ''warn''),
                pp_label = (if label = [] then ''PENDING'' else label), pp_text = trim (join_bar (drop 2 parts)) \<rparr>)"

text \<open>\<open>row\<close> is what the record serialises to.\<close>

definition view_security :: "jsval \<Rightarrow> peerLinkPreview option \<Rightarrow> jsval" where
  "view_security row preview =
     (if nonEmptyString (getp row ''securityState'') \<noteq> [] then getp row ''securityState''
      else Str (case preview of Some p \<Rightarrow> if pp_tone p = ''ok'' then ''secure'' else ''pending''
        | None \<Rightarrow> if getp row ''threadType'' = Str ''group'' \<or> truthy (getp row ''threadReady'') then ''secure'' else ''pending''))"

definition view_link :: "jsval \<Rightarrow> peerLinkPreview option \<Rightarrow> jsval" where
  "view_link row preview =
     (if nonEmptyString (getp row ''peerLinkState'') \<noteq> [] then getp row ''peerLinkState''
      else Str (case preview of Some p \<Rightarrow> toLowerCase (trim (pp_label p))
        | None \<Rightarrow> if truthy (getp row ''threadReady'') then ''established'' else ''pending''))"

definition view_title :: "jsval \<Rightarrow> jsval" where
  "view_title row =
     (if nonEmptyString (getp row ''displayTitle'') \<noteq> [] then Str (nonEmptyString (getp row ''displayTitle''))
      else if nonEmptyString (getp row ''title'') \<noteq> [] then Str (nonEmptyString (getp row ''title''))
      else if getp row ''threadType'' = Str ''direct'' \<and> \<not> truthy (getp row ''threadReady'') then Str ''Pending conversation''
      else getp row ''threadId'')"

definition decorateThreadView :: "jsval \<Rightarrow> js_error + ChatThread" where
  "decorateThreadView row = (let preview = parsePeerLinkPreview (getp row ''lastMessagePreview'') in
     mkChatThread (Obj (spread (own_props row) [(''securityState'', view_security row preview),
       (''peerLinkState'', view_link row preview), (''displayTitle'', view_title row)])))"

text \<open>The fields of the index record that go into the view.\<close>

definition summary_fields :: "ChatThreadIndexEntry \<Rightarrow> fields" where
  "summary_fields e = map (\<lambda>k. (k, getp (entry_json e) k))
     [''lastActivityAtMs'', ''lastActivityMsgId'', ''lastMessagePreview'', ''unreadCount'', ''unreadByChannelId'', ''updatedAtMs'']"

definition needs_repair :: "ChatThreadIndexEntry option \<Rightarrow> bool" where
  "needs_repair index = (case index of None \<Rightarrow> True
     | Some e \<Rightarrow> e_lastActivityMsgId e = [] \<or> e_lastMessagePreview e = None \<and> e_lastActivityAtMs e > 0)"

definition decorated :: "js_error + ChatThread \<Rightarrow> ('s, ChatThread option) op" where
  "decorated raw = andThen (lift_result raw) (\<lambda>t. andThen (lift_result (decorateThreadView (thread_json t))) (\<lambda>v. ok (Some v)))"

definition loadThreadSummary :: "'s host \<Rightarrow> env \<Rightarrow> string \<Rightarrow> ChatThreadIndexEntry option \<Rightarrow> ('s, ChatThread option) handler" where
  "loadThreadSummary H E threadId providedIndex =
     (let tid = trim threadId; me = ev_owner E in
      if tid = [] then ok None
      else andThen (on_kv (reads (getThread H me (Str tid)))) (\<lambda>stored.
        andThen (case providedIndex of Some e \<Rightarrow> ok (Some e) | None \<Rightarrow> on_kv (reads (getIndexRecord H me (Str tid)))) (\<lambda>index.
        andThen (if stored \<noteq> None \<and> needs_repair index
                 then catching (andThen (on_kv (ensureThreadSummary H me (Str tid))) (\<lambda>e. ok (Some e))) index else ok index) (\<lambda>repaired.
          case (stored, repaired) of
            (Some t, Some e) \<Rightarrow> decorated (mkChatThread (Obj (spread (thread_fields t) (summary_fields e))))
          | (Some t, None) \<Rightarrow> decorated (Inr t)
          | (None, Some e) \<Rightarrow> decorated (mkChatThread (Obj ([(''threadId'', Str (e_threadId e)), (''threadType'', Str ''direct'')] @ summary_fields e)))
          | (None, None) \<Rightarrow> ok None))))"

section \<open>Requests\<close>

definition list_row :: "'s host \<Rightarrow> env \<Rightarrow> ChatThreadIndexEntry \<Rightarrow> ('s, jsval list) handler" where
  "list_row H E e n = (case loadThreadSummary H E (e_threadId e) (Some e) n of
       (Inl _, n') \<Rightarrow> andThen (lift_result (decorateThreadView (entry_json e))) (\<lambda>v. ok [thread_json v]) n'
     | (Inr None, n') \<Rightarrow> ok [] n' | (Inr (Some v), n') \<Rightarrow> ok [thread_json v] n')"

definition listThreads :: "'s host \<Rightarrow> env \<Rightarrow> jsval \<Rightarrow> ('s, jsval) handler" where
  "listThreads H E payload =
     andThen (lift_result (new_record ThreadsListParams payload)) (\<lambda>params.
     andThen (on_kv (reads (listThreadIndex H (ev_owner E) (getp params ''limit'')))) (\<lambda>rows.
     andThen (collect (list_row H E) rows) (\<lambda>threads.
       lift_result (new_record ThreadsListResult (Obj [(''threads'', Arr (concat threads)), (''cursor'', Null)])))))"

definition svc_getThread :: "'s host \<Rightarrow> menv \<Rightarrow> jsval \<Rightarrow> ('s, jsval) mhandler" where
  "svc_getThread H M payload =
     andThen (lift_result (new_record ThreadGetParams payload)) (\<lambda>params.
     andThen (on_node (loadThreadSummary H (me_base M) (sget params ''threadId'') None)) (\<lambda>thread.
     andThen (svc_listMessages H M (Obj [(''threadId'', getp params ''threadId''), (''limit'', getp params ''limit'')])) (\<lambda>messages.
       lift_result (ThreadGetResult (clockMs H) (Obj [(''thread'', case thread of None \<Rightarrow> Null | Some t \<Rightarrow> thread_json t),
         (''messages'', Obj [(''messages'', Arr (elements (getp messages ''items''))),
            (''nextBefore'', if truthy (getp messages ''nextBefore'') then getp messages ''nextBefore'' else Null)])])))))"

definition svc_markThreadRead :: "'s host \<Rightarrow> env \<Rightarrow> jsval \<Rightarrow> ('s, jsval) handler" where
  "svc_markThreadRead H E payload =
     andThen (lift_result (new_record ThreadReadParams payload)) (\<lambda>params.
     andThen (on_kv (markThreadRead H (ev_owner E) (getp params ''threadId''))) (\<lambda>e.
     andThen (emitThreadIndexUpdated (entry_json e)) (\<lambda>_.
       lift_result (new_record ThreadReadResult (Obj [(''threadId'', getp params ''threadId''), (''readAtMs'', num (clockMs H)), (''indexRecord'', entry_json e)])))))"

definition svc_markChannelRead :: "'s host \<Rightarrow> env \<Rightarrow> jsval \<Rightarrow> ('s, jsval) handler" where
  "svc_markChannelRead H E payload =
     andThen (lift_result (new_record ThreadChannelReadParams payload)) (\<lambda>params.
     andThen (on_kv (markChannelRead H (ev_owner E) (getp params ''threadId'') (getp params ''channelId''))) (\<lambda>e.
     andThen (emitThreadIndexUpdated (entry_json e)) (\<lambda>_.
       lift_result (new_record ThreadChannelReadResult (Obj [(''threadId'', getp params ''threadId''), (''channelId'', getp params ''channelId''), (''readAtMs'', num (clockMs H))])))))"

definition svc_deleteThread :: "'s host \<Rightarrow> env \<Rightarrow> jsval \<Rightarrow> ('s, jsval) handler" where
  "svc_deleteThread H E payload =
     andThen (lift_result (new_record ThreadDeleteParams payload)) (\<lambda>params.
       let tid = getp params ''threadId''; me = ev_owner E in
       andThen (on_kv (deleteThread H me tid)) (\<lambda>recordDeleted.
       andThen (on_kv (reads (getIndexRecord H me tid))) (\<lambda>index.
       andThen (when_ok (index \<noteq> None) (catching (andThen (on_kv (removeThread H me tid)) (\<lambda>_. ok ())) ())) (\<lambda>_.
       andThen (when_ok (recordDeleted \<or> index \<noteq> None) (emit_record ''thread.removed'' (new_record ThreadRemovedEvent) (Obj [(''threadId'', tid)]))) (\<lambda>_.
         lift_result (new_record ThreadDeleteResult (Obj [(''threadId'', tid), (''deleted'', Bool (recordDeleted \<or> index \<noteq> None))])))))))"

definition svc_setThreadState :: "'s host \<Rightarrow> env \<Rightarrow> jsval \<Rightarrow> ('s, jsval) handler" where
  "svc_setThreadState H E payload =
     andThen (lift_result (new_record ThreadStateSetParams payload)) (\<lambda>params.
     andThen (on_kv (setThreadState H (ev_owner E) (getp params ''threadId'') (getp params ''visibilityState'') (getp params ''accessState''))) (\<lambda>thread.
       case thread of None \<Rightarrow> lift_result (new_record ThreadStateSetResult (Obj [(''thread'', Null)]))
       | Some t \<Rightarrow> andThen (lift_result (decorateThreadView (thread_json t))) (\<lambda>view.
         andThen (emit_record ''thread.updated'' (new_record ThreadUpdatedEvent) (Obj [(''thread'', thread_json view)])) (\<lambda>_.
           lift_result (new_record ThreadStateSetResult (Obj [(''thread'', thread_json view)]))))))"

section \<open>Creating threads\<close>

definition null_or :: "jsval \<Rightarrow> jsval" where
  "null_or v = (if truthy v then v else Null)"

definition ensureDirectThread :: "'s host \<Rightarrow> menv \<Rightarrow> string \<Rightarrow> jsval \<Rightarrow> jsval \<Rightarrow> ('s, jsval) mhandler" where
  "ensureDirectThread H M threadId peerAccountId peerInboxId =
     (if trim threadId = [] then ok Null
      else andThen (on_store (ensureThread H (me_owner M) (no_args\<lparr>a_threadId := Str (trim threadId), a_threadType := Str ''direct'',
          a_peerAccountId := null_or peerAccountId, a_peerInboxId := null_or peerInboxId, a_createdAtMs := num (clockMs H)\<rparr>))) (\<lambda>_.
        svc_getThread H M (Obj [(''threadId'', Str (trim threadId))])))"

definition createDirectThread :: "'s host \<Rightarrow> menv \<Rightarrow> jsval \<Rightarrow> ('s, jsval) mhandler" where
  "createDirectThread H M payload =
     andThen (lift_result (new_record ThreadCreateDirectParams payload)) (\<lambda>params.
       let account = sget params ''accountId'' in
       case ev_peerLinks (me_base M) of None \<Rightarrow> throw (Error ''peer-links.list failed'')
       | Some result \<Rightarrow>
         (case find (\<lambda>pl. trim (sget pl ''peerAccountId'') = account) (elements (getp result ''items'')) of
            None \<Rightarrow> throw (Error (''No peer link found for contact '' @ account))
          | Some link \<Rightarrow>
            let threadId = directThreadIdForPeerLink (me_base M) (sget link ''peerLinkId'') account in
            if threadId = [] then throw (Error (''Peer link has no stable id for contact '' @ account))
            else andThen (ensureDirectThread H M threadId (Str account) (Str (trim (sget link ''peerInboxId'')))) (\<lambda>r.
              andThen (on_node (emitThreadIndexUpdated (Obj [(''threadId'', Str threadId), (''lastActivityAtMs'', num (clockMs H)),
                (''lastMessagePreview'', Null), (''unreadCount'', num 0)]))) (\<lambda>_. ok r))))"

definition emitGroupMembers :: "'s host \<Rightarrow> env \<Rightarrow> string \<Rightarrow> ('s, unit) handler" where
  "emitGroupMembers H E groupId =
     andThen (members_of H E groupId) (\<lambda>items.
     andThen (stampFounderAsAdmin H E groupId items) (\<lambda>stamped.
       emit_record ''group.members.updated'' GroupMembersUpdatedEvent (Obj [(''groupId'', Str groupId), (''members'', Arr (map member_json stamped))])))"

record groupThreadArgs =
  gt_groupId :: string
  gt_title :: jsval
  gt_peer :: string
  gt_createdBy :: string
  gt_creatorSalt :: jsval
  gt_createdAtMs :: jsval
  gt_joinedViaInviteId :: jsval

definition ensureGroupThread :: "'s host \<Rightarrow> menv \<Rightarrow> groupThreadArgs \<Rightarrow> ('s, jsval) mhandler" where
  "ensureGroupThread H M a =
     (let gid = trim (gt_groupId a); me = Str (me_owner M); E = me_base M; threadId = groupThreadId E gid;
          createdBy = (if trim (gt_createdBy a) \<noteq> [] then trim (gt_createdBy a) else if gt_peer a \<noteq> [] then gt_peer a else me_owner M);
          salt = (case gt_creatorSalt a of Str s \<Rightarrow> Str (trim s) | _ \<Rightarrow> Null) in
      if gid = [] then ok Null
      else andThen (on_store (ensureGroup H me (Str gid) (Str createdBy) (gt_title a) (gt_joinedViaInviteId a) salt)) (\<lambda>_.
        andThen (on_store (ensureMembership H me (Str gid) me (Str ''member'') Null Null)) (\<lambda>_.
        andThen (on_store (reviveMembership H me (Str gid) me (Str ''member'') Null Null)) (\<lambda>_.
        andThen (when_ok (gt_peer a \<noteq> []) (andThen (on_store (ensureMembership H me (Str gid) (Str (gt_peer a)) (Str ''member'') Null Null)) (\<lambda>_. ok ()))) (\<lambda>_.
        andThen (on_store (ensureThread H (me_owner M) (no_args\<lparr>a_threadId := Str threadId, a_groupId := Str gid, a_threadType := Str ''group'',
           a_title := gt_title a, a_createdAtMs := (if nullish (gt_createdAtMs a) then num (clockMs H) else gt_createdAtMs a), a_accessState := Str ''open''\<rparr>))) (\<lambda>_.
        andThen (on_node (emitGroupUpdated H E gid)) (\<lambda>_.
        andThen (on_node (emitGroupMembers H E gid)) (\<lambda>_.
          svc_getThread H M (Obj [(''threadId'', Str threadId)])))))))))"

section \<open>The row of an accepted connection\<close>

definition connect_payload :: "string \<Rightarrow> jsval \<Rightarrow> rat \<Rightarrow> jsval" where
  "connect_payload actor displayName ts = Obj [(''kind'', Str SYSTEM_EVENT_KIND), (''event'', Str ''connect.accepted''),
     (''actorAccountId'', Str actor), (''actorDisplayName'', Str (string_or_empty displayName)), (''actedAtMs'', num ts)]"

definition persistConnectAccepted :: "'s host \<Rightarrow> env \<Rightarrow> jsval \<Rightarrow> jsval \<Rightarrow> jsval \<Rightarrow> jsval \<Rightarrow> ('s, unit) handler" where
  "persistConnectAccepted H E threadId acceptor displayName actedAtMs =
     (let tid = trim (string_or_empty threadId); actor = trim (string_or_empty acceptor);
          ts = (case actedAtMs of Num (Fin r) \<Rightarrow> r | _ \<Rightarrow> clockMs H); mid = Str (''sys:connaccept:'' @ actor @ '':'' @ rat_string ts);
          payload = connect_payload actor displayName ts;
          base = [(''messageId'', mid), (''threadId'', Str tid), (''senderAccountId'', Null)];
          stamps = [(''status'', Str ''delivered''), (''createdAtMs'', num ts), (''acceptedAtMs'', num ts)] in
      if tid = [] \<or> actor = [] then ok ()
      else andThen (catching (andThen (on_kv (upsertMessage H (ev_owner E) (Obj (base @ [(''senderKey'', Str ''system''), (''payload'', payload), (''text'', Str [])] @ stamps)))) (\<lambda>_. ok ())) ()) (\<lambda>_.
        andThen (catching (andThen (on_kv (upsertFromMessage H (ev_owner E) (Str tid) mid (num ts) Null Undef)) (\<lambda>e. ok (Some e))) None) (\<lambda>index.
        andThen (case index of None \<Rightarrow> ok () | Some e \<Rightarrow> emitThreadIndexUpdated (entry_json e)) (\<lambda>_.
        andThen (lift_result (new_record (MessageDepositedEvent (clockMs H)) (Obj [(''threadId'', Str tid), (''message'', Obj (base @ [(''text'', Str []), (''payload'', payload)] @ stamps))]))) (\<lambda>r.
        andThen (effect_out (Emit ''runtime.event.message.deposited'' r)) (\<lambda>_.
          effect_out (Emit ''message.deposited'' r)))))))"

end
