(* ===== verification/EventService.thy ===== *)
theory EventService
  imports ThreadService CommitAcks DeferredBuffer DepositPipeline
begin

text \<open>
  The inbound deposits of the server (\<open>src/server/services/ServerEventService.js\<close>): which thread a deposit belongs
  to, who may write there, the admission of signed messages, the dispatch by kind, and what is stored,
  acknowledged and announced. The acknowledgement is not awaited in the code; here it is sent at its place.
  Before them: the registry of payload kinds (\<open>src/records/payloads/index.js\<close>): for each kind the class that validates it
  and the service that takes it. Also here: the contacts service's handling of an accepted connect request
  (\<open>src/server/services/ServerContactsService.js\<close>). Images and system events have no entry.
\<close>

section \<open>The services\<close>

text \<open>
  The classes of the SDK's file and profile payloads, and the services of siblings, files and profiles, which
  are not modelled: each takes a record and the authenticated sender and may throw. \<open>None\<close> is a service that
  is absent. \<open>ee_parse\<close> is \<open>JSON.parse\<close> of decoded base64, \<open>ee_legacyAck\<close> the bytes of an \<open>E2eeDeliveryAckV1\<close>.
\<close>

record 's eenv =
  ee_menv :: menv
  ee_parse :: "string \<Rightarrow> jsval option"
  ee_legacyAck :: "string \<Rightarrow> string list \<Rightarrow> string"
  ee_FileManifestV1 :: "jsval \<Rightarrow> js_error + jsval"
  ee_FileChunkV1 :: "jsval \<Rightarrow> js_error + jsval"
  ee_ProfilePayloadV1 :: "jsval \<Rightarrow> js_error + jsval"
  ee_accountStateSync :: "(jsval \<Rightarrow> ('s, unit) mhandler) option"
  ee_siblingSync :: "(jsval \<Rightarrow> ('s, unit) mhandler) option"
  ee_filePayload :: "(jsval \<Rightarrow> jsval \<Rightarrow> ('s, bool) mhandler) option"
  ee_profile :: "(jsval \<Rightarrow> string \<Rightarrow> ('s, bool) mhandler) option"
  ee_reconnect :: "string \<Rightarrow> string \<Rightarrow> ('s, unit) handler"

definition ee_base :: "'s eenv \<Rightarrow> env" where
  "ee_base V = me_base (ee_menv V)"

definition ee_owner :: "'s eenv \<Rightarrow> string" where
  "ee_owner V = ev_owner (ee_base V)"

section \<open>An accepted request\<close>

text \<open>The name of the one who accepted is applied to a contact that is awaited or active, never to a stranger.\<close>

definition apply_acceptor_name :: "'s host \<Rightarrow> env \<Rightarrow> string \<Rightarrow> string \<Rightarrow> ('s, unit) handler" where
  "apply_acceptor_name H E acceptor name =
     when_ok (trim name \<noteq> [])
       (andThen (catching (acceptOutgoingConnectRequest H E (Str acceptor) (Str name)) False) (\<lambda>named.
        when_ok (\<not> named)
          (andThen (catching (on_kv (getContact H (Str (ev_owner E)) (Str acceptor))) None) (\<lambda>existing.
           when_ok (case existing of None \<Rightarrow> False | Some c \<Rightarrow> toLowerCase (co_relationshipState c) = ''active'')
             (catching (andThen (ensureActiveContact H E (Str acceptor) name Null) (\<lambda>_. ok ())) ())))))"

definition handleIncomingConnectAccepted :: "'s host \<Rightarrow> env \<Rightarrow> jsval \<Rightarrow> string \<Rightarrow> string \<Rightarrow> ('s, bool) handler" where
  "handleIncomingConnectAccepted H E rcd sender threadId =
     (let acceptor = trim sender in
      if acceptor = [] then ok True
      else andThen (if trim threadId \<noteq> [] then ok (trim threadId)
            else andThen (catching (listDirectThreadIdsForPeer H E (Str acceptor)) []) (\<lambda>ids. ok (case ids of [] \<Rightarrow> [] | i # _ \<Rightarrow> i))) (\<lambda>tid.
        if tid = [] then ok True
        else andThen (apply_acceptor_name H E acceptor (sget rcd ''acceptorDisplayName'')) (\<lambda>_.
          andThen (persistConnectAccepted H E (Str tid) (Str acceptor) (Str (sget rcd ''acceptorDisplayName'')) (getp rcd ''actedAtMs'')) (\<lambda>_. ok True))))"

section \<open>The registry\<close>

definition FILE_MANIFEST_KIND :: string where "FILE_MANIFEST_KIND = ''rez.file.manifest.v1''"
definition FILE_CHUNK_KIND :: string where "FILE_CHUNK_KIND = ''rez.file.chunk.v1''"
definition PROFILE_KIND :: string where "PROFILE_KIND = ''rez.profile.v1''"

text \<open>\<open>recordClass\<close> of the entry of a kind; \<open>None\<close> is a kind without entry.\<close>

definition payload_class :: "'s eenv \<Rightarrow> string \<Rightarrow> (jsval \<Rightarrow> js_error + jsval) option" where
  "payload_class V kind = map_of
     [(Payloads.MESSAGE_KIND, new_record ChatMessagePayloadV1), (REACTION_KIND, new_record ChatReactionPayloadV1),
      (MESSAGE_EDIT_KIND, new_record ChatMessageEditPayloadV1), (MESSAGE_TOMBSTONE_KIND, new_record ChatMessageTombstonePayloadV1),
      (GROUP_OP_KIND, new_record GroupOpPayloadV1), (CONNECT_REQUEST_KIND, new_record ConnectRequestPayloadV1),
      (ACCOUNT_STATE_EVENT_KIND, new_record AccountStateEventPayloadV1), (SIBLING_SYNC_KIND, new_record SiblingSyncPayloadV1),
      (MESSAGE_COMMIT_ACK_KIND, new_record MessageCommitAckV1), (CONNECT_ACCEPTED_KIND, new_record ChatConnectAcceptedPayloadV1),
      (FILE_MANIFEST_KIND, ee_FileManifestV1 V), (FILE_CHUNK_KIND, ee_FileChunkV1 V),
      (AVATAR_KIND, new_record ChatAvatarPayloadV1), (PROFILE_KIND, ee_ProfilePayloadV1 V)] kind"

text \<open>The sender a handler is told: the authenticated one, or what the record says of itself.\<close>

definition extractPayloadSender :: "jsval \<Rightarrow> string \<Rightarrow> string" where
  "extractPayloadSender rcd peerAccountId = (if trim peerAccountId \<noteq> [] then trim peerAccountId else sget rcd ''senderAccountId'')"

definition message_ctx :: "string \<Rightarrow> string \<Rightarrow> jsval" where
  "message_ctx sender threadId = Obj [(''senderAccountId'', Str sender), (''threadId'', Str threadId)]"

definition store_avatar_payload :: "env \<Rightarrow> jsval \<Rightarrow> ('s, bool) handler" where
  "store_avatar_payload E rcd =
     (if \<not> ev_fileTransfer E then ok True
      else andThen (catching (storeFile E (getp rcd ''fileHashHex'') (getp rcd ''fileDataB64'')) ()) (\<lambda>_. ok True))"

text \<open>What is consumed is not stored as a message. A mutation without a thread is not consumed.\<close>

definition dispatch_payload :: "'s host \<Rightarrow> 's eenv \<Rightarrow> string \<Rightarrow> jsval \<Rightarrow> string \<Rightarrow> string \<Rightarrow> string \<Rightarrow> ('s, bool) mhandler" where
  "dispatch_payload H V kind rcd threadId peerAccountId channelId =
     (let M = ee_menv V; E = ee_base V; sender = extractPayloadSender rcd peerAccountId; ctx = message_ctx sender threadId in
      if kind = REACTION_KIND then (if threadId = [] then ok False else handleIncomingReaction H M rcd ctx)
      else if kind = MESSAGE_EDIT_KIND then (if threadId = [] then ok False else handleIncomingEdit H M rcd ctx)
      else if kind = MESSAGE_TOMBSTONE_KIND then (if threadId = [] then ok False else handleIncomingTombstone H M rcd ctx)
      else if kind = GROUP_OP_KIND then on_node (handleIncomingGroupOp H E rcd (Str sender))
      else if kind = CONNECT_REQUEST_KIND then
        (if \<not> ev_contacts E then ok False else on_node (handleIncomingConnectRequest H E (ee_reconnect V) rcd (Str sender) (Str [])))
      else if kind = ACCOUNT_STATE_EVENT_KIND then
        (case ee_accountStateSync V of None \<Rightarrow> ok True | Some apply \<Rightarrow> andThen (apply rcd) (\<lambda>_. ok True))
      else if kind = SIBLING_SYNC_KIND then
        (case ee_siblingSync V of None \<Rightarrow> ok True | Some apply \<Rightarrow> andThen (apply rcd) (\<lambda>_. ok True))
      else if kind = MESSAGE_COMMIT_ACK_KIND then andThen (handleCommitAck H M rcd ctx) (\<lambda>_. ok True)
      else if kind = CONNECT_ACCEPTED_KIND then
        (if \<not> ev_contacts E then ok False else on_node (handleIncomingConnectAccepted H E rcd sender threadId))
      else if kind = FILE_MANIFEST_KIND \<or> kind = FILE_CHUNK_KIND then
        (case ee_filePayload V of None \<Rightarrow> ok False
         | Some apply \<Rightarrow> apply rcd (Obj [(''senderAccountId'', Str sender), (''threadId'', Str threadId), (''channelId'', Str channelId)]))
      else if kind = AVATAR_KIND then on_node (store_avatar_payload E rcd)
      else if kind = PROFILE_KIND then (case ee_profile V of None \<Rightarrow> ok False | Some apply \<Rightarrow> apply rcd sender)
      else ok False)"

section \<open>Decoding\<close>

text \<open>\<open>None\<close> is a body that does not parse or is no object.\<close>

definition decoded :: "'s eenv \<Rightarrow> string \<Rightarrow> jsval option" where
  "decoded V ciphertextB64 =
     (if ciphertextB64 = [] then None
      else case ee_parse V ciphertextB64 of None \<Rightarrow> None
        | Some v \<Rightarrow> if is_object v \<or> is_array v then Some v else None)"

definition protocol_body :: "jsval option \<Rightarrow> bool" where
  "protocol_body d \<longleftrightarrow> (case d of None \<Rightarrow> False
     | Some v \<Rightarrow> is_object v \<and> (getp v ''e2ee'' = num 1 \<or> sget v ''kind'' = ''rez.peerlink.claim.req''
         \<or> sget v ''kind'' = ''rez.peerlink.claim.res'' \<or> sget v ''kind'' = ''rez.peerlink.handshake.ack.v2''))"

definition payload_of :: "jsval option \<Rightarrow> jsval" where
  "payload_of d = (case d of None \<Rightarrow> Null | Some v \<Rightarrow> v)"

section \<open>The thread of a deposit\<close>

definition peer_link_of :: "env \<Rightarrow> string \<Rightarrow> jsval option" where
  "peer_link_of E peer = (case ev_peerLinks E of None \<Rightarrow> None
     | Some result \<Rightarrow> find (\<lambda>l. trim (sget l ''peerAccountId'') = peer) (filter is_object (elements (getp result ''items''))))"

definition peerLinkPeerInboxId :: "jsval option \<Rightarrow> string" where
  "peerLinkPeerInboxId link = (case link of None \<Rightarrow> [] | Some l \<Rightarrow> trim (sget l ''peerInboxId''))"

definition event_reported :: "('s, 'a) mhandler \<Rightarrow> string \<Rightarrow> ('s, 'a option) mhandler" where
  "event_reported m msg n = (case m n of
       (Inl _, n') \<Rightarrow> andThen (on_node (effect_out (Emit ''app.error'' (Obj [(''source'', Str ''ServerEventService''),
          (''message'', Str msg), (''severity'', Str ''warn'')])))) (\<lambda>_. ok None) n'
     | (Inr x, n') \<Rightarrow> (Inr (Some x), n'))"

text \<open>The thread of the answer, read back as a record.\<close>

definition answered_thread :: "string \<Rightarrow> jsval option \<Rightarrow> (string \<times> ChatThread) option" where
  "answered_thread tid answer = (case answer of None \<Rightarrow> None
     | Some r \<Rightarrow> (case mkChatThread (getp r ''thread'') of Inr t \<Rightarrow> Some (tid, t) | Inl _ \<Rightarrow> None))"

definition repairDirectThreadFromPeerLink :: "'s host \<Rightarrow> 's eenv \<Rightarrow> string \<Rightarrow> string \<Rightarrow> ('s, (string \<times> ChatThread) option) mhandler" where
  "repairDirectThreadFromPeerLink H V threadId peer =
     (case peer_link_of (ee_base V) peer of None \<Rightarrow> ok None
      | Some link \<Rightarrow>
        let tid = (if trim threadId \<noteq> [] then trim threadId else directThreadIdForPeerLink (ee_base V) (sget link ''peerLinkId'') peer) in
        if tid = [] then ok None
        else andThen (event_reported (ensureDirectThread H (ee_menv V) tid (Str peer) (Str (peerLinkPeerInboxId (Some link)))) ''direct thread repair failed'')
          (\<lambda>answer. ok (answered_thread tid answer)))"

definition direct_candidate :: "'s host \<Rightarrow> string \<Rightarrow> string \<Rightarrow> 's \<Rightarrow> string \<Rightarrow> (string \<times> ChatThread) option" where
  "direct_candidate H me peer s threadId =
     (if threadId = [] then None
      else case getThread H me (Str threadId) s of None \<Rightarrow> None
      | Some t \<Rightarrow> if toLowerCase (trim (if t_threadType t = [] then ''direct'' else t_threadType t)) = ''direct'' \<and> trim (t_peerAccountId t) = peer
          then Some (threadId, t) else None)"

definition resolveDirectThreadForSender :: "'s host \<Rightarrow> 's eenv \<Rightarrow> string \<Rightarrow> ('s, (string \<times> ChatThread) option) mhandler" where
  "resolveDirectThreadForSender H V sender =
     (let peer = trim sender; me = ee_owner V in
      if peer = [] then ok None
      else andThen (on_store (reads (\<lambda>s. keepSome (direct_candidate H me peer s) (map trim (listThreadIds H me s))))) (\<lambda>found.
        case found of [] \<Rightarrow> repairDirectThreadFromPeerLink H V [] peer
        | (tid, t) # _ \<Rightarrow> if trim (t_peerInboxId t) \<noteq> [] then ok (Some (tid, t)) else repairDirectThreadFromPeerLink H V tid peer))"

text \<open>Direct content opens a thread only for an active contact, or one whose request was accepted.\<close>

definition direct_gate :: "'s host \<Rightarrow> 's eenv \<Rightarrow> string \<Rightarrow> ('s, bool) mhandler" where
  "direct_gate H V sender =
     (if \<not> ev_contacts (ee_base V) then ok True
      else andThen (on_node (isActiveContact H (ee_base V) (Str sender))) (\<lambda>active.
        if active then ok True else on_node (acceptOutgoingConnectRequest H (ee_base V) (Str sender) (Str []))))"

definition thread_of_deposit :: "'s host \<Rightarrow> 's eenv \<Rightarrow> string \<Rightarrow> jsval \<Rightarrow> ('s, (string \<times> ChatThread) option) mhandler" where
  "thread_of_deposit H V envelopeSender payload =
     (let claimed = trim (sget payload ''threadId''); payloadSender = trim (sget payload ''senderAccountId'') in
      andThen (on_store (reads (\<lambda>s. if claimed = [] then None else getThread H (ee_owner V) (Str claimed) s))) (\<lambda>thread. case thread of
        Some t \<Rightarrow> ok (Some (claimed, t))
      | None \<Rightarrow> if payloadSender = [] then ok None
          else andThen (direct_gate H V (if envelopeSender \<noteq> [] then envelopeSender else payloadSender)) (\<lambda>allowed.
            if allowed then resolveDirectThreadForSender H V payloadSender else ok None)))"

definition thread_peer :: "(string \<times> ChatThread) option \<Rightarrow> string" where
  "thread_peer place = (case place of None \<Rightarrow> [] | Some (_, t) \<Rightarrow> trim (t_peerAccountId t))"

text \<open>A direct thread takes content of its own peer only; a deposit without an authenticated sender is not compared.\<close>

definition foreign_sender :: "(string \<times> ChatThread) option \<Rightarrow> string \<Rightarrow> bool" where
  "foreign_sender place envelopeSender \<longleftrightarrow> (case place of None \<Rightarrow> False
     | Some (_, t) \<Rightarrow> t_threadType t = ''direct'' \<and> envelopeSender \<noteq> [] \<and> thread_peer place \<noteq> [] \<and> thread_peer place \<noteq> envelopeSender)"

section \<open>Admission of signed messages\<close>

definition record_fact :: "'s host \<Rightarrow> 's eenv \<Rightarrow> string \<Rightarrow> jsval \<Rightarrow> string \<Rightarrow> ('s, unit) mhandler" where
  "record_fact H V threadId payload fingerprint =
     andThen (on_store (appendOriginalFact H (ee_owner V) (Str threadId) (Obj [(''fingerprint'', Str fingerprint), (''payload'', payload),
        (''receivedAtMs'', num (clockMs H)), (''origin'', Str ''live'')]))) (\<lambda>appended.
      case ar_conflict appended of None \<Rightarrow> ok ()
      | Some c \<Rightarrow> andThen (on_store (\<lambda>s. case markMessageConflicted H (ee_owner V) (Str threadId) (Str (cf_messageId c)) s of (m, s') \<Rightarrow> (Inr m, s')))
          (emitMessageUpdated H threadId))"

text \<open>\<open>None\<close> drops the deposit; the answer is the fingerprint that an acknowledgement can claim, if any.\<close>

definition admit_original :: "'s host \<Rightarrow> 's eenv \<Rightarrow> string \<Rightarrow> jsval \<Rightarrow> ('s, string option) mhandler" where
  "admit_original H V threadId payload =
     (let M = ee_menv V; presence = originalMessageAuthPresence payload in
      if \<not> isOriginalMessageKind (sget payload ''kind'') then ok (Some [])
      else if presence = ''partial'' then ok None
      else if presence \<noteq> ''all'' \<or> \<not> me_cryptoProvider M then ok (Some [])
      else case verifyOriginalMessageForAdmission (me_signing M) payload (num (clockMs H)) Null of
          Inl _ \<Rightarrow> ok None
        | Inr (_, fingerprint) \<Rightarrow>
          if threadId = [] then ok (Some [])
          else andThen (record_fact H V threadId payload fingerprint) (\<lambda>_.
            ok (Some (if sget payload ''kind'' = Payloads.MESSAGE_KIND then fingerprint else []))))"

text \<open>Whether a deposit is finished at the dispatch: consumed, or malformed. A handler that throws has not consumed it.\<close>

definition take_payload :: "'s host \<Rightarrow> 's eenv \<Rightarrow> jsval \<Rightarrow> string \<Rightarrow> string \<Rightarrow> ('s, bool) mhandler" where
  "take_payload H V payload threadId peer =
     (case payload_class V (sget payload ''kind'') of None \<Rightarrow> ok False
      | Some mk \<Rightarrow> (case mk payload of Inl _ \<Rightarrow> ok True
        | Inr rcd \<Rightarrow> catching (dispatch_payload H V (sget payload ''kind'') rcd threadId peer (trim (sget payload ''channelId''))) False))"

section \<open>Storing a message\<close>

text \<open>Identities and contents of a deposit that is a message of a thread.\<close>

record inboundMessage =
  im_threadId :: string
  im_thread :: ChatThread
  im_eventId :: string
  im_mailboxId :: string
  im_ciphertextB64 :: string
  im_payload :: jsval
  im_sender :: string
  im_fingerprint :: string

definition im_messageId :: "inboundMessage \<Rightarrow> string" where
  "im_messageId i = trim (sget (im_payload i) ''messageId'')"

definition im_canonicalId :: "inboundMessage \<Rightarrow> string" where
  "im_canonicalId i = (if im_messageId i \<noteq> [] then im_messageId i else im_eventId i)"

definition im_deposit :: "'s host \<Rightarrow> inboundMessage \<Rightarrow> deposit" where
  "im_deposit H i = \<lparr> dep_messageId = Str (im_canonicalId i), dep_threadId = Str (im_threadId i),
     dep_senderKey = Str (if im_sender i \<noteq> [] then im_sender i else im_mailboxId i), dep_packetB64 = Str (im_ciphertextB64 i),
     dep_acceptedAtMs = num (clockMs H), dep_senderAccountId = null_if_empty (im_sender i), dep_status = Str ''delivered'',
     dep_text = Str (extractPreviewText (im_payload i)), dep_payload = im_payload i, dep_inReplyToMessageId = Undef \<rparr>"

definition index_message :: "'s host \<Rightarrow> 's eenv \<Rightarrow> inboundMessage \<Rightarrow> ('s, unit) mhandler" where
  "index_message H V i =
     andThen (event_reported (on_store (upsertFromMessage H (ee_owner V) (Str (im_threadId i)) (Str (im_canonicalId i)) (num (clockMs H))
        (null_if_empty (extractPreviewText (im_payload i))) Undef)) ''inbound index upsert failed'') (\<lambda>entry.
      case entry of None \<Rightarrow> ok () | Some e \<Rightarrow> on_node (emitThreadIndexUpdated (entry_json e)))"

text \<open>Where the acknowledgement goes: to the peer of the thread, or to the inbox of the author in a group.\<close>

definition ack_target :: "'s eenv \<Rightarrow> inboundMessage \<Rightarrow> (string \<times> string) option" where
  "ack_target V i =
     (let t = im_thread i; inbox = peerLinkPeerInboxId (peer_link_of (ee_base V) (im_sender i)) in
      if sget (im_payload i) ''kind'' \<noteq> Payloads.MESSAGE_KIND \<or> im_messageId i = [] \<or> \<not> ev_sdk (ee_base V) then None
      else if t_threadType t \<noteq> ''group'' \<and> t_peerAccountId t \<noteq> [] \<and> t_peerInboxId t \<noteq> [] then Some (t_peerAccountId t, t_peerInboxId t)
      else if t_threadType t = ''group'' \<and> im_sender i \<noteq> [] \<and> inbox \<noteq> [] then Some (im_sender i, inbox)
      else None)"

definition ack_params :: "'s host \<Rightarrow> inboundMessage \<Rightarrow> jsval" where
  "ack_params H i = Obj [(''messageId'', Str (im_messageId i)), (''messageFingerprint'', Str (im_fingerprint i)),
     (''threadId'', Str (trim (sget (im_payload i) ''threadId''))), (''committedAtMs'', num (clockMs H))]"

text \<open>A signed message that was admitted is answered by a commit proof; without a signer, or for another message, by the old acknowledgement.\<close>

definition ack_bytes :: "'s host \<Rightarrow> 's eenv \<Rightarrow> inboundMessage \<Rightarrow> ('s, string) mhandler" where
  "ack_bytes H V i =
     andThen (if im_fingerprint i \<noteq> [] \<and> trim (sget (im_payload i) ''threadId'') \<noteq> []
              then catching (buildCommitAck H (ee_menv V) (ack_params H i)) None else ok None) (\<lambda>proof.
       ok (case proof of Some p \<Rightarrow> json_of p | None \<Rightarrow> ee_legacyAck V (ee_owner V) [im_messageId i]))"

definition send_ack :: "'s host \<Rightarrow> 's eenv \<Rightarrow> inboundMessage \<Rightarrow> ('s, unit) mhandler" where
  "send_ack H V i = (case ack_target V i of None \<Rightarrow> ok ()
     | Some (peer, inbox) \<Rightarrow> catching (andThen (ack_bytes H V i) (\<lambda>body.
         andThen (seal_and_dispatch (ee_menv V) \<lparr> sq_peer = peer, sq_device = [], sq_inbox = inbox, sq_body = body, sq_handshake = Null \<rparr>) (\<lambda>_. ok ()))) ())"

definition observe_channel :: "'s host \<Rightarrow> 's eenv \<Rightarrow> inboundMessage \<Rightarrow> ('s, unit) mhandler" where
  "observe_channel H V i =
     (let channelId = trim (sget (im_payload i) ''channelId'') in
      when_ok (t_threadType (im_thread i) = ''group'' \<and> t_groupId (im_thread i) \<noteq> [] \<and> im_sender i \<noteq> [] \<and> channelId \<noteq> [] \<and> ev_channels (ee_base V))
        (catching (on_node (ensureFromObservedMessage H (ee_base V) (Str (t_groupId (im_thread i))) (Str channelId) (Str (im_sender i)))) ()))"

definition announce_message :: "'s host \<Rightarrow> inboundMessage \<Rightarrow> ('s, unit) mhandler" where
  "announce_message H i =
     andThen (lift_result (new_record (MessageDepositedEvent (clockMs H)) (Obj [(''threadId'', Str (im_threadId i)),
        (''message'', Obj [(''messageId'', Str (im_canonicalId i)), (''threadId'', Str (im_threadId i)), (''senderAccountId'', null_if_empty (im_sender i)),
           (''text'', Str (extractPreviewText (im_payload i))), (''payload'', im_payload i), (''status'', Str ''delivered''),
           (''createdAtMs'', num (clockMs H)), (''acceptedAtMs'', num (clockMs H)), (''packetB64'', Str (im_ciphertextB64 i))])]))) (\<lambda>r.
     andThen (on_node (effect_out (Emit ''runtime.event.message.deposited'' r))) (\<lambda>_.
       on_node (effect_out (Emit ''message.deposited'' r))))"

text \<open>The write of the row is not caught: when it throws, the deposit is applied again later.\<close>

definition store_message :: "'s host \<Rightarrow> 's eenv \<Rightarrow> inboundMessage \<Rightarrow> ('s, unit) mhandler" where
  "store_message H V i =
     andThen (on_store (upsertDepositedMessage H (ee_owner V) (im_deposit H i))) (\<lambda>stored.
     andThen (index_message H V i) (\<lambda>_.
     andThen (send_ack H V i) (\<lambda>_.
     andThen (observe_channel H V i) (\<lambda>_.
     andThen (announce_message H i) (\<lambda>_.
       when_ok (d_mutated stored) (emitMessageUpdated H (im_threadId i) (d_message stored)))))))"

section \<open>One deposit\<close>

text \<open>Everything after the gate of groups.\<close>

definition accept_deposit :: "'s host \<Rightarrow> 's eenv \<Rightarrow> jsval \<Rightarrow> string \<Rightarrow> jsval \<Rightarrow> (string \<times> ChatThread) option \<Rightarrow> ('s, unit) mhandler" where
  "accept_deposit H V frame envelopeSender payload place =
     (let threadId = (case place of None \<Rightarrow> [] | Some (tid, _) \<Rightarrow> tid);
          authed = (if thread_peer place \<noteq> [] then thread_peer place else envelopeSender);
          claimed = trim (sget payload ''senderAccountId'') in
      andThen (admit_original H V threadId payload) (\<lambda>admitted. case admitted of None \<Rightarrow> ok ()
      | Some fingerprint \<Rightarrow> andThen (take_payload H V payload threadId authed) (\<lambda>done. case place of
          None \<Rightarrow> ok ()
        | Some (tid, t) \<Rightarrow> when_ok (\<not> done) (store_message H V
            \<lparr> im_threadId = tid, im_thread = t, im_eventId = snd (depositIdentity frame), im_mailboxId = fst (depositIdentity frame),
              im_ciphertextB64 = frameCiphertext frame, im_payload = payload,
              im_sender = (if authed \<noteq> [] then authed else claimed), im_fingerprint = fingerprint \<rparr>))))"

text \<open>The buffer of held messages and the process, as the buffer's operations take them.\<close>

type_synonym ('s, 'a) ehandler = "(jsval buffer \<times> 's mnode, 'a) op"

definition on_service :: "('s, 'a) mhandler \<Rightarrow> ('s, 'a) ehandler" where
  "on_service m w = (case m (snd w) of (r, n) \<Rightarrow> (r, (fst w, n)))"

definition gate_deposit :: "'s host \<Rightarrow> 's eenv \<Rightarrow> jsval \<Rightarrow> string \<Rightarrow> jsval \<Rightarrow> (string \<times> ChatThread) option \<Rightarrow> ('s, unit) ehandler" where
  "gate_deposit H V frame envelopeSender payload place w =
     (if foreign_sender place envelopeSender then ok () w
      else case evaluateGate H (ee_owner V) (map_option snd place) (Str (sget payload ''kind'')) (Str envelopeSender)
          (bf_redelivering (fst w)) (nd_kv (mn_node (snd w))) of
        (Defer, gid) \<Rightarrow> (Inr (), (defer_event gid envelopeSender frame (fst w), snd w))
      | (Drop, _) \<Rightarrow> ok () w
      | (Pass, _) \<Rightarrow> on_service (accept_deposit H V frame envelopeSender payload place) w)"

definition handleMailboxDeposited :: "'s host \<Rightarrow> 's eenv \<Rightarrow> jsval \<Rightarrow> ('s, unit) ehandler" where
  "handleMailboxDeposited H V frame =
     (let payload = decoded V (frameCiphertext frame); envelopeSender = trim (sget (frame_body frame) ''senderAccountId'') in
      if snd (depositIdentity frame) = [] \<or> protocol_body payload then ok ()
      else andThen (on_service (thread_of_deposit H V envelopeSender (payload_of payload))) (\<lambda>place.
        gate_deposit H V frame envelopeSender (payload_of payload) place))"

section \<open>Held messages\<close>

definition flushDeferredGroupMessages :: "'s host \<Rightarrow> 's eenv \<Rightarrow> string \<Rightarrow> string \<Rightarrow> jsval buffer \<times> 's mnode \<Rightarrow> jsval buffer \<times> 's mnode" where
  "flushDeferredGroupMessages H V groupId accountId = flush_buffer (Str groupId) (Str accountId) (handleMailboxDeposited H V)"

text \<open>
  An admitted join asks for the release of the messages held for it. In the code that happens inside the join, before
  the announcements, which do not touch the stores; here it follows the deposit that carried the join.
\<close>

definition releases :: "effect list \<Rightarrow> (string \<times> string) list" where
  "releases es = concat (map (\<lambda>e. case e of FlushDeferred g a \<Rightarrow> [(g, a)] | _ \<Rightarrow> []) es)"

definition outputs :: "jsval buffer \<times> 's mnode \<Rightarrow> effect list" where
  "outputs w = nd_out (mn_node (snd w))"

definition processDeposit :: "'s host \<Rightarrow> 's eenv \<Rightarrow> jsval \<Rightarrow> ('s, unit) ehandler" where
  "processDeposit H V frame w = (case handleMailboxDeposited H V frame w of (r, w') \<Rightarrow>
     (r, foldl (\<lambda>x (g, a). flushDeferredGroupMessages H V g a x) w' (releases (drop (length (outputs w)) (outputs w')))))"

text \<open>A decrypted message goes the same way, with its authenticated sender.\<close>

definition user_frame :: "jsval \<Rightarrow> jsval" where
  "user_frame data = Obj [(''body'', Obj [(''eventId'', getp data ''eventId''),
     (''mailboxId'', if truthy (getp data ''mailboxId'') then getp data ''mailboxId'' else Str []),
     (''ciphertextB64'', getp data ''plaintextB64''), (''senderAccountId'', Str (trim (sget data ''senderAccountId'')))])]"

definition applyUserMessage :: "'s host \<Rightarrow> 's eenv \<Rightarrow> jsval \<Rightarrow> ('s, unit) ehandler" where
  "applyUserMessage H V data =
     (if \<not> truthy (getp data ''eventId'') \<or> \<not> truthy (getp data ''plaintextB64'') then ok () else processDeposit H V (user_frame data))"

definition event_handleDeliveryAck :: "'s host \<Rightarrow> 's eenv \<Rightarrow> jsval \<Rightarrow> ('s, unit) mhandler" where
  "event_handleDeliveryAck H V event = (let body = frame_body event in
     handleDeliveryAck H (ee_menv V) (Str (trim (sget body ''threadId''))) (getp body ''messageIds''))"

end
