(* ===== verification/EventLaws.thy ===== *)
theory EventLaws
  imports EventService InboundStores StoreRegions
begin

text \<open>
  The contract between the inbound deposits and the stores: \<open>deposit_law\<close> extends the contract of the group
  operations by the other operations a deposit can lead to. Whatever relation meets it is kept by every deposit,
  every decrypted message and every release of held messages. The message logs meet the contract, so they survive
  every run of raw deposits, decrypted messages and releases; and what is held back is never an operation.
\<close>

section \<open>Rules\<close>

context store_law
begin

lemma every_node: "every (on_stores Q) m \<Longrightarrow> every (on_messages Q) (on_node m)"
  by (simp add: every_def on_stores_def on_messages_def on_node_def split: prod.split) (metis snd_conv)

lemma every_event_reported: "every (on_messages Q) m \<Longrightarrow> every (on_messages Q) (event_reported m msg)"
  unfolding every_def event_reported_def
proof (intro allI)
  fix n assume m: "\<forall>n. on_messages Q n (snd (m n))"
  have "on_messages Q n' (snd (andThen (on_node (effect_out e)) (\<lambda>_. ok None) n'))" for n' e
    using messages.every_andThen [OF messages.every_effect messages.every_done(1)] by (rule everyD)
  then show "on_messages Q n (snd (case m n of (Inl _, n') \<Rightarrow> andThen (on_node (effect_out (Emit ''app.error'' (Obj [(''source'', Str ''ServerEventService''),
          (''message'', Str msg), (''severity'', Str ''warn'')])))) (\<lambda>_. ok None) n' | (Inr x, n') \<Rightarrow> (Inr (Some x), n')))"
    using m [THEN spec, of n] by (auto split: prod.split sum.split intro: messages.R_trans)
qed

end

section \<open>The contract\<close>

text \<open>What the services that are not modelled have to keep.\<close>

definition services_keep :: "('s \<Rightarrow> 's \<Rightarrow> bool) \<Rightarrow> 's eenv \<Rightarrow> bool" where
  "services_keep Q V \<longleftrightarrow>
     (\<forall>f r. ee_accountStateSync V = Some f \<longrightarrow> every (on_messages Q) (f r)) \<and> (\<forall>f r. ee_siblingSync V = Some f \<longrightarrow> every (on_messages Q) (f r))
     \<and> (\<forall>f r c. ee_filePayload V = Some f \<longrightarrow> every (on_messages Q) (f r c)) \<and> (\<forall>f r c. ee_profile V = Some f \<longrightarrow> every (on_messages Q) (f r c))
     \<and> (\<forall>a c. every (on_stores Q) (ee_reconnect V a c))"

lemma request_read: "idle (getRequest H a b)"
  by (auto simp: getRequest_def intro!: idle_rules)

locale deposit_law = inbound_revive Q H "ee_base V" for Q :: "'s \<Rightarrow> 's \<Rightarrow> bool" and H and V :: "'s eenv" +
  assumes op_service: "service_write H (ee_menv V) s s' \<Longrightarrow> Q s s'"
    and op_summary: "every Q (ensureThreadSummary H owner tid)"
    and op_contact: "every Q (upsertContact H a b p)"
    and op_request: "every Q (upsertRequest H a b r)"
    and op_unrequest: "every Q (deleteRequest H a b)"
    and op_external: "services_keep Q V"
begin

lemma step_kept: "mstep H (ee_menv V) n n' \<Longrightarrow> on_messages Q n n'"
  by (induction rule: mstep.induct)
    (simp_all add: on_messages_def op_service Q_refl discardQueueTracking_def settle_def svc_stop_def track_node split: option.split)

lemma every_steps: "every (msteps H (ee_menv V)) m \<Longrightarrow> every (on_messages Q) m"
proof (erule every_mono)
  fix n n' assume "msteps H (ee_menv V) n n'"
  then show "on_messages Q n n'"
    by (induction rule: rtranclp_induct) (auto intro: step_kept messages.R_refl messages.R_trans)
qed

lemma every_log_call: "(\<And>s. snd (m s) = exec_call H (ee_owner V) c s) \<Longrightarrow> every (on_messages Q) (on_store m)"
  using service_write.log_write [of H "ee_menv V" _ c]
  by (intro every_steps every_store_call) (simp add: ee_owner_def ee_base_def me_owner_def)

lemma log_calls:
  "every (on_messages Q) (on_store (ensureThread H (ee_owner V) args))"
  "every (on_messages Q) (on_store (appendOriginalFact H (ee_owner V) t f))"
  "every (on_messages Q) (on_store (upsertDepositedMessage H (ee_owner V) d))"
  "every (on_messages Q) (on_store (\<lambda>s. case markMessageConflicted H (ee_owner V) t m s of (x, s') \<Rightarrow> (Inr x, s')))"
  by (rule every_log_call [of _ "EnsureThread args"], simp, rule every_log_call [of _ "AppendFact t f"], simp,
      rule every_log_call [of _ "UpsertDeposited d"], simp, rule every_log_call [of _ "MarkConflicted t m"], simp split: prod.split)

lemma index_call: "every (on_messages Q) (on_store (upsertFromMessage H (ee_owner V) t m ts p a))"
  by (rule every_steps) (use other_stores(1) [of H "ee_menv V"] in \<open>simp add: ee_owner_def ee_base_def me_owner_def\<close>)

lemma node_index_call: "every (on_stores Q) (on_kv (upsertFromMessage H (ev_owner (ee_base V)) t m ts p a))"
  using op_service [OF index_write [of H "ee_menv V" _ t m ts p a]]
  by (intro every_on_kv) (simp add: every_def ee_base_def me_owner_def)

lemmas service_rules = messages.message_rules log_calls index_call every_event_reported

lemma every_idle_on_store: "every (on_messages Q) (on_store (reads f))"
  by (rule messages.every_store_read)

section \<open>Threads and contacts\<close>

lemma contact_steps: "every (on_stores Q) (upsert_and_emit H E a p)"
  by (auto simp: upsert_and_emit_def intro!: handler_rules op_contact every_record split: prod.split)

lemma request_event: "every (on_stores Q) (emitConnectRequestUpdated a)"
  by (simp add: emitConnectRequestUpdated_def handlers.every_when_ok every_emit)

lemma active_steps: "every (on_stores Q) (ensureActiveContact H E a d t)"
  by (auto simp: ensureActiveContact_def intro!: handler_rules contact_steps)

lemmas kv_reads = every_read_kv [OF store_reads(4)] every_read_kv [OF isCoMember_idle] every_read_kv [OF request_read] every_read_kv [OF idle_simps(3)]

lemma accept_steps: "every (on_stores Q) (acceptOutgoingConnectRequest H E a d)"
  by (auto simp: acceptOutgoingConnectRequest_def Let_def intro!: handlers.every_rules kv_reads active_steps every_on_kv [OF op_unrequest] request_event)

lemma is_active_steps: "every (on_stores Q) (isActiveContact H E a)"
  by (auto simp: isActiveContact_def Let_def intro!: handlers.every_rules kv_reads)

lemma incoming_request_steps: "every (on_stores Q) (handleIncomingConnectRequest H E (ee_reconnect V) r a g)"
proof -
  have i: "every (on_stores Q) (upsertInvitedContact H E x y)" for x y
    by (auto simp: upsertInvitedContact_def intro!: handlers.every_rules contact_steps kv_reads)
  have r: "every (on_stores Q) (ee_reconnect V x y)" for x y using op_external by (simp add: services_keep_def)
  show ?thesis
    by (auto simp: handleIncomingConnectRequest_def request_allowed_def Let_def
        intro!: handlers.every_rules i r every_on_kv [OF op_request] request_event kv_reads)
qed

lemma summary_steps: "every (on_stores Q) (loadThreadSummary H E t i)"
proof -
  have d: "every (on_stores Q) (decorated x)" for x
    by (auto simp: decorated_def intro!: handler_rules)
  show ?thesis
    by (auto simp: loadThreadSummary_def Let_def intro!: handlers.every_rules kv_reads every_on_kv [OF op_summary] d split: option.split)
qed

lemma get_thread_steps: "every (on_messages Q) (svc_getThread H (ee_menv V) p)"
proof -
  have l: "every (on_messages Q) (svc_listMessages H (ee_menv V) x)" for x by (rule every_steps) (rule list_steps)
  show ?thesis unfolding svc_getThread_def by (intro messages.message_rules every_node summary_steps l)
qed

lemma ensure_direct_steps: "every (on_messages Q) (ensureDirectThread H (ee_menv V) t a i)"
proof -
  have "me_owner (ee_menv V) = ee_owner V" by (simp add: me_owner_def ee_owner_def ee_base_def)
  then show ?thesis unfolding ensureDirectThread_def by (simp only:) (intro service_rules get_thread_steps)
qed

lemma repair_steps: "every (on_messages Q) (repairDirectThreadFromPeerLink H V t p)"
  unfolding repairDirectThreadFromPeerLink_def by (intro service_rules ensure_direct_steps)

lemma resolve_steps: "every (on_messages Q) (resolveDirectThreadForSender H V a)"
  unfolding resolveDirectThreadForSender_def by (intro service_rules repair_steps messages.every_prod)

lemma place_steps: "every (on_messages Q) (thread_of_deposit H V e p)"
proof -
  have g: "every (on_messages Q) (direct_gate H V a)" for a
    unfolding direct_gate_def by (intro service_rules every_node is_active_steps accept_steps)
  show ?thesis unfolding thread_of_deposit_def by (intro service_rules g resolve_steps)
qed

section \<open>Payloads\<close>

lemma admit_steps: "every (on_messages Q) (admit_original H V t p)"
proof -
  have f: "every (on_messages Q) (record_fact H V t p fp)" for fp
    unfolding record_fact_def by (intro service_rules)
  show ?thesis unfolding admit_original_def by (intro service_rules f)
qed

lemma system_row_steps: "every (on_stores Q) (persistConnectAccepted H (ee_base V) t a d m)"
proof -
  have e: "every (on_stores Q) (emitThreadIndexUpdated row)" for row
    by (auto simp: emitThreadIndexUpdated_def intro!: handler_rules)
  show ?thesis
    by (auto simp: persistConnectAccepted_def Let_def intro!: handler_rules op_message node_index_call e)
qed

lemma accepted_steps: "every (on_stores Q) (handleIncomingConnectAccepted H (ee_base V) r a t)"
proof -
  have n: "every (on_stores Q) (apply_acceptor_name H E x y)" for E x y
    by (auto simp: apply_acceptor_name_def intro!: handlers.every_rules accept_steps active_steps kv_reads)
  show ?thesis
    by (auto simp: handleIncomingConnectAccepted_def listDirectThreadIdsForPeer_def Let_def
        intro!: handlers.every_rules n system_row_steps kv_reads split: list.split)
qed

lemma avatar_steps: "every (on_stores Q) (store_avatar_payload E r)"
  by (auto simp: store_avatar_payload_def intro!: handler_rules)

lemma mutation_messages:
  "every (on_messages Q) (handleIncomingReaction H (ee_menv V) r c)" "every (on_messages Q) (handleIncomingEdit H (ee_menv V) r c)"
  "every (on_messages Q) (handleIncomingTombstone H (ee_menv V) r c)" "every (on_messages Q) (handleCommitAck H (ee_menv V) r c)"
  by (rule every_steps, rule incoming_steps commit_ack_steps)+

lemma external_steps:
  "every (on_messages Q) (case ee_accountStateSync V of None \<Rightarrow> ok True | Some f \<Rightarrow> andThen (f r) (\<lambda>_. ok True))"
  "every (on_messages Q) (case ee_siblingSync V of None \<Rightarrow> ok True | Some f \<Rightarrow> andThen (f r) (\<lambda>_. ok True))"
  "every (on_messages Q) (case ee_filePayload V of None \<Rightarrow> ok False | Some f \<Rightarrow> f r c)"
  "every (on_messages Q) (case ee_profile V of None \<Rightarrow> ok False | Some f \<Rightarrow> f r a)"
  using op_external
  by (auto simp: services_keep_def messages.every_done intro!: messages.every_andThen split: option.split)

lemma payload_constructed:
  assumes "payload_class V kind = Some mk" and "mk p = Inr r" and "kind = GROUP_OP_KIND" shows "role_ok r"
proof -
  have "payload_class V GROUP_OP_KIND = Some (new_record GroupOpPayloadV1)"
    by (simp add: payload_class_def GROUP_OP_KIND_def Payloads.MESSAGE_KIND_def REACTION_KIND_def MESSAGE_EDIT_KIND_def MESSAGE_TOMBSTONE_KIND_def)
  then have "mk = new_record GroupOpPayloadV1" using assms(1,3) by simp
  then show ?thesis using assms(2) constructed_role_ok by blast
qed

lemma dispatch_steps:
  assumes "kind = GROUP_OP_KIND \<Longrightarrow> role_ok r"
  shows "every (on_messages Q) (dispatch_payload H V kind r t a c)"
  unfolding dispatch_payload_def Let_def
  by (intro messages.every_if messages.every_done external_steps mutation_messages messages.every_andThen [OF mutation_messages(4)] every_node every_handle assms
      incoming_request_steps accepted_steps avatar_steps)

lemma take_steps: "every (on_messages Q) (take_payload H V p t a)"
proof (cases "payload_class V (sget p ''kind'')")
  case (Some mk)
  have "every (on_messages Q) (catching (dispatch_payload H V (sget p ''kind'') r t a c) False)" if "mk p = Inr r" for r c
    by (intro messages.every_catching dispatch_steps payload_constructed [OF Some that])
  with Some show ?thesis by (simp add: take_payload_def messages.every_done split: sum.split)
qed (simp add: take_payload_def messages.every_done)

section \<open>Storing\<close>

lemma store_steps: "every (on_messages Q) (store_message H V i)"
proof -
  have b: "every (on_messages Q) (buildCommitAck H (ee_menv V) p)" for p
    unfolding buildCommitAck_def by (intro service_rules)
  have a: "every (on_messages Q) (send_ack H V i)"
    unfolding send_ack_def ack_bytes_def by (intro service_rules b)
  have c: "every (on_stores Q) (ensureFromObservedMessage H E x y z)" for E x y z
    by (auto simp: ensureFromObservedMessage_def sendSyncRequest_def Let_def intro!: handler_rules every_record op_channel split: prod.split)
  have o: "every (on_messages Q) (observe_channel H V i)"
    unfolding observe_channel_def by (intro service_rules every_node c)
  have n: "every (on_messages Q) (announce_message H i)"
    unfolding announce_message_def by (intro service_rules)
  have x: "every (on_messages Q) (index_message H V i)"
    unfolding index_message_def by (intro service_rules)
  show ?thesis unfolding store_message_def by (intro service_rules a o n x)
qed

lemma accept_deposit_steps: "every (on_messages Q) (accept_deposit H V f e p place)"
  unfolding accept_deposit_def by (intro service_rules admit_steps take_steps store_steps messages.every_prod)

end

section \<open>Deposits\<close>

text \<open>The same relation on the service with its buffer of held messages.\<close>

definition kept :: "('s \<Rightarrow> 's \<Rightarrow> bool) \<Rightarrow> jsval buffer \<times> 's mnode \<Rightarrow> jsval buffer \<times> 's mnode \<Rightarrow> bool" where
  "kept Q w w' \<longleftrightarrow> on_messages Q (snd w) (snd w')"

sublocale store_law \<subseteq> deposits: step_law "kept Q"
  by unfold_locales (auto simp: kept_def intro: messages.R_refl messages.R_trans)

context deposit_law
begin

lemma every_on_service: "every (on_messages Q) m \<Longrightarrow> every (kept Q) (on_service m)"
  by (simp add: every_def on_service_def kept_def split: prod.split) (metis snd_conv)

lemma gate_steps: "every (kept Q) (gate_deposit H V f e p place)"
  using everyD [OF every_on_service [OF accept_deposit_steps]]
  by (auto simp: every_def gate_deposit_def ok_def deposits.R_refl kept_def messages.R_refl split: prod.split verdict.split)

lemma deposit_steps: "every (kept Q) (handleMailboxDeposited H V f)"
  unfolding handleMailboxDeposited_def Let_def by (intro deposits.every_rules every_on_service place_steps gate_steps)

lemma reapplied_kept: "kept Q w (reapply_all (handleMailboxDeposited H V) es w)"
proof (induction es arbitrary: w)
  case (Cons e es)
  show ?case using deposits.R_trans [OF everyD [OF deposit_steps] Cons.IH] by simp
qed (simp add: deposits.R_refl)

lemma flush_kept: "kept Q w (flushDeferredGroupMessages H V g a w)"
  using reapplied_kept [of "(_, snd w)"]
  by (auto simp: flushDeferredGroupMessages_def flush_buffer_def Let_def deposits.R_refl kept_def messages.R_refl split: prod.split) (metis snd_conv)

lemma flushes_kept: "kept Q w (foldl (\<lambda>x (g, a). flushDeferredGroupMessages H V g a x) w rs)"
proof (induction rs arbitrary: w)
  case (Cons r rs)
  obtain g a where r: "r = (g, a)" by force
  show ?case using deposits.R_trans [OF flush_kept Cons.IH] by (simp add: r)
qed (simp add: deposits.R_refl)

lemma process_steps: "every (kept Q) (processDeposit H V f)"
proof -
  have "kept Q w (snd (processDeposit H V f w))" for w
    using deposits.R_trans [OF everyD [OF deposit_steps] flushes_kept] by (simp add: processDeposit_def split_beta)
  then show ?thesis by (simp add: every_def)
qed

lemma user_steps: "every (kept Q) (applyUserMessage H V d)"
  unfolding applyUserMessage_def by (intro deposits.every_rules process_steps)

end

section \<open>The message logs\<close>

definition keeps_logs :: "'s host \<Rightarrow> string \<Rightarrow> 's \<Rightarrow> 's \<Rightarrow> bool" where
  "keeps_logs H owner s s' \<longleftrightarrow> (store_ok H owner s \<longrightarrow> store_ok H owner s')"

lemma untouched_only: "untouched H ps s s' = only_under H ps s s'"
  by (simp add: untouched_def only_under_def list_all_iff)

lemma logs_law: "store_law (keeps_logs H owner)"
  by unfold_locales (auto simp: keeps_logs_def)

context host_laws
begin

lemma untouched_keeps: "list_all (apart ''app:messages/'') ps \<Longrightarrow> untouched H ps s s' \<Longrightarrow> keeps_logs H owner s s'"
  unfolding untouched_only keeps_logs_def by (subst store_ok_region) (auto simp: list_all_iff apart_def)

lemma apart_logs:
  "list_all (apart ''app:messages/'') [GROUP_PREFIX]" "list_all (apart ''app:messages/'') [MEMBERSHIP_PREFIX]"
  "list_all (apart ''app:messages/'') [CHANNEL_PREFIX]" "list_all (apart ''app:messages/'') [''app:contacts/'']"
  "list_all (apart ''app:messages/'') [''app:connectRequests/'']" "list_all (apart ''app:messages/'') [''app:threads/'']"
  by (simp_all add: apart_def MEMBERSHIP_PREFIX_def GROUP_PREFIX_def CHANNEL_PREFIX_def)

lemma every_untouched_keeps: "every (untouched H ps) m \<Longrightarrow> list_all (apart ''app:messages/'') ps \<Longrightarrow> every (keeps_logs H owner) m"
  by (erule every_mono) (rule untouched_keeps)

lemma request_writes:
  "every (untouched H [''app:connectRequests/'']) (upsertRequest H a b r)" "every (untouched H [''app:connectRequests/'']) (deleteRequest H a b)"
proof -
  let ?U = "untouched H [''app:connectRequests/'']"
  have p: "tb_prefix (requests_table H) \<in> set [''app:connectRequests/'']" by (simp add: requests_table_def)
  have read: "every ?U (getRequest H x y)" for x y by (rule every_mono [OF request_read]) (simp add: untouched_same)
  have "every ?U (\<lambda>s. case row of None \<Rightarrow> throw e s | Some r \<Rightarrow> ok (r, x) (table_set H (requests_table H) r parts s))" for row e x parts
    by (cases row) (simp_all add: every_def throw_def ok_def untouched_same untouched_table [OF p])
  then show "every ?U (upsertRequest H a b r)"
    unfolding upsertRequest_def Let_def by (intro untouched.stores.every_with_id untouched.stores.every_andThen read)
  have "every ?U (\<lambda>s. ok x (table_delete H (requests_table H) parts s))" for x parts
    using only_delete [of "''app:connectRequests/''" "[''app:connectRequests/'']"]
    by (auto simp: every_def ok_def table_delete_def untouched_only table_key_def requests_table_def)
  then show "every ?U (deleteRequest H a b)"
    unfolding deleteRequest_def by (intro untouched.stores.every_with_id untouched.stores.every_andThen read)
qed

lemma summary_only: "every (untouched H INDEX_KEYS) (ensureThreadSummary H owner t)"
  using everyD [OF updateRecord_only]
  by (simp add: every_def untouched_only ensureThreadSummary_def Let_def throw_def region.R_refl)

lemma summary_keeps: "every (keeps_logs H me) (ensureThreadSummary H owner t)"
  by (rule every_untouched_keeps [OF summary_only]) (simp add: apart_def)

lemma known_keeps: "every (on_stores (keeps_logs H me)) (ensureKnownAccount H E a name)"
  by (rule every_mono [OF known_writes]) (auto simp: on_stores_def intro: untouched_keeps [OF apart_logs(4)])

lemmas tables_keep_logs =
  every_untouched_keeps [OF group_writes(1) apart_logs(1)] every_untouched_keeps [OF group_writes(2) apart_logs(1)]
  every_untouched_keeps [OF member_writes(1) apart_logs(2)] every_untouched_keeps [OF member_writes(2) apart_logs(2)]
  every_untouched_keeps [OF member_writes(3) apart_logs(2)] every_untouched_keeps [OF member_writes(4) apart_logs(2)]
  every_untouched_keeps [OF channel_writes(1) apart_logs(3)] every_untouched_keeps [OF channel_writes(2) apart_logs(3)]
  every_untouched_keeps [OF contact_writes apart_logs(4)] every_untouched_keeps [OF request_writes(1) apart_logs(5)]
  every_untouched_keeps [OF request_writes(2) apart_logs(5)] every_untouched_keeps [OF thread_writes(1) apart_logs(6)]
  every_untouched_keeps [OF thread_writes(2) apart_logs(6)]

lemma message_keeps: "every (keeps_logs H owner) (upsertMessage H owner input)"
  by (simp add: every_def keeps_logs_def upsertMessage_store_ok)

lemma deposit_law_logs: "services_keep (keeps_logs H (ee_owner V)) V \<Longrightarrow> deposit_law (keeps_logs H (ee_owner V)) H V"
  by (intro deposit_law.intro inbound_revive.intro inbound.intro inbound_axioms.intro inbound_revive_axioms.intro deposit_law_axioms.intro
      logs_law tables_keep_logs summary_keeps known_keeps message_keeps)
    (auto simp: ee_owner_def keeps_logs_def me_owner_def ee_base_def dest: write_store_ok intro: tables_keep_logs message_keeps [unfolded ee_base_def])

end

text \<open>A service to which the optional services were not given, at a home whose links never reconnect: nothing is left to assume.\<close>

definition without_services :: "'s eenv \<Rightarrow> 's eenv" where
  "without_services V = V\<lparr>ee_accountStateSync := None, ee_siblingSync := None, ee_filePayload := None, ee_profile := None,
     ee_reconnect := (\<lambda>_ _. ok ())\<rparr>"

lemma without_services_keep: "store_law Q \<Longrightarrow> services_keep Q (without_services V)"
  by (simp add: services_keep_def without_services_def every_def ok_def on_stores_def store_law.Q_refl)

sublocale host_laws \<subseteq> alone: deposit_law "keeps_logs H (ee_owner (without_services V))" H "without_services V" for V
  by (rule deposit_law_logs [OF without_services_keep [OF logs_law]])

section \<open>The row of a message\<close>

interpretation same_rows: store_law "same_on H p" for H :: "'s host" and p
  by unfold_locales (simp_all add: same_on_def)

context host_laws
begin

lemma apart_rows: "list_all (apart ''app:messages/'') INDEX_KEYS" "list_all (apart ''app:messages/'') [CHANNEL_PREFIX]"
  by (simp_all add: apart_def CHANNEL_PREFIX_def)

text \<open>What follows the write of a row leaves the rows alone.\<close>

lemma after_row:
  "every (on_messages (same_on H ''app:messages/'')) (index_message H V i)" "every (on_messages (same_on H ''app:messages/'')) (send_ack H V i)"
  "every (on_messages (same_on H ''app:messages/'')) (observe_channel H V i)" "every (on_messages (same_on H ''app:messages/'')) (announce_message H i)"
proof -
  let ?R = "on_messages (same_on H ''app:messages/'')"
  have idx: "every (same_on H ''app:messages/'') (upsertFromMessage H owner t m ts p a)" for owner t m ts p a
    by (rule every_same_on [OF _ apart_rows(1)]) (use index_only in \<open>simp add: every_def untouched_only\<close>)
  show "every ?R (index_message H V i)"
    unfolding index_message_def by (intro same_rows.messages.message_rules same_rows.every_event_reported same_rows.every_on_store idx)
  have "every ?R (buildCommitAck H (ee_menv V) p)" for p
    unfolding buildCommitAck_def by (intro same_rows.messages.message_rules)
  then show "every ?R (send_ack H V i)"
    unfolding send_ack_def ack_bytes_def by (intro same_rows.messages.message_rules)
  have "every (on_stores (same_on H ''app:messages/'')) (ensureFromObservedMessage H E x y z)" for E x y z
    by (auto simp: ensureFromObservedMessage_def sendSyncRequest_def Let_def
        intro!: same_rows.handler_rules same_rows.every_record every_same_on [OF channel_writes(1) apart_rows(2)] split: prod.split)
  then show "every ?R (observe_channel H V i)"
    unfolding observe_channel_def Let_def by (intro same_rows.messages.message_rules same_rows.every_node)
  show "every ?R (announce_message H i)"
    unfolding announce_message_def by (intro same_rows.messages.message_rules)
qed

lemma same_rows_of: "same_on H ''app:messages/'' s s' \<Longrightarrow> row_of H owner t k s' = row_of H owner t k s"
  by (simp add: row_of_def loadMessages_def same_on_def kMessages_def)

lemma stored_rows:
  "row_of H owner t k (nd_kv (mn_node (snd (store_message H V i n))))
   = row_of H owner t k (snd (upsertDepositedMessage H (ee_owner V) (im_deposit H i) (nd_kv (mn_node n))))"
proof -
  let ?rest = "\<lambda>stored. andThen (index_message H V i) (\<lambda>_. andThen (send_ack H V i) (\<lambda>_. andThen (observe_channel H V i) (\<lambda>_.
     andThen (announce_message H i) (\<lambda>_. when_ok (d_mutated stored) (emitMessageUpdated H (im_threadId i) (d_message stored))))))"
  have ev: "every (on_messages (same_on H ''app:messages/'')) (?rest stored)" for stored
    by (intro same_rows.messages.message_rules after_row)
  have r: "row_of H owner t k (nd_kv (mn_node (snd (?rest stored m)))) = row_of H owner t k (nd_kv (mn_node m))" for stored m
    using everyD [OF ev, of m stored] by (intro same_rows_of) (simp add: on_messages_def)
  obtain r0 m where w: "on_store (upsertDepositedMessage H (ee_owner V) (im_deposit H i)) n = (r0, m)" by force
  have kv: "nd_kv (mn_node m) = snd (upsertDepositedMessage H (ee_owner V) (im_deposit H i) (nd_kv (mn_node n)))"
    using kv_on_store [of "upsertDepositedMessage H (ee_owner V) (im_deposit H i)" n] by (simp add: w)
  have "store_message H V i n = (case r0 of Inl e \<Rightarrow> (Inl e, m) | Inr stored \<Rightarrow> ?rest stored m)"
    by (simp add: store_message_def andThen_def [of "on_store _"] w)
  then show ?thesis
  proof (cases r0)
    case (Inr stored)
    with \<open>store_message H V i n = _\<close> have "store_message H V i n = ?rest stored m" by simp
    then show ?thesis by (simp only: r kv)
  qed (simp add: kv)
qed

end

section \<open>Held messages\<close>

definition frame_sender :: "jsval \<Rightarrow> string" where
  "frame_sender frame = trim (sget (frame_body frame) ''senderAccountId'')"

definition frame_payload :: "'s eenv \<Rightarrow> jsval \<Rightarrow> jsval" where
  "frame_payload V frame = payload_of (decoded V (frameCiphertext frame))"

definition all_held :: "('e \<Rightarrow> bool) \<Rightarrow> 'e buffer \<Rightarrow> bool" where
  "all_held P b \<longleftrightarrow> (\<forall>entry \<in> set (bf_map b). list_all P (snd entry))"

lemma set_update_subset: "set (AList.update k v xs) \<subseteq> insert (k, v) (set xs)"
  by (induction xs) auto

lemma all_held_defer:
  assumes "all_held P b" and "P e" shows "all_held P (defer_event g a e b)"
proof -
  let ?key = "bufferKey g a" and ?opened = "open_bucket (bufferKey g a) b"
  have "entry \<in> insert (?key, []) (set (bf_map b))" if "entry \<in> set ?opened" for entry
    using that by (auto simp: open_bucket_def split: option.splits if_splits dest: in_set_dropD)
  then have opened: "list_all P (snd entry)" if "entry \<in> set ?opened" for entry
    using that assms(1) unfolding all_held_def by fastforce
  have "list_all P (bucket_of ?opened ?key)"
    using opened [OF map_of_SomeD] by (force simp: bucket_of_def split: option.split)
  then have "list_all P (push_event (bf_maxPerKey b) e (bucket_of ?opened ?key))"
    using assms(2) by (auto simp: push_event_def list_all_iff dest: in_set_dropD)
  moreover have "bf_map (defer_event g a e b) = AList.update ?key (push_event (bf_maxPerKey b) e (bucket_of ?opened ?key)) ?opened"
    by (simp add: defer_event_def Let_def)
  ultimately show ?thesis
    using opened set_update_subset [of ?key "push_event (bf_maxPerKey b) e (bucket_of ?opened ?key)" ?opened] by (auto simp: all_held_def)
qed

text \<open>No operation of a group is held: the flush of a join cannot lead to another join.\<close>

definition no_operation :: "'s eenv \<Rightarrow> jsval \<Rightarrow> bool" where
  "no_operation V frame \<longleftrightarrow> sget (frame_payload V frame) ''kind'' \<noteq> GROUP_OP_KIND"

definition holds_content :: "'s eenv \<Rightarrow> jsval buffer \<times> 's mnode \<Rightarrow> jsval buffer \<times> 's mnode \<Rightarrow> bool" where
  "holds_content V w w' \<longleftrightarrow> (all_held (no_operation V) (fst w) \<longrightarrow> all_held (no_operation V) (fst w'))"

interpretation held: step_law "holds_content V" for V :: "'s eenv"
  by unfold_locales (auto simp: holds_content_def)

lemma deferred_content: "evaluateGate H me t k e b s = (Defer, gid) \<Longrightarrow> k \<noteq> Str GROUP_OP_KIND"
  by (auto simp: evaluateGate_def Let_def split: option.splits if_splits)

lemma held_gate: "every (holds_content V) (gate_deposit H V frame e (frame_payload V frame) place)"
proof -
  have "all_held (no_operation V) (defer_event gid e frame b)"
    if "evaluateGate H me t (Str (sget (frame_payload V frame) ''kind'')) x r s = (Defer, gid)" "all_held (no_operation V) b" for H me t x r s gid b
    using deferred_content [OF that(1)] that(2) by (intro all_held_defer) (simp_all add: no_operation_def)
  then show ?thesis
    by (auto simp: every_def gate_deposit_def holds_content_def ok_def on_service_def split: prod.split verdict.split)
qed

lemma held_service: "every (holds_content V) (on_service m)"
  by (simp add: every_def holds_content_def on_service_def split: prod.split)

lemma held_handle: "every (holds_content V) (handleMailboxDeposited H V frame)"
  using held_gate [of V H frame] unfolding handleMailboxDeposited_def Let_def frame_payload_def
  by (intro held.every_rules held_service)

lemma held_reapplied: "holds_content V w (reapply_all (handleMailboxDeposited H V) es w)"
proof (induction es arbitrary: w)
  case (Cons e es)
  show ?case using held.R_trans [OF everyD [OF held_handle] Cons.IH] by simp
qed (simp add: held.R_refl)

lemma held_flush: "holds_content V w (flushDeferredGroupMessages H V g a w)"
proof -
  have "all_held P b \<Longrightarrow> all_held P (b\<lparr>bf_map := filter q (bf_map b), bf_redelivering := r\<rparr>)" for P q r and b :: "jsval buffer"
    by (auto simp: all_held_def)
  moreover have "all_held P (b\<lparr>bf_redelivering := r\<rparr>) = all_held P b" for P r and b :: "jsval buffer"
    by (simp add: all_held_def)
  ultimately show ?thesis
    using held_reapplied [of V "((fst w)\<lparr>bf_map := filter q (bf_map (fst w)), bf_redelivering := True\<rparr>, snd w)" H for q]
    by (auto simp: flushDeferredGroupMessages_def flush_buffer_def Let_def holds_content_def split: prod.split) (metis fst_conv)
qed

section \<open>Runs\<close>

text \<open>What reaches the service: raw deposits, decrypted messages, and releases of held messages.\<close>

datatype arrival = RawDeposit jsval | Decrypted jsval | Released string string

definition arrive :: "'s host \<Rightarrow> 's eenv \<Rightarrow> arrival \<Rightarrow> jsval buffer \<times> 's mnode \<Rightarrow> jsval buffer \<times> 's mnode" where
  "arrive H V a w = (case a of RawDeposit frame \<Rightarrow> snd (processDeposit H V frame w)
     | Decrypted data \<Rightarrow> snd (applyUserMessage H V data w) | Released g m \<Rightarrow> flushDeferredGroupMessages H V g m w)"

fun arrive_all :: "'s host \<Rightarrow> 's eenv \<Rightarrow> (rat \<times> arrival) list \<Rightarrow> jsval buffer \<times> 's mnode \<Rightarrow> jsval buffer \<times> 's mnode" where
  "arrive_all H V [] w = w"
| "arrive_all H V ((now, a) # as) w = arrive_all H V as (arrive (H\<lparr>clockMs := now\<rparr>) V a w)"

context deposit_law
begin

lemma arrive_kept: "kept Q w (arrive H V a w)"
  using everyD [OF process_steps] everyD [OF user_steps] flush_kept by (simp add: arrive_def split: arrival.split)

end

lemma held_flushes: "holds_content V w (foldl (\<lambda>x (g, a). flushDeferredGroupMessages H V g a x) w rs)"
proof (induction rs arbitrary: w)
  case (Cons r rs)
  obtain g a where r: "r = (g, a)" by force
  show ?case using held.R_trans [OF held_flush Cons.IH] by (simp add: r)
qed (simp add: held.R_refl)

lemma held_process: "holds_content V w (snd (processDeposit H V f w))"
  using held.R_trans [OF everyD [OF held_handle] held_flushes] by (simp add: processDeposit_def split_beta)

lemma held_arrive: "holds_content V w (arrive H V a w)"
  by (cases a) (simp_all add: arrive_def applyUserMessage_def ok_def held_process held_flush held.R_refl)

end
