(* ===== verification/EventProperties.thy ===== *)
theory EventProperties
  imports EventLaws MessageSamples
begin

text \<open>
  Properties of inbound deposits: whose content is taken, what a deposit without a sender counts as, what is held
  back, and that the message logs survive every deposit.
\<close>

section \<open>A sample\<close>

text \<open>
  A small server for the instances of the properties of deposits: account \<open>me\<close> with the store of \<open>Samples\<close>, whose
  thread \<open>t1\<close> is a conversation with \<open>bob\<close>, and a thread \<open>g1\<close> of a group. The body of a deposit is a name.
\<close>

definition event_env :: env where
  "event_env = (plain_env ''me'')\<lparr>ev_contacts := True\<rparr>"

definition said :: "string \<Rightarrow> string \<Rightarrow> string \<Rightarrow> fields" where
  "said thread mid body = [(''threadId'', Str thread), (''senderAccountId'', Str ''bob''), (''messageId'', Str mid), (''text'', Str body)]"

text \<open>A message that \<open>bob\<close> signed.\<close>

definition signed_by_bob :: "string \<Rightarrow> string \<Rightarrow> jsval" where
  "signed_by_bob mid body = Obj ((''kind'', Str Payloads.MESSAGE_KIND) # said ''t1'' mid body @
     [(''signerPublicKeyB64'', Str ''bob''), (''senderAuthorityEpoch'', num 0), (''contentHash'', Str (mid @ ''/'' @ body)),
      (''sig'', Str (''bob/'' @ mid @ ''/'' @ body @ ''.''))])"

definition bodies :: "(string \<times> jsval) list" where
  "bodies = [(''hello'', Obj ((''kind'', Str Payloads.MESSAGE_KIND) # said ''t1'' ''x1'' ''hi'')),
     (''group'', Obj ((''kind'', Str Payloads.MESSAGE_KIND) # said ''g1'' ''x2'' ''hi'')),
     (''nowhere'', Obj ((''kind'', Str Payloads.MESSAGE_KIND) # said ''t9'' ''x4'' ''hi'')),
     (''leave'', Obj ([(''kind'', Str GROUP_OP_KIND), (''op'', Str ''leave''), (''groupId'', Str ''g''), (''accountId'', Str ''bob''),
        (''actedAtMs'', num 5), (''groupOpId'', Str ''o1'')] @ said ''g1'' ''x2'' ''pay eve'')),
     (''banner'', Obj ([(''kind'', Str SYSTEM_EVENT_KIND), (''event'', Str ''member.join''), (''groupId'', Str ''g''), (''actorAccountId'', Str ''eve''),
        (''actorDisplayName'', Str ''Support''), (''actedAtMs'', num 5)] @ said ''t1'' ''x3'' [])),
     (''first'', signed_by_bob ''a1'' ''one''), (''second'', signed_by_bob ''a1'' ''two'')]"

definition EV :: "(string \<times> jsval) list eenv" where
  "EV = \<lparr> ee_menv = ME\<lparr>me_base := event_env\<rparr>, ee_parse = map_of bodies, ee_legacyAck = (\<lambda>a ids. ''ack''), ee_FileManifestV1 = Inr,
     ee_FileChunkV1 = Inr, ee_ProfilePayloadV1 = Inr, ee_accountStateSync = None, ee_siblingSync = None, ee_filePayload = None,
     ee_profile = None, ee_reconnect = (\<lambda>a c. ok ()) \<rparr>"

definition group_thread :: ChatThread where
  "group_thread = the (coerceThreadRow HM (Obj [(''threadId'', Str ''g1''), (''threadType'', Str ''group''),
     (''groupId'', Str ''g''), (''createdAtMs'', num 1)]))"

definition event_node :: "(string \<times> jsval) list mnode" where
  "event_node = started (sample_node\<lparr>nd_kv := kvSet HM sample_store (kThread ''me'' ''g1'') (thread_json group_thread)\<rparr>)"

definition event_state :: "jsval buffer \<times> (string \<times> jsval) list mnode" where
  "event_state = (new_buffer Undef Undef, event_node)"

definition deposit_frame :: "string \<Rightarrow> string \<Rightarrow> jsval" where
  "deposit_frame sender body = Obj [(''body'', Obj [(''mailboxId'', Str ''mb''), (''eventId'', Str body), (''ciphertextB64'', Str body),
     (''senderAccountId'', Str sender)])]"

section \<open>Content and its sender\<close>

text \<open>The thread a deposit names, where it is stored.\<close>

definition named_thread :: "'s host \<Rightarrow> 's eenv \<Rightarrow> jsval \<Rightarrow> 's \<Rightarrow> ChatThread option" where
  "named_thread H V frame s =
     (let claimed = trim (sget (frame_payload V frame) ''threadId'') in if claimed = [] then None else getThread H (ee_owner V) (Str claimed) s)"

abbreviation kv_of :: "jsval buffer \<times> 's mnode \<Rightarrow> 's" where
  "kv_of w \<equiv> nd_kv (mn_node (snd w))"

lemma handle_unfold:
  "handleMailboxDeposited H V frame w =
     (if snd (depositIdentity frame) = [] \<or> protocol_body (decoded V (frameCiphertext frame)) then (Inr (), w)
      else andThen (on_service (thread_of_deposit H V (frame_sender frame) (frame_payload V frame)))
        (gate_deposit H V frame (frame_sender frame) (frame_payload V frame)) w)"
  by (simp add: handleMailboxDeposited_def frame_sender_def frame_payload_def Let_def ok_def)

lemma place_named:
  assumes "named_thread H V frame (kv_of w) = Some t"
  shows "thread_of_deposit H V e (frame_payload V frame) (snd w) = (Inr (Some (trim (sget (frame_payload V frame) ''threadId''), t)), snd w)"
  using assms by (simp add: thread_of_deposit_def named_thread_def Let_def andThen_def on_store_reads ok_def split: if_splits)

lemma handle_named:
  assumes "named_thread H V frame (kv_of w) = Some t"
  shows "handleMailboxDeposited H V frame w =
     (if snd (depositIdentity frame) = [] \<or> protocol_body (decoded V (frameCiphertext frame)) then (Inr (), w)
      else gate_deposit H V frame (frame_sender frame) (frame_payload V frame) (Some (trim (sget (frame_payload V frame) ''threadId''), t)) w)"
  by (simp add: handle_unfold andThen_def on_service_def place_named [OF assms])

text \<open>
  C17. A direct conversation takes content of its own peer only: a deposit whose authenticated sender is another
  account changes nothing, whatever it says of itself.
\<close>

theorem foreign_content_dropped:
  assumes "named_thread H V frame (kv_of w) = Some t" and "t_threadType t = ''direct''" and "trim (t_peerAccountId t) \<noteq> []"
    and "frame_sender frame \<noteq> []" and "frame_sender frame \<noteq> trim (t_peerAccountId t)"
  shows "handleMailboxDeposited H V frame w = (Inr (), w)"
proof -
  have "foreign_sender (Some (tid, t)) (frame_sender frame)" for tid
    using assms(2-5) by (auto simp: foreign_sender_def thread_peer_def)
  then show ?thesis by (simp add: handle_named [OF assms(1)] gate_deposit_def ok_def)
qed

lemma sample_places:
  "named_thread HM EV (deposit_frame [] ''hello'') (kv_of event_state) = Some sample_thread"
  "named_thread HM EV (deposit_frame ''eve'' ''hello'') (kv_of event_state) = Some sample_thread"
  by code_simp+

lemma sample_peer: "t_threadType sample_thread = ''direct''" "trim (t_peerAccountId sample_thread) = ''bob''"
  by code_simp+

lemma sample_group: "t_threadType group_thread = ''group''" "trim (t_groupId group_thread) = ''g''" "trim (t_peerAccountId group_thread) = []"
  by code_simp+

lemma sample_senders: "frame_sender (deposit_frame a b) = trim a" "depositIdentity (deposit_frame a b) = (''mb'', trim b)" "frameCiphertext (deposit_frame a b) = b"
  by (simp_all add: frame_sender_def deposit_frame_def frame_body_def depositIdentity_def frameCiphertext_def getp_def sget_def trim_def is_ws_def Let_def)

lemma sample_names: "trim [] = []" "trim ''eve'' = ''eve''" "trim ''bob'' = ''bob''"
  by (simp_all add: trim_def is_ws_def)

theorem foreign_content_dropped_instance:
  "handleMailboxDeposited HM EV (deposit_frame ''eve'' ''hello'') event_state = (Inr (), event_state)"
  by (rule foreign_content_dropped [OF sample_places(2)]) (simp_all add: sample_peer sample_senders sample_names)

text \<open>
  C20. A deposit that names no sender counts as one of the peer: in a direct conversation its handling is, step by
  step, the handling of the same deposit sent by the peer over an authenticated link.
\<close>

theorem unsigned_counts_as_peers:
  assumes "named_thread H V unsigned (kv_of w) = Some t" and "t_threadType t = ''direct''"
    and "frame_sender unsigned = []" and "frame_sender sent = trim (t_peerAccountId t)" and "trim (t_peerAccountId t) \<noteq> []"
    and "depositIdentity sent = depositIdentity unsigned" and "frameCiphertext sent = frameCiphertext unsigned"
  shows "handleMailboxDeposited H V unsigned w = handleMailboxDeposited H V sent w"
proof -
  have p: "frame_payload V sent = frame_payload V unsigned" by (simp add: frame_payload_def assms(7))
  have n: "named_thread H V sent (kv_of w) = Some t" using assms(1) by (simp add: named_thread_def p)
  have pass: "evaluateGate H me (Some t) k e b s = (Pass, [])" for me k e b s by (simp add: evaluateGate_def assms(2))
  have "accept_deposit H V unsigned [] pay (Some (tid, t)) = accept_deposit H V sent (trim (t_peerAccountId t)) pay (Some (tid, t))" for pay tid
    by (simp add: accept_deposit_def thread_peer_def assms(5-7))
  then have "gate_deposit H V unsigned [] pay (Some (tid, t)) w = gate_deposit H V sent (trim (t_peerAccountId t)) pay (Some (tid, t)) w" for pay tid
    by (simp add: gate_deposit_def foreign_sender_def thread_peer_def pass)
  then show ?thesis by (simp add: handle_named [OF assms(1)] handle_named [OF n] p assms(3,4,6,7))
qed

theorem unsigned_counts_as_peers_instance:
  "handleMailboxDeposited HM EV (deposit_frame [] ''hello'') event_state = handleMailboxDeposited HM EV (deposit_frame ''bob'' ''hello'') event_state"
  by (rule unsigned_counts_as_peers [OF sample_places(1)])
    (simp_all add: sample_peer sample_senders sample_names)

lemma message_class: "payload_class V Payloads.MESSAGE_KIND = Some (new_record ChatMessagePayloadV1)"
  by (simp add: payload_class_def)

lemma dispatch_message: "dispatch_payload H V Payloads.MESSAGE_KIND r t a c = ok False"
  by (simp add: dispatch_payload_def Let_def Payloads.MESSAGE_KIND_def REACTION_KIND_def
      MESSAGE_EDIT_KIND_def MESSAGE_TOMBSTONE_KIND_def GROUP_OP_KIND_def CONNECT_REQUEST_KIND_def ACCOUNT_STATE_EVENT_KIND_def SIBLING_SYNC_KIND_def
      MESSAGE_COMMIT_ACK_KIND_def CONNECT_ACCEPTED_KIND_def FILE_MANIFEST_KIND_def FILE_CHUNK_KIND_def AVATAR_KIND_def PROFILE_KIND_def)

lemma take_message: "sget p ''kind'' = Payloads.MESSAGE_KIND \<Longrightarrow> \<exists>b. take_payload H V p t a n = (Inr b, n)"
  by (auto simp: take_payload_def message_class dispatch_message catching_def ok_def split: sum.split)

lemma admit_nowhere: "\<exists>x. admit_original H V [] p n = (Inr x, n)"
  by (auto simp: admit_original_def Let_def ok_def split: sum.split)

text \<open>
  C19. A stranger opens no conversation: an ordinary message from an account that is neither an active contact nor
  awaited, naming no thread that exists, changes nothing.
\<close>

theorem stranger_opens_no_thread:
  assumes "named_thread H V frame (kv_of w) = None" and "ev_contacts (ee_base V)"
    and "sender = (if frame_sender frame \<noteq> [] then frame_sender frame else trim (sget (frame_payload V frame) ''senderAccountId''))"
    and "isActiveContact H (ee_base V) (Str sender) (mn_node (snd w)) = (Inr False, mn_node (snd w))"
    and "acceptOutgoingConnectRequest H (ee_base V) (Str sender) (Str []) (mn_node (snd w)) = (Inr False, mn_node (snd w))"
    and "sget (frame_payload V frame) ''kind'' = Payloads.MESSAGE_KIND"
  shows "handleMailboxDeposited H V frame w = (Inr (), w)"
proof -
  let ?p = "frame_payload V frame" and ?e = "frame_sender frame"
  have "direct_gate H V sender (snd w) = (Inr False, snd w)"
    using assms(2,4,5) by (simp add: direct_gate_def andThen_def on_node_def)
  then have place: "thread_of_deposit H V ?e ?p (snd w) = (Inr None, snd w)"
    using assms(1) unfolding assms(3) by (auto simp: thread_of_deposit_def named_thread_def Let_def andThen_def on_store_reads ok_def split: if_splits)
  obtain x where x: "admit_original H V [] ?p (snd w) = (Inr x, snd w)" using admit_nowhere by blast
  obtain b where b: "take_payload H V ?p [] ?e (snd w) = (Inr b, snd w)" using take_message [OF assms(6)] by blast
  have "accept_deposit H V frame ?e ?p None (snd w) = (Inr (), snd w)"
    using x b by (cases x) (simp_all add: accept_deposit_def Let_def andThen_def thread_peer_def ok_def)
  then have "gate_deposit H V frame ?e ?p None w = (Inr (), w)"
    by (simp add: gate_deposit_def foreign_sender_def evaluateGate_def on_service_def)
  then show ?thesis by (simp add: handle_unfold andThen_def on_service_def place)
qed

lemma stranger_reads:
  "isActiveContact HM (ee_base EV) (Str ''eve'') event_node_kv = (Inr False, event_node_kv)"
  "acceptOutgoingConnectRequest HM (ee_base EV) (Str ''eve'') (Str []) event_node_kv = (Inr False, event_node_kv)"
  if "event_node_kv = mn_node (snd event_state)"
  unfolding that by code_simp+

theorem stranger_opens_no_thread_instance:
  "handleMailboxDeposited HM EV (deposit_frame ''eve'' ''nowhere'') event_state = (Inr (), event_state)"
proof -
  have n: "named_thread HM EV (deposit_frame ''eve'' ''nowhere'') (kv_of event_state) = None" by code_simp
  have k: "ev_contacts (ee_base EV)" "sget (frame_payload EV (deposit_frame ''eve'' ''nowhere'')) ''kind'' = Payloads.MESSAGE_KIND" by code_simp+
  show ?thesis by (rule stranger_opens_no_thread [OF n k(1) _ stranger_reads [OF refl] k(2)]) (simp add: sample_senders sample_names)
qed

text \<open>
  C18. In a group only active members are heard: content, other than a group operation, from any other sender leaves
  the stores, the effects and the memory of the services as they are; it is at most held back.
\<close>

theorem non_member_content_kept_out:
  assumes "named_thread H V frame (kv_of w) = Some t" and "t_threadType t = ''group''"
    and "sget (frame_payload V frame) ''kind'' \<noteq> GROUP_OP_KIND"
    and "\<And>m. fst (getMembership H (Str (ee_owner V)) (Str (trim (t_groupId t))) (Str (frame_sender frame)) (kv_of w)) = Inr m \<Longrightarrow> \<not> is_active m"
  shows "\<exists>b. handleMailboxDeposited H V frame w = (Inr (), (b, snd w))
     \<and> (b = fst w \<or> b = defer_event (trim (t_groupId t)) (frame_sender frame) frame (fst w))"
proof -
  have "fst (evaluateGate H (ee_owner V) (Some t) (Str (sget (frame_payload V frame) ''kind'')) (Str (frame_sender frame)) b (kv_of w)) \<noteq> Pass" for b
    using assms(2-4) by (auto simp: evaluateGate_def Let_def frame_sender_def is_active_def split: sum.split)
  moreover have "snd (evaluateGate H (ee_owner V) (Some t) (Str (sget (frame_payload V frame) ''kind'')) (Str (frame_sender frame)) b (kv_of w)) = trim (t_groupId t)" for b
    using assms(2,3) by (auto simp: evaluateGate_def Let_def)
  ultimately show ?thesis
    using assms(2) by (auto simp: handle_named [OF assms(1)] gate_deposit_def ok_def foreign_sender_def prod_eq_iff split: prod.split verdict.split)
qed

theorem non_member_content_kept_out_instance:
  "snd (snd (handleMailboxDeposited HM EV (deposit_frame ''bob'' ''group'') event_state)) = event_node"
proof -
  let ?f = "deposit_frame ''bob'' ''group''"
  have n: "named_thread HM EV ?f (kv_of event_state) = Some group_thread" by code_simp
  have k: "sget (frame_payload EV ?f) ''kind'' \<noteq> GROUP_OP_KIND" by code_simp
  have m: "fst (getMembership HM (Str (ee_owner EV)) (Str ''g'') (Str ''bob'') (kv_of event_state)) = Inr None" by code_simp
  have "\<exists>b. handleMailboxDeposited HM EV ?f event_state = (Inr (), (b, snd event_state)) \<and> (b = fst event_state \<or> b = defer_event (trim (t_groupId group_thread)) (frame_sender ?f) ?f (fst event_state))"
    by (rule non_member_content_kept_out [OF n sample_group(1) k]) (use m in \<open>simp add: sample_group(2) sample_senders sample_names is_active_def\<close>)
  then show ?thesis by (auto simp: event_state_def)
qed

section \<open>Where the gates end\<close>

text \<open>The message that an accepted deposit is stored as, and the rows it leaves.\<close>

definition message_of :: "'s eenv \<Rightarrow> jsval \<Rightarrow> ChatThread \<Rightarrow> string \<Rightarrow> inboundMessage" where
  "message_of V frame t fingerprint =
     (let p = frame_payload V frame; authed = (if trim (t_peerAccountId t) \<noteq> [] then trim (t_peerAccountId t) else frame_sender frame) in
      \<lparr> im_threadId = trim (sget p ''threadId''), im_thread = t, im_eventId = snd (depositIdentity frame), im_mailboxId = fst (depositIdentity frame),
        im_ciphertextB64 = frameCiphertext frame, im_payload = p,
        im_sender = (if authed \<noteq> [] then authed else trim (sget p ''senderAccountId'')), im_fingerprint = fingerprint \<rparr>)"

lemma handled_rows:
  assumes "host_laws H" and n: "named_thread H V frame (kv_of w) = Some t"
    and "snd (depositIdentity frame) \<noteq> []" and "\<not> protocol_body (decoded V (frameCiphertext frame))"
    and "\<not> foreign_sender (Some (trim (sget (frame_payload V frame) ''threadId''), t)) (frame_sender frame)"
    and gate: "\<And>b. fst (evaluateGate H (ee_owner V) (Some t) (Str (sget (frame_payload V frame) ''kind'')) (Str (frame_sender frame)) b (kv_of w)) = Pass"
    and admit: "admit_original H V (trim (sget (frame_payload V frame) ''threadId'')) (frame_payload V frame) (snd w) = (Inr (Some fingerprint), n1)"
    and take: "take_payload H V (frame_payload V frame) (trim (sget (frame_payload V frame) ''threadId''))
      (if trim (t_peerAccountId t) \<noteq> [] then trim (t_peerAccountId t) else frame_sender frame) n1 = (Inr False, n1)"
  shows "row_of H owner tid k (kv_of (snd (handleMailboxDeposited H V frame w)))
    = row_of H owner tid k (snd (upsertDepositedMessage H (ee_owner V) (im_deposit H (message_of V frame t fingerprint)) (nd_kv (mn_node n1))))"
proof -
  let ?p = "frame_payload V frame" and ?e = "frame_sender frame"
  let ?place = "Some (trim (sget ?p ''threadId''), t)"
  have "gate_deposit H V frame ?e ?p ?place w = on_service (accept_deposit H V frame ?e ?p ?place) w"
    using gate [of "bf_redelivering (fst w)"] assms(5) by (auto simp: gate_deposit_def split: prod.split)
  moreover have "accept_deposit H V frame ?e ?p ?place (snd w) = store_message H V (message_of V frame t fingerprint) n1"
    using admit take by (cases "trim (t_peerAccountId t) = []") (simp_all add: accept_deposit_def message_of_def Let_def andThen_def thread_peer_def when_ok_def)
  ultimately have "kv_of (snd (handleMailboxDeposited H V frame w)) = nd_kv (mn_node (snd (store_message H V (message_of V frame t fingerprint) n1)))"
    using assms(3,4) by (simp add: handle_named [OF n] on_service_def split: prod.split)
  then show ?thesis using host_laws.stored_rows [OF assms(1)] by simp
qed

lemma take_chat: "sget p ''kind'' = Payloads.MESSAGE_KIND \<Longrightarrow> new_record ChatMessagePayloadV1 p = Inr r \<Longrightarrow> take_payload H V p t a n = (Inr False, n)"
  by (simp add: take_payload_def message_class dispatch_message catching_def ok_def)

lemma admit_plain: "originalMessageAuthPresence p = ''none'' \<or> \<not> isOriginalMessageKind (sget p ''kind'') \<Longrightarrow> admit_original H V t p n = (Inr (Some []), n)"
  by (auto simp: admit_original_def Let_def ok_def)

lemma owner_EV: "ee_owner EV = ''me''"
  by (simp add: ee_owner_def ee_base_def EV_def event_env_def plain_env_def)

text \<open>A deposit that nobody authenticated is stored as a message of \<open>bob\<close>.\<close>

theorem unsigned_deposit_is_stored:
  "map_option (\<lambda>m. (m_senderAccountId m, m_text m)) (row_of HM ''me'' ''t1'' ''x1'' (kv_of (snd (handleMailboxDeposited HM EV (deposit_frame [] ''hello'') event_state))))
   = Some (''bob'', ''hi'')"
proof -
  let ?f = "deposit_frame [] ''hello''"
  have b: "\<not> protocol_body (decoded EV ''hello'')" "sget (frame_payload EV ?f) ''kind'' = Payloads.MESSAGE_KIND"
    "originalMessageAuthPresence (frame_payload EV ?f) = ''none''" by code_simp+
  obtain r where r: "new_record ChatMessagePayloadV1 (frame_payload EV ?f) = Inr r"
  proof -
    have "\<not> isl (new_record ChatMessagePayloadV1 (frame_payload EV ?f))" by code_simp
    then show ?thesis using that by (cases "new_record ChatMessagePayloadV1 (frame_payload EV ?f)") auto
  qed
  have row: "map_option (\<lambda>m. (m_senderAccountId m, m_text m)) (row_of HM ''me'' ''t1'' ''x1''
      (snd (upsertDepositedMessage HM ''me'' (im_deposit HM (message_of EV ?f sample_thread [])) (kv_of event_state)))) = Some (''bob'', ''hi'')"
    by code_simp
  have "row_of HM ''me'' ''t1'' ''x1'' (kv_of (snd (handleMailboxDeposited HM EV ?f event_state)))
      = row_of HM ''me'' ''t1'' ''x1'' (snd (upsertDepositedMessage HM (ee_owner EV) (im_deposit HM (message_of EV ?f sample_thread [])) (kv_of event_state)))"
    by (rule handled_rows [OF HM_laws sample_places(1) _ _ _ _ admit_plain take_chat [OF b(2) r]])
      (use b in \<open>simp_all add: sample_senders sample_names foreign_sender_def evaluateGate_def sample_peer\<close>, simp add: trim_def is_ws_def)
  with row show ?thesis by (simp only: owner_EV)
qed

lemma operation_class: "payload_class V GROUP_OP_KIND = Some (new_record GroupOpPayloadV1)"
  by (simp add: payload_class_def GROUP_OP_KIND_def Payloads.MESSAGE_KIND_def REACTION_KIND_def MESSAGE_EDIT_KIND_def MESSAGE_TOMBSTONE_KIND_def)

lemma take_operation:
  assumes "sget p ''kind'' = GROUP_OP_KIND" and "new_record GroupOpPayloadV1 p = Inr r" and "sget r ''senderAccountId'' = []"
  shows "take_payload H V p t [] n = (Inr False, n)"
proof -
  have "dispatch_payload H V GROUP_OP_KIND r t [] c = on_node (handleIncomingGroupOp H (ee_base V) r (Str []))" for c
    by (simp add: dispatch_payload_def Let_def extractPayloadSender_def assms(3) trim_def GROUP_OP_KIND_def REACTION_KIND_def MESSAGE_EDIT_KIND_def
        MESSAGE_TOMBSTONE_KIND_def)
  then show ?thesis
    by (simp add: take_payload_def operation_class assms(1,2) catching_def on_node_def handleIncomingGroupOp_def trim_def ok_def)
qed

text \<open>
  The kind of a group operation passes the gate of its group: such a deposit that nobody authenticated is not
  consumed, as it has no sender, and is stored in the group's conversation as a message of the account it names.
\<close>

theorem operation_kind_passes_gate:
  "map_option (\<lambda>m. (m_senderAccountId m, m_text m)) (row_of HM ''me'' ''g1'' ''x2'' (kv_of (snd (handleMailboxDeposited HM EV (deposit_frame [] ''leave'') event_state))))
     = Some (''bob'', ''pay eve'')
   \<and> fst (getMembership HM (Str ''me'') (Str ''g'') (Str ''bob'') (kv_of event_state)) = Inr None"
proof -
  let ?f = "deposit_frame [] ''leave''"
  have n: "named_thread HM EV ?f (kv_of event_state) = Some group_thread" by code_simp
  have b: "\<not> protocol_body (decoded EV ''leave'')" "sget (frame_payload EV ?f) ''kind'' = GROUP_OP_KIND" by code_simp+
  have "case new_record GroupOpPayloadV1 (frame_payload EV ?f) of Inl _ \<Rightarrow> False | Inr r \<Rightarrow> sget r ''senderAccountId'' = []" by code_simp
  then obtain r where r: "new_record GroupOpPayloadV1 (frame_payload EV ?f) = Inr r" "sget r ''senderAccountId'' = []"
    by (auto split: sum.splits)
  have row: "map_option (\<lambda>m. (m_senderAccountId m, m_text m)) (row_of HM ''me'' ''g1'' ''x2''
      (snd (upsertDepositedMessage HM ''me'' (im_deposit HM (message_of EV ?f group_thread [])) (kv_of event_state)))) = Some (''bob'', ''pay eve'')"
    by code_simp
  have plain: "\<not> isOriginalMessageKind (sget (frame_payload EV ?f) ''kind'')" unfolding b(2) by code_simp
  have "row_of HM ''me'' ''g1'' ''x2'' (kv_of (snd (handleMailboxDeposited HM EV ?f event_state)))
      = row_of HM ''me'' ''g1'' ''x2'' (snd (upsertDepositedMessage HM (ee_owner EV) (im_deposit HM (message_of EV ?f group_thread [])) (kv_of event_state)))"
    by (rule handled_rows [OF HM_laws n _ _ _ _ admit_plain [OF disjI2 [OF plain]]])
      (use b take_operation [OF b(2) r] in \<open>simp_all add: sample_senders sample_names foreign_sender_def evaluateGate_def sample_group\<close>, simp add: trim_def is_ws_def)
  with row have "map_option (\<lambda>m. (m_senderAccountId m, m_text m)) (row_of HM ''me'' ''g1'' ''x2'' (kv_of (snd (handleMailboxDeposited HM EV ?f event_state)))) = Some (''bob'', ''pay eve'')"
    by (simp only: owner_EV)
  moreover have "fst (getMembership HM (Str ''me'') (Str ''g'') (Str ''bob'') (kv_of event_state)) = Inr None" by code_simp
  ultimately show ?thesis by blast
qed

text \<open>A kind without entry in the registry is stored as it comes: a peer can write the banners of the system.\<close>

theorem system_event_of_peer_is_stored:
  "map_option (\<lambda>m. (sget (m_payload m) ''kind'', sget (m_payload m) ''event'', sget (m_payload m) ''actorDisplayName''))
     (row_of HM ''me'' ''t1'' ''x3'' (kv_of (snd (handleMailboxDeposited HM EV (deposit_frame ''bob'' ''banner'') event_state))))
   = Some (SYSTEM_EVENT_KIND, ''member.join'', ''Support'')"
proof -
  let ?f = "deposit_frame ''bob'' ''banner''"
  have n: "named_thread HM EV ?f (kv_of event_state) = Some sample_thread" by code_simp
  have b: "\<not> protocol_body (decoded EV ''banner'')" "payload_class EV (sget (frame_payload EV ?f) ''kind'') = None"
    "\<not> isOriginalMessageKind (sget (frame_payload EV ?f) ''kind'')" by code_simp+
  have row: "map_option (\<lambda>m. (sget (m_payload m) ''kind'', sget (m_payload m) ''event'', sget (m_payload m) ''actorDisplayName'')) (row_of HM ''me'' ''t1'' ''x3''
      (snd (upsertDepositedMessage HM ''me'' (im_deposit HM (message_of EV ?f sample_thread [])) (kv_of event_state)))) = Some (SYSTEM_EVENT_KIND, ''member.join'', ''Support'')"
    by code_simp
  have "row_of HM ''me'' ''t1'' ''x3'' (kv_of (snd (handleMailboxDeposited HM EV ?f event_state)))
      = row_of HM ''me'' ''t1'' ''x3'' (snd (upsertDepositedMessage HM (ee_owner EV) (im_deposit HM (message_of EV ?f sample_thread [])) (kv_of event_state)))"
    by (rule handled_rows [OF HM_laws n _ _ _ _ admit_plain [OF disjI2 [OF b(3)]]])
      (use b in \<open>simp_all add: sample_senders sample_names foreign_sender_def thread_peer_def evaluateGate_def sample_peer take_payload_def ok_def\<close>, simp add: trim_def is_ws_def)
  with row show ?thesis by (simp only: owner_EV)
qed

section \<open>Every run\<close>

text \<open>
  C16. The message logs survive every run of deposits: whatever raw deposits, decrypted messages and releases arrive,
  under any clock, and whatever throws, every log stays the serialisation of at most 500 well-formed rows in order.
\<close>

theorem deposits_keep_logs:
  assumes "host_laws H" and "\<And>now. services_keep (keeps_logs (H\<lparr>clockMs := now\<rparr>) (ee_owner V)) V"
    and "store_ok H (ee_owner V) (kv_of w)"
  shows "store_ok H (ee_owner V) (kv_of (arrive_all H V as w))"
  using assms(3)
proof (induction as arbitrary: w)
  case (Cons c as)
  obtain now a where c: "c = (now, a)" by force
  have "kept (keeps_logs (H\<lparr>clockMs := now\<rparr>) (ee_owner V)) w (arrive (H\<lparr>clockMs := now\<rparr>) V a w)"
    using deposit_law.arrive_kept [OF host_laws.deposit_law_logs [OF host_laws.host_laws_clock [OF assms(1)] assms(2)]] .
  then have "store_ok H (ee_owner V) (kv_of (arrive (H\<lparr>clockMs := now\<rparr>) V a w))"
    using Cons.prems by (simp add: kept_def on_messages_def keeps_logs_def host_laws.store_ok_clock_iff [OF assms(1)])
  then show ?case by (simp add: c Cons.IH)
qed simp

theorem deposits_keep_logs_instance:
  "store_ok HM ''me'' (kv_of (arrive_all HM EV [(1000, RawDeposit (deposit_frame ''bob'' ''first'')), (2000, Released ''g'' ''bob'')] event_state))"
proof -
  have o: "ee_owner EV = ''me''" by (simp add: ee_owner_def ee_base_def EV_def event_env_def plain_env_def)
  have k: "services_keep (keeps_logs (HM\<lparr>clockMs := now\<rparr>) (ee_owner EV)) EV" for now
    by (simp add: services_keep_def EV_def every_def ok_def on_stores_def keeps_logs_def)
  have "store_ok HM ''me'' (kv_of event_state)"
    using sample_store_ok by (simp add: event_state_def event_node_def started_def store_ok_def)
  then show ?thesis by (rule deposits_keep_logs [OF HM_laws k, unfolded o])
qed

text \<open>What is held back is content, never an operation.\<close>

theorem held_is_content:
  "all_held (no_operation V) (fst w) \<Longrightarrow> all_held (no_operation V) (fst (arrive_all H V as w))"
proof (induction as arbitrary: w)
  case (Cons c as)
  obtain now a where c: "c = (now, a)" by force
  show ?case using Cons held_arrive [of V w "H\<lparr>clockMs := now\<rparr>" a] by (simp add: c holds_content_def)
qed simp

end
