(* ===== verification/Spec2Isabelle.thy ===== *)
theory Spec2Isabelle
  imports StoreProperties StoreProperties2 IndexProperties GroupProperties CeremonyProperties ChannelProperties ContactProperties InboxProperties
    CacheProperties SchemaProperties SignedProperties GroupOpProperties RenameOrder
    MessageProperties CommitProof CommitRetry DeviceReplay CatchupProperties NoticeProperties EventProperties
begin

text \<open>
  A verification library for the core of rez-chat, an end-to-end encrypted chat whose server process
  (\<open>src/server\<close>) runs on the user's own device: it keeps every message, group and contact in one
  key-value store, admits what peers and sibling devices send, and answers a bridge from the interface.
  The library models the records that cross a boundary, the stores, and the decisions made on them.

  \<^bold>\<open>The parts and how they interact.\<close>
  A home keeps what was deposited for the account. The catch-up (\<open>InboxCatchupService.js\<close>) lists its pages and submits
  every item to the pipeline (\<open>InboundDepositPipeline.js\<close>), which decrypts it once, stages it
  (\<open>InboundApplyOutbox.js\<close>) and hands it to the event service (\<open>ServerEventService.js\<close>). There the bytes become a
  wire record (\<open>records/payloads\<close>), pass the gates of direct and group content (\<open>ServerGroupAuthzGate.js\<close>), where
  they may be held until a membership is known (\<open>ServerDeferredMessageBuffer.js\<close>), are admitted by signature
  (\<open>originalMessageShapes.js\<close>), and go to the service of their kind: messages, groups, channels, contacts. These
  change the stores: threads and message logs (\<open>ChatThreadStore.js\<close>), the list of conversations
  (\<open>ChatThreadIndex.js\<close>), groups, channels and contacts over \<open>KvTable.js\<close>. The interface's requests are schema
  records (\<open>records/params\<close>), answered by results and events (\<open>records/results\<close>, \<open>records/events\<close>). All stores
  share one key-value store, under disjoint prefixes.

  \<^bold>\<open>Theories and code.\<close>
  \<^item> \<open>Js_Prelude\<close>, \<open>Host\<close>: JavaScript values, coercions and sorting; the host's services as a record and
    the locale \<open>host_laws\<close>, interpreted on an in-memory store; operations that update a store and may throw.
  \<^item> \<open>Records_Message\<close>, \<open>Records_Thread\<close>, \<open>Records_Group\<close>, \<open>Records_More\<close>: \<open>records/domain\<close>.
  \<^item> \<open>ThreadStore\<close>, \<open>MessageLog\<close>, \<open>Mutations\<close>, \<open>FactLog\<close>: \<open>server/storage/ChatThreadStore.js\<close>. Their laws
    are in \<open>LogInvariant\<close>, \<open>MutationLaws\<close>, \<open>DepositLaws\<close>, \<open>EarlyMutations\<close>, \<open>Paging\<close>, \<open>StoreRuns\<close>, \<open>StoreFacts\<close>.
  \<^item> \<open>ThreadIndex\<close>, \<open>ThreadIndexLaws\<close>: \<open>ChatThreadIndex.js\<close>.
  \<^item> \<open>KvTable\<close>, \<open>GroupStore\<close>, \<open>GroupLife\<close>, \<open>Channels\<close>, \<open>Contacts\<close>, \<open>Caches\<close>, \<open>Backup\<close>: the tables of
    \<open>server/storage\<close>, the authorization gate and the group lookup.
  \<^item> \<open>Ceremony\<close>: \<open>PendingCeremonyStore.js\<close>, the registrations of devices.
  \<^item> \<open>InboxLogs\<close>, \<open>DeferredBuffer\<close>: the outbox, the log of processed deposits and the deferred messages.
  \<^item> \<open>Schema\<close>, \<open>Nested_Records\<close>, \<open>ApiParams\<close>, \<open>ApiResults\<close>, \<open>ApiEvents\<close>, \<open>Payloads\<close>: \<open>SchemaRecord.js\<close> and
    every class built on it, each with the fields and checks of its file.
  \<^item> \<open>SignedFacts\<close>: the canonical signed form, fingerprints, digests and verifiers.
  \<^item> \<open>ServiceNode\<close>, \<open>ContactService\<close>, \<open>GroupService\<close>, \<open>ChannelService\<close>, \<open>GroupOps\<close>: the state of the process and
    \<open>ServerContactsService.js\<close>, \<open>ServerGroupsService.js\<close>, \<open>ServerChannelsService.js\<close>, \<open>ServerGroupBroadcaster.js\<close>
    and \<open>ServerGroupOpApplier.js\<close>. \<open>HandlerLaws\<close> has the contract between the applier and the stores,
    \<open>InboundStores\<close> its interpretations.
  \<^item> \<open>Delivery\<close>, \<open>MessageService\<close>, \<open>CommitAcks\<close>: \<open>ServerMessagesService.js\<close>, with the laws of its handlers and runs
    in \<open>DeliveryLaws\<close>, \<open>MessageRuns\<close> and \<open>StoreRegions\<close>.
  \<^item> \<open>ThreadService\<close>: \<open>ServerThreadsService.js\<close>. \<open>EventService\<close>: \<open>ServerEventService.js\<close> and the registry
    \<open>payloads/index.js\<close>; \<open>EventLaws\<close> has the contract \<open>deposit_law\<close> of the inbound deposits and their runs.
  \<^item> \<open>DepositPipeline\<close>, \<open>Catchup\<close>, \<open>StoreLogs\<close>: \<open>InboundDepositPipeline.js\<close>, \<open>depositIdentity.js\<close>,
    \<open>InboxCatchupService.js\<close>, \<open>durableMode.js\<close>, and the logs they work on, as the stores provide them.
  \<^item> \<open>NoticeProperties\<close>: the notices of the interface, \<open>ui/stores/NoticesStore.js\<close> and the service that shows them.
  \<^item> \<open>Samples\<close> and \<open>MessageSamples\<close> hold concrete stores; the theories named \<open>...Properties\<close>, and \<open>RenameOrder\<close>,
    \<open>CommitProof\<close>, \<open>CommitRetry\<close>, \<open>DeviceReplay\<close> (with \<open>FanoutLaws\<close>), hold the properties, each with a concrete
    instance.

  \<^bold>\<open>What the lemmas show.\<close>
  Stores: every operation keeps the log and the index well-formed under any sequence of operations;
  mutations commute and may come before their message; facts are write-once; memberships, channels and
  registrations refine small abstract machines, so a removed member is not heard before a revival.
  Records: what a class constructs has its declared types and bounds and survives its serialisation.
  Signatures: a fingerprint stands for one content, up to collisions of the hash, and admission for an authorship.
  Services: group operations, joins among them, act within the policy of roles and invites; requests, payloads, acknowledgements and deposits
  keep the logs; an acknowledgement completes a message only with its proof; a device gets one sealing of a message.
  Deposits: what was decrypted is not decrypted again until its mark is forgotten, and is applied or staged; the cursor of the home never passes
  an item that was neither handled nor given up; a drain ends, and an item that always fails is given up; a direct
  conversation takes its peer's content, a group its members', and strangers open nothing. What nobody
  authenticated counts as the peer's in a direct conversation, as the code has it.

  \<^bold>\<open>Reading the model.\<close>
  An object is a list of fields in order of insertion; a field that is absent reads as \<open>Undef\<close>. A name
  that plain objects inherit (\<open>constructor\<close>) is found where the code reads a plain object. Numbers are
  rationals with the infinities and NaN; the code uses them as times and counters, below the precision of
  doubles. Strings are lists of 8-bit code units, and Unicode normalisation is modelled on Latin-1. The
  order of integer-like property names is not modelled. A throw is a value of a sum type; the writes made
  before it stay. An operation is atomic where the code holds a lock or awaits only the store; the
  awaited steps of saving an index record are also modelled one by one. A handler of a service is one step:
  inbound deposits are processed one at a time, and events, sends and log lines that matter are recorded as a list
  of effects. An admitted join releases the held messages after the deposit that carried it; in the code inside
  it, before announcements that do not touch the stores. The key-value store does not fail.

  \<^bold>\<open>Bounds.\<close>
  500 messages a thread and 500 tips an index, 64 buffered mutations with 30 days to live, conflict
  hashes of 24 characters, 4096 auto-minted invites of 24 hours, 256 senders of 64 deferred messages, 500
  rows a backup listing, and the limits in each schema; the attempts and ages of the retries, and 64
  handshakes with new members per contact operation. No fuel is used: every loop is over a list, except the rounds of a durable drain,
  which are a \<open>while_option\<close> that is shown to end at a home whose cursor moves.

  \<^bold>\<open>What remains.\<close>
  The handling of peer-link snapshots, the requesting and approving of contacts, invites, profiles, file transfers
  and the synchronisation of sibling devices: they drive the SDK's sealing and sessions around the modelled stores.

  \<^bold>\<open>Not modelled.\<close>
  Sealing, sessions, certificates, canonical JSON, hashing and the mesh are the SDK's: they are parameters
  or left out, and so are the services of peer links, devices and account authority, which drive them.
  Process wiring, sockets, timers, the native shells, views and build scripts are input and output. The lists of components and their status are in the manifest.
\<close>

end
